(* ===== verification/Prelude.thy ===== *)
theory Prelude
  imports Main "HOL-Library.Word"
begin

text \<open>
  The vocabulary every other theory shares: the machine integers of the C++ sources, the
  ways control can leave a function other than by returning (a C++ exception, a host
  abort, an operation the language leaves undefined, a thread that stays parked), the
  state-and-exception monad in which the operations are written, and the predicate
  \<open>keeps\<close> with its rules, by which invariants are pushed through whole instructions.
\<close>

unbundle bit_operations_syntax

section \<open>Collections of facts\<close>

named_theorems run_simps
  \<open>evaluation of monadic programs on a state\<close>
named_theorems keeps_intro
  \<open>rules showing that a program preserves an invariant\<close>
named_theorems returns_simps
  \<open>what an operation does to a state, as one equation\<close>

section \<open>Machine integers\<close>

type_synonym u8 = "8 word"
type_synonym u16 = "16 word"
type_synonym u32 = "32 word"
type_synonym u64 = "64 word"

text \<open>A register number: the code masks every register field with 7.\<close>
type_synonym regno = "3 word"

text \<open>
  Conversions of the sources: an unsigned conversion is \<open>ucast\<close>, the conversion of a
  signed value to a wider type is \<open>scast\<close>, \<open>bit_at v n\<close> is the C++ condition
  \<open>v & 1 << n\<close> (or \<open>v >> n & 1\<close>) and \<open>neg v\<close> is \<open>v < 0\<close> on the signed reading.
\<close>

definition bit_at :: "'a::len word \<Rightarrow> nat \<Rightarrow> bool" where
  "bit_at v n \<longleftrightarrow> v AND push_bit n 1 \<noteq> 0"

definition neg :: "'a::len word \<Rightarrow> bool" where
  "neg v \<longleftrightarrow> sint v < 0"

lemma bit_at_iff: "bit_at v n \<longleftrightarrow> bit v n" for v :: "'a::len word"
proof
  assume "bit v n"
  moreover from this have "n < LENGTH('a)"
    by (simp add: bit_imp_le_length)
  ultimately have "bit (v AND push_bit n 1) n"
    by (simp add: bit_simps)
  then show "bit_at v n"
    by (auto simp: bit_at_def)
next
  assume "bit_at v n"
  then obtain k where "bit (v AND push_bit n 1) k"
    by (auto simp: bit_at_def bit_eq_iff)
  then show "bit v n"
    by (auto simp: bit_simps)
qed

lemma neg_iff_bit: "neg v \<longleftrightarrow> bit v (LENGTH('a) - 1)" for v :: "'a::len word"
  by (simp add: neg_def bit_last_iff)

lemma mask_bit: "v AND 2 ^ n \<noteq> 0 \<longleftrightarrow> bit v n" for v :: "'a::len word"
  using bit_at_iff [of v n] by (simp add: bit_at_def push_bit_eq_mult)

text \<open>Ranges and narrowing.\<close>

lemma uint_range: "0 \<le> uint w" "uint w < 2 ^ LENGTH('a)" for w :: "'a::len word"
  by simp_all

lemma ucast_word_of_int:
  "LENGTH('a) \<le> LENGTH('b) \<Longrightarrow> ucast (word_of_int k :: 'b::len word) = (word_of_int k :: 'a::len word)"
  by (rule bit_word_eqI) (simp add: bit_unsigned_iff bit_word_of_int_iff)

lemma sint_range: "- (2 ^ (LENGTH('a) - 1)) \<le> sint w" "sint w < 2 ^ (LENGTH('a) - 1)" for w :: "'a::len word"
  using sint_greater_eq [of w] sint_lt [of w] by simp_all

lemma sint_of_int:
  "- (2 ^ (LENGTH('a) - 1)) \<le> k \<Longrightarrow> k < 2 ^ (LENGTH('a) - 1) \<Longrightarrow> sint (word_of_int k :: 'a::len word) = k"
  by (simp add: sint_sbintrunc' signed_take_bit_int_eq_self)

lemma sint_narrow:
  fixes w :: "'a::len word"
  assumes "LENGTH('b) \<le> LENGTH('a)" "- (2 ^ (LENGTH('b) - 1)) \<le> sint w" "sint w < 2 ^ (LENGTH('b) - 1)"
  shows "sint (ucast w :: 'b::len word) = sint w"
proof -
  have "(ucast w :: 'b word) = word_of_int (sint w)"
    using ucast_word_of_int [OF assms(1), of "sint w"] by simp
  with sint_of_int [OF assms(2,3)] show ?thesis by simp
qed

lemma uint_narrow:
  fixes w :: "'a::len word"
  assumes "uint w < 2 ^ LENGTH('b)"
  shows "uint (ucast w :: 'b::len word) = uint w"
  using assms by (simp add: unsigned_ucast_eq take_bit_int_eq_self)

text \<open>Positions beyond the width.\<close>

lemma drop_bit_beyond: "LENGTH('a) \<le> n \<Longrightarrow> drop_bit n v = 0" for v :: "'a::len word"
  by (rule bit_word_eqI) (auto simp: bit_simps dest: bit_imp_le_length)

lemma push_bit_beyond: "LENGTH('a) \<le> n \<Longrightarrow> push_bit n v = 0" for v :: "'a::len word"
  by (rule bit_word_eqI) (auto simp: bit_simps)

lemma bit_beyond: "LENGTH('a) \<le> n \<Longrightarrow> \<not> bit v n" for v :: "'a::len word"
  by (auto dest: bit_imp_le_length)

text \<open>A word put together again from its bytes or halves.\<close>

lemma word16_bytes: "push_bit 8 (ucast (ucast (drop_bit 8 v) :: u8)) OR ucast (ucast v :: u8) = (v :: u16)"
  by (intro bit_word_eqI) (auto simp: bit_simps)
lemma word32_bytes:
  "push_bit 24 (ucast (ucast (drop_bit 24 v) :: u8)) OR push_bit 16 (ucast (ucast (drop_bit 16 v) :: u8))
     OR push_bit 8 (ucast (ucast (drop_bit 8 v) :: u8)) OR ucast (ucast v :: u8) = (v :: u32)"
  (is "?l = v")
proof (rule bit_word_eqI)
  fix n assume "n < LENGTH(32)"
  then consider "n < 8" | "8 \<le> n" "n < 16" | "16 \<le> n" "n < 24" | "24 \<le> n" "n < 32"
    by fastforce
  then show "bit ?l n = bit v n"
    by cases (auto simp: bit_simps)
qed
lemma word32_halves:
  "push_bit 16 (ucast (ucast (drop_bit 16 v) :: u16)) OR ucast (ucast v :: u16) = (v :: u32)"
  by (intro bit_word_eqI) (auto simp: bit_simps)
lemma halves_of_bytes:
  "push_bit 16 (ucast (push_bit 8 (ucast x) OR ucast (y :: u8) :: u16))
     = (push_bit 24 (ucast (x :: u8)) OR push_bit 16 (ucast y) :: u32)"
  "ucast (push_bit 8 (ucast x) OR ucast y :: u16) = (push_bit 8 (ucast x) OR ucast y :: u32)"
  by (intro bit_word_eqI; auto simp: bit_simps dest: bit_imp_le_length)+

lemma unat_drop_bit: "unat (drop_bit n w) = unat w div 2 ^ n" for w :: "'a::len word"
  by (metis drop_bit_eq_div unat_drop_bit_eq)

section \<open>Leaving a function\<close>

text \<open>
  \<^item> \<open>BusError\<close> and \<open>PTestError\<close>: the exceptions of include/memory.hpp. \<open>BusError\<close> is a
    subclass of \<open>PTestError\<close> whose code is 0, so a handler for the latter catches both.
  \<^item> \<open>M68kException n\<close>: the guest exception of include/exception.hpp, with its
    \<open>EXCEPTION_NUMBER\<close>, an enum with a fixed underlying type that the code also makes by
    casts, hence an \<open>int\<close>.
  \<^item> \<open>JitLongjmp n\<close>: what \<open>RAISE\<close> does while translated code runs, and
    \<open>JitStop\<close> the \<open>longjmp(ex_buf, 2)\<close> of src/cpu/jit/jit_mmu.cc.
  \<^item> \<open>JitError\<close>: the exception of include/jit.hpp, thrown and caught by the translator.
  \<^item> \<open>Terminated\<close>: the process ends (\<open>exit\<close> in \<open>double_fault\<close>).
  \<^item> \<open>Undefined\<close>: the C++ standard gives the operation no meaning (an access outside an
    object, a shift by a negative amount or by at least the width, a division that
    overflows).
  \<^item> \<open>Blocked\<close>: the thread waits for a wake-up that never comes.
  \<^item> \<open>Diverged\<close>: a recursion of the source used up the fuel of its model.
\<close>

datatype exn =
    BusError
  | PTestError u16
  | M68kException int
  | JitLongjmp int
  | JitStop
  | JitError
  | Terminated
  | Undefined
  | Blocked
  | Diverged

fun PTestError_code :: "exn \<Rightarrow> u16 option" where
  "PTestError_code BusError = Some 0"
| "PTestError_code (PTestError c) = Some c"
| "PTestError_code _ = None"

section \<open>The monad\<close>

text \<open>
  A program takes a state and either returns a value or raises, with the state it
  leaves: a C++ exception does not undo the assignments made before it.
\<close>

datatype ('s, 'a) outcome = Ok 'a 's | Raise exn 's

type_synonym ('s, 'a) monad = "'s \<Rightarrow> ('s, 'a) outcome"

fun state_of :: "('s, 'a) outcome \<Rightarrow> 's" where
  "state_of (Ok _ s) = s"
| "state_of (Raise _ s) = s"

fun is_ok :: "('s, 'a) outcome \<Rightarrow> bool" where
  "is_ok (Ok _ _) = True"
| "is_ok (Raise _ _) = False"

definition return :: "'a \<Rightarrow> ('s, 'a) monad" where
  "return a = (\<lambda>s. Ok a s)"

definition throw :: "exn \<Rightarrow> ('s, 'a) monad" where
  "throw e = (\<lambda>s. Raise e s)"

definition gets :: "('s \<Rightarrow> 'a) \<Rightarrow> ('s, 'a) monad" where
  "gets f = (\<lambda>s. Ok (f s) s)"

definition modify :: "('s \<Rightarrow> 's) \<Rightarrow> ('s, unit) monad" where
  "modify f = (\<lambda>s. Ok () (f s))"

definition bind :: "('s, 'a) monad \<Rightarrow> ('a \<Rightarrow> ('s, 'b) monad) \<Rightarrow> ('s, 'b) monad" where
  "bind m f = (\<lambda>s. case m s of Ok a s' \<Rightarrow> f a s' | Raise e s' \<Rightarrow> Raise e s')"

definition seq :: "('s, 'a) monad \<Rightarrow> ('s, 'b) monad \<Rightarrow> ('s, 'b) monad" where
  "seq m n = bind m (\<lambda>_. n)"

definition whenM :: "bool \<Rightarrow> ('s, unit) monad \<Rightarrow> ('s, unit) monad" where
  "whenM b m = (if b then m else return ())"

text \<open>\<open>try m catch(PTestError &e) h\<close>: the handler sees the error's code.\<close>

definition catch_PTestError ::
  "('s, 'a) monad \<Rightarrow> (u16 \<Rightarrow> ('s, 'a) monad) \<Rightarrow> ('s, 'a) monad" where
  "catch_PTestError m h = (\<lambda>s. case m s of
      Ok a s' \<Rightarrow> Ok a s'
    | Raise e s' \<Rightarrow> (case PTestError_code e of Some c \<Rightarrow> h c s' | None \<Rightarrow> Raise e s'))"

text \<open>\<open>try m catch(BusError &) h\<close>: only the subclass is caught.\<close>

definition catch_BusError :: "('s, 'a) monad \<Rightarrow> ('s, 'a) monad \<Rightarrow> ('s, 'a) monad" where
  "catch_BusError m h = (\<lambda>s. case m s of
      Ok a s' \<Rightarrow> Ok a s'
    | Raise e s' \<Rightarrow> (if e = BusError then h s' else Raise e s'))"

text \<open>\<open>mapM_\<close>: a loop whose body is run once for each element of a list, in order.\<close>

fun for_each :: "'a list \<Rightarrow> ('a \<Rightarrow> ('s, unit) monad) \<Rightarrow> ('s, unit) monad" where
  "for_each [] f = return ()"
| "for_each (x # xs) f = seq (f x) (for_each xs f)"

text \<open>A loop with a local variable that each turn may change.\<close>

fun fold_each :: "'a list \<Rightarrow> 'b \<Rightarrow> ('a \<Rightarrow> 'b \<Rightarrow> ('s, 'b) monad) \<Rightarrow> ('s, 'b) monad" where
  "fold_each [] v f = return v"
| "fold_each (x # xs) v f = bind (f x v) (\<lambda>v'. fold_each xs v' f)"

lemma return_run [run_simps, simp]: "return a s = Ok a s"
  by (simp add: return_def)

lemma throw_run [run_simps, simp]: "throw e s = Raise e s"
  by (simp add: throw_def)

lemma gets_run [run_simps, simp]: "gets f s = Ok (f s) s"
  by (simp add: gets_def)

lemma modify_run [run_simps, simp]: "modify f s = Ok () (f s)"
  by (simp add: modify_def)

lemma bind_run_Ok [run_simps, simp]: "m s = Ok a s' \<Longrightarrow> bind m f s = f a s'"
  by (simp add: bind_def)

lemma bind_run_Raise [run_simps, simp]: "m s = Raise e s' \<Longrightarrow> bind m f s = Raise e s'"
  by (simp add: bind_def)

lemma seq_run_Ok [run_simps, simp]: "m s = Ok a s' \<Longrightarrow> seq m n s = n s'"
  by (simp add: seq_def)

lemma seq_run_Raise [run_simps, simp]: "m s = Raise e s' \<Longrightarrow> seq m n s = Raise e s'"
  by (simp add: seq_def)

lemma whenM_True [run_simps, simp]: "whenM True m = m"
  and whenM_False [run_simps, simp]: "whenM False m = return ()"
  by (simp_all add: whenM_def)

lemma bind_return [simp]: "bind m return = m"
  by (rule ext) (simp add: bind_def split: outcome.split)

lemma return_bind [simp]: "bind (return a) f = f a"
  by (rule ext) (simp add: bind_def)

lemma bind_assoc: "bind (bind m f) g = bind m (\<lambda>a. bind (f a) g)"
  by (rule ext) (simp add: bind_def split: outcome.split)

lemma seq_assoc: "seq (seq m n) p = seq m (seq n p)"
  by (simp add: seq_def bind_assoc)

lemma bind_eq_Ok:
  "bind m f s = Ok b s'' \<longleftrightarrow> (\<exists>a s'. m s = Ok a s' \<and> f a s' = Ok b s'')"
  by (simp add: bind_def split: outcome.split)

lemma seq_eq_Ok: "seq m n s = Ok b s'' \<longleftrightarrow> (\<exists>a s'. m s = Ok a s' \<and> n s' = Ok b s'')"
  by (simp add: seq_def bind_eq_Ok)

lemma catch_PTestError_Ok [run_simps, simp]:
  "m s = Ok a s' \<Longrightarrow> catch_PTestError m h s = Ok a s'"
  by (simp add: catch_PTestError_def)

lemma catch_PTestError_caught [run_simps]:
  "m s = Raise e s' \<Longrightarrow> PTestError_code e = Some c \<Longrightarrow> catch_PTestError m h s = h c s'"
  by (simp add: catch_PTestError_def)

lemma catch_PTestError_uncaught [run_simps]:
  "m s = Raise e s' \<Longrightarrow> PTestError_code e = None \<Longrightarrow> catch_PTestError m h s = Raise e s'"
  by (simp add: catch_PTestError_def)

lemma catch_BusError_Ok [run_simps, simp]:
  "m s = Ok a s' \<Longrightarrow> catch_BusError m h s = Ok a s'"
  by (simp add: catch_BusError_def)

lemma catch_BusError_caught [run_simps]:
  "m s = Raise BusError s' \<Longrightarrow> catch_BusError m h s = h s'"
  by (simp add: catch_BusError_def)

section \<open>Preserving an invariant\<close>

text \<open>
  \<open>keeps I E m\<close>: whatever \<open>m\<close> does, by returning or by raising, a state with \<open>I\<close> is
  followed by a state with \<open>I\<close>, and only exceptions in \<open>E\<close> are raised. The rules below
  follow the shape of a program, so a handler is dealt with by \<open>intro keeps_intro\<close> once
  its primitive steps are.
\<close>

definition keeps :: "('s \<Rightarrow> bool) \<Rightarrow> (exn \<Rightarrow> bool) \<Rightarrow> ('s, 'a) monad \<Rightarrow> bool" where
  "keeps I E m \<longleftrightarrow>
     (\<forall>s. I s \<longrightarrow> (case m s of Ok a s' \<Rightarrow> I s' | Raise e s' \<Rightarrow> I s' \<and> E e))"

lemma keepsI:
  assumes "\<And>s a s'. I s \<Longrightarrow> m s = Ok a s' \<Longrightarrow> I s'"
    and "\<And>s e s'. I s \<Longrightarrow> m s = Raise e s' \<Longrightarrow> I s' \<and> E e"
  shows "keeps I E m"
proof -
  have "case m s of Ok a s' \<Rightarrow> I s' | Raise e s' \<Rightarrow> I s' \<and> E e" if "I s" for s
    using assms(1) [OF that] assms(2) [OF that] by (cases "m s") auto
  then show ?thesis by (simp add: keeps_def)
qed

lemma keeps_at:
  "keeps I E m \<Longrightarrow> I s \<Longrightarrow> case m s of Ok a s' \<Rightarrow> I s' | Raise e s' \<Rightarrow> I s' \<and> E e"
  unfolding keeps_def by blast

lemma keeps_Ok: "keeps I E m \<Longrightarrow> m s = Ok a s' \<Longrightarrow> I s \<Longrightarrow> I s'"
  and keeps_Raise: "keeps I E m \<Longrightarrow> m s = Raise e s' \<Longrightarrow> I s \<Longrightarrow> I s'"
  and keeps_exn: "keeps I E m \<Longrightarrow> m s = Raise e s' \<Longrightarrow> I s \<Longrightarrow> E e"
  using keeps_at [of I E m s] by simp_all

lemma keepsD: "keeps I E m \<Longrightarrow> I s \<Longrightarrow> I (state_of (m s))"
  by (cases "m s") (auto dest: keeps_Ok keeps_Raise)

lemma keeps_mono: "keeps I E m \<Longrightarrow> (\<And>e. E e \<Longrightarrow> E' e) \<Longrightarrow> keeps I E' m"
  by (rule keepsI) (auto dest: keeps_Ok keeps_Raise keeps_exn)

lemma keeps_return [keeps_intro]: "keeps I E (return a)"
  and keeps_gets [keeps_intro]: "keeps I E (gets f)"
  by (simp_all add: keeps_def)

lemma keeps_throw [keeps_intro]: "E e \<Longrightarrow> keeps I E (throw e)"
  by (simp add: keeps_def)

lemma keeps_modify: "(\<And>s. I s \<Longrightarrow> I (f s)) \<Longrightarrow> keeps I E (modify f)"
  by (simp add: keeps_def)

lemma keeps_bind [keeps_intro]:
  assumes "keeps I E m" and "\<And>a. keeps I E (f a)"
  shows "keeps I E (bind m f)"
proof (rule keepsI)
  fix s b s'
  assume "I s" "bind m f s = Ok b s'"
  then show "I s'"
    using assms by (auto simp: bind_eq_Ok dest: keeps_Ok)
next
  fix s e s'
  assume "I s" "bind m f s = Raise e s'"
  then show "I s' \<and> E e"
    using assms by (cases "m s") (auto dest: keeps_Ok keeps_Raise keeps_exn)
qed

lemma keeps_seq [keeps_intro]: "keeps I E m \<Longrightarrow> keeps I E n \<Longrightarrow> keeps I E (seq m n)"
  by (simp add: seq_def keeps_bind)

lemma keeps_whenM [keeps_intro]: "(b \<Longrightarrow> keeps I E m) \<Longrightarrow> keeps I E (whenM b m)"
  by (simp add: whenM_def keeps_return)

lemma keeps_if [keeps_intro]:
  "(b \<Longrightarrow> keeps I E m) \<Longrightarrow> (\<not> b \<Longrightarrow> keeps I E n) \<Longrightarrow> keeps I E (if b then m else n)"
  by simp

lemma keeps_Let [keeps_intro]: "(\<And>x. keeps I E (f x)) \<Longrightarrow> keeps I E (Let v f)"
  by simp

lemma keeps_prod [keeps_intro]:
  "(\<And>a b. keeps I E (f a b)) \<Longrightarrow> keeps I E (case p of (a, b) \<Rightarrow> f a b)"
  by (cases p) simp

lemma keeps_option [keeps_intro]:
  "keeps I E m \<Longrightarrow> (\<And>a. keeps I E (f a)) \<Longrightarrow> keeps I E (case x of None \<Rightarrow> m | Some a \<Rightarrow> f a)"
  by (cases x) simp_all

lemma keeps_list [keeps_intro]:
  "keeps I E m \<Longrightarrow> (\<And>a as. keeps I E (f a as)) \<Longrightarrow>
     keeps I E (case x of [] \<Rightarrow> m | a # as \<Rightarrow> f a as)"
  by (cases x) simp_all

text \<open>
  A caught error need not be in \<open>E\<close>; the second rule, which keeps \<open>E\<close> as it is, suits the
  code below the handlers.
\<close>

lemma keeps_catch_PTestError:
  assumes "keeps I (\<lambda>e. E e \<or> PTestError_code e \<noteq> None) m" and "\<And>c. keeps I E (h c)"
  shows "keeps I E (catch_PTestError m h)"
proof -
  have "case catch_PTestError m h s of Ok a s' \<Rightarrow> I s' | Raise e s' \<Rightarrow> I s' \<and> E e" if "I s" for s
  proof (cases "m s")
    case (Ok a s')
    with assms(1) that show ?thesis by (auto dest: keeps_Ok)
  next
    case (Raise e s')
    with keeps_Raise [OF assms(1) Raise that] keeps_exn [OF assms(1) Raise that] assms(2)
    show ?thesis
      by (cases "PTestError_code e") (auto simp: catch_PTestError_def keeps_def)
  qed
  then show ?thesis by (simp add: keeps_def)
qed

lemma keeps_catch_PTestError_same [keeps_intro]:
  "keeps I E m \<Longrightarrow> (\<And>c. keeps I E (h c)) \<Longrightarrow> keeps I E (catch_PTestError m h)"
  by (rule keeps_catch_PTestError) (auto elim: keeps_mono)

lemma keeps_catch_BusError [keeps_intro]:
  assumes "keeps I E m" and "keeps I E h"
  shows "keeps I E (catch_BusError m h)"
proof -
  have "case catch_BusError m h s of Ok a s' \<Rightarrow> I s' | Raise e s' \<Rightarrow> I s' \<and> E e" if "I s" for s
  proof (cases "m s")
    case (Ok a s')
    with assms(1) that show ?thesis by (auto dest: keeps_Ok)
  next
    case (Raise e s')
    with keeps_Raise [OF assms(1) Raise that] keeps_exn [OF assms(1) Raise that] assms(2)
    show ?thesis
      by (cases "e = BusError") (auto simp: catch_BusError_def keeps_def)
  qed
  then show ?thesis by (simp add: keeps_def)
qed

lemma keeps_for_each [keeps_intro]:
  "(\<And>x. keeps I E (f x)) \<Longrightarrow> keeps I E (for_each xs f)"
  by (induction xs) (simp_all add: keeps_return keeps_seq)

lemma keeps_fold_each [keeps_intro]:
  "(\<And>x v. keeps I E (f x v)) \<Longrightarrow> keeps I E (fold_each xs v f)"
  by (induction xs arbitrary: v) (simp_all add: keeps_return keeps_bind)

text \<open>
  A program lifted from a part of the state to the whole of it, with the part's getter
  and setter.
\<close>

definition lift_part ::
  "('s \<Rightarrow> 'p) \<Rightarrow> ('p \<Rightarrow> 's \<Rightarrow> 's) \<Rightarrow> ('p, 'a) monad \<Rightarrow> ('s, 'a) monad" where
  "lift_part g p m = (\<lambda>s. case m (g s) of
      Ok a x \<Rightarrow> Ok a (p x s)
    | Raise e x \<Rightarrow> Raise e (p x s))"

lemma lift_part_Ok [run_simps]: "m (g s) = Ok a x \<Longrightarrow> lift_part g p m s = Ok a (p x s)"
  by (simp add: lift_part_def)

lemma lift_part_Raise [run_simps]:
  "m (g s) = Raise e x \<Longrightarrow> lift_part g p m s = Raise e (p x s)"
  by (simp add: lift_part_def)

lemma keeps_lift_part:
  assumes "keeps J E m" and "\<And>s. I s \<Longrightarrow> J (g s)" and "\<And>s x. I s \<Longrightarrow> J x \<Longrightarrow> I (p x s)"
  shows "keeps I E (lift_part g p m)"
proof -
  have "case lift_part g p m s of Ok a s' \<Rightarrow> I s' | Raise e s' \<Rightarrow> I s' \<and> E e" if "I s" for s
    using assms(2) [OF that] assms(3) [OF that] assms(1)
    by (cases "m (g s)") (auto simp: lift_part_def dest: keeps_Ok keeps_Raise keeps_exn)
  then show ?thesis by (simp add: keeps_def)
qed

end
