(* ===== verification/Bus.thy ===== *)
theory Bus
  imports Prelude
begin

text \<open>
  The physical bus: src/bus.cc, the byte-order helpers of include/memory.hpp and the
  abstract class \<open>IO_BUS\<close> of include/io.hpp. The state is what the processor shares with
  the devices: the RAM and ROM arrays of src/common.cc, the video memory of src/video.cc,
  the interrupt mailbox and the run flag that \<open>do_irq\<close> writes, and the devices' own
  state, a type parameter. The virtual methods of \<open>IO_BUS\<close> are the fields of a record.
\<close>

section \<open>The shared state\<close>

text \<open>
  \<open>wakeups\<close> is the environment: what other threads will do, in order, while the processor
  thread waits in \<open>ThreadController::wait\<close>. A device calls \<open>do_irq\<close>, or the loop of
  src/main.cc comes round, which resumes the processor when \<open>inturrupt\<close> is not 0.
\<close>

datatype wakeup = Post int | Poll

record 'd bus =
  RAM :: "nat \<Rightarrow> u8"
  RAMSize :: nat
  ROM :: "nat \<Rightarrow> u8"
  ROMSize :: nat
  ROMMask :: u64
  vram :: "nat \<Rightarrow> u8"
  inturrupt :: int
  stopping :: bool
  wakeups :: "wakeup list"
  dev :: 'd

text \<open>\<open>std::vector<uint8_t> vram(16 * 1024 * 1024)\<close>.\<close>

definition vram_size :: nat where
  "vram_size = 16 * 1024 * 1024"

text \<open>src/common.cc, \<open>do_irq\<close>: resume the processor thread, post the level.\<close>

definition do_irq :: "int \<Rightarrow> ('d bus, unit) monad" where
  "do_irq i = seq (modify (\<lambda>b. b\<lparr>stopping := False\<rparr>)) (modify (\<lambda>b. b\<lparr>inturrupt := i\<rparr>))"

text \<open>include/util.hpp, \<open>ThreadController\<close>.\<close>

definition run_stop :: "('d bus, unit) monad" where
  "run_stop = modify (\<lambda>b. b\<lparr>stopping := True\<rparr>)"

definition run_resume :: "('d bus, unit) monad" where
  "run_resume = modify (\<lambda>b. b\<lparr>stopping := False\<rparr>)"

text \<open>
  \<open>wait\<close> returns at once unless the flag is set; then it returns when another thread has
  cleared it, and never when none will.
\<close>

definition main_poll :: "('d bus, unit) monad" where
  "main_poll = bind (gets inturrupt) (\<lambda>i. whenM (i \<noteq> 0) run_resume)"

fun wait_for :: "wakeup list \<Rightarrow> ('d bus, unit) monad" where
  "wait_for [] = throw Blocked"
| "wait_for (Post i # ws) = seq (modify (\<lambda>b. b\<lparr>wakeups := ws\<rparr>)) (do_irq i)"
| "wait_for (Poll # ws) =
     seq main_poll
    (bind (gets stopping) (\<lambda>st.
     if \<not> st then modify (\<lambda>b. b\<lparr>wakeups := ws\<rparr>) else wait_for ws))"

definition run_wait :: "('d bus, unit) monad" where
  "run_wait =
     bind (gets stopping) (\<lambda>st.
     if \<not> st then return () else bind (gets wakeups) wait_for)"

section \<open>Host objects and big-endian access\<close>

datatype host_obj = RAM_obj | ROM_obj | VRAM_obj

text \<open>A host pointer: the object it points into and the byte offset.\<close>

type_synonym ptr = "host_obj \<times> nat"

fun obj_size :: "host_obj \<Rightarrow> 'd bus \<Rightarrow> nat" where
  "obj_size RAM_obj b = RAMSize b"
| "obj_size ROM_obj b = ROMSize b"
| "obj_size VRAM_obj b = vram_size"

fun obj_get :: "host_obj \<Rightarrow> 'd bus \<Rightarrow> nat \<Rightarrow> u8" where
  "obj_get RAM_obj b = RAM b"
| "obj_get ROM_obj b = ROM b"
| "obj_get VRAM_obj b = vram b"

fun obj_put :: "host_obj \<Rightarrow> nat \<Rightarrow> u8 \<Rightarrow> 'd bus \<Rightarrow> 'd bus" where
  "obj_put RAM_obj i v b = b\<lparr>RAM := (RAM b)(i := v)\<rparr>"
| "obj_put ROM_obj i v b = b\<lparr>ROM := (ROM b)(i := v)\<rparr>"
| "obj_put VRAM_obj i v b = b\<lparr>vram := (vram b)(i := v)\<rparr>"

text \<open>An access of \<open>n\<close> bytes at a pointer must lie in its object.\<close>

definition in_object :: "ptr \<Rightarrow> nat \<Rightarrow> 'd bus \<Rightarrow> bool" where
  "in_object p n b \<longleftrightarrow> snd p + n \<le> obj_size (fst p) b"

definition checked :: "ptr \<Rightarrow> nat \<Rightarrow> ('d bus, 'a) monad \<Rightarrow> ('d bus, 'a) monad" where
  "checked p n m = bind (gets (in_object p n)) (\<lambda>ok. if ok then m else throw Undefined)"

definition be16 :: "(nat \<Rightarrow> u8) \<Rightarrow> nat \<Rightarrow> u16" where
  "be16 g i = push_bit 8 (ucast (g i)) OR ucast (g (i + 1))"

definition be32 :: "(nat \<Rightarrow> u8) \<Rightarrow> nat \<Rightarrow> u32" where
  "be32 g i = push_bit 24 (ucast (g i)) OR push_bit 16 (ucast (g (i + 1)))
     OR push_bit 8 (ucast (g (i + 2))) OR ucast (g (i + 3))"

definition readB_ptr :: "ptr \<Rightarrow> ('d bus, u8) monad" where
  "readB_ptr p = checked p 1 (gets (\<lambda>b. obj_get (fst p) b (snd p)))"

definition writeB_ptr :: "ptr \<Rightarrow> u8 \<Rightarrow> ('d bus, unit) monad" where
  "writeB_ptr p v = checked p 1 (modify (obj_put (fst p) (snd p) v))"

definition readBE16 :: "ptr \<Rightarrow> ('d bus, u16) monad" where
  "readBE16 p = checked p 2 (gets (\<lambda>b. be16 (obj_get (fst p) b) (snd p)))"

definition readBE32 :: "ptr \<Rightarrow> ('d bus, u32) monad" where
  "readBE32 p = checked p 4 (gets (\<lambda>b. be32 (obj_get (fst p) b) (snd p)))"

definition put16 :: "ptr \<Rightarrow> u16 \<Rightarrow> 'd bus \<Rightarrow> 'd bus" where
  "put16 p v = obj_put (fst p) (snd p + 1) (ucast v) \<circ> obj_put (fst p) (snd p) (ucast (drop_bit 8 v))"

definition put32 :: "ptr \<Rightarrow> u32 \<Rightarrow> 'd bus \<Rightarrow> 'd bus" where
  "put32 p v = obj_put (fst p) (snd p + 3) (ucast v)
     \<circ> obj_put (fst p) (snd p + 2) (ucast (drop_bit 8 v))
     \<circ> obj_put (fst p) (snd p + 1) (ucast (drop_bit 16 v))
     \<circ> obj_put (fst p) (snd p) (ucast (drop_bit 24 v))"

definition writeBE16 :: "ptr \<Rightarrow> u16 \<Rightarrow> ('d bus, unit) monad" where
  "writeBE16 p v = checked p 2 (modify (put16 p v))"

definition writeBE32 :: "ptr \<Rightarrow> u32 \<Rightarrow> ('d bus, unit) monad" where
  "writeBE32 p v = checked p 4 (modify (put32 p v))"

section \<open>The device interface\<close>

record 'd IO_BUS =
  io_readB :: "u32 \<Rightarrow> ('d bus, u8) monad"
  io_writeB :: "u32 \<Rightarrow> u8 \<Rightarrow> ('d bus, unit) monad"
  io_readW :: "u32 \<Rightarrow> ('d bus, u16) monad"
  io_writeW :: "u32 \<Rightarrow> u16 \<Rightarrow> ('d bus, unit) monad"
  io_readL :: "u32 \<Rightarrow> ('d bus, u32) monad"
  io_writeL :: "u32 \<Rightarrow> u32 \<Rightarrow> ('d bus, unit) monad"

text \<open>
  The bodies \<open>IO_BUS\<close> gives its virtual methods, over the byte methods of the object. The
  last two bytes of \<open>writeL\<close> are shifted by 16 as in the source.
\<close>

definition IO_BUS_readB :: "u32 \<Rightarrow> ('d bus, u8) monad" where
  "IO_BUS_readB addr = throw BusError"

definition IO_BUS_writeB :: "u32 \<Rightarrow> u8 \<Rightarrow> ('d bus, unit) monad" where
  "IO_BUS_writeB addr v = throw BusError"

definition IO_BUS_readW :: "(u32 \<Rightarrow> ('d bus, u8) monad) \<Rightarrow> u32 \<Rightarrow> ('d bus, u16) monad" where
  "IO_BUS_readW rd addr =
     bind (rd addr) (\<lambda>h.
     bind (rd (addr + 1)) (\<lambda>l.
     return (push_bit 8 (ucast h) OR ucast l)))"

definition IO_BUS_writeW ::
  "(u32 \<Rightarrow> u8 \<Rightarrow> ('d bus, unit) monad) \<Rightarrow> u32 \<Rightarrow> u16 \<Rightarrow> ('d bus, unit) monad" where
  "IO_BUS_writeW wr addr v =
     seq (wr addr (ucast (drop_bit 8 v)))
         (wr (addr + 1) (ucast v))"

definition IO_BUS_readL :: "(u32 \<Rightarrow> ('d bus, u8) monad) \<Rightarrow> u32 \<Rightarrow> ('d bus, u32) monad" where
  "IO_BUS_readL rd addr =
     bind (rd addr) (\<lambda>b0.
     bind (rd (addr + 1)) (\<lambda>b1.
     bind (rd (addr + 2)) (\<lambda>b2.
     bind (rd (addr + 3)) (\<lambda>b3.
     return (push_bit 24 (ucast b0) OR push_bit 16 (ucast b1)
       OR push_bit 8 (ucast b2) OR ucast b3)))))"

definition IO_BUS_writeL ::
  "(u32 \<Rightarrow> u8 \<Rightarrow> ('d bus, unit) monad) \<Rightarrow> u32 \<Rightarrow> u32 \<Rightarrow> ('d bus, unit) monad" where
  "IO_BUS_writeL wr addr v =
     seq (wr addr (ucast (drop_bit 24 v)))
    (seq (wr (addr + 1) (ucast (drop_bit 16 v)))
    (seq (wr (addr + 2) (ucast (drop_bit 16 v)))
         (wr (addr + 3) (ucast (drop_bit 16 v)))))"

text \<open>A class that overrides the byte methods only.\<close>

definition IO_BUS_of ::
  "(u32 \<Rightarrow> ('d bus, u8) monad) \<Rightarrow> (u32 \<Rightarrow> u8 \<Rightarrow> ('d bus, unit) monad) \<Rightarrow> 'd IO_BUS" where
  "IO_BUS_of rd wr = \<lparr>io_readB = rd, io_writeB = wr,
     io_readW = IO_BUS_readW rd, io_writeW = IO_BUS_writeW wr,
     io_readL = IO_BUS_readL rd, io_writeL = IO_BUS_writeL wr\<rparr>"

section \<open>Routing an access\<close>

text \<open>
  \<open>bus_trait<T>\<close>: how one kind of access reaches memory, a device or a NuBus card. For a
  write the value is already applied.
\<close>

record ('d, 'a) bus_trait =
  memDo :: "ptr \<Rightarrow> ('d bus, 'a) monad"
  ioDo :: "u32 \<Rightarrow> ('d bus, 'a) monad"
  nuBusDo :: "u32 \<Rightarrow> u32 \<Rightarrow> ('d bus, 'a) monad"

definition nuBus_read :: "(ptr \<Rightarrow> ('d bus, 'a::len word) monad) \<Rightarrow> u32 \<Rightarrow> u32 \<Rightarrow>
    ('d bus, 'a word) monad" where
  "nuBus_read rd base addr =
     (if base = 9 \<and> 0x1000 \<le> addr then rd (VRAM_obj, unat (addr - 0x1000)) else return 0)"

definition nuBus_write :: "(ptr \<Rightarrow> ('d bus, unit) monad) \<Rightarrow> u32 \<Rightarrow> u32 \<Rightarrow> ('d bus, unit) monad" where
  "nuBus_write wr base addr =
     (if base = 9 \<and> 0x1000 \<le> addr then wr (VRAM_obj, unat (addr - 0x1000)) else return ())"

definition trait_rB :: "'d IO_BUS \<Rightarrow> ('d, u8) bus_trait" where
  "trait_rB io = \<lparr>memDo = readB_ptr,
     ioDo = (\<lambda>addr. io_readB io (addr AND 0x0FFFFFFF)), nuBusDo = nuBus_read readB_ptr\<rparr>"

definition trait_wB :: "'d IO_BUS \<Rightarrow> u8 \<Rightarrow> ('d, unit) bus_trait" where
  "trait_wB io v = \<lparr>memDo = (\<lambda>p. writeB_ptr p v),
     ioDo = (\<lambda>addr. io_writeB io (addr AND 0x0FFFFFFF) v),
     nuBusDo = nuBus_write (\<lambda>p. writeB_ptr p v)\<rparr>"

definition trait_rW :: "'d IO_BUS \<Rightarrow> ('d, u16) bus_trait" where
  "trait_rW io = \<lparr>memDo = readBE16,
     ioDo = (\<lambda>addr. io_readW io (addr AND 0x0FFFFFFF)), nuBusDo = nuBus_read readBE16\<rparr>"

definition trait_wW :: "'d IO_BUS \<Rightarrow> u16 \<Rightarrow> ('d, unit) bus_trait" where
  "trait_wW io v = \<lparr>memDo = (\<lambda>p. writeBE16 p v),
     ioDo = (\<lambda>addr. io_writeW io (addr AND 0x0FFFFFFF) v),
     nuBusDo = nuBus_write (\<lambda>p. writeBE16 p v)\<rparr>"

definition trait_rL :: "'d IO_BUS \<Rightarrow> ('d, u32) bus_trait" where
  "trait_rL io = \<lparr>memDo = readBE32,
     ioDo = (\<lambda>addr. io_readL io (addr AND 0x0FFFFFFF)), nuBusDo = nuBus_read readBE32\<rparr>"

definition trait_wL :: "'d IO_BUS \<Rightarrow> u32 \<Rightarrow> ('d, unit) bus_trait" where
  "trait_wL io v = \<lparr>memDo = (\<lambda>p. writeBE32 p v),
     ioDo = (\<lambda>addr. io_writeL io (addr AND 0x0FFFFFFF) v),
     nuBusDo = nuBus_write (\<lambda>p. writeBE32 p v)\<rparr>"

text \<open>The pointer \<open>ROM + (addr & ROMMask)\<close>.\<close>

definition rom_ptr :: "u32 \<Rightarrow> 'd bus \<Rightarrow> ptr" where
  "rom_ptr addr b = (ROM_obj, unat (ucast addr AND ROMMask b))"

definition doBus :: "('d, 'a) bus_trait \<Rightarrow> u32 \<Rightarrow> ('d bus, 'a) monad" where
  "doBus t addr =
     (let top = drop_bit 28 addr in
      if top = 0 \<or> top = 1 \<or> top = 2 \<or> top = 3 then
        bind (gets RAMSize) (\<lambda>sz.
        if sz \<le> unat addr then throw BusError else memDo t (RAM_obj, unat addr))
      else if top = 4 then
        bind (gets (rom_ptr addr)) (memDo t)
      else if top = 5 then ioDo t addr
      else if top = 0xF then nuBusDo t (drop_bit 24 addr AND 7) (addr AND 0xFFFFFF)
      else throw BusError)"

definition doBus16 :: "u32 \<Rightarrow> ('d bus, ptr) monad" where
  "doBus16 addr =
     (let top = drop_bit 28 addr in
      if top = 0 \<or> top = 1 \<or> top = 2 \<or> top = 3 then
        bind (gets RAMSize) (\<lambda>sz.
        if sz \<le> unat addr then throw BusError else return (RAM_obj, unat addr))
      else if top = 4 then gets (rom_ptr addr)
      else throw BusError)"

definition BusReadB :: "'d IO_BUS \<Rightarrow> u32 \<Rightarrow> ('d bus, u8) monad" where
  "BusReadB io addr = doBus (trait_rB io) addr"

definition BusReadW :: "'d IO_BUS \<Rightarrow> u32 \<Rightarrow> ('d bus, u16) monad" where
  "BusReadW io addr = doBus (trait_rW io) addr"

definition BusReadL :: "'d IO_BUS \<Rightarrow> u32 \<Rightarrow> ('d bus, u32) monad" where
  "BusReadL io addr = doBus (trait_rL io) addr"

definition BusWriteB :: "'d IO_BUS \<Rightarrow> u32 \<Rightarrow> u8 \<Rightarrow> ('d bus, unit) monad" where
  "BusWriteB io addr v = doBus (trait_wB io v) addr"

definition BusWriteW :: "'d IO_BUS \<Rightarrow> u32 \<Rightarrow> u16 \<Rightarrow> ('d bus, unit) monad" where
  "BusWriteW io addr v = doBus (trait_wW io v) addr"

definition BusWriteL :: "'d IO_BUS \<Rightarrow> u32 \<Rightarrow> u32 \<Rightarrow> ('d bus, unit) monad" where
  "BusWriteL io addr v = doBus (trait_wL io v) addr"

section \<open>Byte stores\<close>

text \<open>
  What the big-endian helpers need of the memory they work on: a byte written is the byte
  read back, and no other byte changes.
\<close>

locale byte_store =
  fixes get :: "'b \<Rightarrow> nat \<Rightarrow> u8" and put :: "nat \<Rightarrow> u8 \<Rightarrow> 'b \<Rightarrow> 'b"
  assumes get_put: "get (put i v b) j = (if j = i then v else get b j)"
begin

lemma be16_put:
  "be16 (get (put (i + 1) (ucast v) (put i (ucast (drop_bit 8 v)) b))) i = v"
  by (simp add: be16_def get_put word16_bytes)

lemma be32_put:
  "be32 (get (put (i + 3) (ucast v) (put (i + 2) (ucast (drop_bit 8 v))
     (put (i + 1) (ucast (drop_bit 16 v)) (put i (ucast (drop_bit 24 v)) b))))) i = v"
  by (simp add: be32_def get_put word32_bytes)

lemma be32_halves:
  "be32 (get b) i = push_bit 16 (ucast (be16 (get b) i)) OR ucast (be16 (get b) (i + 2))"
  by (simp add: be32_def be16_def halves_of_bytes or.assoc numeral_3_eq_3)

end

interpretation obj: byte_store "obj_get x" "obj_put x" for x
  by unfold_locales (cases x; simp)

section \<open>Accesses to RAM\<close>

lemma RAM_top:
  assumes "unat (a :: u32) < 2 ^ 30"
  shows "drop_bit 28 a = 0 \<or> drop_bit 28 a = 1 \<or> drop_bit 28 a = 2 \<or> drop_bit 28 a = 3"
proof -
  have "unat (drop_bit 28 a) < 4" using assms unfolding unat_drop_bit by auto
  then have "unat (drop_bit 28 a) = 0 \<or> unat (drop_bit 28 a) = 1
      \<or> unat (drop_bit 28 a) = 2 \<or> unat (drop_bit 28 a) = 3" by linarith
  then show ?thesis by (simp add: word_unat_eq_iff)
qed

text \<open>\<open>n\<close> bytes from \<open>a\<close> lie in the installed RAM.\<close>

definition ram_range :: "u32 \<Rightarrow> nat \<Rightarrow> 'd bus \<Rightarrow> bool" where
  "ram_range a n b \<longleftrightarrow> unat a + n \<le> RAMSize b \<and> RAMSize b \<le> 2 ^ 30 \<and> 0 < n"

lemma doBus_RAM: "ram_range a n b \<Longrightarrow> doBus t a b = memDo t (RAM_obj, unat a) b"
  using RAM_top [of a] by (auto simp: doBus_def ram_range_def Let_def bind_def)

lemma doBus_RAM_end:
  "RAMSize b \<le> unat a \<Longrightarrow> unat a < 2 ^ 30 \<Longrightarrow> doBus t a b = Raise BusError b"
  using RAM_top [of a] by (auto simp: doBus_def Let_def bind_def)

lemma ram_range_object: "ram_range a n b \<Longrightarrow> in_object (RAM_obj, unat a) n b"
  by (simp add: ram_range_def in_object_def)

lemma RAM_read:
  "ram_range a 1 b \<Longrightarrow> BusReadB io a b = Ok (RAM b (unat a)) b"
  "ram_range a 2 b \<Longrightarrow> BusReadW io a b = Ok (be16 (RAM b) (unat a)) b"
  "ram_range a 4 b \<Longrightarrow> BusReadL io a b = Ok (be32 (RAM b) (unat a)) b"
  by (simp_all add: BusReadB_def BusReadW_def BusReadL_def doBus_RAM trait_rB_def trait_rW_def
      trait_rL_def readB_ptr_def readBE16_def readBE32_def checked_def bind_def ram_range_object)

lemma RAM_write:
  "ram_range a 1 b \<Longrightarrow> BusWriteB io a v b = Ok () (obj_put RAM_obj (unat a) v b)"
  "ram_range a 2 b \<Longrightarrow> BusWriteW io a w b = Ok () (put16 (RAM_obj, unat a) w b)"
  "ram_range a 4 b \<Longrightarrow> BusWriteL io a l b = Ok () (put32 (RAM_obj, unat a) l b)"
  by (simp_all add: BusWriteB_def BusWriteW_def BusWriteL_def doBus_RAM trait_wB_def trait_wW_def
      trait_wL_def writeB_ptr_def writeBE16_def writeBE32_def checked_def bind_def ram_range_object)
lemma put32_get: "be32 (obj_get x (put32 (x, i) v b)) i = v"
  and put16_get: "be16 (obj_get x (put16 (x, i) w b)) i = w"
  using obj.be32_put [of x i v b] obj.be16_put [of x i w b]
  by (simp_all add: put32_def put16_def)

lemma put32_RAM:
  "RAM (put32 (RAM_obj, i) v b) = (RAM b)(i := ucast (drop_bit 24 v),
     i + 1 := ucast (drop_bit 16 v), i + 2 := ucast (drop_bit 8 v), i + 3 := ucast v)"
  by (simp add: put32_def)

lemma put32_fields [simp]:
  "RAMSize (put32 p v b) = RAMSize b" "ROMSize (put32 p v b) = ROMSize b"
  "ROMMask (put32 p v b) = ROMMask b" "dev (put32 p v b) = dev b"
  "inturrupt (put32 p v b) = inturrupt b" "stopping (put32 p v b) = stopping b"
  by (cases "fst p"; simp add: put32_def)+

lemma ram_range_put32 [simp]: "ram_range a n (put32 p v b) = ram_range a n b"
  by (simp add: ram_range_def)

lemma ram_range_offset:
  assumes "ram_range a n b" and "k + m \<le> n" and "0 < m"
  shows "unat (a + of_nat k) = unat a + k" and "ram_range (a + of_nat k) m b"
proof -
  have "unat a + k < 2 ^ 32" and k: "k < 2 ^ 32"
    using assms by (auto simp: ram_range_def)
  then show *: "unat (a + of_nat k) = unat a + k"
    using unat_add_lem [of a "of_nat k"] by (simp add: unat_of_nat take_bit_nat_eq_self)
  show "ram_range (a + of_nat k) m b"
    using assms unfolding ram_range_def * by simp
qed

text \<open>
  RAM is big-endian and consistent between access sizes: after a longword is written
  inside RAM it is read back as a longword, its high half is the word at the same address,
  its low half the word two bytes further, its four bytes are found from the most to the
  least significant, and no byte outside the four has changed.
\<close>

theorem ram_longword_consistent:
  assumes "ram_range a 4 b"
  shows "\<exists>b'. BusWriteL io a v b = Ok () b' \<and> BusReadL io a b' = Ok v b' \<and>
     BusReadW io a b' = Ok (ucast (drop_bit 16 v)) b' \<and>
     BusReadW io (a + 2) b' = Ok (ucast v) b' \<and>
     BusReadB io a b' = Ok (ucast (drop_bit 24 v)) b' \<and>
     BusReadB io (a + 3) b' = Ok (ucast v) b' \<and>
     (\<forall>x. x < unat a \<or> unat a + 4 \<le> x \<longrightarrow> RAM b' x = RAM b x)"
proof -
  note off = ram_range_offset [OF assms]
  have r: "ram_range a 2 b" "ram_range a 1 b" "ram_range (a + 2) 2 b" "ram_range (a + 3) 1 b"
    "unat (a + 2) = unat a + 2" "unat (a + 3) = unat a + 3"
    using off(2) [of 2 2] off(2) [of 3 1] off(1) [of 2 2] off(1) [of 3 1] assms
    by (simp_all add: ram_range_def)
  have low: "be16 (RAM (put32 (RAM_obj, i) v b)) (i + 2) = ucast v"
    and high: "be16 (RAM (put32 (RAM_obj, i) v b)) i = ucast (drop_bit 16 v)" for i
    by (intro bit_word_eqI; auto simp: put32_RAM be16_def bit_simps; fail)+
  let ?b = "put32 (RAM_obj, unat a) v b"
  have "BusReadL io a ?b = Ok v ?b"
    using put32_get [of RAM_obj "unat a" v b] by (simp add: RAM_read(3) assms)
  moreover have "BusReadW io a ?b = Ok (ucast (drop_bit 16 v)) ?b"
    by (simp add: RAM_read(2) r(1) high)
  moreover have "BusReadW io (a + 2) ?b = Ok (ucast v) ?b"
    by (subst RAM_read(2)) (simp_all only: r low ram_range_put32)
  moreover have "BusReadB io a ?b = Ok (ucast (drop_bit 24 v)) ?b"
    by (subst RAM_read(1)) (simp_all only: r ram_range_put32, simp add: put32_RAM)
  moreover have "BusReadB io (a + 3) ?b = Ok (ucast v) ?b"
    by (subst RAM_read(1)) (simp_all only: r ram_range_put32, simp add: put32_RAM)
  moreover have "\<forall>x. x < unat a \<or> unat a + 4 \<le> x \<longrightarrow> RAM ?b x = RAM b x"
    by (auto simp: put32_RAM)
  ultimately show ?thesis
    using RAM_write(3) [OF assms] by blast
qed

text \<open>A machine with eight bytes of RAM and nothing else, for the examples.\<close>

definition small_bus :: "unit bus" where
  "small_bus = \<lparr>RAM = (\<lambda>_. 0), RAMSize = 8, ROM = (\<lambda>_. 0), ROMSize = 4, ROMMask = 3,
     vram = (\<lambda>_. 0), inturrupt = 0, stopping = False, wakeups = [], dev = ()\<rparr>"

definition no_device :: "'d IO_BUS" where
  "no_device = IO_BUS_of IO_BUS_readB IO_BUS_writeB"

theorem ram_longword_consistent_witness:
  "\<exists>b'. BusWriteL no_device 4 0x12345678 small_bus = Ok () b' \<and>
     BusReadL no_device 4 b' = Ok 0x12345678 b' \<and> BusReadW no_device 6 b' = Ok 0x5678 b'"
  using ram_longword_consistent [of 4 small_bus no_device "0x12345678"]
  by (auto simp: ram_range_def small_bus_def)

text \<open>
  Physical addresses with nothing behind them: an address in the RAM region at or above
  the installed size, or in one of the regions 6 to 14 (hexadecimal 60000000 to EFFFFFFF),
  ends every access, whatever its size and direction, in a bus error that changes nothing.
\<close>

theorem bus_hole:
  assumes "(drop_bit 28 a \<le> 3 \<and> RAMSize b \<le> unat a) \<or> (6 \<le> drop_bit 28 a \<and> drop_bit 28 a \<le> 14)"
  shows "doBus t a b = Raise BusError b \<and> doBus16 a b = Raise BusError b"
proof -
  have "drop_bit 28 a \<le> 3 \<Longrightarrow> drop_bit 28 a = 0 \<or> drop_bit 28 a = 1 \<or> drop_bit 28 a = 2 \<or> drop_bit 28 a = 3"
    by (simp add: word_le_nat_alt word_unat_eq_iff) linarith
  moreover have "6 \<le> drop_bit 28 a \<Longrightarrow> drop_bit 28 a \<le> 14 \<Longrightarrow> drop_bit 28 a \<notin> {0, 1, 2, 3, 4, 5, 15}"
    by (auto simp: word_le_nat_alt)
  ultimately show ?thesis
    using assms by (auto simp: doBus_def doBus16_def Let_def bind_def)
qed

theorem bus_hole_witness:
  "doBus (trait_rL no_device) 0x60000000 small_bus = Raise BusError small_bus \<and>
   doBus (trait_wB no_device 1) 8 small_bus = Raise BusError small_bus"
  using bus_hole [of "0x60000000" small_bus "trait_rL no_device"]
    bus_hole [of 8 small_bus "trait_wB no_device 1"]
  by (simp add: small_bus_def)

text \<open>
  The video memory cannot be reached: the card number is cut to three bits before it is
  compared with 9, so every NuBus read yields 0 and every NuBus write is dropped, without a
  bus error.
\<close>

theorem video_memory_unreachable:
  assumes "drop_bit 28 a = 15"
  shows "BusReadB io a b = Ok 0 b \<and> BusReadW io a b = Ok 0 b \<and> BusReadL io a b = Ok 0 b \<and>
     BusWriteB io a x b = Ok () b \<and> BusWriteW io a y b = Ok () b \<and> BusWriteL io a z b = Ok () b"
proof -
  have "drop_bit 24 a AND 7 \<le> 7" by (rule word_and_le1)
  then have "drop_bit 24 a AND 7 \<noteq> 9" by auto
  then show ?thesis
    using assms
    by (simp add: BusReadB_def BusReadW_def BusReadL_def BusWriteB_def BusWriteW_def BusWriteL_def
        trait_rB_def trait_rW_def trait_rL_def trait_wB_def trait_wW_def trait_wL_def
        doBus_def Let_def nuBus_read_def nuBus_write_def)
qed

theorem video_memory_unreachable_witness:
  "BusReadL no_device 0xF9001000 small_bus = Ok 0 small_bus \<and>
   BusWriteL no_device 0xF9001000 0xFFFFFFFF small_bus = Ok () small_bus"
  using video_memory_unreachable [of "0xF9001000" no_device small_bus _ _ "0xFFFFFFFF"] by simp

text \<open>
  The default longword write of a device loses the low half of its operand: two values
  with the same high half are the same write, whatever byte write the device has.
\<close>

theorem default_writeL_loses_low_half:
  assumes "drop_bit 16 v = drop_bit 16 w"
  shows "io_writeL (IO_BUS_of rd wr) a v = io_writeL (IO_BUS_of rd wr) a w"
proof -
  have "drop_bit 24 v = drop_bit 24 w"
    using arg_cong [OF assms, of "drop_bit 8"] by simp
  with assms show ?thesis
    by (simp add: IO_BUS_of_def IO_BUS_writeL_def)
qed

theorem default_writeL_loses_low_half_witness:
  "let log = IO_BUS_of IO_BUS_readB (\<lambda>a v. modify (\<lambda>b. b\<lparr>dev := (a, v) # dev b\<rparr>))
   in io_writeL log 0x10 0x12345678 = io_writeL log 0x10 0x12340000"
  unfolding Let_def
  by (rule default_writeL_loses_low_half) simp

text \<open>
  The ROM is not read-only: a byte written to an address in the ROM region replaces the
  byte of the ROM image, and the next read sees it.
\<close>

theorem rom_is_written:
  assumes "drop_bit 28 a = 4" and "snd (rom_ptr a b) < ROMSize b"
  shows "\<exists>b'. BusWriteB io a v b = Ok () b' \<and> ROM b' = (ROM b)(snd (rom_ptr a b) := v) \<and>
     BusReadB io a b' = Ok v b'"
  using assms
  by (simp add: BusWriteB_def BusReadB_def trait_wB_def trait_rB_def doBus_def Let_def bind_def
      writeB_ptr_def readB_ptr_def checked_def in_object_def rom_ptr_def)

theorem rom_is_written_witness:
  "\<exists>b'. BusWriteB no_device 0x40000002 0xEA small_bus = Ok () b' \<and> ROM b' 2 = 0xEA"
  using rom_is_written [of "0x40000002" small_bus no_device "0xEA"]
  by (auto simp: small_bus_def rom_ptr_def)

end
