(* ===== verification/FpuState.thy ===== *)
theory FpuState
  imports Prelude
begin

text \<open>
  The state of the floating-point unit (include/68040fpu.hpp) and the interface of the GNU MPFR
  library it computes with. The library is not part of the program: its functions are a
  parameter, the record \<open>mpfr_lib\<close>, and nothing is known of them here. What the code relies
  on without a call is the layout: a variable of type \<open>mpfr_t\<close> is a structure (precision, sign,
  exponent, address of its limbs) that an assignment copies, limbs not included, and
  \<open>mpfr_swap\<close> exchanges.
\<close>

section \<open>Variables of the library\<close>

datatype mpfr_rnd_t = MPFR_RNDN | MPFR_RNDZ | MPFR_RNDU | MPFR_RNDD

record mpfr_t =
  mp_prec :: nat
  mp_sign :: int
  mp_exp :: int
  mp_d :: nat

text \<open>What the library keeps for itself: the limbs by address, the flags, the exponent range.\<close>

record mpfr_globals =
  mp_limbs :: "nat \<Rightarrow> u64 list"
  mp_flags :: u8
  mp_emin :: int
  mp_emax :: int
  mp_default_prec :: nat

datatype mpfr_flag = nanflag | erangeflag | overflow_flag | underflow_flag | divby0_flag | inexflag

section \<open>Functions of the library\<close>

text \<open>
  A function that assigns to a variable takes the variable as it was and gives it as it is
  afterwards; every function may change the library's own state.
\<close>

type_synonym 'a writer = "mpfr_t \<Rightarrow> mpfr_globals \<Rightarrow> 'a \<times> mpfr_t \<times> mpfr_globals"
type_synonym 'a reader = "mpfr_globals \<Rightarrow> 'a \<times> mpfr_globals"

datatype mpfr_un =
    mpfr_set | mpfr_log10 | mpfr_exp | mpfr_log2 | mpfr_log | mpfr_rint | mpfr_sinh | mpfr_trunc
  | mpfr_sqrt | mpfr_log1p | mpfr_expm1 | mpfr_tanh | mpfr_atan | mpfr_asin | mpfr_atanh | mpfr_sin
  | mpfr_tan | mpfr_exp2 | mpfr_exp10 | mpfr_abs | mpfr_cosh | mpfr_neg | mpfr_acos | mpfr_cos

datatype mpfr_bin = mpfr_div | mpfr_add | mpfr_mul | mpfr_sub
datatype mpfr_quo = mpfr_fmodquo | mpfr_remquo
datatype mpfr_const = mpfr_const_pi | mpfr_const_log2

text \<open>
  A float or double is given by its bits. Functions that return a ternary value return it as
  the \<open>int\<close>; \<open>mpfr_frexp\<close> returns the exponent as well, \<open>mpfr_get_d_2exp\<close> only the exponent,
  which is all the code uses; the quotient of \<open>mpfr_fmodquo\<close> comes first.
\<close>

record mpfr_lib =
  mpfr1 :: "mpfr_un \<Rightarrow> mpfr_t \<Rightarrow> mpfr_rnd_t \<Rightarrow> int writer"
  mpfr2 :: "mpfr_bin \<Rightarrow> mpfr_t \<Rightarrow> mpfr_t \<Rightarrow> mpfr_rnd_t \<Rightarrow> int writer"
  mpfr_quotient :: "mpfr_quo \<Rightarrow> mpfr_t \<Rightarrow> mpfr_t \<Rightarrow> mpfr_rnd_t \<Rightarrow> (int \<times> int) writer"
  mpfr_constant :: "mpfr_const \<Rightarrow> mpfr_rnd_t \<Rightarrow> int writer"
  mpfr_set_ui :: "nat \<Rightarrow> mpfr_rnd_t \<Rightarrow> int writer"
  mpfr_set_si :: "int \<Rightarrow> mpfr_rnd_t \<Rightarrow> int writer"
  mpfr_ui_pow_ui :: "nat \<Rightarrow> nat \<Rightarrow> mpfr_rnd_t \<Rightarrow> int writer"
  mpfr_set_flt :: "u32 \<Rightarrow> mpfr_rnd_t \<Rightarrow> int writer"
  mpfr_set_d :: "u64 \<Rightarrow> mpfr_rnd_t \<Rightarrow> int writer"
  mpfr_set_uj_2exp :: "u64 \<Rightarrow> int \<Rightarrow> mpfr_rnd_t \<Rightarrow> int writer"
  mpfr_setsign :: "mpfr_t \<Rightarrow> bool \<Rightarrow> mpfr_rnd_t \<Rightarrow> int writer"
  mpfr_strtofr :: "string \<Rightarrow> int \<Rightarrow> mpfr_rnd_t \<Rightarrow> int writer"
  mpfr_set_zero :: "int \<Rightarrow> unit writer"
  mpfr_set_inf :: "int \<Rightarrow> unit writer"
  mpfr_set_nan :: "unit writer"
  mpfr_init2 :: "nat \<Rightarrow> unit writer"
  mpfr_frexp :: "mpfr_t \<Rightarrow> mpfr_rnd_t \<Rightarrow> (int \<times> int) writer"
  mpfr_mul_2si :: "mpfr_t \<Rightarrow> int \<Rightarrow> mpfr_rnd_t \<Rightarrow> int writer"
  mpfr_mul_si :: "mpfr_t \<Rightarrow> int \<Rightarrow> mpfr_rnd_t \<Rightarrow> int writer"
  mpfr_prec_round :: "nat \<Rightarrow> mpfr_rnd_t \<Rightarrow> int writer"
  mpfr_check_range :: "int \<Rightarrow> mpfr_rnd_t \<Rightarrow> int writer"
  mpfr_subnormalize :: "int \<Rightarrow> mpfr_rnd_t \<Rightarrow> int writer"
  mpfr_sin_cos :: "mpfr_t \<Rightarrow> mpfr_rnd_t \<Rightarrow> mpfr_t \<Rightarrow> mpfr_t \<Rightarrow> mpfr_globals \<Rightarrow> int \<times> mpfr_t \<times> mpfr_t \<times> mpfr_globals"
  mpfr_nan_p :: "mpfr_t \<Rightarrow> bool"
  mpfr_inf_p :: "mpfr_t \<Rightarrow> bool"
  mpfr_zero_p :: "mpfr_t \<Rightarrow> bool"
  mpfr_signbit :: "mpfr_t \<Rightarrow> int"
  mpfr_get_exp :: "mpfr_t \<Rightarrow> int"
  mpfr_sgn :: "mpfr_t \<Rightarrow> int reader"
  mpfr_equal_p :: "mpfr_t \<Rightarrow> mpfr_t \<Rightarrow> bool reader"
  mpfr_less_p :: "mpfr_t \<Rightarrow> mpfr_t \<Rightarrow> bool reader"
  mpfr_get_sj :: "mpfr_t \<Rightarrow> mpfr_rnd_t \<Rightarrow> int reader"
  mpfr_get_si :: "mpfr_t \<Rightarrow> mpfr_rnd_t \<Rightarrow> int reader"
  mpfr_get_uj :: "mpfr_t \<Rightarrow> mpfr_rnd_t \<Rightarrow> u64 reader"
  mpfr_get_flt :: "mpfr_t \<Rightarrow> mpfr_rnd_t \<Rightarrow> u32 reader"
  mpfr_get_d :: "mpfr_t \<Rightarrow> mpfr_rnd_t \<Rightarrow> u64 reader"
  mpfr_get_d_2exp :: "mpfr_t \<Rightarrow> mpfr_rnd_t \<Rightarrow> int reader"
  mpfr_snprintf :: "int \<Rightarrow> mpfr_rnd_t \<Rightarrow> mpfr_t \<Rightarrow> string reader"
  mpfr_flag_p :: "mpfr_flag \<Rightarrow> mpfr_globals \<Rightarrow> bool"
  mpfr_set_flag :: "mpfr_flag \<Rightarrow> mpfr_globals \<Rightarrow> mpfr_globals"
  mpfr_clear_flags :: "mpfr_globals \<Rightarrow> mpfr_globals"
  mpfr_set_emin :: "int \<Rightarrow> mpfr_globals \<Rightarrow> mpfr_globals"
  mpfr_set_emax :: "int \<Rightarrow> mpfr_globals \<Rightarrow> mpfr_globals"
  mpfr_set_default_prec :: "nat \<Rightarrow> mpfr_globals \<Rightarrow> mpfr_globals"

section \<open>The unit\<close>

datatype FPU_PREC = PREC_X | PREC_S | PREC_D | PREC_AUTO

text \<open>
  \<open>FPCR_t\<close> and \<open>FPSR_t\<close> have members of the same names; those of the first enable exceptions
  and start with \<open>en\<close> here.
\<close>

record FPCR_t =
  RND :: mpfr_rnd_t
  PREC :: FPU_PREC
  en_INEX1 :: bool
  en_INEX2 :: bool
  en_DZ :: bool
  en_UNFL :: bool
  en_OVFL :: bool
  en_OPERR :: bool
  en_S_NAN :: bool
  en_BSUN :: bool

record FPSR_t =
  CC_NAN :: bool
  CC_I :: bool
  CC_Z :: bool
  CC_N :: bool
  Quat :: u8
  QuatSign :: bool
  INEX1 :: bool
  INEX2 :: bool
  DZ :: bool
  UNFL :: bool
  OVFL :: bool
  OPERR :: bool
  S_NAN :: bool
  BSUN :: bool
  EXC_INEX :: bool
  EXC_DZ :: bool
  EXC_UNFL :: bool
  EXC_OVFL :: bool
  EXC_IOP :: bool

record M68040FpuFull =
  FP :: "nat \<Rightarrow> mpfr_t"
  FP_nan :: "nat \<Rightarrow> u64"
  fp_tmp :: mpfr_t
  fp_tmp_nan :: u64
  fp_tmp_tv :: int
  FPCR :: FPCR_t
  FPSR :: FPSR_t
  FPIAR :: u32

text \<open>
  The objects of this class: \<open>FPU_P\<close> is the one \<open>cpu.fpu\<close> points to, \<open>fpu_copy\<close> the local
  variable of \<open>fop\<close>, which that function initializes with a copy of the first.
\<close>

datatype fpu_obj = FPU_P | fpu_copy

section \<open>The state before start-up\<close>

definition mpfr_zeros :: mpfr_t where
  "mpfr_zeros = \<lparr>mp_prec = 0, mp_sign = 0, mp_exp = 0, mp_d = 0\<rparr>"

definition globals_static :: mpfr_globals where
  "globals_static = \<lparr>mp_limbs = (\<lambda>_. []), mp_flags = 0, mp_emin = 0, mp_emax = 0, mp_default_prec = 53\<rparr>"

definition fpcr_static :: FPCR_t where
  "fpcr_static = \<lparr>RND = MPFR_RNDN, PREC = PREC_X, en_INEX1 = False, en_INEX2 = False, en_DZ = False,
     en_UNFL = False, en_OVFL = False, en_OPERR = False, en_S_NAN = False, en_BSUN = False\<rparr>"

definition fpsr_static :: FPSR_t where
  "fpsr_static = \<lparr>CC_NAN = False, CC_I = False, CC_Z = False, CC_N = False, Quat = 0, QuatSign = False,
     INEX1 = False, INEX2 = False, DZ = False, UNFL = False, OVFL = False, OPERR = False, S_NAN = False,
     BSUN = False, EXC_INEX = False, EXC_DZ = False, EXC_UNFL = False, EXC_OVFL = False, EXC_IOP = False\<rparr>"

text \<open>\<open>make_unique\<close> value-initializes the object: every member is zero.\<close>

definition fpu_static :: M68040FpuFull where
  "fpu_static = \<lparr>FP = (\<lambda>_. mpfr_zeros), FP_nan = (\<lambda>_. 0), fp_tmp = mpfr_zeros, fp_tmp_nan = 0, fp_tmp_tv = 0,
     FPCR = fpcr_static, FPSR = fpsr_static, FPIAR = 0\<rparr>"

end
