(* ===== verification/Machine.thy ===== *)
theory Machine
  imports Bus FpuState
begin

text \<open>
  The state of the processor (struct \<open>Cpu\<close> of include/68040.hpp and the translation
  caches of include/mmu.hpp), the status register and stack-pointer banks of
  src/cpu/op.cc and include/inline.hpp, and the raising half of src/cpu/exception.cc.
\<close>

section \<open>Processor state\<close>

record TTR_t =
  logic_base :: u8
  logic_mask :: u8
  TTR_E :: bool
  TTR_S :: u8
  TTR_U :: u8
  TTR_CM :: u8
  TTR_W :: bool

text \<open>
  \<open>Dn\<close> and \<open>An\<close> are the arrays \<open>D[8]\<close> and \<open>A[8]\<close>; the flags \<open>X N Z V C\<close> are \<open>fX\<close> to
  \<open>fC\<close>, the fields \<open>I T M S\<close> are \<open>I_lvl\<close>, \<open>T_mode\<close>, \<open>M_bit\<close>, \<open>S_bit\<close>.
\<close>

record cpu =
  Dn :: "regno \<Rightarrow> u32"
  An :: "regno \<Rightarrow> u32"
  EA :: u32
  PC :: u32
  fX :: bool
  fN :: bool
  fZ :: bool
  fV :: bool
  fC :: bool
  MSP :: u32
  ISP :: u32
  USP :: u32
  I_lvl :: u8
  T_mode :: u8
  M_bit :: bool
  S_bit :: bool
  VBR :: u32
  SFC :: u8
  DFC :: u8
  URP :: u32
  SRP :: u32
  TCR_E :: bool
  TCR_P :: bool
  ITTR :: "nat \<Rightarrow> TTR_t"
  DTTR :: "nat \<Rightarrow> TTR_t"
  MMUSR :: u32
  CACR_DE :: bool
  CACR_IE :: bool
  ex_addr :: u32
  oldpc :: u32
  fault_SSW :: u16
  bus_lock :: bool
  inJit :: bool
  must_trace :: bool
  movem_run :: bool

text \<open>include/mmu.hpp, \<open>struct atc_entry\<close>.\<close>

record atc_entry =
  laddr :: u32
  atc_V :: bool
  atc_G :: bool
  atc_paddr :: u32
  atc_pg_addr :: u32
  atc_U :: u8
  atc_S :: bool
  atc_CM :: u8
  atc_M :: bool
  atc_W :: bool
  atc_R :: bool

text \<open>
  A cache is an array \<open>[2][16]\<close>: the first index is the supervisor flag, the second the
  low four bits of the page number. \<open>jit_tables\<close> is the set of addresses for which
  translated code exists, \<open>rom_funcs\<close> and \<open>rom_stops\<close> the key sets of the tables of
  src/cpu/run.cc, \<open>io\<close> the device object \<open>io\<close> of src/io.cc and \<open>dev_reset\<close> what
  \<open>bus_reset\<close> of that file makes the devices do; \<open>fpus\<close> are the floating-point objects and
  \<open>mpfr_state\<close> what the library keeps for itself.
\<close>

type_synonym atc = "bool \<Rightarrow> 4 word \<Rightarrow> atc_entry"

record 'd machine =
  cpu :: cpu
  d_atc :: atc
  i_atc :: atc
  bus :: "'d bus"
  io :: "'d IO_BUS"
  dev_reset :: "('d bus, unit) monad"
  jit_tables :: "u32 \<Rightarrow> bool"
  rom_funcs :: "u32 \<Rightarrow> bool"
  rom_stops :: "u32 \<Rightarrow> bool"
  fpus :: "fpu_obj \<Rightarrow> M68040FpuFull"
  mpfr_state :: mpfr_globals

type_synonym ('d, 'a) mach = "('d machine, 'a) monad"

section \<open>Access to the state\<close>

definition cget :: "(cpu \<Rightarrow> 'a) \<Rightarrow> ('d, 'a) mach" where
  "cget f = gets (\<lambda>s. f (cpu s))"

definition cmod :: "(cpu \<Rightarrow> cpu) \<Rightarrow> ('d, unit) mach" where
  "cmod f = modify (\<lambda>s. s\<lparr>cpu := f (cpu s)\<rparr>)"

text \<open>A bus operation, on the shared part of the state.\<close>

definition on_bus :: "('d bus, 'a) monad \<Rightarrow> ('d, 'a) mach" where
  "on_bus m = lift_part bus (\<lambda>b s. s\<lparr>bus := b\<rparr>) m"

text \<open>A bus operation that goes through the device object.\<close>

definition on_io :: "('d IO_BUS \<Rightarrow> ('d bus, 'a) monad) \<Rightarrow> ('d, 'a) mach" where
  "on_io f = bind (gets io) (\<lambda>v. on_bus (f v))"

lemma cget_run [run_simps, simp]: "cget f s = Ok (f (cpu s)) s"
  by (simp add: cget_def)

lemma cmod_run [run_simps, simp]: "cmod f s = Ok () (s\<lparr>cpu := f (cpu s)\<rparr>)"
  by (simp add: cmod_def)

lemma on_bus_Ok [run_simps]: "m (bus s) = Ok a b \<Longrightarrow> on_bus m s = Ok a (s\<lparr>bus := b\<rparr>)"
  by (simp add: on_bus_def lift_part_Ok)

lemma on_bus_Raise [run_simps]:
  "m (bus s) = Raise e b \<Longrightarrow> on_bus m s = Raise e (s\<lparr>bus := b\<rparr>)"
  by (simp add: on_bus_def lift_part_Raise)

lemma on_io_run [run_simps, simp]: "on_io f s = on_bus (f (io s)) s"
  by (simp add: on_io_def)

definition getD :: "regno \<Rightarrow> ('d, u32) mach" where
  "getD r = cget (\<lambda>c. Dn c r)"

definition setD :: "regno \<Rightarrow> u32 \<Rightarrow> ('d, unit) mach" where
  "setD r v = cmod (\<lambda>c. c\<lparr>Dn := (Dn c)(r := v)\<rparr>)"

definition getA :: "regno \<Rightarrow> ('d, u32) mach" where
  "getA r = cget (\<lambda>c. An c r)"

definition setA :: "regno \<Rightarrow> u32 \<Rightarrow> ('d, unit) mach" where
  "setA r v = cmod (\<lambda>c. c\<lparr>An := (An c)(r := v)\<rparr>)"

text \<open>\<open>Cpu::R(n)\<close>: the data registers for 0 to 7, the address registers above.\<close>

definition reg_of :: "cpu \<Rightarrow> nat \<Rightarrow> u32" where
  "reg_of c n = (if n < 8 then Dn c (of_nat n) else An c (of_nat n))"

definition getR :: "nat \<Rightarrow> ('d, u32) mach" where
  "getR n = cget (\<lambda>c. reg_of c n)"

definition setR :: "nat \<Rightarrow> u32 \<Rightarrow> ('d, unit) mach" where
  "setR n v = (if n < 8 then setD (of_nat n) v else setA (of_nat n) v)"

lemmas reg_defs = getD_def setD_def getA_def setA_def getR_def setR_def

lemma getD_run [run_simps, simp]: "getD r s = Ok (Dn (cpu s) r) s"
  and setD_run [run_simps, simp]:
    "setD r v s = Ok () (s\<lparr>cpu := (cpu s)\<lparr>Dn := (Dn (cpu s))(r := v)\<rparr>\<rparr>)"
  and getA_run [run_simps, simp]: "getA r s = Ok (An (cpu s) r) s"
  and setA_run [run_simps, simp]:
    "setA r v s = Ok () (s\<lparr>cpu := (cpu s)\<lparr>An := (An (cpu s))(r := v)\<rparr>\<rparr>)"
  and getR_run [run_simps, simp]: "getR n s = Ok (reg_of (cpu s) n) s"
  by (simp_all add: reg_defs)

text \<open>include/inline.hpp: \<open>STORE_B\<close>, \<open>STORE_W\<close>, \<open>STORE_L\<close> on a register.\<close>

definition STORE_B :: "u32 \<Rightarrow> u8 \<Rightarrow> u32" where
  "STORE_B v b = (v AND 0xffffff00) OR ucast b"

definition STORE_W :: "u32 \<Rightarrow> u16 \<Rightarrow> u32" where
  "STORE_W v w = (v AND 0xffff0000) OR ucast w"

definition STORE_L :: "u32 \<Rightarrow> u32 \<Rightarrow> u32" where
  "STORE_L v l = l"

definition storeD_B :: "regno \<Rightarrow> u8 \<Rightarrow> ('d, unit) mach" where
  "storeD_B r b = bind (getD r) (\<lambda>v. setD r (STORE_B v b))"

definition storeD_W :: "regno \<Rightarrow> u16 \<Rightarrow> ('d, unit) mach" where
  "storeD_W r w = bind (getD r) (\<lambda>v. setD r (STORE_W v w))"

definition storeD_L :: "regno \<Rightarrow> u32 \<Rightarrow> ('d, unit) mach" where
  "storeD_L r l = bind (getD r) (\<lambda>v. setD r (STORE_L v l))"

text \<open>The fields of an opcode: \<open>DN\<close>, \<open>TYPE\<close> and \<open>REG\<close>.\<close>

definition DN :: "u16 \<Rightarrow> regno" where
  "DN op = ucast (drop_bit 9 op AND 7)"

definition TYP :: "u16 \<Rightarrow> regno" where
  "TYP op = ucast (drop_bit 3 op AND 7)"

definition REG :: "u16 \<Rightarrow> regno" where
  "REG op = ucast (op AND 7)"

section \<open>Condition codes and the status register\<close>

definition TEST_B :: "u8 \<Rightarrow> ('d, unit) mach" where
  "TEST_B v = cmod (\<lambda>c. c\<lparr>fN := neg v, fZ := v = 0\<rparr>)"

definition TEST_W :: "u16 \<Rightarrow> ('d, unit) mach" where
  "TEST_W v = cmod (\<lambda>c. c\<lparr>fN := neg v, fZ := v = 0\<rparr>)"

definition TEST_L :: "u32 \<Rightarrow> ('d, unit) mach" where
  "TEST_L v = cmod (\<lambda>c. c\<lparr>fN := neg v, fZ := v = 0\<rparr>)"

lemma TEST_run [run_simps, simp]:
  "TEST_B b s = Ok () (s\<lparr>cpu := (cpu s)\<lparr>fN := neg b, fZ := b = 0\<rparr>\<rparr>)"
  "TEST_W w s = Ok () (s\<lparr>cpu := (cpu s)\<lparr>fN := neg w, fZ := w = 0\<rparr>\<rparr>)"
  "TEST_L l s = Ok () (s\<lparr>cpu := (cpu s)\<lparr>fN := neg l, fZ := l = 0\<rparr>\<rparr>)"
  by (simp_all add: TEST_B_def TEST_W_def TEST_L_def)

definition TRACE_BRANCH :: "('d, unit) mach" where
  "TRACE_BRANCH = cmod (\<lambda>c. if T_mode c = 1 then c\<lparr>must_trace := True\<rparr> else c)"

lemma TRACE_BRANCH_run [run_simps, simp]:
  "TRACE_BRANCH s = Ok () (s\<lparr>cpu := (if T_mode (cpu s) = 1
     then (cpu s)\<lparr>must_trace := True\<rparr> else cpu s)\<rparr>)"
  by (simp add: TRACE_BRANCH_def)

definition GetCCR :: "cpu \<Rightarrow> u8" where
  "GetCCR c = push_bit 4 (of_bool (fX c)) OR push_bit 3 (of_bool (fN c))
     OR push_bit 2 (of_bool (fZ c)) OR push_bit 1 (of_bool (fV c)) OR of_bool (fC c)"

definition SetCCR :: "u8 \<Rightarrow> cpu \<Rightarrow> cpu" where
  "SetCCR v c = c\<lparr>fX := bit_at v 4, fN := bit_at v 3, fZ := bit_at v 2,
     fV := bit_at v 1, fC := bit_at v 0\<rparr>"

definition GetSR :: "cpu \<Rightarrow> u16" where
  "GetSR c = ucast (GetCCR c) OR push_bit 8 (ucast (I_lvl c))
     OR push_bit 12 (of_bool (M_bit c)) OR push_bit 13 (of_bool (S_bit c))
     OR push_bit 14 (ucast (T_mode c))"

definition SaveSP :: "cpu \<Rightarrow> cpu" where
  "SaveSP c =
     (if S_bit c then
        if M_bit c then c\<lparr>MSP := An c 7\<rparr> else c\<lparr>ISP := An c 7\<rparr>
      else c\<lparr>USP := An c 7\<rparr>)"

definition LoadSP :: "cpu \<Rightarrow> cpu" where
  "LoadSP c =
     (if S_bit c then
        if M_bit c then c\<lparr>An := (An c)(7 := MSP c)\<rparr> else c\<lparr>An := (An c)(7 := ISP c)\<rparr>
      else c\<lparr>An := (An c)(7 := USP c)\<rparr>)"

definition SetSR :: "u16 \<Rightarrow> cpu \<Rightarrow> cpu" where
  "SetSR v c =
     (let c1 = SaveSP c;
          c2 = SetCCR (ucast v) c1;
          c3 = c2\<lparr>I_lvl := ucast (drop_bit 8 v AND 7), M_bit := bit_at v 12,
                  S_bit := bit_at v 13, T_mode := ucast (drop_bit 14 v AND 3)\<rparr>
      in LoadSP c3)"

section \<open>Raising\<close>

text \<open>include/exception.hpp: the transfer types, sizes and exception numbers.\<close>

abbreviation (input) TT_NORMAL :: u16 where "TT_NORMAL \<equiv> 0"
abbreviation (input) TT_MOVE16 :: u16 where "TT_MOVE16 \<equiv> 8"
abbreviation (input) TT_ALT :: u16 where "TT_ALT \<equiv> 16"

abbreviation (input) TM_USER_DATA :: u8 where "TM_USER_DATA \<equiv> 1"
abbreviation (input) TM_USER_CODE :: u8 where "TM_USER_CODE \<equiv> 2"
abbreviation (input) TM_SYS_DATA :: u8 where "TM_SYS_DATA \<equiv> 5"
abbreviation (input) TM_SYS_CODE :: u8 where "TM_SYS_CODE \<equiv> 6"

datatype SIZ = SIZ_L | SIZ_B | SIZ_W | SIZ_LN | SIZ_NONE

fun SIZ_int :: "SIZ \<Rightarrow> u16" where
  "SIZ_int SIZ_L = 0"
| "SIZ_int SIZ_B = 1"
| "SIZ_int SIZ_W = 2"
| "SIZ_int SIZ_LN = 3"
| "SIZ_int SIZ_NONE = 4"

abbreviation (input) AFAULT :: int where "AFAULT \<equiv> 2"
abbreviation (input) ADDR_ERR :: int where "ADDR_ERR \<equiv> 3"
abbreviation (input) EXN_ILLEGAL_OP :: int where "EXN_ILLEGAL_OP \<equiv> 4"
abbreviation (input) DIV0 :: int where "DIV0 \<equiv> 5"
abbreviation (input) CHK_FAIL :: int where "CHK_FAIL \<equiv> 6"
abbreviation (input) TRAPx :: int where "TRAPx \<equiv> 7"
abbreviation (input) PRIV_ERR :: int where "PRIV_ERR \<equiv> 8"
abbreviation (input) EXN_TRACE :: int where "EXN_TRACE \<equiv> 9"
abbreviation (input) EXN_ALINE :: int where "EXN_ALINE \<equiv> 10"
abbreviation (input) EXN_FLINE :: int where "EXN_FLINE \<equiv> 11"
abbreviation (input) FORMAT_ERR :: int where "FORMAT_ERR \<equiv> 14"
abbreviation (input) UNDEF_IRQ :: int where "UNDEF_IRQ \<equiv> 15"
abbreviation (input) UNKNOWN_IRQ :: int where "UNKNOWN_IRQ \<equiv> 24"
abbreviation (input) TRAP0 :: int where "TRAP0 \<equiv> 32"
abbreviation (input) FP_UNORDER :: int where "FP_UNORDER \<equiv> 48"

abbreviation (input) SSW_CP :: u16 where "SSW_CP \<equiv> 0x8000"
abbreviation (input) SSW_CU :: u16 where "SSW_CU \<equiv> 0x4000"
abbreviation (input) SSW_CT :: u16 where "SSW_CT \<equiv> 0x2000"
abbreviation (input) SSW_CM :: u16 where "SSW_CM \<equiv> 0x1000"
abbreviation (input) SSW_MA :: u16 where "SSW_MA \<equiv> 0x0800"
abbreviation (input) SSW_ATC :: u16 where "SSW_ATC \<equiv> 0x0400"

definition RAISE :: "int \<Rightarrow> ('d, 'a) mach" where
  "RAISE n = bind (cget inJit) (\<lambda>j. if j then throw (JitLongjmp n) else throw (M68kException n))"

definition ACCESS_FAULT :: "u32 \<Rightarrow> SIZ \<Rightarrow> bool \<Rightarrow> u8 \<Rightarrow> u16 \<Rightarrow> ('d, 'a) mach" where
  "ACCESS_FAULT a sz rw m tt =
     seq (cmod (\<lambda>c. c\<lparr>ex_addr := a\<rparr>))
    (seq (cmod (\<lambda>c. if movem_run c then c\<lparr>fault_SSW := fault_SSW c OR SSW_CM\<rparr> else c))
    (seq (cmod (\<lambda>c. c\<lparr>fault_SSW := fault_SSW c OR tt\<rparr>))
    (seq (cmod (\<lambda>c. c\<lparr>fault_SSW := fault_SSW c OR push_bit 9 (of_bool (bus_lock c))\<rparr>))
    (seq (cmod (\<lambda>c. c\<lparr>fault_SSW := fault_SSW c OR push_bit 8 (of_bool rw)\<rparr>))
    (seq (cmod (\<lambda>c. c\<lparr>fault_SSW := fault_SSW c OR push_bit 5 (SIZ_int sz)\<rparr>))
    (seq (cmod (\<lambda>c. c\<lparr>fault_SSW := fault_SSW c OR ucast m\<rparr>))
         (RAISE AFAULT)))))))"

definition ADDRESS_ERROR :: "u32 \<Rightarrow> ('d, 'a) mach" where
  "ADDRESS_ERROR addr = seq (cmod (\<lambda>c. c\<lparr>ex_addr := addr\<rparr>)) (RAISE ADDR_ERR)"

definition ILLEGAL_OP :: "('d, 'a) mach" where "ILLEGAL_OP = RAISE EXN_ILLEGAL_OP"
definition DIV0_ERROR :: "('d, 'a) mach" where "DIV0_ERROR = RAISE DIV0"
definition CHK_ERROR :: "('d, 'a) mach" where "CHK_ERROR = RAISE CHK_FAIL"
definition TRAPX_ERROR :: "('d, 'a) mach" where "TRAPX_ERROR = RAISE TRAPx"
definition PRIV_ERROR :: "('d, 'a) mach" where "PRIV_ERROR = RAISE PRIV_ERR"
definition TRACE :: "('d, 'a) mach" where "TRACE = RAISE EXN_TRACE"
definition ALINE :: "('d, 'a) mach" where "ALINE = RAISE EXN_ALINE"
definition FLINE :: "('d, 'a) mach" where "FLINE = RAISE EXN_FLINE"
definition FORMAT_ERROR :: "('d, 'a) mach" where "FORMAT_ERROR = RAISE FORMAT_ERR"
definition TRAP_ERROR :: "int \<Rightarrow> ('d, 'a) mach" where "TRAP_ERROR n = RAISE (TRAP0 + n)"
definition IRQ :: "int \<Rightarrow> ('d, 'a) mach" where "IRQ n = RAISE (UNKNOWN_IRQ + n)"

text \<open>include/68040.hpp, \<open>PRIV_CHECK\<close>.\<close>

definition PRIV_CHECK :: "('d, unit) mach" where
  "PRIV_CHECK = bind (cget S_bit) (\<lambda>s. if \<not> s then PRIV_ERROR else return ())"

lemma PRIV_CHECK_user: "\<not> S_bit (cpu s) \<Longrightarrow>
    seq PRIV_CHECK m s = Raise (if inJit (cpu s) then JitLongjmp PRIV_ERR else M68kException PRIV_ERR) s"
  by (simp add: PRIV_CHECK_def PRIV_ERROR_def RAISE_def bind_def seq_def)

lemma PRIV_CHECK_supervisor [run_simps]: "S_bit (cpu s) \<Longrightarrow> PRIV_CHECK s = Ok () s"
  by (simp add: PRIV_CHECK_def)

lemma RAISE_run [run_simps]:
  "RAISE n s = Raise (if inJit (cpu s) then JitLongjmp n else M68kException n) s"
  by (simp add: RAISE_def)

section \<open>The state before start-up\<close>

text \<open>The objects \<open>cpu\<close>, \<open>i_atc\<close> and \<open>d_atc\<close> have static storage: every member starts as zero.\<close>

definition ttr_static :: TTR_t where
  "ttr_static = \<lparr>logic_base = 0, logic_mask = 0, TTR_E = False, TTR_S = 0, TTR_U = 0,
     TTR_CM = 0, TTR_W = False\<rparr>"

definition cpu_static :: cpu where
  "cpu_static = \<lparr>Dn = (\<lambda>_. 0), An = (\<lambda>_. 0), EA = 0, PC = 0, fX = False, fN = False,
     fZ = False, fV = False, fC = False, MSP = 0, ISP = 0, USP = 0, I_lvl = 0, T_mode = 0,
     M_bit = False, S_bit = False, VBR = 0, SFC = 0, DFC = 0, URP = 0, SRP = 0, TCR_E = False,
     TCR_P = False, ITTR = (\<lambda>_. ttr_static), DTTR = (\<lambda>_. ttr_static), MMUSR = 0,
     CACR_DE = False, CACR_IE = False, ex_addr = 0, oldpc = 0, fault_SSW = 0, bus_lock = False,
     inJit = False, must_trace = False, movem_run = False\<rparr>"

definition atc_static :: atc where
  "atc_static = (\<lambda>_ _. \<lparr>laddr = 0, atc_V = False, atc_G = False, atc_paddr = 0, atc_pg_addr = 0,
     atc_U = 0, atc_S = False, atc_CM = 0, atc_M = False, atc_W = False, atc_R = False\<rparr>)"

text \<open>A machine on a given bus, and one with eight bytes of RAM for the examples.\<close>

definition machine_on :: "'d IO_BUS \<Rightarrow> 'd bus \<Rightarrow> 'd machine" where
  "machine_on v b = \<lparr>cpu = cpu_static, d_atc = atc_static, i_atc = atc_static, bus = b, io = v,
     dev_reset = return (), jit_tables = (\<lambda>_. False), rom_funcs = (\<lambda>_. False),
     rom_stops = (\<lambda>_. False), fpus = (\<lambda>_. fpu_static), mpfr_state = globals_static\<rparr>"

definition small_machine :: "unit machine" where
  "small_machine = machine_on no_device small_bus"

lemma machine_on_simps [simp]:
  "cpu (machine_on v b) = cpu_static" "bus (machine_on v b) = b" "io (machine_on v b) = v"
  "cpu small_machine = cpu_static" "bus small_machine = small_bus" "io small_machine = no_device"
  by (simp_all add: machine_on_def small_machine_def)

end
