(* ===== verification/Mmu.thy ===== *)
theory Mmu
  imports Machine
begin

text \<open>
  Address translation: src/cpu/68040_mmu.cc up to \<open>page_size\<close>, and the flush and
  invalidation routines behind the MMU instructions. Page numbers are the address shifted
  right by 12, whatever the page size.
\<close>

section \<open>Results and descriptors\<close>

text \<open>include/mmu.hpp, \<open>struct mmu_result\<close>, with its default member initialisers.\<close>

record mmu_result =
  mr_paddr :: u32
  mr_Ux :: u8
  mr_CM :: u8
  mr_R :: bool
  mr_T :: bool
  mr_W :: bool
  mr_M :: bool
  mr_S :: bool
  mr_G :: bool
  mr_B :: bool

definition mmu_none :: mmu_result where
  "mmu_none = \<lparr>mr_paddr = 0, mr_Ux = 0, mr_CM = 0, mr_R = False, mr_T = False,
     mr_W = False, mr_M = False, mr_S = False, mr_G = False, mr_B = False\<rparr>"

definition mmu_value :: "mmu_result \<Rightarrow> u32" where
  "mmu_value r = of_bool (mr_R r) OR push_bit 1 (of_bool (mr_T r))
     OR push_bit 2 (of_bool (mr_W r)) OR push_bit 4 (of_bool (mr_M r))
     OR push_bit 5 (ucast (mr_CM r)) OR push_bit 7 (of_bool (mr_S r))
     OR push_bit 8 (ucast (mr_Ux r)) OR push_bit 10 (of_bool (mr_G r))
     OR push_bit 11 (of_bool (mr_B r)) OR push_bit 12 (mr_paddr r)"

abbreviation (input) DESP_W :: u32 where "DESP_W \<equiv> 0x4"
abbreviation (input) DESP_U :: u32 where "DESP_U \<equiv> 0x8"
abbreviation (input) DESP_M :: u32 where "DESP_M \<equiv> 0x10"
abbreviation (input) DESP_S :: u32 where "DESP_S \<equiv> 0x80"
abbreviation (input) DESP_G :: u32 where "DESP_G \<equiv> 0x400"

text \<open>\<open>struct addr_e\<close>: the three table indices of a page number.\<close>

definition addr_pgi :: "u32 \<Rightarrow> bool \<Rightarrow> u8" where
  "addr_pgi v large = (if large then ucast (drop_bit 1 v AND 0x1f) else ucast (v AND 0x3f))"

definition addr_pi :: "u32 \<Rightarrow> u8" where
  "addr_pi v = ucast (drop_bit 6 v AND 0x7f)"

definition addr_ri :: "u32 \<Rightarrow> u8" where
  "addr_ri v = ucast (drop_bit 13 v AND 0x7f)"

section \<open>Transparent translation\<close>

definition Get_TTR_t :: "TTR_t \<Rightarrow> u32" where
  "Get_TTR_t x = push_bit 24 (ucast (logic_base x)) OR push_bit 16 (ucast (logic_mask x))
     OR push_bit 15 (of_bool (TTR_E x)) OR push_bit 13 (ucast (TTR_S x))
     OR push_bit 8 (ucast (TTR_U x)) OR push_bit 5 (ucast (TTR_CM x))
     OR push_bit 2 (of_bool (TTR_W x))"

definition Set_TTR_t :: "u32 \<Rightarrow> TTR_t" where
  "Set_TTR_t v = \<lparr>logic_base = ucast (drop_bit 24 v AND 0xff),
     logic_mask = ucast (drop_bit 16 v AND 0xff), TTR_E = bit_at v 15,
     TTR_S = ucast (drop_bit 13 v AND 3), TTR_U = ucast (drop_bit 8 v AND 3),
     TTR_CM = ucast (drop_bit 5 v AND 3), TTR_W = bit_at v 2\<rparr>"

definition TEST_TTR :: "TTR_t \<Rightarrow> u32 \<Rightarrow> bool \<Rightarrow> mmu_result" where
  "TEST_TTR x addr S =
     (if \<not> TTR_E x then mmu_none
      else if (TTR_S x = 0 \<and> S) \<or> (TTR_S x = 1 \<and> \<not> S) then mmu_none
      else
        let base = (ucast (drop_bit 12 addr) :: u8) in
        if base AND NOT (logic_mask x) = logic_base x AND NOT (logic_mask x) then
          mmu_none\<lparr>mr_R := True, mr_T := True, mr_W := TTR_W x, mr_paddr := addr\<rparr>
        else mmu_none)"

definition ptest_ttr :: "cpu \<Rightarrow> u32 \<Rightarrow> bool \<Rightarrow> bool \<Rightarrow> mmu_result" where
  "ptest_ttr c addr sys code =
     (let ttrp = (if code then ITTR c else DTTR c);
          r0 = TEST_TTR (ttrp 0) addr sys;
          r1 = TEST_TTR (ttrp 1) addr sys
      in if mr_R r0 then r0 else if mr_R r1 then r1 else mmu_none)"

section \<open>The translation caches and the table walk\<close>

text \<open>
  The pointer \<open>code ? i_atc[sys] : d_atc[sys]\<close> of the source is the pair of its two
  selectors here.
\<close>

definition atc_get :: "bool \<Rightarrow> bool \<Rightarrow> 4 word \<Rightarrow> ('d, atc_entry) mach" where
  "atc_get code sys k = gets (\<lambda>s. if code then i_atc s sys k else d_atc s sys k)"

definition atc_upd :: "atc \<Rightarrow> bool \<Rightarrow> 4 word \<Rightarrow> (atc_entry \<Rightarrow> atc_entry) \<Rightarrow> atc" where
  "atc_upd t sys k f = t(sys := (t sys)(k := f (t sys k)))"

definition atc_mod :: "bool \<Rightarrow> bool \<Rightarrow> 4 word \<Rightarrow> (atc_entry \<Rightarrow> atc_entry) \<Rightarrow> ('d, unit) mach" where
  "atc_mod code sys k f = modify (\<lambda>s.
     if code then s\<lparr>i_atc := atc_upd (i_atc s) sys k f\<rparr>
     else s\<lparr>d_atc := atc_upd (d_atc s) sys k f\<rparr>)"

definition atc_key :: "u32 \<Rightarrow> 4 word" where
  "atc_key addr = ucast (addr AND 0xf)"

definition atc_search_not_found :: "bool \<Rightarrow> bool \<Rightarrow> u32 \<Rightarrow> ('d, unit) mach" where
  "atc_search_not_found code sys addr =
     atc_mod code sys (atc_key addr) (\<lambda>e. e\<lparr>laddr := addr, atc_V := True, atc_R := False\<rparr>)"

text \<open>The entry \<open>atc_set\<close> stores for a page descriptor.\<close>

definition atc_entry_of :: "u32 \<Rightarrow> u32 \<Rightarrow> u32 \<Rightarrow> bool \<Rightarrow> atc_entry" where
  "atc_entry_of addr pg_addr pg wp = \<lparr>laddr = addr, atc_V = True, atc_G = bit_at pg 10,
     atc_paddr = drop_bit 12 pg, atc_pg_addr = pg_addr, atc_U = ucast (drop_bit 8 pg AND 3),
     atc_S = bit_at pg 7, atc_CM = ucast (drop_bit 5 pg AND 3), atc_M = bit_at pg 4,
     atc_W = wp, atc_R = True\<rparr>"

text \<open>The descriptor \<open>atc_set\<close> writes back: used, and modified where the write is allowed.\<close>

definition pg_update :: "u32 \<Rightarrow> bool \<Rightarrow> bool \<Rightarrow> bool \<Rightarrow> u32" where
  "pg_update pg W wp s =
     (let pg1 = pg OR DESP_U in
      if \<not> (wp \<and> W) \<and> \<not> (bit_at pg1 7 \<and> \<not> s) then
        (if \<not> bit_at pg1 4 \<and> W then pg1 OR DESP_M else pg1)
      else pg1)"

definition atc_set_page :: "bool \<Rightarrow> bool \<Rightarrow> u32 \<Rightarrow> u32 \<Rightarrow> u32 \<Rightarrow> bool \<Rightarrow> bool \<Rightarrow> ('d, unit) mach" where
  "atc_set_page code sys addr pg_addr pg W wp =
     (let wp' = (wp \<or> bit_at (pg OR DESP_U) 2);
          pg' = pg_update pg W wp' sys
      in seq (on_io (\<lambda>v. BusWriteL v pg_addr pg'))
             (atc_mod code sys (atc_key addr) (\<lambda>_. atc_entry_of addr pg_addr pg' wp')))"

definition atc_set :: "bool \<Rightarrow> bool \<Rightarrow> u32 \<Rightarrow> u32 \<Rightarrow> bool \<Rightarrow> bool \<Rightarrow> ('d, unit) mach" where
  "atc_set code sys addr pg_addr W wp =
     bind (on_io (\<lambda>v. BusReadL v pg_addr)) (\<lambda>pg.
     if pg AND 3 = 0 then return ()
     else if pg AND 3 = 2 then
       let pg_addr' = pg AND NOT 3 in
       bind (on_io (\<lambda>v. BusReadL v pg_addr')) (\<lambda>pg'.
       atc_set_page code sys addr pg_addr' pg' W wp)
     else atc_set_page code sys addr pg_addr pg W wp)"

definition pdt_lookup :: "u32 \<Rightarrow> ('d, u32) mach" where
  "pdt_lookup addr =
     bind (on_io (\<lambda>v. BusReadL v addr)) (\<lambda>urp.
     if urp AND 3 < 2 then return 0
     else seq (on_io (\<lambda>v. BusWriteL v addr (urp OR DESP_U))) (return (urp OR DESP_U)))"

definition atc_search :: "bool \<Rightarrow> bool \<Rightarrow> u32 \<Rightarrow> bool \<Rightarrow> ('d, unit) mach" where
  "atc_search code sys addr W =
     bind (cget TCR_P) (\<lambda>large.
     bind (cget (\<lambda>c. if sys then SRP c else URP c)) (\<lambda>root.
     bind (pdt_lookup (root OR push_bit 2 (ucast (addr_ri addr)))) (\<lambda>urp.
     if urp = 0 then atc_search_not_found code sys addr
     else bind (pdt_lookup ((urp AND NOT 0x1FF) OR push_bit 2 (ucast (addr_pi addr)))) (\<lambda>pt.
     if pt = 0 then atc_search_not_found code sys addr
     else atc_set code sys addr
            ((pt AND NOT (if large then 0x7f else 0xFF)) OR push_bit 2 (ucast (addr_pgi addr large)))
            W (bit_at (urp OR pt) 2)))))"

text \<open>The part of an entry that \<open>ptest\<close> reports.\<close>

definition result_of_entry :: "atc_entry \<Rightarrow> mmu_result" where
  "result_of_entry e = mmu_none\<lparr>mr_R := atc_R e, mr_W := atc_W e, mr_M := atc_M e,
     mr_CM := atc_CM e, mr_S := atc_S e, mr_Ux := atc_U e, mr_G := atc_G e,
     mr_paddr := atc_paddr e\<rparr>"

text \<open>A permitted write to a page not yet marked modified marks it, in memory and cache.\<close>

definition ptest_entry :: "bool \<Rightarrow> bool \<Rightarrow> u32 \<Rightarrow> bool \<Rightarrow> ('d, mmu_result) mach" where
  "ptest_entry code sys addr W =
     bind (atc_get code sys (atc_key addr)) (\<lambda>e.
     seq (whenM (atc_R e \<and> W \<and> \<not> atc_W e \<and> \<not> atc_M e \<and> \<not> (atc_S e \<and> \<not> sys))
           (bind (on_io (\<lambda>v. BusReadL v (atc_pg_addr e))) (\<lambda>pg.
            seq (on_io (\<lambda>v. BusWriteL v (atc_pg_addr e) (pg OR DESP_M)))
                (atc_mod code sys (atc_key addr) (\<lambda>e. e\<lparr>atc_M := True\<rparr>)))))
         (bind (atc_get code sys (atc_key addr)) (\<lambda>e'. return (result_of_entry e'))))"

definition ptest :: "u32 \<Rightarrow> bool \<Rightarrow> bool \<Rightarrow> bool \<Rightarrow> ('d, mmu_result) mach" where
  "ptest addr sys code W =
     bind (cget (\<lambda>c. ptest_ttr c addr sys code)) (\<lambda>pret.
     if mr_R pret then
       (if mr_W pret \<and> W then return mmu_none else return pret)
     else bind (cget TCR_E) (\<lambda>enabled.
     if \<not> enabled then return (mmu_none\<lparr>mr_R := True, mr_paddr := addr\<rparr>)
     else bind (atc_get code sys (atc_key addr)) (\<lambda>p.
     bind (if atc_V p \<and> laddr p = addr then return True
           else catch_BusError (seq (atc_search code sys addr W) (return True)) (return False)) (\<lambda>ok.
     if \<not> ok then return (mmu_none\<lparr>mr_B := True\<rparr>)
     else ptest_entry code sys addr W))))"

definition page_offset :: "cpu \<Rightarrow> u32 \<Rightarrow> u32 \<Rightarrow> u32" where
  "page_offset c base addr =
     (if TCR_P c then (base AND NOT 1) OR (addr AND 0x1fff) else base OR (addr AND 0xfff))"

definition ptest_and_check :: "u32 \<Rightarrow> bool \<Rightarrow> bool \<Rightarrow> ('d, u32) mach" where
  "ptest_and_check addr code W =
     bind (cget S_bit) (\<lambda>sup.
     bind (ptest (drop_bit 12 addr) sup code W) (\<lambda>ret.
     if mr_B ret then throw (PTestError 0)
     else if \<not> mr_R ret then throw (PTestError SSW_ATC)
     else if mr_W ret \<and> W then throw (PTestError SSW_ATC)
     else if mr_S ret \<and> \<not> sup then throw (PTestError SSW_ATC)
     else cget (\<lambda>c. page_offset c (push_bit 12 (mr_paddr ret)) addr)))"

section \<open>Flushing\<close>

definition page_size :: "cpu \<Rightarrow> u32" where
  "page_size c = (if TCR_P c then 0x2000 else 0x1000)"

text \<open>
  \<open>for(b = base; b < lim; b += 2) jit_tables.erase(b)\<close>. The fuel bounds the number of
  turns; \<open>erase_loop_enough\<close> in theory \<open>Translation\<close> shows that half the block size is enough.
\<close>

fun erase_loop :: "nat \<Rightarrow> u32 \<Rightarrow> u32 \<Rightarrow> (u32 \<Rightarrow> bool) \<Rightarrow> (u32 \<Rightarrow> bool)" where
  "erase_loop 0 b lim t = t"
| "erase_loop (Suc n) b lim t = (if b < lim then erase_loop n (b + 2) lim (t(b := False)) else t)"

definition cinvl_i :: "u32 \<Rightarrow> ('d, unit) mach" where
  "cinvl_i base = (let base' = base AND NOT 0xf in
     modify (\<lambda>s. s\<lparr>jit_tables := erase_loop 8 base' (base' + 0x10) (jit_tables s)\<rparr>))"

definition cinvp_i :: "u32 \<Rightarrow> ('d, unit) mach" where
  "cinvp_i base = bind (cget page_size) (\<lambda>pg_sz.
     let base' = base AND NOT (pg_sz - 1) in
     modify (\<lambda>s. s\<lparr>jit_tables := erase_loop 0x1000 base' (base' + pg_sz) (jit_tables s)\<rparr>))"

definition cinva_i :: "('d, unit) mach" where
  "cinva_i = modify (\<lambda>s. s\<lparr>jit_tables := (\<lambda>_. False)\<rparr>)"

definition cpushl_i :: "u32 \<Rightarrow> ('d, unit) mach" where
  "cpushl_i base = (let base' = base AND NOT 0xf in
     modify (\<lambda>s. s\<lparr>jit_tables := erase_loop 8 base' (base' + 0x10) (jit_tables s)\<rparr>))"

definition cpushp_i :: "u32 \<Rightarrow> ('d, unit) mach" where
  "cpushp_i base = bind (cget page_size) (\<lambda>pg_sz.
     let base' = base AND NOT (pg_sz - 1) in
     modify (\<lambda>s. s\<lparr>jit_tables := erase_loop 0x1000 base' (base' + pg_sz) (jit_tables s)\<rparr>))"

definition cpusha_i :: "('d, unit) mach" where
  "cpusha_i = modify (\<lambda>s. s\<lparr>jit_tables := (\<lambda>_. False)\<rparr>)"

text \<open>One conditional \<open>V = false\<close> of the flush routines.\<close>

definition flush_entry :: "(atc_entry \<Rightarrow> bool) \<Rightarrow> atc_entry \<Rightarrow> atc_entry" where
  "flush_entry p e = (if p e then e\<lparr>atc_V := False\<rparr> else e)"

definition dfc_user :: "('d, bool) mach" where
  "dfc_user = cget (\<lambda>c. DFC c = 1 \<or> DFC c = 2)"

text \<open>
  The four tests of a flush at one index: supervisor data and code, and the user caches
  when \<open>DFC\<close> selects them.
\<close>

definition flush_at :: "(atc_entry \<Rightarrow> bool) \<Rightarrow> 4 word \<Rightarrow> ('d, unit) mach" where
  "flush_at p k =
     seq (atc_mod False True k (flush_entry p))
    (seq (atc_mod True True k (flush_entry p))
    (bind dfc_user (\<lambda>u. whenM u
      (seq (atc_mod False False k (flush_entry p))
           (atc_mod True False k (flush_entry p))))))"

definition pflushn_impl :: "u32 \<Rightarrow> ('d, unit) mach" where
  "pflushn_impl addr = flush_at (\<lambda>e. laddr e = addr \<and> \<not> atc_G e) (atc_key addr)"

definition pflush_impl :: "u32 \<Rightarrow> ('d, unit) mach" where
  "pflush_impl addr = flush_at (\<lambda>e. laddr e = addr) (atc_key addr)"

definition pflushan_impl :: "('d, unit) mach" where
  "pflushan_impl = for_each [0..<16] (\<lambda>j. flush_at (\<lambda>e. \<not> atc_G e) (of_nat j))"

definition pflusha_impl :: "('d, unit) mach" where
  "pflusha_impl = for_each [0..<16] (\<lambda>j. flush_at (\<lambda>e. True) (of_nat j))"

text \<open>
  \<open>op_ptest\<close>: the entry is dropped so that the tables are searched, and the outcome goes
  to \<open>MMUSR\<close>. \<open>DFC\<close> selects the address space; other values do nothing.
\<close>

definition op_ptest_in :: "u32 \<Rightarrow> bool \<Rightarrow> bool \<Rightarrow> bool \<Rightarrow> ('d, unit) mach" where
  "op_ptest_in pn sys code w =
     seq (atc_mod code sys (atc_key pn) (\<lambda>e. e\<lparr>atc_V := False\<rparr>))
         (bind (ptest pn sys code w) (\<lambda>r. cmod (\<lambda>c. c\<lparr>MMUSR := mmu_value r\<rparr>)))"

definition op_ptest :: "u32 \<Rightarrow> bool \<Rightarrow> ('d, unit) mach" where
  "op_ptest addr w = (let pn = drop_bit 12 addr in
     bind (cget DFC) (\<lambda>dfc.
     if dfc = 1 then op_ptest_in pn False False w
     else if dfc = 2 then op_ptest_in pn False True w
     else if dfc = 5 then op_ptest_in pn True False w
     else if dfc = 6 then op_ptest_in pn True True w
     else return ()))"

section \<open>Control registers\<close>

text \<open>
  \<open>movec_from_cr_impl\<close> yields the value stored through its pointer and the processor
  state, or \<open>None\<close> where it returns false.
\<close>

definition movec_from_cr_impl :: "u16 \<Rightarrow> cpu \<Rightarrow> (u32 \<times> cpu) option" where
  "movec_from_cr_impl extw c =
     (if extw = 0 then Some (ucast (SFC c), c)
      else if extw = 1 then Some (ucast (DFC c), c)
      else if extw = 2 then
        Some (push_bit 31 (of_bool (CACR_DE c)) OR push_bit 15 (of_bool (CACR_IE c)), c)
      else if extw = 3 then
        Some (push_bit 15 (of_bool (TCR_E c)) OR push_bit 14 (of_bool (TCR_P c)), c)
      else if extw = 4 then Some (Get_TTR_t (ITTR c 0), c)
      else if extw = 5 then Some (Get_TTR_t (ITTR c 1), c)
      else if extw = 6 then Some (Get_TTR_t (DTTR c 0), c)
      else if extw = 7 then Some (Get_TTR_t (DTTR c 1), c)
      else if extw = 0x800 then Some (USP c, c)
      else if extw = 0x801 then Some (VBR c, c)
      else if extw = 0x803 then
        (let c' = (if M_bit c then c\<lparr>MSP := An c 7\<rparr> else c) in Some (MSP c', c'))
      else if extw = 0x804 then
        (let c' = (if \<not> M_bit c then c\<lparr>ISP := An c 7\<rparr> else c) in Some (ISP c', c'))
      else if extw = 0x805 then Some (MMUSR c, c)
      else if extw = 0x806 then Some (URP c, c)
      else if extw = 0x807 then Some (SRP c, c)
      else None)"

definition movec_to_cr_impl :: "u16 \<Rightarrow> u32 \<Rightarrow> cpu \<Rightarrow> cpu option" where
  "movec_to_cr_impl extw v c =
     (let x = extw AND 0xfff in
      if x = 0 then Some (c\<lparr>SFC := ucast (v AND 7)\<rparr>)
      else if x = 1 then Some (c\<lparr>DFC := ucast (v AND 7)\<rparr>)
      else if x = 2 then Some (c\<lparr>CACR_DE := bit_at v 31, CACR_IE := bit_at v 15\<rparr>)
      else if x = 3 then Some (c\<lparr>TCR_E := bit_at v 15, TCR_P := bit_at v 14\<rparr>)
      else if x = 4 then Some (c\<lparr>ITTR := (ITTR c)(0 := Set_TTR_t v)\<rparr>)
      else if x = 5 then Some (c\<lparr>ITTR := (ITTR c)(1 := Set_TTR_t v)\<rparr>)
      else if x = 6 then Some (c\<lparr>DTTR := (DTTR c)(0 := Set_TTR_t v)\<rparr>)
      else if x = 7 then Some (c\<lparr>DTTR := (DTTR c)(1 := Set_TTR_t v)\<rparr>)
      else if x = 0x800 then Some (c\<lparr>USP := v\<rparr>)
      else if x = 0x801 then Some (c\<lparr>VBR := v\<rparr>)
      else if x = 0x803 then
        (let c' = c\<lparr>MSP := v\<rparr> in
         Some (if M_bit c' then c'\<lparr>An := (An c')(7 := MSP c')\<rparr> else c'))
      else if x = 0x804 then
        (let c' = c\<lparr>ISP := v\<rparr> in
         Some (if \<not> M_bit c' then c'\<lparr>An := (An c')(7 := ISP c')\<rparr> else c'))
      else if x = 0x805 then Some (c\<lparr>MMUSR := v\<rparr>)
      else if x = 0x806 then Some (c\<lparr>URP := v AND NOT 0x1ff\<rparr>)
      else if x = 0x807 then Some (c\<lparr>SRP := v AND NOT 0x1ff\<rparr>)
      else None)"

end
