(* ===== verification/Memory.thy ===== *)
theory Memory
  imports Mmu
begin

text \<open>
  Guest memory accesses: src/memory.cc. The \<open>Impl\<close> functions translate and split
  misaligned accesses and raise \<open>PTestError\<close>; the outer functions turn that into the
  guest's access fault with its special status word.
\<close>

definition GetTMData :: "cpu \<Rightarrow> u8" where
  "GetTMData c = (if S_bit c then TM_SYS_DATA else TM_USER_DATA)"

definition GetTMCode :: "cpu \<Rightarrow> u8" where
  "GetTMCode c = (if S_bit c then TM_SYS_CODE else TM_USER_CODE)"

section \<open>Translated accesses\<close>

text \<open>\<open>try m catch(PTestError &e) { e.code |= SSW_MA; throw e; }\<close>\<close>

definition second_half :: "('d, 'a) mach \<Rightarrow> ('d, 'a) mach" where
  "second_half m = catch_PTestError m (\<lambda>code. throw (PTestError (code OR SSW_MA)))"

definition ReadBImpl :: "u32 \<Rightarrow> bool \<Rightarrow> ('d, u8) mach" where
  "ReadBImpl addr lock =
     bind (ptest_and_check addr False lock) (\<lambda>paddr. on_io (\<lambda>v. BusReadB v paddr))"

definition ReadWImpl :: "u32 \<Rightarrow> bool \<Rightarrow> bool \<Rightarrow> ('d, u16) mach" where
  "ReadWImpl addr code lock =
     (if \<not> code \<and> bit_at addr 0 then
        bind (ReadBImpl addr lock) (\<lambda>vx1.
        bind (second_half (ReadBImpl (addr + 1) lock)) (\<lambda>vx2.
        return (push_bit 8 (ucast vx1) OR ucast vx2)))
      else
        bind (ptest_and_check addr code lock) (\<lambda>paddr. on_io (\<lambda>v. BusReadW v paddr)))"

definition ReadLImpl :: "u32 \<Rightarrow> bool \<Rightarrow> ('d, u32) mach" where
  "ReadLImpl addr lock =
     (if bit_at addr 1 then
        bind (ReadWImpl addr False lock) (\<lambda>vx1.
        bind (second_half (ReadWImpl (addr + 2) False lock)) (\<lambda>vx2.
        return (push_bit 16 (ucast vx1) OR ucast vx2)))
      else
        bind (ptest_and_check addr False lock) (\<lambda>paddr. on_io (\<lambda>v. BusReadL v paddr)))"

definition WriteBImpl :: "u32 \<Rightarrow> u8 \<Rightarrow> ('d, unit) mach" where
  "WriteBImpl addr b =
     bind (ptest_and_check addr False True) (\<lambda>paddr. on_io (\<lambda>v. BusWriteB v paddr b))"

definition WriteWImpl :: "u32 \<Rightarrow> u16 \<Rightarrow> ('d, unit) mach" where
  "WriteWImpl addr w =
     (if bit_at addr 0 then
        seq (WriteBImpl addr (ucast (drop_bit 8 w)))
            (second_half (WriteBImpl (addr + 1) (ucast w)))
      else
        bind (ptest_and_check addr False True) (\<lambda>paddr. on_io (\<lambda>v. BusWriteW v paddr w)))"

definition WriteLImpl :: "u32 \<Rightarrow> u32 \<Rightarrow> ('d, unit) mach" where
  "WriteLImpl addr l =
     (if bit_at addr 1 then
        seq (WriteWImpl addr (ucast (drop_bit 16 l)))
            (second_half (WriteWImpl (addr + 2) (ucast l)))
      else
        bind (ptest_and_check addr False True) (\<lambda>paddr. on_io (\<lambda>v. BusWriteL v paddr l)))"

section \<open>Faulting accesses\<close>

text \<open>The catch block shared by the accesses: \<open>fault_SSW = e.code; ACCESS_FAULT(...)\<close>.\<close>

definition faulting :: "u32 \<Rightarrow> SIZ \<Rightarrow> bool \<Rightarrow> (cpu \<Rightarrow> u8) \<Rightarrow> u16 \<Rightarrow> ('d, 'a) mach \<Rightarrow> ('d, 'a) mach" where
  "faulting addr sz rw tm tt m = catch_PTestError m (\<lambda>code.
     seq (cmod (\<lambda>c. c\<lparr>fault_SSW := code\<rparr>))
         (bind (cget tm) (\<lambda>t. ACCESS_FAULT addr sz rw t tt)))"

definition ReadB :: "u32 \<Rightarrow> ('d, u8) mach" where
  "ReadB addr = faulting addr SIZ_B True GetTMData TT_NORMAL
     (bind (cget bus_lock) (\<lambda>lk. ReadBImpl addr lk))"

definition ReadW :: "u32 \<Rightarrow> ('d, u16) mach" where
  "ReadW addr = faulting addr SIZ_W True GetTMData TT_NORMAL
     (bind (cget bus_lock) (\<lambda>lk. ReadWImpl addr False lk))"

definition FetchW :: "u32 \<Rightarrow> ('d, u16) mach" where
  "FetchW addr = faulting addr SIZ_W True GetTMCode TT_NORMAL (ReadWImpl addr True False)"

definition ReadL :: "u32 \<Rightarrow> ('d, u32) mach" where
  "ReadL addr = faulting addr SIZ_L True GetTMData TT_NORMAL
     (bind (cget bus_lock) (\<lambda>lk. ReadLImpl addr lk))"

definition WriteB :: "u32 \<Rightarrow> u8 \<Rightarrow> ('d, unit) mach" where
  "WriteB addr b = faulting addr SIZ_B False GetTMData TT_NORMAL (WriteBImpl addr b)"

definition WriteW :: "u32 \<Rightarrow> u16 \<Rightarrow> ('d, unit) mach" where
  "WriteW addr w = faulting addr SIZ_W False GetTMData TT_NORMAL (WriteWImpl addr w)"

definition WriteL :: "u32 \<Rightarrow> u32 \<Rightarrow> ('d, unit) mach" where
  "WriteL addr l = faulting addr SIZ_L False GetTMData TT_NORMAL (WriteLImpl addr l)"

text \<open>The accesses of \<open>MOVES\<close>, in the address space of \<open>SFC\<close> or \<open>DFC\<close> for the fault only.\<close>

definition ReadSB :: "u32 \<Rightarrow> ('d, u8) mach" where
  "ReadSB addr = faulting addr SIZ_B True SFC TT_ALT (ReadBImpl addr False)"

definition ReadSW :: "u32 \<Rightarrow> ('d, u16) mach" where
  "ReadSW addr = faulting addr SIZ_W True SFC TT_ALT (ReadWImpl addr False False)"

definition ReadSL :: "u32 \<Rightarrow> ('d, u32) mach" where
  "ReadSL addr = faulting addr SIZ_L True SFC TT_ALT (ReadLImpl addr False)"

definition WriteSB :: "u32 \<Rightarrow> u8 \<Rightarrow> ('d, unit) mach" where
  "WriteSB addr b = faulting addr SIZ_B False DFC TT_ALT (WriteBImpl addr b)"

definition WriteSW :: "u32 \<Rightarrow> u16 \<Rightarrow> ('d, unit) mach" where
  "WriteSW addr w = faulting addr SIZ_W False DFC TT_ALT (WriteWImpl addr w)"

definition WriteSL :: "u32 \<Rightarrow> u32 \<Rightarrow> ('d, unit) mach" where
  "WriteSL addr l = faulting addr SIZ_L False DFC TT_ALT (WriteLImpl addr l)"

section \<open>Sixteen-byte transfers\<close>

text \<open>\<open>memcpy\<close> of 16 bytes between a host pointer and a local buffer.\<close>

definition get16bytes :: "ptr \<Rightarrow> ('d bus, u8 list) monad" where
  "get16bytes p = checked p 16 (gets (\<lambda>b. map (\<lambda>i. obj_get (fst p) b (snd p + i)) [0..<16]))"

fun put_bytes :: "host_obj \<Rightarrow> nat \<Rightarrow> u8 list \<Rightarrow> 'd bus \<Rightarrow> 'd bus" where
  "put_bytes obj i [] b = b"
| "put_bytes obj i (v # vs) b = put_bytes obj (i + 1) vs (obj_put obj i v b)"

definition put16bytes :: "ptr \<Rightarrow> u8 list \<Rightarrow> ('d bus, unit) monad" where
  "put16bytes p vs = checked p 16 (modify (put_bytes (fst p) (snd p) vs))"

definition Read16 :: "u32 \<Rightarrow> ('d, u8 list) mach" where
  "Read16 addr = faulting addr SIZ_LN True (\<lambda>_. TM_USER_DATA) TT_MOVE16
     (bind (ptest_and_check addr False False) (\<lambda>paddr.
      bind (on_bus (doBus16 paddr)) (\<lambda>maddr.
      on_bus (get16bytes maddr))))"

text \<open>Here the catch block accumulates: \<open>fault_SSW |= e.code\<close>.\<close>

definition Write16 :: "u32 \<Rightarrow> u8 list \<Rightarrow> ('d, unit) mach" where
  "Write16 addr from = catch_PTestError
     (bind (ptest_and_check addr False True) (\<lambda>paddr.
      bind (on_bus (doBus16 paddr)) (\<lambda>maddr.
      on_bus (put16bytes maddr from))))
     (\<lambda>code. seq (cmod (\<lambda>c. c\<lparr>fault_SSW := fault_SSW c OR code\<rparr>))
                 (ACCESS_FAULT addr SIZ_LN False TM_USER_DATA TT_MOVE16))"

definition Transfer16 :: "u32 \<Rightarrow> u32 \<Rightarrow> ('d, unit) mach" where
  "Transfer16 from to =
     bind (Read16 (from AND NOT 0xf)) (\<lambda>buf. Write16 (to AND NOT 0xf) buf)"

section \<open>Instruction words, the stack, jumps\<close>

text \<open>include/memory.hpp and include/inline.hpp.\<close>

definition FETCH :: "('d, u16) mach" where
  "FETCH =
     bind (cget PC) (\<lambda>pc.
     seq (cmod (\<lambda>c. c\<lparr>PC := pc + 2\<rparr>))
         (FetchW pc))"

definition FETCH32 :: "('d, u32) mach" where
  "FETCH32 =
     bind FETCH (\<lambda>v.
     bind FETCH (\<lambda>w.
     return (push_bit 16 (ucast v) OR ucast w)))"

definition PUSH16 :: "u16 \<Rightarrow> ('d, unit) mach" where
  "PUSH16 v =
     bind (getA 7) (\<lambda>sp.
     seq (setA 7 (sp - 2))
         (WriteW (sp - 2) v))"

definition PUSH32 :: "u32 \<Rightarrow> ('d, unit) mach" where
  "PUSH32 v =
     bind (getA 7) (\<lambda>sp.
     seq (WriteW (sp - 2) (ucast v))
    (seq (WriteW (sp - 4) (ucast (drop_bit 16 v)))
         (setA 7 (sp - 4))))"

definition POP16 :: "('d, u16) mach" where
  "POP16 =
     bind (getA 7) (\<lambda>sp.
     bind (ReadW sp) (\<lambda>v.
     seq (setA 7 (sp + 2)) (return v)))"

text \<open>\<open>POP32\<close> is declared to return \<open>uint16_t\<close>, so the upper half is lost on return.\<close>

definition POP32 :: "('d, u16) mach" where
  "POP32 =
     bind (getA 7) (\<lambda>sp.
     bind (ReadW sp) (\<lambda>h.
     bind (ReadW (sp + 2)) (\<lambda>l.
     let v = (push_bit 16 (ucast h) OR ucast l :: u32) in
     seq (setA 7 (sp + 4)) (return (ucast v)))))"

definition JUMP :: "u32 \<Rightarrow> ('d, unit) mach" where
  "JUMP next =
     (if bit_at next 0 then ADDRESS_ERROR next else cmod (\<lambda>c. c\<lparr>PC := next\<rparr>))"

end
