(* ===== verification/Ea.thy ===== *)
theory Ea
  imports Memory
begin

text \<open>
  Effective addresses: src/cpu/m68k_ea.cc. A read with \<open>lk\<close> set computes the address once
  and leaves \<open>bus_lock\<close> set, so that the write that follows uses the same address.
\<close>

text \<open>\<open>parseExt(reg)\<close>: \<open>None\<close> stands for the argument -1, relative to the program counter.\<close>

definition parseExt :: "regno option \<Rightarrow> ('d, u32) mach" where
  "parseExt reg =
     bind (case reg of Some r \<Rightarrow> getA r | None \<Rightarrow> cget PC) (\<lambda>base0.
     bind FETCH (\<lambda>nxt.
     bind (getR (unat (drop_bit 12 nxt AND 15))) (\<lambda>r.
     let rn_l = (if \<not> bit_at nxt 11 then scast (ucast (r AND 0xffff) :: u16) else r) :: u32;
         rn0 = push_bit (unat (drop_bit 9 nxt AND 3)) rn_l
     in
     if \<not> bit_at nxt 8 then
       return (scast (ucast (nxt AND 0xff) :: u8) + base0 + rn0)
     else
     let base = (if bit_at nxt 7 then 0 else base0);
         rn_v = (if bit_at nxt 6 then 0 else rn0)
     in
     bind (let k = drop_bit 4 nxt AND 3 in
           if k = 2 then bind FETCH (\<lambda>w. return (scast w))
           else if k = 3 then FETCH32
           else return 0) (\<lambda>bd :: u32.
     let m = nxt AND 3 in
     if m = 0 then return (bd + base + rn_v)
     else
     bind (if m = 2 then bind FETCH (\<lambda>w. return (scast w))
           else if m = 3 then FETCH32
           else return 0) (\<lambda>od_v :: u32.
     if \<not> bit_at nxt 2 then
       bind (ReadL (bd + base + rn_v)) (\<lambda>v. return (v + od_v))
     else
       bind (ReadL (bd + base)) (\<lambda>v. return (v + rn_v + od_v)))))))"

definition stack_size :: "regno \<Rightarrow> u32 \<Rightarrow> u32" where
  "stack_size reg sz = (if reg = 7 \<and> sz = 1 then 2 else sz)"

definition ea_getaddr :: "regno \<Rightarrow> regno \<Rightarrow> u32 \<Rightarrow> ('d, u32) mach" where
  "ea_getaddr ty reg sz =
     (if ty = 2 then getA reg
      else if ty = 3 then
        bind (getA reg) (\<lambda>a. seq (setA reg (a + stack_size reg sz)) (return a))
      else if ty = 4 then
        bind (getA reg) (\<lambda>a.
        seq (setA reg (a - stack_size reg sz)) (return (a - stack_size reg sz)))
      else if ty = 5 then
        bind FETCH (\<lambda>d. bind (getA reg) (\<lambda>a. return (a + scast d)))
      else if ty = 6 then parseExt (Some reg)
      else if ty = 7 \<and> reg = 0 then bind FETCH (\<lambda>w. return (ucast w))
      else if ty = 7 \<and> reg = 1 then FETCH32
      else if ty = 7 \<and> reg = 2 then
        bind (cget PC) (\<lambda>now. bind FETCH (\<lambda>d. return (now + scast d)))
      else if ty = 7 \<and> reg = 3 then parseExt None
      else ILLEGAL_OP)"

definition set_EA :: "u32 \<Rightarrow> ('d, unit) mach" where
  "set_EA a = cmod (\<lambda>c. c\<lparr>EA := a\<rparr>)"

definition set_lock :: "bool \<Rightarrow> ('d, unit) mach" where
  "set_lock b = cmod (\<lambda>c. c\<lparr>bus_lock := b\<rparr>)"

definition ea_readB :: "regno \<Rightarrow> regno \<Rightarrow> bool \<Rightarrow> ('d, u8) mach" where
  "ea_readB ty reg lk =
     (if ty = 0 then bind (getD reg) (\<lambda>v. return (ucast v))
      else if ty = 7 \<and> reg = 4 then bind FETCH (\<lambda>w. return (ucast w))
      else
        bind (ea_getaddr ty reg 1) (\<lambda>a.
        seq (set_EA a) (seq (set_lock lk) (ReadB a))))"

text \<open>The result type of \<open>ea_readW\<close> is \<open>uint32_t\<close>: an address register is sign-extended.\<close>

definition ea_readW :: "regno \<Rightarrow> regno \<Rightarrow> bool \<Rightarrow> ('d, u32) mach" where
  "ea_readW ty reg lk =
     (if ty = 0 then bind (getD reg) (\<lambda>v. return (v AND 0xffff))
      else if ty = 1 then bind (getA reg) (\<lambda>v. return (scast (ucast v :: u16)))
      else if ty = 7 \<and> reg = 4 then bind FETCH (\<lambda>w. return (ucast w))
      else
        bind (ea_getaddr ty reg 2) (\<lambda>a.
        seq (set_EA a) (seq (set_lock lk) (bind (ReadW a) (\<lambda>w. return (ucast w))))))"

definition ea_readL :: "regno \<Rightarrow> regno \<Rightarrow> bool \<Rightarrow> ('d, u32) mach" where
  "ea_readL ty reg lk =
     (if ty = 0 then getD reg
      else if ty = 1 then getA reg
      else if ty = 7 \<and> reg = 4 then FETCH32
      else
        bind (ea_getaddr ty reg 4) (\<lambda>a.
        seq (set_EA a) (seq (set_lock lk) (ReadL a))))"

text \<open>The address of a write: the one of the locked read, or a new one.\<close>

definition ea_write_addr :: "regno \<Rightarrow> regno \<Rightarrow> u32 \<Rightarrow> ('d, u32) mach" where
  "ea_write_addr ty reg sz =
     bind (cget bus_lock) (\<lambda>lk.
     seq (if \<not> lk then bind (ea_getaddr ty reg sz) set_EA else return ())
         (cget EA))"

definition ea_writeB :: "regno \<Rightarrow> regno \<Rightarrow> u8 \<Rightarrow> ('d, unit) mach" where
  "ea_writeB ty reg v =
     (if ty = 0 then storeD_B reg v
      else bind (ea_write_addr ty reg 1) (\<lambda>a. seq (WriteB a v) (set_lock False)))"

definition ea_writeW :: "regno \<Rightarrow> regno \<Rightarrow> u16 \<Rightarrow> ('d, unit) mach" where
  "ea_writeW ty reg v =
     (if ty = 0 then storeD_W reg v
      else if ty = 1 then setA reg (scast v)
      else bind (ea_write_addr ty reg 2) (\<lambda>a. seq (WriteW a v) (set_lock False)))"

definition ea_writeL :: "regno \<Rightarrow> regno \<Rightarrow> u32 \<Rightarrow> ('d, unit) mach" where
  "ea_writeL ty reg v =
     (if ty = 0 then storeD_L reg v
      else if ty = 1 then setA reg v
      else bind (ea_write_addr ty reg 4) (\<lambda>a. seq (WriteL a v) (set_lock False)))"

end
