(* ===== verification/Arith.thy ===== *)
theory Arith
  imports Ea "HOL-Library.Signed_Division"
begin

text \<open>
  Arithmetic with condition codes: src/cpu/arithmetic.cc. Where the source computes in a
  wider type to see the carry, so do the definitions; an operand that the source narrows
  to a parameter type is narrowed before the call.
\<close>

section \<open>Addition, subtraction, comparison\<close>

definition ADD_B :: "u8 \<Rightarrow> u8 \<Rightarrow> ('d, u8) mach" where
  "ADD_B a b =
     (let c = (ucast a + ucast b :: u16) in
      seq (cmod (\<lambda>k. k\<lparr>fX := c AND 0x100 \<noteq> 0, fC := c AND 0x100 \<noteq> 0\<rparr>))
     (seq (cmod (\<lambda>k. k\<lparr>fV := (NOT (ucast a XOR ucast b) AND (ucast a XOR c)) AND 0x80 \<noteq> 0\<rparr>))
     (seq (TEST_B (ucast c))
          (return (ucast c)))))"

definition ADD_W :: "u16 \<Rightarrow> u16 \<Rightarrow> ('d, u16) mach" where
  "ADD_W a b =
     (let c = (ucast a + ucast b :: u32) in
      seq (cmod (\<lambda>k. k\<lparr>fX := c AND 0x10000 \<noteq> 0, fC := c AND 0x10000 \<noteq> 0\<rparr>))
     (seq (cmod (\<lambda>k. k\<lparr>fV := (NOT (ucast a XOR ucast b) AND (ucast a XOR c)) AND 0x8000 \<noteq> 0\<rparr>))
     (seq (TEST_W (ucast c))
          (return (ucast c)))))"

definition ADD_L :: "u32 \<Rightarrow> u32 \<Rightarrow> ('d, u32) mach" where
  "ADD_L a b =
     (let c = (ucast a + ucast b :: u64) in
      seq (cmod (\<lambda>k. k\<lparr>fX := c AND 0x100000000 \<noteq> 0, fC := c AND 0x100000000 \<noteq> 0\<rparr>))
     (seq (cmod (\<lambda>k. k\<lparr>fV := (NOT (ucast a XOR ucast b) AND (ucast a XOR c)) AND 0x80000000 \<noteq> 0\<rparr>))
     (seq (TEST_L (ucast c))
          (return (ucast c)))))"

definition SUB_B :: "u8 \<Rightarrow> u8 \<Rightarrow> ('d, u8) mach" where
  "SUB_B a b =
     (let c = (ucast a - ucast b :: u16) in
      seq (cmod (\<lambda>k. k\<lparr>fX := c AND 0x100 \<noteq> 0, fC := c AND 0x100 \<noteq> 0\<rparr>))
     (seq (cmod (\<lambda>k. k\<lparr>fV := ((ucast a XOR ucast b) AND NOT (ucast b XOR c)) AND 0x80 \<noteq> 0\<rparr>))
     (seq (TEST_B (ucast c))
          (return (ucast c)))))"

definition SUB_W :: "u16 \<Rightarrow> u16 \<Rightarrow> ('d, u16) mach" where
  "SUB_W a b =
     (let c = (ucast a - ucast b :: u32) in
      seq (cmod (\<lambda>k. k\<lparr>fX := c AND 0x10000 \<noteq> 0, fC := c AND 0x10000 \<noteq> 0\<rparr>))
     (seq (cmod (\<lambda>k. k\<lparr>fV := ((ucast a XOR ucast b) AND NOT (ucast b XOR c)) AND 0x8000 \<noteq> 0\<rparr>))
     (seq (TEST_W (ucast c))
          (return (ucast c)))))"

definition SUB_L :: "u32 \<Rightarrow> u32 \<Rightarrow> ('d, u32) mach" where
  "SUB_L a b =
     (let c = (ucast a - ucast b :: u64) in
      seq (cmod (\<lambda>k. k\<lparr>fX := c AND 0x100000000 \<noteq> 0, fC := c AND 0x100000000 \<noteq> 0\<rparr>))
     (seq (cmod (\<lambda>k. k\<lparr>fV := ((ucast a XOR ucast b) AND NOT (ucast b XOR c)) AND 0x80000000 \<noteq> 0\<rparr>))
     (seq (TEST_L (ucast c))
          (return (ucast c)))))"

definition SUBX_B :: "u8 \<Rightarrow> u8 \<Rightarrow> bool \<Rightarrow> ('d, u8) mach" where
  "SUBX_B a b old_x =
     bind (cget fZ) (\<lambda>zz.
     bind (SUB_B a (b + of_bool old_x)) (\<lambda>v.
     seq (cmod (\<lambda>k. k\<lparr>fZ := (if v \<noteq> 0 then False else zz)\<rparr>))
         (return v)))"

definition SUBX_W :: "u16 \<Rightarrow> u16 \<Rightarrow> bool \<Rightarrow> ('d, u16) mach" where
  "SUBX_W a b old_x =
     bind (cget fZ) (\<lambda>zz.
     bind (SUB_W a (b + of_bool old_x)) (\<lambda>v.
     seq (cmod (\<lambda>k. k\<lparr>fZ := (if v \<noteq> 0 then False else zz)\<rparr>))
         (return v)))"

definition SUBX_L :: "u32 \<Rightarrow> u32 \<Rightarrow> bool \<Rightarrow> ('d, u32) mach" where
  "SUBX_L a b old_x =
     bind (cget fZ) (\<lambda>zz.
     bind (SUB_L a (b + of_bool old_x)) (\<lambda>v.
     seq (cmod (\<lambda>k. k\<lparr>fZ := (if v \<noteq> 0 then False else zz)\<rparr>))
         (return v)))"

definition ADDX_B :: "u8 \<Rightarrow> u8 \<Rightarrow> bool \<Rightarrow> ('d, u8) mach" where
  "ADDX_B a b old_x =
     bind (cget fZ) (\<lambda>zz.
     bind (ADD_B a (b + of_bool old_x)) (\<lambda>v.
     seq (cmod (\<lambda>k. k\<lparr>fZ := (if v \<noteq> 0 then False else zz)\<rparr>))
         (return v)))"

definition ADDX_W :: "u16 \<Rightarrow> u16 \<Rightarrow> bool \<Rightarrow> ('d, u16) mach" where
  "ADDX_W a b old_x =
     bind (cget fZ) (\<lambda>zz.
     bind (ADD_W a (b + of_bool old_x)) (\<lambda>v.
     seq (cmod (\<lambda>k. k\<lparr>fZ := (if v \<noteq> 0 then False else zz)\<rparr>))
         (return v)))"

definition ADDX_L :: "u32 \<Rightarrow> u32 \<Rightarrow> bool \<Rightarrow> ('d, u32) mach" where
  "ADDX_L a b old_x =
     bind (cget fZ) (\<lambda>zz.
     bind (ADD_L a (b + of_bool old_x)) (\<lambda>v.
     seq (cmod (\<lambda>k. k\<lparr>fZ := (if v \<noteq> 0 then False else zz)\<rparr>))
         (return v)))"

definition NEG_B :: "u8 \<Rightarrow> ('d, u8) mach" where
  "NEG_B v = SUB_B 0 v"

definition NEG_W :: "u16 \<Rightarrow> ('d, u16) mach" where
  "NEG_W v = SUB_W 0 v"

definition NEG_L :: "u32 \<Rightarrow> ('d, u32) mach" where
  "NEG_L v = SUB_L 0 v"

definition NEGX_B :: "u8 \<Rightarrow> bool \<Rightarrow> ('d, u8) mach" where
  "NEGX_B v old_x = SUB_B 0 (v + of_bool old_x)"

definition NEGX_W :: "u16 \<Rightarrow> bool \<Rightarrow> ('d, u16) mach" where
  "NEGX_W v old_x = SUB_W 0 (v + of_bool old_x)"

definition NEGX_L :: "u32 \<Rightarrow> bool \<Rightarrow> ('d, u32) mach" where
  "NEGX_L v old_x = SUB_L 0 (v + of_bool old_x)"

definition CMP_B :: "u8 \<Rightarrow> u8 \<Rightarrow> ('d, unit) mach" where
  "CMP_B a b =
     (let c = (ucast a - ucast b :: u16) in
      seq (cmod (\<lambda>k. k\<lparr>fC := c AND 0x100 \<noteq> 0\<rparr>))
     (seq (cmod (\<lambda>k. k\<lparr>fV := ((ucast a XOR ucast b) AND NOT (ucast b XOR c)) AND 0x80 \<noteq> 0\<rparr>))
          (TEST_B (ucast c))))"

definition CMP_W :: "u16 \<Rightarrow> u16 \<Rightarrow> ('d, unit) mach" where
  "CMP_W a b =
     (let c = (ucast a - ucast b :: u32) in
      seq (cmod (\<lambda>k. k\<lparr>fC := c AND 0x10000 \<noteq> 0\<rparr>))
     (seq (cmod (\<lambda>k. k\<lparr>fV := ((ucast a XOR ucast b) AND NOT (ucast b XOR c)) AND 0x8000 \<noteq> 0\<rparr>))
          (TEST_W (ucast c))))"

definition CMP_L :: "u32 \<Rightarrow> u32 \<Rightarrow> ('d, unit) mach" where
  "CMP_L a b =
     (let c = (ucast a - ucast b :: u64) in
      seq (cmod (\<lambda>k. k\<lparr>fC := c AND 0x100000000 \<noteq> 0\<rparr>))
     (seq (cmod (\<lambda>k. k\<lparr>fV := ((ucast a XOR ucast b) AND NOT (ucast b XOR c)) AND 0x80000000 \<noteq> 0\<rparr>))
          (TEST_L (ucast c))))"

section \<open>Multiplication\<close>

definition MULU_LL :: "u32 \<Rightarrow> u32 \<Rightarrow> ('d, u64) mach" where
  "MULU_LL a b =
     (let v = (ucast a * ucast b :: u64) in
      seq (cmod (\<lambda>k. k\<lparr>fV := False, fC := False, fZ := v = 0, fN := neg v\<rparr>)) (return v))"

definition MULS_LL :: "u32 \<Rightarrow> u32 \<Rightarrow> ('d, u64) mach" where
  "MULS_LL a b =
     (let v = (scast a * scast b :: u64) in
      seq (cmod (\<lambda>k. k\<lparr>fV := False, fC := False, fZ := v = 0, fN := neg v\<rparr>)) (return v))"

definition MULU_L :: "u32 \<Rightarrow> u32 \<Rightarrow> ('d, u32) mach" where
  "MULU_L a b =
     (let v = (ucast a * ucast b :: u64) in
      seq (cmod (\<lambda>k. k\<lparr>fC := False, fV := drop_bit 32 v \<noteq> 0, fZ := v = 0,
             fN := drop_bit 31 v \<noteq> 0\<rparr>)) (return (ucast v)))"

definition MULS_L :: "u32 \<Rightarrow> u32 \<Rightarrow> ('d, u32) mach" where
  "MULS_L a b =
     (let v = (scast a * scast b :: u64) in
      seq (cmod (\<lambda>k. k\<lparr>fC := False, fV := sint v < - (2 ^ 31) \<or> 2 ^ 31 - 1 < sint v,
             fZ := v = 0, fN := neg v\<rparr>)) (return (ucast v)))"

definition MULU_W :: "u16 \<Rightarrow> u16 \<Rightarrow> ('d, u32) mach" where
  "MULU_W a b =
     (let v = (ucast a * ucast b :: u32) in
      seq (cmod (\<lambda>k. k\<lparr>fC := False, fV := False, fZ := v = 0, fN := drop_bit 31 v \<noteq> 0\<rparr>))
          (return v))"

definition MULS_W :: "u16 \<Rightarrow> u16 \<Rightarrow> ('d, u32) mach" where
  "MULS_W a b =
     (let v = (scast a * scast b :: u32) in
      seq (cmod (\<lambda>k. k\<lparr>fC := False, fV := False, fZ := v = 0, fN := neg v\<rparr>)) (return v))"

section \<open>Division\<close>

text \<open>
  Signed division truncates towards zero. \<open>INT64_MIN / -1\<close> does not fit its type and is
  undefined; \<open>DIVS_L\<close> and \<open>DIVS_W\<close> test for their own such case first.
\<close>

definition sdivw :: "'a::len word \<Rightarrow> 'a word \<Rightarrow> 'a word" where
  "sdivw a b = word_of_int (sint a sdiv sint b)"

definition smodw :: "'a::len word \<Rightarrow> 'a word \<Rightarrow> 'a word" where
  "smodw a b = word_of_int (sint a smod sint b)"

definition DIVU_LL :: "u64 \<Rightarrow> u32 \<Rightarrow> ('d, u32 \<times> u32) mach" where
  "DIVU_LL a b =
     (if b = 0 then DIV0_ERROR
      else
        let q = a div ucast b; r = (ucast (a mod ucast b) :: u32) in
        seq (cmod (\<lambda>k. k\<lparr>fC := False, fV := drop_bit 32 q \<noteq> 0\<rparr>))
       (seq (TEST_L (ucast q))
            (return (ucast q, r))))"

definition DIVS_LL :: "u64 \<Rightarrow> u32 \<Rightarrow> ('d, u32 \<times> u32) mach" where
  "DIVS_LL a b =
     (if b = 0 then DIV0_ERROR
      else if a = 0x8000000000000000 \<and> b = 0xffffffff then throw Undefined
      else
        let q = sdivw a (scast b); r = (ucast (smodw a (scast b)) :: u32) in
        seq (cmod (\<lambda>k. k\<lparr>fC := False, fV := 2 ^ 31 - 1 < sint q \<or> sint q < - (2 ^ 31)\<rparr>))
       (seq (TEST_L (ucast q))
            (return (ucast q, r))))"

definition DIVU_L :: "u32 \<Rightarrow> u32 \<Rightarrow> ('d, u32 \<times> u32) mach" where
  "DIVU_L a b =
     (if b = 0 then DIV0_ERROR
      else
        let q = a div b; r = a mod b in
        seq (cmod (\<lambda>k. k\<lparr>fC := False, fV := False\<rparr>))
       (seq (TEST_L q)
            (return (q, r))))"

definition DIVS_L :: "u32 \<Rightarrow> u32 \<Rightarrow> ('d, u32 \<times> u32) mach" where
  "DIVS_L a b =
     (if b = 0 then DIV0_ERROR
      else if a = 0x80000000 \<and> b = 0xffffffff then
        seq (cmod (\<lambda>k. k\<lparr>fV := True\<rparr>)) (return (0, 0))
      else
        let q = sdivw a b; r = smodw a b in
        seq (cmod (\<lambda>k. k\<lparr>fC := False, fV := False\<rparr>))
       (seq (TEST_L q)
            (return (q, r))))"

definition DIVU_W :: "u32 \<Rightarrow> u16 \<Rightarrow> ('d, u16 \<times> u16) mach" where
  "DIVU_W a b =
     (if b = 0 then DIV0_ERROR
      else
        let q = a div ucast b; r = (ucast (a mod ucast b) :: u16) in
        seq (cmod (\<lambda>k. k\<lparr>fC := False, fV := drop_bit 16 q \<noteq> 0\<rparr>))
       (seq (TEST_W (ucast q))
            (return (ucast q, r))))"

definition DIVS_W :: "u32 \<Rightarrow> u16 \<Rightarrow> ('d, u16 \<times> u16) mach" where
  "DIVS_W a b =
     (if b = 0 then DIV0_ERROR
      else if a = 0x80000000 \<and> b = 0xffff then
        seq (cmod (\<lambda>k. k\<lparr>fV := True\<rparr>)) (return (0, 0))
      else
        let q = sdivw a (scast b); r = (ucast (smodw a (scast b)) :: u16) in
        seq (cmod (\<lambda>k. k\<lparr>fC := False, fV := 2 ^ 15 - 1 < sint q \<or> sint q < - (2 ^ 15)\<rparr>))
       (seq (TEST_W (ucast q))
            (return (ucast q, r))))"

section \<open>Compare and swap\<close>

text \<open>The locked write goes to \<open>cpu.EA\<close>, which the caller has set to \<open>addr\<close>.\<close>

definition CAS_B :: "u32 \<Rightarrow> regno \<Rightarrow> u8 \<Rightarrow> ('d, unit) mach" where
  "CAS_B addr dc du =
     bind (ReadB addr) (\<lambda>v.
     bind (getD dc) (\<lambda>d.
     seq (CMP_B v (ucast d))
    (seq (bind (cget fZ) (\<lambda>z.
            if z then bind (cget EA) (\<lambda>ea. WriteB ea du)
            else storeD_B dc v))
         TRACE_BRANCH)))"

definition CAS_W :: "u32 \<Rightarrow> regno \<Rightarrow> u16 \<Rightarrow> ('d, unit) mach" where
  "CAS_W addr dc du =
     bind (ReadW addr) (\<lambda>v.
     bind (getD dc) (\<lambda>d.
     seq (CMP_W v (ucast d))
    (seq (bind (cget fZ) (\<lambda>z.
            if z then bind (cget EA) (\<lambda>ea. WriteW ea du)
            else storeD_W dc v))
         TRACE_BRANCH)))"

definition CAS_L :: "u32 \<Rightarrow> regno \<Rightarrow> u32 \<Rightarrow> ('d, unit) mach" where
  "CAS_L addr dc du =
     bind (ReadL addr) (\<lambda>v.
     bind (getD dc) (\<lambda>d.
     seq (CMP_L v (ucast d))
    (seq (bind (cget fZ) (\<lambda>z.
            if z then bind (cget EA) (\<lambda>ea. WriteL ea du)
            else setD dc v))
         TRACE_BRANCH)))"

definition CAS2_W :: "u32 \<Rightarrow> regno \<Rightarrow> u16 \<Rightarrow> u32 \<Rightarrow> regno \<Rightarrow> u16 \<Rightarrow> ('d, unit) mach" where
  "CAS2_W addr1 dc1 du1 addr2 dc2 du2 =
     bind (ReadW addr1) (\<lambda>v1.
     bind (ReadW addr2) (\<lambda>v2.
     bind (getD dc1) (\<lambda>d1.
     seq (CMP_W v1 (ucast d1))
    (seq (bind (cget fZ) (\<lambda>z. whenM z (bind (getD dc2) (\<lambda>d2. CMP_W v2 (ucast d2)))))
    (seq (bind (cget fZ) (\<lambda>z.
            if z then seq (WriteW addr1 du1) (WriteW addr2 du2)
            else seq (storeD_W dc1 v1) (storeD_W dc2 v2)))
         TRACE_BRANCH)))))"

definition CAS2_L :: "u32 \<Rightarrow> regno \<Rightarrow> u32 \<Rightarrow> u32 \<Rightarrow> regno \<Rightarrow> u32 \<Rightarrow> ('d, unit) mach" where
  "CAS2_L addr1 dc1 du1 addr2 dc2 du2 =
     bind (ReadL addr1) (\<lambda>v1.
     bind (ReadL addr2) (\<lambda>v2.
     bind (getD dc1) (\<lambda>d1.
     seq (CMP_L v1 (ucast d1))
    (seq (bind (cget fZ) (\<lambda>z. whenM z (bind (getD dc2) (\<lambda>d2. CMP_L v2 (ucast d2)))))
    (seq (bind (cget fZ) (\<lambda>z.
            if z then seq (WriteL addr1 du1) (WriteL addr2 du2)
            else seq (setD dc1 v1) (setD dc2 v2)))
         TRACE_BRANCH)))))"

section \<open>Bounds checks\<close>

definition CHK_W :: "u16 \<Rightarrow> u16 \<Rightarrow> ('d, unit) mach" where
  "CHK_W v rng =
     (if 0 \<le> sint v \<and> sint v \<le> sint rng then return ()
      else seq (cmod (\<lambda>k. k\<lparr>fN := neg v\<rparr>)) CHK_ERROR)"

definition CHK_L :: "u32 \<Rightarrow> u32 \<Rightarrow> ('d, unit) mach" where
  "CHK_L v rng =
     (if 0 \<le> sint v \<and> sint v \<le> sint rng then return ()
      else seq (cmod (\<lambda>k. k\<lparr>fN := neg v\<rparr>)) CHK_ERROR)"

definition CMP2_B :: "u8 \<Rightarrow> u32 \<Rightarrow> ('d, unit) mach" where
  "CMP2_B v rangeAddr =
     bind (ReadB rangeAddr) (\<lambda>l.
     bind (ReadB (rangeAddr + 1)) (\<lambda>h.
     cmod (\<lambda>k. k\<lparr>fZ := l = v \<or> h = v, fC := v < l \<or> h < v\<rparr>)))"

definition CMP2_SB :: "u8 \<Rightarrow> u32 \<Rightarrow> ('d, unit) mach" where
  "CMP2_SB v rangeAddr =
     bind (ReadB rangeAddr) (\<lambda>l.
     bind (ReadB (rangeAddr + 1)) (\<lambda>h.
     cmod (\<lambda>k. k\<lparr>fZ := l = v \<or> h = v, fC := sint v < sint l \<or> sint h < sint v\<rparr>)))"

definition CMP2_W :: "u16 \<Rightarrow> u32 \<Rightarrow> ('d, unit) mach" where
  "CMP2_W v rangeAddr =
     bind (ReadW rangeAddr) (\<lambda>l.
     bind (ReadW (rangeAddr + 2)) (\<lambda>h.
     cmod (\<lambda>k. k\<lparr>fZ := l = v \<or> h = v, fC := v < l \<or> h < v\<rparr>)))"

definition CMP2_SW :: "u16 \<Rightarrow> u32 \<Rightarrow> ('d, unit) mach" where
  "CMP2_SW v rangeAddr =
     bind (ReadW rangeAddr) (\<lambda>l.
     bind (ReadW (rangeAddr + 2)) (\<lambda>h.
     cmod (\<lambda>k. k\<lparr>fZ := l = v \<or> h = v, fC := sint v < sint l \<or> sint h < sint v\<rparr>)))"

definition CMP2_L :: "u32 \<Rightarrow> u32 \<Rightarrow> ('d, unit) mach" where
  "CMP2_L v rangeAddr =
     bind (ReadL rangeAddr) (\<lambda>l.
     bind (ReadL (rangeAddr + 4)) (\<lambda>h.
     cmod (\<lambda>k. k\<lparr>fZ := l = v \<or> h = v, fC := v < l \<or> h < v\<rparr>)))"

definition CMP2_SL :: "u32 \<Rightarrow> u32 \<Rightarrow> ('d, unit) mach" where
  "CMP2_SL v rangeAddr =
     bind (ReadL rangeAddr) (\<lambda>l.
     bind (ReadL (rangeAddr + 4)) (\<lambda>h.
     cmod (\<lambda>k. k\<lparr>fZ := l = v \<or> h = v, fC := sint v < sint l \<or> sint h < sint v\<rparr>)))"

section \<open>Sums and differences\<close>

text \<open>
  The code computes in a type twice as wide and reads carry and overflow off its bits; the
  lemmas below turn those bits into statements about the numbers.
\<close>

lemma bit_of_sum:
  fixes k :: int
  assumes "- (2 ^ n) \<le> k" "k < 2 * 2 ^ n"
  shows "bit k n \<longleftrightarrow> k < 0 \<or> 2 ^ n \<le> k"
proof -
  consider "k < 0" | "0 \<le> k" "k < 2 ^ n" | "2 ^ n \<le> k" by linarith
  then show ?thesis
  proof cases
    case 1
    then have "k div 2 ^ n = - 1"
      using assms(1) by (intro int_div_pos_eq [where r = "k + 2 ^ n"]) auto
    with 1 show ?thesis by (simp add: bit_iff_odd)
  next
    case 2
    then show ?thesis by (simp add: bit_iff_odd)
  next
    case 3
    then have "k div 2 ^ n = 1"
      using assms(2) by (intro int_div_pos_eq [where r = "k - 2 ^ n"]) auto
    with 3 show ?thesis by (simp add: bit_iff_odd)
  qed
qed

lemma wide_sum:
  fixes a b :: "'a::len word"
  assumes "LENGTH('a) < LENGTH('b::len)"
  shows "bit (ucast a + ucast b :: 'b word) LENGTH('a) \<longleftrightarrow> 2 ^ LENGTH('a) \<le> uint a + uint b"
    and "ucast (ucast a + ucast b :: 'b word) = a + b"
proof -
  have eq: "(ucast a + ucast b :: 'b word) = word_of_int (uint a + uint b)" by simp
  have "bit (uint a + uint b) LENGTH('a) \<longleftrightarrow> 2 ^ LENGTH('a) \<le> uint a + uint b"
    using uint_range [of a] uint_range [of b] by (subst bit_of_sum) linarith+
  with assms show "bit (ucast a + ucast b :: 'b word) LENGTH('a) \<longleftrightarrow> 2 ^ LENGTH('a) \<le> uint a + uint b"
    unfolding eq by (simp add: bit_word_of_int_iff del: of_int_add)
  show "ucast (ucast a + ucast b :: 'b word) = a + b"
    unfolding eq using assms by (subst ucast_word_of_int) simp_all
qed

lemma wide_diff:
  fixes a b :: "'a::len word"
  assumes "LENGTH('a) < LENGTH('b::len)"
  shows "bit (ucast a - ucast b :: 'b word) LENGTH('a) \<longleftrightarrow> uint a < uint b"
    and "ucast (ucast a - ucast b :: 'b word) = a - b"
proof -
  have eq: "(ucast a - ucast b :: 'b word) = word_of_int (uint a - uint b)" by simp
  have "bit (uint a - uint b) LENGTH('a) \<longleftrightarrow> uint a < uint b"
    using uint_range [of a] uint_range [of b] by (subst bit_of_sum) linarith+
  with assms show "bit (ucast a - ucast b :: 'b word) LENGTH('a) \<longleftrightarrow> uint a < uint b"
    unfolding eq by (simp add: bit_word_of_int_iff del: of_int_diff)
  show "ucast (ucast a - ucast b :: 'b word) = a - b"
    unfolding eq using assms by (subst ucast_word_of_int) simp_all
qed

lemma signed_take_bit_near:
  fixes k :: int
  assumes "- (2 * 2 ^ n) \<le> k" "k < 2 * 2 ^ n"
  shows "signed_take_bit n k < 0 \<longleftrightarrow> (k < 0 \<and> - (2 ^ n) \<le> k) \<or> 2 ^ n \<le> k"
proof (cases "k < - (2 ^ n)")
  case True
  then have "k div 2 ^ n = - 2"
    using assms(1) by (intro int_div_pos_eq [where r = "k + 2 * 2 ^ n"]) auto
  moreover have "\<not> 2 ^ n \<le> k"
    using True zero_less_power [of "2 :: int" n] by linarith
  ultimately show ?thesis using True by (simp add: bit_iff_odd)
next
  case False
  with assms(2) show ?thesis by (subst signed_take_bit_negative_iff, subst bit_of_sum) auto
qed

lemma overflow_iff:
  fixes a b :: "'a::len word"
  shows "(neg a = neg b \<and> neg a \<noteq> neg (a + b)) \<longleftrightarrow>
    sint a + sint b < - (2 ^ (LENGTH('a) - 1)) \<or> 2 ^ (LENGTH('a) - 1) \<le> sint a + sint b"
  using sint_range [of a] sint_range [of b]
    signed_take_bit_near [of "LENGTH('a) - 1" "sint a + sint b"]
  unfolding neg_def sint_word_ariths by auto

lemma underflow_iff:
  fixes a b :: "'a::len word"
  shows "(neg a \<noteq> neg b \<and> neg a \<noteq> neg (a - b)) \<longleftrightarrow>
    sint a - sint b < - (2 ^ (LENGTH('a) - 1)) \<or> 2 ^ (LENGTH('a) - 1) \<le> sint a - sint b"
  using sint_range [of a] sint_range [of b]
    signed_take_bit_near [of "LENGTH('a) - 1" "sint a - sint b"]
  unfolding neg_def sint_word_ariths by auto

text \<open>The condition codes of a sum and of a difference.\<close>

definition add_codes :: "'a::len word \<Rightarrow> 'a word \<Rightarrow> cpu \<Rightarrow> cpu" where
  "add_codes a b k = k\<lparr>fX := 2 ^ LENGTH('a) \<le> uint a + uint b, fC := 2 ^ LENGTH('a) \<le> uint a + uint b,
     fV := sint a + sint b < - (2 ^ (LENGTH('a) - 1)) \<or> 2 ^ (LENGTH('a) - 1) \<le> sint a + sint b,
     fN := sint (a + b) < 0, fZ := a + b = 0\<rparr>"

definition sub_codes :: "'a::len word \<Rightarrow> 'a word \<Rightarrow> cpu \<Rightarrow> cpu" where
  "sub_codes a b k = k\<lparr>fC := uint a < uint b,
     fV := sint a - sint b < - (2 ^ (LENGTH('a) - 1)) \<or> 2 ^ (LENGTH('a) - 1) \<le> sint a - sint b,
     fN := sint (a - b) < 0, fZ := a = b\<rparr>"

lemma masks:
  "v AND 0x80 \<noteq> 0 \<longleftrightarrow> bit v 7" "v AND 0x100 \<noteq> 0 \<longleftrightarrow> bit v 8"
  "v AND 0x8000 \<noteq> 0 \<longleftrightarrow> bit v 15" "v AND 0x10000 \<noteq> 0 \<longleftrightarrow> bit v 16"
  "v AND 0x80000000 \<noteq> 0 \<longleftrightarrow> bit v 31" "v AND 0x100000000 \<noteq> 0 \<longleftrightarrow> bit v 32"
  for v :: "'a::len word"
  using mask_bit [of v 7] mask_bit [of v 8] mask_bit [of v 15] mask_bit [of v 16]
    mask_bit [of v 31] mask_bit [of v 32] by simp_all

lemma wide_bit:
  fixes a b :: "'a::len word"
  assumes "LENGTH('a) < LENGTH('b::len)"
  shows "bit (ucast a + ucast b :: 'b word) (LENGTH('a) - 1) = neg (a + b)"
    and "bit (ucast a - ucast b :: 'b word) (LENGTH('a) - 1) = neg (a - b)"
proof -
  have *: "bit (ucast w :: 'a word) (LENGTH('a) - 1) = bit w (LENGTH('a) - 1)" for w :: "'b word"
    by (simp add: bit_unsigned_iff)
  show "bit (ucast a + ucast b :: 'b word) (LENGTH('a) - 1) = neg (a + b)"
    "bit (ucast a - ucast b :: 'b word) (LENGTH('a) - 1) = neg (a - b)"
    using wide_sum(2) [OF assms, of a b] wide_diff(2) [OF assms, of a b]
    unfolding neg_iff_bit * [symmetric] by simp_all
qed

lemma narrow_bit:
  fixes a :: "'a::len word"
  assumes "LENGTH('a) < LENGTH('b::len)"
  shows "bit (ucast a :: 'b word) (LENGTH('a) - 1) = neg a"
  using assms by (simp add: neg_iff_bit bit_unsigned_iff)

lemma wide_8: fixes a b :: u8
  shows "bit (ucast a + ucast b :: u16) 8 \<longleftrightarrow> 2 ^ 8 \<le> uint a + uint b"
    "bit (ucast a - ucast b :: u16) 8 \<longleftrightarrow> uint a < uint b"
    "bit (ucast a + ucast b :: u16) 7 = neg (a + b)" "bit (ucast a - ucast b :: u16) 7 = neg (a - b)"
    "bit (ucast a :: u16) 7 = neg a"
    "ucast (ucast a + ucast b :: u16) = a + b" "ucast (ucast a - ucast b :: u16) = a - b"
  using wide_sum [where 'b = 16, of a b] wide_diff [where 'b = 16, of a b]
    wide_bit [where 'b = 16, of a b] narrow_bit [where 'b = 16, of a] by simp_all

lemma wide_16: fixes a b :: u16
  shows "bit (ucast a + ucast b :: u32) 16 \<longleftrightarrow> 2 ^ 16 \<le> uint a + uint b"
    "bit (ucast a - ucast b :: u32) 16 \<longleftrightarrow> uint a < uint b"
    "bit (ucast a + ucast b :: u32) 15 = neg (a + b)" "bit (ucast a - ucast b :: u32) 15 = neg (a - b)"
    "bit (ucast a :: u32) 15 = neg a"
    "ucast (ucast a + ucast b :: u32) = a + b" "ucast (ucast a - ucast b :: u32) = a - b"
  using wide_sum [where 'b = 32, of a b] wide_diff [where 'b = 32, of a b]
    wide_bit [where 'b = 32, of a b] narrow_bit [where 'b = 32, of a] by simp_all

lemma wide_32: fixes a b :: u32
  shows "bit (ucast a + ucast b :: u64) 32 \<longleftrightarrow> 2 ^ 32 \<le> uint a + uint b"
    "bit (ucast a - ucast b :: u64) 32 \<longleftrightarrow> uint a < uint b"
    "bit (ucast a + ucast b :: u64) 31 = neg (a + b)" "bit (ucast a - ucast b :: u64) 31 = neg (a - b)"
    "bit (ucast a :: u64) 31 = neg a"
    "ucast (ucast a + ucast b :: u64) = a + b" "ucast (ucast a - ucast b :: u64) = a - b"
  using wide_sum [where 'b = 64, of a b] wide_diff [where 'b = 64, of a b]
    wide_bit [where 'b = 64, of a b] narrow_bit [where 'b = 64, of a] by simp_all

lemmas wide = wide_8 wide_16 wide_32

lemma V_8: fixes a b :: u8
  shows "(NOT (ucast a XOR ucast b) AND (ucast a XOR (ucast a + ucast b))) AND 0x80 \<noteq> (0 :: u16)
      \<longleftrightarrow> sint a + sint b < - (2 ^ 7) \<or> 2 ^ 7 \<le> sint a + sint b"
    and "((ucast a XOR ucast b) AND NOT (ucast b XOR (ucast a - ucast b))) AND 0x80 \<noteq> (0 :: u16)
      \<longleftrightarrow> sint a - sint b < - (2 ^ 7) \<or> 2 ^ 7 \<le> sint a - sint b"
  using overflow_iff [of a b] underflow_iff [of a b]
  by (auto simp: masks bit_simps wide neg_iff_bit simp del: One_nat_def)

lemma V_16: fixes a b :: u16
  shows "(NOT (ucast a XOR ucast b) AND (ucast a XOR (ucast a + ucast b))) AND 0x8000 \<noteq> (0 :: u32)
      \<longleftrightarrow> sint a + sint b < - (2 ^ 15) \<or> 2 ^ 15 \<le> sint a + sint b"
    and "((ucast a XOR ucast b) AND NOT (ucast b XOR (ucast a - ucast b))) AND 0x8000 \<noteq> (0 :: u32)
      \<longleftrightarrow> sint a - sint b < - (2 ^ 15) \<or> 2 ^ 15 \<le> sint a - sint b"
  using overflow_iff [of a b] underflow_iff [of a b]
  by (auto simp: masks bit_simps wide neg_iff_bit simp del: One_nat_def)

lemma V_32: fixes a b :: u32
  shows "(NOT (ucast a XOR ucast b) AND (ucast a XOR (ucast a + ucast b))) AND 0x80000000 \<noteq> (0 :: u64)
      \<longleftrightarrow> sint a + sint b < - (2 ^ 31) \<or> 2 ^ 31 \<le> sint a + sint b"
    and "((ucast a XOR ucast b) AND NOT (ucast b XOR (ucast a - ucast b))) AND 0x80000000 \<noteq> (0 :: u64)
      \<longleftrightarrow> sint a - sint b < - (2 ^ 31) \<or> 2 ^ 31 \<le> sint a - sint b"
  using overflow_iff [of a b] underflow_iff [of a b]
  by (auto simp: masks bit_simps wide neg_iff_bit simp del: One_nat_def)

lemma sum_runs:
  "ADD_B a b s = Ok (a + b) (s\<lparr>cpu := add_codes a b (cpu s)\<rparr>)"
  "ADD_W c d s = Ok (c + d) (s\<lparr>cpu := add_codes c d (cpu s)\<rparr>)"
  "ADD_L e f s = Ok (e + f) (s\<lparr>cpu := add_codes e f (cpu s)\<rparr>)"
  unfolding ADD_B_def ADD_W_def ADD_L_def add_codes_def Let_def V_8 V_16 V_32 unfolding wide masks wide
  by (simp_all add: neg_def)

lemma difference_runs:
  "CMP_B a b s = Ok () (s\<lparr>cpu := sub_codes a b (cpu s)\<rparr>)"
  "CMP_W c d s = Ok () (s\<lparr>cpu := sub_codes c d (cpu s)\<rparr>)"
  "CMP_L e f s = Ok () (s\<lparr>cpu := sub_codes e f (cpu s)\<rparr>)"
  "SUB_B a b s = Ok (a - b) (s\<lparr>cpu := (sub_codes a b (cpu s))\<lparr>fX := uint a < uint b\<rparr>\<rparr>)"
  "SUB_W c d s = Ok (c - d) (s\<lparr>cpu := (sub_codes c d (cpu s))\<lparr>fX := uint c < uint d\<rparr>\<rparr>)"
  "SUB_L e f s = Ok (e - f) (s\<lparr>cpu := (sub_codes e f (cpu s))\<lparr>fX := uint e < uint f\<rparr>\<rparr>)"
  unfolding CMP_B_def CMP_W_def CMP_L_def SUB_B_def SUB_W_def SUB_L_def sub_codes_def
      Let_def V_8 V_16 V_32 unfolding wide masks wide
  by (simp_all add: neg_def)

text \<open>
  C31. Addition is exact: \<open>ADD\<close> returns the sum modulo the operand size; X and C say that the
  unsigned sum does not fit, V that the signed sum does not fit, N and Z describe the result;
  nothing else changes.
\<close>

theorem addition_exact:
  "ADD_B a b s = Ok (a + b) (s\<lparr>cpu := add_codes a b (cpu s)\<rparr>) \<and>
   ADD_W c d s = Ok (c + d) (s\<lparr>cpu := add_codes c d (cpu s)\<rparr>) \<and>
   ADD_L e f s = Ok (e + f) (s\<lparr>cpu := add_codes e f (cpu s)\<rparr>)"
  by (simp add: sum_runs)

text \<open>
  Subtraction and comparison are exact: \<open>SUB\<close> returns the difference modulo the operand
  size; C (and X for \<open>SUB\<close>) says that the unsigned difference is negative, V that the signed
  difference does not fit, N and Z describe the result. \<open>CMP\<close> sets the same codes but leaves X.
\<close>

theorem subtraction_exact:
  "SUB_B a b s = Ok (a - b) (s\<lparr>cpu := (sub_codes a b (cpu s))\<lparr>fX := uint a < uint b\<rparr>\<rparr>) \<and>
   SUB_W c d s = Ok (c - d) (s\<lparr>cpu := (sub_codes c d (cpu s))\<lparr>fX := uint c < uint d\<rparr>\<rparr>) \<and>
   SUB_L e f s = Ok (e - f) (s\<lparr>cpu := (sub_codes e f (cpu s))\<lparr>fX := uint e < uint f\<rparr>\<rparr>) \<and>
   CMP_B a b s = Ok () (s\<lparr>cpu := sub_codes a b (cpu s)\<rparr>) \<and>
   CMP_W c d s = Ok () (s\<lparr>cpu := sub_codes c d (cpu s)\<rparr>) \<and>
   CMP_L e f s = Ok () (s\<lparr>cpu := sub_codes e f (cpu s)\<rparr>)"
  by (simp add: difference_runs)

text \<open>The codes of a sum with a carry in.\<close>

definition addx_codes :: "'a::len word \<Rightarrow> 'a word \<Rightarrow> bool \<Rightarrow> cpu \<Rightarrow> cpu" where
  "addx_codes a b x k = (add_codes a (b + of_bool x) k)\<lparr>fZ := fZ k \<and> a + b + of_bool x = 0\<rparr>"

lemma addx_runs:
  "ADDX_B a b x s = Ok (a + b + of_bool x) (s\<lparr>cpu := addx_codes a b x (cpu s)\<rparr>)"
  "ADDX_W c d x s = Ok (c + d + of_bool x) (s\<lparr>cpu := addx_codes c d x (cpu s)\<rparr>)"
  "ADDX_L e f x s = Ok (e + f + of_bool x) (s\<lparr>cpu := addx_codes e f x (cpu s)\<rparr>)"
  by (simp_all add: ADDX_B_def ADDX_W_def ADDX_L_def sum_runs addx_codes_def add_codes_def add.assoc)

lemma uint_add_one: "b \<noteq> - 1 \<Longrightarrow> uint (b + 1) = uint b + 1" for b :: "'a::len word"
proof -
  assume "b \<noteq> - 1"
  then have "uint b \<noteq> 2 ^ LENGTH('a) - 1"
    by (metis mask_eq_exp_minus_1 uint_word_of_int_eq unsigned_minus_1_eq_mask word_eq_iff_unsigned)
  then have "uint b + 1 < 2 ^ LENGTH('a)"
    using uint_range(2) [of b] by linarith
  then show ?thesis
    by (simp add: uint_word_ariths take_bit_eq_mod)
qed

lemma carry_in:
  fixes a b :: "'a::len word"
  shows "2 ^ LENGTH('a) \<le> uint a + uint (b + of_bool x) \<longleftrightarrow>
    \<not> (x \<and> b = - 1) \<and> 2 ^ LENGTH('a) \<le> uint a + uint b + of_bool x"
proof (cases "x \<and> b = - 1")
  case True
  then show ?thesis using uint_range(2) [of a] by (simp add: not_le)
next
  case False
  then show ?thesis using uint_add_one [of b] by (cases x) auto
qed

text \<open>
  Addition with extend: \<open>ADDX\<close> returns the sum of its operands and of X, and only ever
  clears Z. Its carry is that of the sum, except that it is lost when the second operand is all
  ones and X is set, because X is added to that operand first.
\<close>

theorem addx_carry:
  "\<exists>s'. ADDX_L a b x s = Ok (a + b + of_bool x) s' \<and>
     (fC (cpu s') = (\<not> (x \<and> b = - 1) \<and> 2 ^ 32 \<le> uint a + uint b + of_bool x)) \<and>
     fX (cpu s') = fC (cpu s') \<and> (fZ (cpu s') = (fZ (cpu s) \<and> a + b + of_bool x = 0)) \<and>
     fN (cpu s') = neg (a + b + of_bool x)"
  using carry_in [of a b x]
  by (simp add: addx_runs addx_codes_def add_codes_def neg_def add.assoc)

text \<open>The longword pairs of a multi-precision sum.\<close>

definition pair64 :: "u32 \<Rightarrow> u32 \<Rightarrow> u64" where
  "pair64 h l = push_bit 32 (ucast h) + ucast l"

lemma push_ucast_of_int: "push_bit 32 (ucast (word_of_int k :: u32)) = (word_of_int (2 ^ 32 * k) :: u64)"
proof -
  have "push_bit 32 (ucast (word_of_int k :: u32)) = (word_of_int (push_bit 32 k) :: u64)"
    by (rule bit_word_eqI) (auto simp: bit_unsigned_iff bit_word_of_int_iff bit_push_bit_iff)
  then show ?thesis by (simp add: push_bit_eq_mult mult.commute)
qed

lemma pair64_of_int: "pair64 (word_of_int k) l = word_of_int (2 ^ 32 * k + uint l)"
  using push_ucast_of_int [of k] by (simp add: pair64_def)

lemma uint_sum: "uint (a + b) = uint a + uint b - 2 ^ LENGTH('a) * of_bool (2 ^ LENGTH('a) \<le> uint a + uint b)"
  for a b :: "'a::len word"
  by (simp add: uint_plus_if' not_le not_less)

lemma uint_difference: "uint (a - b) = uint a - uint b + 2 ^ LENGTH('a) * of_bool (uint a < uint b)"
  for a b :: "'a::len word"
  by (simp add: uint_sub_if' not_le not_less)

lemma SUBX_L_run:
  "SUBX_L a b x s = Ok (a - (b + of_bool x)) (s\<lparr>cpu := (sub_codes a (b + of_bool x) (cpu s))
     \<lparr>fX := uint a < uint (b + of_bool x), fZ := fZ (cpu s) \<and> a - (b + of_bool x) = 0\<rparr>\<rparr>)"
  by (simp add: SUBX_L_def difference_runs sub_codes_def)

text \<open>
  Adding 64-bit numbers in two steps: \<open>ADD\<close> of the low longwords followed by \<open>ADDX\<close> of the
  high longwords with the X the first step left gives the two halves of the 64-bit sum.
\<close>

theorem multi_precision_sum:
  "\<exists>lo hi s1 s2. ADD_L al bl s = Ok lo s1 \<and> ADDX_L ah bh (fX (cpu s1)) s1 = Ok hi s2 \<and>
     pair64 hi lo = pair64 ah al + pair64 bh bl"
proof -
  let ?c = "2 ^ 32 \<le> uint al + uint bl"
  have "ah + bh + of_bool ?c = word_of_int (uint ah + uint bh + of_bool ?c)"
    by simp
  then have "pair64 (ah + bh + of_bool ?c) (al + bl) = 
      word_of_int (2 ^ 32 * (uint ah + uint bh + of_bool ?c) + uint (al + bl))"
    by (simp only: pair64_of_int)
  also have "\<dots> = word_of_int ((2 ^ 32 * uint ah + uint al) + (2 ^ 32 * uint bh + uint bl))"
    by (simp add: uint_sum algebra_simps)
  also have "\<dots> = pair64 ah al + pair64 bh bl"
    using pair64_of_int [of "uint ah" al] pair64_of_int [of "uint bh" bl] by simp
  finally show ?thesis
    by (simp add: sum_runs addx_runs add_codes_def)
qed

text \<open>
  The same for \<open>SUB\<close> followed by \<open>SUBX\<close> and the 64-bit difference.
\<close>

theorem multi_precision_difference:
  "\<exists>lo hi s1 s2. SUB_L al bl s = Ok lo s1 \<and> SUBX_L ah bh (fX (cpu s1)) s1 = Ok hi s2 \<and>
     pair64 hi lo = pair64 ah al - pair64 bh bl"
proof -
  let ?c = "uint al < uint bl"
  have "ah - bh - of_bool ?c = word_of_int (uint ah - uint bh - of_bool ?c)"
    by simp
  then have "pair64 (ah - bh - of_bool ?c) (al - bl) = 
      word_of_int (2 ^ 32 * (uint ah - uint bh - of_bool ?c) + uint (al - bl))"
    by (simp only: pair64_of_int)
  also have "\<dots> = word_of_int ((2 ^ 32 * uint ah + uint al) - (2 ^ 32 * uint bh + uint bl))"
    by (simp add: uint_difference algebra_simps)
  also have "\<dots> = pair64 ah al - pair64 bh bl"
    using pair64_of_int [of "uint ah" al] pair64_of_int [of "uint bh" bl] by simp
  finally show ?thesis
    by (simp add: difference_runs SUBX_L_run sub_codes_def diff_diff_eq)
qed

lemma sint_product:
  fixes a b :: "'a::len word"
  assumes "LENGTH('b::len) = 2 * LENGTH('a)"
  shows "sint (scast a * scast b :: 'b word) = sint a * sint b"
proof -
  let ?h = "2 ^ (LENGTH('a) - 1) :: int"
  have h: "?h * ?h * 2 = 2 ^ (LENGTH('b) - 1)"
  proof -
    have "LENGTH('b) - 1 = (LENGTH('a) - 1) + (LENGTH('a) - 1) + 1"
      using assms len_gt_0 [where 'a = 'a] by linarith
    then show ?thesis by (simp add: power_add)
  qed
  have "\<bar>sint a\<bar> \<le> ?h" "\<bar>sint b\<bar> \<le> ?h"
    using sint_range [of a] sint_range [of b] by linarith+
  then have "\<bar>sint a * sint b\<bar> \<le> ?h * ?h"
    unfolding abs_mult by (intro mult_mono) simp_all
  moreover have "0 < ?h * ?h" by simp
  ultimately have "- (?h * ?h * 2) \<le> sint a * sint b" "sint a * sint b < ?h * ?h * 2"
    by linarith+
  then have "signed_take_bit (LENGTH('b) - 1) (sint a * sint b) = sint a * sint b"
    unfolding h by (intro signed_take_bit_int_eq_self) simp_all
  moreover have "LENGTH('a) \<le> LENGTH('b)" using assms by simp
  ultimately show ?thesis
    by (simp add: sint_word_ariths sint_up_scast is_up)
qed

lemma uint_product:
  fixes a b :: "'a::len word"
  assumes "LENGTH('b::len) = 2 * LENGTH('a)"
  shows "uint (ucast a * ucast b :: 'b word) = uint a * uint b"
proof -
  have "uint a * uint b < 2 ^ LENGTH('a) * 2 ^ LENGTH('a)"
    by (intro mult_strict_mono) simp_all
  also have "\<dots> = 2 ^ LENGTH('b)"
    by (simp add: assms power_add mult_2)
  finally have "take_bit LENGTH('b) (uint a * uint b) = uint a * uint b"
    by (intro take_bit_int_eq_self) simp_all
  moreover have "LENGTH('a) \<le> LENGTH('b)" using assms by simp
  ultimately show ?thesis
    by (simp add: uint_word_ariths uint_up_ucast is_up take_bit_eq_mod)
qed

lemma drop_bit_zero: "drop_bit n v = 0 \<longleftrightarrow> uint v < 2 ^ n" for v :: "'a::len word"
proof -
  have "drop_bit n v = 0 \<longleftrightarrow> uint v div 2 ^ n = 0"
    unfolding uint_0_iff [symmetric] unsigned_drop_bit_eq
    by (simp only: take_bit_int_eq_self uint_range drop_bit_eq_div)
  also have "\<dots> \<longleftrightarrow> uint v < 2 ^ n"
    using uint_range(1) [of v] zero_less_power [of "2 :: int" n] by (subst zdiv_eq_0_iff) auto
  finally show ?thesis .
qed

text \<open>
  Multiplication: the widening multiplications return the exact product, signed or
  unsigned; \<open>MULU.L\<close> and \<open>MULS.L\<close> return its low longword and set V exactly when the product
  does not fit in a longword.
\<close>

theorem products_exact:
  "(\<exists>p s'. MULU_LL a b s = Ok p s' \<and> uint p = uint a * uint b) \<and>
   (\<exists>p s'. MULS_LL a b s = Ok p s' \<and> sint p = sint a * sint b) \<and>
   (\<exists>p s'. MULU_W c d s = Ok p s' \<and> uint p = uint c * uint d) \<and>
   (\<exists>p s'. MULS_W c d s = Ok p s' \<and> sint p = sint c * sint d) \<and>
   (\<exists>p s'. MULU_L a b s = Ok p s' \<and> p = a * b \<and> fV (cpu s') = (2 ^ 32 \<le> uint a * uint b)) \<and>
   (\<exists>p s'. MULS_L a b s = Ok p s' \<and> p = a * b \<and>
      fV (cpu s') = (sint a * sint b < - (2 ^ 31) \<or> 2 ^ 31 \<le> sint a * sint b))"
proof -
  have narrow: "ucast (ucast a * ucast b :: u64) = a * b" "ucast (scast a * scast b :: u64) = a * b"
    using ucast_word_of_int [of "uint a * uint b", where 'a = 32 and 'b = 64]
      ucast_word_of_int [of "sint a * sint b", where 'a = 32 and 'b = 64] by simp_all
  have carry: "drop_bit 32 (ucast a * ucast b :: u64) \<noteq> 0 \<longleftrightarrow> 2 ^ 32 \<le> uint a * uint b"
    using uint_product [of a b, where 'b = 64] by (simp add: drop_bit_zero not_less)
  show ?thesis
    unfolding MULU_LL_def MULS_LL_def MULU_W_def MULS_W_def MULU_L_def MULS_L_def Let_def
    by (auto simp: narrow carry sint_product uint_product)
qed

section \<open>Quotients and remainders\<close>

text \<open>The quotient and remainder of the signed division of C++.\<close>

definition truncated :: "int \<Rightarrow> int \<Rightarrow> int \<Rightarrow> int \<Rightarrow> bool" where
  "truncated a b q r \<longleftrightarrow> a = q * b + r \<and> \<bar>r\<bar> < \<bar>b\<bar> \<and> (r = 0 \<or> sgn r = sgn a)"

lemma truncated_sdiv: "b \<noteq> 0 \<Longrightarrow> truncated a b (a sdiv b) (a smod b)"
proof -
  assume b: "b \<noteq> 0"
  have "\<bar>a\<bar> mod \<bar>b\<bar> = 0 \<or> sgn (\<bar>a\<bar> mod \<bar>b\<bar>) = 1"
    using b pos_mod_sign [of "\<bar>b\<bar>" "\<bar>a\<bar>"] unfolding sgn_1_pos by linarith
  then have "a smod b = 0 \<or> sgn (a smod b) = sgn a"
    by (auto simp: smod_int_alt_def sgn_mult)
  with b smod_int_range [of b a] sdiv_mult_smod_eq [of a b] show ?thesis
    by (auto simp: truncated_def)
qed

lemma quotient_range:
  fixes a b :: "'a::len word"
  assumes "b \<noteq> 0" "\<not> (sint a = - (2 ^ (LENGTH('a) - 1)) \<and> sint b = - 1)"
  shows "sint (sdivw a b) = sint a sdiv sint b" and "sint (smodw a b) = sint a smod sint b"
proof -
  let ?h = "2 ^ (LENGTH('a) - 1) :: int"
  have a: "\<bar>sint a\<bar> \<le> ?h" and b: "\<bar>sint b\<bar> \<le> ?h"
    using sint_range [of a] sint_range [of b] by linarith+
  have nz: "sint b \<noteq> 0" using assms(1) by (simp add: signed_eq_0_iff)
  have q: "sint a sdiv sint b \<in> {- \<bar>sint a\<bar>..\<bar>sint a\<bar>}" by (rule sdiv_int_range)
  have "sint a sdiv sint b \<noteq> ?h"
  proof
    assume eq: "sint a sdiv sint b = ?h"
    with q a have abs: "\<bar>sint a\<bar> = ?h" by auto
    with sint_range(2) [of a] have "sint a = - ?h" by linarith
    with eq have "sint a sdiv sint b = - sint a" "sint a \<noteq> 0" by simp_all
    then have "sint b = - 1" using int_sdiv_negated_is_minus1 by blast
    with assms(2) \<open>sint a = - ?h\<close> show False by simp
  qed
  with q a show "sint (sdivw a b) = sint a sdiv sint b"
    unfolding sdivw_def by (intro sint_of_int) auto
  have "sint a smod sint b \<in> {- \<bar>sint b\<bar> + 1..\<bar>sint b\<bar> - 1}" by (rule smod_int_range [OF nz])
  with b show "sint (smodw a b) = sint a smod sint b"
    unfolding smodw_def by (intro sint_of_int) auto
qed

text \<open>
  C29. Unsigned division by a divisor that is not 0 returns the remainder of the dividend, and
  its quotient when that fits the quotient register, which is exactly when V is clear.
\<close>

theorem unsigned_division:
  assumes "b \<noteq> 0" and "c \<noteq> 0"
  shows "(\<exists>q r s'. DIVU_W a b s = Ok (q, r) s' \<and>
       fV (cpu s') = (2 ^ 16 \<le> uint a div uint b) \<and> uint r = uint a mod uint b \<and>
       (fV (cpu s') \<or> uint q = uint a div uint b)) \<and>
     (\<exists>q r s'. DIVU_L a c s = Ok (q, r) s' \<and> \<not> fV (cpu s') \<and>
       uint q = uint a div uint c \<and> uint r = uint a mod uint c) \<and>
     (\<exists>q r s'. DIVU_LL e c s = Ok (q, r) s' \<and>
       fV (cpu s') = (2 ^ 32 \<le> uint e div uint c) \<and> uint r = uint e mod uint c \<and>
       (fV (cpu s') \<or> uint q = uint e div uint c))"
proof -
  have pos: "0 < uint b" "0 < uint c"
    using assms uint_range(1) [of b] uint_range(1) [of c] by (simp_all add: less_le uint_0_iff)
  have r: "uint a mod uint b < 2 ^ 16" "uint e mod uint c < 2 ^ 32"
    using pos_mod_bound [OF pos(1), of "uint a"] pos_mod_bound [OF pos(2), of "uint e"]
      uint_range(2) [of b] uint_range(2) [of c] by simp_all
  have w: "uint (a div ucast b) = uint a div uint b" "uint (a mod ucast b) = uint a mod uint b"
    "uint (e div ucast c) = uint e div uint c" "uint (e mod ucast c) = uint e mod uint c"
    "uint (a div c) = uint a div uint c" "uint (a mod c) = uint a mod uint c"
    by (simp_all add: uint_div uint_mod uint_up_ucast is_up)
  have n: "2 ^ 16 \<le> uint a div uint b \<or> uint (ucast (a div ucast b) :: u16) = uint a div uint b"
    "2 ^ 32 \<le> uint e div uint c \<or> uint (ucast (e div ucast c) :: u32) = uint e div uint c"
    by (cases "2 ^ 16 \<le> uint a div uint b"; simp add: uint_narrow w)
      (cases "2 ^ 32 \<le> uint e div uint c"; simp add: uint_narrow w)
  show ?thesis
    using assms r n
    by (auto simp: DIVU_W_def DIVU_L_def DIVU_LL_def Let_def drop_bit_zero w not_less uint_narrow)
qed


lemma extreme_values:
  "sint a = - 2147483648 \<longleftrightarrow> a = 0x80000000" "sint c = - 1 \<longleftrightarrow> c = 0xffffffff"
  "sint e = - 9223372036854775808 \<longleftrightarrow> e = 0x8000000000000000" "sint b = - 1 \<longleftrightarrow> b = 0xffff"
  for a c :: u32 and e :: u64 and b :: u16
proof -
  have "sint (0x80000000 :: u32) = - 2147483648" "sint (0xffffffff :: u32) = - 1"
    "sint (0x8000000000000000 :: u64) = - 9223372036854775808" "sint (0xffff :: u16) = - 1"
    by simp_all
  then show "sint a = - 2147483648 \<longleftrightarrow> a = 0x80000000" "sint c = - 1 \<longleftrightarrow> c = 0xffffffff"
    "sint e = - 9223372036854775808 \<longleftrightarrow> e = 0x8000000000000000" "sint b = - 1 \<longleftrightarrow> b = 0xffff"
    by (metis signed_word_eqI)+
qed

lemma signed_remainder_fits:
  fixes b :: "'b::len word"
  assumes "LENGTH('b) \<le> LENGTH('a)" "sint (w :: 'a::len word) = x smod sint b" "sint b \<noteq> 0"
  shows "sint (ucast w :: 'b word) = x smod sint b"
proof -
  have "\<bar>sint b\<bar> \<le> 2 ^ (LENGTH('b) - 1)"
    using sint_range [of b] by linarith
  with smod_int_range [OF assms(3), of x] assms(2) show ?thesis
    by (subst sint_narrow [OF assms(1)]) auto
qed

theorem unsigned_division_witness:
  "\<exists>q r s'. DIVU_W 100000 7 small_machine = Ok (q, r) s' \<and> uint q = 14285 \<and> uint r = 5"
  using unsigned_division [of 7 1 100000 small_machine 0] by auto

text \<open>
  C30. Signed division truncates towards zero: when V is clear, dividend = quotient * divisor +
  remainder, the remainder is smaller than the divisor and has the sign of the dividend; V says
  that the quotient does not fit. The divisor is not 0, and the dividend is not the least
  number of its type with the divisor -1.
\<close>

theorem signed_division:
  assumes "b \<noteq> 0" and "c \<noteq> 0" and "\<not> (a = 0x80000000 \<and> (b = 0xffff \<or> c = 0xffffffff))"
    and "\<not> (e = 0x8000000000000000 \<and> c = 0xffffffff)"
  shows "(\<exists>q r s'. DIVS_W a b s = Ok (q, r) s' \<and>
       fV (cpu s') = (sint a sdiv sint b \<notin> {- (2 ^ 15)..<2 ^ 15}) \<and>
       (fV (cpu s') \<or> truncated (sint a) (sint b) (sint q) (sint r))) \<and>
     (\<exists>q r s'. DIVS_L a c s = Ok (q, r) s' \<and> \<not> fV (cpu s') \<and>
       truncated (sint a) (sint c) (sint q) (sint r)) \<and>
     (\<exists>q r s'. DIVS_LL e c s = Ok (q, r) s' \<and>
       fV (cpu s') = (sint e sdiv sint c \<notin> {- (2 ^ 31)..<2 ^ 31}) \<and>
       (fV (cpu s') \<or> truncated (sint e) (sint c) (sint q) (sint r)))"
    (is "?W \<and> ?L \<and> ?Q")
proof -
  have nz: "sint b \<noteq> 0" "sint c \<noteq> 0" using assms(1,2) by (simp_all add: signed_eq_0_iff)
  have up: "sint (scast b :: u32) = sint b" "sint (scast c :: u64) = sint c"
    by (simp_all add: sint_up_scast is_up)
  then have nz': "(scast b :: u32) \<noteq> 0" "(scast c :: u64) \<noteq> 0"
    using nz by (metis signed_0)+
  have W: "sint (sdivw a (scast b)) = sint a sdiv sint b" "sint (smodw a (scast b)) = sint a smod sint b"
    using quotient_range [OF nz'(1), of a] assms(3) by (auto simp: up extreme_values)
  have L: "sint (sdivw a c) = sint a sdiv sint c" "sint (smodw a c) = sint a smod sint c"
    using quotient_range [OF assms(2), of a] assms(3) by (auto simp: extreme_values)
  have Q: "sint (sdivw e (scast c)) = sint e sdiv sint c" "sint (smodw e (scast c)) = sint e smod sint c"
    using quotient_range [OF nz'(2), of e] assms(4) by (auto simp: up extreme_values)
  have n: "sint a sdiv sint b \<notin> {- (2 ^ 15)..<2 ^ 15} \<or>
      sint (ucast (sdivw a (scast b)) :: u16) = sint a sdiv sint b"
    "sint e sdiv sint c \<notin> {- (2 ^ 31)..<2 ^ 31} \<or>
      sint (ucast (sdivw e (scast c)) :: u32) = sint e sdiv sint c"
    by (cases "sint a sdiv sint b \<in> {- (2 ^ 15)..<2 ^ 15}"; simp add: sint_narrow W)
      (cases "sint e sdiv sint c \<in> {- (2 ^ 31)..<2 ^ 31}"; simp add: sint_narrow Q)
  have ?W
    using assms(1,3) n(1) signed_remainder_fits [OF _ W(2) nz(1)] truncated_sdiv [OF nz(1), of "sint a"]
    by (auto simp: DIVS_W_def Let_def W)
  moreover have ?L
    using assms(2,3) truncated_sdiv [OF nz(2), of "sint a"] by (auto simp: DIVS_L_def Let_def L)
  moreover have ?Q
    using assms(2,4) n(2) signed_remainder_fits [OF _ Q(2) nz(2)] truncated_sdiv [OF nz(2), of "sint e"]
    by (auto simp: DIVS_LL_def Let_def Q)
  ultimately show ?thesis by blast
qed

theorem signed_division_witness:
  "\<exists>q r s'. DIVS_L (- 7) 2 small_machine = Ok (q, r) s' \<and> truncated (- 7) 2 (sint q) (sint r)"
  using signed_division [of 1 2 "- 7" 0 small_machine] by auto

text \<open>
  Division by 0 raises the guest exception 5 before anything is changed, for every
  division.
\<close>

theorem division_by_zero:
  "DIVU_W a 0 s = Raise (if inJit (cpu s) then JitLongjmp 5 else M68kException 5) s \<and>
   DIVS_W a 0 s = Raise (if inJit (cpu s) then JitLongjmp 5 else M68kException 5) s \<and>
   DIVU_L a 0 s = Raise (if inJit (cpu s) then JitLongjmp 5 else M68kException 5) s \<and>
   DIVS_L a 0 s = Raise (if inJit (cpu s) then JitLongjmp 5 else M68kException 5) s \<and>
   DIVU_LL e 0 s = Raise (if inJit (cpu s) then JitLongjmp 5 else M68kException 5) s \<and>
   DIVS_LL e 0 s = Raise (if inJit (cpu s) then JitLongjmp 5 else M68kException 5) s"
  by (simp add: DIVU_W_def DIVS_W_def DIVU_L_def DIVS_L_def DIVU_LL_def DIVS_LL_def
      DIV0_ERROR_def RAISE_run)

end
