(* ===== verification/Bits.thy ===== *)
theory Bits
  imports Machine
begin

text \<open>
  Logic, single bits, shifts and rotates with condition codes: src/cpu/bits.cc. A shift
  count is a \<open>uint8_t\<close>, never negative, and is kept as a \<open>nat\<close>. Operands narrower than
  \<open>int\<close> are promoted: \<open>scast\<close> or \<open>ucast\<close> to 32 bits before the shift. A shift by a
  negative amount or by at least the width has no meaning in C++; \<open>defined\<close> guards the
  counts for which the expressions of the source can meet one.
\<close>

definition defined :: "bool \<Rightarrow> ('s, 'a) monad \<Rightarrow> ('s, 'a) monad" where
  "defined b m = (if b then m else throw Undefined)"

lemma defined_True [run_simps, simp]: "defined True m = m"
  and defined_False [run_simps, simp]: "defined False m = throw Undefined"
  by (simp_all add: defined_def)

lemma keeps_defined [keeps_intro]:
  "E Undefined \<Longrightarrow> (b \<Longrightarrow> keeps I E m) \<Longrightarrow> keeps I E (defined b m)"
  by (simp add: defined_def keeps_throw)

definition set_VC_clear :: "('d, unit) mach" where
  "set_VC_clear = cmod (\<lambda>k. k\<lparr>fV := False, fC := False\<rparr>)"

definition set_V :: "bool \<Rightarrow> ('d, unit) mach" where
  "set_V b = cmod (\<lambda>k. k\<lparr>fV := b\<rparr>)"

definition set_C :: "bool \<Rightarrow> ('d, unit) mach" where
  "set_C b = cmod (\<lambda>k. k\<lparr>fC := b\<rparr>)"

definition set_XC :: "bool \<Rightarrow> ('d, unit) mach" where
  "set_XC b = cmod (\<lambda>k. k\<lparr>fX := b, fC := b\<rparr>)"

lemma set_flags_run [run_simps, simp]:
  "set_VC_clear s = Ok () (s\<lparr>cpu := (cpu s)\<lparr>fV := False, fC := False\<rparr>\<rparr>)"
  "set_V b s = Ok () (s\<lparr>cpu := (cpu s)\<lparr>fV := b\<rparr>\<rparr>)"
  "set_C b s = Ok () (s\<lparr>cpu := (cpu s)\<lparr>fC := b\<rparr>\<rparr>)"
  "set_XC b s = Ok () (s\<lparr>cpu := (cpu s)\<lparr>fX := b, fC := b\<rparr>\<rparr>)"
  by (simp_all add: set_VC_clear_def set_V_def set_C_def set_XC_def)

section \<open>Logic\<close>

definition AND_B :: "u8 \<Rightarrow> u8 \<Rightarrow> ('d, u8) mach" where
  "AND_B a b = seq (TEST_B (a AND b)) (seq set_VC_clear (return (a AND b)))"

definition AND_W :: "u16 \<Rightarrow> u16 \<Rightarrow> ('d, u16) mach" where
  "AND_W a b = seq (TEST_W (a AND b)) (seq set_VC_clear (return (a AND b)))"

definition AND_L :: "u32 \<Rightarrow> u32 \<Rightarrow> ('d, u32) mach" where
  "AND_L a b = seq (TEST_L (a AND b)) (seq set_VC_clear (return (a AND b)))"

definition OR_B :: "u8 \<Rightarrow> u8 \<Rightarrow> ('d, u8) mach" where
  "OR_B a b = seq (TEST_B (a OR b)) (seq set_VC_clear (return (a OR b)))"

definition OR_W :: "u16 \<Rightarrow> u16 \<Rightarrow> ('d, u16) mach" where
  "OR_W a b = seq (TEST_W (a OR b)) (seq set_VC_clear (return (a OR b)))"

definition OR_L :: "u32 \<Rightarrow> u32 \<Rightarrow> ('d, u32) mach" where
  "OR_L a b = seq (TEST_L (a OR b)) (seq set_VC_clear (return (a OR b)))"

definition XOR_B :: "u8 \<Rightarrow> u8 \<Rightarrow> ('d, u8) mach" where
  "XOR_B a b = seq (TEST_B (a XOR b)) (seq set_VC_clear (return (a XOR b)))"

definition XOR_W :: "u16 \<Rightarrow> u16 \<Rightarrow> ('d, u16) mach" where
  "XOR_W a b = seq (TEST_W (a XOR b)) (seq set_VC_clear (return (a XOR b)))"

definition XOR_L :: "u32 \<Rightarrow> u32 \<Rightarrow> ('d, u32) mach" where
  "XOR_L a b = seq (TEST_L (a XOR b)) (seq set_VC_clear (return (a XOR b)))"

definition NOT_B :: "u8 \<Rightarrow> ('d, u8) mach" where
  "NOT_B v = seq (TEST_B (NOT v)) (return (NOT v))"

definition NOT_W :: "u16 \<Rightarrow> ('d, u16) mach" where
  "NOT_W v = seq (TEST_W (NOT v)) (return (NOT v))"

definition NOT_L :: "u32 \<Rightarrow> ('d, u32) mach" where
  "NOT_L v = seq (TEST_L (NOT v)) (return (NOT v))"

section \<open>Single bits\<close>

definition BTST_B :: "u8 \<Rightarrow> nat \<Rightarrow> ('d, unit) mach" where
  "BTST_B v b = defined (b < 32) (cmod (\<lambda>k. k\<lparr>fZ := \<not> bit_at v b\<rparr>))"

definition BTST_L :: "u32 \<Rightarrow> nat \<Rightarrow> ('d, unit) mach" where
  "BTST_L v b = defined (b < 32) (cmod (\<lambda>k. k\<lparr>fZ := \<not> bit_at v b\<rparr>))"

definition BCHG_B :: "u8 \<Rightarrow> nat \<Rightarrow> ('d, u8) mach" where
  "BCHG_B v b = seq (BTST_B v b) (return (v XOR push_bit b 1))"

definition BCHG_L :: "u32 \<Rightarrow> nat \<Rightarrow> ('d, u32) mach" where
  "BCHG_L v b = seq (BTST_L v b) (return (v XOR push_bit b 1))"

definition BCLR_B :: "u8 \<Rightarrow> nat \<Rightarrow> ('d, u8) mach" where
  "BCLR_B v b = seq (BTST_B v b) (return (v AND NOT (push_bit b 1)))"

definition BCLR_L :: "u32 \<Rightarrow> nat \<Rightarrow> ('d, u32) mach" where
  "BCLR_L v b = seq (BTST_L v b) (return (v AND NOT (push_bit b 1)))"

definition BSET_B :: "u8 \<Rightarrow> nat \<Rightarrow> ('d, u8) mach" where
  "BSET_B v b = seq (BTST_B v b) (return (v OR push_bit b 1))"

definition BSET_L :: "u32 \<Rightarrow> nat \<Rightarrow> ('d, u32) mach" where
  "BSET_L v b = seq (BTST_L v b) (return (v OR push_bit b 1))"

section \<open>Shifts\<close>

definition ASL_B :: "u8 \<Rightarrow> nat \<Rightarrow> ('d, u8) mach" where
  "ASL_B v c0 =
     (if c0 = 0 then seq (set_C False) (seq (TEST_B v) (return v))
      else
        let c = (if 31 < c0 then 31 else c0);
            re = (ucast (push_bit c (scast v :: u32)) :: u8);
            so = (if 7 < c then v else signed_drop_bit (7 - c) v)
        in seq (set_C (push_bit (c - 1) (scast v :: u32) AND 0x80 \<noteq> 0))
          (seq (TEST_B re)
          (seq (cmod (\<lambda>k. k\<lparr>fX := fC k\<rparr>))
          (seq (set_V (so \<noteq> signed_drop_bit 7 v))
               (return re)))))"

definition ASL_W :: "u16 \<Rightarrow> nat \<Rightarrow> ('d, u16) mach" where
  "ASL_W v c0 =
     (if c0 = 0 then seq (set_C False) (seq (TEST_W v) (return v))
      else
        let c = (if 31 < c0 then 31 else c0);
            re = (ucast (push_bit c (scast v :: u32)) :: u16);
            so = (if 15 < c then v else signed_drop_bit (15 - c) v)
        in seq (set_C (push_bit (c - 1) (scast v :: u32) AND 0x8000 \<noteq> 0))
          (seq (TEST_W re)
          (seq (cmod (\<lambda>k. k\<lparr>fX := fC k\<rparr>))
          (seq (set_V (so \<noteq> signed_drop_bit 15 v))
               (return re)))))"

definition ASL_L :: "u32 \<Rightarrow> nat \<Rightarrow> ('d, u32) mach" where
  "ASL_L v c =
     (if c = 0 then seq (set_C False) (seq (TEST_L v) (return v))
      else
        let re = (if 31 < c then 0 else push_bit c v);
            so = (if 31 < c then v else signed_drop_bit (31 - c) v);
            carry = (if 31 < c then (if c = 32 then bit_at v 0 else False)
                     else push_bit (c - 1) v AND 0x80000000 \<noteq> 0)
        in seq (set_C carry)
          (seq (TEST_L re)
          (seq (cmod (\<lambda>k. k\<lparr>fX := fC k\<rparr>))
          (seq (set_V (so \<noteq> signed_drop_bit 31 v))
               (return re)))))"

definition ASR_B :: "u8 \<Rightarrow> nat \<Rightarrow> ('d, u8) mach" where
  "ASR_B v c0 =
     (if c0 = 0 then seq (set_C False) (seq (TEST_B v) (return v))
      else
        let c = (if 31 < c0 then 31 else c0);
            re = (ucast (signed_drop_bit c (scast v :: u32)) :: u8)
        in seq (set_V False)
          (seq (set_C (bit_at (signed_drop_bit (c - 1) (scast v :: u32)) 0))
          (seq (TEST_B re)
          (seq (cmod (\<lambda>k. k\<lparr>fX := fC k\<rparr>))
               (return re)))))"

definition ASR_W :: "u16 \<Rightarrow> nat \<Rightarrow> ('d, u16) mach" where
  "ASR_W v c0 =
     (if c0 = 0 then seq (set_C False) (seq (TEST_W v) (return v))
      else
        let c = (if 31 < c0 then 31 else c0);
            re = (ucast (signed_drop_bit c (scast v :: u32)) :: u16)
        in seq (set_V False)
          (seq (set_C (bit_at (signed_drop_bit (c - 1) (scast v :: u32)) 0))
          (seq (TEST_W re)
          (seq (cmod (\<lambda>k. k\<lparr>fX := fC k\<rparr>))
               (return re)))))"

definition ASR_L :: "u32 \<Rightarrow> nat \<Rightarrow> ('d, u32) mach" where
  "ASR_L v c =
     (if c = 0 then seq (set_C False) (seq (TEST_L v) (return v))
      else
        let re = (if c < 32 then signed_drop_bit c v else signed_drop_bit 1 (signed_drop_bit 31 v));
            carry = (if c < 32 then bit_at (signed_drop_bit (c - 1) v) 0
                     else bit_at (signed_drop_bit 31 v) 0)
        in seq (set_V False)
          (seq (set_C carry)
          (seq (TEST_L re)
          (seq (cmod (\<lambda>k. k\<lparr>fX := fC k\<rparr>))
               (return re)))))"

definition LSR_B :: "u8 \<Rightarrow> nat \<Rightarrow> ('d, u8) mach" where
  "LSR_B v c0 =
     (if c0 = 0 then seq (set_C False) (seq (TEST_B v) (return v))
      else
        let c = (if 31 < c0 then 31 else c0); re = drop_bit c v
        in seq (set_V False)
          (seq (set_C (bit_at (drop_bit (c - 1) v) 0))
          (seq (TEST_B re)
          (seq (cmod (\<lambda>k. k\<lparr>fX := fC k\<rparr>))
               (return re)))))"

definition LSR_W :: "u16 \<Rightarrow> nat \<Rightarrow> ('d, u16) mach" where
  "LSR_W v c0 =
     (if c0 = 0 then seq (set_C False) (seq (TEST_W v) (return v))
      else
        let c = (if 31 < c0 then 31 else c0); re = drop_bit c v
        in seq (set_V False)
          (seq (set_C (bit_at (drop_bit (c - 1) v) 0))
          (seq (TEST_W re)
          (seq (cmod (\<lambda>k. k\<lparr>fX := fC k\<rparr>))
               (return re)))))"

definition LSR_L :: "u32 \<Rightarrow> nat \<Rightarrow> ('d, u32) mach" where
  "LSR_L v c =
     (if c = 0 then seq (set_C False) (seq (TEST_L v) (return v))
      else
        let re = (if 31 < c then 0 else drop_bit c v);
            carry = (if 31 < c then bit_at (drop_bit (c - 1) (ucast v :: u64)) 0
                     else bit_at (drop_bit (c - 1) v) 0)
        in seq (set_V False)
          (seq (defined (c - 1 < 64) (set_C carry))
          (seq (TEST_L re)
          (seq (cmod (\<lambda>k. k\<lparr>fX := fC k\<rparr>))
               (return re)))))"

definition LSL_B :: "u8 \<Rightarrow> nat \<Rightarrow> ('d, u8) mach" where
  "LSL_B v c0 =
     (if c0 = 0 then seq (set_C False) (seq (TEST_B v) (return v))
      else
        let c = (if 31 < c0 then 31 else c0);
            re = (ucast (push_bit c (ucast v :: u32)) :: u8)
        in seq (set_XC (push_bit (c - 1) (ucast v :: u32) AND 0x80 \<noteq> 0))
          (seq (TEST_B re)
          (seq (set_V False)
               (return re))))"

definition LSL_W :: "u16 \<Rightarrow> nat \<Rightarrow> ('d, u16) mach" where
  "LSL_W v c0 =
     (if c0 = 0 then seq (set_C False) (seq (TEST_W v) (return v))
      else
        let c = (if 31 < c0 then 31 else c0);
            re = (ucast (push_bit c (ucast v :: u32)) :: u16)
        in seq (set_XC (push_bit (c - 1) (ucast v :: u32) AND 0x8000 \<noteq> 0))
          (seq (TEST_W re)
          (seq (set_V False)
               (return re))))"

definition LSL_L :: "u32 \<Rightarrow> nat \<Rightarrow> ('d, u32) mach" where
  "LSL_L v c =
     (if c = 0 then seq (set_C False) (seq (TEST_L v) (return v))
      else
        let re = (if 31 < c then 0 else push_bit c v);
            carry = (if 31 < c then (if c = 32 then bit_at v 0 else False)
                     else push_bit (c - 1) v AND 0x80000000 \<noteq> 0)
        in seq (set_XC carry)
          (seq (TEST_L re)
          (seq (set_V False)
               (return re))))"

section \<open>Rotates\<close>

definition ROR_B :: "u8 \<Rightarrow> nat \<Rightarrow> ('d, u8) mach" where
  "ROR_B v c0 =
     seq (set_V False)
     (if c0 = 0 then seq (TEST_B v) (seq (set_C False) (return v))
      else
        let c = (if 8 < c0 then c0 mod 8 else c0);
            re = drop_bit c v OR push_bit (8 - c) v
        in seq (defined (1 \<le> c) (set_C (bit_at v (c - 1))))
          (seq (TEST_B re)
               (return re)))"

definition ROR_W :: "u16 \<Rightarrow> nat \<Rightarrow> ('d, u16) mach" where
  "ROR_W v c0 =
     seq (set_V False)
     (if c0 = 0 then seq (TEST_W v) (seq (set_C False) (return v))
      else
        let c = (if 16 < c0 then c0 mod 16 else c0);
            re = drop_bit c v OR push_bit (16 - c) v
        in seq (defined (1 \<le> c) (set_C (bit_at v (c - 1))))
          (seq (TEST_W re)
               (return re)))"

definition ROR_L :: "u32 \<Rightarrow> nat \<Rightarrow> ('d, u32) mach" where
  "ROR_L v c0 =
     seq (set_V False)
     (if c0 = 0 then seq (TEST_L v) (seq (set_C False) (return v))
      else
        let c = c0 mod 32;
            re = (if c = 0 then v else drop_bit c v OR push_bit (32 - c) v)
        in seq (set_C (if c = 0 then bit_at v 31 else bit_at v (c - 1)))
          (seq (TEST_L re)
               (return re)))"

definition ROL_B :: "u8 \<Rightarrow> nat \<Rightarrow> ('d, u8) mach" where
  "ROL_B v c0 =
     seq (set_V False)
     (if c0 = 0 then seq (TEST_B v) (seq (set_C False) (return v))
      else
        let c = c0 mod 8;
            re = push_bit c v OR drop_bit (8 - c) v
        in seq (set_C (bit_at (ucast v :: u32) (8 - c)))
          (seq (TEST_B re)
               (return re)))"

definition ROL_W :: "u16 \<Rightarrow> nat \<Rightarrow> ('d, u16) mach" where
  "ROL_W v c0 =
     seq (set_V False)
     (if c0 = 0 then seq (TEST_W v) (seq (set_C False) (return v))
      else
        let c = c0 mod 16;
            re = push_bit c v OR drop_bit (16 - c) v
        in seq (set_C (bit_at (ucast v :: u32) (16 - c)))
          (seq (TEST_W re)
               (return re)))"

definition ROL_L :: "u32 \<Rightarrow> nat \<Rightarrow> ('d, u32) mach" where
  "ROL_L v c0 =
     seq (set_V False)
     (if c0 = 0 then seq (TEST_L v) (seq (set_C False) (return v))
      else
        let c = c0 mod 32;
            re = push_bit c v OR drop_bit (32 - c) v
        in defined (1 \<le> c)
          (seq (set_XC (bit_at v (32 - c)))
          (seq (TEST_L re)
               (return re))))"

definition ROXR_B :: "u8 \<Rightarrow> nat \<Rightarrow> bool \<Rightarrow> ('d, u8) mach" where
  "ROXR_B v c0 old_x =
     seq (set_V False)
     (if c0 = 0 then seq (TEST_B v) (seq (set_C old_x) (return v))
      else
        let c = (c0 mod 64) mod 9;
            re = drop_bit c v OR push_bit (8 - c) (of_bool old_x) OR push_bit (9 - c) v
        in seq (defined (1 \<le> c) (set_XC (bit_at v (c - 1))))
          (seq (TEST_B re)
               (return re)))"

definition ROXR_W :: "u16 \<Rightarrow> nat \<Rightarrow> bool \<Rightarrow> ('d, u16) mach" where
  "ROXR_W v c0 old_x =
     seq (set_V False)
     (if c0 = 0 then seq (TEST_W v) (seq (set_C old_x) (return v))
      else
        let c = (c0 mod 64) mod 17;
            re = drop_bit c v OR push_bit (16 - c) (of_bool old_x) OR push_bit (17 - c) v
        in seq (defined (1 \<le> c) (set_XC (bit_at v (c - 1))))
          (seq (TEST_W re)
               (return re)))"

definition ROXR_L :: "u32 \<Rightarrow> nat \<Rightarrow> bool \<Rightarrow> ('d, u32) mach" where
  "ROXR_L v c0 old_x =
     seq (set_V False)
     (if c0 = 0 then seq (TEST_L v) (seq (set_C old_x) (return v))
      else
        let c = (c0 mod 64) mod 33;
            re = (ucast (drop_bit c (ucast v :: u64) OR push_bit (32 - c) (of_bool old_x)
                    OR push_bit (33 - c) (ucast v)) :: u32)
        in defined (1 \<le> c)
          (seq (set_XC (bit_at v (c - 1)))
          (seq (TEST_L re)
               (return re))))"

definition ROXL_B :: "u8 \<Rightarrow> nat \<Rightarrow> bool \<Rightarrow> ('d, u8) mach" where
  "ROXL_B v c0 old_x =
     seq (set_V False)
     (if c0 = 0 then seq (TEST_B v) (seq (set_C old_x) (return v))
      else
        let c = (c0 mod 64) mod 9;
            re = push_bit c v OR push_bit (c - 1) (of_bool old_x) OR drop_bit (9 - c) v
        in defined (1 \<le> c)
          (seq (set_XC (bit_at v (8 - c)))
          (seq (TEST_B re)
               (return re))))"

definition ROXL_W :: "u16 \<Rightarrow> nat \<Rightarrow> bool \<Rightarrow> ('d, u16) mach" where
  "ROXL_W v c0 old_x =
     seq (set_V False)
     (if c0 = 0 then seq (TEST_W v) (seq (set_C old_x) (return v))
      else
        let c = (c0 mod 64) mod 17;
            re = push_bit c v OR push_bit (c - 1) (of_bool old_x) OR drop_bit (17 - c) v
        in defined (1 \<le> c)
          (seq (set_XC (bit_at v (16 - c)))
          (seq (TEST_W re)
               (return re))))"

definition ROXL_L :: "u32 \<Rightarrow> nat \<Rightarrow> bool \<Rightarrow> ('d, u32) mach" where
  "ROXL_L v c0 old_x =
     seq (set_V False)
     (if c0 = 0 then seq (TEST_L v) (seq (set_C old_x) (return v))
      else
        let c = (c0 mod 64) mod 33;
            re = (if c = 0 then v
                  else if c = 32 then drop_bit 1 v OR push_bit 31 (of_bool old_x)
                  else push_bit c v OR push_bit (c - 1) (of_bool old_x)
                    OR (if c = 1 then 0 else drop_bit (33 - c) v));
            carry = (if c = 0 then old_x else if c = 32 then bit_at v 0 else bit_at v (32 - c))
        in seq (set_XC carry)
          (seq (TEST_L re)
               (return re)))"

section \<open>Shifts and rotates as functions of words\<close>

definition shift_codes :: "bool \<Rightarrow> 'a::len word \<Rightarrow> cpu \<Rightarrow> cpu" where
  "shift_codes c re k = k\<lparr>fX := c, fC := c, fV := False, fN := neg re, fZ := re = 0\<rparr>"

lemma flags_order: "k\<lparr>fN := a, fZ := b, fV := c\<rparr> = k\<lparr>fV := c, fN := a, fZ := b\<rparr>" for k :: cpu
  by (rule cpu.equality) simp_all

lemma LSR_runs:
  assumes "1 \<le> n" "n \<le> 63"
  shows "LSR_B b n s = Ok (drop_bit n b) (s\<lparr>cpu := shift_codes (bit b (n - 1)) (drop_bit n b) (cpu s)\<rparr>)"
    "LSR_W w n s = Ok (drop_bit n w) (s\<lparr>cpu := shift_codes (bit w (n - 1)) (drop_bit n w) (cpu s)\<rparr>)"
    "LSR_L l n s = Ok (drop_bit n l) (s\<lparr>cpu := shift_codes (bit l (n - 1)) (drop_bit n l) (cpu s)\<rparr>)"
proof -
  obtain k where n: "n = Suc k" "k < 63" using assms by (cases n) auto
  show "LSR_B b n s = Ok (drop_bit n b) (s\<lparr>cpu := shift_codes (bit b (n - 1)) (drop_bit n b) (cpu s)\<rparr>)"
    "LSR_W w n s = Ok (drop_bit n w) (s\<lparr>cpu := shift_codes (bit w (n - 1)) (drop_bit n w) (cpu s)\<rparr>)"
    "LSR_L l n s = Ok (drop_bit n l) (s\<lparr>cpu := shift_codes (bit l (n - 1)) (drop_bit n l) (cpu s)\<rparr>)"
  using n(2) unfolding n(1)
  by (auto simp: LSR_B_def LSR_W_def LSR_L_def Let_def shift_codes_def bit_at_iff bit_simps
      drop_bit_beyond bit_beyond)
qed
lemma top_masks:
  "v AND 0x80 \<noteq> 0 \<longleftrightarrow> bit v 7" "v AND 0x8000 \<noteq> 0 \<longleftrightarrow> bit v 15" 
  "v AND 0x80000000 \<noteq> 0 \<longleftrightarrow> bit v 31" 
  for v :: "'a::len word"
  using mask_bit [of v 7] mask_bit [of v 15]  mask_bit [of v 31] by simp_all

lemma ucast_push: "LENGTH('a) \<le> LENGTH('b) \<Longrightarrow> ucast (push_bit n (ucast v :: 'b::len word)) = (push_bit n v :: 'a::len word)"
  by (rule bit_word_eqI) (auto simp: bit_simps)

lemma LSL_runs:
  assumes "1 \<le> n" "n \<le> 63"
  shows "LSL_B b n s = Ok (push_bit n b) (s\<lparr>cpu := shift_codes (n \<le> 8 \<and> bit b (8 - n)) (push_bit n b) (cpu s)\<rparr>)"
    "LSL_W w n s = Ok (push_bit n w) (s\<lparr>cpu := shift_codes (n \<le> 16 \<and> bit w (16 - n)) (push_bit n w) (cpu s)\<rparr>)"
    "LSL_L l n s = Ok (push_bit n l) (s\<lparr>cpu := shift_codes (n \<le> 32 \<and> bit l (32 - n)) (push_bit n l) (cpu s)\<rparr>)"
proof -
  obtain k where n: "n = Suc k" "k < 63" using assms by (cases n) auto
  have small: "7 - k < (32 :: nat)" "15 - k < (32 :: nat)" by arith+
  show "LSL_B b n s = Ok (push_bit n b) (s\<lparr>cpu := shift_codes (n \<le> 8 \<and> bit b (8 - n)) (push_bit n b) (cpu s)\<rparr>)"
    "LSL_W w n s = Ok (push_bit n w) (s\<lparr>cpu := shift_codes (n \<le> 16 \<and> bit w (16 - n)) (push_bit n w) (cpu s)\<rparr>)"
    "LSL_L l n s = Ok (push_bit n l) (s\<lparr>cpu := shift_codes (n \<le> 32 \<and> bit l (32 - n)) (push_bit n l) (cpu s)\<rparr>)"
  using n(2) unfolding n(1)
  by (auto simp: LSL_B_def LSL_W_def LSL_L_def Let_def shift_codes_def bit_at_iff top_masks bit_simps
      push_bit_beyond bit_beyond ucast_push flags_order small not_le simp del: push_bit_Suc)
qed

lemma ror_word:
  fixes v :: "'a::len word"
  assumes "c < LENGTH('a)"
  shows "drop_bit c v OR push_bit (LENGTH('a) - c) v = word_rotr c v"
    "push_bit c v OR drop_bit (LENGTH('a) - c) v = word_rotl c v"
  by (rule bit_word_eqI; use assms in \<open>auto simp: bit_simps bit_word_rotr_iff bit_word_rotl_iff mod_if ac_simps dest: bit_imp_le_length\<close>)+

lemma word_rot_mod:
  "word_rotr (n mod LENGTH('a)) v = word_rotr n v" "word_rotl (n mod LENGTH('a)) v = word_rotl n v"
  for v :: "'a::len word"
  by (rule bit_word_eqI; simp add: bit_simps mod_add_right_eq)+

lemma word_rot_once:
  fixes v :: "'a::len word"
  shows "drop_bit (n mod LENGTH('a)) v OR push_bit (LENGTH('a) - n mod LENGTH('a)) v = word_rotr n v"
    "push_bit (n mod LENGTH('a)) v OR drop_bit (LENGTH('a) - n mod LENGTH('a)) v = word_rotl n v"
  using ror_word [of "n mod LENGTH('a)" v] by (simp_all add: word_rot_mod)

definition rotate_codes :: "bool \<Rightarrow> 'a::len word \<Rightarrow> cpu \<Rightarrow> cpu" where
  "rotate_codes c re k = k\<lparr>fV := False, fC := c, fN := neg re, fZ := re = 0\<rparr>"

lemma rotr_top:
  fixes v :: "'a::len word"
  assumes "n mod LENGTH('a) \<noteq> 0"
  shows "bit (word_rotr n v) (LENGTH('a) - 1) = bit v (n mod LENGTH('a) - 1)"
proof -
  have "LENGTH('a) - 1 + n mod LENGTH('a) = LENGTH('a) + (n mod LENGTH('a) - 1)"
    using assms len_gt_0 [where 'a = 'a] by linarith
  moreover have "n mod LENGTH('a) - 1 < LENGTH('a)"
    using mod_less_divisor [OF len_gt_0, of n, where 'a1 = 'a] by linarith
  ultimately have "(LENGTH('a) - 1 + n mod LENGTH('a)) mod LENGTH('a) = n mod LENGTH('a) - 1"
    by (metis mod_add_self1 mod_less)
  then show ?thesis by (simp add: bit_word_rotr_iff mod_add_right_eq)
qed

lemma word_rot_zero: "word_rotr 0 v = v" "word_rotl 0 v = v" for v :: "'a::len word"
  by (rule bit_word_eqI; simp add: bit_simps)+

lemma word_rotr_multiple: "n mod LENGTH('a) = 0 \<Longrightarrow> word_rotr n v = v" for v :: "'a::len word"
  using word_rot_mod(1) [of n v] word_rot_zero(1) [of v] by simp

lemmas rotr_8 = word_rot_once(1) [where 'a = 8] rotr_top [where 'a = 8] word_rotr_multiple [where 'a = 8]
lemmas rotr_16 = word_rot_once(1) [where 'a = 16] rotr_top [where 'a = 16] word_rotr_multiple [where 'a = 16]
lemmas rotr_32 = word_rot_once(1) [where 'a = 32] rotr_top [where 'a = 32] word_rotr_multiple [where 'a = 32]

lemma ROR_B_run:
  assumes "1 \<le> n"
  shows "ROR_B b n s = (if 8 < n \<and> n mod 8 = 0 then Raise Undefined (s\<lparr>cpu := (cpu s)\<lparr>fV := False\<rparr>\<rparr>)
           else Ok (word_rotr n b) (s\<lparr>cpu := rotate_codes (bit (word_rotr n b) 7) (word_rotr n b) (cpu s)\<rparr>))"
proof -
  consider "n < 8" | "n = 8" | "8 < n" by linarith
  then show ?thesis
  proof cases
    case 1
    then show ?thesis using assms rotr_8(1) [of n b] rotr_8(2) [of n b]
      by (simp add: ROR_B_def Let_def bit_at_iff rotate_codes_def)
  next
    case 2
    then show ?thesis using rotr_8(3) [of 8 b]
      by (simp add: ROR_B_def Let_def bit_at_iff rotate_codes_def drop_bit_beyond)
  next
    case 3
    then show ?thesis using rotr_8(1) [of n b] rotr_8(2) [of n b]
      by (simp add: ROR_B_def Let_def bit_at_iff rotate_codes_def)
  qed
qed

lemma ROR_W_run:
  assumes "1 \<le> n"
  shows "ROR_W w n s = (if 16 < n \<and> n mod 16 = 0 then Raise Undefined (s\<lparr>cpu := (cpu s)\<lparr>fV := False\<rparr>\<rparr>)
           else Ok (word_rotr n w) (s\<lparr>cpu := rotate_codes (bit (word_rotr n w) 15) (word_rotr n w) (cpu s)\<rparr>))"
proof -
  consider "n < 16" | "n = 16" | "16 < n" by linarith
  then show ?thesis
  proof cases
    case 1
    then show ?thesis using assms rotr_16(1) [of n w] rotr_16(2) [of n w]
      by (simp add: ROR_W_def Let_def bit_at_iff rotate_codes_def)
  next
    case 2
    then show ?thesis using rotr_16(3) [of 16 w]
      by (simp add: ROR_W_def Let_def bit_at_iff rotate_codes_def drop_bit_beyond)
  next
    case 3
    then show ?thesis using rotr_16(1) [of n w] rotr_16(2) [of n w]
      by (simp add: ROR_W_def Let_def bit_at_iff rotate_codes_def)
  qed
qed

lemma ROR_L_run:
  assumes "1 \<le> n"
  shows "ROR_L l n s =
    Ok (word_rotr n l) (s\<lparr>cpu := rotate_codes (bit (word_rotr n l) 31) (word_rotr n l) (cpu s)\<rparr>)"
  using assms rotr_32(1) [of n l] rotr_32(2) [of n l] rotr_32(3) [of n l]
  by (simp add: ROR_L_def Let_def bit_at_iff rotate_codes_def)

lemma rotl_bottom:
  fixes v :: "'a::len word"
  assumes "n mod LENGTH('a) \<noteq> 0"
  shows "bit (word_rotl n v) 0 = bit v (LENGTH('a) - n mod LENGTH('a))"
  using assms by (simp add: bit_word_rotl_iff)

lemma word_rotl_multiple: "n mod LENGTH('a) = 0 \<Longrightarrow> word_rotl n v = v" for v :: "'a::len word"
  using word_rot_mod(2) [of n v] word_rot_zero(2) [of v] by simp

lemmas rotl_8 = word_rot_once(2) [where 'a = 8] rotl_bottom [where 'a = 8] word_rotl_multiple [where 'a = 8]
lemmas rotl_16 = word_rot_once(2) [where 'a = 16] rotl_bottom [where 'a = 16] word_rotl_multiple [where 'a = 16]
lemmas rotl_32 = word_rot_once(2) [where 'a = 32] rotl_bottom [where 'a = 32] word_rotl_multiple [where 'a = 32]

lemma no_bit_above: "\<not> bit (ucast b :: u32) 8" "\<not> bit (ucast w :: u32) 16" for b :: u8 and w :: u16
  by (simp_all add: bit_unsigned_iff bit_beyond)

lemma ROL_B_run:
  assumes "1 \<le> n"
  shows "ROL_B b n s = Ok (word_rotl n b) (s\<lparr>cpu := rotate_codes (n mod 8 \<noteq> 0 \<and> bit (word_rotl n b) 0)
           (word_rotl n b) (cpu s)\<rparr>)"
proof (cases "n mod 8 = 0")
  case True
  then show ?thesis using assms rotl_8(3) [of n b]
    by (simp add: ROL_B_def Let_def bit_at_iff rotate_codes_def drop_bit_beyond no_bit_above)
next
  case False
  then show ?thesis using rotl_8(1) [of n b] rotl_8(2) [of n b]
    by (auto simp: ROL_B_def Let_def bit_at_iff rotate_codes_def bit_unsigned_iff)
qed

lemma ROL_W_run:
  assumes "1 \<le> n"
  shows "ROL_W w n s = Ok (word_rotl n w) (s\<lparr>cpu := rotate_codes (n mod 16 \<noteq> 0 \<and> bit (word_rotl n w) 0)
           (word_rotl n w) (cpu s)\<rparr>)"
proof (cases "n mod 16 = 0")
  case True
  then show ?thesis using assms rotl_16(3) [of n w]
    by (simp add: ROL_W_def Let_def bit_at_iff rotate_codes_def drop_bit_beyond no_bit_above)
next
  case False
  then show ?thesis using rotl_16(1) [of n w] rotl_16(2) [of n w]
    by (auto simp: ROL_W_def Let_def bit_at_iff rotate_codes_def bit_unsigned_iff)
qed

lemma ROL_L_run:
  assumes "1 \<le> n"
  shows "ROL_L l n s = (if n mod 32 = 0 then Raise Undefined (s\<lparr>cpu := (cpu s)\<lparr>fV := False\<rparr>\<rparr>)
           else Ok (word_rotl n l) (s\<lparr>cpu := (rotate_codes (bit (word_rotl n l) 0)
           (word_rotl n l) (cpu s))\<lparr>fX := bit (word_rotl n l) 0\<rparr>\<rparr>))"
  using assms rotl_32(1) [of n l] rotl_32(2) [of n l]
  by (cases "n mod 32 = 0") (auto simp: ROL_L_def Let_def bit_at_iff rotate_codes_def)

text \<open>
  C32. Logical shifts by 1 to 63: the result is the operand shifted with zeros moving in, X and C
  are the last bit shifted out (0 when the count exceeds the width), V is cleared, N and Z
  describe the result; nothing else changes.
\<close>

theorem logical_shifts:
  assumes "1 \<le> n" and "n \<le> 63"
  shows "LSR_L l n s = Ok (drop_bit n l) (s\<lparr>cpu := shift_codes (bit l (n - 1)) (drop_bit n l) (cpu s)\<rparr>) \<and>
    LSL_L l n s = Ok (push_bit n l) (s\<lparr>cpu := shift_codes (n \<le> 32 \<and> bit l (32 - n)) (push_bit n l) (cpu s)\<rparr>) \<and>
    LSR_W w n s = Ok (drop_bit n w) (s\<lparr>cpu := shift_codes (bit w (n - 1)) (drop_bit n w) (cpu s)\<rparr>) \<and>
    LSL_W w n s = Ok (push_bit n w) (s\<lparr>cpu := shift_codes (n \<le> 16 \<and> bit w (16 - n)) (push_bit n w) (cpu s)\<rparr>) \<and>
    LSR_B b n s = Ok (drop_bit n b) (s\<lparr>cpu := shift_codes (bit b (n - 1)) (drop_bit n b) (cpu s)\<rparr>) \<and>
    LSL_B b n s = Ok (push_bit n b) (s\<lparr>cpu := shift_codes (n \<le> 8 \<and> bit b (8 - n)) (push_bit n b) (cpu s)\<rparr>)"
  using LSR_runs [OF assms] LSL_runs [OF assms] by blast

theorem logical_shifts_witness:
  "LSL_L 0xC0000001 2 small_machine = Ok 4 (small_machine\<lparr>cpu := shift_codes True (4 :: u32) cpu_static\<rparr>)"
  using logical_shifts [of 2 "0xC0000001" small_machine] by (simp add: shift_codes_def neg_def)

lemma asr_word:
  fixes v :: "'a::len word"
  shows "sint (signed_drop_bit n v) = sint v div 2 ^ n"
  by (simp add: sint_signed_drop_bit_eq drop_bit_eq_div)

lemma floor_div_saturates:
  assumes "- (2 ^ m) \<le> k" "k < 2 ^ m" "m \<le> n"
  shows "k div 2 ^ n = (if k < 0 then - 1 else 0 :: int)"
proof -
  have "(2 :: int) ^ m \<le> 2 ^ n" using assms(3) by simp
  with assms have "- (2 ^ n) \<le> k" "k < 2 ^ n" by linarith+
  then show ?thesis
    by (auto intro: int_div_pos_eq [where r = "k + 2 ^ n"])
qed

lemma asr_saturated:
  "sint b div 2 ^ (if 31 < n then 31 else n) = sint b div 2 ^ n"
  "sint w div 2 ^ (if 31 < n then 31 else n) = sint w div 2 ^ n" for b :: u8 and w :: u16
  using sint_range [of b] sint_range [of w] floor_div_saturates [of 7 "sint b" 31]
    floor_div_saturates [of 7 "sint b" n] floor_div_saturates [of 15 "sint w" 31]
    floor_div_saturates [of 15 "sint w" n]
  by simp_all

lemma asr_narrow:
  fixes v :: "'a::len word"
  assumes "LENGTH('a) \<le> LENGTH('b::len)"
  shows "ucast (signed_drop_bit n (scast v :: 'b word)) = signed_drop_bit n v"
proof (rule bit_word_eqI)
  fix k assume k: "k < LENGTH('a)"
  consider "k + n < LENGTH('a)" | "LENGTH('a) \<le> k + n" by linarith
  then show "bit (ucast (signed_drop_bit n (scast v :: 'b word)) :: 'a word) k = bit (signed_drop_bit n v) k"
  proof cases
    case 1
    with k assms have "n + k = LENGTH('a) - 1 \<or> n + k < LENGTH('a) - 1" "k < LENGTH('b)" "k < LENGTH('b) - n"
      "k < LENGTH('a) - n" by linarith+
    with k show ?thesis by (auto simp: bit_simps bit_signed_drop_bit_iff min_def)
  next
    case 2
    with k assms show ?thesis
      by (auto simp: bit_simps bit_signed_drop_bit_iff min_def)
  qed
qed

lemma asr_long:
  "signed_drop_bit n l = (if n < 32 then signed_drop_bit n l else signed_drop_bit 1 (signed_drop_bit 31 l))"
  for l :: u32
  by (rule bit_word_eqI; auto simp: bit_simps bit_signed_drop_bit_iff)

text \<open>
  Arithmetic shifts right: for every count from 1 on the result is the signed operand
  divided by that power of two, rounded towards minus infinity, however large the count.
\<close>

theorem asr_floor:
  assumes "1 \<le> n"
  shows "(\<exists>r s'. ASR_B b n s = Ok r s' \<and> sint r = sint b div 2 ^ n \<and> \<not> fV (cpu s')) \<and>
    (\<exists>r s'. ASR_W w n s = Ok r s' \<and> sint r = sint w div 2 ^ n \<and> \<not> fV (cpu s')) \<and>
    (\<exists>r s'. ASR_L l n s = Ok r s' \<and> sint r = sint l div 2 ^ n \<and> \<not> fV (cpu s'))"
proof -
  have L: "sint (if n < 32 then signed_drop_bit n l else signed_drop_bit 1 (signed_drop_bit 31 l)) = sint l div 2 ^ n"
    unfolding asr_long [symmetric] by (rule asr_word)
  from assms show ?thesis
    by (simp add: ASR_B_def ASR_W_def ASR_L_def Let_def asr_narrow asr_word asr_saturated L)
qed

theorem asr_floor_witness:
  "\<exists>r s'. ASR_W 0xFFF9 40 small_machine = Ok r s' \<and> sint r = - 1"
proof -
  have "sint (0xFFF9 :: u16) div 2 ^ 40 = - 1" by simp
  then show ?thesis using asr_floor [of 40 0 small_machine "0xFFF9" 0] by auto
qed

text \<open>
  C33. Rotates: for every count from 1 on, a rotate returns the operand rotated by the count, with C
  the bit that ends in the most (right) or least (left) significant position. The exceptions
  are those of the source: the shift of the host is undefined for a rotate right of a byte or
  word by a larger multiple of its width and for a rotate left of a longword by a multiple of
  32, C is 0 for a rotate left of a byte or word by a multiple of its width, and a rotate left of a
  longword also writes X. The tests of the repository rotate a longword to the left by 32 and expect
  the operand back (sc32 of test/cpu/rol.cc), which the code does not promise.
\<close>

theorem rotates:
  assumes "1 \<le> n"
  shows "ROR_L l n s = Ok (word_rotr n l) (s\<lparr>cpu := rotate_codes (bit (word_rotr n l) 31) (word_rotr n l) (cpu s)\<rparr>) \<and>
    ROR_W w n s = (if 16 < n \<and> n mod 16 = 0 then Raise Undefined (s\<lparr>cpu := (cpu s)\<lparr>fV := False\<rparr>\<rparr>)
      else Ok (word_rotr n w) (s\<lparr>cpu := rotate_codes (bit (word_rotr n w) 15) (word_rotr n w) (cpu s)\<rparr>)) \<and>
    ROR_B b n s = (if 8 < n \<and> n mod 8 = 0 then Raise Undefined (s\<lparr>cpu := (cpu s)\<lparr>fV := False\<rparr>\<rparr>)
      else Ok (word_rotr n b) (s\<lparr>cpu := rotate_codes (bit (word_rotr n b) 7) (word_rotr n b) (cpu s)\<rparr>)) \<and>
    ROL_L l n s = (if n mod 32 = 0 then Raise Undefined (s\<lparr>cpu := (cpu s)\<lparr>fV := False\<rparr>\<rparr>)
      else Ok (word_rotl n l) (s\<lparr>cpu := (rotate_codes (bit (word_rotl n l) 0) (word_rotl n l) (cpu s))
        \<lparr>fX := bit (word_rotl n l) 0\<rparr>\<rparr>)) \<and>
    ROL_W w n s = Ok (word_rotl n w) (s\<lparr>cpu := rotate_codes (n mod 16 \<noteq> 0 \<and> bit (word_rotl n w) 0)
      (word_rotl n w) (cpu s)\<rparr>) \<and>
    ROL_B b n s = Ok (word_rotl n b) (s\<lparr>cpu := rotate_codes (n mod 8 \<noteq> 0 \<and> bit (word_rotl n b) 0)
      (word_rotl n b) (cpu s)\<rparr>)"
  using ROR_B_run [OF assms] ROR_W_run [OF assms] ROR_L_run [OF assms]
    ROL_B_run [OF assms] ROL_W_run [OF assms] ROL_L_run [OF assms] by blast

theorem rotates_witness:
  "(\<exists>s'. ROL_L 0x80000001 4 small_machine = Ok 0x18 s' \<and> \<not> fC (cpu s')) \<and>
   (\<exists>s'. ROR_B 0x81 9 small_machine = Ok 0xc0 s' \<and> fC (cpu s') \<and> fN (cpu s')) \<and>
   (\<exists>s'. ROL_W 0x8001 17 small_machine = Ok 3 s' \<and> fC (cpu s')) \<and>
   ROL_L 1 32 small_machine = Raise Undefined (small_machine\<lparr>cpu := cpu_static\<lparr>fV := False\<rparr>\<rparr>) \<and>
   ROR_B 1 16 small_machine = Raise Undefined (small_machine\<lparr>cpu := cpu_static\<lparr>fV := False\<rparr>\<rparr>)"
proof -
  have r: "word_rotl 4 0x80000001 = (0x18 :: u32)" "word_rotr 9 0x81 = (0xc0 :: u8)" "word_rotl 17 0x8001 = (3 :: u16)"
    by code_simp+
  show ?thesis
    using rotates [of 4 "0x80000001" small_machine] rotates [of 9 0 small_machine 0 "0x81"] rotates [of 17 0 small_machine "0x8001"]
      rotates [of 32 1 small_machine] rotates [of 16 0 small_machine 0 1]
    by (simp add: r rotate_codes_def neg_def)
qed

end
