(* ===== verification/Bcd.thy ===== *)
theory Bcd
  imports Machine
begin

text \<open>Binary-coded decimal: src/cpu/bcd.cc. The sums are computed in \<open>int\<close>, as there.\<close>

definition BCD2BIN :: "u8 \<Rightarrow> u8" where
  "BCD2BIN v = drop_bit 4 v * 10 + (v AND 0xf)"

definition BIN2BCD :: "u8 \<Rightarrow> u8" where
  "BIN2BCD v = push_bit 4 (v div 10) OR (v mod 10)"

definition do_abcd :: "u8 \<Rightarrow> u8 \<Rightarrow> bool \<Rightarrow> ('d, u8) mach" where
  "do_abcd v1 v2 old_x =
     (let d0 = uint (BCD2BIN v1) + (uint (BCD2BIN v2) + of_bool old_x);
          carry = (100 \<le> d0);
          d = (if carry then d0 - 100 else d0)
      in seq (cmod (\<lambda>k. k\<lparr>fX := carry, fC := carry\<rparr>))
        (seq (whenM (d \<noteq> 0) (cmod (\<lambda>k. k\<lparr>fZ := False\<rparr>)))
             (return (BIN2BCD (word_of_int d)))))"

definition do_sbcd :: "u8 \<Rightarrow> u8 \<Rightarrow> bool \<Rightarrow> ('d, u8) mach" where
  "do_sbcd v1 v2 old_x =
     (let d0 = uint (BCD2BIN v1) - uint (BCD2BIN v2) - of_bool old_x;
          borrow = (d0 < 0);
          d = (if borrow then d0 + 100 else d0)
      in seq (cmod (\<lambda>k. k\<lparr>fC := borrow\<rparr>))
        (seq (cmod (\<lambda>k. k\<lparr>fX := fC k\<rparr>))
        (seq (whenM (d \<noteq> 0) (cmod (\<lambda>k. k\<lparr>fZ := False\<rparr>)))
             (return (BIN2BCD (word_of_int d))))))"

definition do_nbcd :: "u8 \<Rightarrow> bool \<Rightarrow> ('d, u8) mach" where
  "do_nbcd v old_x =
     (let d0 = 100 - BCD2BIN v - of_bool old_x;
          borrow = (d0 \<noteq> 100);
          d = (if d0 = 100 then 0 else d0)
      in seq (cmod (\<lambda>k. k\<lparr>fX := borrow, fC := borrow\<rparr>))
        (seq (whenM (d \<noteq> 0) (cmod (\<lambda>k. k\<lparr>fZ := False\<rparr>)))
             (return (BIN2BCD d))))"

definition do_pack :: "u16 \<Rightarrow> u16 \<Rightarrow> u8" where
  "do_pack v adj = (let d = v + adj in ucast ((d AND 0xf) OR drop_bit 4 (d AND 0xf00)))"

definition do_unpk :: "u8 \<Rightarrow> u16 \<Rightarrow> u16" where
  "do_unpk v adj =
     (let d = (push_bit 4 (ucast v AND 0xf0) OR (ucast v AND 0xf) :: u16) in d + adj)"

section \<open>Decimal meaning\<close>

text \<open>The number a byte stands for, and the bytes that are two decimal digits.\<close>

definition decimal :: "u8 \<Rightarrow> int" where
  "decimal v = 10 * uint (drop_bit 4 v) + uint (v AND 0xf)"

definition bcd_ok :: "u8 \<Rightarrow> bool" where
  "bcd_ok v \<longleftrightarrow> drop_bit 4 v \<le> 9 \<and> v AND 0xf \<le> 9"

lemma bcd_table: "list_all (\<lambda>d. bcd_ok (BIN2BCD (of_nat d)) \<and> decimal (BIN2BCD (of_nat d)) = int d) [0..<100]"
  by code_simp

lemma bytes_table: "list_all (\<lambda>n. uint (BCD2BIN (of_nat n)) = decimal (of_nat n) \<and> 0 \<le> decimal (of_nat n)
    \<and> (bcd_ok (of_nat n) \<longrightarrow> decimal (of_nat n) \<le> 99)) [0..<256]"
  by code_simp

lemma BCD2BIN_decimal: "uint (BCD2BIN v) = decimal v"
  and decimal_range: "0 \<le> decimal v" "bcd_ok v \<Longrightarrow> decimal v \<le> 99"
proof -
  have "of_nat (unat v) = v" "unat v \<in> set [0..<256]"
    using unsigned_less [of v, where 'a = nat] by simp_all
  with bytes_table show "uint (BCD2BIN v) = decimal v" "0 \<le> decimal v" "bcd_ok v \<Longrightarrow> decimal v \<le> 99"
    unfolding list_all_iff by metis+
qed

lemma BIN2BCD_decimal:
  assumes "0 \<le> d" "d < 100"
  shows "bcd_ok (BIN2BCD (word_of_int d))" "decimal (BIN2BCD (word_of_int d)) = d"
proof -
  have "nat d \<in> set [0..<100]" "of_nat (nat d) = (word_of_int d :: u8)" "int (nat d) = d"
    using assms by simp_all
  with bcd_table show "bcd_ok (BIN2BCD (word_of_int d))" "decimal (BIN2BCD (word_of_int d)) = d"
    unfolding list_all_iff by metis+
qed

text \<open>
  C34. Decimal addition: for two bytes that are decimal digits the result is again, it is the sum of
  the numbers and of X less 100 for a carry, X and C are that carry, and Z is only ever
  cleared, when the result is not 0.
\<close>

theorem decimal_sum:
  assumes "bcd_ok v1" and "bcd_ok v2"
  shows "\<exists>r s'. do_abcd v1 v2 x s = Ok r s' \<and> bcd_ok r \<and>
     decimal r + 100 * of_bool (fC (cpu s')) = decimal v1 + decimal v2 + of_bool x \<and>
     fX (cpu s') = fC (cpu s') \<and> fZ (cpu s') = (fZ (cpu s) \<and> decimal r = 0)"
proof -
  define d where "d = uint (BCD2BIN v1) + (uint (BCD2BIN v2) + of_bool x)"
  have dd: "decimal v1 + decimal v2 + of_bool x = d"
    by (simp add: d_def BCD2BIN_decimal)
  have "0 \<le> d" "d < 200"
    using decimal_range [of v1] decimal_range [of v2] assms by (simp_all add: of_bool_def flip: dd)
  then consider "d = 0" | "0 < d" "d < 100" | "d = 100" | "100 < d" "d < 200" by linarith
  then show ?thesis
    using BIN2BCD_decimal [of 0] BIN2BCD_decimal [of "d - 100"]
    unfolding dd do_abcd_def d_def [symmetric] Let_def
    by cases (simp_all add: BIN2BCD_decimal)
qed

theorem decimal_sum_witness:
  "\<exists>r s'. do_abcd 0x58 0x67 True small_machine = Ok r s' \<and>
     decimal r + 100 * of_bool (fC (cpu s')) = 126"
proof -
  have b: "bcd_ok 0x58" "bcd_ok 0x67" "decimal 0x58 = 58" "decimal 0x67 = 67"
    by (simp_all add: bcd_ok_def decimal_def)
  obtain r s' where "do_abcd 0x58 0x67 True small_machine = Ok r s'"
    "decimal r + 100 * of_bool (fC (cpu s')) = decimal 0x58 + decimal 0x67 + of_bool True"
    using decimal_sum [OF b(1,2), of True small_machine] by blast
  then show ?thesis by (intro exI conjI) (assumption, simp add: b)
qed

text \<open>Decimal subtraction: likewise with a borrow of 100.\<close>

theorem decimal_difference:
  assumes "bcd_ok v1" and "bcd_ok v2"
  shows "\<exists>r s'. do_sbcd v1 v2 x s = Ok r s' \<and> bcd_ok r \<and>
     decimal r - 100 * of_bool (fC (cpu s')) = decimal v1 - decimal v2 - of_bool x \<and>
     fX (cpu s') = fC (cpu s') \<and> fZ (cpu s') = (fZ (cpu s) \<and> decimal r = 0)"
proof -
  define d where "d = uint (BCD2BIN v1) - uint (BCD2BIN v2) - of_bool x"
  have dd: "decimal v1 - decimal v2 - of_bool x = d"
    by (simp add: d_def BCD2BIN_decimal)
  have "- 100 \<le> d" "d < 100"
    using decimal_range [of v1] decimal_range [of v2] assms by (simp_all add: of_bool_def flip: dd)
  then consider "d = 0" | "0 < d" "d < 100" | "d = - 100" | "- 100 < d" "d < 0" by linarith
  then show ?thesis
    using BIN2BCD_decimal [of 0] BIN2BCD_decimal [of "d + 100"]
    unfolding dd do_sbcd_def d_def [symmetric] Let_def
    by cases (simp_all add: BIN2BCD_decimal)
qed

theorem decimal_difference_witness:
  "\<exists>r s'. do_sbcd 0x12 0x34 False small_machine = Ok r s' \<and>
     decimal r - 100 * of_bool (fC (cpu s')) = - 22"
proof -
  have b: "bcd_ok 0x12" "bcd_ok 0x34" "decimal 0x12 = 12" "decimal 0x34 = 34"
    by (simp_all add: bcd_ok_def decimal_def)
  obtain r s' where "do_sbcd 0x12 0x34 False small_machine = Ok r s'"
    "decimal r - 100 * of_bool (fC (cpu s')) = decimal 0x12 - decimal 0x34 - of_bool False"
    using decimal_difference [OF b(1,2), of False small_machine] by blast
  then show ?thesis by (intro exI conjI) (assumption, simp add: b)
qed

lemma unpk_table: "list_all (\<lambda>n. do_pack (do_unpk (of_nat n) 0) 0 = of_nat n) [0..<256]"
  by code_simp

text \<open>
  Packing undoes unpacking: \<open>PACK\<close> with the negated adjustment gives back the byte that
  \<open>UNPK\<close> was given, for every adjustment.
\<close>

theorem pack_unpk: "do_pack (do_unpk v adj) (- adj) = v"
proof -
  have "of_nat (unat v) = v" "unat v \<in> set [0..<256]"
    using unsigned_less [of v, where 'a = nat] by simp_all
  with unpk_table have "do_pack (do_unpk v 0) 0 = v"
    unfolding list_all_iff by metis
  then show ?thesis by (simp add: do_pack_def do_unpk_def Let_def)
qed

end
