(* ===== verification/OpsBasic.thy ===== *)
theory OpsBasic
  imports Arith Bits Bcd
begin

text \<open>
  Instruction handlers, first part: the handlers of src/cpu/op.cc for the opcode lines 0
  to 4 (immediate, bit, compare-and-swap, moves, one-operand instructions, multiplication
  and division, stack and address instructions). Each takes its opcode word. Where C++
  leaves the order of two operands open they are taken from left to right.
\<close>

text \<open>The fields of an extension word.\<close>

definition ext_reg :: "u16 \<Rightarrow> nat \<Rightarrow> regno" where
  "ext_reg extw n = ucast (drop_bit n extw AND 7)"

definition ext_rn :: "u16 \<Rightarrow> nat" where
  "ext_rn extw = unat (drop_bit 12 extw AND 15)"

section \<open>Immediate operands\<close>

definition ori_b :: "u16 \<Rightarrow> ('d, unit) mach" where
  "ori_b op =
     bind FETCH (\<lambda>v.
     bind (ea_readB (TYP op) (REG op) True) (\<lambda>x.
     bind (OR_B (ucast x) (ucast v)) (\<lambda>r.
     ea_writeB (TYP op) (REG op) r)))"

definition ori_w :: "u16 \<Rightarrow> ('d, unit) mach" where
  "ori_w op =
     bind FETCH (\<lambda>v.
     bind (ea_readW (TYP op) (REG op) True) (\<lambda>x.
     bind (OR_W (ucast x) (ucast v)) (\<lambda>r.
     ea_writeW (TYP op) (REG op) r)))"

definition ori_l :: "u16 \<Rightarrow> ('d, unit) mach" where
  "ori_l op =
     bind FETCH32 (\<lambda>v.
     bind (ea_readL (TYP op) (REG op) True) (\<lambda>x.
     bind (OR_L (ucast x) (ucast v)) (\<lambda>r.
     ea_writeL (TYP op) (REG op) r)))"

definition ori_b_ccr :: "u16 \<Rightarrow> ('d, unit) mach" where
  "ori_b_ccr op = bind FETCH (\<lambda>v. cmod (\<lambda>c. SetCCR (GetCCR c OR ucast v) c))"

definition ori_w_sr :: "u16 \<Rightarrow> ('d, unit) mach" where
  "ori_w_sr op =
     seq PRIV_CHECK
    (bind FETCH (\<lambda>v.
     seq (cmod (\<lambda>c. SetSR (GetSR c OR v) c))
         TRACE_BRANCH))"

definition andi_b :: "u16 \<Rightarrow> ('d, unit) mach" where
  "andi_b op =
     bind FETCH (\<lambda>v.
     bind (ea_readB (TYP op) (REG op) True) (\<lambda>x.
     bind (AND_B (ucast x) (ucast v)) (\<lambda>r.
     ea_writeB (TYP op) (REG op) r)))"

definition andi_w :: "u16 \<Rightarrow> ('d, unit) mach" where
  "andi_w op =
     bind FETCH (\<lambda>v.
     bind (ea_readW (TYP op) (REG op) True) (\<lambda>x.
     bind (AND_W (ucast x) (ucast v)) (\<lambda>r.
     ea_writeW (TYP op) (REG op) r)))"

definition andi_l :: "u16 \<Rightarrow> ('d, unit) mach" where
  "andi_l op =
     bind FETCH32 (\<lambda>v.
     bind (ea_readL (TYP op) (REG op) True) (\<lambda>x.
     bind (AND_L (ucast x) (ucast v)) (\<lambda>r.
     ea_writeL (TYP op) (REG op) r)))"

definition andi_b_ccr :: "u16 \<Rightarrow> ('d, unit) mach" where
  "andi_b_ccr op = bind FETCH (\<lambda>v. cmod (\<lambda>c. SetCCR (GetCCR c AND ucast v) c))"

definition andi_w_sr :: "u16 \<Rightarrow> ('d, unit) mach" where
  "andi_w_sr op =
     seq PRIV_CHECK
    (bind FETCH (\<lambda>v.
     seq (cmod (\<lambda>c. SetSR (GetSR c AND v) c))
         TRACE_BRANCH))"

definition eori_b :: "u16 \<Rightarrow> ('d, unit) mach" where
  "eori_b op =
     bind FETCH (\<lambda>v.
     bind (ea_readB (TYP op) (REG op) True) (\<lambda>x.
     bind (XOR_B (ucast x) (ucast v)) (\<lambda>r.
     ea_writeB (TYP op) (REG op) r)))"

definition eori_w :: "u16 \<Rightarrow> ('d, unit) mach" where
  "eori_w op =
     bind FETCH (\<lambda>v.
     bind (ea_readW (TYP op) (REG op) True) (\<lambda>x.
     bind (XOR_W (ucast x) (ucast v)) (\<lambda>r.
     ea_writeW (TYP op) (REG op) r)))"

definition eori_l :: "u16 \<Rightarrow> ('d, unit) mach" where
  "eori_l op =
     bind FETCH32 (\<lambda>v.
     bind (ea_readL (TYP op) (REG op) True) (\<lambda>x.
     bind (XOR_L (ucast x) (ucast v)) (\<lambda>r.
     ea_writeL (TYP op) (REG op) r)))"

definition eori_b_ccr :: "u16 \<Rightarrow> ('d, unit) mach" where
  "eori_b_ccr op = bind FETCH (\<lambda>v. cmod (\<lambda>c. SetCCR (GetCCR c XOR ucast v) c))"

definition eori_w_sr :: "u16 \<Rightarrow> ('d, unit) mach" where
  "eori_w_sr op =
     seq PRIV_CHECK
    (bind FETCH (\<lambda>v.
     seq (cmod (\<lambda>c. SetSR (GetSR c XOR v) c))
         TRACE_BRANCH))"

definition subi_b :: "u16 \<Rightarrow> ('d, unit) mach" where
  "subi_b op =
     bind FETCH (\<lambda>v.
     bind (ea_readB (TYP op) (REG op) True) (\<lambda>x.
     bind (SUB_B (ucast x) (ucast v)) (\<lambda>r.
     ea_writeB (TYP op) (REG op) r)))"

definition subi_w :: "u16 \<Rightarrow> ('d, unit) mach" where
  "subi_w op =
     bind FETCH (\<lambda>v.
     bind (ea_readW (TYP op) (REG op) True) (\<lambda>x.
     bind (SUB_W (ucast x) (ucast v)) (\<lambda>r.
     ea_writeW (TYP op) (REG op) r)))"

definition subi_l :: "u16 \<Rightarrow> ('d, unit) mach" where
  "subi_l op =
     bind FETCH32 (\<lambda>v.
     bind (ea_readL (TYP op) (REG op) True) (\<lambda>x.
     bind (SUB_L (ucast x) (ucast v)) (\<lambda>r.
     ea_writeL (TYP op) (REG op) r)))"

definition addi_b :: "u16 \<Rightarrow> ('d, unit) mach" where
  "addi_b op =
     bind FETCH (\<lambda>v.
     bind (ea_readB (TYP op) (REG op) True) (\<lambda>x.
     bind (ADD_B (ucast x) (ucast v)) (\<lambda>r.
     ea_writeB (TYP op) (REG op) r)))"

definition addi_w :: "u16 \<Rightarrow> ('d, unit) mach" where
  "addi_w op =
     bind FETCH (\<lambda>v.
     bind (ea_readW (TYP op) (REG op) True) (\<lambda>x.
     bind (ADD_W (ucast x) (ucast v)) (\<lambda>r.
     ea_writeW (TYP op) (REG op) r)))"

definition addi_l :: "u16 \<Rightarrow> ('d, unit) mach" where
  "addi_l op =
     bind FETCH32 (\<lambda>v.
     bind (ea_readL (TYP op) (REG op) True) (\<lambda>x.
     bind (ADD_L (ucast x) (ucast v)) (\<lambda>r.
     ea_writeL (TYP op) (REG op) r)))"

definition cmpi_b :: "u16 \<Rightarrow> ('d, unit) mach" where
  "cmpi_b op =
     bind FETCH (\<lambda>v.
     bind (ea_readB (TYP op) (REG op) False) (\<lambda>x.
     CMP_B (ucast x) (ucast v)))"

definition cmpi_w :: "u16 \<Rightarrow> ('d, unit) mach" where
  "cmpi_w op =
     bind FETCH (\<lambda>v.
     bind (ea_readW (TYP op) (REG op) False) (\<lambda>x.
     CMP_W (ucast x) (ucast v)))"

definition cmpi_l :: "u16 \<Rightarrow> ('d, unit) mach" where
  "cmpi_l op =
     bind FETCH32 (\<lambda>v.
     bind (ea_readL (TYP op) (REG op) False) (\<lambda>x.
     CMP_L (ucast x) (ucast v)))"

section \<open>Range comparison\<close>

definition cmp2_chk2_b :: "u16 \<Rightarrow> ('d, unit) mach" where
  "cmp2_chk2_b op =
     bind FETCH (\<lambda>nextop.
     let rn = ext_reg nextop 12 in
     bind (ea_getaddr (TYP op) (REG op) 1) (\<lambda>ea.
     seq (set_EA ea)
    (seq (if bit_at nextop 15
          then bind (getA rn) (\<lambda>v. CMP2_SB (ucast v) ea)
          else bind (getD rn) (\<lambda>v. CMP2_B (ucast v) ea))
         (bind (cget fC) (\<lambda>c. whenM (bit_at nextop 11 \<and> c) CHK_ERROR)))))"

definition cmp2_chk2_w :: "u16 \<Rightarrow> ('d, unit) mach" where
  "cmp2_chk2_w op =
     bind FETCH (\<lambda>nextop.
     let rn = ext_reg nextop 12 in
     bind (ea_getaddr (TYP op) (REG op) 2) (\<lambda>ea.
     seq (set_EA ea)
    (seq (if bit_at nextop 15
          then bind (getA rn) (\<lambda>v. CMP2_SW (ucast v) ea)
          else bind (getD rn) (\<lambda>v. CMP2_W (ucast v) ea))
         (bind (cget fC) (\<lambda>c. whenM (bit_at nextop 11 \<and> c) CHK_ERROR)))))"

definition cmp2_chk2_l :: "u16 \<Rightarrow> ('d, unit) mach" where
  "cmp2_chk2_l op =
     bind FETCH (\<lambda>nextop.
     let rn = ext_reg nextop 12 in
     bind (ea_getaddr (TYP op) (REG op) 4) (\<lambda>ea.
     seq (set_EA ea)
    (seq (if bit_at nextop 15
          then bind (getA rn) (\<lambda>v. CMP2_SL (ucast v) ea)
          else bind (getD rn) (\<lambda>v. CMP2_L (ucast v) ea))
         (bind (cget fC) (\<lambda>c. whenM (bit_at nextop 11 \<and> c) CHK_ERROR)))))"

section \<open>Single bits\<close>

definition bit_pos_i :: "u16 \<Rightarrow> u16 \<Rightarrow> nat" where
  "bit_pos_i w m = unat (w AND m)"

definition bit_pos_r :: "u32 \<Rightarrow> u32 \<Rightarrow> nat" where
  "bit_pos_r d m = unat (d AND m)"

definition btst_l_i :: "u16 \<Rightarrow> ('d, unit) mach" where
  "btst_l_i op = bind FETCH (\<lambda>w. bind (getD (REG op)) (\<lambda>v. BTST_L v (bit_pos_i w 31)))"

definition btst_b_i :: "u16 \<Rightarrow> ('d, unit) mach" where
  "btst_b_i op =
     bind FETCH (\<lambda>w.
     bind (ea_getaddr (TYP op) (REG op) 1) (\<lambda>ea.
     seq (set_EA ea)
         (bind (ReadB ea) (\<lambda>v. BTST_B v (bit_pos_i w 7)))))"

definition btst_b_i_imm :: "u16 \<Rightarrow> ('d, unit) mach" where
  "btst_b_i_imm op = bind FETCH (\<lambda>w. bind FETCH (\<lambda>imm. BTST_B (ucast imm) (bit_pos_i w 7)))"

definition btst_l_r :: "u16 \<Rightarrow> ('d, unit) mach" where
  "btst_l_r op =
     bind (getD (REG op)) (\<lambda>v. bind (getD (DN op)) (\<lambda>d. BTST_L v (bit_pos_r d 31)))"

definition btst_b_r :: "u16 \<Rightarrow> ('d, unit) mach" where
  "btst_b_r op =
     bind (ea_getaddr (TYP op) (REG op) 1) (\<lambda>ea.
     seq (set_EA ea)
         (bind (ReadB ea) (\<lambda>v. bind (getD (DN op)) (\<lambda>d. BTST_B v (bit_pos_r d 7)))))"

definition btst_b_r_imm :: "u16 \<Rightarrow> ('d, unit) mach" where
  "btst_b_r_imm op =
     bind FETCH (\<lambda>imm. bind (getD (DN op)) (\<lambda>d. BTST_B (ucast imm) (bit_pos_r d 7)))"

definition bchg_l_i :: "u16 \<Rightarrow> ('d, unit) mach" where
  "bchg_l_i op =
     bind FETCH (\<lambda>w.
     bind (getD (REG op)) (\<lambda>v.
     bind (BCHG_L v (bit_pos_i w 31)) (setD (REG op))))"

definition bchg_b_i :: "u16 \<Rightarrow> ('d, unit) mach" where
  "bchg_b_i op =
     bind FETCH (\<lambda>w.
     bind (ea_getaddr (TYP op) (REG op) 1) (\<lambda>ea.
     seq (set_EA ea)
         (bind (ReadB ea) (\<lambda>v. bind (BCHG_B v (bit_pos_i w 7)) (WriteB ea)))))"

definition bchg_l_r :: "u16 \<Rightarrow> ('d, unit) mach" where
  "bchg_l_r op =
     bind (getD (REG op)) (\<lambda>v.
     bind (getD (DN op)) (\<lambda>d.
     bind (BCHG_L v (bit_pos_r d 31)) (setD (REG op))))"

definition bchg_b_r :: "u16 \<Rightarrow> ('d, unit) mach" where
  "bchg_b_r op =
     bind (ea_getaddr (TYP op) (REG op) 1) (\<lambda>ea.
     seq (set_EA ea)
         (bind (ReadB ea) (\<lambda>v.
          bind (getD (DN op)) (\<lambda>d.
          bind (BCHG_B v (bit_pos_r d 7)) (WriteB ea)))))"

definition bclr_l_i :: "u16 \<Rightarrow> ('d, unit) mach" where
  "bclr_l_i op =
     bind FETCH (\<lambda>w.
     bind (getD (REG op)) (\<lambda>v.
     bind (BCLR_L v (bit_pos_i w 31)) (setD (REG op))))"

definition bclr_b_i :: "u16 \<Rightarrow> ('d, unit) mach" where
  "bclr_b_i op =
     bind FETCH (\<lambda>w.
     bind (ea_getaddr (TYP op) (REG op) 1) (\<lambda>ea.
     seq (set_EA ea)
         (bind (ReadB ea) (\<lambda>v. bind (BCLR_B v (bit_pos_i w 7)) (WriteB ea)))))"

definition bclr_l_r :: "u16 \<Rightarrow> ('d, unit) mach" where
  "bclr_l_r op =
     bind (getD (REG op)) (\<lambda>v.
     bind (getD (DN op)) (\<lambda>d.
     bind (BCLR_L v (bit_pos_r d 31)) (setD (REG op))))"

definition bclr_b_r :: "u16 \<Rightarrow> ('d, unit) mach" where
  "bclr_b_r op =
     bind (ea_getaddr (TYP op) (REG op) 1) (\<lambda>ea.
     seq (set_EA ea)
         (bind (ReadB ea) (\<lambda>v.
          bind (getD (DN op)) (\<lambda>d.
          bind (BCLR_B v (bit_pos_r d 7)) (WriteB ea)))))"

definition bset_l_i :: "u16 \<Rightarrow> ('d, unit) mach" where
  "bset_l_i op =
     bind FETCH (\<lambda>w.
     bind (getD (REG op)) (\<lambda>v.
     bind (BSET_L v (bit_pos_i w 31)) (setD (REG op))))"

definition bset_b_i :: "u16 \<Rightarrow> ('d, unit) mach" where
  "bset_b_i op =
     bind FETCH (\<lambda>w.
     bind (ea_getaddr (TYP op) (REG op) 1) (\<lambda>ea.
     seq (set_EA ea)
         (bind (ReadB ea) (\<lambda>v. bind (BSET_B v (bit_pos_i w 7)) (WriteB ea)))))"

definition bset_l_r :: "u16 \<Rightarrow> ('d, unit) mach" where
  "bset_l_r op =
     bind (getD (REG op)) (\<lambda>v.
     bind (getD (DN op)) (\<lambda>d.
     bind (BSET_L v (bit_pos_r d 31)) (setD (REG op))))"

definition bset_b_r :: "u16 \<Rightarrow> ('d, unit) mach" where
  "bset_b_r op =
     bind (ea_getaddr (TYP op) (REG op) 1) (\<lambda>ea.
     seq (set_EA ea)
         (bind (ReadB ea) (\<lambda>v.
          bind (getD (DN op)) (\<lambda>d.
          bind (BSET_B v (bit_pos_r d 7)) (WriteB ea)))))"

section \<open>Peripheral moves\<close>

definition movep_base :: "u16 \<Rightarrow> ('d, u32) mach" where
  "movep_base op = bind FETCH (\<lambda>disp. bind (getA (REG op)) (\<lambda>a. return (a + scast disp)))"

definition movep_w_load :: "u16 \<Rightarrow> ('d, unit) mach" where
  "movep_w_load op =
     bind (movep_base op) (\<lambda>base.
     bind (ReadB base) (\<lambda>h.
     bind (ReadB (base + 2)) (\<lambda>l.
     storeD_W (DN op) (push_bit 8 (ucast h) OR ucast l))))"

definition movep_l_load :: "u16 \<Rightarrow> ('d, unit) mach" where
  "movep_l_load op =
     bind (movep_base op) (\<lambda>base.
     bind (ReadB base) (\<lambda>b0.
     bind (ReadB (base + 2)) (\<lambda>b1.
     bind (ReadB (base + 4)) (\<lambda>b2.
     bind (ReadB (base + 6)) (\<lambda>b3.
     setD (DN op) (push_bit 24 (ucast b0) OR push_bit 16 (ucast b1)
       OR push_bit 8 (ucast b2) OR ucast b3))))))"

definition movep_w_store :: "u16 \<Rightarrow> ('d, unit) mach" where
  "movep_w_store op =
     bind (movep_base op) (\<lambda>base.
     bind (getD (DN op)) (\<lambda>d.
     seq (WriteB base (ucast (drop_bit 8 d)))
         (WriteB (base + 2) (ucast d))))"

definition movep_l_store :: "u16 \<Rightarrow> ('d, unit) mach" where
  "movep_l_store op =
     bind (movep_base op) (\<lambda>base.
     bind (getD (DN op)) (\<lambda>d.
     seq (WriteB base (ucast (drop_bit 24 d)))
    (seq (WriteB (base + 2) (ucast (drop_bit 16 d)))
    (seq (WriteB (base + 4) (ucast (drop_bit 8 d)))
         (WriteB (base + 6) (ucast d))))))"

section \<open>Compare and swap, moves between address spaces\<close>

definition cas_b :: "u16 \<Rightarrow> ('d, unit) mach" where
  "cas_b op =
     bind FETCH (\<lambda>extw.
     bind (ea_getaddr (TYP op) (REG op) 1) (\<lambda>ea.
     seq (set_EA ea)
         (bind (getD (ext_reg extw 6)) (\<lambda>du. CAS_B ea (ext_reg extw 0) (ucast du)))))"

definition cas_w :: "u16 \<Rightarrow> ('d, unit) mach" where
  "cas_w op =
     bind FETCH (\<lambda>extw.
     bind (ea_getaddr (TYP op) (REG op) 2) (\<lambda>ea.
     seq (set_EA ea)
         (bind (getD (ext_reg extw 6)) (\<lambda>du. CAS_W ea (ext_reg extw 0) (ucast du)))))"

definition cas_l :: "u16 \<Rightarrow> ('d, unit) mach" where
  "cas_l op =
     bind FETCH (\<lambda>extw.
     bind (ea_getaddr (TYP op) (REG op) 4) (\<lambda>ea.
     seq (set_EA ea)
         (bind (getD (ext_reg extw 6)) (\<lambda>du. CAS_L ea (ext_reg extw 0) (ucast du)))))"

definition cas2_w :: "u16 \<Rightarrow> ('d, unit) mach" where
  "cas2_w op =
     bind FETCH (\<lambda>extw1.
     bind FETCH (\<lambda>extw2.
     bind (getR (ext_rn extw1)) (\<lambda>r1.
     bind (getD (ext_reg extw1 6)) (\<lambda>du1.
     bind (getR (ext_rn extw2)) (\<lambda>r2.
     bind (getD (ext_reg extw2 6)) (\<lambda>du2.
     CAS2_W r1 (ext_reg extw1 0) (ucast du1) r2 (ext_reg extw2 0) (ucast du2)))))))"

definition cas2_l :: "u16 \<Rightarrow> ('d, unit) mach" where
  "cas2_l op =
     bind FETCH (\<lambda>extw1.
     bind FETCH (\<lambda>extw2.
     bind (getR (ext_rn extw1)) (\<lambda>r1.
     bind (getD (ext_reg extw1 6)) (\<lambda>du1.
     bind (getR (ext_rn extw2)) (\<lambda>r2.
     bind (getD (ext_reg extw2 6)) (\<lambda>du2.
     CAS2_L r1 (ext_reg extw1 0) (ucast du1) r2 (ext_reg extw2 0) (ucast du2)))))))"

definition moves_b :: "u16 \<Rightarrow> ('d, unit) mach" where
  "moves_b op =
     seq PRIV_CHECK
    (bind FETCH (\<lambda>extw.
     let rn = ext_rn extw in
     bind (ea_getaddr (TYP op) (REG op) 1) (\<lambda>ea.
     seq (set_EA ea)
    (seq (if bit_at extw 11
          then bind (getR rn) (\<lambda>v. WriteSB ea (ucast v))
          else bind (ReadSB ea) (\<lambda>v. bind (getR rn) (\<lambda>old. setR rn (STORE_B old v))))
         TRACE_BRANCH))))"

definition moves_w :: "u16 \<Rightarrow> ('d, unit) mach" where
  "moves_w op =
     seq PRIV_CHECK
    (bind FETCH (\<lambda>extw.
     let rn = ext_rn extw in
     bind (ea_getaddr (TYP op) (REG op) 2) (\<lambda>ea.
     seq (set_EA ea)
    (seq (if bit_at extw 11
          then bind (getR rn) (\<lambda>v. WriteSW ea (ucast v))
          else bind (ReadSW ea) (\<lambda>v. bind (getR rn) (\<lambda>old. setR rn (STORE_W old v))))
         TRACE_BRANCH))))"

definition moves_l :: "u16 \<Rightarrow> ('d, unit) mach" where
  "moves_l op =
     seq PRIV_CHECK
    (bind FETCH (\<lambda>extw.
     let rn = ext_rn extw in
     bind (ea_getaddr (TYP op) (REG op) 4) (\<lambda>ea.
     seq (set_EA ea)
    (seq (if bit_at extw 11
          then bind (getR rn) (\<lambda>v. WriteSL ea (ucast v))
          else bind (ReadSL ea) (\<lambda>v. bind (getR rn) (\<lambda>old. setR rn (STORE_L old v))))
         TRACE_BRANCH))))"

section \<open>Moves\<close>

definition DST :: "u16 \<Rightarrow> regno" where
  "DST op = ucast (drop_bit 6 op AND 7)"

definition move_b :: "u16 \<Rightarrow> ('d, unit) mach" where
  "move_b op =
     bind (ea_readB (TYP op) (REG op) False) (\<lambda>x.
     let v = (ucast x :: u8) in
     seq (TEST_B v)
    (seq set_VC_clear
         (ea_writeB (DST op) (DN op) v)))"

definition move_w :: "u16 \<Rightarrow> ('d, unit) mach" where
  "move_w op =
     bind (ea_readW (TYP op) (REG op) False) (\<lambda>x.
     let v = (ucast x :: u16) in
     seq (TEST_W v)
    (seq set_VC_clear
         (ea_writeW (DST op) (DN op) v)))"

definition move_l :: "u16 \<Rightarrow> ('d, unit) mach" where
  "move_l op =
     bind (ea_readL (TYP op) (REG op) False) (\<lambda>x.
     let v = (ucast x :: u32) in
     seq (TEST_L v)
    (seq set_VC_clear
         (ea_writeL (DST op) (DN op) v)))"

definition movea_w :: "u16 \<Rightarrow> ('d, unit) mach" where
  "movea_w op =
     bind (ea_readW (TYP op) (REG op) False) (\<lambda>x. setA (DN op) (scast (ucast x :: u16)))"

definition movea_l :: "u16 \<Rightarrow> ('d, unit) mach" where
  "movea_l op = bind (ea_readL (TYP op) (REG op) False) (setA (DN op))"

definition move_from_sr :: "u16 \<Rightarrow> ('d, unit) mach" where
  "move_from_sr op = seq PRIV_CHECK (bind (cget GetSR) (ea_writeW (TYP op) (REG op)))"

definition move_from_ccr :: "u16 \<Rightarrow> ('d, unit) mach" where
  "move_from_ccr op = bind (cget GetCCR) (\<lambda>v. ea_writeW (TYP op) (REG op) (ucast v))"

definition move_to_ccr :: "u16 \<Rightarrow> ('d, unit) mach" where
  "move_to_ccr op = bind (ea_readW (TYP op) (REG op) False) (\<lambda>v. cmod (SetCCR (ucast v)))"

definition move_to_sr :: "u16 \<Rightarrow> ('d, unit) mach" where
  "move_to_sr op =
     seq PRIV_CHECK
    (bind (ea_readW (TYP op) (REG op) False) (\<lambda>v.
     seq (cmod (SetSR (ucast v)))
         TRACE_BRANCH))"

section \<open>One-operand instructions\<close>

definition negx_b :: "u16 \<Rightarrow> ('d, unit) mach" where
  "negx_b op =
     bind (ea_readB (TYP op) (REG op) True) (\<lambda>v.
     bind (cget fX) (\<lambda>x.
     bind (NEGX_B (ucast v) x) (ea_writeB (TYP op) (REG op))))"

definition negx_w :: "u16 \<Rightarrow> ('d, unit) mach" where
  "negx_w op =
     bind (ea_readW (TYP op) (REG op) True) (\<lambda>v.
     bind (cget fX) (\<lambda>x.
     bind (NEGX_W (ucast v) x) (ea_writeW (TYP op) (REG op))))"

definition negx_l :: "u16 \<Rightarrow> ('d, unit) mach" where
  "negx_l op =
     bind (ea_readL (TYP op) (REG op) True) (\<lambda>v.
     bind (cget fX) (\<lambda>x.
     bind (NEGX_L (ucast v) x) (ea_writeL (TYP op) (REG op))))"

definition clr_b :: "u16 \<Rightarrow> ('d, unit) mach" where
  "clr_b op =
     seq (cmod (\<lambda>c. c\<lparr>fN := False, fV := False, fC := False, fZ := True\<rparr>))
         (ea_writeB (TYP op) (REG op) 0)"

definition clr_w :: "u16 \<Rightarrow> ('d, unit) mach" where
  "clr_w op =
     seq (cmod (\<lambda>c. c\<lparr>fN := False, fV := False, fC := False, fZ := True\<rparr>))
         (ea_writeW (TYP op) (REG op) 0)"

definition clr_l :: "u16 \<Rightarrow> ('d, unit) mach" where
  "clr_l op =
     seq (cmod (\<lambda>c. c\<lparr>fN := False, fV := False, fC := False, fZ := True\<rparr>))
         (ea_writeL (TYP op) (REG op) 0)"

definition neg_b :: "u16 \<Rightarrow> ('d, unit) mach" where
  "neg_b op =
     bind (ea_readB (TYP op) (REG op) True) (\<lambda>v.
     bind (NEG_B (ucast v)) (ea_writeB (TYP op) (REG op)))"

definition neg_w :: "u16 \<Rightarrow> ('d, unit) mach" where
  "neg_w op =
     bind (ea_readW (TYP op) (REG op) True) (\<lambda>v.
     bind (NEG_W (ucast v)) (ea_writeW (TYP op) (REG op)))"

definition neg_l :: "u16 \<Rightarrow> ('d, unit) mach" where
  "neg_l op =
     bind (ea_readL (TYP op) (REG op) True) (\<lambda>v.
     bind (NEG_L (ucast v)) (ea_writeL (TYP op) (REG op)))"

definition not_b :: "u16 \<Rightarrow> ('d, unit) mach" where
  "not_b op =
     bind (ea_readB (TYP op) (REG op) True) (\<lambda>v.
     bind (NOT_B (ucast v)) (ea_writeB (TYP op) (REG op)))"

definition not_w :: "u16 \<Rightarrow> ('d, unit) mach" where
  "not_w op =
     bind (ea_readW (TYP op) (REG op) True) (\<lambda>v.
     bind (NOT_W (ucast v)) (ea_writeW (TYP op) (REG op)))"

definition not_l :: "u16 \<Rightarrow> ('d, unit) mach" where
  "not_l op =
     bind (ea_readL (TYP op) (REG op) True) (\<lambda>v.
     bind (NOT_L (ucast v)) (ea_writeL (TYP op) (REG op)))"

definition nbcd :: "u16 \<Rightarrow> ('d, unit) mach" where
  "nbcd op =
     bind (ea_readB (TYP op) (REG op) True) (\<lambda>b.
     bind (cget fX) (\<lambda>x.
     bind (do_nbcd b x) (ea_writeB (TYP op) (REG op))))"

text \<open>\<open>LINK\<close> after its displacement.\<close>

definition link_by :: "u16 \<Rightarrow> u32 \<Rightarrow> ('d, unit) mach" where
  "link_by op disp =
     seq (bind (getA (REG op)) PUSH32)
    (seq (bind (getA 7) (setA (REG op)))
         (bind (getA 7) (\<lambda>sp. setA 7 (sp + disp))))"

definition link_l :: "u16 \<Rightarrow> ('d, unit) mach" where
  "link_l op = bind FETCH32 (link_by op)"

definition swap_dn :: "u16 \<Rightarrow> ('d, unit) mach" where
  "swap_dn op =
     bind (getD (REG op)) (\<lambda>d.
     let v = drop_bit 16 d OR push_bit 16 d in
     seq set_VC_clear (seq (TEST_L v) (setD (REG op) v)))"

definition bkpt :: "u16 \<Rightarrow> ('d, unit) mach" where
  "bkpt op = ILLEGAL_OP"

definition pea :: "u16 \<Rightarrow> ('d, unit) mach" where
  "pea op = bind (ea_getaddr (TYP op) (REG op) 0) PUSH32"

definition ext_w :: "u16 \<Rightarrow> ('d, unit) mach" where
  "ext_w op =
     bind (getD (REG op)) (\<lambda>d.
     let v = (scast (ucast (d AND 0xff) :: u8) :: u16) in
     seq set_VC_clear (seq (TEST_W v) (storeD_W (REG op) v)))"

definition ext_l :: "u16 \<Rightarrow> ('d, unit) mach" where
  "ext_l op =
     bind (getD (REG op)) (\<lambda>d.
     let v = (scast (ucast (d AND 0xffff) :: u16) :: u32) in
     seq set_VC_clear (seq (TEST_L v) (storeD_L (REG op) v)))"

definition extb_l :: "u16 \<Rightarrow> ('d, unit) mach" where
  "extb_l op =
     bind (getD (REG op)) (\<lambda>d.
     let v = (scast (ucast (d AND 0xff) :: u8) :: u32) in
     seq set_VC_clear (seq (TEST_L v) (setD (REG op) v)))"

definition tst_b :: "u16 \<Rightarrow> ('d, unit) mach" where
  "tst_b op =
     bind (ea_readB (TYP op) (REG op) False) (\<lambda>b.
     seq set_VC_clear (TEST_B (ucast b)))"

definition tst_w :: "u16 \<Rightarrow> ('d, unit) mach" where
  "tst_w op =
     bind (ea_readW (TYP op) (REG op) False) (\<lambda>b.
     seq set_VC_clear (TEST_W (ucast b)))"

definition tst_l :: "u16 \<Rightarrow> ('d, unit) mach" where
  "tst_l op =
     bind (ea_readL (TYP op) (REG op) False) (\<lambda>b.
     seq set_VC_clear (TEST_L (ucast b)))"

definition tas :: "u16 \<Rightarrow> ('d, unit) mach" where
  "tas op =
     bind (ea_readB (TYP op) (REG op) True) (\<lambda>v.
     seq (TEST_B v) (ea_writeB (TYP op) (REG op) (v OR 0x80)))"

definition illegal :: "u16 \<Rightarrow> ('d, unit) mach" where
  "illegal op = ILLEGAL_OP"

section \<open>Long multiplication and division\<close>

definition mul_l :: "u16 \<Rightarrow> ('d, unit) mach" where
  "mul_l op =
     bind FETCH (\<lambda>ext.
     bind (ea_readL (TYP op) (REG op) False) (\<lambda>v.
     let low = ext_reg ext 12; high = ext_reg ext 0 in
     bind (getD low) (\<lambda>d.
     if \<not> bit_at ext 11 then
       (if \<not> bit_at ext 10 then bind (MULU_L d v) (setD low)
        else bind (MULU_LL d v) (\<lambda>v2.
          seq (setD high (ucast (drop_bit 32 v2))) (setD low (ucast v2))))
     else
       (if \<not> bit_at ext 10 then bind (MULS_L d v) (setD low)
        else bind (MULS_LL d v) (\<lambda>v2.
          seq (setD high (ucast (drop_bit 32 v2))) (setD low (ucast v2)))))))"

text \<open>Storing quotient and remainder: the remainder is dropped when both go to one register.\<close>

definition set_quot_rem :: "regno \<Rightarrow> regno \<Rightarrow> u32 \<times> u32 \<Rightarrow> ('d, unit) mach" where
  "set_quot_rem q r qr = seq (setD q (fst qr)) (whenM (q \<noteq> r) (setD r (snd qr)))"

definition div_l :: "u16 \<Rightarrow> ('d, unit) mach" where
  "div_l op =
     bind FETCH (\<lambda>ext.
     bind (ea_readL (TYP op) (REG op) False) (\<lambda>v.
     let q = ext_reg ext 12; r = ext_reg ext 0 in
     bind (getD q) (\<lambda>dq.
     bind (getD r) (\<lambda>dr.
     let x = (push_bit 32 (ucast dr) OR ucast dq :: u64) in
     if \<not> bit_at ext 11 then
       (if \<not> bit_at ext 10 then bind (DIVU_L dq v) (set_quot_rem q r)
        else bind (DIVU_LL x v) (set_quot_rem q r))
     else
       (if \<not> bit_at ext 10 then bind (DIVS_L dq v) (set_quot_rem q r)
        else bind (DIVS_LL x v) (set_quot_rem q r))))))"

section \<open>Traps, stack frames, user stack pointer\<close>

definition trap :: "u16 \<Rightarrow> ('d, unit) mach" where
  "trap op = TRAP_ERROR (uint (TYP op) * 8 + uint (REG op))"

definition link_w :: "u16 \<Rightarrow> ('d, unit) mach" where
  "link_w op = bind FETCH (\<lambda>disp. link_by op (scast disp))"

definition unlk :: "u16 \<Rightarrow> ('d, unit) mach" where
  "unlk op =
     seq (bind (getA (REG op)) (setA 7))
         (bind POP32 (\<lambda>v. setA (REG op) (ucast v)))"

definition move_to_usp :: "u16 \<Rightarrow> ('d, unit) mach" where
  "move_to_usp op =
     seq PRIV_CHECK
    (seq (bind (getA (REG op)) (\<lambda>a. cmod (\<lambda>c. c\<lparr>USP := a\<rparr>)))
         TRACE_BRANCH)"

definition move_from_usp :: "u16 \<Rightarrow> ('d, unit) mach" where
  "move_from_usp op =
     seq PRIV_CHECK
    (seq (bind (cget USP) (setA (REG op)))
         TRACE_BRANCH)"

definition chk_l :: "u16 \<Rightarrow> ('d, unit) mach" where
  "chk_l op =
     bind (ea_readL (TYP op) (REG op) False) (\<lambda>v.
     bind (getD (DN op)) (\<lambda>d. CHK_L (ucast d) (ucast v)))"

definition chk_w :: "u16 \<Rightarrow> ('d, unit) mach" where
  "chk_w op =
     bind (ea_readW (TYP op) (REG op) False) (\<lambda>v.
     bind (getD (DN op)) (\<lambda>d. CHK_W (ucast d) (ucast v)))"

definition lea :: "u16 \<Rightarrow> ('d, unit) mach" where
  "lea op = bind (ea_getaddr (TYP op) (REG op) 0) (setA (DN op))"

end
