(* ===== verification/OpsData.thy ===== *)
theory OpsData
  imports Ea Arith Bits Bcd
begin

text \<open>
  Instruction handlers, second part: the two-operand data instructions of src/cpu/op.cc,
  opcode lines 5 and 8 to D (quick immediates, logic, arithmetic, comparison, extended and
  decimal arithmetic, exchange, word multiplication and division). Where C++ leaves the
  order of two operands open they are taken from left to right.
\<close>

text \<open>\<open>DN(op) ? DN(op) : 8\<close>, the immediate of the quick instructions.\<close>

definition quick :: "u16 \<Rightarrow> u32" where
  "quick op = (if DN op = 0 then 8 else ucast (DN op))"

section \<open>Quick immediates\<close>

definition addq_b :: "u16 \<Rightarrow> ('d, unit) mach" where
  "addq_b op =
     bind (ea_readB (TYP op) (REG op) True) (\<lambda>v.
     bind (ADD_B (ucast v) (ucast (quick op)))
          (ea_writeB (TYP op) (REG op)))"

definition addq_w :: "u16 \<Rightarrow> ('d, unit) mach" where
  "addq_w op =
     bind (ea_readW (TYP op) (REG op) True) (\<lambda>v.
     bind (ADD_W (ucast v) (ucast (quick op)))
          (ea_writeW (TYP op) (REG op)))"

definition addq_l :: "u16 \<Rightarrow> ('d, unit) mach" where
  "addq_l op =
     bind (ea_readL (TYP op) (REG op) True) (\<lambda>v.
     bind (ADD_L (ucast v) (ucast (quick op)))
          (ea_writeL (TYP op) (REG op)))"

definition subq_b :: "u16 \<Rightarrow> ('d, unit) mach" where
  "subq_b op =
     bind (ea_readB (TYP op) (REG op) True) (\<lambda>v.
     bind (SUB_B (ucast v) (ucast (quick op)))
          (ea_writeB (TYP op) (REG op)))"

definition subq_w :: "u16 \<Rightarrow> ('d, unit) mach" where
  "subq_w op =
     bind (ea_readW (TYP op) (REG op) True) (\<lambda>v.
     bind (SUB_W (ucast v) (ucast (quick op)))
          (ea_writeW (TYP op) (REG op)))"

definition subq_l :: "u16 \<Rightarrow> ('d, unit) mach" where
  "subq_l op =
     bind (ea_readL (TYP op) (REG op) True) (\<lambda>v.
     bind (SUB_L (ucast v) (ucast (quick op)))
          (ea_writeL (TYP op) (REG op)))"

definition addq_an :: "u16 \<Rightarrow> ('d, unit) mach" where
  "addq_an op =
     bind (getA (REG op)) (\<lambda>a. setA (REG op) (a + quick op))"

definition subq_an :: "u16 \<Rightarrow> ('d, unit) mach" where
  "subq_an op =
     bind (getA (REG op)) (\<lambda>a. setA (REG op) (a - quick op))"

section \<open>Line 8: or, word division, decimal subtraction, pack\<close>

definition or_b_to_dn :: "u16 \<Rightarrow> ('d, unit) mach" where
  "or_b_to_dn op =
     bind (ea_readB (TYP op) (REG op) False) (\<lambda>v.
     bind (getD (DN op)) (\<lambda>d.
     bind (OR_B (ucast v) (ucast d)) (storeD_B (DN op))))"

definition or_w_to_dn :: "u16 \<Rightarrow> ('d, unit) mach" where
  "or_w_to_dn op =
     bind (ea_readW (TYP op) (REG op) False) (\<lambda>v.
     bind (getD (DN op)) (\<lambda>d.
     bind (OR_W (ucast v) (ucast d)) (storeD_W (DN op))))"

definition or_l_to_dn :: "u16 \<Rightarrow> ('d, unit) mach" where
  "or_l_to_dn op =
     bind (ea_readL (TYP op) (REG op) False) (\<lambda>v.
     bind (getD (DN op)) (\<lambda>d.
     bind (OR_L (ucast v) (ucast d)) (storeD_L (DN op))))"

definition or_b_to_ea :: "u16 \<Rightarrow> ('d, unit) mach" where
  "or_b_to_ea op =
     bind (ea_readB (TYP op) (REG op) True) (\<lambda>v.
     bind (getD (DN op)) (\<lambda>d.
     bind (OR_B (ucast d) (ucast v)) (ea_writeB (TYP op) (REG op))))"

definition or_w_to_ea :: "u16 \<Rightarrow> ('d, unit) mach" where
  "or_w_to_ea op =
     bind (ea_readW (TYP op) (REG op) True) (\<lambda>v.
     bind (getD (DN op)) (\<lambda>d.
     bind (OR_W (ucast d) (ucast v)) (ea_writeW (TYP op) (REG op))))"

definition or_l_to_ea :: "u16 \<Rightarrow> ('d, unit) mach" where
  "or_l_to_ea op =
     bind (ea_readL (TYP op) (REG op) True) (\<lambda>v.
     bind (getD (DN op)) (\<lambda>d.
     bind (OR_L (ucast d) (ucast v)) (ea_writeL (TYP op) (REG op))))"

definition divu_w :: "u16 \<Rightarrow> ('d, unit) mach" where
  "divu_w op =
     bind (getD (DN op)) (\<lambda>d.
     bind (ea_readW (TYP op) (REG op) False) (\<lambda>v.
     bind (DIVU_W d (ucast v)) (\<lambda>(div_q, div_r).
     setD (DN op) (push_bit 16 (ucast div_r) OR ucast div_q))))"

definition divs_w :: "u16 \<Rightarrow> ('d, unit) mach" where
  "divs_w op =
     bind (getD (DN op)) (\<lambda>d.
     bind (ea_readW (TYP op) (REG op) False) (\<lambda>v.
     bind (DIVS_W d (ucast v)) (\<lambda>(div_q, div_r).
     setD (DN op) (push_bit 16 (ucast div_r) OR ucast div_q))))"

text \<open>\<open>ReadB(--cpu.A[r])\<close> and \<open>WriteB(--cpu.A[r], v)\<close>.\<close>

definition pre_dec :: "regno \<Rightarrow> u32 \<Rightarrow> ('d, u32) mach" where
  "pre_dec r n = bind (getA r) (\<lambda>a. seq (setA r (a - n)) (return (a - n)))"

definition ReadB_dec :: "regno \<Rightarrow> ('d, u8) mach" where
  "ReadB_dec r = bind (pre_dec r 1) ReadB"

definition WriteB_dec :: "regno \<Rightarrow> u8 \<Rightarrow> ('d, unit) mach" where
  "WriteB_dec r v = bind (pre_dec r 1) (\<lambda>a. WriteB a v)"

definition sbcd_d :: "u16 \<Rightarrow> ('d, unit) mach" where
  "sbcd_d op =
     bind (getD (REG op)) (\<lambda>s.
     bind (getD (DN op)) (\<lambda>d.
     bind (cget fX) (\<lambda>x.
     bind (do_sbcd (ucast s) (ucast d) x) (storeD_B (DN op)))))"

definition sbcd_m :: "u16 \<Rightarrow> ('d, unit) mach" where
  "sbcd_m op =
     bind (ReadB_dec (REG op)) (\<lambda>v1.
     bind (ReadB_dec (DN op)) (\<lambda>v2.
     bind (getA (DN op)) (\<lambda>a.
     bind (cget fX) (\<lambda>x.
     bind (do_sbcd v1 v2 x) (WriteB a)))))"

definition pack_d :: "u16 \<Rightarrow> ('d, unit) mach" where
  "pack_d op =
     bind FETCH (\<lambda>adj.
     bind (getD (REG op)) (\<lambda>s.
     storeD_B (DN op) (do_pack (ucast s) adj)))"

definition pack_m :: "u16 \<Rightarrow> ('d, unit) mach" where
  "pack_m op =
     bind FETCH (\<lambda>adj.
     bind (ReadB_dec (REG op)) (\<lambda>lo.
     bind (ReadB_dec (REG op)) (\<lambda>hi.
     WriteB_dec (DN op) (do_pack (ucast lo OR push_bit 8 (ucast hi)) adj))))"

definition unpk_d :: "u16 \<Rightarrow> ('d, unit) mach" where
  "unpk_d op =
     bind FETCH (\<lambda>adj.
     bind (getD (REG op)) (\<lambda>s.
     storeD_W (DN op) (do_unpk (ucast s) adj)))"

definition unpk_m :: "u16 \<Rightarrow> ('d, unit) mach" where
  "unpk_m op =
     bind FETCH (\<lambda>adj.
     bind (ReadB_dec (REG op)) (\<lambda>s.
     let d = do_unpk s adj in
     seq (WriteB_dec (DN op) (ucast d))
         (WriteB_dec (DN op) (ucast (drop_bit 8 d)))))"

section \<open>Line 9: subtraction\<close>

definition sub_b_to_dn :: "u16 \<Rightarrow> ('d, unit) mach" where
  "sub_b_to_dn op =
     bind (getD (DN op)) (\<lambda>d.
     bind (ea_readB (TYP op) (REG op) False) (\<lambda>v.
     bind (SUB_B (ucast d) (ucast v)) (storeD_B (DN op))))"

definition sub_w_to_dn :: "u16 \<Rightarrow> ('d, unit) mach" where
  "sub_w_to_dn op =
     bind (getD (DN op)) (\<lambda>d.
     bind (ea_readW (TYP op) (REG op) False) (\<lambda>v.
     bind (SUB_W (ucast d) (ucast v)) (storeD_W (DN op))))"

definition sub_l_to_dn :: "u16 \<Rightarrow> ('d, unit) mach" where
  "sub_l_to_dn op =
     bind (getD (DN op)) (\<lambda>d.
     bind (ea_readL (TYP op) (REG op) False) (\<lambda>v.
     bind (SUB_L (ucast d) (ucast v)) (storeD_L (DN op))))"

definition sub_b_to_ea :: "u16 \<Rightarrow> ('d, unit) mach" where
  "sub_b_to_ea op =
     bind (ea_readB (TYP op) (REG op) True) (\<lambda>v.
     bind (getD (DN op)) (\<lambda>d.
     bind (SUB_B (ucast v) (ucast d)) (ea_writeB (TYP op) (REG op))))"

definition sub_w_to_ea :: "u16 \<Rightarrow> ('d, unit) mach" where
  "sub_w_to_ea op =
     bind (ea_readW (TYP op) (REG op) True) (\<lambda>v.
     bind (getD (DN op)) (\<lambda>d.
     bind (SUB_W (ucast v) (ucast d)) (ea_writeW (TYP op) (REG op))))"

definition sub_l_to_ea :: "u16 \<Rightarrow> ('d, unit) mach" where
  "sub_l_to_ea op =
     bind (ea_readL (TYP op) (REG op) True) (\<lambda>v.
     bind (getD (DN op)) (\<lambda>d.
     bind (SUB_L (ucast v) (ucast d)) (ea_writeL (TYP op) (REG op))))"

definition suba_w :: "u16 \<Rightarrow> ('d, unit) mach" where
  "suba_w op =
     bind (ea_readW (TYP op) (REG op) False) (\<lambda>v.
     bind (getA (DN op)) (\<lambda>a.
     setA (DN op) (a - scast (ucast v :: u16))))"

definition suba_l :: "u16 \<Rightarrow> ('d, unit) mach" where
  "suba_l op =
     bind (ea_readL (TYP op) (REG op) False) (\<lambda>v.
     bind (getA (DN op)) (\<lambda>a. setA (DN op) (a - v)))"

text \<open>The destination of \<open>SUBX\<close> is \<open>REG\<close> in this code, that of \<open>ADDX\<close> is \<open>DN\<close>.\<close>

definition subx_b_d :: "u16 \<Rightarrow> ('d, unit) mach" where
  "subx_b_d op =
     bind (getD (REG op)) (\<lambda>d.
     bind (getD (DN op)) (\<lambda>s.
     bind (cget fX) (\<lambda>x.
     bind (SUBX_B (ucast d) (ucast s) x) (storeD_B (REG op)))))"

definition subx_b_m :: "u16 \<Rightarrow> ('d, unit) mach" where
  "subx_b_m op =
     bind (pre_dec (REG op) 1) (\<lambda>dst_adr.
     bind (pre_dec (DN op) 1) (\<lambda>src_adr.
     bind (ReadB dst_adr) (\<lambda>v1.
     bind (ReadB src_adr) (\<lambda>v2.
     bind (cget fX) (\<lambda>x.
     bind (SUBX_B v1 v2 x) (WriteB dst_adr))))))"

definition subx_w_d :: "u16 \<Rightarrow> ('d, unit) mach" where
  "subx_w_d op =
     bind (getD (REG op)) (\<lambda>d.
     bind (getD (DN op)) (\<lambda>s.
     bind (cget fX) (\<lambda>x.
     bind (SUBX_W (ucast d) (ucast s) x) (storeD_W (REG op)))))"

definition subx_w_m :: "u16 \<Rightarrow> ('d, unit) mach" where
  "subx_w_m op =
     bind (pre_dec (REG op) 2) (\<lambda>dst_adr.
     bind (pre_dec (DN op) 2) (\<lambda>src_adr.
     bind (ReadW dst_adr) (\<lambda>v1.
     bind (ReadW src_adr) (\<lambda>v2.
     bind (cget fX) (\<lambda>x.
     bind (SUBX_W v1 v2 x) (WriteW dst_adr))))))"

definition subx_l_d :: "u16 \<Rightarrow> ('d, unit) mach" where
  "subx_l_d op =
     bind (getD (REG op)) (\<lambda>d.
     bind (getD (DN op)) (\<lambda>s.
     bind (cget fX) (\<lambda>x.
     bind (SUBX_L (ucast d) (ucast s) x) (storeD_L (REG op)))))"

definition subx_l_m :: "u16 \<Rightarrow> ('d, unit) mach" where
  "subx_l_m op =
     bind (pre_dec (REG op) 4) (\<lambda>dst_adr.
     bind (pre_dec (DN op) 4) (\<lambda>src_adr.
     bind (ReadL dst_adr) (\<lambda>v1.
     bind (ReadL src_adr) (\<lambda>v2.
     bind (cget fX) (\<lambda>x.
     bind (SUBX_L v1 v2 x) (WriteL dst_adr))))))"

section \<open>Lines A and B: A-line, comparison, exclusive or\<close>

definition aline_ex :: "u16 \<Rightarrow> ('d, unit) mach" where
  "aline_ex op =
     ALINE"

definition cmp_b :: "u16 \<Rightarrow> ('d, unit) mach" where
  "cmp_b op =
     bind (getD (DN op)) (\<lambda>d.
     bind (ea_readB (TYP op) (REG op) False) (\<lambda>v.
     CMP_B (ucast d) (ucast v)))"

definition cmp_w :: "u16 \<Rightarrow> ('d, unit) mach" where
  "cmp_w op =
     bind (getD (DN op)) (\<lambda>d.
     bind (ea_readW (TYP op) (REG op) False) (\<lambda>v.
     CMP_W (ucast d) (ucast v)))"

definition cmp_l :: "u16 \<Rightarrow> ('d, unit) mach" where
  "cmp_l op =
     bind (getD (DN op)) (\<lambda>d.
     bind (ea_readL (TYP op) (REG op) False) (\<lambda>v.
     CMP_L (ucast d) (ucast v)))"

definition cmpa_w :: "u16 \<Rightarrow> ('d, unit) mach" where
  "cmpa_w op =
     bind (getA (DN op)) (\<lambda>a.
     bind (ea_readW (TYP op) (REG op) False) (\<lambda>v.
     CMP_L a (scast (ucast v :: u16))))"

definition cmpa_l :: "u16 \<Rightarrow> ('d, unit) mach" where
  "cmpa_l op =
     bind (getA (DN op)) (\<lambda>a.
     bind (ea_readL (TYP op) (REG op) False) (\<lambda>v. CMP_L a v))"

definition eor_b :: "u16 \<Rightarrow> ('d, unit) mach" where
  "eor_b op =
     bind (ea_readB (TYP op) (REG op) True) (\<lambda>v.
     bind (getD (DN op)) (\<lambda>d.
     bind (XOR_B (ucast d) (ucast v)) (ea_writeB (TYP op) (REG op))))"

definition eor_w :: "u16 \<Rightarrow> ('d, unit) mach" where
  "eor_w op =
     bind (ea_readW (TYP op) (REG op) True) (\<lambda>v.
     bind (getD (DN op)) (\<lambda>d.
     bind (XOR_W (ucast d) (ucast v)) (ea_writeW (TYP op) (REG op))))"

definition eor_l :: "u16 \<Rightarrow> ('d, unit) mach" where
  "eor_l op =
     bind (ea_readL (TYP op) (REG op) True) (\<lambda>v.
     bind (getD (DN op)) (\<lambda>d.
     bind (XOR_L (ucast d) (ucast v)) (ea_writeL (TYP op) (REG op))))"

text \<open>\<open>std::exchange(cpu.A[r], cpu.A[r] + n)\<close>.\<close>

definition post_inc :: "regno \<Rightarrow> u32 \<Rightarrow> ('d, u32) mach" where
  "post_inc r n = bind (getA r) (\<lambda>a. seq (setA r (a + n)) (return a))"

definition cmpm_b :: "u16 \<Rightarrow> ('d, unit) mach" where
  "cmpm_b op =
     bind (post_inc (REG op) 1) (\<lambda>src_adr.
     bind (post_inc (DN op) 1) (\<lambda>dst_adr.
     bind (ReadB dst_adr) (\<lambda>d.
     bind (ReadB src_adr) (\<lambda>s. CMP_B d s))))"

definition cmpm_w :: "u16 \<Rightarrow> ('d, unit) mach" where
  "cmpm_w op =
     bind (post_inc (REG op) 2) (\<lambda>src_adr.
     bind (post_inc (DN op) 2) (\<lambda>dst_adr.
     bind (ReadW dst_adr) (\<lambda>d.
     bind (ReadW src_adr) (\<lambda>s. CMP_W d s))))"

definition cmpm_l :: "u16 \<Rightarrow> ('d, unit) mach" where
  "cmpm_l op =
     bind (post_inc (REG op) 4) (\<lambda>src_adr.
     bind (post_inc (DN op) 4) (\<lambda>dst_adr.
     bind (ReadL dst_adr) (\<lambda>d.
     bind (ReadL src_adr) (\<lambda>s. CMP_L d s))))"

section \<open>Line C: and, word multiplication, decimal addition, exchange\<close>

definition and_b_to_dn :: "u16 \<Rightarrow> ('d, unit) mach" where
  "and_b_to_dn op =
     bind (ea_readB (TYP op) (REG op) False) (\<lambda>v.
     bind (getD (DN op)) (\<lambda>d.
     bind (AND_B (ucast v) (ucast d)) (storeD_B (DN op))))"

definition and_w_to_dn :: "u16 \<Rightarrow> ('d, unit) mach" where
  "and_w_to_dn op =
     bind (ea_readW (TYP op) (REG op) False) (\<lambda>v.
     bind (getD (DN op)) (\<lambda>d.
     bind (AND_W (ucast v) (ucast d)) (storeD_W (DN op))))"

definition and_l_to_dn :: "u16 \<Rightarrow> ('d, unit) mach" where
  "and_l_to_dn op =
     bind (ea_readL (TYP op) (REG op) False) (\<lambda>v.
     bind (getD (DN op)) (\<lambda>d.
     bind (AND_L (ucast v) (ucast d)) (storeD_L (DN op))))"

definition and_b_to_ea :: "u16 \<Rightarrow> ('d, unit) mach" where
  "and_b_to_ea op =
     bind (ea_readB (TYP op) (REG op) True) (\<lambda>v.
     bind (getD (DN op)) (\<lambda>d.
     bind (AND_B (ucast d) (ucast v)) (ea_writeB (TYP op) (REG op))))"

definition and_w_to_ea :: "u16 \<Rightarrow> ('d, unit) mach" where
  "and_w_to_ea op =
     bind (ea_readW (TYP op) (REG op) True) (\<lambda>v.
     bind (getD (DN op)) (\<lambda>d.
     bind (AND_W (ucast d) (ucast v)) (ea_writeW (TYP op) (REG op))))"

definition and_l_to_ea :: "u16 \<Rightarrow> ('d, unit) mach" where
  "and_l_to_ea op =
     bind (ea_readL (TYP op) (REG op) True) (\<lambda>v.
     bind (getD (DN op)) (\<lambda>d.
     bind (AND_L (ucast d) (ucast v)) (ea_writeL (TYP op) (REG op))))"

definition mulu_w :: "u16 \<Rightarrow> ('d, unit) mach" where
  "mulu_w op =
     bind (getD (DN op)) (\<lambda>d.
     bind (ea_readW (TYP op) (REG op) False) (\<lambda>v.
     bind (MULU_W (ucast d) (ucast v)) (setD (DN op))))"

definition muls_w :: "u16 \<Rightarrow> ('d, unit) mach" where
  "muls_w op =
     bind (getD (DN op)) (\<lambda>d.
     bind (ea_readW (TYP op) (REG op) False) (\<lambda>v.
     bind (MULS_W (ucast d) (ucast v)) (setD (DN op))))"

definition abcd_d :: "u16 \<Rightarrow> ('d, unit) mach" where
  "abcd_d op =
     bind (getD (REG op)) (\<lambda>s.
     bind (getD (DN op)) (\<lambda>d.
     bind (cget fX) (\<lambda>x.
     bind (do_abcd (ucast s) (ucast d) x) (storeD_B (DN op)))))"

definition abcd_m :: "u16 \<Rightarrow> ('d, unit) mach" where
  "abcd_m op =
     bind (ReadB_dec (REG op)) (\<lambda>v1.
     bind (ReadB_dec (DN op)) (\<lambda>v2.
     bind (getA (DN op)) (\<lambda>a.
     bind (cget fX) (\<lambda>x.
     bind (do_abcd v1 v2 x) (WriteB a)))))"

definition exg_dn :: "u16 \<Rightarrow> ('d, unit) mach" where
  "exg_dn op =
     bind (getD (DN op)) (\<lambda>x.
     bind (getD (REG op)) (\<lambda>y.
     seq (setD (DN op) y) (setD (REG op) x)))"

definition exg_an :: "u16 \<Rightarrow> ('d, unit) mach" where
  "exg_an op =
     bind (getA (DN op)) (\<lambda>x.
     bind (getA (REG op)) (\<lambda>y.
     seq (setA (DN op) y) (setA (REG op) x)))"

definition exg_da :: "u16 \<Rightarrow> ('d, unit) mach" where
  "exg_da op =
     bind (getD (DN op)) (\<lambda>x.
     bind (getA (REG op)) (\<lambda>y.
     seq (setD (DN op) y) (setA (REG op) x)))"

section \<open>Line D: addition\<close>

definition add_b_to_dn :: "u16 \<Rightarrow> ('d, unit) mach" where
  "add_b_to_dn op =
     bind (getD (DN op)) (\<lambda>d.
     bind (ea_readB (TYP op) (REG op) False) (\<lambda>v.
     bind (ADD_B (ucast d) (ucast v)) (storeD_B (DN op))))"

definition add_w_to_dn :: "u16 \<Rightarrow> ('d, unit) mach" where
  "add_w_to_dn op =
     bind (getD (DN op)) (\<lambda>d.
     bind (ea_readW (TYP op) (REG op) False) (\<lambda>v.
     bind (ADD_W (ucast d) (ucast v)) (storeD_W (DN op))))"

definition add_l_to_dn :: "u16 \<Rightarrow> ('d, unit) mach" where
  "add_l_to_dn op =
     bind (getD (DN op)) (\<lambda>d.
     bind (ea_readL (TYP op) (REG op) False) (\<lambda>v.
     bind (ADD_L (ucast d) (ucast v)) (storeD_L (DN op))))"

definition add_b_to_ea :: "u16 \<Rightarrow> ('d, unit) mach" where
  "add_b_to_ea op =
     bind (ea_readB (TYP op) (REG op) True) (\<lambda>v.
     bind (getD (DN op)) (\<lambda>d.
     bind (ADD_B (ucast v) (ucast d)) (ea_writeB (TYP op) (REG op))))"

definition add_w_to_ea :: "u16 \<Rightarrow> ('d, unit) mach" where
  "add_w_to_ea op =
     bind (ea_readW (TYP op) (REG op) True) (\<lambda>v.
     bind (getD (DN op)) (\<lambda>d.
     bind (ADD_W (ucast v) (ucast d)) (ea_writeW (TYP op) (REG op))))"

definition add_l_to_ea :: "u16 \<Rightarrow> ('d, unit) mach" where
  "add_l_to_ea op =
     bind (ea_readL (TYP op) (REG op) True) (\<lambda>v.
     bind (getD (DN op)) (\<lambda>d.
     bind (ADD_L (ucast v) (ucast d)) (ea_writeL (TYP op) (REG op))))"

definition adda_w :: "u16 \<Rightarrow> ('d, unit) mach" where
  "adda_w op =
     bind (ea_readW (TYP op) (REG op) False) (\<lambda>v.
     bind (getA (DN op)) (\<lambda>a.
     setA (DN op) (a + scast (ucast v :: u16))))"

definition adda_l :: "u16 \<Rightarrow> ('d, unit) mach" where
  "adda_l op =
     bind (ea_readL (TYP op) (REG op) False) (\<lambda>v.
     bind (getA (DN op)) (\<lambda>a. setA (DN op) (a + v)))"

definition addx_b_d :: "u16 \<Rightarrow> ('d, unit) mach" where
  "addx_b_d op =
     bind (getD (DN op)) (\<lambda>d.
     bind (getD (REG op)) (\<lambda>s.
     bind (cget fX) (\<lambda>x.
     bind (ADDX_B (ucast d) (ucast s) x) (storeD_B (DN op)))))"

definition addx_b_m :: "u16 \<Rightarrow> ('d, unit) mach" where
  "addx_b_m op =
     bind (pre_dec (DN op) 1) (\<lambda>dst_adr.
     bind (pre_dec (REG op) 1) (\<lambda>src_adr.
     bind (ReadB dst_adr) (\<lambda>v1.
     bind (ReadB src_adr) (\<lambda>v2.
     bind (cget fX) (\<lambda>x.
     bind (ADDX_B v1 v2 x) (WriteB dst_adr))))))"

definition addx_w_d :: "u16 \<Rightarrow> ('d, unit) mach" where
  "addx_w_d op =
     bind (getD (DN op)) (\<lambda>d.
     bind (getD (REG op)) (\<lambda>s.
     bind (cget fX) (\<lambda>x.
     bind (ADDX_W (ucast d) (ucast s) x) (storeD_W (DN op)))))"

definition addx_w_m :: "u16 \<Rightarrow> ('d, unit) mach" where
  "addx_w_m op =
     bind (pre_dec (DN op) 2) (\<lambda>dst_adr.
     bind (pre_dec (REG op) 2) (\<lambda>src_adr.
     bind (ReadW dst_adr) (\<lambda>v1.
     bind (ReadW src_adr) (\<lambda>v2.
     bind (cget fX) (\<lambda>x.
     bind (ADDX_W v1 v2 x) (WriteW dst_adr))))))"

definition addx_l_d :: "u16 \<Rightarrow> ('d, unit) mach" where
  "addx_l_d op =
     bind (getD (DN op)) (\<lambda>d.
     bind (getD (REG op)) (\<lambda>s.
     bind (cget fX) (\<lambda>x.
     bind (ADDX_L (ucast d) (ucast s) x) (storeD_L (DN op)))))"

definition addx_l_m :: "u16 \<Rightarrow> ('d, unit) mach" where
  "addx_l_m op =
     bind (pre_dec (DN op) 4) (\<lambda>dst_adr.
     bind (pre_dec (REG op) 4) (\<lambda>src_adr.
     bind (ReadL dst_adr) (\<lambda>v1.
     bind (ReadL src_adr) (\<lambda>v2.
     bind (cget fX) (\<lambda>x.
     bind (ADDX_L v1 v2 x) (WriteL dst_adr))))))"

end
