(* ===== verification/Bitfield.thy ===== *)
theory Bitfield
  imports Memory Bits
begin

text \<open>
  Bit fields: src/cpu/bitfield.cc. An offset is an \<open>int\<close>, possibly negative, a width a
  number from 1 to 32 (what \<open>get_bf_offset_width\<close> yields). The memory variants number bits
  from the most significant bit of the byte at the address.
\<close>

text \<open>\<open>std::rotl\<close> and \<open>std::rotr\<close> take any \<open>int\<close>, modulo the width.\<close>

definition rotl32 :: "u32 \<Rightarrow> int \<Rightarrow> u32" where
  "rotl32 v n = word_rotl (nat (n mod 32)) v"

definition rotr32 :: "u32 \<Rightarrow> int \<Rightarrow> u32" where
  "rotr32 v n = word_rotr (nat (n mod 32)) v"

text \<open>\<open>-1 << (32 - width)\<close>: the leftmost \<open>width\<close> bits.\<close>

definition left_mask :: "nat \<Rightarrow> u32" where
  "left_mask width = push_bit (32 - width) (- 1)"

definition BF_D :: "u32 \<Rightarrow> int \<Rightarrow> nat \<Rightarrow> u32" where
  "BF_D v offset width = rotl32 v (offset mod 32) AND left_mask width"

definition bf_addr :: "u32 \<Rightarrow> int \<Rightarrow> u32" where
  "bf_addr addr offset = addr + word_of_int (offset div 8)"

definition bf_off :: "int \<Rightarrow> nat" where
  "bf_off offset = nat (offset mod 8)"

text \<open>A byte of the field, read only when the field reaches it.\<close>

definition read_if :: "bool \<Rightarrow> u32 \<Rightarrow> (u32 \<Rightarrow> u32) \<Rightarrow> ('d, u32) mach" where
  "read_if b addr f =
     (if b then bind (ReadB addr) (\<lambda>x. return (f (ucast x))) else return 0)"

definition BF_M :: "u32 \<Rightarrow> int \<Rightarrow> nat \<Rightarrow> ('d, u32) mach" where
  "BF_M addr0 offset0 width =
     (let addr = bf_addr addr0 offset0; offset = bf_off offset0 in
      bind (ReadB addr) (\<lambda>b0.
      bind (read_if (8 < width + offset) (addr + 1) (push_bit (16 + offset))) (\<lambda>v1.
      bind (read_if (16 < width + offset) (addr + 2) (push_bit (8 + offset))) (\<lambda>v2.
      bind (read_if (24 < width + offset) (addr + 3) (push_bit offset)) (\<lambda>v3.
      bind (read_if (32 < width + offset) (addr + 4) (drop_bit (8 - offset))) (\<lambda>v4.
      return ((push_bit (24 + offset) (ucast b0) OR v1 OR v2 OR v3 OR v4)
        AND left_mask width)))))))"

definition BFTST_D :: "u32 \<Rightarrow> int \<Rightarrow> nat \<Rightarrow> ('d, u32) mach" where
  "BFTST_D v offset width =
     (let x = BF_D v offset width in seq set_VC_clear (seq (TEST_L x) (return x)))"

definition BFTST_M :: "u32 \<Rightarrow> int \<Rightarrow> nat \<Rightarrow> ('d, u32) mach" where
  "BFTST_M addr offset width =
     bind (BF_M addr offset width) (\<lambda>x. seq set_VC_clear (seq (TEST_L x) (return x)))"

text \<open>\<open>WriteB(a, f(ReadB(a)))\<close>.\<close>

definition rmwB :: "u32 \<Rightarrow> (u8 \<Rightarrow> u8) \<Rightarrow> ('d, unit) mach" where
  "rmwB addr f = bind (ReadB addr) (\<lambda>b. WriteB addr (f b))"

text \<open>\<open>uint8_t mask = -1 << n\<close>.\<close>

definition mask8 :: "nat \<Rightarrow> u8" where
  "mask8 n = push_bit n (- 1)"

definition BFCHG_D :: "u32 \<Rightarrow> int \<Rightarrow> nat \<Rightarrow> ('d, u32) mach" where
  "BFCHG_D v offset width =
     seq (BFTST_D v offset width) (return (v XOR rotr32 (left_mask width) offset))"

definition BFCHG_M :: "u32 \<Rightarrow> int \<Rightarrow> nat \<Rightarrow> ('d, unit) mach" where
  "BFCHG_M addr0 offset0 width =
     seq (BFTST_M addr0 offset0 width)
     (let addr = bf_addr addr0 offset0; offset = bf_off offset0; ln = width + offset in
      if ln \<le> 8 then
        rmwB addr (\<lambda>b. b XOR drop_bit offset (mask8 (8 - width)))
      else if ln \<le> 16 then
        seq (rmwB addr (\<lambda>b. b XOR drop_bit offset (mask8 offset)))
            (rmwB (addr + 1) (\<lambda>b. b XOR mask8 (16 - ln)))
      else if ln \<le> 24 then
        seq (rmwB addr (\<lambda>b. b XOR drop_bit offset (mask8 offset)))
       (seq (rmwB (addr + 1) (\<lambda>b. NOT b))
            (rmwB (addr + 2) (\<lambda>b. b XOR mask8 (24 - ln))))
      else if ln \<le> 32 then
        seq (rmwB addr (\<lambda>b. b XOR drop_bit offset (mask8 offset)))
       (seq (rmwB (addr + 1) (\<lambda>b. NOT b))
       (seq (rmwB (addr + 2) (\<lambda>b. NOT b))
            (rmwB (addr + 3) (\<lambda>b. b XOR mask8 (32 - ln)))))
      else
        seq (rmwB addr (\<lambda>b. b XOR drop_bit offset (mask8 offset)))
       (seq (rmwB (addr + 1) (\<lambda>b. NOT b))
       (seq (rmwB (addr + 2) (\<lambda>b. NOT b))
       (seq (rmwB (addr + 3) (\<lambda>b. NOT b))
            (rmwB (addr + 4) (\<lambda>b. b XOR mask8 (40 - ln)))))))"

definition BFCLR_D :: "u32 \<Rightarrow> int \<Rightarrow> nat \<Rightarrow> ('d, u32) mach" where
  "BFCLR_D v offset width =
     seq (BFTST_D v offset width) (return (v AND NOT (rotr32 (left_mask width) offset)))"

definition BFCLR_M :: "u32 \<Rightarrow> int \<Rightarrow> nat \<Rightarrow> ('d, unit) mach" where
  "BFCLR_M addr0 offset0 width =
     seq (BFTST_M addr0 offset0 width)
     (let addr = bf_addr addr0 offset0; offset = bf_off offset0; ln = width + offset in
      if ln \<le> 8 then
        rmwB addr (\<lambda>b. b AND NOT (drop_bit offset (mask8 (8 - width))))
      else if ln \<le> 16 then
        seq (rmwB addr (\<lambda>b. b AND NOT (drop_bit offset (mask8 offset))))
            (rmwB (addr + 1) (\<lambda>b. b AND NOT (mask8 (16 - ln))))
      else if ln \<le> 24 then
        seq (rmwB addr (\<lambda>b. b AND NOT (drop_bit offset (mask8 offset))))
       (seq (WriteB (addr + 1) 0)
            (rmwB (addr + 2) (\<lambda>b. b AND NOT (mask8 (24 - ln)))))
      else if ln \<le> 32 then
        seq (rmwB addr (\<lambda>b. b AND NOT (drop_bit offset (mask8 offset))))
       (seq (WriteB (addr + 1) 0)
       (seq (WriteB (addr + 2) 0)
            (rmwB (addr + 3) (\<lambda>b. b AND NOT (mask8 (32 - ln))))))
      else
        seq (rmwB addr (\<lambda>b. b AND NOT (drop_bit offset (mask8 offset))))
       (seq (WriteB (addr + 1) 0)
       (seq (WriteB (addr + 2) 0)
       (seq (WriteB (addr + 3) 0)
            (rmwB (addr + 4) (\<lambda>b. b AND NOT (mask8 (40 - ln))))))))"

definition BFSET_D :: "u32 \<Rightarrow> int \<Rightarrow> nat \<Rightarrow> ('d, u32) mach" where
  "BFSET_D v offset width =
     seq (BFTST_D v offset width) (return (v OR rotr32 (left_mask width) offset))"

definition BFSET_M :: "u32 \<Rightarrow> int \<Rightarrow> nat \<Rightarrow> ('d, unit) mach" where
  "BFSET_M addr0 offset0 width =
     seq (BFTST_M addr0 offset0 width)
     (let addr = bf_addr addr0 offset0; offset = bf_off offset0; ln = width + offset in
      if ln \<le> 8 then
        rmwB addr (\<lambda>b. b OR drop_bit offset (mask8 (8 - width)))
      else if ln \<le> 16 then
        seq (rmwB addr (\<lambda>b. b OR drop_bit offset (mask8 offset)))
            (rmwB (addr + 1) (\<lambda>b. b OR mask8 (16 - ln)))
      else if ln \<le> 24 then
        seq (rmwB addr (\<lambda>b. b OR drop_bit offset (mask8 offset)))
       (seq (WriteB (addr + 1) 0xFF)
            (rmwB (addr + 2) (\<lambda>b. b OR mask8 (24 - ln))))
      else if ln \<le> 32 then
        seq (rmwB addr (\<lambda>b. b OR drop_bit offset (mask8 offset)))
       (seq (WriteB (addr + 1) 0xFF)
       (seq (WriteB (addr + 2) 0xFF)
            (rmwB (addr + 3) (\<lambda>b. b OR mask8 (32 - ln)))))
      else
        seq (rmwB addr (\<lambda>b. b OR drop_bit offset (mask8 offset)))
       (seq (WriteB (addr + 1) 0xFF)
       (seq (WriteB (addr + 2) 0xFF)
       (seq (WriteB (addr + 3) 0xFF)
            (rmwB (addr + 4) (\<lambda>b. b OR mask8 (40 - ln)))))))"

definition BFEXTU_D :: "u32 \<Rightarrow> int \<Rightarrow> nat \<Rightarrow> ('d, u32) mach" where
  "BFEXTU_D v offset width =
     bind (BFTST_D v offset width) (\<lambda>x. return (drop_bit (32 - width) x))"

definition BFEXTU_M :: "u32 \<Rightarrow> int \<Rightarrow> nat \<Rightarrow> ('d, u32) mach" where
  "BFEXTU_M addr offset width =
     bind (BFTST_M addr offset width) (\<lambda>x. return (drop_bit (32 - width) x))"

definition BFEXTS_D :: "u32 \<Rightarrow> int \<Rightarrow> nat \<Rightarrow> ('d, u32) mach" where
  "BFEXTS_D v offset width =
     bind (BFTST_D v offset width) (\<lambda>x. return (signed_drop_bit (32 - width) x))"

definition BFEXTS_M :: "u32 \<Rightarrow> int \<Rightarrow> nat \<Rightarrow> ('d, u32) mach" where
  "BFEXTS_M addr offset width =
     bind (BFTST_M addr offset width) (\<lambda>x. return (signed_drop_bit (32 - width) x))"

text \<open>\<open>std::countl_zero\<close>.\<close>

definition countl_zero :: "u32 \<Rightarrow> nat" where
  "countl_zero x = length (takeWhile Not (map (bit x) (rev [0..<32])))"

text \<open>\<open>offset + (x ? countl_zero(x) : width)\<close> in \<open>int\<close>, undefined when it overflows.\<close>

definition bfffo_result :: "int \<Rightarrow> nat \<Rightarrow> u32 \<Rightarrow> ('d, u32) mach" where
  "bfffo_result offset width x =
     (let r = offset + int (if x \<noteq> 0 then countl_zero x else width) in
      defined (r < 2 ^ 31) (return (word_of_int r)))"

definition BFFFO_D :: "u32 \<Rightarrow> int \<Rightarrow> nat \<Rightarrow> ('d, u32) mach" where
  "BFFFO_D v offset width = bind (BFTST_D v offset width) (bfffo_result offset width)"

definition BFFFO_M :: "u32 \<Rightarrow> int \<Rightarrow> nat \<Rightarrow> ('d, u32) mach" where
  "BFFFO_M addr offset width = bind (BFTST_M addr offset width) (bfffo_result offset width)"

definition BFINS_D :: "u32 \<Rightarrow> int \<Rightarrow> nat \<Rightarrow> u32 \<Rightarrow> ('d, u32) mach" where
  "BFINS_D old offset width v0 =
     seq (TEST_L (push_bit (32 - width) v0))
    (seq set_VC_clear
    (let v = v0 AND signed_drop_bit (32 - width) (- 1);
         x = (rotl32 old offset AND NOT (left_mask width)) OR push_bit (32 - width) v
     in return (rotr32 x offset)))"

text \<open>
  The first byte keeps the bits left of the field; the inserted bits come from \<open>v\<close> as it
  is, not cut to the width.
\<close>

definition bfins_first :: "u32 \<Rightarrow> nat \<Rightarrow> nat \<Rightarrow> u32 \<Rightarrow> ('d, unit) mach" where
  "bfins_first addr offset ln v =
     (let v1 = (ucast (drop_bit (ln - 8) v) :: u8);
          keep = (ucast (signed_drop_bit offset (NOT (ucast (mask8 offset) :: u32))) :: u8)
      in rmwB addr (\<lambda>b. (b AND keep) OR v1))"

text \<open>The same in the 24-bit case, whose mask is written \<open>~(mask >> offset)\<close>.\<close>

definition bfins_first24 :: "u32 \<Rightarrow> nat \<Rightarrow> nat \<Rightarrow> u32 \<Rightarrow> ('d, unit) mach" where
  "bfins_first24 addr offset ln v =
     (let v1 = (ucast (drop_bit (ln - 8) v) :: u8) in
      rmwB addr (\<lambda>b. (b AND NOT (drop_bit offset (mask8 offset))) OR v1))"

definition bfins_last :: "u32 \<Rightarrow> nat \<Rightarrow> u32 \<Rightarrow> ('d, unit) mach" where
  "bfins_last addr rest v =
     rmwB addr (\<lambda>b. (b AND NOT (mask8 rest)) OR ucast (push_bit rest v))"

definition BFINS_M :: "u32 \<Rightarrow> int \<Rightarrow> nat \<Rightarrow> u32 \<Rightarrow> ('d, unit) mach" where
  "BFINS_M addr0 offset0 width v =
     seq (TEST_L (push_bit (32 - width) v))
     (let addr = bf_addr addr0 offset0; offset = bf_off offset0; ln = width + offset in
      if ln \<le> 8 then
        let mask = drop_bit offset (mask8 (8 - width)) in
        rmwB addr (\<lambda>b. (b AND NOT mask) OR (ucast (push_bit (8 - ln) v) AND mask))
      else if ln \<le> 16 then
        seq (bfins_first addr offset ln v)
            (bfins_last (addr + 1) (16 - ln) v)
      else if ln \<le> 24 then
        seq (bfins_first24 addr offset ln v)
       (seq (WriteB (addr + 1) (ucast (drop_bit (ln - 16) v)))
            (bfins_last (addr + 2) (24 - ln) v))
      else if ln \<le> 32 then
        seq (bfins_first addr offset ln v)
       (seq (WriteB (addr + 1) (ucast (drop_bit (ln - 16) v)))
       (seq (WriteB (addr + 2) (ucast (drop_bit (ln - 24) v)))
            (bfins_last (addr + 3) (32 - ln) v)))
      else
        seq (bfins_first addr offset ln v)
       (seq (WriteB (addr + 1) (ucast (drop_bit (ln - 16) v)))
       (seq (WriteB (addr + 2) (ucast (drop_bit (ln - 24) v)))
       (seq (WriteB (addr + 3) (ucast (drop_bit (ln - 32) v)))
            (bfins_last (addr + 4) (40 - ln) v)))))"

end
