(* ===== verification/OpsShift.thy ===== *)
theory OpsShift
  imports OpsData Bitfield
begin

text \<open>
  Instruction handlers, third part: opcode line E of src/cpu/op.cc, the shifts, rotates
  and bit fields.
\<close>

section \<open>Shifts and rotates\<close>

text \<open>The counts: \<open>DN(op) ? DN(op) : 8\<close> and \<open>cpu.D[DN(op)] & 63\<close>.\<close>

definition shift_imm :: "u16 \<Rightarrow> ('d, nat) mach" where
  "shift_imm op = return (unat (quick op))"

definition shift_reg :: "u16 \<Rightarrow> ('d, nat) mach" where
  "shift_reg op = bind (getD (DN op)) (\<lambda>d. return (unat (d AND 63)))"

definition asr_b_i :: "u16 \<Rightarrow> ('d, unit) mach" where
  "asr_b_i op =
     bind (getD (REG op)) (\<lambda>d.
     bind (shift_imm op) (\<lambda>n.
     bind (ASR_B (ucast d) n) (storeD_B (REG op))))"

definition lsr_b_i :: "u16 \<Rightarrow> ('d, unit) mach" where
  "lsr_b_i op =
     bind (getD (REG op)) (\<lambda>d.
     bind (shift_imm op) (\<lambda>n.
     bind (LSR_B (ucast d) n) (storeD_B (REG op))))"

definition roxr_b_i :: "u16 \<Rightarrow> ('d, unit) mach" where
  "roxr_b_i op =
     bind (getD (REG op)) (\<lambda>d.
     bind (shift_imm op) (\<lambda>n.
     bind (cget fX) (\<lambda>x.
     bind (ROXR_B (ucast d) n x) (storeD_B (REG op)))))"

definition ror_b_i :: "u16 \<Rightarrow> ('d, unit) mach" where
  "ror_b_i op =
     bind (getD (REG op)) (\<lambda>d.
     bind (shift_imm op) (\<lambda>n.
     bind (ROR_B (ucast d) n) (storeD_B (REG op))))"

definition asr_b_r :: "u16 \<Rightarrow> ('d, unit) mach" where
  "asr_b_r op =
     bind (getD (REG op)) (\<lambda>d.
     bind (shift_reg op) (\<lambda>n.
     bind (ASR_B (ucast d) n) (storeD_B (REG op))))"

definition lsr_b_r :: "u16 \<Rightarrow> ('d, unit) mach" where
  "lsr_b_r op =
     bind (getD (REG op)) (\<lambda>d.
     bind (shift_reg op) (\<lambda>n.
     bind (LSR_B (ucast d) n) (storeD_B (REG op))))"

definition roxr_b_r :: "u16 \<Rightarrow> ('d, unit) mach" where
  "roxr_b_r op =
     bind (getD (REG op)) (\<lambda>d.
     bind (shift_reg op) (\<lambda>n.
     bind (cget fX) (\<lambda>x.
     bind (ROXR_B (ucast d) n x) (storeD_B (REG op)))))"

definition ror_b_r :: "u16 \<Rightarrow> ('d, unit) mach" where
  "ror_b_r op =
     bind (getD (REG op)) (\<lambda>d.
     bind (shift_reg op) (\<lambda>n.
     bind (ROR_B (ucast d) n) (storeD_B (REG op))))"

definition asr_w_i :: "u16 \<Rightarrow> ('d, unit) mach" where
  "asr_w_i op =
     bind (getD (REG op)) (\<lambda>d.
     bind (shift_imm op) (\<lambda>n.
     bind (ASR_W (ucast d) n) (storeD_W (REG op))))"

definition lsr_w_i :: "u16 \<Rightarrow> ('d, unit) mach" where
  "lsr_w_i op =
     bind (getD (REG op)) (\<lambda>d.
     bind (shift_imm op) (\<lambda>n.
     bind (LSR_W (ucast d) n) (storeD_W (REG op))))"

definition roxr_w_i :: "u16 \<Rightarrow> ('d, unit) mach" where
  "roxr_w_i op =
     bind (getD (REG op)) (\<lambda>d.
     bind (shift_imm op) (\<lambda>n.
     bind (cget fX) (\<lambda>x.
     bind (ROXR_W (ucast d) n x) (storeD_W (REG op)))))"

definition ror_w_i :: "u16 \<Rightarrow> ('d, unit) mach" where
  "ror_w_i op =
     bind (getD (REG op)) (\<lambda>d.
     bind (shift_imm op) (\<lambda>n.
     bind (ROR_W (ucast d) n) (storeD_W (REG op))))"

definition asr_w_r :: "u16 \<Rightarrow> ('d, unit) mach" where
  "asr_w_r op =
     bind (getD (REG op)) (\<lambda>d.
     bind (shift_reg op) (\<lambda>n.
     bind (ASR_W (ucast d) n) (storeD_W (REG op))))"

definition lsr_w_r :: "u16 \<Rightarrow> ('d, unit) mach" where
  "lsr_w_r op =
     bind (getD (REG op)) (\<lambda>d.
     bind (shift_reg op) (\<lambda>n.
     bind (LSR_W (ucast d) n) (storeD_W (REG op))))"

definition roxr_w_r :: "u16 \<Rightarrow> ('d, unit) mach" where
  "roxr_w_r op =
     bind (getD (REG op)) (\<lambda>d.
     bind (shift_reg op) (\<lambda>n.
     bind (cget fX) (\<lambda>x.
     bind (ROXR_W (ucast d) n x) (storeD_W (REG op)))))"

definition ror_w_r :: "u16 \<Rightarrow> ('d, unit) mach" where
  "ror_w_r op =
     bind (getD (REG op)) (\<lambda>d.
     bind (shift_reg op) (\<lambda>n.
     bind (ROR_W (ucast d) n) (storeD_W (REG op))))"

definition asr_l_i :: "u16 \<Rightarrow> ('d, unit) mach" where
  "asr_l_i op =
     bind (getD (REG op)) (\<lambda>d.
     bind (shift_imm op) (\<lambda>n.
     bind (ASR_L (ucast d) n) (storeD_L (REG op))))"

definition lsr_l_i :: "u16 \<Rightarrow> ('d, unit) mach" where
  "lsr_l_i op =
     bind (getD (REG op)) (\<lambda>d.
     bind (shift_imm op) (\<lambda>n.
     bind (LSR_L (ucast d) n) (storeD_L (REG op))))"

definition roxr_l_i :: "u16 \<Rightarrow> ('d, unit) mach" where
  "roxr_l_i op =
     bind (getD (REG op)) (\<lambda>d.
     bind (shift_imm op) (\<lambda>n.
     bind (cget fX) (\<lambda>x.
     bind (ROXR_L (ucast d) n x) (storeD_L (REG op)))))"

definition ror_l_i :: "u16 \<Rightarrow> ('d, unit) mach" where
  "ror_l_i op =
     bind (getD (REG op)) (\<lambda>d.
     bind (shift_imm op) (\<lambda>n.
     bind (ROR_L (ucast d) n) (storeD_L (REG op))))"

definition asr_l_r :: "u16 \<Rightarrow> ('d, unit) mach" where
  "asr_l_r op =
     bind (getD (REG op)) (\<lambda>d.
     bind (shift_reg op) (\<lambda>n.
     bind (ASR_L (ucast d) n) (storeD_L (REG op))))"

definition lsr_l_r :: "u16 \<Rightarrow> ('d, unit) mach" where
  "lsr_l_r op =
     bind (getD (REG op)) (\<lambda>d.
     bind (shift_reg op) (\<lambda>n.
     bind (LSR_L (ucast d) n) (storeD_L (REG op))))"

definition roxr_l_r :: "u16 \<Rightarrow> ('d, unit) mach" where
  "roxr_l_r op =
     bind (getD (REG op)) (\<lambda>d.
     bind (shift_reg op) (\<lambda>n.
     bind (cget fX) (\<lambda>x.
     bind (ROXR_L (ucast d) n x) (storeD_L (REG op)))))"

definition ror_l_r :: "u16 \<Rightarrow> ('d, unit) mach" where
  "ror_l_r op =
     bind (getD (REG op)) (\<lambda>d.
     bind (shift_reg op) (\<lambda>n.
     bind (ROR_L (ucast d) n) (storeD_L (REG op))))"

definition asr_ea :: "u16 \<Rightarrow> ('d, unit) mach" where
  "asr_ea op =
     bind (ea_readW (TYP op) (REG op) True) (\<lambda>v.
     bind (ASR_W (ucast v) 1) (ea_writeW (TYP op) (REG op)))"

definition lsr_ea :: "u16 \<Rightarrow> ('d, unit) mach" where
  "lsr_ea op =
     bind (ea_readW (TYP op) (REG op) True) (\<lambda>v.
     bind (LSR_W (ucast v) 1) (ea_writeW (TYP op) (REG op)))"

definition roxr_ea :: "u16 \<Rightarrow> ('d, unit) mach" where
  "roxr_ea op =
     bind (ea_readW (TYP op) (REG op) True) (\<lambda>v.
     bind (cget fX) (\<lambda>x.
     bind (ROXR_W (ucast v) 1 x) (ea_writeW (TYP op) (REG op))))"

definition ror_ea :: "u16 \<Rightarrow> ('d, unit) mach" where
  "ror_ea op =
     bind (ea_readW (TYP op) (REG op) True) (\<lambda>v.
     bind (ROR_W (ucast v) 1) (ea_writeW (TYP op) (REG op)))"

definition asl_b_i :: "u16 \<Rightarrow> ('d, unit) mach" where
  "asl_b_i op =
     bind (getD (REG op)) (\<lambda>d.
     bind (shift_imm op) (\<lambda>n.
     bind (ASL_B (ucast d) n) (storeD_B (REG op))))"

definition lsl_b_i :: "u16 \<Rightarrow> ('d, unit) mach" where
  "lsl_b_i op =
     bind (getD (REG op)) (\<lambda>d.
     bind (shift_imm op) (\<lambda>n.
     bind (LSL_B (ucast d) n) (storeD_B (REG op))))"

definition roxl_b_i :: "u16 \<Rightarrow> ('d, unit) mach" where
  "roxl_b_i op =
     bind (getD (REG op)) (\<lambda>d.
     bind (shift_imm op) (\<lambda>n.
     bind (cget fX) (\<lambda>x.
     bind (ROXL_B (ucast d) n x) (storeD_B (REG op)))))"

definition rol_b_i :: "u16 \<Rightarrow> ('d, unit) mach" where
  "rol_b_i op =
     bind (getD (REG op)) (\<lambda>d.
     bind (shift_imm op) (\<lambda>n.
     bind (ROL_B (ucast d) n) (storeD_B (REG op))))"

definition asl_b_r :: "u16 \<Rightarrow> ('d, unit) mach" where
  "asl_b_r op =
     bind (getD (REG op)) (\<lambda>d.
     bind (shift_reg op) (\<lambda>n.
     bind (ASL_B (ucast d) n) (storeD_B (REG op))))"

definition lsl_b_r :: "u16 \<Rightarrow> ('d, unit) mach" where
  "lsl_b_r op =
     bind (getD (REG op)) (\<lambda>d.
     bind (shift_reg op) (\<lambda>n.
     bind (LSL_B (ucast d) n) (storeD_B (REG op))))"

definition roxl_b_r :: "u16 \<Rightarrow> ('d, unit) mach" where
  "roxl_b_r op =
     bind (getD (REG op)) (\<lambda>d.
     bind (shift_reg op) (\<lambda>n.
     bind (cget fX) (\<lambda>x.
     bind (ROXL_B (ucast d) n x) (storeD_B (REG op)))))"

definition rol_b_r :: "u16 \<Rightarrow> ('d, unit) mach" where
  "rol_b_r op =
     bind (getD (REG op)) (\<lambda>d.
     bind (shift_reg op) (\<lambda>n.
     bind (ROL_B (ucast d) n) (storeD_B (REG op))))"

definition asl_w_i :: "u16 \<Rightarrow> ('d, unit) mach" where
  "asl_w_i op =
     bind (getD (REG op)) (\<lambda>d.
     bind (shift_imm op) (\<lambda>n.
     bind (ASL_W (ucast d) n) (storeD_W (REG op))))"

definition lsl_w_i :: "u16 \<Rightarrow> ('d, unit) mach" where
  "lsl_w_i op =
     bind (getD (REG op)) (\<lambda>d.
     bind (shift_imm op) (\<lambda>n.
     bind (LSL_W (ucast d) n) (storeD_W (REG op))))"

definition roxl_w_i :: "u16 \<Rightarrow> ('d, unit) mach" where
  "roxl_w_i op =
     bind (getD (REG op)) (\<lambda>d.
     bind (shift_imm op) (\<lambda>n.
     bind (cget fX) (\<lambda>x.
     bind (ROXL_W (ucast d) n x) (storeD_W (REG op)))))"

definition rol_w_i :: "u16 \<Rightarrow> ('d, unit) mach" where
  "rol_w_i op =
     bind (getD (REG op)) (\<lambda>d.
     bind (shift_imm op) (\<lambda>n.
     bind (ROL_W (ucast d) n) (storeD_W (REG op))))"

definition asl_w_r :: "u16 \<Rightarrow> ('d, unit) mach" where
  "asl_w_r op =
     bind (getD (REG op)) (\<lambda>d.
     bind (shift_reg op) (\<lambda>n.
     bind (ASL_W (ucast d) n) (storeD_W (REG op))))"

definition lsl_w_r :: "u16 \<Rightarrow> ('d, unit) mach" where
  "lsl_w_r op =
     bind (getD (REG op)) (\<lambda>d.
     bind (shift_reg op) (\<lambda>n.
     bind (LSL_W (ucast d) n) (storeD_W (REG op))))"

definition roxl_w_r :: "u16 \<Rightarrow> ('d, unit) mach" where
  "roxl_w_r op =
     bind (getD (REG op)) (\<lambda>d.
     bind (shift_reg op) (\<lambda>n.
     bind (cget fX) (\<lambda>x.
     bind (ROXL_W (ucast d) n x) (storeD_W (REG op)))))"

definition rol_w_r :: "u16 \<Rightarrow> ('d, unit) mach" where
  "rol_w_r op =
     bind (getD (REG op)) (\<lambda>d.
     bind (shift_reg op) (\<lambda>n.
     bind (ROL_W (ucast d) n) (storeD_W (REG op))))"

definition asl_l_i :: "u16 \<Rightarrow> ('d, unit) mach" where
  "asl_l_i op =
     bind (getD (REG op)) (\<lambda>d.
     bind (shift_imm op) (\<lambda>n.
     bind (ASL_L (ucast d) n) (storeD_L (REG op))))"

definition lsl_l_i :: "u16 \<Rightarrow> ('d, unit) mach" where
  "lsl_l_i op =
     bind (getD (REG op)) (\<lambda>d.
     bind (shift_imm op) (\<lambda>n.
     bind (LSL_L (ucast d) n) (storeD_L (REG op))))"

definition roxl_l_i :: "u16 \<Rightarrow> ('d, unit) mach" where
  "roxl_l_i op =
     bind (getD (REG op)) (\<lambda>d.
     bind (shift_imm op) (\<lambda>n.
     bind (cget fX) (\<lambda>x.
     bind (ROXL_L (ucast d) n x) (storeD_L (REG op)))))"

definition rol_l_i :: "u16 \<Rightarrow> ('d, unit) mach" where
  "rol_l_i op =
     bind (getD (REG op)) (\<lambda>d.
     bind (shift_imm op) (\<lambda>n.
     bind (ROL_L (ucast d) n) (storeD_L (REG op))))"

definition asl_l_r :: "u16 \<Rightarrow> ('d, unit) mach" where
  "asl_l_r op =
     bind (getD (REG op)) (\<lambda>d.
     bind (shift_reg op) (\<lambda>n.
     bind (ASL_L (ucast d) n) (storeD_L (REG op))))"

definition lsl_l_r :: "u16 \<Rightarrow> ('d, unit) mach" where
  "lsl_l_r op =
     bind (getD (REG op)) (\<lambda>d.
     bind (shift_reg op) (\<lambda>n.
     bind (LSL_L (ucast d) n) (storeD_L (REG op))))"

definition roxl_l_r :: "u16 \<Rightarrow> ('d, unit) mach" where
  "roxl_l_r op =
     bind (getD (REG op)) (\<lambda>d.
     bind (shift_reg op) (\<lambda>n.
     bind (cget fX) (\<lambda>x.
     bind (ROXL_L (ucast d) n x) (storeD_L (REG op)))))"

definition rol_l_r :: "u16 \<Rightarrow> ('d, unit) mach" where
  "rol_l_r op =
     bind (getD (REG op)) (\<lambda>d.
     bind (shift_reg op) (\<lambda>n.
     bind (ROL_L (ucast d) n) (storeD_L (REG op))))"

definition asl_ea :: "u16 \<Rightarrow> ('d, unit) mach" where
  "asl_ea op =
     bind (ea_readW (TYP op) (REG op) True) (\<lambda>v.
     bind (ASL_W (ucast v) 1) (ea_writeW (TYP op) (REG op)))"

definition lsl_ea :: "u16 \<Rightarrow> ('d, unit) mach" where
  "lsl_ea op =
     bind (ea_readW (TYP op) (REG op) True) (\<lambda>v.
     bind (LSL_W (ucast v) 1) (ea_writeW (TYP op) (REG op)))"

definition roxl_ea :: "u16 \<Rightarrow> ('d, unit) mach" where
  "roxl_ea op =
     bind (ea_readW (TYP op) (REG op) True) (\<lambda>v.
     bind (cget fX) (\<lambda>x.
     bind (ROXL_W (ucast v) 1 x) (ea_writeW (TYP op) (REG op))))"

definition rol_ea :: "u16 \<Rightarrow> ('d, unit) mach" where
  "rol_ea op =
     bind (ea_readW (TYP op) (REG op) True) (\<lambda>v.
     bind (ROL_W (ucast v) 1) (ea_writeW (TYP op) (REG op)))"

section \<open>Bit fields\<close>

text \<open>
  The offset is an \<open>int\<close>: a data register is read as a signed number. A width of 0 means 32.
\<close>

definition get_bf_offset_width :: "u16 \<Rightarrow> ('d, int \<times> nat) mach" where
  "get_bf_offset_width extw =
     (let offset = drop_bit 6 extw AND 0x1f; width = extw AND 0x1f in
      bind (if bit_at extw 11 then bind (getD (ucast (offset AND 7))) (\<lambda>d. return (sint d))
            else return (uint offset)) (\<lambda>offset_v.
      bind (if bit_at extw 5 then bind (getD (ucast (width AND 7))) (\<lambda>d. return (unat (d AND 31)))
            else return (unat width)) (\<lambda>width_v.
      return (offset_v, if width_v = 0 then 32 else width_v))))"

text \<open>The part all bit-field handlers share: extension word, offset and width.\<close>

definition with_field :: "(u16 \<Rightarrow> int \<Rightarrow> nat \<Rightarrow> ('d, unit) mach) \<Rightarrow> ('d, unit) mach" where
  "with_field f =
     bind FETCH (\<lambda>extw. bind (get_bf_offset_width extw) (\<lambda>(offset_v, width_v). f extw offset_v width_v))"

text \<open>\<open>extw >> 12 & 7\<close>.\<close>

definition bf_dn :: "u16 \<Rightarrow> regno" where
  "bf_dn extw = ucast (drop_bit 12 extw AND 7)"

definition bftst_dn :: "u16 \<Rightarrow> ('d, unit) mach" where
  "bftst_dn op =
     with_field (\<lambda>extw offset_v width_v.
     bind (getD (REG op)) (\<lambda>d.
     bind (BFTST_D d offset_v width_v) (\<lambda>_. return ())))"

definition bftst_mem :: "u16 \<Rightarrow> ('d, unit) mach" where
  "bftst_mem op =
     with_field (\<lambda>extw offset_v width_v.
     bind (ea_getaddr (TYP op) (REG op) 0) (\<lambda>a.
     bind (BFTST_M a offset_v width_v) (\<lambda>_. return ())))"

definition bfchg_dn :: "u16 \<Rightarrow> ('d, unit) mach" where
  "bfchg_dn op =
     with_field (\<lambda>extw offset_v width_v.
     bind (getD (REG op)) (\<lambda>d.
     bind (BFCHG_D d offset_v width_v) (setD (REG op))))"

definition bfchg_mem :: "u16 \<Rightarrow> ('d, unit) mach" where
  "bfchg_mem op =
     with_field (\<lambda>extw offset_v width_v.
     bind (ea_getaddr (TYP op) (REG op) 0) (\<lambda>a.
     BFCHG_M a offset_v width_v))"

definition bfclr_dn :: "u16 \<Rightarrow> ('d, unit) mach" where
  "bfclr_dn op =
     with_field (\<lambda>extw offset_v width_v.
     bind (getD (REG op)) (\<lambda>d.
     bind (BFCLR_D d offset_v width_v) (setD (REG op))))"

definition bfclr_mem :: "u16 \<Rightarrow> ('d, unit) mach" where
  "bfclr_mem op =
     with_field (\<lambda>extw offset_v width_v.
     bind (ea_getaddr (TYP op) (REG op) 0) (\<lambda>a.
     BFCLR_M a offset_v width_v))"

definition bfset_dn :: "u16 \<Rightarrow> ('d, unit) mach" where
  "bfset_dn op =
     with_field (\<lambda>extw offset_v width_v.
     bind (getD (REG op)) (\<lambda>d.
     bind (BFSET_D d offset_v width_v) (setD (REG op))))"

definition bfset_mem :: "u16 \<Rightarrow> ('d, unit) mach" where
  "bfset_mem op =
     with_field (\<lambda>extw offset_v width_v.
     bind (ea_getaddr (TYP op) (REG op) 0) (\<lambda>a.
     BFSET_M a offset_v width_v))"

definition bfextu_dn :: "u16 \<Rightarrow> ('d, unit) mach" where
  "bfextu_dn op =
     with_field (\<lambda>extw offset_v width_v.
     bind (getD (REG op)) (\<lambda>d.
     bind (BFEXTU_D d offset_v width_v) (setD (bf_dn extw))))"

definition bfextu_mem :: "u16 \<Rightarrow> ('d, unit) mach" where
  "bfextu_mem op =
     with_field (\<lambda>extw offset_v width_v.
     bind (ea_getaddr (TYP op) (REG op) 0) (\<lambda>a.
     bind (BFEXTU_M a offset_v width_v) (setD (bf_dn extw))))"

definition bfexts_dn :: "u16 \<Rightarrow> ('d, unit) mach" where
  "bfexts_dn op =
     with_field (\<lambda>extw offset_v width_v.
     bind (getD (REG op)) (\<lambda>d.
     bind (BFEXTS_D d offset_v width_v) (setD (bf_dn extw))))"

definition bfexts_mem :: "u16 \<Rightarrow> ('d, unit) mach" where
  "bfexts_mem op =
     with_field (\<lambda>extw offset_v width_v.
     bind (ea_getaddr (TYP op) (REG op) 0) (\<lambda>a.
     bind (BFEXTS_M a offset_v width_v) (setD (bf_dn extw))))"

definition bfffo_dn :: "u16 \<Rightarrow> ('d, unit) mach" where
  "bfffo_dn op =
     with_field (\<lambda>extw offset_v width_v.
     bind (getD (REG op)) (\<lambda>d.
     bind (BFFFO_D d offset_v width_v) (setD (bf_dn extw))))"

definition bfffo_mem :: "u16 \<Rightarrow> ('d, unit) mach" where
  "bfffo_mem op =
     with_field (\<lambda>extw offset_v width_v.
     bind (ea_getaddr (TYP op) (REG op) 0) (\<lambda>a.
     bind (BFFFO_M a offset_v width_v) (setD (bf_dn extw))))"

definition bfins_dn :: "u16 \<Rightarrow> ('d, unit) mach" where
  "bfins_dn op =
     with_field (\<lambda>extw offset_v width_v.
     bind (getD (REG op)) (\<lambda>d.
     bind (getD (bf_dn extw)) (\<lambda>v.
     bind (BFINS_D d offset_v width_v v) (setD (REG op)))))"

definition bfins_mem :: "u16 \<Rightarrow> ('d, unit) mach" where
  "bfins_mem op =
     with_field (\<lambda>extw offset_v width_v.
     bind (ea_getaddr (TYP op) (REG op) 0) (\<lambda>a.
     bind (getD (bf_dn extw)) (\<lambda>v. BFINS_M a offset_v width_v v)))"

end
