(* ===== verification/Branch.thy ===== *)
theory Branch
  imports Memory
begin

text \<open>
  Branches and returns: src/cpu/branch.cc. Targets are relative to the address of the
  instruction, \<open>oldpc\<close>, plus 2.
\<close>

definition branch_to :: "u32 \<Rightarrow> ('d, unit) mach" where
  "branch_to ix = bind (cget oldpc) (\<lambda>pc. JUMP (pc + 2 + ix))"

definition do_bra :: "u32 \<Rightarrow> ('d, unit) mach" where
  "do_bra ix = seq (branch_to ix) TRACE_BRANCH"

definition do_bsr :: "u32 \<Rightarrow> ('d, unit) mach" where
  "do_bsr ix = seq (bind (cget PC) PUSH32) (seq (branch_to ix) TRACE_BRANCH)"

definition do_bcc :: "bool \<Rightarrow> u32 \<Rightarrow> ('d, unit) mach" where
  "do_bcc c ix = whenM c (seq (branch_to ix) TRACE_BRANCH)"

definition do_dbcc :: "bool \<Rightarrow> regno \<Rightarrow> u16 \<Rightarrow> ('d, unit) mach" where
  "do_dbcc c reg d =
     whenM (\<not> c)
       (bind (getD reg) (\<lambda>v.
        let dn = (ucast v - 1 :: u16) in
        seq (storeD_W reg dn)
            (whenM (dn \<noteq> - 1) (seq (branch_to (scast d)) TRACE_BRANCH))))"

definition do_rtr :: "('d, unit) mach" where
  "do_rtr =
     bind POP16 (\<lambda>v.
     seq (cmod (SetCCR (ucast v)))
         (bind POP32 (\<lambda>pc. seq (JUMP (ucast pc)) TRACE_BRANCH)))"

definition do_rtd :: "u16 \<Rightarrow> ('d, unit) mach" where
  "do_rtd disp =
     bind POP32 (\<lambda>pc.
     seq (JUMP (ucast pc))
    (seq (bind (getA 7) (\<lambda>sp. setA 7 (sp + scast disp)))
         TRACE_BRANCH))"

definition do_rts :: "('d, unit) mach" where
  "do_rts = bind POP32 (\<lambda>pc. seq (JUMP (ucast pc)) TRACE_BRANCH)"

end
