(* ===== verification/Except.thy ===== *)
theory Except
  imports Memory
begin

text \<open>
  Exception entry, return from exception and reset: src/cpu/exception.cc. A bus error
  while a frame is built or a vector is read is a double fault, which ends the process.
\<close>

section \<open>Building frames\<close>

definition double_fault :: "('d, 'a) mach" where
  "double_fault = throw Terminated"

definition ex_PUSH16 :: "u16 \<Rightarrow> ('d, unit) mach" where
  "ex_PUSH16 v =
     bind (getA 7) (\<lambda>sp.
     seq (setA 7 (sp - 2))
         (catch_PTestError (WriteWImpl (sp - 2) v) (\<lambda>_. double_fault)))"

definition ex_PUSH32 :: "u32 \<Rightarrow> ('d, unit) mach" where
  "ex_PUSH32 v = seq (ex_PUSH16 (ucast v)) (ex_PUSH16 (ucast (drop_bit 16 v)))"

definition ex_READL :: "u32 \<Rightarrow> ('d, u32) mach" where
  "ex_READL addr = catch_PTestError (ReadLImpl addr False) (\<lambda>_. double_fault)"

definition ex_JUMP :: "u32 \<Rightarrow> ('d, unit) mach" where
  "ex_JUMP addr = (if bit_at addr 0 then double_fault else cmod (\<lambda>c. c\<lparr>PC := addr\<rparr>))"

text \<open>\<open>cpu.VBR + (n << 2)\<close> and the format word \<open>fmt << 12 | n << 2\<close>.\<close>

definition vector_addr :: "int \<Rightarrow> ('d, u32) mach" where
  "vector_addr n = cget (\<lambda>c. VBR c + word_of_int (n * 4))"

definition format_word :: "u16 \<Rightarrow> int \<Rightarrow> u16" where
  "format_word fmt n = push_bit 12 fmt OR word_of_int (n * 4)"

definition enter_vector :: "int \<Rightarrow> ('d, unit) mach" where
  "enter_vector n = bind (vector_addr n) (\<lambda>a. bind (ex_READL a) ex_JUMP)"

definition EXCEPTION0 :: "int \<Rightarrow> u32 \<Rightarrow> u16 \<Rightarrow> ('d, unit) mach" where
  "EXCEPTION0 n nextpc sr =
     seq (ex_PUSH16 (format_word 0 n))
    (seq (ex_PUSH32 nextpc)
    (seq (ex_PUSH16 sr)
         (enter_vector n)))"

definition EXCEPTION2 :: "int \<Rightarrow> u32 \<Rightarrow> u32 \<Rightarrow> u16 \<Rightarrow> ('d, unit) mach" where
  "EXCEPTION2 n addr nextpc sr =
     seq (ex_PUSH32 addr)
    (seq (ex_PUSH16 (format_word 2 n))
    (seq (ex_PUSH32 nextpc)
    (seq (ex_PUSH16 sr)
         (enter_vector n))))"

definition EXCEPTION3 :: "int \<Rightarrow> u16 \<Rightarrow> ('d, unit) mach" where
  "EXCEPTION3 n sr =
     seq (bind (cget EA) ex_PUSH32)
    (seq (ex_PUSH16 (format_word 3 n))
    (seq (bind (cget PC) ex_PUSH32)
    (seq (ex_PUSH16 sr)
         (enter_vector n))))"

text \<open>The frame of an access fault.\<close>

definition access_fault_frame :: "u16 \<Rightarrow> ('d, unit) mach" where
  "access_fault_frame sr =
     seq (bind (getA 7) (\<lambda>sp. setA 7 (sp - 36)))
    (seq (bind (cget ex_addr) ex_PUSH32)
    (seq (bind (getA 7) (\<lambda>sp. setA 7 (sp - 6)))
    (seq (cmod (\<lambda>c. if must_trace c then c\<lparr>fault_SSW := fault_SSW c OR SSW_CT\<rparr> else c))
    (seq (bind (cget fault_SSW) ex_PUSH16)
    (seq (bind (cget fault_SSW) (\<lambda>ssw.
            if ssw AND (SSW_CP OR SSW_CU OR SSW_CT OR SSW_CM) \<noteq> 0
            then bind (cget EA) ex_PUSH32 else ex_PUSH32 0))
    (seq (ex_PUSH16 (format_word 7 2))
    (seq (bind (cget oldpc) ex_PUSH32)
    (seq (ex_PUSH16 sr)
         (bind (vector_addr 2) (\<lambda>a. bind (ex_READL a) JUMP))))))))))"

text \<open>
  An interrupt. With \<open>M\<close> set a second frame goes to the interrupt stack; its format word
  is pushed by \<open>ex_PUSH32\<close>, as in the source.
\<close>

definition interrupt_frame :: "int \<Rightarrow> u16 \<Rightarrow> ('d, unit) mach" where
  "interrupt_frame n sr =
     seq (cmod (\<lambda>c. c\<lparr>I_lvl := word_of_int (n - 24)\<rparr>))
    (seq (ex_PUSH16 (word_of_int (n * 4)))
    (seq (bind (cget PC) ex_PUSH32)
    (seq (ex_PUSH16 sr)
    (seq (bind (cget M_bit) (\<lambda>m. whenM m
            (seq (cmod (\<lambda>c. c\<lparr>M_bit := False\<rparr>))
            (seq (cmod LoadSP)
            (seq (ex_PUSH32 (ucast (format_word 1 n)))
            (seq (bind (cget PC) ex_PUSH32)
                 (ex_PUSH16 sr)))))))
         (enter_vector n)))))"

definition handle_exception :: "int \<Rightarrow> ('d, unit) mach" where
  "handle_exception n =
     bind (cget GetSR) (\<lambda>sr.
     seq (cmod (\<lambda>c. c\<lparr>S_bit := True\<rparr>))
    (seq (cmod LoadSP)
    (seq (cmod (\<lambda>c. c\<lparr>T_mode := 0\<rparr>))
    (if n = AFAULT then access_fault_frame sr
     else if n = ADDR_ERR then
       bind (cget ex_addr) (\<lambda>a. bind (cget oldpc) (\<lambda>pc. EXCEPTION2 3 (a AND NOT 1) pc sr))
     else if n \<in> {4, 8, 10, 11, 14} then
       bind (cget oldpc) (\<lambda>pc. EXCEPTION0 n pc sr)
     else if 32 \<le> n \<and> n \<le> 47 then
       bind (cget PC) (\<lambda>pc. EXCEPTION0 n pc sr)
     else if n \<in> {5, 6, 7, 9} then
       bind (cget oldpc) (\<lambda>a. bind (cget PC) (\<lambda>pc. EXCEPTION2 n a pc sr))
     else if 48 \<le> n \<and> n \<le> 55 then
       bind (cget oldpc) (\<lambda>pc. EXCEPTION3 n (ucast pc))
     else if n = UNDEF_IRQ \<or> (24 \<le> n \<and> n \<le> 31) then interrupt_frame n sr
     else return ()))))"

section \<open>Return from exception\<close>

text \<open>
  Format 1 frames make \<open>do_rte\<close> call itself; the fuel counts those calls. \<open>rte_fuel\<close> is
  what \<open>RTE\<close> is given, and \<open>do_rte_mono\<close> shows that more fuel never changes an outcome.
\<close>

definition rte_fuel :: nat where "rte_fuel = 64"

definition rte_finish :: "u16 \<Rightarrow> u16 \<Rightarrow> ('d, unit) mach" where
  "rte_finish sr pc =
     seq (cmod (SetSR sr))
    (seq (cmod (\<lambda>c. if T_mode c = 1 then c\<lparr>must_trace := True\<rparr> else c))
         (JUMP (ucast pc)))"

text \<open>
  The access-fault frame: a pending trace is taken at once, an interrupted \<open>MOVEM\<close> is
  resumed from its saved effective address.
\<close>

definition rte_access_fault :: "u16 \<Rightarrow> u16 \<Rightarrow> ('d, unit) mach" where
  "rte_access_fault sr pc =
     bind (getA 7) (\<lambda>sp.
     bind (ReadW (sp + 4)) (\<lambda>ssw.
     if bit_at ssw 13 then
       seq (setA 7 (sp + 52))
      (seq (cmod (SetSR sr))
      (seq (cmod (\<lambda>c. c\<lparr>must_trace := False\<rparr>))
      (seq (cmod (\<lambda>c. c\<lparr>PC := ucast pc\<rparr>))
           TRACE)))
     else
       seq (whenM (bit_at ssw 12)
             (bind (getA 7) (\<lambda>a. bind (ex_READL a) (\<lambda>ea.
              seq (cmod (\<lambda>c. c\<lparr>EA := ea\<rparr>)) (cmod (\<lambda>c. c\<lparr>movem_run := True\<rparr>))))))
      (seq (bind (getA 7) (\<lambda>a. setA 7 (a + 52)))
           (rte_finish sr pc))))"

fun do_rte_fuel :: "nat \<Rightarrow> ('d, unit) mach" where
  "do_rte_fuel 0 = throw Diverged"
| "do_rte_fuel (Suc k) =
     bind POP16 (\<lambda>sr.
     bind POP32 (\<lambda>pc.
     bind POP16 (\<lambda>vec.
     let fmt = drop_bit 12 vec in
     if fmt = 0 then rte_finish sr pc
     else if fmt = 1 then seq (cmod (SetSR sr)) (do_rte_fuel k)
     else if fmt = 2 \<or> fmt = 3 then
       seq (bind (getA 7) (\<lambda>a. setA 7 (a + 4))) (rte_finish sr pc)
     else if fmt = 7 then rte_access_fault sr pc
     else FORMAT_ERROR)))"

definition do_rte :: "('d, unit) mach" where
  "do_rte = do_rte_fuel rte_fuel"

section \<open>Reset\<close>

definition atc_invalidate_all :: "('d, unit) mach" where
  "atc_invalidate_all =
     for_each [False, True] (\<lambda>i. for_each [0..<16] (\<lambda>k.
       seq (atc_mod True i (of_nat k) (\<lambda>e. e\<lparr>atc_V := False\<rparr>))
           (atc_mod False i (of_nat k) (\<lambda>e. e\<lparr>atc_V := False\<rparr>))))"

definition RESET :: "('d, unit) mach" where
  "RESET =
     seq (cmod (\<lambda>c. c\<lparr>S_bit := True, M_bit := False, T_mode := 0, I_lvl := 7, VBR := 0,
            CACR_DE := False, CACR_IE := False,
            DTTR := (DTTR c)(0 := (DTTR c 0)\<lparr>TTR_E := False\<rparr>, 1 := (DTTR c 1)\<lparr>TTR_E := False\<rparr>),
            ITTR := (ITTR c)(0 := (ITTR c 0)\<lparr>TTR_E := False\<rparr>, 1 := (ITTR c 1)\<lparr>TTR_E := False\<rparr>)\<rparr>))
    (seq atc_invalidate_all
    (seq (cmod LoadSP)
    (seq (bind (ex_READL 0) (setA 7))
         (bind (ex_READL 4) JUMP))))"

end
