(* ===== verification/OpsFlow.thy ===== *)
theory OpsFlow
  imports Ea Arith Branch Except
begin

text \<open>
  Instruction handlers, fourth part: control flow, processor control and \<open>MOVE16\<close> of
  src/cpu/op.cc, \<open>MOVEM\<close> of src/cpu/op_move.cc, and the cache, translation and
  control-register instructions of src/cpu/68040_mmu.cc.
\<close>

section \<open>Processor control and returns\<close>

text \<open>\<open>bus_reset\<close> is the device parameter \<open>dev_reset\<close> of the state.\<close>

definition reset :: "u16 \<Rightarrow> ('d, unit) mach" where
  "reset op =
     seq PRIV_CHECK (bind (gets dev_reset) on_bus)"

definition nop :: "u16 \<Rightarrow> ('d, unit) mach" where
  "nop op =
     TRACE_BRANCH"

definition stop_impl :: "u16 \<Rightarrow> ('d, unit) mach" where
  "stop_impl nw =
     seq PRIV_CHECK
    (seq (cmod (SetSR nw))
    (seq (on_bus run_stop)
    (seq (on_bus run_wait)
         TRACE_BRANCH)))"

definition stop :: "u16 \<Rightarrow> ('d, unit) mach" where
  "stop op =
     bind FETCH stop_impl"

definition rte :: "u16 \<Rightarrow> ('d, unit) mach" where
  "rte op =
     seq PRIV_CHECK (seq do_rte TRACE_BRANCH)"

definition rtd :: "u16 \<Rightarrow> ('d, unit) mach" where
  "rtd op =
     bind FETCH (\<lambda>disp. seq (do_rtd disp) TRACE_BRANCH)"

definition rts :: "u16 \<Rightarrow> ('d, unit) mach" where
  "rts op =
     seq do_rts TRACE_BRANCH"

definition trapv :: "u16 \<Rightarrow> ('d, unit) mach" where
  "trapv op =
     bind (cget fV) (\<lambda>v. whenM v TRAPX_ERROR)"

definition rtr :: "u16 \<Rightarrow> ('d, unit) mach" where
  "rtr op =
     seq do_rtr TRACE_BRANCH"

definition jsr :: "u16 \<Rightarrow> ('d, unit) mach" where
  "jsr op =
     bind (ea_getaddr (TYP op) (REG op) 0) (\<lambda>addr.
     seq (bind (cget PC) PUSH32)
    (seq (JUMP addr)
         TRACE_BRANCH))"

definition jmp :: "u16 \<Rightarrow> ('d, unit) mach" where
  "jmp op =
     bind (ea_getaddr (TYP op) (REG op) 0) (\<lambda>addr.
     seq (JUMP addr)
         TRACE_BRANCH)"

section \<open>Conditions\<close>

text \<open>\<open>testCC\<close>; its argument is a four-bit field, so the \<open>default\<close> cannot be reached.\<close>

definition testCC :: "4 word \<Rightarrow> cpu \<Rightarrow> bool" where
  "testCC cc c =
     (if cc = 0 then True
      else if cc = 1 then False
      else if cc = 2 then \<not> fC c \<and> \<not> fZ c
      else if cc = 3 then fC c \<or> fZ c
      else if cc = 4 then \<not> fC c
      else if cc = 5 then fC c
      else if cc = 6 then \<not> fZ c
      else if cc = 7 then fZ c
      else if cc = 8 then \<not> fV c
      else if cc = 9 then fV c
      else if cc = 10 then \<not> fN c
      else if cc = 11 then fN c
      else if cc = 12 then fN c = fV c
      else if cc = 13 then fN c \<noteq> fV c
      else if cc = 14 then \<not> fZ c \<and> fN c = fV c
      else fZ c \<or> fN c \<noteq> fV c)"

definition CC :: "u16 \<Rightarrow> 4 word" where
  "CC op = ucast (drop_bit 8 op AND 0xf)"

definition scc_ea :: "u16 \<Rightarrow> ('d, unit) mach" where
  "scc_ea op =
     bind (cget (testCC (CC op))) (\<lambda>b.
     ea_writeB (TYP op) (REG op) (if b then 0xff else 0))"

definition dbcc :: "u16 \<Rightarrow> ('d, unit) mach" where
  "dbcc op =
     bind FETCH (\<lambda>disp.
     bind (cget (testCC (CC op))) (\<lambda>b. do_dbcc b (REG op) disp))"

definition trapcc :: "u16 \<Rightarrow> ('d, unit) mach" where
  "trapcc op =
     seq (if REG op = 2 then cmod (\<lambda>c. c\<lparr>PC := PC c + 2\<rparr>)
          else if REG op = 3 then cmod (\<lambda>c. c\<lparr>PC := PC c + 4\<rparr>)
          else if REG op = 4 then return ()
          else throw Undefined)
         (bind (cget (testCC (CC op))) (\<lambda>b. whenM b TRAPX_ERROR))"

definition bxx :: "u16 \<Rightarrow> ('d, unit) mach" where
  "bxx op =
     (let imm8 = (ucast op :: u8) in
      bind (if imm8 = 0 then bind FETCH (\<lambda>w. return (scast w))
            else if imm8 = - 1 then FETCH32
            else return (scast imm8)) (\<lambda>imm.
      if CC op = 0 then do_bra imm
      else if CC op = 1 then do_bsr imm
      else bind (cget (testCC (CC op))) (\<lambda>b. do_bcc b imm)))"

definition moveq :: "u16 \<Rightarrow> ('d, unit) mach" where
  "moveq op =
     (let data = (ucast op :: u8) in
      seq (setD (DN op) (scast data))
     (seq (TEST_B data)
          (cmod (\<lambda>c. c\<lparr>fV := False, fC := False\<rparr>))))"

section \<open>Line transfers\<close>

definition fline_default :: "u16 \<Rightarrow> ('d, unit) mach" where
  "fline_default op =
     FLINE"

text \<open>\<open>cpu.A[r] += 16\<close>.\<close>

definition addA :: "regno \<Rightarrow> u32 \<Rightarrow> ('d, unit) mach" where
  "addA r n = bind (getA r) (\<lambda>a. setA r (a + n))"

definition move16_inc_imm :: "u16 \<Rightarrow> ('d, unit) mach" where
  "move16_inc_imm op =
     bind FETCH32 (\<lambda>imm.
     bind (getA (REG op)) (\<lambda>a.
     seq (Transfer16 a imm) (addA (REG op) 16)))"

definition move16_imm_inc :: "u16 \<Rightarrow> ('d, unit) mach" where
  "move16_imm_inc op =
     bind FETCH32 (\<lambda>imm.
     bind (getA (REG op)) (\<lambda>a.
     seq (Transfer16 imm a) (addA (REG op) 16)))"

definition move16_base_imm :: "u16 \<Rightarrow> ('d, unit) mach" where
  "move16_base_imm op =
     bind FETCH32 (\<lambda>imm. bind (getA (REG op)) (\<lambda>a. Transfer16 a imm))"

definition move16_imm_base :: "u16 \<Rightarrow> ('d, unit) mach" where
  "move16_imm_base op =
     bind FETCH32 (\<lambda>imm. bind (getA (REG op)) (\<lambda>a. Transfer16 imm a))"

definition move16_inc_inc :: "u16 \<Rightarrow> ('d, unit) mach" where
  "move16_inc_inc op =
     bind FETCH (\<lambda>extw.
     let ay = (ucast (drop_bit 12 extw AND 7) :: regno) in
     bind (getA (REG op)) (\<lambda>a.
     bind (getA ay) (\<lambda>b.
     seq (Transfer16 a b)
    (seq (addA ay 16) (addA (REG op) 16)))))"

section \<open>MOVEM\<close>

text \<open>
  \<open>movem_run\<close> is set while the transfer is under way: a \<open>MOVEM\<close> resumed by \<open>RTE\<close> finds
  it set, with \<open>EA\<close> restored, and does not compute its address again.
\<close>

definition movem_start :: "('d, u32) mach \<Rightarrow> ('d, unit) mach" where
  "movem_start addr =
     bind (cget movem_run) (\<lambda>r.
     whenM (\<not> r)
      (bind addr (\<lambda>a. cmod (\<lambda>c. c\<lparr>EA := a, movem_run := True\<rparr>))))"

definition movem_done :: "('d, unit) mach" where
  "movem_done = cmod (\<lambda>c. c\<lparr>movem_run := False\<rparr>)"

text \<open>
  The loop over the sixteen bits of the mask; the body is run for the bits that are set
  and yields the address of the next operand.
\<close>

definition movem_loop :: "u16 \<Rightarrow> u32 \<Rightarrow> (nat \<Rightarrow> u32 \<Rightarrow> ('d, u32) mach) \<Rightarrow> ('d, u32) mach" where
  "movem_loop regs a0 body =
     fold_each [0..<16] a0 (\<lambda>i a. if bit_at regs i then body i a else return a)"

definition movem_w_store_decr :: "u16 \<Rightarrow> ('d, unit) mach" where
  "movem_w_store_decr op =
     bind FETCH (\<lambda>regs.
     seq (movem_start (bind (getA (REG op)) (\<lambda>a.
            seq (setA (REG op) (a - 2)) (return (a - 2)))))
    (bind (cget EA) (\<lambda>a0.
     bind (movem_loop regs a0 (\<lambda>i a.
             bind (getR (15 - i)) (\<lambda>v. seq (WriteW a (ucast v)) (return (a - 2))))) (\<lambda>a.
     seq (setA (REG op) (a + 2))
         movem_done))))"

definition movem_w_store_base :: "u16 \<Rightarrow> ('d, unit) mach" where
  "movem_w_store_base op =
     bind FETCH (\<lambda>regs.
     seq (movem_start (ea_getaddr (TYP op) (REG op) 2))
    (bind (cget EA) (\<lambda>a0.
     bind (movem_loop regs a0 (\<lambda>i a.
             bind (getR i) (\<lambda>v. seq (WriteW a (ucast v)) (return (a + 2))))) (\<lambda>_.
     movem_done))))"

definition movem_l_store_decr :: "u16 \<Rightarrow> ('d, unit) mach" where
  "movem_l_store_decr op =
     bind FETCH (\<lambda>regs.
     seq (movem_start (bind (getA (REG op)) (\<lambda>a.
            seq (setA (REG op) (a - 4)) (return (a - 4)))))
    (bind (cget EA) (\<lambda>a0.
     bind (movem_loop regs a0 (\<lambda>i a.
             bind (getR (15 - i)) (\<lambda>v. seq (WriteL a (v)) (return (a - 4))))) (\<lambda>a.
     seq (setA (REG op) (a + 4))
         movem_done))))"

definition movem_l_store_base :: "u16 \<Rightarrow> ('d, unit) mach" where
  "movem_l_store_base op =
     bind FETCH (\<lambda>regs.
     seq (movem_start (ea_getaddr (TYP op) (REG op) 4))
    (bind (cget EA) (\<lambda>a0.
     bind (movem_loop regs a0 (\<lambda>i a.
             bind (getR i) (\<lambda>v. seq (WriteL a (v)) (return (a + 4))))) (\<lambda>_.
     movem_done))))"

text \<open>
  Loading register \<open>i\<close> with a word: an address register takes the sign-extended word, a
  data register keeps its upper half.
\<close>

definition movem_set_W :: "nat \<Rightarrow> u16 \<Rightarrow> ('d, unit) mach" where
  "movem_set_W i v =
     (if 7 < i then setA (of_nat i) (scast v) else storeD_W (of_nat i) v)"

text \<open>The postincrement forms keep the running address in the register itself.\<close>

definition movem_w_load_incr :: "u16 \<Rightarrow> ('d, unit) mach" where
  "movem_w_load_incr op =
     bind FETCH (\<lambda>regs.
     seq (movem_start (getA (REG op)))
    (seq (bind (cget EA) (setA (REG op)))
    (seq (for_each [0..<16] (\<lambda>i. whenM (bit_at regs i)
            (bind (getA (REG op)) (\<lambda>a.
             bind (ReadW a) (\<lambda>v.
             seq (movem_set_W i v) (addA (REG op) 2))))))
         movem_done)))"

definition movem_w_load_base :: "u16 \<Rightarrow> ('d, unit) mach" where
  "movem_w_load_base op =
     bind FETCH (\<lambda>regs.
     seq (movem_start (ea_getaddr (TYP op) (REG op) 2))
    (bind (cget EA) (\<lambda>a0.
     bind (movem_loop regs a0 (\<lambda>i a.
             bind (ReadW a) (\<lambda>v. seq (movem_set_W i v) (return (a + 2))))) (\<lambda>_.
     movem_done))))"

definition movem_l_load_incr :: "u16 \<Rightarrow> ('d, unit) mach" where
  "movem_l_load_incr op =
     bind FETCH (\<lambda>regs.
     seq (movem_start (getA (REG op)))
    (seq (bind (cget EA) (setA (REG op)))
    (seq (for_each [0..<16] (\<lambda>i. whenM (bit_at regs i)
            (bind (getA (REG op)) (\<lambda>a.
             bind (ReadL a) (\<lambda>v.
             seq (setR i v) (addA (REG op) 4))))))
         movem_done)))"

definition movem_l_load_base :: "u16 \<Rightarrow> ('d, unit) mach" where
  "movem_l_load_base op =
     bind FETCH (\<lambda>regs.
     seq (movem_start (ea_getaddr (TYP op) (REG op) 4))
    (bind (cget EA) (\<lambda>a0.
     bind (movem_loop regs a0 (\<lambda>i a.
             bind (ReadL a) (\<lambda>v. seq (setR i v) (return (a + 4))))) (\<lambda>_.
     movem_done))))"

section \<open>Caches and translation\<close>

text \<open>The data-cache routines \<open>cinvl_d\<close> to \<open>cpusha_d\<close> of the source have empty bodies.\<close>

definition cache_d :: "('d, unit) mach" where
  "cache_d = return ()"

definition cinvl_dc :: "u16 \<Rightarrow> ('d, unit) mach" where
  "cinvl_dc op =
     seq PRIV_CHECK (seq cache_d TRACE_BRANCH)"

definition cinvl_ic :: "u16 \<Rightarrow> ('d, unit) mach" where
  "cinvl_ic op =
     seq PRIV_CHECK (seq (bind (getA (REG op)) cinvl_i) TRACE_BRANCH)"

definition cinvl_bc :: "u16 \<Rightarrow> ('d, unit) mach" where
  "cinvl_bc op =
     seq PRIV_CHECK (seq cache_d (seq (bind (getA (REG op)) cinvl_i) TRACE_BRANCH))"

definition cinvp_dc :: "u16 \<Rightarrow> ('d, unit) mach" where
  "cinvp_dc op =
     seq PRIV_CHECK (seq cache_d TRACE_BRANCH)"

definition cinvp_ic :: "u16 \<Rightarrow> ('d, unit) mach" where
  "cinvp_ic op =
     seq PRIV_CHECK (seq (bind (getA (REG op)) cinvp_i) TRACE_BRANCH)"

definition cinvp_bc :: "u16 \<Rightarrow> ('d, unit) mach" where
  "cinvp_bc op =
     seq PRIV_CHECK (seq cache_d (seq (bind (getA (REG op)) cinvp_i) TRACE_BRANCH))"

definition cinva_dc :: "u16 \<Rightarrow> ('d, unit) mach" where
  "cinva_dc op =
     seq PRIV_CHECK (seq cache_d TRACE_BRANCH)"

definition cinva_ic :: "u16 \<Rightarrow> ('d, unit) mach" where
  "cinva_ic op =
     seq PRIV_CHECK (seq cinva_i TRACE_BRANCH)"

definition cinva_bc :: "u16 \<Rightarrow> ('d, unit) mach" where
  "cinva_bc op =
     seq PRIV_CHECK (seq cache_d (seq cinva_i TRACE_BRANCH))"

definition cpushl_dc :: "u16 \<Rightarrow> ('d, unit) mach" where
  "cpushl_dc op =
     seq PRIV_CHECK (seq cache_d TRACE_BRANCH)"

definition cpushl_ic :: "u16 \<Rightarrow> ('d, unit) mach" where
  "cpushl_ic op =
     seq PRIV_CHECK (seq (bind (getA (REG op)) cpushl_i) TRACE_BRANCH)"

definition cpushl_bc :: "u16 \<Rightarrow> ('d, unit) mach" where
  "cpushl_bc op =
     seq PRIV_CHECK (seq cache_d (seq (bind (getA (REG op)) cpushl_i) TRACE_BRANCH))"

definition cpushp_dc :: "u16 \<Rightarrow> ('d, unit) mach" where
  "cpushp_dc op =
     seq PRIV_CHECK (seq cache_d TRACE_BRANCH)"

definition cpushp_ic :: "u16 \<Rightarrow> ('d, unit) mach" where
  "cpushp_ic op =
     seq PRIV_CHECK (seq (bind (getA (REG op)) cpushp_i) TRACE_BRANCH)"

definition cpushp_bc :: "u16 \<Rightarrow> ('d, unit) mach" where
  "cpushp_bc op =
     seq PRIV_CHECK (seq cache_d (seq (bind (getA (REG op)) cpushp_i) TRACE_BRANCH))"

definition cpusha_dc :: "u16 \<Rightarrow> ('d, unit) mach" where
  "cpusha_dc op =
     seq PRIV_CHECK (seq cache_d TRACE_BRANCH)"

definition cpusha_ic :: "u16 \<Rightarrow> ('d, unit) mach" where
  "cpusha_ic op =
     seq PRIV_CHECK (seq cpusha_i TRACE_BRANCH)"

definition cpusha_bc :: "u16 \<Rightarrow> ('d, unit) mach" where
  "cpusha_bc op =
     seq PRIV_CHECK (seq cache_d (seq cpusha_i TRACE_BRANCH))"

definition pflushn :: "u16 \<Rightarrow> ('d, unit) mach" where
  "pflushn op =
     seq PRIV_CHECK
    (bind (getA (REG op)) (\<lambda>a.
     seq (pflushn_impl (drop_bit 12 a)) TRACE_BRANCH))"

definition pflush :: "u16 \<Rightarrow> ('d, unit) mach" where
  "pflush op =
     seq PRIV_CHECK
    (bind (getA (REG op)) (\<lambda>a.
     seq (pflush_impl (drop_bit 12 a)) TRACE_BRANCH))"

definition pflushan :: "u16 \<Rightarrow> ('d, unit) mach" where
  "pflushan op =
     seq PRIV_CHECK (seq pflushan_impl TRACE_BRANCH)"

definition pflusha :: "u16 \<Rightarrow> ('d, unit) mach" where
  "pflusha op =
     seq PRIV_CHECK (seq pflusha_impl TRACE_BRANCH)"

definition ptestr :: "u16 \<Rightarrow> ('d, unit) mach" where
  "ptestr op =
     seq PRIV_CHECK
    (bind (getA (REG op)) (\<lambda>a.
     seq (op_ptest a False) TRACE_BRANCH))"

definition ptestw :: "u16 \<Rightarrow> ('d, unit) mach" where
  "ptestw op =
     seq PRIV_CHECK
    (bind (getA (REG op)) (\<lambda>a.
     seq (op_ptest a True) TRACE_BRANCH))"

definition movec_from_cr :: "u16 \<Rightarrow> ('d, unit) mach" where
  "movec_from_cr op =
     seq PRIV_CHECK
    (bind FETCH (\<lambda>extw.
     let rn = unat (drop_bit 12 extw AND 15) in
     bind (gets cpu) (\<lambda>c.
     case movec_from_cr_impl (extw AND 0xfff) c of
       None \<Rightarrow> ILLEGAL_OP
     | Some (v, c') \<Rightarrow>
         seq (cmod (\<lambda>_. c')) (seq (setR rn v) TRACE_BRANCH))))"

definition movec_to_cr :: "u16 \<Rightarrow> ('d, unit) mach" where
  "movec_to_cr op =
     seq PRIV_CHECK
    (bind FETCH (\<lambda>extw.
     let rn = unat (drop_bit 12 extw AND 15) in
     bind (gets cpu) (\<lambda>c.
     case movec_to_cr_impl (extw AND 0xfff) (reg_of c rn) c of
       None \<Rightarrow> ILLEGAL_OP
     | Some c' \<Rightarrow> seq (cmod (\<lambda>_. c')) TRACE_BRANCH)))"

section \<open>Comparison and conditions\<close>

lemma less_from_codes:
  fixes a b :: "'a::len word"
  shows "(sint (a - b) < 0) \<noteq> (sint a - sint b < - (2 ^ (LENGTH('a) - 1)) \<or>
      2 ^ (LENGTH('a) - 1) \<le> sint a - sint b) \<longleftrightarrow> sint a < sint b"
  using sint_range [of a] sint_range [of b]
    signed_take_bit_near [of "LENGTH('a) - 1" "sint a - sint b"] zero_less_power [of "2 :: int" "LENGTH('a) - 1"]
  unfolding sint_word_ariths by auto

text \<open>All the conditions of two operands, read off the codes of their difference.\<close>

definition compares :: "'a::len word \<Rightarrow> 'a word \<Rightarrow> cpu \<Rightarrow> bool" where
  "compares a b k \<longleftrightarrow>
     testCC 2 k = (uint b < uint a) \<and> testCC 3 k = (uint a \<le> uint b) \<and>
     testCC 4 k = (uint b \<le> uint a) \<and> testCC 5 k = (uint a < uint b) \<and>
     testCC 6 k = (a \<noteq> b) \<and> testCC 7 k = (a = b) \<and>
     testCC 12 k = (sint b \<le> sint a) \<and> testCC 13 k = (sint a < sint b) \<and>
     testCC 14 k = (sint b < sint a) \<and> testCC 15 k = (sint a \<le> sint b)"

lemma compares_from_codes:
  assumes "fC k = (uint a < uint b)" "fZ k = (a = b)" "(fN k \<noteq> fV k) = (sint a < sint b)"
  shows "compares a b k"
proof -
  have signed: "a = b \<longleftrightarrow> sint a = sint b" and unsigned: "a = b \<longleftrightarrow> uint a = uint b"
    by (auto intro: signed_word_eqI unsigned_word_eqI)
  have nv: "(fN k = fV k) = (\<not> sint a < sint b)"
    using assms(3) by blast
  have "testCC 2 k = (uint b < uint a)" "testCC 3 k = (uint a \<le> uint b)"
    "testCC 4 k = (uint b \<le> uint a)" "testCC 5 k = (uint a < uint b)"
    unfolding testCC_def assms(1,2) unsigned by auto
  moreover have "testCC 12 k = (sint b \<le> sint a)" "testCC 13 k = (sint a < sint b)"
    "testCC 14 k = (sint b < sint a)" "testCC 15 k = (sint a \<le> sint b)"
    unfolding testCC_def assms(2) nv signed by auto
  moreover have "testCC 6 k = (a \<noteq> b)" "testCC 7 k = (a = b)"
    by (simp_all add: testCC_def assms(2))
  ultimately show ?thesis unfolding compares_def by blast
qed

lemma compares_sub_codes: "compares a b (sub_codes a b k)" "compares a b (sub_codes a b k\<lparr>fX := x\<rparr>)"
  using less_from_codes [of a b] by (intro compares_from_codes; simp add: sub_codes_def)+

text \<open>
  C28. After \<open>CMP a, b\<close> (or \<open>SUB\<close>) the conditions mean what their names say: HI, LS, CC, CS
  compare the operands as unsigned numbers, GE, LT, GT, LE as signed numbers, NE and EQ for
  equality, for bytes, words and longwords and also where the difference overflows.
\<close>

theorem conditions_after_compare:
  "(\<exists>s'. CMP_B a b s = Ok () s' \<and> compares a b (cpu s')) \<and>
   (\<exists>s'. CMP_W c d s = Ok () s' \<and> compares c d (cpu s')) \<and>
   (\<exists>s'. CMP_L e f s = Ok () s' \<and> compares e f (cpu s')) \<and>
   (\<exists>s'. SUB_L e f s = Ok (e - f) s' \<and> compares e f (cpu s'))"
  by (simp add: difference_runs compares_sub_codes)

end
