(* ===== verification/Dispatch.thy ===== *)
theory Dispatch
  imports OpsBasic OpsData OpsShift OpsFlow
begin

text \<open>
  The opcode table and the processor loop: \<open>init_run_table\<close> of src/cpu/op.cc,
  \<open>init_run_table_mmu\<close> of src/cpu/68040_mmu.cc, \<open>init_table\<close> of src/cpu/68040_fpu.cc and
  src/cpu/run.cc. The table is the list of its assignments in program order; the last one
  that covers an opcode wins.
\<close>

section \<open>The assignments\<close>

type_synonym 'd handler = "u16 \<Rightarrow> ('d, unit) mach"
type_synonym 'd rule = "(u16 \<Rightarrow> bool) \<times> 'd handler"

text \<open>
  \<open>run_table[base | x << k] = h\<close> for all values of a field \<open>x\<close>: the mask covers the other
  bits. The fields of one opcode never overlap with the bits of \<open>base\<close>, so the nested
  loops of the source reach each opcode once for each assignment. \<open>ent_ea\<close> restricts the
  six low bits to the range of the loop over \<open>ea\<close>, \<open>ent_ctl\<close> is the branch for control
  addressing modes of the loop from octal 20 to 73, and \<open>ent_move\<close> the destination modes
  from 2 to 7 of the loops over \<open>k\<close>.
\<close>

definition ent :: "u16 \<Rightarrow> u16 \<Rightarrow> 'h \<Rightarrow> (u16 \<Rightarrow> bool) \<times> 'h" where
  "ent msk base h = (\<lambda>op. op AND msk = base, h)"

definition ea_field :: "u16 \<Rightarrow> u16" where
  "ea_field op = op AND 0x3f"

definition ent_ea :: "u16 \<Rightarrow> u16 \<Rightarrow> u16 \<Rightarrow> u16 \<Rightarrow> 'h \<Rightarrow> (u16 \<Rightarrow> bool) \<times> 'h" where
  "ent_ea msk base lo hi h =
     (\<lambda>op. op AND msk = base \<and> lo \<le> ea_field op \<and> ea_field op < hi, h)"

definition ent_ctl :: "u16 \<Rightarrow> u16 \<Rightarrow> 'h \<Rightarrow> (u16 \<Rightarrow> bool) \<times> 'h" where
  "ent_ctl msk base h =
     (\<lambda>op. op AND msk = base \<and> 0x10 \<le> ea_field op \<and> ea_field op < 0x3c \<and>
           (ea_field op < 0x18 \<or> 0x28 \<le> ea_field op), h)"

definition ent_move :: "u16 \<Rightarrow> u16 \<Rightarrow> 'h \<Rightarrow> (u16 \<Rightarrow> bool) \<times> 'h" where
  "ent_move msk base h =
     (\<lambda>op. op AND msk = base \<and> 2 \<le> drop_bit 6 op AND 7 \<and> ea_field op < 0x3d, h)"

lemmas ent_defs = ent_def ent_ea_def ent_ctl_def ent_move_def

text \<open>The handlers of the floating-point unit: those of \<open>Fpu\<close>, or any that keep an invariant.\<close>

record 'd fpu_ops =
  f_fop :: "'d handler"
  f_fscc :: "'d handler"
  f_fsave :: "'d handler"
  f_frestore :: "'d handler"
  f_fdbcc :: "'d handler"
  f_ftrapcc :: "'d handler"
  f_fbcc_w :: "'d handler"
  f_fbcc_l :: "'d handler"

definition rules_ea :: "'d rule list" where
  "rules_ea =
    [ent_ea 0xffc0 0x0000 0x0 0x3d ori_b,
     ent_ea 0xffc0 0x0040 0x0 0x3d ori_w,
     ent_ea 0xffc0 0x0080 0x0 0x3d ori_l,
     ent_ea 0xffc0 0x0200 0x0 0x3d andi_b,
     ent_ea 0xffc0 0x0240 0x0 0x3d andi_w,
     ent_ea 0xffc0 0x0280 0x0 0x3d andi_l,
     ent_ea 0xffc0 0x0400 0x0 0x3d subi_b,
     ent_ea 0xffc0 0x0440 0x0 0x3d subi_w,
     ent_ea 0xffc0 0x0480 0x0 0x3d subi_l,
     ent_ea 0xffc0 0x0600 0x0 0x3d addi_b,
     ent_ea 0xffc0 0x0640 0x0 0x3d addi_w,
     ent_ea 0xffc0 0x0680 0x0 0x3d addi_l,
     ent_ea 0xffc0 0x0a00 0x0 0x3d eori_b,
     ent_ea 0xffc0 0x0a40 0x0 0x3d eori_w,
     ent_ea 0xffc0 0x0a80 0x0 0x3d eori_l,
     ent_ea 0xffc0 0x0c00 0x0 0x3d cmpi_b,
     ent_ea 0xffc0 0x0c40 0x0 0x3d cmpi_w,
     ent_ea 0xffc0 0x0c80 0x0 0x3d cmpi_l,
     ent_ea 0xffc0 0x4000 0x0 0x3d negx_b,
     ent_ea 0xffc0 0x4040 0x0 0x3d negx_w,
     ent_ea 0xffc0 0x4080 0x0 0x3d negx_l,
     ent_ea 0xffc0 0x40c0 0x0 0x3d move_from_sr,
     ent_ea 0xffc0 0x4200 0x0 0x3d clr_b,
     ent_ea 0xffc0 0x4240 0x0 0x3d clr_w,
     ent_ea 0xffc0 0x4280 0x0 0x3d clr_l,
     ent_ea 0xffc0 0x42c0 0x0 0x3d move_from_ccr,
     ent_ea 0xffc0 0x4400 0x0 0x3d neg_b,
     ent_ea 0xffc0 0x4440 0x0 0x3d neg_w,
     ent_ea 0xffc0 0x4480 0x0 0x3d neg_l,
     ent_ea 0xffc0 0x44c0 0x0 0x3d move_to_ccr,
     ent_ea 0xffc0 0x4600 0x0 0x3d not_b,
     ent_ea 0xffc0 0x4640 0x0 0x3d not_w,
     ent_ea 0xffc0 0x4680 0x0 0x3d not_l,
     ent_ea 0xffc0 0x46c0 0x0 0x3d move_to_sr,
     ent_ea 0xffc0 0x4800 0x0 0x3d nbcd,
     ent_ea 0xffc0 0x4a00 0x0 0x3d tst_b,
     ent_ea 0xffc0 0x4a40 0x0 0x3d tst_w,
     ent_ea 0xffc0 0x4a80 0x0 0x3d tst_l,
     ent_ea 0xffc0 0x4ac0 0x0 0x3d tas,
     ent_ea 0xffc0 0x4c00 0x0 0x3d mul_l,
     ent_ea 0xffc0 0x4c40 0x0 0x3d div_l,
     ent_ea 0xf1c0 0x1000 0x0 0x3d move_b,
     ent_ea 0xf1c0 0x2000 0x0 0x3d move_l,
     ent_ea 0xf1c0 0x3000 0x0 0x3d move_w,
     ent_ea 0xf1c0 0x2040 0x0 0x3d movea_l,
     ent_ea 0xf1c0 0x3040 0x0 0x3d movea_w,
     ent_ea 0xf1c0 0x4100 0x0 0x3d chk_l,
     ent_ea 0xf1c0 0x4180 0x0 0x3d chk_w,
     ent_ea 0xf1c0 0x5000 0x0 0x3d addq_b,
     ent_ea 0xf1c0 0x5040 0x0 0x3d addq_w,
     ent_ea 0xf1c0 0x5080 0x0 0x3d addq_l,
     ent_ea 0xf1c0 0x5100 0x0 0x3d subq_b,
     ent_ea 0xf1c0 0x5140 0x0 0x3d subq_w,
     ent_ea 0xf1c0 0x5180 0x0 0x3d subq_l,
     ent_ea 0xf1c0 0x8000 0x0 0x3d or_b_to_dn,
     ent_ea 0xf1c0 0x8040 0x0 0x3d or_w_to_dn,
     ent_ea 0xf1c0 0x8080 0x0 0x3d or_l_to_dn,
     ent_ea 0xf1c0 0x80c0 0x0 0x3d divu_w,
     ent_ea 0xf1c0 0x81c0 0x0 0x3d divs_w,
     ent_ea 0xf1c0 0x9000 0x0 0x3d sub_b_to_dn,
     ent_ea 0xf1c0 0x9040 0x0 0x3d sub_w_to_dn,
     ent_ea 0xf1c0 0x9080 0x0 0x3d sub_l_to_dn,
     ent_ea 0xf1c0 0x90c0 0x0 0x3d suba_w,
     ent_ea 0xf1c0 0x91c0 0x0 0x3d suba_l,
     ent_ea 0xf1c0 0xb000 0x0 0x3d cmp_b,
     ent_ea 0xf1c0 0xb040 0x0 0x3d cmp_w,
     ent_ea 0xf1c0 0xb080 0x0 0x3d cmp_l,
     ent_ea 0xf1c0 0xb0c0 0x0 0x3d cmpa_w,
     ent_ea 0xf1c0 0xb100 0x0 0x3d eor_b,
     ent_ea 0xf1c0 0xb140 0x0 0x3d eor_w,
     ent_ea 0xf1c0 0xb180 0x0 0x3d eor_l,
     ent_ea 0xf1c0 0xb1c0 0x0 0x3d cmpa_l,
     ent_ea 0xf1c0 0xc000 0x0 0x3d and_b_to_dn,
     ent_ea 0xf1c0 0xc040 0x0 0x3d and_w_to_dn,
     ent_ea 0xf1c0 0xc080 0x0 0x3d and_l_to_dn,
     ent_ea 0xf1c0 0xc0c0 0x0 0x3d mulu_w,
     ent_ea 0xf1c0 0xc1c0 0x0 0x3d muls_w,
     ent_ea 0xf1c0 0xd000 0x0 0x3d add_b_to_dn,
     ent_ea 0xf1c0 0xd040 0x0 0x3d add_w_to_dn,
     ent_ea 0xf1c0 0xd080 0x0 0x3d add_l_to_dn,
     ent_ea 0xf1c0 0xd0c0 0x0 0x3d adda_w,
     ent_ea 0xf1c0 0xd1c0 0x0 0x3d adda_l,
     ent_move 0xf000 0x1000 move_b,
     ent_move 0xf000 0x2000 move_l,
     ent_move 0xf000 0x3000 move_w]"

definition rules_dn :: "'d rule list" where
  "rules_dn =
    [ent 0xfff8 0x0800 btst_l_i,
     ent 0xfff8 0x0840 bchg_l_i,
     ent 0xfff8 0x0880 bclr_l_i,
     ent 0xfff8 0x08c0 bset_l_i,
     ent 0xfff8 0x4840 swap_dn,
     ent 0xfff8 0x4880 ext_w,
     ent 0xfff8 0x48c0 ext_l,
     ent 0xfff8 0x49c0 extb_l,
     ent 0xfff8 0x4e40 trap,
     ent 0xfff8 0xe8c0 bftst_dn,
     ent 0xfff8 0xeac0 bfchg_dn,
     ent 0xfff8 0xecc0 bfclr_dn,
     ent 0xfff8 0xeec0 bfset_dn,
     ent 0xfff8 0xe9c0 bfextu_dn,
     ent 0xfff8 0xebc0 bfexts_dn,
     ent 0xfff8 0xedc0 bfffo_dn,
     ent 0xfff8 0xefc0 bfins_dn,
     ent 0xf1f8 0x0100 btst_l_r,
     ent 0xf1f8 0x0140 bchg_l_r,
     ent 0xf1f8 0x0180 bclr_l_r,
     ent 0xf1f8 0x01c0 bset_l_r,
     ent 0xf1f8 0x8100 sbcd_d,
     ent 0xf1f8 0x8140 pack_d,
     ent 0xf1f8 0x8180 unpk_d,
     ent 0xf1f8 0x9100 subx_b_d,
     ent 0xf1f8 0x9140 subx_w_d,
     ent 0xf1f8 0x9180 subx_l_d,
     ent 0xf1f8 0xc100 abcd_d,
     ent 0xf1f8 0xc140 exg_dn,
     ent 0xf1f8 0xd100 addx_b_d,
     ent 0xf1f8 0xd140 addx_w_d,
     ent 0xf1f8 0xd180 addx_l_d,
     ent 0xf0f8 0x50c0 scc_ea]"

definition rules_an :: "'d rule list" where
  "rules_an =
    [ent 0xf1f8 0x0108 movep_w_load,
     ent 0xf1f8 0x0148 movep_l_load,
     ent 0xf1f8 0x0188 movep_w_store,
     ent 0xf1f8 0x01c8 movep_l_store,
     ent 0xf1f8 0x5048 addq_an,
     ent 0xf1f8 0x5088 addq_an,
     ent 0xf1f8 0x5148 subq_an,
     ent 0xf1f8 0x5188 subq_an,
     ent 0xf1f8 0x8108 sbcd_m,
     ent 0xf1f8 0x8148 pack_m,
     ent 0xf1f8 0x8188 unpk_m,
     ent 0xf1f8 0x9108 subx_b_m,
     ent 0xf1f8 0x9148 subx_w_m,
     ent 0xf1f8 0x9188 subx_l_m,
     ent 0xf1f8 0xb108 cmpm_b,
     ent 0xf1f8 0xb148 cmpm_w,
     ent 0xf1f8 0xb188 cmpm_l,
     ent 0xf1f8 0xc108 abcd_m,
     ent 0xf1f8 0xc148 exg_an,
     ent 0xf1f8 0xc188 exg_da,
     ent 0xf1f8 0xd108 addx_b_m,
     ent 0xf1f8 0xd148 addx_w_m,
     ent 0xf1f8 0xd188 addx_l_m,
     ent 0xfff8 0x4808 link_l,
     ent 0xfff8 0x4848 bkpt,
     ent 0xfff8 0x4e48 trap,
     ent 0xf0f8 0x50c8 dbcc]"

definition rules_mem :: "'d rule list" where
  "rules_mem =
    [ent_ea 0xffc0 0x4c80 0x18 0x20 movem_w_load_incr,
     ent_ea 0xffc0 0x4cc0 0x18 0x20 movem_l_load_incr,
     ent_ea 0xffc0 0x4880 0x20 0x28 movem_w_store_decr,
     ent_ea 0xffc0 0x48c0 0x20 0x28 movem_l_store_decr,
     ent_ctl 0xffc0 0x00c0 cmp2_chk2_b,
     ent_ctl 0xffc0 0x02c0 cmp2_chk2_w,
     ent_ctl 0xffc0 0x04c0 cmp2_chk2_l,
     ent_ctl 0xffc0 0x4840 pea,
     ent_ctl 0xffc0 0x4880 movem_w_store_base,
     ent_ctl 0xffc0 0x48c0 movem_l_store_base,
     ent_ctl 0xffc0 0x4c80 movem_w_load_base,
     ent_ctl 0xffc0 0x4cc0 movem_l_load_base,
     ent_ctl 0xffc0 0x4e80 jsr,
     ent_ctl 0xffc0 0x4ec0 jmp,
     ent_ctl 0xffc0 0xe8c0 bftst_mem,
     ent_ctl 0xffc0 0xeac0 bfchg_mem,
     ent_ctl 0xffc0 0xecc0 bfclr_mem,
     ent_ctl 0xffc0 0xeec0 bfset_mem,
     ent_ctl 0xffc0 0xe9c0 bfextu_mem,
     ent_ctl 0xffc0 0xebc0 bfexts_mem,
     ent_ctl 0xffc0 0xedc0 bfffo_mem,
     ent_ctl 0xffc0 0xefc0 bfins_mem,
     ent_ctl 0xf1c0 0x41c0 lea,
     ent_ea 0xffc0 0x0800 0x10 0x3c btst_b_i,
     ent_ea 0xffc0 0x0840 0x10 0x3c bchg_b_i,
     ent_ea 0xffc0 0x0880 0x10 0x3c bclr_b_i,
     ent_ea 0xffc0 0x08c0 0x10 0x3c bset_b_i,
     ent_ea 0xffc0 0x0ac0 0x10 0x3c cas_b,
     ent_ea 0xffc0 0x0cc0 0x10 0x3c cas_w,
     ent_ea 0xffc0 0x0e00 0x10 0x3c moves_b,
     ent_ea 0xffc0 0x0e40 0x10 0x3c moves_w,
     ent_ea 0xffc0 0x0e80 0x10 0x3c moves_l,
     ent_ea 0xffc0 0x0ec0 0x10 0x3c cas_l,
     ent_ea 0xffc0 0xe0c0 0x10 0x3c asr_ea,
     ent_ea 0xffc0 0xe2c0 0x10 0x3c lsr_ea,
     ent_ea 0xffc0 0xe4c0 0x10 0x3c roxr_ea,
     ent_ea 0xffc0 0xe6c0 0x10 0x3c ror_ea,
     ent_ea 0xffc0 0xe1c0 0x10 0x3c asl_ea,
     ent_ea 0xffc0 0xe3c0 0x10 0x3c lsl_ea,
     ent_ea 0xffc0 0xe5c0 0x10 0x3c roxl_ea,
     ent_ea 0xffc0 0xe7c0 0x10 0x3c rol_ea,
     ent_ea 0xf1c0 0x0100 0x10 0x3c btst_b_r,
     ent_ea 0xf1c0 0x0140 0x10 0x3c bchg_b_r,
     ent_ea 0xf1c0 0x0180 0x10 0x3c bclr_b_r,
     ent_ea 0xf1c0 0x01c0 0x10 0x3c bset_b_r,
     ent_ea 0xf1c0 0x8100 0x10 0x3c or_b_to_ea,
     ent_ea 0xf1c0 0x8140 0x10 0x3c or_w_to_ea,
     ent_ea 0xf1c0 0x8180 0x10 0x3c or_l_to_ea,
     ent_ea 0xf1c0 0x9100 0x10 0x3c sub_b_to_ea,
     ent_ea 0xf1c0 0x9140 0x10 0x3c sub_w_to_ea,
     ent_ea 0xf1c0 0x9180 0x10 0x3c sub_l_to_ea,
     ent_ea 0xf1c0 0xc100 0x10 0x3c and_b_to_ea,
     ent_ea 0xf1c0 0xc140 0x10 0x3c and_w_to_ea,
     ent_ea 0xf1c0 0xc180 0x10 0x3c and_l_to_ea,
     ent_ea 0xf1c0 0xd100 0x10 0x3c add_b_to_ea,
     ent_ea 0xf1c0 0xd140 0x10 0x3c add_w_to_ea,
     ent_ea 0xf1c0 0xd180 0x10 0x3c add_l_to_ea,
     ent_ea 0xf0c0 0x50c0 0x10 0x3a scc_ea]"

definition rules_misc :: "'d rule list" where
  "rules_misc =
    [ent 0xffff 0x003c ori_b_ccr,
     ent 0xffff 0x007c ori_w_sr,
     ent 0xffff 0x023c andi_b_ccr,
     ent 0xffff 0x027c andi_w_sr,
     ent 0xffff 0x083c btst_b_i_imm,
     ent 0xffff 0x0a3c eori_b_ccr,
     ent 0xffff 0x0a7c eori_w_sr,
     ent 0xffff 0x0cfc cas2_w,
     ent 0xffff 0x0efc cas2_l,
     ent 0xffff 0x44fc move_to_ccr,
     ent 0xffff 0x46fc move_to_sr,
     ent 0xffff 0x4afc illegal,
     ent 0xf1ff 0x013c btst_b_r_imm,
     ent 0xf1ff 0x203c move_b,
     ent 0xf1ff 0x203c move_l,
     ent 0xf1ff 0x303c move_w,
     ent 0xf1ff 0x207c movea_l,
     ent 0xf1ff 0x307c movea_w,
     ent_move 0xf03f 0x203c move_b,
     ent_move 0xf03f 0x203c move_l,
     ent_move 0xf03f 0x303c move_w,
     ent 0xfff8 0x4e50 link_w,
     ent 0xfff8 0x4e58 unlk,
     ent 0xfff8 0x4e60 move_to_usp,
     ent 0xfff8 0x4e68 move_from_usp,
     ent 0xf100 0x7000 moveq,
     ent 0xffff 0x4e70 reset,
     ent 0xffff 0x4e71 nop,
     ent 0xffff 0x4e72 stop,
     ent 0xffff 0x4e73 rte,
     ent 0xffff 0x4e74 rtd,
     ent 0xffff 0x4e75 rts,
     ent 0xffff 0x4e76 trapv,
     ent 0xffff 0x4e77 rtr,
     ent 0xffff 0x4e7a movec_from_cr,
     ent 0xffff 0x4e7b movec_to_cr,
     ent 0xf0ff 0x50fa trapcc,
     ent 0xf0ff 0x50fb trapcc,
     ent 0xf0ff 0x50fc trapcc,
     ent 0xf000 0x6000 bxx,
     ent 0xf000 0xa000 aline_ex,
     ent 0xf000 0xf000 fline_default]"

definition rules_shift :: "'d rule list" where
  "rules_shift =
    [ent 0xf1f8 0xe000 asr_b_i,
     ent 0xf1f8 0xe008 lsr_b_i,
     ent 0xf1f8 0xe010 roxr_b_i,
     ent 0xf1f8 0xe018 ror_b_i,
     ent 0xf1f8 0xe020 asr_b_r,
     ent 0xf1f8 0xe028 lsr_b_r,
     ent 0xf1f8 0xe030 roxr_b_r,
     ent 0xf1f8 0xe038 ror_b_r,
     ent 0xf1f8 0xe040 asr_w_i,
     ent 0xf1f8 0xe048 lsr_w_i,
     ent 0xf1f8 0xe050 roxr_w_i,
     ent 0xf1f8 0xe058 ror_w_i,
     ent 0xf1f8 0xe060 asr_w_r,
     ent 0xf1f8 0xe068 lsr_w_r,
     ent 0xf1f8 0xe070 roxr_w_r,
     ent 0xf1f8 0xe078 ror_w_r,
     ent 0xf1f8 0xe080 asr_l_i,
     ent 0xf1f8 0xe088 lsr_l_i,
     ent 0xf1f8 0xe090 roxr_l_i,
     ent 0xf1f8 0xe098 ror_l_i,
     ent 0xf1f8 0xe0a0 asr_l_r,
     ent 0xf1f8 0xe0a8 lsr_l_r,
     ent 0xf1f8 0xe0b0 roxr_l_r,
     ent 0xf1f8 0xe0b8 ror_l_r,
     ent 0xf1f8 0xe100 asl_b_i,
     ent 0xf1f8 0xe108 lsl_b_i,
     ent 0xf1f8 0xe110 roxl_b_i,
     ent 0xf1f8 0xe118 rol_b_i,
     ent 0xf1f8 0xe120 asl_b_r,
     ent 0xf1f8 0xe128 lsl_b_r,
     ent 0xf1f8 0xe130 roxl_b_r,
     ent 0xf1f8 0xe138 rol_b_r,
     ent 0xf1f8 0xe140 asl_w_i,
     ent 0xf1f8 0xe148 lsl_w_i,
     ent 0xf1f8 0xe150 roxl_w_i,
     ent 0xf1f8 0xe158 rol_w_i,
     ent 0xf1f8 0xe160 asl_w_r,
     ent 0xf1f8 0xe168 lsl_w_r,
     ent 0xf1f8 0xe170 roxl_w_r,
     ent 0xf1f8 0xe178 rol_w_r,
     ent 0xf1f8 0xe180 asl_l_i,
     ent 0xf1f8 0xe188 lsl_l_i,
     ent 0xf1f8 0xe190 roxl_l_i,
     ent 0xf1f8 0xe198 rol_l_i,
     ent 0xf1f8 0xe1a0 asl_l_r,
     ent 0xf1f8 0xe1a8 lsl_l_r,
     ent 0xf1f8 0xe1b0 roxl_l_r,
     ent 0xf1f8 0xe1b8 rol_l_r]"

definition rules_move16 :: "'d rule list" where
  "rules_move16 =
    [ent 0xfff8 0xf600 move16_inc_imm,
     ent 0xfff8 0xf608 move16_imm_inc,
     ent 0xfff8 0xf610 move16_base_imm,
     ent 0xfff8 0xf618 move16_imm_base,
     ent 0xfff8 0xf620 move16_inc_inc]"

definition rules_fpu :: "'d fpu_ops \<Rightarrow> 'd rule list" where
  "rules_fpu f =
    [ent_ea 0xffc0 0xf200 0x0 0x3c (f_fop f),
     ent_ea 0xffc0 0xf240 0x0 0x3c (f_fscc f),
     ent_ea 0xffc0 0xf300 0x0 0x3c (f_fsave f),
     ent_ea 0xffc0 0xf340 0x0 0x3c (f_frestore f),
     ent 0xfff8 0xf248 (f_fdbcc f),
     ent 0xffff 0xf27a (f_ftrapcc f),
     ent 0xffff 0xf27b (f_ftrapcc f),
     ent 0xffff 0xf27c (f_ftrapcc f),
     ent 0xffc0 0xf280 (f_fbcc_w f),
     ent 0xffc0 0xf2c0 (f_fbcc_l f)]"

definition rules_mmu :: "'d rule list" where
  "rules_mmu =
    [ent 0xfff8 0xf448 cinvl_dc,
     ent 0xfff8 0xf450 cinvp_dc,
     ent 0xfff8 0xf458 cinva_dc,
     ent 0xfff8 0xf468 cpushl_dc,
     ent 0xfff8 0xf470 cpushp_dc,
     ent 0xfff8 0xf478 cpusha_dc,
     ent 0xfff8 0xf488 cinvl_ic,
     ent 0xfff8 0xf490 cinvp_ic,
     ent 0xfff8 0xf498 cinva_ic,
     ent 0xfff8 0xf4a8 cpushl_ic,
     ent 0xfff8 0xf4b0 cpushp_ic,
     ent 0xfff8 0xf4b8 cpusha_ic,
     ent 0xfff8 0xf4c8 cinvl_bc,
     ent 0xfff8 0xf4d0 cinvp_bc,
     ent 0xfff8 0xf4d8 cinva_bc,
     ent 0xfff8 0xf4e8 cpushl_bc,
     ent 0xfff8 0xf4f0 cpushp_bc,
     ent 0xfff8 0xf4f8 cpusha_bc,
     ent 0xfff8 0xf500 pflushn,
     ent 0xfff8 0xf508 pflush,
     ent 0xfff8 0xf510 pflushan,
     ent 0xfff8 0xf518 pflusha,
     ent 0xfff8 0xf548 ptestw,
     ent 0xfff8 0xf568 ptestr]"

text \<open>\<open>None\<close> is the null pointer of \<open>cpu.fpu\<close>.\<close>

definition run_rules :: "'d fpu_ops option \<Rightarrow> 'd rule list" where
  "run_rules fpu =
     rules_ea @ rules_dn @ rules_an @ rules_mem @ rules_misc @ rules_shift @ rules_move16
     @ (case fpu of None \<Rightarrow> [] | Some f \<Rightarrow> rules_fpu f) @ rules_mmu"

fun lookup_last :: "((u16 \<Rightarrow> bool) \<times> 'h) list \<Rightarrow> u16 \<Rightarrow> 'h option \<Rightarrow> 'h option" where
  "lookup_last [] op r = r"
| "lookup_last ((p, h) # rs) op r = lookup_last rs op (if p op then Some h else r)"

definition run_table :: "'d fpu_ops option \<Rightarrow> u16 \<Rightarrow> 'd handler option" where
  "run_table fpu op = lookup_last (run_rules fpu) op None"

section \<open>One instruction\<close>

definition op_prologue :: "u32 \<Rightarrow> ('d, unit) mach" where
  "op_prologue pc =
     bind (gets (\<lambda>s. inturrupt (bus s))) (\<lambda>i.
     bind (cget I_lvl) (\<lambda>lvl.
     seq (whenM (i = 7 \<or> i > uint lvl)
           (seq (on_bus (modify (\<lambda>b. b\<lparr>inturrupt := - 1\<rparr>))) (IRQ i)))
    (seq (cmod (\<lambda>c. if \<not> movem_run c then c\<lparr>EA := 0\<rparr> else c))
    (seq (cmod (\<lambda>c. c\<lparr>must_trace := (T_mode c = 2)\<rparr>))
         (cmod (\<lambda>c. c\<lparr>oldpc := pc, PC := pc\<rparr>))))))"

definition exec_op :: "'d fpu_ops option \<Rightarrow> u16 \<Rightarrow> ('d, unit) mach" where
  "exec_op fpu op = (case run_table fpu op of Some h \<Rightarrow> h op | None \<Rightarrow> ILLEGAL_OP)"

text \<open>\<open>if(std::exchange(cpu.must_trace, false)) TRACE();\<close>\<close>

definition op_epilogue :: "('d, unit) mach" where
  "op_epilogue =
     bind (cget must_trace) (\<lambda>t.
     seq (cmod (\<lambda>c. c\<lparr>must_trace := False\<rparr>))
         (whenM t TRACE))"

text \<open>
  At an address of \<open>rom_funcs\<close> the processor is stopped and a host routine is started in
  a thread of its own; what that thread does is not part of the model.
\<close>

definition run_op :: "'d fpu_ops option \<Rightarrow> ('d, unit) mach" where
  "run_op fpu =
     bind (cget PC) (\<lambda>pc.
     bind (gets rom_funcs) (\<lambda>fs.
     if fs (pc AND 0xfffff) then on_bus run_stop
     else
       seq (op_prologue pc)
      (bind FETCH (\<lambda>op.
       seq (exec_op fpu op)
           op_epilogue))))"

section \<open>The loop\<close>

text \<open>
  One turn of the inner loop of \<open>run_cpu\<close>, with the handler of the outer loop: wait, stop
  at an address of \<open>rom_stops\<close>, or run one instruction; a guest exception is handled and
  \<open>bus_lock\<close> is cleared.
\<close>

definition inner_turn :: "'d fpu_ops option \<Rightarrow> ('d, unit) mach" where
  "inner_turn fpu =
     seq (on_bus run_wait)
    (bind (cget PC) (\<lambda>pc.
     bind (gets rom_stops) (\<lambda>st.
     if st pc then on_bus run_stop else run_op fpu)))"

definition cpu_turn :: "'d fpu_ops option \<Rightarrow> ('d, unit) mach" where
  "cpu_turn fpu = (\<lambda>s. case inner_turn fpu s of
      Raise (M68kException n) s' \<Rightarrow>
        seq (handle_exception n) (cmod (\<lambda>c. c\<lparr>bus_lock := False\<rparr>)) s'
    | r \<Rightarrow> r)"

text \<open>
  The system: the processor thread takes turns, and any other thread may post an interrupt
  of a level from 1 to 7 between two turns (the devices call \<open>do_irq\<close> with 1, 2 and 4), and the loop
  of src/main.cc may come round. A turn that does not return (the process ends, undefined behaviour, a
  wait without a wake-up) has no successor.
\<close>

inductive sys_step :: "'d fpu_ops option \<Rightarrow> 'd machine \<Rightarrow> 'd machine \<Rightarrow> bool"
  for fpu where
  turn: "cpu_turn fpu s = Ok () s' \<Longrightarrow> sys_step fpu s s'"
| post: "1 \<le> i \<Longrightarrow> i \<le> 7 \<Longrightarrow> sys_step fpu s (s\<lparr>bus := (bus s)\<lparr>stopping := False, inturrupt := i\<rparr>\<rparr>)"
| poll: "on_bus main_poll s = Ok () s' \<Longrightarrow> sys_step fpu s s'"

inductive reachable :: "'d fpu_ops option \<Rightarrow> 'd machine \<Rightarrow> 'd machine \<Rightarrow> bool"
  for fpu s0 where
  start: "reachable fpu s0 s0"
| step: "reachable fpu s0 s \<Longrightarrow> sys_step fpu s s' \<Longrightarrow> reachable fpu s0 s'"

end
