(* ===== verification/Guards.thy ===== *)
theory Guards
  imports Dispatch
begin

text \<open>
  Invariants of the machine under every instruction. Two locales state the contract between
  an invariant and the primitive steps of the interpreter: \<open>guest_memory\<close> for the steps of
  translation and bus access, \<open>guest_cpu\<close> for the registers a program may change at any
  time. Inside them every operation and every unprivileged handler of the opcode table is
  shown to preserve the invariant and to raise only exceptions of a given set; \<open>guest_table\<close>
  adds the privileged handlers and concludes for the handler of one opcode, \<open>guest_ops\<close> for one
  whole instruction.
\<close>

section \<open>The privileged registers\<close>

text \<open>
  The registers only privileged instructions, exceptions and \<open>RTE\<close> may write, and the flag
  \<open>inJit\<close>, which only translated code writes.
\<close>

definition same_privileged :: "cpu \<Rightarrow> cpu \<Rightarrow> bool" where
  "same_privileged c c' \<longleftrightarrow>
     MSP c' = MSP c \<and> ISP c' = ISP c \<and> USP c' = USP c \<and> I_lvl c' = I_lvl c \<and>
     T_mode c' = T_mode c \<and> M_bit c' = M_bit c \<and> S_bit c' = S_bit c \<and> VBR c' = VBR c \<and>
     SFC c' = SFC c \<and> DFC c' = DFC c \<and> URP c' = URP c \<and> SRP c' = SRP c \<and>
     TCR_E c' = TCR_E c \<and> TCR_P c' = TCR_P c \<and> ITTR c' = ITTR c \<and> DTTR c' = DTTR c \<and>
     MMUSR c' = MMUSR c \<and> CACR_DE c' = CACR_DE c \<and> CACR_IE c' = CACR_IE c \<and>
     inJit c' = inJit c"

lemma same_privileged_refl [simp]: "same_privileged c c"
  by (simp add: same_privileged_def)

lemma same_privileged_trans:
  "same_privileged c c' \<Longrightarrow> same_privileged c' c'' \<Longrightarrow> same_privileged c c''"
  by (simp add: same_privileged_def)

lemma same_privileged_upd [simp]:
  "same_privileged c (c\<lparr>Dn := f\<rparr>)" "same_privileged c (c\<lparr>An := f\<rparr>)"
  "same_privileged c (c\<lparr>PC := x\<rparr>)" "same_privileged c (c\<lparr>EA := x\<rparr>)"
  "same_privileged c (c\<lparr>EA := x, movem_run := b\<rparr>)" "same_privileged c (c\<lparr>oldpc := x, PC := y\<rparr>)"
  "same_privileged c (c\<lparr>bus_lock := b\<rparr>)" "same_privileged c (c\<lparr>movem_run := b\<rparr>)"
  "same_privileged c (c\<lparr>must_trace := b\<rparr>)" "same_privileged c (c\<lparr>ex_addr := x\<rparr>)"
  "same_privileged c (c\<lparr>fault_SSW := w\<rparr>)"
  by (simp_all add: same_privileged_def)

lemma same_privileged_SetCCR [simp]: "same_privileged c (SetCCR v c)"
  by (simp add: same_privileged_def SetCCR_def)

text \<open>The exception numbers instructions raise on their own account.\<close>

definition op_vectors :: "int set" where
  "op_vectors = {2..11} \<union> {14} \<union> {32..55}"

text \<open>
  What the update of one slot of a translation cache may do: the page number of a valid
  entry stays what it was, or fits the slot.
\<close>

definition slot_ok :: "4 word \<Rightarrow> (atc_entry \<Rightarrow> atc_entry) \<Rightarrow> bool" where
  "slot_ok k f \<longleftrightarrow> (\<forall>e. atc_V (f e) \<longrightarrow>
     (atc_V e \<and> laddr (f e) = laddr e) \<or> atc_key (laddr (f e)) = k)"

lemma slot_ok_simps [simp]:
  "slot_ok k (\<lambda>e. e\<lparr>atc_V := False\<rparr>)"
  "slot_ok (atc_key a) (\<lambda>e. e\<lparr>laddr := a, atc_V := b, atc_R := c\<rparr>)"
  "slot_ok (atc_key a) (\<lambda>_. atc_entry_of a pa pg wp)"
  "slot_ok k (\<lambda>e. e\<lparr>atc_M := b\<rparr>)"
  "slot_ok k (flush_entry p)"
  by (simp_all add: slot_ok_def atc_entry_of_def flush_entry_def)

section \<open>Translation and memory\<close>

locale guest_memory =
  fixes I :: "'d machine \<Rightarrow> bool" and E :: "exn \<Rightarrow> bool"
  assumes bus_read [keeps_intro]:
      "keeps I E (on_io (\<lambda>v. BusReadB v a))"
      "keeps I E (on_io (\<lambda>v. BusReadW v a))"
      "keeps I E (on_io (\<lambda>v. BusReadL v a))"
    and bus_write [keeps_intro]:
      "keeps I E (on_io (\<lambda>v. BusWriteB v a b))"
      "keeps I E (on_io (\<lambda>v. BusWriteW v a w))"
      "keeps I E (on_io (\<lambda>v. BusWriteL v a l))"
    and bus_line [keeps_intro]:
      "keeps I E (on_bus (doBus16 a))"
      "keeps I E (on_bus (get16bytes p))"
      "keeps I E (on_bus (put16bytes p vs))"
    and atc_slot [keeps_intro]: "slot_ok k f \<Longrightarrow> keeps I E (atc_mod code sys k f)"
    and E_errors [simp]: "E (PTestError c)" "E BusError"
begin

lemma cget_keeps [keeps_intro]: "keeps I E (cget f)"
  by (simp add: cget_def keeps_gets)

lemma reg_read_keeps [keeps_intro]:
  "keeps I E (getD r)" "keeps I E (getA r)" "keeps I E (getR n)" "keeps I E (atc_get x y z)"
  by (simp_all add: reg_defs atc_get_def cget_def keeps_gets)

lemma walk_keeps [keeps_intro]:
  "keeps I E (pdt_lookup l)"
  "keeps I E (atc_search_not_found p1 p2 l)"
  "keeps I E (atc_set_page p1 p2 l1 l2 l3 p3 p4)"
  "keeps I E (atc_set p1 p2 l1 l2 p3 p4)"
  by (unfold pdt_lookup_def atc_search_not_found_def atc_set_page_def atc_set_def) (intro keeps_intro; simp)+

lemma atc_search_keeps [keeps_intro]:
  "keeps I E (atc_search p1 p2 l p3)"
  by (unfold atc_search_def) (intro keeps_intro; simp)+

lemma ptest_keeps [keeps_intro]:
  "keeps I E (ptest_entry p1 p2 l p3)"
  "keeps I E (ptest l p1 p2 p3)"
  "keeps I E (ptest_and_check l p1 p2)"
  by (unfold ptest_entry_def ptest_def ptest_and_check_def) (intro keeps_intro; simp)+

lemma second_half_keeps [keeps_intro]: "keeps I E m \<Longrightarrow> keeps I E (second_half m)"
  by (unfold second_half_def) (intro keeps_intro; simp)

lemma access_keeps [keeps_intro]:
  "keeps I E (ReadBImpl l p)"
  "keeps I E (ReadWImpl l p1 p2)"
  "keeps I E (ReadLImpl l p)"
  "keeps I E (WriteBImpl l b)"
  "keeps I E (WriteWImpl l w)"
  "keeps I E (WriteLImpl l1 l2)"
  by (unfold ReadBImpl_def ReadWImpl_def ReadLImpl_def WriteBImpl_def WriteWImpl_def WriteLImpl_def) (intro keeps_intro; simp)+

end

section \<open>Unprivileged code\<close>

text \<open>
  Under the accesses there are also \<open>PTestError\<close> and \<open>BusError\<close>; above them, where \<open>E\<close>
  counts, they have become access faults.
\<close>

abbreviation (input) with_PTest :: "(exn \<Rightarrow> bool) \<Rightarrow> exn \<Rightarrow> bool" where
  "with_PTest E \<equiv> (\<lambda>e. E e \<or> PTestError_code e \<noteq> None)"

locale guest_cpu = guest_memory I "with_PTest E"
  for I :: "'d machine \<Rightarrow> bool" and E :: "exn \<Rightarrow> bool" +
  assumes unprivileged [keeps_intro]: "(\<And>c. same_privileged c (f c)) \<Longrightarrow> keeps I E (cmod f)"
    and E_vectors: "n \<in> op_vectors \<Longrightarrow> I s \<Longrightarrow>
      E (if inJit (cpu s) then JitLongjmp n else M68kException n)"
    and E_host [simp]: "E Undefined" "E Terminated"
begin

lemma raises: "n \<in> op_vectors \<Longrightarrow> keeps I E (RAISE n)"
  by (rule keepsI) (use E_vectors in \<open>auto simp: RAISE_run\<close>)

lemma cpu_read_keeps [keeps_intro]:
  "keeps I E (cget f)" "keeps I E (getD r)" "keeps I E (getA r)" "keeps I E (getR n)"
  by (simp_all add: reg_defs cget_def keeps_gets)

lemma reg_write_keeps [keeps_intro]:
  "keeps I E (setD r v)" "keeps I E (setA r v)" "keeps I E (setR n v)"
  "keeps I E (storeD_B r b)" "keeps I E (storeD_W r w)" "keeps I E (storeD_L r l)"
  by (unfold reg_defs storeD_B_def storeD_W_def storeD_L_def getD_def setD_def)
    (intro keeps_intro; simp)+

lemma flags_keeps [keeps_intro]:
  "keeps I E (TEST_B b)" "keeps I E (TEST_W w)" "keeps I E (TEST_L l)"
  "keeps I E TRACE_BRANCH" "keeps I E set_VC_clear" "keeps I E (set_V x)"
  "keeps I E (set_C x)" "keeps I E (set_XC x)" "keeps I E (set_EA a)" "keeps I E (set_lock x)"
  by (unfold TEST_B_def TEST_W_def TEST_L_def TRACE_BRANCH_def set_VC_clear_def set_V_def
      set_C_def set_XC_def set_EA_def set_lock_def)
    (intro keeps_intro; simp add: same_privileged_def)+

lemma raises_keeps [keeps_intro]:
  "keeps I E ILLEGAL_OP" "keeps I E DIV0_ERROR" "keeps I E CHK_ERROR" "keeps I E TRAPX_ERROR"
  "keeps I E PRIV_ERROR" "keeps I E TRACE" "keeps I E ALINE" "keeps I E FLINE"
  "keeps I E FORMAT_ERROR"
  by (simp_all add: ILLEGAL_OP_def DIV0_ERROR_def CHK_ERROR_def TRAPX_ERROR_def PRIV_ERROR_def
      TRACE_def ALINE_def FLINE_def FORMAT_ERROR_def raises op_vectors_def)

lemma trap_keeps: "0 \<le> n \<Longrightarrow> n < 16 \<Longrightarrow> keeps I E (TRAP_ERROR n)"
  by (simp add: TRAP_ERROR_def raises op_vectors_def)

lemma fault_keeps [keeps_intro]:
  "keeps I E (ADDRESS_ERROR a)" "keeps I E (ACCESS_FAULT a sz rw m tt)"
  by (unfold ADDRESS_ERROR_def ACCESS_FAULT_def)
    (intro keeps_intro raises; simp add: op_vectors_def)+

lemma PRIV_CHECK_keeps [keeps_intro]: "keeps I E PRIV_CHECK"
  by (unfold PRIV_CHECK_def) (intro keeps_intro)

lemma faulting_keeps:
  "keeps I (with_PTest E) m \<Longrightarrow> keeps I E (faulting a sz rw tm tt m)"
  by (unfold faulting_def) (intro keeps_intro keeps_catch_PTestError; simp)

lemma guest_access_keeps [keeps_intro]:
  "keeps I E (ReadB l)"
  "keeps I E (ReadW l)"
  "keeps I E (FetchW l)"
  "keeps I E (ReadL l)"
  "keeps I E (WriteB l b)"
  "keeps I E (WriteW l w)"
  "keeps I E (WriteL l1 l2)"
  "keeps I E (ReadSB l)"
  "keeps I E (ReadSW l)"
  "keeps I E (ReadSL l)"
  "keeps I E (WriteSB l b)"
  "keeps I E (WriteSW l w)"
  "keeps I E (WriteSL l1 l2)"
  by (unfold ReadB_def ReadW_def FetchW_def ReadL_def WriteB_def WriteW_def WriteL_def
      ReadSB_def ReadSW_def ReadSL_def WriteSB_def WriteSW_def WriteSL_def)
    (intro faulting_keeps keeps_intro)+

lemma line_keeps [keeps_intro]:
  "keeps I E (Read16 l)"
  "keeps I E (Write16 l bs)"
  "keeps I E (Transfer16 l1 l2)"
  by (unfold Read16_def Write16_def Transfer16_def)
    (intro faulting_keeps keeps_catch_PTestError keeps_intro; simp)+

lemma stream_keeps [keeps_intro]:
  "keeps I E FETCH"
  "keeps I E FETCH32"
  "keeps I E (PUSH16 w)"
  "keeps I E (PUSH32 l)"
  "keeps I E POP16"
  "keeps I E POP32"
  "keeps I E (JUMP l)"
  by (unfold FETCH_def FETCH32_def PUSH16_def PUSH32_def POP16_def POP32_def JUMP_def) (intro keeps_intro; simp)+

lemma ea_addr_keeps [keeps_intro]:
  "keeps I E (parseExt f)"
  "keeps I E (ea_getaddr r1 r2 l)"
  by (unfold parseExt_def ea_getaddr_def) (intro keeps_intro; simp)+

lemma ea_keeps [keeps_intro]:
  "keeps I E (ea_readB r1 r2 p)"
  "keeps I E (ea_readW r1 r2 p)"
  "keeps I E (ea_readL r1 r2 p)"
  "keeps I E (ea_write_addr r1 r2 l)"
  "keeps I E (ea_writeB r1 r2 b)"
  "keeps I E (ea_writeW r1 r2 w)"
  "keeps I E (ea_writeL r1 r2 l)"
  by (unfold ea_readB_def ea_readW_def ea_readL_def ea_write_addr_def ea_writeB_def ea_writeW_def ea_writeL_def) (intro keeps_intro; simp)+

lemma add_sub_keeps [keeps_intro]:
  "keeps I E (ADD_B b1 b2)"
  "keeps I E (ADD_W w1 w2)"
  "keeps I E (ADD_L l1 l2)"
  "keeps I E (SUB_B b1 b2)"
  "keeps I E (SUB_W w1 w2)"
  "keeps I E (SUB_L l1 l2)"
  "keeps I E (SUBX_B b1 b2 p)"
  "keeps I E (SUBX_W w1 w2 p)"
  "keeps I E (SUBX_L l1 l2 p)"
  "keeps I E (ADDX_B b1 b2 p)"
  "keeps I E (ADDX_W w1 w2 p)"
  "keeps I E (ADDX_L l1 l2 p)"
  by (unfold ADD_B_def ADD_W_def ADD_L_def SUB_B_def SUB_W_def SUB_L_def SUBX_B_def SUBX_W_def SUBX_L_def ADDX_B_def ADDX_W_def ADDX_L_def)
    (intro keeps_intro; simp add: same_privileged_def SetCCR_def)+

lemma neg_cmp_keeps [keeps_intro]:
  "keeps I E (NEG_B b)"
  "keeps I E (NEG_W w)"
  "keeps I E (NEG_L l)"
  "keeps I E (NEGX_B b p)"
  "keeps I E (NEGX_W w p)"
  "keeps I E (NEGX_L l p)"
  "keeps I E (CMP_B b1 b2)"
  "keeps I E (CMP_W w1 w2)"
  "keeps I E (CMP_L l1 l2)"
  by (unfold NEG_B_def NEG_W_def NEG_L_def NEGX_B_def NEGX_W_def NEGX_L_def CMP_B_def CMP_W_def CMP_L_def)
    (intro keeps_intro; simp add: same_privileged_def SetCCR_def)+

lemma mul_div_keeps [keeps_intro]:
  "keeps I E (MULU_LL l1 l2)"
  "keeps I E (MULS_LL l1 l2)"
  "keeps I E (MULU_L l1 l2)"
  "keeps I E (MULS_L l1 l2)"
  "keeps I E (MULU_W w1 w2)"
  "keeps I E (MULS_W w1 w2)"
  "keeps I E (DIVU_LL q l)"
  "keeps I E (DIVS_LL q l)"
  "keeps I E (DIVU_L l1 l2)"
  "keeps I E (DIVS_L l1 l2)"
  "keeps I E (DIVU_W l w)"
  "keeps I E (DIVS_W l w)"
  by (unfold MULU_LL_def MULS_LL_def MULU_L_def MULS_L_def MULU_W_def MULS_W_def DIVU_LL_def DIVS_LL_def DIVU_L_def DIVS_L_def DIVU_W_def DIVS_W_def)
    (intro keeps_intro; simp add: same_privileged_def SetCCR_def)+

lemma cas_chk_keeps [keeps_intro]:
  "keeps I E (CAS_B l r b)"
  "keeps I E (CAS_W l r w)"
  "keeps I E (CAS_L l1 r l2)"
  "keeps I E (CAS2_W l1 r1 w1 l2 r2 w2)"
  "keeps I E (CAS2_L l1 r1 l2 l3 r2 l4)"
  "keeps I E (CHK_W w1 w2)"
  "keeps I E (CHK_L l1 l2)"
  "keeps I E (CMP2_B b l)"
  "keeps I E (CMP2_SB b l)"
  "keeps I E (CMP2_W w l)"
  "keeps I E (CMP2_SW w l)"
  "keeps I E (CMP2_L l1 l2)"
  "keeps I E (CMP2_SL l1 l2)"
  by (unfold CAS_B_def CAS_W_def CAS_L_def CAS2_W_def CAS2_L_def CHK_W_def CHK_L_def CMP2_B_def CMP2_SB_def CMP2_W_def CMP2_SW_def CMP2_L_def CMP2_SL_def)
    (intro keeps_intro; simp add: same_privileged_def SetCCR_def)+

lemma logic_keeps [keeps_intro]:
  "keeps I E (AND_B b1 b2)"
  "keeps I E (AND_W w1 w2)"
  "keeps I E (AND_L l1 l2)"
  "keeps I E (OR_B b1 b2)"
  "keeps I E (OR_W w1 w2)"
  "keeps I E (OR_L l1 l2)"
  "keeps I E (XOR_B b1 b2)"
  "keeps I E (XOR_W w1 w2)"
  "keeps I E (XOR_L l1 l2)"
  "keeps I E (NOT_B b)"
  "keeps I E (NOT_W w)"
  "keeps I E (NOT_L l)"
  by (unfold AND_B_def AND_W_def AND_L_def OR_B_def OR_W_def OR_L_def XOR_B_def XOR_W_def XOR_L_def NOT_B_def NOT_W_def NOT_L_def)
    (intro keeps_intro; simp add: same_privileged_def SetCCR_def)+

lemma bit_keeps [keeps_intro]:
  "keeps I E (BTST_B b n)"
  "keeps I E (BTST_L l n)"
  "keeps I E (BCHG_B b n)"
  "keeps I E (BCHG_L l n)"
  "keeps I E (BCLR_B b n)"
  "keeps I E (BCLR_L l n)"
  "keeps I E (BSET_B b n)"
  "keeps I E (BSET_L l n)"
  by (unfold BTST_B_def BTST_L_def BCHG_B_def BCHG_L_def BCLR_B_def BCLR_L_def BSET_B_def BSET_L_def)
    (intro keeps_intro; simp add: same_privileged_def SetCCR_def)+

lemma shift_keeps [keeps_intro]:
  "keeps I E (ASL_B b n)"
  "keeps I E (ASL_W w n)"
  "keeps I E (ASL_L l n)"
  "keeps I E (ASR_B b n)"
  "keeps I E (ASR_W w n)"
  "keeps I E (ASR_L l n)"
  "keeps I E (LSR_B b n)"
  "keeps I E (LSR_W w n)"
  "keeps I E (LSR_L l n)"
  "keeps I E (LSL_B b n)"
  "keeps I E (LSL_W w n)"
  "keeps I E (LSL_L l n)"
  by (unfold ASL_B_def ASL_W_def ASL_L_def ASR_B_def ASR_W_def ASR_L_def LSR_B_def LSR_W_def LSR_L_def LSL_B_def LSL_W_def LSL_L_def)
    (intro keeps_intro; simp add: same_privileged_def SetCCR_def)+

lemma rotate_keeps [keeps_intro]:
  "keeps I E (ROR_B b n)"
  "keeps I E (ROR_W w n)"
  "keeps I E (ROR_L l n)"
  "keeps I E (ROL_B b n)"
  "keeps I E (ROL_W w n)"
  "keeps I E (ROL_L l n)"
  "keeps I E (ROXR_B b n p)"
  "keeps I E (ROXR_W w n p)"
  "keeps I E (ROXR_L l n p)"
  "keeps I E (ROXL_B b n p)"
  "keeps I E (ROXL_W w n p)"
  "keeps I E (ROXL_L l n p)"
  by (unfold ROR_B_def ROR_W_def ROR_L_def ROL_B_def ROL_W_def ROL_L_def ROXR_B_def ROXR_W_def ROXR_L_def ROXL_B_def ROXL_W_def ROXL_L_def)
    (intro keeps_intro; simp add: same_privileged_def SetCCR_def)+

lemma bcd_keeps [keeps_intro]:
  "keeps I E (do_abcd b1 b2 p)"
  "keeps I E (do_sbcd b1 b2 p)"
  "keeps I E (do_nbcd b p)"
  by (unfold do_abcd_def do_sbcd_def do_nbcd_def)
    (intro keeps_intro; simp add: same_privileged_def SetCCR_def)+

lemma branch_keeps [keeps_intro]:
  "keeps I E (branch_to l)"
  "keeps I E (do_bra l)"
  "keeps I E (do_bsr l)"
  "keeps I E (do_bcc p l)"
  "keeps I E (do_dbcc p r w)"
  "keeps I E do_rtr"
  "keeps I E (do_rtd w)"
  "keeps I E do_rts"
  by (unfold branch_to_def do_bra_def do_bsr_def do_bcc_def do_dbcc_def do_rtr_def do_rtd_def do_rts_def)
    (intro keeps_intro; simp add: same_privileged_def SetCCR_def)+

lemma field_read_keeps [keeps_intro]:
  "keeps I E (read_if p l g)"
  "keeps I E (BF_M l i n)"
  "keeps I E (BFTST_D l i n)"
  "keeps I E (BFTST_M l i n)"
  "keeps I E (rmwB l h)"
  by (unfold read_if_def BF_M_def BFTST_D_def BFTST_M_def rmwB_def)
    (intro keeps_intro; simp add: same_privileged_def SetCCR_def)+

lemma field_change_keeps [keeps_intro]:
  "keeps I E (BFCHG_D l i n)"
  "keeps I E (BFCHG_M l i n)"
  "keeps I E (BFCLR_D l i n)"
  "keeps I E (BFCLR_M l i n)"
  "keeps I E (BFSET_D l i n)"
  "keeps I E (BFSET_M l i n)"
  by (unfold BFCHG_D_def BFCHG_M_def BFCLR_D_def BFCLR_M_def BFSET_D_def BFSET_M_def)
    (intro keeps_intro; simp add: same_privileged_def SetCCR_def)+

lemma field_extract_keeps [keeps_intro]:
  "keeps I E (BFEXTU_D l i n)"
  "keeps I E (BFEXTU_M l i n)"
  "keeps I E (BFEXTS_D l i n)"
  "keeps I E (BFEXTS_M l i n)"
  "keeps I E (bfffo_result i n l)"
  "keeps I E (BFFFO_D l i n)"
  "keeps I E (BFFFO_M l i n)"
  by (unfold BFEXTU_D_def BFEXTU_M_def BFEXTS_D_def BFEXTS_M_def bfffo_result_def BFFFO_D_def BFFFO_M_def)
    (intro keeps_intro; simp add: same_privileged_def SetCCR_def)+

lemma field_insert_keeps [keeps_intro]:
  "keeps I E (BFINS_D l1 i n l2)"
  "keeps I E (bfins_first l1 n1 n2 l2)"
  "keeps I E (bfins_first24 l1 n1 n2 l2)"
  "keeps I E (bfins_last l1 n l2)"
  "keeps I E (BFINS_M l1 i n l2)"
  by (unfold BFINS_D_def bfins_first_def bfins_first24_def bfins_last_def BFINS_M_def)
    (intro keeps_intro; simp add: same_privileged_def SetCCR_def)+

text \<open>The handlers, opcode line by opcode line.\<close>

lemma basic_helper_keeps [keeps_intro]:
  "keeps I E (movep_base w)"
  "keeps I E (link_by w l)"
  "keeps I E (set_quot_rem r1 r2 x)"
  by (unfold movep_base_def link_by_def set_quot_rem_def)
    (intro keeps_intro; simp add: same_privileged_def SetCCR_def)+

lemma immediate_op_keeps [keeps_intro]:
  "keeps I E (ori_b w)"
  "keeps I E (ori_w w)"
  "keeps I E (ori_l w)"
  "keeps I E (ori_b_ccr w)"
  "keeps I E (andi_b w)"
  "keeps I E (andi_w w)"
  "keeps I E (andi_l w)"
  "keeps I E (andi_b_ccr w)"
  "keeps I E (eori_b w)"
  "keeps I E (eori_w w)"
  "keeps I E (eori_l w)"
  "keeps I E (eori_b_ccr w)"
  "keeps I E (subi_b w)"
  "keeps I E (subi_w w)"
  "keeps I E (subi_l w)"
  "keeps I E (addi_b w)"
  "keeps I E (addi_w w)"
  "keeps I E (addi_l w)"
  "keeps I E (cmpi_b w)"
  "keeps I E (cmpi_w w)"
  "keeps I E (cmpi_l w)"
  "keeps I E (cmp2_chk2_b w)"
  "keeps I E (cmp2_chk2_w w)"
  "keeps I E (cmp2_chk2_l w)"
  by (unfold ori_b_def ori_w_def ori_l_def ori_b_ccr_def andi_b_def andi_w_def andi_l_def andi_b_ccr_def eori_b_def eori_w_def eori_l_def eori_b_ccr_def subi_b_def subi_w_def subi_l_def addi_b_def addi_w_def addi_l_def cmpi_b_def cmpi_w_def cmpi_l_def cmp2_chk2_b_def cmp2_chk2_w_def cmp2_chk2_l_def)
    (intro keeps_intro; simp add: same_privileged_def SetCCR_def)+

lemma bit_op_keeps [keeps_intro]:
  "keeps I E (btst_l_i w)"
  "keeps I E (btst_b_i w)"
  "keeps I E (btst_b_i_imm w)"
  "keeps I E (btst_l_r w)"
  "keeps I E (btst_b_r w)"
  "keeps I E (btst_b_r_imm w)"
  "keeps I E (bchg_l_i w)"
  "keeps I E (bchg_b_i w)"
  "keeps I E (bchg_l_r w)"
  "keeps I E (bchg_b_r w)"
  "keeps I E (bclr_l_i w)"
  "keeps I E (bclr_b_i w)"
  "keeps I E (bclr_l_r w)"
  "keeps I E (bclr_b_r w)"
  "keeps I E (bset_l_i w)"
  "keeps I E (bset_b_i w)"
  "keeps I E (bset_l_r w)"
  "keeps I E (bset_b_r w)"
  by (unfold btst_l_i_def btst_b_i_def btst_b_i_imm_def btst_l_r_def btst_b_r_def btst_b_r_imm_def bchg_l_i_def bchg_b_i_def bchg_l_r_def bchg_b_r_def bclr_l_i_def bclr_b_i_def bclr_l_r_def bclr_b_r_def bset_l_i_def bset_b_i_def bset_l_r_def bset_b_r_def)
    (intro keeps_intro; simp add: same_privileged_def SetCCR_def)+

lemma move_op_keeps [keeps_intro]:
  "keeps I E (movep_w_load w)"
  "keeps I E (movep_l_load w)"
  "keeps I E (movep_w_store w)"
  "keeps I E (movep_l_store w)"
  "keeps I E (cas_b w)"
  "keeps I E (cas_w w)"
  "keeps I E (cas_l w)"
  "keeps I E (cas2_w w)"
  "keeps I E (cas2_l w)"
  "keeps I E (move_b w)"
  "keeps I E (move_w w)"
  "keeps I E (move_l w)"
  "keeps I E (movea_w w)"
  "keeps I E (movea_l w)"
  "keeps I E (move_from_ccr w)"
  "keeps I E (move_to_ccr w)"
  by (unfold movep_w_load_def movep_l_load_def movep_w_store_def movep_l_store_def cas_b_def cas_w_def cas_l_def cas2_w_def cas2_l_def move_b_def move_w_def move_l_def movea_w_def movea_l_def move_from_ccr_def move_to_ccr_def)
    (intro keeps_intro; simp add: same_privileged_def SetCCR_def)+

lemma unary_op_keeps [keeps_intro]:
  "keeps I E (negx_b w)"
  "keeps I E (negx_w w)"
  "keeps I E (negx_l w)"
  "keeps I E (clr_b w)"
  "keeps I E (clr_w w)"
  "keeps I E (clr_l w)"
  "keeps I E (neg_b w)"
  "keeps I E (neg_w w)"
  "keeps I E (neg_l w)"
  "keeps I E (not_b w)"
  "keeps I E (not_w w)"
  "keeps I E (not_l w)"
  "keeps I E (nbcd w)"
  "keeps I E (link_l w)"
  "keeps I E (swap_dn w)"
  "keeps I E (bkpt w)"
  "keeps I E (pea w)"
  "keeps I E (ext_w w)"
  "keeps I E (ext_l w)"
  "keeps I E (extb_l w)"
  "keeps I E (tst_b w)"
  "keeps I E (tst_w w)"
  "keeps I E (tst_l w)"
  "keeps I E (tas w)"
  "keeps I E (illegal w)"
  "keeps I E (mul_l w)"
  "keeps I E (div_l w)"
  "keeps I E (link_w w)"
  "keeps I E (unlk w)"
  "keeps I E (chk_l w)"
  "keeps I E (chk_w w)"
  "keeps I E (lea w)"
  by (unfold negx_b_def negx_w_def negx_l_def clr_b_def clr_w_def clr_l_def neg_b_def neg_w_def neg_l_def not_b_def not_w_def not_l_def nbcd_def link_l_def swap_dn_def bkpt_def pea_def ext_w_def ext_l_def extb_l_def tst_b_def tst_w_def tst_l_def tas_def illegal_def mul_l_def div_l_def link_w_def unlk_def chk_l_def chk_w_def lea_def)
    (intro keeps_intro; simp add: same_privileged_def SetCCR_def)+

lemma data_helper_keeps [keeps_intro]:
  "keeps I E (pre_dec r l)"
  "keeps I E (post_inc r l)"
  by (unfold pre_dec_def post_inc_def)
    (intro keeps_intro; simp add: same_privileged_def SetCCR_def)+

lemma data_byte_keeps [keeps_intro]:
  "keeps I E (ReadB_dec r)"
  "keeps I E (WriteB_dec r b)"
  by (unfold ReadB_dec_def WriteB_dec_def)
    (intro keeps_intro; simp add: same_privileged_def SetCCR_def)+

lemma logic_op_keeps [keeps_intro]:
  "keeps I E (or_b_to_dn w)"
  "keeps I E (or_w_to_dn w)"
  "keeps I E (or_l_to_dn w)"
  "keeps I E (or_b_to_ea w)"
  "keeps I E (or_w_to_ea w)"
  "keeps I E (or_l_to_ea w)"
  "keeps I E (eor_b w)"
  "keeps I E (eor_w w)"
  "keeps I E (eor_l w)"
  "keeps I E (and_b_to_dn w)"
  "keeps I E (and_w_to_dn w)"
  "keeps I E (and_l_to_dn w)"
  "keeps I E (and_b_to_ea w)"
  "keeps I E (and_w_to_ea w)"
  "keeps I E (and_l_to_ea w)"
  by (unfold or_b_to_dn_def or_w_to_dn_def or_l_to_dn_def or_b_to_ea_def or_w_to_ea_def or_l_to_ea_def eor_b_def eor_w_def eor_l_def and_b_to_dn_def and_w_to_dn_def and_l_to_dn_def and_b_to_ea_def and_w_to_ea_def and_l_to_ea_def)
    (intro keeps_intro; simp add: same_privileged_def SetCCR_def)+

lemma add_sub_op_keeps [keeps_intro]:
  "keeps I E (addq_b w)"
  "keeps I E (addq_w w)"
  "keeps I E (addq_l w)"
  "keeps I E (subq_b w)"
  "keeps I E (subq_w w)"
  "keeps I E (subq_l w)"
  "keeps I E (addq_an w)"
  "keeps I E (subq_an w)"
  "keeps I E (sub_b_to_dn w)"
  "keeps I E (sub_w_to_dn w)"
  "keeps I E (sub_l_to_dn w)"
  "keeps I E (sub_b_to_ea w)"
  "keeps I E (sub_w_to_ea w)"
  "keeps I E (sub_l_to_ea w)"
  "keeps I E (suba_w w)"
  "keeps I E (suba_l w)"
  "keeps I E (subx_b_d w)"
  "keeps I E (subx_b_m w)"
  "keeps I E (subx_w_d w)"
  "keeps I E (subx_w_m w)"
  "keeps I E (subx_l_d w)"
  "keeps I E (subx_l_m w)"
  "keeps I E (add_b_to_dn w)"
  "keeps I E (add_w_to_dn w)"
  "keeps I E (add_l_to_dn w)"
  "keeps I E (add_b_to_ea w)"
  "keeps I E (add_w_to_ea w)"
  "keeps I E (add_l_to_ea w)"
  "keeps I E (adda_w w)"
  "keeps I E (adda_l w)"
  "keeps I E (addx_b_d w)"
  "keeps I E (addx_b_m w)"
  "keeps I E (addx_w_d w)"
  "keeps I E (addx_w_m w)"
  "keeps I E (addx_l_d w)"
  "keeps I E (addx_l_m w)"
  by (unfold addq_b_def addq_w_def addq_l_def subq_b_def subq_w_def subq_l_def addq_an_def subq_an_def sub_b_to_dn_def sub_w_to_dn_def sub_l_to_dn_def sub_b_to_ea_def sub_w_to_ea_def sub_l_to_ea_def suba_w_def suba_l_def subx_b_d_def subx_b_m_def subx_w_d_def subx_w_m_def subx_l_d_def subx_l_m_def add_b_to_dn_def add_w_to_dn_def add_l_to_dn_def add_b_to_ea_def add_w_to_ea_def add_l_to_ea_def adda_w_def adda_l_def addx_b_d_def addx_b_m_def addx_w_d_def addx_w_m_def addx_l_d_def addx_l_m_def)
    (intro keeps_intro; simp add: same_privileged_def SetCCR_def)+

lemma compare_op_keeps [keeps_intro]:
  "keeps I E (cmp_b w)"
  "keeps I E (cmp_w w)"
  "keeps I E (cmp_l w)"
  "keeps I E (cmpa_w w)"
  "keeps I E (cmpa_l w)"
  "keeps I E (cmpm_b w)"
  "keeps I E (cmpm_w w)"
  "keeps I E (cmpm_l w)"
  by (unfold cmp_b_def cmp_w_def cmp_l_def cmpa_w_def cmpa_l_def cmpm_b_def cmpm_w_def cmpm_l_def)
    (intro keeps_intro; simp add: same_privileged_def SetCCR_def)+

lemma other_data_op_keeps [keeps_intro]:
  "keeps I E (divu_w w)"
  "keeps I E (divs_w w)"
  "keeps I E (sbcd_d w)"
  "keeps I E (sbcd_m w)"
  "keeps I E (pack_d w)"
  "keeps I E (pack_m w)"
  "keeps I E (unpk_d w)"
  "keeps I E (unpk_m w)"
  "keeps I E (aline_ex w)"
  "keeps I E (mulu_w w)"
  "keeps I E (muls_w w)"
  "keeps I E (abcd_d w)"
  "keeps I E (abcd_m w)"
  "keeps I E (exg_dn w)"
  "keeps I E (exg_an w)"
  "keeps I E (exg_da w)"
  by (unfold divu_w_def divs_w_def sbcd_d_def sbcd_m_def pack_d_def pack_m_def unpk_d_def unpk_m_def aline_ex_def mulu_w_def muls_w_def abcd_d_def abcd_m_def exg_dn_def exg_an_def exg_da_def)
    (intro keeps_intro; simp add: same_privileged_def SetCCR_def)+

lemma shift_helper_keeps [keeps_intro]:
  "keeps I E (shift_imm w)"
  "keeps I E (shift_reg w)"
  "keeps I E (get_bf_offset_width w)"
  by (unfold shift_imm_def shift_reg_def get_bf_offset_width_def)
    (intro keeps_intro; simp add: same_privileged_def SetCCR_def)+

lemma with_field_keeps [keeps_intro]:
  "(\<And>x y z. keeps I E (f x y z)) \<Longrightarrow> keeps I E (with_field f)"
  by (unfold with_field_def) (intro keeps_intro; simp)

lemma shift_op_keeps [keeps_intro]:
  "keeps I E (asr_b_i w)"
  "keeps I E (lsr_b_i w)"
  "keeps I E (asr_b_r w)"
  "keeps I E (lsr_b_r w)"
  "keeps I E (asr_w_i w)"
  "keeps I E (lsr_w_i w)"
  "keeps I E (asr_w_r w)"
  "keeps I E (lsr_w_r w)"
  "keeps I E (asr_l_i w)"
  "keeps I E (lsr_l_i w)"
  "keeps I E (asr_l_r w)"
  "keeps I E (lsr_l_r w)"
  "keeps I E (asr_ea w)"
  "keeps I E (lsr_ea w)"
  "keeps I E (asl_b_i w)"
  "keeps I E (lsl_b_i w)"
  "keeps I E (asl_b_r w)"
  "keeps I E (lsl_b_r w)"
  "keeps I E (asl_w_i w)"
  "keeps I E (lsl_w_i w)"
  "keeps I E (asl_w_r w)"
  "keeps I E (lsl_w_r w)"
  "keeps I E (asl_l_i w)"
  "keeps I E (lsl_l_i w)"
  "keeps I E (asl_l_r w)"
  "keeps I E (lsl_l_r w)"
  "keeps I E (asl_ea w)"
  "keeps I E (lsl_ea w)"
  by (unfold asr_b_i_def lsr_b_i_def asr_b_r_def lsr_b_r_def asr_w_i_def lsr_w_i_def asr_w_r_def lsr_w_r_def asr_l_i_def lsr_l_i_def asr_l_r_def lsr_l_r_def asr_ea_def lsr_ea_def asl_b_i_def lsl_b_i_def asl_b_r_def lsl_b_r_def asl_w_i_def lsl_w_i_def asl_w_r_def lsl_w_r_def asl_l_i_def lsl_l_i_def asl_l_r_def lsl_l_r_def asl_ea_def lsl_ea_def)
    (intro keeps_intro; simp add: same_privileged_def SetCCR_def)+

lemma rotate_op_keeps [keeps_intro]:
  "keeps I E (roxr_b_i w)"
  "keeps I E (ror_b_i w)"
  "keeps I E (roxr_b_r w)"
  "keeps I E (ror_b_r w)"
  "keeps I E (roxr_w_i w)"
  "keeps I E (ror_w_i w)"
  "keeps I E (roxr_w_r w)"
  "keeps I E (ror_w_r w)"
  "keeps I E (roxr_l_i w)"
  "keeps I E (ror_l_i w)"
  "keeps I E (roxr_l_r w)"
  "keeps I E (ror_l_r w)"
  "keeps I E (roxr_ea w)"
  "keeps I E (ror_ea w)"
  "keeps I E (roxl_b_i w)"
  "keeps I E (rol_b_i w)"
  "keeps I E (roxl_b_r w)"
  "keeps I E (rol_b_r w)"
  "keeps I E (roxl_w_i w)"
  "keeps I E (rol_w_i w)"
  "keeps I E (roxl_w_r w)"
  "keeps I E (rol_w_r w)"
  "keeps I E (roxl_l_i w)"
  "keeps I E (rol_l_i w)"
  "keeps I E (roxl_l_r w)"
  "keeps I E (rol_l_r w)"
  "keeps I E (roxl_ea w)"
  "keeps I E (rol_ea w)"
  by (unfold roxr_b_i_def ror_b_i_def roxr_b_r_def ror_b_r_def roxr_w_i_def ror_w_i_def roxr_w_r_def ror_w_r_def roxr_l_i_def ror_l_i_def roxr_l_r_def ror_l_r_def roxr_ea_def ror_ea_def roxl_b_i_def rol_b_i_def roxl_b_r_def rol_b_r_def roxl_w_i_def rol_w_i_def roxl_w_r_def rol_w_r_def roxl_l_i_def rol_l_i_def roxl_l_r_def rol_l_r_def roxl_ea_def rol_ea_def)
    (intro keeps_intro; simp add: same_privileged_def SetCCR_def)+

lemma field_op_keeps [keeps_intro]:
  "keeps I E (bftst_dn w)"
  "keeps I E (bftst_mem w)"
  "keeps I E (bfchg_dn w)"
  "keeps I E (bfchg_mem w)"
  "keeps I E (bfclr_dn w)"
  "keeps I E (bfclr_mem w)"
  "keeps I E (bfset_dn w)"
  "keeps I E (bfset_mem w)"
  "keeps I E (bfextu_dn w)"
  "keeps I E (bfextu_mem w)"
  "keeps I E (bfexts_dn w)"
  "keeps I E (bfexts_mem w)"
  "keeps I E (bfffo_dn w)"
  "keeps I E (bfffo_mem w)"
  "keeps I E (bfins_dn w)"
  "keeps I E (bfins_mem w)"
  by (unfold bftst_dn_def bftst_mem_def bfchg_dn_def bfchg_mem_def bfclr_dn_def bfclr_mem_def bfset_dn_def bfset_mem_def bfextu_dn_def bfextu_mem_def bfexts_dn_def bfexts_mem_def bfffo_dn_def bfffo_mem_def bfins_dn_def bfins_mem_def)
    (intro keeps_intro; simp add: same_privileged_def SetCCR_def)+

lemma movem_start_keeps [keeps_intro]:
  "keeps I E m \<Longrightarrow> keeps I E (movem_start m)"
  by (unfold movem_start_def) (intro keeps_intro; simp)

lemma movem_loop_keeps [keeps_intro]:
  "(\<And>i a. keeps I E (body i a)) \<Longrightarrow> keeps I E (movem_loop regs a0 body)"
  by (unfold movem_loop_def) (intro keeps_intro; simp)

lemma flow_helper_keeps [keeps_intro]:
  "keeps I E (addA r l)"
  "keeps I E movem_done"
  "keeps I E (movem_set_W n w)"
  by (unfold addA_def movem_done_def movem_set_W_def)
    (intro keeps_intro; simp add: same_privileged_def SetCCR_def)+

lemma movem_op_keeps [keeps_intro]:
  "keeps I E (movem_w_store_decr w)"
  "keeps I E (movem_w_store_base w)"
  "keeps I E (movem_l_store_decr w)"
  "keeps I E (movem_l_store_base w)"
  "keeps I E (movem_w_load_incr w)"
  "keeps I E (movem_w_load_base w)"
  "keeps I E (movem_l_load_incr w)"
  "keeps I E (movem_l_load_base w)"
  by (unfold movem_w_store_decr_def movem_w_store_base_def movem_l_store_decr_def movem_l_store_base_def movem_w_load_incr_def movem_w_load_base_def movem_l_load_incr_def movem_l_load_base_def)
    (intro keeps_intro; simp add: same_privileged_def SetCCR_def)+

lemma flow_op_keeps [keeps_intro]:
  "keeps I E (nop w)"
  "keeps I E (rtd w)"
  "keeps I E (rts w)"
  "keeps I E (trapv w)"
  "keeps I E (rtr w)"
  "keeps I E (jsr w)"
  "keeps I E (jmp w)"
  "keeps I E (scc_ea w)"
  "keeps I E (dbcc w)"
  "keeps I E (trapcc w)"
  "keeps I E (bxx w)"
  "keeps I E (moveq w)"
  "keeps I E (fline_default w)"
  "keeps I E (move16_inc_imm w)"
  "keeps I E (move16_imm_inc w)"
  "keeps I E (move16_base_imm w)"
  "keeps I E (move16_imm_base w)"
  "keeps I E (move16_inc_inc w)"
  by (unfold nop_def rtd_def rts_def trapv_def rtr_def jsr_def jmp_def scc_ea_def dbcc_def trapcc_def bxx_def moveq_def fline_default_def move16_inc_imm_def move16_imm_inc_def move16_base_imm_def move16_imm_base_def move16_inc_inc_def)
    (intro keeps_intro; simp add: same_privileged_def SetCCR_def)+

end

section \<open>One instruction\<close>

text \<open>The handlers that check for the supervisor state.\<close>

definition priv_handlers :: "'d handler list" where
  "priv_handlers =
     [ori_w_sr, andi_w_sr, eori_w_sr, moves_b, moves_w, moves_l, move_from_sr, move_to_sr,
      move_to_usp, move_from_usp, reset, rte, cinvl_dc, cinvl_ic, cinvl_bc, cinvp_dc,
      cinvp_ic, cinvp_bc, cinva_dc, cinva_ic, cinva_bc, cpushl_dc, cpushl_ic, cpushl_bc,
      cpushp_dc, cpushp_ic, cpushp_bc, cpusha_dc, cpusha_ic, cpusha_bc, pflushn, pflush,
      pflushan, pflusha, ptestr, ptestw, movec_from_cr, movec_to_cr, stop]"

text \<open>
  Without those that end in ways of their own: \<open>STOP\<close> may wait, \<open>RTE\<close> may go through frame
  after frame, \<open>PTEST\<close> lets a bus error through.
\<close>

definition plain_handlers :: "'d handler list" where
  "plain_handlers =
     [ori_w_sr, andi_w_sr, eori_w_sr, moves_b, moves_w, moves_l, move_from_sr, move_to_sr,
      move_to_usp, move_from_usp, reset, cinvl_dc, cinvl_ic, cinvl_bc, cinvp_dc,
      cinvp_ic, cinvp_bc, cinva_dc, cinva_ic, cinva_bc, cpushl_dc, cpushl_ic, cpushl_bc,
      cpushp_dc, cpushp_ic, cpushp_bc, cpusha_dc, cpusha_ic, cpusha_bc, pflushn, pflush,
      pflushan, pflusha, movec_from_cr, movec_to_cr]"

lemma plain_privileged: "h \<in> set plain_handlers \<Longrightarrow> h \<in> set priv_handlers"
  by (simp only: plain_handlers_def priv_handlers_def list.set insert_iff empty_iff) blast

definition fpu_handlers :: "'d fpu_ops option \<Rightarrow> 'd handler list" where
  "fpu_handlers fpu = (case fpu of None \<Rightarrow> []
     | Some f \<Rightarrow> [f_fop f, f_fscc f, f_fsave f, f_frestore f, f_fdbcc f, f_ftrapcc f,
                  f_fbcc_w f, f_fbcc_l f])"

definition rule_ok :: "('d machine \<Rightarrow> bool) \<Rightarrow> (exn \<Rightarrow> bool) \<Rightarrow> u16 \<Rightarrow> 'd rule \<Rightarrow> bool" where
  "rule_ok I E op r \<longleftrightarrow> (fst r op \<longrightarrow> keeps I E (snd r op))"

lemma rule_ok_ent:
  "keeps I E (h op) \<Longrightarrow> rule_ok I E op (ent m b h)"
  "keeps I E (h op) \<Longrightarrow> rule_ok I E op (ent_ea m b lo hi h)"
  "keeps I E (h op) \<Longrightarrow> rule_ok I E op (ent_ctl m b h)"
  "keeps I E (h op) \<Longrightarrow> rule_ok I E op (ent_move m b h)"
  by (simp_all add: rule_ok_def ent_defs)

lemma rule_ok_at: "(op AND m = b \<Longrightarrow> keeps I E (h op)) \<Longrightarrow> rule_ok I E op (ent m b h)"
  by (simp add: rule_ok_def ent_def)

lemma lookup_last_ok:
  "list_all (rule_ok I E op) rs \<Longrightarrow> (\<And>h. r = Some h \<Longrightarrow> keeps I E (h op)) \<Longrightarrow>
     lookup_last rs op r = Some h \<Longrightarrow> keeps I E (h op)"
  by (induction rs op r rule: lookup_last.induct) (auto simp: rule_ok_def split: if_splits)

lemma list_all_ConsI: "P x \<Longrightarrow> list_all P xs \<Longrightarrow> list_all P (x # xs)"
  and list_all_NilI: "list_all P []"
  by simp_all

lemma trap_number:
  assumes "op AND 0xfff8 = 0x4e40 \<or> op AND 0xfff8 = (0x4e48 :: u16)"
  shows "0 \<le> uint (TYP op) * 8 + uint (REG op) \<and> uint (TYP op) * 8 + uint (REG op) < 16"
proof -
  have "TYP op = ucast (drop_bit 3 k AND 7)" if "op AND 0xfff8 = k" for k
    unfolding that [symmetric]
    by (intro bit_word_eqI) (auto simp: TYP_def bit_simps numeral_eq_Suc less_Suc_eq)
  with assms have "TYP op = 0 \<or> TYP op = 1"
    by fastforce
  moreover have "uint (REG op) < 8"
    using uint_lt2p [of "REG op"] by simp
  ultimately show ?thesis by auto
qed

lemma and_ones: "w AND 0xffff = w" for w :: u16
  using take_bit_word_eq_self [of 16 w] by (simp add: take_bit_eq_mask mask_eq_exp_minus_1)

text \<open>The table at one opcode.\<close>

locale guest_table = guest_cpu I E
  for I :: "'d machine \<Rightarrow> bool" and E :: "exn \<Rightarrow> bool" +
  fixes fpu :: "'d fpu_ops option" and op :: u16
  assumes plain_ops: "h \<in> set plain_handlers \<Longrightarrow> keeps I E (h op)"
    and fpu_keeps: "h \<in> set (fpu_handlers fpu) \<Longrightarrow> keeps I E (h op)"
    and own_ways: "op = 0x4e72 \<Longrightarrow> keeps I E (stop op)" "op = 0x4e73 \<Longrightarrow> keeps I E (rte op)"
      "op AND 0xfff8 = 0xf548 \<Longrightarrow> keeps I E (ptestw op)" "op AND 0xfff8 = 0xf568 \<Longrightarrow> keeps I E (ptestr op)"
begin

lemma privileged_ops_keeps [keeps_intro]:
  "keeps I E (ori_w_sr op)"
  "keeps I E (andi_w_sr op)"
  "keeps I E (eori_w_sr op)"
  "keeps I E (moves_b op)"
  "keeps I E (moves_w op)"
  "keeps I E (moves_l op)"
  "keeps I E (move_from_sr op)"
  "keeps I E (move_to_sr op)"
  "keeps I E (move_to_usp op)"
  "keeps I E (move_from_usp op)"
  "keeps I E (reset op)"
  "keeps I E (cinvl_dc op)"
  "keeps I E (cinvl_ic op)"
  "keeps I E (cinvl_bc op)"
  "keeps I E (cinvp_dc op)"
  "keeps I E (cinvp_ic op)"
  "keeps I E (cinvp_bc op)"
  "keeps I E (cinva_dc op)"
  "keeps I E (cinva_ic op)"
  "keeps I E (cinva_bc op)"
  "keeps I E (cpushl_dc op)"
  "keeps I E (cpushl_ic op)"
  "keeps I E (cpushl_bc op)"
  "keeps I E (cpushp_dc op)"
  "keeps I E (cpushp_ic op)"
  "keeps I E (cpushp_bc op)"
  "keeps I E (cpusha_dc op)"
  "keeps I E (cpusha_ic op)"
  "keeps I E (cpusha_bc op)"
  "keeps I E (pflushn op)"
  "keeps I E (pflush op)"
  "keeps I E (pflushan op)"
  "keeps I E (pflusha op)"
  "keeps I E (movec_from_cr op)"
  "keeps I E (movec_to_cr op)"
  by (rule plain_ops; simp add: plain_handlers_def)+

lemma trap_rules_ok:
  "rule_ok I E op (ent 0xfff8 0x4e40 trap)" "rule_ok I E op (ent 0xfff8 0x4e48 trap)"
  using trap_number by (auto simp: rule_ok_def ent_def trap_def intro!: trap_keeps)

lemma own_rules_ok:
  "rule_ok I E op (ent 0xffff 0x4e72 stop)" "rule_ok I E op (ent 0xffff 0x4e73 rte)"
  "rule_ok I E op (ent 0xfff8 0xf548 ptestw)" "rule_ok I E op (ent 0xfff8 0xf568 ptestr)"
  using own_ways by (auto simp: and_ones intro!: rule_ok_at)

lemmas table_intro = list_all_ConsI list_all_NilI trap_rules_ok own_rules_ok rule_ok_ent keeps_intro

lemma rules_ea_ok: "list_all (rule_ok I E op) rules_ea"
  by (unfold rules_ea_def) (intro table_intro)

lemma rules_dn_ok: "list_all (rule_ok I E op) rules_dn"
  by (unfold rules_dn_def) (intro table_intro)

lemma rules_an_ok: "list_all (rule_ok I E op) rules_an"
  by (unfold rules_an_def) (intro table_intro)

lemma rules_mem_ok: "list_all (rule_ok I E op) rules_mem"
  by (unfold rules_mem_def) (intro table_intro)

lemma rules_misc_ok: "list_all (rule_ok I E op) rules_misc"
  by (unfold rules_misc_def) (intro table_intro)

lemma rules_shift_ok: "list_all (rule_ok I E op) rules_shift"
  by (unfold rules_shift_def) (intro table_intro)

lemma rules_move16_ok: "list_all (rule_ok I E op) rules_move16"
  by (unfold rules_move16_def) (intro table_intro)

lemma rules_mmu_ok: "list_all (rule_ok I E op) rules_mmu"
  by (unfold rules_mmu_def) (intro table_intro)

lemma rules_fpu_ok: "fpu = Some f \<Longrightarrow> list_all (rule_ok I E op) (rules_fpu f)"
  by (unfold rules_fpu_def)
    (intro list_all_ConsI list_all_NilI rule_ok_ent fpu_keeps; simp add: fpu_handlers_def)

lemma run_rules_ok: "list_all (rule_ok I E op) (run_rules fpu)"
  by (auto simp: run_rules_def rules_ea_ok rules_dn_ok rules_an_ok rules_mem_ok rules_misc_ok
      rules_shift_ok rules_move16_ok rules_mmu_ok rules_fpu_ok split: option.split)

lemma exec_op_keeps [keeps_intro]: "keeps I E (exec_op fpu op)"
  using lookup_last_ok [OF run_rules_ok]
  by (auto simp: exec_op_def run_table_def split: option.split intro: raises_keeps)

end

text \<open>One instruction, for invariants that need not look at the opcode.\<close>

locale guest_ops = guest_cpu I E
  for I :: "'d machine \<Rightarrow> bool" and E :: "exn \<Rightarrow> bool" +
  fixes fpu :: "'d fpu_ops option"
  assumes privileged_ops: "h \<in> set priv_handlers \<Longrightarrow> keeps I E (h op)"
    and fpu_ops: "h \<in> set (fpu_handlers fpu) \<Longrightarrow> keeps I E (h op)"
    and prologue_keeps: "keeps I E (op_prologue pc)"
    and stop_keeps: "keeps I E (on_bus run_stop)"

sublocale guest_ops \<subseteq> table: guest_table I E fpu op for op
  by unfold_locales (auto simp: fpu_ops intro: privileged_ops plain_privileged, simp_all add: privileged_ops priv_handlers_def)

context guest_ops
begin

lemma run_op_keeps: "keeps I E (run_op fpu)"
  by (unfold run_op_def op_epilogue_def)
    (intro keeps_intro prologue_keeps stop_keeps; simp)

end

end
