(* ===== verification/Isolation.thy ===== *)
theory Isolation
  imports Guards
begin

text \<open>
  User programs cannot change the privileged registers: the first invariant the contract of
  \<open>Guards\<close> is used for. The privileged handlers preserve it because \<open>PRIV_CHECK\<close> raises.
\<close>

text \<open>The machine is in user state and its privileged registers are those of \<open>c0\<close>.\<close>

definition user_state :: "cpu \<Rightarrow> 'd machine \<Rightarrow> bool" where
  "user_state c0 s \<longleftrightarrow> \<not> S_bit c0 \<and> same_privileged c0 (cpu s)"

lemma user_state_S_bit: "user_state c0 s \<Longrightarrow> \<not> S_bit (cpu s)"
  by (simp add: user_state_def same_privileged_def)

lemma user_on_bus: "keeps (user_state c0) (\<lambda>_. True) (on_bus m)"
  unfolding on_bus_def
  by (rule keeps_lift_part [where J = "\<lambda>_. True"])
    (auto simp: user_state_def keeps_def split: outcome.split)

lemma user_on_io: "keeps (user_state c0) (\<lambda>_. True) (on_io f)"
  unfolding on_io_def by (intro keeps_intro user_on_bus)

lemma user_guard: "keeps (user_state c0) (\<lambda>_. True) (seq PRIV_CHECK m)"
  by (rule keepsI; frule user_state_S_bit; auto simp: PRIV_CHECK_user)

interpretation user_cpu: guest_cpu "user_state c0 :: 'd machine \<Rightarrow> bool" "\<lambda>_. True" for c0
proof unfold_locales
  fix f :: "cpu \<Rightarrow> cpu"
  assume "\<And>c. same_privileged c (f c)"
  then show "keeps (user_state c0 :: 'd machine \<Rightarrow> bool) (\<lambda>_. True) (cmod f)"
    unfolding cmod_def
    by (intro keeps_modify) (auto simp: user_state_def intro: same_privileged_trans)
qed (auto simp: user_on_bus user_on_io atc_mod_def user_state_def intro!: keeps_modify)

lemma user_privileged_ops:
  "h \<in> set (priv_handlers :: 'd handler list) \<Longrightarrow> keeps (user_state c0) (\<lambda>_. True) (h op)"
proof -
  note defs = ori_w_sr_def andi_w_sr_def eori_w_sr_def moves_b_def moves_w_def moves_l_def
    move_from_sr_def move_to_sr_def move_to_usp_def move_from_usp_def reset_def stop_def
    stop_impl_def rte_def cinvl_dc_def cinvl_ic_def cinvl_bc_def cinvp_dc_def cinvp_ic_def
    cinvp_bc_def cinva_dc_def cinva_ic_def cinva_bc_def cpushl_dc_def cpushl_ic_def
    cpushl_bc_def cpushp_dc_def cpushp_ic_def cpushp_bc_def cpusha_dc_def cpusha_ic_def
    cpusha_bc_def pflushn_def pflush_def pflushan_def pflusha_def ptestr_def ptestw_def
    movec_from_cr_def movec_to_cr_def
  have "list_all (\<lambda>h. keeps (user_state c0) (\<lambda>_. True) (h op)) (priv_handlers :: 'd handler list)"
    unfolding priv_handlers_def defs
    by (intro list_all_ConsI list_all_NilI user_guard keeps_bind user_cpu.stream_keeps)
  then show "h \<in> set (priv_handlers :: 'd handler list) \<Longrightarrow> keeps (user_state c0) (\<lambda>_. True) (h op)"
    by (simp add: list_all_iff)
qed

lemma user_prologue: "keeps (user_state c0) (\<lambda>_. True) (op_prologue pc)"
  unfolding op_prologue_def IRQ_def RAISE_def
  by (intro keeps_intro user_on_bus; simp add: same_privileged_def)

text \<open>The contract holds for every floating-point unit that keeps it.\<close>

lemma user_guest_ops:
  assumes "\<And>h op. h \<in> set (fpu_handlers fpu) \<Longrightarrow> keeps (user_state c0) (\<lambda>_. True) (h op)"
  shows "guest_ops (user_state c0) (\<lambda>_. True) fpu"
  by unfold_locales (simp_all add: assms user_privileged_ops user_prologue user_on_bus)

interpretation user: guest_ops "user_state c0 :: 'd machine \<Rightarrow> bool" "\<lambda>_. True" None for c0
  by (rule user_guest_ops) (simp add: fpu_handlers_def)

end
