(* ===== verification/Wellformed.thy ===== *)
theory Wellformed
  imports Isolation
begin

text \<open>
  The invariant of the whole system: every field of the processor stays within the bits the
  code gives it, every valid entry of a translation cache sits in the slot of its page, the
  interrupt mailbox holds a level the processor knows, and an instruction ends by returning,
  by one of the guest's exceptions, or not at all. The second use of the contract of
  \<open>Guards\<close>, now with the privileged handlers, and the exception entry of src/cpu/exception.cc.
\<close>

section \<open>Well-formed states\<close>

definition wf_ttr :: "TTR_t \<Rightarrow> bool" where
  "wf_ttr t \<longleftrightarrow> TTR_S t \<le> 3 \<and> TTR_U t \<le> 3 \<and> TTR_CM t \<le> 3"

definition wf_cpu :: "cpu \<Rightarrow> bool" where
  "wf_cpu c \<longleftrightarrow> I_lvl c \<le> 7 \<and> T_mode c \<le> 3 \<and> SFC c \<le> 7 \<and> DFC c \<le> 7 \<and>
     URP c AND 0x1ff = 0 \<and> SRP c AND 0x1ff = 0 \<and>
     (\<forall>i. wf_ttr (ITTR c i)) \<and> (\<forall>i. wf_ttr (DTTR c i)) \<and> \<not> inJit c"

definition wf_atc :: "atc \<Rightarrow> bool" where
  "wf_atc t \<longleftrightarrow> (\<forall>sys k. atc_V (t sys k) \<longrightarrow> atc_key (laddr (t sys k)) = k)"

definition mailbox :: "('d \<Rightarrow> bool) \<Rightarrow> 'd bus \<Rightarrow> bool" where
  "mailbox Q b \<longleftrightarrow> inturrupt b \<le> 7 \<and> (\<forall>i. Post i \<in> set (wakeups b) \<longrightarrow> i \<le> 7) \<and> Q (dev b)"

text \<open>
  What the processor relies on in the devices: they post levels up to 7 and report errors
  as \<open>BusError\<close>; like all C++ code they may leave what they do undefined.
\<close>

definition bus_ends :: "exn \<Rightarrow> bool" where
  "bus_ends e \<longleftrightarrow> e = BusError \<or> e = Undefined \<or> e = Terminated"

definition devices_ok :: "('d \<Rightarrow> bool) \<Rightarrow> 'd IO_BUS \<Rightarrow> ('d bus, unit) monad \<Rightarrow> bool" where
  "devices_ok Q v rst \<longleftrightarrow>
     (\<forall>a. keeps (mailbox Q) bus_ends (io_readB v a)) \<and>
     (\<forall>a. keeps (mailbox Q) bus_ends (io_readW v a)) \<and>
     (\<forall>a. keeps (mailbox Q) bus_ends (io_readL v a)) \<and>
     (\<forall>a b. keeps (mailbox Q) bus_ends (io_writeB v a b)) \<and>
     (\<forall>a b. keeps (mailbox Q) bus_ends (io_writeW v a b)) \<and>
     (\<forall>a b. keeps (mailbox Q) bus_ends (io_writeL v a b)) \<and>
     keeps (mailbox Q) (\<lambda>e. e = Undefined) rst"

definition wf :: "('d \<Rightarrow> bool) \<Rightarrow> 'd machine \<Rightarrow> bool" where
  "wf Q s \<longleftrightarrow> wf_cpu (cpu s) \<and> wf_atc (d_atc s) \<and> wf_atc (i_atc s) \<and> mailbox Q (bus s) \<and>
     devices_ok Q (io s) (dev_reset s)"

text \<open>
  The ways an instruction may leave other than by returning. \<open>BusError\<close> is among them
  because \<open>PTEST\<close> calls \<open>ptest\<close> outside any handler.
\<close>

definition guest_vectors :: "int set" where
  "guest_vectors = op_vectors \<union> {25..31}"

definition ends_ok :: "exn \<Rightarrow> bool" where
  "ends_ok e \<longleftrightarrow> e \<in> {BusError, Undefined, Terminated, Blocked, Diverged} \<or>
     (\<exists>n \<in> guest_vectors. e = M68kException n)"

text \<open>
  The ordinary ways among them: a guest exception, the end of the process, C++ code without a
  meaning. The others belong to single instructions: \<open>STOP\<close> waits, \<open>RTE\<close> may be led through
  more throwaway frames than it has fuel for, \<open>PTEST\<close> lets the bus error of a table search
  through.
\<close>

definition ordinary :: "exn \<Rightarrow> bool" where
  "ordinary e \<longleftrightarrow> e \<in> {Undefined, Terminated} \<or> (\<exists>n \<in> guest_vectors. e = M68kException n)"

definition ends_with :: "u16 \<Rightarrow> exn \<Rightarrow> bool" where
  "ends_with op e \<longleftrightarrow> ordinary e \<or> e = Blocked \<and> op = 0x4e72 \<or> e = Diverged \<and> op = 0x4e73 \<or>
     e = BusError \<and> op AND 0xffd8 = 0xf548"

lemma ordinary_ends: "ordinary e \<Longrightarrow> ends_ok e" "ordinary e \<Longrightarrow> ends_with op e"
  by (auto simp: ordinary_def ends_ok_def ends_with_def)

section \<open>The bus keeps the mailbox\<close>

lemma mailbox_obj_put [simp]: "mailbox Q (obj_put x i v b) = mailbox Q b"
  by (cases x) (simp_all add: mailbox_def)

lemma mailbox_put_bytes [simp]: "mailbox Q (put_bytes x i vs b) = mailbox Q b"
  by (induction x i vs b rule: put_bytes.induct) simp_all

lemma checked_mailbox [keeps_intro]:
  "keeps (mailbox Q) bus_ends m \<Longrightarrow> keeps (mailbox Q) bus_ends (checked p n m)"
  unfolding checked_def by (intro keeps_intro; simp add: bus_ends_def)

lemma ptr_mailbox [keeps_intro]:
  "keeps (mailbox Q) bus_ends (readB_ptr p)" "keeps (mailbox Q) bus_ends (readBE16 p)"
  "keeps (mailbox Q) bus_ends (readBE32 p)" "keeps (mailbox Q) bus_ends (writeB_ptr p b)"
  "keeps (mailbox Q) bus_ends (writeBE16 p w)" "keeps (mailbox Q) bus_ends (writeBE32 p l)"
  "keeps (mailbox Q) bus_ends (get16bytes p)" "keeps (mailbox Q) bus_ends (put16bytes p vs)"
  unfolding readB_ptr_def readBE16_def readBE32_def writeB_ptr_def writeBE16_def writeBE32_def
    get16bytes_def put16bytes_def
  by (intro keeps_intro keeps_modify; simp add: put16_def put32_def)+

lemma doBus_mailbox:
  assumes "\<And>p. keeps (mailbox Q) bus_ends (memDo t p)" and "\<And>a. keeps (mailbox Q) bus_ends (ioDo t a)"
    and "\<And>x y. keeps (mailbox Q) bus_ends (nuBusDo t x y)"
  shows "keeps (mailbox Q) bus_ends (doBus t a)"
  unfolding doBus_def Let_def by (intro keeps_intro assms; simp add: bus_ends_def)

lemma doBus16_mailbox [keeps_intro]: "keeps (mailbox Q) bus_ends (doBus16 a)"
  unfolding doBus16_def Let_def by (intro keeps_intro; simp add: bus_ends_def)

lemma Bus_mailbox:
  assumes "devices_ok Q v rst"
  shows "keeps (mailbox Q) bus_ends (BusReadB v a)" "keeps (mailbox Q) bus_ends (BusReadW v a)"
    "keeps (mailbox Q) bus_ends (BusReadL v a)" "keeps (mailbox Q) bus_ends (BusWriteB v a b)"
    "keeps (mailbox Q) bus_ends (BusWriteW v a w)" "keeps (mailbox Q) bus_ends (BusWriteL v a l)"
  unfolding BusReadB_def BusReadW_def BusReadL_def BusWriteB_def BusWriteW_def BusWriteL_def
  by (intro doBus_mailbox; simp add: trait_rB_def trait_rW_def trait_rL_def trait_wB_def
        trait_wW_def trait_wL_def nuBus_read_def nuBus_write_def assms [unfolded devices_ok_def];
      intro keeps_intro conjI impI)+

lemma wait_for_mailbox:
  "(\<And>i. Post i \<in> set ws \<Longrightarrow> i \<le> 7) \<Longrightarrow> keeps (mailbox Q) (\<lambda>e. e = Blocked) (wait_for ws :: ('d bus, unit) monad)"
proof (induction ws rule: wait_for.induct)
  case (2 i ws)
  then show ?case
    by (auto simp: keeps_def mailbox_def do_irq_def seq_def bind_def)
next
  case (3 ws)
  have "keeps (mailbox Q) (\<lambda>e. e = Blocked) (main_poll :: ('d bus, unit) monad)"
    by (auto simp: main_poll_def run_resume_def mailbox_def intro!: keeps_intro keeps_modify)
  moreover have "keeps (mailbox Q) (\<lambda>e. e = Blocked) (modify (\<lambda>b :: 'd bus. b\<lparr>wakeups := ws\<rparr>))"
    using 3(2) by (intro keeps_modify) (simp add: mailbox_def)
  moreover have "keeps (mailbox Q) (\<lambda>e. e = Blocked) (wait_for ws :: ('d bus, unit) monad)"
    using 3 by simp
  ultimately show ?case
    using 3 by (auto intro!: keeps_intro)
qed (auto intro: keeps_intro)

lemma run_stop_mailbox: "keeps (mailbox Q) (\<lambda>_. False) run_stop"
  by (auto simp: run_stop_def mailbox_def intro!: keeps_modify)

lemma run_wait_mailbox: "keeps (mailbox (Q :: 'd \<Rightarrow> bool)) (\<lambda>e. e = Blocked) run_wait"
  unfolding keeps_def
proof (intro allI impI)
  fix b :: "'d bus"
  assume b: "mailbox Q b"
  then have "keeps (mailbox Q) (\<lambda>e. e = Blocked) (wait_for (wakeups b) :: ('d bus, unit) monad)"
    by (intro wait_for_mailbox) (simp add: mailbox_def)
  from keeps_at [OF this b] b
  show "case run_wait b of Ok _ b' \<Rightarrow> mailbox Q b' | Raise e b' \<Rightarrow> mailbox Q b' \<and> e = Blocked"
    by (simp add: run_wait_def bind_def)
qed

section \<open>The processor keeps its fields\<close>

lemma wf_bus: "wf Q s \<Longrightarrow> mailbox Q b \<Longrightarrow> wf Q (s\<lparr>bus := b\<rparr>)"
  by (simp add: wf_def)

lemma wf_on_bus:
  "keeps (mailbox Q) E m \<Longrightarrow> keeps (wf Q) E (on_bus m)"
  unfolding on_bus_def by (erule keeps_lift_part) (auto simp: wf_def)

lemma wf_on_io:
  fixes f :: "'d IO_BUS \<Rightarrow> ('d bus, 'a) monad"
  assumes "\<And>v rst. devices_ok Q v rst \<Longrightarrow> keeps (mailbox Q) E (f v)"
  shows "keeps (wf Q) E (on_io f)"
  unfolding keeps_def
proof (intro allI impI)
  fix s :: "'d machine" assume s: "wf Q s"
  then have "devices_ok Q (io s) (dev_reset s)" by (simp add: wf_def)
  from keeps_at [OF wf_on_bus [OF assms [OF this]] s]
  show "case on_io f s of Ok _ s' \<Rightarrow> wf Q s' | Raise e s' \<Rightarrow> wf Q s' \<and> E e" by simp
qed

lemma wf_cpu_privileged: "wf_cpu c \<Longrightarrow> same_privileged c c' \<Longrightarrow> wf_cpu c'"
  by (simp add: wf_cpu_def same_privileged_def)

lemma wf_cmod: "(\<And>c. wf_cpu c \<Longrightarrow> wf_cpu (f c)) \<Longrightarrow> keeps (wf Q) E (cmod f)"
  unfolding cmod_def by (intro keeps_modify) (simp add: wf_def)

lemma wf_atc_upd: "wf_atc t \<Longrightarrow> slot_ok k f \<Longrightarrow> wf_atc (atc_upd t sys k f)"
  unfolding wf_atc_def slot_ok_def atc_upd_def by (auto; metis)

text \<open>The contract holds with every set of exceptions that has the ordinary ones.\<close>

locale wf_ends =
  fixes Q :: "'d \<Rightarrow> bool" and E :: "exn \<Rightarrow> bool"
  assumes ordinary: "ordinary e \<Longrightarrow> E e"
begin

lemma ordinary_simps [simp]: "E Undefined" "E Terminated"
  by (rule ordinary; simp add: ordinary_def)+

lemma bus_ends_checked: "bus_ends e \<Longrightarrow> with_PTest E e"
  by (auto simp: bus_ends_def)

end

sublocale wf_ends \<subseteq> guest_cpu "wf Q :: 'd machine \<Rightarrow> bool" E
proof unfold_locales
  fix a b w l p vs k f code sys c n and s :: "'d machine" and g
  show "keeps (wf Q) (with_PTest E) (on_io (\<lambda>v :: 'd IO_BUS. BusReadB v a))"
    and "keeps (wf Q) (with_PTest E) (on_io (\<lambda>v :: 'd IO_BUS. BusReadW v a))"
    and "keeps (wf Q) (with_PTest E) (on_io (\<lambda>v :: 'd IO_BUS. BusReadL v a))"
    and "keeps (wf Q) (with_PTest E) (on_io (\<lambda>v :: 'd IO_BUS. BusWriteB v a b))"
    and "keeps (wf Q) (with_PTest E) (on_io (\<lambda>v :: 'd IO_BUS. BusWriteW v a w))"
    and "keeps (wf Q) (with_PTest E) (on_io (\<lambda>v :: 'd IO_BUS. BusWriteL v a l))"
    by (intro wf_on_io keeps_mono [OF Bus_mailbox(1)] keeps_mono [OF Bus_mailbox(2)]
        keeps_mono [OF Bus_mailbox(3)] keeps_mono [OF Bus_mailbox(4)]
        keeps_mono [OF Bus_mailbox(5)] keeps_mono [OF Bus_mailbox(6)] bus_ends_checked; assumption)+
  show "keeps (wf Q) (with_PTest E) (on_bus (doBus16 a :: ('d bus, ptr) monad))"
    and "keeps (wf Q) (with_PTest E) (on_bus (get16bytes p :: ('d bus, u8 list) monad))"
    and "keeps (wf Q) (with_PTest E) (on_bus (put16bytes p vs :: ('d bus, unit) monad))"
    by (intro wf_on_bus keeps_mono [OF doBus16_mailbox] keeps_mono [OF ptr_mailbox(7)]
        keeps_mono [OF ptr_mailbox(8)] bus_ends_checked; assumption)+
  show "keeps (wf Q) (with_PTest E) (atc_mod code sys k f :: ('d, unit) mach)" if "slot_ok k f"
    unfolding atc_mod_def using that by (intro keeps_modify) (auto simp: wf_def wf_atc_upd)
  show "keeps (wf Q) E (cmod g :: ('d, unit) mach)" if "\<And>c. same_privileged c (g c)"
    using that by (intro wf_cmod) (rule wf_cpu_privileged)
  show "E (if inJit (cpu s) then JitLongjmp n else M68kException n)"
    if "n \<in> op_vectors" "wf Q s"
    using that by (auto simp: wf_def wf_cpu_def ordinary_def guest_vectors_def intro!: ordinary)
qed (auto intro: ordinary simp: ordinary_def)

section \<open>Privileged instructions\<close>

lemma ucast_le:
  assumes "x \<le> y" shows "unat (ucast x :: 'b::len word) \<le> unat (y :: 'a::len word)"
proof -
  have "unat (ucast x :: 'b word) \<le> unat x"
    by (simp add: unsigned_ucast_eq take_bit_nat_less_eq_self)
  with assms show ?thesis by (simp add: word_le_nat_alt)
qed

lemma ucast_low_bits:
  "(ucast (x AND 7 :: u16) :: u8) \<le> 7" "(ucast (y AND 7 :: u32) :: u8) \<le> 7"
  "(ucast (x AND 3) :: u8) \<le> 3" "(ucast (y AND 3) :: u8) \<le> 3"
  using ucast_le [OF word_and_le1 [of x 7], where 'b = 8]
    ucast_le [OF word_and_le1 [of y 7], where 'b = 8]
    ucast_le [OF word_and_le1 [of x 3], where 'b = 8]
    ucast_le [OF word_and_le1 [of y 3], where 'b = 8]
  by (simp_all add: word_le_nat_alt)

lemma wf_SetSR: "wf_cpu c \<Longrightarrow> wf_cpu (SetSR v c)"
  by (simp add: wf_cpu_def SetSR_def SetCCR_def SaveSP_def LoadSP_def Let_def ucast_low_bits)

lemma wf_LoadSP: "wf_cpu c \<Longrightarrow> wf_cpu (LoadSP c)"
  by (simp add: wf_cpu_def LoadSP_def)

lemma wf_Set_TTR_t: "wf_ttr (Set_TTR_t v)"
  by (simp add: wf_ttr_def Set_TTR_t_def ucast_low_bits)

lemma root_pointer_bits: "(v AND - 512) AND 511 = (0 :: u32)"
  by (simp add: and.assoc)

lemma wf_movec_to: "wf_cpu c \<Longrightarrow> movec_to_cr_impl x v c = Some c' \<Longrightarrow> wf_cpu c'"
  by (auto simp: movec_to_cr_impl_def Let_def wf_cpu_def wf_Set_TTR_t ucast_low_bits
      root_pointer_bits split: if_splits)

lemma wf_movec_from: "wf_cpu c \<Longrightarrow> movec_from_cr_impl x c = Some (v, c') \<Longrightarrow> wf_cpu c'"
  by (auto simp: movec_from_cr_impl_def Let_def wf_cpu_def split: if_splits)

text \<open>The assignments of privileged registers.\<close>

lemma wf_assign:
  "keeps (wf Q) E (cmod (SetSR v))" "keeps (wf Q) E (cmod LoadSP)"
  "keeps (wf Q) E (cmod (\<lambda>c. c\<lparr>MMUSR := m\<rparr>))" "keeps (wf Q) E (cmod (\<lambda>c. c\<lparr>USP := m\<rparr>))"
  "keeps (wf Q) E (cmod (\<lambda>c. c\<lparr>S_bit := b\<rparr>))" "keeps (wf Q) E (cmod (\<lambda>c. c\<lparr>M_bit := b\<rparr>))"
  "keeps (wf Q) E (cmod (\<lambda>c. c\<lparr>T_mode := 0\<rparr>))"
  "keeps (wf Q) E (cmod (\<lambda>c. SetSR (GetSR c OR v) c))"
  "keeps (wf Q) E (cmod (\<lambda>c. SetSR (GetSR c AND v) c))"
  "keeps (wf Q) E (cmod (\<lambda>c. SetSR (GetSR c XOR v) c))"
  by (intro wf_cmod wf_SetSR wf_LoadSP; simp add: wf_cpu_def)+

text \<open>\<open>PTEST\<close> lets a \<open>BusError\<close> of the table search through.\<close>

lemma wf_atc_mod [keeps_intro]: "slot_ok k f \<Longrightarrow> keeps (wf Q) E (atc_mod code sys k f)"
  unfolding atc_mod_def by (intro keeps_modify) (auto simp: wf_def wf_atc_upd)

lemma wf_flush [keeps_intro]:
  "keeps (wf Q) E (pflushn_impl a)" "keeps (wf Q) E (pflush_impl a)"
  "keeps (wf Q) E pflushan_impl" "keeps (wf Q) E pflusha_impl"
  unfolding pflushn_impl_def pflush_impl_def pflushan_impl_def pflusha_impl_def flush_at_def
    dfc_user_def cget_def
  by (intro keeps_intro; simp)+

lemma wf_jit_erase [keeps_intro]: "keeps (wf Q) E (modify (\<lambda>s. s\<lparr>jit_tables := f s\<rparr>))"
  by (intro keeps_modify) (simp add: wf_def)

lemma wf_cache [keeps_intro]:
  "keeps (wf Q) E (cinvl_i a)" "keeps (wf Q) E (cinvp_i a)" "keeps (wf Q) E cinva_i"
  "keeps (wf Q) E (cpushl_i a)" "keeps (wf Q) E (cpushp_i a)" "keeps (wf Q) E cpusha_i" "keeps (wf Q) E cache_d"
  unfolding cinvl_i_def cinvp_i_def cinva_i_def cpushl_i_def cpushp_i_def cpusha_i_def
    cache_d_def Let_def cget_def
  by (intro keeps_intro)+

lemma wf_bind_cpu:
  assumes "\<And>c. wf_cpu c \<Longrightarrow> keeps (wf Q) E (f c)"
  shows "keeps (wf Q) E (bind (gets cpu) f)"
  using assms by (simp add: keeps_def bind_def wf_def)

lemma wf_cpu_put: "wf_cpu c \<Longrightarrow> keeps (wf Q) E (cmod (\<lambda>_. c))"
  by (simp add: wf_cmod)

context wf_ends
begin

lemma bus_ends_E: "E BusError \<Longrightarrow> bus_ends e \<Longrightarrow> E e"
  by (auto simp: bus_ends_def)

lemma wf_long_access [keeps_intro]:
  assumes "E BusError"
  shows "keeps (wf Q) E (on_io (\<lambda>v. BusReadL v a))" "keeps (wf Q) E (on_io (\<lambda>v. BusWriteL v a l))"
  by (rule wf_on_io, rule keeps_mono [OF Bus_mailbox(3)]; simp add: bus_ends_E assms)
    (rule wf_on_io, rule keeps_mono [OF Bus_mailbox(6)]; simp add: bus_ends_E assms)

lemma wf_ptest [keeps_intro]:
  assumes "E BusError"
  shows "keeps (wf Q) E (ptest a sys code w)"
  unfolding ptest_def ptest_entry_def atc_search_def atc_set_def atc_set_page_def pdt_lookup_def
    atc_search_not_found_def atc_get_def
  by (intro keeps_intro cpu_read_keeps; simp add: assms)

lemma wf_op_ptest [keeps_intro]:
  assumes "E BusError"
  shows "keeps (wf Q) E (op_ptest a w)"
  unfolding op_ptest_def op_ptest_in_def
  by (intro keeps_intro wf_cmod; simp add: wf_cpu_def assms)

lemma wf_rte_finish [keeps_intro]: "keeps (wf Q) E (rte_finish sr pc)"
  unfolding rte_finish_def by (intro wf_assign keeps_intro; simp)

lemma wf_ex_access [keeps_intro]:
  "keeps (wf Q) E (ex_PUSH16 w)" "keeps (wf Q) E (ex_PUSH32 l)"
  "keeps (wf Q) E (ex_READL a)" "keeps (wf Q) E (ex_JUMP a)"
  "keeps (wf Q) E (vector_addr n)"
  unfolding ex_PUSH32_def ex_PUSH16_def ex_READL_def ex_JUMP_def double_fault_def vector_addr_def
  by (intro cpu_read_keeps reg_write_keeps keeps_catch_PTestError
      access_keeps keeps_intro; simp)+

lemma wf_rte_access_fault [keeps_intro]: "keeps (wf Q) E (rte_access_fault sr pc)"
  unfolding rte_access_fault_def by (intro wf_assign keeps_intro; simp)

lemma wf_do_rte [keeps_intro]:
  assumes "E Diverged"
  shows "keeps (wf Q) E do_rte"
proof -
  have "keeps (wf Q) E (do_rte_fuel k)" for k
  proof (induction k)
    case 0
    show ?case by (simp add: keeps_def assms)
  next
    case (Suc k)
    then show ?case
      unfolding do_rte_fuel.simps by (intro wf_assign keeps_intro; simp)
  qed
  then show ?thesis by (simp add: do_rte_def)
qed

lemma wf_stop_wait [keeps_intro]:
  "keeps (wf Q) E (on_bus run_stop)" "E Blocked \<Longrightarrow> keeps (wf Q) E (on_bus run_wait)"
  by (rule wf_on_bus [OF keeps_mono [OF run_stop_mailbox]], simp)
    (rule wf_on_bus [OF keeps_mono [OF run_wait_mailbox]], simp)

lemma wf_reset [keeps_intro]: "keeps (wf Q) E (reset op :: ('d, unit) mach)"
proof -
  have "case bind (gets dev_reset) on_bus s of Ok _ s' \<Rightarrow> wf Q s' | Raise e s' \<Rightarrow> wf Q s' \<and> E e"
    if s: "wf Q s" for s :: "'d machine"
  proof -
    from s have "keeps (mailbox Q) (\<lambda>e. e = Undefined) (dev_reset s)"
      by (simp add: wf_def devices_ok_def)
    from keeps_at [OF keeps_mono [OF wf_on_bus [OF this], of E] s] show ?thesis
      by (simp add: bind_def)
  qed
  then have "keeps (wf Q) E (bind (gets dev_reset) on_bus :: ('d, unit) mach)"
    by (simp add: keeps_def)
  then show ?thesis
    unfolding reset_def by (rule keeps_seq [OF PRIV_CHECK_keeps])
qed

lemma wf_move_from_sr [keeps_intro]: "keeps (wf Q) E (move_from_sr op)"
  unfolding move_from_sr_def by (intro keeps_intro; simp)

lemma wf_sr_ops [keeps_intro]:
  "keeps (wf Q) E (ori_w_sr op)" "keeps (wf Q) E (andi_w_sr op)"
  "keeps (wf Q) E (eori_w_sr op)" "keeps (wf Q) E (move_to_sr op)"
  "keeps (wf Q) E (move_to_usp op)" "keeps (wf Q) E (move_from_usp op)"
  "E Blocked \<Longrightarrow> keeps (wf Q) E (stop op)" "E Diverged \<Longrightarrow> keeps (wf Q) E (rte op)"
  unfolding ori_w_sr_def andi_w_sr_def eori_w_sr_def move_to_sr_def move_to_usp_def
    move_from_usp_def stop_def stop_impl_def rte_def
  by (intro wf_assign keeps_intro; simp)+

lemma wf_moves [keeps_intro]:
  "keeps (wf Q) E (moves_b op)" "keeps (wf Q) E (moves_w op)" "keeps (wf Q) E (moves_l op)"
  unfolding moves_b_def moves_w_def moves_l_def by (intro keeps_intro; simp)+

lemma wf_cache_ops [keeps_intro]:
  "keeps (wf Q) E (cinvl_dc op)" "keeps (wf Q) E (cinvl_ic op)" "keeps (wf Q) E (cinvl_bc op)"
  "keeps (wf Q) E (cinvp_dc op)" "keeps (wf Q) E (cinvp_ic op)" "keeps (wf Q) E (cinvp_bc op)"
  "keeps (wf Q) E (cinva_dc op)" "keeps (wf Q) E (cinva_ic op)" "keeps (wf Q) E (cinva_bc op)"
  "keeps (wf Q) E (cpushl_dc op)" "keeps (wf Q) E (cpushl_ic op)" "keeps (wf Q) E (cpushl_bc op)"
  "keeps (wf Q) E (cpushp_dc op)" "keeps (wf Q) E (cpushp_ic op)" "keeps (wf Q) E (cpushp_bc op)"
  "keeps (wf Q) E (cpusha_dc op)" "keeps (wf Q) E (cpusha_ic op)" "keeps (wf Q) E (cpusha_bc op)"
  unfolding cinvl_dc_def cinvl_ic_def cinvl_bc_def cinvp_dc_def cinvp_ic_def cinvp_bc_def
    cinva_dc_def cinva_ic_def cinva_bc_def cpushl_dc_def cpushl_ic_def cpushl_bc_def
    cpushp_dc_def cpushp_ic_def cpushp_bc_def cpusha_dc_def cpusha_ic_def cpusha_bc_def
  by (intro keeps_intro)+

lemma wf_mmu_ops [keeps_intro]:
  "keeps (wf Q) E (pflushn op)" "keeps (wf Q) E (pflush op)" "keeps (wf Q) E (pflushan op)"
  "keeps (wf Q) E (pflusha op)" "E BusError \<Longrightarrow> keeps (wf Q) E (ptestr op)" "E BusError \<Longrightarrow> keeps (wf Q) E (ptestw op)"
  unfolding pflushn_def pflush_def pflushan_def pflusha_def ptestr_def ptestw_def
  by (intro keeps_intro; assumption?)+

text \<open>\<open>MOVEC\<close> computes a new processor state from the one it reads.\<close>

lemma wf_movec [keeps_intro]:
  "keeps (wf Q) E (movec_from_cr op)" "keeps (wf Q) E (movec_to_cr op)"
proof -
  have "keeps (wf Q) E (case movec_from_cr_impl x c of None \<Rightarrow> ILLEGAL_OP
      | Some (v, c') \<Rightarrow> seq (cmod (\<lambda>_. c')) (seq (setR n v) TRACE_BRANCH))"
    if "wf_cpu c" for x c n
    using wf_movec_from [OF that, of x]
    by (auto split: option.split intro!: wf_cpu_put keeps_seq raises_keeps
        flags_keeps reg_write_keeps)
  then show "keeps (wf Q) E (movec_from_cr op)"
    unfolding movec_from_cr_def
    by (intro keeps_seq keeps_bind [OF stream_keeps(1)] keeps_Let wf_bind_cpu
        PRIV_CHECK_keeps)
  have "keeps (wf Q) E (case movec_to_cr_impl x v c of None \<Rightarrow> ILLEGAL_OP
      | Some c' \<Rightarrow> seq (cmod (\<lambda>_. c')) TRACE_BRANCH)"
    if "wf_cpu c" for x c v
    using wf_movec_to [OF that, of x v]
    by (auto split: option.split intro!: wf_cpu_put keeps_seq raises_keeps
        flags_keeps)
  then show "keeps (wf Q) E (movec_to_cr op)"
    unfolding movec_to_cr_def
    by (intro keeps_seq keeps_bind [OF stream_keeps(1)] keeps_Let wf_bind_cpu
        PRIV_CHECK_keeps)
qed

lemma cpu_contract: "guest_cpu (wf Q) E"
  by unfold_locales

lemma wf_plain_ops:
  "h \<in> set (plain_handlers :: 'd handler list) \<Longrightarrow> keeps (wf Q) E (h op)"
proof -
  have "list_all (\<lambda>h. keeps (wf Q) E (h op)) (plain_handlers :: 'd handler list)"
    unfolding plain_handlers_def by (intro list_all_ConsI list_all_NilI keeps_intro)
  then show "h \<in> set (plain_handlers :: 'd handler list) \<Longrightarrow> keeps (wf Q) E (h op)"
    by (simp add: list_all_iff)
qed

lemma wf_table:
  assumes "\<And>h. h \<in> set (fpu_handlers fpu) \<Longrightarrow> keeps (wf Q) E (h op)"
    and "op = 0x4e72 \<Longrightarrow> E Blocked" "op = 0x4e73 \<Longrightarrow> E Diverged" "op AND 0xffd8 = 0xf548 \<Longrightarrow> E BusError"
  shows "guest_table (wf Q) E (fpu :: 'd fpu_ops option) op"
proof -
  have "op AND 0xffd8 = (op AND 0xfff8) AND 0xffd8"
    by (simp add: and.assoc)
  with assms show ?thesis
    by unfold_locales (auto intro: wf_plain_ops wf_sr_ops wf_mmu_ops)
qed

subsection \<open>Before an instruction\<close>

text \<open>The interrupt taken by the prologue has a level from 1 to 7.\<close>

lemma wf_prologue: "keeps (wf Q) E (op_prologue pc :: ('d, unit) mach)"
proof -
  have irq: "keeps (wf Q) E (bind (gets (\<lambda>s. inturrupt (bus s))) (\<lambda>i.
     bind (cget I_lvl) (\<lambda>lvl. seq (whenM (i = 7 \<or> i > uint lvl)
       (seq (on_bus (modify (\<lambda>b. b\<lparr>inturrupt := - 1\<rparr>))) (IRQ i))) m)))"
    if m: "keeps (wf Q) E m" for m :: "('d, unit) mach"
    unfolding keeps_def
  proof (intro allI impI)
    fix s :: "'d machine" assume s: "wf Q s"
    let ?i = "inturrupt (bus s)"
    have i: "?i \<le> 7" and j: "\<not> inJit (cpu s)"
      using s by (simp_all add: wf_def mailbox_def wf_cpu_def)
    have r: "on_bus (modify (\<lambda>b. b\<lparr>inturrupt := - 1\<rparr>)) s
        = Ok () (s\<lparr>bus := (bus s)\<lparr>inturrupt := - 1\<rparr>\<rparr>)"
      by (simp add: on_bus_def lift_part_def)
    show "case bind (gets (\<lambda>s. inturrupt (bus s))) (\<lambda>i.
       bind (cget I_lvl) (\<lambda>lvl. seq (whenM (i = 7 \<or> i > uint lvl)
         (seq (on_bus (modify (\<lambda>b. b\<lparr>inturrupt := - 1\<rparr>))) (IRQ i))) m)) s of
         Ok _ s' \<Rightarrow> wf Q s' | Raise e s' \<Rightarrow> wf Q s' \<and> E e"
    proof (cases "?i = 7 \<or> ?i > uint (I_lvl (cpu s))")
      case True
      moreover from this have "1 \<le> ?i"
        using uint_ge_0 [of "I_lvl (cpu s)"] by linarith
      ultimately show ?thesis
        using s i j r
        by (auto simp: bind_def seq_def IRQ_def RAISE_run wf_def mailbox_def ordinary_def
            guest_vectors_def intro!: ordinary)
    next
      case False
      with keeps_at [OF m s] show ?thesis
        by (simp add: bind_def seq_def)
    qed
  qed
  show ?thesis
    unfolding op_prologue_def
    by (intro irq keeps_seq unprivileged; simp add: same_privileged_def)
qed

end

text \<open>All the ways an instruction may end, and those of one opcode.\<close>

interpretation wf_cpu: wf_ends Q ends_ok for Q :: "'d \<Rightarrow> bool"
  by unfold_locales (rule ordinary_ends)

lemma ends_ok_simps [simp]:
  "ends_ok BusError" "ends_ok Undefined" "ends_ok Terminated" "ends_ok Blocked" "ends_ok Diverged"
  by (simp_all add: ends_ok_def)

lemma wf_privileged_ops:
  "h \<in> set (priv_handlers :: 'd handler list) \<Longrightarrow> keeps (wf Q) ends_ok (h op)"
proof -
  have "list_all (\<lambda>h. keeps (wf Q) ends_ok (h op)) (priv_handlers :: 'd handler list)"
    unfolding priv_handlers_def by (intro list_all_ConsI list_all_NilI keeps_intro; simp)
  then show "h \<in> set (priv_handlers :: 'd handler list) \<Longrightarrow> keeps (wf Q) ends_ok (h op)"
    by (simp add: list_all_iff)
qed

section \<open>Instructions, exceptions, the loop\<close>

lemma wf_guest_ops:
  assumes "\<And>h op. h \<in> set (fpu_handlers fpu) \<Longrightarrow> keeps (wf Q) ends_ok (h op)"
  shows "guest_ops (wf Q) ends_ok fpu"
  by unfold_locales (simp_all add: assms wf_privileged_ops wf_cpu.wf_prologue wf_cpu.wf_stop_wait)

interpretation wf_ops: guest_ops "wf Q :: 'd machine \<Rightarrow> bool" ends_ok None
  by (rule wf_guest_ops) (simp add: fpu_handlers_def)

lemma wf_enter_vector [keeps_intro]: "keeps (wf Q) ends_ok (enter_vector n)"
  unfolding enter_vector_def by (intro keeps_intro)

lemma wf_frames [keeps_intro]:
  "keeps (wf Q) ends_ok (EXCEPTION0 n pc sr)" "keeps (wf Q) ends_ok (EXCEPTION2 n a pc sr)"
  "keeps (wf Q) ends_ok (EXCEPTION3 n sr)" "keeps (wf Q) ends_ok (access_fault_frame sr)"
  unfolding EXCEPTION0_def EXCEPTION2_def EXCEPTION3_def access_fault_frame_def
  by (intro keeps_intro; simp)+

lemma wf_interrupt_level:
  assumes "24 \<le> n" and "n \<le> 31" and "wf_cpu c"
  shows "wf_cpu (c\<lparr>I_lvl := word_of_int (n - 24)\<rparr>)"
proof -
  from assms have "n \<in> {24, 25, 26, 27, 28, 29, 30, 31}" by auto
  with assms(3) show ?thesis by (auto simp: wf_cpu_def)
qed

lemma wf_interrupt_frame:
  "24 \<le> n \<Longrightarrow> n \<le> 31 \<Longrightarrow> keeps (wf Q) ends_ok (interrupt_frame n sr)"
  unfolding interrupt_frame_def
  by (intro wf_assign keeps_seq wf_cmod [OF wf_interrupt_level] keeps_intro; simp)

lemma wf_handle_exception:
  assumes "n \<in> guest_vectors"
  shows "keeps (wf Q) ends_ok (handle_exception n)"
proof -
  from assms have "n \<noteq> UNDEF_IRQ"
    by (auto simp: guest_vectors_def op_vectors_def)
  then show ?thesis
    unfolding handle_exception_def
    by (intro wf_assign wf_interrupt_frame keeps_intro; simp)
qed

lemma wf_inner_turn: "guest_ops (wf Q) ends_ok fpu \<Longrightarrow> keeps (wf Q) ends_ok (inner_turn fpu)"
  unfolding inner_turn_def
  by (intro keeps_intro guest_ops.run_op_keeps; simp)

lemma wf_cpu_turn:
  assumes "guest_ops (wf Q) ends_ok fpu"
  shows "keeps (wf Q) ends_ok (cpu_turn (fpu :: 'd fpu_ops option))"
  unfolding keeps_def
proof (intro allI impI)
  fix s :: "'d machine" assume s: "wf Q s"
  note turn = keeps_at [OF wf_inner_turn [OF assms] s]
  show "case cpu_turn fpu s of Ok _ s' \<Rightarrow> wf Q s' | Raise e s' \<Rightarrow> wf Q s' \<and> ends_ok e"
  proof (cases "inner_turn fpu s")
    case (Ok a s')
    with turn show ?thesis by (simp add: cpu_turn_def)
  next
    case (Raise e s')
    with turn have e: "wf Q s'" "ends_ok e" by auto
    show ?thesis
    proof (cases "\<exists>n. e = M68kException n")
      case True
      then obtain n where n: "e = M68kException n" by auto
      with e have "n \<in> guest_vectors" by (auto simp: ends_ok_def)
      then have "keeps (wf Q) ends_ok
          (seq (handle_exception n) (cmod (\<lambda>c. c\<lparr>bus_lock := False\<rparr>)))"
        by (intro keeps_seq wf_handle_exception wf_cpu.unprivileged; simp)
      from keeps_at [OF this e(1)] show ?thesis
        by (simp add: cpu_turn_def Raise n)
    next
      case False
      with e show ?thesis by (cases e) (simp_all add: cpu_turn_def Raise)
    qed
  qed
qed

lemma wf_sys_step:
  assumes "guest_ops (wf Q) ends_ok fpu" and "sys_step fpu s s'" and "wf Q s"
  shows "wf Q s'"
  using assms(2)
proof cases
  case turn
  with keeps_Ok [OF wf_cpu_turn [OF assms(1)]] assms(3) show ?thesis by blast
next
  case (post i)
  with assms(3) show ?thesis by (simp add: wf_def mailbox_def)
next
  case poll
  have "keeps (mailbox Q) ends_ok main_poll"
    by (auto simp: main_poll_def run_resume_def mailbox_def intro!: keeps_intro keeps_modify)
  from keeps_Ok [OF wf_on_bus [OF this] poll assms(3)] show ?thesis .
qed

lemma wf_reachable:
  assumes "guest_ops (wf Q) ends_ok fpu" and "reachable fpu s0 s" and "wf Q s0"
  shows "wf Q s"
  using assms(2)
  by (induction rule: reachable.induct) (use assms wf_sys_step in auto)

section \<open>An example\<close>

lemma wf_small_machine: "wf (\<lambda>_. True) small_machine"
proof -
  have "devices_ok (\<lambda>_. True) (no_device :: unit IO_BUS) (return ())"
    by (auto simp: devices_ok_def no_device_def IO_BUS_of_def IO_BUS_readB_def IO_BUS_writeB_def
        IO_BUS_readW_def IO_BUS_readL_def IO_BUS_writeW_def IO_BUS_writeL_def bus_ends_def
        intro!: keeps_intro)
  then show ?thesis
    by (simp add: wf_def small_machine_def machine_on_def wf_cpu_def cpu_static_def wf_ttr_def ttr_static_def
        wf_atc_def atc_static_def mailbox_def small_bus_def)
qed

end
