(* ===== verification/Devs.thy ===== *)
theory Devs
  imports Bus Complex_Main
begin

text \<open>
  The state of the devices behind the bus and what they ask of the host: the classes of
  include/chip/via.hpp, include/chip/scc.hpp, include/chip/asc.hpp, include/chip/iop.hpp,
  include/mb and the static variables of src/chip/rtc.cc, src/ebus/adb.cc. Device code runs in
  the monad of the bus, because devices post interrupts and one of them writes the RAM.
\<close>

unbundle bit_operations_syntax

section \<open>Bit sets\<close>

text \<open>\<open>std::bitset\<close>: a word; \<open>b[i] = p\<close> and the bitset with given bits.\<close>

definition set_to :: "nat \<Rightarrow> bool \<Rightarrow> 'a::len word \<Rightarrow> 'a word" where
  "set_to i p w = (if p then set_bit i w else unset_bit i w)"

definition bitset8 :: "(nat \<Rightarrow> bool) \<Rightarrow> u8" where
  "bitset8 f = foldl (\<lambda>w i. set_to i (f i) w) 0 [0..<8]"

lemma bit_set_to: "bit (set_to i p w) n \<longleftrightarrow> (if n = i \<and> i < LENGTH('a) then p else bit w n)" for w :: "'a::len word"
  using bit_imp_le_length [of w n] by (auto simp: set_to_def bit_simps)

lemma bit_bitset8: "bit (bitset8 f) n \<longleftrightarrow> n < 8 \<and> f n"
proof -
  have "bit (foldl (\<lambda>w i. set_to i (f i) w) v [0..<k]) n \<longleftrightarrow> (if n < k \<and> n < 8 then f n else bit v n)" for v :: u8 and k
    by (induction k) (auto simp: bit_set_to)
  from this [of 0 8] show ?thesis by (simp add: bitset8_def)
qed

section \<open>The host\<close>

text \<open>
  What the host library answers: the nanosecond ticks, the time of day, the mouse (position and
  button mask), random numbers, the modifier keys, whether the delete key is down, and the bytes
  the microphone has recorded. Every
  call takes the answer with the number of the call, so any sequence of answers is possible.
  Positions are floats in the source; their values are rationals.
\<close>

record host_answers =
  SDL_GetTicksNS :: "nat \<Rightarrow> u64"
  time_of_day :: "nat \<Rightarrow> u64"
  SDL_GetMouseState :: "nat \<Rightarrow> rat \<times> rat \<times> u32"
  rand :: "nat \<Rightarrow> u32"
  SDL_GetModState :: "nat \<Rightarrow> u16"
  delete_down :: "nat \<Rightarrow> bool"
  mic_data :: "nat \<Rightarrow> u8 list"

section \<open>Device state\<close>

datatype SR_C = DISABLED | IN_T2 | IN_P2 | IN_EC | OUT_FREE | OUT_T2 | OUT_P2 | OUT_EC

datatype C2_CTL =
    INPUT_NEGATIVE_ACTIVE_EDGE
  | INDEPENDENT_INTERRUPT_INPUT_NEG_EDGE
  | INPUT_POSITIVE_ACTIVE_EDGE
  | INDEPENDENT_INTERRUPT_INPOS_POS_EDGE
  | HANSHAKE_OUTPUT
  | PULSE_OUTPUT
  | LOW_OUTPUT
  | HIGH_OUTPUT

datatype VIA_IRQ = CA2 | CA1 | SR | CB2 | CB1 | TIMER2 | TIMER1

fun SR_C_int :: "SR_C \<Rightarrow> nat" where
  "SR_C_int DISABLED = 0" | "SR_C_int IN_T2 = 1" | "SR_C_int IN_P2 = 2" | "SR_C_int IN_EC = 3"
| "SR_C_int OUT_FREE = 4" | "SR_C_int OUT_T2 = 5" | "SR_C_int OUT_P2 = 6" | "SR_C_int OUT_EC = 7"

definition SR_C_of :: "nat \<Rightarrow> SR_C" where
  "SR_C_of n = [DISABLED, IN_T2, IN_P2, IN_EC, OUT_FREE, OUT_T2, OUT_P2, OUT_EC] ! n"

fun C2_CTL_int :: "C2_CTL \<Rightarrow> nat" where
  "C2_CTL_int INPUT_NEGATIVE_ACTIVE_EDGE = 0" | "C2_CTL_int INDEPENDENT_INTERRUPT_INPUT_NEG_EDGE = 1"
| "C2_CTL_int INPUT_POSITIVE_ACTIVE_EDGE = 2" | "C2_CTL_int INDEPENDENT_INTERRUPT_INPOS_POS_EDGE = 3"
| "C2_CTL_int HANSHAKE_OUTPUT = 4" | "C2_CTL_int PULSE_OUTPUT = 5" | "C2_CTL_int LOW_OUTPUT = 6"
| "C2_CTL_int HIGH_OUTPUT = 7"

definition C2_CTL_of :: "nat \<Rightarrow> C2_CTL" where
  "C2_CTL_of n = [INPUT_NEGATIVE_ACTIVE_EDGE, INDEPENDENT_INTERRUPT_INPUT_NEG_EDGE,
     INPUT_POSITIVE_ACTIVE_EDGE, INDEPENDENT_INTERRUPT_INPOS_POS_EDGE, HANSHAKE_OUTPUT,
     PULSE_OUTPUT, LOW_OUTPUT, HIGH_OUTPUT] ! n"

fun VIA_IRQ_int :: "VIA_IRQ \<Rightarrow> nat" where
  "VIA_IRQ_int CA2 = 0" | "VIA_IRQ_int CA1 = 1" | "VIA_IRQ_int SR = 2" | "VIA_IRQ_int CB2 = 3"
| "VIA_IRQ_int CB1 = 4" | "VIA_IRQ_int TIMER2 = 5" | "VIA_IRQ_int TIMER1 = 6"

lemma enum_roundtrip [simp]: "SR_C_of (SR_C_int c) = c" "C2_CTL_of (C2_CTL_int d) = d"
  by (cases c; simp add: SR_C_of_def) (cases d; simp add: C2_CTL_of_def)

lemma enum_range: "SR_C_int c < 8" "C2_CTL_int d < 8" "VIA_IRQ_int i < 7"
proof -
  show "SR_C_int c < 8" by (cases c) simp_all
  show "C2_CTL_int d < 8" by (cases d) simp_all
  show "VIA_IRQ_int i < 7" by (cases i) simp_all
qed

lemma enum_number:
  "n < 8 \<Longrightarrow> SR_C_int (SR_C_of n) = n" "n < 8 \<Longrightarrow> C2_CTL_int (C2_CTL_of n) = n"
  by (auto simp: SR_C_of_def C2_CTL_of_def less_Suc_eq numeral_eq_Suc)

text \<open>\<open>timer1\<close> and \<open>timer2\<close>: whether the identifier of the host timer is not 0.\<close>

record VIA =
  timer1_base :: u64
  timer2_base :: u64
  timer1 :: bool
  timer2 :: bool
  timer1_cnt :: u16
  timer2_cnt :: u16
  timer1_latch :: u16
  timer2_latch :: u16
  PB7_ENABLE :: bool
  T1_REP :: bool
  T2_CTL :: bool
  sr_c :: SR_C
  PB_LATCH :: bool
  PA_LATCH :: bool
  CB2_CTL :: C2_CTL
  CB1_CTL :: bool
  CA2_CTL :: C2_CTL
  CA1_CTL :: bool
  sr :: u8
  ora :: u8
  ira :: u8
  orb :: u8
  irb :: u8
  dira :: u8
  dirb :: u8
  IF :: "7 word"
  IE :: "7 word"

datatype via_id = VIA1 | VIA2

text \<open>The members \<open>VIA1\<close> adds, and the global \<open>rtcEnable\<close>.\<close>

record VIA1_pins =
  adb_state0 :: bool
  adb_state1 :: bool
  old_state :: u8
  rtc_clock :: bool
  via_rtc_val :: bool
  appleTalkDebug :: bool
  appleTalkDebugEnabled :: bool
  rtcEnable :: bool

text \<open>src/chip/rtc.cc; \<open>rtc_timer\<close>: the one-second timer runs.\<close>

record rtc_chip =
  rtc_cmd :: u8
  rtc_cnt_w :: nat
  rtc_cnt_r :: nat
  rtc_lists :: "u8 list"
  rtc_val :: u8
  XPRAM :: "u8 \<Rightarrow> u8"
  rtc_timer :: bool

text \<open>src/ebus/adb.cc. \<open>adbDevs\<close> has room for four devices; the first two are ever set.\<close>

record ADBMouse =
  mouse_reg3_0 :: u8
  mouse_reg3_1 :: u8
  old_mx :: int
  old_my :: int

record ADBKeyboard =
  kbd_reg2_0 :: u8
  kbd_reg2_1 :: u8
  kbd_reg3_0 :: u8
  kbd_reg3_1 :: u8

record adb_bus =
  buf :: "u8 list"
  adb_in_v :: u8
  keys :: "u8 list"
  adb_xprammode :: bool
  adb_mouse :: "ADBMouse option"
  adb_keyboard :: "ADBKeyboard option"
  adb_buf :: "u8 list"

record SccCh =
  inBuf :: "u8 list"
  lastInBuf :: u8
  outBuf :: "u8 list"
  wR1 :: u8
  recvParam :: u8
  sendParam1 :: u8
  sendParam2 :: u8
  syncLetter :: u16
  miscCtl :: u8
  clkCtl :: u8
  baudCnt :: u16
  miscCtl2 :: u8
  exIrqCtl :: u8
  bufStatus :: u8
  specialRecvStatus :: u8
  miscStatus :: u8
  recvFirstLetter :: bool
  rr0_is_latched :: bool
  vSCCWrReq :: bool

datatype scc_chan = chA | chB

record SCC =
  curReg :: nat
  scc_ch :: "scc_chan \<Rightarrow> SccCh"
  intVec :: u8
  irqPending :: u8
  masterIrqCtl :: u8
  ius :: u8

text \<open>
  A channel of the sound chip. \<open>played\<close> logs what \<open>SDL_PutAudioStreamData\<close> was given, \<open>timerH\<close>
  and \<open>timerF\<close> whether the identifier of a host timer is not 0.
\<close>

record ASC_CH =
  FIFO :: "nat \<Rightarrow> u8"
  FIFO_READP :: u16
  FIFO_WRITEP :: u16
  SAMPLE_RATE :: u16
  fifo_full :: bool
  fifo_half :: bool
  timerH :: bool
  timerF :: bool
  fifo_cdxa :: bool
  CD_XA_const :: "nat \<Rightarrow> u8"
  IRQ_CTL :: bool
  left_vol :: u8
  right_vol :: u8
  xa_cnt :: int
  xa_flags :: u8
  xa_val :: u8
  xa_last0 :: int
  xa_last1 :: int
  played :: "u16 list list"

record ASC =
  asc_ch :: "scc_chan \<Rightarrow> ASC_CH"
  phase :: "nat \<Rightarrow> u32"
  incr :: "nat \<Rightarrow> u32"
  wav_run :: u8
  asc_mode :: u8
  freq :: u8
  overflow :: bool
  chA_is_mic :: bool
  chA_is_22 :: bool
  isEASC :: bool
  volume :: u8
  wave_out :: "u8 list list"

record IOP =
  iop_PC :: u16
  RamAddress :: u16
  iop_status :: u8
  iop_MEM :: "u16 \<Rightarrow> u8"
  running :: bool

record MCU_ctl =
  mcu_value :: u32
  ctls :: "nat \<Rightarrow> u32"

record RBV =
  rbufB :: u8
  rExp :: u8
  rSIFR :: u8
  rIFR :: "5 word"
  rMonP :: u8
  rChpT :: u8
  rSIER :: u8
  rIER :: "5 word"

text \<open>include/chip/iifx.hpp.\<close>

record IIfx =
  oss_v :: "nat \<Rightarrow> u8"
  exp0_v :: u16
  exp0_x :: u8
  exp1_s :: "u8 \<Rightarrow> u8"
  exp1_a :: u8

text \<open>All of it, with the answers of the host and the number of calls made so far.\<close>

record devs =
  host :: host_answers
  host_calls :: nat
  vias :: "via_id \<Rightarrow> VIA"
  pins :: VIA1_pins
  rtc :: rtc_chip
  adb :: adb_bus
  scc :: SCC
  asc :: ASC
  iop_scc :: IOP
  iop_swim :: IOP
  mcu :: MCU_ctl
  rbv :: RBV
  iifx :: IIfx
  pds :: "(u32 \<Rightarrow> u8) option"
  is_reset :: bool

type_synonym 'a device = "(devs bus, 'a) monad"

section \<open>Access\<close>

definition dget :: "(devs \<Rightarrow> 'a) \<Rightarrow> 'a device" where
  "dget f = gets (\<lambda>b. f (dev b))"

definition dmod :: "(devs \<Rightarrow> devs) \<Rightarrow> unit device" where
  "dmod f = modify (\<lambda>b. b\<lparr>dev := f (dev b)\<rparr>)"

lemma dget_run [run_simps, simp]: "dget f b = Ok (f (dev b)) b"
  and dmod_run [run_simps, simp]: "dmod h b = Ok () (b\<lparr>dev := h (dev b)\<rparr>)"
  by (simp_all add: dget_def dmod_def)

lemma bind_dget [run_simps, simp]: "bind (dget f) g b = g (f (dev b)) b"
  and seq_dmod [run_simps, simp]: "seq (dmod h) m b = m (b\<lparr>dev := h (dev b)\<rparr>)"
  by (simp_all add: dget_def dmod_def bind_def seq_def)

text \<open>One call of the host.\<close>

definition ask :: "(host_answers \<Rightarrow> nat \<Rightarrow> 'a) \<Rightarrow> 'a device" where
  "ask f = bind (dget (\<lambda>d. f (host d) (host_calls d))) (\<lambda>a.
     seq (dmod (\<lambda>d. d\<lparr>host_calls := host_calls d + 1\<rparr>)) (return a))"

lemma ask_run [run_simps, simp]:
  "ask f b = Ok (f (host (dev b)) (host_calls (dev b))) (b\<lparr>dev := (dev b)\<lparr>host_calls := host_calls (dev b) + 1\<rparr>\<rparr>)"
  by (simp add: ask_def)

definition upd_via :: "via_id \<Rightarrow> (VIA \<Rightarrow> VIA) \<Rightarrow> devs \<Rightarrow> devs" where
  "upd_via i f d = d\<lparr>vias := (vias d)(i := f (vias d i))\<rparr>"

definition via_mod :: "via_id \<Rightarrow> (VIA \<Rightarrow> VIA) \<Rightarrow> unit device" where
  "via_mod i f = dmod (upd_via i f)"

lemma via_mod_run [run_simps, simp]: "via_mod i f b = Ok () (b\<lparr>dev := upd_via i f (dev b)\<rparr>)"
  by (simp add: via_mod_def)

lemma seq_via_mod [run_simps, simp]: "seq (via_mod i f) m b = m (b\<lparr>dev := upd_via i f (dev b)\<rparr>)"
  by (simp add: via_mod_def)

lemma upd_via_simps [simp]:
  "vias (upd_via i f d) j = (if j = i then f (vias d i) else vias d j)"
  "pins (upd_via i f d) = pins d" "rtc (upd_via i f d) = rtc d" "adb (upd_via i f d) = adb d"
  "scc (upd_via i f d) = scc d" "asc (upd_via i f d) = asc d" "host (upd_via i f d) = host d"
  "host_calls (upd_via i f d) = host_calls d"
  "upd_via i f (upd_via i g d) = upd_via i (\<lambda>v. f (g v)) d"
  by (simp_all add: upd_via_def)

definition rtc_mod :: "(rtc_chip \<Rightarrow> rtc_chip) \<Rightarrow> unit device" where
  "rtc_mod f = dmod (\<lambda>d. d\<lparr>rtc := f (rtc d)\<rparr>)"

definition adb_mod :: "(adb_bus \<Rightarrow> adb_bus) \<Rightarrow> unit device" where
  "adb_mod f = dmod (\<lambda>d. d\<lparr>adb := f (adb d)\<rparr>)"

definition pins_mod :: "(VIA1_pins \<Rightarrow> VIA1_pins) \<Rightarrow> unit device" where
  "pins_mod f = dmod (\<lambda>d. d\<lparr>pins := f (pins d)\<rparr>)"

definition scc_mod :: "(SCC \<Rightarrow> SCC) \<Rightarrow> unit device" where
  "scc_mod f = dmod (\<lambda>d. d\<lparr>scc := f (scc d)\<rparr>)"

definition ch_mod :: "scc_chan \<Rightarrow> (SccCh \<Rightarrow> SccCh) \<Rightarrow> unit device" where
  "ch_mod c f = scc_mod (\<lambda>s. s\<lparr>scc_ch := (scc_ch s)(c := f (scc_ch s c))\<rparr>)"

definition asc_mod :: "(ASC \<Rightarrow> ASC) \<Rightarrow> unit device" where
  "asc_mod f = dmod (\<lambda>d. d\<lparr>asc := f (asc d)\<rparr>)"

definition snd_mod :: "scc_chan \<Rightarrow> (ASC_CH \<Rightarrow> ASC_CH) \<Rightarrow> unit device" where
  "snd_mod c f = asc_mod (\<lambda>s. s\<lparr>asc_ch := (asc_ch s)(c := f (asc_ch s c))\<rparr>)"

lemma part_mod_run [run_simps, simp]:
  "rtc_mod f1 b = Ok () (b\<lparr>dev := (dev b)\<lparr>rtc := f1 (rtc (dev b))\<rparr>\<rparr>)"
  "adb_mod f2 b = Ok () (b\<lparr>dev := (dev b)\<lparr>adb := f2 (adb (dev b))\<rparr>\<rparr>)"
  "pins_mod f3 b = Ok () (b\<lparr>dev := (dev b)\<lparr>pins := f3 (pins (dev b))\<rparr>\<rparr>)"
  "scc_mod f4 b = Ok () (b\<lparr>dev := (dev b)\<lparr>scc := f4 (scc (dev b))\<rparr>\<rparr>)"
  "asc_mod f5 b = Ok () (b\<lparr>dev := (dev b)\<lparr>asc := f5 (asc (dev b))\<rparr>\<rparr>)"
  by (simp_all add: rtc_mod_def adb_mod_def pins_mod_def scc_mod_def asc_mod_def)

section \<open>Interrupts of the interface adapters\<close>

text \<open>src/chip/via.cc, \<open>VIA::irq\<close>, \<open>irq_off\<close> and \<open>recieve_sr\<close>.\<close>

fun irqNum :: "via_id \<Rightarrow> int" where
  "irqNum VIA1 = 1" | "irqNum VIA2 = 2"

definition irq :: "via_id \<Rightarrow> VIA_IRQ \<Rightarrow> unit device" where
  "irq v i =
     seq (via_mod v (\<lambda>r. r\<lparr>IF := set_to (VIA_IRQ_int i) True (IF r)\<rparr>))
    (bind (dget (\<lambda>d. bit (IE (vias d v)) (VIA_IRQ_int i))) (\<lambda>e.
     whenM e (do_irq (irqNum v))))"

definition irq_off :: "via_id \<Rightarrow> VIA_IRQ \<Rightarrow> unit device" where
  "irq_off v i = via_mod v (\<lambda>r. r\<lparr>IF := set_to (VIA_IRQ_int i) False (IF r)\<rparr>)"

definition recieve_sr :: "via_id \<Rightarrow> unit device" where
  "recieve_sr v = irq v SR"

text \<open>\<open>GetVIACounter\<close>: the host's ticks in units of the adapter's clock, in 64-bit arithmetic.\<close>

definition GetVIACounter :: "u64 device" where
  "GetVIACounter = bind (ask SDL_GetTicksNS) (\<lambda>t. return (t * 1276600 div 1000000000))"

lemma irq_run:
  "irq v i b = Ok () (let b' = b\<lparr>dev := upd_via v (\<lambda>r. r\<lparr>IF := set_to (VIA_IRQ_int i) True (IF r)\<rparr>) (dev b)\<rparr>
     in if bit (IE (vias (dev b) v)) (VIA_IRQ_int i) then b'\<lparr>stopping := False, inturrupt := irqNum v\<rparr> else b')"
  by (simp add: irq_def do_irq_def Let_def whenM_def)

section \<open>An example state\<close>

text \<open>Every member zero and a host that always answers zero.\<close>

definition via_static :: VIA where
  "via_static = \<lparr>timer1_base = 0, timer2_base = 0, timer1 = False, timer2 = False, timer1_cnt = 0,
     timer2_cnt = 0, timer1_latch = 0, timer2_latch = 0, PB7_ENABLE = False, T1_REP = False,
     T2_CTL = False, sr_c = DISABLED, PB_LATCH = False, PA_LATCH = False,
     CB2_CTL = INPUT_NEGATIVE_ACTIVE_EDGE, CB1_CTL = False, CA2_CTL = INPUT_NEGATIVE_ACTIVE_EDGE,
     CA1_CTL = False, sr = 0, ora = 0, ira = 0, orb = 0, irb = 0, dira = 0, dirb = 0, IF = 0, IE = 0\<rparr>"

definition pins_static :: VIA1_pins where
  "pins_static = \<lparr>adb_state0 = True, adb_state1 = True, old_state = 3, rtc_clock = True,
     via_rtc_val = False, appleTalkDebug = False, appleTalkDebugEnabled = False, rtcEnable = False\<rparr>"

definition ch_static :: SccCh where
  "ch_static = \<lparr>inBuf = [], lastInBuf = 0, outBuf = [], wR1 = 0, recvParam = 0, sendParam1 = 0,
     sendParam2 = 0, syncLetter = 0, miscCtl = 0, clkCtl = 0, baudCnt = 0, miscCtl2 = 0,
     exIrqCtl = 0, bufStatus = 0, specialRecvStatus = 0, miscStatus = 0, recvFirstLetter = False,
     rr0_is_latched = False, vSCCWrReq = False\<rparr>"

definition snd_static :: ASC_CH where
  "snd_static = \<lparr>FIFO = (\<lambda>_. 0), FIFO_READP = 0, FIFO_WRITEP = 0, SAMPLE_RATE = 0,
     fifo_full = False, fifo_half = False, timerH = False, timerF = False, fifo_cdxa = False,
     CD_XA_const = (\<lambda>_. 0), IRQ_CTL = False, left_vol = 0, right_vol = 0, xa_cnt = - 1,
     xa_flags = 0, xa_val = 0, xa_last0 = 0, xa_last1 = 0, played = []\<rparr>"

definition iop_static :: IOP where
  "iop_static = \<lparr>iop_PC = 0, RamAddress = 0, iop_status = 0, iop_MEM = (\<lambda>_. 0), running = False\<rparr>"

definition devs_static :: devs where
  "devs_static = \<lparr>
     host = \<lparr>SDL_GetTicksNS = (\<lambda>_. 0), time_of_day = (\<lambda>_. 0), SDL_GetMouseState = (\<lambda>_. (0, 0, 0)),
       rand = (\<lambda>_. 0), SDL_GetModState = (\<lambda>_. 0), delete_down = (\<lambda>_. False), mic_data = (\<lambda>_. [])\<rparr>,
     host_calls = 0, vias = (\<lambda>_. via_static), pins = pins_static,
     rtc = \<lparr>rtc_cmd = 0, rtc_cnt_w = 0, rtc_cnt_r = 0, rtc_lists = [], rtc_val = 0,
       XPRAM = (\<lambda>_. 0), rtc_timer = False\<rparr>,
     adb = \<lparr>buf = [], adb_in_v = 0, keys = [], adb_xprammode = False, adb_mouse = None,
       adb_keyboard = None, adb_buf = []\<rparr>,
     scc = \<lparr>curReg = 0, scc_ch = (\<lambda>_. ch_static), intVec = 0, irqPending = 0, masterIrqCtl = 0, ius = 0\<rparr>,
     asc = \<lparr>asc_ch = (\<lambda>_. snd_static), phase = (\<lambda>_. 0), incr = (\<lambda>_. 0), wav_run = 0xff, asc_mode = 0,
       freq = 3, overflow = False, chA_is_mic = False, chA_is_22 = False, isEASC = True, volume = 0,
       wave_out = []\<rparr>,
     iop_scc = iop_static, iop_swim = iop_static, mcu = \<lparr>mcu_value = 0, ctls = (\<lambda>_. 0)\<rparr>,
     rbv = \<lparr>rbufB = 0, rExp = 0, rSIFR = 0, rIFR = 0, rMonP = 0, rChpT = 0, rSIER = 0, rIER = 0\<rparr>,
     iifx = \<lparr>oss_v = (\<lambda>_. 0), exp0_v = 0, exp0_x = 0, exp1_s = (\<lambda>_. 0), exp1_a = 0\<rparr>,
     pds = None, is_reset = False\<rparr>"

definition devs_bus :: "devs bus" where
  "devs_bus = \<lparr>RAM = (\<lambda>_. 0), RAMSize = 8, ROM = (\<lambda>_. 0), ROMSize = 4, ROMMask = 3,
     vram = (\<lambda>_. 0), inturrupt = 0, stopping = False, wakeups = [], dev = devs_static\<rparr>"

end
