(* ===== verification/Rtc.thy ===== *)
theory Rtc
  imports Devs
begin

text \<open>
  The clock and parameter memory chip: src/chip/rtc.cc. It is driven bit by bit: \<open>send_rtc\<close>
  collects a byte from eight bits, lowest bit first, and runs a command when enough bytes have
  come; \<open>recv_rtc\<close> hands out the answer the same way.
\<close>

unbundle bit_operations_syntax

section \<open>Commands\<close>

definition MAC_TIME_DIFF :: u64 where "MAC_TIME_DIFF = 2082844800"

definition xpram_read :: "u8 \<Rightarrow> u8 device" where
  "xpram_read reg =
     (if reg < 8 then
        bind (ask time_of_day) (\<lambda>now.
        let t = ucast (now + MAC_TIME_DIFF) :: u32; k = reg AND 3 in
        return (if k = 0 then ucast t else if k = 1 then ucast (drop_bit 8 t)
                else if k = 2 then ucast (drop_bit 16 t) else ucast (drop_bit 24 t)))
      else dget (\<lambda>d. XPRAM (rtc d) reg))"

definition xpram_write :: "u8 \<Rightarrow> u8 \<Rightarrow> unit device" where
  "xpram_write reg v = rtc_mod (\<lambda>r. r\<lparr>XPRAM := (XPRAM r)(reg := v)\<rparr>)"

text \<open>The register of an extended command and of a short one.\<close>

definition xpram_reg :: "u8 \<Rightarrow> u8 \<Rightarrow> u8" where
  "xpram_reg cmd param = (push_bit 5 cmd AND 0xe0) OR (drop_bit 2 param AND 0x1f)"

definition do_rtc :: "u8 \<Rightarrow> u8 \<Rightarrow> u8 \<Rightarrow> u8 device" where
  "do_rtc cmd v0 v1 =
     (if cmd AND 0xB8 = 0xB8 then xpram_read (xpram_reg cmd v0)
      else if cmd AND 0xB8 = 0x38 then seq (xpram_write (xpram_reg cmd v0) v1) (return 0)
      else if cmd AND 0x80 \<noteq> 0 then xpram_read (drop_bit 2 cmd AND 0x1f)
      else seq (xpram_write (drop_bit 2 cmd AND 0x1f) v0) (return 0))"

section \<open>The serial line\<close>

text \<open>What \<open>send_rtc\<close> does with the bytes collected so far.\<close>

definition rtc_answer :: "u8 \<Rightarrow> unit device" where
  "rtc_answer v = rtc_mod (\<lambda>r. r\<lparr>rtc_val := v, rtc_cnt_r := 0, rtc_lists := []\<rparr>)"

definition rtc_clear :: "unit device" where
  "rtc_clear = rtc_mod (\<lambda>r. r\<lparr>rtc_lists := []\<rparr>)"

definition rtc_command :: "u8 list \<Rightarrow> unit device" where
  "rtc_command l =
     (if l ! 0 AND 0xB8 = 0xB8 \<and> length l = 2 then
        bind (do_rtc (l ! 0) (l ! 1) 0) rtc_answer
      else if l ! 0 AND 0xB8 = 0x38 \<and> length l = 3 then
        seq (do_rtc (l ! 0) (l ! 1) (l ! 2)) rtc_clear
      else if l ! 0 AND 0x80 \<noteq> 0 \<and> length l = 1 then
        bind (do_rtc (l ! 0) 0 0) rtc_answer
      else if length l = 2 then
        seq (do_rtc (l ! 0) (l ! 1) 0) rtc_clear
      else return ())"

definition send_rtc :: "bool \<Rightarrow> unit device" where
  "send_rtc v =
     seq (rtc_mod (\<lambda>r. r\<lparr>rtc_cmd := rtc_cmd r OR push_bit (rtc_cnt_w r) (of_bool v),
            rtc_cnt_w := (rtc_cnt_w r + 1) mod 8\<rparr>))
    (bind (dget (\<lambda>d. rtc_cnt_w (rtc d))) (\<lambda>n.
     whenM (n = 0)
       (seq (rtc_mod (\<lambda>r. r\<lparr>rtc_lists := rtc_lists r @ [rtc_cmd r], rtc_cmd := 0\<rparr>))
            (bind (dget (\<lambda>d. rtc_lists (rtc d))) rtc_command))))"

definition recv_rtc :: "bool device" where
  "recv_rtc =
     seq (rtc_mod (\<lambda>r. r\<lparr>rtc_cnt_r := rtc_cnt_r r mod 8\<rparr>))
    (bind (dget (\<lambda>d. bit (rtc_val (rtc d)) (rtc_cnt_r (rtc d)))) (\<lambda>v.
     seq (rtc_mod (\<lambda>r. r\<lparr>rtc_cnt_r := rtc_cnt_r r + 1\<rparr>))
         (return v)))"

text \<open>Once a second the chip raises \<open>CA2\<close> of the first adapter; \<open>rtc_reset\<close> starts that.\<close>

definition rtc_callback :: "unit device" where
  "rtc_callback = irq VIA1 CA2"

definition rtc_reset :: "unit device" where
  "rtc_reset = rtc_mod (\<lambda>r. r\<lparr>rtc_timer := True\<rparr>)"

section \<open>Bytes over the line\<close>

text \<open>Eight bits of a byte, lowest first, sent or received.\<close>

definition send_byte :: "u8 \<Rightarrow> unit device" where
  "send_byte v = for_each [0..<8] (\<lambda>i. send_rtc (bit v i))"

definition recv_byte :: "u8 device" where
  "recv_byte = fold_each [0..<8] 0 (\<lambda>i w. bind recv_rtc (\<lambda>b. return (set_to i b w)))"

lemma bind_ask [simp]: "bind (ask f) g b = g (f (host (dev b)) (host_calls (dev b)))
    (b\<lparr>dev := (dev b)\<lparr>host_calls := host_calls (dev b) + 1\<rparr>\<rparr>)"
  by (simp add: bind_def)

text \<open>The chip is between two bytes.\<close>

definition rtc_idle :: "devs bus \<Rightarrow> bool" where
  "rtc_idle b \<longleftrightarrow> rtc_cnt_w (rtc (dev b)) = 0 \<and> rtc_cmd (rtc (dev b)) = 0"

definition set_rtc :: "(rtc_chip \<Rightarrow> rtc_chip) \<Rightarrow> devs bus \<Rightarrow> devs bus" where
  "set_rtc f b = b\<lparr>dev := (dev b)\<lparr>rtc := f (rtc (dev b))\<rparr>\<rparr>"

lemma set_rtc_simps [simp]: "rtc (dev (set_rtc f b)) = f (rtc (dev b))"
  "set_rtc f (set_rtc g b) = set_rtc (\<lambda>r. f (g r)) b" "host (dev (set_rtc f b)) = host (dev b)"
  by (simp_all add: set_rtc_def)

lemma rtc_mod_set: "rtc_mod f b = Ok () (set_rtc f b)"
  by (simp add: set_rtc_def)

lemma take_bit_next: "take_bit k v OR push_bit k (of_bool (bit v k)) = take_bit (Suc k) v" for v :: u8
  by (rule bit_word_eqI) (auto simp: bit_simps less_Suc_eq)

lemma for_each_append: "for_each (xs @ ys) f = seq (for_each xs f) (for_each ys f)"
proof (induction xs)
  case Nil
  show ?case by (simp add: seq_def)
qed (simp add: seq_assoc)

lemma fold_each_append: "fold_each (xs @ ys) v f = bind (fold_each xs v f) (\<lambda>w. fold_each ys w f)"
  by (induction xs arbitrary: v) (simp_all add: bind_assoc)

lemma seq_return: "seq m (return ()) = m"
  by (rule ext) (simp add: seq_def bind_def split: outcome.split)

lemma send_bits:
  assumes "rtc_idle b" and "k < 8"
  shows "for_each [0..<k] (\<lambda>i. send_rtc (bit v i)) b
    = Ok () (set_rtc (\<lambda>r. r\<lparr>rtc_cmd := take_bit k v, rtc_cnt_w := k\<rparr>) b)"
  using assms(2)
proof (induction k)
  case 0
  then show ?case using assms(1) by (simp add: rtc_idle_def set_rtc_def)
next
  case (Suc k)
  then have "send_rtc (bit v k) (set_rtc (\<lambda>r. r\<lparr>rtc_cmd := take_bit k v, rtc_cnt_w := k\<rparr>) b)
    = Ok () (set_rtc (\<lambda>r. r\<lparr>rtc_cmd := take_bit (Suc k) v, rtc_cnt_w := Suc k\<rparr>) b)"
    by (simp add: send_rtc_def rtc_mod_set take_bit_next del: part_mod_run)
  with Suc show ?case by (simp add: for_each_append)
qed

lemma send_byte_run:
  assumes "rtc_idle b"
  shows "send_byte v b = rtc_command (rtc_lists (rtc (dev b)) @ [v])
    (set_rtc (\<lambda>r. r\<lparr>rtc_lists := rtc_lists r @ [v]\<rparr>) b)"
proof -
  let ?b = "set_rtc (\<lambda>r. r\<lparr>rtc_cmd := take_bit 7 v, rtc_cnt_w := 7\<rparr>) b"
  have v: "take_bit 8 v = v" by (rule bit_word_eqI) (simp add: bit_simps)
  have "set_rtc (\<lambda>r. r\<lparr>rtc_cnt_w := 0, rtc_lists := rtc_lists r @ [v], rtc_cmd := 0\<rparr>) b
      = set_rtc (\<lambda>r. r\<lparr>rtc_lists := rtc_lists r @ [v]\<rparr>) b"
    using assms by (simp add: set_rtc_def rtc_idle_def)
  then have "send_rtc (bit v 7) ?b = rtc_command (rtc_lists (rtc (dev b)) @ [v])
    (set_rtc (\<lambda>r. r\<lparr>rtc_lists := rtc_lists r @ [v]\<rparr>) b)"
    by (simp add: send_rtc_def rtc_mod_set take_bit_next v del: part_mod_run)
  moreover have "[0..<8] = [0..<7] @ [7 :: nat]" by (simp add: upt_rec)
  ultimately show ?thesis
    using send_bits [OF assms, of 7 v] by (simp add: send_byte_def for_each_append seq_return)
qed

lemma recv_bits:
  assumes "rtc_cnt_r (rtc (dev b)) = 0" and "k \<le> 8"
  shows "fold_each [0..<k] 0 (\<lambda>i w. bind recv_rtc (\<lambda>p. return (set_to i p w))) b
    = Ok (take_bit k (rtc_val (rtc (dev b)))) (set_rtc (\<lambda>r. r\<lparr>rtc_cnt_r := k\<rparr>) b)"
  using assms(2)
proof (induction k)
  case 0
  then show ?case using assms(1) by (simp add: set_rtc_def)
next
  case (Suc k)
  then have "set_to k (bit (rtc_val (rtc (dev b))) k) (take_bit k (rtc_val (rtc (dev b)))) = take_bit (Suc k) (rtc_val (rtc (dev b)))"
    by (intro bit_word_eqI) (auto simp: bit_set_to bit_simps)
  with Suc show ?case by (simp add: fold_each_append recv_rtc_def rtc_mod_set del: part_mod_run)
qed


section \<open>What the guest can do with it\<close>

lemma short_register:
  fixes r :: u8
  assumes "r < 32" and "r AND 0xe \<noteq> 0xe"
  shows "push_bit 2 r AND 0xB8 \<noteq> 0xB8" "push_bit 2 r AND 0xB8 \<noteq> 0x38" "push_bit 2 r AND 0x80 = 0"
    "drop_bit 2 (push_bit 2 r) AND 0x1f = r"
    "(push_bit 2 r OR 0x80) AND 0xB8 \<noteq> 0xB8" "(push_bit 2 r OR 0x80) AND 0xB8 \<noteq> 0x38"
    "(push_bit 2 r OR 0x80) AND 0x80 \<noteq> 0" "drop_bit 2 (push_bit 2 r OR 0x80) AND 0x1f = r"
proof -
  have "unat r < 32" using assms(1) by (simp add: word_less_nat_alt)
  then have "r \<in> of_nat ` set [0..<32]" by (auto intro!: image_eqI [of _ _ "unat r"])
  moreover have "\<forall>r \<in> of_nat ` set [0..<32]. r AND 0xe \<noteq> (0xe :: u8) \<longrightarrow>
     push_bit 2 r AND 0xB8 \<noteq> 0xB8 \<and> push_bit 2 r AND 0xB8 \<noteq> 0x38 \<and> push_bit 2 r AND 0x80 = 0 \<and>
    drop_bit 2 (push_bit 2 r) AND 0x1f = r \<and>
    (push_bit 2 r OR 0x80) AND 0xB8 \<noteq> 0xB8 \<and> (push_bit 2 r OR 0x80) AND 0xB8 \<noteq> 0x38 \<and>
    (push_bit 2 r OR 0x80) AND 0x80 \<noteq> 0 \<and> drop_bit 2 (push_bit 2 r OR 0x80) AND 0x1f = r"
    by (simp add: upt_rec)
  ultimately show "push_bit 2 r AND 0xB8 \<noteq> 0xB8" "push_bit 2 r AND 0xB8 \<noteq> 0x38" "push_bit 2 r AND 0x80 = 0"
    "drop_bit 2 (push_bit 2 r) AND 0x1f = r"
    "(push_bit 2 r OR 0x80) AND 0xB8 \<noteq> 0xB8" "(push_bit 2 r OR 0x80) AND 0xB8 \<noteq> 0x38"
    "(push_bit 2 r OR 0x80) AND 0x80 \<noteq> 0" "drop_bit 2 (push_bit 2 r OR 0x80) AND 0x1f = r"
    using assms(2) by blast+
qed

text \<open>
  C37. A byte written to a register of the parameter memory by a short command, bit by bit over
  the serial line, comes back bit by bit from a short read of the same register, for every
  register from 8 to 31 whose number does not select the extended commands.
\<close>

theorem pram_roundtrip:
  assumes "rtc_idle b" and "rtc_lists (rtc (dev b)) = []"
    and "8 \<le> r" and "r < 32" and "r AND 0xe \<noteq> 0xe"
  shows "\<exists>b'. seq (send_byte (push_bit 2 r)) (send_byte v) b = Ok () b' \<and>
    (\<exists>b''. seq (send_byte (push_bit 2 r OR 0x80)) recv_byte b' = Ok v b'')"
proof -
  note s = short_register [OF assms(4,5)]
  let ?c = "push_bit 2 r" and ?d = "push_bit 2 r OR 0x80"
  define b1 where "b1 = set_rtc (\<lambda>r. r\<lparr>rtc_lists := [?c]\<rparr>) b"
  define b2 where "b2 = set_rtc (\<lambda>q. q\<lparr>XPRAM := (XPRAM q)(r := v), rtc_lists := []\<rparr>) b"
  define b3 where "b3 = set_rtc (\<lambda>q. q\<lparr>rtc_val := v, rtc_cnt_r := 0, rtc_lists := []\<rparr>) b2"
  have idle: "rtc_idle b1" "rtc_idle b2" using assms(1) by (simp_all add: b1_def b2_def rtc_idle_def)
  have "send_byte ?c b = Ok () b1"
    using s(1-3) assms(2) by (simp add: send_byte_run [OF assms(1)] rtc_command_def b1_def set_rtc_def)
  moreover have "send_byte v b1 = Ok () b2"
    unfolding send_byte_run [OF idle(1)] using s(1-4) by (simp add: rtc_command_def do_rtc_def xpram_write_def rtc_clear_def
        rtc_mod_set b1_def b2_def del: part_mod_run)
  moreover have "send_byte ?d b2 = Ok () b3"
    unfolding send_byte_run [OF idle(2)] using s(5-8) assms(3) by (simp add: rtc_command_def do_rtc_def xpram_read_def rtc_answer_def
        rtc_mod_set b2_def b3_def del: part_mod_run)
  moreover have "recv_byte b3 = Ok (take_bit 8 v) (set_rtc (\<lambda>r. r\<lparr>rtc_cnt_r := 8\<rparr>) b3)"
    unfolding recv_byte_def using recv_bits [of b3 8] by (simp add: b3_def)
  moreover have "take_bit 8 v = v" by (rule bit_word_eqI) (simp add: bit_simps)
  ultimately show ?thesis by auto
qed

theorem pram_roundtrip_witness:
  "\<exists>b' b''. seq (send_byte 0x24) (send_byte 0x5a) devs_bus = Ok () b' \<and>
    seq (send_byte 0xa4) recv_byte b' = Ok 0x5a b''"
  using pram_roundtrip [of devs_bus 9 "0x5a"] by (auto simp: rtc_idle_def devs_bus_def devs_static_def)

text \<open>
  The extended commands do not work: the code runs them one byte early. An extended write
  stores zero in its register when the address byte arrives, whatever value follows.
\<close>

theorem extended_write_stores_zero:
  assumes "rtc_idle b" and "rtc_lists (rtc (dev b)) = []" and "cmd AND 0xB8 = 0x38"
  shows "\<exists>b'. seq (send_byte cmd) (send_byte param) b = Ok () b' \<and> rtc_idle b' \<and>
    XPRAM (rtc (dev b')) = (XPRAM (rtc (dev b)))(xpram_reg cmd param := 0) \<and> rtc_lists (rtc (dev b')) = []"
proof -
  have c: "cmd AND 0xB8 \<noteq> 0xB8" "cmd AND 0x80 = 0"
  proof -
    have "(cmd AND 0xB8) AND 0x80 = 0" using assms(3) by simp
    then show "cmd AND 0x80 = 0" by (simp add: and.assoc)
  qed (simp add: assms(3))
  define b1 where "b1 = set_rtc (\<lambda>r. r\<lparr>rtc_lists := [cmd]\<rparr>) b"
  have idle: "rtc_idle b1" using assms(1) by (simp add: b1_def rtc_idle_def)
  have "send_byte cmd b = Ok () b1"
    using c assms(2,3) by (simp add: send_byte_run [OF assms(1)] rtc_command_def b1_def set_rtc_def)
  moreover have "send_byte param b1 = Ok () (set_rtc (\<lambda>q. q\<lparr>XPRAM := (XPRAM q)(xpram_reg cmd param := 0), rtc_lists := []\<rparr>) b)"
    unfolding send_byte_run [OF idle] using c assms(3) by (simp add: rtc_command_def do_rtc_def xpram_write_def rtc_clear_def
        rtc_mod_set b1_def del: part_mod_run)
  ultimately show ?thesis using assms(1) by (auto simp: rtc_idle_def)
qed

theorem extended_write_stores_zero_witness:
  "\<exists>b'. seq (send_byte 0x39) (send_byte 0x40) devs_bus = Ok () b' \<and> XPRAM (rtc (dev b')) 0x30 = 0"
  using extended_write_stores_zero [of devs_bus "0x39" "0x40"]
  by (auto simp: rtc_idle_def devs_bus_def devs_static_def xpram_reg_def)

end
