(* ===== verification/Adb.thy ===== *)
theory Adb
  imports Rtc
begin

text \<open>
  The desktop bus: src/ebus/adb.cc. The first interface adapter shifts bytes in and out;
  \<open>transmitAdb\<close> collects the bytes of a command and \<open>adb_run\<close> executes it against the mouse
  and the keyboard, whose answer \<open>adb_in\<close> hands out byte by byte. The keyboard's queue is filled
  by the events of the host.
\<close>

unbundle bit_operations_syntax

section \<open>The transceiver\<close>

definition do_adb_irq :: "unit device" where
  "do_adb_irq = recieve_sr VIA1"

definition adb_in :: "u8 device" where
  "adb_in = bind (dget (\<lambda>d. buf (adb d))) (\<lambda>l. case l of
       [] \<Rightarrow> seq do_adb_irq (dget (\<lambda>d. adb_in_v (adb d)))
     | v # vs \<Rightarrow> seq (adb_mod (\<lambda>a. a\<lparr>adb_in_v := v, buf := vs\<rparr>)) (seq do_adb_irq (return v)))"

text \<open>Element access of a command; outside of the vector it has no meaning.\<close>

definition byte_at :: "u8 list \<Rightarrow> nat \<Rightarrow> u8 device" where
  "byte_at b i = (if i < length b then return (b ! i) else throw Undefined)"

section \<open>The mouse\<close>

definition ADBMouse_new :: ADBMouse where
  "ADBMouse_new = \<lparr>mouse_reg3_0 = 0x63, mouse_reg3_1 = 0x01, old_mx = 0, old_my = 0\<rparr>"

definition mouse_mod :: "(ADBMouse \<Rightarrow> ADBMouse) \<Rightarrow> unit device" where
  "mouse_mod f = adb_mod (\<lambda>a. a\<lparr>adb_mouse := map_option f (adb_mouse a)\<rparr>)"

definition mouse_flush :: "unit device" where
  "mouse_flush = return ()"

text \<open>\<open>v\<close> is the command from its second byte on.\<close>

definition mouse_listen :: "nat \<Rightarrow> u8 list \<Rightarrow> unit device" where
  "mouse_listen reg v =
     (if reg = 3 then
        bind (byte_at v 1) (\<lambda>v1.
        if v1 = 0xfe then
          bind (byte_at v 0) (\<lambda>v0. mouse_mod (\<lambda>m. m\<lparr>mouse_reg3_0 := (mouse_reg3_0 m AND 0xf0) OR (v0 AND 0x0f)\<rparr>))
        else if v1 = 1 \<or> v1 = 2 \<or> v1 = 4 then
          bind (byte_at v 2) (\<lambda>v2. mouse_mod (\<lambda>m. m\<lparr>mouse_reg3_1 := v2\<rparr>))
        else if v1 = 0 then
          bind (byte_at v 0) (\<lambda>v0. mouse_mod (\<lambda>m. m\<lparr>mouse_reg3_0 := (mouse_reg3_0 m AND 0xd0) OR (v0 AND 0x2f)\<rparr>))
        else return ())
      else return ())"

text \<open>Conversion of a float to an integer.\<close>

definition truncate :: "rat \<Rightarrow> int" where
  "truncate x = (if 0 \<le> x then floor x else ceiling x)"

definition mouse_packet :: "int \<Rightarrow> int \<Rightarrow> u32 \<Rightarrow> u8 list" where
  "mouse_packet dx dy btn =
     [word_of_int ((dx AND 0x7f) OR (if btn AND 1 \<noteq> 0 then 0 else 0x80)),
      word_of_int ((dy AND 0x7f) OR (if btn AND 4 \<noteq> 0 then 0 else 0x80)),
      word_of_int ((drop_bit 3 dy AND 0x70) OR (drop_bit 7 dx AND 0x07) OR (if btn AND 2 \<noteq> 0 then 0x08 else 0x88))]"

definition mouse_talk :: "ADBMouse \<Rightarrow> nat \<Rightarrow> u8 list device" where
  "mouse_talk m reg =
     (if reg = 0 then
        bind (ask SDL_GetMouseState) (\<lambda>(x, y, btn).
        seq (mouse_mod (\<lambda>m. m\<lparr>old_mx := truncate x, old_my := truncate y\<rparr>))
            (return (mouse_packet (truncate (x - of_int (old_mx m))) (truncate (y - of_int (old_my m))) btn)))
      else if reg = 1 then return [0x61, 0x70, 0x70, 0x6c, 1, 44, 1, 3]
      else if reg = 3 then
        bind (ask rand) (\<lambda>r.
        return [(mouse_reg3_0 m AND 0xf0) OR (ucast r AND 0x0f), mouse_reg3_1 m])
      else return [])"

section \<open>The keyboard\<close>

definition ADBKeyboard_new :: ADBKeyboard where
  "ADBKeyboard_new = \<lparr>kbd_reg2_0 = 0xff, kbd_reg2_1 = 0xff, kbd_reg3_0 = 0x62, kbd_reg3_1 = 0x05\<rparr>"

definition kbd_mod :: "(ADBKeyboard \<Rightarrow> ADBKeyboard) \<Rightarrow> unit device" where
  "kbd_mod f = adb_mod (\<lambda>a. a\<lparr>adb_keyboard := map_option f (adb_keyboard a)\<rparr>)"

definition kbd_flush :: "unit device" where
  "kbd_flush = adb_mod (\<lambda>a. a\<lparr>keys := []\<rparr>)"

definition kbd_listen :: "nat \<Rightarrow> u8 list \<Rightarrow> unit device" where
  "kbd_listen reg v =
     (if reg = 2 then
        bind (byte_at v 0) (\<lambda>v0. seq (kbd_mod (\<lambda>k. k\<lparr>kbd_reg2_0 := v0\<rparr>))
       (bind (byte_at v 1) (\<lambda>v1. kbd_mod (\<lambda>k. k\<lparr>kbd_reg2_1 := v1\<rparr>))))
      else if reg = 3 then
        bind (byte_at v 1) (\<lambda>v1.
        if v1 = 0xfe then
          bind (byte_at v 0) (\<lambda>v0. kbd_mod (\<lambda>k. k\<lparr>kbd_reg3_0 := (kbd_reg3_0 k AND 0xf0) OR (v0 AND 0x0f)\<rparr>))
        else if v1 = 0 then
          bind (byte_at v 0) (\<lambda>v0. kbd_mod (\<lambda>k. k\<lparr>kbd_reg3_0 := (kbd_reg3_0 k AND 0xd0) OR (v0 AND 0x2f)\<rparr>))
        else return ())
      else return ())"

text \<open>The values of the host's modifier bits.\<close>

definition kbd_modifiers :: "u8 \<Rightarrow> u16 \<Rightarrow> bool \<Rightarrow> u8 list" where
  "kbd_modifiers r m del =
     [(((((((0xff
        AND (if m AND 0x0400 \<noteq> 0 then NOT 0x01 else 0xff))
        AND (if m AND 0x0100 \<noteq> 0 then NOT 0x02 else 0xff))
        AND (if m AND 0x0001 \<noteq> 0 then NOT 0x04 else 0xff))
        AND (if m AND 0x0040 \<noteq> 0 then NOT 0x08 else 0xff))
        AND (if m AND 0x2000 \<noteq> 0 then NOT 0x20 else 0xff))
        AND (if del then NOT 0x40 else 0xff))),
      ((r OR 0xf8)
        AND (if m AND 0x8000 \<noteq> 0 then NOT 0x40 else 0xff))
        AND (if m AND 0x1000 \<noteq> 0 then NOT 0x80 else 0xff)]"

text \<open>Two keys at a time leave the queue; \<open>0xff\<close> stands for a missing one.\<close>

fun next_keys :: "u8 list \<Rightarrow> u8 list \<times> u8 list" where
  "next_keys [] = ([0xff, 0xff], [])"
| "next_keys [v] = ([v, 0xff], [])"
| "next_keys (v # w # ks) = ([v, w], ks)"

definition kbd_talk :: "ADBKeyboard \<Rightarrow> nat \<Rightarrow> u8 list device" where
  "kbd_talk k reg =
     (if reg = 0 then
        bind (dget (\<lambda>d. next_keys (keys (adb d)))) (\<lambda>(out, ks).
        seq (adb_mod (\<lambda>a. a\<lparr>keys := ks\<rparr>)) (return (1 # out)))
      else if reg = 2 then
        bind (ask SDL_GetModState) (\<lambda>m.
        bind (ask delete_down) (\<lambda>del.
        return (1 # kbd_modifiers (kbd_reg2_1 k) m del)))
      else if reg = 3 then
        bind (ask rand) (\<lambda>r.
        return [1, 1, (kbd_reg3_0 k AND 0xf0) OR (ucast r AND 0x0f), kbd_reg3_1 k])
      else return [1])"

section \<open>Commands\<close>

definition adb_reset :: "unit device" where
  "adb_reset = adb_mod (\<lambda>a. a\<lparr>adb_mouse := Some ADBMouse_new, adb_keyboard := Some ADBKeyboard_new\<rparr>)"

definition adb_attention :: "unit device" where
  "adb_attention = seq (adb_mod (\<lambda>a. a\<lparr>buf := [1]\<rparr>)) do_adb_irq"

text \<open>
  The body of the loop over the devices, for one that answers to the address: the methods of
  the device are arguments. The result says whether \<open>adb_run\<close> has returned.
\<close>

definition adb_device ::
  "unit device \<Rightarrow> (nat \<Rightarrow> u8 list \<Rightarrow> unit device) \<Rightarrow> (nat \<Rightarrow> u8 list device) \<Rightarrow>
   nat \<Rightarrow> nat \<Rightarrow> u8 list \<Rightarrow> bool device" where
  "adb_device flush listen talk cmd reg b =
     (if cmd = 2 \<and> \<not> (cmd = 0 \<and> reg = 1) then seq (listen reg (drop 1 b)) (return True)
      else
        seq (if cmd = 0 \<and> reg = 1 then flush
             else if cmd = 3 then bind (talk reg) (\<lambda>l. adb_mod (\<lambda>a. a\<lparr>buf := l @ [0]\<rparr>))
             else return ())
       (seq (adb_mod (\<lambda>a. a\<lparr>buf := buf a @ [1]\<rparr>))
       (seq do_adb_irq (return False))))"

definition adb_run :: "u8 list \<Rightarrow> unit device" where
  "adb_run b =
     (if b = [] then return ()
      else
        let v = b ! 0; adr = drop_bit 4 v; cmd = unat (drop_bit 2 v AND 3); reg = unat (v AND 3) in
        if cmd = 0 \<and> reg = 0 then adb_reset
        else if v = 1 then
          seq (adb_mod (\<lambda>a. a\<lparr>adb_xprammode := True, buf := [1, 0]\<rparr>)) do_adb_irq
        else if v = 7 then
          bind (byte_at b 1) (\<lambda>_. bind (byte_at b 2) (\<lambda>lo. bind (byte_at b 3) (\<lambda>x. xpram_write lo x)))
        else if v = 12 then
          bind (byte_at b 1) (\<lambda>_. bind (byte_at b 2) (\<lambda>lo. bind (xpram_read lo) (\<lambda>x.
          seq (adb_mod (\<lambda>a. a\<lparr>buf := [1, 0, 0, 7, x, 0]\<rparr>)) do_adb_irq)))
        else
          bind (dget (\<lambda>d. adb_mouse (adb d))) (\<lambda>m.
          bind (case m of
                  Some m' \<Rightarrow> if adr = mouse_reg3_0 m' AND 0x0f
                    then adb_device mouse_flush mouse_listen (mouse_talk m') cmd reg b else return False
                | None \<Rightarrow> return False) (\<lambda>done.
          if done then return ()
          else
            bind (dget (\<lambda>d. adb_keyboard (adb d))) (\<lambda>k.
            seq (case k of
                   Some k' \<Rightarrow> if adr = kbd_reg3_0 k' AND 0x0f
                     then adb_device kbd_flush kbd_listen (kbd_talk k') cmd reg b else return False
                 | None \<Rightarrow> return False)
                (return ())))))"

definition recieveAdb :: "u8 \<Rightarrow> u8 device" where
  "recieveAdb adbState =
     (if adbState = 0 then seq (adb_mod (\<lambda>a. a\<lparr>buf := []\<rparr>)) (return 0)
      else if adbState = 1 \<or> adbState = 2 then adb_in
      else if adbState = 3 then return 0
      else throw Undefined)"

text \<open>\<open>adb_run(adb_buf); adb_buf.clear();\<close>\<close>

definition adb_flush_run :: "unit device" where
  "adb_flush_run = bind (dget (\<lambda>d. adb_buf (adb d))) (\<lambda>b.
     seq (adb_run b) (adb_mod (\<lambda>a. a\<lparr>adb_buf := []\<rparr>)))"

definition transmitAdb :: "u8 \<Rightarrow> u8 \<Rightarrow> unit device" where
  "transmitAdb adbState v =
     seq do_adb_irq
    (seq (whenM (adbState = 0)
           (bind (dget (\<lambda>d. adb_buf (adb d))) (\<lambda>b.
            seq (whenM (b \<noteq> []) adb_flush_run) (adb_mod (\<lambda>a. a\<lparr>adb_buf := []\<rparr>)))))
    (if v = 1 then
       bind (dget (\<lambda>d. adb_buf (adb d))) (\<lambda>b. if b \<noteq> [] then adb_flush_run else adb_attention)
     else whenM (v \<noteq> 0) (adb_mod (\<lambda>a. a\<lparr>adb_buf := adb_buf a @ [v]\<rparr>))))"

section \<open>Events of the host\<close>

text \<open>The key codes; a scan code is written as the name that follows \<open>SDL_SCANCODE_\<close>.\<close>

definition mac_keys :: "string \<Rightarrow> u8 option" where
  "mac_keys = map_of
    [(''ESCAPE'', 0x35), (''F1'', 0x7a), (''F2'', 0x78), (''F3'', 0x63), (''F4'', 0x76),
     (''F5'', 0x60), (''F6'', 0x61), (''F7'', 0x62), (''F8'', 0x64), (''F9'', 0x65),
     (''F10'', 0x6d), (''F11'', 0x67), (''F12'', 0x6f), (''PRINTSCREEN'', 0x69),
     (''SCROLLLOCK'', 0x6b), (''PAUSE'', 0x71), (''GRAVE'', 0x32), (''1'', 0x12), (''2'', 0x13),
     (''3'', 0x14), (''4'', 0x15), (''5'', 0x16), (''6'', 0x17), (''7'', 0x1a), (''8'', 0x1c),
     (''9'', 0x19), (''0'', 0x1d), (''MINUS'', 0x1b), (''EQUALS'', 0x1e), (''BACKSPACE'', 0x33),
     (''INSERT'', 0x72), (''HOME'', 0x73), (''PAGEUP'', 0x74), (''NUMLOCKCLEAR'', 0x47),
     (''KP_EQUALS'', 0x51), (''KP_DIVIDE'', 0x4b), (''KP_MULTIPLY'', 0x43), (''TAB'', 0x30),
     (''Q'', 0x0c), (''W'', 0x0d), (''E'', 0x0e), (''R'', 0x0f), (''T'', 0x11), (''Y'', 0x10),
     (''U'', 0x20), (''I'', 0x22), (''O'', 0x1f), (''P'', 0x23), (''LEFTBRACKET'', 0x21),
     (''RIGHTBRACKET'', 0x1e), (''BACKSLASH'', 0x2a), (''DELETE'', 0x75), (''END'', 0x77),
     (''PAGEDOWN'', 0x79), (''KP_7'', 0x59), (''KP_8'', 0x5b), (''KP_9'', 0x5c),
     (''KP_MINUS'', 0x4e), (''CAPSLOCK'', 0x39), (''A'', 0x00), (''S'', 0x01), (''D'', 0x02),
     (''F'', 0x03), (''G'', 0x05), (''H'', 0x04), (''J'', 0x26), (''K'', 0x28), (''L'', 0x25),
     (''SEMICOLON'', 0x29), (''APOSTROPHE'', 0x27), (''RETURN'', 0x24), (''KP_4'', 0x56),
     (''KP_5'', 0x57), (''KP_6'', 0x58), (''KP_PLUS'', 0x45), (''LSHIFT'', 0x38), (''Z'', 0x06),
     (''X'', 0x07), (''C'', 0x08), (''V'', 0x09), (''B'', 0x0b), (''N'', 0x2d), (''M'', 0x2e),
     (''COMMA'', 0x2b), (''PERIOD'', 0x2c), (''RSHIFT'', 0x7b), (''UP'', 0x3e), (''KP_1'', 0x53),
     (''KP_2'', 0x54), (''KP_3'', 0x55), (''LCTRL'', 0x36), (''LGUI'', 0x3a), (''LALT'', 0x37),
     (''SPACE'', 0x31), (''RALT'', 0x7c), (''RCTRL'', 0x7d), (''LEFT'', 0x3b), (''DOWN'', 0x3d),
     (''RIGHT'', 0x3c), (''KP_0'', 0x52), (''KP_PERIOD'', 0x41), (''KP_ENTER'', 0x4c)]"

definition keydown :: "string \<Rightarrow> unit device" where
  "keydown e =
     seq (case mac_keys e of Some k \<Rightarrow> adb_mod (\<lambda>a. a\<lparr>keys := keys a @ [k]\<rparr>) | None \<Rightarrow> return ()) do_adb_irq"

definition keyup :: "string \<Rightarrow> unit device" where
  "keyup e =
     seq (case mac_keys e of Some k \<Rightarrow> adb_mod (\<lambda>a. a\<lparr>keys := remove1 k (keys a)\<rparr>) | None \<Rightarrow> return ()) do_adb_irq"

end
