(* ===== verification/Via.thy ===== *)
theory Via
  imports Adb
begin

text \<open>
  The two versatile interface adapters: src/chip/via.cc and include/chip/via.hpp, with the
  pins the two derived classes wire to the rest of the machine, and the stub \<open>RBV\<close> of the same
  file. The port and timer callbacks of the host run between two instructions.
\<close>

unbundle bit_operations_syntax

section \<open>Pins\<close>

definition scc_wait_req :: "devs \<Rightarrow> bool" where
  "scc_wait_req d \<longleftrightarrow> \<not> (vSCCWrReq (scc_ch (scc d) chA) \<or> vSCCWrReq (scc_ch (scc d) chB))"

definition MACHINE_CODE2 :: "bool list" where
  "MACHINE_CODE2 = [False, False, False, True]"

definition NuBusInput :: u8 where
  "NuBusInput = 0"

definition VIA1_readPA :: "nat \<Rightarrow> devs \<Rightarrow> bool" where
  "VIA1_readPA n d =
     (if n = 0 then (if appleTalkDebugEnabled (pins d) then appleTalkDebug (pins d) else True)
      else if n = 1 then MACHINE_CODE2 ! 0
      else if n = 2 then MACHINE_CODE2 ! 1
      else if n = 4 then MACHINE_CODE2 ! 2
      else if n = 6 then MACHINE_CODE2 ! 3
      else if n = 7 then scc_wait_req d
      else False)"

definition VIA1_readPB :: "nat \<Rightarrow> devs \<Rightarrow> bool" where
  "VIA1_readPB n d =
     (if n = 5 then adb_state1 (pins d)
      else if n = 4 then adb_state0 (pins d)
      else if n = 3 then True
      else if n = 0 then via_rtc_val (pins d)
      else False)"

definition VIA2_readPA :: "nat \<Rightarrow> devs \<Rightarrow> bool" where
  "VIA2_readPA n d = False"

definition VIA2_readPB :: "nat \<Rightarrow> devs \<Rightarrow> bool" where
  "VIA2_readPB n d =
     (if n = 4 then NuBusInput AND 2 \<noteq> 0
      else if n = 5 then NuBusInput AND 1 \<noteq> 0
      else False)"

fun readPA :: "via_id \<Rightarrow> nat \<Rightarrow> devs \<Rightarrow> bool" where
  "readPA VIA1 = VIA1_readPA" | "readPA VIA2 = VIA2_readPA"

fun readPB :: "via_id \<Rightarrow> nat \<Rightarrow> devs \<Rightarrow> bool" where
  "readPB VIA1 = VIA1_readPB" | "readPB VIA2 = VIA2_readPB"

text \<open>An edge on \<open>CB1\<close> or \<open>CA1\<close> latches the port.\<close>

definition recieve_cb1 :: "via_id \<Rightarrow> unit device" where
  "recieve_cb1 w =
     dmod (\<lambda>d. if PB_LATCH (vias d w)
       then upd_via w (\<lambda>r. r\<lparr>irb := bitset8 (\<lambda>i. if bit (dirb r) i then bit (irb r) i else readPB w i d)\<rparr>) d
       else d)"

definition recieve_ca1 :: "via_id \<Rightarrow> unit device" where
  "recieve_ca1 w =
     dmod (\<lambda>d. if PA_LATCH (vias d w)
       then upd_via w (\<lambda>r. r\<lparr>ira := bitset8 (\<lambda>i. readPA w i d)\<rparr>) d
       else d)"

text \<open>
  Pin 4 of port A copies the ROM over the RAM; \<open>memcpy\<close> beyond the RAM has no meaning. The
  second adapter has no output on port A.
\<close>

definition overlay :: "unit device" where
  "overlay =
     bind (gets ROMSize) (\<lambda>n. bind (gets RAMSize) (\<lambda>m.
     if n \<le> m then modify (\<lambda>b. b\<lparr>RAM := (\<lambda>i. if i < n then ROM b i else RAM b i)\<rparr>)
     else throw Undefined))"

definition VIA1_writePA :: "nat \<Rightarrow> bool \<Rightarrow> unit device" where
  "VIA1_writePA n v =
     (if n = 4 then whenM v overlay
      else if n = 1 then pins_mod (\<lambda>p. p\<lparr>appleTalkDebug := v\<rparr>)
      else return ())"

definition VIA2_writePA :: "nat \<Rightarrow> bool \<Rightarrow> unit device" where
  "VIA2_writePA n v = return ()"

text \<open>The state lines of the desktop bus; \<open>sr\<close> shifts in or out according to \<open>ACR\<close>.\<close>

definition change_state :: "u8 \<Rightarrow> unit device" where
  "change_state s =
     bind (dget (\<lambda>d. old_state (pins d))) (\<lambda>old.
     seq (pins_mod (\<lambda>p. p\<lparr>old_state := s\<rparr>))
         (whenM (old \<noteq> s)
           (bind (dget (\<lambda>d. sr_c (vias d VIA1))) (\<lambda>c.
            if c \<noteq> DISABLED \<and> SR_C_int c AND 4 = 0 then
              seq (recieve_sr VIA1)
             (bind (recieveAdb s) (\<lambda>v. via_mod VIA1 (\<lambda>r. r\<lparr>sr := v\<rparr>)))
            else
              bind (dget (\<lambda>d. sr (vias d VIA1))) (transmitAdb s)))))"

definition VIA1_writePB :: "nat \<Rightarrow> bool \<Rightarrow> unit device" where
  "VIA1_writePB n v =
     (if n = 4 then pins_mod (\<lambda>p. p\<lparr>adb_state0 := v\<rparr>)
      else if n = 5 then
        seq (pins_mod (\<lambda>p. p\<lparr>adb_state1 := v\<rparr>))
       (bind (dget (\<lambda>d. push_bit 1 (of_bool (adb_state1 (pins d))) OR of_bool (adb_state0 (pins d)))) change_state)
      else if n = 2 then pins_mod (\<lambda>p. p\<lparr>rtcEnable := \<not> v\<rparr>)
      else if n = 1 then
        bind (dget (\<lambda>d. rtcEnable (pins d))) (\<lambda>en.
        whenM en
          (bind (dget (\<lambda>d. rtc_clock (pins d))) (\<lambda>clk.
           seq (whenM (clk \<noteq> v \<and> clk)
                 (bind (dget (\<lambda>d. bit (dirb (vias d VIA1)) 0)) (\<lambda>out.
                  if out then bind (dget (\<lambda>d. via_rtc_val (pins d))) send_rtc
                  else bind recv_rtc (\<lambda>x. pins_mod (\<lambda>p. p\<lparr>via_rtc_val := x\<rparr>)))))
               (pins_mod (\<lambda>p. p\<lparr>rtc_clock := v\<rparr>)))))
      else if n = 0 then
        bind (dget (\<lambda>d. rtcEnable (pins d))) (\<lambda>en. whenM en (pins_mod (\<lambda>p. p\<lparr>via_rtc_val := v\<rparr>)))
      else return ())"

text \<open>src/main.cc, \<open>do_poweroff\<close>: \<open>quick_exit\<close>.\<close>

definition do_poweroff :: "unit device" where
  "do_poweroff = throw Terminated"

definition VIA2_writePB :: "nat \<Rightarrow> bool \<Rightarrow> unit device" where
  "VIA2_writePB n v =
     (if n = 7 then recieve_ca1 VIA1
      else if n = 2 then whenM (\<not> v) do_poweroff
      else return ())"

fun writePA :: "via_id \<Rightarrow> nat \<Rightarrow> bool \<Rightarrow> unit device" where
  "writePA VIA1 = VIA1_writePA" | "writePA VIA2 = VIA2_writePA"

fun writePB :: "via_id \<Rightarrow> nat \<Rightarrow> bool \<Rightarrow> unit device" where
  "writePB VIA1 = VIA1_writePB" | "writePB VIA2 = VIA2_writePB"

section \<open>Registers\<close>

definition flags_off :: "via_id \<Rightarrow> VIA_IRQ list \<Rightarrow> unit device" where
  "flags_off w is = via_mod w (\<lambda>r. r\<lparr>IF := foldl (\<lambda>f i. set_to (VIA_IRQ_int i) False f) (IF r) is\<rparr>)"

text \<open>A counter runs down with the host's clock from the value it was loaded with.\<close>

definition counter :: "(VIA \<Rightarrow> u16) \<Rightarrow> (VIA \<Rightarrow> u64) \<Rightarrow> via_id \<Rightarrow> u64 device" where
  "counter cnt base w =
     bind GetVIACounter (\<lambda>t. dget (\<lambda>d. ucast (cnt (vias d w)) - (t - base (vias d w))))"

definition ACR_byte :: "VIA \<Rightarrow> u8" where
  "ACR_byte r = push_bit 7 (of_bool (PB7_ENABLE r)) OR push_bit 6 (of_bool (T1_REP r))
     OR push_bit 5 (of_bool (T2_CTL r)) OR push_bit 2 (of_nat (SR_C_int (sr_c r)))
     OR push_bit 1 (of_bool (PB_LATCH r)) OR of_bool (PA_LATCH r)"

definition PCR_byte :: "VIA \<Rightarrow> u8" where
  "PCR_byte r = push_bit 5 (of_nat (C2_CTL_int (CB2_CTL r))) OR push_bit 4 (of_bool (CB1_CTL r))
     OR push_bit 1 (of_nat (C2_CTL_int (CA2_CTL r))) OR of_bool (CA1_CTL r)"

definition IF_byte :: "7 word \<Rightarrow> u8" where
  "IF_byte f = (ucast f AND 0x7f) OR push_bit 7 (of_bool (f \<noteq> 0))"

text \<open>The pins of a port as read: register 0 and registers 15 and 1.\<close>

definition port_B :: "via_id \<Rightarrow> devs \<Rightarrow> u8" where
  "port_B w d = (let r = vias d w in
     bitset8 (\<lambda>i. if bit (dirb r) i then bit (orb r) i
                  else if PB_LATCH r then bit (irb r) i else readPB w i d))"

definition port_A15 :: "via_id \<Rightarrow> devs \<Rightarrow> u8" where
  "port_A15 w d = (let r = vias d w in
     bitset8 (\<lambda>i. if bit (dira r) i then bit (ira r) i else readPA w i d))"

definition VIA_read :: "via_id \<Rightarrow> u32 \<Rightarrow> u8 device" where
  "VIA_read w n =
     (if n = 0 then seq (flags_off w [CB1, CB2]) (dget (port_B w))
      else if n = 15 then dget (port_A15 w)
      else if n = 1 then
        seq (flags_off w [CA1, CA2])
            (dget (\<lambda>d. if PA_LATCH (vias d w) then ira (vias d w) else bitset8 (\<lambda>i. readPA w i d)))
      else if n = 2 then dget (\<lambda>d. dirb (vias d w))
      else if n = 3 then dget (\<lambda>d. dira (vias d w))
      else if n = 4 then seq (flags_off w [TIMER1]) (bind (counter timer1_cnt timer1_base w) (\<lambda>c. return (ucast (c AND 0xff))))
      else if n = 5 then bind (counter timer1_cnt timer1_base w) (\<lambda>c. return (ucast (drop_bit 8 c)))
      else if n = 6 then dget (\<lambda>d. ucast (timer1_latch (vias d w)))
      else if n = 7 then dget (\<lambda>d. ucast (drop_bit 8 (timer1_latch (vias d w))))
      else if n = 8 then seq (flags_off w [TIMER2]) (bind (counter timer2_cnt timer2_base w) (\<lambda>c. return (ucast (c AND 0xff))))
      else if n = 9 then bind (counter timer2_cnt timer2_base w) (\<lambda>c. return (ucast (drop_bit 8 c)))
      else if n = 10 then seq (flags_off w [SR]) (dget (\<lambda>d. sr (vias d w)))
      else if n = 11 then dget (\<lambda>d. ACR_byte (vias d w))
      else if n = 12 then dget (\<lambda>d. PCR_byte (vias d w))
      else if n = 13 then dget (\<lambda>d. IF_byte (IF (vias d w)))
      else if n = 14 then dget (\<lambda>d. 0x80 OR ucast (IE (vias d w)))
      else return 0)"

text \<open>
  Timer 1 and timer 2 of the host: the callbacks. Timer 1 is armed again when the interval it
  returns is not 0.
\<close>

definition via_timer1_callback :: "via_id \<Rightarrow> unit device" where
  "via_timer1_callback w =
     bind GetVIACounter (\<lambda>t.
     seq (via_mod w (\<lambda>r. r\<lparr>timer1_base := t\<rparr>))
    (seq (irq w TIMER1)
    (bind (dget (\<lambda>d. PB7_ENABLE (vias d w))) (\<lambda>e. whenM e (writePB w 7 True)))))"

definition via_timer1_again :: "VIA \<Rightarrow> bool" where
  "via_timer1_again r \<longleftrightarrow> T1_REP r \<and> timer1_cnt r \<noteq> 0"

definition via_timer2_callback :: "via_id \<Rightarrow> unit device" where
  "via_timer2_callback w =
     bind GetVIACounter (\<lambda>t.
     seq (via_mod w (\<lambda>r. r\<lparr>timer2_base := t\<rparr>))
         (irq w TIMER2))"

definition low_byte :: "u16 \<Rightarrow> u8 \<Rightarrow> u16" where
  "low_byte l v = (l AND 0xff00) OR ucast v"

definition high_byte :: "u16 \<Rightarrow> u8 \<Rightarrow> u16" where
  "high_byte l v = (l AND 0xff) OR push_bit 8 (ucast v)"

text \<open>One pin of a port that is written to, and one of a direction register.\<close>

definition out_B :: "via_id \<Rightarrow> nat \<Rightarrow> bool \<Rightarrow> unit device" where
  "out_B w i p =
     bind (dget (\<lambda>d. bit (dirb (vias d w)) i)) (\<lambda>out.
     if out then writePB w i p else via_mod w (\<lambda>r. r\<lparr>orb := set_to i p (orb r)\<rparr>))"

definition out_A :: "via_id \<Rightarrow> nat \<Rightarrow> bool \<Rightarrow> unit device" where
  "out_A w i p =
     bind (dget (\<lambda>d. bit (dira (vias d w)) i)) (\<lambda>out.
     if out then writePA w i p else via_mod w (\<lambda>r. r\<lparr>ora := set_to i p (ora r)\<rparr>))"

definition dir_B :: "via_id \<Rightarrow> nat \<Rightarrow> bool \<Rightarrow> unit device" where
  "dir_B w i p =
     seq (via_mod w (\<lambda>r. r\<lparr>dirb := set_to i p (dirb r)\<rparr>))
         (whenM p (bind (dget (\<lambda>d. bit (orb (vias d w)) i)) (writePB w i)))"

definition dir_A :: "via_id \<Rightarrow> nat \<Rightarrow> bool \<Rightarrow> unit device" where
  "dir_A w i p =
     seq (via_mod w (\<lambda>r. r\<lparr>dira := set_to i p (dira r)\<rparr>))
         (whenM p (bind (dget (\<lambda>d. bit (ora (vias d w)) i)) (writePA w i)))"

text \<open>The interrupt enable register: bit 7 says whether the other bits set or clear.\<close>

definition write_IE :: "u8 \<Rightarrow> 7 word \<Rightarrow> 7 word" where
  "write_IE v ie = foldl (\<lambda>e i. if bit v i then set_to i (bit v 7) e else e) ie [0..<7]"

definition VIA_write :: "via_id \<Rightarrow> u32 \<Rightarrow> u8 \<Rightarrow> unit device" where
  "VIA_write w n v =
     (if n = 0 then seq (flags_off w [CB1, CB2]) (for_each [0..<8] (\<lambda>i. out_B w i (bit v i)))
      else if n = 1 then seq (flags_off w [CA1, CA2]) (for_each [0..<8] (\<lambda>i. out_A w i (bit v i)))
      else if n = 15 then for_each [0..<8] (\<lambda>i. out_A w i (bit v i))
      else if n = 2 then for_each [0..<8] (\<lambda>i. dir_B w i (bit v i))
      else if n = 3 then for_each [0..<8] (\<lambda>i. dir_A w i (bit v i))
      else if n = 4 \<or> n = 6 then via_mod w (\<lambda>r. r\<lparr>timer1_latch := low_byte (timer1_latch r) v\<rparr>)
      else if n = 7 then via_mod w (\<lambda>r. r\<lparr>timer1_latch := high_byte (timer1_latch r) v\<rparr>)
      else if n = 5 then
        seq (via_mod w (\<lambda>r. r\<lparr>timer1_cnt := high_byte (timer1_latch r) v, timer1_latch := high_byte (timer1_latch r) v\<rparr>))
       (seq (flags_off w [TIMER1])
       (bind GetVIACounter (\<lambda>t. via_mod w (\<lambda>r. r\<lparr>timer1_base := t, timer1 := True\<rparr>))))
      else if n = 8 then via_mod w (\<lambda>r. r\<lparr>timer2_latch := low_byte (timer2_latch r) v\<rparr>)
      else if n = 9 then
        seq (via_mod w (\<lambda>r. r\<lparr>timer2_cnt := high_byte (timer2_latch r) v, timer2_latch := high_byte (timer2_latch r) v\<rparr>))
       (seq (flags_off w [TIMER2])
       (bind GetVIACounter (\<lambda>t. via_mod w (\<lambda>r. r\<lparr>timer2_base := t, timer2 := True\<rparr>))))
      else if n = 10 then
        seq (flags_off w [SR])
            (via_mod w (\<lambda>r. if SR_C_int (sr_c r) AND 4 \<noteq> 0 then r\<lparr>sr := v\<rparr> else r))
      else if n = 11 then
        via_mod w (\<lambda>r. r\<lparr>PB7_ENABLE := bit v 7, T1_REP := bit v 6, T2_CTL := bit v 5,
          sr_c := SR_C_of (unat (drop_bit 2 v AND 7)), PB_LATCH := bit v 1, PA_LATCH := bit v 0\<rparr>)
      else if n = 12 then
        via_mod w (\<lambda>r. r\<lparr>CB2_CTL := C2_CTL_of (unat (drop_bit 5 v AND 7)), CB1_CTL := bit v 4,
          CA2_CTL := C2_CTL_of (unat (drop_bit 1 v AND 7)), CA1_CTL := bit v 0\<rparr>)
      else if n = 13 then via_mod w (\<lambda>r. r\<lparr>IF := ucast v\<rparr>)
      else if n = 14 then via_mod w (\<lambda>r. r\<lparr>IE := write_IE v (IE r)\<rparr>)
      else return ())"

section \<open>The RBV stub\<close>

definition RBV_read :: "u32 \<Rightarrow> u8 device" where
  "RBV_read n = bind (dget rbv) (\<lambda>r.
     if n = 0 then return (rbufB r)
     else if n = 1 then return (rExp r)
     else if n = 2 then return (rSIFR r)
     else if n = 3 then return ((ucast (rIFR r) AND 0x7f) OR push_bit 7 (of_bool (rIFR r \<noteq> 0)))
     else if n = 0x10 then return (rMonP r)
     else if n = 0x11 then return (rChpT r)
     else if n = 0x12 then return (rSIER r)
     else if n = 0x13 then return (0x80 OR ucast (rIER r))
     else throw BusError)"

definition rbv_mod :: "(RBV \<Rightarrow> RBV) \<Rightarrow> unit device" where
  "rbv_mod f = dmod (\<lambda>d. d\<lparr>rbv := f (rbv d)\<rparr>)"

definition RBV_write :: "u32 \<Rightarrow> u8 \<Rightarrow> unit device" where
  "RBV_write n v =
     (if n = 0 then rbv_mod (\<lambda>r. r\<lparr>rbufB := v\<rparr>)
      else if n = 1 then rbv_mod (\<lambda>r. r\<lparr>rExp := v\<rparr>)
      else if n = 2 then rbv_mod (\<lambda>r. r\<lparr>rSIFR := v\<rparr>)
      else if n = 3 then rbv_mod (\<lambda>r. r\<lparr>rIFR := ucast v\<rparr>)
      else if n = 0x10 then rbv_mod (\<lambda>r. r\<lparr>rMonP := v\<rparr>)
      else if n = 0x11 then rbv_mod (\<lambda>r. r\<lparr>rChpT := v\<rparr>)
      else if n = 0x12 then rbv_mod (\<lambda>r. r\<lparr>rSIER := v\<rparr>)
      else if n = 0x13 then
        rbv_mod (\<lambda>r. r\<lparr>rIER := foldl (\<lambda>e i. if bit v i then set_to i (bit v 7) e else e) (rIER r) [0..<5]\<rparr>)
      else throw BusError)"

end
