(* ===== verification/Scc.thy ===== *)
theory Scc
  imports Via
begin

text \<open>
  The serial controller: src/chip/scc.cc, include/chip/scc.hpp and the two ports of
  src/ebus/serial.cc. The register numbers that a \<open>switch\<close> of the source sends to
  \<open>__builtin_unreachable\<close> have no meaning.
\<close>

unbundle bit_operations_syntax

datatype SCC_IRQ = CH_B_SEND | CH_B_EX | CH_B_RECV | CH_B_SPECIAL
  | CH_A_SEND | CH_A_EX | CH_A_RECV | CH_A_SPECIAL

fun SCC_IRQ_int :: "SCC_IRQ \<Rightarrow> nat" where
  "SCC_IRQ_int CH_B_SEND = 0" | "SCC_IRQ_int CH_B_EX = 1" | "SCC_IRQ_int CH_B_RECV = 2"
| "SCC_IRQ_int CH_B_SPECIAL = 3" | "SCC_IRQ_int CH_A_SEND = 4" | "SCC_IRQ_int CH_A_EX = 5"
| "SCC_IRQ_int CH_A_RECV = 6" | "SCC_IRQ_int CH_A_SPECIAL = 7"

text \<open>src/ebus/serial.cc: nothing is sent yet.\<close>

definition sendModemPort :: "u8 list \<Rightarrow> unit device" where
  "sendModemPort v = return ()"

definition sendPrinterPort :: "u8 list \<Rightarrow> unit device" where
  "sendPrinterPort v = return ()"

definition ch_get :: "scc_chan \<Rightarrow> (SccCh \<Rightarrow> 'a) \<Rightarrow> 'a device" where
  "ch_get c f = dget (\<lambda>d. f (scc_ch (scc d) c))"

section \<open>Interrupts\<close>

text \<open>
  \<open>raise_irq\<close>: the body of the cases of \<open>doIrq\<close>: what is pending, what leaves \<open>ius\<close>, and the
  interrupt. Only the case of the receiver of channel A has no test of \<open>ius\<close>.
\<close>

definition raise_irq :: "u8 \<Rightarrow> u8 \<Rightarrow> unit device" where
  "raise_irq pending served =
     seq (scc_mod (\<lambda>s. s\<lparr>irqPending := irqPending s OR pending, ius := ius s AND NOT served\<rparr>))
         (do_irq 4)"

definition when_ius :: "u8 \<Rightarrow> unit device \<Rightarrow> unit device" where
  "when_ius m r = bind (dget (\<lambda>d. ius (scc d) AND NOT m = 0)) (\<lambda>free. whenM free r)"

fun irq_case :: "SCC_IRQ \<Rightarrow> unit device" where
  "irq_case CH_A_RECV = raise_irq 0x20 0x20"
| "irq_case CH_A_SEND = when_ius 0x10 (raise_irq 0x20 0x10)"
| "irq_case CH_A_EX = when_ius 0x08 (raise_irq 0x08 0x10)"
| "irq_case CH_A_SPECIAL = when_ius 0x08 (raise_irq 0x08 0x10)"
| "irq_case CH_B_RECV = when_ius 0x04 (raise_irq 0x04 0x04)"
| "irq_case CH_B_SEND = when_ius 0x02 (raise_irq 0x04 0x02)"
| "irq_case CH_B_EX = when_ius 0x01 (raise_irq 0x01 0x02)"
| "irq_case CH_B_SPECIAL = when_ius 0x01 (raise_irq 0x01 0x02)"

definition doIrq :: "SCC_IRQ \<Rightarrow> unit device" where
  "doIrq which =
     seq (scc_mod (\<lambda>s. s\<lparr>ius := 0x3f\<rparr>))
    (bind (dget (\<lambda>d. masterIrqCtl (scc d))) (\<lambda>m.
     whenM (bit m 3)
       (let vecH = (if bit m 4 then 4 else 1) in
        seq (scc_mod (\<lambda>s. s\<lparr>intVec := (intVec s AND NOT (push_bit vecH 7)) OR push_bit vecH (of_nat (SCC_IRQ_int which))\<rparr>))
            (irq_case which))))"

definition special :: "scc_chan \<Rightarrow> SCC_IRQ" where
  "special c = (if c = chB then CH_B_SPECIAL else CH_A_SPECIAL)"

section \<open>Channels\<close>

definition nextRecvData :: "scc_chan \<Rightarrow> u8 device" where
  "nextRecvData c =
     seq (ch_mod c (\<lambda>h. case inBuf h of
            v # vs \<Rightarrow> h\<lparr>lastInBuf := v, inBuf := vs\<rparr>
          | [] \<Rightarrow> if bit (wR1 h) 7 \<and> \<not> bit (wR1 h) 6 \<and> bit (wR1 h) 5 then h\<lparr>vSCCWrReq := False\<rparr> else h))
         (ch_get c lastInBuf)"

definition SccCh_reset :: "scc_chan \<Rightarrow> unit device" where
  "SccCh_reset c =
     seq (ch_mod c (\<lambda>h. h\<lparr>wR1 := wR1 h AND 0x24, recvParam := recvParam h AND NOT 1,
            sendParam1 := sendParam1 h OR 3, sendParam2 := sendParam2 h AND 0x61\<rparr>))
    (seq (scc_mod (\<lambda>s. s\<lparr>masterIrqCtl := 0xC0 OR (masterIrqCtl s AND 3)\<rparr>))
         (ch_mod c (\<lambda>h. h\<lparr>miscCtl := 0, clkCtl := 0x8, miscCtl2 := (miscCtl2 h AND 0xC0) OR 0x30,
            exIrqCtl := 0xf8, bufStatus := (bufStatus h AND 0xB8) OR 0x44,
            specialRecvStatus := (specialRecvStatus h AND 1) OR 6, miscStatus := miscStatus h AND 0x40\<rparr>)))"

definition eom :: "scc_chan \<Rightarrow> unit device" where
  "eom c = doIrq (special c)"

text \<open>Whether a received byte interrupts: bits 3 and 4 of write register 1.\<close>

definition recv_irq :: "scc_chan \<Rightarrow> SccCh \<Rightarrow> unit device" where
  "recv_irq c h =
     (let md = drop_bit 3 (wR1 h) AND 3; i = (if c = chB then CH_B_RECV else CH_A_RECV) in
      if md = 2 then whenM (\<not> recvFirstLetter h) (doIrq i)
      else if md = 1 then
        seq (ch_mod c (\<lambda>h. h\<lparr>recvFirstLetter := True\<rparr>))
            (whenM (\<not> recvFirstLetter h)
              (bind (ch_get c recvFirstLetter) (\<lambda>f. whenM (\<not> f) (doIrq i))))
      else return ())"

text \<open>A byte arrives from the line.\<close>

definition recvData :: "scc_chan \<Rightarrow> u8 \<Rightarrow> unit device" where
  "recvData c v =
     seq (ch_mod c (\<lambda>h. if bit (wR1 h) 7 \<and> inBuf h = [] then h\<lparr>vSCCWrReq := bit (wR1 h) 6\<rparr> else h))
    (bind (ch_get c (\<lambda>h. h)) (\<lambda>h.
     if length (inBuf h) < 8 then
       if bit (recvParam h) 1 \<and> syncLetter h AND 0xff = ucast v then return ()
       else
         seq (ch_mod c (\<lambda>h. h\<lparr>inBuf := inBuf h @ [v], bufStatus := bufStatus h OR 1\<rparr>))
             (recv_irq c h)
     else
       seq (ch_mod c (\<lambda>h. h\<lparr>specialRecvStatus := specialRecvStatus h OR 0x20\<rparr>))
           (doIrq (special c))))"

definition SccCh_read :: "scc_chan \<Rightarrow> nat \<Rightarrow> u8 device" where
  "SccCh_read c addr =
     seq (scc_mod (\<lambda>s. s\<lparr>curReg := 0\<rparr>))
    (if addr = 0 \<or> addr = 4 then ch_get c bufStatus
     else if addr = 1 \<or> addr = 5 then ch_get c specialRecvStatus
     else if addr = 2 \<or> addr = 6 then dget (\<lambda>d. intVec (scc d))
     else if addr = 3 \<or> addr = 7 then (if c = chB then return 0 else dget (\<lambda>d. irqPending (scc d)))
     else if addr = 8 then nextRecvData c
     else if addr = 9 \<or> addr = 13 then ch_get c (\<lambda>h. ucast (drop_bit 8 (baudCnt h)))
     else if addr = 10 \<or> addr = 14 then ch_get c miscCtl
     else if addr = 11 \<or> addr = 15 then ch_get c exIrqCtl
     else if addr = 12 then ch_get c (\<lambda>h. ucast (baudCnt h AND 0xff))
     else throw Undefined)"

definition send_port :: "scc_chan \<Rightarrow> u8 list \<Rightarrow> unit device" where
  "send_port c v = (if c = chB then sendPrinterPort v else sendModemPort v)"

definition sendDataImpl :: "scc_chan \<Rightarrow> u8 \<Rightarrow> unit device" where
  "sendDataImpl c v =
     seq (ch_mod c (\<lambda>h. h\<lparr>outBuf := outBuf h @ [v]\<rparr>))
    (bind (ch_get c outBuf) (\<lambda>out.
     seq (whenM (length out = 4)
           (seq (send_port c out)
           (seq (doIrq (if c = chB then CH_B_SEND else CH_A_SEND))
                (ch_mod c (\<lambda>h. h\<lparr>outBuf := []\<rparr>)))))
         (ch_mod c (\<lambda>h. h\<lparr>vSCCWrReq := True\<rparr>))))"

text \<open>\<open>ius\<close> with everything below its highest bit set, shifted, and cut to what it was.\<close>

definition reset_highest :: "u8 \<Rightarrow> u8" where
  "reset_highest i =
     (let a = i OR drop_bit 1 i; b = a OR drop_bit 2 a; c = b OR drop_bit 4 b in drop_bit 1 c AND i)"

text \<open>The commands of write register 0, bits 3 to 5.\<close>

definition scc_command :: "scc_chan \<Rightarrow> nat \<Rightarrow> unit device" where
  "scc_command c k =
     (if k = 0 then return ()
      else if k = 1 then scc_mod (\<lambda>s. s\<lparr>curReg := or (curReg s) 8\<rparr>)
      else if k = 2 then ch_mod c (\<lambda>h. h\<lparr>rr0_is_latched := False\<rparr>)
      else if k = 3 then ch_mod c (\<lambda>h. h\<lparr>outBuf := [], bufStatus := bufStatus h OR 0x40\<rparr>)
      else if k = 4 then
        seq (ch_mod c (\<lambda>h. h\<lparr>recvFirstLetter := False\<rparr>))
       (bind (ch_get c inBuf) (\<lambda>l. whenM (l \<noteq> []) (doIrq (if c = chB then CH_B_RECV else CH_A_RECV))))
      else if k = 5 then
        seq (bind (ch_get c outBuf) (send_port c)) (ch_mod c (\<lambda>h. h\<lparr>outBuf := []\<rparr>))
      else if k = 6 then ch_mod c (\<lambda>h. h\<lparr>specialRecvStatus := 0\<rparr>)
      else scc_mod (\<lambda>s. s\<lparr>ius := reset_highest (ius s)\<rparr>))"

definition SccCh_write :: "scc_chan \<Rightarrow> nat \<Rightarrow> u8 \<Rightarrow> unit device" where
  "SccCh_write c addr v =
     seq (scc_mod (\<lambda>s. s\<lparr>curReg := 0\<rparr>))
    (if addr = 0 then
       seq (whenM (drop_bit 6 v = 3) (ch_mod c (\<lambda>h. h\<lparr>bufStatus := bufStatus h AND NOT 0x40\<rparr>)))
      (seq (scc_mod (\<lambda>s. s\<lparr>curReg := unat (v AND 3)\<rparr>))
           (scc_command c (unat (drop_bit 3 v AND 7))))
     else if addr = 1 then
       seq (whenM (\<not> bit v 7) (ch_mod c (\<lambda>h. h\<lparr>vSCCWrReq := True\<rparr>)))
           (ch_mod c (\<lambda>h. h\<lparr>wR1 := v\<rparr>))
     else if addr = 2 then scc_mod (\<lambda>s. s\<lparr>intVec := v\<rparr>)
     else if addr = 3 then return ()
     else if addr = 8 then sendDataImpl c v
     else throw Undefined)"

section \<open>The bus side\<close>

definition SCC_read :: "u32 \<Rightarrow> u8 device" where
  "SCC_read addr =
     (if addr = 0 then bind (dget (\<lambda>d. curReg (scc d))) (SccCh_read chB)
      else if addr = 1 then bind (dget (\<lambda>d. curReg (scc d))) (SccCh_read chA)
      else if addr = 2 then nextRecvData chB
      else if addr = 3 then nextRecvData chA
      else throw Undefined)"

definition SCC_write :: "u32 \<Rightarrow> u8 \<Rightarrow> unit device" where
  "SCC_write addr v =
     (if addr = 0 then bind (dget (\<lambda>d. curReg (scc d))) (\<lambda>r. SccCh_write chB r v)
      else if addr = 1 then bind (dget (\<lambda>d. curReg (scc d))) (\<lambda>r. SccCh_write chA r v)
      else if addr = 2 then sendDataImpl chB v
      else if addr = 3 then sendDataImpl chA v
      else throw Undefined)"

definition scc_reset :: "unit device" where
  "scc_reset = seq (SccCh_reset chA) (SccCh_reset chB)"

section \<open>The interrupts in one equation\<close>

text \<open>
  \<open>ius\<close> has just been filled when the cases test it, so all of them but the one of the receiver
  of channel A find it occupied.
\<close>

definition irq_scc :: "SCC_IRQ \<Rightarrow> SCC \<Rightarrow> SCC" where
  "irq_scc w s =
     (if bit (masterIrqCtl s) 3 then
        let h = (if bit (masterIrqCtl s) 4 then 4 else 1);
            s' = s\<lparr>ius := 0x3f, intVec := (intVec s AND NOT (push_bit h 7)) OR push_bit h (of_nat (SCC_IRQ_int w))\<rparr> in
        if w = CH_A_RECV then s'\<lparr>ius := 0x1f, irqPending := irqPending s OR 0x20\<rparr> else s'
      else s\<lparr>ius := 0x3f\<rparr>)"

lemma doIrq_run:
  "doIrq w b = Ok () (let b' = b\<lparr>dev := (dev b)\<lparr>scc := irq_scc w (scc (dev b))\<rparr>\<rparr> in
     if bit (masterIrqCtl (scc (dev b))) 3 \<and> w = CH_A_RECV then b'\<lparr>stopping := False, inturrupt := 4\<rparr> else b')"
proof (cases "bit (masterIrqCtl (scc (dev b))) 3")
  case False
  then show ?thesis by (simp add: doIrq_def irq_scc_def)
next
  case True
  then show ?thesis
    by (cases w) (simp_all add: doIrq_def irq_scc_def Let_def when_ius_def raise_irq_def do_irq_def)
qed

end
