(* ===== verification/Asc.thy ===== *)
theory Asc
  imports Scc
begin

text \<open>
  The sound chip: src/chip/asc.cc, include/chip/asc.hpp and the byte selectors of
  include/io.hpp. What goes to the host's audio streams is logged; volumes, frequencies and the
  pausing of the streams are the host's. The timers of a channel and the callback of the wave
  table run on threads of the host, between two instructions.
\<close>

unbundle bit_operations_syntax

section \<open>Byte selectors\<close>

definition SET_B1_W :: "u16 \<Rightarrow> u8 \<Rightarrow> u16" where
  "SET_B1_W v b = (v AND 0x00ff) OR push_bit 8 (ucast b)"

definition SET_B2_W :: "u16 \<Rightarrow> u8 \<Rightarrow> u16" where
  "SET_B2_W v b = (v AND 0xff00) OR ucast b"

definition GET_B1_W :: "u16 \<Rightarrow> u8" where
  "GET_B1_W v = ucast (drop_bit 8 v)"

definition GET_B2_W :: "u16 \<Rightarrow> u8" where
  "GET_B2_W v = ucast v"

definition SET_Bn :: "u32 \<Rightarrow> u8 \<Rightarrow> nat \<Rightarrow> u32" where
  "SET_Bn v b n = (v AND NOT (push_bit ((3 - n) * 8) 0xff)) OR push_bit ((3 - n) * 8) (ucast b)"

definition GET_Bn :: "u32 \<Rightarrow> nat \<Rightarrow> u8" where
  "GET_Bn v n = ucast (drop_bit ((3 - n) * 8) v)"

section \<open>Channels\<close>

definition snd_get :: "scc_chan \<Rightarrow> (ASC_CH \<Rightarrow> 'a) \<Rightarrow> 'a device" where
  "snd_get c f = dget (\<lambda>d. f (asc_ch (asc d) c))"

text \<open>\<open>FIFO[i]\<close>, an array of 0x400 bytes.\<close>

definition fifo_at :: "scc_chan \<Rightarrow> nat \<Rightarrow> u8 device" where
  "fifo_at c i = (if i < 0x400 then snd_get c (\<lambda>h. FIFO h i) else throw Undefined)"

definition fifo_put :: "scc_chan \<Rightarrow> nat \<Rightarrow> u8 \<Rightarrow> unit device" where
  "fifo_put c i v = (if i < 0x400 then snd_mod c (\<lambda>h. h\<lparr>FIFO := (FIFO h)(i := v)\<rparr>) else throw Undefined)"

definition ASC_CH_reset :: "scc_chan \<Rightarrow> unit device" where
  "ASC_CH_reset c = snd_mod c (\<lambda>h. h\<lparr>FIFO := (\<lambda>i. if i < 0x400 then 0 else FIFO h i),
     FIFO_READP := 0, FIFO_WRITEP := 0, fifo_half := False, fifo_full := False,
     xa_last0 := 0, xa_last1 := 0\<rparr>)"

text \<open>A sample rate of 0 makes the interval of the timers infinite, which no integer is.\<close>

definition set_fifotimer :: "scc_chan \<Rightarrow> unit device" where
  "set_fifotimer c =
     bind (snd_get c SAMPLE_RATE) (\<lambda>r.
     if r = 0 then throw Undefined else snd_mod c (\<lambda>h. h\<lparr>timerH := True, timerF := True\<rparr>))"

definition timerH_callback :: "scc_chan \<Rightarrow> unit device" where
  "timerH_callback c =
     seq (snd_mod c (\<lambda>h. h\<lparr>fifo_half := True\<rparr>))
    (seq (bind (snd_get c IRQ_CTL) (\<lambda>e. whenM e (irq VIA2 CB1)))
         (snd_mod c (\<lambda>h. h\<lparr>timerH := False\<rparr>)))"

definition timerF_callback :: "scc_chan \<Rightarrow> unit device" where
  "timerF_callback c =
     seq (snd_mod c (\<lambda>h. h\<lparr>fifo_full := True\<rparr>))
    (seq (bind (snd_get c IRQ_CTL) (\<lambda>e. whenM e (irq VIA2 CB1)))
         (snd_mod c (\<lambda>h. h\<lparr>timerF := False\<rparr>)))"

text \<open>The samples of a full buffer, left and right in turn.\<close>

definition sample :: "u8 \<Rightarrow> u8 \<Rightarrow> u16" where
  "sample v vol = ucast ((ucast v * ucast vol :: u32) XOR 0x8000)"

definition samples :: "ASC_CH \<Rightarrow> u16 list" where
  "samples h = concat (map (\<lambda>i. [sample (FIFO h i) (left_vol h), sample (FIFO h i) (right_vol h)]) [0..<0x400])"

definition fifo_write :: "scc_chan \<Rightarrow> u8 \<Rightarrow> unit device" where
  "fifo_write c v =
     seq (bind (snd_get c FIFO_WRITEP) (\<lambda>p. fifo_put c (unat p) v))
    (seq (snd_mod c (\<lambda>h. h\<lparr>FIFO_WRITEP := (FIFO_WRITEP h + 1) AND 0x3ff\<rparr>))
    (seq (snd_mod c (\<lambda>h. h\<lparr>fifo_half := FIFO_WRITEP h \<le> 0x1ff\<rparr>))
    (bind (snd_get c FIFO_WRITEP) (\<lambda>p.
     seq (bind (snd_get c IRQ_CTL) (\<lambda>e. whenM (p = 0x200 \<and> e) (irq VIA2 CB1)))
         (whenM (p = 0)
           (seq (snd_mod c (\<lambda>h. h\<lparr>fifo_full := True\<rparr>))
           (seq (irq VIA2 CB1)
           (bind (snd_get c samples) (\<lambda>out.
            seq (set_fifotimer c)
                (snd_mod c (\<lambda>h. h\<lparr>played := played h @ [out]\<rparr>)))))))))))"

definition read_reg :: "scc_chan \<Rightarrow> u32 \<Rightarrow> u8 device" where
  "read_reg c t = snd_get c (\<lambda>h.
     if t = 4 then GET_B1_W (SAMPLE_RATE h)
     else if t = 5 then GET_B2_W (SAMPLE_RATE h)
     else if t = 6 then left_vol h
     else if t = 7 then right_vol h
     else if t = 8 then push_bit 7 (of_bool (fifo_cdxa h))
     else if t = 9 then of_bool (IRQ_CTL h)
     else if 0x10 \<le> t \<and> t \<le> 0x17 then CD_XA_const h (unat (t AND 0x7))
     else 0)"

definition setSampleRate :: "u16 \<Rightarrow> ASC_CH \<Rightarrow> ASC_CH" where
  "setSampleRate rate h = h\<lparr>SAMPLE_RATE := rate\<rparr>"

definition write_reg :: "scc_chan \<Rightarrow> u32 \<Rightarrow> u8 \<Rightarrow> unit device" where
  "write_reg c t v = snd_mod c (\<lambda>h.
     if t = 4 then setSampleRate (SET_B1_W (SAMPLE_RATE h) v) h
     else if t = 5 then setSampleRate (SET_B2_W (SAMPLE_RATE h) v) h
     else if t = 6 then h\<lparr>left_vol := v\<rparr>
     else if t = 7 then h\<lparr>right_vol := v\<rparr>
     else if t = 8 then h\<lparr>fifo_cdxa := bit v 1\<rparr>
     else if t = 9 then h\<lparr>IRQ_CTL := bit v 0\<rparr>
     else if 0x10 \<le> t \<and> t \<le> 0x17 then h\<lparr>CD_XA_const := (CD_XA_const h)(unat (t AND 0x0f) := v)\<rparr>
     else h)"

section \<open>Compressed sound\<close>

definition fifo_read :: "scc_chan \<Rightarrow> u8 device" where
  "fifo_read c =
     bind (snd_get c FIFO_READP) (\<lambda>p.
     if p = 0 then return 0
     else
       bind (fifo_at c (unat p)) (\<lambda>v.
       let q = (p + 1) AND 0x3ff in
       seq (snd_mod c (\<lambda>h. h\<lparr>FIFO_READP := q, fifo_half := 0x1ff < q\<rparr>))
      (seq (bind (snd_get c IRQ_CTL) (\<lambda>e. whenM (q = 0x1ff \<and> e) (irq VIA2 CB1)))
      (seq (whenM (q = 0) (seq (snd_mod c (\<lambda>h. h\<lparr>fifo_full := True\<rparr>)) (irq VIA2 CB1)))
           (return v)))))"

definition clamp :: "int \<Rightarrow> int \<Rightarrow> int \<Rightarrow> int" where
  "clamp t lo hi = (if t < lo then lo else if hi < t then hi else t)"

text \<open>\<open>CD_XA_const\<close> has eight elements; the filter number selects up to the sixteenth.\<close>

definition cdxa_read :: "scc_chan \<Rightarrow> u8 device" where
  "cdxa_read c =
     bind (snd_get c xa_cnt) (\<lambda>n.
     seq (if n = -1 then bind (fifo_read c) (\<lambda>f. snd_mod c (\<lambda>h. h\<lparr>xa_flags := f, xa_cnt := 0\<rparr>)) else return ())
    (bind (snd_get c id) (\<lambda>h.
     let shift = unat (xa_flags h AND 0xf); filt = unat (drop_bit 5 (xa_flags h)) in
     if 4 \<le> filt then throw Undefined
     else
       let f0 = uint (CD_XA_const h (filt * 2 + 1)); f1 = uint (CD_XA_const h (filt * 2)) in
       bind (if even (xa_cnt h) then
               bind (fifo_read c) (\<lambda>x. seq (snd_mod c (\<lambda>h. h\<lparr>xa_val := x\<rparr>))
                 (return (sint (push_bit 12 (ucast (x AND 0xf)) :: u16))))
             else return (sint (push_bit 8 (ucast (xa_val h AND 0xf0)) :: u16))) (\<lambda>d.
       let t = clamp (drop_bit shift d + drop_bit 6 (xa_last0 h * f0 + xa_last1 h * f1 + 32)) (-32768) 23767 in
       seq (snd_mod c (\<lambda>h. h\<lparr>xa_last1 := xa_last0 h, xa_last0 := t,
              xa_cnt := (if xa_cnt h + 1 = 28 then -1 else xa_cnt h + 1)\<rparr>))
           (return (word_of_int (if t < 0 then - ((- t) div 256) else t div 256)))))))"

section \<open>The wave table\<close>

definition advance :: "ASC \<Rightarrow> ASC" where
  "advance s = s\<lparr>phase := (\<lambda>i. if i < 4 \<and> bit (wav_run s) i then (phase s i + incr s i) AND 0xffffff else phase s i)\<rparr>"

definition wave_sample :: "u8 device" where
  "wave_sample =
     bind (dget (\<lambda>d. phase (asc d))) (\<lambda>p.
     bind (fifo_at chA (unat (drop_bit 15 (p 0)))) (\<lambda>a.
     bind (fifo_at chA (unat (drop_bit 15 (p 1) OR 0x200))) (\<lambda>b.
     bind (fifo_at chB (unat (drop_bit 15 (p 2)))) (\<lambda>c.
     bind (fifo_at chB (unat (drop_bit 15 (p 3) OR 0x200))) (\<lambda>d.
     return (ucast (drop_bit 2 (ucast a + ucast b + ucast c + ucast d :: u16))))))))"

definition do_wave :: "nat \<Rightarrow> unit device" where
  "do_wave additional_amount =
     bind (fold_each [0..<additional_amount] [] (\<lambda>i out.
       seq (asc_mod advance) (bind wave_sample (\<lambda>x. return (out @ [x]))))) (\<lambda>out.
     asc_mod (\<lambda>s. s\<lparr>wave_out := wave_out s @ [out]\<rparr>))"

definition asc_wave_read :: "int \<Rightarrow> unit device" where
  "asc_wave_read additional_amount = whenM (0 < additional_amount) (do_wave (nat additional_amount))"

section \<open>The bus side\<close>

definition ASC_reset :: "unit device" where
  "ASC_reset =
     seq (ASC_CH_reset chA) (seq (ASC_CH_reset chB)
    (asc_mod (\<lambda>s. s\<lparr>phase := (\<lambda>i. if i < 4 then 0 else phase s i), incr := (\<lambda>i. if i < 4 then 0 else incr s i)\<rparr>)))"

text \<open>The next byte of the recording; at the end of the buffer the host fills it again.\<close>

definition record_read :: "u8 device" where
  "record_read =
     bind (bind (snd_get chA FIFO_READP) (\<lambda>p. fifo_at chA (unat p))) (\<lambda>v.
     seq (snd_mod chA (\<lambda>h. h\<lparr>FIFO_READP := (FIFO_READP h + 1) AND 0x3ff\<rparr>))
    (bind (dget (\<lambda>d. chA_is_mic (asc d) \<and> FIFO_READP (asc_ch (asc d) chA) = 0)) (\<lambda>again.
     seq (whenM again
           (bind (ask mic_data) (\<lambda>l.
            snd_mod chA (\<lambda>h. h\<lparr>FIFO := (\<lambda>i. if i < 1024 \<and> i < length l then l ! i else FIFO h i)\<rparr>))))
         (return (v XOR 0x80)))))"

definition fifo_flags :: "ASC \<Rightarrow> u8" where
  "fifo_flags s = of_bool (fifo_half (asc_ch s chA)) OR push_bit 1 (of_bool (fifo_full (asc_ch s chA)))
     OR push_bit 2 (of_bool (fifo_half (asc_ch s chB))) OR push_bit 3 (of_bool (fifo_full (asc_ch s chB)))"

definition set_fifo_flags :: "bool \<Rightarrow> bool \<Rightarrow> bool \<Rightarrow> bool \<Rightarrow> unit device" where
  "set_fifo_flags ha fa hb fb =
     seq (snd_mod chA (\<lambda>h. h\<lparr>fifo_half := ha, fifo_full := fa\<rparr>))
         (snd_mod chB (\<lambda>h. h\<lparr>fifo_half := hb, fifo_full := fb\<rparr>))"

text \<open>
  The registers from 0x10 on: four voices of a phase and an increment, four bytes each. The
  first byte of each is written but reads 0.
\<close>

definition voice :: "u32 \<Rightarrow> nat" where
  "voice k = unat (drop_bit 3 (k - 0x10))"

definition ASC_read :: "u32 \<Rightarrow> u8 device" where
  "ASC_read addr =
     (if addr < 0x400 then
        bind (dget (\<lambda>d. asc_mode (asc d))) (\<lambda>m. if m = 1 then record_read else fifo_at chA (unat addr))
      else if addr < 0x800 then
        bind (dget (\<lambda>d. asc_mode (asc d))) (\<lambda>m. if m = 2 then fifo_at chB (unat (addr AND 0x3ff)) else return 0)
      else if addr AND 0xF30 = 0xF00 then read_reg chA (addr AND 0x1F)
      else if addr AND 0xF30 = 0xF20 then read_reg chB (addr AND 0x1F)
      else
        let k = addr AND 0x3f in
        if k = 0 then dget (\<lambda>d. if isEASC (asc d) then 0xB0 else 0)
        else if k = 1 then dget (\<lambda>d. asc_mode (asc d))
        else if k = 2 then dget (\<lambda>d. push_bit 7 (of_bool (overflow (asc d))))
        else if k = 4 then
          seq (flags_off VIA2 [CB1])
         (bind (dget (\<lambda>d. fifo_flags (asc d))) (\<lambda>v1.
          seq (set_fifo_flags False False False False) (return v1)))
        else if 0x10 \<le> k \<and> k < 0x30 \<and> k AND 3 \<noteq> 0 then
          dget (\<lambda>d. GET_Bn ((if k AND 4 = 0 then phase (asc d) else incr (asc d)) (voice k)) (unat (addr AND 3)))
        else return 0)"

definition ASC_write :: "u32 \<Rightarrow> u8 \<Rightarrow> unit device" where
  "ASC_write addr v =
     (if addr < 0x400 then
        bind (dget (\<lambda>d. asc_mode (asc d))) (\<lambda>m. if m \<noteq> 2 then fifo_write chA v else fifo_put chA (unat addr) v)
      else if addr < 0x800 then
        bind (dget (\<lambda>d. asc_mode (asc d))) (\<lambda>m. if m \<noteq> 2 then fifo_write chB v else fifo_put chB (unat (addr AND 0x3ff)) v)
      else if addr AND 0xF30 = 0xF00 then write_reg chA (addr AND 0x1F) v
      else if addr AND 0xF30 = 0xF20 then write_reg chB (addr AND 0x1F) v
      else
        let k = addr AND 0x3f in
        if k = 1 then asc_mod (\<lambda>s. s\<lparr>asc_mode := v\<rparr>)
        else if k = 3 then whenM (bit v 7) (seq (ASC_CH_reset chA) (ASC_CH_reset chB))
        else if k = 4 then set_fifo_flags (bit v 0) (bit v 1) (bit v 2) (bit v 3)
        else if k = 5 then asc_mod (\<lambda>s. s\<lparr>wav_run := v\<rparr>)
        else if k = 6 then asc_mod (\<lambda>s. s\<lparr>volume := v\<rparr>)
        else if k = 7 then asc_mod (\<lambda>s. if isEASC s then s else s\<lparr>freq := v\<rparr>)
        else if k = 0xA then asc_mod (\<lambda>s. s\<lparr>chA_is_mic := bit v 0, chA_is_22 := bit v 1\<rparr>)
        else if 0x10 \<le> k \<and> k < 0x30 then
          asc_mod (\<lambda>s. if k AND 4 = 0
            then s\<lparr>phase := (phase s)(voice k := SET_Bn (phase s (voice k)) v (unat (addr AND 3)))\<rparr>
            else s\<lparr>incr := (incr s)(voice k := SET_Bn (incr s (voice k)) v (unat (addr AND 3)))\<rparr>)
        else return ())"

end
