(* ===== verification/Iop.thy ===== *)
theory Iop
  imports Asc
begin

text \<open>
  The small chips: the I/O processors (src/chip/iop.cc), the memory controller of the Quadra
  (src/chip/mcu.cc), the chips of the IIfx (include/chip/iifx.hpp), and the stubs of
  include/chip that answer 0 (scsi.hpp, swim.hpp, vdac.hpp, include/mb/jaws.hpp).
\<close>

unbundle bit_operations_syntax

section \<open>I/O processors\<close>

datatype iop_id = IOP_SCC | IOP_SWIM

fun iop_of :: "iop_id \<Rightarrow> devs \<Rightarrow> IOP" where
  "iop_of IOP_SCC d = iop_scc d" | "iop_of IOP_SWIM d = iop_swim d"

fun iop_upd :: "iop_id \<Rightarrow> (IOP \<Rightarrow> IOP) \<Rightarrow> devs \<Rightarrow> devs" where
  "iop_upd IOP_SCC f d = d\<lparr>iop_scc := f (iop_scc d)\<rparr>"
| "iop_upd IOP_SWIM f d = d\<lparr>iop_swim := f (iop_swim d)\<rparr>"

fun readBase :: "iop_id \<Rightarrow> u32 \<Rightarrow> u8 device" where
  "readBase IOP_SCC reg = SCC_read reg" | "readBase IOP_SWIM reg = return 0"

fun writeBase :: "iop_id \<Rightarrow> u32 \<Rightarrow> u8 \<Rightarrow> unit device" where
  "writeBase IOP_SCC reg v = SCC_write reg v" | "writeBase IOP_SWIM reg v = return ()"

text \<open>After an access to its memory the address goes on when bit 1 of the status is set.\<close>

definition ram_step :: "IOP \<Rightarrow> IOP" where
  "ram_step i = (if bit (iop_status i) 1 then i\<lparr>RamAddress := RamAddress i + 1\<rparr> else i)"

definition IOP_read :: "iop_id \<Rightarrow> u32 \<Rightarrow> u8 device" where
  "IOP_read w addr =
     (if addr = 0 then dget (\<lambda>d. ucast (drop_bit 8 (RamAddress (iop_of w d))))
      else if addr = 1 then dget (\<lambda>d. ucast (RamAddress (iop_of w d)))
      else if addr = 2 then dget (\<lambda>d. iop_status (iop_of w d))
      else if addr = 4 \<or> addr = 5 then
        bind (dget (\<lambda>d. iop_MEM (iop_of w d) (RamAddress (iop_of w d)))) (\<lambda>v.
        seq (dmod (iop_upd w ram_step)) (return v))
      else readBase w addr)"

definition IOP_write :: "iop_id \<Rightarrow> u32 \<Rightarrow> u8 \<Rightarrow> unit device" where
  "IOP_write w addr v =
     (if addr = 0 then dmod (iop_upd w (\<lambda>i. i\<lparr>RamAddress := (RamAddress i AND 0xff) OR push_bit 8 (ucast v)\<rparr>))
      else if addr = 1 then dmod (iop_upd w (\<lambda>i. i\<lparr>RamAddress := (RamAddress i AND 0xff00) OR ucast v\<rparr>))
      else if addr = 2 then
        dmod (iop_upd w (\<lambda>i. (if bit v 2 then i\<lparr>running := True\<rparr> else i\<lparr>iop_PC := 0, running := False\<rparr>)\<lparr>iop_status := v\<rparr>))
      else if addr = 4 \<or> addr = 5 then
        dmod (iop_upd w (\<lambda>i. ram_step (i\<lparr>iop_MEM := (iop_MEM i)(RamAddress i := v)\<rparr>)))
      else writeBase w addr v)"

section \<open>The memory controller\<close>

definition MCU_read :: "u32 \<Rightarrow> u32 device" where
  "MCU_read addr =
     (if addr < 0x1000 then dget (\<lambda>d. ctls (mcu d) (unat (drop_bit 2 addr AND 63)))
      else if addr < 0x1400 then (if addr AND 0xff = 0xC0 then return 4 else throw BusError)
      else if addr < 0x1800 then return 0
      else throw BusError)"

definition MCU_write :: "u32 \<Rightarrow> u32 \<Rightarrow> unit device" where
  "MCU_write addr v =
     dmod (\<lambda>d. d\<lparr>mcu :=
       (if addr < 128 then
          let i = unat (drop_bit 2 addr) in
          (mcu d)\<lparr>mcu_value := (mcu_value (mcu d) AND NOT (push_bit i 1)) OR push_bit i (v AND 1)\<rparr>
        else (mcu d)\<lparr>ctls := (ctls (mcu d))(unat (drop_bit 2 addr AND 63) := v)\<rparr>)\<rparr>)"

section \<open>Chips of the IIfx\<close>

definition iifx_mod :: "(IIfx \<Rightarrow> IIfx) \<Rightarrow> unit device" where
  "iifx_mod f = dmod (\<lambda>d. d\<lparr>iifx := f (iifx d)\<rparr>)"

definition OSS_ctrl_read :: "u32 \<Rightarrow> u8 device" where
  "OSS_ctrl_read addr = (if addr < 0xFF0 then dget (\<lambda>d. oss_v (iifx d) (unat addr)) else throw Undefined)"

definition OSS_ctrl_write :: "u32 \<Rightarrow> u8 \<Rightarrow> unit device" where
  "OSS_ctrl_write addr b =
     (if addr < 0xFF0 then iifx_mod (\<lambda>x. x\<lparr>oss_v := (oss_v x)(unat addr := b)\<rparr>) else throw Undefined)"

definition IIfxExp0_read :: "u32 \<Rightarrow> u8 device" where
  "IIfxExp0_read addr = return 0"

definition IIfxExp0_write :: "u32 \<Rightarrow> u8 \<Rightarrow> unit device" where
  "IIfxExp0_write addr b = iifx_mod (\<lambda>x. if addr = 0
     then x\<lparr>exp0_v := drop_bit 1 (exp0_v x) OR push_bit 15 (ucast (b AND 1))\<rparr> else x\<lparr>exp0_x := b\<rparr>)"

definition IIfxExp1_read :: "u32 \<Rightarrow> u8 device" where
  "IIfxExp1_read addr = dget (\<lambda>d. if exp1_a (iifx d) = 0 then 1 else exp1_s (iifx d) (exp1_a (iifx d)))"

definition IIfxExp1_write :: "u32 \<Rightarrow> u8 \<Rightarrow> unit device" where
  "IIfxExp1_write addr b = iifx_mod (\<lambda>x. if addr = 0x10
     then x\<lparr>exp1_a := b\<rparr> else x\<lparr>exp1_s := (exp1_s x)(exp1_a x := b)\<rparr>)"

definition SCSI_DMA_read :: "u32 \<Rightarrow> u32 device" where
  "SCSI_DMA_read addr = (if addr = 0x80 then return 0 else throw BusError)"

definition SCSI_DMA_write :: "u32 \<Rightarrow> u32 \<Rightarrow> unit device" where
  "SCSI_DMA_write addr v = return ()"

section \<open>Stubs\<close>

definition SWIM_read :: "u32 \<Rightarrow> u8 device" where "SWIM_read addr = return 0"
definition SWIM_write :: "u32 \<Rightarrow> u8 \<Rightarrow> unit device" where "SWIM_write addr v = return ()"
definition VDAC_read :: "u32 \<Rightarrow> u8 device" where "VDAC_read addr = return 0"
definition VDAC_write :: "u32 \<Rightarrow> u8 \<Rightarrow> unit device" where "VDAC_write addr v = return ()"
definition SCSI_NORMAL_read :: "u32 \<Rightarrow> u8 device" where "SCSI_NORMAL_read addr = return 0"
definition SCSI_NORMAL_write :: "u32 \<Rightarrow> u8 \<Rightarrow> unit device" where "SCSI_NORMAL_write addr v = return ()"
definition SCSI_HANDSHAKE_read :: "u32 \<Rightarrow> u8 device" where "SCSI_HANDSHAKE_read addr = return 0"
definition SCSI_HANDSHAKE_write :: "u32 \<Rightarrow> u8 \<Rightarrow> unit device" where "SCSI_HANDSHAKE_write addr v = return ()"
definition SCSI_pDMA_read :: "u32 \<Rightarrow> u8 device" where "SCSI_pDMA_read addr = return 0"
definition SCSI_pDMA_write :: "u32 \<Rightarrow> u8 \<Rightarrow> unit device" where "SCSI_pDMA_write addr v = return ()"
definition JAWS_CTL_read :: "u32 \<Rightarrow> u8 device" where "JAWS_CTL_read addr = return 0"
definition JAWS_CTL_write :: "u32 \<Rightarrow> u8 \<Rightarrow> unit device" where "JAWS_CTL_write addr v = return ()"

end
