(* ===== verification/Io.thy ===== *)
theory Io
  imports Iop
begin

text \<open>
  The boards: src/io.cc. Each class decodes bits 13 and up of the address and hands the access
  to a chip; a board that overrides the byte accesses only inherits the others from \<open>IO_BUS\<close>.
  The emulator installs the board of the Quadra 9x0.
\<close>

unbundle bit_operations_syntax

section \<open>The card in the processor slot\<close>

definition pds_read :: "u32 \<Rightarrow> u8 device" where
  "pds_read i = bind (dget pds) (\<lambda>p. case p of Some m \<Rightarrow> return (m i) | None \<Rightarrow> throw BusError)"

text \<open>A write to the card does not return: the address is decoded for the chips as well.\<close>

definition pds_write :: "u32 \<Rightarrow> u8 \<Rightarrow> unit device" where
  "pds_write i v = bind (dget pds) (\<lambda>p. case p of
     Some m \<Rightarrow> dmod (\<lambda>d. d\<lparr>pds := Some (m(i := v))\<rparr>) | None \<Rightarrow> throw BusError)"

definition via_reg :: "u32 \<Rightarrow> u32" where
  "via_reg addr = drop_bit 9 addr AND 0xf"

section \<open>SE/30, IIcx\<close>

definition GLUE_readB :: "u32 \<Rightarrow> u8 device" where
  "GLUE_readB addr =
     (if bit addr 27 then pds_read (addr AND 0x7ffffff)
      else
        let k = drop_bit 13 addr AND 0xf in
        if k = 0 then VIA_read VIA1 (via_reg addr)
        else if k = 1 then VIA_read VIA2 (via_reg addr)
        else if k = 2 then SCC_read (drop_bit 1 addr AND 3)
        else if k = 3 then SCSI_HANDSHAKE_read (drop_bit 4 addr AND 3)
        else if k = 8 then SCSI_NORMAL_read (drop_bit 4 addr AND 3)
        else if k = 9 then SCSI_pDMA_read (drop_bit 4 addr AND 3)
        else if k = 10 then ASC_read (addr AND 0xfff)
        else if k = 11 then SWIM_read (via_reg addr)
        else throw BusError)"

definition GLUE_writeB :: "u32 \<Rightarrow> u8 \<Rightarrow> unit device" where
  "GLUE_writeB addr value =
     seq (whenM (bit addr 27) (pds_write (addr AND 0x7ffffff) value))
    (let k = drop_bit 13 addr AND 0xf in
      if k = 0 then VIA_write VIA1 (via_reg addr) value
      else if k = 1 then VIA_write VIA2 (via_reg addr) value
      else if k = 2 then SCC_write (drop_bit 1 addr AND 3) value
      else if k = 3 then SCSI_HANDSHAKE_write (drop_bit 4 addr AND 3) value
      else if k = 8 then SCSI_NORMAL_write (drop_bit 4 addr AND 3) value
      else if k = 9 then SCSI_pDMA_write (drop_bit 4 addr AND 3) value
      else if k = 10 then ASC_write (addr AND 0xfff) value
      else if k = 11 then SWIM_write (via_reg addr) value
      else throw BusError)"

definition GLUE :: "devs IO_BUS" where
  "GLUE = IO_BUS_of GLUE_readB GLUE_writeB"

section \<open>IIci, IIsi\<close>

definition MDU_readB :: "u32 \<Rightarrow> u8 device" where
  "MDU_readB addr =
     (if bit addr 27 then pds_read (addr AND 0x7ffffff)
      else
        let k = drop_bit 13 addr AND 0x1f in
        if k = 0 then VIA_read VIA1 (via_reg addr)
        else if k = 2 then SCC_read (drop_bit 1 addr AND 3)
        else if k = 3 then SCSI_HANDSHAKE_read (drop_bit 4 addr AND 3)
        else if k = 8 then SCSI_NORMAL_read (drop_bit 4 addr AND 3)
        else if k = 9 then SCSI_pDMA_read (drop_bit 4 addr AND 3)
        else if k = 10 then ASC_read (addr AND 0xfff)
        else if k = 11 then SWIM_read (via_reg addr)
        else if k = 18 then VDAC_read (drop_bit 2 addr AND 7)
        else if k = 19 then RBV_read (addr AND 0xff)
        else throw BusError)"

definition MDU_writeB :: "u32 \<Rightarrow> u8 \<Rightarrow> unit device" where
  "MDU_writeB addr value =
     seq (whenM (bit addr 27) (pds_write (addr AND 0x7ffffff) value))
    (let k = drop_bit 13 addr AND 0x1f in
      if k = 0 then VIA_write VIA1 (via_reg addr) value
      else if k = 2 then SCC_write (drop_bit 1 addr AND 3) value
      else if k = 3 then SCSI_HANDSHAKE_write (drop_bit 4 addr AND 3) value
      else if k = 8 then SCSI_NORMAL_write (drop_bit 4 addr AND 3) value
      else if k = 9 then SCSI_pDMA_write (drop_bit 4 addr AND 3) value
      else if k = 10 then ASC_write (addr AND 0xfff) value
      else if k = 11 then SWIM_write (via_reg addr) value
      else if k = 18 then VDAC_write (drop_bit 2 addr AND 7) value
      else if k = 19 then RBV_write (addr AND 0xff) value
      else throw BusError)"

definition MDU :: "devs IO_BUS" where
  "MDU = IO_BUS_of MDU_readB MDU_writeB"

section \<open>IIfx\<close>

definition OSS_readB :: "u32 \<Rightarrow> u8 device" where
  "OSS_readB addr =
     (if bit addr 27 then pds_read (addr AND 0x7ffffff)
      else
        let k = drop_bit 13 addr AND 0x1f in
        if k = 0 then VIA_read VIA1 (via_reg addr)
        else if k = 2 then IOP_read IOP_SCC (drop_bit 1 addr AND 0x1f)
        else if k = 8 then ASC_read (addr AND 0xfff)
        else if k = 9 then IOP_read IOP_SWIM (drop_bit 1 addr AND 0x1f)
        else if k = 13 then OSS_ctrl_read ((addr AND 0xf) OR drop_bit 5 (addr AND 0x1E00))
        else if k = 14 then IIfxExp0_read (addr AND 0x1fff)
        else if k = 15 then IIfxExp1_read (addr AND 0x1fff)
        else throw BusError)"

definition OSS_writeB :: "u32 \<Rightarrow> u8 \<Rightarrow> unit device" where
  "OSS_writeB addr value =
     seq (whenM (bit addr 27) (pds_write (addr AND 0x7ffffff) value))
    (let k = drop_bit 13 addr AND 0x1f in
      if k = 0 then VIA_write VIA1 (via_reg addr) value
      else if k = 2 then IOP_write IOP_SCC (drop_bit 1 addr AND 0x1f) value
      else if k = 8 then ASC_write (addr AND 0xfff) value
      else if k = 9 then IOP_write IOP_SWIM (drop_bit 1 addr AND 0x1f) value
      else if k = 13 then OSS_ctrl_write ((addr AND 0xf) OR drop_bit 5 (addr AND 0x1E00)) value
      else if k = 14 then IIfxExp0_write (addr AND 0x1fff) value
      else if k = 15 then IIfxExp1_write (addr AND 0x1fff) value
      else throw BusError)"

definition OSS_readL :: "u32 \<Rightarrow> u32 device" where
  "OSS_readL addr =
     (if drop_bit 13 addr AND 0x1f = 4 then SCSI_DMA_read (addr AND 0x1fff)
      else IO_BUS_readL OSS_readB addr)"

definition OSS_writeL :: "u32 \<Rightarrow> u32 \<Rightarrow> unit device" where
  "OSS_writeL addr value =
     (if drop_bit 13 addr AND 0x1f = 4 then SCSI_DMA_write (drop_bit 4 addr AND 3) value
      else IO_BUS_writeL OSS_writeB addr value)"

definition OSS :: "devs IO_BUS" where
  "OSS = (IO_BUS_of OSS_readB OSS_writeB)\<lparr>io_readL := OSS_readL, io_writeL := OSS_writeL\<rparr>"

section \<open>LC\<close>

definition V8_readB :: "u32 \<Rightarrow> u8 device" where
  "V8_readB addr =
     (if 0xF80000 < addr then pds_read (addr AND 0x7ffff)
      else if addr AND 0xf00000 = 0 then throw BusError
      else
        let k = drop_bit 13 addr AND 0x1f in
        if k = 0 then VIA_read VIA1 (via_reg addr)
        else if k = 2 then SCC_read (drop_bit 1 addr AND 3)
        else if k = 3 then SCSI_HANDSHAKE_read (drop_bit 4 addr AND 3)
        else if k = 8 then SCSI_NORMAL_read (drop_bit 4 addr AND 3)
        else if k = 9 then SCSI_pDMA_read (drop_bit 4 addr AND 3)
        else if k = 10 then ASC_read (addr AND 0xfff)
        else if k = 11 then SWIM_read (via_reg addr)
        else if k = 18 then VDAC_read (drop_bit 2 addr AND 7)
        else if k = 19 then RBV_read (addr AND 0xff)
        else throw BusError)"

definition V8_writeB :: "u32 \<Rightarrow> u8 \<Rightarrow> unit device" where
  "V8_writeB addr value =
     seq (whenM (0xF80000 < addr) (pds_write (addr AND 0x7ffff) value))
    (if addr AND 0xf00000 = 0 then throw BusError
     else
      let k = drop_bit 13 addr AND 0x1f in
      if k = 0 then VIA_write VIA1 (via_reg addr) value
      else if k = 2 then SCC_write (drop_bit 1 addr AND 3) value
      else if k = 3 then SCSI_HANDSHAKE_write (drop_bit 4 addr AND 3) value
      else if k = 8 then SCSI_NORMAL_write (drop_bit 4 addr AND 3) value
      else if k = 9 then SCSI_pDMA_write (drop_bit 4 addr AND 3) value
      else if k = 10 then ASC_write (addr AND 0xfff) value
      else if k = 11 then SWIM_write (via_reg addr) value
      else if k = 18 then VDAC_write (drop_bit 2 addr AND 7) value
      else if k = 19 then RBV_write (addr AND 0xff) value
      else throw BusError)"

definition V8 :: "devs IO_BUS" where
  "V8 = IO_BUS_of V8_readB V8_writeB"

section \<open>Quadra 9x0\<close>

definition MCU_Q900_readB :: "u32 \<Rightarrow> u8 device" where
  "MCU_Q900_readB addr =
     (if bit addr 27 then pds_read (addr AND 0x7ffffff)
      else
        let k = drop_bit 13 addr AND 0x1f in
        if k = 0 then VIA_read VIA1 (via_reg addr)
        else if k = 1 then VIA_read VIA2 (via_reg addr)
        else if k = 6 then IOP_read IOP_SCC (drop_bit 1 addr AND 0x1f)
        else if k = 10 then ASC_read (addr AND 0xfff)
        else if k = 15 then IOP_read IOP_SWIM (drop_bit 1 addr AND 0x1f)
        else throw BusError)"

definition MCU_Q900_writeB :: "u32 \<Rightarrow> u8 \<Rightarrow> unit device" where
  "MCU_Q900_writeB addr value =
     seq (whenM (bit addr 27) (pds_write (addr AND 0x7ffffff) value))
    (let k = drop_bit 13 addr AND 0x1f in
      if k = 0 then VIA_write VIA1 (via_reg addr) value
      else if k = 1 then VIA_write VIA2 (via_reg addr) value
      else if k = 6 then IOP_write IOP_SCC (drop_bit 1 addr AND 0x1f) value
      else if k = 10 then ASC_write (addr AND 0xfff) value
      else if k = 15 then IOP_write IOP_SWIM (drop_bit 1 addr AND 0x1f) value
      else throw BusError)"

definition MCU_Q900_readL :: "u32 \<Rightarrow> u32 device" where
  "MCU_Q900_readL addr =
     (if drop_bit 13 addr AND 0x1f = 7 then MCU_read (addr AND 0x1fff)
      else IO_BUS_readL MCU_Q900_readB addr)"

definition MCU_Q900_writeL :: "u32 \<Rightarrow> u32 \<Rightarrow> unit device" where
  "MCU_Q900_writeL addr value =
     (if drop_bit 13 addr AND 0x1f = 7 then MCU_write (addr AND 0x1fff) value
      else IO_BUS_writeL MCU_Q900_writeB addr value)"

definition MCU_Q900 :: "devs IO_BUS" where
  "MCU_Q900 = (IO_BUS_of MCU_Q900_readB MCU_Q900_writeB)\<lparr>io_readL := MCU_Q900_readL, io_writeL := MCU_Q900_writeL\<rparr>"

section \<open>Quadra 700\<close>

definition MCU_Q700_readB :: "u32 \<Rightarrow> u8 device" where
  "MCU_Q700_readB addr =
     (if bit addr 27 then pds_read (addr AND 0x7ffffff)
      else
        let k = drop_bit 13 addr AND 0x1f in
        if k = 0 then VIA_read VIA1 (via_reg addr)
        else if k = 1 then VIA_read VIA2 (via_reg addr)
        else if k = 6 then SCC_read (drop_bit 1 addr AND 0x1f)
        else if k = 7 then bind (MCU_read (addr AND 0x1fff)) (\<lambda>v. return (ucast v))
        else if k = 10 then ASC_read (addr AND 0xfff)
        else if k = 15 then SWIM_read (drop_bit 1 addr AND 0x1f)
        else throw BusError)"

definition MCU_Q700_writeB :: "u32 \<Rightarrow> u8 \<Rightarrow> unit device" where
  "MCU_Q700_writeB addr value =
     seq (whenM (bit addr 27) (pds_write (addr AND 0x7ffffff) value))
    (let k = drop_bit 13 addr AND 0x1f in
      if k = 0 then VIA_write VIA1 (via_reg addr) value
      else if k = 1 then VIA_write VIA2 (via_reg addr) value
      else if k = 6 then SCC_write (drop_bit 1 addr AND 0x1f) value
      else if k = 10 then ASC_write (addr AND 0xfff) value
      else if k = 15 then SWIM_write (drop_bit 1 addr AND 0x1f) value
      else throw BusError)"

definition MCU_Q700_readL :: "u32 \<Rightarrow> u32 device" where
  "MCU_Q700_readL addr =
     (if drop_bit 13 addr AND 0x1f = 7 then MCU_read (addr AND 0x1fff)
      else IO_BUS_readL MCU_Q700_readB addr)"

definition MCU_Q700_writeL :: "u32 \<Rightarrow> u32 \<Rightarrow> unit device" where
  "MCU_Q700_writeL addr value =
     (if drop_bit 13 addr AND 0x1f = 7 then MCU_write (addr AND 0x1fff) value
      else IO_BUS_writeL MCU_Q700_writeB addr value)"

definition MCU_Q700 :: "devs IO_BUS" where
  "MCU_Q700 = (IO_BUS_of MCU_Q700_readB MCU_Q700_writeB)\<lparr>io_readL := MCU_Q700_readL, io_writeL := MCU_Q700_writeL\<rparr>"

section \<open>PowerBook 170\<close>

definition JAWS_readB :: "u32 \<Rightarrow> u8 device" where
  "JAWS_readB addr =
     (if bit addr 27 then pds_read (addr AND 0x7ffffff)
      else
        let k = drop_bit 13 addr AND 0x7f in
        if k = 0 then VIA_read VIA1 (via_reg addr)
        else if k = 1 then VIA_read VIA2 (via_reg addr)
        else if k = 2 then SCC_read (drop_bit 1 addr AND 3)
        else if k = 3 then SCSI_HANDSHAKE_read (drop_bit 4 addr AND 3)
        else if k = 8 then SCSI_NORMAL_read (drop_bit 4 addr AND 3)
        else if k = 9 then SCSI_pDMA_read (drop_bit 4 addr AND 3)
        else if k = 10 then ASC_read (addr AND 0xfff)
        else if k = 11 then SWIM_read (via_reg addr)
        else if 0x80000 \<le> addr AND 0xfffff then JAWS_CTL_read addr
        else throw BusError)"

definition JAWS_writeB :: "u32 \<Rightarrow> u8 \<Rightarrow> unit device" where
  "JAWS_writeB addr value =
     seq (whenM (bit addr 27) (pds_write (addr AND 0x7ffffff) value))
    (let k = drop_bit 13 addr AND 0x7f in
      if k = 0 then VIA_write VIA1 (via_reg addr) value
      else if k = 1 then VIA_write VIA2 (via_reg addr) value
      else if k = 2 then SCC_write (drop_bit 1 addr AND 3) value
      else if k = 3 then SCSI_HANDSHAKE_write (drop_bit 4 addr AND 3) value
      else if k = 8 then SCSI_NORMAL_write (drop_bit 4 addr AND 3) value
      else if k = 9 then SCSI_pDMA_write (drop_bit 4 addr AND 3) value
      else if k = 10 then ASC_write (addr AND 0xfff) value
      else if k = 11 then SWIM_write (via_reg addr) value
      else if 0x80000 \<le> addr AND 0xfffff then JAWS_CTL_write addr value
      else throw BusError)"

definition JAWS :: "devs IO_BUS" where
  "JAWS = IO_BUS_of JAWS_readB JAWS_writeB"

section \<open>Start and reset\<close>

text \<open>
  \<open>initBus\<close>: the adapters are value-initialized, so every member without an initializer is 0;
  the serial and the sound chip have constructors of their own, which leave such members as the
  storage was. The constructor of the sound chip resets it.
\<close>

definition initBus :: "unit device" where
  "initBus =
     seq (asc_mod (\<lambda>s. s\<lparr>isEASC := True, wav_run := 0xff, asc_mode := 0, freq := 3, overflow := False, volume := 0,
            asc_ch := (\<lambda>c. (asc_ch s c)\<lparr>fifo_cdxa := False, xa_cnt := -1, xa_flags := 0, xa_val := 0\<rparr>)\<rparr>))
    (seq ASC_reset
    (seq (dmod (\<lambda>d. d\<lparr>vias := (\<lambda>_. via_static), pins := (pins_static)\<lparr>rtcEnable := rtcEnable (pins d)\<rparr>,
            mcu := \<lparr>mcu_value = 0, ctls = (\<lambda>i. if i < 64 then 0 else ctls (mcu d) i)\<rparr>, iop_swim := iop_static\<rparr>))
    (seq (scc_mod (\<lambda>s. s\<lparr>curReg := 0, intVec := 0, irqPending := 0,
            scc_ch := (\<lambda>c. (scc_ch s c)\<lparr>inBuf := [], outBuf := [], bufStatus := 0, specialRecvStatus := 0,
              miscStatus := 0, recvFirstLetter := False, rr0_is_latched := False\<rparr>)\<rparr>))
         (dmod (\<lambda>d. d\<lparr>iop_scc := (iop_scc d)\<lparr>iop_PC := 0, RamAddress := 0, running := False\<rparr>\<rparr>)))))"

definition bus_reset :: "unit device" where
  "bus_reset =
     seq rtc_reset (seq adb_reset (seq ASC_reset (seq scc_reset
         (dmod (\<lambda>d. d\<lparr>is_reset := True\<rparr>)))))"

end
