(* ===== verification/DevicesOk.thy ===== *)
theory DevicesOk
  imports Wellformed Io
begin

text \<open>
  What the devices keep, whatever is read or written and whatever the host does: the buffer
  pointers of the sound chip stay inside the buffers, the buffers of the serial controller stay
  within their sizes, the bit counters of the clock chip within a byte; the levels of the
  interrupts they post are known to the processor, and they end only by a bus error, by
  switching the machine off, or without a meaning.
\<close>

unbundle bit_operations_syntax

section \<open>Well-formed devices\<close>

definition rtc_wf :: "rtc_chip \<Rightarrow> bool" where
  "rtc_wf r \<longleftrightarrow> rtc_cnt_w r < 8 \<and> rtc_cnt_r r \<le> 8 \<and> length (rtc_lists r) \<le> 1"

definition ch_wf :: "SccCh \<Rightarrow> bool" where
  "ch_wf h \<longleftrightarrow> length (inBuf h) \<le> 8 \<and> length (outBuf h) \<le> 3"

definition scc_wf :: "SCC \<Rightarrow> bool" where
  "scc_wf s \<longleftrightarrow> curReg s \<in> {0, 1, 2, 3, 8, 9, 10, 11} \<and> (\<forall>c. ch_wf (scc_ch s c))"

definition snd_wf :: "ASC_CH \<Rightarrow> bool" where
  "snd_wf h \<longleftrightarrow> FIFO_READP h \<le> 0x3ff \<and> FIFO_WRITEP h \<le> 0x3ff"

definition asc_wf :: "ASC \<Rightarrow> bool" where
  "asc_wf s \<longleftrightarrow> (\<forall>c. snd_wf (asc_ch s c))"

definition dev_wf :: "devs \<Rightarrow> bool" where
  "dev_wf d \<longleftrightarrow> rtc_wf (rtc d) \<and> scc_wf (scc d) \<and> asc_wf (asc d)"

abbreviation dev_ok :: "'a device \<Rightarrow> bool" where
  "dev_ok m \<equiv> keeps (mailbox dev_wf) bus_ends m"

lemma mailbox_dev: "mailbox Q b \<Longrightarrow> Q d \<Longrightarrow> mailbox Q (b\<lparr>dev := d\<rparr>)"
  by (simp add: mailbox_def)

lemma bus_ends_simps [simp]: "bus_ends BusError" "bus_ends Undefined" "bus_ends Terminated"
  by (simp_all add: bus_ends_def)

lemma dget_ok [keeps_intro]: "keeps I E (dget f)"
  by (simp add: keeps_def)

lemma dmod_ok: "(\<And>d. dev_wf d \<Longrightarrow> dev_wf (f d)) \<Longrightarrow> keeps (mailbox dev_wf) E (dmod f)"
  by (auto simp: keeps_def mailbox_def)

lemma ask_ok [keeps_intro]: "keeps (mailbox dev_wf) E (ask f)"
  by (auto simp: keeps_def mailbox_def dev_wf_def)

lemma via_mod_ok [keeps_intro]: "keeps (mailbox dev_wf) E (via_mod w f)"
  unfolding via_mod_def by (intro dmod_ok) (simp add: dev_wf_def upd_via_def)

lemma free_mod_ok [keeps_intro]:
  "keeps (mailbox dev_wf) E (pins_mod f)" "keeps (mailbox dev_wf) E (adb_mod g)"
  "keeps (mailbox dev_wf) E (rbv_mod h)" "keeps (mailbox dev_wf) E (iifx_mod k)"
  unfolding pins_mod_def adb_mod_def rbv_mod_def iifx_mod_def
  by (intro dmod_ok; simp add: dev_wf_def)+

lemma rtc_mod_ok: "(\<And>r. rtc_wf r \<Longrightarrow> rtc_wf (f r)) \<Longrightarrow> keeps (mailbox dev_wf) E (rtc_mod f)"
  unfolding rtc_mod_def by (intro dmod_ok) (simp add: dev_wf_def)

lemma scc_mod_ok: "(\<And>s. scc_wf s \<Longrightarrow> scc_wf (f s)) \<Longrightarrow> keeps (mailbox dev_wf) E (scc_mod f)"
  unfolding scc_mod_def by (intro dmod_ok) (simp add: dev_wf_def)

lemma ch_mod_ok: "(\<And>h. ch_wf h \<Longrightarrow> ch_wf (f h)) \<Longrightarrow> keeps (mailbox dev_wf) E (ch_mod c f)"
  unfolding ch_mod_def by (intro scc_mod_ok) (simp add: scc_wf_def)

lemma asc_mod_ok: "(\<And>s. asc_wf s \<Longrightarrow> asc_wf (f s)) \<Longrightarrow> keeps (mailbox dev_wf) E (asc_mod f)"
  unfolding asc_mod_def by (intro dmod_ok) (simp add: dev_wf_def)

lemma snd_mod_ok: "(\<And>h. snd_wf h \<Longrightarrow> snd_wf (f h)) \<Longrightarrow> keeps (mailbox dev_wf) E (snd_mod c f)"
  unfolding snd_mod_def by (intro asc_mod_ok) (simp add: asc_wf_def)

lemma do_irq_ok [keeps_intro]: "i \<le> 7 \<Longrightarrow> keeps (mailbox Q) E (do_irq i)"
  by (auto simp: keeps_def mailbox_def do_irq_def)

section \<open>Adapters, clock, desktop bus\<close>

lemma irq_ok [keeps_intro]:
  "keeps (mailbox dev_wf) E (irq w i)" "keeps (mailbox dev_wf) E (irq_off w i)"
  "keeps (mailbox dev_wf) E (recieve_sr w)" "keeps (mailbox dev_wf) E (flags_off w is)"
  "keeps (mailbox dev_wf) E GetVIACounter" "keeps (mailbox dev_wf) E (counter f g w)"
  unfolding recieve_sr_def irq_def irq_off_def flags_off_def GetVIACounter_def counter_def
  by (intro keeps_intro; cases w; simp)+

lemma do_rtc_keeps:
  assumes "\<And>d h. Q d \<Longrightarrow> Q (d\<lparr>host_calls := h\<rparr>)"
    and "\<And>d X. Q d \<Longrightarrow> Q (d\<lparr>rtc := (rtc d)\<lparr>XPRAM := X\<rparr>\<rparr>)"
  shows "keeps (mailbox Q) E (xpram_read r)" "keeps (mailbox Q) E (xpram_write r v)"
    "keeps (mailbox Q) E (do_rtc x y z)"
proof -
  have "keeps (mailbox Q) E (ask f)" for f
    using assms(1) by (auto simp: keeps_def mailbox_def)
  then show r: "keeps (mailbox Q) E (xpram_read r)" for r
    unfolding xpram_read_def Let_def by (intro keeps_intro)
  show w: "keeps (mailbox Q) E (xpram_write r v)" for r v
    unfolding xpram_write_def using assms(2) by (auto simp: keeps_def mailbox_def)
  show "keeps (mailbox Q) E (do_rtc x y z)"
    unfolding do_rtc_def by (intro keeps_intro r w)
qed

lemma xpram_ok [keeps_intro]:
  "keeps (mailbox dev_wf) E (xpram_read r)" "keeps (mailbox dev_wf) E (xpram_write r v)"
  by (intro do_rtc_keeps; simp add: dev_wf_def rtc_wf_def)+

text \<open>Between the eighth bit of a byte and the end of its command two bytes may be there.\<close>

lemma rtc_command_ok:
  assumes b: "mailbox (\<lambda>d. rtc_wf ((rtc d)\<lparr>rtc_lists := []\<rparr>) \<and> scc_wf (scc d) \<and> asc_wf (asc d)) b"
    (is "mailbox ?Q b")
    and l: "l = rtc_lists (rtc (dev b))" and n: "length l = 1 \<or> length l = 2"
  shows "\<exists>b'. rtc_command l b = Ok () b' \<and> mailbox dev_wf b'"
proof -
  have k: "keeps (mailbox ?Q) (\<lambda>_. False) (do_rtc x y z)" for x y z
    by (rule do_rtc_keeps) (simp_all add: rtc_wf_def)
  have d: "\<exists>v b'. do_rtc x y z b = Ok v b' \<and> mailbox ?Q b'" for x y z
    using keeps_at [OF k [of x y z] b] by (cases "do_rtc x y z b") simp_all
  have a: "\<exists>b'. bind (do_rtc x y z) rtc_answer b = Ok () b' \<and> mailbox dev_wf b'"
    and c: "\<exists>b'. seq (do_rtc x y z) rtc_clear b = Ok () b' \<and> mailbox dev_wf b'" for x y z
    using d [of x y z] by (auto simp: rtc_answer_def rtc_clear_def mailbox_def dev_wf_def rtc_wf_def)
  have r: "\<exists>b'. return () b = Ok () b' \<and> mailbox dev_wf b'" if "length l = 1"
    using b that l by (simp add: mailbox_def dev_wf_def rtc_wf_def)
  consider "length l = 1" | "length l = 2" using n by blast
  then show ?thesis
  proof cases
    case 1
    then show ?thesis unfolding rtc_command_def using a r by simp
  next
    case 2
    then show ?thesis unfolding rtc_command_def using a c by simp
  qed
qed

lemma send_rtc_runs:
  assumes b: "mailbox dev_wf b"
  shows "\<exists>b'. send_rtc v b = Ok () b' \<and> mailbox dev_wf b'"
proof -
  let ?r = "rtc (dev b)"
  define x where "x = rtc_cmd ?r OR push_bit (rtc_cnt_w ?r) (of_bool v)"
  define n where "n = Suc (rtc_cnt_w ?r) mod 8"
  let ?l = "rtc_lists ?r @ [x]"
  let ?b = "b\<lparr>dev := (dev b)\<lparr>rtc := ?r\<lparr>rtc_cnt_w := n, rtc_lists := ?l, rtc_cmd := 0\<rparr>\<rparr>\<rparr>"
  have run: "send_rtc v b = (if n = 0 then rtc_command ?l ?b
      else Ok () (b\<lparr>dev := (dev b)\<lparr>rtc := ?r\<lparr>rtc_cmd := x, rtc_cnt_w := n\<rparr>\<rparr>\<rparr>))"
    unfolding send_rtc_def x_def [symmetric] n_def [symmetric]
    by (simp add: whenM_def x_def [symmetric] n_def [symmetric])
  show ?thesis
  proof (cases "n = 0")
    case True
    have "length ?l = 1 \<or> length ?l = 2" using b by (auto simp: mailbox_def dev_wf_def rtc_wf_def le_Suc_eq)
    with rtc_command_ok [of ?b ?l] b True show ?thesis
      unfolding run by (simp add: mailbox_def dev_wf_def rtc_wf_def)
  next
    case False
    with b show ?thesis unfolding run by (simp add: mailbox_def dev_wf_def rtc_wf_def n_def)
  qed
qed

lemma rtc_line_ok [keeps_intro]: "keeps (mailbox dev_wf) E (send_rtc v)" "keeps (mailbox dev_wf) E recv_rtc"
proof -
  show "keeps (mailbox dev_wf) E (send_rtc v)"
    by (rule keepsI) (metis outcome.inject(1) outcome.distinct(1) send_rtc_runs)+
  show "keeps (mailbox dev_wf) E recv_rtc"
    by (auto simp: keeps_def recv_rtc_def mailbox_def dev_wf_def rtc_wf_def)
qed

lemma rtc_host_ok [keeps_intro]: "keeps (mailbox dev_wf) E rtc_callback" "keeps (mailbox dev_wf) E rtc_reset"
  unfolding rtc_callback_def rtc_reset_def by (intro keeps_intro rtc_mod_ok; simp add: rtc_wf_def)+

lemma adb_parts_ok [keeps_intro]:
  "dev_ok adb_in" "dev_ok (byte_at b i)" "dev_ok (mouse_listen r v)" "dev_ok (mouse_talk m r)"
  "dev_ok (kbd_listen r v)" "dev_ok (kbd_talk k r)" "dev_ok mouse_flush" "dev_ok kbd_flush" "dev_ok do_adb_irq"
  unfolding adb_in_def byte_at_def mouse_listen_def mouse_talk_def kbd_listen_def kbd_talk_def mouse_mod_def kbd_mod_def
    mouse_flush_def kbd_flush_def do_adb_irq_def
  by (intro keeps_intro; simp)+

lemma adb_device_ok [keeps_intro]:
  "dev_ok f \<Longrightarrow> (\<And>r v. dev_ok (li r v)) \<Longrightarrow> (\<And>r. dev_ok (ta r)) \<Longrightarrow> dev_ok (adb_device f li ta cmd reg b)"
  unfolding adb_device_def by (intro keeps_intro)

lemma adb_ok [keeps_intro]:
  "dev_ok adb_reset" "dev_ok (adb_run b)" "dev_ok (recieveAdb st)" "dev_ok (transmitAdb st v)"
  "dev_ok (keydown e)" "dev_ok (keyup e)"
proof -
  show "dev_ok adb_reset" unfolding adb_reset_def by (intro keeps_intro)
  show run: "dev_ok (adb_run b)" for b
    unfolding adb_run_def Let_def adb_reset_def by (intro keeps_intro)
  show "dev_ok (recieveAdb st)" unfolding recieveAdb_def by (intro keeps_intro; simp)
  show "dev_ok (transmitAdb st v)"
    unfolding transmitAdb_def adb_flush_run_def adb_attention_def by (intro keeps_intro run)
  show "dev_ok (keydown e)" "dev_ok (keyup e)"
    unfolding keydown_def keyup_def by (intro keeps_intro)+
qed

section \<open>Ports\<close>

lemma overlay_ok [keeps_intro]: "dev_ok overlay"
  unfolding overlay_def by (intro keeps_intro keeps_modify; simp add: mailbox_def)

lemma port_ok [keeps_intro]:
  "dev_ok (writePA w i v)" "dev_ok (writePB w i v)" "dev_ok (recieve_ca1 w)" "dev_ok (recieve_cb1 w)" "dev_ok (change_state s)"
proof -
  show l: "dev_ok (recieve_ca1 w)" "dev_ok (recieve_cb1 w)" for w
    unfolding recieve_ca1_def recieve_cb1_def by (intro dmod_ok; simp add: dev_wf_def upd_via_def)+
  show c: "dev_ok (change_state s)" for s
    unfolding change_state_def by (intro keeps_intro)
  show "dev_ok (writePA w i v)"
  proof (cases w)
    case VIA1
    show ?thesis unfolding VIA1 writePA.simps VIA1_writePA_def by (intro keeps_intro)
  qed (simp add: VIA2_writePA_def keeps_return)
  show "dev_ok (writePB w i v)"
  proof (cases w)
    case VIA1
    show ?thesis unfolding VIA1 writePB.simps VIA1_writePB_def by (intro keeps_intro c)
  next
    case VIA2
    show ?thesis unfolding VIA2 writePB.simps VIA2_writePB_def do_poweroff_def by (intro keeps_intro l; simp)
  qed
qed

lemma VIA_ok [keeps_intro]:
  "dev_ok (VIA_read w n)" "dev_ok (VIA_write w n v)" "dev_ok (via_timer1_callback w)" "dev_ok (via_timer2_callback w)"
  unfolding VIA_read_def VIA_write_def via_timer1_callback_def via_timer2_callback_def out_A_def out_B_def dir_A_def dir_B_def
  by (intro keeps_intro)+

lemma RBV_ok [keeps_intro]: "dev_ok (RBV_read n)" "dev_ok (RBV_write n v)"
  unfolding RBV_read_def RBV_write_def by (intro keeps_intro; simp)+

section \<open>Serial controller\<close>

lemma scc_mod_irq_ok:
  "(\<And>s. scc_wf (f s) = scc_wf s) \<Longrightarrow> keeps (mailbox dev_wf) E (scc_mod f)"
  by (intro scc_mod_ok) simp

lemma doIrq_ok [keeps_intro]: "keeps (mailbox dev_wf) E (doIrq w)"
  unfolding doIrq_def Let_def
  by (cases w) (simp_all add: when_ius_def raise_irq_def, (intro keeps_intro scc_mod_ok; simp add: scc_wf_def)+)

lemma ch_get_ok [keeps_intro]: "keeps I E (ch_get c f)"
  unfolding ch_get_def by (intro keeps_intro)

lemma nextRecvData_ok [keeps_intro]: "keeps (mailbox dev_wf) E (nextRecvData c)"
  unfolding nextRecvData_def by (intro keeps_intro ch_mod_ok) (auto simp: ch_wf_def split: list.split)

lemma SccCh_reset_ok [keeps_intro]: "keeps (mailbox dev_wf) E (SccCh_reset c)"
  unfolding SccCh_reset_def by (intro keeps_intro ch_mod_ok scc_mod_ok; simp add: ch_wf_def scc_wf_def)

text \<open>A program that starts by reading a channel may rely on what it read.\<close>

lemma keeps_ch_get:
  assumes "\<And>b. mailbox dev_wf b \<Longrightarrow> case f (g (scc_ch (scc (dev b)) c)) b of
      Ok _ b' \<Rightarrow> mailbox dev_wf b' | Raise e b' \<Rightarrow> mailbox dev_wf b' \<and> E e"
  shows "keeps (mailbox dev_wf) E (bind (ch_get c g) f)"
  using assms by (simp add: keeps_def ch_get_def)

lemma ch_mod_run: "ch_mod c f b = Ok () (b\<lparr>dev := (dev b)\<lparr>scc := (scc (dev b))\<lparr>scc_ch := (scc_ch (scc (dev b)))(c := f (scc_ch (scc (dev b)) c))\<rparr>\<rparr>\<rparr>)"
  by (simp add: ch_mod_def)

lemma seq_ch_mod: "seq (ch_mod c f) m b = m (b\<lparr>dev := (dev b)\<lparr>scc := (scc (dev b))\<lparr>scc_ch := (scc_ch (scc (dev b)))(c := f (scc_ch (scc (dev b)) c))\<rparr>\<rparr>\<rparr>)"
  by (simp add: ch_mod_run)

lemma mailbox_ch:
  "mailbox dev_wf b \<Longrightarrow> ch_wf h \<Longrightarrow> mailbox dev_wf (b\<lparr>dev := (dev b)\<lparr>scc := (scc (dev b))\<lparr>scc_ch := (scc_ch (scc (dev b)))(c := h)\<rparr>\<rparr>\<rparr>)"
  by (simp add: mailbox_def dev_wf_def scc_wf_def)

lemma mailbox_ch_wf: "mailbox dev_wf b \<Longrightarrow> ch_wf (scc_ch (scc (dev b)) c)"
  by (simp add: mailbox_def dev_wf_def scc_wf_def)

lemma recv_irq_ok [keeps_intro]: "keeps (mailbox dev_wf) E (recv_irq c h)"
  unfolding recv_irq_def Let_def by (intro keeps_intro ch_mod_ok; simp add: ch_wf_def)

lemma recvData_ok [keeps_intro]: "keeps (mailbox dev_wf) E (recvData c v)"
  unfolding recvData_def
proof (intro keeps_seq keeps_ch_get ch_mod_ok)
  fix b :: "devs bus" assume b: "mailbox dev_wf b"
  let ?h = "scc_ch (scc (dev b)) c"
  let ?g = "\<lambda>h. h\<lparr>inBuf := inBuf h @ [v], bufStatus := bufStatus h OR 1\<rparr>"
  let ?full = "seq (ch_mod c (\<lambda>h. h\<lparr>specialRecvStatus := specialRecvStatus h OR 0x20\<rparr>)) (doIrq (special c))"
  show "case (if length (inBuf ?h) < 8 then
       if bit (recvParam ?h) 1 \<and> syncLetter ?h AND 0xff = ucast v then return () else seq (ch_mod c ?g) (recv_irq c ?h)
     else ?full) b of Ok _ b' \<Rightarrow> mailbox dev_wf b' | Raise e b' \<Rightarrow> mailbox dev_wf b' \<and> E e"
  proof (cases "length (inBuf ?h) < 8")
    case True
    have "ch_wf (?g ?h)" using True mailbox_ch_wf [OF b, of c] by (simp add: ch_wf_def)
    from keeps_at [OF recv_irq_ok mailbox_ch [OF b this]] True b show ?thesis by (simp add: seq_ch_mod)
  next
    case False
    have "keeps (mailbox dev_wf) E ?full"
      by (intro keeps_intro ch_mod_ok; simp add: ch_wf_def)
    from keeps_at [OF this b] False show ?thesis by simp
  qed
qed (simp add: ch_wf_def)


lemma mailbox_sccI:
  "mailbox dev_wf b \<Longrightarrow> inturrupt b' \<le> 7 \<Longrightarrow> wakeups b' = wakeups b \<Longrightarrow> rtc (dev b') = rtc (dev b) \<Longrightarrow>
     asc (dev b') = asc (dev b) \<Longrightarrow> scc_wf (scc (dev b')) \<Longrightarrow> mailbox dev_wf b'"
  by (simp add: mailbox_def dev_wf_def)

lemma irq_scc_channels [simp]: "scc_ch (irq_scc w s) = scc_ch s" "curReg (irq_scc w s) = curReg s"
  by (simp_all add: irq_scc_def Let_def)

lemma send_port_run [simp]: "send_port c x b = Ok () b"
  by (simp add: send_port_def sendPrinterPort_def sendModemPort_def)

lemma sendDataImpl_ok [keeps_intro]: "keeps (mailbox dev_wf) E (sendDataImpl c v)"
  unfolding keeps_def
proof (intro allI impI)
  fix b :: "devs bus" assume b: "mailbox dev_wf b"
  let ?h = "scc_ch (scc (dev b)) c"
  have w: "scc_wf (scc (dev b))" "inturrupt b \<le> 7" using b by (simp_all add: mailbox_def dev_wf_def)
  have n: "length (outBuf ?h) \<le> 3" using mailbox_ch_wf [OF b, of c] by (simp add: ch_wf_def)
  show "case sendDataImpl c v b of Ok _ b' \<Rightarrow> mailbox dev_wf b' | Raise e b' \<Rightarrow> mailbox dev_wf b' \<and> E e"
  proof (cases "length (outBuf ?h) = 3")
    case True
    have *: "mailbox dev_wf b'" if "sendDataImpl c v b = Ok () b'" for b'
      by (rule mailbox_sccI [OF b]; insert that True w;
          simp add: sendDataImpl_def seq_ch_mod ch_get_def doIrq_run Let_def ch_mod_run split: if_splits;
          auto simp: scc_wf_def ch_wf_def)
    have "\<exists>b'. sendDataImpl c v b = Ok () b'"
      using True by (simp add: sendDataImpl_def seq_ch_mod ch_get_def doIrq_run ch_mod_run)
    with * show ?thesis by auto
  next
    case False
    have "mailbox dev_wf (b\<lparr>dev := (dev b)\<lparr>scc := (scc (dev b))\<lparr>scc_ch := (scc_ch (scc (dev b)))(c := ?h\<lparr>outBuf := outBuf ?h @ [v], vSCCWrReq := True\<rparr>)\<rparr>\<rparr>\<rparr>)"
      using False n mailbox_ch_wf [OF b, of c] by (intro mailbox_ch [OF b]) (simp add: ch_wf_def)
    then show ?thesis
      using False by (simp add: sendDataImpl_def seq_ch_mod ch_get_def ch_mod_run)
  qed
qed

lemma low_reg: "unat (v AND 3) \<in> {0, 1, 2, 3}" for v :: u8
proof -
  have "v AND 3 \<le> 3" by (rule word_and_le1)
  then have "unat (v AND 3) \<le> 3" by (simp add: word_le_nat_alt)
  then show ?thesis by (simp, presburger)
qed

lemma scc_command_runs:
  assumes b: "mailbox dev_wf b" and r: "curReg (scc (dev b)) \<in> {0, 1, 2, 3}"
  shows "case scc_command c k b of Ok _ b' \<Rightarrow> mailbox dev_wf b' | Raise e b' \<Rightarrow> mailbox dev_wf b' \<and> E e"
proof (cases "k = 1")
  case True
  have "or (curReg (scc (dev b))) 8 \<in> {8, 9, 10, 11}" using r by auto
  then show ?thesis using b r by (auto simp: True scc_command_def mailbox_def dev_wf_def scc_wf_def)
next
  case False
  have "keeps (mailbox dev_wf) E (scc_command c k)"
    unfolding scc_command_def send_port_def sendPrinterPort_def sendModemPort_def if_not_P [OF False]
    by (intro keeps_intro ch_mod_ok scc_mod_ok; simp add: ch_wf_def scc_wf_def)
  then show ?thesis using b by (rule keeps_at)
qed

lemma SccCh_ok [keeps_intro]:
  "dev_ok (SccCh_read c r)" "dev_ok (SccCh_write c r v)"
proof -
  show "dev_ok (SccCh_read c r)"
    unfolding SccCh_read_def by (intro keeps_intro scc_mod_ok; simp add: scc_wf_def)
  have "keeps (mailbox dev_wf) bus_ends (seq (scc_mod (\<lambda>s. s\<lparr>curReg := unat (v AND 3)\<rparr>)) (scc_command c k))" for k
    unfolding keeps_def
  proof (intro allI impI)
    fix b :: "devs bus" assume b: "mailbox dev_wf b"
    let ?b = "b\<lparr>dev := (dev b)\<lparr>scc := (scc (dev b))\<lparr>curReg := unat (v AND 3)\<rparr>\<rparr>\<rparr>"
    have "mailbox dev_wf ?b" using b low_reg [of v] by (auto simp: mailbox_def dev_wf_def scc_wf_def)
    from scc_command_runs [OF this] low_reg [of v]
    show "case seq (scc_mod (\<lambda>s. s\<lparr>curReg := unat (v AND 3)\<rparr>)) (scc_command c k) b of
        Ok _ b' \<Rightarrow> mailbox dev_wf b' | Raise e b' \<Rightarrow> mailbox dev_wf b' \<and> bus_ends e" by simp
  qed
  then have "dev_ok (seq (whenM q (ch_mod c (\<lambda>h. h\<lparr>bufStatus := bufStatus h AND NOT 0x40\<rparr>)))
      (seq (scc_mod (\<lambda>s. s\<lparr>curReg := unat (v AND 3)\<rparr>)) (scc_command c k)))" for q k
    by (rule keeps_seq [rotated]) (intro keeps_intro ch_mod_ok; simp add: ch_wf_def)
  then show "dev_ok (SccCh_write c r v)"
    unfolding SccCh_write_def
    by (rule keeps_seq [OF _ keeps_if, rotated]) (intro keeps_intro ch_mod_ok scc_mod_ok; simp add: ch_wf_def scc_wf_def)+
qed

lemma SCC_ok [keeps_intro]: "dev_ok (SCC_read a)" "dev_ok (SCC_write a v)" "keeps (mailbox dev_wf) E scc_reset" "dev_ok (eom c)"
  unfolding SCC_read_def SCC_write_def scc_reset_def eom_def by (intro keeps_intro; simp)+

section \<open>Sound chip\<close>

lemma low_pointer: "(p + 1) AND 0x3ff \<le> (0x3ff :: u16)"
  by (rule word_and_le1)

lemma snd_get_ok [keeps_intro]: "keeps I E (snd_get c f)"
  unfolding snd_get_def by (intro keeps_intro)

lemma fifo_ok [keeps_intro]: "dev_ok (fifo_at c i)" "dev_ok (fifo_put c i v)"
  unfolding fifo_at_def fifo_put_def by (intro keeps_intro snd_mod_ok; simp add: snd_wf_def)+

lemma snd_ok [keeps_intro]:
  "keeps (mailbox dev_wf) E (ASC_CH_reset c)" "dev_ok (set_fifotimer c)" "keeps (mailbox dev_wf) E (timerH_callback c)" "keeps (mailbox dev_wf) E (timerF_callback c)"
  "dev_ok (fifo_write c v)" "dev_ok (read_reg c t)" "dev_ok (write_reg c t v)" "dev_ok (fifo_read c)" "dev_ok (set_fifo_flags h f h' f')"
proof -
  show "dev_ok (fifo_write c v)"
    unfolding fifo_write_def set_fifotimer_def by (intro keeps_intro snd_mod_ok; simp add: snd_wf_def low_pointer)
qed (unfold ASC_CH_reset_def set_fifotimer_def timerH_callback_def timerF_callback_def
    read_reg_def write_reg_def fifo_read_def set_fifo_flags_def Let_def setSampleRate_def;
  intro keeps_intro snd_mod_ok; simp add: snd_wf_def low_pointer)+

lemma cdxa_ok: "dev_ok (cdxa_read c)"
  unfolding cdxa_read_def Let_def by (intro keeps_intro snd_mod_ok; simp add: snd_wf_def)

lemma wave_ok [keeps_intro]: "dev_ok (do_wave n)" "dev_ok (asc_wave_read i)"
proof -
  show w: "dev_ok (do_wave n)" for n
    unfolding do_wave_def wave_sample_def by (intro keeps_intro asc_mod_ok; simp add: asc_wf_def advance_def)
  show "dev_ok (asc_wave_read i)" unfolding asc_wave_read_def by (intro keeps_intro w)
qed

lemma ASC_ok [keeps_intro]: "dev_ok (ASC_read a)" "dev_ok (ASC_write a v)" "keeps (mailbox dev_wf) E ASC_reset"
  unfolding ASC_read_def ASC_write_def ASC_reset_def record_read_def Let_def
  by (intro keeps_intro asc_mod_ok snd_mod_ok; simp add: asc_wf_def snd_wf_def low_pointer)+

section \<open>Boards\<close>

lemma iop_mod_ok [keeps_intro]: "keeps (mailbox dev_wf) E (dmod (iop_upd w f))"
  by (intro dmod_ok) (cases w; simp add: dev_wf_def)

lemma IOP_ok [keeps_intro]: "dev_ok (IOP_read w a)" "dev_ok (IOP_write w a v)"
proof -
  have *: "dev_ok (readBase w a)" "dev_ok (writeBase w a v)"
    by (cases w; simp add: SCC_ok keeps_return)+
  show "dev_ok (IOP_read w a)" unfolding IOP_read_def by (intro keeps_intro *)
  show "dev_ok (IOP_write w a v)" unfolding IOP_write_def by (intro keeps_intro *)
qed

lemma small_chips_ok [keeps_intro]:
  "dev_ok (MCU_read a)" "dev_ok (MCU_write a l)" "dev_ok (OSS_ctrl_read a)" "dev_ok (OSS_ctrl_write a v)"
  "dev_ok (IIfxExp0_read a)" "dev_ok (IIfxExp0_write a v)" "dev_ok (IIfxExp1_read a)" "dev_ok (IIfxExp1_write a v)"
  "dev_ok (SCSI_DMA_read a)" "dev_ok (SCSI_DMA_write a l)" "dev_ok (SWIM_read a)" "dev_ok (SWIM_write a v)"
  "dev_ok (VDAC_read a)" "dev_ok (VDAC_write a v)" "dev_ok (SCSI_NORMAL_read a)" "dev_ok (SCSI_NORMAL_write a v)"
  "dev_ok (SCSI_HANDSHAKE_read a)" "dev_ok (SCSI_HANDSHAKE_write a v)" "dev_ok (SCSI_pDMA_read a)" "dev_ok (SCSI_pDMA_write a v)"
  "dev_ok (JAWS_CTL_read a)" "dev_ok (JAWS_CTL_write a v)" "dev_ok (pds_read a)" "dev_ok (pds_write a v)"
  unfolding MCU_read_def MCU_write_def OSS_ctrl_read_def OSS_ctrl_write_def IIfxExp0_read_def IIfxExp0_write_def
    IIfxExp1_read_def IIfxExp1_write_def SCSI_DMA_read_def SCSI_DMA_write_def SWIM_read_def SWIM_write_def
    VDAC_read_def VDAC_write_def SCSI_NORMAL_read_def SCSI_NORMAL_write_def SCSI_HANDSHAKE_read_def SCSI_HANDSHAKE_write_def
    SCSI_pDMA_read_def SCSI_pDMA_write_def JAWS_CTL_read_def JAWS_CTL_write_def pds_read_def pds_write_def
  by (intro keeps_intro dmod_ok; simp add: dev_wf_def)+

lemma byte_boards_ok [keeps_intro]:
  "dev_ok (GLUE_readB a)" "dev_ok (GLUE_writeB a v)" "dev_ok (MDU_readB a)" "dev_ok (MDU_writeB a v)"
  "dev_ok (OSS_readB a)" "dev_ok (OSS_writeB a v)" "dev_ok (V8_readB a)" "dev_ok (V8_writeB a v)"
  "dev_ok (MCU_Q900_readB a)" "dev_ok (MCU_Q900_writeB a v)" "dev_ok (MCU_Q700_readB a)" "dev_ok (MCU_Q700_writeB a v)"
  "dev_ok (JAWS_readB a)" "dev_ok (JAWS_writeB a v)"
  unfolding GLUE_readB_def GLUE_writeB_def MDU_readB_def MDU_writeB_def OSS_readB_def OSS_writeB_def V8_readB_def V8_writeB_def
    MCU_Q900_readB_def MCU_Q900_writeB_def MCU_Q700_readB_def MCU_Q700_writeB_def JAWS_readB_def JAWS_writeB_def Let_def
  by (intro keeps_intro; simp)+

end
