(* ===== verification/Flat.thy ===== *)
theory Flat
  imports Ea Branch
begin

text \<open>
  What guest accesses do when no translation is enabled: src/memory.cc over src/bus.cc. The
  accesses split a misaligned operand and look up every part, which the lemmas here reduce to
  the byte array of the RAM; then the stack and the fault status on top of them.
\<close>

section \<open>Identity translation\<close>

text \<open>Neither the translation tables nor the transparent translation registers are enabled.\<close>

definition untranslated :: "cpu \<Rightarrow> bool" where
  "untranslated c \<longleftrightarrow> \<not> TCR_E c \<and> \<not> TTR_E (ITTR c 0) \<and> \<not> TTR_E (ITTR c 1)
     \<and> \<not> TTR_E (DTTR c 0) \<and> \<not> TTR_E (DTTR c 1)"

lemma page_offset_own: "page_offset c (push_bit 12 (drop_bit 12 a)) a = a"
proof (rule bit_word_eqI)
  fix n assume n: "n < LENGTH(32)"
  then have b: "bit (0xfff :: u32) n \<longleftrightarrow> n < 12" "bit (0x1fff :: u32) n \<longleftrightarrow> n < 13"
    using bit_mask_iff [where 'a = "32 word", of 12 n] bit_mask_iff [where 'a = "32 word", of 13 n]
    by (simp_all add: mask_eq_exp_minus_1 possible_bit_def)
  consider "n < 12" | "n = 12" | "13 \<le> n" by linarith
  then show "bit (page_offset c (push_bit 12 (drop_bit 12 a)) a) n = bit a n"
    using n b by cases (auto simp: page_offset_def bit_simps)
qed

lemma ptest_ttr_off: "untranslated c \<Longrightarrow> ptest_ttr c a sys code = mmu_none"
  by (simp add: untranslated_def ptest_ttr_def TEST_TTR_def mmu_none_def Let_def)

lemma identity_translation:
  assumes "untranslated (cpu s)"
  shows "ptest_and_check a code W s = Ok a s"
proof -
  have "ptest (drop_bit 12 a) sys code W s = Ok (mmu_none\<lparr>mr_R := True, mr_paddr := drop_bit 12 a\<rparr>) s" for sys
    using assms by (simp add: ptest_def ptest_ttr_off) (simp add: untranslated_def mmu_none_def)
  then show ?thesis
    by (simp add: ptest_and_check_def mmu_none_def page_offset_own)
qed

section \<open>Accesses\<close>

lemma on_io_RAM:
  "ram_range a 1 (bus s) \<Longrightarrow> on_io (\<lambda>v. BusReadB v a) s = Ok (RAM (bus s) (unat a)) s"
  "ram_range a 2 (bus s) \<Longrightarrow> on_io (\<lambda>v. BusReadW v a) s = Ok (be16 (RAM (bus s)) (unat a)) s"
  "ram_range a 4 (bus s) \<Longrightarrow> on_io (\<lambda>v. BusReadL v a) s = Ok (be32 (RAM (bus s)) (unat a)) s"
  "ram_range a 1 (bus s) \<Longrightarrow> on_io (\<lambda>v. BusWriteB v a b) s
     = Ok () (s\<lparr>bus := obj_put RAM_obj (unat a) b (bus s)\<rparr>)"
  "ram_range a 2 (bus s) \<Longrightarrow> on_io (\<lambda>v. BusWriteW v a w) s
     = Ok () (s\<lparr>bus := put16 (RAM_obj, unat a) w (bus s)\<rparr>)"
  "ram_range a 4 (bus s) \<Longrightarrow> on_io (\<lambda>v. BusWriteL v a l) s
     = Ok () (s\<lparr>bus := put32 (RAM_obj, unat a) l (bus s)\<rparr>)"
  by (simp_all add: on_bus_Ok RAM_read RAM_write del: obj_put.simps)

lemma faulting_Ok: "m s = Ok a s' \<Longrightarrow> faulting x sz rw tm tt m s = Ok a s'"
  by (simp add: faulting_def)

lemma second_half_Ok: "m s = Ok a s' \<Longrightarrow> second_half m s = Ok a s'"
  by (simp add: second_half_def)

lemma flat_ReadB:
  assumes "untranslated (cpu s)" "ram_range a 1 (bus s)"
  shows "ReadBImpl a lk s = Ok (RAM (bus s) (unat a)) s"
  using assms by (simp add: ReadBImpl_def identity_translation on_io_RAM del: on_io_run)

lemma flat_ReadW:
  assumes "untranslated (cpu s)" "ram_range a 2 (bus s)"
  shows "ReadWImpl a code lk s = Ok (be16 (RAM (bus s)) (unat a)) s"
proof -
  have "ram_range a 1 (bus s)" "ram_range (a + 1) 1 (bus s)" "unat (a + 1) = unat a + 1"
    using ram_range_offset [OF assms(2), of 1 1] assms(2) by (simp_all add: ram_range_def)
  with assms show ?thesis
    by (simp add: ReadWImpl_def flat_ReadB second_half_Ok identity_translation on_io_RAM be16_def del: on_io_run)
qed

lemma flat_ReadL:
  assumes "untranslated (cpu s)" "ram_range a 4 (bus s)"
  shows "ReadLImpl a lk s = Ok (be32 (RAM (bus s)) (unat a)) s"
proof -
  have "ram_range a 2 (bus s)" "ram_range (a + 2) 2 (bus s)" "unat (a + 2) = unat a + 2"
    using ram_range_offset [OF assms(2), of 2 2] assms(2) by (simp_all add: ram_range_def)
  with assms obj.be32_halves [of RAM_obj "bus s" "unat a"] show ?thesis
    by (simp add: ReadLImpl_def flat_ReadW second_half_Ok identity_translation on_io_RAM del: on_io_run)
qed

lemma untranslated_bus [simp]: "cpu (s\<lparr>bus := b\<rparr>) = cpu s" by simp

lemma obj_put_range [simp]: "ram_range a n (obj_put x i v b) = ram_range a n b"
  by (cases x) (simp_all add: ram_range_def)

lemma put16_range [simp]: "ram_range a n (put16 p v b) = ram_range a n b"
  by (simp add: put16_def)

lemma flat_WriteB:
  assumes "untranslated (cpu s)" "ram_range a 1 (bus s)"
  shows "WriteBImpl a v s = Ok () (s\<lparr>bus := obj_put RAM_obj (unat a) v (bus s)\<rparr>)"
  using assms by (simp add: WriteBImpl_def identity_translation on_io_RAM del: on_io_run obj_put.simps)

lemma flat_WriteW:
  assumes "untranslated (cpu s)" "ram_range a 2 (bus s)"
  shows "WriteWImpl a w s = Ok () (s\<lparr>bus := put16 (RAM_obj, unat a) w (bus s)\<rparr>)"
proof -
  have r: "ram_range a 1 (bus s)" "ram_range (a + 1) 1 (bus s)" "unat (a + 1) = unat a + 1"
    using ram_range_offset [OF assms(2), of 1 1] assms(2) by (simp_all add: ram_range_def)
  with assms r show ?thesis
    by (simp add: WriteWImpl_def flat_WriteB second_half_Ok identity_translation on_io_RAM put16_def
        del: on_io_run obj_put.simps)
qed

lemma put32_halves:
  "put16 (x, i + 2) (ucast l) (put16 (x, i) (ucast (drop_bit 16 l)) b) = put32 (x, i) l b"
proof -
  have "ucast (drop_bit 8 (ucast (drop_bit 16 l) :: u16)) = (ucast (drop_bit 24 l) :: u8)"
    "ucast (ucast (drop_bit 16 l) :: u16) = (ucast (drop_bit 16 l) :: u8)"
    "ucast (drop_bit 8 (ucast l :: u16)) = (ucast (drop_bit 8 l) :: u8)"
    "ucast (ucast l :: u16) = (ucast l :: u8)"
    by (rule bit_word_eqI; auto simp: bit_simps)+
  then show ?thesis by (simp add: put16_def put32_def eval_nat_numeral del: obj_put.simps)
qed

lemma flat_WriteL:
  assumes "untranslated (cpu s)" "ram_range a 4 (bus s)"
  shows "WriteLImpl a l s = Ok () (s\<lparr>bus := put32 (RAM_obj, unat a) l (bus s)\<rparr>)"
proof -
  have r: "ram_range a 2 (bus s)" "ram_range (a + 2) 2 (bus s)" "unat (a + 2) = unat a + 2"
    using ram_range_offset [OF assms(2), of 2 2] assms(2) by (simp_all add: ram_range_def)
  with assms r show ?thesis
    by (simp add: WriteLImpl_def flat_WriteW second_half_Ok identity_translation on_io_RAM put32_halves [simplified]
        del: on_io_run obj_put.simps)
qed

section \<open>The guest's view\<close>

lemmas flat_accesses = flat_ReadB flat_ReadW flat_ReadL flat_WriteB flat_WriteW flat_WriteL

lemma flat_guest:
  assumes "untranslated (cpu s)"
  shows "ram_range a 1 (bus s) \<Longrightarrow> ReadB a s = Ok (RAM (bus s) (unat a)) s"
    and "ram_range a 2 (bus s) \<Longrightarrow> ReadW a s = Ok (be16 (RAM (bus s)) (unat a)) s"
    and "ram_range a 2 (bus s) \<Longrightarrow> FetchW a s = Ok (be16 (RAM (bus s)) (unat a)) s"
    and "ram_range a 4 (bus s) \<Longrightarrow> ReadL a s = Ok (be32 (RAM (bus s)) (unat a)) s"
    and "ram_range a 1 (bus s) \<Longrightarrow> WriteB a b s = Ok () (s\<lparr>bus := obj_put RAM_obj (unat a) b (bus s)\<rparr>)"
    and "ram_range a 2 (bus s) \<Longrightarrow> WriteW a w s = Ok () (s\<lparr>bus := put16 (RAM_obj, unat a) w (bus s)\<rparr>)"
    and "ram_range a 4 (bus s) \<Longrightarrow> WriteL a l s = Ok () (s\<lparr>bus := put32 (RAM_obj, unat a) l (bus s)\<rparr>)"
  using assms
  by (simp_all add: ReadB_def ReadW_def FetchW_def ReadL_def WriteB_def WriteW_def WriteL_def
      faulting_def catch_PTestError_Ok flat_accesses del: obj_put.simps)

lemma ram_range_less: "ram_range a n b \<Longrightarrow> 0 < m \<Longrightarrow> m \<le> n \<Longrightarrow> ram_range a m b"
  by (simp add: ram_range_def)

text \<open>
  C16. Without translation the guest sees the RAM as a flat array of bytes: at every alignment the
  byte, word and longword reads return the big-endian number stored there and change nothing,
  and the writes store it and change nothing else, although the code splits misaligned
  accesses into up to four.
\<close>

theorem flat_memory:
  assumes "untranslated (cpu s)" and "ram_range a 4 (bus s)"
  shows "ReadB a s = Ok (RAM (bus s) (unat a)) s \<and>
    ReadW a s = Ok (be16 (RAM (bus s)) (unat a)) s \<and>
    ReadL a s = Ok (be32 (RAM (bus s)) (unat a)) s \<and>
    WriteB a b s = Ok () (s\<lparr>bus := obj_put RAM_obj (unat a) b (bus s)\<rparr>) \<and>
    WriteW a w s = Ok () (s\<lparr>bus := put16 (RAM_obj, unat a) w (bus s)\<rparr>) \<and>
    WriteL a l s = Ok () (s\<lparr>bus := put32 (RAM_obj, unat a) l (bus s)\<rparr>)"
  by (intro conjI flat_guest assms ram_range_less [OF assms(2)]; simp)

lemma small_machine_ram: "ram_range a n (bus small_machine) \<longleftrightarrow> unat a + n \<le> 8 \<and> 0 < n"
  by (simp add: ram_range_def small_bus_def)

lemma small_machine_untranslated: "untranslated (cpu small_machine)"
  by (simp add: untranslated_def cpu_static_def ttr_static_def)

theorem flat_memory_witness:
  "WriteL 3 0x12345678 small_machine
     = Ok () (small_machine\<lparr>bus := put32 (RAM_obj, 3) 0x12345678 small_bus\<rparr>)"
  using flat_memory [OF small_machine_untranslated, of 3 _ _ "0x12345678"]
  by (simp add: small_machine_ram [simplified])

section \<open>Faults\<close>

text \<open>The special status word of a fault: the code of the error and what was attempted.\<close>

definition fault_status :: "cpu \<Rightarrow> u16 \<Rightarrow> SIZ \<Rightarrow> bool \<Rightarrow> u8 \<Rightarrow> u16 \<Rightarrow> u16" where
  "fault_status c code sz rw tm tt = code OR (if movem_run c then SSW_CM else 0) OR tt
     OR push_bit 9 (of_bool (bus_lock c)) OR push_bit 8 (of_bool rw)
     OR push_bit 5 (SIZ_int sz) OR ucast tm"

definition faulted :: "u32 \<Rightarrow> u16 \<Rightarrow> SIZ \<Rightarrow> bool \<Rightarrow> u8 \<Rightarrow> u16 \<Rightarrow> 'd machine \<Rightarrow> 'd machine" where
  "faulted a code sz rw tm tt s = s\<lparr>cpu := (cpu s)\<lparr>ex_addr := a,
     fault_SSW := fault_status (cpu s) code sz rw tm tt\<rparr>\<rparr>"

lemma faulting_Raise:
  assumes "m s = Raise e s'" "PTestError_code e = Some code" "\<not> inJit (cpu s')"
  shows "faulting a sz rw tm tt m s = Raise (M68kException 2) (faulted a code sz rw (tm ((cpu s')\<lparr>fault_SSW := code\<rparr>)) tt s')"
  using assms
  by (cases "movem_run (cpu s')")
    (simp_all add: faulting_def catch_PTestError_caught ACCESS_FAULT_def RAISE_run faulted_def fault_status_def or.assoc)

lemma hole_Impl:
  assumes "untranslated (cpu s)" "RAMSize (bus s) \<le> unat a" "unat a < 2 ^ 30" "\<not> bit_at a 0" "\<not> bit_at a 1"
  shows "ReadBImpl a lk s = Raise BusError s" "ReadWImpl a code lk s = Raise BusError s"
    "ReadLImpl a lk s = Raise BusError s" "WriteBImpl a b s = Raise BusError s"
    "WriteWImpl a w s = Raise BusError s" "WriteLImpl a l s = Raise BusError s"
  using assms
  by (simp_all add: ReadBImpl_def ReadWImpl_def ReadLImpl_def WriteBImpl_def WriteWImpl_def WriteLImpl_def
      identity_translation on_bus_Raise BusReadB_def BusReadW_def BusReadL_def BusWriteB_def BusWriteW_def
      BusWriteL_def doBus_RAM_end)

text \<open>
  C17. An access to an address with no memory behind it raises the guest's access fault, exception
  2: the faulting address goes to \<open>ex_addr\<close>, the special status word says what was attempted
  (size, direction, address space, lock, interrupted \<open>MOVEM\<close>), and nothing else has changed.
\<close>

theorem unmapped_access_faults:
  assumes "untranslated (cpu s)" and "\<not> inJit (cpu s)"
    and "RAMSize (bus s) \<le> unat a" and "unat a < 2 ^ 30" and "\<not> bit a 0" and "\<not> bit a 1"
  shows "ReadB a s = Raise (M68kException 2) (faulted a 0 SIZ_B True (GetTMData (cpu s)) 0 s) \<and>
    ReadW a s = Raise (M68kException 2) (faulted a 0 SIZ_W True (GetTMData (cpu s)) 0 s) \<and>
    ReadL a s = Raise (M68kException 2) (faulted a 0 SIZ_L True (GetTMData (cpu s)) 0 s) \<and>
    FetchW a s = Raise (M68kException 2) (faulted a 0 SIZ_W True (GetTMCode (cpu s)) 0 s) \<and>
    WriteB a b s = Raise (M68kException 2) (faulted a 0 SIZ_B False (GetTMData (cpu s)) 0 s) \<and>
    WriteW a w s = Raise (M68kException 2) (faulted a 0 SIZ_W False (GetTMData (cpu s)) 0 s) \<and>
    WriteL a l s = Raise (M68kException 2) (faulted a 0 SIZ_L False (GetTMData (cpu s)) 0 s)"
proof -
  have b: "\<not> bit_at a 0" "\<not> bit_at a 1" using assms by (simp_all add: bit_at_iff)
  note r = hole_Impl [OF assms(1,3,4) b]
  have run: "bind (cget bus_lock) f s = f (bus_lock (cpu s)) s" for f :: "bool \<Rightarrow> ('a, 'b) mach"
    by simp
  show ?thesis
    unfolding ReadB_def ReadW_def ReadL_def FetchW_def WriteB_def WriteW_def WriteL_def
    by (intro conjI; subst faulting_Raise [where s' = s and e = BusError and code = 0];
        simp add: r assms(2) GetTMData_def GetTMCode_def)
qed

theorem unmapped_access_faults_witness:
  "WriteL 0x100 7 small_machine
     = Raise (M68kException 2) (faulted 0x100 0 SIZ_L False 1 0 small_machine)"
  using unmapped_access_faults [OF small_machine_untranslated, of "0x100" _ _ 7]
  by (simp add: small_bus_def GetTMData_def cpu_static_def)

section \<open>The stack\<close>

definition with_A7 :: "u32 \<Rightarrow> 'd machine \<Rightarrow> 'd machine" where
  "with_A7 v s = s\<lparr>cpu := (cpu s)\<lparr>An := (An (cpu s))(7 := v)\<rparr>\<rparr>"

lemma with_A7_simps [simp]:
  "untranslated (cpu (with_A7 v s)) = untranslated (cpu s)" "bus (with_A7 v s) = bus s"
  "An (cpu (with_A7 v s)) 7 = v" "with_A7 u (with_A7 v s) = with_A7 u s"
  by (simp_all add: with_A7_def untranslated_def)

lemma put32_low_first:
  "put16 (x, i) (ucast (drop_bit 16 l)) (put16 (x, i + 2) (ucast l) b) = put32 (x, i) l b"
proof -
  have "put16 (x, i) v (put16 (x, i + 2) w b) = put16 (x, i + 2) w (put16 (x, i) v b)" for v w
    by (cases x) (simp_all add: put16_def fun_upd_twist)
  then show ?thesis by (simp only: put32_halves)
qed

lemma PUSH32_run:
  assumes "untranslated (cpu s)" "ram_range (An (cpu s) 7 - 4) 4 (bus s)"
  shows "PUSH32 v s = Ok () (with_A7 (An (cpu s) 7 - 4)
    (s\<lparr>bus := put32 (RAM_obj, unat (An (cpu s) 7 - 4)) v (bus s)\<rparr>))"
proof -
  let ?a = "An (cpu s) 7 - 4"
  have r: "unat (?a + 2) = unat ?a + 2" "ram_range (?a + 2) 2 (bus s)" "ram_range ?a 2 (bus s)"
    using ram_range_offset [OF assms(2), of 2 2] assms(2) by (simp_all add: ram_range_def)
  have "?a + 2 = An (cpu s) 7 - 2" by simp
  with r have r': "unat (An (cpu s) 7 - 2) = unat ?a + 2" "ram_range (An (cpu s) 7 - 2) 2 (bus s)" by simp_all
  with r assms(1) show ?thesis
    by (simp add: PUSH32_def flat_guest with_A7_def put32_low_first [simplified] del: obj_put.simps)
qed

lemma POP32_run:
  assumes "untranslated (cpu s)" "ram_range (An (cpu s) 7) 4 (bus s)"
  shows "POP32 s = Ok (ucast (be32 (RAM (bus s)) (unat (An (cpu s) 7)))) (with_A7 (An (cpu s) 7 + 4) s)"
proof -
  let ?a = "An (cpu s) 7"
  have r: "unat (?a + 2) = unat ?a + 2" "ram_range (?a + 2) 2 (bus s)" "ram_range ?a 2 (bus s)"
    using ram_range_offset [OF assms(2), of 2 2] assms(2) by (simp_all add: ram_range_def)
  with assms(1) obj.be32_halves [of RAM_obj "bus s" "unat ?a"] show ?thesis
    by (simp add: POP32_def flat_guest with_A7_def)
qed

lemma PUSH16_run:
  assumes "untranslated (cpu s)" "ram_range (An (cpu s) 7 - 2) 2 (bus s)"
  shows "PUSH16 w s = Ok () (with_A7 (An (cpu s) 7 - 2)
    (s\<lparr>bus := put16 (RAM_obj, unat (An (cpu s) 7 - 2)) w (bus s)\<rparr>))"
  using assms flat_guest(6) [of "with_A7 (An (cpu s) 7 - 2) s"]
  by (simp add: PUSH16_def with_A7_def untranslated_def del: obj_put.simps)

lemma POP16_run:
  assumes "untranslated (cpu s)" "ram_range (An (cpu s) 7) 2 (bus s)"
  shows "POP16 s = Ok (be16 (RAM (bus s)) (unat (An (cpu s) 7))) (with_A7 (An (cpu s) 7 + 2) s)"
  using assms by (simp add: POP16_def flat_guest with_A7_def)

lemma low_half: "ucast (ucast v :: u16) = v AND 0xffff" for v :: u32
proof -
  have "ucast (ucast v :: u16) = take_bit 16 v"
    by (rule bit_word_eqI) (auto simp: bit_simps)
  then show ?thesis by (simp add: take_bit_eq_mask mask_eq_exp_minus_1)
qed

text \<open>
  C24. \<open>BSR\<close> followed by \<open>RTS\<close> restores the registers and the stack pointer but returns to the
  low sixteen bits of the return address only, because \<open>POP32\<close> is declared to return a
  sixteen-bit integer.
\<close>

theorem subroutine_return:
  assumes "untranslated (cpu s)" and "ram_range (An (cpu s) 7 - 4) 4 (bus s)"
    and "\<not> bit (oldpc (cpu s) + 2 + d) 0" and "\<not> bit (PC (cpu s)) 0"
  shows "\<exists>s' s''. do_bsr d s = Ok () s' \<and> PC (cpu s') = oldpc (cpu s) + 2 + d \<and>
    do_rts s' = Ok () s'' \<and> PC (cpu s'') = PC (cpu s) AND 0xffff \<and>
    An (cpu s'') = An (cpu s) \<and> Dn (cpu s'') = Dn (cpu s)"
proof -
  let ?sp = "An (cpu s) 7 - 4" and ?t = "oldpc (cpu s) + 2 + d"
  define s1 where "s1 = with_A7 ?sp (s\<lparr>bus := put32 (RAM_obj, unat ?sp) (PC (cpu s)) (bus s)\<rparr>)"
  define trace :: "cpu \<Rightarrow> cpu" where "trace c = (if T_mode c = 1 then c\<lparr>must_trace := True\<rparr> else c)" for c
  define s2 where "s2 = s1\<lparr>cpu := trace ((cpu s1)\<lparr>PC := ?t\<rparr>)\<rparr>"
  have push: "PUSH32 (PC (cpu s)) s = Ok () s1"
    unfolding s1_def by (rule PUSH32_run [OF assms(1,2)])
  have s1: "oldpc (cpu s1) = oldpc (cpu s)" by (simp add: s1_def with_A7_def)
  have bsr: "do_bsr d s = Ok () s2"
    using assms(3) by (simp add: do_bsr_def push branch_to_def JUMP_def bit_at_iff s1 s2_def trace_def)
  have s2: "untranslated (cpu s2)" "bus s2 = put32 (RAM_obj, unat ?sp) (PC (cpu s)) (bus s)"
    "An (cpu s2) = (An (cpu s))(7 := ?sp)" "Dn (cpu s2) = Dn (cpu s)" "PC (cpu s2) = ?t"
    using assms(1) by (simp_all add: s2_def s1_def with_A7_def trace_def untranslated_def)
  have "POP32 s2 = Ok (ucast (be32 (RAM (bus s2)) (unat (An (cpu s2) 7)))) (with_A7 (An (cpu s2) 7 + 4) s2)"
    by (rule POP32_run [OF s2(1)]) (simp add: s2 assms(2))
  then have pop: "POP32 s2 = Ok (ucast (PC (cpu s))) (with_A7 (An (cpu s) 7) s2)"
    using put32_get [of RAM_obj "unat ?sp" "PC (cpu s)" "bus s"] by (simp add: s2)
  have low: "ucast (ucast (PC (cpu s)) :: u16) = PC (cpu s) AND 0xffff"
    by (rule low_half)
  have "\<not> bit_at (ucast (ucast (PC (cpu s)) :: u16) :: u32) 0"
    using assms(4) by (simp add: bit_at_iff bit_simps)
  then have "do_rts s2 = Ok () (s2\<lparr>cpu := trace ((cpu (with_A7 (An (cpu s) 7) s2))\<lparr>PC := PC (cpu s) AND 0xffff\<rparr>)\<rparr>)"
    by (simp add: do_rts_def pop JUMP_def low trace_def with_A7_def)
  with bsr show ?thesis
    by (simp add: s2 with_A7_def trace_def)
qed

text \<open>A machine with a stack: \<open>A7\<close> just above the eight bytes of RAM, and a high return address.\<close>

definition stack_machine :: "unit machine" where
  "stack_machine = small_machine\<lparr>cpu := cpu_static\<lparr>An := (\<lambda>_. 8), PC := 0x40012346, oldpc := 0x40012342\<rparr>\<rparr>"

theorem subroutine_return_witness:
  "\<exists>s' s''. do_bsr 0x10 stack_machine = Ok () s' \<and> do_rts s' = Ok () s'' \<and> PC (cpu s'') = 0x2346"
proof -
  have "untranslated (cpu stack_machine)" "ram_range (An (cpu stack_machine) 7 - 4) 4 (bus stack_machine)"
    by (simp_all add: stack_machine_def untranslated_def cpu_static_def ttr_static_def ram_range_def small_bus_def)
  from subroutine_return [OF this, of "0x10"] show ?thesis
    by (auto simp: stack_machine_def)
qed

end
