(* ===== verification/Translation.thy ===== *)
theory Translation
  imports Flat Wellformed
begin

text \<open>
  What the memory management unit of src/cpu/68040_mmu.cc computes: the round trip of its
  registers, the effect of the flushes, the table walk against a description of the tables in
  memory, hits, misses and rights, and the loops behind the cache instructions.
\<close>

section \<open>Control registers\<close>

lemma word32_bits: "list_all (\<lambda>n. bit v n = bit w n) [0, 1, 2, 3, 4, 5, 6, 7, 8, 9, 10, 11, 12, 13, 14, 15,
    16, 17, 18, 19, 20, 21, 22, 23, 24, 25, 26, 27, 28, 29, 30, 31] \<Longrightarrow> v = w" for v w :: u32
proof (rule bit_word_eqI)
  fix n assume l: "list_all (\<lambda>n. bit v n = bit w n) [0, 1, 2, 3, 4, 5, 6, 7, 8, 9, 10, 11, 12, 13, 14, 15,
    16, 17, 18, 19, 20, 21, 22, 23, 24, 25, 26, 27, 28, 29, 30, 31]" and n: "n < LENGTH(32)"
  then have "n \<in> set [0..<32]" by simp
  also have "[0..<32] = [0, 1, 2, 3, 4, 5, 6, 7, 8, 9, 10, 11, 12, 13, 14, 15,
    16, 17, 18, 19, 20, 21, 22, 23, 24, 25, 26, 27, 28, 29, 30, 31]"
    by (simp add: upt_rec)
  finally show "bit v n = bit w n"
    using l unfolding list_all_iff by blast
qed

text \<open>The bits a transparent translation register has, and those of each control register.\<close>

definition ttr_bits :: u32 where "ttr_bits = 0xFFFFE364"

lemma TTR_roundtrip: "Get_TTR_t (Set_TTR_t v) = v AND ttr_bits"
  by (rule word32_bits) (simp add: ttr_bits_def Get_TTR_t_def Set_TTR_t_def bit_simps bit_at_iff)

definition cr_bits :: "u16 \<Rightarrow> u32" where
  "cr_bits x = (if x = 0 \<or> x = 1 then 7 else if x = 2 then 0x80008000 else if x = 3 then 0xC000
     else if x \<in> {4, 5, 6, 7} then ttr_bits else if x = 0x806 \<or> x = 0x807 then NOT 0x1ff else - 1)"

definition cr_numbers :: "u16 list" where
  "cr_numbers = [0, 1, 2, 3, 4, 5, 6, 7, 0x800, 0x801, 0x803, 0x804, 0x805, 0x806, 0x807]"

lemma small_field: "ucast (ucast (v AND 7 :: u32) :: u8) = v AND 7"
  by (rule word32_bits) (simp add: bit_simps)

lemma cache_bits: "push_bit 31 (of_bool (bit_at v 31)) OR push_bit 15 (of_bool (bit_at v 15)) = v AND 0x80008000"
  "push_bit 15 (of_bool (bit_at v 15)) OR push_bit 14 (of_bool (bit_at v 14)) = v AND 0xC000" for v :: u32
  by (rule word32_bits; simp add: bit_simps bit_at_iff)+

text \<open>
  C22. Every control register that \<open>MOVEC\<close> can write reads back what was written to it, cut to the
  bits the register has, and reading it changes nothing; this includes the active stack pointer, which lives in \<open>A7\<close>.
\<close>

theorem movec_roundtrip:
  "list_all (\<lambda>x. \<exists>c'. movec_to_cr_impl x v c = Some c' \<and>
     movec_from_cr_impl x c' = Some (v AND cr_bits x, c')) cr_numbers"
  by (simp add: cr_numbers_def movec_to_cr_impl_def movec_from_cr_impl_def Let_def cr_bits_def
      small_field TTR_roundtrip cache_bits)

section \<open>Flushing\<close>

lemma atc_mod_run: "atc_mod code sys k f s = Ok () (if code then s\<lparr>i_atc := atc_upd (i_atc s) sys k f\<rparr>
     else s\<lparr>d_atc := atc_upd (d_atc s) sys k f\<rparr>)"
  by (simp add: atc_mod_def)

text \<open>A flush of the slots in \<open>K\<close>, in the supervisor caches and, where \<open>u\<close>, in the user caches.\<close>

definition flush_slots :: "(atc_entry \<Rightarrow> bool) \<Rightarrow> 4 word set \<Rightarrow> bool \<Rightarrow> atc \<Rightarrow> atc" where
  "flush_slots p K u t = (\<lambda>sys k. if k \<in> K \<and> (sys \<or> u) then flush_entry p (t sys k) else t sys k)"

definition flushed :: "(atc_entry \<Rightarrow> bool) \<Rightarrow> 4 word set \<Rightarrow> 'd machine \<Rightarrow> 'd machine" where
  "flushed p K s = (let u = (DFC (cpu s) = 1 \<or> DFC (cpu s) = 2) in
     s\<lparr>d_atc := flush_slots p K u (d_atc s), i_atc := flush_slots p K u (i_atc s)\<rparr>)"

lemma flush_slots_one:
  "flush_slots p {k} u t = (if u then atc_upd (atc_upd t True k (flush_entry p)) False k (flush_entry p)
     else atc_upd t True k (flush_entry p))"
  by (intro ext) (auto simp: flush_slots_def atc_upd_def)

lemma flush_at_run: "flush_at p k s = Ok () (flushed p {k} s)"
  by (cases "DFC (cpu s) = 1 \<or> DFC (cpu s) = 2")
    (auto simp: flush_at_def dfc_user_def atc_mod_run flushed_def Let_def flush_slots_one)

lemma flush_slots_twice: "flush_slots p K u (flush_slots p L u t) = flush_slots p (L \<union> K) u t"
  if "\<And>e. p (e\<lparr>atc_V := False\<rparr>) = p e"
  by (intro ext) (auto simp: flush_slots_def flush_entry_def that)

lemma flushed_twice: "flushed p K (flushed p L s) = flushed p (L \<union> K) s" if "\<And>e. p (e\<lparr>atc_V := False\<rparr>) = p e"
  by (simp add: flushed_def Let_def flush_slots_twice that)

lemma flush_loop:
  assumes "\<And>e. p (e\<lparr>atc_V := False\<rparr>) = p e"
  shows "for_each js (\<lambda>j. flush_at p (of_nat j)) s = Ok () (flushed p (of_nat ` set js) s)"
proof (induction js arbitrary: s)
  case Nil
  show ?case by (simp add: flushed_def Let_def flush_slots_def)
next
  case (Cons j js)
  then show ?case by (simp add: flush_at_run flushed_twice assms)
qed

lemma all_slots: "of_nat ` set [0..<16] = (UNIV :: 4 word set)"
proof -
  have "k = of_nat (unat k)" "unat k < 16" for k :: "4 word"
    using unsigned_less [of k, where 'a = nat] by simp_all
  then show ?thesis by (metis UNIV_eq_I atLeast0LessThan atLeast_upt image_eqI lessThan_iff)
qed

text \<open>
  The flush instructions clear the valid bit of exactly the entries they name (one page or
  all, with or without the global ones), in the supervisor caches and, when \<open>DFC\<close> selects a user
  space, in the user caches, and change nothing else.
\<close>

theorem flush_effect:
  "pflush_impl pn s = Ok () (flushed (\<lambda>e. laddr e = pn) {atc_key pn} s) \<and>
   pflushn_impl pn s = Ok () (flushed (\<lambda>e. laddr e = pn \<and> \<not> atc_G e) {atc_key pn} s) \<and>
   pflusha_impl s = Ok () (flushed (\<lambda>e. True) UNIV s) \<and>
   pflushan_impl s = Ok () (flushed (\<lambda>e. \<not> atc_G e) UNIV s)"
  using flush_loop [of "\<lambda>e. True" "[0..<16]" s] flush_loop [of "\<lambda>e. \<not> atc_G e" "[0..<16]" s]
  unfolding all_slots
  by (simp add: pflush_impl_def pflushn_impl_def pflusha_impl_def pflushan_impl_def flush_at_run)

section \<open>The table walk\<close>

text \<open>A longword of the RAM, at its physical address, and the bus after it is written.\<close>

definition mem32 :: "'d bus \<Rightarrow> u32 \<Rightarrow> u32" where
  "mem32 b a = be32 (RAM b) (unat a)"

definition set32 :: "u32 \<Rightarrow> u32 \<Rightarrow> 'd bus \<Rightarrow> 'd bus" where
  "set32 a v = put32 (RAM_obj, unat a) v"

text \<open>An aligned longword inside the RAM.\<close>

definition table_entry :: "'d bus \<Rightarrow> u32 \<Rightarrow> bool" where
  "table_entry b a \<longleftrightarrow> ram_range a 4 b \<and> a AND 3 = 0"

lemma table_entry_set32 [simp]: "table_entry (set32 x v b) a = table_entry b a"
  by (simp add: table_entry_def set32_def)

lemma aligned_disjoint:
  assumes "a AND 3 = 0" "b AND 3 = 0" "a \<noteq> (b :: u32)"
  shows "unat a + 4 \<le> unat b \<or> unat b + 4 \<le> unat a"
proof -
  have "unat x mod 4 = 0" if "x AND 3 = 0" for x :: u32
  proof -
    have "x AND 3 = take_bit 2 x"
      by (simp add: take_bit_eq_mask mask_eq_exp_minus_1)
    with that have "unat (take_bit 2 x) = 0" by simp
    then show ?thesis by (simp add: take_bit_eq_mod unat_mod)
  qed
  with assms have "unat a mod 4 = 0" "unat b mod 4 = 0" "unat a \<noteq> unat b"
    by (simp_all add: word_unat_eq_iff)
  then show ?thesis by presburger
qed

lemma mem32_set32:
  assumes "table_entry b a" "table_entry b x"
  shows "mem32 (set32 x v b) a = (if a = x then v else mem32 b a)"
proof (cases "a = x")
  case True
  then show ?thesis using put32_get [of RAM_obj "unat x" v b] by (simp add: mem32_def set32_def)
next
  case False
  with assms aligned_disjoint [of a x] show ?thesis
    by (auto simp: mem32_def set32_def be32_def put32_RAM table_entry_def)
qed

lemma bus_read32: "table_entry (bus s) a \<Longrightarrow> on_io (\<lambda>v. BusReadL v a) s = Ok (mem32 (bus s) a) s"
  and bus_write32: "table_entry (bus s) a \<Longrightarrow> on_io (\<lambda>v. BusWriteL v a l) s = Ok () (s\<lparr>bus := set32 a l (bus s)\<rparr>)"
  using on_io_RAM(3) [of a s] on_io_RAM(6) [of a s l]
  by (simp_all add: table_entry_def mem32_def set32_def del: on_io_run)

lemma pdt_lookup_run:
  assumes "table_entry (bus s) a" "\<not> mem32 (bus s) a AND 3 < 2"
  shows "pdt_lookup a s = Ok (mem32 (bus s) a OR 8) (s\<lparr>bus := set32 a (mem32 (bus s) a OR 8) (bus s)\<rparr>)"
  using assms by (simp add: pdt_lookup_def bus_read32 bus_write32 del: on_io_run)

text \<open>The three descriptor addresses of a page number, as the tables in RAM give them.\<close>

definition root_entry :: "u32 \<Rightarrow> u32 \<Rightarrow> u32" where
  "root_entry root pn = root OR push_bit 2 (ucast (addr_ri pn))"

definition pointer_entry :: "u32 \<Rightarrow> u32 \<Rightarrow> u32" where
  "pointer_entry d pn = (d AND NOT 0x1FF) OR push_bit 2 (ucast (addr_pi pn))"

definition page_entry :: "bool \<Rightarrow> u32 \<Rightarrow> u32 \<Rightarrow> u32" where
  "page_entry large d pn = (d AND NOT (if large then 0x7f else 0xFF)) OR push_bit 2 (ucast (addr_pgi pn large))"

text \<open>What the tables say of a page.\<close>

record walk =
  w_root :: u32
  w_pointer :: u32
  w_page :: u32
  w_protected :: bool

definition tables :: "cpu \<Rightarrow> 'd bus \<Rightarrow> bool \<Rightarrow> u32 \<Rightarrow> walk" where
  "tables c b sys pn =
     (let a0 = root_entry (if sys then SRP c else URP c) pn; d0 = mem32 b a0;
          a1 = pointer_entry d0 pn; d1 = mem32 b a1;
          a2 = page_entry (TCR_P c) d1 pn
      in \<lparr>w_root = a0, w_pointer = a1, w_page = a2,
          w_protected = (bit d0 2 \<or> bit d1 2 \<or> bit (mem32 b a2) 2)\<rparr>)"

text \<open>
  The tables are in RAM, their three entries differ, and the upper two levels are resident; then
  also the page descriptor is resident and direct.
\<close>

definition upper_resident :: "'d bus \<Rightarrow> walk \<Rightarrow> bool" where
  "upper_resident b w \<longleftrightarrow> table_entry b (w_root w) \<and> table_entry b (w_pointer w) \<and> table_entry b (w_page w)
     \<and> distinct [w_root w, w_pointer w, w_page w]
     \<and> \<not> mem32 b (w_root w) AND 3 < 2 \<and> \<not> mem32 b (w_pointer w) AND 3 < 2"

definition resident :: "'d bus \<Rightarrow> walk \<Rightarrow> bool" where
  "resident b w \<longleftrightarrow> upper_resident b w \<and> mem32 b (w_page w) AND 3 \<in> {1, 3}"

definition upper_used :: "'d bus \<Rightarrow> walk \<Rightarrow> 'd bus" where
  "upper_used b w = set32 (w_pointer w) (mem32 b (w_pointer w) OR 8)
     (set32 (w_root w) (mem32 b (w_root w) OR 8) b)"

definition walked :: "'d bus \<Rightarrow> walk \<Rightarrow> u32 \<Rightarrow> 'd bus" where
  "walked b w pg = set32 (w_page w) pg (upper_used b w)"

text \<open>The machine with an entry put into the slot of its page.\<close>

definition load_slot :: "bool \<Rightarrow> bool \<Rightarrow> u32 \<Rightarrow> atc_entry \<Rightarrow> 'd machine \<Rightarrow> 'd machine" where
  "load_slot code sys pn e s =
     (if code then s\<lparr>i_atc := atc_upd (i_atc s) sys (atc_key pn) (\<lambda>_. e)\<rparr>
      else s\<lparr>d_atc := atc_upd (d_atc s) sys (atc_key pn) (\<lambda>_. e)\<rparr>)"

lemma or8_bits:
  "(v OR 8) AND NOT 0x1FF = v AND NOT 0x1FF" "(v OR 8) AND NOT 0xFF = v AND NOT 0xFF"
  "(v OR 8) AND NOT 0x7F = v AND NOT 0x7F" "bit (v OR 8) 2 = bit v 2" "v OR 8 \<noteq> 0" for v :: u32
proof -
  have "bit (8 :: u32) 3" "\<not> bit (8 :: u32) 2" by simp_all
  then show "bit (v OR 8) 2 = bit v 2" "v OR 8 \<noteq> 0"
    by (auto simp: bit_or_iff or_eq_0_iff)
qed (simp_all add: bit.conj_disj_distrib2)

lemma entry_or8:
  "pointer_entry (d OR 8) pn = pointer_entry d pn" "page_entry l (d OR 8) pn = page_entry l d pn"
  by (cases l; simp only: pointer_entry_def page_entry_def or8_bits if_True if_False)+

lemma upper_run:
  fixes s :: "'d machine" and sys code W pn
  defines "w \<equiv> tables (cpu s) (bus s) sys pn"
  assumes "upper_resident (bus s) w"
  shows "atc_search code sys pn W s = atc_set code sys pn (w_page w) W
     (bit (mem32 (bus s) (w_root w)) 2 \<or> bit (mem32 (bus s) (w_pointer w)) 2) (s\<lparr>bus := upper_used (bus s) w\<rparr>)"
    and "mem32 (upper_used (bus s) w) (w_page w) = mem32 (bus s) (w_page w)"
proof -
  define d0 where "d0 = mem32 (bus s) (w_root w)"
  define d1 where "d1 = mem32 (bus s) (w_pointer w)"
  define b1 where "b1 = set32 (w_root w) (d0 OR 8) (bus s)"
  define b2 where "b2 = set32 (w_pointer w) (d1 OR 8) b1"
  have t: "table_entry (bus s) (w_root w)" "table_entry (bus s) (w_pointer w)" "table_entry (bus s) (w_page w)"
    and ne: "w_root w \<noteq> w_pointer w" "w_root w \<noteq> w_page w" "w_pointer w \<noteq> w_page w"
    and v: "\<not> d0 AND 3 < 2" "\<not> d1 AND 3 < 2"
    using assms(2) by (auto simp: upper_resident_def d0_def d1_def)
  have b2: "b2 = upper_used (bus s) w" by (simp add: b2_def b1_def upper_used_def d0_def d1_def)
  have w: "w_root w = root_entry (if sys then SRP (cpu s) else URP (cpu s)) pn"
    "w_pointer w = pointer_entry d0 pn" "w_page w = page_entry (TCR_P (cpu s)) d1 pn"
    by (simp_all add: w_def tables_def Let_def d0_def d1_def)
  have m: "mem32 b1 (w_pointer w) = d1" "mem32 b2 (w_page w) = mem32 (bus s) (w_page w)"
    using t ne by (simp_all add: b1_def b2_def mem32_set32 d1_def)
  have p0: "pdt_lookup (w_root w) s = Ok (d0 OR 8) (s\<lparr>bus := b1\<rparr>)"
    using pdt_lookup_run [of s "w_root w"] t(1) v(1) by (simp add: d0_def b1_def)
  have p1: "pdt_lookup (w_pointer w) (s\<lparr>bus := b1\<rparr>) = Ok (d1 OR 8) (s\<lparr>bus := b2\<rparr>)"
    using pdt_lookup_run [of "s\<lparr>bus := b1\<rparr>" "w_pointer w"] t(2) v(2) m(1)
    by (simp add: b2_def) (simp add: b1_def)
  have wp: "bit_at ((d0 OR 8) OR (d1 OR 8)) 2 = (bit d0 2 \<or> bit d1 2)"
    using or8_bits(4) [of d0] or8_bits(4) [of d1] by (simp add: bit_at_iff bit_or_iff)
  show "atc_search code sys pn W s = atc_set code sys pn (w_page w) W
     (bit (mem32 (bus s) (w_root w)) 2 \<or> bit (mem32 (bus s) (w_pointer w)) 2) (s\<lparr>bus := upper_used (bus s) w\<rparr>)"
    unfolding b2 [symmetric] d0_def [symmetric] d1_def [symmetric] wp [symmetric]
    using p0 p1 entry_or8(1) [of d0 pn] entry_or8(2) [of "TCR_P (cpu s)" d1 pn]
    by (simp add: atc_search_def or8_bits(5) w root_entry_def pointer_entry_def page_entry_def)
  show "mem32 (upper_used (bus s) w) (w_page w) = mem32 (bus s) (w_page w)"
    using m(2) by (simp add: b2)
qed

lemma table_entry_upper [simp]: "table_entry (upper_used b w) a = table_entry b a"
  by (simp add: upper_used_def)

lemma search_run:
  fixes s :: "'d machine" and sys code W pn
  defines "w \<equiv> tables (cpu s) (bus s) sys pn"
  defines "pg \<equiv> pg_update (mem32 (bus s) (w_page w)) W (w_protected w) sys"
  assumes "resident (bus s) w"
  shows "atc_search code sys pn W s = Ok () (load_slot code sys pn
     (atc_entry_of pn (w_page w) pg (w_protected w)) (s\<lparr>bus := walked (bus s) w pg\<rparr>))"
proof -
  let ?t = "s\<lparr>bus := upper_used (bus s) w\<rparr>"
  define d2 where "d2 = mem32 (bus s) (w_page w)"
  define wp where "wp = (bit (mem32 (bus s) (w_root w)) 2 \<or> bit (mem32 (bus s) (w_pointer w)) 2)"
  have up: "upper_resident (bus s) w" and v: "d2 AND 3 \<noteq> 0" "d2 AND 3 \<noteq> 2"
    using assms(3) by (auto simp: resident_def d2_def)
  then have t: "table_entry (bus ?t) (w_page w)" by (simp add: upper_resident_def)
  have m: "mem32 (bus ?t) (w_page w) = d2"
    using upper_run(2) [of s sys pn] up by (simp add: w_def d2_def)
  have prot: "(wp \<or> bit_at (d2 OR 8) 2) = w_protected w"
    using or8_bits(4) [of d2] by (simp add: bit_at_iff wp_def w_def tables_def Let_def d2_def)
  have pg: "pg_update d2 W (w_protected w) sys = pg"
    by (simp add: pg_def d2_def)
  have "atc_search code sys pn W s = atc_set code sys pn (w_page w) W wp ?t"
    using upper_run(1) [of s sys pn code W] up by (simp add: w_def wp_def)
  also have "\<dots> = atc_set_page code sys pn (w_page w) d2 W wp ?t"
    using v bus_read32 [OF t] m unfolding atc_set_def by (simp del: on_io_run)
  also have "\<dots> = Ok () (load_slot code sys pn (atc_entry_of pn (w_page w) pg (w_protected w))
      (s\<lparr>bus := walked (bus s) w pg\<rparr>))"
    using bus_write32 [OF t, of pg]
    unfolding atc_set_page_def Let_def prot pg by (simp add: atc_mod_def load_slot_def walked_def del: on_io_run)
  finally show ?thesis .
qed

text \<open>A page descriptor of type 0 ends the search without a trace in the cache.\<close>

lemma search_invalid_page:
  fixes s :: "'d machine" and sys code W pn
  defines "w \<equiv> tables (cpu s) (bus s) sys pn"
  assumes "upper_resident (bus s) w" "mem32 (bus s) (w_page w) AND 3 = 0"
  shows "atc_search code sys pn W s = Ok () (s\<lparr>bus := upper_used (bus s) w\<rparr>)"
proof -
  let ?t = "s\<lparr>bus := upper_used (bus s) w\<rparr>"
  have t: "table_entry (bus ?t) (w_page w)" using assms(2) by (simp add: upper_resident_def)
  have "mem32 (bus ?t) (w_page w) = mem32 (bus s) (w_page w)"
    using upper_run(2) [of s sys pn] assms(2) by (simp add: w_def)
  with assms(3) bus_read32 [OF t] show ?thesis
    using upper_run(1) [of s sys pn code W] assms(2) unfolding w_def
    by (simp add: atc_set_def del: on_io_run)
qed

section \<open>Translation\<close>

text \<open>The cache entry for a page number, and whether it is for that page.\<close>

definition slot :: "bool \<Rightarrow> bool \<Rightarrow> u32 \<Rightarrow> 'd machine \<Rightarrow> atc_entry" where
  "slot code sys pn s = (if code then i_atc s sys (atc_key pn) else d_atc s sys (atc_key pn))"

definition hit :: "bool \<Rightarrow> bool \<Rightarrow> u32 \<Rightarrow> 'd machine \<Rightarrow> bool" where
  "hit code sys pn s \<longleftrightarrow> atc_V (slot code sys pn s) \<and> laddr (slot code sys pn s) = pn"

text \<open>Translation by the tables and caches, as opposed to transparent translation or none.\<close>

definition paged :: "cpu \<Rightarrow> u32 \<Rightarrow> bool \<Rightarrow> bool" where
  "paged c pn code \<longleftrightarrow> TCR_E c \<and> \<not> mr_R (ptest_ttr c pn (S_bit c) code)"

text \<open>The access an entry permits, and translation by an entry.\<close>

definition allows :: "atc_entry \<Rightarrow> bool \<Rightarrow> bool \<Rightarrow> bool" where
  "allows e sys W \<longleftrightarrow> atc_R e \<and> \<not> (W \<and> atc_W e) \<and> \<not> (atc_S e \<and> \<not> sys)"

definition by_entry :: "cpu \<Rightarrow> u32 \<Rightarrow> bool \<Rightarrow> atc_entry \<Rightarrow> ('d, u32) mach" where
  "by_entry c a W e = (if allows e (S_bit c) W then return (page_offset c (push_bit 12 (atc_paddr e)) a)
     else throw (PTestError SSW_ATC))"

lemma atc_get_run: "atc_get code sys (atc_key pn) s = Ok (slot code sys pn s) s"
  by (simp add: atc_get_def slot_def)

lemma ptest_entry_run:
  assumes "allows (slot code sys pn s) sys W \<and> W \<Longrightarrow> atc_M (slot code sys pn s)"
  shows "ptest_entry code sys pn W s = Ok (result_of_entry (slot code sys pn s)) s"
proof -
  let ?e = "slot code sys pn s"
  have "\<not> (atc_R ?e \<and> W \<and> \<not> atc_W ?e \<and> \<not> atc_M ?e \<and> \<not> (atc_S ?e \<and> \<not> sys))"
    using assms unfolding allows_def by blast
  then show ?thesis
    unfolding ptest_entry_def by (simp only: atc_get_run bind_run_Ok whenM_False seq_run_Ok return_run)
qed

lemma check_result:
  assumes "ptest (drop_bit 12 a) (S_bit (cpu s)) code W s = Ok (result_of_entry e) s'" "cpu s' = cpu s"
  shows "ptest_and_check a code W s = by_entry (cpu s) a W e s'"
  using assms by (auto simp: ptest_and_check_def result_of_entry_def mmu_none_def by_entry_def allows_def)

lemma ptest_paged:
  assumes "paged (cpu s) pn code"
  shows "hit code (S_bit (cpu s)) pn s \<Longrightarrow>
      ptest pn (S_bit (cpu s)) code W s = ptest_entry code (S_bit (cpu s)) pn W s"
    and "\<not> hit code (S_bit (cpu s)) pn s \<Longrightarrow> atc_search code (S_bit (cpu s)) pn W s = Ok () s' \<Longrightarrow>
      ptest pn (S_bit (cpu s)) code W s = ptest_entry code (S_bit (cpu s)) pn W s'"
  using assms unfolding paged_def hit_def ptest_def
  by (simp_all add: atc_get_run) (auto simp: atc_get_run)

lemma cached_run:
  assumes "paged (cpu s) (drop_bit 12 a) code" and "hit code (S_bit (cpu s)) (drop_bit 12 a) s"
    and "W \<Longrightarrow> atc_M (slot code (S_bit (cpu s)) (drop_bit 12 a) s)"
  shows "ptest_and_check a code W s = by_entry (cpu s) a W (slot code (S_bit (cpu s)) (drop_bit 12 a) s) s"
  using assms by (intro check_result) (simp_all add: ptest_paged ptest_entry_run)

text \<open>
  C20. A hit in the translation cache decides the access without touching memory: the entry's
  frame with the offset of the address when the entry permits the access, the guest's error with the \<open>ATC\<close> bit
  otherwise; nothing changes.
\<close>

theorem cached_translation:
  assumes "paged (cpu s) (drop_bit 12 a) code" and "hit code (S_bit (cpu s)) (drop_bit 12 a) s"
    and "W \<Longrightarrow> atc_M (slot code (S_bit (cpu s)) (drop_bit 12 a) s)"
  shows "ptest_and_check a code W s = by_entry (cpu s) a W (slot code (S_bit (cpu s)) (drop_bit 12 a) s) s"
  using assms by (rule cached_run)

lemma slot_load [simp]: "slot code sys pn (load_slot code sys pn e s) = e"
  by (simp add: slot_def load_slot_def atc_upd_def)

lemma load_slot_cpu [simp]: "cpu (load_slot code sys pn e s) = cpu s"
  by (simp add: load_slot_def)

lemma pg_update_bits: "bit (pg_update pg W wp sys) 7 = bit pg 7"
  "W \<Longrightarrow> \<not> wp \<Longrightarrow> \<not> (bit pg 7 \<and> \<not> sys) \<Longrightarrow> bit (pg_update pg W wp sys) 4"
  "drop_bit 12 (pg_update pg W wp sys) = drop_bit 12 pg"
proof -
  show "bit (pg_update pg W wp sys) 7 = bit pg 7"
    by (simp add: pg_update_def Let_def bit_simps bit_at_iff)
  show "bit (pg_update pg W wp sys) 4" if "W" "\<not> wp" "\<not> (bit pg 7 \<and> \<not> sys)"
    using that by (simp add: pg_update_def Let_def bit_simps bit_at_iff)
  show "drop_bit 12 (pg_update pg W wp sys) = drop_bit 12 pg"
    by (simp add: pg_update_def Let_def drop_bit_or)
qed

text \<open>
  C8. A miss is resolved by the translation tables: with the three descriptors resident in RAM, the
  outcome is that of the page descriptor (write protection collected on all three levels), the used bits and, for a permitted write,
  the modified bit are set in memory, and the entry is put in the slot of its page; no other byte of memory and no other entry changes.
\<close>

theorem table_translation:
  fixes s :: "'d machine"
  defines "sys \<equiv> S_bit (cpu s)"
  assumes "paged (cpu s) (drop_bit 12 a) code" and "\<not> hit code sys (drop_bit 12 a) s"
    and "w = tables (cpu s) (bus s) sys (drop_bit 12 a)" and "resident (bus s) w"
    and "pg = pg_update (mem32 (bus s) (w_page w)) W (w_protected w) sys"
    and "e = atc_entry_of (drop_bit 12 a) (w_page w) pg (w_protected w)"
  shows "ptest_and_check a code W s
    = by_entry (cpu s) a W e (load_slot code sys (drop_bit 12 a) e (s\<lparr>bus := walked (bus s) w pg\<rparr>))"
proof (rule check_result)
  let ?s = "load_slot code sys (drop_bit 12 a) e (s\<lparr>bus := walked (bus s) w pg\<rparr>)"
  have search: "atc_search code sys (drop_bit 12 a) W s = Ok () ?s"
    using search_run [of s sys "drop_bit 12 a" code W] assms by simp
  have "allows e sys W \<Longrightarrow> W \<Longrightarrow> atc_M e"
    using pg_update_bits(2) [of W "w_protected w" "mem32 (bus s) (w_page w)" sys]
    by (simp add: assms(6,7) atc_entry_of_def allows_def bit_at_iff pg_update_bits(1))
  then have "ptest_entry code sys (drop_bit 12 a) W ?s = Ok (result_of_entry e) ?s"
    using ptest_entry_run [of code sys "drop_bit 12 a" ?s W] unfolding slot_load by blast
  then show "ptest (drop_bit 12 a) (S_bit (cpu s)) code W s = Ok (result_of_entry e) ?s"
    using ptest_paged(2) [OF assms(2) _ search [unfolded sys_def]] assms(3) unfolding sys_def by simp
qed simp

text \<open>
  C18. A page descriptor marked invalid does not end the access: \<open>atc_set\<close> returns without a result, and a read is
  decided by whatever entry the slot still holds, although that entry is for another page.
\<close>

theorem stale_translation:
  fixes s :: "'d machine"
  defines "sys \<equiv> S_bit (cpu s)"
  assumes "paged (cpu s) (drop_bit 12 a) code" and "\<not> hit code sys (drop_bit 12 a) s"
    and "w = tables (cpu s) (bus s) sys (drop_bit 12 a)" and "upper_resident (bus s) w"
    and "mem32 (bus s) (w_page w) AND 3 = 0"
  shows "ptest_and_check a code False s
    = by_entry (cpu s) a False (slot code sys (drop_bit 12 a) s) (s\<lparr>bus := upper_used (bus s) w\<rparr>)"
proof (rule check_result)
  let ?s = "s\<lparr>bus := upper_used (bus s) w\<rparr>" and ?e = "slot code sys (drop_bit 12 a) s"
  have search: "atc_search code sys (drop_bit 12 a) False s = Ok () ?s"
    using search_invalid_page [of s sys "drop_bit 12 a" code False] assms by simp
  have "slot code sys (drop_bit 12 a) ?s = ?e" by (simp add: slot_def)
  then have "ptest_entry code sys (drop_bit 12 a) False ?s = Ok (result_of_entry ?e) ?s"
    using ptest_entry_run [of code sys "drop_bit 12 a" ?s False] by simp
  then show "ptest (drop_bit 12 a) (S_bit (cpu s)) code False s = Ok (result_of_entry ?e) ?s"
    using ptest_paged(2) [OF assms(2) _ search [unfolded sys_def]] assms(3) unfolding sys_def by simp
qed simp

lemma on_bus_cpu: "keeps (\<lambda>s. cpu s = c) (\<lambda>_. True) (on_bus m)"
  unfolding on_bus_def
  by (rule keeps_lift_part [where J = "\<lambda>_. True"]) (auto simp: keeps_def split: outcome.split)

lemma on_io_cpu: "keeps (\<lambda>s. cpu s = c) (\<lambda>_. True) (on_io f)"
  unfolding on_io_def by (intro keeps_intro on_bus_cpu)

interpretation cpu_same: guest_memory "\<lambda>s :: 'd machine. cpu s = c" "\<lambda>_. True" for c
  by unfold_locales (auto simp: on_bus_cpu on_io_cpu atc_mod_def intro!: keeps_modify)

lemma slot_atc_mod: "atc_mod code sys (atc_key pn) f s = Ok () s' \<Longrightarrow> slot code sys pn s' = f (slot code sys pn s)"
  by (auto simp: atc_mod_def slot_def atc_upd_def)

lemma ptest_entry_Ok:
  assumes "ptest_entry code sys pn W s = Ok r s'"
  shows "r = result_of_entry (slot code sys pn s')"
    and "W \<Longrightarrow> allows (slot code sys pn s') sys W \<Longrightarrow> atc_M (slot code sys pn s')"
proof -
  let ?e = "slot code sys pn s"
  have "r = result_of_entry (slot code sys pn s') \<and>
    (W \<and> allows (slot code sys pn s') sys W \<longrightarrow> atc_M (slot code sys pn s'))"
  proof (cases "atc_R ?e \<and> W \<and> \<not> atc_W ?e \<and> \<not> atc_M ?e \<and> \<not> (atc_S ?e \<and> \<not> sys)")
    case True
    with assms obtain s1 where s1: "atc_mod code sys (atc_key pn) (\<lambda>e. e\<lparr>atc_M := True\<rparr>) s1 = Ok () s'"
      and "r = result_of_entry (slot code sys pn s')"
      unfolding ptest_entry_def whenM_def by (auto simp: bind_eq_Ok seq_eq_Ok atc_get_run simp del: on_io_run)
    with slot_atc_mod [OF s1] show ?thesis by simp
  next
    case False
    with assms have "r = result_of_entry (slot code sys pn s')" "s' = s"
      unfolding ptest_entry_def whenM_def by (auto simp: bind_eq_Ok seq_eq_Ok atc_get_run simp del: on_io_run)
    with False show ?thesis by (auto simp: allows_def)
  qed
  then show "r = result_of_entry (slot code sys pn s')"
    and "W \<Longrightarrow> allows (slot code sys pn s') sys W \<Longrightarrow> atc_M (slot code sys pn s')" by blast+
qed

lemma ptest_Ok:
  assumes "paged (cpu s) pn code" and "ptest pn (S_bit (cpu s)) code W s = Ok r s'"
  shows "mr_B r \<or> r = result_of_entry (slot code (S_bit (cpu s)) pn s')
      \<and> (W \<and> allows (slot code (S_bit (cpu s)) pn s') (S_bit (cpu s)) W \<longrightarrow>
         atc_M (slot code (S_bit (cpu s)) pn s'))"
  using assms ptest_entry_Ok [of code "S_bit (cpu s)" pn W _ r s']
  by (auto simp: ptest_def paged_def bind_eq_Ok split: if_splits)

text \<open>
  C7. No access is translated against the rights in its cache entry: when an address is translated by the tables
  or the cache, then the entry in the slot of its page is resident, not write-protected for a write, not supervisor-only
  for a user access, marked modified after a write, and gives the frame; the processor state is unchanged.
\<close>

theorem translation_is_allowed:
  assumes "paged (cpu s) (drop_bit 12 a) code" and "ptest_and_check a code W s = Ok pa s'"
  defines "e \<equiv> slot code (S_bit (cpu s)) (drop_bit 12 a) s'"
  shows "allows e (S_bit (cpu s)) W \<and> pa = page_offset (cpu s) (push_bit 12 (atc_paddr e)) a \<and>
    (if W then atc_M e else True) \<and> cpu s' = cpu s"
proof -
  have cpu: "cpu s' = cpu s"
    using keeps_Ok [OF cpu_same.ptest_keeps(3) assms(2), of "cpu s"] by simp
  obtain r where r: "ptest (drop_bit 12 a) (S_bit (cpu s)) code W s = Ok r s'" "\<not> mr_B r" "mr_R r"
    "\<not> (mr_W r \<and> W)" "\<not> (mr_S r \<and> \<not> S_bit (cpu s))" "pa = page_offset (cpu s') (push_bit 12 (mr_paddr r)) a"
    using assms(2) by (auto simp: ptest_and_check_def bind_eq_Ok split: if_splits)
  with ptest_Ok [OF assms(1) r(1)] cpu show ?thesis
    by (auto simp: e_def result_of_entry_def mmu_none_def allows_def)
qed

text \<open>A user-state machine with tables in its RAM; the page descriptor of page 1 is at hexadecimal 304.\<close>

definition table_ram :: "nat \<Rightarrow> u8" where
  "table_ram = (\<lambda>_. 0)(2 := 2, 3 := 2, 0x202 := 3, 0x203 := 2, 0x306 := 0x50, 0x307 := 1)"

definition table_bus :: "(nat \<Rightarrow> u8) \<Rightarrow> unit bus" where
  "table_bus r = small_bus\<lparr>RAM := r, RAMSize := 0x400\<rparr>"

definition table_machine :: "(nat \<Rightarrow> u8) \<Rightarrow> unit machine" where
  "table_machine r = (machine_on no_device (table_bus r))\<lparr>cpu := cpu_static\<lparr>TCR_E := True\<rparr>\<rparr>"

lemma table_machine_paged: "paged (cpu (table_machine r)) pn code"
  by (simp add: table_machine_def paged_def cpu_static_def ptest_ttr_def TEST_TTR_def ttr_static_def mmu_none_def)

lemma table_machine_tables:
  "table_ram = r \<or> table_ram(0x306 := 0, 0x307 := 0) = r \<Longrightarrow> tables (cpu (table_machine r)) (bus (table_machine r)) False 1
     = \<lparr>w_root = 0, w_pointer = 0x200, w_page = 0x304, w_protected = False\<rparr>"
  by (auto simp: table_machine_def tables_def Let_def cpu_static_def table_bus_def mem32_def be32_def
      root_entry_def pointer_entry_def page_entry_def addr_ri_def addr_pi_def addr_pgi_def table_ram_def)

lemma table_machine_resident:
  "mem32 (bus (table_machine table_ram)) 0x304 = 0x5001"
  "mem32 (bus (table_machine (table_ram(0x306 := 0, 0x307 := 0)))) 0x304 = 0"
  "r = table_ram \<or> r = table_ram(0x306 := 0, 0x307 := 0) \<Longrightarrow> upper_resident (bus (table_machine r))
     \<lparr>w_root = 0, w_pointer = 0x200, w_page = 0x304, w_protected = False\<rparr>"
  by (auto simp: table_machine_def table_bus_def small_bus_def mem32_def be32_def table_ram_def
      upper_resident_def table_entry_def ram_range_def)

theorem table_translation_witness:
  "\<exists>s'. ptest_and_check 0x1234 False False (table_machine table_ram) = Ok 0x5234 s'"
proof -
  let ?s = "table_machine table_ram" and ?w = "\<lparr>w_root = 0, w_pointer = 0x200, w_page = 0x304, w_protected = False\<rparr>"
  have "\<not> hit False False (drop_bit 12 0x1234) ?s" "S_bit (cpu ?s) = False"
    by (simp_all add: hit_def slot_def table_machine_def machine_on_def atc_static_def cpu_static_def)
  moreover have "resident (bus ?s) ?w"
    using table_machine_resident by (simp add: resident_def)
  ultimately show ?thesis
    using table_translation [where s = ?s and a = "0x1234" and code = False and W = False and w = ?w,
        OF table_machine_paged]
      table_machine_tables [of table_ram] table_machine_resident(1)
    by (simp add: by_entry_def allows_def atc_entry_of_def pg_update_def bit_at_iff page_offset_def table_machine_def cpu_static_def)
qed

definition stale_machine :: "unit machine" where
  "stale_machine = (table_machine (table_ram(0x306 := 0, 0x307 := 0)))\<lparr>d_atc := (\<lambda>_ _. (atc_static False 1)
     \<lparr>laddr := 0x11, atc_V := True, atc_R := True, atc_paddr := 7\<rparr>)\<rparr>"

theorem stale_translation_witness:
  "\<exists>s'. ptest_and_check 0x1234 False False stale_machine = Ok 0x7234 s'"
proof -
  let ?w = "\<lparr>w_root = 0, w_pointer = 0x200, w_page = 0x304, w_protected = False\<rparr>"
  let ?r = "table_ram(0x306 := 0, 0x307 := 0)"
  have eq: "cpu stale_machine = cpu (table_machine ?r)" "bus stale_machine = bus (table_machine ?r)"
    by (simp_all add: stale_machine_def)
  have "\<not> hit False False 1 stale_machine" "S_bit (cpu stale_machine) = False"
    by (simp_all add: hit_def slot_def stale_machine_def table_machine_def cpu_static_def)
  then show ?thesis
    using stale_translation [of stale_machine "0x1234" False ?w] table_machine_paged [of ?r 1 False]
      table_machine_tables [of ?r] table_machine_resident(2) table_machine_resident(3) [of ?r]
    by (simp add: eq by_entry_def allows_def slot_def)
      (simp add: stale_machine_def table_machine_def page_offset_def cpu_static_def atc_static_def)
qed

lemma stale_machine_facts:
  "paged (cpu stale_machine) 0x11 False" "hit False False 0x11 stale_machine" "\<not> S_bit (cpu stale_machine)"
  "by_entry (cpu stale_machine) 0x11234 False (slot False False 0x11 stale_machine) stale_machine
     = Ok 0x7234 stale_machine"
  using table_machine_paged [of _ "0x11" False]
  by (simp_all add: hit_def slot_def stale_machine_def table_machine_def cpu_static_def by_entry_def
      allows_def page_offset_def atc_static_def)

theorem cached_translation_witness:
  "ptest_and_check 0x11234 False False stale_machine = Ok 0x7234 stale_machine"
  using cached_translation [of stale_machine "0x11234" False False] stale_machine_facts by simp

theorem translation_is_allowed_witness:
  "\<exists>e. allows e False False \<and> 0x7234 = page_offset (cpu stale_machine) (push_bit 12 (atc_paddr e)) 0x11234"
  using translation_is_allowed [of stale_machine "0x11234" False False "0x7234" stale_machine]
    cached_run [of stale_machine "0x11234" False False] stale_machine_facts by auto

text \<open>
  C19. In a well-formed machine \<open>PFLUSH\<close> leaves no valid supervisor entry for its page in either cache: the search of one
  slot is enough because valid entries sit in the slot of their page. Other slots are untouched.
\<close>

theorem pflush_removes:
  assumes "wf Q s"
  shows "\<exists>s'. pflush_impl pn s = Ok () s' \<and> wf Q s' \<and>
    (\<forall>k. \<not> (atc_V (d_atc s' True k) \<and> laddr (d_atc s' True k) = pn) \<and>
         \<not> (atc_V (i_atc s' True k) \<and> laddr (i_atc s' True k) = pn)) \<and>
    (\<forall>k. k = atc_key pn \<or> (d_atc s' sys k = d_atc s sys k \<and> i_atc s' sys k = i_atc s sys k))"
proof -
  let ?s = "flushed (\<lambda>e. laddr e = pn) {atc_key pn} s"
  have run: "pflush_impl pn s = Ok () ?s"
    by (simp add: pflush_impl_def flush_at_run)
  moreover from this have "wf Q ?s"
    using keeps_Ok [OF wf_flush(2) _ assms] by blast
  moreover have "atc_key (laddr (t True k)) = k" if "wf_atc t" "atc_V (t True k)" for t k
    using that by (simp add: wf_atc_def)
  ultimately show ?thesis
    using assms by (intro exI [of _ ?s]) (auto simp: flushed_def Let_def flush_slots_def flush_entry_def wf_def)
qed

section \<open>The instruction cache lines\<close>

lemma unat_offset: "unat b + m < 2 ^ 32 \<Longrightarrow> unat (b + of_nat m) = unat b + m" for b :: u32
  using unat_add_lem [of b "of_nat m"] by (simp add: unat_of_nat take_bit_nat_eq_self)

lemma erase_loop_enough:
  fixes b :: u32
  assumes "unat b + 2 * n < 2 ^ 32" "n \<le> k"
  shows "erase_loop k b (b + 2 * of_nat n) t = (\<lambda>x. if \<exists>i<n. x = b + 2 * of_nat i then False else t x)"
  using assms
proof (induction n arbitrary: b t k)
  case 0
  then show ?case by (cases k) simp_all
next
  case (Suc n)
  then obtain j where k: "k = Suc j" by (cases k) auto
  have "unat (b + 2 * of_nat (Suc n)) = unat b + 2 * Suc n" "unat (b + 2) = unat b + 2"
    using unat_offset [of b "2 * Suc n"] unat_offset [of b 2] Suc.prems(1) by simp_all
  then have lt: "b < b + 2 * of_nat (Suc n)" "unat (b + 2) = unat b + 2"
    by (simp_all add: word_less_nat_alt)
  have "erase_loop j (b + 2) (b + 2 + 2 * of_nat n) (t(b := False))
      = (\<lambda>x. if \<exists>i<n. x = b + 2 + 2 * of_nat i then False else (t(b := False)) x)"
    using Suc.prems lt k by (intro Suc.IH) simp_all
  moreover have "(\<exists>i<Suc n. x = b + 2 * of_nat i) \<longleftrightarrow> x = b \<or> (\<exists>i<n. x = b + 2 + 2 * of_nat i)" for x
    by (auto simp: less_Suc_eq_0_disj algebra_simps)
  ultimately show ?case
    using lt by (auto simp: k fun_eq_iff algebra_simps)
qed

lemma erase_loop_empty: "lim \<le> b \<Longrightarrow> erase_loop k b lim t = t"
  by (cases k) (simp_all add: not_less [symmetric])

text \<open>The even addresses of a block.\<close>

definition block_addresses :: "u32 \<Rightarrow> nat \<Rightarrow> u32 set" where
  "block_addresses b n = (\<lambda>i. b + 2 * of_nat i) ` {..<n}"

definition erased :: "u32 set \<Rightarrow> 'd machine \<Rightarrow> 'd machine" where
  "erased A s = s\<lparr>jit_tables := (\<lambda>x. x \<notin> A \<and> jit_tables s x)\<rparr>"

lemma erase_block:
  assumes "unat b + 2 * n < 2 ^ 32" "n \<le> k"
  shows "erase_loop k b (b + 2 * of_nat n) t = (\<lambda>x. x \<notin> block_addresses b n \<and> t x)"
  unfolding erase_loop_enough [OF assms] block_addresses_def by (auto simp: fun_eq_iff)

lemma line_below:
  assumes "b AND NOT 0xf = (b :: u32)" "b \<noteq> 0xfffffff0"
  shows "unat b + 16 < 2 ^ 32"
proof -
  have "NOT 0xf = (0xfffffff0 :: u32)" by simp
  then have "b AND NOT 0xf \<le> 0xfffffff0"
    using word_and_le1 [of b "NOT 0xf"] by metis
  with assms have "b < 0xfffffff0" by simp
  then show ?thesis by (simp add: word_less_nat_alt)
qed

text \<open>
  Invalidating an instruction cache line drops the translated code of the eight even addresses
  in it and of no others, except for the last line of the address space, where the end of the range wraps to 0 and nothing is dropped.
\<close>

theorem cinvl_effect:
  "cinvl_i a s = Ok () (if a AND NOT 0xf = 0xfffffff0 then s else erased (block_addresses (a AND NOT 0xf) 8) s) \<and>
   cpushl_i a s = cinvl_i a s"
proof (cases "a AND NOT 0xf = 0xfffffff0")
  case True
  then show ?thesis
    unfolding cinvl_i_def cpushl_i_def Let_def by (simp add: erase_loop_empty del: erase_loop.simps)
next
  case False
  then have "unat (a AND NOT 0xf) + 2 * 8 < 2 ^ 32"
    using line_below [of "a AND NOT 0xf"] by simp
  from erase_block [OF this, of 8 "jit_tables s"] False show ?thesis
    unfolding cinvl_i_def cpushl_i_def Let_def by (simp add: erased_def del: erase_loop.simps)
qed

theorem pflush_removes_witness:
  "\<exists>s'. pflush_impl 0x25 small_machine = Ok () s' \<and> wf (\<lambda>_. True) s' \<and> \<not> (atc_V (d_atc s' True 5) \<and> laddr (d_atc s' True 5) = 0x25)"
  using pflush_removes [OF wf_small_machine, of "0x25"] by blast

end
