(* ===== verification/System.thy ===== *)
theory System
  imports Translation Bcd
begin

text \<open>
  What the contract of \<open>Guards\<close> gives for the processor as a whole: isolation of user programs,
  the ways an instruction can end, and the invariant of all reachable states.
\<close>

unbundle bit_operations_syntax

section \<open>Before an instruction\<close>

text \<open>An interrupt is due: level 7, or a level above the mask.\<close>

definition interrupt_due :: "'d machine \<Rightarrow> bool" where
  "interrupt_due s \<longleftrightarrow> inturrupt (bus s) = 7 \<or> inturrupt (bus s) > uint (I_lvl (cpu s))"

lemma run_op_prologue:
  assumes "\<not> rom_funcs s (PC (cpu s) AND 0xfffff)" and "\<not> inJit (cpu s)"
  shows "interrupt_due s \<Longrightarrow>
      run_op fpu s = Raise (M68kException (24 + inturrupt (bus s))) (s\<lparr>bus := (bus s)\<lparr>inturrupt := - 1\<rparr>\<rparr>)"
    and "\<not> interrupt_due s \<Longrightarrow> run_op fpu s = bind FETCH (\<lambda>op. seq (exec_op fpu op) op_epilogue)
      (s\<lparr>cpu := (cpu s)\<lparr>EA := (if movem_run (cpu s) then EA (cpu s) else 0),
         must_trace := (T_mode (cpu s) = 2), oldpc := PC (cpu s)\<rparr>\<rparr>)"
  using assms
  by (auto simp: run_op_def interrupt_due_def op_prologue_def whenM_def IRQ_def RAISE_run on_bus_Ok)

section \<open>Opcodes that only raise\<close>

text \<open>Rules that do not cover an opcode, and the search past them.\<close>

lemma off_line: "op AND 0xf000 = l \<Longrightarrow> msk AND 0xf000 = 0xf000 \<Longrightarrow> base AND 0xf000 \<noteq> l \<Longrightarrow> op AND msk \<noteq> base"
  for op :: u16
  by (metis and.assoc and.commute)

lemma lookup_last_append: "lookup_last (xs @ ys) op r = lookup_last ys op (lookup_last xs op r)"
  by (induction xs op r rule: lookup_last.induct) auto

definition off :: "u16 \<Rightarrow> 'd rule \<Rightarrow> bool" where "off op r \<longleftrightarrow> \<not> fst r op"

lemma lookup_last_off: "list_all (off op) rs \<Longrightarrow> lookup_last rs op r = r"
  by (induction rs op r rule: lookup_last.induct) (auto simp: off_def)

lemma lookup_skip:
  "off op e \<Longrightarrow> lookup_last rs op r = v \<Longrightarrow> lookup_last (e # rs) op r = v"
  by (cases e) (auto simp: off_def)
lemma lookup_take:
  "fst e op \<Longrightarrow> list_all (off op) rs \<Longrightarrow> lookup_last (e # rs) op r = Some (snd e)"
  by (cases e) (auto simp: off_def lookup_last_off)

lemma off_ent:
  assumes "op AND 0xf000 = l" "msk AND 0xf000 = 0xf000" "base AND 0xf000 \<noteq> l"
  shows "off op (ent msk base h)" "off op (ent_ea msk base lo hi h)" "off op (ent_ctl msk base h)"
    "off op (ent_move msk base h)"
  using off_line [OF assms] by (simp_all add: off_def ent_defs)

lemmas rules_defs = rules_ea_def rules_dn_def rules_an_def rules_mem_def 
  rules_shift_def rules_move16_def rules_fpu_def rules_mmu_def


lemma line_a_rules:
  assumes "op AND 0xf000 = 0xa000"
  shows "list_all (off op) rules_ea" "list_all (off op) rules_dn" "list_all (off op) rules_an"
    "list_all (off op) rules_mem" "list_all (off op) rules_shift" "list_all (off op) rules_move16"
    "list_all (off op) (rules_fpu f)" "list_all (off op) rules_mmu"
  unfolding rules_defs by (simp_all add: off_ent [OF assms])

lemma line_a_misc:
  assumes "op AND 0xf000 = 0xa000"
  shows "lookup_last rules_misc op r = Some aline_ex"
  unfolding rules_misc_def
  by (rule lookup_skip, (simp add: off_ent [OF assms]; fail))+
    (simp add: ent_def assms)

lemma line_a_table:
  assumes "op AND 0xf000 = 0xa000"
  shows "run_table fpu op = Some aline_ex"
proof -
  have "list_all (off op) (case fpu of None \<Rightarrow> [] | Some f \<Rightarrow> rules_fpu f)"
    by (simp add: line_a_rules(7) [OF assms] split: option.split)
  then show ?thesis
    by (simp add: run_table_def run_rules_def lookup_last_append lookup_last_off line_a_misc [OF assms]
        line_a_rules [OF assms])
qed

lemma line_a_run:
  assumes "untranslated (cpu s)" "ram_range (PC (cpu s)) 2 (bus s)"
    and op: "be16 (RAM (bus s)) (unat (PC (cpu s))) AND 0xf000 = 0xa000"
    and "\<not> rom_funcs s (PC (cpu s) AND 0xfffff)" "\<not> inJit (cpu s)" "\<not> interrupt_due s"
  shows "run_op fpu s = Raise (M68kException 10) (s\<lparr>cpu := (cpu s)\<lparr>
    EA := (if movem_run (cpu s) then EA (cpu s) else 0), must_trace := (T_mode (cpu s) = 2),
    oldpc := PC (cpu s), PC := PC (cpu s) + 2\<rparr>\<rparr>)"
proof -
  let ?c = "(cpu s)\<lparr>EA := (if movem_run (cpu s) then EA (cpu s) else 0),
         must_trace := (T_mode (cpu s) = 2), oldpc := PC (cpu s), PC := PC (cpu s) + 2\<rparr>"
  let ?s = "s\<lparr>cpu := ?c\<rparr>"
  have u: "untranslated (cpu ?s)" using assms(1) by (simp add: untranslated_def)
  have "FetchW (PC (cpu s)) ?s = Ok (be16 (RAM (bus s)) (unat (PC (cpu s)))) ?s"
    using flat_guest(3) [OF u] assms(2) by simp
  then show ?thesis
    using assms(5) run_op_prologue(2) [OF assms(4-6), of fpu]
    by (simp add: FETCH_def exec_op_def line_a_table [OF op] aline_ex_def ALINE_def RAISE_run)
qed

section \<open>User programs\<close>

text \<open>
  One instruction executed in user state, whatever it is, whatever translation, devices and
  memory do, and whether it completes or raises, leaves every privileged register as it was,
  when the handlers of the floating-point unit do.
\<close>

lemma isolation:
  assumes "\<not> S_bit (cpu s)"
    and "\<And>h op. h \<in> set (fpu_handlers fpu) \<Longrightarrow> keeps (user_state (cpu s)) (\<lambda>_. True) (h op)"
  shows "same_privileged (cpu s) (cpu (state_of (run_op fpu s)))"
proof -
  have *: "guest_ops (user_state (cpu s)) (\<lambda>_. True) fpu" by (rule user_guest_ops) (rule assms(2))
  have "user_state (cpu s) s" using assms(1) by (simp add: user_state_def)
  then have "user_state (cpu s) (state_of (run_op fpu s))"
    by (rule keepsD [OF guest_ops.run_op_keeps [OF *]])
  then show ?thesis by (simp add: user_state_def)
qed

section \<open>Well-formed states\<close>

text \<open>The opcode of the instruction a state executes, when its prologue and its fetch return.\<close>

definition opcode_of :: "'d machine \<Rightarrow> u16 option" where
  "opcode_of s = (if rom_funcs s (PC (cpu s) AND 0xfffff) then None
     else case seq (op_prologue (PC (cpu s))) FETCH s of Ok op _ \<Rightarrow> Some op | Raise _ _ \<Rightarrow> None)"

text \<open>
  From a well-formed state an instruction that does not return ends in a well-formed state too,
  in one of the ordinary ways or in one that its opcode alone has.
\<close>

lemma ends_at: "wf_ends (ends_with op)" "wf_ends ordinary"
  by (unfold_locales) (simp_all add: ordinary_ends)

lemma endings:
  assumes "wf Q s" and f: "\<And>E h op. wf_ends E \<Longrightarrow> h \<in> set (fpu_handlers fpu) \<Longrightarrow> keeps (wf Q) E (h op)"
    and r: "run_op fpu s = Raise e s'"
  shows "wf Q s' \<and> (ordinary e \<or> (\<exists>op. opcode_of s = Some op \<and> ends_with op e))"
proof (cases "rom_funcs s (PC (cpu s) AND 0xfffff)")
  case True
  then have "run_op fpu s = on_bus run_stop s"
    by (simp add: run_op_def)
  with keeps_at [OF wf_ends.wf_stop_wait(1) [OF ends_at(2)] assms(1)] r show ?thesis by simp
next
  case False
  let ?m = "seq (op_prologue (PC (cpu s))) FETCH"
  have run: "run_op fpu s = bind ?m (\<lambda>op. seq (exec_op fpu op) op_epilogue) s"
    using False by (simp add: run_op_def seq_def bind_assoc)
  have "keeps (wf Q) ordinary ?m"
    unfolding FETCH_def
    by (intro keeps_seq wf_ends.wf_prologue [OF ends_at(2)]
        guest_cpu.stream_keeps(1) [OF wf_ends.cpu_contract [OF ends_at(2)], unfolded FETCH_def])
  note m = keeps_at [OF this assms(1)]
  show ?thesis
  proof (cases "?m s")
    case (Raise e1 s1)
    with m r run show ?thesis by (simp add: bind_def)
  next
    case (Ok op s1)
    have table: "guest_table (wf Q) (ends_with op) fpu op"
      by (rule wf_ends.wf_table [OF ends_at(1)]) (auto simp: ends_with_def intro: f ends_at)
    note cpu = wf_ends.cpu_contract [OF ends_at(1) [of op]]
    have "keeps (wf Q) (ends_with op) (seq (exec_op fpu op) op_epilogue)"
      unfolding op_epilogue_def
      by (intro keeps_seq guest_table.exec_op_keeps [OF table] guest_cpu.cpu_read_keeps [OF cpu] keeps_intro
          guest_cpu.unprivileged [OF cpu] guest_cpu.raises_keeps [OF cpu]; simp)
    from Ok m have "wf Q s1" by simp
    note rest = keeps_at [OF \<open>keeps (wf Q) (ends_with op) _\<close> this]
    have "opcode_of s = Some op"
      using False Ok by (simp add: opcode_of_def)
    moreover have "seq (exec_op fpu op) op_epilogue s1 = Raise e s'"
      using r run Ok by (simp add: bind_def)
    ultimately show ?thesis
      using rest by simp
  qed
qed

text \<open>An A-line opcode at the start of the RAM.\<close>

definition aline_machine :: "unit machine" where
  "aline_machine = small_machine\<lparr>bus := small_bus\<lparr>RAM := (\<lambda>_. 0)(0 := 0xa0)\<rparr>\<rparr>"

lemma wf_aline_machine: "wf (\<lambda>_. True) aline_machine"
  using wf_small_machine by (simp add: wf_def aline_machine_def mailbox_def small_machine_def machine_on_def)

lemma aline_machine_raises: "\<exists>s'. run_op fpu aline_machine = Raise (M68kException 10) s'"
proof -
  have "untranslated (cpu aline_machine)" "ram_range (PC (cpu aline_machine)) 2 (bus aline_machine)"
    "be16 (RAM (bus aline_machine)) (unat (PC (cpu aline_machine))) AND 0xf000 = 0xa000"
    "\<not> rom_funcs aline_machine (PC (cpu aline_machine) AND 0xfffff)" "\<not> inJit (cpu aline_machine)"
    "\<not> interrupt_due aline_machine"
    by (simp_all add: aline_machine_def small_machine_def machine_on_def cpu_static_def ttr_static_def
        untranslated_def ram_range_def small_bus_def be16_def interrupt_due_def)
  then show ?thesis using line_a_run by blast
qed

text \<open>
  Every state that the system reaches from a well-formed one is well-formed, under any
  interleaving of processor turns, interrupts posted by devices and polls of the main thread.
\<close>

theorem reachable_wf:
  assumes "wf Q s0" and "\<And>h op. h \<in> set (fpu_handlers fpu) \<Longrightarrow> keeps (wf Q) ends_ok (h op)"
    and "reachable fpu s0 s"
  shows "wf Q s"
proof -
  have "guest_ops (wf Q) ends_ok fpu" by (rule wf_guest_ops) (rule assms(2))
  then show ?thesis using assms(3,1) by (rule wf_reachable)
qed

theorem reachable_wf_witness:
  "wf (\<lambda>_. True) (small_machine\<lparr>bus := small_bus\<lparr>stopping := False, inturrupt := 2\<rparr>\<rparr>)"
proof -
  have "reachable None small_machine (small_machine\<lparr>bus := (bus small_machine)\<lparr>stopping := False, inturrupt := 2\<rparr>\<rparr>)"
    by (rule reachable.step [OF reachable.start sys_step.post]) simp_all
  from reachable_wf [OF wf_small_machine _ this] show ?thesis
    by (simp add: fpu_handlers_def)
qed

end
