(* ===== verification/Traps.thy ===== *)
theory Traps
  imports System
begin

text \<open>
  Exceptions as the guest sees them: the status register, the frames that \<open>handle_exception\<close>
  leaves on the supervisor stack, the way back through \<open>RTE\<close>, the decision to take an
  interrupt, and the opcodes that only raise. Frames are described as the list of words above
  the stack pointer, so that every frame format is one line of \<open>frame_words\<close>.
\<close>

unbundle bit_operations_syntax

section \<open>The status register\<close>

lemma bit_flag: "bit (push_bit k (of_bool b :: 'a::len word)) n \<longleftrightarrow> n = k \<and> k < LENGTH('a) \<and> b"
  by (auto simp: bit_simps)
lemma bit_flag0: "bit (of_bool b :: 'a::len word) n \<longleftrightarrow> n = 0 \<and> b"
  by (auto simp: bit_simps)

lemma CCR_bits:
  "bit (GetCCR c) n \<longleftrightarrow> (n = 0 \<and> fC c) \<or> (n = 1 \<and> fV c) \<or> (n = 2 \<and> fZ c) \<or> (n = 3 \<and> fN c) \<or> (n = 4 \<and> fX c)"
  unfolding GetCCR_def bit_or_iff bit_flag bit_flag0 by auto

lemma SR_bits:
  "bit (GetSR c) n \<longleftrightarrow> (n = 0 \<and> fC c) \<or> (n = 1 \<and> fV c) \<or> (n = 2 \<and> fZ c) \<or> (n = 3 \<and> fN c) \<or> (n = 4 \<and> fX c)
     \<or> (8 \<le> n \<and> n < 16 \<and> bit (I_lvl c) (n - 8)) \<or> (n = 12 \<and> M_bit c) \<or> (n = 13 \<and> S_bit c)
     \<or> (14 \<le> n \<and> n < 16 \<and> bit (T_mode c) (n - 14))"
proof -
  have a: "bit (push_bit 8 (ucast (I_lvl c)) :: u16) n \<longleftrightarrow> 8 \<le> n \<and> n < 16 \<and> bit (I_lvl c) (n - 8)"
    and b: "bit (push_bit 14 (ucast (T_mode c)) :: u16) n \<longleftrightarrow> 14 \<le> n \<and> n < 16 \<and> bit (T_mode c) (n - 14)"
    and d: "bit (ucast (GetCCR c) :: u16) n \<longleftrightarrow> bit (GetCCR c) n"
    using bit_imp_le_length [of "I_lvl c" "n - 8"] bit_imp_le_length [of "GetCCR c" n]  bit_imp_le_length [of "T_mode c" "n - 14"]
    by (auto simp: bit_simps)
  show ?thesis
    unfolding GetSR_def bit_or_iff a b d CCR_bits bit_flag by auto
qed

lemma small_bits: 
  fixes v :: u8
  shows "v \<le> 7 \<Longrightarrow> bit v n \<Longrightarrow> n < 3" "v \<le> 3 \<Longrightarrow> bit v n \<Longrightarrow> n < 2"
proof -
  have *: "bit v n \<Longrightarrow> unat v < 2 ^ k \<Longrightarrow> n < k" for k
    using bit_take_bit_iff [of k "unat v" n] bit_imp_le_length [of v n]
    by (simp add: take_bit_nat_eq_self bit_unsigned_iff)
  show "v \<le> 7 \<Longrightarrow> bit v n \<Longrightarrow> n < 3" using * [of 3] by (simp add: word_le_nat_alt)
  show "v \<le> 3 \<Longrightarrow> bit v n \<Longrightarrow> n < 2" using * [of 2] by (simp add: word_le_nat_alt)
qed

text \<open>
  C21. Writing the status register and reading it back gives the value written less the bits the
  processor does not have: both mode bits, the trace bits, the interrupt level and the five
  condition codes survive, for every processor state.
\<close>

theorem SR_roundtrip:
  "GetSR (SetSR v c) = v AND 0xf71f"
proof (rule bit_word_eqI)
  fix n assume "n < LENGTH(16)"
  then have "n \<in> {0, 1, 2, 3, 4, 5, 6, 7, 8, 9, 10, 11, 12, 13, 14, 15}" by (simp, presburger)
  then show "bit (GetSR (SetSR v c)) n = bit (v AND 0xf71f) n"
    by (elim insertE emptyE; simp add: SR_bits SetSR_def SetCCR_def LoadSP_def SaveSP_def Let_def bit_simps bit_at_iff)
qed

lemma low_ones: "bit (7 :: int) n \<longleftrightarrow> n < 3" "bit (3 :: int) n \<longleftrightarrow> n < 2"
  using bit_mask_iff [where 'a = int, of 3 n] bit_mask_iff [where 'a = int, of 2 n]
  by (auto simp: mask_eq_exp_minus_1 possible_bit_def)

lemma SR_restore:
  assumes "I_lvl c \<le> 7" and "T_mode c \<le> 3"
  shows "SetSR (GetSR c) d = LoadSP ((SaveSP d)\<lparr>fX := fX c, fN := fN c, fZ := fZ c, fV := fV c,
    fC := fC c, I_lvl := I_lvl c, M_bit := M_bit c, S_bit := S_bit c, T_mode := T_mode c\<rparr>)"
proof -
  have hi: "\<not> bit (I_lvl c) 4" "\<not> bit (I_lvl c) 5"
    using small_bits(1) [OF assms(1), of 4] small_bits(1) [OF assms(1), of 5] by auto
  have ccr: "bit (ucast (GetSR c) :: u8) n \<longleftrightarrow> bit (GetCCR c) n" if "n < 5" for n
    using that by (auto simp: bit_at_iff bit_simps SR_bits CCR_bits)
  note m = low_ones
  have i: "bit (ucast (drop_bit 8 (GetSR c) AND 7) :: u8) n \<longleftrightarrow> n < 3 \<and> bit (I_lvl c) n" for n
    by (auto simp: bit_simps SR_bits m)
  have "ucast (drop_bit 8 (GetSR c) AND 7) = I_lvl c"
    by (rule bit_word_eqI) (use small_bits(1) [OF assms(1)] i in auto)
  have t: "bit (ucast (drop_bit 14 (GetSR c) AND 3) :: u8) n \<longleftrightarrow> n < 2 \<and> bit (T_mode c) n" for n
    using small_bits(1) [OF assms(1), of "6 + n"] by (auto simp: bit_simps SR_bits m)
  have "ucast (drop_bit 14 (GetSR c) AND 3) = T_mode c"
    by (rule bit_word_eqI) (use small_bits(2) [OF assms(2)] t in auto)
  with \<open>ucast (drop_bit 8 (GetSR c) AND 7) = I_lvl c\<close> show ?thesis
    by (simp add: SetSR_def SetCCR_def Let_def ccr CCR_bits bit_at_iff SR_bits hi)
qed


section \<open>Frames\<close>

text \<open>
  There are \<open>n\<close> bytes of RAM below the stack pointer, and no translation is enabled.
\<close>

definition stack_room :: "nat \<Rightarrow> 'd machine \<Rightarrow> bool" where
  "stack_room n s \<longleftrightarrow> untranslated (cpu s) \<and> n \<le> unat (An (cpu s) 7) \<and>
     unat (An (cpu s) 7) \<le> RAMSize (bus s) \<and> RAMSize (bus s) \<le> 2 ^ 30"

text \<open>The effect of one push, and of several from the last to the first.\<close>

definition push_word :: "u16 \<Rightarrow> 'd machine \<Rightarrow> 'd machine" where
  "push_word w s = with_A7 (An (cpu s) 7 - 2)
     (s\<lparr>bus := put16 (RAM_obj, unat (An (cpu s) 7 - 2)) w (bus s)\<rparr>)"

text \<open>The \<open>k\<close> words from the stack pointer upwards.\<close>

definition stack_words :: "nat \<Rightarrow> 'd machine \<Rightarrow> u16 list" where
  "stack_words k s = map (\<lambda>i. be16 (RAM (bus s)) (unat (An (cpu s) 7) + 2 * i)) [0..<k]"

lemma unat_minus2: "2 \<le> unat a \<Longrightarrow> unat (a - 2) = unat a - 2" for a :: u32
  by (simp add: unat_sub word_le_nat_alt)

lemma push_word_cpu: "cpu (push_word w s) = (cpu s)\<lparr>An := (An (cpu s))(7 := An (cpu s) 7 - 2)\<rparr>"
  and push_word_bus: "bus (push_word w s) = put16 (RAM_obj, unat (An (cpu s) 7 - 2)) w (bus s)"
  by (simp_all add: push_word_def with_A7_def)

lemma stack_room_minus:
  assumes "stack_room (Suc (Suc n)) s"
  shows "unat (An (cpu s) 7 - 2) = unat (An (cpu s) 7) - 2" "2 \<le> unat (An (cpu s) 7)"
    "ram_range (An (cpu s) 7 - 2) 2 (bus s)" "untranslated (cpu s)"
proof -
  show 2: "2 \<le> unat (An (cpu s) 7)" using assms unfolding stack_room_def by linarith
  show u: "unat (An (cpu s) 7 - 2) = unat (An (cpu s) 7) - 2" by (rule unat_minus2 [OF 2])
  show "ram_range (An (cpu s) 7 - 2) 2 (bus s)"
    using assms 2 unfolding ram_range_def stack_room_def u by linarith
  show "untranslated (cpu s)" using assms by (simp add: stack_room_def)
qed

lemma push_word_room:
  assumes "stack_room (Suc (Suc n)) s"
  shows "stack_room n (push_word w s)"
proof -
  have "n \<le> unat (An (cpu s) 7 - 2)" "unat (An (cpu s) 7 - 2) \<le> RAMSize (bus s)"
    using assms unfolding stack_room_def stack_room_minus(1) [OF assms] by linarith+
  then show ?thesis
    using assms by (simp add: stack_room_def push_word_cpu push_word_bus untranslated_def put16_def)
qed

lemma ex_PUSH16_run:
  assumes "stack_room (Suc (Suc n)) s"
  shows "ex_PUSH16 w s = Ok () (push_word w s)"
  using stack_room_minus [OF assms] flat_WriteW [of "with_A7 (An (cpu s) 7 - 2) s" "An (cpu s) 7 - 2" w]
  by (simp add: ex_PUSH16_def push_word_def) (simp add: with_A7_def catch_PTestError_Ok)

fun push_words :: "u16 list \<Rightarrow> 'd machine \<Rightarrow> 'd machine" where
  "push_words [] s = s"
| "push_words (w # ws) s = push_word w (push_words ws s)"

lemma put16_RAM: "RAM (put16 (RAM_obj, i) w b) = (RAM b)(i := ucast (drop_bit 8 w), i + 1 := ucast w)"
  by (simp add: put16_def)

lemma push_words_cpu:
  "cpu (push_words ws s) = (cpu s)\<lparr>An := (An (cpu s))(7 := An (cpu s) 7 - 2 * of_nat (length ws))\<rparr>"
  by (induction ws) (simp_all add: push_word_cpu fun_upd_def algebra_simps cong: if_cong)

lemma push_words_rest:
  "push_words ws s = s\<lparr>cpu := cpu (push_words ws s), bus := (bus s)\<lparr>RAM := RAM (bus (push_words ws s))\<rparr>\<rparr>"
proof (induction ws)
  case (Cons w ws)
  have *: "push_word w t = t\<lparr>cpu := cpu (push_word w t), bus := (bus t)\<lparr>RAM := RAM (bus (push_word w t))\<rparr>\<rparr>" for t :: "'a machine"
    by (simp add: push_word_def with_A7_def put16_def)
  show ?case
    by (simp, subst *, subst (1 2) Cons.IH) simp
qed simp

lemma push_words_room:
  "stack_room (n + 2 * length ws) s \<Longrightarrow> stack_room n (push_words ws s)"
  by (induction ws arbitrary: n) (auto intro!: push_word_room simp: algebra_simps)

lemma unat_minus_nat: "m \<le> unat a \<Longrightarrow> unat (a - of_nat m) = unat a - m" for a :: u32
proof -
  assume m: "m \<le> unat a"
  moreover have "unat a < 2 ^ LENGTH(32)" by (rule unsigned_less)
  ultimately have "unat (of_nat m :: u32) = m" by (simp add: unat_of_nat take_bit_nat_eq_self)
  with m show ?thesis by (simp add: unat_sub word_le_nat_alt)
qed

lemma push_words_top:
  assumes "2 * length ws \<le> unat (An (cpu s) 7)"
  shows "unat (An (cpu (push_words ws s)) 7) = unat (An (cpu s) 7) - 2 * length ws"
  using unat_minus_nat [OF assms] by (simp add: push_words_cpu)

lemma push_words_RAM:
  assumes "2 * length ws \<le> unat (An (cpu s) 7)"
  shows "i < unat (An (cpu s) 7) - 2 * length ws \<or> unat (An (cpu s) 7) \<le> i \<Longrightarrow>
    RAM (bus (push_words ws s)) i = RAM (bus s) i"
  using assms
proof (induction ws)
  case (Cons w ws)
  then have "unat (An (cpu (push_words ws s)) 7) = unat (An (cpu s) 7) - 2 * length ws"
    by (intro push_words_top) simp
  moreover have "RAM (bus (push_words ws s)) i = RAM (bus s) i"
    by (rule Cons.IH) (use Cons.prems in auto)
  ultimately show ?case
    using Cons.prems unat_minus2 [of "An (cpu (push_words ws s)) 7"]
    by (auto simp: push_word_bus put16_RAM)
qed simp

lemma push_word_stack:
  assumes "2 \<le> unat (An (cpu s) 7)"
  shows "stack_words (Suc k) (push_word w s) = w # stack_words k s"
proof -
  let ?p = "unat (An (cpu s) 7) - 2"
  have p: "unat (An (cpu s) 7 - 2) = ?p" by (rule unat_minus2 [OF assms])
  have ram: "RAM (bus (push_word w s)) = (RAM (bus s))(?p := ucast (drop_bit 8 w), ?p + 1 := ucast w)"
    by (simp add: push_word_bus p put16_RAM)
  obtain q where q: "unat (An (cpu s) 7) = q + 2" using assms by (metis add.commute le_Suc_ex)
  have tail: "be16 (RAM (bus (push_word w s))) (?p + 2 * Suc i) = be16 (RAM (bus s)) (unat (An (cpu s) 7) + 2 * i)" for i
    by (simp add: be16_def ram q)
  have head: "be16 (RAM (bus (push_word w s))) ?p = w"
    using put16_get [of RAM_obj ?p w "bus s"] by (simp add: push_word_bus p)
  show ?thesis
    unfolding stack_words_def push_word_cpu
    by (simp only: map_upt_Suc) (simp add: p head [simplified] tail del: upt_Suc mult_Suc_right)
qed

lemma push_words_stack:
  assumes "2 * length ws \<le> unat (An (cpu s) 7)"
  shows "stack_words (length ws) (push_words ws s) = ws"
  using assms
proof (induction ws)
  case (Cons w ws)
  then have "unat (An (cpu (push_words ws s)) 7) = unat (An (cpu s) 7) - 2 * length ws"
    by (intro push_words_top) simp
  with Cons show ?case by (simp add: push_word_stack)
qed (simp add: stack_words_def)

section \<open>Exception entry\<close>

text \<open>The code of a frame as a list of pushes.\<close>

fun ex_pushes :: "u16 list \<Rightarrow> ('d, unit) mach" where
  "ex_pushes [] = return ()"
| "ex_pushes (w # ws) = seq (ex_pushes ws) (ex_PUSH16 w)"

lemma ex_pushes_run:
  "stack_room (n + 2 * length ws) s \<Longrightarrow> ex_pushes ws s = Ok () (push_words ws s)"
proof (induction ws arbitrary: n)
  case (Cons w ws)
  then have "stack_room (Suc (Suc n) + 2 * length ws) s" by simp
  note Cons.IH [OF this] ex_PUSH16_run [OF push_words_room [OF this]]
  then show ?case by (simp add: seq_def bind_def)
qed simp

text \<open>
  The frames: formats 0, 2 and 3 from the status register upwards, and which exception uses
  which. \<open>frame_words n c\<close> is what exception \<open>n\<close> pushes in state \<open>c\<close>.
\<close>

definition frame0 :: "int \<Rightarrow> u32 \<Rightarrow> u16 \<Rightarrow> u16 list" where
  "frame0 n pc sr = [sr, ucast (drop_bit 16 pc), ucast pc, word_of_int (4 * n)]"

definition frame2 :: "u16 \<Rightarrow> int \<Rightarrow> u32 \<Rightarrow> u32 \<Rightarrow> u16 \<Rightarrow> u16 list" where
  "frame2 fmt n addr pc sr = [sr, ucast (drop_bit 16 pc), ucast pc, push_bit 12 fmt OR word_of_int (4 * n),
     ucast (drop_bit 16 addr), ucast addr]"

definition frame_words :: "int \<Rightarrow> cpu \<Rightarrow> u16 list" where
  "frame_words n c =
     (if n = 3 then frame2 2 n (ex_addr c AND NOT 1) (oldpc c) (GetSR c)
      else if n \<in> {4, 8, 10, 11, 14} then frame0 n (oldpc c) (GetSR c)
      else if n \<in> {5, 6, 7, 9} then frame2 2 n (oldpc c) (PC c) (GetSR c)
      else if n \<in> {48..55} then frame2 3 n (EA c) (PC c) (ucast (oldpc c))
      else if n \<in> {15} \<union> {24..47} then frame0 n (PC c) (GetSR c)
      else [])"

text \<open>The registers after entry, but for \<open>A7\<close> and \<open>PC\<close>.\<close>

definition entered :: "int \<Rightarrow> cpu \<Rightarrow> cpu" where
  "entered n c = (let d = (LoadSP (c\<lparr>S_bit := True\<rparr>))\<lparr>T_mode := 0\<rparr> in
     if n \<in> {15} \<union> {24..31} then d\<lparr>I_lvl := word_of_int (n - 24)\<rparr> else d)"

text \<open>A push changes no register but the stack pointer.\<close>

definition no_stack :: "(cpu \<Rightarrow> 'b) \<Rightarrow> bool" where
  "no_stack f \<longleftrightarrow> (\<forall>c a. f (c\<lparr>An := a\<rparr>) = f c)"

lemma ex_PUSH16_field:
  assumes "no_stack f"
  shows "f (cpu (state_of (ex_PUSH16 w s))) = f (cpu s)"
proof -
  let ?t = "with_A7 (An (cpu s) 7 - 2) s"
  have *: "ex_PUSH16 w s = catch_PTestError (WriteWImpl (An (cpu s) 7 - 2) w) (\<lambda>_. double_fault) ?t"
    by (simp add: ex_PUSH16_def with_A7_def)
  have "cpu (state_of (WriteWImpl (An (cpu s) 7 - 2) w ?t)) = cpu ?t"
    by (rule keepsD [OF cpu_same.access_keeps(5)]) simp
  then have "cpu (state_of (ex_PUSH16 w s)) = cpu ?t"
    unfolding * by (cases "WriteWImpl (An (cpu s) 7 - 2) w ?t")
      (auto simp: catch_PTestError_def double_fault_def throw_def split: option.split)
  with assms show ?thesis by (simp add: no_stack_def with_A7_def)
qed

lemma ex_PUSH16_bind:
  assumes "no_stack f"
  shows "seq (ex_PUSH16 w) (bind (cget f) g) = bind (cget f) (\<lambda>x. seq (ex_PUSH16 w) (g x))"
proof (rule ext)
  fix s show "seq (ex_PUSH16 w) (bind (cget f) g) s = bind (cget f) (\<lambda>x. seq (ex_PUSH16 w) (g x)) s"
    using ex_PUSH16_field [OF assms, of w s] by (cases "ex_PUSH16 w s") (simp_all add: seq_def bind_def)
qed

lemma no_stack_regs [simp]: "no_stack PC" "no_stack M_bit"
  by (simp_all add: no_stack_def)

lemma seq_bind: "seq (bind m f) n = bind m (\<lambda>a. seq (f a) n)"
  by (simp add: seq_def bind_assoc)

lemma return_seq: "seq (return ()) m = m"
  by (simp add: seq_def return_bind)

lemma format_words: "format_word 0 n = word_of_int (4 * n)"
  "format_word fmt n = push_bit 12 fmt OR word_of_int (4 * n)"
  by (simp_all add: format_word_def mult.commute)

lemma frames_push:
  "EXCEPTION0 n pc sr = seq (ex_pushes (frame0 n pc sr)) (enter_vector n)"
  "EXCEPTION2 n a pc sr = seq (ex_pushes (frame2 2 n a pc sr)) (enter_vector n)"
  by (simp_all only: EXCEPTION0_def EXCEPTION2_def ex_PUSH32_def frame0_def frame2_def ex_pushes.simps
      return_seq seq_assoc format_words(1)) (simp_all only: format_words(2))

lemma frame3_push:
  "EXCEPTION3 n sr s = seq (ex_pushes (frame2 3 n (EA (cpu s)) (PC (cpu s)) sr)) (enter_vector n) s"
  by (simp only: EXCEPTION3_def ex_PUSH32_def frame2_def ex_pushes.simps return_seq seq_bind seq_assoc
      ex_PUSH16_bind no_stack_regs format_words(2)) simp

lemma interrupt_frame_push:
  assumes "\<not> M_bit (cpu s)"
  shows "interrupt_frame n sr s = seq (ex_pushes (frame0 n (PC (cpu s)) sr)) (enter_vector n)
    (s\<lparr>cpu := (cpu s)\<lparr>I_lvl := word_of_int (n - 24)\<rparr>\<rparr>)"
proof -
  have m: "bind (cget M_bit) F (s\<lparr>cpu := (cpu s)\<lparr>I_lvl := v\<rparr>\<rparr>) = F False (s\<lparr>cpu := (cpu s)\<lparr>I_lvl := v\<rparr>\<rparr>)"
    "bind (cget PC) G (s\<lparr>cpu := (cpu s)\<lparr>I_lvl := v\<rparr>\<rparr>) = G (PC (cpu s)) (s\<lparr>cpu := (cpu s)\<lparr>I_lvl := v\<rparr>\<rparr>)" for F G v
    using assms by simp_all
  have "interrupt_frame n sr s = seq (ex_PUSH16 (word_of_int (n * 4))) (seq (bind (cget PC) ex_PUSH32)
      (seq (ex_PUSH16 sr) (bind (cget M_bit) (\<lambda>m. seq (whenM m
            (seq (cmod (\<lambda>c. c\<lparr>M_bit := False\<rparr>))
            (seq (cmod LoadSP)
            (seq (ex_PUSH32 (ucast (format_word 1 n)))
            (seq (bind (cget PC) ex_PUSH32)
                 (ex_PUSH16 sr)))))) (enter_vector n)))))
    (s\<lparr>cpu := (cpu s)\<lparr>I_lvl := word_of_int (n - 24)\<rparr>\<rparr>)"
    unfolding interrupt_frame_def seq_bind by simp
  also have "\<dots> = seq (ex_pushes (frame0 n (PC (cpu s)) sr)) (enter_vector n)
    (s\<lparr>cpu := (cpu s)\<lparr>I_lvl := word_of_int (n - 24)\<rparr>\<rparr>)"
    by (simp only: ex_PUSH32_def frame0_def ex_pushes.simps return_seq seq_bind seq_assoc ex_PUSH16_bind no_stack_regs
        mult.commute [of n 4]) (simp only: m whenM_def return_seq if_False)
  finally show ?thesis .
qed

lemma handle_exception_frame:
  assumes "n \<in> {3..11} \<union> {14, 15} \<union> {24..55}" and "n \<in> {15} \<union> {24..31} \<Longrightarrow> \<not> M_bit (cpu s)"
  shows "handle_exception n s = seq (ex_pushes (frame_words n (cpu s))) (enter_vector n)
     (s\<lparr>cpu := entered n (cpu s)\<rparr>)"
proof -
  have keep: "EA (LoadSP c) = EA c" "PC (LoadSP c) = PC c" "oldpc (LoadSP c) = oldpc c" "ex_addr (LoadSP c) = ex_addr c"
    "M_bit (LoadSP c) = M_bit c" for c
    by (simp_all add: LoadSP_def)
  have "n = 3 \<or> n \<in> {4, 8, 10, 11, 14} \<or> n \<in> {5, 6, 7, 9} \<or> 48 \<le> n \<and> n \<le> 55 \<or>
      32 \<le> n \<and> n \<le> 47 \<or> n = 15 \<or> 24 \<le> n \<and> n \<le> 31"
    using assms(1) by simp presburger
  moreover have "n = 15 \<or> 24 \<le> n \<and> n \<le> 31 \<Longrightarrow> \<not> M_bit (cpu s)" using assms(2) by simp
  ultimately consider "n = 3" | "n \<in> {4, 8, 10, 11, 14}" | "n \<in> {5, 6, 7, 9}" | "48 \<le> n \<and> n \<le> 55"
    | "32 \<le> n \<and> n \<le> 47" | "n = 15 \<or> 24 \<le> n \<and> n \<le> 31" "\<not> M_bit (cpu s)"
    by blast
  then show ?thesis
    by cases (auto simp: handle_exception_def frame_words_def entered_def keep frames_push frame3_push interrupt_frame_push)
qed

definition frame_bytes :: "int \<Rightarrow> cpu \<Rightarrow> nat" where
  "frame_bytes n c = 2 * length (frame_words n c)"

lemma enter_vector_run:
  assumes "untranslated (cpu s)" "ram_range (VBR (cpu s) + word_of_int (n * 4)) 4 (bus s)"
    and "v = be32 (RAM (bus s)) (unat (VBR (cpu s) + word_of_int (n * 4)))" "\<not> bit v 0"
  shows "enter_vector n s = Ok () (s\<lparr>cpu := (cpu s)\<lparr>PC := v\<rparr>\<rparr>)"
  using assms by (simp add: enter_vector_def vector_addr_def ex_READL_def flat_ReadL catch_PTestError_Ok
      ex_JUMP_def bit_at_iff)

lemma be32_same:
  assumes "\<And>k. k < 4 \<Longrightarrow> f (i + k) = g (i + k)"
  shows "be32 f i = be32 g i"
  using assms [of 0] assms [of 1] assms [of 2] assms [of 3] by (simp add: be32_def)

lemma handle_exception_run:
  assumes n: "n \<in> {3..11} \<union> {14, 15} \<union> {24..55}" and M: "n \<in> {15} \<union> {24..31} \<Longrightarrow> \<not> M_bit (cpu s)"
    and room: "stack_room (frame_bytes n (cpu s)) (s\<lparr>cpu := entered n (cpu s)\<rparr>)"
    and vec: "ram_range (VBR (cpu s) + word_of_int (n * 4)) 4 (bus s)"
      "v = be32 (RAM (bus s)) (unat (VBR (cpu s) + word_of_int (n * 4)))" "\<not> bit v 0"
    and away: "unat (VBR (cpu s) + word_of_int (n * 4)) + 4 + frame_bytes n (cpu s) \<le> unat (An (entered n (cpu s)) 7)
      \<or> unat (An (entered n (cpu s)) 7) \<le> unat (VBR (cpu s) + word_of_int (n * 4))"
  shows "\<exists>s'. handle_exception n s = Ok () s' \<and>
    cpu s' = (entered n (cpu s))\<lparr>An := (An (cpu s))(7 := An (entered n (cpu s)) 7 - of_nat (frame_bytes n (cpu s))), PC := v\<rparr> \<and>
    stack_words (length (frame_words n (cpu s))) s' = frame_words n (cpu s) \<and>
    s' = s\<lparr>cpu := cpu s', bus := (bus s)\<lparr>RAM := RAM (bus s')\<rparr>\<rparr> \<and>
    (\<forall>i. \<not> (unat (An (cpu s') 7) \<le> i \<and> i < unat (An (entered n (cpu s)) 7)) \<longrightarrow> RAM (bus s') i = RAM (bus s) i)"
proof -
  let ?t = "s\<lparr>cpu := entered n (cpu s)\<rparr>" and ?ws = "frame_words n (cpu s)"
  let ?u = "push_words ?ws ?t" and ?a = "VBR (cpu s) + word_of_int (n * 4)"
  let ?s' = "?u\<lparr>cpu := (cpu ?u)\<lparr>PC := v\<rparr>\<rparr>"
  have vbr: "VBR (entered n (cpu s)) = VBR (cpu s)" and an: "An (entered n (cpu s)) = (An (cpu s))(7 := An (entered n (cpu s)) 7)"
    by (simp_all add: entered_def LoadSP_def Let_def)
  have len: "2 * length ?ws \<le> unat (An (cpu ?t) 7)" and tr: "untranslated (cpu ?t)"
    and room': "stack_room (2 * length ?ws) ?t"
    using room by (simp_all add: stack_room_def frame_bytes_def)
  have top: "unat (An (cpu ?u) 7) = unat (An (cpu ?t) 7) - 2 * length ?ws" by (rule push_words_top [OF len])
  have "RAMSize (bus ?u) = RAMSize (bus s)" by (subst push_words_rest) simp
  then have range: "ram_range a k (bus ?u) = ram_range a k (bus s)" for a k by (simp add: ram_range_def)
  have cu: "cpu ?u = (entered n (cpu s))\<lparr>An := (An (cpu s))(7 := An (entered n (cpu s)) 7 - of_nat (frame_bytes n (cpu s)))\<rparr>"
    by (subst push_words_cpu) (simp, subst an, simp add: frame_bytes_def)
  have v: "v = be32 (RAM (bus ?u)) (unat ?a)"
    unfolding vec(2) by (rule be32_same, rule sym) (use push_words_RAM [OF len] away len in \<open>auto simp: frame_bytes_def\<close>)
  have "handle_exception n s = seq (ex_pushes ?ws) (enter_vector n) ?t"
    by (rule handle_exception_frame [OF n M])
  also have "\<dots> = enter_vector n ?u"
    using ex_pushes_run [of 0 ?ws ?t] room' by simp
  also have "\<dots> = Ok () ?s'"
    by (rule enter_vector_run) (use tr vec(1,3) range v in \<open>simp_all add: cu vbr untranslated_def\<close>)
  finally have run: "handle_exception n s = Ok () ?s'" .
  have "stack_words k ?s' = stack_words k ?u" for k by (simp add: stack_words_def)
  moreover have "?s' = s\<lparr>cpu := cpu ?s', bus := (bus s)\<lparr>RAM := RAM (bus ?s')\<rparr>\<rparr>"
    by (subst push_words_rest) simp
  ultimately show ?thesis
    using run cu push_words_stack [OF len] push_words_RAM [OF len] top len
    by (intro exI [of _ ?s']) (auto simp: not_less not_le)
qed

lemma be32_words: "be32 f i = push_bit 16 (ucast (be16 f i)) OR ucast (be16 f (i + 2))"
  by (simp add: be32_def be16_def halves_of_bytes or.assoc numeral_3_eq_3)

lemma stack_words_read:
  assumes "stack_words k s = ws" and "2 * k \<le> n" and "ram_range (An (cpu s) 7) n (bus s)" and "i < k"
  shows "be16 (RAM (bus s)) (unat (An (cpu s) 7 + of_nat (2 * i))) = ws ! i"
    and "ram_range (An (cpu s) 7 + of_nat (2 * i)) (n - 2 * i) (bus s)"
proof -
  have "unat (An (cpu s) 7 + of_nat (2 * i)) = unat (An (cpu s) 7) + 2 * i"
    by (rule ram_range_offset [OF assms(3), of _ 1]) (use assms in auto)
  then show "be16 (RAM (bus s)) (unat (An (cpu s) 7 + of_nat (2 * i))) = ws ! i"
    using assms(1,4) by (auto simp: stack_words_def)
  show "ram_range (An (cpu s) 7 + of_nat (2 * i)) (n - 2 * i) (bus s)"
    by (rule ram_range_offset [OF assms(3)]) (use assms in auto)
qed

section \<open>Return from exception\<close>

definition returned :: "u16 \<Rightarrow> u16 \<Rightarrow> cpu \<Rightarrow> cpu" where
  "returned sr lo c = (let d = SetSR sr c in
     (if T_mode d = 1 then d\<lparr>must_trace := True\<rparr> else d)\<lparr>PC := ucast lo\<rparr>)"

lemma rte_finish_run:
  "\<not> bit lo 0 \<Longrightarrow> rte_finish sr lo s = Ok () (s\<lparr>cpu := returned sr lo (cpu s)\<rparr>)"
  by (simp add: rte_finish_def returned_def JUMP_def bit_at_iff bit_simps Let_def)

lemma do_rte_frame:
  assumes "stack_words 4 s = [sr, hi, lo, fmt]" and "untranslated (cpu s)"
    and "ram_range (An (cpu s) 7) 8 (bus s)" and "\<not> bit lo 0"
    and "drop_bit 12 fmt = 0 \<and> k = 8 \<or> drop_bit 12 fmt \<in> {2, 3} \<and> k = 12"
  shows "do_rte s = Ok () (s\<lparr>cpu := returned sr lo ((cpu s)\<lparr>An := (An (cpu s))(7 := An (cpu s) 7 + k)\<rparr>)\<rparr>)"
proof -
  let ?a = "An (cpu s) 7"
  note r = stack_words_read [OF assms(1) _ assms(3)]
  have w: "be16 (RAM (bus s)) (unat ?a) = sr" "be16 (RAM (bus s)) (unat (?a + 2)) = hi"
    "be16 (RAM (bus s)) (unat (?a + 4)) = lo" "be16 (RAM (bus s)) (unat (?a + 6)) = fmt"
    using r(1) [of 0] r(1) [of 1] r(1) [of 2] r(1) [of 3] by simp_all
  have rng: "ram_range ?a 2 (bus s)" "ram_range (?a + 2) 4 (bus s)" "ram_range (?a + 6) 2 (bus s)"
    using ram_range_offset(2) [OF assms(3), of 0 2] ram_range_offset(2) [OF assms(3), of 2 4]
      ram_range_offset(2) [OF assms(3), of 6 2] by simp_all
  have u: "unat (?a + 2) + 2 = unat (?a + 4)"
    using ram_range_offset(1) [OF assms(3), of 2 1] ram_range_offset(1) [OF assms(3), of 4 1] by simp
  have p1: "POP16 s = Ok sr (with_A7 (?a + 2) s)"
    using POP16_run [of s] assms(2) rng(1) w(1) by simp
  have "be32 (RAM (bus s)) (unat (?a + 2)) = push_bit 16 (ucast hi) OR ucast lo"
    unfolding be32_words u w ..
  moreover have "ucast (push_bit 16 (ucast hi) OR ucast lo :: u32) = lo"
    by (rule bit_word_eqI) (simp add: bit_simps)
  ultimately have p2: "POP32 (with_A7 (?a + 2) s) = Ok lo (with_A7 (?a + 6) s)"
    using POP32_run [of "with_A7 (?a + 2) s"] assms(2) rng(2) by (simp add: ac_simps)
  have p3: "POP16 (with_A7 (?a + 6) s) = Ok fmt (with_A7 (?a + 8) s)"
    using POP16_run [of "with_A7 (?a + 6) s"] assms(2) rng(3) w(4) by (simp add: ac_simps)
  have "do_rte_fuel (Suc j) s = Ok () (s\<lparr>cpu := returned sr lo ((cpu s)\<lparr>An := (An (cpu s))(7 := An (cpu s) 7 + k)\<rparr>)\<rparr>)" for j
    using assms(4,5) by (auto simp: p1 p2 p3 Let_def rte_finish_run) (simp_all add: with_A7_def ac_simps)
  from this [of 63] show ?thesis by (simp add: do_rte_def rte_fuel_def)
qed

definition return_address :: "int \<Rightarrow> cpu \<Rightarrow> u32" where
  "return_address n c = (if n \<in> {3, 4, 8, 10, 11, 14} then oldpc c else PC c)"


lemma vector_offset_bits:
  assumes "0 \<le> n" "n < 64"
  shows "drop_bit 12 (word_of_int (4 * n) :: u16) = 0"
    "drop_bit 12 (push_bit 12 2 OR word_of_int (4 * n) :: u16) = 2"
proof -
  have "take_bit 16 (4 * n) = 4 * n" using assms by (simp add: take_bit_int_eq_self)
  then show *: "drop_bit 12 (word_of_int (4 * n) :: u16) = 0"
    unfolding drop_bit_zero unsigned_of_int using assms by simp
  show "drop_bit 12 (push_bit 12 2 OR word_of_int (4 * n) :: u16) = 2"
    by (simp only: drop_bit_or *) simp
qed

lemma stack_words_take: "k \<le> m \<Longrightarrow> stack_words k s = take k (stack_words m s)"
  by (simp add: stack_words_def take_map)

lemma frame_shape:
  assumes "n \<in> {3..11} \<union> {14, 15} \<union> {24..47}"
  shows "\<exists>fmt k ws. frame_words n c =
      [GetSR c, ucast (drop_bit 16 (return_address n c)), ucast (return_address n c), fmt] @ ws \<and>
    (drop_bit 12 fmt = 0 \<and> k = 8 \<or> drop_bit 12 fmt \<in> {2, 3} \<and> k = 12) \<and> k = of_nat (frame_bytes n c)"
proof -
  have "0 \<le> n" "n < 64" using assms by auto
  note v = vector_offset_bits [OF this]
  have "n = 3 \<or> n \<in> {4, 8, 10, 11, 14} \<or> n \<in> {5, 6, 7, 9} \<or> n \<in> {15} \<union> {24..47}"
    using assms by simp presburger
  then consider "n = 3" | "n \<in> {4, 8, 10, 11, 14}" | "n \<in> {5, 6, 7, 9}" | "n \<in> {15} \<union> {24..47}" by blast
  then show ?thesis
    using v by cases
      (auto simp: frame_words_def frame_bytes_def frame0_def frame2_def return_address_def)
qed

lemma restored:
  assumes "I_lvl c \<le> 7" "T_mode c \<le> 3"
  shows "returned (GetSR c) (ucast pc) ((entered n c)\<lparr>PC := v\<rparr>) =
    (LoadSP c)\<lparr>PC := pc AND 0xffff, must_trace := must_trace c \<or> T_mode c = 1\<rparr>"
proof -
  have d: "SaveSP ((entered n c)\<lparr>PC := v\<rparr>) = (entered n c)\<lparr>PC := v\<rparr>"
    by (cases "M_bit c"; cases "n \<in> {15} \<union> {24..31}") (simp_all add: SaveSP_def entered_def LoadSP_def Let_def)
  show ?thesis
    unfolding returned_def SR_restore [OF assms] low_half [symmetric] d
    by (cases "M_bit c"; cases "S_bit c"; cases "n \<in> {15} \<union> {24..31}"; cases "T_mode c = 1")
      (simp_all add: entered_def LoadSP_def Let_def)
qed

text \<open>
  C12. Entering an exception and returning from it, for vectors 3 to 11, 14, 15 and 24 to 47, the
  interrupts (15 and 24 to 31) while the master bit is clear, with an untranslated supervisor stack
  in the RAM and even addresses of the handler and of the return: every register is restored, the
  status register included, but for two faults of the code: the program counter comes back
  with its low sixteen bits only (\<open>POP32\<close> returns a sixteen-bit integer), and \<open>A7\<close> comes back
  from the register bank, not with the value it had (\<open>handle_exception\<close> loads the new stack
  pointer without saving the old one). A program traced at every instruction has its trace due
  after the return. It does not hold of the floating-point exceptions (48 to
  55), whose frames have the old program counter where the status register belongs.
\<close>

theorem exception_return:
  assumes n: "n \<in> {3..11} \<union> {14, 15} \<union> {24..47}" and M: "n \<in> {15} \<union> {24..31} \<Longrightarrow> \<not> M_bit (cpu s)"
    and room: "stack_room (frame_bytes n (cpu s)) (s\<lparr>cpu := entered n (cpu s)\<rparr>)"
    and vec: "ram_range (VBR (cpu s) + word_of_int (n * 4)) 4 (bus s)"
      "\<not> bit (be32 (RAM (bus s)) (unat (VBR (cpu s) + word_of_int (n * 4)))) 0"
    and away: "unat (VBR (cpu s) + word_of_int (n * 4)) + 4 + frame_bytes n (cpu s) \<le> unat (An (entered n (cpu s)) 7)
      \<or> unat (An (entered n (cpu s)) 7) \<le> unat (VBR (cpu s) + word_of_int (n * 4))"
    and fields: "I_lvl (cpu s) \<le> 7" "T_mode (cpu s) \<le> 3" and even: "\<not> bit (return_address n (cpu s)) 0"
  shows "\<exists>s' s''. handle_exception n s = Ok () s' \<and> do_rte s' = Ok () s'' \<and>
    cpu s'' = (LoadSP (cpu s))\<lparr>PC := return_address n (cpu s) AND 0xffff,
      must_trace := must_trace (cpu s) \<or> T_mode (cpu s) = 1\<rparr>"
proof -
  let ?c = "cpu s" and ?A = "An (entered n (cpu s)) 7"
  have n': "n \<in> {3..11} \<union> {14, 15} \<union> {24..55}" using n by auto
  obtain s' where run: "handle_exception n s = Ok () s'"
    and c': "cpu s' = (entered n ?c)\<lparr>An := (An ?c)(7 := ?A - of_nat (frame_bytes n ?c)),
      PC := be32 (RAM (bus s)) (unat (VBR ?c + word_of_int (n * 4)))\<rparr>"
    and words: "stack_words (length (frame_words n ?c)) s' = frame_words n ?c"
    and rest: "s' = s\<lparr>cpu := cpu s', bus := (bus s)\<lparr>RAM := RAM (bus s')\<rparr>\<rparr>"
    using handle_exception_run [OF n' M room vec(1) refl vec(2) away] by blast
  let ?pc = "return_address n ?c"
  obtain fmt k ws where f: "frame_words n ?c = [GetSR ?c, ucast (drop_bit 16 ?pc), ucast ?pc, fmt] @ ws"
    "drop_bit 12 fmt = 0 \<and> k = (8 :: u32) \<or> drop_bit 12 fmt \<in> {2, 3} \<and> k = 12" "k = of_nat (frame_bytes n ?c)"
    using frame_shape [OF n] by blast
  have fb: "8 \<le> frame_bytes n ?c" by (simp add: frame_bytes_def f(1))
  have "stack_words 4 s' = [GetSR ?c, ucast (drop_bit 16 ?pc), ucast ?pc, fmt]"
    using stack_words_take [of 4 "length (frame_words n ?c)" s', unfolded words] by (simp add: f(1))
  moreover have "untranslated (cpu s')"
    using room by (simp add: c' stack_room_def untranslated_def)
  moreover have "ram_range (An (cpu s') 7) 8 (bus s')"
  proof -
    have "frame_bytes n ?c \<le> unat ?A" "unat ?A \<le> RAMSize (bus s)" "RAMSize (bus s) \<le> 2 ^ 30"
      using room by (simp_all add: stack_room_def)
    with fb unat_minus_nat [OF this(1)] have "unat (An (cpu s') 7) + 8 \<le> RAMSize (bus s)" by (simp add: c')
    moreover have "RAMSize (bus s') = RAMSize (bus s)" by (subst rest) simp
    ultimately show ?thesis using \<open>RAMSize (bus s) \<le> 2 ^ 30\<close> by (simp add: ram_range_def)
  qed
  moreover have "\<not> bit (ucast ?pc :: u16) 0"
    using even by (simp add: bit_simps)
  ultimately have "do_rte s' = Ok () (s'\<lparr>cpu := returned (GetSR ?c) (ucast ?pc)
      ((cpu s')\<lparr>An := (An (cpu s'))(7 := An (cpu s') 7 + k)\<rparr>)\<rparr>)"
    using f(2) by (rule do_rte_frame)
  moreover have "(cpu s')\<lparr>An := (An (cpu s'))(7 := An (cpu s') 7 + k)\<rparr> = (entered n ?c)\<lparr>PC := PC (cpu s')\<rparr>"
    by (cases "n \<in> {15} \<union> {24..31}") (simp_all add: c' f(3) entered_def Let_def LoadSP_def)
  ultimately show ?thesis
    using run restored [OF fields, where pc = ?pc and n = n and v = "PC (cpu s')"] by simp
qed

text \<open>A user program about to execute an illegal instruction, with 64 bytes of RAM.\<close>

definition trap_machine :: "unit machine" where
  "trap_machine = small_machine\<lparr>cpu := cpu_static\<lparr>An := (\<lambda>_. 32), ISP := 64, PC := 0x2002, oldpc := 0x2000\<rparr>,
     bus := small_bus\<lparr>RAMSize := 64\<rparr>\<rparr>"

lemma trap_machine_room:
  "stack_room (frame_bytes 4 (cpu trap_machine)) (trap_machine\<lparr>cpu := entered 4 (cpu trap_machine)\<rparr>)"
  "ram_range (VBR (cpu trap_machine) + word_of_int (4 * 4)) 4 (bus trap_machine)"
  "unat (VBR (cpu trap_machine) + word_of_int (4 * 4)) + 4 + frame_bytes 4 (cpu trap_machine)
     \<le> unat (An (entered 4 (cpu trap_machine)) 7)"
  "be32 (RAM (bus trap_machine)) (unat (VBR (cpu trap_machine) + word_of_int (4 * 4))) = 0"
  by (simp_all add: trap_machine_def stack_room_def frame_bytes_def frame_words_def frame0_def entered_def LoadSP_def
      untranslated_def cpu_static_def ttr_static_def small_bus_def ram_range_def be32_def Let_def)

text \<open>
  C4. Entry to the exceptions of vectors 3 to 11, 14, 15 and 24 to 55 with an untranslated
  supervisor stack, the interrupts (15 and 24 to 31) while the master bit is clear: the frame of
  the vector's format is on the stack that the mode bits select, word by word, the handler's
  address comes from the vector table, supervisor state is entered with tracing off, an
  interrupt sets the mask to its number less 24, and no other register and no byte outside the
  frame has changed. It is not about the access fault (vector 2), whose frame is of format 7; for an interrupt with the master bit set the code builds a second frame, whose format
  word it pushes as a long word, so that no frame of format 1 results.
\<close>

theorem exception_entry:
  assumes "n \<in> {3..11} \<union> {14, 15} \<union> {24..55}" and "n \<in> {15} \<union> {24..31} \<Longrightarrow> \<not> M_bit (cpu s)"
    and "stack_room (frame_bytes n (cpu s)) (s\<lparr>cpu := entered n (cpu s)\<rparr>)"
    and "ram_range (VBR (cpu s) + word_of_int (n * 4)) 4 (bus s)"
      "v = be32 (RAM (bus s)) (unat (VBR (cpu s) + word_of_int (n * 4)))" "\<not> bit v 0"
    and "unat (VBR (cpu s) + word_of_int (n * 4)) + 4 + frame_bytes n (cpu s) \<le> unat (An (entered n (cpu s)) 7)
      \<or> unat (An (entered n (cpu s)) 7) \<le> unat (VBR (cpu s) + word_of_int (n * 4))"
  shows "\<exists>s'. handle_exception n s = Ok () s' \<and>
    cpu s' = (entered n (cpu s))\<lparr>An := (An (cpu s))(7 := An (entered n (cpu s)) 7 - of_nat (frame_bytes n (cpu s))), PC := v\<rparr> \<and>
    stack_words (length (frame_words n (cpu s))) s' = frame_words n (cpu s) \<and>
    s' = s\<lparr>cpu := cpu s', bus := (bus s)\<lparr>RAM := RAM (bus s')\<rparr>\<rparr> \<and>
    (\<forall>i. \<not> (unat (An (cpu s') 7) \<le> i \<and> i < unat (An (entered n (cpu s)) 7)) \<longrightarrow> RAM (bus s') i = RAM (bus s) i)"
  using assms by (rule handle_exception_run)

theorem exception_entry_witness:
  "\<exists>s'. handle_exception 4 trap_machine = Ok () s' \<and> stack_words 4 s' = [0, 0, 0x2000, 16]"
proof -
  have w: "frame_words 4 (cpu trap_machine) = [0, 0, 0x2000, 16]"
    by (simp add: frame_words_def frame0_def trap_machine_def cpu_static_def GetSR_def GetCCR_def)
  have l: "length [0, 0, 0x2000, 16 :: u16] = 4" by simp
  show ?thesis
    using exception_entry [of 4 trap_machine 0] trap_machine_room unfolding w l by auto
qed

theorem exception_return_witness:
  "\<exists>s' s''. handle_exception 4 trap_machine = Ok () s' \<and> do_rte s' = Ok () s'' \<and>
    PC (cpu s'') = 0x2000 \<and> \<not> S_bit (cpu s'') \<and> An (cpu trap_machine) 7 = 32 \<and> An (cpu s'') 7 = 0"
proof -
  have c: "cpu trap_machine = cpu_static\<lparr>An := (\<lambda>_. 32), ISP := 64, PC := 0x2002, oldpc := 0x2000\<rparr>"
    by (simp add: trap_machine_def)
  have "\<exists>s' s''. handle_exception 4 trap_machine = Ok () s' \<and> do_rte s' = Ok () s'' \<and>
    cpu s'' = (LoadSP (cpu trap_machine))\<lparr>PC := return_address 4 (cpu trap_machine) AND 0xffff,
      must_trace := must_trace (cpu trap_machine) \<or> T_mode (cpu trap_machine) = 1\<rparr>"
    by (rule exception_return) (use trap_machine_room in \<open>auto simp: c cpu_static_def return_address_def\<close>)
  then show ?thesis
    by (auto simp: c cpu_static_def LoadSP_def return_address_def)
qed

text \<open>
  What an exception does never depends on the stack pointer in use when it is raised: it is
  overwritten before it is read, so no handler and no \<open>RTE\<close> can restore it.
\<close>

theorem exception_forgets_A7:
  "handle_exception n (with_A7 v s) = handle_exception n s"
proof -
  have "LoadSP (c\<lparr>An := (An c)(7 := v), S_bit := True\<rparr>) = LoadSP (c\<lparr>S_bit := True\<rparr>)" for c
    by (simp add: LoadSP_def)
  then show ?thesis
    by (simp add: handle_exception_def with_A7_def GetSR_def GetCCR_def)
qed

text \<open>More fuel never changes what a return from exception does.\<close>

lemma bind_cong_run:
  "(\<And>a s'. m s = Ok a s' \<Longrightarrow> f a s' = g a s') \<Longrightarrow> bind m f s = bind m g s"
  by (simp add: bind_def split: outcome.split)

definition ends :: "('s, 'a) outcome \<Rightarrow> bool" where
  "ends r \<longleftrightarrow> (\<forall>t. r \<noteq> Raise Diverged t)"

lemma bind_cong_ends:
  assumes "ends (bind m f s)" and "\<And>a s'. m s = Ok a s' \<Longrightarrow> ends (f a s') \<Longrightarrow> g a s' = f a s'"
  shows "bind m g s = bind m f s"
  using assms by (cases "m s") (simp_all add: bind_def)

lemma do_rte_mono:
  fixes s :: "'d machine"
  assumes "ends (do_rte_fuel k s)" and "k \<le> m"
  shows "do_rte_fuel m s = do_rte_fuel k s"
  using assms
proof (induction k arbitrary: s m)
  case 0
  then show ?case by (simp add: throw_def ends_def)
next
  case (Suc k)
  then obtain j where m: "m = Suc j" "k \<le> j" by (cases m) auto
  have "seq n (do_rte_fuel j) t = seq n (do_rte_fuel k) t" if "ends (seq n (do_rte_fuel k) t)"
    for n :: "('d, unit) mach" and t
    using that Suc.IH [OF _ m(2)] unfolding seq_def by (intro bind_cong_ends) auto
  then show ?case
    using Suc.prems(1) unfolding m do_rte_fuel.simps Let_def
    by (intro bind_cong_ends) (auto split: if_splits intro!: Suc.IH m)
qed

section \<open>Interrupts\<close>

text \<open>
  C14. Before an instruction the mailbox is looked at: level 7 or a level above the mask of the
  status register is taken, consumed exactly once, with nothing else changed; otherwise the
  instruction is fetched.
\<close>

theorem interrupt_priority:
  assumes "\<not> rom_funcs s (PC (cpu s) AND 0xfffff)" and "\<not> inJit (cpu s)"
  shows "if inturrupt (bus s) = 7 \<or> inturrupt (bus s) > uint (I_lvl (cpu s))
    then run_op fpu s = Raise (M68kException (24 + inturrupt (bus s))) (s\<lparr>bus := (bus s)\<lparr>inturrupt := - 1\<rparr>\<rparr>)
    else run_op fpu s = bind FETCH (\<lambda>op. seq (exec_op fpu op) op_epilogue)
      (s\<lparr>cpu := (cpu s)\<lparr>EA := (if movem_run (cpu s) then EA (cpu s) else 0),
         must_trace := (T_mode (cpu s) = 2), oldpc := PC (cpu s)\<rparr>\<rparr>)"
  using run_op_prologue [OF assms] by (simp add: interrupt_due_def)

lemma entered_level:
  assumes "1 \<le> i" "i \<le> 7"
  shows "uint (I_lvl (entered (24 + i) c)) = i"
proof -
  have "take_bit LENGTH(8) i = i"
    using assms by (intro take_bit_int_eq_self) auto
  then have "uint (word_of_int i :: u8) = i"
    using assms by (simp add: uint_word_of_int_eq)
  with assms show ?thesis by (simp add: entered_def Let_def)
qed

text \<open>
  C13. A turn of the processor with an interrupt due enters its autovector in supervisor state
  with the old status and program counter on the interrupt stack and the mask raised to its
  level; from there only a higher level or level 7 can interrupt.
\<close>

theorem interrupt_entry:
  assumes run: "\<not> stopping (bus s)" "\<not> rom_stops s (PC (cpu s))" "\<not> rom_funcs s (PC (cpu s) AND 0xfffff)" "\<not> inJit (cpu s)"
    and i: "interrupt_due s" "i = inturrupt (bus s)" "1 \<le> i" "i \<le> 7" and M: "\<not> M_bit (cpu s)"
    and room: "stack_room 8 (s\<lparr>cpu := entered (24 + i) (cpu s)\<rparr>)"
    and vec: "ram_range (VBR (cpu s) + word_of_int ((24 + i) * 4)) 4 (bus s)"
      "v = be32 (RAM (bus s)) (unat (VBR (cpu s) + word_of_int ((24 + i) * 4)))" "\<not> bit v 0"
    and away: "unat (VBR (cpu s) + word_of_int ((24 + i) * 4)) + 12 \<le> unat (ISP (cpu s))
      \<or> unat (ISP (cpu s)) \<le> unat (VBR (cpu s) + word_of_int ((24 + i) * 4))"
  shows "\<exists>s'. cpu_turn fpu s = Ok () s' \<and> PC (cpu s') = v \<and> S_bit (cpu s') \<and> uint (I_lvl (cpu s')) = i \<and>
    An (cpu s') 7 = ISP (cpu s) - 8 \<and>
    stack_words 4 s' = [GetSR (cpu s), ucast (drop_bit 16 (PC (cpu s))), ucast (PC (cpu s)), word_of_int (4 * (24 + i))] \<and>
    (\<forall>j. interrupt_due (s'\<lparr>bus := (bus s')\<lparr>inturrupt := j\<rparr>\<rparr>) \<longleftrightarrow> j = 7 \<or> i < j) \<and> inturrupt (bus s') = - 1"
proof -
  let ?n = "24 + i" and ?t = "s\<lparr>bus := (bus s)\<lparr>inturrupt := - 1\<rparr>\<rparr>"
  have fw: "frame_words ?n (cpu s) = [GetSR (cpu s), ucast (drop_bit 16 (PC (cpu s))), ucast (PC (cpu s)), word_of_int (4 * ?n)]"
    using i(3,4) by (simp add: frame_words_def frame0_def)
  then have fb: "frame_bytes ?n (cpu s) = 8" by (simp add: frame_bytes_def)
  have a7: "An (entered ?n (cpu s)) 7 = ISP (cpu s)" using M by (simp add: entered_def Let_def LoadSP_def)
  have "inner_turn fpu s = Raise (M68kException ?n) ?t"
    using run i by (simp add: inner_turn_def run_wait_def on_bus_Ok run_op_prologue)
  then have turn: "cpu_turn fpu s = seq (handle_exception ?n) (cmod (\<lambda>c. c\<lparr>bus_lock := False\<rparr>)) ?t"
    by (simp add: cpu_turn_def)
  have "\<exists>s'. handle_exception ?n ?t = Ok () s' \<and>
    cpu s' = (entered ?n (cpu ?t))\<lparr>An := (An (cpu ?t))(7 := An (entered ?n (cpu ?t)) 7 - of_nat (frame_bytes ?n (cpu ?t))), PC := v\<rparr> \<and>
    stack_words (length (frame_words ?n (cpu ?t))) s' = frame_words ?n (cpu ?t) \<and>
    s' = ?t\<lparr>cpu := cpu s', bus := (bus ?t)\<lparr>RAM := RAM (bus s')\<rparr>\<rparr> \<and>
    (\<forall>i. \<not> (unat (An (cpu s') 7) \<le> i \<and> i < unat (An (entered ?n (cpu ?t)) 7)) \<longrightarrow> RAM (bus s') i = RAM (bus ?t) i)"
  proof (rule handle_exception_run)
    show "unat (VBR (cpu ?t) + word_of_int (?n * 4)) + 4 + frame_bytes ?n (cpu ?t) \<le> unat (An (entered ?n (cpu ?t)) 7)
      \<or> unat (An (entered ?n (cpu ?t)) 7) \<le> unat (VBR (cpu ?t) + word_of_int (?n * 4))"
      using away fb a7 by simp arith
  qed (use i(3,4) M room vec fb in \<open>simp_all add: stack_room_def ram_range_def\<close>)
  then obtain s' where h: "handle_exception ?n ?t = Ok () s'"
    and c: "cpu s' = (entered ?n (cpu s))\<lparr>An := (An (cpu s))(7 := ISP (cpu s) - 8), PC := v\<rparr>"
    and w: "stack_words 4 s' = frame_words ?n (cpu s)"
    and b: "s' = ?t\<lparr>cpu := cpu s', bus := (bus ?t)\<lparr>RAM := RAM (bus s')\<rparr>\<rparr>"
    by (auto simp: fb a7 fw eval_nat_numeral)
  have "inturrupt (bus s') = - 1" by (subst b) simp
  moreover have "uint (I_lvl (entered ?n (cpu s))) = i" by (rule entered_level [OF i(3,4)])
  moreover have "S_bit (entered ?n (cpu s))" by (simp add: entered_def Let_def LoadSP_def)
  ultimately show ?thesis
    using w by (auto simp: turn h c fw interrupt_due_def stack_words_def)
qed

text \<open>
  An instruction word of line A, whatever its other twelve bits, raises exception 10 with the
  address of the word in \<open>oldpc\<close> and touches neither memory nor any other register: the entry
  of every system call of the guest operating system.
\<close>

theorem toolbox_trap:
  assumes "untranslated (cpu s)" "ram_range (PC (cpu s)) 2 (bus s)"
    and op: "be16 (RAM (bus s)) (unat (PC (cpu s))) AND 0xf000 = 0xa000"
    and "\<not> rom_funcs s (PC (cpu s) AND 0xfffff)" "\<not> inJit (cpu s)" "\<not> interrupt_due s"
  shows "run_op fpu s = Raise (M68kException 10) (s\<lparr>cpu := (cpu s)\<lparr>
    EA := (if movem_run (cpu s) then EA (cpu s) else 0), must_trace := (T_mode (cpu s) = 2),
    oldpc := PC (cpu s), PC := PC (cpu s) + 2\<rparr>\<rparr>)"
  using assms by (rule line_a_run)

text \<open>
  \<open>STOP\<close> waits only until the first interrupt of the machine's life has been taken: while the
  mailbox is empty no poll of the main thread ends the wait, but once it holds the \<open>-1\<close> that an
  accepted interrupt leaves, the next poll does, with no interrupt posted.
\<close>

theorem stop_waits:
  assumes "S_bit (cpu s)" and "wakeups (bus s) = replicate (Suc k) Poll"
  shows "if inturrupt (bus s) = 0 then \<exists>s'. stop_impl w s = Raise Blocked s'
    else stop_impl w s = Ok () (s\<lparr>cpu := (let c = SetSR w (cpu s) in if T_mode c = 1 then c\<lparr>must_trace := True\<rparr> else c),
      bus := (bus s)\<lparr>stopping := False, wakeups := replicate k Poll\<rparr>\<rparr>)"
proof -
  have blocked: "wait_for (replicate n Poll) b = Raise Blocked b'" 
    if "inturrupt b = 0" "stopping b" "b' = b" for n and b b' :: "'d bus"
    using that by (induction n) (simp_all add: throw_def main_poll_def whenM_def)
  show ?thesis
    using assms by (auto simp: stop_impl_def PRIV_CHECK_supervisor run_stop_def run_wait_def on_bus_Ok on_bus_Raise blocked
       main_poll_def whenM_def run_resume_def Let_def)
qed

section \<open>Examples\<close>

text \<open>A supervisor program with a level 2 interrupt in the mailbox, and 256 bytes of RAM.\<close>

definition irq_machine :: "unit machine" where
  "irq_machine = small_machine\<lparr>cpu := cpu_static\<lparr>S_bit := True, ISP := 256, PC := 0x12345678, I_lvl := 1\<rparr>,
     bus := small_bus\<lparr>RAMSize := 256, inturrupt := 2\<rparr>\<rparr>"

lemma irq_machine_state:
  "\<not> rom_funcs irq_machine (PC (cpu irq_machine) AND 0xfffff)" "\<not> rom_stops irq_machine (PC (cpu irq_machine))"
  "\<not> inJit (cpu irq_machine)" "\<not> M_bit (cpu irq_machine)" "\<not> stopping (bus irq_machine)"
  "interrupt_due irq_machine" "inturrupt (bus irq_machine) = 2" "ISP (cpu irq_machine) = 256" "VBR (cpu irq_machine) = 0"
  "PC (cpu irq_machine) = 0x12345678"
  "stack_room 8 (irq_machine\<lparr>cpu := entered 26 (cpu irq_machine)\<rparr>)"
  "ram_range 104 4 (bus irq_machine)" "be32 (RAM (bus irq_machine)) 104 = 0"
  "GetSR (cpu irq_machine) = 0x2100" "uint (I_lvl (cpu irq_machine)) = 1"
  by (simp_all add: irq_machine_def small_machine_def machine_on_def cpu_static_def small_bus_def interrupt_due_def
      stack_room_def entered_def Let_def LoadSP_def untranslated_def ttr_static_def ram_range_def be32_def GetSR_def GetCCR_def)

theorem interrupt_priority_witness:
  "run_op None irq_machine = Raise (M68kException 26) (irq_machine\<lparr>bus := (bus irq_machine)\<lparr>inturrupt := - 1\<rparr>\<rparr>)"
  using interrupt_priority [OF irq_machine_state(1,3), of None] by (simp add: irq_machine_state)

theorem interrupt_entry_witness:
  "\<exists>s'. cpu_turn None irq_machine = Ok () s' \<and> uint (I_lvl (cpu s')) = 2 \<and>
    stack_words 4 s' = [0x2100, 0x1234, 0x5678, 104]"
  using interrupt_entry [OF irq_machine_state(5,2,1,3,6) refl _ _ irq_machine_state(4), of 0 None]
  by (auto simp: irq_machine_state)

theorem toolbox_trap_witness:
  "\<exists>c. run_op None aline_machine = Raise (M68kException 10) (aline_machine\<lparr>cpu := c\<rparr>) \<and> PC c = 2 \<and> oldpc c = 0"
  using toolbox_trap [of aline_machine None]
  by (simp add: aline_machine_def small_machine_def machine_on_def cpu_static_def ttr_static_def
        untranslated_def ram_range_def small_bus_def be16_def interrupt_due_def)

theorem stop_waits_witness:
  "\<exists>s'. stop_impl 0x2000 (irq_machine\<lparr>bus := (bus irq_machine)\<lparr>inturrupt := - 1, wakeups := [Poll]\<rparr>\<rparr>) = Ok () s' \<and> \<not> stopping (bus s')"
  using stop_waits [of "irq_machine\<lparr>bus := (bus irq_machine)\<lparr>inturrupt := - 1, wakeups := [Poll]\<rparr>\<rparr>" 0 "0x2000"]
  by (simp add: irq_machine_def cpu_static_def)

end
