(* ===== verification/Boot.thy ===== *)
theory Boot
  imports Traps
begin

text \<open>
  Start-up: \<open>init_emu\<close> of src/common.cc and the sequential part of \<open>main\<close> in src/main.cc.
  The opcode table and the devices that \<open>init_emu\<close> sets up are \<open>run_table\<close> and the field \<open>io\<close>
  of the machine. The windows, audio and network of the host are not modelled.
\<close>

section \<open>The program\<close>

text \<open>
  \<open>rom\<close> is the file \<open>quadra950.rom\<close>, \<open>None\<close> when it cannot be opened, which ends the process.
  The RAM is allocated but not cleared: the bytes that \<open>memcpy\<close> does not reach keep the value
  they have in the state, which is arbitrary. A file larger than the RAM overruns it.
\<close>

definition ram_bytes :: nat where
  "ram_bytes = 64 * 1024 * 1024"

definition init_emu :: "u8 list option \<Rightarrow> ('d, unit) mach" where
  "init_emu rom =
     seq (on_bus (modify (\<lambda>b. b\<lparr>RAMSize := ram_bytes\<rparr>)))
    (case rom of
       None \<Rightarrow> throw Terminated
     | Some bytes \<Rightarrow>
         seq (on_bus (modify (\<lambda>b. b\<lparr>ROMSize := length bytes, ROMMask := of_nat (length bytes) - 1,
                ROM := (\<lambda>i. if i < length bytes then bytes ! i else ROM b i)\<rparr>)))
             (on_bus (bind (gets ROMSize) (\<lambda>n. bind (gets RAMSize) (\<lambda>m.
                if n \<le> m then modify (\<lambda>b. b\<lparr>RAM := (\<lambda>i. if i < n then ROM b i else RAM b i)\<rparr>)
                else throw Undefined)))))"

definition main_run :: "('d, unit) mach" where
  "main_run =
     seq RESET
    (seq (bind (cget VBR) (\<lambda>v. bind (ReadL v) (setA 7)))
    (seq (bind (cget VBR) (\<lambda>v. bind (ReadL (v + 4)) (\<lambda>p. cmod (\<lambda>c. c\<lparr>PC := p\<rparr>))))
         (cmod (\<lambda>c. c\<lparr>movem_run := False\<rparr>))))"

definition main_start :: "u8 list option \<Rightarrow> ('d, unit) mach" where
  "main_start rom = seq (init_emu rom) main_run"

section \<open>Reset\<close>

definition all_flushed :: "'d machine \<Rightarrow> 'd machine" where
  "all_flushed s = s\<lparr>d_atc := (\<lambda>i k. (d_atc s i k)\<lparr>atc_V := False\<rparr>), i_atc := (\<lambda>i k. (i_atc s i k)\<lparr>atc_V := False\<rparr>)\<rparr>"

definition dropped :: "bool \<Rightarrow> 4 word set \<Rightarrow> atc \<Rightarrow> atc" where
  "dropped i K t = (\<lambda>j k. if j = i \<and> k \<in> K then (t j k)\<lparr>atc_V := False\<rparr> else t j k)"

lemma invalidate_loop:
  "for_each js (\<lambda>k. seq (atc_mod True i (of_nat k) (\<lambda>e. e\<lparr>atc_V := False\<rparr>))
      (atc_mod False i (of_nat k) (\<lambda>e. e\<lparr>atc_V := False\<rparr>))) s
   = Ok () (s\<lparr>d_atc := dropped i (of_nat ` set js) (d_atc s), i_atc := dropped i (of_nat ` set js) (i_atc s)\<rparr>)"
proof (induction js arbitrary: s)
  case Nil
  show ?case by (simp add: dropped_def)
next
  case (Cons j js)
  have "dropped i K (atc_upd t i k (\<lambda>e. e\<lparr>atc_V := False\<rparr>)) = dropped i (insert k K) t" for K t k
    by (intro ext) (auto simp: dropped_def atc_upd_def)
  with Cons show ?case by (simp add: atc_mod_run)
qed

lemma atc_invalidate_all_run: "atc_invalidate_all s = Ok () (all_flushed s)"
proof -
  have "dropped True UNIV (dropped False UNIV t) = (\<lambda>i k. (t i k)\<lparr>atc_V := False\<rparr>)" for t
    by (intro ext) (auto simp: dropped_def)
  then show ?thesis
    by (simp add: atc_invalidate_all_def invalidate_loop all_slots [simplified] all_flushed_def)
qed

text \<open>The registers after a reset, but for \<open>A7\<close> and \<open>PC\<close>.\<close>

definition reset_cpu :: "cpu \<Rightarrow> cpu" where
  "reset_cpu c = c\<lparr>S_bit := True, M_bit := False, T_mode := 0, I_lvl := 7, VBR := 0,
     CACR_DE := False, CACR_IE := False,
     DTTR := (DTTR c)(0 := (DTTR c 0)\<lparr>TTR_E := False\<rparr>, 1 := (DTTR c 1)\<lparr>TTR_E := False\<rparr>),
     ITTR := (ITTR c)(0 := (ITTR c 0)\<lparr>TTR_E := False\<rparr>, 1 := (ITTR c 1)\<lparr>TTR_E := False\<rparr>)\<rparr>"

lemma RESET_run:
  assumes "\<not> TCR_E (cpu s)" and "ram_range 0 8 (bus s)" and "\<not> bit (be32 (RAM (bus s)) 4) 0"
  shows "RESET s = Ok () ((all_flushed s)\<lparr>cpu := (reset_cpu (cpu s))\<lparr>
    An := (An (cpu s))(7 := be32 (RAM (bus s)) 0), PC := be32 (RAM (bus s)) 4\<rparr>\<rparr>)"
proof -
  have r: "ram_range 0 4 (bus s)" "ram_range 4 4 (bus s)" using assms(2) by (simp_all add: ram_range_def)
  have u: "untranslated ((reset_cpu (cpu s))\<lparr>An := a\<rparr>)" for a
    using assms(1) by (simp add: untranslated_def reset_cpu_def)
  have l: "LoadSP (reset_cpu c) = (reset_cpu c)\<lparr>An := (An c)(7 := ISP c)\<rparr>" for c
    by (simp add: LoadSP_def reset_cpu_def)
  let ?t = "\<lambda>c. (all_flushed s)\<lparr>cpu := c\<rparr>"
  have fl: "all_flushed (s\<lparr>cpu := c\<rparr>) = ?t c" "cpu (?t c) = c" "bus (?t c) = bus s" for c
    by (simp_all add: all_flushed_def)
  have read: "ex_READL a (?t ((reset_cpu (cpu s))\<lparr>An := an\<rparr>)) = Ok (be32 (RAM (bus s)) (unat a)) (?t ((reset_cpu (cpu s))\<lparr>An := an\<rparr>))"
    if "ram_range a 4 (bus s)" for a an
    unfolding ex_READL_def by (intro catch_PTestError_Ok) (use flat_ReadL [of "?t ((reset_cpu (cpu s))\<lparr>An := an\<rparr>)" a False] that u in \<open>simp add: fl\<close>)
  show ?thesis
    unfolding RESET_def reset_cpu_def [symmetric]
    by (simp add: atc_invalidate_all_run fl l r read JUMP_def bit_at_iff assms(3))
qed


section \<open>Power-on\<close>

text \<open>The memory after \<open>init_emu\<close>.\<close>

definition loaded :: "u8 list \<Rightarrow> 'd bus \<Rightarrow> 'd bus" where
  "loaded rom b = b\<lparr>RAMSize := ram_bytes, ROMSize := length rom, ROMMask := of_nat (length rom) - 1,
     ROM := (\<lambda>i. if i < length rom then rom ! i else ROM b i),
     RAM := (\<lambda>i. if i < length rom then rom ! i else RAM b i)\<rparr>"

lemma init_emu_run:
  "length rom \<le> ram_bytes \<Longrightarrow> init_emu (Some rom) s = Ok () (s\<lparr>bus := loaded rom (bus s)\<rparr>)"
  by (simp add: init_emu_def on_bus_Ok loaded_def cong: if_cong)

lemma untranslated_regs:
  "untranslated (c\<lparr>An := a\<rparr>) = untranslated c" "untranslated (c\<lparr>PC := p\<rparr>) = untranslated c"
  by (simp_all add: untranslated_def)

lemma main_run_run:
  assumes "\<not> TCR_E (cpu s)" and "ram_range 0 8 (bus s)" and "\<not> bit (be32 (RAM (bus s)) 4) 0"
  shows "main_run s = Ok () ((all_flushed s)\<lparr>cpu := (reset_cpu (cpu s))\<lparr>
    An := (An (cpu s))(7 := be32 (RAM (bus s)) 0), PC := be32 (RAM (bus s)) 4, movem_run := False\<rparr>\<rparr>)"
proof -
  have r: "ram_range 0 4 (bus s)" "ram_range 4 4 (bus s)" using assms(2) by (simp_all add: ram_range_def)
  have u: "untranslated (reset_cpu (cpu s))" using assms(1) by (simp add: untranslated_def reset_cpu_def)
  have b: "bus (all_flushed s) = bus s" "VBR (reset_cpu c) = 0" for c by (simp_all add: all_flushed_def reset_cpu_def)
  show ?thesis
    using r u by (simp add: main_run_def RESET_run [OF assms] flat_guest(4) untranslated_regs b)
qed

text \<open>
  Start-up leaves the processor ready to run the ROM: its first longword is the stack pointer
  and its second the program counter, in supervisor state with all interrupts but level 7
  masked, vectors at zero, no translation, and the ROM image copied to the start of the RAM.
\<close>

theorem start_up:
  assumes "\<not> TCR_E (cpu s)" and "8 \<le> length rom" and "length rom \<le> ram_bytes"
    and "\<not> bit (be32 (nth rom) 4) 0"
  shows "\<exists>s'. main_start (Some rom) s = Ok () s' \<and> An (cpu s') 7 = be32 (nth rom) 0 \<and>
    PC (cpu s') = be32 (nth rom) 4 \<and> S_bit (cpu s') \<and> \<not> M_bit (cpu s') \<and> T_mode (cpu s') = 0 \<and>
    I_lvl (cpu s') = 7 \<and> VBR (cpu s') = 0 \<and> \<not> movem_run (cpu s') \<and> untranslated (cpu s') \<and>
    bus s' = loaded rom (bus s) \<and> (\<forall>sys k. \<not> atc_V (d_atc s' sys k) \<and> \<not> atc_V (i_atc s' sys k))"
proof -
  let ?b = "loaded rom (bus s)"
  have rng: "ram_range 0 8 ?b" by (simp add: ram_range_def loaded_def ram_bytes_def)
  have w: "be32 (RAM ?b) 0 = be32 (nth rom) 0" "be32 (RAM ?b) 4 = be32 (nth rom) 4"
    by (rule be32_same; use assms(2) in \<open>simp add: loaded_def\<close>)+
  show ?thesis
    using main_run_run [of "s\<lparr>bus := ?b\<rparr>"] assms rng
    by (simp add: main_start_def init_emu_run w) (simp add: reset_cpu_def all_flushed_def untranslated_def)
qed

theorem start_up_witness:
  "\<exists>s'. main_start (Some [0, 0, 0x20, 0, 0x40, 0x80, 0, 0x2a]) small_machine = Ok () s' \<and>
    An (cpu s') 7 = 0x2000 \<and> PC (cpu s') = 0x4080002a"
proof -
  let ?r = "[0, 0, 0x20, 0, 0x40, 0x80, 0, 0x2a] :: u8 list"
  have "be32 (nth ?r) 0 = 0x2000" "be32 (nth ?r) 4 = 0x4080002a" by (simp_all add: be32_def)
  with start_up [of small_machine ?r] show ?thesis
    by (auto simp: cpu_static_def ram_bytes_def)
qed

lemma wf_atc_drop: "keeps (wf Q) ends_ok (atc_mod code sys k (\<lambda>e. e\<lparr>atc_V := False\<rparr>))"
  by (auto simp: atc_mod_def wf_def wf_atc_def atc_upd_def intro!: keeps_modify)

lemma wf_on_bus_memory:
  "(\<And>b. mailbox Q (f b) = mailbox Q b) \<Longrightarrow> keeps (wf Q) ends_ok (on_bus (modify f))"
  by (auto simp: on_bus_def lift_part_def wf_def keeps_def)

lemma wf_init_emu [keeps_intro]: "keeps (wf Q) ends_ok (init_emu rom)"
proof -
  have "keeps (mailbox Q) (\<lambda>e. ends_ok e) (modify f)" if "\<And>b. mailbox Q (f b) = mailbox Q b" for f :: "'a bus \<Rightarrow> 'a bus"
    using that by (auto simp: keeps_def)
  then show ?thesis
    unfolding init_emu_def
    by (cases rom; simp only: option.case)
      (intro keeps_intro wf_on_bus; simp add: mailbox_def keeps_def)+
qed

lemma wf_RESET [keeps_intro]: "keeps (wf Q) ends_ok RESET"
proof -
  have "keeps (wf Q) ends_ok (cmod reset_cpu)"
    by (intro wf_cmod) (simp add: reset_cpu_def wf_cpu_def wf_ttr_def)
  moreover have "keeps (wf Q) ends_ok (bind (ex_READL 0) (setA 7))" "keeps (wf Q) ends_ok (bind (ex_READL 4) JUMP)"
    by (intro keeps_intro)+
  moreover have "keeps (wf Q) ends_ok atc_invalidate_all"
    unfolding atc_invalidate_all_def by (intro keeps_for_each keeps_seq wf_atc_drop)
  ultimately show ?thesis
    unfolding RESET_def reset_cpu_def [symmetric]
    by (intro keeps_seq wf_assign(2)) assumption+
qed

lemma wf_main_run [keeps_intro]: "keeps (wf Q) ends_ok main_run"
  unfolding main_run_def by (intro wf_assign keeps_intro; simp add: wf_cpu_def)

end
