(* ===== verification/Fpu.thy ===== *)
theory Fpu
  imports Dispatch
begin

text \<open>
  The floating-point unit: src/cpu/68040_fpu.cc without \<open>init_table\<close>, which is in \<open>Dispatch\<close>,
  and without the text for the debugger. \<open>M\<close> is the library, \<open>w\<close> the object whose member
  function runs. Where the order of two reads is not fixed by the language it is from left to right.
\<close>

unbundle bit_operations_syntax

section \<open>Access to the state\<close>

definition fget :: "fpu_obj \<Rightarrow> (M68040FpuFull \<Rightarrow> 'a) \<Rightarrow> ('d, 'a) mach" where
  "fget w f = gets (\<lambda>s. f (fpus s w))"

definition fput :: "fpu_obj \<Rightarrow> (M68040FpuFull \<Rightarrow> M68040FpuFull) \<Rightarrow> ('d, unit) mach" where
  "fput w f = modify (\<lambda>s. s\<lparr>fpus := (fpus s)(w := f (fpus s w))\<rparr>)"

definition mread :: "'a reader \<Rightarrow> ('d, 'a) mach" where
  "mread r = (\<lambda>s. case r (mpfr_state s) of (a, g) \<Rightarrow> Ok a (s\<lparr>mpfr_state := g\<rparr>))"

definition mset :: "(mpfr_globals \<Rightarrow> mpfr_globals) \<Rightarrow> ('d, unit) mach" where
  "mset h = mread (\<lambda>g. ((), h g))"

text \<open>Calls that assign to \<open>fp_tmp\<close>, without and with their result in \<open>fp_tmp_tv\<close>, and to \<open>FP[n]\<close>.\<close>

definition mtmp :: "fpu_obj \<Rightarrow> (M68040FpuFull \<Rightarrow> 'a writer) \<Rightarrow> ('d, 'a) mach" where
  "mtmp w f =
     bind (fget w (\<lambda>u. u)) (\<lambda>u.
     bind (mread (\<lambda>g. case f u (fp_tmp u) g of (a, x, g') \<Rightarrow> ((a, x), g'))) (\<lambda>(a, x).
     seq (fput w (\<lambda>u. u\<lparr>fp_tmp := x\<rparr>)) (return a)))"

definition mtv :: "fpu_obj \<Rightarrow> (M68040FpuFull \<Rightarrow> int writer) \<Rightarrow> ('d, unit) mach" where
  "mtv w f = bind (mtmp w f) (\<lambda>t. fput w (\<lambda>u. u\<lparr>fp_tmp_tv := t\<rparr>))"

definition mdo :: "fpu_obj \<Rightarrow> (M68040FpuFull \<Rightarrow> 'a writer) \<Rightarrow> ('d, unit) mach" where
  "mdo w f = bind (mtmp w f) (\<lambda>_. return ())"

definition mfp :: "fpu_obj \<Rightarrow> nat \<Rightarrow> (M68040FpuFull \<Rightarrow> 'a writer) \<Rightarrow> ('d, unit) mach" where
  "mfp w n f =
     bind (fget w (\<lambda>u. u)) (\<lambda>u.
     bind (mread (\<lambda>g. case f u (FP u n) g of (a, x, g') \<Rightarrow> (x, g'))) (\<lambda>x.
     fput w (\<lambda>u. u\<lparr>FP := (FP u)(n := x)\<rparr>)))"

text \<open>\<open>mpfr_swap(FP[n], fp_tmp); std::swap(FP_nan[n], fp_tmp_nan)\<close>.\<close>

definition swap_fp :: "nat \<Rightarrow> M68040FpuFull \<Rightarrow> M68040FpuFull" where
  "swap_fp n u = u\<lparr>FP := (FP u)(n := fp_tmp u), fp_tmp := FP u n,
     FP_nan := (FP_nan u)(n := fp_tmp_nan u), fp_tmp_nan := FP_nan u n\<rparr>"

definition upd_sr :: "fpu_obj \<Rightarrow> (FPSR_t \<Rightarrow> FPSR_t) \<Rightarrow> ('d, unit) mach" where
  "upd_sr w f = fput w (\<lambda>u. u\<lparr>FPSR := f (FPSR u)\<rparr>)"

definition rnd :: "M68040FpuFull \<Rightarrow> mpfr_rnd_t" where
  "rnd u = RND (FPCR u)"

section \<open>Exceptions\<close>

text \<open>src/cpu/exception.cc.\<close>

definition FP_EX_BSUN :: "('d, 'a) mach" where "FP_EX_BSUN = RAISE FP_UNORDER"
definition FP_EX_INEX :: "('d, 'a) mach" where "FP_EX_INEX = RAISE (FP_UNORDER + 1)"
definition FP_EX_DIV0 :: "('d, 'a) mach" where "FP_EX_DIV0 = RAISE (FP_UNORDER + 2)"
definition FP_EX_UNFL :: "('d, 'a) mach" where "FP_EX_UNFL = RAISE (FP_UNORDER + 3)"
definition FP_EX_OPERR :: "('d, 'a) mach" where "FP_EX_OPERR = RAISE (FP_UNORDER + 4)"
definition FP_EX_OVFL :: "('d, 'a) mach" where "FP_EX_OVFL = RAISE (FP_UNORDER + 5)"
definition FP_EX_SNAN :: "('d, 'a) mach" where "FP_EX_SNAN = RAISE (FP_UNORDER + 6)"

text \<open>The flags of the library, and what they leave in the accrued exceptions.\<close>

definition take_flags :: "mpfr_lib \<Rightarrow> mpfr_globals \<Rightarrow> FPSR_t \<Rightarrow> FPSR_t" where
  "take_flags M g r = r\<lparr>OPERR := mpfr_flag_p M nanflag g \<or> mpfr_flag_p M erangeflag g,
     OVFL := mpfr_flag_p M overflow_flag g, UNFL := mpfr_flag_p M underflow_flag g,
     DZ := mpfr_flag_p M divby0_flag g, INEX2 := mpfr_flag_p M inexflag g\<rparr>"

definition accrue :: "FPSR_t \<Rightarrow> FPSR_t" where
  "accrue r = r\<lparr>EXC_IOP := EXC_IOP r \<or> S_NAN r \<or> OPERR r, EXC_OVFL := EXC_OVFL r \<or> OVFL r,
     EXC_UNFL := EXC_UNFL r \<or> UNFL r \<or> INEX2 r, EXC_DZ := EXC_DZ r \<or> DZ r,
     EXC_INEX := EXC_INEX r \<or> INEX1 r \<or> INEX2 r \<or> OVFL r\<rparr>"

definition testex :: "mpfr_lib \<Rightarrow> fpu_obj \<Rightarrow> ('d, unit) mach" where
  "testex M w =
     bind (gets mpfr_state) (\<lambda>g.
     seq (upd_sr w (\<lambda>r. accrue (take_flags M g r)))
    (bind (fget w FPSR) (\<lambda>r. bind (fget w FPCR) (\<lambda>c.
     seq (whenM (S_NAN r \<and> en_S_NAN c) FP_EX_SNAN)
    (seq (whenM (OPERR r \<and> en_OPERR c) FP_EX_OPERR)
    (seq (whenM (OVFL r \<and> en_OVFL c) FP_EX_OVFL)
    (seq (whenM (UNFL r \<and> en_UNFL c) FP_EX_UNFL)
    (seq (whenM (DZ r \<and> en_DZ c) FP_EX_DIV0)
    (seq (whenM (INEX1 r \<and> en_INEX1 c) FP_EX_INEX)
         (whenM (INEX2 r \<and> en_INEX2 c) FP_EX_INEX))))))))))"

section \<open>Rounding and storing a result\<close>

fun exp_range :: "FPU_PREC \<Rightarrow> (int \<times> int \<times> nat) option" where
  "exp_range PREC_AUTO = None"
| "exp_range PREC_X = Some (-16445, 16384, 64)"
| "exp_range PREC_D = Some (-1073, 1024, 53)"
| "exp_range PREC_S = Some (-148, 128, 24)"

definition normalize_fp :: "mpfr_lib \<Rightarrow> fpu_obj \<Rightarrow> FPU_PREC \<Rightarrow> ('d, unit) mach" where
  "normalize_fp M w p = (case exp_range p of
     None \<Rightarrow> throw Undefined
   | Some (lo, hi, bits) \<Rightarrow>
       seq (mset (mpfr_set_emin M lo)) (seq (mset (mpfr_set_emax M hi))
      (seq (mtv w (\<lambda>u. mpfr_check_range M (fp_tmp_tv u) (rnd u)))
      (seq (mtv w (\<lambda>u. mpfr_subnormalize M (fp_tmp_tv u) (rnd u)))
      (seq (mtv w (\<lambda>u. mpfr_prec_round M bits (rnd u)))
      (seq (mset (mpfr_set_emin M (-32768))) (mset (mpfr_set_emax M 32767))))))))"

text \<open>A NaN is made quiet; after the exchange the condition codes are read from \<open>fp_tmp\<close>.\<close>

definition quiet_nan :: "M68040FpuFull \<Rightarrow> M68040FpuFull" where
  "quiet_nan u = (if CC_NAN (FPSR u) \<and> \<not> bit (fp_tmp_nan u) 62
     then u\<lparr>FPSR := (FPSR u)\<lparr>S_NAN := True\<rparr>, fp_tmp_nan := fp_tmp_nan u OR push_bit 62 1\<rparr> else u)"

definition store_fpr :: "mpfr_lib \<Rightarrow> fpu_obj \<Rightarrow> int \<Rightarrow> FPU_PREC \<Rightarrow> ('d, unit) mach" where
  "store_fpr M w fpn p =
     seq (fput w (\<lambda>u. u\<lparr>FPSR := (FPSR u)\<lparr>CC_NAN := mpfr_nan_p M (fp_tmp u)\<rparr>\<rparr>))
    (seq (fput w quiet_nan)
    (bind (fget w (\<lambda>u. if p = PREC_AUTO then PREC (FPCR u) else p)) (\<lambda>pp.
     seq (normalize_fp M w pp)
    (seq (fput w (\<lambda>u. if fpn \<noteq> -1 then swap_fp (nat fpn) u else u))
    (seq (fput w (\<lambda>u. u\<lparr>FPSR := (FPSR u)\<lparr>CC_I := mpfr_inf_p M (fp_tmp u), CC_Z := mpfr_zero_p M (fp_tmp u)\<rparr>\<rparr>))
    (bind (fget w fp_tmp) (\<lambda>x. bind (mread (mpfr_sgn M x)) (\<lambda>k.
     seq (upd_sr w (\<lambda>r. r\<lparr>CC_N := k < 0\<rparr>))
         (testex M w)))))))))"

definition test_NAN1 :: "mpfr_lib \<Rightarrow> fpu_obj \<Rightarrow> ('d, bool) mach" where
  "test_NAN1 M w =
     bind (fget w (\<lambda>u. mpfr_nan_p M (fp_tmp u))) (\<lambda>n.
     if n then seq (upd_sr w (\<lambda>r. r\<lparr>OPERR := True\<rparr>)) (return False) else return True)"

definition test_NAN2 :: "mpfr_lib \<Rightarrow> fpu_obj \<Rightarrow> nat \<Rightarrow> ('d, bool) mach" where
  "test_NAN2 M w fpn =
     bind (fget w (\<lambda>u. mpfr_nan_p M (FP u fpn))) (\<lambda>d. bind (fget w (\<lambda>u. mpfr_nan_p M (fp_tmp u))) (\<lambda>n.
     if d \<and> \<not> n then
       seq (upd_sr w (\<lambda>r. r\<lparr>OPERR := True\<rparr>))
      (seq (mdo w (\<lambda>_. mpfr_set_nan M))
      (seq (fput w (\<lambda>u. u\<lparr>fp_tmp_nan := FP_nan u fpn\<rparr>)) (return False)))
     else if n then seq (upd_sr w (\<lambda>r. r\<lparr>OPERR := True\<rparr>)) (return False)
     else return True))"

definition prologue :: "mpfr_lib \<Rightarrow> fpu_obj \<Rightarrow> ('d, unit) mach" where
  "prologue M w =
     seq (mset (mpfr_clear_flags M)) (bind (cget oldpc) (\<lambda>p. fput w (\<lambda>u. u\<lparr>FPIAR := p\<rparr>)))"

section \<open>Loading an operand\<close>

definition loadLL :: "u32 \<Rightarrow> ('d, u64) mach" where
  "loadLL addr = bind (ReadL addr) (\<lambda>h. bind (ReadL (addr + 4)) (\<lambda>l. return (push_bit 32 (ucast h) OR ucast l)))"

definition WriteLL :: "u32 \<Rightarrow> u64 \<Rightarrow> ('d, unit) mach" where
  "WriteLL addr v = seq (WriteL addr (ucast (drop_bit 32 v))) (WriteL (addr + 4) (ucast v))"

definition load_nan :: "mpfr_lib \<Rightarrow> fpu_obj \<Rightarrow> u64 \<Rightarrow> ('d, unit) mach" where
  "load_nan M w mant = seq (mdo w (\<lambda>_. mpfr_set_nan M)) (fput w (\<lambda>u. u\<lparr>fp_tmp_nan := mant\<rparr>))"

definition loadS :: "mpfr_lib \<Rightarrow> fpu_obj \<Rightarrow> u32 \<Rightarrow> ('d, unit) mach" where
  "loadS M w v =
     (let e = drop_bit 23 v AND 0xff; mant = ucast (v AND 0x7fffff) :: u64 in
      if e = 0xff \<and> mant \<noteq> 0 then load_nan M w (push_bit 41 mant)
      else mdo w (\<lambda>u. mpfr_set_flt M v (rnd u)))"

definition loadD :: "mpfr_lib \<Rightarrow> fpu_obj \<Rightarrow> u64 \<Rightarrow> ('d, unit) mach" where
  "loadD M w v =
     (let e = drop_bit 52 v AND 0x7ff; mant = v AND 0xfffffffffffff in
      if e = 0x7ff \<and> mant \<noteq> 0 then load_nan M w (push_bit 12 mant)
      else mdo w (\<lambda>u. mpfr_set_d M v (rnd u)))"

definition loadX :: "mpfr_lib \<Rightarrow> fpu_obj \<Rightarrow> u64 \<Rightarrow> u16 \<Rightarrow> ('d, unit) mach" where
  "loadX M w mant ex =
     (let sign = bit ex 15; e = ex AND 0x7fff in
      if e = 0 \<and> mant = 0 then mdo w (\<lambda>_. mpfr_set_zero M (if sign then -1 else 1))
      else if e = 0x7fff then
        if mant = 0 then mdo w (\<lambda>_. mpfr_set_inf M (if sign then -1 else 1))
        else load_nan M w mant
      else
        seq (mdo w (\<lambda>u. mpfr_set_uj_2exp M mant (uint e - 16383 - 63) (rnd u)))
            (mdo w (\<lambda>u. mpfr_setsign M (fp_tmp u) sign (rnd u))))"

text \<open>The text of a packed decimal: sign, digit, point, sixteen digits, exponent of three.\<close>

definition digit :: "u64 \<Rightarrow> char" where
  "digit d = char_of (48 + unat (d AND 0xf))"

definition packed_text :: "bool \<Rightarrow> bool \<Rightarrow> u32 \<Rightarrow> u32 \<Rightarrow> u64 \<Rightarrow> string" where
  "packed_text sm se d16 e mant =
     [if sm then CHR ''-'' else CHR ''+'', digit (ucast d16), CHR ''.''] @
     map (\<lambda>i. digit (drop_bit (4 * (15 - i)) mant)) [0..<16] @
     [CHR ''e'', if se then CHR ''-'' else CHR ''+'',
      digit (ucast (drop_bit 8 e)), digit (ucast (drop_bit 4 e)), digit (ucast e)]"

definition loadP :: "mpfr_lib \<Rightarrow> fpu_obj \<Rightarrow> u32 \<Rightarrow> ('d, unit) mach" where
  "loadP M w addr =
     bind (ReadL addr) (\<lambda>x.
     let sm = bit x 31; se = bit x 30; yy = drop_bit 28 x AND 3; d16 = x AND 0xf; e = drop_bit 16 x AND 0xfff in
     bind (ReadL (addr + 4)) (\<lambda>h. bind (ReadL (addr + 8)) (\<lambda>l.
     let mant = push_bit 32 (ucast h) OR ucast l :: u64 in
     if yy = 3 \<and> e = 0xfff then
       if mant = 0 then mdo w (\<lambda>_. mpfr_set_inf M (if sm then -1 else 1)) else load_nan M w mant
     else if e = 0 \<and> mant = 0 then mdo w (\<lambda>_. mpfr_set_zero M (if sm then -1 else 1))
     else
       seq (mtv w (\<lambda>u. mpfr_strtofr M (packed_text sm se d16 e mant) 10 (rnd u)))
           (fput w (\<lambda>u. u\<lparr>FPSR := (FPSR u)\<lparr>INEX1 := fp_tmp_tv u \<noteq> 0\<rparr>\<rparr>)))))"

section \<open>Control and status registers\<close>

text \<open>\<open>None\<close>: a precision that \<open>__builtin_unreachable\<close> excludes.\<close>

fun rnd_code :: "mpfr_rnd_t \<Rightarrow> u16" where
  "rnd_code MPFR_RNDN = 0" | "rnd_code MPFR_RNDZ = 1" | "rnd_code MPFR_RNDD = 2" | "rnd_code MPFR_RNDU = 3"

fun prec_code :: "FPU_PREC \<Rightarrow> u16 option" where
  "prec_code PREC_X = Some 0" | "prec_code PREC_S = Some 1" | "prec_code PREC_D = Some 2" | "prec_code PREC_AUTO = None"

definition FPCR_t_value :: "FPCR_t \<Rightarrow> u16 option" where
  "FPCR_t_value c = map_option (\<lambda>p. push_bit 4 (rnd_code (RND c)) OR push_bit 6 p
     OR push_bit 8 (of_bool (en_INEX1 c)) OR push_bit 9 (of_bool (en_INEX2 c)) OR push_bit 10 (of_bool (en_DZ c))
     OR push_bit 11 (of_bool (en_UNFL c)) OR push_bit 12 (of_bool (en_OVFL c)) OR push_bit 13 (of_bool (en_OPERR c))
     OR push_bit 14 (of_bool (en_S_NAN c)) OR push_bit 15 (of_bool (en_BSUN c))) (prec_code (PREC c))"

definition FPCR_t_set :: "u16 \<Rightarrow> FPCR_t" where
  "FPCR_t_set v = \<lparr>RND = [MPFR_RNDN, MPFR_RNDZ, MPFR_RNDD, MPFR_RNDU] ! unat (drop_bit 4 v AND 3),
     PREC = [PREC_X, PREC_S, PREC_D, PREC_X] ! unat (drop_bit 6 v AND 3),
     en_INEX1 = bit v 8, en_INEX2 = bit v 9, en_DZ = bit v 10, en_UNFL = bit v 11, en_OVFL = bit v 12,
     en_OPERR = bit v 13, en_S_NAN = bit v 14, en_BSUN = bit v 15\<rparr>"

definition FPSR_t_value :: "FPSR_t \<Rightarrow> u32" where
  "FPSR_t_value r = push_bit 27 (of_bool (CC_N r)) OR push_bit 26 (of_bool (CC_Z r)) OR push_bit 25 (of_bool (CC_I r))
     OR push_bit 24 (of_bool (CC_NAN r)) OR push_bit 23 (of_bool (QuatSign r)) OR push_bit 16 (ucast (Quat r))
     OR push_bit 15 (of_bool (BSUN r)) OR push_bit 14 (of_bool (S_NAN r)) OR push_bit 13 (of_bool (OPERR r))
     OR push_bit 12 (of_bool (OVFL r)) OR push_bit 11 (of_bool (UNFL r)) OR push_bit 10 (of_bool (DZ r))
     OR push_bit 9 (of_bool (INEX2 r)) OR push_bit 8 (of_bool (INEX1 r)) OR push_bit 7 (of_bool (EXC_IOP r))
     OR push_bit 6 (of_bool (EXC_OVFL r)) OR push_bit 5 (of_bool (EXC_UNFL r)) OR push_bit 4 (of_bool (EXC_DZ r))
     OR push_bit 3 (of_bool (EXC_INEX r))"

definition FPSR_t_set :: "u32 \<Rightarrow> FPSR_t" where
  "FPSR_t_set v = \<lparr>CC_NAN = bit v 24, CC_I = bit v 25, CC_Z = bit v 26, CC_N = bit v 27,
     Quat = ucast (drop_bit 16 v AND 0x7f), QuatSign = bit v 23, INEX1 = bit v 8, INEX2 = bit v 9, DZ = bit v 10,
     UNFL = bit v 11, OVFL = bit v 12, OPERR = bit v 13, S_NAN = bit v 14, BSUN = bit v 15, EXC_INEX = bit v 3,
     EXC_DZ = bit v 4, EXC_UNFL = bit v 5, EXC_OVFL = bit v 6, EXC_IOP = bit v 7\<rparr>"

definition test_bsun :: "fpu_obj \<Rightarrow> ('d, unit) mach" where
  "test_bsun w =
     bind (fget w (\<lambda>u. CC_NAN (FPSR u))) (\<lambda>n.
     whenM n (seq (upd_sr w (\<lambda>r. r\<lparr>BSUN := True\<rparr>)) (bind (fget w (\<lambda>u. en_BSUN (FPCR u))) (\<lambda>e. whenM e FP_EX_BSUN))))"

definition test_Fcc :: "FPSR_t \<Rightarrow> u8 \<Rightarrow> bool" where
  "test_Fcc r v =
     (if v = 0 then False
      else if v = 15 then True
      else if v = 1 then CC_Z r
      else if v = 14 then \<not> CC_Z r
      else if v = 2 then \<not> (CC_NAN r \<or> CC_Z r \<or> CC_N r)
      else if v = 13 then CC_NAN r \<or> CC_Z r \<or> CC_N r
      else if v = 3 then CC_Z r \<or> \<not> (CC_NAN r \<or> CC_N r)
      else if v = 12 then CC_NAN r \<or> (CC_N r \<and> \<not> CC_Z r)
      else if v = 4 then CC_N r \<and> \<not> (CC_NAN r \<or> CC_Z r)
      else if v = 11 then CC_NAN r \<or> (CC_Z r \<and> \<not> CC_N r)
      else if v = 5 then CC_Z r \<or> (CC_N r \<and> \<not> CC_NAN r)
      else if v = 10 then CC_NAN r \<or> (CC_Z r \<and> \<not> CC_N r)
      else if v = 6 then \<not> (CC_NAN r \<or> CC_Z r)
      else if v = 9 then CC_NAN r \<or> CC_Z r
      else if v = 7 then \<not> CC_NAN r
      else if v = 8 then CC_NAN r
      else False)"

section \<open>Formats in memory\<close>

text \<open>\<open>storeX\<close> returns the significand and the word with sign and exponent.\<close>

definition store_regular :: "mpfr_lib \<Rightarrow> fpu_obj \<Rightarrow> u16 \<Rightarrow> ('d, u64 \<times> u16) mach" where
  "store_regular M w e =
     bind (mtmp w (\<lambda>u. mpfr_frexp M (fp_tmp u) (rnd u))) (\<lambda>(ex0, _).
     seq (mdo w (\<lambda>u. mpfr1 M mpfr_abs (fp_tmp u) (rnd u)))
    (let ex = ex0 - 1; n = (if ex > -16383 then 64 else 64 - (- ex - 16383)) in
     seq (mdo w (\<lambda>u. mpfr_mul_2si M (fp_tmp u) n (rnd u)))
    (bind (fget w (\<lambda>u. mpfr_get_uj M (fp_tmp u) (rnd u))) (\<lambda>r. bind (mread r) (\<lambda>mant.
     return (mant, if ex > -16383 then e OR word_of_int (ex + 16383) else e))))))"

definition storeX :: "mpfr_lib \<Rightarrow> fpu_obj \<Rightarrow> ('d, u64 \<times> u16) mach" where
  "storeX M w =
     seq (normalize_fp M w PREC_X)
    (bind (fget w (\<lambda>u. u)) (\<lambda>u.
     let x = fp_tmp u; e = push_bit 15 (of_bool (mpfr_signbit M x \<noteq> 0)) in
     if mpfr_nan_p M x then return (fp_tmp_nan u, 0x7fff)
     else if mpfr_inf_p M x then return (0, e OR 0x7fff)
     else if mpfr_zero_p M x then return (0, e)
     else store_regular M w e))"

text \<open>A signed integer of \<open>n\<close> bits; the flag is set when the number is very small, and when it is cut.\<close>

definition store_int :: "mpfr_lib \<Rightarrow> fpu_obj \<Rightarrow> mpfr_flag \<Rightarrow> nat \<Rightarrow> ('d, int) mach" where
  "store_int M w f n =
     bind (fget w (\<lambda>u. u)) (\<lambda>u.
     seq (whenM (mpfr_get_exp M (fp_tmp u) < -1022) (mset (mpfr_set_flag M f)))
    (bind (mread (mpfr_get_sj M (fp_tmp u) (rnd u))) (\<lambda>v.
     if v > 2 ^ (n - 1) - 1 then seq (mset (mpfr_set_flag M erangeflag)) (return (2 ^ (n - 1) - 1))
     else if v < - (2 ^ (n - 1)) then seq (mset (mpfr_set_flag M erangeflag)) (return (- (2 ^ (n - 1))))
     else return v)))"

definition storeL :: "mpfr_lib \<Rightarrow> fpu_obj \<Rightarrow> ('d, u32) mach" where
  "storeL M w = bind (store_int M w erangeflag 32) (\<lambda>v. return (word_of_int v))"

definition storeW :: "mpfr_lib \<Rightarrow> fpu_obj \<Rightarrow> ('d, u16) mach" where
  "storeW M w = bind (store_int M w underflow_flag 16) (\<lambda>v. return (word_of_int v))"

definition storeB :: "mpfr_lib \<Rightarrow> fpu_obj \<Rightarrow> ('d, u8) mach" where
  "storeB M w = bind (store_int M w underflow_flag 8) (\<lambda>v. return (word_of_int v))"

definition storeS :: "mpfr_lib \<Rightarrow> fpu_obj \<Rightarrow> ('d, u32) mach" where
  "storeS M w =
     seq (normalize_fp M w PREC_S)
    (bind (fget w (\<lambda>u. u)) (\<lambda>u.
     if mpfr_nan_p M (fp_tmp u) then return (0x7f800000 OR ucast (drop_bit 41 (fp_tmp_nan u)))
     else mread (mpfr_get_flt M (fp_tmp u) (rnd u))))"

definition storeD :: "mpfr_lib \<Rightarrow> fpu_obj \<Rightarrow> ('d, u64) mach" where
  "storeD M w =
     seq (normalize_fp M w PREC_D)
    (bind (fget w (\<lambda>u. u)) (\<lambda>u.
     if mpfr_nan_p M (fp_tmp u) then return (0x7ff0000000000000 OR drop_bit 12 (fp_tmp_nan u))
     else mread (mpfr_get_d M (fp_tmp u) (rnd u))))"

text \<open>
  \<open>e * LOG10_2\<close> in doubles: the constant is 5422874305198591 times 2 to the -54, the exact
  product is rounded to 53 bits, ties to even, and the conversion drops the fraction.
\<close>

fun bit_length :: "nat \<Rightarrow> nat" where
  "bit_length n = (if n = 0 then 0 else Suc (bit_length (n div 2)))"

definition round53 :: "int \<Rightarrow> int" where
  "round53 p = (let k = bit_length (nat p) - 53; q = p div 2 ^ k; r = p mod 2 ^ k in
     if k = 0 then p
     else (if 2 * r > 2 ^ k \<or> (2 * r = 2 ^ k \<and> odd q) then q + 1 else q) * 2 ^ k)"

definition mpfr_digit10 :: "int \<Rightarrow> int" where
  "mpfr_digit10 e = (if e \<le> 0 then 1 else round53 (e * 5422874305198591) div 2 ^ 54)"

text \<open>The buffer of 96 characters: at most 94 of the text, then zeros.\<close>

definition buf_at :: "string \<Rightarrow> nat \<Rightarrow> int" where
  "buf_at s i = (if i < min 94 (length s) then sint (of_char (s ! i) :: u8) else 0)"

definition nibble_at :: "string \<Rightarrow> nat \<Rightarrow> nat \<Rightarrow> u32" where
  "nibble_at s i n = push_bit n (word_of_int (buf_at s i - 48))"

text \<open>
  The packed exponent from a text whose \<open>e\<close> is at \<open>ep\<close>; beyond the buffer, and with more than
  sixteen digits, whose shift would be negative, there is no meaning.
\<close>

definition packed_exp :: "string \<Rightarrow> nat \<Rightarrow> u32" where
  "packed_exp s ep =
     word_of_int (buf_at s 1 - 48) OR push_bit 31 (of_bool (buf_at s 0 = 45)) OR push_bit 30 (of_bool (buf_at s (ep + 1) = 45))
     OR (if buf_at s (ep + 3) = 0 then nibble_at s (ep + 2) 16
         else if buf_at s (ep + 4) = 0 then nibble_at s (ep + 2) 20 OR nibble_at s (ep + 3) 16
         else if buf_at s (ep + 5) = 0 then nibble_at s (ep + 2) 24 OR nibble_at s (ep + 3) 20 OR nibble_at s (ep + 4) 16
         else nibble_at s (ep + 2) 12 OR nibble_at s (ep + 3) 24 OR nibble_at s (ep + 4) 20 OR nibble_at s (ep + 5) 16)"

definition packed_digits :: "string \<Rightarrow> nat \<Rightarrow> u64" where
  "packed_digits s ep = foldl (\<lambda>v k. v OR push_bit ((15 - k) * 4) (word_of_int (buf_at s (3 + k) - 48))) 0 [0..<ep - 3]"

definition store_packed :: "string \<Rightarrow> u32 \<Rightarrow> ('d, unit) mach" where
  "store_packed s addr = (case List.find (\<lambda>i. buf_at s i = 101) [0..<94] of
     None \<Rightarrow> throw Undefined
   | Some ep \<Rightarrow>
       if ep = 93 \<or> 19 < ep then throw Undefined
       else seq (WriteL addr (packed_exp s ep)) (WriteLL (addr + 4) (packed_digits s ep)))"

definition store_fpP :: "mpfr_lib \<Rightarrow> fpu_obj \<Rightarrow> u32 \<Rightarrow> int \<Rightarrow> ('d, unit) mach" where
  "store_fpP M w addr k0 =
     seq (whenM (k0 > 18) (mset (mpfr_set_flag M erangeflag)))
    (let k = (if k0 > 18 then 17 else k0) in
     seq (normalize_fp M w PREC_X)
    (bind (fget w (\<lambda>u. u)) (\<lambda>u.
     let x = fp_tmp u; e = push_bit 31 (word_of_int (mpfr_signbit M x)) :: u32 in
     if mpfr_nan_p M x then seq (WriteL addr 0x7fff0000) (WriteLL (addr + 4) (fp_tmp_nan u))
     else if mpfr_inf_p M x then seq (WriteL addr (e OR 0x7fff0000)) (WriteLL (addr + 4) 0)
     else if mpfr_zero_p M x then seq (WriteL addr e) (WriteLL (addr + 4) 0)
     else
       let sn = (if k \<le> 0 then - k + mpfr_digit10 (mpfr_get_exp M x) else k - 1) in
       bind (mread (mpfr_snprintf M sn (rnd u) x)) (\<lambda>s. store_packed s addr))))"

section \<open>Start and reset\<close>

definition QNAN_DEFAULT :: u64 where "QNAN_DEFAULT = - 1"

definition fpu_reset :: "mpfr_lib \<Rightarrow> fpu_obj \<Rightarrow> ('d, unit) mach" where
  "fpu_reset M w =
     seq (mset (mpfr_set_default_prec M 64))
    (seq (for_each [0..<8] (\<lambda>i. seq (mfp w i (\<lambda>_. mpfr_set_nan M)) (fput w (\<lambda>u. u\<lparr>FP_nan := (FP_nan u)(i := QNAN_DEFAULT)\<rparr>))))
    (seq (mdo w (\<lambda>_. mpfr_set_nan M))
         (fput w (\<lambda>u. u\<lparr>fp_tmp_nan := QNAN_DEFAULT, FPIAR := 0, FPCR := FPCR_t_set 0, FPSR := FPSR_t_set 0\<rparr>))))"

text \<open>\<open>createFPU\<close> and \<open>init\<close>.\<close>

definition createFPU :: "('d, unit) mach" where
  "createFPU = fput FPU_P (\<lambda>_. fpu_static)"

definition fpu_init :: "mpfr_lib \<Rightarrow> ('d, unit) mach" where
  "fpu_init M =
     seq (for_each [0..<8] (\<lambda>i. mfp FPU_P i (\<lambda>_. mpfr_init2 M 64)))
    (seq (mdo FPU_P (\<lambda>_. mpfr_init2 M 64))
    (seq (mset (mpfr_set_default_prec M 64))
         (fput FPU_P (\<lambda>u. u\<lparr>fp_tmp_nan := 0, FPCR := (FPCR u)\<lparr>RND := MPFR_RNDN\<rparr>\<rparr>))))"

section \<open>FMOVEM\<close>

definition save_fp :: "mpfr_lib \<Rightarrow> fpu_obj \<Rightarrow> nat \<Rightarrow> u32 \<Rightarrow> ('d, unit) mach" where
  "save_fp M w i base =
     seq (mdo w (\<lambda>u. mpfr1 M mpfr_set (FP u i) MPFR_RNDN))
    (seq (fput w (\<lambda>u. u\<lparr>fp_tmp_nan := FP_nan u i\<rparr>))
    (bind (storeX M w) (\<lambda>(mant, ex). seq (WriteW base ex) (WriteLL (base + 4) mant))))"

definition fmovem_from_reg_rev :: "mpfr_lib \<Rightarrow> fpu_obj \<Rightarrow> u32 \<Rightarrow> u8 \<Rightarrow> ('d, u32) mach" where
  "fmovem_from_reg_rev M w base regs =
     fold_each (rev [0..<8]) base (\<lambda>i b. if bit regs i then seq (save_fp M w i (b - 12)) (return (b - 12)) else return b)"

definition fmovem_from_reg :: "mpfr_lib \<Rightarrow> fpu_obj \<Rightarrow> u32 \<Rightarrow> u8 \<Rightarrow> ('d, u32) mach" where
  "fmovem_from_reg M w base regs =
     fold_each [0..<8] base (\<lambda>i b. if bit regs (7 - i) then seq (save_fp M w i b) (return (b + 12)) else return b)"

definition fmovem_to_reg :: "mpfr_lib \<Rightarrow> fpu_obj \<Rightarrow> u32 \<Rightarrow> u8 \<Rightarrow> ('d, u32) mach" where
  "fmovem_to_reg M w base regs =
     fold_each [0..<8] base (\<lambda>i b. if bit regs (7 - i) then
       bind (ReadW b) (\<lambda>ex. bind (loadLL (b + 4)) (\<lambda>mant.
       seq (loadX M w mant ex) (seq (fput w (swap_fp i)) (return (b + 12))))) else return b)"

section \<open>FMOVECR\<close>

definition rom_constant :: "mpfr_lib \<Rightarrow> fpu_obj \<Rightarrow> mpfr_const \<Rightarrow> nat \<Rightarrow> ('d, unit) mach" where
  "rom_constant M w c fpn = seq (mdo w (\<lambda>u. mpfr_constant M c (rnd u))) (store_fpr M w (int fpn) PREC_AUTO)"

definition rom_functions :: "mpfr_lib \<Rightarrow> fpu_obj \<Rightarrow> nat \<Rightarrow> mpfr_un list \<Rightarrow> nat \<Rightarrow> ('d, unit) mach" where
  "rom_functions M w n fs fpn =
     seq (mdo w (\<lambda>u. mpfr_set_ui M n (rnd u)))
    (seq (for_each fs (\<lambda>f. mdo w (\<lambda>u. mpfr1 M f (fp_tmp u) (rnd u))))
         (store_fpr M w (int fpn) PREC_AUTO))"

definition rom_power :: "mpfr_lib \<Rightarrow> fpu_obj \<Rightarrow> nat \<Rightarrow> nat \<Rightarrow> ('d, unit) mach" where
  "rom_power M w n fpn = seq (mdo w (\<lambda>u. mpfr_ui_pow_ui M 10 n (rnd u))) (store_fpr M w (int fpn) PREC_AUTO)"

definition fmovecr_0 :: "mpfr_lib \<Rightarrow> fpu_obj \<Rightarrow> nat \<Rightarrow> ('d, unit) mach" where "fmovecr_0 M w = rom_constant M w mpfr_const_pi"
definition fmovecr_B :: "mpfr_lib \<Rightarrow> fpu_obj \<Rightarrow> nat \<Rightarrow> ('d, unit) mach" where "fmovecr_B M w = rom_functions M w 2 [mpfr_log10]"
definition fmovecr_C :: "mpfr_lib \<Rightarrow> fpu_obj \<Rightarrow> nat \<Rightarrow> ('d, unit) mach" where "fmovecr_C M w = rom_functions M w 1 [mpfr_exp]"
definition fmovecr_D :: "mpfr_lib \<Rightarrow> fpu_obj \<Rightarrow> nat \<Rightarrow> ('d, unit) mach" where "fmovecr_D M w = rom_functions M w 1 [mpfr_exp, mpfr_log2]"
definition fmovecr_E :: "mpfr_lib \<Rightarrow> fpu_obj \<Rightarrow> nat \<Rightarrow> ('d, unit) mach" where "fmovecr_E M w = rom_functions M w 1 [mpfr_exp, mpfr_log10]"

definition fmovecr_F :: "mpfr_lib \<Rightarrow> fpu_obj \<Rightarrow> nat \<Rightarrow> ('d, unit) mach" where
  "fmovecr_F M w fpn = seq (mdo w (\<lambda>_. mpfr_set_zero M 1)) (store_fpr M w (int fpn) PREC_AUTO)"

definition fmovecr_30 :: "mpfr_lib \<Rightarrow> fpu_obj \<Rightarrow> nat \<Rightarrow> ('d, unit) mach" where "fmovecr_30 M w = rom_constant M w mpfr_const_log2"
definition fmovecr_31 :: "mpfr_lib \<Rightarrow> fpu_obj \<Rightarrow> nat \<Rightarrow> ('d, unit) mach" where "fmovecr_31 M w = rom_functions M w 10 [mpfr_log]"
definition fmovecr_32 :: "mpfr_lib \<Rightarrow> fpu_obj \<Rightarrow> nat \<Rightarrow> ('d, unit) mach" where "fmovecr_32 M w = rom_power M w 0"
definition fmovecr_33 :: "mpfr_lib \<Rightarrow> fpu_obj \<Rightarrow> nat \<Rightarrow> ('d, unit) mach" where "fmovecr_33 M w = rom_power M w 1"
definition fmovecr_34 :: "mpfr_lib \<Rightarrow> fpu_obj \<Rightarrow> nat \<Rightarrow> ('d, unit) mach" where "fmovecr_34 M w = rom_power M w 2"
definition fmovecr_35 :: "mpfr_lib \<Rightarrow> fpu_obj \<Rightarrow> nat \<Rightarrow> ('d, unit) mach" where "fmovecr_35 M w = rom_power M w 4"
definition fmovecr_36 :: "mpfr_lib \<Rightarrow> fpu_obj \<Rightarrow> nat \<Rightarrow> ('d, unit) mach" where "fmovecr_36 M w = rom_power M w 8"
definition fmovecr_37 :: "mpfr_lib \<Rightarrow> fpu_obj \<Rightarrow> nat \<Rightarrow> ('d, unit) mach" where "fmovecr_37 M w = rom_power M w 16"
definition fmovecr_38 :: "mpfr_lib \<Rightarrow> fpu_obj \<Rightarrow> nat \<Rightarrow> ('d, unit) mach" where "fmovecr_38 M w = rom_power M w 32"
definition fmovecr_39 :: "mpfr_lib \<Rightarrow> fpu_obj \<Rightarrow> nat \<Rightarrow> ('d, unit) mach" where "fmovecr_39 M w = rom_power M w 64"
definition fmovecr_3A :: "mpfr_lib \<Rightarrow> fpu_obj \<Rightarrow> nat \<Rightarrow> ('d, unit) mach" where "fmovecr_3A M w = rom_power M w 128"
definition fmovecr_3B :: "mpfr_lib \<Rightarrow> fpu_obj \<Rightarrow> nat \<Rightarrow> ('d, unit) mach" where "fmovecr_3B M w = rom_power M w 256"
definition fmovecr_3C :: "mpfr_lib \<Rightarrow> fpu_obj \<Rightarrow> nat \<Rightarrow> ('d, unit) mach" where "fmovecr_3C M w = rom_power M w 512"
definition fmovecr_3D :: "mpfr_lib \<Rightarrow> fpu_obj \<Rightarrow> nat \<Rightarrow> ('d, unit) mach" where "fmovecr_3D M w = rom_power M w 1024"
definition fmovecr_3E :: "mpfr_lib \<Rightarrow> fpu_obj \<Rightarrow> nat \<Rightarrow> ('d, unit) mach" where "fmovecr_3E M w = rom_power M w 2048"
definition fmovecr_3F :: "mpfr_lib \<Rightarrow> fpu_obj \<Rightarrow> nat \<Rightarrow> ('d, unit) mach" where "fmovecr_3F M w = rom_power M w 4096"

definition fmovecr :: "mpfr_lib \<Rightarrow> fpu_obj \<Rightarrow> nat \<Rightarrow> nat \<Rightarrow> ('d, unit) mach" where
  "fmovecr M w opc fpn = (case map_of
     [(0, fmovecr_0), (0xB, fmovecr_B), (0xC, fmovecr_C), (0xD, fmovecr_D), (0xE, fmovecr_E), (0x30, fmovecr_30),
      (0x31, fmovecr_31), (0x32, fmovecr_32), (0x33, fmovecr_33), (0x34, fmovecr_34), (0x35, fmovecr_35),
      (0x36, fmovecr_36), (0x37, fmovecr_37), (0x38, fmovecr_38), (0x39, fmovecr_39), (0x3A, fmovecr_3A),
      (0x3B, fmovecr_3B), (0x3C, fmovecr_3C), (0x3D, fmovecr_3D), (0x3E, fmovecr_3E), (0x3F, fmovecr_3F)] opc of
     Some f \<Rightarrow> f M w fpn | None \<Rightarrow> fmovecr_F M w fpn)"

section \<open>Operands\<close>

definition fload_l :: "mpfr_lib \<Rightarrow> fpu_obj \<Rightarrow> u32 \<Rightarrow> ('d, unit) mach" where
  "fload_l M w v = mdo w (\<lambda>u. mpfr_set_si M (sint v) (rnd u))"

definition fload_w :: "mpfr_lib \<Rightarrow> fpu_obj \<Rightarrow> u16 \<Rightarrow> ('d, unit) mach" where
  "fload_w M w v = mdo w (\<lambda>u. mpfr_set_si M (sint v) (rnd u))"

definition fload_b :: "mpfr_lib \<Rightarrow> fpu_obj \<Rightarrow> u8 \<Rightarrow> ('d, unit) mach" where
  "fload_b M w v = mdo w (\<lambda>u. mpfr_set_si M (sint v) (rnd u))"

definition fload_s :: "mpfr_lib \<Rightarrow> fpu_obj \<Rightarrow> u32 \<Rightarrow> ('d, unit) mach" where
  "fload_s M w v = loadS M w v"

definition fload_x :: "mpfr_lib \<Rightarrow> fpu_obj \<Rightarrow> ('d, unit) mach" where
  "fload_x M w = bind (cget EA) (\<lambda>a. bind (ReadW a) (\<lambda>ex.
     bind (cget EA) (\<lambda>a. bind (loadLL (a + 4)) (\<lambda>mant. loadX M w mant ex))))"

definition fload_p :: "mpfr_lib \<Rightarrow> fpu_obj \<Rightarrow> ('d, unit) mach" where
  "fload_p M w = bind (cget EA) (loadP M w)"

definition fload_d :: "mpfr_lib \<Rightarrow> fpu_obj \<Rightarrow> ('d, unit) mach" where
  "fload_d M w = bind (cget EA) (\<lambda>a. bind (loadLL a) (loadD M w))"

definition fload_r :: "fpu_obj \<Rightarrow> nat \<Rightarrow> ('d, unit) mach" where
  "fload_r w src = fput w (swap_fp src)"

text \<open>The address of an operand of \<open>n\<close> bytes, which for an immediate one is in the instruction.\<close>

definition fp_operand :: "regno \<Rightarrow> regno \<Rightarrow> u32 \<Rightarrow> ('d, unit) mach" where
  "fp_operand ty reg n =
     (if ty = 7 \<and> reg = 4 then cmod (\<lambda>c. c\<lparr>EA := PC c, PC := PC c + n\<rparr>)
      else bind (ea_getaddr ty reg n) set_EA)"

definition loadFP :: "mpfr_lib \<Rightarrow> fpu_obj \<Rightarrow> regno \<Rightarrow> regno \<Rightarrow> bool \<Rightarrow> nat \<Rightarrow> ('d, unit) mach" where
  "loadFP M w ty reg rm src =
     (if rm then
        if src = 0 then bind (ea_readL ty reg False) (fload_l M w)
        else if src = 1 then bind (ea_readL ty reg False) (fload_s M w)
        else if src = 2 then seq (fp_operand ty reg 12) (fload_x M w)
        else if src = 3 then seq (fp_operand ty reg 12) (fload_p M w)
        else if src = 4 then bind (ea_readW ty reg False) (\<lambda>v. fload_w M w (ucast v))
        else if src = 5 then seq (fp_operand ty reg 8) (fload_d M w)
        else if src = 6 then bind (ea_readB ty reg False) (fload_b M w)
        else throw Undefined
      else fload_r w src)"

section \<open>Operations\<close>

text \<open>The shape of the operations on one operand, and on the operand and the destination.\<close>

definition unary :: "mpfr_lib \<Rightarrow> fpu_obj \<Rightarrow> mpfr_un \<Rightarrow> FPU_PREC \<Rightarrow> nat \<Rightarrow> ('d, unit) mach" where
  "unary M w f p dst =
     seq (bind (test_NAN1 M w) (\<lambda>ok. whenM ok (mtv w (\<lambda>u. mpfr1 M f (fp_tmp u) (rnd u)))))
         (store_fpr M w (int dst) p)"

definition binary :: "mpfr_lib \<Rightarrow> fpu_obj \<Rightarrow> mpfr_bin \<Rightarrow> FPU_PREC \<Rightarrow> nat \<Rightarrow> ('d, unit) mach" where
  "binary M w f p dst =
     seq (bind (test_NAN2 M w dst) (\<lambda>ok. whenM ok (mtv w (\<lambda>u. mpfr2 M f (fp_tmp u) (FP u dst) (rnd u)))))
         (store_fpr M w (int dst) p)"

text \<open>The operations that round both operands to 23 bits first.\<close>

definition single :: "mpfr_lib \<Rightarrow> fpu_obj \<Rightarrow> mpfr_bin \<Rightarrow> nat \<Rightarrow> ('d, unit) mach" where
  "single M w f dst =
     seq (bind (test_NAN2 M w dst) (\<lambda>ok. whenM ok
           (seq (mdo w (\<lambda>u. mpfr_prec_round M 23 (rnd u)))
           (seq (mfp w dst (\<lambda>u. mpfr_prec_round M 23 (rnd u)))
                (mtv w (\<lambda>u. mpfr2 M f (fp_tmp u) (FP u dst) (rnd u)))))))
         (store_fpr M w (int dst) PREC_S)"

definition remainder :: "mpfr_lib \<Rightarrow> fpu_obj \<Rightarrow> mpfr_quo \<Rightarrow> nat \<Rightarrow> ('d, unit) mach" where
  "remainder M w f dst =
     seq (bind (test_NAN2 M w dst) (\<lambda>ok. whenM ok
           (bind (mtmp w (\<lambda>u. mpfr_quotient M f (fp_tmp u) (FP u dst) (rnd u))) (\<lambda>(q, t).
            fput w (\<lambda>u. u\<lparr>fp_tmp_tv := t, FPSR := (FPSR u)\<lparr>Quat := word_of_int \<bar>q\<bar> AND 0x7f, QuatSign := q < 0\<rparr>\<rparr>)))))
         (store_fpr M w (int dst) PREC_X)"

definition fmove :: "mpfr_lib \<Rightarrow> fpu_obj \<Rightarrow> nat \<Rightarrow> ('d, unit) mach" where
  "fmove M w dst = store_fpr M w (int dst) PREC_X"

definition fint :: "mpfr_lib \<Rightarrow> fpu_obj \<Rightarrow> nat \<Rightarrow> ('d, unit) mach" where "fint M w = unary M w mpfr_rint PREC_X"
definition fsinh :: "mpfr_lib \<Rightarrow> fpu_obj \<Rightarrow> nat \<Rightarrow> ('d, unit) mach" where "fsinh M w = unary M w mpfr_sinh PREC_X"
definition fintrz :: "mpfr_lib \<Rightarrow> fpu_obj \<Rightarrow> nat \<Rightarrow> ('d, unit) mach" where "fintrz M w = unary M w mpfr_trunc PREC_X"
definition fsqrt :: "mpfr_lib \<Rightarrow> fpu_obj \<Rightarrow> nat \<Rightarrow> ('d, unit) mach" where "fsqrt M w = unary M w mpfr_sqrt PREC_X"
definition flognp1 :: "mpfr_lib \<Rightarrow> fpu_obj \<Rightarrow> nat \<Rightarrow> ('d, unit) mach" where "flognp1 M w = unary M w mpfr_log1p PREC_X"
definition fetoxm1 :: "mpfr_lib \<Rightarrow> fpu_obj \<Rightarrow> nat \<Rightarrow> ('d, unit) mach" where "fetoxm1 M w = unary M w mpfr_expm1 PREC_X"
definition ftanh :: "mpfr_lib \<Rightarrow> fpu_obj \<Rightarrow> nat \<Rightarrow> ('d, unit) mach" where "ftanh M w = unary M w mpfr_tanh PREC_X"
definition fatan :: "mpfr_lib \<Rightarrow> fpu_obj \<Rightarrow> nat \<Rightarrow> ('d, unit) mach" where "fatan M w = unary M w mpfr_atan PREC_X"
definition fasin :: "mpfr_lib \<Rightarrow> fpu_obj \<Rightarrow> nat \<Rightarrow> ('d, unit) mach" where "fasin M w = unary M w mpfr_asin PREC_X"
definition fatanh :: "mpfr_lib \<Rightarrow> fpu_obj \<Rightarrow> nat \<Rightarrow> ('d, unit) mach" where "fatanh M w = unary M w mpfr_atanh PREC_X"
definition fsin :: "mpfr_lib \<Rightarrow> fpu_obj \<Rightarrow> nat \<Rightarrow> ('d, unit) mach" where "fsin M w = unary M w mpfr_sin PREC_X"
definition ftan :: "mpfr_lib \<Rightarrow> fpu_obj \<Rightarrow> nat \<Rightarrow> ('d, unit) mach" where "ftan M w = unary M w mpfr_tan PREC_X"
definition fetox :: "mpfr_lib \<Rightarrow> fpu_obj \<Rightarrow> nat \<Rightarrow> ('d, unit) mach" where "fetox M w = unary M w mpfr_exp PREC_X"
definition ftwotox :: "mpfr_lib \<Rightarrow> fpu_obj \<Rightarrow> nat \<Rightarrow> ('d, unit) mach" where "ftwotox M w = unary M w mpfr_exp2 PREC_X"
definition ftentox :: "mpfr_lib \<Rightarrow> fpu_obj \<Rightarrow> nat \<Rightarrow> ('d, unit) mach" where "ftentox M w = unary M w mpfr_exp10 PREC_X"
definition flogn :: "mpfr_lib \<Rightarrow> fpu_obj \<Rightarrow> nat \<Rightarrow> ('d, unit) mach" where "flogn M w = unary M w mpfr_log PREC_X"
definition flog2 :: "mpfr_lib \<Rightarrow> fpu_obj \<Rightarrow> nat \<Rightarrow> ('d, unit) mach" where "flog2 M w = unary M w mpfr_log2 PREC_X"
definition flog10 :: "mpfr_lib \<Rightarrow> fpu_obj \<Rightarrow> nat \<Rightarrow> ('d, unit) mach" where "flog10 M w = unary M w mpfr_log10 PREC_X"
definition fabs :: "mpfr_lib \<Rightarrow> fpu_obj \<Rightarrow> nat \<Rightarrow> ('d, unit) mach" where "fabs M w = unary M w mpfr_abs PREC_X"
definition fcosh :: "mpfr_lib \<Rightarrow> fpu_obj \<Rightarrow> nat \<Rightarrow> ('d, unit) mach" where "fcosh M w = unary M w mpfr_cosh PREC_X"
definition fneg :: "mpfr_lib \<Rightarrow> fpu_obj \<Rightarrow> nat \<Rightarrow> ('d, unit) mach" where "fneg M w = unary M w mpfr_neg PREC_X"
definition facos :: "mpfr_lib \<Rightarrow> fpu_obj \<Rightarrow> nat \<Rightarrow> ('d, unit) mach" where "facos M w = unary M w mpfr_acos PREC_X"
definition fcos :: "mpfr_lib \<Rightarrow> fpu_obj \<Rightarrow> nat \<Rightarrow> ('d, unit) mach" where "fcos M w = unary M w mpfr_cos PREC_X"
definition fssqrt :: "mpfr_lib \<Rightarrow> fpu_obj \<Rightarrow> nat \<Rightarrow> ('d, unit) mach" where "fssqrt M w = unary M w mpfr_sqrt PREC_S"
definition fdsqrt :: "mpfr_lib \<Rightarrow> fpu_obj \<Rightarrow> nat \<Rightarrow> ('d, unit) mach" where "fdsqrt M w = unary M w mpfr_sqrt PREC_D"
definition fsabs :: "mpfr_lib \<Rightarrow> fpu_obj \<Rightarrow> nat \<Rightarrow> ('d, unit) mach" where "fsabs M w = unary M w mpfr_abs PREC_S"
definition fsneg :: "mpfr_lib \<Rightarrow> fpu_obj \<Rightarrow> nat \<Rightarrow> ('d, unit) mach" where "fsneg M w = unary M w mpfr_neg PREC_S"
definition fdabs :: "mpfr_lib \<Rightarrow> fpu_obj \<Rightarrow> nat \<Rightarrow> ('d, unit) mach" where "fdabs M w = unary M w mpfr_abs PREC_D"
definition fdneg :: "mpfr_lib \<Rightarrow> fpu_obj \<Rightarrow> nat \<Rightarrow> ('d, unit) mach" where "fdneg M w = unary M w mpfr_neg PREC_D"

definition fdiv :: "mpfr_lib \<Rightarrow> fpu_obj \<Rightarrow> nat \<Rightarrow> ('d, unit) mach" where "fdiv M w = binary M w mpfr_div PREC_X"
definition fadd :: "mpfr_lib \<Rightarrow> fpu_obj \<Rightarrow> nat \<Rightarrow> ('d, unit) mach" where "fadd M w = binary M w mpfr_add PREC_X"
definition fmul :: "mpfr_lib \<Rightarrow> fpu_obj \<Rightarrow> nat \<Rightarrow> ('d, unit) mach" where "fmul M w = binary M w mpfr_mul PREC_X"
definition fsub :: "mpfr_lib \<Rightarrow> fpu_obj \<Rightarrow> nat \<Rightarrow> ('d, unit) mach" where "fsub M w = binary M w mpfr_sub PREC_X"
definition fsdiv :: "mpfr_lib \<Rightarrow> fpu_obj \<Rightarrow> nat \<Rightarrow> ('d, unit) mach" where "fsdiv M w = binary M w mpfr_div PREC_S"
definition fsadd :: "mpfr_lib \<Rightarrow> fpu_obj \<Rightarrow> nat \<Rightarrow> ('d, unit) mach" where "fsadd M w = binary M w mpfr_add PREC_S"
definition fsmul :: "mpfr_lib \<Rightarrow> fpu_obj \<Rightarrow> nat \<Rightarrow> ('d, unit) mach" where "fsmul M w = binary M w mpfr_mul PREC_S"
definition fddiv :: "mpfr_lib \<Rightarrow> fpu_obj \<Rightarrow> nat \<Rightarrow> ('d, unit) mach" where "fddiv M w = binary M w mpfr_div PREC_D"
definition fdadd :: "mpfr_lib \<Rightarrow> fpu_obj \<Rightarrow> nat \<Rightarrow> ('d, unit) mach" where "fdadd M w = binary M w mpfr_add PREC_D"
definition fdmul :: "mpfr_lib \<Rightarrow> fpu_obj \<Rightarrow> nat \<Rightarrow> ('d, unit) mach" where "fdmul M w = binary M w mpfr_mul PREC_D"
definition fssub :: "mpfr_lib \<Rightarrow> fpu_obj \<Rightarrow> nat \<Rightarrow> ('d, unit) mach" where "fssub M w = binary M w mpfr_sub PREC_S"
definition fdsub :: "mpfr_lib \<Rightarrow> fpu_obj \<Rightarrow> nat \<Rightarrow> ('d, unit) mach" where "fdsub M w = binary M w mpfr_sub PREC_D"

definition fsgldiv :: "mpfr_lib \<Rightarrow> fpu_obj \<Rightarrow> nat \<Rightarrow> ('d, unit) mach" where "fsgldiv M w = single M w mpfr_div"
definition fsglmul :: "mpfr_lib \<Rightarrow> fpu_obj \<Rightarrow> nat \<Rightarrow> ('d, unit) mach" where "fsglmul M w = single M w mpfr_mul"
definition fmod :: "mpfr_lib \<Rightarrow> fpu_obj \<Rightarrow> nat \<Rightarrow> ('d, unit) mach" where "fmod M w = remainder M w mpfr_fmodquo"
definition frem :: "mpfr_lib \<Rightarrow> fpu_obj \<Rightarrow> nat \<Rightarrow> ('d, unit) mach" where "frem M w = remainder M w mpfr_remquo"

definition fsmove :: "mpfr_lib \<Rightarrow> fpu_obj \<Rightarrow> nat \<Rightarrow> ('d, unit) mach" where "fsmove M w dst = store_fpr M w (int dst) PREC_S"
definition fdmove :: "mpfr_lib \<Rightarrow> fpu_obj \<Rightarrow> nat \<Rightarrow> ('d, unit) mach" where "fdmove M w dst = store_fpr M w (int dst) PREC_D"

text \<open>An operation on infinity that gives the default NaN.\<close>

definition default_nan :: "mpfr_lib \<Rightarrow> fpu_obj \<Rightarrow> bool \<Rightarrow> ('d, unit) mach" where
  "default_nan M w flag =
     seq (mdo w (\<lambda>_. mpfr_set_nan M))
    (seq (whenM flag (mset (mpfr_set_flag M nanflag)))
         (fput w (\<lambda>u. u\<lparr>fp_tmp_nan := QNAN_DEFAULT\<rparr>)))"

definition fgetexp :: "mpfr_lib \<Rightarrow> fpu_obj \<Rightarrow> nat \<Rightarrow> ('d, unit) mach" where
  "fgetexp M w dst =
     seq (bind (test_NAN1 M w) (\<lambda>ok. whenM ok (bind (fget w (\<lambda>u. u)) (\<lambda>u.
           if mpfr_inf_p M (fp_tmp u) then default_nan M w True
           else whenM (\<not> mpfr_zero_p M (fp_tmp u))
             (bind (mread (mpfr_get_d_2exp M (fp_tmp u) (rnd u))) (\<lambda>e. mdo w (\<lambda>u. mpfr_set_si M (e - 1) (rnd u))))))))
         (store_fpr M w (int dst) PREC_X)"

definition fgetman :: "mpfr_lib \<Rightarrow> fpu_obj \<Rightarrow> nat \<Rightarrow> ('d, unit) mach" where
  "fgetman M w dst =
     seq (bind (test_NAN1 M w) (\<lambda>ok. whenM ok (bind (fget w (\<lambda>u. u)) (\<lambda>u.
           if mpfr_inf_p M (fp_tmp u) then default_nan M w True
           else
             bind (mtmp w (\<lambda>u. mpfr_frexp M (fp_tmp u) (rnd u))) (\<lambda>(_, t).
             seq (fput w (\<lambda>u. u\<lparr>fp_tmp_tv := t\<rparr>))
                 (mdo w (\<lambda>u. mpfr_mul_si M (fp_tmp u) 2 (rnd u))))))))
         (store_fpr M w (int dst) PREC_X)"

definition fscale :: "mpfr_lib \<Rightarrow> fpu_obj \<Rightarrow> nat \<Rightarrow> ('d, unit) mach" where
  "fscale M w dst =
     seq (bind (test_NAN2 M w dst) (\<lambda>ok. whenM ok (bind (fget w (\<lambda>u. u)) (\<lambda>u.
           if mpfr_inf_p M (fp_tmp u) then default_nan M w False
           else
             bind (mread (mpfr_get_si M (fp_tmp u) (rnd u))) (\<lambda>n.
             mtv w (\<lambda>u. mpfr_mul_2si M (FP u dst) n (rnd u)))))))
         (store_fpr M w (int dst) PREC_X)"

definition fsincos :: "mpfr_lib \<Rightarrow> fpu_obj \<Rightarrow> nat \<Rightarrow> nat \<Rightarrow> ('d, unit) mach" where
  "fsincos M w dst fp_c =
     seq (bind (test_NAN1 M w) (\<lambda>ok. whenM ok
           (if fp_c = dst then mtv w (\<lambda>u. mpfr1 M mpfr_sin (fp_tmp u) (rnd u))
            else
              bind (fget w (\<lambda>u. u)) (\<lambda>u.
              bind (mread (\<lambda>g. case mpfr_sin_cos M (fp_tmp u) (rnd u) (fp_tmp u) (FP u fp_c) g of
                 (t, x, y, g') \<Rightarrow> ((t, x, y), g'))) (\<lambda>(t, x, y).
              fput w (\<lambda>u. u\<lparr>fp_tmp := x, FP := (FP u)(fp_c := y), fp_tmp_tv := t\<rparr>))))))
         (store_fpr M w (int dst) PREC_X)"

definition fcmp :: "mpfr_lib \<Rightarrow> fpu_obj \<Rightarrow> nat \<Rightarrow> ('d, unit) mach" where
  "fcmp M w dst =
     seq (bind (test_NAN2 M w dst) (\<lambda>ok.
           if ok then
             bind (fget w (\<lambda>u. u)) (\<lambda>u. let x = fp_tmp u; y = FP u dst in
             bind (mread (mpfr_equal_p M y x)) (\<lambda>z.
             seq (upd_sr w (\<lambda>r. r\<lparr>CC_Z := z\<rparr>))
            (if mpfr_zero_p M x \<and> mpfr_zero_p M y \<or> mpfr_inf_p M x \<and> mpfr_inf_p M y
             then upd_sr w (\<lambda>r. r\<lparr>CC_N := mpfr_signbit M y \<noteq> 0\<rparr>)
             else bind (mread (mpfr_less_p M y x)) (\<lambda>n. upd_sr w (\<lambda>r. r\<lparr>CC_N := n\<rparr>)))))
           else upd_sr w (\<lambda>r. r\<lparr>CC_NAN := True\<rparr>)))
         (testex M w)"

definition ftst :: "mpfr_lib \<Rightarrow> fpu_obj \<Rightarrow> nat \<Rightarrow> ('d, unit) mach" where
  "ftst M w dst =
     seq (fput w (\<lambda>u. u\<lparr>FPSR := (FPSR u)\<lparr>CC_NAN := mpfr_nan_p M (fp_tmp u), CC_I := mpfr_inf_p M (fp_tmp u),
            CC_N := mpfr_signbit M (fp_tmp u) \<noteq> 0, CC_Z := mpfr_zero_p M (fp_tmp u)\<rparr>\<rparr>))
         (testex M w)"

definition fop_table :: "(nat \<times> (mpfr_lib \<Rightarrow> fpu_obj \<Rightarrow> nat \<Rightarrow> ('d, unit) mach)) list" where
  "fop_table =
    [(0, fmove), (1, fint), (2, fsinh), (3, fintrz), (4, fsqrt), (6, flognp1), (8, fetoxm1), (9, ftanh),
     (10, fatan), (12, fasin), (13, fatanh), (14, fsin), (15, ftan), (16, fetox), (17, ftwotox), (18, ftentox),
     (20, flogn), (21, flog10), (22, flog2), (24, fabs), (25, fcosh), (26, fneg), (28, facos), (29, fcos),
     (30, fgetexp), (31, fgetman), (32, fdiv), (33, fmod), (34, fadd), (35, fmul), (36, fsgldiv), (37, frem),
     (38, fscale), (39, fsglmul), (40, fsub), (56, fcmp), (58, ftst), (64, fsmove), (65, fssqrt), (68, fdmove),
     (69, fdsqrt), (88, fsabs), (90, fsneg), (92, fdabs), (94, fdneg), (96, fsdiv), (98, fsadd), (99, fsmul),
     (100, fddiv), (102, fdadd), (103, fdmul), (104, fssub), (108, fdsub)]"

definition fop_do :: "mpfr_lib \<Rightarrow> nat \<Rightarrow> nat \<Rightarrow> ('d, unit) mach" where
  "fop_do M opc dst = (case map_of fop_table opc of
     Some f \<Rightarrow> f M FPU_P dst
   | None \<Rightarrow> if 48 \<le> opc \<and> opc \<le> 55 then fsincos M FPU_P dst (opc mod 8) else FLINE)"

section \<open>FMOVE to memory\<close>

definition fstore_common :: "mpfr_lib \<Rightarrow> fpu_obj \<Rightarrow> nat \<Rightarrow> ('d, unit) mach" where
  "fstore_common M w fpn =
     seq (mdo w (\<lambda>u. mpfr1 M mpfr_set (FP u fpn) (rnd u))) (fput w (\<lambda>u. u\<lparr>fp_tmp_nan := FP_nan u fpn\<rparr>))"

definition fstore_l :: "mpfr_lib \<Rightarrow> fpu_obj \<Rightarrow> regno \<Rightarrow> regno \<Rightarrow> ('d, unit) mach" where
  "fstore_l M w ty reg = seq (bind (storeL M w) (ea_writeL ty reg)) (testex M w)"

definition fstore_s :: "mpfr_lib \<Rightarrow> fpu_obj \<Rightarrow> regno \<Rightarrow> regno \<Rightarrow> ('d, unit) mach" where
  "fstore_s M w ty reg = seq (bind (storeS M w) (ea_writeL ty reg)) (testex M w)"

definition fstore_x :: "mpfr_lib \<Rightarrow> fpu_obj \<Rightarrow> regno \<Rightarrow> regno \<Rightarrow> ('d, unit) mach" where
  "fstore_x M w ty reg =
     seq (bind (ea_getaddr ty reg 12) set_EA)
    (bind (storeX M w) (\<lambda>(mant, ex).
     seq (bind (cget EA) (\<lambda>a. WriteW a ex)) (seq (bind (cget EA) (\<lambda>a. WriteLL (a + 4) mant)) (testex M w))))"

definition fstore_p :: "mpfr_lib \<Rightarrow> fpu_obj \<Rightarrow> regno \<Rightarrow> regno \<Rightarrow> int \<Rightarrow> ('d, unit) mach" where
  "fstore_p M w ty reg k =
     seq (bind (ea_getaddr ty reg 12) set_EA) (seq (bind (cget EA) (\<lambda>a. store_fpP M w a k)) (testex M w))"

definition fstore_w :: "mpfr_lib \<Rightarrow> fpu_obj \<Rightarrow> regno \<Rightarrow> regno \<Rightarrow> ('d, unit) mach" where
  "fstore_w M w ty reg = seq (bind (storeW M w) (ea_writeW ty reg)) (testex M w)"

definition fstore_d :: "mpfr_lib \<Rightarrow> fpu_obj \<Rightarrow> regno \<Rightarrow> regno \<Rightarrow> ('d, unit) mach" where
  "fstore_d M w ty reg =
     seq (bind (ea_getaddr ty reg 8) set_EA)
    (seq (bind (storeD M w) (\<lambda>v. bind (cget EA) (\<lambda>a. WriteLL a v))) (testex M w))"

definition fstore_b :: "mpfr_lib \<Rightarrow> fpu_obj \<Rightarrow> regno \<Rightarrow> regno \<Rightarrow> ('d, unit) mach" where
  "fstore_b M w ty reg = seq (bind (storeB M w) (ea_writeB ty reg)) (testex M w)"

definition fstore_p2 :: "mpfr_lib \<Rightarrow> fpu_obj \<Rightarrow> regno \<Rightarrow> regno \<Rightarrow> regno \<Rightarrow> ('d, unit) mach" where
  "fstore_p2 M w ty reg k =
     seq (bind (ea_getaddr ty reg 12) set_EA)
    (seq (bind (getD k) (\<lambda>d. bind (cget EA) (\<lambda>a. store_fpP M w a (sint (ucast d :: u8))))) (testex M w))"

definition fpu_store :: "mpfr_lib \<Rightarrow> nat \<Rightarrow> regno \<Rightarrow> regno \<Rightarrow> nat \<Rightarrow> nat \<Rightarrow> ('d, unit) mach" where
  "fpu_store M t ty reg fpn k =
     seq (fstore_common M FPU_P fpn)
    (if t = 0 then fstore_l M FPU_P ty reg
     else if t = 1 then fstore_s M FPU_P ty reg
     else if t = 2 then fstore_x M FPU_P ty reg
     else if t = 3 then fstore_p M FPU_P ty reg (sint (of_nat (2 * k) :: u8) div 2)
     else if t = 4 then fstore_w M FPU_P ty reg
     else if t = 5 then fstore_d M FPU_P ty reg
     else if t = 6 then fstore_b M FPU_P ty reg
     else if t = 7 then fstore_p2 M FPU_P ty reg (of_nat (k div 16))
     else throw Undefined)"

section \<open>FMOVE of the control registers\<close>

definition get_fpiar :: "fpu_obj \<Rightarrow> ('d, u32) mach" where
  "get_fpiar w = fget w FPIAR"

definition get_fpsr :: "fpu_obj \<Rightarrow> ('d, u32) mach" where
  "get_fpsr w = fget w (\<lambda>u. FPSR_t_value (FPSR u))"

definition get_fpcr :: "fpu_obj \<Rightarrow> ('d, u32) mach" where
  "get_fpcr w = bind (fget w (\<lambda>u. FPCR_t_value (FPCR u))) (\<lambda>v. case v of Some x \<Rightarrow> return (ucast x) | None \<Rightarrow> throw Undefined)"

definition set_fpiar :: "fpu_obj \<Rightarrow> u32 \<Rightarrow> ('d, unit) mach" where
  "set_fpiar w v = fput w (\<lambda>u. u\<lparr>FPIAR := v\<rparr>)"

definition set_fpsr :: "fpu_obj \<Rightarrow> u32 \<Rightarrow> ('d, unit) mach" where
  "set_fpsr w v = fput w (\<lambda>u. u\<lparr>FPSR := FPSR_t_set v\<rparr>)"

definition set_fpcr :: "fpu_obj \<Rightarrow> u32 \<Rightarrow> ('d, unit) mach" where
  "set_fpcr w v = fput w (\<lambda>u. u\<lparr>FPCR := FPCR_t_set (ucast v)\<rparr>)"

definition popcount3 :: "u8 \<Rightarrow> u32" where
  "popcount3 r = of_bool (bit r 0) + of_bool (bit r 1) + of_bool (bit r 2)"

definition fmove_to_fpcc :: "fpu_obj \<Rightarrow> regno \<Rightarrow> regno \<Rightarrow> u8 \<Rightarrow> ('d, unit) mach" where
  "fmove_to_fpcc w ty reg regs =
     seq (if regs = 0 then return ()
          else if regs = 1 then bind (ea_readL ty reg False) (set_fpiar w)
          else if regs = 2 then bind (ea_readL ty reg False) (set_fpsr w)
          else if regs = 4 then bind (ea_readL ty reg False) (set_fpcr w)
          else
            bind (ea_getaddr ty reg (4 * popcount3 regs)) (\<lambda>v0.
            seq (set_EA v0)
           (bind (if bit regs 2 then seq (bind (ReadL v0) (set_fpcr w)) (return (v0 + 4)) else return v0) (\<lambda>v1.
            bind (if bit regs 1 then seq (bind (ReadL v1) (set_fpsr w)) (return (v1 + 4)) else return v1) (\<lambda>v2.
            whenM (bit regs 0) (bind (ReadL v2) (set_fpiar w)))))))
         TRACE_BRANCH"

definition fmove_from_fpcc :: "fpu_obj \<Rightarrow> regno \<Rightarrow> regno \<Rightarrow> u8 \<Rightarrow> ('d, unit) mach" where
  "fmove_from_fpcc w ty reg regs =
     seq (if regs = 0 then return ()
          else if regs = 1 then bind (get_fpiar w) (ea_writeL ty reg)
          else if regs = 2 then bind (get_fpsr w) (ea_writeL ty reg)
          else if regs = 4 then bind (get_fpcr w) (ea_writeL ty reg)
          else
            bind (ea_getaddr ty reg (4 * popcount3 regs)) (\<lambda>v0.
            seq (set_EA v0)
           (bind (if bit regs 2 then seq (bind (get_fpcr w) (WriteL v0)) (return (v0 + 4)) else return v0) (\<lambda>v1.
            bind (if bit regs 1 then seq (bind (get_fpsr w) (WriteL v1)) (return (v1 + 4)) else return v1) (\<lambda>v2.
            whenM (bit regs 0) (bind (get_fpiar w) (WriteL v2)))))))
         TRACE_BRANCH"

section \<open>FSAVE and FRESTORE\<close>

definition do_frestore_common :: "mpfr_lib \<Rightarrow> fpu_obj \<Rightarrow> ('d, u32) mach" where
  "do_frestore_common M w =
     bind (cget EA) (\<lambda>a. bind (ReadL a) (\<lambda>first.
     if drop_bit 24 first = 0 then seq (fpu_reset M w) (return 0)
     else
       seq (whenM (drop_bit 24 first \<noteq> 0x41) FORMAT_ERROR)
      (seq (cmod (\<lambda>c. if T_mode c = 1 then c\<lparr>must_trace := True\<rparr> else c)) (return first))))"

definition fsave_impl :: "regno \<Rightarrow> regno \<Rightarrow> ('d, unit) mach" where
  "fsave_impl ty reg = seq PRIV_CHECK (seq (ea_writeL ty reg 0x41000000) TRACE_BRANCH)"

definition frestore3 :: "mpfr_lib \<Rightarrow> fpu_obj \<Rightarrow> regno \<Rightarrow> ('d, unit) mach" where
  "frestore3 M w reg =
     seq PRIV_CHECK
    (seq (bind (getA reg) set_EA)
    (bind (do_frestore_common M w) (\<lambda>first.
     let up = (\<lambda>n. bind (getA reg) (\<lambda>a. setA reg (a + n))); k = drop_bit 16 first AND 0xff in
     if first = 0 then up 4
     else if k = 0x60 then up 96
     else if k = 0x30 then up 48
     else if k = 0 then up 4
     else FORMAT_ERROR)))"

definition frestore_impl :: "mpfr_lib \<Rightarrow> fpu_obj \<Rightarrow> regno \<Rightarrow> regno \<Rightarrow> ('d, unit) mach" where
  "frestore_impl M w ty reg =
     seq PRIV_CHECK
    (seq (bind (ea_getaddr ty reg 0) set_EA)
    (bind (do_frestore_common M w) (\<lambda>first.
     let k = drop_bit 16 first AND 0xff in
     if first = 0 then return () else whenM (\<not> (k = 0x60 \<or> k = 0x30 \<or> k = 0)) FORMAT_ERROR)))"

section \<open>The handlers\<close>

text \<open>
  \<open>auto fpu = static_cast<M68040FpuFull &>(*cpu.fpu)\<close> deduces an object, not a reference:
  \<open>fop\<close> works on a copy, from which nothing goes back.
\<close>

definition copy_fpu :: "('d, unit) mach" where
  "copy_fpu = modify (\<lambda>s. s\<lparr>fpus := (fpus s)(fpu_copy := fpus s FPU_P)\<rparr>)"

definition reglist :: "u16 \<Rightarrow> ('d, u8) mach" where
  "reglist extw = (if bit extw 11 then bind (getD (ucast (drop_bit 4 extw AND 7))) (\<lambda>d. return (ucast d)) else return (ucast extw))"

definition fop_moves :: "mpfr_lib \<Rightarrow> u16 \<Rightarrow> u16 \<Rightarrow> ('d, unit) mach" where
  "fop_moves M op extw =
     (let k = drop_bit 13 extw AND 3; src = ucast (drop_bit 10 extw AND 7) in
      if k = 0 then fmove_to_fpcc fpu_copy (TYP op) (REG op) src
      else if k = 1 then fmove_from_fpcc fpu_copy (TYP op) (REG op) src
      else if k = 2 then
        bind (reglist extw) (\<lambda>regs.
        seq (if TYP op = 3 then
               bind (getA (REG op)) (\<lambda>a. bind (fmovem_to_reg M fpu_copy a regs) (setA (REG op)))
             else
               bind (ea_getaddr (TYP op) (REG op) 0) (\<lambda>a. bind (fmovem_to_reg M fpu_copy a regs) (\<lambda>_. return ())))
            TRACE_BRANCH)
      else
        bind (reglist extw) (\<lambda>regs.
        seq (if \<not> bit extw 12 \<and> TYP op = 4 then
               bind (getA (REG op)) (\<lambda>a. bind (fmovem_from_reg_rev M fpu_copy a regs) (setA (REG op)))
             else
               bind (ea_getaddr (TYP op) (REG op) 0) (\<lambda>a. bind (fmovem_from_reg M fpu_copy a regs) (\<lambda>_. return ())))
            TRACE_BRANCH))"

definition fop :: "mpfr_lib \<Rightarrow> u16 \<Rightarrow> ('d, unit) mach" where
  "fop M op =
     seq copy_fpu
    (seq (prologue M fpu_copy)
    (bind FETCH (\<lambda>extw.
     let rm = bit extw 14; src = unat (drop_bit 10 extw AND 7); dst = unat (drop_bit 7 extw AND 7); opc = unat (extw AND 0x7f) in
     if \<not> bit extw 15 then
       if \<not> bit extw 13 then
         if rm \<and> src = 7 then fmovecr M fpu_copy opc dst
         else seq (loadFP M fpu_copy (TYP op) (REG op) rm src) (fop_do M opc dst)
       else fpu_store M src (TYP op) (REG op) dst opc
     else fop_moves M op extw)))"

definition bsun_if :: "bool \<Rightarrow> ('d, unit) mach" where
  "bsun_if p = whenM p (test_bsun FPU_P)"

definition fcc :: "u8 \<Rightarrow> ('d, bool) mach" where
  "fcc v = fget FPU_P (\<lambda>u. test_Fcc (FPSR u) v)"

definition fscc :: "u16 \<Rightarrow> ('d, unit) mach" where
  "fscc op =
     bind FETCH (\<lambda>extw.
     seq (bsun_if (bit extw 4))
    (bind (fcc (ucast extw AND 0xf)) (\<lambda>c. ea_writeB (TYP op) (REG op) (if c then 0xff else 0))))"

definition fdbcc :: "u16 \<Rightarrow> ('d, unit) mach" where
  "fdbcc op =
     bind FETCH (\<lambda>extw. bind FETCH (\<lambda>offset.
     seq (bsun_if (bit extw 4))
    (bind (fcc (ucast extw AND 0xf)) (\<lambda>c.
     seq (whenM (\<not> c)
           (bind (getD (REG op)) (\<lambda>d.
            let v2 = ucast d - 1 :: u16 in
            seq (storeD_W (REG op) v2)
                (whenM (v2 \<noteq> - 1) (bind (cget oldpc) (\<lambda>p. JUMP (p + 4 + scast offset)))))))
         TRACE_BRANCH))))"

definition ftrapcc :: "u16 \<Rightarrow> ('d, unit) mach" where
  "ftrapcc op =
     bind FETCH (\<lambda>extw.
     seq (if REG op = 2 then bind FETCH (\<lambda>_. return ())
          else if REG op = 3 then bind FETCH32 (\<lambda>_. return ()) else return ())
    (seq (bsun_if (bit extw 4))
    (bind (fcc (ucast extw AND 0xf)) (\<lambda>c. whenM c TRAPX_ERROR))))"

definition fbranch :: "u16 \<Rightarrow> u32 \<Rightarrow> ('d, unit) mach" where
  "fbranch op offset =
     seq (bsun_if (bit op 4))
    (bind (fcc (ucast op AND 0xf)) (\<lambda>c.
     whenM c (seq (bind (cget oldpc) (\<lambda>p. JUMP (p + 2 + offset))) TRACE_BRANCH)))"

definition fbcc_w :: "u16 \<Rightarrow> ('d, unit) mach" where
  "fbcc_w op = bind FETCH (\<lambda>offset. fbranch op (scast offset))"

definition fbcc_l :: "u16 \<Rightarrow> ('d, unit) mach" where
  "fbcc_l op = bind FETCH32 (\<lambda>offset. fbranch op offset)"

definition fsave :: "u16 \<Rightarrow> ('d, unit) mach" where
  "fsave op = fsave_impl (TYP op) (REG op)"

definition frestore :: "mpfr_lib \<Rightarrow> u16 \<Rightarrow> ('d, unit) mach" where
  "frestore M op =
     (if TYP op = 3 then frestore3 M FPU_P (REG op) else frestore_impl M FPU_P (TYP op) (REG op))"

text \<open>What \<open>init_table\<close> enters into the table.\<close>

definition full_fpu :: "mpfr_lib \<Rightarrow> 'd fpu_ops" where
  "full_fpu M = \<lparr>f_fop = fop M, f_fscc = fscc, f_fsave = fsave, f_frestore = frestore M, f_fdbcc = fdbcc,
     f_ftrapcc = ftrapcc, f_fbcc_w = fbcc_w, f_fbcc_l = fbcc_l\<rparr>"

end
