(* ===== verification/FpuOk.thy ===== *)
theory FpuOk
  imports Fpu System
begin

text \<open>
  The floating-point unit keeps the invariants of the machine, whatever the library computes:
  with it, user programs stay isolated and every instruction leaves a well-formed state.
\<close>

unbundle bit_operations_syntax

section \<open>What every instruction of the unit keeps\<close>

text \<open>
  An invariant that does not depend on the object \<open>w\<close> nor on the library's state is kept by every
  member function of \<open>w\<close>; one that depends on no object at all is kept by the handlers.
\<close>

locale fpu_member = guest_cpu I E
  for I :: "'d machine \<Rightarrow> bool" and E :: "exn \<Rightarrow> bool" +
  fixes w :: fpu_obj
  assumes member_free: "I s \<Longrightarrow> I (s\<lparr>fpus := (fpus s)(w := u)\<rparr>)" "I s \<Longrightarrow> I (s\<lparr>mpfr_state := g\<rparr>)"
begin

lemma fput_keeps [keeps_intro]: "keeps I E (fput w f)"
  unfolding fput_def by (intro keeps_modify member_free)

lemma mread_keeps [keeps_intro]: "keeps I E (mread r)"
  unfolding mread_def by (rule keepsI) (auto split: prod.splits intro: member_free)

lemma access_unit_keeps [keeps_intro]:
  "keeps I E (fget w f)" "keeps I E (mset h)" "keeps I E (mtmp w q)" "keeps I E (mtv w r)" "keeps I E (mdo w q)"
  "keeps I E (mfp w n q)" "keeps I E (upd_sr w k)"
  unfolding fget_def mset_def mtmp_def mtv_def mdo_def mfp_def upd_sr_def by (intro keeps_intro keeps_prod)+

lemma fp_raise_keeps [keeps_intro]:
  "keeps I E FP_EX_BSUN" "keeps I E FP_EX_INEX" "keeps I E FP_EX_DIV0" "keeps I E FP_EX_UNFL" "keeps I E FP_EX_OPERR"
  "keeps I E FP_EX_OVFL" "keeps I E FP_EX_SNAN"
  unfolding FP_EX_BSUN_def FP_EX_INEX_def FP_EX_DIV0_def FP_EX_UNFL_def FP_EX_OPERR_def FP_EX_OVFL_def FP_EX_SNAN_def
  by (intro raises; simp add: op_vectors_def)+

lemma result_keeps [keeps_intro]:
  "keeps I E (testex M w)" "keeps I E (normalize_fp M w p)" "keeps I E (store_fpr M w n p)" "keeps I E (test_NAN1 M w)"
  "keeps I E (test_NAN2 M w i)" "keeps I E (prologue M w)" "keeps I E (test_bsun w)"
  unfolding testex_def normalize_fp_def store_fpr_def test_NAN1_def test_NAN2_def prologue_def test_bsun_def
  by (intro keeps_intro; simp)+

lemma load_keeps [keeps_intro]:
  "keeps I E (loadLL a)" "keeps I E (WriteLL a v)" "keeps I E (load_nan M w v)" "keeps I E (loadS M w l)" "keeps I E (loadD M w v)"
  "keeps I E (loadX M w v e)" "keeps I E (loadP M w a)"
  unfolding loadLL_def WriteLL_def load_nan_def loadS_def loadD_def loadX_def loadP_def
  by (intro keeps_intro; simp)+

lemma store_keeps [keeps_intro]:
  "keeps I E (store_regular M w e)" "keeps I E (storeX M w)" "keeps I E (store_int M w f n)" "keeps I E (storeL M w)"
  "keeps I E (storeW M w)" "keeps I E (storeB M w)" "keeps I E (storeS M w)" "keeps I E (storeD M w)"
  "keeps I E (store_packed t a)" "keeps I E (store_fpP M w a k)"
  unfolding store_regular_def storeX_def store_int_def storeL_def storeW_def storeB_def storeS_def storeD_def store_packed_def
    store_fpP_def
  by (intro keeps_intro; simp)+

lemma reset_keeps [keeps_intro]: "keeps I E (fpu_reset M w)"
  unfolding fpu_reset_def by (intro keeps_intro)

lemma fmovem_keeps [keeps_intro]:
  "keeps I E (save_fp M w i a)" "keeps I E (fmovem_from_reg_rev M w a r)" "keeps I E (fmovem_from_reg M w a r)"
  "keeps I E (fmovem_to_reg M w a r)"
  unfolding save_fp_def fmovem_from_reg_rev_def fmovem_from_reg_def fmovem_to_reg_def by (intro keeps_intro)+

lemmas rom_defs = fmovecr_0_def fmovecr_B_def fmovecr_C_def fmovecr_D_def fmovecr_E_def fmovecr_F_def fmovecr_30_def
  fmovecr_31_def fmovecr_32_def fmovecr_33_def fmovecr_34_def fmovecr_35_def fmovecr_36_def fmovecr_37_def fmovecr_38_def
  fmovecr_39_def fmovecr_3A_def fmovecr_3B_def fmovecr_3C_def fmovecr_3D_def fmovecr_3E_def fmovecr_3F_def

lemma rom_keeps [keeps_intro]:
  "keeps I E (rom_constant M w c n)" "keeps I E (rom_functions M w k fs n)" "keeps I E (rom_power M w k n)"
  unfolding rom_constant_def rom_functions_def rom_power_def by (intro keeps_intro)+

lemma fmovecr_keeps [keeps_intro]: "keeps I E (fmovecr M w opc n)"
proof -
  have "\<forall>(k, f) \<in> set [(0, fmovecr_0), (0xB, fmovecr_B), (0xC, fmovecr_C), (0xD, fmovecr_D), (0xE, fmovecr_E), (0x30, fmovecr_30),
      (0x31, fmovecr_31), (0x32, fmovecr_32), (0x33, fmovecr_33), (0x34, fmovecr_34), (0x35, fmovecr_35),
      (0x36, fmovecr_36), (0x37, fmovecr_37), (0x38, fmovecr_38), (0x39, fmovecr_39), (0x3A, fmovecr_3A),
      (0x3B, fmovecr_3B), (0x3C, fmovecr_3C), (0x3D, fmovecr_3D), (0x3E, fmovecr_3E), (0x3F, fmovecr_3F)].
      (k :: nat) = k \<longrightarrow> keeps I E (f M w n)"
    by (simp add: rom_defs rom_keeps)
  then show ?thesis
    unfolding fmovecr_def fmovecr_F_def by (auto intro!: keeps_intro dest!: map_of_SomeD split: option.split)
qed

lemma operand_keeps [keeps_intro]:
  "keeps I E (fload_l M w l)" "keeps I E (fload_w M w h)" "keeps I E (fload_b M w b)" "keeps I E (fload_s M w l)"
  "keeps I E (fload_x M w)" "keeps I E (fload_p M w)" "keeps I E (fload_d M w)" "keeps I E (fload_r w n)"
  "keeps I E (fp_operand ty reg l)"
  unfolding fload_l_def fload_w_def fload_b_def fload_s_def fload_x_def fload_p_def fload_d_def fload_r_def fp_operand_def
  by (intro keeps_intro; simp add: same_privileged_def)+

lemma loadFP_keeps [keeps_intro]: "keeps I E (loadFP M w ty reg rm n)"
  unfolding loadFP_def by (intro keeps_intro; simp)

lemma shape_keeps [keeps_intro]:
  "keeps I E (unary M w f p n)" "keeps I E (binary M w g p n)" "keeps I E (single M w g n)" "keeps I E (remainder M w q n)"
  "keeps I E (default_nan M w b)"
  unfolding unary_def binary_def single_def remainder_def default_nan_def by (intro keeps_intro)+

lemma other_keeps [keeps_intro]:
  "keeps I E (fgetexp M w n)" "keeps I E (fgetman M w n)" "keeps I E (fscale M w n)" "keeps I E (fsincos M w n k)"
  "keeps I E (fcmp M w n)" "keeps I E (ftst M w n)"
  unfolding fgetexp_def fgetman_def fscale_def fsincos_def fcmp_def ftst_def by (intro keeps_intro)+

lemma fop_table_keeps: "list_all (\<lambda>(k, f). \<forall>M n. keeps I E (f M w n)) fop_table"
  unfolding fop_table_def
  by (simp add: keeps_intro
    fmove_def fint_def fsinh_def fintrz_def fsqrt_def flognp1_def fetoxm1_def ftanh_def fatan_def fasin_def
    fatanh_def fsin_def ftan_def fetox_def ftwotox_def ftentox_def flogn_def flog10_def flog2_def fabs_def
    fcosh_def fneg_def facos_def fcos_def fgetexp_def fgetman_def fdiv_def fmod_def fadd_def fmul_def fsgldiv_def
    frem_def fscale_def fsglmul_def fsub_def fcmp_def ftst_def fsmove_def fssqrt_def fdmove_def fdsqrt_def
    fsabs_def fsneg_def fdabs_def fdneg_def fsdiv_def fsadd_def fsmul_def fddiv_def fdadd_def fdmul_def fssub_def
    fdsub_def)

lemma fstore_keeps [keeps_intro]:
  "keeps I E (fstore_common M w n)" "keeps I E (fstore_l M w ty reg)" "keeps I E (fstore_s M w ty reg)"
  "keeps I E (fstore_x M w ty reg)" "keeps I E (fstore_p M w ty reg k)" "keeps I E (fstore_w M w ty reg)"
  "keeps I E (fstore_d M w ty reg)" "keeps I E (fstore_b M w ty reg)" "keeps I E (fstore_p2 M w ty reg r)"
  unfolding fstore_common_def fstore_l_def fstore_s_def fstore_x_def fstore_p_def fstore_w_def fstore_d_def
    fstore_b_def fstore_p2_def
  by (intro keeps_intro; simp)+

lemma control_keeps [keeps_intro]:
  "keeps I E (get_fpiar w)" "keeps I E (get_fpsr w)" "keeps I E (get_fpcr w)" "keeps I E (set_fpiar w l)"
  "keeps I E (set_fpsr w l)" "keeps I E (set_fpcr w l)"
  unfolding get_fpiar_def get_fpsr_def get_fpcr_def set_fpiar_def set_fpsr_def set_fpcr_def
  by (intro keeps_intro; simp)+

lemma fpcc_keeps [keeps_intro]:
  "keeps I E (fmove_to_fpcc w ty reg r)" "keeps I E (fmove_from_fpcc w ty reg r)"
  unfolding fmove_to_fpcc_def fmove_from_fpcc_def by (intro keeps_intro)+

lemma frestore_keeps [keeps_intro]:
  "keeps I E (do_frestore_common M w)" "keeps I E (frestore3 M w reg)" "keeps I E (frestore_impl M w ty reg)"
  unfolding do_frestore_common_def frestore3_def frestore_impl_def Let_def
  by (intro keeps_intro; simp add: same_privileged_def)+

end

locale guest_fpu = guest_cpu I E
  for I :: "'d machine \<Rightarrow> bool" and E :: "exn \<Rightarrow> bool" +
  assumes unit_free: "I s \<Longrightarrow> I (s\<lparr>fpus := F\<rparr>)" "I s \<Longrightarrow> I (s\<lparr>mpfr_state := g\<rparr>)"

sublocale guest_fpu \<subseteq> member: fpu_member I E w for w
  by unfold_locales (rule unit_free; assumption)+

context guest_fpu
begin

lemma copy_keeps [keeps_intro]: "keeps I E copy_fpu"
  unfolding copy_fpu_def by (intro keeps_modify unit_free)

lemma fop_do_keeps [keeps_intro]: "keeps I E (fop_do M opc n)"
proof -
  have "keeps I E (f M FPU_P n)" if "map_of fop_table opc = Some f" for f :: "mpfr_lib \<Rightarrow> fpu_obj \<Rightarrow> nat \<Rightarrow> ('d, unit) mach"
    using map_of_SomeD [OF that] member.fop_table_keeps [of FPU_P] by (auto simp: list_all_iff)
  then show ?thesis unfolding fop_do_def by (auto intro!: keeps_intro split: option.split)
qed

lemma fpu_store_keeps [keeps_intro]: "keeps I E (fpu_store M t ty reg n k)"
  unfolding fpu_store_def by (intro keeps_intro; simp)

lemma handler_keeps:
  "keeps I E (fop M op)" "keeps I E (fscc op)" "keeps I E (fdbcc op)" "keeps I E (ftrapcc op)" "keeps I E (fbcc_w op)"
  "keeps I E (fbcc_l op)" "keeps I E (fsave op)" "keeps I E (frestore M op)"
  unfolding fop_def fop_moves_def reglist_def fscc_def fdbcc_def ftrapcc_def fbcc_w_def fbcc_l_def fbranch_def bsun_if_def
    fcc_def fsave_def fsave_impl_def frestore_def
  by (intro keeps_intro)+

lemma full_fpu_keeps: "h \<in> set (fpu_handlers (Some (full_fpu M))) \<Longrightarrow> keeps I E (h op)"
  using handler_keeps by (auto simp: fpu_handlers_def full_fpu_def)

end

interpretation user_fpu: guest_fpu "user_state c0 :: 'd machine \<Rightarrow> bool" "\<lambda>_. True" for c0
  by unfold_locales (simp_all add: user_state_def)

interpretation wf_fpu: guest_fpu "wf Q :: 'd machine \<Rightarrow> bool" ends_ok for Q
  by unfold_locales (simp_all add: wf_def)

lemma wf_guest_fpu: "wf_ends E \<Longrightarrow> guest_fpu (wf Q) E"
  by (rule guest_fpu.intro [OF wf_ends.cpu_contract]) (simp_all add: guest_fpu_axioms_def wf_def)


section \<open>An example library\<close>

text \<open>
  A library to evaluate the model with: a number is its exponent, one means a NaN, and a result
  is a NaN when an operand is.
\<close>

definition assign :: "int \<Rightarrow> 'a \<Rightarrow> 'a writer" where
  "assign e a = (\<lambda>x g. (a, x\<lparr>mp_exp := e\<rparr>, g))"

definition example_lib :: mpfr_lib where
  "example_lib = \<lparr>
     mpfr1 = (\<lambda>_ x _. assign (mp_exp x) 0),
     mpfr2 = (\<lambda>_ x y _. assign (if mp_exp x = 1 then 1 else mp_exp y) 0),
     mpfr_quotient = (\<lambda>_ x y _. assign (if mp_exp x = 1 then 1 else mp_exp y) (0, 0)),
     mpfr_constant = (\<lambda>_ _. assign 2 0), mpfr_set_ui = (\<lambda>_ _. assign 2 0), mpfr_set_si = (\<lambda>_ _. assign 2 0),
     mpfr_ui_pow_ui = (\<lambda>_ _ _. assign 2 0), mpfr_set_flt = (\<lambda>_ _. assign 2 0), mpfr_set_d = (\<lambda>_ _. assign 2 0),
     mpfr_set_uj_2exp = (\<lambda>_ _ _. assign 2 0), mpfr_setsign = (\<lambda>x _ _. assign (mp_exp x) 0),
     mpfr_strtofr = (\<lambda>_ _ _. assign 2 0), mpfr_set_zero = (\<lambda>_. assign 0 ()), mpfr_set_inf = (\<lambda>_. assign 3 ()),
     mpfr_set_nan = assign 1 (), mpfr_init2 = (\<lambda>_. assign 1 ()), mpfr_frexp = (\<lambda>x _. assign (mp_exp x) (0, 0)),
     mpfr_mul_2si = (\<lambda>x _ _. assign (mp_exp x) 0), mpfr_mul_si = (\<lambda>x _ _. assign (mp_exp x) 0),
     mpfr_prec_round = (\<lambda>_ _ x g. (0, x, g)), mpfr_check_range = (\<lambda>_ _ x g. (0, x, g)),
     mpfr_subnormalize = (\<lambda>_ _ x g. (0, x, g)), mpfr_sin_cos = (\<lambda>x _ s c g. (0, s\<lparr>mp_exp := mp_exp x\<rparr>, c\<lparr>mp_exp := mp_exp x\<rparr>, g)),
     mpfr_nan_p = (\<lambda>x. mp_exp x = 1), mpfr_inf_p = (\<lambda>x. mp_exp x = 3), mpfr_zero_p = (\<lambda>x. mp_exp x = 0),
     mpfr_signbit = (\<lambda>_. 0), mpfr_get_exp = mp_exp, mpfr_sgn = (\<lambda>_ g. (0, g)), mpfr_equal_p = (\<lambda>x y g. (mp_exp x = mp_exp y, g)),
     mpfr_less_p = (\<lambda>x y g. (mp_exp x < mp_exp y, g)), mpfr_get_sj = (\<lambda>_ _ g. (0, g)), mpfr_get_si = (\<lambda>_ _ g. (0, g)),
     mpfr_get_uj = (\<lambda>_ _ g. (0, g)), mpfr_get_flt = (\<lambda>_ _ g. (0, g)), mpfr_get_d = (\<lambda>_ _ g. (0, g)),
     mpfr_get_d_2exp = (\<lambda>_ _ g. (0, g)), mpfr_snprintf = (\<lambda>_ _ _ g. (''+0e+0'', g)), mpfr_flag_p = (\<lambda>_ _. False),
     mpfr_set_flag = (\<lambda>_ g. g), mpfr_clear_flags = (\<lambda>g. g), mpfr_set_emin = (\<lambda>e g. g\<lparr>mp_emin := e\<rparr>),
     mpfr_set_emax = (\<lambda>e g. g\<lparr>mp_emax := e\<rparr>), mpfr_set_default_prec = (\<lambda>p g. g\<lparr>mp_default_prec := p\<rparr>)\<rparr>"

section \<open>The processor with its unit\<close>

lemma fpu_wf_ops: "guest_ops (wf Q) ends_ok (Some (full_fpu M))"
  by (rule wf_guest_ops) (rule wf_fpu.full_fpu_keeps)

text \<open>
  C2. One instruction executed in user state, floating-point instructions included, whatever the
  library computes, whatever translation, devices and memory do, and whether it completes or
  raises, leaves every privileged register as it was: the stack pointers of the other modes,
  the mode bits and the interrupt level, the vector base, the roots and the enable bits of the
  translation, the transparent translation registers and the caches' enable bits.
\<close>

theorem user_isolation:
  assumes "\<not> S_bit (cpu s)"
  shows "same_privileged (cpu s) (cpu (state_of (run_op (Some (full_fpu M)) s)))"
  using assms by (rule isolation) (rule user_fpu.full_fpu_keeps)

theorem user_isolation_witness:
  "same_privileged cpu_static (cpu (state_of (run_op (Some (full_fpu example_lib)) small_machine)))"
  using user_isolation [of small_machine example_lib] by (simp add: cpu_static_def)

text \<open>
  C6. From a well-formed state an instruction that does not return, floating-point instructions
  included, ends in a well-formed state too. Every instruction may end by a guest exception of
  the architecture's table, by the end of the process, or in C++ code without a meaning; besides
  these only \<open>STOP\<close> (0x4e72) may wait without end, only \<open>RTE\<close> (0x4e73) may run out of the fuel of
  the model, led through throwaway frames, and only \<open>PTEST\<close> (0xf548 to 0xf54f and 0xf568 to 0xf56f)
  lets a bus error through to the loop.
\<close>

theorem instruction_ends:
  assumes "wf Q s" and "run_op (Some (full_fpu M)) s = Raise e s'"
  shows "wf Q s' \<and> (ordinary e \<or> (\<exists>op. opcode_of s = Some op \<and>
    (e = Blocked \<and> op = 0x4e72 \<or> e = Diverged \<and> op = 0x4e73 \<or> e = BusError \<and> op AND 0xffd8 = 0xf548)))"
proof -
  have "wf Q s' \<and> (ordinary e \<or> (\<exists>op. opcode_of s = Some op \<and> ends_with op e))"
    by (rule endings [OF assms(1) _ assms(2)]) (rule guest_fpu.full_fpu_keeps [OF wf_guest_fpu])
  then show ?thesis
    by (auto simp: ends_with_def)
qed

theorem instruction_ends_witness:
  "\<exists>s'. run_op (Some (full_fpu example_lib)) aline_machine = Raise (M68kException 10) s' \<and> wf (\<lambda>_. True) s' \<and>
    ordinary (M68kException 10)"
proof -
  obtain s' where r: "run_op (Some (full_fpu example_lib)) aline_machine = Raise (M68kException 10) s'"
    using aline_machine_raises by blast
  with instruction_ends [OF wf_aline_machine r] show ?thesis by auto
qed

section \<open>Start\<close>

text \<open>What a call leaves in the variable it assigns to.\<close>

fun written :: "'a \<times> mpfr_t \<times> mpfr_globals \<Rightarrow> mpfr_t" where
  "written (a, x, g) = x"

text \<open>The registers and \<open>fp_tmp\<close> after \<open>init\<close> are what \<open>mpfr_init2\<close> makes of them.\<close>

definition fresh :: "mpfr_lib \<Rightarrow> M68040FpuFull \<Rightarrow> bool" where
  "fresh M u \<longleftrightarrow> FPCR u = fpcr_static \<and> FPIAR u = 0 \<and> (\<exists>x g. fp_tmp u = written (mpfr_init2 M 64 x g)) \<and>
     (\<forall>i < 8. \<exists>x g. FP u i = written (mpfr_init2 M 64 x g))"

lemma mread_run: "mread r s = Ok (fst (r (mpfr_state s))) (s\<lparr>mpfr_state := snd (r (mpfr_state s))\<rparr>)"
  by (simp add: mread_def case_prod_beta)

lemma fget_run [run_simps, simp]: "fget w f s = Ok (f (fpus s w)) s"
  by (simp add: fget_def)

lemma fput_run [run_simps, simp]: "fput w f s = Ok () (s\<lparr>fpus := (fpus s)(w := f (fpus s w))\<rparr>)"
  by (simp add: fput_def)

lemma init_registers:
  "\<exists>u g. for_each js (\<lambda>i. mfp FPU_P i (\<lambda>_. mpfr_init2 M 64)) s = Ok () (s\<lparr>fpus := (fpus s)(FPU_P := u), mpfr_state := g\<rparr>) \<and>
    FPCR u = FPCR (fpus s FPU_P) \<and> FPIAR u = FPIAR (fpus s FPU_P) \<and>
    (\<forall>i. FP u i = FP (fpus s FPU_P) i \<and> i \<notin> set js \<or> (\<exists>x h. FP u i = written (mpfr_init2 M 64 x h)))"
proof (induction js arbitrary: s)
  case Nil
  show ?case by (rule exI [of _ "fpus s FPU_P"], rule exI [of _ "mpfr_state s"]) simp
next
  case (Cons j js)
  obtain x g where r: "mpfr_init2 M 64 (FP (fpus s FPU_P) j) (mpfr_state s) = ((), x, g)"
    by (metis old.unit.exhaust surj_pair)
  let ?u = "(fpus s FPU_P)\<lparr>FP := (FP (fpus s FPU_P))(j := x)\<rparr>"
  let ?s = "s\<lparr>fpus := (fpus s)(FPU_P := ?u), mpfr_state := g\<rparr>"
  have j: "mfp FPU_P j (\<lambda>_. mpfr_init2 M 64) s = Ok () ?s" by (simp add: mfp_def mread_def r)
  have w: "x = written (mpfr_init2 M 64 (FP (fpus s FPU_P) j) (mpfr_state s))" by (simp add: r)
  obtain u h where u: "for_each js (\<lambda>i. mfp FPU_P i (\<lambda>_. mpfr_init2 M 64)) ?s = Ok () (?s\<lparr>fpus := (fpus ?s)(FPU_P := u), mpfr_state := h\<rparr>)"
    "FPCR u = FPCR (fpus ?s FPU_P)" "FPIAR u = FPIAR (fpus ?s FPU_P)"
    "\<forall>i. FP u i = FP (fpus ?s FPU_P) i \<and> i \<notin> set js \<or> (\<exists>x h. FP u i = written (mpfr_init2 M 64 x h))"
    using Cons.IH [of ?s] by blast
  have "FP u i = FP (fpus s FPU_P) i \<and> i \<notin> set (j # js) \<or> (\<exists>x h. FP u i = written (mpfr_init2 M 64 x h))" for i
  proof (cases "FP u i = FP (fpus ?s FPU_P) i \<and> i \<notin> set js")
    case True
    then show ?thesis using w by (cases "i = j") auto
  qed (use u(4) in blast)
  moreover have "for_each (j # js) (\<lambda>i. mfp FPU_P i (\<lambda>_. mpfr_init2 M 64)) s = Ok () (s\<lparr>fpus := (fpus s)(FPU_P := u), mpfr_state := h\<rparr>)"
    using u(1) by (simp add: j)
  moreover have "FPCR u = FPCR (fpus s FPU_P)" "FPIAR u = FPIAR (fpus s FPU_P)" using u(2,3) by simp_all
  ultimately show ?case by blast
qed

lemma fpu_started:
  "\<exists>u g. seq createFPU (fpu_init M) s = Ok () (s\<lparr>fpus := (fpus s)(FPU_P := u), mpfr_state := g\<rparr>) \<and> fresh M u"
proof -
  let ?s = "s\<lparr>fpus := (fpus s)(FPU_P := fpu_static)\<rparr>"
  obtain u g where u: "for_each [0..<8] (\<lambda>i. mfp FPU_P i (\<lambda>_. mpfr_init2 M 64)) ?s = Ok () (?s\<lparr>fpus := (fpus ?s)(FPU_P := u), mpfr_state := g\<rparr>)"
    "FPCR u = FPCR (fpus ?s FPU_P)" "FPIAR u = FPIAR (fpus ?s FPU_P)"
    "\<forall>i. FP u i = FP (fpus ?s FPU_P) i \<and> i \<notin> set [0..<8] \<or> (\<exists>x h. FP u i = written (mpfr_init2 M 64 x h))"
    using init_registers [of "[0..<8]" M ?s] by blast
  obtain x h where x: "mpfr_init2 M 64 (fp_tmp u) g = ((), x, h)" by (metis old.unit.exhaust surj_pair)
  have w: "x = written (mpfr_init2 M 64 (fp_tmp u) g)" by (simp add: x)
  let ?u = "u\<lparr>fp_tmp := x, fp_tmp_nan := 0, FPCR := (FPCR u)\<lparr>RND := MPFR_RNDN\<rparr>\<rparr>"
  have "seq createFPU (fpu_init M) s = Ok () (s\<lparr>fpus := (fpus s)(FPU_P := ?u), mpfr_state := mpfr_set_default_prec M 64 h\<rparr>)"
    using u(1) by (simp add: createFPU_def fpu_init_def mdo_def mtmp_def mset_def mread_def x del: upt_rec_numeral)
  moreover have "fresh M ?u"
    using u(2-4) w by (auto simp: fresh_def fpu_static_def fpcr_static_def)
  ultimately show ?thesis by blast
qed

end
