(* ===== verification/Quadra.thy ===== *)
theory Quadra
  imports DevicesOk Boot FpuOk
begin

text \<open>
  The whole machine: the processor, the bus and the board of the Quadra 9x0, from power-on, with
  what the threads of the host do to the devices between two turns of the processor. The
  boards are shown to be the devices that the processor relies on.
\<close>

unbundle bit_operations_syntax

section \<open>What a board promises\<close>

text \<open>
  A board that overrides the byte accesses inherits the others from \<open>IO_BUS\<close>; one that
  overrides the longword accesses as well keeps its word accesses. Either way the processor
  gets the devices it relies on.
\<close>

locale byte_board =
  fixes rd :: "u32 \<Rightarrow> u8 device" and wr :: "u32 \<Rightarrow> u8 \<Rightarrow> unit device"
  assumes rd_ok: "dev_ok (rd a)" and wr_ok: "dev_ok (wr a b)"
begin

lemma inherited_ok:
  "dev_ok (IO_BUS_readW rd a)" "dev_ok (IO_BUS_readL rd a)" "dev_ok (IO_BUS_writeW wr a w)" "dev_ok (IO_BUS_writeL wr a l)"
  unfolding IO_BUS_readW_def IO_BUS_readL_def IO_BUS_writeW_def IO_BUS_writeL_def
  by (intro keeps_intro rd_ok wr_ok)+

lemma long_board_ok:
  assumes "\<And>a. dev_ok (rl a)" and "\<And>a l. dev_ok (wl a l)" and "keeps (mailbox dev_wf) (\<lambda>e. e = Undefined) rst"
  shows "devices_ok dev_wf ((IO_BUS_of rd wr)\<lparr>io_readL := rl, io_writeL := wl\<rparr>) rst"
  using assms by (simp add: devices_ok_def IO_BUS_of_def rd_ok wr_ok inherited_ok)

lemma board_ok:
  assumes "keeps (mailbox dev_wf) (\<lambda>e. e = Undefined) rst"
  shows "devices_ok dev_wf (IO_BUS_of rd wr) rst"
  using assms by (simp add: devices_ok_def IO_BUS_of_def rd_ok wr_ok inherited_ok)

end

interpretation glue: byte_board GLUE_readB GLUE_writeB by unfold_locales (rule byte_boards_ok)+
interpretation mdu: byte_board MDU_readB MDU_writeB by unfold_locales (rule byte_boards_ok)+
interpretation oss: byte_board OSS_readB OSS_writeB by unfold_locales (rule byte_boards_ok)+
interpretation v8: byte_board V8_readB V8_writeB by unfold_locales (rule byte_boards_ok)+
interpretation q900: byte_board MCU_Q900_readB MCU_Q900_writeB by unfold_locales (rule byte_boards_ok)+
interpretation q700: byte_board MCU_Q700_readB MCU_Q700_writeB by unfold_locales (rule byte_boards_ok)+
interpretation jaws: byte_board JAWS_readB JAWS_writeB by unfold_locales (rule byte_boards_ok)+

lemma bus_reset_ok: "keeps (mailbox dev_wf) (\<lambda>e. e = Undefined) bus_reset"
proof -
  have "keeps (mailbox dev_wf) (\<lambda>e. e = Undefined) adb_reset" unfolding adb_reset_def by (intro keeps_intro)
  then show ?thesis unfolding bus_reset_def by (intro keeps_intro dmod_ok; simp add: dev_wf_def)
qed

lemma boards_devices_ok:
  "devices_ok dev_wf GLUE bus_reset" "devices_ok dev_wf MDU bus_reset" "devices_ok dev_wf V8 bus_reset"
  "devices_ok dev_wf JAWS bus_reset" "devices_ok dev_wf OSS bus_reset" "devices_ok dev_wf MCU_Q900 bus_reset"
  "devices_ok dev_wf MCU_Q700 bus_reset"
  unfolding GLUE_def MDU_def V8_def JAWS_def OSS_def MCU_Q900_def MCU_Q700_def
  by (intro glue.board_ok mdu.board_ok v8.board_ok jaws.board_ok oss.long_board_ok q900.long_board_ok q700.long_board_ok bus_reset_ok;
      unfold OSS_readL_def OSS_writeL_def MCU_Q900_readL_def MCU_Q900_writeL_def MCU_Q700_readL_def MCU_Q700_writeL_def;
      intro keeps_intro oss.inherited_ok q900.inherited_ok q700.inherited_ok)+

section \<open>The machine\<close>

text \<open>
  The static storage before \<open>main\<close>, with the board that \<open>initBus\<close> installs: the registers, the
  translation caches, the mailbox and the clock chip are zero, RAM and ROM are arbitrary.
\<close>

definition power_on :: "devs machine \<Rightarrow> bool" where
  "power_on s \<longleftrightarrow> cpu s = cpu_static \<and> d_atc s = atc_static \<and> i_atc s = atc_static \<and>
     io s = MCU_Q900 \<and> dev_reset s = bus_reset \<and> inturrupt (bus s) = 0 \<and> rtc_wf (rtc (dev (bus s))) \<and>
     (\<forall>i. Post i \<in> set (wakeups (bus s)) \<longrightarrow> i \<le> 7)"

definition quadra_start :: "mpfr_lib \<Rightarrow> u8 list option \<Rightarrow> (devs, unit) mach" where
  "quadra_start M rom = seq (init_emu rom) (seq createFPU (seq (fpu_init M) (seq (on_bus initBus) main_run)))"

text \<open>What the other threads of the host do to the devices, between two turns of the processor.\<close>

datatype device_event =
    Timer1 via_id | Timer2 via_id | Second | Key_down string | Key_up string
  | Sound_half scc_chan | Sound_full scc_chan | Sound_wave int
  | Line_byte scc_chan u8 | Line_end scc_chan

fun event :: "device_event \<Rightarrow> unit device" where
  "event (Timer1 w) = via_timer1_callback w"
| "event (Timer2 w) = via_timer2_callback w"
| "event Second = rtc_callback"
| "event (Key_down k) = keydown k"
| "event (Key_up k) = keyup k"
| "event (Sound_half c) = timerH_callback c"
| "event (Sound_full c) = timerF_callback c"
| "event (Sound_wave n) = asc_wave_read n"
| "event (Line_byte c v) = recvData c v"
| "event (Line_end c) = eom c"

inductive quadra_step :: "devs fpu_ops option \<Rightarrow> devs machine \<Rightarrow> devs machine \<Rightarrow> bool" for fpu where
  sys: "sys_step fpu s s' \<Longrightarrow> quadra_step fpu s s'"
| dev: "on_bus (event e) s = Ok () s' \<Longrightarrow> quadra_step fpu s s'"

inductive quadra_reaches :: "devs fpu_ops option \<Rightarrow> devs machine \<Rightarrow> devs machine \<Rightarrow> bool" for fpu s0 where
  start: "quadra_reaches fpu s0 s0"
| step: "quadra_reaches fpu s0 s \<Longrightarrow> quadra_step fpu s s' \<Longrightarrow> quadra_reaches fpu s0 s'"

lemma event_ok: "dev_ok (event e)"
  by (cases e; simp; intro keeps_intro)

text \<open>A program that changes nothing but the devices, from \<open>P\<close> to \<open>R\<close>.\<close>

definition establishes :: "(devs \<Rightarrow> bool) \<Rightarrow> unit device \<Rightarrow> (devs \<Rightarrow> bool) \<Rightarrow> bool" where
  "establishes P m R \<longleftrightarrow> (\<forall>b. P (dev b) \<longrightarrow> (\<exists>d. m b = Ok () (b\<lparr>dev := d\<rparr>) \<and> R d))"

lemma establishes_seq:
  assumes "establishes P m R" and "establishes R n T"
  shows "establishes P (seq m n) T"
  unfolding establishes_def
proof (intro allI impI)
  fix b :: "devs bus" assume "P (dev b)"
  with assms(1) obtain d where d: "m b = Ok () (b\<lparr>dev := d\<rparr>)" "R d" by (auto simp: establishes_def)
  with assms(2) obtain d' where "n (b\<lparr>dev := d\<rparr>) = Ok () (b\<lparr>dev := d\<rparr>\<lparr>dev := d'\<rparr>)" "T d'"
    unfolding establishes_def by (metis bus.select_convs(10) bus.surjective bus.update_convs(10))
  with d show "\<exists>d. seq m n b = Ok () (b\<lparr>dev := d\<rparr>) \<and> T d" by auto
qed

lemma establishes_dmod: "(\<And>d. P d \<Longrightarrow> R (f d)) \<Longrightarrow> establishes P (dmod f) R"
  unfolding establishes_def by auto

lemma initBus_establishes: "establishes (\<lambda>d. rtc_wf (rtc d)) initBus dev_wf"
proof -
  let ?r = "\<lambda>d. rtc_wf (rtc d)" and ?a = "\<lambda>d. rtc_wf (rtc d) \<and> snd_wf (asc_ch (asc d) chA)"
  let ?A = "\<lambda>d. rtc_wf (rtc d) \<and> asc_wf (asc d)"
  have both: "asc_wf s" if "snd_wf (asc_ch s chA)" "snd_wf (asc_ch s chB)" for s
    unfolding asc_wf_def using that by (metis scc_chan.exhaust)
  have 1: "establishes ?r (asc_mod f) ?r" for f
    unfolding asc_mod_def by (rule establishes_dmod) simp
  have 2: "establishes ?r (ASC_CH_reset chA) ?a" and 3: "establishes ?a (ASC_CH_reset chB) ?A"
    unfolding ASC_CH_reset_def snd_mod_def asc_mod_def
    by (rule establishes_dmod; simp add: snd_wf_def both)+
  have 4: "establishes ?A (asc_mod (\<lambda>s. s\<lparr>phase := p s, incr := q s\<rparr>)) ?A" for p q
    unfolding asc_mod_def by (rule establishes_dmod) (simp add: asc_wf_def)
  have reset: "establishes ?r ASC_reset ?A"
    unfolding ASC_reset_def by (rule establishes_seq [OF 2 establishes_seq [OF 3 4]])
  have 5: "establishes ?A (dmod (\<lambda>d. d\<lparr>vias := v d, pins := p d, mcu := m d, iop_swim := i d\<rparr>)) ?A" for v p m i
    by (rule establishes_dmod) simp
  have 6: "establishes ?A (scc_mod f) dev_wf" if "\<And>s. scc_wf (f s)" for f
    unfolding scc_mod_def using that by (intro establishes_dmod) (simp add: dev_wf_def)
  have 7: "establishes dev_wf (dmod (\<lambda>d. d\<lparr>iop_scc := i d\<rparr>)) dev_wf" for i
    by (rule establishes_dmod) (simp add: dev_wf_def)
  show ?thesis
    unfolding initBus_def
    by (rule establishes_seq [OF 1 establishes_seq [OF reset establishes_seq [OF 5 establishes_seq [OF 6 7]]]])
      (simp add: scc_wf_def ch_wf_def)
qed

lemma initBus_run: "rtc_wf (rtc (dev b)) \<Longrightarrow> \<exists>d. initBus b = Ok () (b\<lparr>dev := d\<rparr>) \<and> dev_wf d"
  using initBus_establishes by (simp add: establishes_def)

text \<open>Everything before the processor starts: memory, floating-point unit, devices.\<close>

lemma before_main:
  assumes "power_on s" and "length rom \<le> ram_bytes"
  shows "\<exists>d u g. let t = s\<lparr>bus := (loaded rom (bus s))\<lparr>dev := d\<rparr>, fpus := (fpus s)(FPU_P := u), mpfr_state := g\<rparr> in
    quadra_start M (Some rom) s = main_run t \<and> wf dev_wf t \<and> fresh M u"
proof -
  let ?b = "loaded rom (bus s)"
  obtain d where d: "initBus ?b = Ok () (?b\<lparr>dev := d\<rparr>)" "dev_wf d"
    using initBus_run [of ?b] assms(1) by (auto simp: power_on_def loaded_def)
  obtain u g where u: "seq createFPU (fpu_init M) (s\<lparr>bus := ?b\<rparr>) = Ok () (s\<lparr>bus := ?b, fpus := (fpus s)(FPU_P := u), mpfr_state := g\<rparr>)" "fresh M u"
    using fpu_started [of M "s\<lparr>bus := ?b\<rparr>"] by auto
  let ?t = "s\<lparr>bus := ?b\<lparr>dev := d\<rparr>, fpus := (fpus s)(FPU_P := u), mpfr_state := g\<rparr>"
  have "on_bus initBus (s\<lparr>bus := ?b, fpus := (fpus s)(FPU_P := u), mpfr_state := g\<rparr>) = Ok () ?t"
    by (simp add: on_bus_Ok d(1))
  then have "quadra_start M (Some rom) s = main_run ?t"
    unfolding quadra_start_def seq_run_Ok [OF init_emu_run [OF assms(2)]] seq_assoc [of createFPU "fpu_init M", symmetric]
      seq_run_Ok [where m = "seq createFPU (fpu_init M)", OF u(1)] by (rule seq_run_Ok)
  moreover have "wf dev_wf ?t"
    using assms(1) d(2) boards_devices_ok(6)
    by (auto simp: power_on_def wf_def wf_cpu_def cpu_static_def wf_ttr_def ttr_static_def wf_atc_def
        atc_static_def mailbox_def loaded_def)
  ultimately show ?thesis using u(2) unfolding Let_def by blast
qed

lemma quadra_start_run:
  assumes "power_on s" and "8 \<le> length rom" and "length rom \<le> ram_bytes" and "\<not> bit (be32 (nth rom) 4) 0"
  shows "\<exists>s'. quadra_start M (Some rom) s = Ok () s' \<and> wf dev_wf s' \<and>
    An (cpu s') 7 = be32 (nth rom) 0 \<and> PC (cpu s') = be32 (nth rom) 4 \<and> S_bit (cpu s') \<and> io s' = MCU_Q900"
proof -
  obtain d u g t where t: "t = s\<lparr>bus := (loaded rom (bus s))\<lparr>dev := d\<rparr>, fpus := (fpus s)(FPU_P := u), mpfr_state := g\<rparr>"
    "quadra_start M (Some rom) s = main_run t" "wf dev_wf t"
    using before_main [OF assms(1,3), of M] by (auto simp: Let_def)
  have rng: "ram_range 0 8 (bus t)" by (simp add: t(1) ram_range_def loaded_def ram_bytes_def)
  have w: "be32 (RAM (bus t)) 0 = be32 (nth rom) 0" "be32 (RAM (bus t)) 4 = be32 (nth rom) 4"
    by (rule be32_same; use assms(2) in \<open>simp add: t(1) loaded_def\<close>)+
  have "\<not> TCR_E (cpu t)" using assms(1) by (simp add: t(1) power_on_def cpu_static_def)
  note run = main_run_run [OF this rng, unfolded w, OF assms(4)]
  from keeps_Ok [OF wf_main_run run t(3)] show ?thesis
    using assms(1) by (simp add: t(2) run) (simp add: t(1) reset_cpu_def all_flushed_def power_on_def)
qed

text \<open>A machine before power-on; the devices of the host answer zero.\<close>

definition quadra_machine :: "devs machine" where
  "quadra_machine = (machine_on MCU_Q900 devs_bus)\<lparr>dev_reset := bus_reset\<rparr>"

lemma quadra_machine_power_on: "power_on quadra_machine"
  by (simp add: power_on_def quadra_machine_def machine_on_def devs_bus_def devs_static_def rtc_wf_def)

text \<open>
  C3. From power-on with any ROM image of at least eight bytes that fits the RAM and starts the
  program at an even address, start-up returns: the board is the Quadra's, the processor is in
  supervisor state with the stack pointer and the program counter of the image, and the whole
  machine, devices included, is well-formed.
\<close>

theorem quadra_boots:
  assumes "power_on s" and "8 \<le> length rom" and "length rom \<le> ram_bytes" and "\<not> bit (be32 (nth rom) 4) 0"
  shows "\<exists>s'. quadra_start M (Some rom) s = Ok () s' \<and> wf dev_wf s' \<and>
    An (cpu s') 7 = be32 (nth rom) 0 \<and> PC (cpu s') = be32 (nth rom) 4 \<and> S_bit (cpu s') \<and> io s' = MCU_Q900"
  using assms by (rule quadra_start_run)

lemma example_rom:
  "8 \<le> length ([0, 0, 0x20, 0, 0x40, 0x80, 0, 0x2a] :: u8 list)" "length ([0, 0, 0x20, 0, 0x40, 0x80, 0, 0x2a] :: u8 list) \<le> ram_bytes"
  "be32 (nth [0, 0, 0x20, 0, 0x40, 0x80, 0, 0x2a]) 0 = 0x2000" "be32 (nth [0, 0, 0x20, 0, 0x40, 0x80, 0, 0x2a]) 4 = 0x4080002a"
  "\<not> bit (be32 (nth [0, 0, 0x20, 0, 0x40, 0x80, 0, 0x2a]) 4) 0"
  by (simp_all add: ram_bytes_def be32_def)

theorem quadra_boots_witness:
  "\<exists>s'. quadra_start example_lib (Some [0, 0, 0x20, 0, 0x40, 0x80, 0, 0x2a]) quadra_machine = Ok () s' \<and> wf dev_wf s' \<and>
    PC (cpu s') = 0x4080002a"
  using quadra_boots [OF quadra_machine_power_on example_rom(1,2,5)] by (auto simp: example_rom)

lemma quadra_start_wf:
  assumes "power_on s" and "quadra_start M rom s = Ok () s'"
  shows "wf dev_wf s'"
proof (cases rom)
  case None
  with assms(2) show ?thesis by (simp add: quadra_start_def init_emu_def on_bus_Ok)
next
  case (Some r)
  show ?thesis
  proof (cases "length r \<le> ram_bytes")
    case False
    with assms(2) Some show ?thesis
      by (simp add: quadra_start_def init_emu_def on_bus_Ok on_bus_Raise)
  next
    case True
    then obtain t where "quadra_start M (Some r) s = main_run t" "wf dev_wf t"
      using before_main [OF assms(1), of r M] by (auto simp: Let_def)
    with assms(2) Some show ?thesis using keeps_Ok [OF wf_main_run] by metis
  qed
qed

lemma quadra_step_wf:
  assumes "guest_ops (wf dev_wf) ends_ok fpu" and "quadra_step fpu s s'" and "wf dev_wf s"
  shows "wf dev_wf s'"
  using assms(2)
proof cases
  case sys
  with assms show ?thesis by (blast intro: wf_sys_step)
next
  case (dev e)
  from keeps_Ok [OF wf_on_bus [OF event_ok] dev assms(3)] show ?thesis .
qed

lemma recvData_returns: "\<exists>b'. recvData c v b = Ok () b'"
proof -
  have i: "\<exists>b'. recv_irq c h b = Ok () b'" for h b
    by (simp add: recv_irq_def Let_def whenM_def doIrq_run seq_ch_mod ch_get_def ch_mod_run)
  show ?thesis by (simp add: recvData_def seq_ch_mod ch_get_def doIrq_run i)
qed

text \<open>
  C1. Every state of the machine that can follow start-up, under any program, any
  floating-point library, and any interleaving of turns of the
  processor, posted interrupts, polls, timers, keys, sound callbacks and bytes from the serial
  line, is well-formed: the processor's fields are within their bits, valid translations are in
  their slots, posted levels are known, and no buffer pointer or counter of a device leaves its
  buffer.
\<close>

theorem quadra_stays_wf:
  assumes "power_on s" and "quadra_start M rom s = Ok () s0" and "quadra_reaches (Some (full_fpu M)) s0 s'"
  shows "wf dev_wf s'"
proof -
  have "wf dev_wf s0" using assms(1,2) by (rule quadra_start_wf)
  with assms(3) show ?thesis by (induction rule: quadra_reaches.induct) (auto intro: quadra_step_wf [OF fpu_wf_ops])
qed

theorem quadra_stays_wf_witness:
  "\<exists>s0 s'. quadra_start example_lib (Some [0, 0, 0x20, 0, 0x40, 0x80, 0, 0x2a]) quadra_machine = Ok () s0 \<and>
    on_bus (event (Line_byte chA 0x41)) s0 = Ok () s' \<and> wf dev_wf s' \<and> length (inBuf (scc_ch (scc (dev (bus s'))) chA)) \<le> 8"
proof -
  obtain s0 where s0: "quadra_start example_lib (Some [0, 0, 0x20, 0, 0x40, 0x80, 0, 0x2a]) quadra_machine = Ok () s0"
    using quadra_start_run [OF quadra_machine_power_on example_rom(1,2,5)] by blast
  obtain b' where "recvData chA 0x41 (bus s0) = Ok () b'"
    using recvData_returns by blast
  then have e: "on_bus (event (Line_byte chA 0x41)) s0 = Ok () (s0\<lparr>bus := b'\<rparr>)" by (simp add: on_bus_Ok)
  have "quadra_reaches (Some (full_fpu example_lib)) s0 (s0\<lparr>bus := b'\<rparr>)"
    by (rule quadra_reaches.step [OF quadra_reaches.start quadra_step.dev [OF e]])
  from quadra_stays_wf [OF quadra_machine_power_on s0 this] have "wf dev_wf (s0\<lparr>bus := b'\<rparr>)" .
  with s0 e show ?thesis by (auto simp: wf_def mailbox_def dev_wf_def scc_wf_def ch_wf_def)
qed

section \<open>From a device to the processor\<close>

lemma timer1_run:
  assumes "\<not> PB7_ENABLE (vias (dev b) w)" and "bit (IE (vias (dev b) w)) 6"
  shows "\<exists>b'. via_timer1_callback w b = Ok () b' \<and> \<not> stopping b' \<and> inturrupt b' = irqNum w \<and>
    bit (IF (vias (dev b') w)) 6"
  using assms by (simp add: via_timer1_callback_def GetVIACounter_def irq_run Let_def bit_set_to)

text \<open>
  C9. The path of a timer interrupt: when timer 1 of an adapter runs out and its interrupt is
  enabled, its flag is set and a stopped processor goes on; and if the level of the adapter (1
  or 2) is above the processor's mask, the next instruction is not executed but the interrupt
  of that level is raised, and the mailbox is empty again.
\<close>

theorem timer_interrupts:
  assumes "\<not> PB7_ENABLE (vias (dev (bus s)) w)" and "bit (IE (vias (dev (bus s)) w)) 6"
    and "uint (I_lvl (cpu s)) < irqNum w" and "\<not> rom_funcs s (PC (cpu s) AND 0xfffff)" and "\<not> inJit (cpu s)"
  shows "\<exists>s'. on_bus (event (Timer1 w)) s = Ok () s' \<and> \<not> stopping (bus s') \<and> bit (IF (vias (dev (bus s')) w)) 6 \<and>
    run_op fpu s' = Raise (M68kException (24 + irqNum w)) (s'\<lparr>bus := (bus s')\<lparr>inturrupt := - 1\<rparr>\<rparr>)"
proof -
  obtain b' where b': "via_timer1_callback w (bus s) = Ok () b'" "\<not> stopping b'" "inturrupt b' = irqNum w"
    "bit (IF (vias (dev b') w)) 6" using timer1_run [OF assms(1,2)] by blast
  have "run_op fpu (s\<lparr>bus := b'\<rparr>) = Raise (M68kException (24 + irqNum w)) (s\<lparr>bus := b'\<rparr>\<lparr>bus := b'\<lparr>inturrupt := - 1\<rparr>\<rparr>)"
    using run_op_prologue(1) [of "s\<lparr>bus := b'\<rparr>" fpu] assms(3-5) b'(3) by (simp add: interrupt_due_def)
  with b' show ?thesis by (simp add: on_bus_Ok)
qed

definition timer_machine :: "devs machine" where
  "timer_machine = quadra_machine\<lparr>bus := devs_bus\<lparr>dev := upd_via VIA2 (\<lambda>r. r\<lparr>IE := 0x40\<rparr>) (upd_via VIA1 (\<lambda>r. r\<lparr>IE := 0x40\<rparr>) devs_static)\<rparr>\<rparr>"

lemma timer_machine_state:
  "\<not> PB7_ENABLE (vias (dev (bus timer_machine)) w)" "bit (IE (vias (dev (bus timer_machine)) w)) 6"
  "uint (I_lvl (cpu timer_machine)) < irqNum w" "\<not> rom_funcs timer_machine p" "\<not> inJit (cpu timer_machine)"
  by (cases w; simp add: timer_machine_def quadra_machine_def machine_on_def devs_bus_def devs_static_def via_static_def
      cpu_static_def)+

theorem timer_interrupts_witness:
  "\<exists>s'. on_bus (event (Timer1 VIA2)) timer_machine = Ok () s' \<and>
    run_op None s' = Raise (M68kException 26) (s'\<lparr>bus := (bus s')\<lparr>inturrupt := - 1\<rparr>\<rparr>)"
  using timer_interrupts [OF timer_machine_state(1-5), of VIA2 None] by auto

text \<open>
  The mailbox holds one level: when both adapters post before the processor looks, only the
  last one is delivered, and a higher level is lost to a lower one although its flag stays set.
\<close>

theorem posts_are_lost:
  assumes "\<And>w. \<not> PB7_ENABLE (vias (dev b) w)" and "\<And>w. bit (IE (vias (dev b) w)) 6"
  shows "\<exists>b'. seq (event (Timer1 VIA2)) (event (Timer1 VIA1)) b = Ok () b' \<and> inturrupt b' = 1 \<and>
    bit (IF (vias (dev b') VIA2)) 6 \<and> bit (IF (vias (dev b') VIA1)) 6"
  using assms by (simp add: via_timer1_callback_def GetVIACounter_def irq_run Let_def bit_set_to)

theorem posts_are_lost_witness:
  "\<exists>b'. seq (event (Timer1 VIA2)) (event (Timer1 VIA1)) (bus timer_machine) = Ok () b' \<and> inturrupt b' = 1"
  using posts_are_lost [of "bus timer_machine", OF timer_machine_state(1,2)] by auto

section \<open>The serial controller is silent\<close>

datatype scc_use = Read_reg u32 | Write_reg u32 u8 | Receive scc_chan u8 | End_line scc_chan

fun use_scc :: "scc_use \<Rightarrow> unit device" where
  "use_scc (Read_reg a) = bind (SCC_read a) (\<lambda>_. return ())"
| "use_scc (Write_reg a v) = SCC_write a v"
| "use_scc (Receive c v) = recvData c v"
| "use_scc (End_line c) = eom c"

definition silent :: "int \<Rightarrow> devs bus \<Rightarrow> bool" where
  "silent i b \<longleftrightarrow> inturrupt b = i \<and> \<not> bit (masterIrqCtl (scc (dev b))) 3"

lemma silent_dmod: "(\<And>d. masterIrqCtl (scc (f d)) = masterIrqCtl (scc d)) \<Longrightarrow> keeps (silent i) E (dmod f)"
  by (auto simp: keeps_def silent_def)

lemma silent_mods [keeps_intro]:
  "keeps (silent i) E (ch_mod c f)" "(\<And>s. masterIrqCtl (g s) = masterIrqCtl s) \<Longrightarrow> keeps (silent i) E (scc_mod g)"
  by (auto simp: keeps_def silent_def ch_mod_def)

lemma silent_doIrq [keeps_intro]: "keeps (silent i) E (doIrq w)"
  by (auto simp: keeps_def silent_def doIrq_run irq_scc_def Let_def)

lemma silent_use: "keeps (silent i) (\<lambda>_. True) (use_scc u)"
proof -
  have n: "keeps (silent i) (\<lambda>_. True) (nextRecvData c)" for c
    unfolding nextRecvData_def by (intro keeps_intro)
  have s: "keeps (silent i) (\<lambda>_. True) (sendDataImpl c v)" for c v
    unfolding sendDataImpl_def send_port_def sendPrinterPort_def sendModemPort_def by (intro keeps_intro)
  have r: "keeps (silent i) (\<lambda>_. True) (SccCh_read c k)" for c k
    unfolding SccCh_read_def by (intro keeps_intro n; simp)
  have w: "keeps (silent i) (\<lambda>_. True) (SccCh_write c k v)" for c k v
    unfolding SccCh_write_def scc_command_def send_port_def sendPrinterPort_def sendModemPort_def by (intro keeps_intro s; simp)
  show ?thesis
    by (cases u; simp; unfold SCC_read_def SCC_write_def recvData_def recv_irq_def eom_def Let_def;
        intro keeps_intro n s r w; simp)
qed

text \<open>
  C40. After a reset of the serial controller no use of it ever interrupts the processor,
  whatever registers are read and written and whatever arrives on the line: the reset clears
  the master enable, and the register that could set it again is one of those whose number
  the code does not handle.
\<close>

theorem scc_is_silent:
  "inturrupt (state_of (seq scc_reset (for_each us use_scc) b)) = inturrupt b"
proof -
  have m: "\<not> bit (0xC0 OR (x AND 3)) 3" for x :: u8 by (simp add: bit_simps)
  obtain b' where b': "scc_reset b = Ok () b'" "silent (inturrupt b) b'"
    by (simp add: scc_reset_def SccCh_reset_def ch_mod_def silent_def m)
  have "keeps (silent (inturrupt b)) (\<lambda>_. True) (for_each us use_scc)"
    by (intro keeps_for_each silent_use)
  from keepsD [OF this b'(2)] show ?thesis by (simp add: b'(1) silent_def)
qed

end
