(* ===== verification/DeviceProps.thy ===== *)
theory DeviceProps
  imports Quadra
begin

text \<open>
  What a program on the machine can rely on when it uses the devices: the interrupt registers and
  the timers of the interface adapters, the decoding of addresses by the boards, the memory of
  the I/O processors, the buffers of the sound chip, the queues of the serial controller.
\<close>

unbundle bit_operations_syntax

section \<open>Registers of the adapters\<close>

text \<open>The bits of the masks of the source.\<close>

lemma mask_bits:
  "bit (0x80 :: int) i \<longleftrightarrow> i = 7" "bit (0x7f :: int) i \<longleftrightarrow> i < 7"
  "bit (0xff :: int) i \<longleftrightarrow> i < 8" "bit (0xff00 :: int) i \<longleftrightarrow> 8 \<le> i \<and> i < 16"
proof -
  have c: "(0x80 :: int) = push_bit 7 1" "(0x7f :: int) = mask 7" "(0xff :: int) = mask 8" "(0xff00 :: int) = push_bit 8 (mask 8)"
    by (simp_all add: mask_eq_exp_minus_1)
  show "bit (0x80 :: int) i \<longleftrightarrow> i = 7" "bit (0x7f :: int) i \<longleftrightarrow> i < 7"
    "bit (0xff :: int) i \<longleftrightarrow> i < 8" "bit (0xff00 :: int) i \<longleftrightarrow> 8 \<le> i \<and> i < 16"
    unfolding c by (simp_all only: bit_push_bit_iff bit_1_iff bit_mask_iff) (auto simp: possible_bit_def)
qed

lemma bit_write_IE: "bit (write_IE v ie) i \<longleftrightarrow> (if i < 7 \<and> bit v i then bit v 7 else bit ie i)"
proof -
  have "bit (foldl (\<lambda>e i. if bit v i then set_to i (bit v 7) e else e) ie [0..<k]) i \<longleftrightarrow>
    (if i < k \<and> i < 7 \<and> bit v i then bit v 7 else bit ie i)" for k
    by (induction k) (auto simp: bit_set_to less_Suc_eq dest: bit_imp_le_length)
  from this [of 7] show ?thesis by (simp add: write_IE_def)
qed

text \<open>
  The interrupt enable register is a set of seven sources: a write with bit 7 adds the
  sources whose bits are set, a write without it removes them, no other source changes, and
  a read returns the set with bit 7 set.
\<close>

theorem enable_register:
  "\<exists>b'. VIA_write w 14 v b = Ok () b' \<and>
    (\<forall>i < 7. bit (IE (vias (dev b') w)) i = (if bit v i then bit v 7 else bit (IE (vias (dev b) w)) i)) \<and>
    (\<exists>r. VIA_read w 14 b' = Ok r b' \<and> bit r 7 \<and> (\<forall>i < 7. bit r i = bit (IE (vias (dev b') w)) i))"
  by (auto simp: VIA_write_def VIA_read_def bit_write_IE bit_simps mask_bits)

theorem enable_register_witness:
  "\<exists>b'. VIA_write VIA1 14 0xc0 devs_bus = Ok () b' \<and> bit (IE (vias (dev b') VIA1)) 6"
  using enable_register [of VIA1 "0xc0" devs_bus] by (auto dest!: spec [of _ "6 :: nat"])

lemma bit_IF_byte: "bit (IF_byte f) i \<longleftrightarrow> (if i < 7 then bit f i else i = 7 \<and> f \<noteq> 0)"
  by (auto simp: IF_byte_def bit_simps mask_bits dest: bit_imp_le_length)

text \<open>
  A source that requests an interrupt shows in the flag register, together with the summary
  bit; reading the flag register changes nothing, and the processor is interrupted at the level
  of the adapter exactly when the source is enabled.
\<close>

theorem request_shows:
  "\<exists>b' r. irq w i b = Ok () b' \<and> VIA_read w 13 b' = Ok r b' \<and> bit r (VIA_IRQ_int i) \<and> bit r 7 \<and>
    (\<forall>j < 7. j \<noteq> VIA_IRQ_int i \<longrightarrow> bit r j = bit (IF (vias (dev b) w)) j) \<and>
    inturrupt b' = (if bit (IE (vias (dev b) w)) (VIA_IRQ_int i) then irqNum w else inturrupt b)"
proof -
  have n: "VIA_IRQ_int i < 7" by (rule enum_range)
  have z: "set_to (VIA_IRQ_int i) True f \<noteq> 0" for f :: "7 word"
  proof
    assume "set_to (VIA_IRQ_int i) True f = 0"
    then have "\<not> bit (set_to (VIA_IRQ_int i) True f) (VIA_IRQ_int i)" by simp
    with n show False by (simp add: bit_set_to)
  qed
  show ?thesis using n by (simp add: irq_run VIA_read_def Let_def bit_IF_byte bit_set_to z)
qed

lemma byte_pair: "high_byte (low_byte l x) y = push_bit 8 (ucast y) OR ucast x"
  by (rule bit_word_eqI) (auto simp: high_byte_def low_byte_def bit_simps mask_bits dest: bit_imp_le_length)

text \<open>
  C23. A timer counts down with the host's clock: after its two latch bytes have been written, the
  second to the register that starts it, the counter registers read the low and the high byte
  of the latch less the ticks that have passed since, in sixteen bits, and the flag of the timer
  is clear; the latch itself reads back.
\<close>

theorem timer_counts_down:
  fixes c :: u16
  assumes "t0 = SDL_GetTicksNS (host (dev b)) (host_calls (dev b)) * 1276600 div 1000000000"
    and "t1 = SDL_GetTicksNS (host (dev b)) (host_calls (dev b) + 1) * 1276600 div 1000000000"
    and "t2 = SDL_GetTicksNS (host (dev b)) (host_calls (dev b) + 2) * 1276600 div 1000000000"
    and "c = push_bit 8 (ucast h) OR ucast l"
  shows "\<exists>b1 b2 b3. seq (VIA_write w 4 l) (VIA_write w 5 h) b = Ok () b1 \<and> \<not> bit (IF (vias (dev b1) w)) 6 \<and>
    VIA_read w 6 b1 = Ok l b1 \<and> VIA_read w 7 b1 = Ok h b1 \<and>
    VIA_read w 4 b1 = Ok (ucast (c - ucast (t1 - t0))) b2 \<and>
    VIA_read w 5 b2 = Ok (ucast (drop_bit 8 (c - ucast (t2 - t0)))) b3"
proof -
  have l: "ucast c = l" and h: "ucast (drop_bit 8 c) = h"
    unfolding assms(4) by (rule bit_word_eqI; auto simp: bit_simps dest: bit_imp_le_length)+
  have d: "(x - ucast y :: u16) = ucast (ucast x - y)" for x :: u16 and y :: u64
    by (simp add: word_uint_eq_iff uint_word_ariths unsigned_ucast_eq take_bit_eq_mod mod_simps mod_mod_cancel)
  have 3: "(ucast ((ucast x - y) AND 0xff) :: u8) = ucast (x - ucast y)" for x :: u16 and y :: u64
    unfolding d by (rule bit_word_eqI) (auto simp: bit_simps mask_bits)
  have 4: "(ucast (drop_bit 8 (ucast x - y)) :: u8) = ucast (drop_bit 8 (x - ucast y))" for x :: u16 and y :: u64
    unfolding d by (rule bit_word_eqI) (auto simp: bit_simps)
  show ?thesis
    by (simp add: VIA_write_def VIA_read_def byte_pair assms(4) [symmetric] l h 3 4 flags_off_def counter_def
        GetVIACounter_def assms(1-3) bit_set_to)
qed

theorem timer_counts_down_witness:
  "\<exists>b1 b2. seq (VIA_write VIA1 4 0x34) (VIA_write VIA1 5 0x12) devs_bus = Ok () b1 \<and> VIA_read VIA1 4 b1 = Ok 0x34 b2"
  using timer_counts_down [of _ devs_bus _ _ "push_bit 8 (ucast (0x12 :: u8)) OR ucast (0x34 :: u8)" "0x12" "0x34" VIA1, OF refl refl refl refl]
  by (auto simp: devs_bus_def devs_static_def simp del: seq_run_Ok)

section \<open>Address decoding\<close>

lemma field_of:
  fixes a a' m n :: u32
  assumes "a AND m = a' AND m" and "push_bit k n AND m = push_bit k n"
  shows "drop_bit k a AND n = drop_bit k a' AND n"
proof -
  have f: "drop_bit k x AND n = drop_bit k (x AND push_bit k n) AND n" for x
    by (rule bit_word_eqI) (auto simp: bit_simps dest: bit_imp_le_length)
  have g: "x AND push_bit k n = (x AND m) AND push_bit k n" for x
    by (subst assms(2) [symmetric]) (simp only: and.assoc and.commute [of m])
  show ?thesis unfolding f [of a] f [of a'] g [of a] g [of a'] assms(1) ..
qed

lemma low_field:
  "a AND m = a' AND m \<Longrightarrow> n AND m = n \<Longrightarrow> a AND n = a' AND n" for a a' m n :: u32
  by (metis and.assoc and.commute)

lemma fields:
  fixes a a' :: u32
  assumes "a AND 0x3ffff = a' AND 0x3ffff"
  shows "drop_bit 13 a AND 0x1f = drop_bit 13 a' AND 0x1f" "drop_bit 13 a AND 0xf = drop_bit 13 a' AND 0xf"
    "drop_bit 9 a AND 0xf = drop_bit 9 a' AND 0xf" "drop_bit 1 a AND 0x1f = drop_bit 1 a' AND 0x1f"
    "drop_bit 1 a AND 3 = drop_bit 1 a' AND 3" "drop_bit 4 a AND 3 = drop_bit 4 a' AND 3"
    "drop_bit 2 a AND 7 = drop_bit 2 a' AND 7" "a AND 0xfff = a' AND 0xfff" "a AND 0x1fff = a' AND 0x1fff"
    "a AND 0xff = a' AND 0xff" "a AND 0xf = a' AND 0xf" "a AND 0x1E00 = a' AND 0x1E00"
  by (rule field_of [OF assms] low_field [OF assms]; simp)+

text \<open>
  Every board decodes only the low 18 bits of an address without bit 27: its chips are
  mirrored over the whole region.
\<close>

theorem boards_mirror:
  assumes "a AND 0x3ffff = a' AND 0x3ffff" and "\<not> bit a 27" and "\<not> bit a' 27"
  shows "GLUE_readB a = GLUE_readB a' \<and> GLUE_writeB a v = GLUE_writeB a' v \<and>
    MDU_readB a = MDU_readB a' \<and> MDU_writeB a v = MDU_writeB a' v \<and>
    OSS_readB a = OSS_readB a' \<and> OSS_writeB a v = OSS_writeB a' v \<and>
    MCU_Q900_readB a = MCU_Q900_readB a' \<and> MCU_Q900_writeB a v = MCU_Q900_writeB a' v \<and>
    MCU_Q700_readB a = MCU_Q700_readB a' \<and> MCU_Q700_writeB a v = MCU_Q700_writeB a' v"
  unfolding GLUE_readB_def GLUE_writeB_def MDU_readB_def MDU_writeB_def OSS_readB_def OSS_writeB_def
    MCU_Q900_readB_def MCU_Q900_writeB_def MCU_Q700_readB_def MCU_Q700_writeB_def via_reg_def Let_def fields [OF assms(1)]
  by (simp only: assms(2,3) if_False whenM_False simp_thms)

theorem boards_mirror_witness:
  "MCU_Q900_readB 0x50000000 = MCU_Q900_readB 0x50F00000 \<and> \<not> bit (0x50F00000 :: u32) 27"
  using boards_mirror [of "0x50000000" "0x50F00000" 0] by simp

text \<open>The results of a program run \<open>n\<close> times.\<close>

primrec collect :: "nat \<Rightarrow> 'a device \<Rightarrow> 'a list device" where
  "collect 0 m = return []"
| "collect (Suc n) m = bind m (\<lambda>v. bind (collect n m) (\<lambda>vs. return (v # vs)))"

lemma collect_Suc: "m b = Ok v b' \<Longrightarrow> collect n m b' = Ok vs b'' \<Longrightarrow> collect (Suc n) m b = Ok (v # vs) b''"
  by simp

section \<open>The memory of an I/O processor\<close>

lemma word_wrap: "(65536 :: u16) = 0"
  by code_simp

fun stored :: "u8 list \<Rightarrow> u16 \<Rightarrow> (u16 \<Rightarrow> u8) \<Rightarrow> (u16 \<Rightarrow> u8)" where
  "stored [] a m = m"
| "stored (v # vs) a m = stored vs (a + 1) (m(a := v))"

lemma stored_other:
  "length vs \<le> n \<Longrightarrow> n < 2 ^ 16 \<Longrightarrow> stored vs a m (a + of_nat n) = m (a + of_nat n)"
proof (induction vs arbitrary: a m n)
  case (Cons v vs)
  obtain k where k: "n = Suc k" using Cons.prems(1) by (cases n) simp_all
  have "unat (of_nat n :: u16) = n" using Cons.prems(2) by (simp add: unat_of_nat)
  then have "a + of_nat n \<noteq> a" using k by (metis Zero_not_Suc add_cancel_left_right unat_0)
  moreover have "a + of_nat n = (a + 1) + of_nat k" by (simp add: k)
  moreover have "stored vs (a + 1) (m(a := v)) ((a + 1) + of_nat k) = (m(a := v)) ((a + 1) + of_nat k)"
    using Cons.prems k by (intro Cons.IH) simp_all
  ultimately show ?case by (simp del: of_nat_Suc add: k add.assoc)
qed simp

lemma stored_at: "i < length vs \<Longrightarrow> length vs \<le> 2 ^ 16 \<Longrightarrow> stored vs a m (a + of_nat i) = vs ! i"
proof (induction vs arbitrary: a m i)
  case (Cons v vs)
  show ?case
  proof (cases i)
    case 0
    have "stored vs (a + 1) (m(a := v)) ((a + 1) + of_nat (2 ^ 16 - 1)) = (m(a := v)) ((a + 1) + of_nat (2 ^ 16 - 1))"
      by (rule stored_other) (use Cons.prems in simp_all)
    moreover have "(a + 1) + of_nat (2 ^ 16 - 1) = a"
      by (simp add: add.assoc word_wrap)
    ultimately show ?thesis using 0 by (simp add: word_wrap)
  next
    case (Suc k)
    have "stored vs (a + 1) (m(a := v)) ((a + 1) + of_nat k) = vs ! k"
      by (rule Cons.IH) (use Cons.prems Suc in simp_all)
    with Suc show ?thesis by (simp add: add.assoc)
  qed
qed simp

lemma iop_upd_simps [simp]: "iop_of w (iop_upd w f d) = f (iop_of w d)" "iop_upd w f (iop_upd w g d) = iop_upd w (\<lambda>i. f (g i)) d"
  by (cases w; simp)+

lemma iop_upd_cong: "f (iop_of w d) = g (iop_of w d) \<Longrightarrow> iop_upd w f d = iop_upd w g d"
  by (cases w) simp_all

lemma iop_writes:
  assumes "bit (iop_status (iop_of w (dev b))) 1"
  shows "for_each vs (IOP_write w 4) b = Ok () (b\<lparr>dev := iop_upd w (\<lambda>i. i\<lparr>RamAddress := RamAddress i + of_nat (length vs),
    iop_MEM := stored vs (RamAddress i) (iop_MEM i)\<rparr>) (dev b)\<rparr>)"
  using assms
proof (induction vs arbitrary: b)
  case Nil
  then show ?case by (cases w) simp_all
next
  case (Cons v vs)
  have 1: "IOP_write w 4 v b = Ok () (b\<lparr>dev := iop_upd w (\<lambda>i. ram_step (i\<lparr>iop_MEM := (iop_MEM i)(RamAddress i := v)\<rparr>)) (dev b)\<rparr>)"
    by (simp add: IOP_write_def)
  have "bit (iop_status (iop_of w (iop_upd w (\<lambda>i. ram_step (i\<lparr>iop_MEM := (iop_MEM i)(RamAddress i := v)\<rparr>)) (dev b)))) 1"
    using Cons.prems by (simp add: ram_step_def)
  with Cons.IH [of "b\<lparr>dev := iop_upd w (\<lambda>i. ram_step (i\<lparr>iop_MEM := (iop_MEM i)(RamAddress i := v)\<rparr>)) (dev b)\<rparr>"] Cons.prems
  show ?case by (simp add: 1) (rule arg_cong [where f = "\<lambda>d. b\<lparr>dev := d\<rparr>"], rule iop_upd_cong, simp add: ram_step_def add_ac)
qed

definition iop_goto :: "iop_id \<Rightarrow> u16 \<Rightarrow> unit device" where
  "iop_goto w a = seq (IOP_write w 0 (ucast (drop_bit 8 a))) (IOP_write w 1 (ucast a))"

lemma iop_goto_run: "iop_goto w a b = Ok () (b\<lparr>dev := iop_upd w (\<lambda>i. i\<lparr>RamAddress := a\<rparr>) (dev b)\<rparr>)"
proof -
  have "((r AND 0xff) OR push_bit 8 (ucast (ucast (drop_bit 8 a) :: u8))) AND 0xff00 OR ucast (ucast a :: u8) = a" for r
    by (rule bit_word_eqI) (auto simp: bit_simps mask_bits)
  then show ?thesis by (simp add: iop_goto_def IOP_write_def)
qed

lemma iop_reads:
  assumes "bit (iop_status (iop_of w (dev b))) 1" and "iop_MEM (iop_of w (dev b)) = m" and "RamAddress (iop_of w (dev b)) = a"
  shows "\<exists>b'. collect n (IOP_read w 4) b = Ok (map (\<lambda>j. m (a + of_nat j)) [0..<n]) b'"
  using assms
proof (induction n arbitrary: b a)
  case (Suc n)
  let ?b = "b\<lparr>dev := iop_upd w ram_step (dev b)\<rparr>"
  have r: "IOP_read w 4 b = Ok (m a) ?b" using Suc.prems by (simp add: IOP_read_def)
  have s: "bit (iop_status (iop_of w (dev ?b))) 1" "iop_MEM (iop_of w (dev ?b)) = m" "RamAddress (iop_of w (dev ?b)) = a + 1"
    using Suc.prems by (simp_all add: ram_step_def)
  obtain b' where b': "collect n (IOP_read w 4) ?b = Ok (map (\<lambda>j. m (a + 1 + of_nat j)) [0..<n]) b'"
    using Suc.IH [OF s] by blast
  have "[0..<Suc n] = 0 # map Suc [0..<n]" by (simp add: map_Suc_upt upt_conv_Cons del: upt_Suc)
  then have "m a # map (\<lambda>j. m (a + 1 + of_nat j)) [0..<n] = map (\<lambda>j. m (a + of_nat j)) [0..<Suc n]"
    by (simp add: o_def add.assoc del: upt_Suc)
  with collect_Suc [OF r b'] show ?case by metis
qed simp

text \<open>
  With the automatic increment on, a block of up to 64 KiB written to the memory of an I/O
  processor through its window is read back through the window, from any address and with
  the wrap at the end.
\<close>

theorem iop_block_roundtrip:
  assumes "bit (iop_status (iop_of w (dev b))) 1" and "length vs \<le> 2 ^ 16"
  shows "\<exists>b' b''. seq (iop_goto w a) (seq (for_each vs (IOP_write w 4)) (iop_goto w a)) b = Ok () b' \<and>
    collect (length vs) (IOP_read w 4) b' = Ok vs b''"
proof -
  let ?b = "b\<lparr>dev := iop_upd w (\<lambda>i. i\<lparr>RamAddress := a\<rparr>) (dev b)\<rparr>"
  have 1: "bit (iop_status (iop_of w (dev ?b))) 1" using assms(1) by simp
  let ?c = "b\<lparr>dev := iop_upd w (\<lambda>i. i\<lparr>iop_MEM := stored vs a (iop_MEM i), RamAddress := a\<rparr>) (dev b)\<rparr>"
  have r: "seq (iop_goto w a) (seq (for_each vs (IOP_write w 4)) (iop_goto w a)) b = Ok () ?c"
    by (simp add: iop_goto_run iop_writes [OF 1])
  have 2: "bit (iop_status (iop_of w (dev ?c))) 1" using assms(1) by simp
  have m: "map (\<lambda>j. stored vs a (iop_MEM (iop_of w (dev b))) (a + of_nat j)) [0..<length vs] = vs"
    by (rule nth_equalityI) (use assms(2) in \<open>simp_all add: stored_at\<close>)
  have "iop_MEM (iop_of w (dev ?c)) = stored vs a (iop_MEM (iop_of w (dev b)))" "RamAddress (iop_of w (dev ?c)) = a"
    by simp_all
  from iop_reads [OF 2 this, of "length vs"] obtain d where "collect (length vs) (IOP_read w 4) ?c = Ok vs d"
    unfolding m by blast
  with r show ?thesis by blast
qed

definition iop_machine :: "devs bus" where
  "iop_machine = devs_bus\<lparr>dev := devs_static\<lparr>iop_scc := iop_static\<lparr>iop_status := 2\<rparr>\<rparr>\<rparr>"

theorem iop_block_roundtrip_witness:
  "\<exists>b' b''. seq (iop_goto IOP_SCC 0xfffe) (seq (for_each [1, 2, 3] (IOP_write IOP_SCC 4)) (iop_goto IOP_SCC 0xfffe)) iop_machine = Ok () b' \<and>
    collect 3 (IOP_read IOP_SCC 4) b' = Ok [1, 2, 3] b''"
proof -
  have s: "bit (iop_status (iop_of IOP_SCC (dev iop_machine))) 1" by (simp add: iop_machine_def)
  show ?thesis using iop_block_roundtrip [OF s, of "[1, 2, 3]" "0xfffe"] by (simp del: for_each.simps collect.simps add: numeral_3_eq_3)
qed

section \<open>The buffer of a sound channel\<close>

lemma snd_run: "snd_mod c f b = Ok () (b\<lparr>dev := (dev b)\<lparr>asc := (asc (dev b))\<lparr>asc_ch := (asc_ch (asc (dev b)))(c := f (asc_ch (asc (dev b)) c))\<rparr>\<rparr>\<rparr>)"
  by (simp add: snd_mod_def)

abbreviation chan :: "devs bus \<Rightarrow> scc_chan \<Rightarrow> ASC_CH" where
  "chan b c \<equiv> asc_ch (asc (dev b)) c"

text \<open>
  A program that ends by returning and takes channel \<open>c\<close> from \<open>h\<close> to \<open>h'\<close>, and leaves the other
  channel and the registers of the chip alone.
\<close>

definition takes :: "scc_chan \<Rightarrow> ASC_CH \<Rightarrow> unit device \<Rightarrow> ASC_CH \<Rightarrow> bool" where
  "takes c h m h' \<longleftrightarrow> (\<forall>b. chan b c = h \<longrightarrow> (\<exists>b'. m b = Ok () b' \<and>
     asc (dev b') = (asc (dev b))\<lparr>asc_ch := (asc_ch (asc (dev b)))(c := h')\<rparr>))"

lemma takes_seq: "takes c h m h' \<Longrightarrow> takes c h' n h'' \<Longrightarrow> takes c h (seq m n) h''"
proof -
  assume m: "takes c h m h'" and n: "takes c h' n h''"
  show ?thesis
    unfolding takes_def
  proof (intro allI impI)
    fix b
    assume "chan b c = h"
    then obtain b1 where b1: "m b = Ok () b1" "asc (dev b1) = (asc (dev b))\<lparr>asc_ch := (asc_ch (asc (dev b)))(c := h')\<rparr>"
      using m by (auto simp: takes_def)
    moreover from this have "chan b1 c = h'" by simp
    ultimately obtain b2 where "n b1 = Ok () b2" "asc (dev b2) = (asc (dev b1))\<lparr>asc_ch := (asc_ch (asc (dev b1)))(c := h'')\<rparr>"
      using n unfolding takes_def by blast
    with b1 show "\<exists>b'. seq m n b = Ok () b' \<and> asc (dev b') = (asc (dev b))\<lparr>asc_ch := (asc_ch (asc (dev b)))(c := h'')\<rparr>"
      by simp
  qed
qed

lemma takes_return: "takes c h (return ()) h"
  by (auto simp: takes_def)

lemma takes_mod: "takes c h (snd_mod c f) (f h)"
  by (auto simp: takes_def snd_run)

lemma takes_irq: "takes c h (irq w i) h"
  by (auto simp: takes_def irq_run Let_def)

lemma takes_get: "takes c h (f (g h)) h' \<Longrightarrow> takes c h (bind (snd_get c g) f) h'"
  by (simp add: takes_def snd_get_def)

lemma takes_when: "(p \<Longrightarrow> takes c h m h') \<Longrightarrow> takes c h (whenM p m) (if p then h' else h)"
  by (simp add: whenM_def takes_return)

text \<open>One byte: it goes to its place, and the last one plays the buffer.\<close>

definition after_byte :: "u8 \<Rightarrow> ASC_CH \<Rightarrow> ASC_CH" where
  "after_byte v h =
     (let p = (FIFO_WRITEP h + 1) AND 0x3ff;
          h1 = h\<lparr>FIFO := (FIFO h)(unat (FIFO_WRITEP h) := v), FIFO_WRITEP := p, fifo_half := p \<le> 0x1ff\<rparr> in
      if p = 0 then h1\<lparr>fifo_full := True, timerH := True, timerF := True, played := played h @ [samples (h1\<lparr>fifo_full := True\<rparr>)]\<rparr>
      else h1)"

lemma takes_if_same: "takes c h (whenM p m) h" if "takes c h m h"
  using that by (simp add: whenM_def takes_return)

lemma takes_byte:
  assumes "FIFO_WRITEP h \<le> 0x3ff" and "SAMPLE_RATE h \<noteq> 0"
  shows "takes c h (fifo_write c v) (after_byte v h)"
proof -
  let ?p = "(FIFO_WRITEP h + 1) AND 0x3ff"
  let ?h0 = "h\<lparr>FIFO := (FIFO h)(unat (FIFO_WRITEP h) := v)\<rparr>"
  let ?h1 = "?h0\<lparr>FIFO_WRITEP := ?p\<rparr>\<lparr>fifo_half := ?p \<le> 0x1ff\<rparr>"
  let ?h2 = "?h1\<lparr>fifo_full := True\<rparr>" let ?h3 = "?h2\<lparr>timerH := True, timerF := True\<rparr>"
  have i: "unat (FIFO_WRITEP h) < 0x400" using assms(1) by (simp add: word_le_nat_alt)
  have put: "takes c h (bind (snd_get c FIFO_WRITEP) (\<lambda>p. fifo_put c (unat p) v)) ?h0"
    using takes_mod [of c h "\<lambda>g. g\<lparr>FIFO := (FIFO g)(unat (FIFO_WRITEP h) := v)\<rparr>"]
    by (intro takes_get) (simp add: fifo_put_def i)
  have full: "takes c ?h2 (bind (snd_get c samples) (\<lambda>out. seq (set_fifotimer c) (snd_mod c (\<lambda>h. h\<lparr>played := played h @ [out]\<rparr>))))
      (?h3\<lparr>played := played ?h3 @ [samples ?h2]\<rparr>)"
    by (rule takes_get, rule takes_seq, unfold set_fifotimer_def, rule takes_get)
      (simp add: assms(2), rule takes_mod, rule takes_mod)
  have 1: "takes c h (seq (snd_mod c f) m) h'" if "takes c (f h) m h'" for f h m h'
    using takes_mod that by (rule takes_seq)
  have irq: "takes c h (bind (snd_get c IRQ_CTL) (\<lambda>e. whenM (p = 0x200 \<and> e) (irq VIA2 CB1))) h" for h p
    by (rule takes_get, rule takes_if_same, rule takes_irq)
  have last: "takes c ?h1 (whenM (?p = 0) (seq (snd_mod c (\<lambda>h. h\<lparr>fifo_full := True\<rparr>)) (seq (irq VIA2 CB1)
      (bind (snd_get c samples) (\<lambda>out. seq (set_fifotimer c) (snd_mod c (\<lambda>h. h\<lparr>played := played h @ [out]\<rparr>)))))))
      (if ?p = 0 then ?h3\<lparr>played := played ?h3 @ [samples ?h2]\<rparr> else ?h1)"
    by (rule takes_when, rule 1, rule takes_seq [OF takes_irq full])
  have "takes c h (fifo_write c v) (if ?p = 0 then ?h3\<lparr>played := played ?h3 @ [samples ?h2]\<rparr> else ?h1)"
    unfolding fifo_write_def
    by (rule takes_seq [OF put], rule 1, rule 1, rule takes_get, rule takes_seq [OF irq]) (use last in simp)
  moreover have "(if ?p = 0 then ?h3\<lparr>played := played ?h3 @ [samples ?h2]\<rparr> else ?h1) = after_byte v h"
    by (simp add: after_byte_def Let_def)
  ultimately show ?thesis by simp
qed

section \<open>Sound is played in buffers\<close>

text \<open>
  What a channel promises in the modes that play: the bytes written queue up, and every 1024 of
  them are played, in order, each to the left and to the right as the signed amplitude that the
  volume of the side makes of it.
\<close>

record player =
  queued :: "u8 list"
  heard :: "int list list"
  left :: u8
  right :: u8

definition amplitude :: "u8 \<Rightarrow> u8 \<Rightarrow> int" where
  "amplitude v vol = uint v * uint vol - 0x8000"

definition enqueue :: "u8 \<Rightarrow> player \<Rightarrow> player" where
  "enqueue v p = (let q = queued p @ [v] in
     if length q = 0x400 then p\<lparr>queued := [],
       heard := heard p @ [concat (map (\<lambda>v. [amplitude v (left p), amplitude v (right p)]) q)]\<rparr>
     else p\<lparr>queued := q\<rparr>)"

text \<open>Writes to the two windows of the buffers and to the volumes of the two channels.\<close>

definition sound_register :: "u32 \<Rightarrow> bool" where
  "sound_register a \<longleftrightarrow> a < 0x800 \<or> a \<in> {0xf06, 0xf07, 0xf26, 0xf27}"

definition sound_write :: "u32 \<times> u8 \<Rightarrow> (scc_chan \<Rightarrow> player) \<Rightarrow> scc_chan \<Rightarrow> player" where
  "sound_write = (\<lambda>(a, v) P.
     let c = (if a < 0x400 \<or> a = 0xf06 \<or> a = 0xf07 then chA else chB) in
     P(c := if a < 0x800 then enqueue v (P c)
            else if a = 0xf06 \<or> a = 0xf26 then (P c)\<lparr>left := v\<rparr> else (P c)\<lparr>right := v\<rparr>))"

definition player_of :: "ASC_CH \<Rightarrow> player" where
  "player_of h = \<lparr>queued = map (FIFO h) [0..<unat (FIFO_WRITEP h)], heard = map (map sint) (played h),
     left = left_vol h, right = right_vol h\<rparr>"

lemma flip_sign: "x XOR 0x8000 = x - 0x8000" for x :: u16
proof -
  define k :: u16 where "k = push_bit 15 1"
  have b: "(0x8000 :: u16) = k" "bit k n \<longleftrightarrow> n = 15" for n
    by (simp add: k_def) (unfold k_def bit_push_bit_iff bit_1_iff, auto)
  show ?thesis
  proof (cases "bit x 15")
    case True
    have "x - k = x AND NOT k"
      by (rule disjunctive_diff) (use True in \<open>simp add: b(2)\<close>)
    also have "\<dots> = x XOR k"
      by (rule bit_word_eqI) (use True in \<open>auto simp: b(2) bit_and_iff bit_xor_iff bit_not_iff\<close>)
    finally show ?thesis by (simp only: b(1))
  next
    case False
    have "x + k = x OR k"
      by (rule disjunctive_add) (use False in \<open>auto simp: b(2)\<close>)
    also have "\<dots> = x XOR k"
      by (rule bit_word_eqI) (use False in \<open>auto simp: b(2) bit_or_iff bit_xor_iff\<close>)
    finally have "x + 0x8000 = x XOR 0x8000" by (simp only: b(1))
    moreover have "x - 0x8000 = x + 0x8000" by (simp add: diff_eq_eq add.assoc)
    ultimately show ?thesis by simp
  qed
qed

lemma sint_sample: "sint (sample v vol) = amplitude v vol"
proof -
  have le: "uint v * uint vol \<le> 255 * 255"
    using uint_lt2p [of v] uint_lt2p [of vol] by (intro mult_mono) auto
  then have "take_bit 32 (uint v * uint vol) = uint v * uint vol"
    by (intro take_bit_int_eq_self) auto
  then have "ucast (word_of_int (uint v * uint vol) :: u32) = (word_of_int (uint v * uint vol) :: u16)"
    by (simp add: unsigned_of_int del: of_int_mult)
  then have "sample v vol = (ucast v * ucast vol) XOR 0x8000"
    unfolding sample_def by (simp add: unsigned_xor_eq)
  also have "\<dots> = word_of_int (amplitude v vol)"
    unfolding flip_sign by (simp add: amplitude_def)
  finally have w: "sample v vol = word_of_int (amplitude v vol)" .
  have "0 \<le> uint v * uint vol"
    by simp
  with le show ?thesis
    unfolding w sint_sbintrunc' by (intro signed_take_bit_int_eq_self) (auto simp: amplitude_def)
qed

text \<open>One byte: the registers of the channel follow the queue.\<close>

lemma next_place:
  assumes "p \<le> 0x3ff"
  shows "unat ((p + 1) AND 0x3ff :: u16) = (if unat p = 0x3ff then 0 else Suc (unat p))"
    "(p + 1) AND 0x3ff = 0 \<longleftrightarrow> unat p = 0x3ff"
proof -
  have p: "unat p \<le> 0x3ff"
    using assms by (simp add: word_le_nat_alt)
  then have "unat (p + 1) = Suc (unat p)"
    by (simp add: unat_word_ariths)
  moreover have "(p + 1) AND 0x3ff = take_bit 10 (p + 1)"
    by (simp add: take_bit_eq_mask mask_eq_exp_minus_1)
  then have "unat ((p + 1) AND 0x3ff) = unat (p + 1) mod 1024"
    by (simp only: unsigned_take_bit_eq) (simp add: take_bit_eq_mod)
  ultimately show u: "unat ((p + 1) AND 0x3ff) = (if unat p = 0x3ff then 0 else Suc (unat p))"
    using p by simp
  have "(p + 1) AND 0x3ff = 0 \<longleftrightarrow> unat ((p + 1) AND 0x3ff) = 0"
    by (simp only: unat_eq_0)
  with u show "(p + 1) AND 0x3ff = 0 \<longleftrightarrow> unat p = 0x3ff"
    by simp
qed

lemma player_byte:
  assumes "FIFO_WRITEP h \<le> 0x3ff"
  shows "player_of (after_byte v h) = enqueue v (player_of h)"
proof -
  let ?n = "unat (FIFO_WRITEP h)" and ?p = "(FIFO_WRITEP h + 1) AND 0x3ff"
  let ?f = "(FIFO h)(?n := v)"
  have q: "map ?f [0..<Suc ?n] = map (FIFO h) [0..<?n] @ [v]"
    by simp
  show ?thesis
  proof (cases "?n = 0x3ff")
    case True
    let ?g = "h\<lparr>FIFO := ?f, FIFO_WRITEP := ?p, fifo_half := ?p \<le> 0x1ff, fifo_full := True\<rparr>"
    have z: "?p = 0"
      using True next_place(2) [OF assms] by simp
    have "map sint (samples ?g) = concat (map (\<lambda>v. [amplitude v (left_vol h), amplitude v (right_vol h)]) (map ?f [0..<0x400]))"
      unfolding samples_def by (simp only: map_concat map_map o_def) (simp add: sint_sample)
    also have "0x400 = Suc ?n"
      using True by simp
    also note q
    finally have out: "map sint (samples ?g) =
        concat (map (\<lambda>v. [amplitude v (left_vol h), amplitude v (right_vol h)]) (map (FIFO h) [0..<?n] @ [v]))" .
    have "after_byte v h = ?g\<lparr>timerH := True, timerF := True, played := played h @ [samples ?g]\<rparr>"
      by (simp add: after_byte_def z Let_def)
    then have "player_of (after_byte v h) = (player_of h)\<lparr>queued := [], heard := heard (player_of h) @ [map sint (samples ?g)]\<rparr>"
      by (simp add: player_of_def z)
    also have "\<dots> = enqueue v (player_of h)"
      unfolding out by (simp add: enqueue_def player_of_def True)
    finally show ?thesis .
  next
    case False
    then show ?thesis
      using next_place [OF assms] q by (simp add: player_of_def after_byte_def enqueue_def Let_def)
  qed
qed

text \<open>A write to the chip: one of the channels takes it.\<close>

definition plays :: "ASC_CH \<Rightarrow> bool" where
  "plays h \<longleftrightarrow> FIFO_WRITEP h \<le> 0x3ff \<and> SAMPLE_RATE h \<noteq> 0"

lemma plays_byte: "plays h \<Longrightarrow> plays (after_byte v h)"
  by (simp add: plays_def after_byte_def Let_def word_and_le1)

lemma takes_sound:
  assumes "takes c (chan b c) m h" "\<And>d. plays (chan b d)" "plays h"
  shows "\<exists>b'. m b = Ok () b' \<and> asc_mode (asc (dev b')) = asc_mode (asc (dev b)) \<and> (\<forall>d. plays (chan b' d)) \<and>
    (\<lambda>d. player_of (chan b' d)) = (\<lambda>d. player_of (chan b d))(c := player_of h)"
proof -
  obtain b' where b': "m b = Ok () b'" "asc (dev b') = (asc (dev b))\<lparr>asc_ch := (asc_ch (asc (dev b)))(c := h)\<rparr>"
    using assms(1) by (auto simp: takes_def)
  with assms(2-) show ?thesis
    by (intro exI [of _ b']) (auto simp: fun_eq_iff)
qed

lemma volume_run:
  "takes c h (write_reg c 6 v) (h\<lparr>left_vol := v\<rparr>)" "takes c h (write_reg c 7 v) (h\<lparr>right_vol := v\<rparr>)"
  using takes_mod [of c h "\<lambda>h. h\<lparr>left_vol := v\<rparr>"] takes_mod [of c h "\<lambda>h. h\<lparr>right_vol := v\<rparr>"]
  by (simp_all add: write_reg_def)

lemma player_volume:
  "player_of (h\<lparr>left_vol := v\<rparr>) = (player_of h)\<lparr>left := v\<rparr>" "player_of (h\<lparr>right_vol := v\<rparr>) = (player_of h)\<lparr>right := v\<rparr>"
  "plays (h\<lparr>left_vol := v\<rparr>) = plays h" "plays (h\<lparr>right_vol := v\<rparr>) = plays h"
  by (simp_all add: player_of_def plays_def)

lemma sound_write_window:
  "a < 0x400 \<Longrightarrow> sound_write (a, v) P = P(chA := enqueue v (P chA))"
  "\<not> a < 0x400 \<Longrightarrow> a < 0x800 \<Longrightarrow> sound_write (a, v) P = P(chB := enqueue v (P chB))"
  "a < 0x400 \<Longrightarrow> asc_mode (asc (dev b)) \<noteq> 2 \<Longrightarrow> ASC_write a v b = fifo_write chA v b"
  "\<not> a < 0x400 \<Longrightarrow> a < 0x800 \<Longrightarrow> asc_mode (asc (dev b)) \<noteq> 2 \<Longrightarrow> ASC_write a v b = fifo_write chB v b"
  by (auto simp: sound_write_def ASC_write_def word_less_nat_alt)

lemma sound_write_volume:
  "sound_write (0xf06, v) P = P(chA := (P chA)\<lparr>left := v\<rparr>)" "sound_write (0xf07, v) P = P(chA := (P chA)\<lparr>right := v\<rparr>)"
  "sound_write (0xf26, v) P = P(chB := (P chB)\<lparr>left := v\<rparr>)" "sound_write (0xf27, v) P = P(chB := (P chB)\<lparr>right := v\<rparr>)"
  "ASC_write 0xf06 v = write_reg chA 6 v" "ASC_write 0xf07 v = write_reg chA 7 v"
  "ASC_write 0xf26 v = write_reg chB 6 v" "ASC_write 0xf27 v = write_reg chB 7 v"
  by (simp_all add: sound_write_def ASC_write_def)

lemma write_sound:
  assumes mode: "asc_mode (asc (dev b)) \<noteq> 2" and plays: "\<And>d. plays (chan b d)" and "sound_register a"
  shows "\<exists>b'. ASC_write a v b = Ok () b' \<and> asc_mode (asc (dev b')) = asc_mode (asc (dev b)) \<and> (\<forall>d. plays (chan b' d)) \<and>
    (\<lambda>d. player_of (chan b' d)) = sound_write (a, v) (\<lambda>d. player_of (chan b d))"
proof -
  have byte: "takes c (chan b c) (fifo_write c v) (after_byte v (chan b c))"
    and enq: "player_of (after_byte v (chan b c)) = enqueue v (player_of (chan b c))" for c
    using plays [of c] by (auto simp: plays_def takes_byte player_byte)
  note bytes = takes_sound [OF byte plays plays_byte [OF plays], unfolded enq]
  note left = takes_sound [OF volume_run(1) plays, unfolded player_volume, OF plays]
  note right = takes_sound [OF volume_run(2) plays, unfolded player_volume, OF plays]
  consider "a < 0x400" | "\<not> a < 0x400" "a < 0x800" | "a = 0xf06" | "a = 0xf07" | "a = 0xf26" | "a = 0xf27"
    using assms(3) by (auto simp: sound_register_def)
  then show ?thesis
  proof cases
    case 1
    show ?thesis using bytes [of chA] by (simp only: sound_write_window(1) [OF 1] sound_write_window(3) [OF 1 mode])
  next
    case 2
    show ?thesis using bytes [of chB] by (simp only: sound_write_window(2) [OF 2] sound_write_window(4) [OF 2 mode])
  next
    case 3
    show ?thesis unfolding 3 sound_write_volume by (rule left)
  next
    case 4
    show ?thesis unfolding 4 sound_write_volume by (rule right)
  next
    case 5
    show ?thesis unfolding 5 sound_write_volume by (rule left)
  next
    case 6
    show ?thesis unfolding 6 sound_write_volume by (rule right)
  qed
qed

text \<open>
  C36. The buffers of the sound chip refine two queues: in every mode but that of the wave table,
  whatever bytes are written to the windows of the two channels and to their volume registers, in any
  order, the bytes of a channel queue up, nothing is played before there are 1024 of them, and with
  each 1024th byte of a channel all of them are played in order, left and right in turn, with the
  volumes of that moment, as signed amplitudes; the queue is empty then. A channel whose sample rate
  is 0 is left out: its timers have no interval that is a number.
\<close>

theorem sound_plays:
  assumes "asc_mode (asc (dev b)) \<noteq> 2" and "\<And>c. FIFO_WRITEP (chan b c) \<le> 0x3ff \<and> SAMPLE_RATE (chan b c) \<noteq> 0"
    and "\<forall>(a, v) \<in> set ws. sound_register a"
  shows "\<exists>b'. for_each ws (\<lambda>(a, v). ASC_write a v) b = Ok () b' \<and>
    (\<lambda>c. player_of (chan b' c)) = fold sound_write ws (\<lambda>c. player_of (chan b c))"
proof -
  have "\<And>c. plays (chan b c)"
    using assms(2) by (simp add: plays_def)
  with assms(1,3) show ?thesis
  proof (induction ws arbitrary: b)
    case (Cons w ws)
    obtain a v where w: "w = (a, v)" by (cases w)
    with Cons.prems obtain b1 where "ASC_write a v b = Ok () b1" "asc_mode (asc (dev b1)) \<noteq> 2" "\<And>d. plays (chan b1 d)"
      "(\<lambda>d. player_of (chan b1 d)) = sound_write (a, v) (\<lambda>d. player_of (chan b d))"
      using write_sound [of b a v] by auto
    with Cons.IH [of b1] Cons.prems show ?case by (simp add: w)
  qed simp
qed

text \<open>A buffer full of one value, after its volumes were set.\<close>

lemma enqueue_bytes: "length (queued p) + length vs < 0x400 \<Longrightarrow> fold enqueue vs p = p\<lparr>queued := queued p @ vs\<rparr>"
  by (induction vs arbitrary: p) (simp_all add: enqueue_def Let_def)

lemma enqueue_window: "a < 0x400 \<Longrightarrow> fold sound_write (map (Pair a) vs) P = P(chA := fold enqueue vs (P chA))"
  by (induction vs arbitrary: P) (simp_all add: sound_write_window)

definition sound_machine :: "devs bus" where
  "sound_machine = devs_bus\<lparr>dev := devs_static\<lparr>asc := (asc devs_static)\<lparr>asc_ch := (\<lambda>_. snd_static\<lparr>SAMPLE_RATE := 22050\<rparr>)\<rparr>\<rparr>\<rparr>"

theorem sound_plays_witness:
  "\<exists>b'. for_each ((0xf06, 2) # map (Pair 0) (replicate 0x400 0x80)) (\<lambda>(a, v). ASC_write a v) sound_machine = Ok () b' \<and>
    (let p = player_of (chan b' chA) in queued p = [] \<and> map (take 2) (heard p) = [[- 32512, - 32768]])"
proof -
  define p where "p = \<lparr>queued = [], heard = [], left = 2, right = 0\<rparr>"
  let ?P = "\<lambda>c. player_of (chan sound_machine c)" and ?vs = "replicate 0x3ff (0x80 :: u8)"
  have P: "sound_write (0xf06, 2) ?P chA = p"
    by (simp add: sound_write_volume p_def player_of_def sound_machine_def snd_static_def)
  have "replicate 0x400 (0x80 :: u8) = ?vs @ [0x80]"
    unfolding replicate_append_same replicate_Suc [symmetric] by simp
  moreover have few: "?vs = 0x80 # replicate 0x3fe 0x80"
    unfolding replicate_Suc [symmetric] by simp
  ultimately have "fold enqueue (replicate 0x400 0x80) p = enqueue 0x80 (p\<lparr>queued := ?vs\<rparr>)"
    using enqueue_bytes [of p ?vs] by (simp add: p_def)
  also have "\<dots> = p\<lparr>heard := [concat (map (\<lambda>v. [amplitude v 2, amplitude v 0]) (?vs @ [0x80]))]\<rparr>"
    by (simp add: enqueue_def p_def)
  also have "concat (map (\<lambda>v. [amplitude v 2, amplitude v 0]) (?vs @ [0x80])) =
      - 32512 # - 32768 # concat (map (\<lambda>v. [amplitude v 2, amplitude v 0]) (replicate 0x3fe 0x80 @ [0x80]))"
    unfolding few by (simp add: amplitude_def del: map_replicate replicate.simps)
  finally have heard: "queued (fold enqueue (replicate 0x400 0x80) p) = []"
    "map (take 2) (heard (fold enqueue (replicate 0x400 0x80) p)) = [[- 32512, - 32768]]"
    by (simp_all add: p_def)
  have window: "fold sound_write ((0xf06, 2) # map (Pair 0) vs) ?P chA = fold enqueue vs p" for vs
    using enqueue_window [of 0 vs "sound_write (0xf06, 2) ?P"] P by simp
  have reg: "\<forall>(a, v) \<in> set ((0xf06, 2) # map (Pair 0) (replicate 0x400 0x80)). sound_register a"
    by (simp add: sound_register_def)
  have "asc_mode (asc (dev sound_machine)) \<noteq> 2" "FIFO_WRITEP (chan sound_machine c) \<le> 0x3ff \<and> SAMPLE_RATE (chan sound_machine c) \<noteq> 0" for c
    by (simp_all add: sound_machine_def snd_static_def devs_static_def)
  from sound_plays [OF this reg] obtain b' where
    b': "for_each ((0xf06, 2) # map (Pair 0) (replicate 0x400 0x80)) (\<lambda>(a, v). ASC_write a v) sound_machine = Ok () b'"
    "(\<lambda>c. player_of (chan b' c)) = fold sound_write ((0xf06, 2) # map (Pair 0) (replicate 0x400 0x80)) ?P"
    by blast
  have "player_of (chan b' chA) = fold enqueue (replicate 0x400 0x80) p"
    using fun_cong [OF b'(2), of chA] unfolding window .
  with b'(1) heard show ?thesis by (auto simp del: for_each.simps simp: Let_def)
qed

section \<open>The receive queue of a serial channel\<close>

text \<open>
  What a channel promises of the bytes from its line: a queue of eight. A byte that finds it full
  is lost and leaves a mark; a read takes the oldest byte, from an empty queue the one read last.
\<close>

datatype line_event = Arrive u8 | Take

record rx_queue =
  waiting :: "u8 list"
  last_taken :: u8
  overrun :: bool

fun queue_run :: "line_event list \<Rightarrow> rx_queue \<Rightarrow> u8 list \<times> rx_queue" where
  "queue_run [] q = ([], q)"
| "queue_run (Arrive v # es) q =
     queue_run es (if length (waiting q) < 8 then q\<lparr>waiting := waiting q @ [v]\<rparr> else q\<lparr>overrun := True\<rparr>)"
| "queue_run (Take # es) q =
     (let q' = (case waiting q of [] \<Rightarrow> q | v # vs \<Rightarrow> q\<lparr>waiting := vs, last_taken := v\<rparr>);
          (vs, q'') = queue_run es q' in (last_taken q' # vs, q''))"

text \<open>The same events at a channel, and the queue its registers hold.\<close>

fun line_run :: "scc_chan \<Rightarrow> line_event list \<Rightarrow> u8 list device" where
  "line_run c [] = return []"
| "line_run c (Arrive v # es) = seq (recvData c v) (line_run c es)"
| "line_run c (Take # es) = bind (SccCh_read c 8) (\<lambda>v. bind (line_run c es) (\<lambda>vs. return (v # vs)))"

definition rx_queue_of :: "SccCh \<Rightarrow> rx_queue" where
  "rx_queue_of h = \<lparr>waiting = inBuf h, last_taken = lastInBuf h, overrun = bit (specialRecvStatus h) 5\<rparr>"

abbreviation rx_channel :: "devs bus \<Rightarrow> scc_chan \<Rightarrow> SccCh" where
  "rx_channel b c \<equiv> scc_ch (scc (dev b)) c"

text \<open>Interrupts leave the queue alone.\<close>

lemma recv_irq_run:
  "\<exists>b'. recv_irq c h b = Ok () b' \<and> rx_queue_of (rx_channel b' c) = rx_queue_of (rx_channel b c) \<and>
    recvParam (rx_channel b' c) = recvParam (rx_channel b c)"
  by (auto simp: recv_irq_def Let_def whenM_def doIrq_run seq_ch_mod ch_get_def ch_mod_run irq_scc_def rx_queue_of_def)

lemma arrive_run:
  assumes "\<not> bit (recvParam (rx_channel b c)) 1"
  shows "\<exists>b'. recvData c v b = Ok () b' \<and> recvParam (rx_channel b' c) = recvParam (rx_channel b c) \<and>
    rx_queue_of (rx_channel b' c) = (let q = rx_queue_of (rx_channel b c) in
      if length (waiting q) < 8 then q\<lparr>waiting := waiting q @ [v]\<rparr> else q\<lparr>overrun := True\<rparr>)"
proof -
  let ?h = "rx_channel b c"
  define h where "h = (if bit (wR1 ?h) 7 \<and> inBuf ?h = [] then ?h\<lparr>vSCCWrReq := bit (wR1 ?h) 6\<rparr> else ?h)"
  define upd where "upd g = b\<lparr>dev := (dev b)\<lparr>scc := (scc (dev b))\<lparr>scc_ch := (scc_ch (scc (dev b)))(c := g)\<rparr>\<rparr>\<rparr>" for g
  have h: "inBuf h = inBuf ?h" "recvParam h = recvParam ?h" "rx_queue_of h = rx_queue_of ?h"
    by (simp_all add: h_def rx_queue_of_def)
  have ch: "rx_channel (upd g) c = g" for g
    by (simp add: upd_def)
  show ?thesis
  proof (cases "length (inBuf ?h) < 8")
    case True
    let ?g = "h\<lparr>inBuf := inBuf h @ [v], bufStatus := bufStatus h OR 1\<rparr>"
    have "recvData c v b = recv_irq c h (upd ?g)"
      using True assms h by (simp add: recvData_def seq_ch_mod ch_get_def h_def [symmetric] upd_def)
    moreover have "rx_queue_of ?g = (rx_queue_of h)\<lparr>waiting := inBuf h @ [v]\<rparr>"
      by (simp add: rx_queue_of_def)
    ultimately show ?thesis
      using True recv_irq_run [of c h "upd ?g"] h by (auto simp: ch rx_queue_of_def)
  next
    case False
    let ?g = "h\<lparr>specialRecvStatus := specialRecvStatus h OR 0x20\<rparr>"
    have "recvData c v b = doIrq (special c) (upd ?g)"
      using False assms h by (simp add: recvData_def seq_ch_mod ch_get_def h_def [symmetric] upd_def)
    moreover have "rx_queue_of ?g = (rx_queue_of h)\<lparr>overrun := True\<rparr>"
      by (simp add: rx_queue_of_def bit_simps)
    moreover obtain b' where "doIrq (special c) (upd ?g) = Ok () b'" "rx_channel b' c = ?g"
      by (auto simp: doIrq_run irq_scc_def Let_def ch)
    ultimately show ?thesis
      using False h by (intro exI [of _ b']) (simp add: rx_queue_of_def)
  qed
qed

lemma take_run:
  "\<exists>b'. SccCh_read c 8 b = Ok (lastInBuf (rx_channel b' c)) b' \<and> recvParam (rx_channel b' c) = recvParam (rx_channel b c) \<and>
    rx_queue_of (rx_channel b' c) = (let q = rx_queue_of (rx_channel b c) in
      case waiting q of [] \<Rightarrow> q | v # vs \<Rightarrow> q\<lparr>waiting := vs, last_taken := v\<rparr>)"
  by (cases "inBuf (rx_channel b c)")
    (simp_all add: SccCh_read_def nextRecvData_def seq_ch_mod ch_get_def rx_queue_of_def)

lemma queue_bounded: "length (waiting q) \<le> 8 \<Longrightarrow> length (waiting (snd (queue_run es q))) \<le> 8"
  by (induction es q rule: queue_run.induct) (auto simp: Let_def split: list.splits prod.splits)

text \<open>
  C35. A channel of the serial controller refines a queue of eight bytes: whatever bytes arrive
  from the line and whenever the processor reads, the values read are those of the queue, in the
  order of their arrival; the channel never holds more than eight bytes; a byte that finds it
  full is dropped, keeps the eight that wait and sets the overrun bit, which nothing else here
  sets; and a read of the empty channel repeats the last byte. For the mode that does not strip
  synchronisation letters, whatever interrupts the channel requests.
\<close>

theorem serial_queue:
  assumes "\<not> bit (recvParam (rx_channel b c)) 1" and "length (inBuf (rx_channel b c)) \<le> 8"
  shows "\<exists>b'. line_run c es b = Ok (fst (queue_run es (rx_queue_of (rx_channel b c)))) b' \<and>
    rx_queue_of (rx_channel b' c) = snd (queue_run es (rx_queue_of (rx_channel b c))) \<and>
    length (inBuf (rx_channel b' c)) \<le> 8"
proof -
  have run: "\<exists>b'. line_run c es b = Ok (fst (queue_run es q)) b' \<and> rx_queue_of (rx_channel b' c) = snd (queue_run es q)"
    if "\<not> bit (recvParam (rx_channel b c)) 1" "rx_queue_of (rx_channel b c) = q" for b q
    using that
  proof (induction es q arbitrary: b rule: queue_run.induct)
    case (2 v es q)
    then obtain b1 where "recvData c v b = Ok () b1" "\<not> bit (recvParam (rx_channel b1 c)) 1"
      "rx_queue_of (rx_channel b1 c) = (if length (waiting q) < 8 then q\<lparr>waiting := waiting q @ [v]\<rparr> else q\<lparr>overrun := True\<rparr>)"
      using arrive_run [of b c v] by (auto simp: Let_def)
    with 2 show ?case by simp
  next
    case (3 es q)
    let ?q = "case waiting q of [] \<Rightarrow> q | v # vs \<Rightarrow> q\<lparr>waiting := vs, last_taken := v\<rparr>"
    obtain b1 where b1: "SccCh_read c 8 b = Ok (lastInBuf (rx_channel b1 c)) b1" "\<not> bit (recvParam (rx_channel b1 c)) 1"
      "rx_queue_of (rx_channel b1 c) = ?q"
      using take_run [of c b] 3 by (auto simp: Let_def)
    have "last_taken ?q = lastInBuf (rx_channel b1 c)"
      unfolding b1(3) [symmetric] by (simp add: rx_queue_of_def)
    moreover obtain b2 where "line_run c es b1 = Ok (fst (queue_run es ?q)) b2"
      "rx_queue_of (rx_channel b2 c) = snd (queue_run es ?q)"
      using 3(1) [OF refl b1(2,3)] by blast
    ultimately show ?case
      using b1(1) by (simp add: Let_def case_prod_beta)
  qed simp
  have "length (waiting (rx_queue_of (rx_channel b c))) \<le> 8"
    using assms(2) by (simp add: rx_queue_of_def)
  from queue_bounded [OF this, of es] run [OF assms(1) refl] show ?thesis
    by (metis rx_queue.select_convs(1) rx_queue_of_def)
qed

text \<open>Ten bytes arrive, nine are read: eight of the ten and the last of them again.\<close>

theorem serial_queue_witness:
  "\<exists>b'. line_run chB (map Arrive [1, 2, 3, 4, 5, 6, 7, 8, 9, 10] @ replicate 9 Take) devs_bus = Ok [1, 2, 3, 4, 5, 6, 7, 8, 8] b' \<and>
    overrun (rx_queue_of (rx_channel b' chB))"
proof -
  have start: "rx_queue_of (rx_channel devs_bus chB) = \<lparr>waiting = [], last_taken = 0, overrun = False\<rparr>"
    by (simp add: rx_queue_of_def devs_bus_def devs_static_def ch_static_def)
  have "queue_run (map Arrive [1, 2, 3, 4, 5, 6, 7, 8, 9, 10] @ replicate 9 Take) \<lparr>waiting = [], last_taken = 0, overrun = False\<rparr> =
    ([1, 2, 3, 4, 5, 6, 7, 8, 8], \<lparr>waiting = [], last_taken = 8, overrun = True\<rparr>)"
    by code_simp
  with serial_queue [of devs_bus chB "map Arrive [1, 2, 3, 4, 5, 6, 7, 8, 9, 10] @ replicate 9 Take"] show ?thesis
    unfolding start by (auto simp: devs_bus_def devs_static_def ch_static_def)
qed

end
