(* ===== verification/FpuProps.thy ===== *)
theory FpuProps
  imports Quadra
begin

text \<open>
  Properties of the floating-point unit: its control and status registers and its conditions by
  themselves, and what becomes of its registers in every run of the whole machine. The invariant
  of the last part is about the object \<open>cpu.fpu\<close> points to; everything outside the unit and
  everything done on the copy that \<open>fop\<close> makes leaves that object alone.
\<close>

unbundle bit_operations_syntax

section \<open>Control and status registers\<close>

lemma two_bits: "(drop_bit k v :: 'a::len word) AND 3 \<in> {0, 1, 2, 3}" if "1 < LENGTH('a)"
proof -
  have "uint (drop_bit k v AND 3) \<le> uint (3 :: 'a word)" by (simp add: uint_and AND_upper2)
  also have "uint (3 :: 'a word) \<le> 3" by (simp add: take_bit_int_less_eq_self_iff)
  finally have "uint (drop_bit k v AND 3) \<le> 3" .
  moreover have "0 \<le> uint (drop_bit k v AND 3)" by simp
  moreover have "x \<in> {0, 1, 2, 3}" if "x \<le> 3" "0 \<le> x" for x :: int using that by auto
  ultimately have "uint (drop_bit k v AND 3) \<in> {0, 1, 2, 3}" by blast
  from imageI [OF this, of "word_of_int :: int \<Rightarrow> 'a word"] show ?thesis by simp
qed

lemma rnd_code_set: "rnd_code (RND (FPCR_t_set v)) = drop_bit 4 v AND 3"
  using two_bits [of 4 v] by (auto simp: FPCR_t_set_def)

lemma prec_code_set: "prec_code (PREC (FPCR_t_set v)) = Some (if drop_bit 6 v AND 3 = 3 then 0 else drop_bit 6 v AND 3)"
  using two_bits [of 6 v] by (auto simp: FPCR_t_set_def)

lemma field_bits: "push_bit k (drop_bit k v) AND push_bit k m = v AND push_bit k m" for v :: "'a::len word"
  by (rule bit_word_eqI) (auto simp: bit_simps)

lemma field4: "push_bit 4 (drop_bit 4 v) AND 48 = v AND 48" for v :: u16
  using field_bits [of 4 v 3] by simp

lemma field6: "push_bit 6 (drop_bit 6 v) AND 192 = v AND 192" for v :: u16
  using field_bits [of 6 v 3] by simp

lemma flag_bit: "push_bit k (of_bool (bit v k)) = v AND push_bit k 1" for v :: "'a::len word"
  by (rule bit_word_eqI) (auto simp: bit_simps)

text \<open>
  The control and the status register of the floating-point unit read back every bit the unit
  has: in the control register the four lowest bits are not there and the fourth precision means
  the first, in the status register the four highest and the three lowest are not there.
\<close>

theorem control_register_roundtrip:
  "FPCR_t_value (FPCR_t_set v) = Some (v AND (if drop_bit 6 v AND 3 = 3 then 0xff30 else 0xfff0)) \<and>
   FPSR_t_value (FPSR_t_set x) = x AND 0x0ffffff8"
proof
  have d: "a AND b OR a AND c = a AND (b OR c)" for a b c :: "'a::len word"
    by (simp add: bit.conj_disj_distrib)
  have "FPCR_t_value (FPCR_t_set v) = Some (push_bit 4 (drop_bit 4 v AND 3) OR push_bit 6 (if drop_bit 6 v AND 3 = 3 then 0 else drop_bit 6 v AND 3)
     OR v AND 0xff00)"
    unfolding FPCR_t_value_def rnd_code_set prec_code_set
    by (simp add: FPCR_t_set_def flag_bit d or.assoc)
  then show "FPCR_t_value (FPCR_t_set v) = Some (v AND (if drop_bit 6 v AND 3 = 3 then 0xff30 else 0xfff0))"
    by (simp add: field_bits d or.assoc field4 field6)
  have q: "push_bit 16 (ucast (ucast (drop_bit 16 x AND 0x7f) :: u8)) = x AND 0x7f0000"
  proof -
    have m: "0x7f = (mask 7 :: u32)" by (simp add: mask_eq_exp_minus_1)
    have "ucast (ucast (drop_bit 16 x AND 0x7f) :: u8) = drop_bit 16 x AND 0x7f"
      unfolding m by (rule bit_word_eqI) (auto simp: bit_simps)
    then show ?thesis using field_bits [of 16 x "0x7f"] by simp
  qed
  show "FPSR_t_value (FPSR_t_set x) = x AND 0x0ffffff8"
    by (simp add: FPSR_t_value_def FPSR_t_set_def flag_bit q d or.assoc)
qed


section \<open>Conditions\<close>

datatype fp_relation = Less | Equal | Greater | Unordered

text \<open>What the status register says of the operands, and what the names of the conditions mean.\<close>

definition relation :: "FPSR_t \<Rightarrow> fp_relation" where
  "relation r = (if CC_NAN r then Unordered else if CC_Z r then Equal else if CC_N r then Less else Greater)"

definition condition_of :: "(string \<times> fp_relation set) list" where
  "condition_of =
    [(''F'', {}), (''EQ'', {Equal}), (''OGT'', {Greater}), (''OGE'', {Greater, Equal}),
     (''OLT'', {Less}), (''OLE'', {Less, Equal}), (''OGL'', {Less, Greater}), (''OR'', {Less, Equal, Greater}),
     (''UN'', {Unordered}), (''UEQ'', {Unordered, Equal}), (''UGT'', {Unordered, Greater}), (''UGE'', {Unordered, Greater, Equal}),
     (''ULT'', {Unordered, Less}), (''ULE'', {Unordered, Less, Equal}), (''NE'', {Unordered, Less, Greater}),
     (''T'', {Unordered, Less, Equal, Greater})]"

text \<open>
  C39. Fourteen of the sixteen conditions hold exactly for the relations their names stand for;
  the other two, UGT and UGE, hold for unordered operands and for equal ones whose sign is not set,
  so that both miss Greater and the first takes Equal.
\<close>

theorem fp_conditions:
  assumes "v < 16" and "\<not> (CC_NAN r \<and> CC_Z r)"
  shows "test_Fcc r (of_nat v) \<longleftrightarrow>
    (if v = 10 \<or> v = 11 then relation r = Unordered \<or> relation r = Equal \<and> \<not> CC_N r
     else relation r \<in> snd (condition_of ! v))"
proof -
  have v: "v \<in> {0, 1, 2, 3, 4, 5, 6, 7, 8, 9, 10, 11, 12, 13, 14, 15}" using assms(1) unfolding insert_iff empty_iff by presburger
  show ?thesis
    using v assms(2) by (elim insertE emptyE; simp add: test_Fcc_def relation_def condition_of_def; auto)
qed

theorem fp_conditions_witness:
  "\<not> test_Fcc fpsr_static 10 \<and> relation fpsr_static = Greater \<and> test_Fcc fpsr_static 2"
  using fp_conditions [of 10 fpsr_static] fp_conditions [of 2 fpsr_static]
  by (simp add: fpsr_static_def relation_def condition_of_def)

section \<open>What the rest of the machine leaves alone\<close>

text \<open>An invariant of the object \<open>cpu.fpu\<close> points to.\<close>

definition unit_inv :: "(M68040FpuFull \<Rightarrow> bool) \<Rightarrow> 'd machine \<Rightarrow> bool" where
  "unit_inv P s \<longleftrightarrow> P (fpus s FPU_P)"

lemma unit_inv_simps [simp]:
  "unit_inv P (s\<lparr>cpu := c\<rparr>) = unit_inv P s" "unit_inv P (s\<lparr>bus := b\<rparr>) = unit_inv P s"
  "unit_inv P (s\<lparr>d_atc := d\<rparr>) = unit_inv P s" "unit_inv P (s\<lparr>i_atc := i\<rparr>) = unit_inv P s"
  "unit_inv P (s\<lparr>jit_tables := j\<rparr>) = unit_inv P s" "unit_inv P (s\<lparr>mpfr_state := g\<rparr>) = unit_inv P s"
  "unit_inv P (s\<lparr>fpus := F\<rparr>) = P (F FPU_P)"
  by (simp_all add: unit_inv_def)

lemma unit_on_bus [keeps_intro]: "keeps (unit_inv P) (\<lambda>_. True) (on_bus m)"
  unfolding on_bus_def by (rule keeps_lift_part [where J = "\<lambda>_. True"]) (auto simp: keeps_def split: outcome.split)

lemma unit_parts [keeps_intro]:
  "keeps (unit_inv P) (\<lambda>_. True) (Machine.cmod f)" "keeps (unit_inv P) (\<lambda>_. True) (atc_mod code sys k g)"
  "keeps (unit_inv P) (\<lambda>_. True) (modify (\<lambda>s. s\<lparr>jit_tables := j s\<rparr>))" "keeps (unit_inv P) (\<lambda>_. True) (on_io h)"
  unfolding Machine.cmod_def atc_mod_def on_io_def by (intro keeps_intro keeps_modify; simp)+

interpretation unit_cpu: guest_cpu "unit_inv P :: 'd machine \<Rightarrow> bool" "\<lambda>_. True" for P
  by unfold_locales (simp_all add: unit_on_bus unit_parts)

interpretation unit_copy: fpu_member "unit_inv P :: 'd machine \<Rightarrow> bool" "\<lambda>_. True" fpu_copy for P
  by unfold_locales (auto simp: unit_inv_def)

lemma unit_raise [keeps_intro]: "keeps (unit_inv P) (\<lambda>_. True) (RAISE n)"
  unfolding RAISE_def by (intro keeps_intro) simp_all

lemma unit_ex_access [keeps_intro]:
  "keeps (unit_inv P) (\<lambda>_. True) (ex_PUSH16 w)" "keeps (unit_inv P) (\<lambda>_. True) (ex_PUSH32 l)"
  "keeps (unit_inv P) (\<lambda>_. True) (ex_READL a)" "keeps (unit_inv P) (\<lambda>_. True) (ex_JUMP a)"
  "keeps (unit_inv P) (\<lambda>_. True) (vector_addr n)"
  unfolding ex_PUSH32_def ex_PUSH16_def ex_READL_def ex_JUMP_def double_fault_def vector_addr_def
  by (intro keeps_catch_PTestError unit_cpu.access_keeps keeps_intro; simp)+

lemma unit_do_rte [keeps_intro]: "keeps (unit_inv P) (\<lambda>_. True) do_rte"
proof -
  have "keeps (unit_inv P) (\<lambda>_. True) (do_rte_fuel k)" for k
  proof (induction k)
    case 0
    show ?case by (simp add: keeps_def)
  next
    case (Suc k)
    then show ?case
      unfolding do_rte_fuel.simps rte_finish_def rte_access_fault_def by (intro keeps_intro) simp_all
  qed
  then show ?thesis by (simp add: do_rte_def)
qed

lemma unit_mmu [keeps_intro]:
  "keeps (unit_inv P) (\<lambda>_. True) (ptest a sys code w)" "keeps (unit_inv P) (\<lambda>_. True) (op_ptest a w)"
  "keeps (unit_inv P) (\<lambda>_. True) (pflushn_impl a)" "keeps (unit_inv P) (\<lambda>_. True) (pflush_impl a)"
  "keeps (unit_inv P) (\<lambda>_. True) pflushan_impl" "keeps (unit_inv P) (\<lambda>_. True) pflusha_impl"
  "keeps (unit_inv P) (\<lambda>_. True) (cinvl_i a)" "keeps (unit_inv P) (\<lambda>_. True) (cinvp_i a)" "keeps (unit_inv P) (\<lambda>_. True) cinva_i"
  "keeps (unit_inv P) (\<lambda>_. True) (cpushl_i a)" "keeps (unit_inv P) (\<lambda>_. True) (cpushp_i a)" "keeps (unit_inv P) (\<lambda>_. True) cpusha_i"
  "keeps (unit_inv P) (\<lambda>_. True) cache_d"
  unfolding ptest_def ptest_entry_def atc_search_def atc_set_def atc_set_page_def pdt_lookup_def
    atc_search_not_found_def atc_get_def op_ptest_def op_ptest_in_def pflushn_impl_def pflush_impl_def pflushan_impl_def
    pflusha_impl_def flush_at_def dfc_user_def cinvl_i_def cinvp_i_def cinva_i_def cpushl_i_def cpushp_i_def cpusha_i_def
    cache_d_def Let_def
  by (intro keeps_intro; simp)+

lemma unit_privileged_ops:
  "h \<in> set (priv_handlers :: 'd handler list) \<Longrightarrow> keeps (unit_inv P) (\<lambda>_. True) (h op)"
proof -
  note defs = ori_w_sr_def andi_w_sr_def eori_w_sr_def moves_b_def moves_w_def moves_l_def
    move_from_sr_def move_to_sr_def move_to_usp_def move_from_usp_def reset_def stop_def
    stop_impl_def rte_def cinvl_dc_def cinvl_ic_def cinvl_bc_def cinvp_dc_def cinvp_ic_def
    cinvp_bc_def cinva_dc_def cinva_ic_def cinva_bc_def cpushl_dc_def cpushl_ic_def
    cpushl_bc_def cpushp_dc_def cpushp_ic_def cpushp_bc_def cpusha_dc_def cpusha_ic_def
    cpusha_bc_def pflushn_def pflush_def pflushan_def pflusha_def ptestr_def ptestw_def
    movec_from_cr_def movec_to_cr_def
  have "list_all (\<lambda>h. keeps (unit_inv P) (\<lambda>_. True) (h op)) (priv_handlers :: 'd handler list)"
    unfolding priv_handlers_def defs
    by (intro list_all_ConsI list_all_NilI keeps_intro; simp)
  then show "h \<in> set (priv_handlers :: 'd handler list) \<Longrightarrow> keeps (unit_inv P) (\<lambda>_. True) (h op)"
    by (simp add: list_all_iff)
qed

lemma unit_prologue: "keeps (unit_inv P) (\<lambda>_. True) (op_prologue pc)"
  unfolding op_prologue_def IRQ_def by (intro keeps_intro)

lemma unit_guest_ops:
  assumes "\<And>h op. h \<in> set (fpu_handlers fpu) \<Longrightarrow> keeps (unit_inv P) (\<lambda>_. True) (h op)"
  shows "guest_ops (unit_inv P) (\<lambda>_. True) fpu"
  by unfold_locales (simp_all add: assms unit_privileged_ops unit_prologue unit_on_bus)

lemma unit_handle_exception [keeps_intro]: "keeps (unit_inv P) (\<lambda>_. True) (handle_exception n)"
  unfolding handle_exception_def EXCEPTION0_def EXCEPTION2_def EXCEPTION3_def access_fault_frame_def interrupt_frame_def
    enter_vector_def
  by (intro keeps_intro)

lemma unit_main_run: "keeps (unit_inv P) (\<lambda>_. True) main_run"
  unfolding main_run_def RESET_def atc_invalidate_all_def by (intro keeps_intro)

lemma unit_cpu_turn:
  assumes "guest_ops (unit_inv P) (\<lambda>_. True) fpu"
  shows "keeps (unit_inv P) (\<lambda>_. True) (cpu_turn (fpu :: 'd fpu_ops option))"
proof -
  have i: "keeps (unit_inv P) (\<lambda>_. True) (inner_turn fpu)"
    unfolding inner_turn_def by (intro keeps_intro guest_ops.run_op_keeps [OF assms])
  have "keeps (unit_inv P) (\<lambda>_. True) (seq (handle_exception n) (Machine.cmod (\<lambda>c. c\<lparr>bus_lock := False\<rparr>)))" for n
    by (intro keeps_intro)
  note h = keeps_Ok [OF this] keeps_Raise [OF this]
  show ?thesis
    by (rule keepsI) (auto simp: cpu_turn_def split: outcome.splits exn.splits
      dest: h keeps_Ok [OF i] keeps_Raise [OF i])
qed


lemma unit_start:
  assumes "quadra_start M rom s = Ok () s0"
  shows "\<exists>u. fresh M u \<and> (P u \<longrightarrow> unit_inv P s0)"
proof -
  obtain s1 where 1: "init_emu rom s = Ok () s1"
    "seq createFPU (seq (fpu_init M) (seq (on_bus initBus) main_run)) s1 = Ok () s0"
    using assms unfolding quadra_start_def by (auto simp: seq_eq_Ok)
  obtain u g where u: "seq createFPU (fpu_init M) s1 = Ok () (s1\<lparr>fpus := (fpus s1)(FPU_P := u), mpfr_state := g\<rparr>)" "fresh M u"
    using fpu_started by blast
  let ?t = "s1\<lparr>fpus := (fpus s1)(FPU_P := u), mpfr_state := g\<rparr>"
  have r: "seq (on_bus initBus) main_run ?t = Ok () s0"
    using 1(2) unfolding seq_assoc [of createFPU "fpu_init M", symmetric] by (simp add: u(1))
  have "keeps (unit_inv P) (\<lambda>_. True) (seq (on_bus initBus) main_run)" by (intro keeps_intro unit_main_run)
  from keeps_Ok [OF this r] have "P u \<longrightarrow> unit_inv P s0" by (simp add: unit_inv_def)
  with u(2) show ?thesis by blast
qed

lemma unit_step:
  assumes "guest_ops (unit_inv P) (\<lambda>_. True) fpu" and "quadra_step fpu s s'" and "unit_inv P s"
  shows "unit_inv P s'"
  using assms(2)
proof cases
  case sys
  then show ?thesis
  proof cases
    case turn
    with keeps_Ok [OF unit_cpu_turn [OF assms(1)]] assms(3) show ?thesis by blast
  qed (use assms(3) keeps_Ok [OF unit_on_bus] in auto)
next
  case (dev e)
  from keeps_Ok [OF unit_on_bus dev assms(3)] show ?thesis .
qed

lemma unit_reaches:
  assumes "guest_ops (unit_inv P) (\<lambda>_. True) fpu" and "quadra_reaches fpu s0 s" and "unit_inv P s0"
  shows "unit_inv P s"
  using assms(2) by (induction rule: quadra_reaches.induct) (use assms unit_step in blast)+

section \<open>A unit whose registers are not numbers\<close>

text \<open>
  What the documentation of the library says: \<open>mpfr_init2\<close> and \<open>mpfr_set_nan\<close> make a variable
  a NaN, and a copy of a NaN, a NaN rounded to another precision or brought into another range of
  exponents is a NaN.
\<close>

definition nan_laws :: "mpfr_lib \<Rightarrow> bool" where
  "nan_laws M \<longleftrightarrow>
     (\<forall>p x g. mpfr_nan_p M (written (mpfr_init2 M p x g))) \<and> (\<forall>x g. mpfr_nan_p M (written (mpfr_set_nan M x g))) \<and>
     (\<forall>y r x g. mpfr_nan_p M y \<longrightarrow> mpfr_nan_p M (written (mpfr1 M mpfr_set y r x g))) \<and>
     (\<forall>x. mpfr_nan_p M x \<longrightarrow> (\<forall>p r g. mpfr_nan_p M (written (mpfr_prec_round M p r x g))) \<and>
       (\<forall>t r g. mpfr_nan_p M (written (mpfr_check_range M t r x g)) \<and> mpfr_nan_p M (written (mpfr_subnormalize M t r x g))))"

definition all_nan :: "mpfr_lib \<Rightarrow> M68040FpuFull \<Rightarrow> bool" where
  "all_nan M u \<longleftrightarrow> FPCR u = fpcr_static \<and> FPIAR u = 0 \<and> mpfr_nan_p M (fp_tmp u) \<and> (\<forall>i < 8. mpfr_nan_p M (FP u i))"

abbreviation keeps_nan :: "mpfr_lib \<Rightarrow> ('d, 'a) mach \<Rightarrow> bool" where
  "keeps_nan M \<equiv> keeps (unit_inv (all_nan M)) (\<lambda>_. True)"

lemma nan_fput: "(\<And>u. all_nan M u \<Longrightarrow> all_nan M (f u)) \<Longrightarrow> keeps_nan M (fput FPU_P f)"
  unfolding fput_def by (rule keeps_modify) (simp add: unit_inv_def)

lemma nan_fget: "(\<And>u. all_nan M u \<Longrightarrow> keeps_nan M (k (f u))) \<Longrightarrow> keeps_nan M (bind (fget FPU_P f) k)"
  by (simp add: keeps_def unit_inv_def bind_def)

lemma nan_mread [keeps_intro]: "keeps_nan M (mread r)" "keeps_nan M (mset h)"
  unfolding mset_def by (auto simp: keeps_def mread_run)

lemma mtmp_run:
  "mtmp w f s = (case f (fpus s w) (fp_tmp (fpus s w)) (mpfr_state s) of (a, x, g) \<Rightarrow>
     Ok a (s\<lparr>fpus := (fpus s)(w := (fpus s w)\<lparr>fp_tmp := x\<rparr>), mpfr_state := g\<rparr>))"
  by (simp add: mtmp_def mread_run split: prod.split)

lemma nan_mtmp:
  assumes "\<And>u g. all_nan M u \<Longrightarrow> mpfr_nan_p M (written (f u (fp_tmp u) g))"
  shows "keeps_nan M (mtmp FPU_P f)"
  unfolding keeps_def
proof (intro allI impI)
  fix s :: "'d machine" assume s: "unit_inv (all_nan M) s"
  then have "mpfr_nan_p M (written (f (fpus s FPU_P) (fp_tmp (fpus s FPU_P)) (mpfr_state s)))"
    using assms [of "fpus s FPU_P" "mpfr_state s"] by (simp add: unit_inv_def)
  with s show "case mtmp FPU_P f s of Ok _ s' \<Rightarrow> unit_inv (all_nan M) s' | Raise e s' \<Rightarrow> unit_inv (all_nan M) s' \<and> True"
    by (auto simp: mtmp_run unit_inv_def all_nan_def split: prod.split)
qed

lemma nan_upd_sr [keeps_intro]: "keeps_nan M (upd_sr FPU_P f)"
  unfolding upd_sr_def by (rule nan_fput) (simp add: all_nan_def)

lemma nan_unit_fput [keeps_intro]:
  "keeps_nan M (fput FPU_P quiet_nan)" "keeps_nan M (fput FPU_P (\<lambda>u. u\<lparr>fp_tmp_tv := t u\<rparr>))"
  "keeps_nan M (fput FPU_P (\<lambda>u. u\<lparr>fp_tmp_nan := n u\<rparr>))" "keeps_nan M (fput FPU_P (\<lambda>u. u\<lparr>FPSR := r u\<rparr>))"
  "k < 8 \<Longrightarrow> keeps_nan M (fput FPU_P (\<lambda>u. if int k \<noteq> - 1 then swap_fp (nat (int k)) u else u))"
  by (rule nan_fput; simp add: all_nan_def quiet_nan_def swap_fp_def)+

lemma nan_calls:
  assumes "\<And>u g. all_nan M u \<Longrightarrow> mpfr_nan_p M (written (f u (fp_tmp u) g))"
  shows "keeps_nan M (mtv FPU_P (f :: M68040FpuFull \<Rightarrow> int writer))"
  unfolding mtv_def by (intro keeps_intro nan_mtmp assms)

lemma nan_mdo:
  assumes "\<And>u g. all_nan M u \<Longrightarrow> mpfr_nan_p M (written (f u (fp_tmp u) g))"
  shows "keeps_nan M (mdo FPU_P f)"
  unfolding mdo_def by (intro keeps_intro nan_mtmp assms)

lemma nan_testex [keeps_intro]: "keeps_nan M (testex M FPU_P)"
  unfolding testex_def by (intro keeps_intro unit_cpu.raises nan_fget; simp add: FP_EX_SNAN_def FP_EX_OPERR_def FP_EX_OVFL_def FP_EX_UNFL_def FP_EX_DIV0_def FP_EX_INEX_def unit_raise)


text \<open>A test for NaN fails, and what is guarded by it does not happen.\<close>

lemma nan_test:
  assumes "keeps_nan M (k False)"
  shows "keeps_nan M (bind (test_NAN1 M FPU_P) k)" "n < 8 \<Longrightarrow> keeps_nan M (bind (test_NAN2 M FPU_P n) k)"
proof -
  have 1: "keeps_nan M (bind (test_NAN1 M FPU_P) k)"
    unfolding test_NAN1_def bind_assoc
    by (rule nan_fget) (use assms in \<open>auto simp: all_nan_def seq_def bind_assoc intro!: keeps_bind nan_upd_sr\<close>)
  show "keeps_nan M (bind (test_NAN1 M FPU_P) k)" by (rule 1)
  show "keeps_nan M (bind (test_NAN2 M FPU_P n) k)" if "n < 8"
    unfolding test_NAN2_def bind_assoc
    by (rule nan_fget, rule nan_fget) (use assms in \<open>auto simp: all_nan_def seq_def bind_assoc intro!: keeps_bind nan_upd_sr\<close>)
qed

lemma nan_normalize: "nan_laws M \<Longrightarrow> keeps_nan M (normalize_fp M FPU_P p)"
  unfolding normalize_fp_def
  by (intro keeps_intro nan_calls; simp add: nan_laws_def all_nan_def)

lemma nan_store_fpr: "nan_laws M \<Longrightarrow> n < 8 \<Longrightarrow> keeps_nan M (store_fpr M FPU_P (int n) p)"
  unfolding store_fpr_def by (intro keeps_intro nan_fget nan_normalize nan_testex) simp_all

lemma nan_shape:
  assumes "nan_laws M" and "n < 8"
  shows "keeps_nan M (unary M FPU_P f p n)" "keeps_nan M (binary M FPU_P g p n)" "keeps_nan M (single M FPU_P g n)"
    "keeps_nan M (remainder M FPU_P q n)" "keeps_nan M (fgetexp M FPU_P n)" "keeps_nan M (fgetman M FPU_P n)"
    "keeps_nan M (fscale M FPU_P n)" "keeps_nan M (fsincos M FPU_P n k)" "keeps_nan M (fcmp M FPU_P n)" "keeps_nan M (ftst M FPU_P n)"
  unfolding unary_def binary_def single_def remainder_def fgetexp_def fgetman_def fscale_def fsincos_def fcmp_def ftst_def
  by (intro keeps_seq nan_test nan_store_fpr nan_testex assms nan_unit_fput; simp add: keeps_intro)+

lemma nan_fop_table: "nan_laws M \<Longrightarrow> list_all (\<lambda>(k, f). \<forall>n < 8. keeps_nan M (f M FPU_P n)) fop_table"
  unfolding fop_table_def
  by (simp add: nan_store_fpr nan_shape
    fmove_def fint_def fsinh_def fintrz_def fsqrt_def flognp1_def fetoxm1_def ftanh_def fatan_def fasin_def
    fatanh_def fsin_def ftan_def fetox_def ftwotox_def ftentox_def flogn_def flog10_def flog2_def fabs_def
    fcosh_def fneg_def facos_def fcos_def fdiv_def fmod_def fadd_def fmul_def fsgldiv_def
    frem_def fsglmul_def fsub_def fsmove_def fssqrt_def fdmove_def fdsqrt_def
    fsabs_def fsneg_def fdabs_def fdneg_def fsdiv_def fsadd_def fsmul_def fddiv_def fdadd_def fdmul_def fssub_def
    fdsub_def)

lemma nan_fop_do: "nan_laws M \<Longrightarrow> n < 8 \<Longrightarrow> keeps_nan M (fop_do M opc n)"
proof -
  assume M: "nan_laws M" and n: "n < 8"
  have "keeps_nan M (f M FPU_P n)" if "map_of fop_table opc = Some f" for f :: "mpfr_lib \<Rightarrow> fpu_obj \<Rightarrow> nat \<Rightarrow> ('d, unit) mach"
    using map_of_SomeD [OF that] nan_fop_table [OF M] n by (auto simp: list_all_iff)
  then show ?thesis unfolding fop_do_def by (auto intro!: keeps_intro nan_shape M n split: option.split)
qed

text \<open>Stores see a NaN and return its bits.\<close>

lemma nan_store_formats [keeps_intro]:
  assumes "nan_laws M"
  shows "keeps_nan M (storeX M FPU_P)" "keeps_nan M (storeS M FPU_P)" "keeps_nan M (storeD M FPU_P)" "keeps_nan M (store_fpP M FPU_P a k)"
    "keeps_nan M (store_int M FPU_P f m)" "keeps_nan M (storeL M FPU_P)" "keeps_nan M (storeW M FPU_P)" "keeps_nan M (storeB M FPU_P)"
  unfolding storeX_def storeS_def storeD_def store_fpP_def store_int_def storeL_def storeW_def storeB_def WriteLL_def Let_def
  by (intro keeps_seq keeps_whenM nan_mread nan_normalize assms keeps_bind [OF nan_mread(1)] nan_fget keeps_bind keeps_if keeps_return;
      simp add: all_nan_def keeps_intro)+

lemma nan_fpu_store: "nan_laws M \<Longrightarrow> n < 8 \<Longrightarrow> keeps_nan M (fpu_store M t ty reg n k)"
proof -
  assume M: "nan_laws M" and n: "n < 8"
  have "keeps_nan M (fstore_common M FPU_P n)"
    unfolding fstore_common_def
    by (intro keeps_seq nan_mdo nan_unit_fput) (use M n in \<open>simp add: nan_laws_def all_nan_def\<close>)
  then show ?thesis
    unfolding fpu_store_def fstore_l_def fstore_s_def fstore_x_def fstore_p_def fstore_w_def fstore_d_def fstore_b_def
      fstore_p2_def WriteLL_def
    by (intro keeps_intro M; simp)
qed


lemma nan_reset [keeps_intro]:
  assumes "nan_laws M"
  shows "keeps_nan M (fpu_reset M FPU_P)"
proof -
  have "FPCR_t_set 0 = fpcr_static" by (simp add: FPCR_t_set_def fpcr_static_def)
  then have f: "keeps_nan M (fput FPU_P (\<lambda>u. u\<lparr>fp_tmp_nan := QNAN_DEFAULT, FPIAR := 0, FPCR := FPCR_t_set 0, FPSR := FPSR_t_set 0\<rparr>))"
    by (intro nan_fput) (simp add: all_nan_def)
  have m: "keeps_nan M (mfp FPU_P i (\<lambda>_. mpfr_set_nan M))" for i
  proof -
    have "mpfr_nan_p M x" if "mpfr_set_nan M y g = (a, x, h)" for y g a x h
      using assms that unfolding nan_laws_def by (metis written.simps)
    then show ?thesis
      by (auto simp: mfp_def keeps_def mread_run unit_inv_def all_nan_def split: prod.split)
  qed
  show ?thesis
    unfolding fpu_reset_def
    by (intro keeps_seq nan_mread keeps_for_each m nan_mdo f nan_fput) (use assms in \<open>simp_all add: nan_laws_def all_nan_def\<close>)
qed

lemma nan_test_bsun [keeps_intro]: "keeps_nan M (test_bsun FPU_P)"
  unfolding test_bsun_def FP_EX_BSUN_def by (intro keeps_intro nan_fget)

lemma copy_frame [keeps_intro]: "keeps (unit_inv P) (\<lambda>_. True) copy_fpu"
  unfolding copy_fpu_def by (intro keeps_modify) (simp add: unit_inv_def)

lemma nan_fcc [keeps_intro]: "keeps_nan M (fcc v)"
  by (simp add: fcc_def keeps_def)

lemma register_number: "unat (drop_bit k v AND 7 :: u16) < 8"
  using word_and_le1 [of "drop_bit k v" 7] by (simp add: word_le_nat_alt)

lemma nan_handlers:
  assumes "nan_laws M"
  shows "keeps_nan M (fop M op)" "keeps_nan M (fscc op)" "keeps_nan M (fdbcc op)" "keeps_nan M (ftrapcc op)" "keeps_nan M (fbcc_w op)"
    "keeps_nan M (fbcc_l op)" "keeps_nan M (fsave op)" "keeps_nan M (frestore M op)"
  unfolding fop_def fop_moves_def reglist_def fscc_def fdbcc_def ftrapcc_def fbcc_w_def fbcc_l_def fbranch_def bsun_if_def
    fsave_def fsave_impl_def frestore_def frestore3_def frestore_impl_def do_frestore_common_def Let_def
  by (intro keeps_intro nan_fop_do nan_fpu_store register_number assms; simp)+

lemma nan_guest_ops: "nan_laws M \<Longrightarrow> guest_ops (unit_inv (all_nan M)) (\<lambda>_. True) (Some (full_fpu M))"
  by (rule unit_guest_ops) (use nan_handlers in \<open>auto simp: fpu_handlers_def full_fpu_def\<close>)

text \<open>
  C38. With a library that keeps to its documentation, no program ever gets a number into a
  register of the floating-point unit, nor changes its control register: in every state that
  can follow start-up the eight registers are NaNs, the control register is as at start-up and
  the instruction address register is zero. (Operands are loaded, and the control registers written,
  in the copy of the unit that \<open>fop\<close> makes.)
\<close>

theorem registers_stay_nan:
  assumes "nan_laws M" and "quadra_start M rom s = Ok () s0" and "quadra_reaches (Some (full_fpu M)) s0 s'"
  shows "(\<forall>i < 8. mpfr_nan_p M (FP (fpus s' FPU_P) i)) \<and> FPCR (fpus s' FPU_P) = fpcr_static \<and> FPIAR (fpus s' FPU_P) = 0"
proof -
  obtain u where "fresh M u" "all_nan M u \<longrightarrow> unit_inv (all_nan M) s0"
    using unit_start [OF assms(2)] by blast
  moreover from this(1) have "all_nan M u"
    using assms(1) by (auto simp: fresh_def all_nan_def nan_laws_def)
  ultimately have "unit_inv (all_nan M) s'"
    using unit_reaches [OF nan_guest_ops [OF assms(1)] assms(3)] by blast
  then show ?thesis by (simp add: unit_inv_def all_nan_def)
qed

lemma example_nan_laws: "nan_laws example_lib"
  by (simp add: nan_laws_def example_lib_def assign_def)

theorem registers_stay_nan_witness:
  "nan_laws example_lib \<and> (\<exists>s0. quadra_start example_lib (Some [0, 0, 0x20, 0, 0x40, 0x80, 0, 0x2a]) quadra_machine = Ok () s0 \<and>
     mpfr_nan_p example_lib (FP (fpus s0 FPU_P) 3))"
proof -
  obtain s0 where s0: "quadra_start example_lib (Some [0, 0, 0x20, 0, 0x40, 0x80, 0, 0x2a]) quadra_machine = Ok () s0"
    using quadra_start_run [OF quadra_machine_power_on example_rom(1,2,5)] by blast
  show ?thesis
    using registers_stay_nan [OF example_nan_laws s0 quadra_reaches.start] s0 example_nan_laws by auto
qed

end
