(* ===== verification/X86.thy ===== *)
theory X86
  imports Machine
begin

text \<open>
  The part of the x86-64 instruction set that the translator of src/cpu/jit emits: registers
  and their parts, operands, instructions, and what the arithmetic does to the flags. The
  operands are those of src/cpu/jit/jit_common.hpp: a register part, a member of the object
  \<open>cpu\<close> (which \<open>rbx\<close> addresses), a slot of the host stack, a constant.
\<close>

section \<open>Registers and operands\<close>

datatype gpr = RAX | RBX | RCX | RDX | RSI | RDI | RSP | RBP
  | R8 | R9 | R10 | R11 | R12 | R13 | R14 | R15

datatype width = W8 | W16 | W32 | W64

fun bits_of :: "width \<Rightarrow> nat" where
  "bits_of W8 = 8"
| "bits_of W16 = 16"
| "bits_of W32 = 32"
| "bits_of W64 = 64"

text \<open>
  The members of \<open>Cpu\<close> the translated code touches. \<open>R_at n\<close> is the n-th word of the arrays
  \<open>D\<close> and \<open>A\<close>, which are the first members, one after the other.
\<close>

datatype field = R_at nat | F_EA | F_PC | F_C | F_V | F_N | F_Z | F_X | F_S | F_T | F_USP
  | F_bus_lock | F_must_trace | F_movem_run

text \<open>The objects whose addresses the emitted code holds in registers.\<close>

datatype hobj = The_cpu | Member field | The_testing | The_offsets | The_fpu

text \<open>
  \<open>High r\<close> is \<open>ah\<close>, \<open>ch\<close>, \<open>dh\<close>; \<open>Stk d\<close> the quadword at \<open>rsp + d\<close>; \<open>Deref w r\<close> the
  memory \<open>r\<close> points to; \<open>Table b i\<close> the 16-bit entry \<open>i\<close> of the table \<open>b\<close> points to; \<open>Obj\<close>
  an address as a constant.
\<close>

datatype opnd = Reg width gpr | High gpr | Mem width field | Stk nat | Deref width gpr
  | Table gpr gpr | Imm int | Obj hobj

text \<open>
  The addresses \<open>lea\<close> computes: base and displacement; base, scaled index and displacement;
  a member of \<open>cpu\<close>; relative to \<open>rip\<close>. The instruction pointer holds the position of the
  following instruction, which \<open>Rip\<close> carries as the emitter knows it.
\<close>

datatype adr = Based opnd int | Indexed opnd opnd nat int | Field_addr field | Rip nat

abbreviation "al \<equiv> Reg W8 RAX"
abbreviation "cl \<equiv> Reg W8 RCX"
abbreviation "dl \<equiv> Reg W8 RDX"
abbreviation "sil \<equiv> Reg W8 RSI"
abbreviation "dil \<equiv> Reg W8 RDI"
abbreviation "r8b \<equiv> Reg W8 R8"
abbreviation "r11b \<equiv> Reg W8 R11"
abbreviation "r12b \<equiv> Reg W8 R12"
abbreviation "r13b \<equiv> Reg W8 R13"
abbreviation "ah \<equiv> High RAX"
abbreviation "ch \<equiv> High RCX"
abbreviation "dh \<equiv> High RDX"
abbreviation "ax \<equiv> Reg W16 RAX"
abbreviation "cx \<equiv> Reg W16 RCX"
abbreviation "dx \<equiv> Reg W16 RDX"
abbreviation "si \<equiv> Reg W16 RSI"
abbreviation "di \<equiv> Reg W16 RDI"
abbreviation "r8w \<equiv> Reg W16 R8"
abbreviation "r11w \<equiv> Reg W16 R11"
abbreviation "r12w \<equiv> Reg W16 R12"
abbreviation "r13w \<equiv> Reg W16 R13"
abbreviation "eax \<equiv> Reg W32 RAX"
abbreviation "ecx \<equiv> Reg W32 RCX"
abbreviation "edx \<equiv> Reg W32 RDX"
abbreviation "esi \<equiv> Reg W32 RSI"
abbreviation "edi \<equiv> Reg W32 RDI"
abbreviation "r8d \<equiv> Reg W32 R8"
abbreviation "r10d \<equiv> Reg W32 R10"
abbreviation "r11d \<equiv> Reg W32 R11"
abbreviation "r12d \<equiv> Reg W32 R12"
abbreviation "r13d \<equiv> Reg W32 R13"
abbreviation "r14d \<equiv> Reg W32 R14"
abbreviation "rax \<equiv> Reg W64 RAX"
abbreviation "rbx \<equiv> Reg W64 RBX"
abbreviation "rcx \<equiv> Reg W64 RCX"
abbreviation "rdx \<equiv> Reg W64 RDX"
abbreviation "rsi \<equiv> Reg W64 RSI"
abbreviation "rdi \<equiv> Reg W64 RDI"

text \<open>The named operands of jit_common.hpp; the arguments are those of the System V convention.\<close>

definition EA_m :: opnd where "EA_m = Mem W32 F_EA"
definition CC_C :: opnd where "CC_C = Mem W8 F_C"
definition CC_V :: opnd where "CC_V = Mem W8 F_V"
definition CC_N :: opnd where "CC_N = Mem W8 F_N"
definition CC_Z :: opnd where "CC_Z = Mem W8 F_Z"
definition CC_X :: opnd where "CC_X = Mem W8 F_X"
definition CC_T :: opnd where "CC_T = Mem W8 F_T"
definition CC_S :: opnd where "CC_S = Mem W8 F_S"
definition DR_B :: "nat \<Rightarrow> opnd" where "DR_B n = Mem W8 (R_at n)"
definition DR_W :: "nat \<Rightarrow> opnd" where "DR_W n = Mem W16 (R_at n)"
definition DR_L :: "nat \<Rightarrow> opnd" where "DR_L n = Mem W32 (R_at n)"
definition AR_W :: "nat \<Rightarrow> opnd" where "AR_W n = Mem W16 (R_at (8 + n))"
definition AR_L :: "nat \<Rightarrow> opnd" where "AR_L n = Mem W32 (R_at (8 + n))"
definition SP :: opnd where "SP = AR_L 7"
definition c_pc :: opnd where "c_pc = Mem W32 F_PC"
definition CPU_BYTE :: "field \<Rightarrow> opnd" where "CPU_BYTE f = Mem W8 f"
definition CPU_LONG :: "field \<Rightarrow> opnd" where "CPU_LONG f = Mem W32 f"

abbreviation "ARG1 \<equiv> rdi"
abbreviation "ARG2 \<equiv> rsi"
abbreviation "ARG3 \<equiv> rdx"
abbreviation "ARG4 \<equiv> rcx"

lemmas operand_defs = EA_m_def CC_C_def CC_V_def CC_N_def CC_Z_def CC_X_def CC_T_def CC_S_def
  DR_B_def DR_W_def DR_L_def AR_W_def AR_L_def SP_def c_pc_def CPU_BYTE_def CPU_LONG_def

section \<open>Flags\<close>

text \<open>The parity flag is not modelled: no emitted condition reads it.\<close>

record xflags =
  cf :: bool
  zf :: bool
  sf :: bool
  ovf :: bool
  af :: bool

datatype cc = C_z | C_nz | C_c | C_nc | C_o | C_s | C_a | C_b | C_l | C_ge | C_le | C_g

fun holds :: "cc \<Rightarrow> xflags \<Rightarrow> bool" where
  "holds C_z f = zf f"
| "holds C_nz f = (\<not> zf f)"
| "holds C_c f = cf f"
| "holds C_nc f = (\<not> cf f)"
| "holds C_o f = ovf f"
| "holds C_s f = sf f"
| "holds C_a f = (\<not> cf f \<and> \<not> zf f)"
| "holds C_b f = cf f"
| "holds C_l f = (sf f \<noteq> ovf f)"
| "holds C_ge f = (sf f = ovf f)"
| "holds C_le f = (zf f \<or> sf f \<noteq> ovf f)"
| "holds C_g f = (\<not> zf f \<and> sf f = ovf f)"

section \<open>Arithmetic at one width\<close>

text \<open>
  Each operation gives the result and the new flags. \<open>u\<close> holds the values of the flags the
  architecture leaves undefined, \<open>f\<close> the flags before.
\<close>

definition sum_word :: "bool \<Rightarrow> 'a::len word \<Rightarrow> 'a word \<Rightarrow> 'a word \<times> xflags" where
  "sum_word c x y =
     (let r = x + y + of_bool c in
      (r, \<lparr>cf = 2 ^ LENGTH('a) \<le> uint x + uint y + of_bool c, zf = (r = 0), sf = neg r,
           ovf = (sint r \<noteq> sint x + sint y + of_bool c),
           af = 16 \<le> uint (x AND 15) + uint (y AND 15) + of_bool c\<rparr>))"

definition diff_word :: "bool \<Rightarrow> 'a::len word \<Rightarrow> 'a word \<Rightarrow> 'a word \<times> xflags" where
  "diff_word c x y =
     (let r = x - y - of_bool c in
      (r, \<lparr>cf = uint x < uint y + of_bool c, zf = (r = 0), sf = neg r,
           ovf = (sint r \<noteq> sint x - sint y - of_bool c),
           af = uint (x AND 15) < uint (y AND 15) + of_bool c\<rparr>))"

definition logic_word :: "xflags \<Rightarrow> 'a::len word \<Rightarrow> 'a word \<times> xflags" where
  "logic_word u r = (r, \<lparr>cf = False, zf = (r = 0), sf = neg r, ovf = False, af = af u\<rparr>)"

datatype alu = A_add | A_adc | A_sub | A_sbb | A_cmp | A_and | A_or | A_xor | A_test

definition alu_word :: "alu \<Rightarrow> xflags \<Rightarrow> xflags \<Rightarrow> 'a::len word \<Rightarrow> 'a word \<Rightarrow> 'a word \<times> xflags" where
  "alu_word k u f x y = (case k of
       A_add \<Rightarrow> sum_word False x y
     | A_adc \<Rightarrow> sum_word (cf f) x y
     | A_sub \<Rightarrow> diff_word False x y
     | A_cmp \<Rightarrow> diff_word False x y
     | A_sbb \<Rightarrow> diff_word (cf f) x y
     | A_and \<Rightarrow> logic_word u (x AND y)
     | A_test \<Rightarrow> logic_word u (x AND y)
     | A_or \<Rightarrow> logic_word u (x OR y)
     | A_xor \<Rightarrow> logic_word u (x XOR y))"

datatype unop = U_not | U_neg | U_inc | U_dec

definition un_word :: "unop \<Rightarrow> xflags \<Rightarrow> 'a::len word \<Rightarrow> 'a word \<times> xflags" where
  "un_word k f x = (case k of
       U_not \<Rightarrow> (NOT x, f)
     | U_neg \<Rightarrow> diff_word False 0 x
     | U_inc \<Rightarrow> (let (r, g) = sum_word False x 1 in (r, g\<lparr>cf := cf f\<rparr>))
     | U_dec \<Rightarrow> (let (r, g) = diff_word False x 1 in (r, g\<lparr>cf := cf f\<rparr>)))"

text \<open>
  Shifts and rotates by the masked count \<open>n\<close>. The carry of \<open>shl\<close> and \<open>shr\<close> is undefined
  when the count is at least the width, the overflow flag when the count is not 1.
\<close>

datatype shf = S_shl | S_shr | S_sar | S_rol | S_ror | S_rcl | S_rcr

definition rcl_step :: "'a::len word \<times> bool \<Rightarrow> 'a word \<times> bool" where
  "rcl_step p = (push_bit 1 (fst p) OR of_bool (snd p), bit (fst p) (LENGTH('a) - 1))"

definition rcr_step :: "'a::len word \<times> bool \<Rightarrow> 'a word \<times> bool" where
  "rcr_step p = (drop_bit 1 (fst p) OR push_bit (LENGTH('a) - 1) (of_bool (snd p)), bit (fst p) 0)"

definition shift_flags :: "xflags \<Rightarrow> 'a::len word \<Rightarrow> bool \<Rightarrow> bool \<Rightarrow> xflags" where
  "shift_flags u r c v = \<lparr>cf = c, zf = (r = 0), sf = neg r, ovf = v, af = af u\<rparr>"

definition shift_word :: "shf \<Rightarrow> xflags \<Rightarrow> xflags \<Rightarrow> nat \<Rightarrow> 'a::len word \<Rightarrow> 'a word \<times> xflags" where
  "shift_word k u f n x =
     (let top = LENGTH('a) - 1 in
      if n = 0 then (x, f)
      else case k of
        S_shl \<Rightarrow>
          (let r = push_bit n x; c = (if n < LENGTH('a) then bit x (LENGTH('a) - n) else cf u)
           in (r, shift_flags u r c (if n = 1 then bit r top \<noteq> c else ovf u)))
      | S_shr \<Rightarrow>
          (let r = drop_bit n x; c = (if n < LENGTH('a) then bit x (n - 1) else cf u)
           in (r, shift_flags u r c (if n = 1 then bit x top else ovf u)))
      | S_sar \<Rightarrow>
          (let r = signed_drop_bit n x; c = bit x (min (n - 1) top)
           in (r, shift_flags u r c (if n = 1 then False else ovf u)))
      | S_rol \<Rightarrow>
          (let r = word_rotl n x
           in (r, f\<lparr>cf := bit r 0, ovf := (if n = 1 then bit r top \<noteq> bit r 0 else ovf u)\<rparr>))
      | S_ror \<Rightarrow>
          (let r = word_rotr n x
           in (r, f\<lparr>cf := bit r top, ovf := (if n = 1 then bit r top \<noteq> bit r (top - 1) else ovf u)\<rparr>))
      | S_rcl \<Rightarrow>
          (let (r, c) = (rcl_step ^^ (n mod (LENGTH('a) + 1))) (x, cf f)
           in (r, f\<lparr>cf := c, ovf := (if n = 1 then bit r top \<noteq> c else ovf u)\<rparr>))
      | S_rcr \<Rightarrow>
          (let (r, c) = (rcr_step ^^ (n mod (LENGTH('a) + 1))) (x, cf f)
           in (r, f\<lparr>cf := c, ovf := (if n = 1 then bit x top \<noteq> cf f else ovf u)\<rparr>)))"

text \<open>The bit tests: the bit goes to the carry flag, the zero flag keeps its value.\<close>

datatype btop = B_bt | B_bts | B_btr | B_btc

definition bt_word :: "btop \<Rightarrow> xflags \<Rightarrow> xflags \<Rightarrow> nat \<Rightarrow> 'a::len word \<Rightarrow> 'a word \<times> xflags" where
  "bt_word k u f n x =
     ((case k of
         B_bt \<Rightarrow> x
       | B_bts \<Rightarrow> x OR push_bit n 1
       | B_btr \<Rightarrow> x AND NOT (push_bit n 1)
       | B_btc \<Rightarrow> x XOR push_bit n 1),
      \<lparr>cf = bit x n, zf = zf f, sf = sf u, ovf = ovf u, af = af u\<rparr>)"

section \<open>Arithmetic on the contents of registers\<close>

text \<open>
  The contents of a register is a quadword. \<open>at_width\<close> applies the four instances of an
  operation on words.
\<close>

definition at_width ::
  "(u8 \<Rightarrow> u8 \<times> 'f) \<Rightarrow> (u16 \<Rightarrow> u16 \<times> 'f) \<Rightarrow> (u32 \<Rightarrow> u32 \<times> 'f) \<Rightarrow> (u64 \<Rightarrow> u64 \<times> 'f)
     \<Rightarrow> width \<Rightarrow> u64 \<Rightarrow> u64 \<times> 'f" where
  "at_width f g h k w x = (case w of
       W8 \<Rightarrow> map_prod ucast id (f (ucast x))
     | W16 \<Rightarrow> map_prod ucast id (g (ucast x))
     | W32 \<Rightarrow> map_prod ucast id (h (ucast x))
     | W64 \<Rightarrow> k x)"

definition alu_op :: "alu \<Rightarrow> xflags \<Rightarrow> xflags \<Rightarrow> width \<Rightarrow> u64 \<Rightarrow> u64 \<Rightarrow> u64 \<times> xflags" where
  "alu_op k u f w x y = at_width (\<lambda>v. alu_word k u f v (ucast y)) (\<lambda>v. alu_word k u f v (ucast y))
     (\<lambda>v. alu_word k u f v (ucast y)) (\<lambda>v. alu_word k u f v y) w x"

definition un_op :: "unop \<Rightarrow> xflags \<Rightarrow> width \<Rightarrow> u64 \<Rightarrow> u64 \<times> xflags" where
  "un_op k f w x = at_width (un_word k f) (un_word k f) (un_word k f) (un_word k f) w x"

text \<open>The count is taken modulo 32, or modulo 64 for a quadword.\<close>

definition shift_op :: "shf \<Rightarrow> xflags \<Rightarrow> xflags \<Rightarrow> width \<Rightarrow> u64 \<Rightarrow> u64 \<Rightarrow> u64 \<times> xflags" where
  "shift_op k u f w x y =
     (let n = unat (y AND (if w = W64 then 63 else 31)) in
      at_width (shift_word k u f n) (shift_word k u f n) (shift_word k u f n) (shift_word k u f n) w x)"

definition bt_op :: "btop \<Rightarrow> xflags \<Rightarrow> xflags \<Rightarrow> width \<Rightarrow> u64 \<Rightarrow> nat \<Rightarrow> u64 \<times> xflags" where
  "bt_op k u f w x n = at_width (bt_word k u f n) (bt_word k u f n) (bt_word k u f n) (bt_word k u f n) w x"

text \<open>Sign extension from a width.\<close>

definition sext :: "width \<Rightarrow> u64 \<Rightarrow> u64" where
  "sext w v = (case w of W8 \<Rightarrow> scast (ucast v :: u8) | W16 \<Rightarrow> scast (ucast v :: u16)
     | W32 \<Rightarrow> scast (ucast v :: u32) | W64 \<Rightarrow> v)"

definition zext :: "width \<Rightarrow> u64 \<Rightarrow> u64" where
  "zext w v = (case w of W8 \<Rightarrow> ucast (ucast v :: u8) | W16 \<Rightarrow> ucast (ucast v :: u16)
     | W32 \<Rightarrow> ucast (ucast v :: u32) | W64 \<Rightarrow> v)"

text \<open>The position of the most significant bit, for \<open>bsr\<close>.\<close>

definition top_bit :: "u32 \<Rightarrow> nat" where
  "top_bit v = hd (filter (bit v) (rev [0..<32]) @ [0])"

end
