(* ===== verification/Host.thy ===== *)
theory Host
  imports X86 "HOL-Library.Signed_Division"
begin

text \<open>
  The host processor while it runs translated code: its registers, flags and stack around the
  emulated machine, the effect of one instruction, the calls into the emulator and the
  running of a list of instructions.
\<close>

section \<open>State\<close>

text \<open>
  \<open>hpoints r\<close> is the object whose address \<open>r\<close> holds, if it holds one; \<open>hpushed\<close> are the
  quadwords pushed since the prologue and \<open>hframe\<close> the slots of the frame below them;
  \<open>hoffsets\<close> is the table \<open>offset\<close> of the running \<open>jit_cache\<close>; \<open>htick\<close> counts the events
  whose outcome the architecture or the calling convention leaves open.
\<close>

record 'd host =
  hregs :: "gpr \<Rightarrow> u64"
  hpoints :: "gpr \<Rightarrow> hobj option"
  hflags :: xflags
  hpushed :: "u64 list"
  hframe :: "nat \<Rightarrow> u64"
  hoffsets :: "u16 list"
  htesting :: bool
  htick :: nat
  guest :: "'d machine"

type_synonym ('d, 'a) hostm = "('d host, 'a) monad"

text \<open>
  What is left open: the registers and flags after a call, the flags an instruction leaves
  undefined, the addresses of the host's objects and of the code.
\<close>

record host_env =
  junk_reg :: "nat \<Rightarrow> gpr \<Rightarrow> u64"
  junk_flags :: "nat \<Rightarrow> xflags"
  host_addr :: "hobj \<Rightarrow> u64"
  code_base :: u64

section \<open>Reading and writing operands\<close>

text \<open>A part of a register. A 32-bit write clears the upper half, a narrower one keeps the rest.\<close>

definition put_part :: "width \<Rightarrow> u64 \<Rightarrow> u64 \<Rightarrow> u64" where
  "put_part w old v = (case w of
       W8 \<Rightarrow> (old AND NOT 0xff) OR ucast (ucast v :: u8)
     | W16 \<Rightarrow> (old AND NOT 0xffff) OR ucast (ucast v :: u16)
     | W32 \<Rightarrow> ucast (ucast v :: u32)
     | W64 \<Rightarrow> v)"

definition put_reg :: "width \<Rightarrow> gpr \<Rightarrow> u64 \<Rightarrow> 'd host \<Rightarrow> 'd host" where
  "put_reg w r v h = h\<lparr>hregs := (hregs h)(r := put_part w (hregs h r) v), hpoints := (hpoints h)(r := None)\<rparr>"

definition put_high :: "gpr \<Rightarrow> u64 \<Rightarrow> 'd host \<Rightarrow> 'd host" where
  "put_high r v h = h\<lparr>hregs := (hregs h)(r := (hregs h r AND NOT 0xff00) OR push_bit 8 (ucast (ucast v :: u8))),
     hpoints := (hpoints h)(r := None)\<rparr>"

text \<open>The members of \<open>cpu\<close>; \<open>None\<close> is an access that is none of a member of that width.\<close>

definition field_get :: "width \<Rightarrow> field \<Rightarrow> cpu \<Rightarrow> u64 option" where
  "field_get w f c = (case f of
       R_at n \<Rightarrow> (if n < 16 \<and> w \<noteq> W64 then Some (zext w (ucast (reg_of c n))) else None)
     | F_EA \<Rightarrow> (if w = W32 then Some (ucast (EA c)) else None)
     | F_PC \<Rightarrow> (if w = W32 then Some (ucast (PC c)) else None)
     | F_USP \<Rightarrow> (if w = W32 then Some (ucast (USP c)) else None)
     | F_T \<Rightarrow> (if w = W8 then Some (ucast (T_mode c)) else None)
     | F_C \<Rightarrow> (if w = W8 then Some (of_bool (fC c)) else None)
     | F_V \<Rightarrow> (if w = W8 then Some (of_bool (fV c)) else None)
     | F_N \<Rightarrow> (if w = W8 then Some (of_bool (fN c)) else None)
     | F_Z \<Rightarrow> (if w = W8 then Some (of_bool (fZ c)) else None)
     | F_X \<Rightarrow> (if w = W8 then Some (of_bool (fX c)) else None)
     | F_S \<Rightarrow> (if w = W8 then Some (of_bool (S_bit c)) else None)
     | F_bus_lock \<Rightarrow> (if w = W8 then Some (of_bool (bus_lock c)) else None)
     | F_must_trace \<Rightarrow> (if w = W8 then Some (of_bool (must_trace c)) else None)
     | F_movem_run \<Rightarrow> (if w = W8 then Some (of_bool (movem_run c)) else None))"

definition set_reg_of :: "nat \<Rightarrow> u32 \<Rightarrow> cpu \<Rightarrow> cpu" where
  "set_reg_of n v c =
     (if n < 8 then c\<lparr>Dn := (Dn c)(of_nat n := v)\<rparr> else c\<lparr>An := (An c)(of_nat n := v)\<rparr>)"

text \<open>A byte of a \<open>bool\<close> must be 0 or 1: any other value makes the next read of it undefined.\<close>

definition put_bool :: "width \<Rightarrow> u64 \<Rightarrow> (bool \<Rightarrow> cpu) \<Rightarrow> cpu option" where
  "put_bool w v upd = (if w \<noteq> W8 then None
     else if ucast v = (0 :: u8) then Some (upd False)
     else if ucast v = (1 :: u8) then Some (upd True)
     else None)"

definition field_put :: "width \<Rightarrow> field \<Rightarrow> u64 \<Rightarrow> cpu \<Rightarrow> cpu option" where
  "field_put w f v c = (case f of
       R_at n \<Rightarrow> (if n < 16 then
          (case w of
             W8 \<Rightarrow> Some (set_reg_of n (STORE_B (reg_of c n) (ucast v)) c)
           | W16 \<Rightarrow> Some (set_reg_of n (STORE_W (reg_of c n) (ucast v)) c)
           | W32 \<Rightarrow> Some (set_reg_of n (ucast v) c)
           | W64 \<Rightarrow> None) else None)
     | F_EA \<Rightarrow> (if w = W32 then Some (c\<lparr>EA := ucast v\<rparr>) else None)
     | F_PC \<Rightarrow> (if w = W32 then Some (c\<lparr>PC := ucast v\<rparr>) else None)
     | F_USP \<Rightarrow> (if w = W32 then Some (c\<lparr>USP := ucast v\<rparr>) else None)
     | F_T \<Rightarrow> (if w = W8 then Some (c\<lparr>T_mode := ucast v\<rparr>) else None)
     | F_C \<Rightarrow> put_bool w v (\<lambda>b. c\<lparr>fC := b\<rparr>)
     | F_V \<Rightarrow> put_bool w v (\<lambda>b. c\<lparr>fV := b\<rparr>)
     | F_N \<Rightarrow> put_bool w v (\<lambda>b. c\<lparr>fN := b\<rparr>)
     | F_Z \<Rightarrow> put_bool w v (\<lambda>b. c\<lparr>fZ := b\<rparr>)
     | F_X \<Rightarrow> put_bool w v (\<lambda>b. c\<lparr>fX := b\<rparr>)
     | F_S \<Rightarrow> put_bool w v (\<lambda>b. c\<lparr>S_bit := b\<rparr>)
     | F_bus_lock \<Rightarrow> put_bool w v (\<lambda>b. c\<lparr>bus_lock := b\<rparr>)
     | F_must_trace \<Rightarrow> put_bool w v (\<lambda>b. c\<lparr>must_trace := b\<rparr>)
     | F_movem_run \<Rightarrow> put_bool w v (\<lambda>b. c\<lparr>movem_run := b\<rparr>))"

text \<open>The stack: the pushed quadwords first, then the slots of the frame.\<close>

definition stk_get :: "nat \<Rightarrow> 'd host \<Rightarrow> u64" where
  "stk_get d h = (let i = d div 8; n = length (hpushed h) in
     if i < n then hpushed h ! i else hframe h (i - n))"

definition stk_put :: "nat \<Rightarrow> u64 \<Rightarrow> 'd host \<Rightarrow> 'd host" where
  "stk_put d v h = (let i = d div 8; n = length (hpushed h) in
     if i < n then h\<lparr>hpushed := (hpushed h)[i := v]\<rparr> else h\<lparr>hframe := (hframe h)(i - n := v)\<rparr>)"

text \<open>
  The value of an operand, as a quadword with the unused upper bits clear; \<open>w\<close> is the width
  of the operation, which a constant takes.
\<close>

definition need :: "'a option \<Rightarrow> ('s, 'a) monad" where
  "need v = (case v of Some a \<Rightarrow> return a | None \<Rightarrow> throw Undefined)"

definition rd :: "host_env \<Rightarrow> width \<Rightarrow> opnd \<Rightarrow> ('d, u64) hostm" where
  "rd E w s = (\<lambda>h. (case s of
       Reg v r \<Rightarrow> return (zext v (hregs h r))
     | High r \<Rightarrow> return (zext W8 (drop_bit 8 (hregs h r)))
     | Mem v f \<Rightarrow> need (field_get v f (cpu (guest h)))
     | Stk d \<Rightarrow> return (stk_get d h)
     | Deref v r \<Rightarrow> (case hpoints h r of
           Some (Member f) \<Rightarrow> need (field_get v f (cpu (guest h)))
         | Some The_testing \<Rightarrow> return (of_bool (htesting h))
         | _ \<Rightarrow> throw Undefined)
     | Table b i \<Rightarrow> (if hpoints h b = Some The_offsets \<and> unat (hregs h i) < length (hoffsets h)
          then return (ucast (hoffsets h ! unat (hregs h i))) else throw Undefined)
     | Imm i \<Rightarrow> return (zext w (word_of_int i))
     | Obj x \<Rightarrow> return (host_addr E x)) h)"

definition wr :: "opnd \<Rightarrow> u64 \<Rightarrow> ('d, unit) hostm" where
  "wr d x = (\<lambda>h. (case d of
       Reg w r \<Rightarrow> modify (put_reg w r x)
     | High r \<Rightarrow> modify (put_high r x)
     | Mem w f \<Rightarrow> bind (need (field_put w f x (cpu (guest h))))
          (\<lambda>c. modify (\<lambda>h. h\<lparr>guest := (guest h)\<lparr>cpu := c\<rparr>\<rparr>))
     | Stk s \<Rightarrow> modify (stk_put s x)
     | Deref w r \<Rightarrow> (case hpoints h r of
           Some (Member f) \<Rightarrow> bind (need (field_put w f x (cpu (guest h))))
             (\<lambda>c. modify (\<lambda>h. h\<lparr>guest := (guest h)\<lparr>cpu := c\<rparr>\<rparr>))
         | Some The_testing \<Rightarrow> modify (\<lambda>h. h\<lparr>htesting := bit x 0\<rparr>)
         | _ \<Rightarrow> throw Undefined)
     | _ \<Rightarrow> throw Undefined) h)"

text \<open>What a register points to: an address constant and \<open>lea\<close> of a member make it a pointer.\<close>

definition point :: "opnd \<Rightarrow> hobj \<Rightarrow> ('d, unit) hostm" where
  "point d x = (case d of
       Reg W64 r \<Rightarrow> modify (\<lambda>h. h\<lparr>hpoints := (hpoints h)(r := Some x)\<rparr>)
     | _ \<Rightarrow> return ())"

section \<open>Well-formed operands\<close>

text \<open>
  The widths of the two operands of an instruction agree, at most one is in memory, and a
  constant fits. The assembler library is not part of the sources: what it makes of a request
  that is no instruction of the architecture is a parameter of the model.
\<close>

fun opw :: "opnd \<Rightarrow> width option" where
  "opw (Reg w r) = Some w"
| "opw (High r) = Some W8"
| "opw (Mem w f) = Some w"
| "opw (Stk d) = Some W64"
| "opw (Deref w r) = Some w"
| "opw (Table b i) = Some W16"
| "opw (Imm i) = None"
| "opw (Obj x) = None"

fun in_memory :: "opnd \<Rightarrow> bool" where
  "in_memory (Mem w f) = True"
| "in_memory (Stk d) = True"
| "in_memory (Deref w r) = True"
| "in_memory (Table b i) = True"
| "in_memory _ = False"

fun imm_fits :: "width \<Rightarrow> int \<Rightarrow> bool" where
  "imm_fits W8 i \<longleftrightarrow> - 0x80 \<le> i \<and> i < 0x100"
| "imm_fits W16 i \<longleftrightarrow> - 0x8000 \<le> i \<and> i < 0x10000"
| "imm_fits W32 i \<longleftrightarrow> - 0x80000000 \<le> i \<and> i < 0x100000000"
| "imm_fits W64 i \<longleftrightarrow> - 0x80000000 \<le> i \<and> i < 0x80000000"

definition agree :: "opnd \<Rightarrow> opnd \<Rightarrow> bool" where
  "agree d s = (case opw d of
       None \<Rightarrow> False
     | Some w \<Rightarrow> (case s of
          Imm i \<Rightarrow> imm_fits w i
        | Obj x \<Rightarrow> w = W64 \<and> \<not> in_memory d
        | _ \<Rightarrow> opw s = Some w \<and> \<not> (in_memory d \<and> in_memory s)))"

section \<open>Instructions\<close>

text \<open>
  \<open>X_call\<close> carries the function called, as a program on the host: the emulator's functions
  are wrapped below. A label is one made by \<open>newLabel\<close>, \<open>end_lbl\<close>, the label \<open>jumpMap\<close> has
  for an address, or the invalid one a default entry of \<open>jumpMap\<close> is.
\<close>

datatype label = Local nat | End_lbl | At_pc u32 | No_label

datatype 'd insn =
    X_mov opnd opnd
  | X_movzx opnd opnd
  | X_movsx opnd opnd
  | X_movsxd opnd opnd
  | X_lea opnd adr
  | X_alu alu opnd opnd
  | X_un unop opnd
  | X_shift shf opnd opnd
  | X_rorx opnd opnd nat
  | X_bt btop opnd opnd
  | X_bsr opnd opnd
  | X_set cc opnd
  | X_cmov cc opnd opnd
  | X_xchg opnd opnd
  | X_mul opnd
  | X_imul opnd
  | X_imul2 opnd opnd
  | X_div opnd
  | X_idiv opnd
  | X_cdq
  | X_cqo
  | X_cwde
  | X_lahf
  | X_push opnd
  | X_pop opnd
  | X_j cc label
  | X_jmp label
  | X_jmp_reg opnd
  | X_bind label
  | X_call "host_env \<Rightarrow> ('d host, unit) monad"
  | X_prolog
  | X_epilog

text \<open>Where control goes after an instruction: on, to a label, or to an address.\<close>

datatype flow = On | To label | Far u64

section \<open>The effect of an instruction\<close>

definition undefs :: "host_env \<Rightarrow> ('d, xflags) hostm" where
  "undefs E = (\<lambda>h. Ok (junk_flags E (htick h)) (h\<lparr>htick := Suc (htick h)\<rparr>))"

definition set_flags :: "xflags \<Rightarrow> ('d, unit) hostm" where
  "set_flags f = modify (\<lambda>h. h\<lparr>hflags := f\<rparr>)"

definition do_mov :: "host_env \<Rightarrow> opnd \<Rightarrow> opnd \<Rightarrow> ('d, unit) hostm" where
  "do_mov E d s =
     bind (rd E (the (opw d)) s) (\<lambda>x.
     seq (wr d x)
         (case s of Obj y \<Rightarrow> point d y | _ \<Rightarrow> return ()))"

text \<open>
  Only the sources that the architecture extends: from 8 or 16 bits for \<open>movzx\<close> and
  \<open>movsx\<close>, from 32 for \<open>movsxd\<close>.
\<close>

definition extends :: "opnd \<Rightarrow> opnd \<Rightarrow> bool" where
  "extends d s = (case (opw d, opw s) of
       (Some w, Some v) \<Rightarrow> \<not> in_memory d \<and> (v = W8 \<or> v = W16) \<and> bits_of v < bits_of w
     | _ \<Rightarrow> False)"

definition do_ext :: "host_env \<Rightarrow> bool \<Rightarrow> opnd \<Rightarrow> opnd \<Rightarrow> ('d, unit) hostm" where
  "do_ext E sg d s =
     (let v = the (opw s) in
      bind (rd E v s) (\<lambda>x. wr d (if sg then sext v x else x)))"

text \<open>
  \<open>lea\<close>: the address is computed at the width of its registers and cut to the width of the
  destination.
\<close>

definition do_lea :: "host_env \<Rightarrow> opnd \<Rightarrow> adr \<Rightarrow> ('d, unit) hostm" where
  "do_lea E d a = (case a of
       Based b i \<Rightarrow>
         (let w = the (opw b) in
          bind (rd E w b) (\<lambda>x. wr d (zext w (x + word_of_int i))))
     | Indexed b x n i \<Rightarrow>
         (let w = the (opw b) in
          bind (rd E w b) (\<lambda>v. bind (rd E w x) (\<lambda>k.
          wr d (zext w (v + push_bit n k + word_of_int i)))))
     | Field_addr f \<Rightarrow> seq (wr d (host_addr E (Member f))) (point d (Member f))
     | Rip n \<Rightarrow> wr d (code_base E + of_nat n))"

definition lea_ok :: "opnd \<Rightarrow> adr \<Rightarrow> bool" where
  "lea_ok d a = (\<not> in_memory d \<and> opw d \<in> {Some W32, Some W64} \<and> (case a of
       Based b i \<Rightarrow> \<not> in_memory b \<and> opw b \<in> {Some W32, Some W64}
     | Indexed b x n i \<Rightarrow> \<not> in_memory b \<and> \<not> in_memory x \<and> opw b \<in> {Some W32, Some W64} \<and> opw x = opw b \<and> n < 4
     | Field_addr f \<Rightarrow> opw d = Some W64
     | Rip n \<Rightarrow> opw d = Some W64))"

definition do_alu :: "host_env \<Rightarrow> alu \<Rightarrow> opnd \<Rightarrow> opnd \<Rightarrow> ('d, unit) hostm" where
  "do_alu E k d s =
     (let w = the (opw d) in
      bind (rd E w d) (\<lambda>x.
      bind (rd E w s) (\<lambda>y.
      bind (undefs E) (\<lambda>u.
      bind (gets hflags) (\<lambda>f.
      let (r, g) = alu_op k u f w x y in
      seq (if k = A_cmp \<or> k = A_test then return () else wr d r)
          (set_flags g))))))"

definition do_un :: "host_env \<Rightarrow> unop \<Rightarrow> opnd \<Rightarrow> ('d, unit) hostm" where
  "do_un E k d =
     (let w = the (opw d) in
      bind (rd E w d) (\<lambda>x.
      bind (gets hflags) (\<lambda>f.
      let (r, g) = un_op k f w x in
      seq (wr d r) (set_flags g))))"

text \<open>The count of a shift is a constant or \<open>cl\<close>.\<close>

definition do_shift :: "host_env \<Rightarrow> shf \<Rightarrow> opnd \<Rightarrow> opnd \<Rightarrow> ('d, unit) hostm" where
  "do_shift E k d s =
     (let w = the (opw d) in
      bind (rd E w d) (\<lambda>x.
      bind (rd E W8 s) (\<lambda>y.
      bind (undefs E) (\<lambda>u.
      bind (gets hflags) (\<lambda>f.
      let (r, g) = shift_op k u f w x y in
      seq (wr d r) (set_flags g))))))"

definition shift_ok :: "opnd \<Rightarrow> opnd \<Rightarrow> bool" where
  "shift_ok d s = (opw d \<noteq> None \<and> (case s of Imm i \<Rightarrow> 0 \<le> i \<and> i < 0x100 | _ \<Rightarrow> s = cl))"

text \<open>
  The bit tests. With a register as the bit number and a memory operand the number is not
  taken modulo the width: it selects a bit of the memory from the operand on.
\<close>

definition do_bt :: "host_env \<Rightarrow> btop \<Rightarrow> opnd \<Rightarrow> opnd \<Rightarrow> ('d, unit) hostm" where
  "do_bt E k d s =
     (let w = the (opw d) in
      bind (rd E w s) (\<lambda>y.
      bind (undefs E) (\<lambda>u.
      bind (gets hflags) (\<lambda>f.
      let n = unat y;
          d' = (case (d, s) of
                  (Mem W32 (R_at i), Reg _ _) \<Rightarrow> Mem W32 (R_at (i + n div 32))
                | _ \<Rightarrow> d)
      in
      bind (rd E w d') (\<lambda>x.
      let (r, g) = bt_op k u f w x (n mod bits_of w) in
      seq (if k = B_bt then return () else wr d' r)
          (set_flags g))))))"

text \<open>A register bit number on another member than a 32-bit word of the arrays does not occur.\<close>

definition bt_ok :: "opnd \<Rightarrow> opnd \<Rightarrow> bool" where
  "bt_ok d s = (opw d \<in> {Some W16, Some W32, Some W64} \<and> (case s of
       Imm i \<Rightarrow> 0 \<le> i \<and> i < 0x100
     | Reg w r \<Rightarrow> opw d = Some w \<and> (case d of Mem v f \<Rightarrow> v = W32 | Reg _ _ \<Rightarrow> True | _ \<Rightarrow> False)
     | _ \<Rightarrow> False))"

definition do_bitscan :: "host_env \<Rightarrow> opnd \<Rightarrow> opnd \<Rightarrow> ('d, unit) hostm" where
  "do_bitscan E d s =
     bind (rd E W32 s) (\<lambda>x.
     bind (undefs E) (\<lambda>u.
     bind (gets (\<lambda>h. junk_reg E (htick h) RAX)) (\<lambda>j.
     seq (wr d (if x = 0 then j else of_nat (top_bit (ucast x))))
         (set_flags (u\<lparr>zf := (x = 0)\<rparr>)))))"

definition do_cmov :: "host_env \<Rightarrow> cc \<Rightarrow> opnd \<Rightarrow> opnd \<Rightarrow> ('d, unit) hostm" where
  "do_cmov E c d s =
     (let w = the (opw d) in
      bind (rd E w s) (\<lambda>y.
      bind (rd E w d) (\<lambda>x.
      bind (gets hflags) (\<lambda>f. wr d (if holds c f then y else x)))))"

definition do_xchg :: "host_env \<Rightarrow> opnd \<Rightarrow> opnd \<Rightarrow> ('d, unit) hostm" where
  "do_xchg E d s =
     (let w = the (opw d) in
      bind (rd E w d) (\<lambda>x. bind (rd E w s) (\<lambda>y. seq (wr d y) (wr s x))))"

text \<open>
  The products of \<open>ax\<close> or \<open>eax\<close>: the low half stays, the high half goes to \<open>dx\<close> or \<open>edx\<close>.
  Carry and overflow say that the high half matters; the other flags are undefined.
\<close>

definition do_mul :: "host_env \<Rightarrow> bool \<Rightarrow> opnd \<Rightarrow> ('d, unit) hostm" where
  "do_mul E sg s =
     (let w = the (opw s); n = bits_of w in
      bind (rd E w (Reg w RAX)) (\<lambda>x.
      bind (rd E w s) (\<lambda>y.
      bind (undefs E) (\<lambda>u.
      let p = (if sg then sext w x * sext w y else x * y); big = (p \<noteq> (if sg then sext w p else zext w p)) in
      seq (wr (Reg w RAX) p)
     (seq (wr (Reg w RDX) (drop_bit n p))
          (set_flags (u\<lparr>cf := big, ovf := big\<rparr>)))))))"

definition do_imul2 :: "host_env \<Rightarrow> opnd \<Rightarrow> opnd \<Rightarrow> ('d, unit) hostm" where
  "do_imul2 E d s =
     (let w = the (opw d) in
      bind (rd E w d) (\<lambda>x.
      bind (rd E w s) (\<lambda>y.
      bind (undefs E) (\<lambda>u.
      let p = sext w x * sext w y; big = (p \<noteq> sext w p) in
      seq (wr d p)
          (set_flags (u\<lparr>cf := big, ovf := big\<rparr>))))))"

text \<open>
  Division of \<open>edx:eax\<close> or \<open>rdx:rax\<close>. A divisor of 0 and a quotient that does not fit end
  the process; the flags are undefined.
\<close>

definition dividend :: "bool \<Rightarrow> width \<Rightarrow> u64 \<Rightarrow> u64 \<Rightarrow> int" where
  "dividend sg w hi lo =
     (let n = bits_of w in (if sg then sint (sext w hi) else uint hi) * 2 ^ n + uint lo)"

definition do_div :: "host_env \<Rightarrow> bool \<Rightarrow> opnd \<Rightarrow> ('d, unit) hostm" where
  "do_div E sg s =
     (let w = the (opw s); n = bits_of w in
      bind (rd E w (Reg w RDX)) (\<lambda>hi.
      bind (rd E w (Reg w RAX)) (\<lambda>lo.
      bind (rd E w s) (\<lambda>y.
      bind (undefs E) (\<lambda>u.
      let a = dividend sg w hi lo; b = (if sg then sint (sext w y) else uint y);
          q = (if sg then a sdiv b else a div b); r = (if sg then a smod b else a mod b)
      in
      if b = 0 \<or> (if sg then q < - (2 ^ (n - 1)) \<or> 2 ^ (n - 1) \<le> q else 2 ^ n \<le> q) then throw Terminated
      else
        seq (wr (Reg w RAX) (word_of_int q))
       (seq (wr (Reg w RDX) (word_of_int r))
            (set_flags u)))))))"

text \<open>\<open>lahf\<close>: the flags as a byte. The parity bit is left open.\<close>

definition do_lahf :: "host_env \<Rightarrow> ('d, unit) hostm" where
  "do_lahf E =
     bind (gets (\<lambda>h. bit (junk_reg E (htick h) RAX) 2)) (\<lambda>p.
     bind (gets hflags) (\<lambda>f.
     seq (modify (\<lambda>h. h\<lparr>htick := Suc (htick h)\<rparr>))
         (wr ah (push_bit 7 (of_bool (sf f)) OR push_bit 6 (of_bool (zf f)) OR push_bit 4 (of_bool (af f))
            OR push_bit 2 (of_bool p) OR 2 OR of_bool (cf f)))))"

definition do_push :: "u64 \<Rightarrow> ('d, unit) hostm" where
  "do_push x = modify (\<lambda>h. h\<lparr>hpushed := x # hpushed h\<rparr>)"

definition do_pop :: "('d, u64) hostm" where
  "do_pop = (\<lambda>h. case hpushed h of x # xs \<Rightarrow> Ok x (h\<lparr>hpushed := xs\<rparr>) | [] \<Rightarrow> Raise Undefined h)"

section \<open>One instruction\<close>

definition on :: "('d, unit) hostm \<Rightarrow> ('d, flow) hostm" where
  "on m = seq m (return On)"

text \<open>The requests that are instructions of the architecture.\<close>

fun valid :: "'d insn \<Rightarrow> bool" where
  "valid (X_mov d s) = agree d s"
| "valid (X_movzx d s) = extends d s"
| "valid (X_movsx d s) = extends d s"
| "valid (X_movsxd d s) = (opw d = Some W64 \<and> \<not> in_memory d \<and> opw s = Some W32)"
| "valid (X_lea d a) = lea_ok d a"
| "valid (X_alu k d s) = agree d s"
| "valid (X_un k d) = (opw d \<noteq> None)"
| "valid (X_shift k d s) = shift_ok d s"
| "valid (X_rorx d s n) = (\<not> in_memory d \<and> opw d = Some W32 \<and> opw s = Some W32)"
| "valid (X_bt k d s) = bt_ok d s"
| "valid (X_bsr d s) = (\<not> in_memory d \<and> opw d = Some W32 \<and> opw s = Some W32)"
| "valid (X_set c d) = (opw d = Some W8)"
| "valid (X_cmov c d s) = (\<not> in_memory d \<and> agree d s \<and> opw d \<noteq> Some W8 \<and> opw s \<noteq> None)"
| "valid (X_xchg d s) = (agree d s \<and> opw s \<noteq> None)"
| "valid (X_mul s) = (opw s = Some W16 \<or> opw s = Some W32)"
| "valid (X_imul s) = (opw s = Some W16 \<or> opw s = Some W32)"
| "valid (X_imul2 d s) = (\<not> in_memory d \<and> opw d = Some W32 \<and> opw s = Some W32)"
| "valid (X_div s) = (opw s = Some W32 \<or> opw s = Some W64)"
| "valid (X_idiv s) = (opw s = Some W32 \<or> opw s = Some W64)"
| "valid (X_push s) = (opw s = Some W64)"
| "valid (X_pop s) = (opw s = Some W64)"
| "valid (X_j c l) = (l \<noteq> No_label)"
| "valid (X_jmp l) = (l \<noteq> No_label)"
| "valid (X_bind l) = (l \<noteq> No_label)"
| "valid (X_jmp_reg s) = (opw s = Some W64)"
| "valid _ = True"

definition step_valid :: "host_env \<Rightarrow> 'd insn \<Rightarrow> ('d, flow) hostm" where
  "step_valid E i = (case i of
       X_mov d s \<Rightarrow> on (do_mov E d s)
     | X_movzx d s \<Rightarrow> on (do_ext E False d s)
     | X_movsx d s \<Rightarrow> on (do_ext E True d s)
     | X_movsxd d s \<Rightarrow> on (do_ext E True d s)
     | X_lea d a \<Rightarrow> on (do_lea E d a)
     | X_alu k d s \<Rightarrow> on (do_alu E k d s)
     | X_un k d \<Rightarrow> on (do_un E k d)
     | X_shift k d s \<Rightarrow> on (do_shift E k d s)
     | X_rorx d s n \<Rightarrow> on (bind (rd E W32 s) (\<lambda>x. wr d (ucast (word_rotr n (ucast x :: u32)))))
     | X_bt k d s \<Rightarrow> on (do_bt E k d s)
     | X_bsr d s \<Rightarrow> on (do_bitscan E d s)
     | X_set c d \<Rightarrow> on (bind (gets hflags) (\<lambda>f. wr d (of_bool (holds c f))))
     | X_cmov c d s \<Rightarrow> on (do_cmov E c d s)
     | X_xchg d s \<Rightarrow> on (do_xchg E d s)
     | X_mul s \<Rightarrow> on (do_mul E False s)
     | X_imul s \<Rightarrow> on (do_mul E True s)
     | X_imul2 d s \<Rightarrow> on (do_imul2 E d s)
     | X_div s \<Rightarrow> on (do_div E False s)
     | X_idiv s \<Rightarrow> on (do_div E True s)
     | X_cdq \<Rightarrow> on (bind (rd E W32 eax) (\<lambda>x. wr edx (drop_bit 32 (sext W32 x))))
     | X_cqo \<Rightarrow> on (bind (rd E W64 rax) (\<lambda>x. wr rdx (if bit x 63 then - 1 else 0)))
     | X_cwde \<Rightarrow> on (bind (rd E W16 ax) (\<lambda>x. wr eax (sext W16 x)))
     | X_lahf \<Rightarrow> on (do_lahf E)
     | X_push s \<Rightarrow> on (bind (rd E W64 s) do_push)
     | X_pop d \<Rightarrow> on (bind do_pop (wr d))
     | X_j c l \<Rightarrow> bind (gets hflags) (\<lambda>f. return (if holds c f then To l else On))
     | X_jmp l \<Rightarrow> return (To l)
     | X_jmp_reg s \<Rightarrow> bind (rd E W64 s) (\<lambda>x. return (Far x))
     | X_bind l \<Rightarrow> return On
     | X_call f \<Rightarrow> on (f E)
     | X_prolog \<Rightarrow> return On
     | X_epilog \<Rightarrow> return On)"

definition step :: "host_env \<Rightarrow> ('d insn \<Rightarrow> ('d, unit) hostm) \<Rightarrow> 'd insn \<Rightarrow> ('d, flow) hostm" where
  "step E asmjit i = (if valid i then step_valid E i else on (asmjit i))"

section \<open>Running code\<close>

text \<open>
  The labels of \<open>newLabel\<close> are only jumped to forwards: the code after the place where such
  a label is bound is a part of the code after the jump.
\<close>

fun after :: "label \<Rightarrow> 'd insn list \<Rightarrow> 'd insn list option" where
  "after l [] = None"
| "after l (X_bind k # is) = (if k = l then Some is else after l is)"
| "after l (i # is) = after l is"

lemma after_length: "after l is = Some js \<Longrightarrow> length js < length is"
  by (induction l "is" rule: after.induct) (auto split: if_splits)

text \<open>
  \<open>run E asmjit is\<close> runs the list to its end (\<open>On\<close>) or until it is left by a jump to a label it
  does not bind further down, or by a jump through a register.
\<close>

function run :: "host_env \<Rightarrow> ('d insn \<Rightarrow> ('d, unit) hostm) \<Rightarrow> 'd insn list \<Rightarrow> ('d, flow) hostm" where
  "run E asmjit [] = return On"
| "run E asmjit (i # is) = bind (step E asmjit i) (\<lambda>f. case f of
       On \<Rightarrow> run E asmjit is
     | To l \<Rightarrow> (case after l is of Some js \<Rightarrow> run E asmjit js | None \<Rightarrow> return (To l))
     | Far a \<Rightarrow> return (Far a))"
  by pat_completeness auto
termination
  by (relation "measure (\<lambda>(E, asmjit, is). length is)") (auto dest: after_length)

section \<open>Calls into the emulator\<close>

text \<open>
  The System V calling convention: the arguments are in \<open>rdi\<close>, \<open>rsi\<close>, \<open>rdx\<close>, \<open>rcx\<close>, of
  which the callee looks at the low part its parameter has; \<open>rbx\<close>, \<open>rbp\<close>, \<open>rsp\<close> and \<open>r12\<close> to
  \<open>r15\<close> are preserved, the others and the flags are not; a result is in the low part of
  \<open>rax\<close> its type has.
\<close>

definition caller_saved :: "gpr \<Rightarrow> bool" where
  "caller_saved r \<longleftrightarrow> r \<in> {RAX, RCX, RDX, RSI, RDI, R8, R9, R10, R11}"

definition clobber :: "host_env \<Rightarrow> 'd host \<Rightarrow> 'd host" where
  "clobber E h = h\<lparr>hregs := (\<lambda>r. if caller_saved r then junk_reg E (htick h) r else hregs h r),
     hpoints := (\<lambda>r. if caller_saved r then None else hpoints h r),
     hflags := junk_flags E (htick h), htick := Suc (htick h)\<rparr>"

definition call_with ::
  "host_env \<Rightarrow> ((gpr \<Rightarrow> u64) \<Rightarrow> ('d, 'a) mach) \<Rightarrow> ('a \<Rightarrow> 'd host \<Rightarrow> 'd host) \<Rightarrow> ('d, unit) hostm" where
  "call_with E f res = (\<lambda>h. case f (hregs h) (guest h) of
       Ok a g \<Rightarrow> Ok () (res a (clobber E (h\<lparr>guest := g\<rparr>)))
     | Raise e g \<Rightarrow> Raise e (h\<lparr>guest := g\<rparr>))"

definition pass :: "'a \<Rightarrow> 'd host \<Rightarrow> 'd host" where
  "pass a h = h"

definition c_void :: "('d, unit) mach \<Rightarrow> host_env \<Rightarrow> ('d, unit) hostm" where
  "c_void m E = call_with E (\<lambda>_. m) pass"

definition c_addr :: "(u32 \<Rightarrow> ('d, unit) mach) \<Rightarrow> host_env \<Rightarrow> ('d, unit) hostm" where
  "c_addr f E = call_with E (\<lambda>r. f (ucast (r RDI))) pass"

definition c_readB :: "(u32 \<Rightarrow> ('d, u8) mach) \<Rightarrow> host_env \<Rightarrow> ('d, unit) hostm" where
  "c_readB f E = call_with E (\<lambda>r. f (ucast (r RDI))) (\<lambda>v. put_reg W8 RAX (ucast v))"

definition c_readW :: "(u32 \<Rightarrow> ('d, u16) mach) \<Rightarrow> host_env \<Rightarrow> ('d, unit) hostm" where
  "c_readW f E = call_with E (\<lambda>r. f (ucast (r RDI))) (\<lambda>v. put_reg W16 RAX (ucast v))"

definition c_readL :: "(u32 \<Rightarrow> ('d, u32) mach) \<Rightarrow> host_env \<Rightarrow> ('d, unit) hostm" where
  "c_readL f E = call_with E (\<lambda>r. f (ucast (r RDI))) (\<lambda>v. put_reg W32 RAX (ucast v))"

definition c_writeB :: "(u32 \<Rightarrow> u8 \<Rightarrow> ('d, unit) mach) \<Rightarrow> host_env \<Rightarrow> ('d, unit) hostm" where
  "c_writeB f E = call_with E (\<lambda>r. f (ucast (r RDI)) (ucast (r RSI))) pass"

definition c_writeW :: "(u32 \<Rightarrow> u16 \<Rightarrow> ('d, unit) mach) \<Rightarrow> host_env \<Rightarrow> ('d, unit) hostm" where
  "c_writeW f E = call_with E (\<lambda>r. f (ucast (r RDI)) (ucast (r RSI))) pass"

definition c_writeL :: "(u32 \<Rightarrow> u32 \<Rightarrow> ('d, unit) mach) \<Rightarrow> host_env \<Rightarrow> ('d, unit) hostm" where
  "c_writeL f E = call_with E (\<lambda>r. f (ucast (r RDI)) (ucast (r RSI))) pass"

text \<open>Functions that take a reference to \<open>cpu\<close>, or a pointer to another object, get it in \<open>rdi\<close>.\<close>

definition given :: "hobj \<Rightarrow> ('d, unit) hostm \<Rightarrow> ('d, unit) hostm" where
  "given x m = (\<lambda>h. if hpoints h RDI = Some x then m h else Raise Undefined h)"

definition c_GetSR :: "host_env \<Rightarrow> ('d, unit) hostm" where
  "c_GetSR E = given The_cpu (call_with E (\<lambda>_. cget GetSR) (\<lambda>v. put_reg W16 RAX (ucast v)))"

definition c_SetSR :: "host_env \<Rightarrow> ('d, unit) hostm" where
  "c_SetSR E = given The_cpu (call_with E (\<lambda>r. cmod (SetSR (ucast (r RSI)))) pass)"

end
