(* ===== verification/JitEmit.thy ===== *)
theory JitEmit
  imports Host Memory
begin

text \<open>
  The translator's state and its basic emitters: src/cpu/jit/jit_common.hpp, jit_ea.cc and
  the helpers at the top of jit_op.cc. A translation reads the instruction words with the
  emulator's own \<open>FETCH\<close> and appends host instructions to the code.
\<close>

section \<open>State of the translator\<close>

text \<open>
  \<open>jcode\<close> is what the assembler holds, \<open>jlabels\<close> the number of labels made, \<open>jmap\<close> the map
  \<open>jumpMap\<close>, \<open>jbmi2\<close> what \<open>feature\<close> says of the host, \<open>jlen\<close> the length in bytes that the
  assembler library gives an instruction.
\<close>

record 'd jit =
  jguest :: "'d machine"
  jcode :: "'d insn list"
  jlabels :: nat
  jmap :: "u32 \<Rightarrow> label option"
  jbmi2 :: bool
  jlen :: "'d insn \<Rightarrow> nat"

type_synonym ('d, 'a) jitm = "('d jit, 'a) monad"

definition asm :: "'d insn list \<Rightarrow> ('d, unit) jitm" where
  "asm is = modify (\<lambda>j. j\<lparr>jcode := jcode j @ is\<rparr>)"

definition newLabel :: "('d, label) jitm" where
  "newLabel = (\<lambda>j. Ok (Local (jlabels j)) (j\<lparr>jlabels := Suc (jlabels j)\<rparr>))"

definition on_guest :: "('d, 'a) mach \<Rightarrow> ('d, 'a) jitm" where
  "on_guest m = lift_part jguest (\<lambda>g j. j\<lparr>jguest := g\<rparr>) m"

definition jFETCH :: "('d, u16) jitm" where
  "jFETCH = on_guest FETCH"

definition jFETCH32 :: "('d, u32) jitm" where
  "jFETCH32 = on_guest FETCH32"

definition jPC :: "('d, u32) jitm" where
  "jPC = gets (\<lambda>j. PC (cpu (jguest j)))"

text \<open>A block of statements.\<close>

fun seqs :: "('s, unit) monad list \<Rightarrow> ('s, unit) monad" where
  "seqs [] = return ()"
| "seqs (m # ms) = seq m (seqs ms)"

text \<open>The instructions under their mnemonics.\<close>

abbreviation "x_add \<equiv> X_alu A_add"
abbreviation "x_adc \<equiv> X_alu A_adc"
abbreviation "x_sub \<equiv> X_alu A_sub"
abbreviation "x_sbb \<equiv> X_alu A_sbb"
abbreviation "x_cmp \<equiv> X_alu A_cmp"
abbreviation "x_and \<equiv> X_alu A_and"
abbreviation "x_or \<equiv> X_alu A_or"
abbreviation "x_xor \<equiv> X_alu A_xor"
abbreviation "x_test \<equiv> X_alu A_test"
abbreviation "x_not \<equiv> X_un U_not"
abbreviation "x_neg \<equiv> X_un U_neg"
abbreviation "x_inc \<equiv> X_un U_inc"
abbreviation "x_dec \<equiv> X_un U_dec"
abbreviation "x_shl \<equiv> X_shift S_shl"
abbreviation "x_sal \<equiv> X_shift S_shl"
abbreviation "x_shr \<equiv> X_shift S_shr"
abbreviation "x_sar \<equiv> X_shift S_sar"
abbreviation "x_rol \<equiv> X_shift S_rol"
abbreviation "x_ror \<equiv> X_shift S_ror"
abbreviation "x_rcl \<equiv> X_shift S_rcl"
abbreviation "x_rcr \<equiv> X_shift S_rcr"
abbreviation "x_bt \<equiv> X_bt B_bt"
abbreviation "x_bts \<equiv> X_bt B_bts"
abbreviation "x_btr \<equiv> X_bt B_btr"
abbreviation "x_btc \<equiv> X_bt B_btc"

section \<open>Memory accesses\<close>

definition jit_readB :: "opnd \<Rightarrow> ('d, unit) jitm" where
  "jit_readB adr = asm ((if adr \<noteq> edi then [X_mov edi adr] else []) @ [X_call (c_readB ReadB)])"

definition jit_readW :: "opnd \<Rightarrow> ('d, unit) jitm" where
  "jit_readW adr = asm ((if adr \<noteq> edi then [X_mov edi adr] else []) @ [X_call (c_readW ReadW)])"

definition jit_readL :: "opnd \<Rightarrow> ('d, unit) jitm" where
  "jit_readL adr = asm ((if adr \<noteq> edi then [X_mov edi adr] else []) @ [X_call (c_readL ReadL)])"

definition jit_writeB :: "opnd \<Rightarrow> opnd \<Rightarrow> ('d, unit) jitm" where
  "jit_writeB adr v = asm ((if adr \<noteq> edi then [X_mov edi adr] else [])
     @ (if v \<noteq> sil then [X_mov sil v] else []) @ [X_call (c_writeB WriteB)])"

definition jit_writeW :: "opnd \<Rightarrow> opnd \<Rightarrow> ('d, unit) jitm" where
  "jit_writeW adr v = asm ((if adr \<noteq> edi then [X_mov edi adr] else [])
     @ (if v \<noteq> si then [X_mov si v] else []) @ [X_call (c_writeW WriteW)])"

definition jit_writeL :: "opnd \<Rightarrow> opnd \<Rightarrow> ('d, unit) jitm" where
  "jit_writeL adr v = asm ((if adr \<noteq> edi then [X_mov edi adr] else [])
     @ (if v \<noteq> esi then [X_mov esi v] else []) @ [X_call (c_writeL WriteL)])"

section \<open>Conditional code\<close>

datatype COND = COND_TRUE | COND_FALSE | COND_EQ | COND_NE | COND_LE | COND_LT | COND_GE | COND_GT

text \<open>The jump that skips the code of \<open>jit_if\<close>.\<close>

fun skip_cc :: "COND \<Rightarrow> cc" where
  "skip_cc COND_TRUE = C_z"
| "skip_cc COND_FALSE = C_nz"
| "skip_cc COND_EQ = C_nz"
| "skip_cc COND_NE = C_z"
| "skip_cc COND_LE = C_g"
| "skip_cc COND_LT = C_ge"
| "skip_cc COND_GE = C_l"
| "skip_cc COND_GT = C_le"

definition jit_if :: "COND \<Rightarrow> ('d, unit) jitm list \<Rightarrow> ('d, unit) jitm" where
  "jit_if cc t = bind newLabel (\<lambda>ENDIF. seqs [
     asm [X_j (skip_cc cc) ENDIF],
     seqs t,
     asm [X_bind ENDIF]])"

definition jit_if_else :: "COND \<Rightarrow> ('d, unit) jitm list \<Rightarrow> ('d, unit) jitm list \<Rightarrow> ('d, unit) jitm" where
  "jit_if_else cc t f = bind newLabel (\<lambda>ELSE. bind newLabel (\<lambda>ENDIF. seqs [
     asm [X_j (skip_cc cc) ELSE],
     seqs t,
     asm [X_jmp ENDIF, X_bind ELSE],
     seqs f,
     asm [X_bind ENDIF]]))"

section \<open>Effective addresses\<close>

text \<open>\<open>parseExt_jit(reg)\<close>; \<open>None\<close> stands for -1. The displacement and the outer displacement:\<close>

definition ext_disp :: "u16 \<Rightarrow> ('d, u32) jitm" where
  "ext_disp k =
     (if k = 2 then bind jFETCH (\<lambda>w. return (scast w))
      else if k = 3 then jFETCH32
      else return 0)"

definition parseExt_jit :: "regno option \<Rightarrow> ('d, unit) jitm" where
  "parseExt_jit reg =
     bind jPC (\<lambda>pc.
     bind jFETCH (\<lambda>nxt.
     let ri = unat (drop_bit 12 nxt AND 15); ri_c = unat (drop_bit 9 nxt AND 3) in
     seqs [
       asm [case reg of Some r \<Rightarrow> X_mov r10d (AR_L (unat r)) | None \<Rightarrow> X_mov r10d (Imm (uint pc))],
       asm [if bit_at nxt 11 then X_mov eax (DR_L ri) else X_movsx eax (DR_W ri)],
       if \<not> bit_at nxt 8 then
         asm [X_lea esi (Indexed r10d eax ri_c (sint (ucast (nxt AND 0xff) :: u8)))]
       else seqs [
         asm (if bit_at nxt 7 then [x_xor r10d r10d] else []),
         asm (if bit_at nxt 6 then [x_xor eax eax] else []),
         bind (ext_disp (drop_bit 4 nxt AND 3)) (\<lambda>bd.
         if nxt AND 3 = 0 then asm [X_lea esi (Indexed r10d eax ri_c (sint bd))]
         else
           bind (ext_disp (nxt AND 3)) (\<lambda>od_v.
           if \<not> bit_at nxt 2 then seqs [
             asm [X_lea r11d (Indexed r10d eax ri_c (sint bd))],
             jit_readL r11d,
             asm [X_lea esi (Based eax (sint od_v))]]
           else seqs [
             asm [X_mov r12d eax,
                  X_lea r11d (Based r10d (sint bd))],
             jit_readL r11d,
             asm [X_lea esi (Indexed r12d eax ri_c (sint od_v))]]))]]))"

definition stack_sz :: "regno \<Rightarrow> int \<Rightarrow> int" where
  "stack_sz reg sz = (if reg = 7 \<and> sz = 1 then 2 else sz)"

definition ea_getaddr_jit :: "regno \<Rightarrow> regno \<Rightarrow> int \<Rightarrow> ('d, unit) jitm" where
  "ea_getaddr_jit ty reg sz = (let r = unat reg in seqs [
     if ty = 2 then asm [X_mov esi (AR_L r)]
     else if ty = 3 then
       asm [X_mov esi (AR_L r),
            X_lea eax (Based esi (stack_sz reg sz)),
            X_mov (AR_L r) eax]
     else if ty = 4 then
       asm [x_sub (AR_L r) (Imm (stack_sz reg sz)),
            X_mov esi (AR_L r)]
     else if ty = 5 then
       bind jFETCH (\<lambda>d.
       asm [X_mov esi (AR_L r),
            X_lea esi (Based esi (sint d))])
     else if ty = 6 then parseExt_jit (Some reg)
     else if ty = 7 \<and> reg = 0 then bind jFETCH (\<lambda>w. asm [X_mov esi (Imm (sint w))])
     else if ty = 7 \<and> reg = 1 then bind jFETCH32 (\<lambda>l. asm [X_mov esi (Imm (uint l))])
     else if ty = 7 \<and> reg = 2 then
       bind jPC (\<lambda>now. bind jFETCH (\<lambda>d. asm [X_mov esi (Imm (uint (now + scast d)))]))
     else if ty = 7 \<and> reg = 3 then parseExt_jit None
     else throw JitError,
     asm [X_mov edi esi,
          X_mov EA_m esi]])"

definition jit_lock :: "bool \<Rightarrow> ('d, unit) jitm" where
  "jit_lock lk = asm (if lk then [x_inc (CPU_BYTE F_bus_lock)] else [])"

definition ea_readB_jit :: "regno \<Rightarrow> regno \<Rightarrow> bool \<Rightarrow> ('d, unit) jitm" where
  "ea_readB_jit ty reg lk =
     (if ty = 0 then asm [X_movzx eax (DR_B (unat reg))]
      else if ty = 7 \<and> reg = 4 then bind jFETCH (\<lambda>w. asm [X_mov eax (Imm (uint (w AND 0xff)))])
      else seqs [ea_getaddr_jit ty reg 1, jit_lock lk, jit_readB edi])"

definition ea_readW_jit :: "regno \<Rightarrow> regno \<Rightarrow> bool \<Rightarrow> ('d, unit) jitm" where
  "ea_readW_jit ty reg lk =
     (if ty = 0 then asm [X_movzx eax (DR_W (unat reg))]
      else if ty = 1 then asm [X_movzx eax (AR_W (unat reg))]
      else if ty = 7 \<and> reg = 4 then bind jFETCH (\<lambda>w. asm [X_mov eax (Imm (uint w))])
      else seqs [ea_getaddr_jit ty reg 2, jit_lock lk, jit_readW edi])"

definition ea_readL_jit :: "regno \<Rightarrow> regno \<Rightarrow> bool \<Rightarrow> ('d, unit) jitm" where
  "ea_readL_jit ty reg lk =
     (if ty = 0 then asm [X_mov eax (DR_L (unat reg))]
      else if ty = 1 then asm [X_mov eax (AR_L (unat reg))]
      else if ty = 7 \<and> reg = 4 then bind jFETCH32 (\<lambda>l. asm [X_mov eax (Imm (uint l))])
      else seqs [ea_getaddr_jit ty reg 4, jit_lock lk, jit_readL edi])"

definition ea_writeB_jit :: "regno \<Rightarrow> regno \<Rightarrow> bool \<Rightarrow> ('d, unit) jitm" where
  "ea_writeB_jit ty reg upd =
     (if ty = 0 then asm [X_mov (DR_B (unat reg)) al]
      else seqs [
        if \<not> upd then ea_getaddr_jit ty reg 1 else return (),
        jit_writeB EA_m al,
        asm [X_mov (CPU_BYTE F_bus_lock) (Imm 0)]])"

definition ea_writeW_jit :: "regno \<Rightarrow> regno \<Rightarrow> bool \<Rightarrow> ('d, unit) jitm" where
  "ea_writeW_jit ty reg upd =
     (if ty = 0 then asm [X_mov (DR_W (unat reg)) ax]
      else if ty = 1 then asm [X_cwde, X_mov (AR_L (unat reg)) eax]
      else seqs [
        if \<not> upd then ea_getaddr_jit ty reg 2 else return (),
        jit_writeW EA_m ax,
        asm [X_mov (CPU_BYTE F_bus_lock) (Imm 0)]])"

definition ea_writeL_jit :: "regno \<Rightarrow> regno \<Rightarrow> bool \<Rightarrow> ('d, unit) jitm" where
  "ea_writeL_jit ty reg upd =
     (if ty = 0 then asm [X_mov (DR_L (unat reg)) eax]
      else if ty = 1 then asm [X_mov (AR_L (unat reg)) eax]
      else seqs [
        if \<not> upd then ea_getaddr_jit ty reg 4 else return (),
        jit_writeL EA_m eax,
        asm [X_mov (CPU_BYTE F_bus_lock) (Imm 0)]])"

end
