(* ===== verification/JitBase.thy ===== *)
theory JitBase
  imports JitEmit Dispatch
begin

text \<open>
  The helpers of src/cpu/jit/jit_op.cc that the translations of the instructions share, and
  the emulator functions the translated code calls besides the memory accesses.
\<close>

section \<open>Functions called\<close>

definition c_trap :: "host_env \<Rightarrow> ('d, unit) hostm" where
  "c_trap E = call_with E (\<lambda>r. TRAP_ERROR (sint (ucast (r RDI) :: u32)) :: (_, unit) mach) pass"

definition c_stop_impl :: "host_env \<Rightarrow> ('d, unit) hostm" where
  "c_stop_impl E = call_with E (\<lambda>r. stop_impl (ucast (r RDI))) pass"

definition c_bus_reset :: "host_env \<Rightarrow> ('d, unit) hostm" where
  "c_bus_reset E = call_with E (\<lambda>_. bind (gets dev_reset) on_bus) pass"

text \<open>\<open>bool movec_from_cr_impl(uint16_t extw, uint32_t *rn)\<close> stores through its pointer.\<close>

definition movec_from :: "u16 \<Rightarrow> nat \<Rightarrow> ('d, bool) mach" where
  "movec_from extw n = bind (cget (movec_from_cr_impl extw)) (\<lambda>r. case r of
       Some (v, c) \<Rightarrow> seq (cmod (\<lambda>_. set_reg_of n v c)) (return True)
     | None \<Rightarrow> return False)"

definition c_movec_from_cr_impl :: "host_env \<Rightarrow> ('d, unit) hostm" where
  "c_movec_from_cr_impl E = (\<lambda>h. case hpoints h RSI of
       Some (Member (R_at n)) \<Rightarrow>
         call_with E (\<lambda>r. movec_from (ucast (r RDI)) n) (\<lambda>b. put_reg W8 RAX (of_bool b)) h
     | _ \<Rightarrow> Raise Undefined h)"

definition movec_to :: "u16 \<Rightarrow> u32 \<Rightarrow> ('d, bool) mach" where
  "movec_to extw v = bind (cget (movec_to_cr_impl extw v)) (\<lambda>r. case r of
       Some c \<Rightarrow> seq (cmod (\<lambda>_. c)) (return True)
     | None \<Rightarrow> return False)"

definition c_movec_to_cr_impl :: "host_env \<Rightarrow> ('d, unit) hostm" where
  "c_movec_to_cr_impl E = call_with E (\<lambda>r. movec_to (ucast (r RDI)) (ucast (r RSI)))
     (\<lambda>b. put_reg W8 RAX (of_bool b))"

definition c_do_pack :: "host_env \<Rightarrow> ('d, unit) hostm" where
  "c_do_pack E = call_with E (\<lambda>r. return (do_pack (ucast (r RDI)) (ucast (r RSI)))) (\<lambda>v. put_reg W8 RAX (ucast v))"

definition c_do_unpk :: "host_env \<Rightarrow> ('d, unit) hostm" where
  "c_do_unpk E = call_with E (\<lambda>r. return (do_unpk (ucast (r RDI)) (ucast (r RSI)))) (\<lambda>v. put_reg W16 RAX (ucast v))"

text \<open>
  The routines for bit fields in memory. A width that is not between 1 and 32 makes them
  shift by a negative amount or by the width of the type. \<open>BFTST_M\<close> and the insertions look
  at the low byte of the width only.
\<close>

definition bf_args :: "u32 \<Rightarrow> (nat \<Rightarrow> ('d, 'a) mach) \<Rightarrow> ('d, 'a) mach" where
  "bf_args width f = (if 1 \<le> width \<and> width \<le> 32 then f (unat width) else throw Undefined)"

definition c_BFTST_M :: "host_env \<Rightarrow> ('d, unit) hostm" where
  "c_BFTST_M E = call_with E
     (\<lambda>r. bf_args (ucast (ucast (r RDX) :: u8)) (BFTST_M (ucast (r RDI)) (sint (ucast (r RSI) :: u32))))
     (\<lambda>v. put_reg W32 RAX (ucast v))"

definition c_bf :: "(u32 \<Rightarrow> int \<Rightarrow> nat \<Rightarrow> ('d, unit) mach) \<Rightarrow> host_env \<Rightarrow> ('d, unit) hostm" where
  "c_bf f E = call_with E
     (\<lambda>r. bf_args (ucast (r RDX)) (f (ucast (r RDI)) (sint (ucast (r RSI) :: u32)))) pass"

definition c_BFINS_D :: "host_env \<Rightarrow> ('d, unit) hostm" where
  "c_BFINS_D E = call_with E
     (\<lambda>r. bf_args (ucast (ucast (r RDX) :: u8))
       (\<lambda>w. BFINS_D (ucast (r RDI)) (sint (ucast (r RSI) :: u32)) w (ucast (r RCX))))
     (\<lambda>v. put_reg W32 RAX (ucast v))"

definition c_BFINS_M :: "host_env \<Rightarrow> ('d, unit) hostm" where
  "c_BFINS_M E = call_with E
     (\<lambda>r. bf_args (ucast (ucast (r RDX) :: u8))
       (\<lambda>w. BFINS_M (ucast (r RDI)) (sint (ucast (r RSI) :: u32)) w (ucast (r RCX)))) pass"

definition c_Transfer16 :: "host_env \<Rightarrow> ('d, unit) hostm" where
  "c_Transfer16 E = call_with E (\<lambda>r. Transfer16 (ucast (r RDI)) (ucast (r RSI))) pass"

section \<open>The program counter and the condition codes\<close>

definition update_pc :: "('d, unit) jitm" where
  "update_pc = bind jPC (\<lambda>pc. asm [
     X_mov (Stk 8) rsi,
     X_mov esi (Imm (uint pc)),
     X_mov c_pc esi,
     X_mov rsi (Stk 8)])"

definition update_nz :: "('d, unit) jitm" where
  "update_nz = asm [
     X_set C_z CC_Z,
     X_set C_s CC_N]"

definition update_vc :: "('d, unit) jitm" where
  "update_vc = asm [
     X_set C_o CC_V,
     X_set C_c CC_C]"

definition clear_vc :: "('d, unit) jitm" where
  "clear_vc = asm [
     X_mov CC_V (Imm 0),
     X_mov CC_C (Imm 0)]"

definition update_vcx :: "('d, unit) jitm" where
  "update_vcx = asm [
     X_set C_o CC_V,
     X_set C_c dl,
     X_mov CC_C dl,
     X_mov CC_X dl]"

section \<open>The guest's stack\<close>

definition jit_push16 :: "('d, unit) jitm" where
  "jit_push16 = seqs [
     asm [x_sub SP (Imm 2)],
     jit_writeW SP ax]"

definition jit_push32 :: "('d, unit) jitm" where
  "jit_push32 = seqs [
     asm [X_push rax,
          x_sub SP (Imm 2)],
     jit_writeW SP ax,
     asm [x_sub SP (Imm 2),
          X_pop rax,
          x_ror eax (Imm 16)],
     jit_writeW SP ax]"

definition jit_pop16 :: "('d, unit) jitm" where
  "jit_pop16 = seqs [
     jit_readW SP,
     asm [x_add SP (Imm 2)]]"

definition jit_pop32 :: "('d, unit) jitm" where
  "jit_pop32 = seqs [
     jit_readW SP,
     asm [X_mov r14d eax,
          x_sal r14d (Imm 16),
          x_add SP (Imm 2)],
     jit_readW SP,
     asm [x_or eax r14d,
          x_add SP (Imm 2)]]"

section \<open>Tracing, privilege, jumps\<close>

definition jit_trace_branch :: "('d, unit) jitm" where
  "jit_trace_branch = seqs [
     asm [x_test CC_T (Imm 1)],
     jit_if COND_TRUE [asm [X_mov (CPU_BYTE F_must_trace) (Imm 1)]]]"

definition jit_priv_check :: "('d, unit) jitm" where
  "jit_priv_check = seqs [
     asm [x_test CC_S (Imm 1)],
     jit_if COND_FALSE [asm [X_call (c_void PRIV_ERROR)]]]"

text \<open>src/cpu/jit/jit.cc.\<close>

definition jit_postop :: "('d, unit) jitm" where
  "jit_postop = bind newLabel (\<lambda>lb. asm [
     X_lea rdi (Field_addr F_must_trace),
     X_mov al (Deref W8 RDI),
     X_mov (Deref W8 RDI) (Imm 0),
     x_test al (Imm 1),
     X_j C_z lb,
     X_call (c_void TRACE),
     X_bind lb])"

definition jump :: "('d, unit) jitm" where
  "jump = seqs [
     asm [x_test eax (Imm 1)],
     jit_if COND_TRUE [
       asm [X_mov edi eax,
            X_call (c_addr ADDRESS_ERROR)]],
     asm [X_mov c_pc eax],
     jit_trace_branch,
     jit_postop,
     asm [X_jmp End_lbl]]"

text \<open>\<open>jumpMap[t]\<close>: an address without an entry gets an invalid label.\<close>

definition jump_label :: "u32 \<Rightarrow> ('d, label) jitm" where
  "jump_label t = (\<lambda>j. case jmap j t of
       Some l \<Rightarrow> Ok l j
     | None \<Rightarrow> Ok No_label (j\<lparr>jmap := (jmap j)(t \<mapsto> No_label)\<rparr>))"

definition jumpC :: "u32 \<Rightarrow> ('d, unit) jitm" where
  "jumpC t =
     (if bit_at t 0 then asm [X_call (c_addr ADDRESS_ERROR)]
      else seqs [
        asm [X_mov eax (Imm (uint t)),
             X_mov c_pc eax],
        jit_trace_branch,
        jit_postop,
        bind (jump_label t) (\<lambda>l. asm [X_jmp l])])"

definition jit_getCCR :: "('d, unit) jitm" where
  "jit_getCCR = asm [
     X_mov al CC_X,
     x_shl al (Imm 4),
     X_mov dl CC_N,
     x_shl dl (Imm 3),
     X_mov cl CC_Z,
     x_shl cl (Imm 2),
     X_mov sil CC_V,
     x_shl sil (Imm 1),
     X_mov dil CC_C,
     x_or al dl,
     x_or cl sil,
     x_or al cl,
     x_or al dil]"

definition jit_setCCR :: "('d, unit) jitm" where
  "jit_setCCR = asm [
     x_bt al (Imm 4),
     X_set C_c CC_X,
     x_bt al (Imm 3),
     X_set C_c CC_N,
     x_bt al (Imm 2),
     X_set C_c CC_Z,
     x_bt al (Imm 1),
     X_set C_c CC_V,
     x_bt al (Imm 0),
     X_set C_c CC_C]"

definition jit_exit :: "u16 \<Rightarrow> ('d, unit) jitm" where
  "jit_exit op = seqs [
     update_pc,
     asm [X_mov rdi (Obj The_testing),
          X_mov al (Deref W8 RDI),
          x_xor al al,
          X_mov (Deref W8 RDI) al,
          X_jmp End_lbl]]"

text \<open>The condition of a conditional instruction, as a byte in \<open>al\<close> and as the zero flag.\<close>

definition jit_testcc :: "nat \<Rightarrow> ('d, unit) jitm" where
  "jit_testcc c = asm (
     if c = 0 then [X_mov al (Imm 1)]
     else if c = 1 then [x_xor al al]
     else if c = 2 then [X_mov al CC_C, x_or al CC_Z, X_set C_z al]
     else if c = 3 then [X_mov al CC_C, x_or al CC_Z]
     else if c = 4 then [X_mov al CC_C, x_test al al, X_set C_z al]
     else if c = 5 then [X_mov al CC_C]
     else if c = 6 then [X_mov al CC_Z, x_test al al, X_set C_z al]
     else if c = 7 then [X_mov al CC_Z]
     else if c = 8 then [X_mov al CC_V, x_test al al, X_set C_z al]
     else if c = 9 then [X_mov al CC_V]
     else if c = 10 then [X_mov al CC_N, x_test al al, X_set C_z al]
     else if c = 11 then [X_mov al CC_N]
     else if c = 12 then [X_mov al CC_N, x_xor al CC_V, X_set C_z al]
     else if c = 13 then [X_mov al CC_N, x_xor al CC_V]
     else if c = 14 then [X_mov al CC_N, x_xor al CC_V, x_or al CC_Z, X_set C_z al]
     else [X_mov al CC_N, x_xor al CC_V, x_or al CC_Z])"

text \<open>
  The offset and the width of a bit field, in \<open>r11d\<close> and \<open>r12d\<close>; the result is the number
  of the data register of the extension word.
\<close>

definition bf_common :: "('d, nat) jitm" where
  "bf_common = bind jFETCH (\<lambda>extw.
     let offset = unat (drop_bit 6 extw AND 0x1f); width = unat (extw AND 0x1f) in
     seq (seqs [
       update_pc,
       asm [if bit_at extw 11 then X_mov r11d (DR_L (offset mod 8)) else X_mov r11d (Imm (int offset))],
       asm (if bit_at extw 5 then
              [X_mov r12d (DR_L (width mod 8)),
               X_mov edx (Imm 32),
               x_test r12d r12d,
               X_cmov C_z r12d edx]
            else [X_mov r12d (Imm (if width \<noteq> 0 then int width else 32))])])
     (return (unat (drop_bit 12 extw AND 7))))"

end
