(* ===== verification/JitOps1.thy ===== *)
theory JitOps1
  imports JitBase
begin

text \<open>
  Translations of instructions, first part: src/cpu/jit/jit_op.cc, the opcode line 0
  (immediate, bit and peripheral instructions, compare-and-swap, MOVES). Each translation
  has the name of the instruction's handler and takes the opcode.
\<close>

definition jit_ori_b :: "u16 \<Rightarrow> ('d, unit) jitm" where
  "jit_ori_b op = bind jFETCH (\<lambda>v. seqs [
      ea_readB_jit (TYP op) (REG op) True,
      update_pc,
      asm [x_or al (Imm (uint (ucast v :: u8)))],
      update_nz,
      clear_vc,
      ea_writeB_jit (TYP op) (REG op) True])"

definition jit_ori_w :: "u16 \<Rightarrow> ('d, unit) jitm" where
  "jit_ori_w op = bind jFETCH (\<lambda>v. seqs [
      ea_readW_jit (TYP op) (REG op) True,
      update_pc,
      asm [x_or ax (Imm (uint v))],
      update_nz,
      clear_vc,
      ea_writeW_jit (TYP op) (REG op) True])"

definition jit_ori_l :: "u16 \<Rightarrow> ('d, unit) jitm" where
  "jit_ori_l op = bind jFETCH32 (\<lambda>v. seqs [
      ea_readL_jit (TYP op) (REG op) True,
      update_pc,
      asm [x_or eax (Imm (uint v))],
      update_nz,
      clear_vc,
      ea_writeL_jit (TYP op) (REG op) True])"

definition jit_ori_b_ccr :: "u16 \<Rightarrow> ('d, unit) jitm" where
  "jit_ori_b_ccr op = bind jFETCH (\<lambda>v. seqs [
      update_pc,
      jit_getCCR,
      asm [x_or al (Imm (uint v))],
      jit_setCCR])"

definition jit_ori_w_sr :: "u16 \<Rightarrow> ('d, unit) jitm" where
  "jit_ori_w_sr op = bind jFETCH (\<lambda>v. seqs [
      asm [X_call (c_void PRIV_CHECK)],
      update_pc,
      asm [X_call c_GetSR,
           x_or ax (Imm (uint v)),
           X_mov edi eax,
           X_call c_SetSR],
      jit_trace_branch])"

definition jit_andi_b :: "u16 \<Rightarrow> ('d, unit) jitm" where
  "jit_andi_b op = bind jFETCH (\<lambda>v. seqs [
      ea_readB_jit (TYP op) (REG op) True,
      update_pc,
      asm [x_and al (Imm (uint (ucast v :: u8)))],
      update_nz,
      clear_vc,
      ea_writeB_jit (TYP op) (REG op) True])"

definition jit_andi_w :: "u16 \<Rightarrow> ('d, unit) jitm" where
  "jit_andi_w op = bind jFETCH (\<lambda>v. seqs [
      ea_readW_jit (TYP op) (REG op) True,
      update_pc,
      asm [x_and ax (Imm (uint v))],
      update_nz,
      clear_vc,
      ea_writeW_jit (TYP op) (REG op) True])"

definition jit_andi_l :: "u16 \<Rightarrow> ('d, unit) jitm" where
  "jit_andi_l op = bind jFETCH32 (\<lambda>v. seqs [
      ea_readL_jit (TYP op) (REG op) True,
      update_pc,
      asm [x_and eax (Imm (uint v))],
      update_nz,
      clear_vc,
      ea_writeL_jit (TYP op) (REG op) True])"

definition jit_andi_b_ccr :: "u16 \<Rightarrow> ('d, unit) jitm" where
  "jit_andi_b_ccr op = bind jFETCH (\<lambda>v. seqs [
      update_pc,
      jit_getCCR,
      asm [x_and al (Imm (uint v))],
      jit_setCCR])"

definition jit_andi_w_sr :: "u16 \<Rightarrow> ('d, unit) jitm" where
  "jit_andi_w_sr op = bind jFETCH (\<lambda>v. seqs [
      asm [X_call (c_void PRIV_CHECK)],
      update_pc,
      asm [X_call c_GetSR,
           x_and ax (Imm (uint v)),
           X_mov edi eax,
           X_call c_SetSR],
      jit_trace_branch])"

definition jit_eori_b :: "u16 \<Rightarrow> ('d, unit) jitm" where
  "jit_eori_b op = bind jFETCH (\<lambda>v. seqs [
      ea_readB_jit (TYP op) (REG op) True,
      update_pc,
      asm [x_xor al (Imm (uint (ucast v :: u8)))],
      update_nz,
      clear_vc,
      ea_writeB_jit (TYP op) (REG op) True])"

definition jit_eori_w :: "u16 \<Rightarrow> ('d, unit) jitm" where
  "jit_eori_w op = bind jFETCH (\<lambda>v. seqs [
      ea_readW_jit (TYP op) (REG op) True,
      update_pc,
      asm [x_xor ax (Imm (uint v))],
      update_nz,
      clear_vc,
      ea_writeW_jit (TYP op) (REG op) True])"

definition jit_eori_l :: "u16 \<Rightarrow> ('d, unit) jitm" where
  "jit_eori_l op = bind jFETCH32 (\<lambda>v. seqs [
      ea_readL_jit (TYP op) (REG op) True,
      update_pc,
      asm [x_xor eax (Imm (uint v))],
      update_nz,
      clear_vc,
      ea_writeL_jit (TYP op) (REG op) True])"

definition jit_eori_b_ccr :: "u16 \<Rightarrow> ('d, unit) jitm" where
  "jit_eori_b_ccr op = bind jFETCH (\<lambda>v. seqs [
      update_pc,
      jit_getCCR,
      asm [x_xor al (Imm (uint v))],
      jit_setCCR])"

definition jit_eori_w_sr :: "u16 \<Rightarrow> ('d, unit) jitm" where
  "jit_eori_w_sr op = bind jFETCH (\<lambda>v. seqs [
      asm [X_call (c_void PRIV_CHECK)],
      update_pc,
      asm [X_call c_GetSR,
           x_xor ax (Imm (uint v)),
           X_mov edi eax,
           X_call c_SetSR],
      jit_trace_branch,
      jit_postop])"

definition jit_subi_b :: "u16 \<Rightarrow> ('d, unit) jitm" where
  "jit_subi_b op = bind jFETCH (\<lambda>v. seqs [
      ea_readB_jit (TYP op) (REG op) True,
      update_pc,
      asm [x_sub al (Imm (uint (ucast v :: u8)))],
      update_nz,
      update_vcx,
      ea_writeB_jit (TYP op) (REG op) True])"

definition jit_subi_w :: "u16 \<Rightarrow> ('d, unit) jitm" where
  "jit_subi_w op = bind jFETCH (\<lambda>v. seqs [
      ea_readW_jit (TYP op) (REG op) True,
      update_pc,
      asm [x_sub ax (Imm (uint v))],
      update_nz,
      update_vcx,
      ea_writeW_jit (TYP op) (REG op) True])"

definition jit_subi_l :: "u16 \<Rightarrow> ('d, unit) jitm" where
  "jit_subi_l op = bind jFETCH32 (\<lambda>v. seqs [
      ea_readL_jit (TYP op) (REG op) True,
      update_pc,
      asm [x_sub eax (Imm (uint v))],
      update_nz,
      update_vcx,
      ea_writeL_jit (TYP op) (REG op) True])"

definition jit_addi_b :: "u16 \<Rightarrow> ('d, unit) jitm" where
  "jit_addi_b op = bind jFETCH (\<lambda>v. seqs [
      ea_readB_jit (TYP op) (REG op) True,
      update_pc,
      asm [x_add al (Imm (uint (ucast v :: u8)))],
      update_nz,
      update_vcx,
      ea_writeB_jit (TYP op) (REG op) True])"

definition jit_addi_w :: "u16 \<Rightarrow> ('d, unit) jitm" where
  "jit_addi_w op = bind jFETCH (\<lambda>v. seqs [
      ea_readW_jit (TYP op) (REG op) True,
      update_pc,
      asm [x_add ax (Imm (uint v))],
      update_nz,
      update_vcx,
      ea_writeW_jit (TYP op) (REG op) True])"

definition jit_addi_l :: "u16 \<Rightarrow> ('d, unit) jitm" where
  "jit_addi_l op = bind jFETCH32 (\<lambda>v. seqs [
      ea_readL_jit (TYP op) (REG op) True,
      update_pc,
      asm [x_add eax (Imm (uint v))],
      update_nz,
      update_vcx,
      ea_writeL_jit (TYP op) (REG op) True])"

definition jit_cmpi_b :: "u16 \<Rightarrow> ('d, unit) jitm" where
  "jit_cmpi_b op = bind jFETCH (\<lambda>v. seqs [
      ea_readB_jit (TYP op) (REG op) False,
      update_pc,
      asm [x_sub al (Imm (uint (ucast v :: u8)))],
      update_nz,
      update_vc])"

definition jit_cmpi_w :: "u16 \<Rightarrow> ('d, unit) jitm" where
  "jit_cmpi_w op = bind jFETCH (\<lambda>v. seqs [
      ea_readW_jit (TYP op) (REG op) False,
      update_pc,
      asm [x_sub ax (Imm (uint v))],
      update_nz,
      update_vc])"

definition jit_cmpi_l :: "u16 \<Rightarrow> ('d, unit) jitm" where
  "jit_cmpi_l op = bind jFETCH32 (\<lambda>v. seqs [
      ea_readL_jit (TYP op) (REG op) False,
      update_pc,
      asm [x_sub eax (Imm (uint v))],
      update_nz,
      update_vc])"

definition jit_cmp2_chk2_b :: "u16 \<Rightarrow> ('d, unit) jitm" where
  "jit_cmp2_chk2_b op = bind jFETCH (\<lambda>nextop. let s = bit_at nextop 15 in let rn = unat (drop_bit 12 nextop AND 7) in let chk2 = bit_at nextop 11 in seqs [
            ea_getaddr_jit (TYP op) (REG op) 1,
            asm [X_mov r12d edi],
            update_pc,
            jit_readB r12d,
            asm [X_mov r13b al,
                 X_lea r12d (Based r12d 1)],
            jit_readB r12d,
            asm [X_mov sil al,
                 X_mov dil (DR_B (rn OR push_bit 3 (of_bool s))),
                 x_cmp dil r13b,
                 X_set C_z cl],
            if s then asm [X_set C_l ch]
              else asm [X_set C_b ch],
            asm [x_cmp sil dil,
                 X_set C_z al],
            if s then asm [X_set C_l ah]
              else asm [X_set C_b ah],
            asm [x_or ax cx,
                 X_mov cl ah,
                 X_mov CC_Z al,
                 X_mov CC_C cl],
            if chk2 then seqs [
                asm [x_test cl (Imm 1)],
                jit_if COND_TRUE [
                    asm [X_call (c_void CHK_ERROR)]]]
              else return ()])"

definition jit_cmp2_chk2_w :: "u16 \<Rightarrow> ('d, unit) jitm" where
  "jit_cmp2_chk2_w op = bind jFETCH (\<lambda>nextop. let s = bit_at nextop 15 in let rn = unat (drop_bit 12 nextop AND 7) in let chk2 = bit_at nextop 11 in seqs [
            ea_getaddr_jit (TYP op) (REG op) 2,
            asm [X_mov r12d edi],
            update_pc,
            jit_readW r12d,
            asm [X_mov r13w ax,
                 X_lea r12d (Based r12d 2)],
            jit_readW r12d,
            asm [X_mov si ax,
                 X_mov di (DR_W (rn OR push_bit 3 (of_bool s))),
                 x_cmp di r13w,
                 X_set C_z cl],
            if s then asm [X_set C_l ch]
              else asm [X_set C_b ch],
            asm [x_cmp si di,
                 X_set C_z al],
            if s then asm [X_set C_l ah]
              else asm [X_set C_b ah],
            asm [x_or ax cx,
                 X_mov cl ah,
                 X_mov CC_Z al,
                 X_mov CC_C cl],
            if chk2 then seqs [
                asm [x_test cl (Imm 1)],
                jit_if COND_TRUE [
                    asm [X_call (c_void CHK_ERROR)]]]
              else return ()])"

definition jit_cmp2_chk2_l :: "u16 \<Rightarrow> ('d, unit) jitm" where
  "jit_cmp2_chk2_l op = bind jFETCH (\<lambda>nextop. let s = bit_at nextop 15 in let rn = unat (drop_bit 12 nextop AND 7) in let chk2 = bit_at nextop 11 in seqs [
            ea_getaddr_jit (TYP op) (REG op) 4,
            asm [X_mov r12d edi],
            update_pc,
            jit_readL r12d,
            asm [X_mov r13d eax,
                 X_lea r12d (Based r12d 4)],
            jit_readL r12d,
            asm [X_mov esi eax,
                 X_mov edi (DR_L (rn OR push_bit 3 (of_bool s))),
                 x_cmp edi r13d,
                 X_set C_z cl],
            if s then asm [X_set C_l ch]
              else asm [X_set C_b ch],
            asm [x_cmp esi edi,
                 X_set C_z al],
            if s then asm [X_set C_l ah]
              else asm [X_set C_b ah],
            asm [x_or ax cx,
                 X_mov cl ah,
                 X_mov CC_Z al,
                 X_mov CC_C cl],
            if chk2 then seqs [
                asm [x_test cl (Imm 1)],
                jit_if COND_TRUE [
                    asm [X_call (c_void CHK_ERROR)]]]
              else return ()])"

definition jit_btst_l_i :: "u16 \<Rightarrow> ('d, unit) jitm" where
  "jit_btst_l_i op = bind jFETCH (\<lambda>w. let pos = uint (w AND 31) in seqs [
      update_pc,
      asm [x_bt (DR_L (unat (REG op))) (Imm pos),
           X_set C_nc CC_Z]])"

definition jit_btst_b_i :: "u16 \<Rightarrow> ('d, unit) jitm" where
  "jit_btst_b_i op = bind jFETCH (\<lambda>w. let pos = uint (w AND 7) in seqs [
      ea_readB_jit (TYP op) (REG op) False,
      update_pc,
      asm [x_bt ax (Imm pos),
           X_set C_nc CC_Z]])"

definition jit_btst_b_i_imm :: "u16 \<Rightarrow> ('d, unit) jitm" where
  "jit_btst_b_i_imm op = bind jFETCH (\<lambda>w. let pos = uint (w AND 7) in bind jFETCH (\<lambda>imm. seqs [
        update_pc,
        asm [X_mov ax (Imm (uint (ucast imm :: u8))),
             x_bt ax (Imm pos),
             X_set C_nc CC_Z]]))"

definition jit_btst_l_r :: "u16 \<Rightarrow> ('d, unit) jitm" where
  "jit_btst_l_r op = seqs [
     update_pc,
     asm [X_movzx ecx (DR_B (unat (DN op))),
         x_bt (DR_L (unat (REG op))) ecx,
         X_set C_nc CC_Z]]"

definition jit_btst_b_r :: "u16 \<Rightarrow> ('d, unit) jitm" where
  "jit_btst_b_r op = seqs [
     ea_readB_jit (TYP op) (REG op) False,
     update_pc,
     asm [X_mov cl (DR_L (unat (DN op))),
         x_and cx (Imm 7),
         x_bt ax cx,
         X_set C_nc CC_Z]]"

definition jit_btst_b_r_imm :: "u16 \<Rightarrow> ('d, unit) jitm" where
  "jit_btst_b_r_imm op = bind jFETCH (\<lambda>imm. seqs [
      update_pc,
      asm [X_mov al (Imm (uint (ucast imm :: u8))),
           X_mov cl (DR_B (unat (DN op))),
           x_and cx (Imm 7),
           x_bt ax cx,
           X_set C_nc CC_Z]])"

definition jit_bchg_l_i :: "u16 \<Rightarrow> ('d, unit) jitm" where
  "jit_bchg_l_i op = bind jFETCH (\<lambda>w. let pos = uint (w AND 31) in seqs [
      update_pc,
      asm [x_btc (DR_L (unat (REG op))) (Imm pos),
           X_set C_nc CC_Z]])"

definition jit_bchg_b_i :: "u16 \<Rightarrow> ('d, unit) jitm" where
  "jit_bchg_b_i op = bind jFETCH (\<lambda>w. let pos = uint (w AND 7) in seqs [
      ea_readB_jit (TYP op) (REG op) True,
      update_pc,
      asm [x_btc ax (Imm pos),
           X_set C_nc CC_Z],
      ea_writeB_jit (TYP op) (REG op) True])"

definition jit_bchg_l_r :: "u16 \<Rightarrow> ('d, unit) jitm" where
  "jit_bchg_l_r op = seqs [
     update_pc,
     asm [X_movzx ecx (DR_B (unat (DN op))),
         x_btc (DR_L (unat (REG op))) ecx,
         X_set C_nc CC_Z]]"

definition jit_bchg_b_r :: "u16 \<Rightarrow> ('d, unit) jitm" where
  "jit_bchg_b_r op = seqs [
     ea_readB_jit (TYP op) (REG op) True,
     update_pc,
     asm [X_mov cl (DR_B (unat (DN op))),
         x_and cx (Imm 7),
         x_btc ax cx,
         X_set C_nc CC_Z],
     ea_writeB_jit (TYP op) (REG op) True]"

definition jit_bclr_l_i :: "u16 \<Rightarrow> ('d, unit) jitm" where
  "jit_bclr_l_i op = bind jFETCH (\<lambda>w. let pos = uint (w AND 31) in seqs [
      update_pc,
      asm [x_btr (DR_L (unat (REG op))) (Imm pos),
           X_set C_nc CC_Z]])"

definition jit_bclr_b_i :: "u16 \<Rightarrow> ('d, unit) jitm" where
  "jit_bclr_b_i op = bind jFETCH (\<lambda>w. let pos = uint (w AND 7) in seqs [
      ea_readB_jit (TYP op) (REG op) True,
      update_pc,
      asm [x_btr ax (Imm pos),
           X_set C_nc CC_Z],
      ea_writeB_jit (TYP op) (REG op) True])"

definition jit_bclr_l_r :: "u16 \<Rightarrow> ('d, unit) jitm" where
  "jit_bclr_l_r op = seqs [
     update_pc,
     asm [X_movzx ecx (DR_B (unat (DN op))),
         x_btr (DR_L (unat (REG op))) ecx,
         X_set C_nc CC_Z]]"

definition jit_bclr_b_r :: "u16 \<Rightarrow> ('d, unit) jitm" where
  "jit_bclr_b_r op = seqs [
     ea_readB_jit (TYP op) (REG op) True,
     update_pc,
     asm [X_mov cl (DR_B (unat (DN op))),
         x_and cl (Imm 7),
         x_btr ax cx,
         X_set C_nc CC_Z],
     ea_writeB_jit (TYP op) (REG op) True]"

definition jit_bset_l_i :: "u16 \<Rightarrow> ('d, unit) jitm" where
  "jit_bset_l_i op = bind jFETCH (\<lambda>w. let pos = uint (w AND 31) in seqs [
      update_pc,
      asm [x_bts (DR_L (unat (REG op))) (Imm pos),
           X_set C_nc CC_Z]])"

definition jit_bset_b_i :: "u16 \<Rightarrow> ('d, unit) jitm" where
  "jit_bset_b_i op = bind jFETCH (\<lambda>w. let pos = uint (w AND 7) in seqs [
      ea_readB_jit (TYP op) (REG op) True,
      update_pc,
      asm [x_bts ax (Imm pos),
           X_set C_nc CC_Z],
      ea_writeB_jit (TYP op) (REG op) True])"

definition jit_bset_l_r :: "u16 \<Rightarrow> ('d, unit) jitm" where
  "jit_bset_l_r op = seqs [
     update_pc,
     asm [X_movzx ecx (DR_B (unat (DN op))),
         x_bts (DR_L (unat (REG op))) ecx,
         X_set C_nc CC_Z]]"

definition jit_bset_b_r :: "u16 \<Rightarrow> ('d, unit) jitm" where
  "jit_bset_b_r op = seqs [
     ea_readB_jit (TYP op) (REG op) True,
     update_pc,
     asm [X_mov cl (DR_B (unat (DN op))),
         x_and cl (Imm 7),
         x_bts al cl,
         X_set C_nc CC_Z],
     ea_writeB_jit (TYP op) (REG op) True]"

definition jit_movep_w_load :: "u16 \<Rightarrow> ('d, unit) jitm" where
  "jit_movep_w_load op = bind jFETCH (\<lambda>disp. seqs [
      update_pc,
      asm [X_mov r13d (AR_L (unat (REG op))),
           X_lea r13d (Based r13d (sint disp))],
      jit_readB r13d,
      asm [X_mov r12b al,
           x_shl r12w (Imm 8),
           X_lea r13d (Based r13d 2)],
      jit_readB r13d,
      asm [X_mov r12b al,
           X_mov (DR_W (unat (DN op))) r12w]])"

definition jit_movep_l_load :: "u16 \<Rightarrow> ('d, unit) jitm" where
  "jit_movep_l_load op = bind jFETCH (\<lambda>disp. seqs [
      update_pc,
      asm [X_mov r13d (AR_L (unat (REG op))),
           X_lea r13d (Based r13d (sint disp))],
      jit_readB r13d,
      asm [x_shl eax (Imm 24),
           X_mov r11d eax,
           X_lea r13d (Based r13d 2)],
      jit_readB r13d,
      asm [x_shl eax (Imm 16),
           x_or r11d eax,
           X_lea r13d (Based r13d 2)],
      jit_readB r13d,
      asm [x_shl ax (Imm 8),
           x_or r11w ax,
           X_lea r13d (Based r13d 2)],
      jit_readB r13d,
      asm [X_mov r11b al,
           X_mov (DR_L (unat (DN op))) r11d]])"

definition jit_movep_w_store :: "u16 \<Rightarrow> ('d, unit) jitm" where
  "jit_movep_w_store op = bind jFETCH (\<lambda>disp. seqs [
      update_pc,
      asm [X_mov r10d (AR_L (unat (REG op))),
           X_lea r10d (Based r10d (sint disp)),
           X_mov r11w (DR_W (unat (DN op))),
           X_mov edi r10d,
           X_mov dx r11w,
           x_shr dx (Imm 8)],
      jit_writeB r10d dl,
      asm [X_lea r10d (Based r10d 2)],
      jit_writeB r10d r11b])"

definition jit_movep_l_store :: "u16 \<Rightarrow> ('d, unit) jitm" where
  "jit_movep_l_store op = bind jFETCH (\<lambda>disp. seqs [
      update_pc,
      asm [X_mov r12d (AR_L (unat (REG op))),
           X_lea r12d (Based r12d (sint disp)),
           X_mov r11d (DR_L (unat (DN op))),
           X_mov edx r11d,
           x_shr edx (Imm 24)],
      jit_writeB r12d dl,
      asm [X_lea r12d (Based r12d 2),
           X_mov edx r11d,
           x_shr edx (Imm 16)],
      jit_writeB r12d dl,
      asm [X_lea r12d (Based r12d 2),
           X_mov edx r11d,
           x_shr edx (Imm 8)],
      jit_writeB r12d dl,
      asm [X_lea r12d (Based r12d 2),
           X_mov edx r11d],
      jit_writeB r12d dl])"

definition jit_cas_b :: "u16 \<Rightarrow> ('d, unit) jitm" where
  "jit_cas_b op = bind jFETCH (\<lambda>extw. let du = unat (drop_bit 6 extw AND 7) in let dc = unat (extw AND 7) in seqs [
          ea_readB_jit (TYP op) (REG op) True,
          update_pc,
          asm [x_cmp (DR_B dc) al],
          update_nz,
          update_vc,
          jit_if_else COND_EQ [
              asm [X_mov al (DR_B du)],
              ea_writeB_jit (TYP op) (REG op) True]
             [
              asm [X_mov (DR_B dc) al]],
          jit_trace_branch])"

definition jit_cas_w :: "u16 \<Rightarrow> ('d, unit) jitm" where
  "jit_cas_w op = bind jFETCH (\<lambda>extw. let du = unat (drop_bit 6 extw AND 7) in let dc = unat (extw AND 7) in seqs [
          ea_readW_jit (TYP op) (REG op) True,
          update_pc,
          asm [x_cmp (DR_W dc) ax],
          update_nz,
          update_vc,
          jit_if_else COND_EQ [
              asm [X_mov ax (DR_W du)],
              ea_writeW_jit (TYP op) (REG op) True]
             [
              asm [X_mov (DR_W dc) ax]],
          jit_trace_branch])"

definition jit_cas_l :: "u16 \<Rightarrow> ('d, unit) jitm" where
  "jit_cas_l op = bind jFETCH (\<lambda>extw. let du = unat (drop_bit 6 extw AND 7) in let dc = unat (extw AND 7) in seqs [
          ea_readL_jit (TYP op) (REG op) True,
          update_pc,
          asm [x_cmp (DR_L dc) eax],
          update_nz,
          update_vc,
          jit_if_else COND_EQ [
              asm [X_mov eax (DR_L du)],
              ea_writeL_jit (TYP op) (REG op) True]
             [
              asm [X_mov (DR_L dc) eax]],
          jit_trace_branch])"

definition jit_cas2_w :: "u16 \<Rightarrow> ('d, unit) jitm" where
  "jit_cas2_w op = bind jFETCH (\<lambda>extw1. bind jFETCH (\<lambda>extw2. let rn1 = unat (drop_bit 12 extw1 AND 15) in let du1 = unat (drop_bit 6 extw1 AND 7) in let dc1 = unat (extw1 AND 7) in let rn2 = unat (drop_bit 12 extw2 AND 15) in let du2 = unat (drop_bit 6 extw2 AND 7) in let dc2 = unat (extw2 AND 7) in seqs [
                    update_pc,
                    jit_readW (DR_L rn1),
                    asm [X_mov r12w ax],
                    jit_readW (DR_L rn2),
                    asm [X_mov r13w ax,
                         x_cmp r12w (DR_W dc1)],
                    update_nz,
                    update_vc,
                    asm [x_cmp CC_Z (Imm 1)],
                    jit_if COND_EQ [
                        asm [x_cmp r13w (DR_W dc2)],
                        update_nz,
                        update_vc],
                    asm [x_cmp CC_Z (Imm 1)],
                    jit_if_else COND_EQ [
                        jit_writeW (DR_L rn1) (DR_W du1),
                        jit_writeW (DR_L rn2) (DR_W du2)]
                       [
                        asm [X_mov (DR_W dc1) r12w,
                             X_mov (DR_W dc2) r13w]],
                    jit_trace_branch]))"

definition jit_cas2_l :: "u16 \<Rightarrow> ('d, unit) jitm" where
  "jit_cas2_l op = bind jFETCH (\<lambda>extw1. bind jFETCH (\<lambda>extw2. let rn1 = unat (drop_bit 12 extw1 AND 15) in let du1 = unat (drop_bit 6 extw1 AND 7) in let dc1 = unat (extw1 AND 7) in let rn2 = unat (drop_bit 12 extw2 AND 15) in let du2 = unat (drop_bit 6 extw2 AND 7) in let dc2 = unat (extw2 AND 7) in seqs [
                    update_pc,
                    jit_readL (DR_L rn1),
                    asm [X_mov r12d eax],
                    jit_readL (DR_L rn2),
                    asm [X_mov r13d eax,
                         x_cmp r12d (DR_L dc1)],
                    update_nz,
                    update_vc,
                    asm [x_cmp CC_Z (Imm 1)],
                    jit_if COND_EQ [
                        asm [x_cmp r13d (DR_L dc2)],
                        update_nz,
                        update_vc],
                    asm [x_cmp CC_Z (Imm 1)],
                    jit_if_else COND_EQ [
                        jit_writeL (DR_L rn1) (DR_L du1),
                        jit_writeL (DR_L rn2) (DR_L du2)]
                       [
                        asm [X_mov (DR_L dc1) r12d,
                             X_mov (DR_L dc2) r13d]],
                    jit_trace_branch]))"

definition jit_moves_b :: "u16 \<Rightarrow> ('d, unit) jitm" where
  "jit_moves_b op = bind jFETCH (\<lambda>extw. let rn = unat (drop_bit 12 extw AND 15) in seqs [
        jit_priv_check,
        ea_getaddr_jit (TYP op) (REG op) 1,
        update_pc,
        if bit_at extw 11 then asm [X_mov sil (DR_B rn),
                 X_call (c_writeB WriteSB)]
          else asm [X_call (c_readB ReadSB),
                 X_mov (DR_B rn) al],
        jit_trace_branch])"

definition jit_moves_w :: "u16 \<Rightarrow> ('d, unit) jitm" where
  "jit_moves_w op = bind jFETCH (\<lambda>extw. let rn = unat (drop_bit 12 extw AND 15) in seqs [
        jit_priv_check,
        ea_getaddr_jit (TYP op) (REG op) 2,
        update_pc,
        if bit_at extw 11 then asm [X_mov si (DR_W rn),
                 X_call (c_writeW WriteSW)]
          else asm [X_call (c_readW ReadSW),
                 X_mov (DR_W rn) ax],
        jit_trace_branch])"

definition jit_moves_l :: "u16 \<Rightarrow> ('d, unit) jitm" where
  "jit_moves_l op = bind jFETCH (\<lambda>extw. let rn = unat (drop_bit 12 extw AND 15) in seqs [
        jit_priv_check,
        ea_getaddr_jit (TYP op) (REG op) 4,
        update_pc,
        if bit_at extw 11 then asm [X_mov esi (DR_L rn),
                 X_call (c_writeL WriteSL)]
          else asm [X_call (c_readL ReadSL),
                 X_mov (DR_L rn) eax],
        jit_trace_branch])"

definition jit_move_b :: "u16 \<Rightarrow> ('d, unit) jitm" where
  "jit_move_b op = (let dst_type = ucast (drop_bit 6 op AND 7) in seqs [
      ea_readB_jit (TYP op) (REG op) False,
      update_pc,
      asm [x_or al al],
      update_nz,
      clear_vc,
      ea_writeB_jit dst_type (DN op) False,
      update_pc])"

end
