(* ===== verification/JitOps2.thy ===== *)
theory JitOps2
  imports JitOps1
begin

text \<open>
  Translations of instructions, second part: the moves and the opcode line 4 of
  src/cpu/jit/jit_op.cc, and the quick additions.
\<close>

definition jit_move_w :: "u16 \<Rightarrow> ('d, unit) jitm" where
  "jit_move_w op = (let dst_type = ucast (drop_bit 6 op AND 7) in seqs [
      ea_readW_jit (TYP op) (REG op) False,
      update_pc,
      asm [x_or ax ax],
      update_nz,
      clear_vc,
      ea_writeW_jit dst_type (DN op) False])"

definition jit_move_l :: "u16 \<Rightarrow> ('d, unit) jitm" where
  "jit_move_l op = (let dst_type = ucast (drop_bit 6 op AND 7) in seqs [
      ea_readL_jit (TYP op) (REG op) False,
      update_pc,
      asm [x_or eax eax],
      update_nz,
      clear_vc,
      ea_writeL_jit dst_type (DN op) False])"

definition jit_movea_w :: "u16 \<Rightarrow> ('d, unit) jitm" where
  "jit_movea_w op = seqs [
     ea_readW_jit (TYP op) (REG op) False,
     update_pc,
     asm [X_cwde,
         X_mov (AR_L (unat (DN op))) eax]]"

definition jit_movea_l :: "u16 \<Rightarrow> ('d, unit) jitm" where
  "jit_movea_l op = seqs [
     ea_readL_jit (TYP op) (REG op) False,
     update_pc,
     asm [X_mov (AR_L (unat (DN op))) eax]]"

definition jit_move_from_sr :: "u16 \<Rightarrow> ('d, unit) jitm" where
  "jit_move_from_sr op = seqs [
     jit_priv_check,
     update_pc,
     asm [X_call c_GetSR],
     ea_writeW_jit (TYP op) (REG op) False]"

definition jit_move_from_ccr :: "u16 \<Rightarrow> ('d, unit) jitm" where
  "jit_move_from_ccr op = seqs [
     update_pc,
     jit_getCCR,
     asm [X_movzx ax al],
     ea_writeW_jit (TYP op) (REG op) False]"

definition jit_move_to_sr :: "u16 \<Rightarrow> ('d, unit) jitm" where
  "jit_move_to_sr op = seqs [
     jit_priv_check,
     ea_readW_jit (TYP op) (REG op) False,
     update_pc,
     asm [X_movzx edi ax,
         X_call c_SetSR],
     jit_trace_branch]"

definition jit_move_to_ccr :: "u16 \<Rightarrow> ('d, unit) jitm" where
  "jit_move_to_ccr op = seqs [
     ea_readW_jit (TYP op) (REG op) False,
     update_pc,
     jit_setCCR]"

definition jit_negx_b :: "u16 \<Rightarrow> ('d, unit) jitm" where
  "jit_negx_b op = seqs [
     ea_readB_jit (TYP op) (REG op) True,
     update_pc,
     asm [x_add al CC_X,
         x_neg al],
     update_nz,
     update_vcx,
     ea_writeB_jit (TYP op) (REG op) True]"

definition jit_negx_w :: "u16 \<Rightarrow> ('d, unit) jitm" where
  "jit_negx_w op = seqs [
     ea_readW_jit (TYP op) (REG op) True,
     update_pc,
     asm [x_add ax CC_X,
         x_neg ax],
     update_nz,
     update_vcx,
     ea_writeW_jit (TYP op) (REG op) True]"

definition jit_negx_l :: "u16 \<Rightarrow> ('d, unit) jitm" where
  "jit_negx_l op = seqs [
     ea_readL_jit (TYP op) (REG op) True,
     update_pc,
     asm [x_add eax CC_X,
         x_neg eax],
     update_nz,
     update_vcx,
     ea_writeL_jit (TYP op) (REG op) True]"

definition jit_clr_b :: "u16 \<Rightarrow> ('d, unit) jitm" where
  "jit_clr_b op = seqs [
     asm [x_xor al al],
     update_nz,
     clear_vc,
     ea_writeB_jit (TYP op) (REG op) False,
     update_pc]"

definition jit_clr_w :: "u16 \<Rightarrow> ('d, unit) jitm" where
  "jit_clr_w op = seqs [
     asm [x_xor ax ax],
     update_nz,
     clear_vc,
     ea_writeW_jit (TYP op) (REG op) False,
     update_pc]"

definition jit_clr_l :: "u16 \<Rightarrow> ('d, unit) jitm" where
  "jit_clr_l op = seqs [
     asm [x_xor eax eax],
     update_nz,
     clear_vc,
     ea_writeL_jit (TYP op) (REG op) False,
     update_pc]"

definition jit_neg_b :: "u16 \<Rightarrow> ('d, unit) jitm" where
  "jit_neg_b op = seqs [
     ea_readB_jit (TYP op) (REG op) True,
     update_pc,
     asm [x_neg al],
     update_nz,
     update_vcx,
     ea_writeB_jit (TYP op) (REG op) True]"

definition jit_neg_w :: "u16 \<Rightarrow> ('d, unit) jitm" where
  "jit_neg_w op = seqs [
     ea_readW_jit (TYP op) (REG op) True,
     update_pc,
     asm [x_neg ax],
     update_nz,
     update_vcx,
     ea_writeW_jit (TYP op) (REG op) True]"

definition jit_neg_l :: "u16 \<Rightarrow> ('d, unit) jitm" where
  "jit_neg_l op = seqs [
     ea_readL_jit (TYP op) (REG op) True,
     update_pc,
     asm [x_neg eax],
     update_nz,
     update_vcx,
     ea_writeL_jit (TYP op) (REG op) True]"

definition jit_not_b :: "u16 \<Rightarrow> ('d, unit) jitm" where
  "jit_not_b op = seqs [
     ea_readB_jit (TYP op) (REG op) True,
     update_pc,
     asm [x_not al,
         x_test al al],
     update_nz,
     clear_vc,
     ea_writeB_jit (TYP op) (REG op) True]"

definition jit_not_w :: "u16 \<Rightarrow> ('d, unit) jitm" where
  "jit_not_w op = seqs [
     ea_readW_jit (TYP op) (REG op) True,
     update_pc,
     asm [x_not ax,
         x_test ax ax],
     update_nz,
     clear_vc,
     ea_writeW_jit (TYP op) (REG op) True]"

definition jit_not_l :: "u16 \<Rightarrow> ('d, unit) jitm" where
  "jit_not_l op = seqs [
     ea_readL_jit (TYP op) (REG op) True,
     update_pc,
     asm [x_not eax,
         x_test eax eax],
     update_nz,
     clear_vc,
     ea_writeL_jit (TYP op) (REG op) True]"

definition jit_nbcd :: "u16 \<Rightarrow> ('d, unit) jitm" where
  "jit_nbcd op = seqs [
     ea_readB_jit (TYP op) (REG op) True,
     update_pc,
     asm [x_add al CC_X,
         x_xor cx cx,
         x_cmp al (Imm 0x9a),
         X_cmov C_z ax cx,
         x_neg al,
         X_lahf,
         x_and ah (Imm 0x10),
         X_set C_nz dh,
         X_mov dl al,
         x_and dl (Imm 0xf),
         x_cmp dl (Imm 9),
         X_set C_a dl,
         X_mov cx (Imm 6),
         x_xor si si,
         x_or dl dh,
         X_cmov C_nz si cx,
         x_sub al sil,
         X_mov cx (Imm 0),
         X_mov dx (Imm 0x60),
         x_cmp al (Imm 0x99),
         X_set C_a sil,
         x_and ah (Imm 1),
         X_set C_nz dil,
         x_or sil dil,
         X_set C_nz CC_C,
         X_set C_nz CC_X,
         X_cmov C_nz cx dx,
         x_sub al cl],
     jit_if COND_TRUE [
        asm [X_mov CC_Z (Imm 0)]],
     ea_writeB_jit (TYP op) (REG op) True]"

definition jit_link_l :: "u16 \<Rightarrow> ('d, unit) jitm" where
  "jit_link_l op = bind jFETCH32 (\<lambda>disp. let reg = unat (REG op) in seqs [
        update_pc,
        asm [X_mov eax (AR_L reg)],
        jit_push32,
        asm [X_mov eax SP,
             X_mov (AR_L reg) eax,
             x_add SP (Imm (sint disp))]])"

definition jit_swap :: "u16 \<Rightarrow> ('d, unit) jitm" where
  "jit_swap op = (let reg = DR_L (unat (REG op)) in seqs [
      asm [X_mov eax reg],
      clear_vc,
      bind (gets jbmi2) (\<lambda>bmi2.
        if bmi2 then asm [X_rorx eax eax 16]
        else asm [x_ror eax (Imm 16)]),
      asm [x_test eax eax],
      update_nz,
      asm [X_mov reg eax]])"

definition jit_bkpt :: "u16 \<Rightarrow> ('d, unit) jitm" where
  "jit_bkpt op = asm [X_call (c_void ILLEGAL_OP)]"

definition jit_pea :: "u16 \<Rightarrow> ('d, unit) jitm" where
  "jit_pea op = seqs [
     ea_getaddr_jit (TYP op) (REG op) 0,
     update_pc,
     asm [X_mov eax edi],
     jit_push32]"

definition jit_ext_w :: "u16 \<Rightarrow> ('d, unit) jitm" where
  "jit_ext_w op = (let reg = unat (REG op) in seqs [
      asm [X_movsx ax (DR_B reg),
           x_test ax ax],
      update_nz,
      clear_vc,
      asm [X_mov (DR_W reg) ax]])"

definition jit_ext_l :: "u16 \<Rightarrow> ('d, unit) jitm" where
  "jit_ext_l op = (let reg = unat (REG op) in seqs [
      asm [X_movsx eax (DR_W reg),
           x_test eax eax],
      update_nz,
      clear_vc,
      asm [X_mov (DR_L reg) eax]])"

definition jit_movem_w_store_decr :: "u16 \<Rightarrow> ('d, unit) jitm" where
  "jit_movem_w_store_decr op = bind jFETCH (\<lambda>regs. let reg = AR_L (unat (REG op)) in seqs [
        asm [X_mov al (CPU_BYTE F_movem_run),
             x_test al al],
        jit_if COND_FALSE [
            asm [X_mov edx reg,
                 X_lea rdx (Based rdx (- 2)),
                 X_mov reg edx,
                 X_mov EA_m edx,
                 x_inc (CPU_BYTE F_movem_run)]],
        asm [X_mov r12d EA_m],
        for_each [0..<16] (\<lambda>i. if bit_at regs i then seqs [
                jit_writeW r12d (DR_L (15 - i)),
                asm [X_lea r12d (Based r12d (- 2))]]
              else return ()),
        asm [X_lea r12d (Based r12d 2),
             X_mov reg r12d,
             x_dec (CPU_BYTE F_movem_run)]])"

definition jit_movem_w_store_base :: "u16 \<Rightarrow> ('d, unit) jitm" where
  "jit_movem_w_store_base op = bind jFETCH (\<lambda>regs. seqs [
      asm [X_mov al (CPU_BYTE F_movem_run),
           x_test al al],
      jit_if COND_FALSE [
          ea_getaddr_jit (TYP op) (REG op) 2,
          asm [X_mov r12d edi,
               x_inc (CPU_BYTE F_movem_run)]],
      asm [X_mov r12d EA_m],
      for_each [0..<16] (\<lambda>i. if bit_at regs i then seqs [
              jit_writeW r12d (DR_L i),
              asm [X_lea r12d (Based r12d 2)]]
            else return ()),
      asm [x_dec (CPU_BYTE F_movem_run)]])"

definition jit_movem_l_store_decr :: "u16 \<Rightarrow> ('d, unit) jitm" where
  "jit_movem_l_store_decr op = bind jFETCH (\<lambda>regs. let reg = AR_L (unat (REG op)) in seqs [
        asm [X_mov al (CPU_BYTE F_movem_run),
             x_test al al],
        jit_if COND_FALSE [
            asm [X_mov edx reg,
                 X_lea rdx (Based rdx (- 4)),
                 X_mov reg edx,
                 X_mov EA_m edx,
                 x_inc (CPU_BYTE F_movem_run)]],
        asm [X_mov r12d EA_m],
        for_each [0..<16] (\<lambda>i. if bit_at regs i then seqs [
                jit_writeL r12d (DR_L (15 - i)),
                asm [X_lea r12d (Based r12d (- 4))]]
              else return ()),
        asm [X_lea r12d (Based r12d 4),
             X_mov reg r12d,
             x_dec (CPU_BYTE F_movem_run)]])"

definition jit_movem_l_store_base :: "u16 \<Rightarrow> ('d, unit) jitm" where
  "jit_movem_l_store_base op = bind jFETCH (\<lambda>regs. seqs [
      asm [X_mov al (CPU_BYTE F_movem_run),
           x_test al al],
      jit_if COND_FALSE [
          ea_getaddr_jit (TYP op) (REG op) 4,
          asm [X_mov r12d edi,
               x_inc (CPU_BYTE F_movem_run)]],
      asm [X_mov r12d EA_m],
      for_each [0..<16] (\<lambda>i. if bit_at regs i then seqs [
              jit_writeL r12d (DR_L i),
              asm [X_lea r12d (Based r12d 4)]]
            else return ()),
      asm [x_dec (CPU_BYTE F_movem_run)]])"

definition jit_movem_w_load_incr :: "u16 \<Rightarrow> ('d, unit) jitm" where
  "jit_movem_w_load_incr op = bind jFETCH (\<lambda>regs. let reg = AR_L (unat (REG op)) in seqs [
        asm [X_mov al (CPU_BYTE F_movem_run),
             x_test al al],
        jit_if COND_FALSE [
            asm [X_mov edx reg,
                 X_mov EA_m edx,
                 x_inc (CPU_BYTE F_movem_run)]],
        asm [X_mov r12d EA_m,
             X_mov reg r12d],
        for_each [0..<16] (\<lambda>i. if bit_at regs i then seqs [
                jit_readW r12d,
                if 7 < i then asm [X_cwde,
                         X_mov (AR_L (i mod 8)) eax]
                  else asm [X_mov (DR_W i) ax],
                asm [X_lea r12d (Based r12d 2),
                     X_mov reg r12d]]
              else return ()),
        asm [x_dec (CPU_BYTE F_movem_run)]])"

definition jit_movem_w_load_base :: "u16 \<Rightarrow> ('d, unit) jitm" where
  "jit_movem_w_load_base op = bind jFETCH (\<lambda>regs. seqs [
      asm [X_mov al (CPU_BYTE F_movem_run),
           x_test al al],
      jit_if COND_FALSE [
          ea_getaddr_jit (TYP op) (REG op) 2,
          asm [X_mov r12d edi,
               x_inc (CPU_BYTE F_movem_run)]],
      asm [X_mov r12d EA_m],
      for_each [0..<16] (\<lambda>i. if bit_at regs i then seqs [
              jit_readW r12d,
              if 7 < i then asm [X_cwde,
                       X_mov (AR_L (i mod 8)) eax]
                else asm [X_mov (DR_W i) ax],
              asm [X_lea r12d (Based r12d 2)]]
            else return ()),
      asm [x_dec (CPU_BYTE F_movem_run)]])"

definition jit_movem_l_load_incr :: "u16 \<Rightarrow> ('d, unit) jitm" where
  "jit_movem_l_load_incr op = bind jFETCH (\<lambda>regs. let reg = AR_L (unat (REG op)) in seqs [
        asm [X_mov al (CPU_BYTE F_movem_run),
             x_test al al],
        jit_if COND_FALSE [
            asm [X_mov edx reg,
                 X_mov EA_m edx,
                 x_inc (CPU_BYTE F_movem_run)]],
        asm [X_mov r12d EA_m,
             X_mov reg r12d],
        for_each [0..<16] (\<lambda>i. if bit_at regs i then seqs [
                jit_readL r12d,
                asm [X_mov (DR_W i) eax,
                     X_lea r12d (Based r12d 4),
                     X_mov reg r12d]]
              else return ()),
        asm [x_dec (CPU_BYTE F_movem_run)]])"

definition jit_movem_l_load_base :: "u16 \<Rightarrow> ('d, unit) jitm" where
  "jit_movem_l_load_base op = bind jFETCH (\<lambda>regs. seqs [
      asm [X_mov al (CPU_BYTE F_movem_run),
           x_test al al],
      jit_if COND_FALSE [
          ea_getaddr_jit (TYP op) (REG op) 4,
          asm [X_mov r12d edi,
               x_inc (CPU_BYTE F_movem_run)]],
      asm [X_mov r12d EA_m],
      for_each [0..<16] (\<lambda>i. if bit_at regs i then seqs [
              jit_readL r12d,
              asm [X_mov (DR_L i) eax,
                   X_lea r12d (Based r12d 4)]]
            else return ()),
      asm [x_dec (CPU_BYTE F_movem_run)]])"

definition jit_tst_b :: "u16 \<Rightarrow> ('d, unit) jitm" where
  "jit_tst_b op = seqs [
     ea_readB_jit (TYP op) (REG op) False,
     update_pc,
     asm [x_test al al],
     update_nz,
     clear_vc]"

definition jit_tst_w :: "u16 \<Rightarrow> ('d, unit) jitm" where
  "jit_tst_w op = seqs [
     ea_readW_jit (TYP op) (REG op) False,
     update_pc,
     asm [x_test ax ax],
     update_nz,
     clear_vc]"

definition jit_tst_l :: "u16 \<Rightarrow> ('d, unit) jitm" where
  "jit_tst_l op = seqs [
     ea_readL_jit (TYP op) (REG op) False,
     update_pc,
     asm [x_test eax eax],
     update_nz,
     clear_vc]"

definition jit_tas :: "u16 \<Rightarrow> ('d, unit) jitm" where
  "jit_tas op = seqs [
     ea_readB_jit (TYP op) (REG op) True,
     update_pc,
     asm [x_test al al],
     update_nz,
     clear_vc,
     asm [x_bts ax (Imm 7)],
     ea_writeB_jit (TYP op) (REG op) True]"

definition jit_illegal :: "u16 \<Rightarrow> ('d, unit) jitm" where
  "jit_illegal op = asm [X_call (c_void ILLEGAL_OP)]"

definition jit_mul_l :: "u16 \<Rightarrow> ('d, unit) jitm" where
  "jit_mul_l op = bind jFETCH (\<lambda>ext. let low = unat (drop_bit 12 ext AND 7) in let sig = bit_at ext 11 in let dbl = bit_at ext 10 in let high = unat (ext AND 7) in seqs [
              ea_readL_jit (TYP op) (REG op) False,
              update_pc,
              asm [X_mov CC_C (Imm 0)],
              if \<not> sig then seqs [
                  asm [X_mul (DR_L low),
                       X_mov (DR_L low) eax],
                  if \<not> dbl then asm [x_test edx edx,
                           X_set C_nz CC_V]
                    else return ()]
                else if dbl then asm [X_imul (DR_L low)]
                    else asm [X_imul2 eax (DR_L low),
                           X_set C_o CC_V],
              asm [X_mov (DR_L low) eax],
              if dbl then asm [X_mov (DR_L high) edx,
                       X_mov CC_V (Imm 0),
                       x_ror rdx (Imm 32),
                       x_or rdx rax,
                       x_test rdx rdx]
                else asm [x_test eax eax],
              update_nz])"

definition jit_div_l :: "u16 \<Rightarrow> ('d, unit) jitm" where
  "jit_div_l op = bind jFETCH (\<lambda>ext. let q = unat (drop_bit 12 ext AND 7) in let sig = bit_at ext 11 in let dbl = bit_at ext 10 in let r = unat (ext AND 7) in seqs [
              ea_readL_jit (TYP op) (REG op) False,
              update_pc,
              asm [X_mov ecx eax,
                   x_test ecx ecx],
              jit_if COND_FALSE [
                  asm [X_call (c_void DIV0_ERROR)]],
              asm [X_mov CC_C (Imm 0),
                   X_mov eax (DR_L q)],
              if \<not> sig then if \<not> dbl then seqs [
                      asm [X_mov CC_V (Imm 0),
                           x_xor edx edx,
                           X_div ecx,
                           X_mov (DR_L q) eax,
                           x_test eax eax],
                      update_nz,
                      if q \<noteq> r then asm [X_mov (DR_L r) edx]
                        else return ()]
                    else seqs [
                      asm [X_mov edx (DR_L r),
                           x_ror rdx (Imm 32),
                           x_or rax rdx,
                           x_xor rdx rdx,
                           X_div rcx],
                      if q \<noteq> r then asm [X_mov (DR_L r) edx]
                        else return (),
                      asm [X_mov (DR_L q) eax,
                           x_test eax eax],
                      update_nz,
                      asm [x_ror rax (Imm 32),
                           x_test eax eax,
                           X_set C_nz CC_V]]
                else if \<not> dbl then seqs [
                      asm [x_cmp eax (Imm 0x80000000),
                           X_set C_z dl,
                           x_cmp ecx (Imm (- 1)),
                           X_set C_z dh,
                           x_and dl dh],
                      jit_if_else COND_TRUE [
                          asm [X_mov CC_V (Imm 1)]]
                         [
                          asm [X_cdq,
                               X_idiv ecx,
                               X_mov (DR_L q) eax,
                               x_test eax eax],
                          update_nz,
                          if q \<noteq> r then asm [X_mov (DR_L r) edx]
                            else return ()]]
                    else seqs [
                      asm [X_mov edx (DR_L r),
                           x_ror rdx (Imm 32),
                           x_or rax rdx,
                           X_movsx rcx ecx,
                           X_cqo,
                           X_idiv rcx],
                      if q \<noteq> r then asm [X_mov (DR_L r) edx]
                        else return (),
                      asm [X_mov (DR_L q) eax,
                           x_test eax eax],
                      update_nz,
                      asm [X_movsxd rcx eax,
                           x_cmp rcx rax,
                           X_set C_nz CC_V]]])"

definition jit_trap :: "u16 \<Rightarrow> ('d, unit) jitm" where
  "jit_trap op = asm [X_mov edi (Imm (uint (op AND 0xf))),
         X_call c_trap]"

definition jit_link_w :: "u16 \<Rightarrow> ('d, unit) jitm" where
  "jit_link_w op = bind jFETCH (\<lambda>disp. let reg = unat (REG op) in seqs [
        update_pc,
        asm [X_mov eax (AR_L reg)],
        jit_push32,
        asm [X_mov eax SP,
             X_mov (AR_L reg) eax,
             x_add SP (Imm (sint disp))]])"

definition jit_unlk :: "u16 \<Rightarrow> ('d, unit) jitm" where
  "jit_unlk op = (let reg = unat (REG op) in seqs [
      asm [X_mov eax (AR_L reg),
           X_mov SP eax],
      jit_pop32,
      asm [X_mov (AR_L reg) eax]])"

definition jit_move_to_usp :: "u16 \<Rightarrow> ('d, unit) jitm" where
  "jit_move_to_usp op = seqs [
     jit_priv_check,
     asm [X_mov eax (AR_L (unat (REG op))),
         X_mov (CPU_LONG F_USP) eax],
     jit_trace_branch]"

definition jit_move_from_usp :: "u16 \<Rightarrow> ('d, unit) jitm" where
  "jit_move_from_usp op = seqs [
     jit_priv_check,
     asm [X_mov eax (CPU_LONG F_USP),
         X_mov (AR_L (unat (REG op))) eax],
     jit_trace_branch]"

definition jit_reset :: "u16 \<Rightarrow> ('d, unit) jitm" where
  "jit_reset op = seqs [
     jit_priv_check,
     asm [X_call c_bus_reset]]"

definition jit_nop :: "u16 \<Rightarrow> ('d, unit) jitm" where
  "jit_nop op = jit_trace_branch"

definition jit_stop :: "u16 \<Rightarrow> ('d, unit) jitm" where
  "jit_stop op = bind jFETCH (\<lambda>nw. asm [X_mov edi (Imm (uint nw)),
           X_call c_stop_impl])"

definition jit_rte :: "u16 \<Rightarrow> ('d, unit) jitm" where
  "jit_rte op = seqs [
     jit_priv_check,
     asm [X_call (c_void do_rte)],
     jit_trace_branch,
     jit_postop,
     asm [X_jmp End_lbl]]"

definition jit_rtd :: "u16 \<Rightarrow> ('d, unit) jitm" where
  "jit_rtd op = bind jFETCH (\<lambda>disp. seqs [
      update_pc,
      asm [X_mov eax (AR_L 7),
           X_lea edi (Based eax 4),
           X_mov (AR_L 7) edi],
      jit_readL eax,
      asm [X_mov edx (AR_L 7),
           X_lea edx (Based edx (sint disp)),
           X_mov (AR_L 7) edx],
      jump])"

definition jit_rts :: "u16 \<Rightarrow> ('d, unit) jitm" where
  "jit_rts op = seqs [
     asm [X_mov esi (AR_L 7),
         X_lea rdi (Based rsi 4),
         X_mov (AR_L 7) edi],
     jit_readL esi,
     jump]"

definition jit_trapv :: "u16 \<Rightarrow> ('d, unit) jitm" where
  "jit_trapv op = seqs [
     asm [x_test CC_V (Imm 1)],
     jit_if COND_TRUE [
        asm [X_call (c_void TRAPX_ERROR)]]]"

definition jit_rtr :: "u16 \<Rightarrow> ('d, unit) jitm" where
  "jit_rtr op = seqs [
     asm [X_mov r12d (AR_L 7)],
     jit_readW r12d,
     jit_setCCR,
     asm [X_lea r12d (Based r12d 2)],
     jit_readL r12d,
     asm [X_lea r12d (Based r12d 4),
         X_mov (AR_L 7) r12d],
     jump]"

definition jit_movec_from_cr :: "u16 \<Rightarrow> ('d, unit) jitm" where
  "jit_movec_from_cr op = bind jFETCH (\<lambda>extw. let rn = unat (drop_bit 12 extw AND 15) in seqs [
        jit_priv_check,
        update_pc,
        asm [X_mov edi (Imm (uint (extw AND 0xfff))),
             X_lea rsi (Field_addr (R_at rn)),
             X_call c_movec_from_cr_impl,
             x_test al al],
        jit_if COND_FALSE [
            asm [X_call (c_void ILLEGAL_OP)]],
        jit_trace_branch])"

definition jit_movec_to_cr :: "u16 \<Rightarrow> ('d, unit) jitm" where
  "jit_movec_to_cr op = bind jFETCH (\<lambda>extw. let rn = unat (drop_bit 12 extw AND 15) in seqs [
        jit_priv_check,
        update_pc,
        asm [X_mov edi (Imm (uint (extw AND 0xfff))),
             X_mov esi (DR_L rn),
             X_call c_movec_to_cr_impl,
             x_test al al],
        jit_if COND_FALSE [
            asm [X_call (c_void ILLEGAL_OP)]],
        jit_trace_branch])"

definition jit_jsr :: "u16 \<Rightarrow> ('d, unit) jitm" where
  "jit_jsr op = seqs [
     ea_getaddr_jit (TYP op) (REG op) 0,
     asm [X_mov r12d edi],
     update_pc,
     asm [X_mov eax c_pc],
     jit_push32,
     asm [X_mov eax r12d],
     jump]"

definition jit_jmp :: "u16 \<Rightarrow> ('d, unit) jitm" where
  "jit_jmp op = seqs [
     ea_getaddr_jit (TYP op) (REG op) 0,
     asm [X_mov r12d edi],
     update_pc,
     asm [X_mov eax r12d],
     jump]"

definition jit_chk_l :: "u16 \<Rightarrow> ('d, unit) jitm" where
  "jit_chk_l op = seqs [
     ea_readL_jit (TYP op) (REG op) False,
     asm [X_mov edx (DR_L (unat (DN op))),
         x_cmp edx (Imm 0),
         X_set C_ge cl,
         x_cmp edx eax,
         X_set C_le ch,
         x_and cl ch],
     jit_if COND_FALSE [
        asm [x_cmp edx (Imm 0),
             X_set C_l CC_N,
             X_call (c_void CHK_ERROR)]]]"

definition jit_chk_w :: "u16 \<Rightarrow> ('d, unit) jitm" where
  "jit_chk_w op = seqs [
     ea_readW_jit (TYP op) (REG op) False,
     asm [X_mov dx (DR_W (unat (DN op))),
         x_cmp dx (Imm 0),
         X_set C_ge cl,
         x_cmp dx ax,
         X_set C_le ch,
         x_and cl ch],
     jit_if COND_FALSE [
        asm [x_cmp dx (Imm 0),
             X_set C_l CC_N,
             X_call (c_void CHK_ERROR)]]]"

definition jit_extb_l :: "u16 \<Rightarrow> ('d, unit) jitm" where
  "jit_extb_l op = (let reg = unat (REG op) in seqs [
      asm [X_movsx eax (DR_B reg),
           x_test eax eax],
      update_nz,
      clear_vc,
      asm [X_mov (DR_L reg) eax]])"

definition jit_lea :: "u16 \<Rightarrow> ('d, unit) jitm" where
  "jit_lea op = seqs [
     ea_getaddr_jit (TYP op) (REG op) 0,
     asm [X_mov (AR_L (unat (DN op))) rdi]]"

definition jit_addq_b :: "u16 \<Rightarrow> ('d, unit) jitm" where
  "jit_addq_b op = (let d = (if DN op = 0 then 8 else uint (DN op)) in seqs [
      ea_readB_jit (TYP op) (REG op) True,
      update_pc,
      asm [x_add al (Imm d)],
      update_nz,
      update_vcx,
      ea_writeB_jit (TYP op) (REG op) True])"

definition jit_addq_w :: "u16 \<Rightarrow> ('d, unit) jitm" where
  "jit_addq_w op = (let d = (if DN op = 0 then 8 else uint (DN op)) in seqs [
      ea_readW_jit (TYP op) (REG op) True,
      update_pc,
      asm [x_add ax (Imm d)],
      update_nz,
      update_vcx,
      ea_writeW_jit (TYP op) (REG op) True])"

definition jit_addq_l :: "u16 \<Rightarrow> ('d, unit) jitm" where
  "jit_addq_l op = (let d = (if DN op = 0 then 8 else uint (DN op)) in seqs [
      ea_readL_jit (TYP op) (REG op) True,
      update_pc,
      asm [x_add eax (Imm d)],
      update_nz,
      update_vcx,
      ea_writeL_jit (TYP op) (REG op) True])"

definition jit_subq_b :: "u16 \<Rightarrow> ('d, unit) jitm" where
  "jit_subq_b op = (let d = (if DN op = 0 then 8 else uint (DN op)) in seqs [
      ea_readB_jit (TYP op) (REG op) True,
      update_pc,
      asm [x_sub al (Imm d)],
      update_nz,
      update_vcx,
      ea_writeB_jit (TYP op) (REG op) True])"

definition jit_subq_w :: "u16 \<Rightarrow> ('d, unit) jitm" where
  "jit_subq_w op = (let d = (if DN op = 0 then 8 else uint (DN op)) in seqs [
      ea_readW_jit (TYP op) (REG op) True,
      update_pc,
      asm [x_sub ax (Imm d)],
      update_nz,
      update_vcx,
      ea_writeW_jit (TYP op) (REG op) True])"

definition jit_subq_l :: "u16 \<Rightarrow> ('d, unit) jitm" where
  "jit_subq_l op = (let d = (if DN op = 0 then 8 else uint (DN op)) in seqs [
      ea_readL_jit (TYP op) (REG op) True,
      update_pc,
      asm [x_sub eax (Imm d)],
      update_nz,
      update_vcx,
      ea_writeL_jit (TYP op) (REG op) True])"

definition jit_addq_an :: "u16 \<Rightarrow> ('d, unit) jitm" where
  "jit_addq_an op = (let d = (if DN op = 0 then 8 else uint (DN op)) in seqs [
      update_pc,
      asm [x_add (AR_L (unat (REG op))) (Imm d)]])"

definition jit_subq_an :: "u16 \<Rightarrow> ('d, unit) jitm" where
  "jit_subq_an op = (let d = (if DN op = 0 then 8 else uint (DN op)) in seqs [
      update_pc,
      asm [x_sub (AR_L (unat (REG op))) (Imm d)]])"

end
