(* ===== verification/JitOps3.thy ===== *)
theory JitOps3
  imports JitOps2
begin

text \<open>
  Translations of instructions, third part: conditional instructions, branches and the
  arithmetic of the opcode lines 5 to 13 of src/cpu/jit/jit_op.cc.
\<close>

definition jit_scc_ea :: "u16 \<Rightarrow> ('d, unit) jitm" where
  "jit_scc_ea op = (let cc = unat (drop_bit 8 op AND 0xf) in seqs [
      jit_testcc cc,
      asm [x_neg al,
           x_sbb dl dl,
           X_mov al dl],
      ea_writeB_jit (TYP op) (REG op) False])"

definition jit_dbcc :: "u16 \<Rightarrow> ('d, unit) jitm" where
  "jit_dbcc op = (let cc = unat (drop_bit 8 op AND 0xf) in
     bind jFETCH (\<lambda>disp.
     let reg = unat (REG op) in seqs [
       jit_testcc cc,
       asm [x_test al al],
       jit_if COND_FALSE [
         asm [X_mov cx (DR_W reg),
              x_dec cx,
              X_mov (DR_W reg) cx,
              x_cmp cx (Imm (- 1))],
         jit_if COND_TRUE [bind jPC (\<lambda>pc. jumpC (pc + scast disp - 2))]]]))"

definition jit_trapcc :: "u16 \<Rightarrow> ('d, unit) jitm" where
  "jit_trapcc op = (let cc = unat (drop_bit 8 op AND 0xf) in seqs [
     if REG op = 2 then bind jFETCH (\<lambda>_. return ())
     else if REG op = 3 then bind jFETCH32 (\<lambda>_. return ())
     else if REG op = 4 then return ()
     else throw Undefined,
     update_pc,
     jit_testcc cc,
     asm [x_test al al],
     jit_if COND_TRUE [asm [X_call (c_void TRAPX_ERROR)]]])"

definition jit_bxx :: "u16 \<Rightarrow> ('d, unit) jitm" where
  "jit_bxx op =
     (let cc = unat (drop_bit 8 op AND 0xf); imm8 = (ucast op :: u8) in
      bind jPC (\<lambda>p.
      bind (if imm8 = 0 then bind jFETCH (\<lambda>w. return (scast w))
            else if imm8 = 0xff then jFETCH32
            else return (scast imm8)) (\<lambda>imm.
      let target = p + imm in
      bind newLabel (\<lambda>lb. seqs [
        if cc = 0 then return ()
        else if cc = 1 then seqs [
          update_pc,
          asm [X_mov eax c_pc],
          jit_push32]
        else seqs [
          jit_testcc cc,
          asm [x_test al al,
               X_j C_z lb]],
        bind (gets jmap) (\<lambda>m.
          if m target \<noteq> None then jumpC target
          else seqs [
            asm [X_mov eax (Imm (sint target))],
            jump]),
        asm [X_bind lb]]))))"

definition jit_moveq :: "u16 \<Rightarrow> ('d, unit) jitm" where
  "jit_moveq op = seqs [
     clear_vc,
     asm [X_mov al (Imm (uint (op AND 0xff))),
         x_test al al],
     update_nz,
     asm [X_movsx eax al,
         X_mov (DR_L (unat (DN op))) eax]]"

definition jit_or_b_to_dn :: "u16 \<Rightarrow> ('d, unit) jitm" where
  "jit_or_b_to_dn op = seqs [
     clear_vc,
     ea_readB_jit (TYP op) (REG op) False,
     update_pc,
     asm [x_or al (DR_B (unat (DN op)))],
     update_nz,
     asm [X_mov (DR_B (unat (DN op))) al]]"

definition jit_or_w_to_dn :: "u16 \<Rightarrow> ('d, unit) jitm" where
  "jit_or_w_to_dn op = seqs [
     clear_vc,
     ea_readW_jit (TYP op) (REG op) False,
     update_pc,
     asm [x_or ax (DR_W (unat (DN op)))],
     update_nz,
     asm [X_mov (DR_W (unat (DN op))) ax]]"

definition jit_or_l_to_dn :: "u16 \<Rightarrow> ('d, unit) jitm" where
  "jit_or_l_to_dn op = seqs [
     clear_vc,
     ea_readL_jit (TYP op) (REG op) False,
     update_pc,
     asm [x_or eax (DR_L (unat (DN op)))],
     update_nz,
     asm [X_mov (DR_L (unat (DN op))) eax]]"

definition jit_divu_w :: "u16 \<Rightarrow> ('d, unit) jitm" where
  "jit_divu_w op = seqs [
     ea_readW_jit (TYP op) (REG op) False,
     update_pc,
     asm [x_test ax ax],
     jit_if COND_FALSE [
        asm [X_call (c_void DIV0_ERROR)]],
     asm [X_cwde,
         X_mov CC_C (Imm 0),
         X_mov ecx (DR_L (unat (DN op))),
         X_xchg ecx eax,
         x_xor edx edx,
         X_div ecx,
         X_mov ecx eax,
         x_shr ecx (Imm 16),
         x_test cx cx,
         X_set C_nz CC_V,
         x_test ax ax],
     update_nz,
     asm [X_movzx eax ax,
         x_ror edx (Imm 16),
         x_or eax edx,
         X_mov (DR_L (unat (DN op))) eax]]"

definition jit_sbcd_d :: "u16 \<Rightarrow> ('d, unit) jitm" where
  "jit_sbcd_d op = (let reg = unat (REG op) in let dn = unat (DN op) in seqs [
        asm [X_mov al (DR_B reg),
             X_mov dl (DR_B dn),
             x_add dl CC_X,
             x_xor cx cx,
             x_cmp dl (Imm 0x9a),
             X_cmov C_z dx cx,
             x_sub al dl,
             X_lahf,
             x_and ah (Imm 0x10),
             X_set C_nz dh,
             X_mov dl al,
             x_and dl (Imm 0xf),
             x_cmp dl (Imm 9),
             X_set C_a dl,
             x_or dl dh],
        jit_if COND_TRUE [
            asm [x_sub al (Imm 6)]],
        asm [X_mov cx (Imm 0),
             X_mov dx (Imm 0x60),
             x_cmp al (Imm 0x99),
             X_set C_a sil,
             x_and ah (Imm 1),
             X_set C_nz dil,
             x_or sil dil,
             X_set C_nz CC_C,
             X_set C_nz CC_X,
             X_cmov C_nz cx dx,
             x_sub al cl],
        jit_if COND_TRUE [
            asm [X_mov CC_Z (Imm 0)]],
        asm [X_mov (DR_B dn) al]])"

definition jit_sbcd_m :: "u16 \<Rightarrow> ('d, unit) jitm" where
  "jit_sbcd_m op = (let reg = unat (REG op) in let dn = unat (DN op) in seqs [
        asm [X_mov r12d (AR_L reg),
             X_lea r12d (Based r12d (- 1)),
             X_mov (AR_L reg) r12d],
        jit_readB r12d,
        asm [X_mov r11b al,
             X_mov esi (AR_L dn),
             X_lea esi (Based esi (- 1)),
             X_mov (AR_L dn) esi],
        jit_readB esi,
        asm [X_mov dl al,
             X_mov al r11b,
             x_add dl CC_X,
             x_sub al dl,
             X_lahf,
             x_and ah (Imm 0x10),
             X_set C_nz dh,
             X_mov dl al,
             x_and dl (Imm 0xf),
             x_cmp dl (Imm 9),
             X_set C_a dl,
             x_or dl dh],
        jit_if COND_TRUE [
            asm [x_sub al (Imm 6)]],
        asm [X_mov cx (Imm 0),
             X_mov dx (Imm 0x60),
             x_cmp al (Imm 0x99),
             X_set C_a CC_C,
             X_set C_a CC_X,
             X_cmov C_a cx dx,
             x_sub al cl],
        jit_if COND_TRUE [
            asm [X_mov CC_Z (Imm 0)]],
        jit_writeB esi al])"

definition jit_or_b_to_ea :: "u16 \<Rightarrow> ('d, unit) jitm" where
  "jit_or_b_to_ea op = seqs [
     clear_vc,
     ea_readB_jit (TYP op) (REG op) True,
     update_pc,
     asm [x_or al (DR_B (unat (DN op)))],
     update_nz,
     ea_writeB_jit (TYP op) (REG op) True]"

definition jit_pack_d :: "u16 \<Rightarrow> ('d, unit) jitm" where
  "jit_pack_d op = (let reg = unat (REG op) in bind jFETCH (\<lambda>adj. seqs [
        update_pc,
        asm [X_movzx edi (DR_W reg),
             X_mov esi (Imm (uint adj)),
             X_call c_do_pack,
             X_mov (DR_B (unat (DN op))) al]]))"

definition jit_pack_m :: "u16 \<Rightarrow> ('d, unit) jitm" where
  "jit_pack_m op = (let reg = unat (REG op) in bind jFETCH (\<lambda>adj. seqs [
        update_pc,
        asm [X_mov r12d (AR_L reg),
             X_lea r12d (Based r12d (- 1)),
             X_mov (AR_L reg) r12d],
        jit_readB r12d,
        asm [X_movzx r11d al,
             X_lea r12d (Based r12d (- 1)),
             X_mov (AR_L reg) r12d],
        jit_readB r12d,
        asm [X_movzx eax al,
             X_xchg al ah,
             x_or ax r11w,
             X_movzx edi ax,
             X_mov esi (Imm (uint adj)),
             X_call c_do_pack,
             X_mov edi (AR_L (unat (DN op))),
             X_lea edi (Based edi (- 1)),
             X_mov (AR_L (unat (DN op))) edi],
        jit_writeB edi al]))"

definition jit_or_w_to_ea :: "u16 \<Rightarrow> ('d, unit) jitm" where
  "jit_or_w_to_ea op = seqs [
     clear_vc,
     ea_readW_jit (TYP op) (REG op) True,
     update_pc,
     asm [x_or ax (DR_W (unat (DN op)))],
     update_nz,
     ea_writeW_jit (TYP op) (REG op) True]"

definition jit_unpk_d :: "u16 \<Rightarrow> ('d, unit) jitm" where
  "jit_unpk_d op = (let reg = unat (REG op) in bind jFETCH (\<lambda>adj. seqs [
        update_pc,
        asm [X_movzx edi (DR_L reg),
             X_mov esi (Imm (uint adj)),
             X_call c_do_unpk,
             X_mov (DR_W (unat (DN op))) ax]]))"

definition jit_unpk_m :: "u16 \<Rightarrow> ('d, unit) jitm" where
  "jit_unpk_m op = (let reg = unat (REG op) in let dn = unat (DN op) in bind jFETCH (\<lambda>adj. seqs [
          update_pc,
          asm [X_mov esi (AR_L reg),
               X_lea esi (Based esi (- 1)),
               X_mov (AR_L reg) esi],
          jit_readB esi,
          asm [X_movzx edi al,
               X_mov esi (Imm (uint adj)),
               X_call c_do_unpk,
               X_movzx r13d ax,
               X_mov r12d (AR_L dn),
               X_lea r12d (Based r12d (- 1)),
               X_mov (AR_L dn) r12d],
          jit_writeB r12d r13b,
          asm [X_lea r12d (Based r12d (- 1)),
               X_mov (AR_L dn) r12d,
               x_shr r13w (Imm 8)],
          jit_writeB r12d r13b]))"

definition jit_or_l_to_ea :: "u16 \<Rightarrow> ('d, unit) jitm" where
  "jit_or_l_to_ea op = seqs [
     clear_vc,
     ea_readL_jit (TYP op) (REG op) True,
     update_pc,
     asm [x_or eax (DR_L (unat (DN op)))],
     update_nz,
     ea_writeL_jit (TYP op) (REG op) True]"

definition jit_divs_w :: "u16 \<Rightarrow> ('d, unit) jitm" where
  "jit_divs_w op = seqs [
     ea_readW_jit (TYP op) (REG op) False,
     update_pc,
     asm [x_test ax ax],
     jit_if COND_FALSE [
        asm [X_call (c_void DIV0_ERROR)]],
     asm [X_cwde,
         X_mov CC_C (Imm 0),
         X_mov ecx (DR_L (unat (DN op))),
         X_xchg ecx eax,
         x_cmp eax (Imm 0x80000000),
         X_set C_z dl,
         x_cmp ecx (Imm (- 1)),
         X_set C_z dh,
         x_and dl dh],
     jit_if_else COND_TRUE [
        asm [X_mov CC_V (Imm 1)]]
       [
        asm [X_cdq,
             X_idiv ecx,
             X_mov ecx eax,
             x_shr ecx (Imm 16),
             x_test cx cx,
             X_set C_nz CC_V,
             x_test ax ax],
        update_nz,
        asm [X_movzx eax ax,
             x_shl edx (Imm 16),
             x_or eax edx,
             X_mov (DR_L (unat (DN op))) eax]]]"

definition jit_sub_b_to_dn :: "u16 \<Rightarrow> ('d, unit) jitm" where
  "jit_sub_b_to_dn op = seqs [
     ea_readB_jit (TYP op) (REG op) False,
     update_pc,
     asm [x_sub (DR_B (unat (DN op))) al],
     update_nz,
     update_vcx]"

definition jit_sub_w_to_dn :: "u16 \<Rightarrow> ('d, unit) jitm" where
  "jit_sub_w_to_dn op = seqs [
     ea_readW_jit (TYP op) (REG op) False,
     update_pc,
     asm [x_sub (DR_W (unat (DN op))) ax],
     update_nz,
     update_vcx]"

definition jit_sub_l_to_dn :: "u16 \<Rightarrow> ('d, unit) jitm" where
  "jit_sub_l_to_dn op = seqs [
     ea_readL_jit (TYP op) (REG op) False,
     update_pc,
     asm [x_sub (DR_L (unat (DN op))) eax],
     update_nz,
     update_vcx]"

definition jit_suba_w :: "u16 \<Rightarrow> ('d, unit) jitm" where
  "jit_suba_w op = seqs [
     ea_readW_jit (TYP op) (REG op) False,
     update_pc,
     asm [X_cwde,
         x_sub (AR_L (unat (DN op))) eax]]"

definition jit_suba_l :: "u16 \<Rightarrow> ('d, unit) jitm" where
  "jit_suba_l op = seqs [
     ea_readL_jit (TYP op) (REG op) False,
     update_pc,
     asm [x_sub (AR_L (unat (DN op))) eax]]"

definition jit_subx_b_d :: "u16 \<Rightarrow> ('d, unit) jitm" where
  "jit_subx_b_d op = seqs [
     asm [X_mov al (DR_B (unat (DN op))),
         X_mov cl CC_X,
         x_shr cl (Imm 1),
         x_sbb (DR_B (unat (REG op))) al],
     update_vcx,
     asm [X_set C_s CC_N,
         X_set C_z sil,
         x_and CC_Z sil]]"

definition jit_subx_b_m :: "u16 \<Rightarrow> ('d, unit) jitm" where
  "jit_subx_b_m op = seqs [
     asm [X_mov r12d (AR_L (unat (REG op))),
         X_lea r12d (Based r12d (- 1)),
         X_mov (AR_L (unat (REG op))) r12d],
     jit_readB r12d,
     asm [X_mov r13b al,
         X_mov esi (AR_L (unat (DN op))),
         X_lea esi (Based esi (- 1)),
         X_mov (AR_L (unat (DN op))) esi],
     jit_readB esi,
     asm [X_mov cl CC_X,
         x_shr cl (Imm 1),
         x_sbb r13b al],
     update_vcx,
     asm [X_set C_s CC_N,
         X_set C_z sil,
         x_and CC_Z sil,
         X_mov edi r12d,
         X_movzx esi r13b],
     jit_writeB r12d r13b]"

definition jit_subx_w_d :: "u16 \<Rightarrow> ('d, unit) jitm" where
  "jit_subx_w_d op = seqs [
     asm [X_mov ax (DR_W (unat (DN op))),
         X_mov cl CC_X,
         x_shr cl (Imm 1),
         x_sbb (DR_W (unat (REG op))) ax],
     update_vcx,
     asm [X_set C_s CC_N,
         X_set C_z sil,
         x_and CC_Z sil]]"

definition jit_subx_w_m :: "u16 \<Rightarrow> ('d, unit) jitm" where
  "jit_subx_w_m op = seqs [
     asm [X_mov r12d (AR_L (unat (REG op))),
         X_lea r12d (Based r12d (- 2)),
         X_mov (AR_L (unat (REG op))) r12d],
     jit_readW r12d,
     asm [X_mov r13w ax,
         X_mov esi (AR_L (unat (DN op))),
         X_lea esi (Based esi (- 2)),
         X_mov (AR_L (unat (DN op))) esi],
     jit_readW esi,
     asm [X_mov cl CC_X,
         x_shr cl (Imm 1),
         x_sbb r13w ax],
     update_vcx,
     asm [X_set C_s CC_N,
         X_set C_z sil,
         x_and CC_Z sil],
     jit_writeW r12d r13w]"

definition jit_subx_l_d :: "u16 \<Rightarrow> ('d, unit) jitm" where
  "jit_subx_l_d op = seqs [
     asm [X_mov eax (DR_L (unat (DN op))),
         X_mov cl CC_X,
         x_shr cl (Imm 1),
         x_sbb (DR_L (unat (REG op))) eax],
     update_vcx,
     asm [X_set C_s CC_N,
         X_set C_z sil,
         x_and CC_Z sil]]"

definition jit_subx_l_m :: "u16 \<Rightarrow> ('d, unit) jitm" where
  "jit_subx_l_m op = seqs [
     asm [X_mov r12d (AR_L (unat (REG op))),
         X_lea r12d (Based r12d (- 4)),
         X_mov (AR_L (unat (REG op))) r12d],
     jit_readL r12d,
     asm [X_mov r13d eax,
         X_mov esi (AR_L (unat (DN op))),
         X_lea esi (Based esi (- 4)),
         X_mov (AR_L (unat (DN op))) esi],
     jit_readL esi,
     asm [X_mov cl CC_X,
         x_shr cl (Imm 1),
         x_sbb r13d eax],
     update_vcx,
     asm [X_set C_s CC_N,
         X_set C_z sil,
         x_and CC_Z sil],
     jit_writeL r12d r13d]"

definition jit_sub_b_to_ea :: "u16 \<Rightarrow> ('d, unit) jitm" where
  "jit_sub_b_to_ea op = seqs [
     ea_readB_jit (TYP op) (REG op) True,
     update_pc,
     asm [x_sub al (DR_B (unat (DN op)))],
     update_nz,
     update_vcx,
     ea_writeB_jit (TYP op) (REG op) True]"

definition jit_sub_w_to_ea :: "u16 \<Rightarrow> ('d, unit) jitm" where
  "jit_sub_w_to_ea op = seqs [
     ea_readW_jit (TYP op) (REG op) True,
     update_pc,
     asm [x_sub ax (DR_W (unat (DN op)))],
     update_nz,
     update_vcx,
     ea_writeW_jit (TYP op) (REG op) True]"

definition jit_sub_l_to_ea :: "u16 \<Rightarrow> ('d, unit) jitm" where
  "jit_sub_l_to_ea op = seqs [
     ea_readL_jit (TYP op) (REG op) True,
     update_pc,
     asm [x_sub eax (DR_W (unat (DN op)))],
     update_nz,
     update_vcx,
     ea_writeL_jit (TYP op) (REG op) True]"

definition jit_aline_ex :: "u16 \<Rightarrow> ('d, unit) jitm" where
  "jit_aline_ex op = asm [X_call (c_void ALINE)]"

definition jit_cmp_b :: "u16 \<Rightarrow> ('d, unit) jitm" where
  "jit_cmp_b op = seqs [
     ea_readB_jit (TYP op) (REG op) False,
     update_pc,
     asm [x_cmp (DR_B (unat (DN op))) al],
     update_vc,
     update_nz]"

definition jit_cmp_w :: "u16 \<Rightarrow> ('d, unit) jitm" where
  "jit_cmp_w op = seqs [
     ea_readW_jit (TYP op) (REG op) False,
     update_pc,
     asm [x_cmp (DR_W (unat (DN op))) ax],
     update_vc,
     update_nz]"

definition jit_cmp_l :: "u16 \<Rightarrow> ('d, unit) jitm" where
  "jit_cmp_l op = seqs [
     ea_readL_jit (TYP op) (REG op) False,
     update_pc,
     asm [x_cmp (DR_L (unat (DN op))) eax],
     update_vc,
     update_nz]"

definition jit_cmpa_w :: "u16 \<Rightarrow> ('d, unit) jitm" where
  "jit_cmpa_w op = seqs [
     ea_readW_jit (TYP op) (REG op) False,
     update_pc,
     asm [X_cwde,
         x_cmp (AR_L (unat (DN op))) eax],
     update_vc,
     update_nz]"

definition jit_cmpa_l :: "u16 \<Rightarrow> ('d, unit) jitm" where
  "jit_cmpa_l op = seqs [
     ea_readL_jit (TYP op) (REG op) False,
     update_pc,
     asm [x_cmp (AR_L (unat (DN op))) eax],
     update_vc,
     update_nz]"

definition jit_eor_b :: "u16 \<Rightarrow> ('d, unit) jitm" where
  "jit_eor_b op = seqs [
     ea_readB_jit (TYP op) (REG op) True,
     update_pc,
     clear_vc,
     asm [x_xor al (DR_B (unat (DN op)))],
     update_nz,
     ea_writeB_jit (TYP op) (REG op) True]"

definition jit_eor_w :: "u16 \<Rightarrow> ('d, unit) jitm" where
  "jit_eor_w op = seqs [
     ea_readW_jit (TYP op) (REG op) True,
     update_pc,
     clear_vc,
     asm [x_xor ax (DR_W (unat (DN op)))],
     update_nz,
     ea_writeW_jit (TYP op) (REG op) True]"

definition jit_eor_l :: "u16 \<Rightarrow> ('d, unit) jitm" where
  "jit_eor_l op = seqs [
     ea_readL_jit (TYP op) (REG op) True,
     update_pc,
     clear_vc,
     asm [x_xor eax (DR_L (unat (DN op)))],
     update_nz,
     ea_writeL_jit (TYP op) (REG op) True]"

definition jit_cmpm_b :: "u16 \<Rightarrow> ('d, unit) jitm" where
  "jit_cmpm_b op = seqs [
     asm [X_mov esi (AR_L (unat (REG op))),
         x_inc (AR_L (unat (REG op)))],
     jit_readB esi,
     asm [X_mov r12b al,
         X_mov esi (AR_L (unat (DN op))),
         x_inc (AR_L (unat (DN op)))],
     jit_readB esi,
     asm [x_cmp al r12b],
     update_nz,
     update_vc]"

definition jit_cmpm_w :: "u16 \<Rightarrow> ('d, unit) jitm" where
  "jit_cmpm_w op = seqs [
     asm [X_mov esi (AR_L (unat (REG op))),
         x_add (AR_L (unat (REG op))) (Imm 2)],
     jit_readW esi,
     asm [X_mov r12w ax,
         X_mov esi (AR_L (unat (DN op))),
         x_add (AR_L (unat (DN op))) (Imm 2)],
     jit_readW esi,
     asm [x_cmp ax r12w],
     update_nz,
     update_vc]"

definition jit_cmpm_l :: "u16 \<Rightarrow> ('d, unit) jitm" where
  "jit_cmpm_l op = seqs [
     asm [X_mov esi (AR_L (unat (REG op))),
         x_add (AR_L (unat (REG op))) (Imm 4)],
     jit_readL esi,
     asm [X_mov r12d eax,
         X_mov esi (AR_L (unat (DN op))),
         x_add (AR_L (unat (DN op))) (Imm 4)],
     jit_readL esi,
     asm [x_cmp eax r12d],
     update_nz,
     update_vc]"

definition jit_and_b_to_dn :: "u16 \<Rightarrow> ('d, unit) jitm" where
  "jit_and_b_to_dn op = seqs [
     ea_readB_jit (TYP op) (REG op) False,
     update_pc,
     asm [x_and (DR_B (unat (DN op))) al],
     update_nz,
     clear_vc]"

definition jit_and_w_to_dn :: "u16 \<Rightarrow> ('d, unit) jitm" where
  "jit_and_w_to_dn op = seqs [
     ea_readW_jit (TYP op) (REG op) False,
     update_pc,
     asm [x_and (DR_W (unat (DN op))) ax],
     update_nz,
     clear_vc]"

definition jit_and_l_to_dn :: "u16 \<Rightarrow> ('d, unit) jitm" where
  "jit_and_l_to_dn op = seqs [
     ea_readL_jit (TYP op) (REG op) False,
     update_pc,
     asm [x_and (DR_L (unat (DN op))) eax],
     update_nz,
     clear_vc]"

definition jit_mulu_w :: "u16 \<Rightarrow> ('d, unit) jitm" where
  "jit_mulu_w op = seqs [
     ea_readW_jit (TYP op) (REG op) False,
     update_pc,
     asm [X_mul (DR_W (unat (DN op))),
         x_ror edx (Imm 16),
         x_or eax edx,
         x_test eax eax],
     update_nz,
     clear_vc,
     asm [X_mov (DR_L (unat (DN op))) eax]]"

definition jit_abcd_d :: "u16 \<Rightarrow> ('d, unit) jitm" where
  "jit_abcd_d op = (let dn = unat (DN op) in seqs [
      asm [X_mov al (DR_B dn),
           X_mov dl (DR_B (unat (REG op))),
           x_add dl CC_X,
           x_add al dl,
           X_lahf,
           x_and ah (Imm 0x10),
           X_set C_nz dh,
           X_mov dl al,
           x_and dl (Imm 0xf),
           x_cmp dl (Imm 9),
           X_set C_a dl,
           x_or dl dh],
      jit_if COND_TRUE [
          asm [x_add al (Imm 6)]],
      asm [X_mov cx (Imm 0),
           X_mov dx (Imm 0x60),
           x_cmp al (Imm 0x99),
           X_set C_a sil,
           x_and ah (Imm 1),
           X_set C_nz dil,
           x_or sil dil,
           X_set C_nz CC_C,
           X_set C_nz CC_X,
           X_cmov C_nz cx dx,
           x_add al cl],
      jit_if COND_TRUE [
          asm [X_mov CC_Z (Imm 0)]],
      asm [X_mov (DR_B dn) al]])"

definition jit_abcd_m :: "u16 \<Rightarrow> ('d, unit) jitm" where
  "jit_abcd_m op = (let dn = unat (DN op) in seqs [
      asm [X_mov r12d (AR_L dn),
           X_lea r12d (Based r12d (- 1)),
           X_mov (AR_L dn) r12d],
      jit_readB r12d,
      asm [X_mov r11b al,
           X_mov edi (AR_L (unat (REG op))),
           X_lea edi (Based edi (- 1)),
           X_mov (AR_L (unat (REG op))) edi],
      jit_readB edi,
      asm [X_mov dl al,
           X_mov al r11b,
           x_add dl CC_X,
           x_add al dl,
           X_lahf,
           x_and ah (Imm 0x10),
           X_set C_nz dh,
           X_mov dl al,
           x_and dl (Imm 0xf),
           x_cmp dl (Imm 9),
           X_set C_a dl,
           x_or dl dh],
      jit_if COND_TRUE [
          asm [x_add al (Imm 6)]],
      asm [X_mov cx (Imm 0),
           X_mov dx (Imm 0x60),
           x_cmp al (Imm 0x99),
           X_set C_a CC_C,
           X_set C_a CC_X,
           X_cmov C_a cx dx,
           x_add al cl],
      jit_if COND_TRUE [
          asm [X_mov CC_Z (Imm 0)]],
      jit_writeB r12d al])"

definition jit_and_b_to_ea :: "u16 \<Rightarrow> ('d, unit) jitm" where
  "jit_and_b_to_ea op = seqs [
     clear_vc,
     ea_readB_jit (TYP op) (REG op) True,
     update_pc,
     asm [x_and al (DR_B (unat (DN op)))],
     update_nz,
     ea_writeB_jit (TYP op) (REG op) True]"

definition jit_and_w_to_ea :: "u16 \<Rightarrow> ('d, unit) jitm" where
  "jit_and_w_to_ea op = seqs [
     clear_vc,
     ea_readW_jit (TYP op) (REG op) True,
     update_pc,
     asm [x_and ax (DR_W (unat (DN op)))],
     update_nz,
     ea_writeW_jit (TYP op) (REG op) True]"

definition jit_and_l_to_ea :: "u16 \<Rightarrow> ('d, unit) jitm" where
  "jit_and_l_to_ea op = seqs [
     clear_vc,
     ea_readL_jit (TYP op) (REG op) True,
     update_pc,
     asm [x_and eax (DR_L (unat (DN op)))],
     update_nz,
     ea_writeL_jit (TYP op) (REG op) True]"

definition jit_muls_w :: "u16 \<Rightarrow> ('d, unit) jitm" where
  "jit_muls_w op = seqs [
     ea_readW_jit (TYP op) (REG op) False,
     update_pc,
     asm [X_imul (DR_W (unat (DN op))),
         x_ror edx (Imm 16),
         x_or eax edx,
         x_test eax eax],
     update_nz,
     clear_vc,
     asm [X_mov (DR_L (unat (DN op))) eax]]"

definition jit_exg_dn :: "u16 \<Rightarrow> ('d, unit) jitm" where
  "jit_exg_dn op = asm [X_mov eax (DR_L (unat (REG op))),
         X_xchg (DR_L (unat (DN op))) eax,
         X_mov (DR_L (unat (REG op))) eax]"

definition jit_exg_an :: "u16 \<Rightarrow> ('d, unit) jitm" where
  "jit_exg_an op = asm [X_mov eax (AR_L (unat (REG op))),
         X_xchg (AR_L (unat (DN op))) eax,
         X_mov (AR_L (unat (REG op))) eax]"

definition jit_exg_da :: "u16 \<Rightarrow> ('d, unit) jitm" where
  "jit_exg_da op = asm [X_mov eax (AR_L (unat (REG op))),
         X_xchg (DR_L (unat (DN op))) eax,
         X_mov (AR_L (unat (REG op))) eax]"

definition jit_add_b_to_dn :: "u16 \<Rightarrow> ('d, unit) jitm" where
  "jit_add_b_to_dn op = seqs [
     ea_readB_jit (TYP op) (REG op) False,
     update_pc,
     asm [x_add (DR_B (unat (DN op))) al],
     update_nz,
     update_vcx]"

definition jit_add_w_to_dn :: "u16 \<Rightarrow> ('d, unit) jitm" where
  "jit_add_w_to_dn op = seqs [
     ea_readW_jit (TYP op) (REG op) False,
     update_pc,
     asm [x_add (DR_W (unat (DN op))) ax],
     update_nz,
     update_vcx]"

definition jit_add_l_to_dn :: "u16 \<Rightarrow> ('d, unit) jitm" where
  "jit_add_l_to_dn op = seqs [
     ea_readL_jit (TYP op) (REG op) False,
     update_pc,
     asm [x_add (DR_L (unat (DN op))) eax],
     update_nz,
     update_vcx]"

definition jit_adda_w :: "u16 \<Rightarrow> ('d, unit) jitm" where
  "jit_adda_w op = seqs [
     ea_readW_jit (TYP op) (REG op) False,
     update_pc,
     asm [X_cwde,
         x_add (AR_L (unat (DN op))) eax]]"

definition jit_adda_l :: "u16 \<Rightarrow> ('d, unit) jitm" where
  "jit_adda_l op = seqs [
     ea_readL_jit (TYP op) (REG op) False,
     update_pc,
     asm [x_add (AR_L (unat (DN op))) eax]]"

definition jit_addx_b_d :: "u16 \<Rightarrow> ('d, unit) jitm" where
  "jit_addx_b_d op = seqs [
     asm [X_mov al (DR_B (unat (REG op))),
         X_mov cl CC_X,
         x_shr cl (Imm 1),
         x_adc (DR_B (unat (DN op))) al],
     update_vcx,
     asm [X_set C_s CC_N,
         X_set C_z sil,
         x_and CC_Z sil]]"

definition jit_addx_b_m :: "u16 \<Rightarrow> ('d, unit) jitm" where
  "jit_addx_b_m op = seqs [
     asm [X_mov r12d (AR_L (unat (DN op))),
         X_lea r12d (Based r12d (- 1)),
         X_mov (AR_L (unat (DN op))) r12d],
     jit_readB r12d,
     asm [X_mov r13b al,
         X_mov esi (AR_L (unat (REG op))),
         X_lea esi (Based esi (- 1)),
         X_mov (AR_L (unat (REG op))) esi],
     jit_readB esi,
     asm [X_mov cl CC_X,
         x_shr cl (Imm 1),
         x_adc r13b al],
     update_vcx,
     asm [X_set C_s CC_N,
         X_set C_z sil,
         x_and CC_Z sil,
         X_mov edi r12d,
         X_movzx esi r13b],
     jit_writeB r12d r13b]"

definition jit_addx_w_d :: "u16 \<Rightarrow> ('d, unit) jitm" where
  "jit_addx_w_d op = seqs [
     asm [X_mov ax (DR_W (unat (REG op))),
         X_mov cl CC_X,
         x_shr cl (Imm 1),
         x_adc (DR_W (unat (DN op))) ax],
     update_vcx,
     asm [X_set C_s CC_N,
         X_set C_z sil,
         x_and CC_Z sil]]"

definition jit_addx_w_m :: "u16 \<Rightarrow> ('d, unit) jitm" where
  "jit_addx_w_m op = seqs [
     asm [X_mov r12d (AR_L (unat (DN op))),
         X_lea r12d (Based r12d (- 2)),
         X_mov (AR_L (unat (DN op))) r12d],
     jit_readW r12d,
     asm [X_mov r13w ax,
         X_mov esi (AR_L (unat (REG op))),
         X_lea esi (Based esi (- 2)),
         X_mov (AR_L (unat (REG op))) esi],
     jit_readW esi,
     asm [X_mov cl CC_X,
         x_shr cl (Imm 1),
         x_adc r13w ax],
     update_vcx,
     asm [X_set C_s CC_N,
         X_set C_z sil,
         x_and CC_Z sil],
     jit_writeW r12d r13w]"

definition jit_addx_l_d :: "u16 \<Rightarrow> ('d, unit) jitm" where
  "jit_addx_l_d op = seqs [
     asm [X_mov eax (DR_L (unat (REG op))),
         X_mov cl CC_X,
         x_shr cl (Imm 1),
         x_adc (DR_L (unat (DN op))) eax],
     update_vcx,
     asm [X_set C_s CC_N,
         X_set C_z sil,
         x_and CC_Z sil]]"

definition jit_addx_l_m :: "u16 \<Rightarrow> ('d, unit) jitm" where
  "jit_addx_l_m op = seqs [
     asm [X_mov r12d (AR_L (unat (DN op))),
         X_lea r12d (Based r12d (- 4)),
         X_mov (AR_L (unat (DN op))) r12d],
     jit_readL r12d,
     asm [X_mov r13d eax,
         X_mov esi (AR_L (unat (REG op))),
         X_lea esi (Based esi (- 4)),
         X_mov (AR_L (unat (REG op))) esi],
     jit_readL esi,
     asm [X_mov cl CC_X,
         x_shr cl (Imm 1),
         x_adc r13d eax],
     update_vcx,
     asm [X_set C_s CC_N,
         X_set C_z sil,
         x_and CC_Z sil],
     jit_writeL r12d r13d]"

definition jit_add_b_to_ea :: "u16 \<Rightarrow> ('d, unit) jitm" where
  "jit_add_b_to_ea op = seqs [
     ea_readB_jit (TYP op) (REG op) True,
     update_pc,
     asm [x_add al (DR_B (unat (DN op)))],
     update_nz,
     update_vcx,
     ea_writeB_jit (TYP op) (REG op) True]"

definition jit_add_w_to_ea :: "u16 \<Rightarrow> ('d, unit) jitm" where
  "jit_add_w_to_ea op = seqs [
     ea_readW_jit (TYP op) (REG op) True,
     update_pc,
     asm [x_add ax (DR_W (unat (DN op)))],
     update_nz,
     update_vcx,
     ea_writeW_jit (TYP op) (REG op) True]"

end
