(* ===== verification/JitShift.thy ===== *)
theory JitShift
  imports JitOps3
begin

text \<open>
  Translations of instructions, fourth part: the additions to memory, the shifts and the
  rotates of src/cpu/jit/jit_op.cc.
\<close>

definition jit_add_l_to_ea :: "u16 \<Rightarrow> ('d, unit) jitm" where
  "jit_add_l_to_ea op = seqs [
     ea_readL_jit (TYP op) (REG op) True,
     update_pc,
     asm [x_add eax (DR_W (unat (DN op)))],
     update_nz,
     update_vcx,
     ea_writeL_jit (TYP op) (REG op) True]"

definition jit_asr_b_i :: "u16 \<Rightarrow> ('d, unit) jitm" where
  "jit_asr_b_i op = (let cnt = (if DN op \<noteq> 0 then uint (DN op) else 8) in seqs [
      asm [X_mov CC_V (Imm 0),
           x_sar (DR_B (unat (REG op))) (Imm cnt),
           X_set C_c CC_C,
           X_set C_c CC_X],
      update_nz])"

definition jit_lsr_b_i :: "u16 \<Rightarrow> ('d, unit) jitm" where
  "jit_lsr_b_i op = (let cnt = (if DN op \<noteq> 0 then uint (DN op) else 8) in seqs [
      asm [X_mov CC_V (Imm 0),
           x_shr (DR_B (unat (REG op))) (Imm cnt),
           X_set C_c CC_C,
           X_set C_c CC_X],
      update_nz])"

definition jit_roxr_b_i :: "u16 \<Rightarrow> ('d, unit) jitm" where
  "jit_roxr_b_i op = (let cnt = (if DN op \<noteq> 0 then uint (DN op) else 8) in seqs [
      asm [X_mov CC_V (Imm 0),
           X_mov al (DR_B (unat (REG op))),
           X_mov dl CC_X,
           x_shr dl (Imm 1),
           x_rcr al (Imm cnt),
           X_set C_c CC_C,
           X_set C_c CC_X,
           x_test al al],
      update_nz,
      asm [X_mov (DR_B (unat (REG op))) al]])"

definition jit_ror_b_i :: "u16 \<Rightarrow> ('d, unit) jitm" where
  "jit_ror_b_i op = (let cnt = (if DN op \<noteq> 0 then uint (DN op) else 8) in seqs [
      asm [X_mov CC_V (Imm 0),
           X_mov al (DR_B (unat (REG op))),
           x_ror al (Imm cnt),
           X_set C_c CC_C,
           x_test al al],
      update_nz,
      asm [X_mov (DR_B (unat (REG op))) al]])"

definition jit_asr_b_r :: "u16 \<Rightarrow> ('d, unit) jitm" where
  "jit_asr_b_r op = seqs [
     asm [X_movsx rax (DR_B (unat (REG op))),
         X_mov cl (DR_B (unat (DN op))),
         x_and cl (Imm 63)],
     jit_if_else COND_FALSE [
        asm [X_mov CC_C (Imm 0),
             x_test al al],
        update_nz]
       [
        asm [X_mov CC_V (Imm 0),
             x_sar rax cl,
             X_set C_c CC_C,
             X_set C_c CC_X],
        update_nz,
        asm [X_mov (DR_B (unat (REG op))) al]]]"

definition jit_lsr_b_r :: "u16 \<Rightarrow> ('d, unit) jitm" where
  "jit_lsr_b_r op = seqs [
     asm [X_movzx rax (DR_B (unat (REG op))),
         X_mov cl (DR_B (unat (DN op))),
         x_and cl (Imm 63)],
     jit_if_else COND_FALSE [
        asm [X_mov CC_C (Imm 0),
             x_test al al],
        update_nz]
       [
        asm [X_mov CC_V (Imm 0),
             x_shr rax cl,
             X_set C_c CC_C,
             X_set C_c CC_X],
        update_nz,
        asm [X_mov (DR_B (unat (REG op))) al]]]"

definition jit_roxr_b_r :: "u16 \<Rightarrow> ('d, unit) jitm" where
  "jit_roxr_b_r op = seqs [
     asm [X_mov CC_V (Imm 0),
         X_mov al (DR_B (unat (REG op))),
         X_mov cl (DR_B (unat (DN op))),
         x_and cl (Imm 63)],
     jit_if_else COND_FALSE [
        asm [X_mov dl CC_X,
             X_mov CC_C dl,
             x_test al al],
        update_nz]
       [
        asm [x_cmp cl (Imm 31)],
        jit_if_else COND_LE [
            asm [X_mov dl CC_X,
                 x_shr dl (Imm 1)]]
           [
            asm [x_sub cl (Imm 32),
                 X_mov dl CC_X,
                 x_shr dl (Imm 1),
                 x_rcr al (Imm 31),
                 x_rcr al (Imm 1)]],
        asm [x_rcr al cl,
             X_set C_c CC_C,
             X_set C_c CC_X,
             x_test al al],
        update_nz,
        asm [X_mov (DR_B (unat (REG op))) al]]]"

definition jit_ror_b_r :: "u16 \<Rightarrow> ('d, unit) jitm" where
  "jit_ror_b_r op = seqs [
     asm [X_mov CC_V (Imm 0),
         X_mov al (DR_B (unat (REG op))),
         X_mov cl (DR_B (unat (DN op))),
         x_and cl (Imm 63)],
     jit_if_else COND_FALSE [
        asm [X_mov dl CC_X,
             X_mov CC_C dl,
             x_test al al],
        update_nz]
       [
        asm [x_ror al cl,
             X_set C_c CC_C,
             x_test al al],
        update_nz,
        asm [X_mov (DR_B (unat (REG op))) al]]]"

definition jit_asr_w_i :: "u16 \<Rightarrow> ('d, unit) jitm" where
  "jit_asr_w_i op = (let cnt = (if DN op \<noteq> 0 then uint (DN op) else 8) in seqs [
      asm [X_mov CC_V (Imm 0),
           x_sar (DR_W (unat (REG op))) (Imm cnt),
           X_set C_c CC_C,
           X_set C_c CC_X],
      update_nz])"

definition jit_lsr_w_i :: "u16 \<Rightarrow> ('d, unit) jitm" where
  "jit_lsr_w_i op = (let cnt = (if DN op \<noteq> 0 then uint (DN op) else 8) in seqs [
      asm [X_mov CC_V (Imm 0),
           x_shr (DR_W (unat (REG op))) (Imm cnt),
           X_set C_c CC_C,
           X_set C_c CC_X],
      update_nz])"

definition jit_roxr_w_i :: "u16 \<Rightarrow> ('d, unit) jitm" where
  "jit_roxr_w_i op = (let cnt = (if DN op \<noteq> 0 then uint (DN op) else 8) in seqs [
      asm [X_mov CC_V (Imm 0),
           X_mov ax (DR_B (unat (REG op))),
           X_mov dl CC_X,
           x_shr dl (Imm 1),
           x_rcr ax (Imm cnt),
           X_set C_c CC_C,
           X_set C_c CC_X,
           x_test ax ax],
      update_nz,
      asm [X_mov (DR_W (unat (REG op))) ax]])"

definition jit_ror_w_i :: "u16 \<Rightarrow> ('d, unit) jitm" where
  "jit_ror_w_i op = (let cnt = (if DN op \<noteq> 0 then uint (DN op) else 8) in seqs [
      asm [X_mov CC_V (Imm 0),
           X_mov ax (DR_W (unat (REG op))),
           x_ror ax (Imm cnt),
           X_set C_c CC_C,
           x_test ax ax],
      update_nz,
      asm [X_mov (DR_W (unat (REG op))) ax]])"

definition jit_asr_w_r :: "u16 \<Rightarrow> ('d, unit) jitm" where
  "jit_asr_w_r op = seqs [
     asm [X_movsx rax (DR_W (unat (REG op))),
         X_mov cl (DR_B (unat (DN op))),
         x_and cl (Imm 63)],
     jit_if_else COND_FALSE [
        asm [X_mov CC_C (Imm 0),
             x_test ax ax],
        update_nz]
       [
        asm [X_mov CC_V (Imm 0),
             x_sar rax cl,
             X_set C_c CC_C,
             X_set C_c CC_X],
        update_nz,
        asm [X_mov (DR_W (unat (REG op))) ax]]]"

definition jit_lsr_w_r :: "u16 \<Rightarrow> ('d, unit) jitm" where
  "jit_lsr_w_r op = seqs [
     asm [X_movzx rax (DR_W (unat (REG op))),
         X_mov cl (DR_B (unat (DN op))),
         x_and cl (Imm 63)],
     jit_if_else COND_FALSE [
        asm [X_mov CC_C (Imm 0),
             x_test ax ax],
        update_nz]
       [
        asm [X_mov CC_V (Imm 0),
             x_shr rax cl,
             X_set C_c CC_C,
             X_set C_c CC_X],
        update_nz,
        asm [X_mov (DR_W (unat (REG op))) ax]]]"

definition jit_roxr_w_r :: "u16 \<Rightarrow> ('d, unit) jitm" where
  "jit_roxr_w_r op = seqs [
     asm [X_mov CC_V (Imm 0),
         X_mov ax (DR_W (unat (REG op))),
         X_mov cl (DR_B (unat (DN op))),
         x_and cl (Imm 63)],
     jit_if_else COND_FALSE [
        asm [X_mov dl CC_X,
             X_mov CC_C dl,
             x_test ax ax],
        update_nz]
       [
        asm [x_cmp cl (Imm 31)],
        jit_if_else COND_LE [
            asm [X_mov dl CC_X,
                 x_shr dl (Imm 1)]]
           [
            asm [x_sub cl (Imm 32),
                 X_mov dl CC_X,
                 x_shr dl (Imm 1),
                 x_rcr ax (Imm 31),
                 x_rcr ax (Imm 1)]],
        asm [x_rcr ax cl,
             X_set C_c CC_C,
             X_set C_c CC_X,
             x_test ax ax],
        update_nz,
        asm [X_mov (DR_W (unat (REG op))) ax]]]"

definition jit_ror_w_r :: "u16 \<Rightarrow> ('d, unit) jitm" where
  "jit_ror_w_r op = seqs [
     asm [X_mov CC_V (Imm 0),
         X_mov ax (DR_W (unat (REG op))),
         X_mov cl (DR_B (unat (DN op))),
         x_and cl (Imm 63)],
     jit_if_else COND_FALSE [
        asm [X_mov dl CC_X,
             X_mov CC_C dl,
             x_test ax ax],
        update_nz]
       [
        asm [x_ror ax cl,
             X_set C_c CC_C,
             x_test ax ax],
        update_nz,
        asm [X_mov (DR_W (unat (REG op))) ax]]]"

definition jit_asr_l_i :: "u16 \<Rightarrow> ('d, unit) jitm" where
  "jit_asr_l_i op = (let cnt = (if DN op \<noteq> 0 then uint (DN op) else 8) in seqs [
      asm [X_mov CC_V (Imm 0),
           x_sar (DR_L (unat (REG op))) (Imm cnt),
           X_set C_c CC_C,
           X_set C_c CC_X],
      update_nz])"

definition jit_lsr_l_i :: "u16 \<Rightarrow> ('d, unit) jitm" where
  "jit_lsr_l_i op = (let cnt = (if DN op \<noteq> 0 then uint (DN op) else 8) in seqs [
      asm [X_mov CC_V (Imm 0),
           x_shr (DR_L (unat (REG op))) (Imm cnt),
           X_set C_c CC_C,
           X_set C_c CC_X],
      update_nz])"

definition jit_roxr_l_i :: "u16 \<Rightarrow> ('d, unit) jitm" where
  "jit_roxr_l_i op = (let cnt = (if DN op \<noteq> 0 then uint (DN op) else 8) in seqs [
      asm [X_mov CC_V (Imm 0),
           X_mov eax (DR_L (unat (REG op))),
           X_mov dl CC_X,
           x_shr dl (Imm 1),
           x_rcr eax (Imm cnt),
           X_set C_c CC_C,
           X_set C_c CC_X,
           x_test eax eax],
      update_nz,
      asm [X_mov (DR_L (unat (REG op))) eax]])"

definition jit_ror_l_i :: "u16 \<Rightarrow> ('d, unit) jitm" where
  "jit_ror_l_i op = (let cnt = (if DN op \<noteq> 0 then uint (DN op) else 8) in seqs [
      asm [X_mov CC_V (Imm 0),
           X_mov eax (DR_L (unat (REG op))),
           x_ror eax (Imm cnt),
           X_set C_c CC_C,
           x_test eax eax],
      update_nz,
      asm [X_mov (DR_L (unat (REG op))) eax]])"

definition jit_asr_l_r :: "u16 \<Rightarrow> ('d, unit) jitm" where
  "jit_asr_l_r op = seqs [
     asm [X_movsxd rax (DR_L (unat (REG op))),
         X_mov cl (DR_B (unat (DN op))),
         x_and cl (Imm 63)],
     jit_if_else COND_FALSE [
        asm [X_mov CC_C (Imm 0),
             x_test eax eax],
        update_nz]
       [
        asm [X_mov CC_V (Imm 0),
             x_sar rax cl,
             X_set C_c CC_C,
             X_set C_c CC_X],
        update_nz,
        asm [X_mov (DR_L (unat (REG op))) eax]]]"

definition jit_lsr_l_r :: "u16 \<Rightarrow> ('d, unit) jitm" where
  "jit_lsr_l_r op = seqs [
     asm [X_mov eax (DR_L (unat (REG op))),
         X_mov cl (DR_B (unat (DN op))),
         x_and cl (Imm 63)],
     jit_if_else COND_FALSE [
        asm [X_mov CC_C (Imm 0),
             x_test eax eax],
        update_nz]
       [
        asm [X_mov CC_V (Imm 0),
             x_shr rax cl,
             X_set C_c CC_C,
             X_set C_c CC_X],
        update_nz,
        asm [X_mov (DR_L (unat (REG op))) eax]]]"

definition jit_roxr_l_r :: "u16 \<Rightarrow> ('d, unit) jitm" where
  "jit_roxr_l_r op = seqs [
     asm [X_mov CC_V (Imm 0),
         X_mov eax (DR_L (unat (REG op))),
         X_mov cl (DR_B (unat (DN op))),
         x_and cl (Imm 63)],
     jit_if_else COND_FALSE [
        asm [X_mov dl CC_X,
             X_mov CC_C dl,
             x_test eax eax],
        update_nz]
       [
        asm [x_cmp cl (Imm 31)],
        jit_if_else COND_LE [
            asm [X_mov dl CC_X,
                 x_shr dl (Imm 1)]]
           [
            asm [x_sub cl (Imm 32),
                 X_mov dl CC_X,
                 x_shr dl (Imm 1),
                 x_rcr eax (Imm 31),
                 x_rcr eax (Imm 1)]],
        asm [x_rcr eax cl,
             X_set C_c CC_C,
             X_set C_c CC_X,
             x_test eax eax],
        update_nz,
        asm [X_mov (DR_L (unat (REG op))) eax]]]"

definition jit_ror_l_r :: "u16 \<Rightarrow> ('d, unit) jitm" where
  "jit_ror_l_r op = seqs [
     asm [X_mov CC_V (Imm 0),
         X_mov eax (DR_L (unat (REG op))),
         X_mov cl (DR_B (unat (DN op))),
         x_and cl (Imm 63)],
     jit_if_else COND_FALSE [
        asm [X_mov dl CC_X,
             X_mov CC_C dl,
             x_test eax eax],
        update_nz]
       [
        asm [x_cmp cl (Imm 32)],
        jit_if_else COND_EQ [
            asm [X_mov edx eax,
                 x_shl edx (Imm 1)]]
           [
            asm [x_ror eax cl]],
        asm [X_set C_c CC_C,
             x_test eax eax],
        update_nz,
        asm [X_mov (DR_L (unat (REG op))) eax]]]"

definition jit_asr_ea :: "u16 \<Rightarrow> ('d, unit) jitm" where
  "jit_asr_ea op = seqs [
     asm [X_mov CC_V (Imm 0)],
     ea_readW_jit (TYP op) (REG op) True,
     asm [x_sar ax (Imm 1),
         X_set C_c CC_C,
         X_set C_c CC_X],
     update_nz,
     ea_writeW_jit (TYP op) (REG op) True]"

definition jit_lsr_ea :: "u16 \<Rightarrow> ('d, unit) jitm" where
  "jit_lsr_ea op = seqs [
     asm [X_mov CC_V (Imm 0)],
     ea_readW_jit (TYP op) (REG op) True,
     asm [x_shr ax (Imm 1),
         X_set C_c CC_C,
         X_set C_c CC_X],
     update_nz,
     ea_writeW_jit (TYP op) (REG op) True]"

definition jit_roxr_ea :: "u16 \<Rightarrow> ('d, unit) jitm" where
  "jit_roxr_ea op = seqs [
     asm [X_mov CC_V (Imm 0)],
     ea_readW_jit (TYP op) (REG op) True,
     asm [X_mov dl CC_X,
         x_shr dl (Imm 1),
         x_rcr ax (Imm 1),
         X_set C_c CC_C,
         X_set C_c CC_X,
         x_test ax ax],
     update_nz,
     ea_writeW_jit (TYP op) (REG op) True]"

definition jit_ror_ea :: "u16 \<Rightarrow> ('d, unit) jitm" where
  "jit_ror_ea op = seqs [
     asm [X_mov CC_V (Imm 0)],
     ea_readW_jit (TYP op) (REG op) True,
     asm [x_ror ax (Imm 1),
         X_set C_c CC_C,
         x_test ax ax],
     update_nz,
     ea_writeW_jit (TYP op) (REG op) True]"

definition jit_asl_b_i :: "u16 \<Rightarrow> ('d, unit) jitm" where
  "jit_asl_b_i op = (let cnt = (if DN op \<noteq> 0 then uint (DN op) else 8) in seqs [
      asm [X_mov al (DR_B (unat (REG op))),
           x_sal (DR_B (unat (REG op))) (Imm cnt),
           X_set C_c CC_C,
           X_set C_c CC_X],
      update_nz,
      asm [X_mov dl al,
           x_sar dl (Imm 7)],
      if cnt \<noteq> 8 then asm [x_sar al (Imm (7 - cnt))]
        else return (),
      asm [x_cmp al dl,
           X_set C_nz CC_V]])"

definition jit_lsl_b_i :: "u16 \<Rightarrow> ('d, unit) jitm" where
  "jit_lsl_b_i op = (let cnt = (if DN op \<noteq> 0 then uint (DN op) else 8) in seqs [
      asm [X_mov CC_V (Imm 0),
           x_shl (DR_B (unat (REG op))) (Imm cnt),
           X_set C_c CC_C,
           X_set C_c CC_X],
      update_nz])"

definition jit_roxl_b_i :: "u16 \<Rightarrow> ('d, unit) jitm" where
  "jit_roxl_b_i op = (let cnt = (if DN op \<noteq> 0 then uint (DN op) else 8) in seqs [
      asm [X_mov CC_V (Imm 0),
           X_mov al (DR_B (unat (REG op))),
           X_mov dl CC_X,
           x_shr dl (Imm 1),
           x_rcl al (Imm cnt),
           X_set C_c CC_C,
           X_set C_c CC_X,
           x_test al al],
      update_nz,
      asm [X_mov (DR_B (unat (REG op))) al]])"

definition jit_rol_b_i :: "u16 \<Rightarrow> ('d, unit) jitm" where
  "jit_rol_b_i op = (let cnt = (if DN op \<noteq> 0 then uint (DN op) else 8) in seqs [
      asm [X_mov CC_V (Imm 0),
           X_mov al (DR_B (unat (REG op))),
           x_rol al (Imm cnt),
           X_set C_c CC_C,
           x_test al al],
      update_nz,
      asm [X_mov (DR_B (unat (REG op))) al]])"

definition jit_asl_b_r :: "u16 \<Rightarrow> ('d, unit) jitm" where
  "jit_asl_b_r op = seqs [
     asm [X_movsx rax (DR_B (unat (REG op))),
         X_mov cl (DR_B (unat (DN op))),
         x_and cl (Imm 63)],
     jit_if_else COND_FALSE [
        asm [X_mov CC_C (Imm 0),
             x_test al al],
        update_nz]
       [
        asm [X_mov dx (Imm 31),
             x_cmp cl dl,
             X_cmov C_g cx dx,
             X_mov dl al,
             x_sal al cl,
             X_set C_c CC_C,
             X_set C_c CC_X],
        update_nz,
        asm [X_mov (DR_B (unat (REG op))) al,
             X_mov al dl,
             x_sar dl (Imm 7),
             x_cmp cl (Imm 7)],
        jit_if COND_LE [
            asm [X_mov sil (Imm 7),
                 x_sub sil cl,
                 X_mov cl sil,
                 x_sar al cl]],
        asm [x_cmp al dl,
             X_set C_nz CC_V]]]"

definition jit_lsl_b_r :: "u16 \<Rightarrow> ('d, unit) jitm" where
  "jit_lsl_b_r op = seqs [
     asm [X_mov al (DR_B (unat (REG op))),
         X_mov cl (DR_B (unat (DN op))),
         x_and cl (Imm 63)],
     jit_if_else COND_FALSE [
        asm [X_mov CC_C (Imm 0)]]
       [
        asm [X_mov CC_V (Imm 0),
             X_mov dx (Imm 31),
             x_cmp cl dl,
             X_cmov C_g cx dx,
             x_shl al cl,
             X_mov (DR_B (unat (REG op))) al,
             X_set C_c CC_C,
             X_set C_c CC_X]],
     asm [x_test al al],
     update_nz]"

definition jit_roxl_b_r :: "u16 \<Rightarrow> ('d, unit) jitm" where
  "jit_roxl_b_r op = seqs [
     asm [X_mov CC_V (Imm 0),
         X_mov al (DR_B (unat (REG op))),
         X_mov cl (DR_B (unat (DN op))),
         x_and cl (Imm 63)],
     jit_if_else COND_FALSE [
        asm [X_mov dl CC_X,
             X_mov CC_C dl,
             x_test al al],
        update_nz]
       [
        asm [x_cmp cl (Imm 31)],
        jit_if_else COND_LE [
            asm [X_mov dl CC_X,
                 x_shr dl (Imm 1)]]
           [
            asm [x_sub cl (Imm 32),
                 X_mov dl CC_X,
                 x_shr dl (Imm 1),
                 x_rcl al (Imm 31),
                 x_rcl al (Imm 1)]],
        asm [x_rcl al cl,
             X_set C_c CC_C,
             X_set C_c CC_X,
             x_test al al],
        update_nz,
        asm [X_mov (DR_B (unat (REG op))) al]]]"

definition jit_rol_b_r :: "u16 \<Rightarrow> ('d, unit) jitm" where
  "jit_rol_b_r op = seqs [
     asm [X_mov CC_V (Imm 0),
         X_mov al (DR_B (unat (REG op))),
         X_mov cl (DR_B (unat (DN op))),
         x_and cl (Imm 63)],
     jit_if_else COND_FALSE [
        asm [X_mov dl CC_X,
             X_mov CC_C dl,
             x_test al al],
        update_nz]
       [
        asm [x_rol al cl,
             X_set C_c CC_C,
             x_test al al],
        update_nz,
        asm [X_mov (DR_B (unat (REG op))) al]]]"

definition jit_asl_w_i :: "u16 \<Rightarrow> ('d, unit) jitm" where
  "jit_asl_w_i op = (let cnt = (if DN op \<noteq> 0 then uint (DN op) else 8) in seqs [
      asm [X_mov ax (DR_W (unat (REG op))),
           x_sal (DR_W (unat (REG op))) (Imm cnt),
           X_set C_c CC_C,
           X_set C_c CC_X],
      update_nz,
      asm [X_mov dx ax,
           x_sar dx (Imm 15),
           x_sar ax (Imm (15 - cnt)),
           x_cmp ax dx,
           X_set C_nz CC_V]])"

definition jit_lsl_w_i :: "u16 \<Rightarrow> ('d, unit) jitm" where
  "jit_lsl_w_i op = (let cnt = (if DN op \<noteq> 0 then uint (DN op) else 8) in seqs [
      asm [X_mov CC_V (Imm 0),
           x_shl (DR_W (unat (REG op))) (Imm cnt),
           X_set C_c CC_C,
           X_set C_c CC_X],
      update_nz])"

definition jit_roxl_w_i :: "u16 \<Rightarrow> ('d, unit) jitm" where
  "jit_roxl_w_i op = (let cnt = (if DN op \<noteq> 0 then uint (DN op) else 8) in seqs [
      asm [X_mov CC_V (Imm 0),
           X_mov ax (DR_W (unat (REG op))),
           X_mov dl CC_X,
           x_shr dl (Imm 1),
           x_rcl ax (Imm cnt),
           X_set C_c CC_C,
           X_set C_c CC_X,
           x_test ax ax],
      update_nz,
      asm [X_mov (DR_W (unat (REG op))) ax]])"

definition jit_rol_w_i :: "u16 \<Rightarrow> ('d, unit) jitm" where
  "jit_rol_w_i op = (let cnt = (if DN op \<noteq> 0 then uint (DN op) else 8) in seqs [
      asm [X_mov CC_V (Imm 0),
           X_mov ax (DR_W (unat (REG op))),
           x_rol ax (Imm cnt),
           X_set C_c CC_C,
           x_test ax ax],
      update_nz,
      asm [X_mov (DR_W (unat (REG op))) ax]])"

definition jit_asl_w_r :: "u16 \<Rightarrow> ('d, unit) jitm" where
  "jit_asl_w_r op = seqs [
     asm [X_mov ax (DR_W (unat (REG op))),
         X_mov cl (DR_B (unat (DN op))),
         x_and cl (Imm 63)],
     jit_if_else COND_FALSE [
        asm [X_mov CC_C (Imm 0),
             x_test ax ax],
        update_nz]
       [
        asm [X_mov dx ax,
             X_mov dil cl,
             X_mov r8d (Imm 31),
             x_cmp cl r8b,
             X_cmov C_g cx r8w,
             x_sal ax cl,
             X_set C_c CC_C,
             X_set C_c CC_X],
        update_nz,
        asm [X_mov (DR_W (unat (REG op))) ax,
             X_mov ax dx,
             X_mov cl dil,
             x_sar dx (Imm 15),
             x_cmp cl (Imm 15)],
        jit_if COND_LE [
            asm [X_mov si (Imm 15),
                 x_sub si cx,
                 X_mov cx si,
                 x_sar ax cl]],
        asm [x_cmp ax dx,
             X_set C_nz CC_V]]]"

definition jit_lsl_w_r :: "u16 \<Rightarrow> ('d, unit) jitm" where
  "jit_lsl_w_r op = seqs [
     asm [X_mov ax (DR_W (unat (REG op))),
         X_mov cl (DR_B (unat (DN op))),
         x_and cl (Imm 63)],
     jit_if_else COND_FALSE [
        asm [X_mov CC_C (Imm 0)]]
       [
        asm [X_mov CC_V (Imm 0),
             X_mov dx (Imm 31),
             x_cmp cl dl,
             X_cmov C_g cx dx,
             x_shl ax cl,
             X_mov (DR_W (unat (REG op))) ax,
             X_set C_c CC_C,
             X_set C_c CC_X]],
     asm [x_test ax ax],
     update_nz]"

definition jit_roxl_w_r :: "u16 \<Rightarrow> ('d, unit) jitm" where
  "jit_roxl_w_r op = seqs [
     asm [X_mov CC_V (Imm 0),
         X_mov ax (DR_W (unat (REG op))),
         X_mov cl (DR_B (unat (DN op))),
         x_and cl (Imm 63)],
     jit_if_else COND_FALSE [
        asm [X_mov dl CC_X,
             X_mov CC_C dl,
             x_test ax ax],
        update_nz]
       [
        asm [x_cmp cl (Imm 31)],
        jit_if_else COND_LE [
            asm [X_mov dl CC_X,
                 x_shr dl (Imm 1)]]
           [
            asm [x_sub cl (Imm 32),
                 X_mov dl CC_X,
                 x_shr dl (Imm 1),
                 x_rcl ax (Imm 31),
                 x_rcl ax (Imm 1)]],
        asm [x_rcl ax cl,
             X_set C_c CC_C,
             X_set C_c CC_X,
             x_test ax ax],
        update_nz,
        asm [X_mov (DR_W (unat (REG op))) ax]]]"

definition jit_rol_w_r :: "u16 \<Rightarrow> ('d, unit) jitm" where
  "jit_rol_w_r op = seqs [
     asm [X_mov CC_V (Imm 0),
         X_mov ax (DR_W (unat (REG op))),
         X_mov cl (DR_B (unat (DN op))),
         x_and cl (Imm 63)],
     jit_if_else COND_FALSE [
        asm [X_mov dl CC_X,
             X_mov CC_C dl,
             x_test ax ax],
        update_nz]
       [
        asm [x_rol ax cl,
             X_set C_c CC_C,
             x_test ax ax],
        update_nz,
        asm [X_mov (DR_W (unat (REG op))) ax]]]"

definition jit_asl_l_i :: "u16 \<Rightarrow> ('d, unit) jitm" where
  "jit_asl_l_i op = (let cnt = (if DN op \<noteq> 0 then uint (DN op) else 8) in seqs [
      asm [X_mov eax (DR_L (unat (REG op))),
           x_sal (DR_L (unat (REG op))) (Imm cnt),
           X_set C_c CC_C,
           X_set C_c CC_X],
      update_nz,
      asm [X_mov edx eax,
           x_sar edx (Imm 31),
           x_sar eax (Imm (31 - cnt)),
           x_cmp eax edx,
           X_set C_nz CC_V]])"

definition jit_lsl_l_i :: "u16 \<Rightarrow> ('d, unit) jitm" where
  "jit_lsl_l_i op = (let cnt = (if DN op \<noteq> 0 then uint (DN op) else 8) in seqs [
      asm [X_mov CC_V (Imm 0),
           x_shl (DR_L (unat (REG op))) (Imm cnt),
           X_set C_c CC_C,
           X_set C_c CC_X],
      update_nz])"

definition jit_roxl_l_i :: "u16 \<Rightarrow> ('d, unit) jitm" where
  "jit_roxl_l_i op = (let cnt = (if DN op \<noteq> 0 then uint (DN op) else 8) in seqs [
      asm [X_mov CC_V (Imm 0),
           X_mov eax (DR_L (unat (REG op))),
           X_mov dl CC_X,
           x_shr dl (Imm 1),
           x_rcl eax (Imm cnt),
           X_set C_c CC_C,
           X_set C_c CC_X,
           x_test eax eax],
      update_nz,
      asm [X_mov (DR_L (unat (REG op))) eax]])"

definition jit_rol_l_i :: "u16 \<Rightarrow> ('d, unit) jitm" where
  "jit_rol_l_i op = (let cnt = (if DN op \<noteq> 0 then uint (DN op) else 8) in seqs [
      asm [X_mov CC_V (Imm 0),
           X_mov eax (DR_L (unat (REG op))),
           x_rol eax (Imm cnt),
           X_set C_c CC_C,
           x_test eax eax],
      update_nz,
      asm [X_mov (DR_L (unat (REG op))) eax]])"

definition jit_asl_l_r :: "u16 \<Rightarrow> ('d, unit) jitm" where
  "jit_asl_l_r op = seqs [
     asm [X_mov eax (DR_L (unat (REG op))),
         X_mov edx eax,
         X_mov cl (DR_B (unat (DN op))),
         x_and cl (Imm 63)],
     jit_if_else COND_FALSE [
        asm [X_mov CC_C (Imm 0),
             x_test eax eax],
        update_nz]
       [
        asm [X_mov dil cl,
             x_cmp cl (Imm 32)],
        jit_if COND_GE [
            asm [x_sub cl (Imm 32),
                 x_sal eax (Imm 31),
                 x_sal eax (Imm 1)]],
        asm [x_sal eax cl,
             X_set C_c CC_C,
             X_set C_c CC_X],
        update_nz,
        asm [X_mov (DR_L (unat (REG op))) eax,
             X_mov eax edx,
             X_mov cl dil,
             x_sar edx (Imm 31),
             x_cmp cl (Imm 31)],
        jit_if COND_LE [
            asm [X_mov si (Imm 31),
                 x_sub si cx,
                 X_mov cx si,
                 x_sar eax cl]],
        asm [x_cmp eax edx,
             X_set C_nz CC_V]]]"

definition jit_lsl_l_r :: "u16 \<Rightarrow> ('d, unit) jitm" where
  "jit_lsl_l_r op = seqs [
     asm [X_mov eax (DR_L (unat (REG op))),
         X_mov cl (DR_B (unat (DN op))),
         x_and cl (Imm 63)],
     jit_if_else COND_FALSE [
        asm [X_mov CC_C (Imm 0)]]
       [
        asm [X_mov CC_V (Imm 0),
             x_cmp cl (Imm 32)],
        jit_if COND_GE [
            asm [x_sub cl (Imm 32),
                 x_shl eax (Imm 31),
                 x_shl eax (Imm 1)]],
        asm [x_shl eax cl,
             X_mov (DR_L (unat (REG op))) eax,
             X_set C_c CC_C,
             X_set C_c CC_X]],
     asm [x_test eax eax],
     update_nz]"

definition jit_roxl_l_r :: "u16 \<Rightarrow> ('d, unit) jitm" where
  "jit_roxl_l_r op = seqs [
     asm [X_mov CC_V (Imm 0),
         X_mov eax (DR_L (unat (REG op))),
         X_mov cl (DR_B (unat (DN op))),
         x_and cl (Imm 63)],
     jit_if_else COND_FALSE [
        asm [X_mov dl CC_X,
             X_mov CC_C dl,
             x_test eax eax],
        update_nz]
       [
        asm [x_cmp cl (Imm 31)],
        jit_if_else COND_LE [
            asm [X_mov dl CC_X,
                 x_shr dl (Imm 1)]]
           [
            asm [x_sub cl (Imm 32),
                 X_mov dl CC_X,
                 x_shr dl (Imm 1),
                 x_rcl eax (Imm 31),
                 x_rcl eax (Imm 1)]],
        asm [x_rcl eax cl,
             X_set C_c CC_C,
             X_set C_c CC_X,
             x_test eax eax],
        update_nz,
        asm [X_mov (DR_L (unat (REG op))) eax]]]"

definition jit_rol_l_r :: "u16 \<Rightarrow> ('d, unit) jitm" where
  "jit_rol_l_r op = seqs [
     asm [X_mov CC_V (Imm 0),
         X_mov eax (DR_L (unat (REG op))),
         X_mov cl (DR_B (unat (DN op))),
         x_and cl (Imm 63)],
     jit_if_else COND_FALSE [
        asm [X_mov dl CC_X,
             X_mov CC_C dl,
             x_test eax eax],
        update_nz]
       [
        asm [x_cmp cl (Imm 32)],
        jit_if_else COND_EQ [
            asm [X_mov edx eax,
                 x_shr edx (Imm 1)]]
           [
            asm [x_rol eax cl]],
        asm [X_set C_c CC_C,
             x_test eax eax],
        update_nz,
        asm [X_mov (DR_L (unat (REG op))) eax]]]"

definition jit_asl_ea :: "u16 \<Rightarrow> ('d, unit) jitm" where
  "jit_asl_ea op = seqs [
     asm [X_mov CC_V (Imm 0)],
     ea_readW_jit (TYP op) (REG op) True,
     asm [x_sal ax (Imm 1),
         X_set C_o CC_V,
         X_set C_c CC_C,
         X_set C_c CC_X],
     update_nz,
     ea_writeW_jit (TYP op) (REG op) True]"

definition jit_lsl_ea :: "u16 \<Rightarrow> ('d, unit) jitm" where
  "jit_lsl_ea op = seqs [
     asm [X_mov CC_V (Imm 0)],
     ea_readW_jit (TYP op) (REG op) True,
     asm [x_shl ax (Imm 1),
         X_set C_c CC_C,
         X_set C_c CC_X],
     update_nz,
     ea_writeW_jit (TYP op) (REG op) True]"

definition jit_roxl_ea :: "u16 \<Rightarrow> ('d, unit) jitm" where
  "jit_roxl_ea op = seqs [
     asm [X_mov CC_V (Imm 0)],
     ea_readW_jit (TYP op) (REG op) True,
     asm [X_mov dl CC_X,
         x_shr dl (Imm 1),
         x_rcl ax (Imm 1),
         X_set C_c CC_C,
         X_set C_c CC_X,
         x_test ax ax],
     update_nz,
     ea_writeW_jit (TYP op) (REG op) True]"

definition jit_rol_ea :: "u16 \<Rightarrow> ('d, unit) jitm" where
  "jit_rol_ea op = seqs [
     asm [X_mov CC_V (Imm 0)],
     ea_readW_jit (TYP op) (REG op) True,
     asm [x_rol ax (Imm 1),
         X_set C_c CC_C,
         x_test ax ax],
     update_nz,
     ea_writeW_jit (TYP op) (REG op) True]"

end
