(* ===== verification/JitBits.thy ===== *)
theory JitBits
  imports JitShift
begin

text \<open>
  Translations of instructions, last part: the bit fields and the block moves of
  src/cpu/jit/jit_op.cc.
\<close>

definition jit_bftst_dn :: "u16 \<Rightarrow> ('d, unit) jitm" where
  "jit_bftst_dn op = seqs [
     bind bf_common (\<lambda>_. return ()),
     asm [X_mov eax (DR_L (unat (REG op))),
         x_and r11d (Imm 31),
         X_mov cl r11b,
         x_rol eax cl,
         X_mov edx (Imm (- 1)),
         X_mov cl (Imm 32),
         x_sub cl r12b,
         x_sal edx cl,
         x_and eax edx],
     update_nz,
     asm [X_mov CC_V (Imm 0),
         X_mov CC_C (Imm 0)]]"

definition jit_bftst_mem :: "u16 \<Rightarrow> ('d, unit) jitm" where
  "jit_bftst_mem op = seqs [
     bind bf_common (\<lambda>_. return ()),
     ea_getaddr_jit (TYP op) (REG op) 0,
     asm [X_mov esi r11d,
         X_mov edx r12d,
         X_call c_BFTST_M]]"

definition jit_bfchg_dn :: "u16 \<Rightarrow> ('d, unit) jitm" where
  "jit_bfchg_dn op = seqs [
     bind bf_common (\<lambda>_. return ()),
     asm [X_mov eax (DR_L (unat (REG op))),
         X_mov esi eax,
         x_and r11d (Imm 31),
         X_mov cl r11b,
         x_rol eax cl,
         X_mov edx (Imm (- 1)),
         X_mov cl (Imm 32),
         x_sub cl r12b,
         x_sal edx cl,
         x_and eax edx],
     update_nz,
     asm [X_mov CC_V (Imm 0),
         X_mov CC_C (Imm 0),
         X_mov cl r11b,
         x_ror edx cl,
         x_xor esi edx,
         X_mov (DR_L (unat (REG op))) esi]]"

definition jit_bfchg_mem :: "u16 \<Rightarrow> ('d, unit) jitm" where
  "jit_bfchg_mem op = seqs [
     bind bf_common (\<lambda>_. return ()),
     ea_getaddr_jit (TYP op) (REG op) 0,
     asm [X_mov esi r11d,
         X_mov edx r12d,
         X_call (c_bf BFCHG_M)]]"

definition jit_bfclr_dn :: "u16 \<Rightarrow> ('d, unit) jitm" where
  "jit_bfclr_dn op = seqs [
     bind bf_common (\<lambda>_. return ()),
     asm [X_mov eax (DR_L (unat (REG op))),
         X_mov esi eax,
         x_and r11d (Imm 31),
         X_mov cl r11b,
         x_rol eax cl,
         X_mov edx (Imm (- 1)),
         X_mov cl (Imm 32),
         x_sub cl r12b,
         x_sal edx cl,
         x_and eax edx],
     update_nz,
     asm [X_mov CC_V (Imm 0),
         X_mov CC_C (Imm 0),
         X_mov cl r11b,
         x_ror edx cl,
         x_not edx,
         x_and esi edx,
         X_mov (DR_L (unat (REG op))) esi]]"

definition jit_bfclr_mem :: "u16 \<Rightarrow> ('d, unit) jitm" where
  "jit_bfclr_mem op = seqs [
     bind bf_common (\<lambda>_. return ()),
     ea_getaddr_jit (TYP op) (REG op) 0,
     asm [X_mov esi r11d,
         X_mov edx r12d,
         X_call (c_bf BFCLR_M)]]"

definition jit_bfset_dn :: "u16 \<Rightarrow> ('d, unit) jitm" where
  "jit_bfset_dn op = seqs [
     bind bf_common (\<lambda>_. return ()),
     asm [X_mov eax (DR_L (unat (REG op))),
         X_mov esi eax,
         x_and r11d (Imm 31),
         X_mov cl r11b,
         x_rol eax cl,
         X_mov edx (Imm (- 1)),
         X_mov cl (Imm 32),
         x_sub cl r12b,
         x_sal edx cl,
         x_and eax edx],
     update_nz,
     asm [X_mov CC_V (Imm 0),
         X_mov CC_C (Imm 0),
         X_mov cl r11b,
         x_ror edx cl,
         x_or esi edx,
         X_mov (DR_L (unat (REG op))) esi]]"

definition jit_bfset_mem :: "u16 \<Rightarrow> ('d, unit) jitm" where
  "jit_bfset_mem op = seqs [
     bind bf_common (\<lambda>_. return ()),
     ea_getaddr_jit (TYP op) (REG op) 0,
     asm [X_mov esi r11d,
         X_mov edx r12d,
         X_call (c_bf BFSET_M)]]"

definition jit_bfextu_dn :: "u16 \<Rightarrow> ('d, unit) jitm" where
  "jit_bfextu_dn op = bind bf_common (\<lambda>dn. seqs [
      asm [X_mov eax (DR_L (unat (REG op))),
           x_and r11d (Imm 31),
           X_mov cl r11b,
           x_rol eax cl,
           X_mov edx (Imm (- 1)),
           X_mov cl (Imm 32),
           x_sub cl r12b,
           x_sal edx cl,
           x_and eax edx],
      update_nz,
      asm [X_mov CC_V (Imm 0),
           X_mov CC_C (Imm 0),
           x_shr eax cl,
           X_mov (DR_L dn) eax]])"

definition jit_bfextu_mem :: "u16 \<Rightarrow> ('d, unit) jitm" where
  "jit_bfextu_mem op = bind bf_common (\<lambda>dn. seqs [
      ea_getaddr_jit (TYP op) (REG op) 0,
      asm [X_mov esi r11d,
           X_mov edx r12d,
           X_call c_BFTST_M,
           X_mov cl (Imm 32),
           x_sub cl r12b,
           x_shr eax cl,
           X_mov (DR_L dn) eax]])"

definition jit_bfexts_dn :: "u16 \<Rightarrow> ('d, unit) jitm" where
  "jit_bfexts_dn op = bind bf_common (\<lambda>dn. seqs [
      asm [X_mov eax (DR_L (unat (REG op))),
           x_and r11d (Imm 31),
           X_mov cl r11b,
           x_rol eax cl,
           X_mov edx (Imm (- 1)),
           X_mov cl (Imm 32),
           x_sub cl r12b,
           x_sal edx cl,
           x_and eax edx],
      update_nz,
      asm [X_mov CC_V (Imm 0),
           X_mov CC_C (Imm 0),
           x_sar eax cl,
           X_mov (DR_L dn) eax]])"

definition jit_bfexts_mem :: "u16 \<Rightarrow> ('d, unit) jitm" where
  "jit_bfexts_mem op = bind bf_common (\<lambda>dn. seqs [
      ea_getaddr_jit (TYP op) (REG op) 0,
      asm [X_mov esi r11d,
           X_mov edx r12d,
           X_call c_BFTST_M,
           X_mov cl (Imm 32),
           x_sub cl r12b,
           x_sar eax cl,
           X_mov (DR_L dn) eax]])"

definition jit_bfffo_dn :: "u16 \<Rightarrow> ('d, unit) jitm" where
  "jit_bfffo_dn op = bind bf_common (\<lambda>dn. seqs [
      asm [X_mov eax (DR_L (unat (REG op))),
           X_mov esi r11d,
           x_and r11d (Imm 31),
           X_mov cl r11b,
           x_rol eax cl,
           X_mov edx (Imm (- 1)),
           X_mov cl (Imm 32),
           x_sub cl r12b,
           x_sal edx cl,
           x_and eax edx],
      update_nz,
      asm [X_mov CC_V (Imm 0),
           X_mov CC_C (Imm 0),
           X_mov (DR_L dn) esi,
           x_test eax eax],
      jit_if_else COND_FALSE [
          asm [X_mov edx r12d]]
         [
          asm [X_bsr ecx eax,
               X_mov edx (Imm 31),
               x_sub edx ecx]],
      asm [x_add (DR_L dn) edx]])"

definition jit_bfffo_mem :: "u16 \<Rightarrow> ('d, unit) jitm" where
  "jit_bfffo_mem op = bind bf_common (\<lambda>dn. seqs [
      ea_getaddr_jit (TYP op) (REG op) 0,
      asm [X_mov esi r11d,
           X_mov edx r12d,
           X_call c_BFTST_M,
           X_mov (DR_L dn) r11d,
           x_test eax eax],
      jit_if_else COND_FALSE [
          asm [X_mov edx r12d]]
         [
          asm [X_bsr ecx eax,
               X_mov edx (Imm 31),
               x_sub edx ecx]],
      asm [x_add (DR_L dn) edx]])"

definition jit_bfins_dn :: "u16 \<Rightarrow> ('d, unit) jitm" where
  "jit_bfins_dn op = bind bf_common (\<lambda>dn. asm [X_mov edi (DR_L (unat (REG op))),
           X_mov esi r11d,
           X_mov edx r12d,
           X_mov rcx (DR_L dn),
           X_call c_BFINS_D,
           X_mov (DR_L (unat (REG op))) eax])"

definition jit_bfins_mem :: "u16 \<Rightarrow> ('d, unit) jitm" where
  "jit_bfins_mem op = bind bf_common (\<lambda>dn. seqs [
      ea_getaddr_jit (TYP op) (REG op) 0,
      asm [X_mov esi r11d,
           X_mov edx r12d,
           X_mov rcx (DR_L dn),
           X_call c_BFINS_M]])"

definition jit_fline_default :: "u16 \<Rightarrow> ('d, unit) jitm" where
  "jit_fline_default op = asm [X_call (c_void FLINE)]"

definition jit_move16_inc_imm :: "u16 \<Rightarrow> ('d, unit) jitm" where
  "jit_move16_inc_imm op = bind jFETCH32 (\<lambda>imm. seqs [
      update_pc,
      asm [X_mov edi (AR_L (unat (REG op))),
           X_mov esi (Imm (uint imm)),
           X_call c_Transfer16,
           x_add (AR_L (unat (REG op))) (Imm 16)]])"

definition jit_move16_imm_inc :: "u16 \<Rightarrow> ('d, unit) jitm" where
  "jit_move16_imm_inc op = bind jFETCH32 (\<lambda>imm. seqs [
      update_pc,
      asm [X_mov edi (Imm (uint imm)),
           X_mov esi (AR_L (unat (REG op))),
           X_call c_Transfer16,
           x_add (AR_L (unat (REG op))) (Imm 16)]])"

definition jit_move16_base_imm :: "u16 \<Rightarrow> ('d, unit) jitm" where
  "jit_move16_base_imm op = bind jFETCH32 (\<lambda>imm. seqs [
      update_pc,
      asm [X_mov edi (AR_L (unat (REG op))),
           X_mov esi (Imm (uint imm)),
           X_call c_Transfer16]])"

definition jit_move16_imm_base :: "u16 \<Rightarrow> ('d, unit) jitm" where
  "jit_move16_imm_base op = bind jFETCH32 (\<lambda>imm. seqs [
      update_pc,
      asm [X_mov edi (Imm (uint imm)),
           X_mov esi (AR_L (unat (REG op))),
           X_call c_Transfer16]])"

definition jit_move16_inc_inc :: "u16 \<Rightarrow> ('d, unit) jitm" where
  "jit_move16_inc_inc op = bind jFETCH (\<lambda>extw. let ay = unat (drop_bit 12 extw AND 7) in seqs [
        update_pc,
        asm [X_mov edi (AR_L (unat (REG op))),
             X_mov esi (AR_L ay),
             X_call c_Transfer16,
             x_add (AR_L (unat (REG op))) (Imm 16),
             x_add (AR_L ay) (Imm 16)]])"

end
