(* ===== verification/JitMmu.thy ===== *)
theory JitMmu
  imports JitBits
begin

text \<open>
  The translations of the cache and memory-management instructions: src/cpu/jit/jit_mmu.cc.
\<close>

section \<open>Functions called\<close>

definition stop_jit :: "('d, unit) mach" where
  "stop_jit = seq (cmod (\<lambda>c. c\<lparr>inJit := False\<rparr>)) (throw JitStop)"

definition c_op_ptest :: "host_env \<Rightarrow> ('d, unit) hostm" where
  "c_op_ptest E = call_with E (\<lambda>r. op_ptest (ucast (r RDI)) (bit (r RSI) 0)) pass"

section \<open>Translations\<close>

definition jit_cinvl_dc :: "u16 \<Rightarrow> ('d, unit) jitm" where
  "jit_cinvl_dc op = seqs [
     jit_priv_check,
     asm [X_mov edi (AR_L (unat (REG op))),
         X_call (c_addr (\<lambda>_. cache_d))],
     jit_trace_branch]"

definition jit_cinvp_dc :: "u16 \<Rightarrow> ('d, unit) jitm" where
  "jit_cinvp_dc op = seqs [
     jit_priv_check,
     asm [X_mov edi (AR_L (unat (REG op))),
         X_call (c_addr (\<lambda>_. cache_d))],
     jit_trace_branch]"

definition jit_cinva_dc :: "u16 \<Rightarrow> ('d, unit) jitm" where
  "jit_cinva_dc op = seqs [
     jit_priv_check,
     asm [X_call (c_void cache_d)],
     jit_trace_branch]"

definition jit_cpushl_dc :: "u16 \<Rightarrow> ('d, unit) jitm" where
  "jit_cpushl_dc op = seqs [
     jit_priv_check,
     asm [X_mov edi (AR_L (unat (REG op))),
         X_call (c_addr (\<lambda>_. cache_d))],
     jit_trace_branch]"

definition jit_cpushp_dc :: "u16 \<Rightarrow> ('d, unit) jitm" where
  "jit_cpushp_dc op = seqs [
     jit_priv_check,
     asm [X_mov edi (AR_L (unat (REG op))),
         X_call (c_addr (\<lambda>_. cache_d))],
     jit_trace_branch]"

definition jit_cpusha_dc :: "u16 \<Rightarrow> ('d, unit) jitm" where
  "jit_cpusha_dc op = seqs [
     jit_priv_check,
     asm [X_call (c_void cache_d)],
     jit_trace_branch]"

definition jit_cinvl_ic :: "u16 \<Rightarrow> ('d, unit) jitm" where
  "jit_cinvl_ic op = seqs [
     jit_priv_check,
     asm [X_mov edi (AR_L (unat (REG op))),
         X_call (c_addr cinvl_i)],
     jit_trace_branch,
     jit_postop,
     bind jPC (\<lambda>pc. asm [X_mov c_pc (Imm (uint pc))]),
     asm [X_call (c_void stop_jit)]]"

definition jit_cinvp_ic :: "u16 \<Rightarrow> ('d, unit) jitm" where
  "jit_cinvp_ic op = seqs [
     jit_priv_check,
     asm [X_mov edi (AR_L (unat (REG op))),
         X_call (c_addr cinvp_i)],
     jit_trace_branch,
     jit_postop,
     bind jPC (\<lambda>pc. asm [X_mov c_pc (Imm (uint pc))]),
     asm [X_call (c_void stop_jit)]]"

definition jit_cinva_ic :: "u16 \<Rightarrow> ('d, unit) jitm" where
  "jit_cinva_ic op = seqs [
     jit_priv_check,
     asm [X_call (c_void cinva_i)],
     jit_trace_branch,
     jit_postop,
     bind jPC (\<lambda>pc. asm [X_mov c_pc (Imm (uint pc))]),
     asm [X_call (c_void stop_jit)]]"

definition jit_cpushl_ic :: "u16 \<Rightarrow> ('d, unit) jitm" where
  "jit_cpushl_ic op = seqs [
     jit_priv_check,
     asm [X_mov edi (AR_L (unat (REG op))),
         X_call (c_addr cpushl_i)],
     jit_trace_branch,
     jit_postop,
     bind jPC (\<lambda>pc. asm [X_mov c_pc (Imm (uint pc))]),
     asm [X_call (c_void stop_jit)]]"

definition jit_cpushp_ic :: "u16 \<Rightarrow> ('d, unit) jitm" where
  "jit_cpushp_ic op = seqs [
     jit_priv_check,
     asm [X_mov edi (AR_L (unat (REG op))),
         X_call (c_addr cpushp_i)],
     jit_trace_branch,
     jit_postop,
     bind jPC (\<lambda>pc. asm [X_mov c_pc (Imm (uint pc))]),
     asm [X_call (c_void stop_jit)]]"

definition jit_cpusha_ic :: "u16 \<Rightarrow> ('d, unit) jitm" where
  "jit_cpusha_ic op = seqs [
     jit_priv_check,
     asm [X_call (c_void cpusha_i)],
     jit_trace_branch,
     jit_postop,
     bind jPC (\<lambda>pc. asm [X_mov c_pc (Imm (uint pc))]),
     asm [X_call (c_void stop_jit)]]"

definition jit_cinvl_bc :: "u16 \<Rightarrow> ('d, unit) jitm" where
  "jit_cinvl_bc op = seqs [
     jit_priv_check,
     asm [X_mov r13d (AR_L (unat (REG op))),
         X_mov edi r13d,
         X_call (c_addr (\<lambda>_. cache_d)),
         X_mov edi r13d,
         X_call (c_addr cinvl_i)],
     jit_trace_branch,
     jit_postop,
     bind jPC (\<lambda>pc. asm [X_mov c_pc (Imm (uint pc))]),
     asm [X_call (c_void stop_jit)]]"

definition jit_cinvp_bc :: "u16 \<Rightarrow> ('d, unit) jitm" where
  "jit_cinvp_bc op = seqs [
     jit_priv_check,
     asm [X_mov r13d (AR_L (unat (REG op))),
         X_mov edi r13d,
         X_call (c_addr (\<lambda>_. cache_d)),
         X_mov edi r13d,
         X_call (c_addr cinvp_i)],
     jit_trace_branch,
     jit_postop,
     bind jPC (\<lambda>pc. asm [X_mov c_pc (Imm (uint pc))]),
     asm [X_call (c_void stop_jit)]]"

definition jit_cinva_bc :: "u16 \<Rightarrow> ('d, unit) jitm" where
  "jit_cinva_bc op = seqs [
     jit_priv_check,
     asm [X_call (c_void cache_d),
         X_call (c_void cinva_i)],
     jit_trace_branch,
     jit_postop,
     bind jPC (\<lambda>pc. asm [X_mov c_pc (Imm (uint pc))]),
     asm [X_call (c_void stop_jit)]]"

definition jit_cpushl_bc :: "u16 \<Rightarrow> ('d, unit) jitm" where
  "jit_cpushl_bc op = seqs [
     jit_priv_check,
     asm [X_mov r13d (AR_L (unat (REG op))),
         X_mov edi r13d,
         X_call (c_addr (\<lambda>_. cache_d)),
         X_mov edi r13d,
         X_call (c_addr cpushl_i)],
     jit_trace_branch,
     jit_postop,
     bind jPC (\<lambda>pc. asm [X_mov c_pc (Imm (uint pc))]),
     asm [X_call (c_void stop_jit)]]"

definition jit_cpushp_bc :: "u16 \<Rightarrow> ('d, unit) jitm" where
  "jit_cpushp_bc op = seqs [
     jit_priv_check,
     asm [X_mov r13d (AR_L (unat (REG op))),
         X_mov edi r13d,
         X_call (c_addr (\<lambda>_. cache_d)),
         X_mov edi r13d,
         X_call (c_addr cpushp_i)],
     jit_trace_branch,
     jit_postop,
     bind jPC (\<lambda>pc. asm [X_mov c_pc (Imm (uint pc))]),
     asm [X_call (c_void stop_jit)]]"

definition jit_cpusha_bc :: "u16 \<Rightarrow> ('d, unit) jitm" where
  "jit_cpusha_bc op = seqs [
     jit_priv_check,
     asm [X_call (c_void cache_d),
         X_call (c_void cpusha_i)],
     jit_trace_branch,
     jit_postop,
     bind jPC (\<lambda>pc. asm [X_mov c_pc (Imm (uint pc))]),
     asm [X_call (c_void stop_jit)]]"

definition jit_pflushn :: "u16 \<Rightarrow> ('d, unit) jitm" where
  "jit_pflushn op = seqs [
     jit_priv_check,
     asm [X_mov edi (AR_L (unat (REG op))),
         x_shr edi (Imm 12),
         X_call (c_addr pflushn_impl)],
     jit_trace_branch]"

definition jit_pflush :: "u16 \<Rightarrow> ('d, unit) jitm" where
  "jit_pflush op = seqs [
     jit_priv_check,
     asm [X_mov edi (AR_L (unat (REG op))),
         x_shr edi (Imm 12),
         X_call (c_addr pflush_impl)],
     jit_trace_branch]"

definition jit_pflushan :: "u16 \<Rightarrow> ('d, unit) jitm" where
  "jit_pflushan op = seqs [
     jit_priv_check,
     asm [X_call (c_void pflushan_impl)],
     jit_trace_branch]"

definition jit_pflusha :: "u16 \<Rightarrow> ('d, unit) jitm" where
  "jit_pflusha op = seqs [
     jit_priv_check,
     asm [X_call (c_void pflusha_impl)],
     jit_trace_branch]"

definition jit_ptestr :: "u16 \<Rightarrow> ('d, unit) jitm" where
  "jit_ptestr op = seqs [
     jit_priv_check,
     asm [X_mov edi (AR_L (unat (REG op))),
         X_mov sil (Imm 0),
         X_call c_op_ptest],
     jit_trace_branch]"

definition jit_ptestw :: "u16 \<Rightarrow> ('d, unit) jitm" where
  "jit_ptestw op = seqs [
     jit_priv_check,
     asm [X_mov edi (AR_L (unat (REG op))),
         X_mov sil (Imm 1),
         X_call c_op_ptest],
     jit_trace_branch]"

end
