(* ===== verification/JitFpu.thy ===== *)
theory JitFpu
  imports JitMmu Fpu
begin

text \<open>
  The translations of the floating-point instructions: src/cpu/jit/jit_fpu.cc. The arithmetic
  is not inlined: the code calls the functions of the namespace \<open>M68040_Impl\<close>, which theory
  \<open>Fpu\<close> models, with the address of the unit in \<open>rdi\<close>.
\<close>

section \<open>Functions called\<close>

definition c_fpu :: "('d, unit) mach \<Rightarrow> host_env \<Rightarrow> ('d, unit) hostm" where
  "c_fpu m E = given The_fpu (call_with E (\<lambda>_. m) pass)"

text \<open>An \<open>int\<close> parameter that indexes the floating-point registers.\<close>

definition fpn_arg :: "u64 \<Rightarrow> (nat \<Rightarrow> ('d, 'a) mach) \<Rightarrow> ('d, 'a) mach" where
  "fpn_arg v f = (let n = (ucast v :: u32) in if n < 8 then f (unat n) else throw Undefined)"

definition c_fpu_n :: "(nat \<Rightarrow> ('d, unit) mach) \<Rightarrow> host_env \<Rightarrow> ('d, unit) hostm" where
  "c_fpu_n f E = given The_fpu (call_with E (\<lambda>r. fpn_arg (r RSI) f) pass)"

definition c_fsincos :: "mpfr_lib \<Rightarrow> host_env \<Rightarrow> ('d, unit) hostm" where
  "c_fsincos M E = given The_fpu (call_with E
     (\<lambda>r. fpn_arg (r RSI) (\<lambda>dst. fpn_arg (r RDX) (fsincos M FPU_P dst))) pass)"

definition c_fpu_B :: "(u8 \<Rightarrow> ('d, unit) mach) \<Rightarrow> host_env \<Rightarrow> ('d, unit) hostm" where
  "c_fpu_B f E = given The_fpu (call_with E (\<lambda>r. f (ucast (r RSI))) pass)"

definition c_fpu_W :: "(u16 \<Rightarrow> ('d, unit) mach) \<Rightarrow> host_env \<Rightarrow> ('d, unit) hostm" where
  "c_fpu_W f E = given The_fpu (call_with E (\<lambda>r. f (ucast (r RSI))) pass)"

definition c_fpu_L :: "(u32 \<Rightarrow> ('d, unit) mach) \<Rightarrow> host_env \<Rightarrow> ('d, unit) hostm" where
  "c_fpu_L f E = given The_fpu (call_with E (\<lambda>r. f (ucast (r RSI))) pass)"

text \<open>
  The \<open>int\<close> parameters \<open>type\<close> and \<open>reg\<close> of an effective address. A type above 7 is dealt
  with like the addressing modes that do not exist; a register above 7 is outside the arrays.
\<close>

definition ea_arg :: "u64 \<Rightarrow> u64 \<Rightarrow> (regno \<Rightarrow> regno \<Rightarrow> ('d, 'a) mach) \<Rightarrow> ('d, 'a) mach" where
  "ea_arg t r f = (let ty = (ucast t :: u32); reg = (ucast r :: u32) in
     if 8 \<le> ty then f 7 7 else if 8 \<le> reg then throw Undefined else f (ucast ty) (ucast reg))"

definition c_fpu_ea :: "(regno \<Rightarrow> regno \<Rightarrow> ('d, unit) mach) \<Rightarrow> host_env \<Rightarrow> ('d, unit) hostm" where
  "c_fpu_ea f E = given The_fpu (call_with E (\<lambda>r. ea_arg (r RSI) (r RDX) f) pass)"

definition c_fstore_p :: "mpfr_lib \<Rightarrow> host_env \<Rightarrow> ('d, unit) hostm" where
  "c_fstore_p M E = given The_fpu (call_with E
     (\<lambda>r. ea_arg (r RSI) (r RDX) (\<lambda>ty reg. fstore_p M FPU_P ty reg (sint (ucast (r RCX) :: u32)))) pass)"

definition c_fstore_p2 :: "mpfr_lib \<Rightarrow> host_env \<Rightarrow> ('d, unit) hostm" where
  "c_fstore_p2 M E = given The_fpu (call_with E
     (\<lambda>r. ea_arg (r RSI) (r RDX) (\<lambda>ty reg. fpn_arg (r RCX) (\<lambda>k. fstore_p2 M FPU_P ty reg (of_nat k)))) pass)"

definition c_fpu_get :: "('d, u32) mach \<Rightarrow> host_env \<Rightarrow> ('d, unit) hostm" where
  "c_fpu_get m E = given The_fpu (call_with E (\<lambda>_. m) (\<lambda>v. put_reg W32 RAX (ucast v)))"

text \<open>The functions of this file: they return nothing, and the list is cut to its low byte.\<close>

definition c_fmovem :: "(u32 \<Rightarrow> u8 \<Rightarrow> ('d, u32) mach) \<Rightarrow> host_env \<Rightarrow> ('d, unit) hostm" where
  "c_fmovem f E = given The_fpu (call_with E
     (\<lambda>r. bind (f (ucast (r RSI)) (ucast (r RDX))) (\<lambda>_. return ())) pass)"

definition fmovem_to_reg_fn :: "mpfr_lib \<Rightarrow> host_env \<Rightarrow> ('d, unit) hostm" where
  "fmovem_to_reg_fn M = c_fmovem (fmovem_to_reg M FPU_P)"

definition fmovem_to_reg_rev_fn :: "mpfr_lib \<Rightarrow> host_env \<Rightarrow> ('d, unit) hostm" where
  "fmovem_to_reg_rev_fn M = c_fmovem (fmovem_from_reg_rev M FPU_P)"

definition testfcc_fn :: "host_env \<Rightarrow> ('d, unit) hostm" where
  "testfcc_fn E = given The_fpu (call_with E (\<lambda>r. fcc (ucast (r RSI))) (\<lambda>b. put_reg W32 RAX (of_bool b)))"

definition jit_test_bsun :: "host_env \<Rightarrow> ('d, unit) hostm" where
  "jit_test_bsun = c_fpu (test_bsun FPU_P)"

definition c_fsave :: "host_env \<Rightarrow> ('d, unit) hostm" where
  "c_fsave E = call_with E (\<lambda>r. ea_arg (r RDI) (r RSI) fsave_impl) pass"

definition c_frestore3 :: "mpfr_lib \<Rightarrow> host_env \<Rightarrow> ('d, unit) hostm" where
  "c_frestore3 M E = given The_fpu (call_with E
     (\<lambda>r. fpn_arg (r RSI) (\<lambda>n. frestore3 M FPU_P (of_nat n))) pass)"

section \<open>Operations\<close>

text \<open>\<open>as->mov(ARG1, FPU_P())\<close>.\<close>

abbreviation mov_this :: "'d insn" where
  "mov_this \<equiv> X_mov rdi (Obj The_fpu)"

definition jit_fmovecr :: "mpfr_lib \<Rightarrow> nat \<Rightarrow> nat \<Rightarrow> ('d, unit) jitm" where
  "jit_fmovecr M opc fpn = (let f = (case map_of
     [(0, fmovecr_0), (0xB, fmovecr_B), (0xC, fmovecr_C), (0xD, fmovecr_D), (0xE, fmovecr_E), (0x30, fmovecr_30),
      (0x31, fmovecr_31), (0x32, fmovecr_32), (0x33, fmovecr_33), (0x34, fmovecr_34), (0x35, fmovecr_35),
      (0x36, fmovecr_36), (0x37, fmovecr_37), (0x38, fmovecr_38), (0x39, fmovecr_39), (0x3A, fmovecr_3A),
      (0x3B, fmovecr_3B), (0x3C, fmovecr_3C), (0x3D, fmovecr_3D), (0x3E, fmovecr_3E), (0x3F, fmovecr_3F)] opc of
       Some g \<Rightarrow> g | None \<Rightarrow> fmovecr_F) in
     asm [mov_this,
          X_mov rsi (Imm (int fpn)),
          X_call (c_fpu_n (f M FPU_P))])"

definition jit_imm_operand :: "int \<Rightarrow> ('d, unit) jitm" where
  "jit_imm_operand n = asm [
     X_mov esi c_pc,
     X_mov EA_m esi,
     x_add c_pc (Imm n)]"

definition jit_loadFP :: "mpfr_lib \<Rightarrow> regno \<Rightarrow> regno \<Rightarrow> bool \<Rightarrow> nat \<Rightarrow> ('d, unit) jitm" where
  "jit_loadFP M ty reg rm src =
     (if rm then
        if src = 0 then seqs [
          ea_readL_jit ty reg False,
          asm [X_movsxd rsi eax,
               mov_this,
               X_call (c_fpu_L (fload_l M FPU_P))]]
        else if src = 1 then seqs [
          ea_readL_jit ty reg False,
          asm [X_mov rsi eax,
               mov_this,
               X_call (c_fpu_L (fload_s M FPU_P))]]
        else if src = 2 then seqs [
          if ty = 7 \<and> reg = 4 then jit_imm_operand 12 else ea_getaddr_jit ty reg 12,
          asm [mov_this,
               X_call (c_fpu (fload_x M FPU_P))]]
        else if src = 3 then seqs [
          if ty = 7 \<and> reg = 4 then jit_imm_operand 12 else ea_getaddr_jit ty reg 12,
          asm [mov_this,
               X_call (c_fpu (fload_p M FPU_P))]]
        else if src = 4 then seqs [
          ea_readW_jit ty reg False,
          asm [X_movsx rsi ax,
               mov_this,
               X_call (c_fpu_W (fload_w M FPU_P))]]
        else if src = 5 then seqs [
          if ty = 7 \<and> reg = 4 then jit_imm_operand 8 else ea_getaddr_jit ty reg 8,
          asm [mov_this,
               X_call (c_fpu (fload_d M FPU_P))]]
        else if src = 6 then seqs [
          ea_readB_jit ty reg False,
          asm [X_movsx rsi al,
               mov_this,
               X_call (c_fpu_B (fload_b M FPU_P))]]
        else throw Undefined
      else asm [
        mov_this,
        X_mov esi (Imm (int src)),
        X_call (c_fpu_n (fload_r FPU_P))])"

definition jit_fop_table :: "(nat \<times> (mpfr_lib \<Rightarrow> fpu_obj \<Rightarrow> nat \<Rightarrow> ('d, unit) mach)) list" where
  "jit_fop_table =
    [(0, fmove), (1, fint), (2, fsinh), (3, fintrz), (4, fsqrt), (6, flognp1), (8, fetoxm1), (9, ftanh),
     (10, fatan), (12, fasin), (13, fatanh), (14, fsin), (15, ftan), (16, fetox), (17, ftwotox), (18, ftentox),
     (20, flogn), (21, flog10), (22, flog2), (24, fabs), (25, fcosh), (26, fneg), (28, facos), (29, fcos),
     (30, fgetexp), (31, fgetman), (32, fdiv), (33, fmod), (34, fadd), (35, fmul), (36, fsgldiv), (37, frem),
     (38, fscale), (39, fsglmul), (40, fsub), (56, fcmp), (58, ftst), (64, fsmove), (65, fssqrt), (68, fdmove),
     (69, fdsqrt), (88, fsabs), (90, fsneg), (92, fdabs), (94, fdneg), (96, fsdiv), (98, fsadd), (99, fsmul),
     (100, fddiv), (102, fdadd), (103, fdmul), (104, fssub), (108, fdsub)]"

definition jit_fop_do :: "mpfr_lib \<Rightarrow> nat \<Rightarrow> nat \<Rightarrow> ('d, unit) jitm" where
  "jit_fop_do M opc dst = seqs [
     asm [mov_this,
          X_mov esi (Imm (int dst))],
     case map_of jit_fop_table opc of
       Some f \<Rightarrow> asm [X_call (c_fpu_n (f M FPU_P))]
     | None \<Rightarrow>
         if 48 \<le> opc \<and> opc \<le> 55 then
           asm [X_mov edx (Imm (int (opc mod 8))),
                X_call (c_fsincos M)]
         else asm [X_call (c_void FLINE)]]"

definition jit_fpu_store :: "mpfr_lib \<Rightarrow> nat \<Rightarrow> regno \<Rightarrow> regno \<Rightarrow> nat \<Rightarrow> nat \<Rightarrow> ('d, unit) jitm" where
  "jit_fpu_store M t ty reg fpn k = asm (
     [mov_this,
      X_mov esi (Imm (int fpn)),
      X_call (c_fpu_n (fstore_common M FPU_P)),
      mov_this,
      X_mov esi (Imm (uint ty)),
      X_mov edx (Imm (uint reg))] @
     (if t = 0 then [X_call (c_fpu_ea (fstore_l M FPU_P))]
      else if t = 1 then [X_call (c_fpu_ea (fstore_s M FPU_P))]
      else if t = 2 then [X_call (c_fpu_ea (fstore_x M FPU_P))]
      else if t = 3 then [X_mov ecx (Imm (sint (of_nat (2 * k) :: u8) div 2)), X_call (c_fstore_p M)]
      else if t = 4 then [X_call (c_fpu_ea (fstore_w M FPU_P))]
      else if t = 5 then [X_call (c_fpu_ea (fstore_d M FPU_P))]
      else if t = 6 then [X_call (c_fpu_ea (fstore_b M FPU_P))]
      else [X_mov ecx (Imm (int (k div 16))), X_call (c_fstore_p2 M)]))"

section \<open>Control registers\<close>

definition jit_set_fp :: "(fpu_obj \<Rightarrow> u32 \<Rightarrow> ('d, unit) mach) \<Rightarrow> ('d, unit) jitm" where
  "jit_set_fp f = asm [
     X_mov esi eax,
     mov_this,
     X_call (c_fpu_L (f FPU_P))]"

definition jit_fmove_to_fpcc :: "regno \<Rightarrow> regno \<Rightarrow> nat \<Rightarrow> ('d, unit) jitm" where
  "jit_fmove_to_fpcc ty reg rs = seqs [
     if rs = 0 then return ()
     else if rs = 1 then seqs [ea_readL_jit ty reg False, jit_set_fp set_fpiar]
     else if rs = 2 then seqs [ea_readL_jit ty reg False, jit_set_fp set_fpsr]
     else if rs = 4 then seqs [ea_readL_jit ty reg False, jit_set_fp set_fpcr]
     else seqs [
       ea_getaddr_jit ty reg (4 * (of_bool (bit rs 0) + of_bool (bit rs 1) + of_bool (bit rs 2))),
       asm [X_mov r12d EA_m],
       if bit rs 2 then seqs [jit_readL r12d, jit_set_fp set_fpcr, asm [X_lea r12d (Based r12d 4)]] else return (),
       if bit rs 1 then seqs [jit_readL r12d, jit_set_fp set_fpsr, asm [X_lea r12d (Based r12d 4)]] else return (),
       if bit rs 0 then seqs [jit_readL r12d, jit_set_fp set_fpiar] else return ()],
     jit_trace_branch]"

definition jit_get_fp :: "(fpu_obj \<Rightarrow> ('d, u32) mach) \<Rightarrow> ('d, unit) jitm" where
  "jit_get_fp f = asm [
     mov_this,
     X_call (c_fpu_get (f FPU_P))]"

definition jit_fmove_from_fpcc :: "regno \<Rightarrow> regno \<Rightarrow> nat \<Rightarrow> ('d, unit) jitm" where
  "jit_fmove_from_fpcc ty reg rs = seqs [
     if rs = 0 then return ()
     else if rs = 1 then seqs [jit_get_fp get_fpiar, ea_writeL_jit ty reg False]
     else if rs = 2 then seqs [jit_get_fp get_fpsr, ea_writeL_jit ty reg False]
     else if rs = 4 then seqs [jit_get_fp get_fpcr, ea_writeL_jit ty reg False]
     else seqs [
       ea_getaddr_jit ty reg (4 * (of_bool (bit rs 0) + of_bool (bit rs 1) + of_bool (bit rs 2))),
       asm [X_mov r12d EA_m],
       if bit rs 2 then seqs [
         jit_get_fp get_fpcr,
         asm [X_movzx eax ax],
         jit_writeL r12d eax,
         asm [X_lea r12d (Based r12d 4)]] else return (),
       if bit rs 1 then seqs [
         jit_get_fp get_fpsr,
         jit_writeL r12d eax,
         asm [X_lea r12d (Based r12d 4)]] else return (),
       if bit rs 0 then seqs [jit_get_fp get_fpiar, jit_writeL r12d eax] else return ()],
     jit_trace_branch]"

section \<open>Instructions\<close>

definition jit_reglist :: "u16 \<Rightarrow> ('d, unit) jitm" where
  "jit_reglist extw = asm [if bit_at extw 11 then X_mov r13b (DR_B (unat (drop_bit 4 extw AND 7)))
     else X_mov r13b (Imm (uint (extw AND 0xff)))]"

definition jit_fop :: "mpfr_lib \<Rightarrow> u16 \<Rightarrow> ('d, unit) jitm" where
  "jit_fop M op = bind jFETCH (\<lambda>extw.
     let rm = bit_at extw 14; src = unat (drop_bit 10 extw AND 7); dst = unat (drop_bit 7 extw AND 7);
         opc = unat (extw AND 0x7f); k = drop_bit 13 extw AND 3
     in seqs [
       update_pc,
       asm [mov_this,
            X_call (c_fpu (prologue M FPU_P))],
       if \<not> bit_at extw 15 then
         if \<not> bit_at extw 13 then
           if rm \<and> src = 7 then jit_fmovecr M opc dst
           else seqs [jit_loadFP M (TYP op) (REG op) rm src, jit_fop_do M opc dst]
         else jit_fpu_store M src (TYP op) (REG op) dst opc
       else if k = 0 then jit_fmove_to_fpcc (TYP op) (REG op) src
       else if k = 1 then jit_fmove_from_fpcc (TYP op) (REG op) src
       else if k = 2 then seqs [
         jit_reglist extw,
         if TYP op = 3 then
           asm [mov_this,
                X_mov esi (Imm (uint (REG op))),
                X_mov dl r13b,
                X_call (fmovem_to_reg_fn M),
                X_mov (AR_L (unat (REG op))) eax]
         else seqs [
           ea_getaddr_jit (TYP op) (REG op) 0,
           asm [mov_this,
                X_mov esi eax,
                X_mov dl r13b,
                X_call (fmovem_to_reg_fn M)]],
         jit_trace_branch]
       else seqs [
         jit_reglist extw,
         if \<not> bit_at extw 12 \<and> TYP op = 4 then
           asm [mov_this,
                X_mov esi (AR_L (unat (REG op))),
                X_mov dl r13b,
                X_call (fmovem_to_reg_rev_fn M),
                X_mov (AR_L (unat (REG op))) eax]
         else seqs [
           ea_getaddr_jit (TYP op) (REG op) 0,
           asm [mov_this,
                X_mov esi eax,
                X_mov dl r13b,
                X_call (fmovem_to_reg_fn M)]],
         jit_trace_branch]])"

definition jit_test_Fcc :: "u8 \<Rightarrow> ('d, unit) jitm" where
  "jit_test_Fcc v = asm [
     mov_this,
     X_mov sil (Imm (uint v)),
     X_call testfcc_fn]"

definition jit_bsun_if :: "bool \<Rightarrow> ('d, unit) jitm" where
  "jit_bsun_if p = asm (if p then [mov_this, X_call jit_test_bsun] else [])"

definition jit_fscc :: "u16 \<Rightarrow> ('d, unit) jitm" where
  "jit_fscc op = bind jFETCH (\<lambda>extw. seqs [
     jit_bsun_if (bit_at extw 4),
     jit_test_Fcc (ucast extw),
     asm [x_neg al,
          x_sbb dl dl,
          X_mov al dl],
     ea_writeB_jit (TYP op) (REG op) False])"

definition jit_fsave :: "u16 \<Rightarrow> ('d, unit) jitm" where
  "jit_fsave op = asm [
     X_mov dil (Imm (uint (TYP op))),
     X_mov sil (Imm (uint (REG op))),
     X_call c_fsave]"

definition jit_frestore :: "mpfr_lib \<Rightarrow> u16 \<Rightarrow> ('d, unit) jitm" where
  "jit_frestore M op = seqs [
     asm [mov_this],
     if TYP op = 3 then
       asm [X_mov sil (Imm (uint (REG op))),
            X_call (c_frestore3 M)]
     else
       asm [X_mov sil (Imm (uint (TYP op))),
            X_mov dl (Imm (uint (REG op))),
            X_call (c_fpu_ea (frestore_impl M FPU_P))]]"

definition jit_fdbcc :: "u16 \<Rightarrow> ('d, unit) jitm" where
  "jit_fdbcc op = bind jFETCH (\<lambda>extw. bind jFETCH (\<lambda>offset.
     let r = unat (REG op) in seqs [
       update_pc,
       jit_bsun_if (bit_at extw 4),
       jit_test_Fcc (ucast (extw AND 0xf)),
       asm [x_test al al],
       jit_if COND_FALSE [
         asm [X_mov dx (DR_W r),
              x_dec dx,
              X_mov (DR_W r) dx,
              x_cmp dx (Imm (- 1))],
         jit_if COND_NE [bind jPC (\<lambda>pc. jumpC (pc + scast offset - 2))]],
       jit_trace_branch]))"

definition jit_ftrapcc :: "u16 \<Rightarrow> ('d, unit) jitm" where
  "jit_ftrapcc op = bind jFETCH (\<lambda>extw. seqs [
     if REG op = 2 then bind jFETCH (\<lambda>_. return ())
     else if REG op = 3 then bind jFETCH32 (\<lambda>_. return ())
     else return (),
     update_pc,
     jit_bsun_if (bit_at extw 4),
     jit_test_Fcc (ucast (extw AND 0xf)),
     asm [x_test al al],
     jit_if COND_TRUE [asm [X_call (c_void TRAPX_ERROR)]]])"

definition jit_fbcc :: "u16 \<Rightarrow> u32 \<Rightarrow> ('d, unit) jitm" where
  "jit_fbcc op offset = seqs [
     update_pc,
     jit_bsun_if (bit_at op 4),
     jit_test_Fcc (ucast (op AND 0xf)),
     asm [x_test al al],
     jit_if COND_TRUE [bind jPC (\<lambda>pc. jumpC (pc + offset - 2))],
     jit_trace_branch]"

definition jit_fbcc_w :: "u16 \<Rightarrow> ('d, unit) jitm" where
  "jit_fbcc_w op = bind jFETCH (\<lambda>offset. jit_fbcc op (scast offset))"

definition jit_fbcc_l :: "u16 \<Rightarrow> ('d, unit) jitm" where
  "jit_fbcc_l op = bind jFETCH32 (\<lambda>offset. jit_fbcc op offset)"

end
