(* ===== verification/Jit.thy ===== *)
theory Jit
  imports JitFpu
begin

text \<open>
  The table of translations, the translation of a block of guest memory and its execution:
  src/cpu/jit/jit.cc, \<open>init_jit_table_mmu\<close> of jit_mmu.cc and \<open>init_jit\<close> of jit_fpu.cc.
\<close>

section \<open>The table\<close>

text \<open>
  As in theory \<open>Dispatch\<close> the table is the list of its assignments in program order, with
  the same entries for the loops. The entry for the instruction that ends a test, which only
  a build for the tests has, is left out.
\<close>

type_synonym 'd jit_rule = "(u16 \<Rightarrow> bool) \<times> (u16 \<Rightarrow> ('d, unit) jitm)"

definition jit_rules_ea :: "'d jit_rule list" where
  "jit_rules_ea =
    [ent_ea 0xffc0 0x0000 0x0 0x3d jit_ori_b,
     ent_ea 0xffc0 0x0040 0x0 0x3d jit_ori_w,
     ent_ea 0xffc0 0x0080 0x0 0x3d jit_ori_l,
     ent_ea 0xffc0 0x0200 0x0 0x3d jit_andi_b,
     ent_ea 0xffc0 0x0240 0x0 0x3d jit_andi_w,
     ent_ea 0xffc0 0x0280 0x0 0x3d jit_andi_l,
     ent_ea 0xffc0 0x0400 0x0 0x3d jit_subi_b,
     ent_ea 0xffc0 0x0440 0x0 0x3d jit_subi_w,
     ent_ea 0xffc0 0x0480 0x0 0x3d jit_subi_l,
     ent_ea 0xffc0 0x0600 0x0 0x3d jit_addi_b,
     ent_ea 0xffc0 0x0640 0x0 0x3d jit_addi_w,
     ent_ea 0xffc0 0x0680 0x0 0x3d jit_addi_l,
     ent_ea 0xffc0 0x0a00 0x0 0x3d jit_eori_b,
     ent_ea 0xffc0 0x0a40 0x0 0x3d jit_eori_w,
     ent_ea 0xffc0 0x0a80 0x0 0x3d jit_eori_l,
     ent_ea 0xffc0 0x0c00 0x0 0x3d jit_cmpi_b,
     ent_ea 0xffc0 0x0c40 0x0 0x3d jit_cmpi_w,
     ent_ea 0xffc0 0x0c80 0x0 0x3d jit_cmpi_l,
     ent_ea 0xffc0 0x4000 0x0 0x3d jit_negx_b,
     ent_ea 0xffc0 0x4040 0x0 0x3d jit_negx_w,
     ent_ea 0xffc0 0x4080 0x0 0x3d jit_negx_l,
     ent_ea 0xffc0 0x40c0 0x0 0x3d jit_move_from_sr,
     ent_ea 0xffc0 0x4200 0x0 0x3d jit_clr_b,
     ent_ea 0xffc0 0x4240 0x0 0x3d jit_clr_w,
     ent_ea 0xffc0 0x4280 0x0 0x3d jit_clr_l,
     ent_ea 0xffc0 0x42c0 0x0 0x3d jit_move_from_ccr,
     ent_ea 0xffc0 0x4400 0x0 0x3d jit_neg_b,
     ent_ea 0xffc0 0x4440 0x0 0x3d jit_neg_w,
     ent_ea 0xffc0 0x4480 0x0 0x3d jit_neg_l,
     ent_ea 0xffc0 0x44c0 0x0 0x3d jit_move_to_ccr,
     ent_ea 0xffc0 0x4600 0x0 0x3d jit_not_b,
     ent_ea 0xffc0 0x4640 0x0 0x3d jit_not_w,
     ent_ea 0xffc0 0x4680 0x0 0x3d jit_not_l,
     ent_ea 0xffc0 0x46c0 0x0 0x3d jit_move_to_sr,
     ent_ea 0xffc0 0x4800 0x0 0x3d jit_nbcd,
     ent_ea 0xffc0 0x4a00 0x0 0x3d jit_tst_b,
     ent_ea 0xffc0 0x4a40 0x0 0x3d jit_tst_w,
     ent_ea 0xffc0 0x4a80 0x0 0x3d jit_tst_l,
     ent_ea 0xffc0 0x4ac0 0x0 0x3d jit_tas,
     ent_ea 0xffc0 0x4c00 0x0 0x3d jit_mul_l,
     ent_ea 0xffc0 0x4c40 0x0 0x3d jit_div_l,
     ent_ea 0xf1c0 0x1000 0x0 0x3d jit_move_b,
     ent_ea 0xf1c0 0x2000 0x0 0x3d jit_move_l,
     ent_ea 0xf1c0 0x3000 0x0 0x3d jit_move_w,
     ent_ea 0xf1c0 0x2040 0x0 0x3d jit_movea_l,
     ent_ea 0xf1c0 0x3040 0x0 0x3d jit_movea_w,
     ent_ea 0xf1c0 0x4100 0x0 0x3d jit_chk_l,
     ent_ea 0xf1c0 0x4180 0x0 0x3d jit_chk_l,
     ent_ea 0xf1c0 0x5000 0x0 0x3d jit_addq_b,
     ent_ea 0xf1c0 0x5040 0x0 0x3d jit_addq_w,
     ent_ea 0xf1c0 0x5080 0x0 0x3d jit_addq_l,
     ent_ea 0xf1c0 0x5100 0x0 0x3d jit_subq_b,
     ent_ea 0xf1c0 0x5140 0x0 0x3d jit_subq_w,
     ent_ea 0xf1c0 0x5180 0x0 0x3d jit_subq_l,
     ent_ea 0xf1c0 0x8000 0x0 0x3d jit_or_b_to_dn,
     ent_ea 0xf1c0 0x8040 0x0 0x3d jit_or_w_to_dn,
     ent_ea 0xf1c0 0x8080 0x0 0x3d jit_or_l_to_dn,
     ent_ea 0xf1c0 0x80c0 0x0 0x3d jit_divu_w,
     ent_ea 0xf1c0 0x81c0 0x0 0x3d jit_divs_w,
     ent_ea 0xf1c0 0x9000 0x0 0x3d jit_sub_b_to_dn,
     ent_ea 0xf1c0 0x9040 0x0 0x3d jit_sub_w_to_dn,
     ent_ea 0xf1c0 0x9080 0x0 0x3d jit_sub_l_to_dn,
     ent_ea 0xf1c0 0x90c0 0x0 0x3d jit_suba_w,
     ent_ea 0xf1c0 0x91c0 0x0 0x3d jit_suba_l,
     ent_ea 0xf1c0 0xb000 0x0 0x3d jit_cmp_b,
     ent_ea 0xf1c0 0xb040 0x0 0x3d jit_cmp_w,
     ent_ea 0xf1c0 0xb080 0x0 0x3d jit_cmp_l,
     ent_ea 0xf1c0 0xb0c0 0x0 0x3d jit_cmpa_w,
     ent_ea 0xf1c0 0xb100 0x0 0x3d jit_eor_b,
     ent_ea 0xf1c0 0xb140 0x0 0x3d jit_eor_w,
     ent_ea 0xf1c0 0xb180 0x0 0x3d jit_eor_l,
     ent_ea 0xf1c0 0xb1c0 0x0 0x3d jit_cmpa_l,
     ent_ea 0xf1c0 0xc000 0x0 0x3d jit_and_b_to_dn,
     ent_ea 0xf1c0 0xc040 0x0 0x3d jit_and_w_to_dn,
     ent_ea 0xf1c0 0xc080 0x0 0x3d jit_and_l_to_dn,
     ent_ea 0xf1c0 0xc0c0 0x0 0x3d jit_mulu_w,
     ent_ea 0xf1c0 0xc1c0 0x0 0x3d jit_muls_w,
     ent_ea 0xf1c0 0xd000 0x0 0x3d jit_add_b_to_dn,
     ent_ea 0xf1c0 0xd040 0x0 0x3d jit_add_w_to_dn,
     ent_ea 0xf1c0 0xd080 0x0 0x3d jit_add_l_to_dn,
     ent_ea 0xf1c0 0xd0c0 0x0 0x3d jit_adda_w,
     ent_ea 0xf1c0 0xd1c0 0x0 0x3d jit_adda_l,
     ent_move 0xf000 0x1000 jit_move_b,
     ent_move 0xf000 0x2000 jit_move_l,
     ent_move 0xf000 0x3000 jit_move_w]"

definition jit_rules_dn :: "'d jit_rule list" where
  "jit_rules_dn =
    [ent 0xfff8 0x0800 jit_btst_l_i,
     ent 0xfff8 0x0840 jit_bchg_l_i,
     ent 0xfff8 0x0880 jit_bclr_l_i,
     ent 0xfff8 0x08c0 jit_bset_l_i,
     ent 0xfff8 0x4840 jit_swap,
     ent 0xfff8 0x4880 jit_ext_w,
     ent 0xfff8 0x48c0 jit_ext_l,
     ent 0xfff8 0x49c0 jit_extb_l,
     ent 0xfff8 0x4e40 jit_trap,
     ent 0xfff8 0xe8c0 jit_bftst_dn,
     ent 0xfff8 0xeac0 jit_bfchg_dn,
     ent 0xfff8 0xecc0 jit_bfclr_dn,
     ent 0xfff8 0xeec0 jit_bfset_dn,
     ent 0xfff8 0xe9c0 jit_bfextu_dn,
     ent 0xfff8 0xebc0 jit_bfexts_dn,
     ent 0xfff8 0xedc0 jit_bfffo_dn,
     ent 0xfff8 0xefc0 jit_bfins_dn,
     ent 0xf1f8 0x0100 jit_btst_l_r,
     ent 0xf1f8 0x0140 jit_bchg_l_r,
     ent 0xf1f8 0x0180 jit_bclr_l_r,
     ent 0xf1f8 0x01c0 jit_bset_l_r,
     ent 0xf1f8 0x8100 jit_sbcd_d,
     ent 0xf1f8 0x8140 jit_pack_d,
     ent 0xf1f8 0x8180 jit_unpk_d,
     ent 0xf1f8 0x9100 jit_subx_b_d,
     ent 0xf1f8 0x9140 jit_subx_w_d,
     ent 0xf1f8 0x9180 jit_subx_l_d,
     ent 0xf1f8 0xc100 jit_abcd_d,
     ent 0xf1f8 0xc140 jit_exg_dn,
     ent 0xf1f8 0xd100 jit_addx_b_d,
     ent 0xf1f8 0xd140 jit_addx_w_d,
     ent 0xf1f8 0xd180 jit_addx_l_d,
     ent 0xf0f8 0x50c0 jit_scc_ea]"

definition jit_rules_an :: "'d jit_rule list" where
  "jit_rules_an =
    [ent 0xf1f8 0x0108 jit_movep_w_load,
     ent 0xf1f8 0x0148 jit_movep_l_load,
     ent 0xf1f8 0x0188 jit_movep_w_store,
     ent 0xf1f8 0x01c8 jit_movep_l_store,
     ent 0xf1f8 0x5048 jit_addq_an,
     ent 0xf1f8 0x5088 jit_addq_an,
     ent 0xf1f8 0x5148 jit_subq_an,
     ent 0xf1f8 0x5188 jit_subq_an,
     ent 0xf1f8 0x8108 jit_sbcd_m,
     ent 0xf1f8 0x8148 jit_pack_m,
     ent 0xf1f8 0x8188 jit_unpk_m,
     ent 0xf1f8 0x9108 jit_subx_b_m,
     ent 0xf1f8 0x9148 jit_subx_w_m,
     ent 0xf1f8 0x9188 jit_subx_l_m,
     ent 0xf1f8 0xb108 jit_cmpm_b,
     ent 0xf1f8 0xb148 jit_cmpm_w,
     ent 0xf1f8 0xb188 jit_cmpm_l,
     ent 0xf1f8 0xc108 jit_abcd_m,
     ent 0xf1f8 0xc148 jit_exg_an,
     ent 0xf1f8 0xc188 jit_exg_da,
     ent 0xf1f8 0xd108 jit_addx_b_m,
     ent 0xf1f8 0xd148 jit_addx_w_m,
     ent 0xf1f8 0xd188 jit_addx_l_m,
     ent 0xfff8 0x4808 jit_link_l,
     ent 0xfff8 0x4848 jit_bkpt,
     ent 0xfff8 0x4e48 jit_trap,
     ent 0xf0f8 0x50c8 jit_dbcc]"

definition jit_rules_mem :: "'d jit_rule list" where
  "jit_rules_mem =
    [ent_ea 0xffc0 0x4c80 0x18 0x20 jit_movem_w_load_incr,
     ent_ea 0xffc0 0x4cc0 0x18 0x20 jit_movem_l_load_incr,
     ent_ea 0xffc0 0x4880 0x20 0x28 jit_movem_w_store_decr,
     ent_ea 0xffc0 0x48c0 0x20 0x28 jit_movem_l_store_decr,
     ent_ctl 0xffc0 0x00c0 jit_cmp2_chk2_b,
     ent_ctl 0xffc0 0x02c0 jit_cmp2_chk2_w,
     ent_ctl 0xffc0 0x04c0 jit_cmp2_chk2_l,
     ent_ctl 0xffc0 0x4840 jit_pea,
     ent_ctl 0xffc0 0x4880 jit_movem_w_store_base,
     ent_ctl 0xffc0 0x48c0 jit_movem_l_store_base,
     ent_ctl 0xffc0 0x4c80 jit_movem_w_load_base,
     ent_ctl 0xffc0 0x4cc0 jit_movem_l_load_base,
     ent_ctl 0xffc0 0x4e80 jit_jsr,
     ent_ctl 0xffc0 0x4ec0 jit_jmp,
     ent_ctl 0xffc0 0xe8c0 jit_bftst_mem,
     ent_ctl 0xffc0 0xeac0 jit_bfchg_mem,
     ent_ctl 0xffc0 0xecc0 jit_bfclr_mem,
     ent_ctl 0xffc0 0xeec0 jit_bfset_mem,
     ent_ctl 0xffc0 0xe9c0 jit_bfextu_mem,
     ent_ctl 0xffc0 0xebc0 jit_bfexts_mem,
     ent_ctl 0xffc0 0xedc0 jit_bfffo_mem,
     ent_ctl 0xffc0 0xefc0 jit_bfins_mem,
     ent_ctl 0xf1c0 0x41c0 jit_lea,
     ent_ea 0xffc0 0x0800 0x10 0x3c jit_btst_b_i,
     ent_ea 0xffc0 0x0840 0x10 0x3c jit_bchg_b_i,
     ent_ea 0xffc0 0x0880 0x10 0x3c jit_bclr_b_i,
     ent_ea 0xffc0 0x08c0 0x10 0x3c jit_bset_b_i,
     ent_ea 0xffc0 0x0ac0 0x10 0x3c jit_cas_b,
     ent_ea 0xffc0 0x0cc0 0x10 0x3c jit_cas_w,
     ent_ea 0xffc0 0x0e00 0x10 0x3c jit_moves_b,
     ent_ea 0xffc0 0x0e40 0x10 0x3c jit_moves_w,
     ent_ea 0xffc0 0x0e80 0x10 0x3c jit_moves_l,
     ent_ea 0xffc0 0x0ec0 0x10 0x3c jit_cas_l,
     ent_ea 0xffc0 0xe0c0 0x10 0x3c jit_asr_ea,
     ent_ea 0xffc0 0xe2c0 0x10 0x3c jit_lsr_ea,
     ent_ea 0xffc0 0xe4c0 0x10 0x3c jit_roxr_ea,
     ent_ea 0xffc0 0xe6c0 0x10 0x3c jit_ror_ea,
     ent_ea 0xffc0 0xe1c0 0x10 0x3c jit_asl_ea,
     ent_ea 0xffc0 0xe3c0 0x10 0x3c jit_lsl_ea,
     ent_ea 0xffc0 0xe5c0 0x10 0x3c jit_roxl_ea,
     ent_ea 0xffc0 0xe7c0 0x10 0x3c jit_rol_ea,
     ent_ea 0xf1c0 0x0100 0x10 0x3c jit_btst_b_r,
     ent_ea 0xf1c0 0x0140 0x10 0x3c jit_bchg_b_r,
     ent_ea 0xf1c0 0x0180 0x10 0x3c jit_bclr_b_r,
     ent_ea 0xf1c0 0x01c0 0x10 0x3c jit_bset_b_r,
     ent_ea 0xf1c0 0x8100 0x10 0x3c jit_or_b_to_ea,
     ent_ea 0xf1c0 0x8140 0x10 0x3c jit_or_w_to_ea,
     ent_ea 0xf1c0 0x8180 0x10 0x3c jit_or_l_to_ea,
     ent_ea 0xf1c0 0x9100 0x10 0x3c jit_sub_b_to_ea,
     ent_ea 0xf1c0 0x9140 0x10 0x3c jit_sub_w_to_ea,
     ent_ea 0xf1c0 0x9180 0x10 0x3c jit_sub_l_to_ea,
     ent_ea 0xf1c0 0xc100 0x10 0x3c jit_and_b_to_ea,
     ent_ea 0xf1c0 0xc140 0x10 0x3c jit_and_w_to_ea,
     ent_ea 0xf1c0 0xc180 0x10 0x3c jit_and_l_to_ea,
     ent_ea 0xf1c0 0xd100 0x10 0x3c jit_add_b_to_ea,
     ent_ea 0xf1c0 0xd140 0x10 0x3c jit_add_w_to_ea,
     ent_ea 0xf1c0 0xd180 0x10 0x3c jit_add_l_to_ea,
     ent_ea 0xf0c0 0x50c0 0x10 0x3a jit_scc_ea]"

definition jit_rules_misc :: "'d jit_rule list" where
  "jit_rules_misc =
    [ent 0xffff 0x003c jit_ori_b_ccr,
     ent 0xffff 0x007c jit_ori_w_sr,
     ent 0xffff 0x023c jit_andi_b_ccr,
     ent 0xffff 0x027c jit_andi_w_sr,
     ent 0xffff 0x083c jit_btst_b_i_imm,
     ent 0xffff 0x0a3c jit_eori_b_ccr,
     ent 0xffff 0x0a7c jit_eori_w_sr,
     ent 0xffff 0x0cfc jit_cas2_w,
     ent 0xffff 0x0efc jit_cas2_l,
     ent 0xffff 0x44fc jit_move_to_ccr,
     ent 0xffff 0x46fc jit_move_to_sr,
     ent 0xffff 0x4afc jit_illegal,
     ent 0xf1ff 0x013c jit_btst_b_r_imm,
     ent 0xf1ff 0x203c jit_move_b,
     ent 0xf1ff 0x203c jit_move_l,
     ent 0xf1ff 0x303c jit_move_w,
     ent 0xf1ff 0x207c jit_movea_l,
     ent 0xf1ff 0x307c jit_movea_w,
     ent_move 0xf03f 0x203c jit_move_b,
     ent_move 0xf03f 0x203c jit_move_l,
     ent_move 0xf03f 0x303c jit_move_w,
     ent 0xfff8 0x4e50 jit_link_w,
     ent 0xfff8 0x4e58 jit_unlk,
     ent 0xfff8 0x4e60 jit_move_to_usp,
     ent 0xfff8 0x4e68 jit_move_from_usp,
     ent 0xf100 0x7000 jit_moveq,
     ent 0xffff 0x4e70 jit_reset,
     ent 0xffff 0x4e71 jit_nop,
     ent 0xffff 0x4e72 jit_stop,
     ent 0xffff 0x4e73 jit_rte,
     ent 0xffff 0x4e74 jit_rtd,
     ent 0xffff 0x4e75 jit_rts,
     ent 0xffff 0x4e76 jit_trapv,
     ent 0xffff 0x4e77 jit_rtr,
     ent 0xffff 0x4e7a jit_movec_from_cr,
     ent 0xffff 0x4e7b jit_movec_to_cr,
     ent 0xf0ff 0x50fa jit_trapcc,
     ent 0xf0ff 0x50fb jit_trapcc,
     ent 0xf0ff 0x50fc jit_trapcc,
     ent 0xf000 0x6000 jit_bxx,
     ent 0xf000 0xa000 jit_aline_ex,
     ent 0xf000 0xf000 jit_fline_default]"

definition jit_rules_shift :: "'d jit_rule list" where
  "jit_rules_shift =
    [ent 0xf1f8 0xe000 jit_asr_b_i,
     ent 0xf1f8 0xe008 jit_lsr_b_i,
     ent 0xf1f8 0xe010 jit_roxr_b_i,
     ent 0xf1f8 0xe018 jit_ror_b_i,
     ent 0xf1f8 0xe020 jit_asr_b_r,
     ent 0xf1f8 0xe028 jit_lsr_b_r,
     ent 0xf1f8 0xe030 jit_roxr_b_r,
     ent 0xf1f8 0xe038 jit_ror_b_r,
     ent 0xf1f8 0xe040 jit_asr_w_i,
     ent 0xf1f8 0xe048 jit_lsr_w_i,
     ent 0xf1f8 0xe050 jit_roxr_w_i,
     ent 0xf1f8 0xe058 jit_ror_w_i,
     ent 0xf1f8 0xe060 jit_asr_w_r,
     ent 0xf1f8 0xe068 jit_lsr_w_r,
     ent 0xf1f8 0xe070 jit_roxr_w_r,
     ent 0xf1f8 0xe078 jit_ror_w_r,
     ent 0xf1f8 0xe080 jit_asr_l_i,
     ent 0xf1f8 0xe088 jit_lsr_l_i,
     ent 0xf1f8 0xe090 jit_roxr_l_i,
     ent 0xf1f8 0xe098 jit_ror_l_i,
     ent 0xf1f8 0xe0a0 jit_asr_l_r,
     ent 0xf1f8 0xe0a8 jit_lsr_l_r,
     ent 0xf1f8 0xe0b0 jit_roxr_l_r,
     ent 0xf1f8 0xe0b8 jit_ror_l_r,
     ent 0xf1f8 0xe100 jit_asl_b_i,
     ent 0xf1f8 0xe108 jit_lsl_b_i,
     ent 0xf1f8 0xe110 jit_roxl_b_i,
     ent 0xf1f8 0xe118 jit_rol_b_i,
     ent 0xf1f8 0xe120 jit_asl_b_r,
     ent 0xf1f8 0xe128 jit_lsl_b_r,
     ent 0xf1f8 0xe130 jit_roxl_b_r,
     ent 0xf1f8 0xe138 jit_rol_b_r,
     ent 0xf1f8 0xe140 jit_asl_w_i,
     ent 0xf1f8 0xe148 jit_lsl_w_i,
     ent 0xf1f8 0xe150 jit_roxl_w_i,
     ent 0xf1f8 0xe158 jit_rol_w_i,
     ent 0xf1f8 0xe160 jit_asl_w_r,
     ent 0xf1f8 0xe168 jit_lsl_w_r,
     ent 0xf1f8 0xe170 jit_roxl_w_r,
     ent 0xf1f8 0xe178 jit_rol_w_r,
     ent 0xf1f8 0xe180 jit_asl_l_i,
     ent 0xf1f8 0xe188 jit_lsl_l_i,
     ent 0xf1f8 0xe190 jit_roxl_l_i,
     ent 0xf1f8 0xe198 jit_rol_l_i,
     ent 0xf1f8 0xe1a0 jit_asl_l_r,
     ent 0xf1f8 0xe1a8 jit_lsl_l_r,
     ent 0xf1f8 0xe1b0 jit_roxl_l_r,
     ent 0xf1f8 0xe1b8 jit_rol_l_r]"

definition jit_rules_move16 :: "'d jit_rule list" where
  "jit_rules_move16 =
    [ent 0xfff8 0xf600 jit_move16_inc_imm,
     ent 0xfff8 0xf608 jit_move16_imm_inc,
     ent 0xfff8 0xf610 jit_move16_base_imm,
     ent 0xfff8 0xf618 jit_move16_imm_base,
     ent 0xfff8 0xf620 jit_move16_inc_inc]"

definition jit_rules_mmu :: "'d jit_rule list" where
  "jit_rules_mmu =
    [ent 0xfff8 0xf448 jit_cinvl_dc,
     ent 0xfff8 0xf450 jit_cinvp_dc,
     ent 0xfff8 0xf458 jit_cinva_dc,
     ent 0xfff8 0xf468 jit_cpushl_dc,
     ent 0xfff8 0xf470 jit_cpushp_dc,
     ent 0xfff8 0xf478 jit_cpusha_dc,
     ent 0xfff8 0xf488 jit_cinvl_ic,
     ent 0xfff8 0xf490 jit_cinvp_ic,
     ent 0xfff8 0xf498 jit_cinva_ic,
     ent 0xfff8 0xf4a8 jit_cpushl_ic,
     ent 0xfff8 0xf4b0 jit_cpushp_ic,
     ent 0xfff8 0xf4b8 jit_cpusha_ic,
     ent 0xfff8 0xf4c8 jit_cinvl_bc,
     ent 0xfff8 0xf4d0 jit_cinvp_bc,
     ent 0xfff8 0xf4d8 jit_cinva_bc,
     ent 0xfff8 0xf4e8 jit_cpushl_bc,
     ent 0xfff8 0xf4f0 jit_cpushp_bc,
     ent 0xfff8 0xf4f8 jit_cpusha_bc,
     ent 0xfff8 0xf500 jit_pflushn,
     ent 0xfff8 0xf508 jit_pflush,
     ent 0xfff8 0xf510 jit_pflushan,
     ent 0xfff8 0xf518 jit_pflusha,
     ent 0xfff8 0xf548 jit_ptestw,
     ent 0xfff8 0xf568 jit_ptestr]"

definition jit_rules_fpu :: "mpfr_lib \<Rightarrow> 'd jit_rule list" where
  "jit_rules_fpu M =
    [ent_ea 0xffc0 0xf200 0x0 0x3c (jit_fop M),
     ent_ea 0xffc0 0xf240 0x0 0x3c jit_fscc,
     ent_ea 0xffc0 0xf300 0x0 0x3c jit_fsave,
     ent_ea 0xffc0 0xf340 0x0 0x3c (jit_frestore M),
     ent 0xfff8 0xf248 jit_fdbcc,
     ent 0xffff 0xf27a jit_ftrapcc,
     ent 0xffff 0xf27b jit_ftrapcc,
     ent 0xffff 0xf27c jit_ftrapcc,
     ent 0xffc0 0xf280 jit_fbcc_w,
     ent 0xffc0 0xf2c0 jit_fbcc_l]"

text \<open>\<open>None\<close> is the null pointer of \<open>cpu.fpu\<close>.\<close>

definition jit_init :: "mpfr_lib option \<Rightarrow> 'd jit_rule list" where
  "jit_init fpu =
     jit_rules_ea @ jit_rules_dn @ jit_rules_an @ jit_rules_mem @ jit_rules_misc @ jit_rules_shift
     @ jit_rules_move16 @ (case fpu of None \<Rightarrow> [] | Some M \<Rightarrow> jit_rules_fpu M) @ jit_rules_mmu"

definition jit_compile_op :: "mpfr_lib option \<Rightarrow> u16 \<Rightarrow> (u16 \<Rightarrow> ('d, unit) jitm) option" where
  "jit_compile_op fpu op = lookup_last (jit_init fpu) op None"

section \<open>Translated blocks\<close>

text \<open>
  A \<open>jit_cache\<close>: its code, the address it was translated from and, for each word of the
  block, the position of its code. The positions are kept in 16 bits. \<open>exec\<close> is a null pointer
  until the code is added to the runtime at the end of a translation.
\<close>

record 'd jit_cache =
  c_exec :: "'d insn list option"
  c_begin :: u32
  c_offset :: "u16 list"

text \<open>
  The static state of the translator beside the machine. The keys of \<open>jit_tables\<close> are the
  set of that name in the machine; \<open>caches\<close> gives their values, \<open>None\<close> being a null pointer.
  \<open>lens\<close> and \<open>bmi2\<close> stand for what the assembler library knows: the length of an instruction
  and a feature of the host.
\<close>

record 'd world =
  mach :: "'d machine"
  caches :: "u32 \<Rightarrow> 'd jit_cache option"

record 'd asmjit_env =
  lens :: "'d insn \<Rightarrow> nat"
  bmi2 :: bool
  odd_code :: "'d insn \<Rightarrow> ('d, unit) hostm"
  henv :: host_env

text \<open>The state of a translation: the emitter's, and the table of positions being filled.\<close>

record 'd jit_work =
  jit_of :: "'d jit"
  w_offset :: "u16 list"
  w_done :: "u32 list"

definition emit :: "('d, 'a) jitm \<Rightarrow> ('d jit_work, 'a) monad" where
  "emit m = lift_part jit_of (\<lambda>j w. w\<lparr>jit_of := j\<rparr>) m"

definition code_size :: "'d jit \<Rightarrow> nat" where
  "code_size j = sum_list (map (jlen j) (jcode j))"

text \<open>
  The entry of a block: jump to the position the table has for the index in the argument.
  Every entry starts as the position behind this jump.
\<close>

definition jit_jumptable :: "('d jit_work, unit) monad" where
  "jit_jumptable =
     seq (emit (asm [
       X_mov eax edi,
       X_mov rdx (Obj The_offsets),
       X_movzx rdx (Table RDX RAX)]))
    (seq (emit (bind (gets (\<lambda>j. code_size j + jlen j (X_lea rax (Rip 0)))) (\<lambda>n. asm [X_lea rax (Rip n)])))
    (seq (emit (bind (gets code_size) (\<lambda>bd. asm [
       X_lea rax (Indexed rax rdx 0 (- int bd)),
       X_jmp_reg rax])))
         (modify (\<lambda>w. w\<lparr>w_offset := replicate (length (w_offset w)) (of_nat (code_size (jit_of w)))\<rparr>))))"

text \<open>\<open>try m catch(JitError &) h\<close>.\<close>

definition catch_JitError :: "('s, 'a) monad \<Rightarrow> ('s, 'a) monad \<Rightarrow> ('s, 'a) monad" where
  "catch_JitError m h = (\<lambda>s. case m s of
      Ok a s' \<Rightarrow> Ok a s'
    | Raise e s' \<Rightarrow> (if e = JitError then h s' else Raise e s'))"

definition call_prologue :: "u32 \<Rightarrow> ('d, unit) jitm" where
  "call_prologue pc = asm [X_mov edi (Imm (uint pc)), X_call (c_addr op_prologue)]"

text \<open>\<open>cc->offset[(pc - cc->begin) >> 1] = as->offset()\<close>.\<close>

definition set_offset :: "u32 \<Rightarrow> u32 \<Rightarrow> ('d jit_work, unit) monad" where
  "set_offset base pc = (\<lambda>w. let i = unat (drop_bit 1 (pc - base)) in
     if i < length (w_offset w) then
       Ok () (w\<lparr>w_offset := (w_offset w)[i := of_nat (code_size (jit_of w))]\<rparr>)
     else Raise Undefined w)"

text \<open>One turn of the loop over the block; the result says whether the loop goes on.\<close>

definition compile_one :: "mpfr_lib option \<Rightarrow> u32 \<Rightarrow> ('d jit_work, bool) monad" where
  "compile_one fpu base =
     bind (emit jPC) (\<lambda>pc.
     bind (emit jFETCH) (\<lambda>op.
     catch_JitError
       (case jit_compile_op fpu op of
          Some h \<Rightarrow>
            seq (modify (\<lambda>w. w\<lparr>w_done := pc # w_done w\<rparr>))
           (seq (emit (bind (jump_label pc) (\<lambda>l. asm [X_bind l])))
           (seq (set_offset base pc)
           (seq (emit (seqs [call_prologue pc, h op, jit_postop]))
                (return True))))
        | None \<Rightarrow> seq (emit (call_prologue pc)) (return False))
       (seq (emit (seqs [call_prologue pc, asm [X_call (c_void ILLEGAL_OP)]]))
            (return True))))"

text \<open>The loop reads at least one word in each turn; \<open>n\<close> bounds the turns.\<close>

fun compile_loop :: "mpfr_lib option \<Rightarrow> u32 \<Rightarrow> u32 \<Rightarrow> nat \<Rightarrow> ('d jit_work, unit) monad" where
  "compile_loop fpu base lim 0 = throw Diverged"
| "compile_loop fpu base lim (Suc n) =
     bind (emit jPC) (\<lambda>pc.
     if pc < lim then bind (compile_one fpu base) (\<lambda>go. if go then compile_loop fpu base lim n else return ())
     else return ())"

text \<open>
  \<open>jumpMap\<close> after the loop that fills it, which does not end when adding 2 passes the last
  address without reaching \<open>end\<close>.
\<close>

definition block_labels :: "u32 \<Rightarrow> u32 \<Rightarrow> u32 \<Rightarrow> label option" where
  "block_labels base lim pc = (if base \<le> pc \<and> pc < lim \<and> \<not> bit_at (pc - base) 0 then Some (At_pc pc) else None)"

definition labels_loop_ends :: "u32 \<Rightarrow> u32 \<Rightarrow> bool" where
  "labels_loop_ends base lim \<longleftrightarrow> \<not> (base < lim \<and> lim = - 1 \<and> \<not> bit_at base 0)"

definition jit_compile :: "'d asmjit_env \<Rightarrow> mpfr_lib option \<Rightarrow> u32 \<Rightarrow> u32 \<Rightarrow> ('d world, unit) monad" where
  "jit_compile A fpu base len = (\<lambda>s.
     let lim = base + len; n = unat len div 2;
         m = mach s; old = PC (cpu m);
         j = \<lparr>jguest = m, jcode = [X_prolog, X_mov rbx (Obj The_cpu)], jlabels = 0, jmap = block_labels base lim,
              jbmi2 = bmi2 A, jlen = lens A\<rparr>;
         w = \<lparr>jit_of = j, w_offset = replicate n 0, w_done = []\<rparr>;
         work = seq jit_jumptable
               (seq (emit (on_guest (cmod (\<lambda>c. c\<lparr>PC := base\<rparr>))))
               (seq (compile_loop fpu base lim (n + 2))
               (seq (emit (on_guest (cmod (\<lambda>c. c\<lparr>PC := old\<rparr>))))
                    (emit (asm [X_bind End_lbl, X_epilog])))));
         store = (\<lambda>x w.
           let g = jguest (jit_of w); c = \<lparr>c_exec = x, c_begin = base, c_offset = w_offset w\<rparr> in
           s\<lparr>mach := g\<lparr>jit_tables := (\<lambda>pc. jit_tables g pc \<or> pc \<in> set (w_done w))\<rparr>,
             caches := (\<lambda>pc. if pc \<in> set (w_done w) then Some c else caches s pc)\<rparr>)
     in
     if \<not> labels_loop_ends base lim then Raise Diverged s
     else case work w of
         Ok _ w' \<Rightarrow> Ok () (store (Some (jcode (jit_of w'))) w')
       | Raise e w' \<Rightarrow> Raise e (store None w'))"

section \<open>Execution\<close>

fun drop_to :: "('d insn \<Rightarrow> nat) \<Rightarrow> nat \<Rightarrow> 'd insn list \<Rightarrow> 'd insn list option" where
  "drop_to len p [] = (if p = 0 then Some [] else None)"
| "drop_to len p (i # is) =
     (if p = 0 then Some (i # is) else if len i \<le> p then drop_to len (p - len i) is else None)"

text \<open>
  \<open>exec_code\<close> follows the jumps that leave a straight run: to a label anywhere in the code, or
  to a position. A loop of the guest is a loop here, so the number of such jumps is bounded by
  \<open>n\<close>.
\<close>

fun exec_code :: "'d asmjit_env \<Rightarrow> 'd insn list \<Rightarrow> nat \<Rightarrow> 'd insn list \<Rightarrow> ('d, unit) hostm" where
  "exec_code A full 0 is = throw Diverged"
| "exec_code A full (Suc n) is = bind (run (henv A) (odd_code A) is) (\<lambda>f. case f of
       On \<Rightarrow> return ()
     | To l \<Rightarrow> (case after l full of Some js \<Rightarrow> exec_code A full n js | None \<Rightarrow> throw Undefined)
     | Far a \<Rightarrow> (case drop_to (lens A) (unat (a - code_base (henv A))) full of
           Some js \<Rightarrow> exec_code A full n js | None \<Rightarrow> throw Undefined))"

text \<open>The host at the call of a block: the argument is in \<open>rdi\<close>, the rest is left open.\<close>

definition enter :: "'d asmjit_env \<Rightarrow> 'd jit_cache \<Rightarrow> u32 \<Rightarrow> 'd machine \<Rightarrow> 'd host" where
  "enter A c pc g =
     \<lparr>hregs = (junk_reg (henv A) 0)(RDI := ucast (drop_bit 1 (pc - c_begin c))), hpoints = (\<lambda>_. None),
      hflags = junk_flags (henv A) 0, hpushed = [], hframe = (\<lambda>_. 0), hoffsets = c_offset c,
      htesting = True, htick = 1, guest = g\<rparr>"

definition on_mach :: "('d, 'a) mach \<Rightarrow> ('d world, 'a) monad" where
  "on_mach m = lift_part mach (\<lambda>g s. s\<lparr>mach := g\<rparr>) m"

text \<open>\<open>jit_tables[pc]\<close> makes a null entry where there is none.\<close>

definition entry_of :: "u32 \<Rightarrow> ('d world, 'd jit_cache option) monad" where
  "entry_of pc = (\<lambda>s.
     if jit_tables (mach s) pc then Ok (caches s pc) s
     else Ok None (s\<lparr>mach := (mach s)\<lparr>jit_tables := (jit_tables (mach s))(pc := True)\<rparr>,
                     caches := (caches s)(pc := None)\<rparr>))"

definition run_cache :: "'d asmjit_env \<Rightarrow> nat \<Rightarrow> u32 \<Rightarrow> 'd jit_cache \<Rightarrow> ('d, unit) mach" where
  "run_cache A fuel pc c = (case c_exec c of
       None \<Rightarrow> throw Undefined
     | Some code \<Rightarrow> (\<lambda>g. case exec_code A code fuel code (enter A c pc g) of
           Ok _ h \<Rightarrow> Ok () (guest h)
         | Raise e h \<Rightarrow> Raise e (guest h)))"

text \<open>
  \<open>setjmp\<close> returns 1 when the guest raised an exception and 2 after \<open>stop_jit\<close>.
\<close>

definition set_inJit :: "bool \<Rightarrow> ('d, unit) mach" where
  "set_inJit b = cmod (\<lambda>c. c\<lparr>inJit := b\<rparr>)"

definition jit_run :: "'d asmjit_env \<Rightarrow> mpfr_lib option \<Rightarrow> nat \<Rightarrow> u32 \<Rightarrow> u32 \<Rightarrow> ('d world, unit) monad" where
  "jit_run A fpu fuel pc block =
     seq (on_mach (cmod (\<lambda>c. c\<lparr>PC := pc\<rparr>)))
    (bind (gets (\<lambda>s. jit_tables (mach s) pc)) (\<lambda>known.
     seq (whenM (\<not> known \<and> block = 0) (jit_compile A fpu pc block))
    (bind (entry_of pc) (\<lambda>e. case e of
       Some c \<Rightarrow> on_mach (seq (set_inJit True) (\<lambda>g. case run_cache A fuel pc c g of
           Ok _ g' \<Rightarrow> set_inJit False g'
         | Raise (JitLongjmp n) g' \<Rightarrow> seq (set_inJit False) (throw (M68kException n)) g'
         | Raise JitStop g' \<Rightarrow> set_inJit False g'
         | Raise x g' \<Rightarrow> Raise x g'))
     | None \<Rightarrow> on_mach (seq (set_inJit False) (run_op (map_option full_fpu fpu)))))))"

end
