(* ===== verification/JitSim.thy ===== *)
theory JitSim
  imports Jit Guards
begin

text \<open>
  Symbolic execution of translated code. One lemma per form of instruction says what running it
  does to the host, so that a stretch of code is run by rewriting; \<open>emits\<close> and \<open>code_of\<close> say what
  a translator appends. The operand readers of jit_ea.cc are shown to load what those of the
  interpreter read, for the addressing modes without extension words.
\<close>

unbundle bit_operations_syntax

section \<open>Widths\<close>

lemma zext_W [simp]:
  "zext W8 v = ucast (ucast v :: u8)" "zext W16 v = ucast (ucast v :: u16)"
  "zext W32 v = ucast (ucast v :: u32)" "zext W64 v = v"
  by (simp_all add: zext_def)

lemma sext_W [simp]:
  "sext W8 v = scast (ucast v :: u8)" "sext W16 v = scast (ucast v :: u16)"
  "sext W32 v = scast (ucast v :: u32)" "sext W64 v = v"
  by (simp_all add: sext_def)

lemma ucast_id_steps [simp]:
  "(ucast (ucast (b :: u8) :: u64) :: u8) = b"
  "(ucast (ucast (b :: u8) :: u32) :: u8) = b"
  "(ucast (ucast (w :: u16) :: u64) :: u16) = w"
  "(ucast (ucast (w :: u16) :: u32) :: u16) = w"
  "(ucast (ucast (l :: u32) :: u64) :: u32) = l"
  "(ucast (ucast (b :: u8) :: u64) :: u32) = ucast b"
  "(ucast (ucast (b :: u8) :: u64) :: u16) = ucast b"
  "(ucast (ucast (w :: u16) :: u64) :: u32) = ucast w"
  "(ucast (ucast (w :: u16) :: u64) :: u8) = ucast w"
  "(ucast (ucast (l :: u32) :: u64) :: u16) = ucast l"
  "(ucast (ucast (l :: u32) :: u64) :: u8) = ucast l"
  by (rule bit_word_eqI; simp add: bit_simps)+

lemma low_byte: "bit (255 :: u64) n \<longleftrightarrow> n < 8" "bit (65535 :: u64) n \<longleftrightarrow> n < 16"
proof -
  have "(255 :: u64) = mask 8" "(65535 :: u64) = mask 16"
    by (simp_all add: mask_eq_exp_minus_1)
  then have "bit (255 :: u64) n \<longleftrightarrow> bit (mask 8 :: u64) n" "bit (65535 :: u64) n \<longleftrightarrow> bit (mask 16 :: u64) n"
    by (simp_all only:)
  then show "bit (255 :: u64) n \<longleftrightarrow> n < 8" "bit (65535 :: u64) n \<longleftrightarrow> n < 16"
    by (auto simp only: bit_mask_iff) (simp_all)
qed

lemma byte_of_part:
  "ucast (old AND NOT 255 OR ucast (b :: u8) :: u64) = b"
  by (rule bit_word_eqI) (simp only: bit_simps low_byte, simp)

lemma half_of_part:
  "ucast (old AND NOT 65535 OR ucast (b :: u16) :: u64) = b"
  by (rule bit_word_eqI) (simp only: bit_simps low_byte, simp)

lemma put_part_reads [simp]:
  "(ucast (put_part W8 old v) :: u8) = ucast v"
  "(ucast (put_part W16 old v) :: u16) = ucast v"
  "put_part W32 old v = ucast (ucast v :: u32)"
  "put_part W64 old v = v"
  by (simp_all only: put_part_def width.case byte_of_part half_of_part)

lemma regno_bounds [simp]: "unat (r :: regno) < 8" "unat (r :: regno) < 16" "8 + unat r < 16"
proof -
  show "unat r < 8" using unsigned_less [of r] by simp
  then show "unat r < 16" "8 + unat r < 16" by simp_all
qed

lemma regno_wraps: "(of_nat (8 + unat r) :: regno) = r"
proof -
  have "(of_nat (8 + unat r) :: regno) = of_nat 8 + r"
    by simp
  also have "\<dots> = r" by simp
  finally show ?thesis .
qed

lemma reg_of_regno [simp]:
  "reg_of c (unat (r :: regno)) = Dn c r"
  "reg_of c (8 + unat r) = An c r"
  "set_reg_of (unat r) v c = c\<lparr>Dn := (Dn c)(r := v)\<rparr>"
  "set_reg_of (8 + unat r) v c = c\<lparr>An := (An c)(r := v)\<rparr>"
  by (simp_all only: reg_of_def set_reg_of_def regno_bounds regno_wraps) simp_all

section \<open>Fields of the host\<close>

definition with_cpu :: "cpu \<Rightarrow> 'd host \<Rightarrow> 'd host" where
  "with_cpu c h = h\<lparr>guest := (guest h)\<lparr>cpu := c\<rparr>\<rparr>"

lemma host_fields [simp]:
  "hregs (put_reg w r v h) = (hregs h)(r := put_part w (hregs h r) v)"
  "hflags (put_reg w r v h) = hflags h" "guest (put_reg w r v h) = guest h"
  "hregs (with_cpu c h) = hregs h" "hflags (with_cpu c h) = hflags h"
  "guest (with_cpu c h) = (guest h)\<lparr>cpu := c\<rparr>"
  "hregs (stk_put d v h) = hregs h" "hflags (stk_put d v h) = hflags h" "guest (stk_put d v h) = guest h"
  by (simp_all add: put_reg_def with_cpu_def stk_put_def Let_def)

lemma stk_fields [simp]:
  "stk_get d (stk_put d v h) = v" "stk_get d (put_reg w r x h) = stk_get d h"
  "stk_get d (with_cpu c h) = stk_get d h"
  by (simp_all add: stk_get_def stk_put_def put_reg_def with_cpu_def Let_def)

lemma put_bool_of_bool [simp]: "put_bool W8 (of_bool b) upd = Some (upd b)"
  by (cases b) (simp_all add: put_bool_def)

lemma put_bool_byte [simp]: "put_bool W8 (ucast (of_bool b :: u8)) upd = Some (upd b)"
  by (cases b) (simp_all add: put_bool_def)

lemma put_bool_bit [simp]: "put_bool W8 0 upd = Some (upd False)" "put_bool W8 1 upd = Some (upd True)"
  by (simp_all add: put_bool_def)

definition with_flags :: "xflags \<Rightarrow> 'd host \<Rightarrow> 'd host" where
  "with_flags g h = h\<lparr>hflags := g, htick := Suc (htick h)\<rparr>"

lemma with_flags_fields [simp]:
  "hregs (with_flags g h) = hregs h" "hflags (with_flags g h) = g" "guest (with_flags g h) = guest h"
  by (simp_all add: with_flags_def)

lemma points_kept [simp]:
  "hpoints (put_reg w r v h) = (hpoints h)(r := None)" "hpoints (with_cpu c h) = hpoints h"
  "hpoints (stk_put d v h) = hpoints h" "hpoints (with_flags g h) = hpoints h"
  by (simp_all add: put_reg_def with_cpu_def stk_put_def with_flags_def Let_def)

section \<open>Running straight code\<close>

lemma run_on: "step E X i h = Ok On h' \<Longrightarrow> run E X (i # is) h = run E X is h'"
  by simp

lemmas effect_defs = step_def step_valid_def on_def do_mov_def do_ext_def do_alu_def need_def rd_def wr_def
  undefs_def set_flags_def agree_def extends_def with_cpu_def

lemma run_mov_mem_reg:
  "field_put w f (zext w (hregs h r)) (cpu (guest h)) = Some c \<Longrightarrow>
   run E X (X_mov (Mem w f) (Reg w r) # is) h = run E X is (with_cpu c h)"
  by (rule run_on) (simp add: effect_defs)

lemma run_mov_mem_imm:
  "imm_fits w i \<Longrightarrow> field_put w f (zext w (word_of_int i)) (cpu (guest h)) = Some c \<Longrightarrow>
   run E X (X_mov (Mem w f) (Imm i) # is) h = run E X is (with_cpu c h)"
  by (rule run_on) (simp add: effect_defs)

lemma run_mov_reg_mem:
  "field_get w f (cpu (guest h)) = Some v \<Longrightarrow>
   run E X (X_mov (Reg w r) (Mem w f) # is) h = run E X is (put_reg w r v h)"
  by (rule run_on) (simp add: effect_defs)

lemma run_mov_reg_reg:
  "run E X (X_mov (Reg w r) (Reg w s) # is) h = run E X is (put_reg w r (zext w (hregs h s)) h)"
  by (rule run_on) (simp add: effect_defs)

lemma run_mov_reg_imm:
  "imm_fits w i \<Longrightarrow> run E X (X_mov (Reg w r) (Imm i) # is) h = run E X is (put_reg w r (zext w (word_of_int i)) h)"
  by (rule run_on) (simp add: effect_defs)

lemma run_mov_stk:
  "run E X (X_mov (Stk d) (Reg W64 r) # is) h = run E X is (stk_put d (hregs h r) h)"
  "run E X (X_mov (Reg W64 r) (Stk d) # is) h = run E X is (put_reg W64 r (stk_get d h) h)"
  by (rule run_on, simp add: effect_defs)+

lemma run_movzx_mem:
  "field_get w f (cpu (guest h)) = Some v \<Longrightarrow> w = W8 \<or> w = W16 \<Longrightarrow>
   run E X (X_movzx (Reg W32 r) (Mem w f) # is) h = run E X is (put_reg W32 r v h)"
  by (rule run_on) (auto simp: effect_defs)

lemma run_set:
  "field_put W8 f (of_bool (holds c (hflags h))) (cpu (guest h)) = Some k \<Longrightarrow>
   run E X (X_set c (Mem W8 f) # is) h = run E X is (with_cpu k h)"
  "run E X (X_set c (Reg W8 r) # is) h = run E X is (put_reg W8 r (of_bool (holds c (hflags h))) h)"
  by (rule run_on, simp add: effect_defs)+

declare run.simps(2) [simp del] imm_fits.simps [simp del]

lemmas run_steps = run_mov_mem_reg run_mov_mem_imm run_mov_reg_mem run_mov_reg_reg run_mov_reg_imm
  run_mov_stk run_movzx_mem run_set

definition at_pc :: "u32 \<Rightarrow> 'd machine \<Rightarrow> 'd machine" where
  "at_pc p g = g\<lparr>cpu := (cpu g)\<lparr>PC := p\<rparr>\<rparr>"

lemma update_pc_code:
  "update_pc j = Ok () (j\<lparr>jcode := jcode j @ [X_mov (Stk 8) rsi, X_mov esi (Imm (uint (PC (cpu (jguest j))))),
     X_mov c_pc esi, X_mov rsi (Stk 8)]\<rparr>)"
  by (simp add: update_pc_def jPC_def asm_def)

lemma imm32: "imm_fits W32 (uint (p :: u32))"
  using uint_lt2p [of p] order_trans [OF _ uint_ge_0 [of p], of "- 0x80000000"] by (simp add: imm_fits.simps)

lemma run_update_pc:
  "\<exists>h'. (\<forall>is. run E X ([X_mov (Stk 8) rsi, X_mov esi (Imm (uint p)), X_mov c_pc esi, X_mov rsi (Stk 8)] @ is) h = run E X is h') \<and>
     guest h' = at_pc p (guest h) \<and> hregs h' = hregs h \<and> hflags h' = hflags h"
proof -
  let ?h1 = "stk_put 8 (hregs h RSI) h"
  let ?h2 = "put_reg W32 RSI (zext W32 (word_of_int (uint p))) ?h1"
  let ?h3 = "with_cpu ((cpu (guest h))\<lparr>PC := p\<rparr>) ?h2"
  let ?h4 = "put_reg W64 RSI (stk_get 8 ?h3) ?h3"
  have "run E X ([X_mov (Stk 8) rsi, X_mov esi (Imm (uint p)), X_mov c_pc esi, X_mov rsi (Stk 8)] @ is) h = run E X is ?h4" for "is"
    by (simp add: run_steps imm32 c_pc_def field_put_def)
  moreover have "guest ?h4 = at_pc p (guest h)" "hregs ?h4 = hregs h" "hflags ?h4 = hflags h"
    by (auto simp: at_pc_def)
  ultimately show ?thesis by blast
qed

section \<open>More instructions\<close>

lemma run_alu_test_imm:
  "imm_fits w i \<Longrightarrow> alu_op A_test (junk_flags E (htick h)) (hflags h) w (zext w (hregs h r)) (zext w (word_of_int i)) = (v, g) \<Longrightarrow>
   run E X (X_alu A_test (Reg w r) (Imm i) # is) h = run E X is (with_flags g h)"
  by (rule run_on) (simp add: effect_defs with_flags_def)

lemma run_jump:
  "l \<noteq> No_label \<Longrightarrow> holds c (hflags h) \<Longrightarrow> after l is = Some js \<Longrightarrow> run E X (X_j c l # is) h = run E X js h"
  "l \<noteq> No_label \<Longrightarrow> \<not> holds c (hflags h) \<Longrightarrow> run E X (X_j c l # is) h = run E X is h"
  "l \<noteq> No_label \<Longrightarrow> run E X (X_bind l # is) h = run E X is h"
  by (simp_all add: run.simps(2) step_def step_valid_def bind_def)

lemma run_lea_field:
  "run E X (X_lea (Reg W64 r) (Field_addr f) # is) h =
   run E X is ((put_reg W64 r (host_addr E (Member f)) h)\<lparr>hpoints := (hpoints h)(r := Some (Member f))\<rparr>)"
  by (rule run_on) (simp add: step_def step_valid_def on_def do_lea_def lea_ok_def wr_def point_def put_reg_def)

lemma run_mov_deref:
  "hpoints h s = Some (Member f) \<Longrightarrow> field_get w f (cpu (guest h)) = Some v \<Longrightarrow>
   run E X (X_mov (Reg w r) (Deref w s) # is) h = run E X is (put_reg w r v h)"
  "hpoints h s = Some (Member f) \<Longrightarrow> imm_fits w i \<Longrightarrow> field_put w f (zext w (word_of_int i)) (cpu (guest h)) = Some c \<Longrightarrow>
   run E X (X_mov (Deref w s) (Imm i) # is) h = run E X is (with_cpu c h)"
  by (rule run_on, simp add: effect_defs)+

lemma run_call_void:
  "run E X (X_call (c_void m) # is) h = (case m (guest h) of
       Ok _ g \<Rightarrow> run E X is (clobber E (h\<lparr>guest := g\<rparr>)) | Raise e g \<Rightarrow> Raise e (h\<lparr>guest := g\<rparr>))"
  "run E X (X_call (c_addr f) # is) h = (case f (ucast (hregs h RDI)) (guest h) of
       Ok _ g \<Rightarrow> run E X is (clobber E (h\<lparr>guest := g\<rparr>)) | Raise e g \<Rightarrow> Raise e (h\<lparr>guest := g\<rparr>))"
  by (simp_all add: run.simps(2) step_def step_valid_def on_def c_void_def c_addr_def call_with_def pass_def bind_def
      split: outcome.splits)

lemma imm_bits: "imm_fits W8 0" "imm_fits W8 1" by (simp_all add: imm_fits.simps)

lemma run_alu_reg:
  "w \<noteq> W64 \<Longrightarrow> field_get w f (cpu (guest h)) = Some y \<Longrightarrow>
   alu_op k (junk_flags E (htick h)) (hflags h) w (zext w (hregs h r)) y = (v, g) \<Longrightarrow> k \<noteq> A_cmp \<Longrightarrow> k \<noteq> A_test \<Longrightarrow>
   run E X (X_alu k (Reg w r) (Mem w f) # is) h = run E X is (with_flags g (put_reg w r v h))"
  "alu_op k (junk_flags E (htick h)) (hflags h) w (zext w (hregs h r)) (zext w (hregs h s)) = (v, g) \<Longrightarrow>
   k \<noteq> A_cmp \<Longrightarrow> k \<noteq> A_test \<Longrightarrow>
   run E X (X_alu k (Reg w r) (Reg w s) # is) h = run E X is (with_flags g (put_reg w r v h))"
  "alu_op A_test (junk_flags E (htick h)) (hflags h) w (zext w (hregs h r)) (zext w (hregs h s)) = (v, g) \<Longrightarrow>
   run E X (X_alu A_test (Reg w r) (Reg w s) # is) h = run E X is (with_flags g h)"
  by (rule run_on, simp add: effect_defs with_flags_def put_reg_def)+

lemma run_un:
  "un_op k (hflags h) w (zext w (hregs h r)) = (v, g) \<Longrightarrow>
   run E X (X_un k (Reg w r) # is) h = run E X is ((put_reg w r v h)\<lparr>hflags := g\<rparr>)"
  by (rule run_on) (simp add: effect_defs put_reg_def do_un_def)

lemma run_call_write:
  "run E X (X_call (c_writeB WriteB) # is) h = (case WriteB (ucast (hregs h RDI)) (ucast (hregs h RSI)) (guest h) of
       Ok _ g \<Rightarrow> run E X is (clobber E (h\<lparr>guest := g\<rparr>))
     | Raise e g \<Rightarrow> Raise e (h\<lparr>guest := g\<rparr>))"
  by (simp add: run.simps(2) step_def step_valid_def on_def c_writeB_def call_with_def pass_def bind_def split: outcome.splits)

lemma run_test_mem_imm:
  "field_get w f (cpu (guest h)) = Some x \<Longrightarrow> imm_fits w i \<Longrightarrow>
   alu_op A_test (junk_flags E (htick h)) (hflags h) w x (zext w (word_of_int i)) = (v, g) \<Longrightarrow>
   run E X (X_alu A_test (Mem w f) (Imm i) # is) h = run E X is (with_flags g h)"
  by (rule run_on) (simp add: effect_defs with_flags_def)

lemma run_movsx_mem:
  "field_get v f (cpu (guest h)) = Some x \<Longrightarrow> v = W8 \<or> v = W16 \<Longrightarrow> bits_of v < bits_of w \<Longrightarrow>
   run E X (X_movsx (Reg w r) (Mem v f) # is) h = run E X is (put_reg w r (sext v x) h)"
  by (rule run_on) (auto simp: effect_defs)

lemma run_movsx_reg:
  "v = W8 \<or> v = W16 \<Longrightarrow> bits_of v < bits_of w \<Longrightarrow>
   run E X (X_movsx (Reg w r) (Reg v s) # is) h = run E X is (put_reg w r (sext v (zext v (hregs h s))) h)"
  by (rule run_on) (auto simp: effect_defs)

lemma run_alu_reg_imm:
  "imm_fits w i \<Longrightarrow> alu_op k (junk_flags E (htick h)) (hflags h) w (zext w (hregs h r)) (zext w (word_of_int i)) = (v, g) \<Longrightarrow>
   k \<noteq> A_cmp \<Longrightarrow> k \<noteq> A_test \<Longrightarrow>
   run E X (X_alu k (Reg w r) (Imm i) # is) h = run E X is (with_flags g (put_reg w r v h))"
  by (rule run_on) (simp add: effect_defs with_flags_def put_reg_def)

lemma imm_zero: "imm_fits w 0"
  by (cases w) (simp_all add: imm_fits.simps)

lemma run_xchg:
  "field_get w f (cpu (guest h)) = Some x \<Longrightarrow> field_put w f (zext w (hregs h r)) (cpu (guest h)) = Some c \<Longrightarrow>
   run E X (X_xchg (Mem w f) (Reg w r) # is) h = run E X is (put_reg w r x (with_cpu c h))"
  by (rule run_on) (simp add: effect_defs do_xchg_def)

lemma imm_byte: "imm_fits W8 (uint (v AND 255 :: u16))"
proof -
  have "uint (v AND 255) \<le> uint (255 :: u16)"
    by (simp only: word_le_def [symmetric] word_and_le1)
  moreover have "- 128 \<le> uint (v AND 255)"
    by (rule order_trans [OF _ uint_ge_0]) simp
  ultimately show ?thesis by (simp add: imm_fits.simps)
qed

lemma narrow_sext:
  "(ucast (scast (b :: u8) :: u64) :: u16) = scast b" "(ucast (scast b :: u64) :: u32) = scast b"
  "(ucast (scast (w :: u16) :: u64) :: u32) = scast w"
  by (rule bit_word_eqI; auto simp: bit_simps min_def)+

lemma mask_255: "(255 :: u16) = mask 8" "(255 :: u32) = mask 8"
  by (simp_all add: mask_eq_exp_minus_1)

lemma low_byte_mask: "(ucast (v AND 255 :: u16) :: u8) = ucast v" "(ucast (l AND 255 :: u32) :: u8) = ucast l"
  by (simp_all only: mask_255) (rule bit_word_eqI; simp add: bit_simps)+

lemma imm_word: "(word_of_int (uint v) :: u64) = ucast v" for v :: u16
  by simp

lemma run_cwde:
  "run E X (X_cwde # is) h = run E X is (put_reg W32 RAX (sext W16 (hregs h RAX)) h)"
  by (rule run_on) (simp add: effect_defs put_reg_def)

section \<open>Concatenation\<close>

text \<open>Code without jumps runs to its end, or raises.\<close>

fun straight :: "'d insn \<Rightarrow> bool" where
  "straight (X_j c l) = False"
| "straight (X_jmp l) = False"
| "straight (X_jmp_reg s) = False"
| "straight _ = True"

lemma on_Ok: "on m h = Ok f h' \<Longrightarrow> f = On"
  by (auto simp: on_def seq_def bind_def split: outcome.splits)

lemma step_straight: "straight i \<Longrightarrow> step E X i h = Ok f h' \<Longrightarrow> f = On"
  by (cases i) (auto simp: step_def step_valid_def dest: on_Ok split: if_splits)

lemma run_append:
  "list_all straight c \<Longrightarrow> run E X (c @ d) h = bind (run E X c) (\<lambda>_. run E X d) h"
proof (induction c arbitrary: h)
  case (Cons i c)
  then show ?case
    using step_straight [of i E X h] by (auto simp: run.simps(2) bind_def split: outcome.splits)
qed simp

section \<open>Emission\<close>

definition emits :: "('d, unit) jitm \<Rightarrow> u32 \<Rightarrow> 'd insn list \<Rightarrow> bool" where
  "emits m p c \<longleftrightarrow> (\<forall>j. PC (cpu (jguest j)) = p \<longrightarrow> m j = Ok () (j\<lparr>jcode := jcode j @ c\<rparr>))"

lemma emits_asm: "emits (asm c) p c"
  by (simp add: emits_def asm_def)

definition code_of :: "('d, unit) jitm \<Rightarrow> 'd jit \<Rightarrow> 'd insn list" where
  "code_of m j = drop (length (jcode j)) (jcode (state_of (m j)))"

lemma code_of_emits: "emits m p c \<Longrightarrow> PC (cpu (jguest j)) = p \<Longrightarrow> code_of m j = c"
  by (simp add: emits_def code_of_def)

section \<open>Arithmetic\<close>

lemma run_alu_mem:
  "field_get w f (cpu (guest h)) = Some x \<Longrightarrow>
   alu_op k (junk_flags E (htick h)) (hflags h) w x (zext w (hregs h r)) = (v, g) \<Longrightarrow>
   field_put w f v (cpu (guest h)) = Some c \<Longrightarrow> k \<noteq> A_cmp \<Longrightarrow> k \<noteq> A_test \<Longrightarrow>
   run E X (X_alu k (Mem w f) (Reg w r) # is) h = run E X is (with_flags g (with_cpu c h))"
  by (rule run_on) (simp add: effect_defs with_flags_def)

lemma run_cmp_mem:
  "field_get w f (cpu (guest h)) = Some x \<Longrightarrow>
   alu_op A_cmp (junk_flags E (htick h)) (hflags h) w x (zext w (hregs h r)) = (v, g) \<Longrightarrow>
   run E X (X_alu A_cmp (Mem w f) (Reg w r) # is) h = run E X is (with_flags g h)"
  by (rule run_on) (simp add: effect_defs with_flags_def)

lemma signed_overflow:
  "sint (a + b) \<noteq> sint a + sint b \<longleftrightarrow>
     sint a + sint b < - (2 ^ (LENGTH('a) - 1)) \<or> 2 ^ (LENGTH('a) - 1) \<le> sint a + sint b"
  "sint (a - b) \<noteq> sint a - sint b \<longleftrightarrow>
     sint a - sint b < - (2 ^ (LENGTH('a) - 1)) \<or> 2 ^ (LENGTH('a) - 1) \<le> sint a - sint b"
  for a b :: "'a::len word"
  by (auto simp: sint_word_ariths signed_take_bit_int_eq_self_iff)

lemma x86_sum:
  "sum_word False a b = (a + b, \<lparr>cf = 2 ^ LENGTH('a) \<le> uint a + uint b, zf = (a + b = 0), sf = neg (a + b),
     ovf = (sint a + sint b < - (2 ^ (LENGTH('a) - 1)) \<or> 2 ^ (LENGTH('a) - 1) \<le> sint a + sint b),
     af = 16 \<le> uint (a AND 15) + uint (b AND 15)\<rparr>)" for a b :: "'a::len word"
  using signed_overflow(1) [of a b] by (simp add: sum_word_def Let_def)

lemma x86_diff:
  "diff_word False a b = (a - b, \<lparr>cf = uint a < uint b, zf = (a = b), sf = neg (a - b),
     ovf = (sint a - sint b < - (2 ^ (LENGTH('a) - 1)) \<or> 2 ^ (LENGTH('a) - 1) \<le> sint a - sint b),
     af = uint (a AND 15) < uint (b AND 15)\<rparr>)" for a b :: "'a::len word"
  using signed_overflow(2) [of a b] by (simp add: diff_word_def Let_def)

section \<open>Reading an operand\<close>

text \<open>
  A stretch of straight code that computes what the program \<open>m\<close> of the interpreter computes,
  with the value left in \<open>rax\<close> in the sense of \<open>P\<close>.
\<close>

definition loads :: "host_env \<Rightarrow> ('d insn \<Rightarrow> ('d, unit) hostm) \<Rightarrow> 'd insn list \<Rightarrow> ('d, 'a) mach \<Rightarrow>
    (u64 \<Rightarrow> 'a \<Rightarrow> bool) \<Rightarrow> 'd host \<Rightarrow> bool" where
  "loads E X c m P h = (case m (guest h) of
       Ok v g \<Rightarrow> \<exists>h'. (\<forall>is. run E X (c @ is) h = run E X is h') \<and> guest h' = g \<and> P (hregs h' RAX) v
     | Raise e g \<Rightarrow> \<exists>h'. (\<forall>is. run E X (c @ is) h = Raise e h') \<and> guest h' = g)"

lemma run_call_read:
  "run E X (X_call (c_readL ReadL) # is) h = (case ReadL (ucast (hregs h RDI)) (guest h) of
       Ok v g \<Rightarrow> run E X is (put_reg W32 RAX (ucast v) (clobber E (h\<lparr>guest := g\<rparr>)))
     | Raise e g \<Rightarrow> Raise e (h\<lparr>guest := g\<rparr>))"
  "run E X (X_call (c_readW ReadW) # is) h = (case ReadW (ucast (hregs h RDI)) (guest h) of
       Ok v g \<Rightarrow> run E X is (put_reg W16 RAX (ucast v) (clobber E (h\<lparr>guest := g\<rparr>)))
     | Raise e g \<Rightarrow> Raise e (h\<lparr>guest := g\<rparr>))"
  "run E X (X_call (c_readB ReadB) # is) h = (case ReadB (ucast (hregs h RDI)) (guest h) of
       Ok v g \<Rightarrow> run E X is (put_reg W8 RAX (ucast v) (clobber E (h\<lparr>guest := g\<rparr>)))
     | Raise e g \<Rightarrow> Raise e (h\<lparr>guest := g\<rparr>))"
  by (simp_all add: run.simps(2) step_def step_valid_def on_def c_readL_def c_readW_def c_readB_def call_with_def bind_def
      split: outcome.splits)

lemma guest_parts [simp]: "guest (clobber E h) = guest h"
  by (simp add: clobber_def)

section \<open>Effective addresses without extension words\<close>

definition addr_code :: "regno \<Rightarrow> regno \<Rightarrow> int \<Rightarrow> 'd insn list" where
  "addr_code ty reg sz = (let r = unat reg in
     (if ty = 2 then [X_mov esi (AR_L r)]
      else if ty = 3 then [X_mov esi (AR_L r), X_lea eax (Based esi (stack_sz reg sz)), X_mov (AR_L r) eax]
      else [x_sub (AR_L r) (Imm (stack_sz reg sz)), X_mov esi (AR_L r)])
     @ [X_mov edi esi, X_mov EA_m esi])"

lemma emits_getaddr: "ty \<in> {2, 3, 4} \<Longrightarrow> emits (ea_getaddr_jit ty reg sz) p (addr_code ty reg sz)"
  by (auto simp: emits_def ea_getaddr_jit_def addr_code_def asm_def seq_def Let_def)

lemma run_lea:
  "run E X (X_lea (Reg W32 r) (Based (Reg W32 s) i) # is) h =
   run E X is (put_reg W32 r (zext W32 (zext W32 (hregs h s) + word_of_int i)) h)"
  by (rule run_on) (simp add: step_def step_valid_def on_def do_lea_def lea_ok_def rd_def wr_def)

lemma run_alu_mem_imm:
  "field_get w f (cpu (guest h)) = Some x \<Longrightarrow> imm_fits w i \<Longrightarrow>
   alu_op k (junk_flags E (htick h)) (hflags h) w x (zext w (word_of_int i)) = (v, g) \<Longrightarrow>
   field_put w f v (cpu (guest h)) = Some c \<Longrightarrow> k \<noteq> A_cmp \<Longrightarrow> k \<noteq> A_test \<Longrightarrow>
   run E X (X_alu k (Mem w f) (Imm i) # is) h = run E X is (with_flags g (with_cpu c h))"
  by (rule run_on) (simp add: effect_defs with_flags_def)

lemma low_sum: "(ucast (x + y) :: u32) = ucast x + ucast y" for x y :: u64
  by (rule word_uint_eqI)
    (simp add: uint_word_ariths unsigned_ucast_eq take_bit_eq_mod mod_mod_cancel mod_add_eq)

lemma low_of_int: "(ucast (word_of_int i :: u64) :: u32) = word_of_int i"
  by transfer (simp add: take_bit_take_bit)

lemma small_imm: "i \<in> {1, 2, 4, 8, 12} \<Longrightarrow> imm_fits W32 i"
  by (auto simp: imm_fits.simps)

lemma stack_sz_cases: "sz \<in> {1, 2, 4} \<Longrightarrow> stack_sz reg sz \<in> {1, 2, 4, 8, 12}"
  by (auto simp: stack_sz_def)

lemma stack_sizes: "sz \<in> {1, 2, 4} \<Longrightarrow> (word_of_int (stack_sz reg (uint sz)) :: u32) = stack_size reg sz"
  by (auto simp: stack_sz_def stack_size_def)

lemma run_addr:
  assumes "ty \<in> {2, 3, 4}" "sz \<in> {1, 2, 4}"
  shows "\<exists>h'. (\<forall>is. run E X (addr_code ty reg (uint (sz :: u32)) @ is) h = run E X is h') \<and>
     bind (ea_getaddr ty reg sz) (\<lambda>a. seq (set_EA a) (return a)) (guest h) =
       Ok (ucast (hregs h' RDI)) (guest h') \<and> bus_lock (cpu (guest h')) = bus_lock (cpu (guest h))"
proof -
  let ?a = "An (cpu (guest h)) reg" and ?k = "stack_sz reg (uint sz)"
  have k: "imm_fits W32 ?k"
    using assms(2) by (intro small_imm stack_sz_cases) auto
  have "ty = 2 \<or> ty = 3 \<or> ty = 4" using assms(1) by simp
  then show ?thesis
  proof (elim disjE)
    assume ty: "ty = 2"
    show ?thesis
      by (rule exI, rule conjI, rule allI, simp add: addr_code_def Let_def ty run_steps operand_defs field_get_def field_put_def,
          simp add: ty ea_getaddr_def reg_defs set_EA_def)
  next
    assume ty: "ty = 3"
    show ?thesis
      apply (rule exI, rule conjI, rule allI)
      apply (simp add: addr_code_def Let_def ty run_steps run_lea operand_defs field_get_def field_put_def)
      apply (simp add: ty ea_getaddr_def reg_defs set_EA_def low_sum low_of_int stack_sizes [OF assms(2)])
      done
  next
    assume ty: "ty = 4"
    show ?thesis
      apply (rule exI, rule conjI, rule allI)
      apply (simp add: addr_code_def Let_def ty run_steps run_alu_mem_imm [OF _ k] operand_defs field_get_def field_put_def
        alu_op_def at_width_def alu_word_def x86_diff)
      apply (simp add: ty ea_getaddr_def reg_defs set_EA_def low_sum low_of_int stack_sizes [OF assms(2)])
      done
  qed
qed

lemma set_lock_unlocked: "\<not> bus_lock (cpu g) \<Longrightarrow> set_lock False g = Ok () g"
  by (simp add: set_lock_def)

definition readL_code :: "regno \<Rightarrow> regno \<Rightarrow> 'd insn list" where
  "readL_code ty reg = (if ty = 0 then [X_mov eax (DR_L (unat reg))]
     else addr_code ty reg 4 @ [X_call (c_readL ReadL)])"

definition readW_code :: "regno \<Rightarrow> regno \<Rightarrow> 'd insn list" where
  "readW_code ty reg = (if ty = 0 then [X_movzx eax (DR_W (unat reg))]
     else addr_code ty reg 2 @ [X_call (c_readW ReadW)])"

definition readB_code :: "regno \<Rightarrow> regno \<Rightarrow> 'd insn list" where
  "readB_code ty reg = (if ty = 0 then [X_movzx eax (DR_B (unat reg))]
     else addr_code ty reg 1 @ [X_call (c_readB ReadB)])"

lemma emits_getaddr_run:
  "ty \<in> {2, 3, 4} \<Longrightarrow> PC (cpu (jguest j)) = p \<Longrightarrow>
   ea_getaddr_jit ty reg sz j = Ok () (j\<lparr>jcode := jcode j @ addr_code ty reg sz\<rparr>)"
  by (rule emits_getaddr [unfolded emits_def, rule_format])

lemma emits_reads:
  assumes "ty \<in> {0, 2, 3, 4}"
  shows "emits (ea_readL_jit ty reg False) p (readL_code ty reg)"
    "emits (ea_readW_jit ty reg False) p (readW_code ty reg)"
    "emits (ea_readB_jit ty reg False) p (readB_code ty reg)"
  using assms by (auto simp: emits_def ea_readL_jit_def ea_readW_jit_def ea_readB_jit_def readL_code_def
      readW_code_def readB_code_def emits_getaddr_run asm_def jit_lock_def jit_readL_def jit_readW_def
      jit_readB_def seq_def)

lemma loads_memory:
  assumes "ty \<in> {2, 3, 4}" "sz \<in> {1, 2, 4}" "\<not> bus_lock (cpu (guest h))"
    and call: "\<And>is h. run E X (f # is) h = (case rdm (ucast (hregs h RDI)) (guest h) of
       Ok v g \<Rightarrow> run E X is (put_reg w RAX (ucast v) (clobber E (h\<lparr>guest := g\<rparr>)))
     | Raise e g \<Rightarrow> Raise e (h\<lparr>guest := g\<rparr>))"
    and P: "\<And>old v. P (put_part w old (ucast v)) v"
  shows "loads E X (addr_code ty reg (uint (sz :: u32)) @ [f])
     (bind (ea_getaddr ty reg sz) (\<lambda>a. seq (set_EA a) (seq (set_lock False) (rdm a)))) P h"
proof -
  obtain h' where h': "\<And>is. run E X (addr_code ty reg (uint sz) @ is) h = run E X is h'"
    "bind (ea_getaddr ty reg sz) (\<lambda>a. seq (set_EA a) (return a)) (guest h) = Ok (ucast (hregs h' RDI)) (guest h')"
    "bus_lock (cpu (guest h')) = bus_lock (cpu (guest h))"
    using run_addr [OF assms(1,2)] by blast
  have "bind (ea_getaddr ty reg sz) (\<lambda>a. seq (set_EA a) (seq (set_lock False) (rdm a))) (guest h) =
      rdm (ucast (hregs h' RDI)) (guest h')"
    using h'(2,3) assms(3) by (auto simp: bind_def seq_def set_EA_def set_lock_unlocked split: outcome.splits)
  then show ?thesis
    by (auto simp: loads_def h'(1) call P split: outcome.splits)
qed

lemma low_word: "(ucast (v AND 65535) :: u16) = ucast v" for v :: u32
proof -
  have "(65535 :: u32) = mask 16"
    by (simp add: mask_eq_exp_minus_1)
  then have "v AND 65535 = v AND mask 16"
    by (simp only:)
  moreover have "(ucast (v AND mask 16) :: u16) = ucast v"
    by (rule bit_word_eqI) (simp add: bit_simps)
  ultimately show ?thesis
    by (simp only:)
qed

lemma widen_twice: "(ucast (ucast (w :: u16) :: u32) :: u64) = ucast w"
  by (rule bit_word_eqI) (auto simp: bit_simps dest: bit_imp_le_length)

lemma run_call_readW:
  "run E X (X_call (c_readW ReadW) # is) h =
     (case bind (ReadW (ucast (hregs h RDI))) (\<lambda>w. return (ucast w :: u32)) (guest h) of
       Ok v g \<Rightarrow> run E X is (put_reg W16 RAX (ucast v) (clobber E (h\<lparr>guest := g\<rparr>)))
     | Raise e g \<Rightarrow> Raise e (h\<lparr>guest := g\<rparr>))"
  by (simp add: run_call_read(2) bind_def widen_twice return_def split: outcome.splits)

lemma loads_ea:
  assumes "ty \<in> {0, 2, 3, 4}" "\<not> bus_lock (cpu (guest h))"
  shows "loads E X (readL_code ty reg) (ea_readL ty reg False) (\<lambda>r v. (ucast r :: u32) = v) h"
    "loads E X (readW_code ty reg) (ea_readW ty reg False) (\<lambda>r v. (ucast r :: u16) = ucast v) h"
    "loads E X (readB_code ty reg) (ea_readB ty reg False) (\<lambda>r v. (ucast r :: u8) = v) h"
proof -
  have "ty = 0 \<or> ty \<in> {2, 3, 4}" using assms(1) by auto
  then have "loads E X (readL_code ty reg) (ea_readL ty reg False) (\<lambda>r v. (ucast r :: u32) = v) h
    \<and> loads E X (readW_code ty reg) (ea_readW ty reg False) (\<lambda>r v. (ucast r :: u16) = ucast v) h
    \<and> loads E X (readB_code ty reg) (ea_readB ty reg False) (\<lambda>r v. (ucast r :: u8) = v) h"
  proof
    assume "ty = 0"
    then show ?thesis
      by (auto simp: loads_def readL_code_def ea_readL_def readW_code_def ea_readW_def readB_code_def ea_readB_def
          reg_defs operand_defs run_steps field_get_def low_word intro!: exI)
  next
    assume ty: "ty \<in> {2, 3, 4}"
    then have n: "ty \<noteq> 0" "ty \<noteq> 1" "ty \<noteq> 7" by auto
    show ?thesis
      using loads_memory [OF ty _ assms(2) run_call_read(1), of 4 "\<lambda>r v. (ucast r :: u32) = v"]
        loads_memory [OF ty _ assms(2) run_call_read(3), of 1 "\<lambda>r v. (ucast r :: u8) = v"]
        loads_memory [OF ty _ assms(2) run_call_readW, of 2 "\<lambda>r v. (ucast r :: u16) = ucast v"]
      by (simp add: n readL_code_def readW_code_def readB_code_def ea_readL_def ea_readW_def ea_readB_def return_def)
  qed
  then show "loads E X (readL_code ty reg) (ea_readL ty reg False) (\<lambda>r v. (ucast r :: u32) = v) h"
    "loads E X (readW_code ty reg) (ea_readW ty reg False) (\<lambda>r v. (ucast r :: u16) = ucast v) h"
    "loads E X (readB_code ty reg) (ea_readB ty reg False) (\<lambda>r v. (ucast r :: u8) = v) h"
    by blast+
qed

end
