(* ===== verification/JitStep.thy ===== *)
theory JitStep
  imports JitSim
begin

text \<open>
  The arithmetic of a data register with an operand: the code of the translators does what the
  handlers of the interpreter do, faults of the operand included, first for the instruction alone,
  then with what \<open>jit_compile\<close> puts around it: \<open>op_prologue\<close> before and the trace check after it.
\<close>

unbundle bit_operations_syntax

section \<open>Operations on a data register\<close>

lemma on_bus_keeps_Dn: "keeps (\<lambda>s. Dn (cpu s) = d) (\<lambda>_. True) (on_bus m)"
  unfolding on_bus_def
  by (rule keeps_lift_part [where J = "\<lambda>_. True"]) (auto simp: keeps_def split: outcome.split)

lemma on_io_keeps_Dn: "keeps (\<lambda>s. Dn (cpu s) = d) (\<lambda>_. True) (on_io f)"
  unfolding on_io_def by (intro keeps_intro on_bus_keeps_Dn)

interpretation data_same: guest_memory "\<lambda>s :: 'd machine. Dn (cpu s) = d" "\<lambda>_. True" for d
  by unfold_locales (auto simp: on_bus_keeps_Dn on_io_keeps_Dn atc_mod_def intro!: keeps_modify)

lemma cmod_keeps_Dn: "(\<And>c. Dn (f c) = Dn c) \<Longrightarrow> keeps (\<lambda>s. Dn (cpu s) = d) (\<lambda>_. True) (cmod f)"
  unfolding cmod_def by (rule keeps_modify) simp

lemma cget_keeps_Dn: "keeps (\<lambda>s. Dn (cpu s) = d) (\<lambda>_. True) (cget f)"
  unfolding cget_def by (rule keeps_gets)

lemma faulting_keeps_Dn:
  "keeps (\<lambda>s. Dn (cpu s) = d) (\<lambda>_. True) m \<Longrightarrow> keeps (\<lambda>s. Dn (cpu s) = d) (\<lambda>_. True) (faulting a sz rw tm tt m)"
  unfolding faulting_def ACCESS_FAULT_def RAISE_def
  by (intro keeps_intro cmod_keeps_Dn cget_keeps_Dn; simp)

lemma reads_keep_Dn:
  "keeps (\<lambda>s. Dn (cpu s) = d) (\<lambda>_. True) (ReadB a)"
  "keeps (\<lambda>s. Dn (cpu s) = d) (\<lambda>_. True) (ReadW a)"
  "keeps (\<lambda>s. Dn (cpu s) = d) (\<lambda>_. True) (ReadL a)"
  unfolding ReadB_def ReadW_def ReadL_def
  by (intro faulting_keeps_Dn keeps_bind cget_keeps_Dn data_same.access_keeps)+

lemma ea_reads_keep_Dn:
  assumes "ty \<in> {0, 2, 3, 4}"
  shows "keeps (\<lambda>s. Dn (cpu s) = d) (\<lambda>_. True) (ea_readB ty reg lk)"
    "keeps (\<lambda>s. Dn (cpu s) = d) (\<lambda>_. True) (ea_readW ty reg lk)"
    "keeps (\<lambda>s. Dn (cpu s) = d) (\<lambda>_. True) (ea_readL ty reg lk)"
proof -
  have "ty = 0 \<or> ty = 2 \<or> ty = 3 \<or> ty = 4"
    using assms by simp
  then show "keeps (\<lambda>s. Dn (cpu s) = d) (\<lambda>_. True) (ea_readB ty reg lk)"
    "keeps (\<lambda>s. Dn (cpu s) = d) (\<lambda>_. True) (ea_readW ty reg lk)"
    "keeps (\<lambda>s. Dn (cpu s) = d) (\<lambda>_. True) (ea_readL ty reg lk)"
    unfolding ea_readB_def ea_readW_def ea_readL_def ea_getaddr_def set_EA_def set_lock_def reg_defs
    by (elim disjE; simp; intro keeps_bind keeps_seq keeps_return reads_keep_Dn cmod_keeps_Dn cget_keeps_Dn; simp)+
qed

lemma getD_later:
  assumes "\<And>d. keeps (\<lambda>s. Dn (cpu s) = d) (\<lambda>_. True) m"
  shows "bind (getD r) (\<lambda>d. bind m (\<lambda>v. t d v)) s = bind m (\<lambda>v. bind (getD r) (\<lambda>d. t d v)) s"
proof (cases "m s")
  case (Ok v s')
  then have "Dn (cpu s') = Dn (cpu s)"
    using keeps_Ok [OF assms Ok] by blast
  then show ?thesis
    by (simp add: Ok bind_def reg_defs)
qed (simp add: bind_def reg_defs)

text \<open>
  What it means that code does what a program of the interpreter does: the same exception in the
  same machine, or the same machine up to the program counter, which becomes \<open>p\<close>.
\<close>

definition same_effect :: "u32 \<Rightarrow> ('d host, flow) outcome \<Rightarrow> ('d machine, unit) outcome \<Rightarrow> bool" where
  "same_effect p r q = (case (r, q) of
       (Ok f h, Ok _ g) \<Rightarrow> f = On \<and> guest h = at_pc p g
     | (Raise e h, Raise e' g) \<Rightarrow> e = e' \<and> guest h = g
     | _ \<Rightarrow> False)"

definition pc_code :: "u32 \<Rightarrow> 'd insn list" where
  "pc_code p = [X_mov (Stk 8) rsi, X_mov esi (Imm (uint p)), X_mov c_pc esi, X_mov rsi (Stk 8)]"

lemma same_effect_load:
  assumes "loads E X c m P h"
    and tail: "\<And>v g h'. P (hregs h' RAX) v \<Longrightarrow> guest h' = at_pc p g \<Longrightarrow>
      same_effect p (run E X d h') (t v g)"
  shows "same_effect p (run E X (c @ pc_code p @ d) h) (bind m t (guest h))"
proof (cases "m (guest h)")
  case (Ok v g)
  then obtain h1 where h1: "\<And>is. run E X (c @ is) h = run E X is h1" "guest h1 = g" "P (hregs h1 RAX) v"
    using assms(1) by (auto simp: loads_def)
  obtain h2 where "\<And>is. run E X (pc_code p @ is) h1 = run E X is h2" "guest h2 = at_pc p (guest h1)" "hregs h2 = hregs h1"
    using run_update_pc [of E X p h1] unfolding pc_code_def by blast
  then show ?thesis
    using Ok h1 tail [of h2 v g] by (simp add: bind_def)
next
  case (Raise e g)
  then show ?thesis
    using assms(1) by (auto simp: loads_def same_effect_def bind_def)
qed

section \<open>The flags\<close>

abbreviation "nz_code \<equiv> [X_set C_z CC_Z, X_set C_s CC_N]"
abbreviation "vc_code \<equiv> [X_set C_o CC_V, X_set C_c CC_C]"
abbreviation "vcx_code \<equiv> [X_set C_o CC_V, X_set C_c dl, X_mov CC_C dl, X_mov CC_X dl]"
abbreviation "no_vc_code \<equiv> [X_mov CC_V (Imm 0), X_mov CC_C (Imm 0)]"

lemmas tail_simps = operand_defs run_steps run_alu_mem run_cmp_mem field_get_def field_put_def alu_op_def
  at_width_def alu_word_def x86_sum x86_diff same_effect_def at_pc_def

lemmas store_simps = reg_defs storeD_B_def storeD_W_def storeD_L_def STORE_L_def bind_def neg_def

lemma tail_sum:
  "(ucast (hregs h RAX) :: u8) = b \<Longrightarrow> guest h = at_pc p g \<Longrightarrow>
   same_effect p (run E X (x_add (DR_B (unat r)) al # nz_code @ vcx_code) h)
     (bind (getD r) (\<lambda>d. bind (ADD_B (ucast d) b) (storeD_B r)) g)"
  "(ucast (hregs h RAX) :: u16) = ucast v \<Longrightarrow> guest h = at_pc p g \<Longrightarrow>
   same_effect p (run E X (x_add (DR_W (unat r)) ax # nz_code @ vcx_code) h)
     (bind (getD r) (\<lambda>d. bind (ADD_W (ucast d) (ucast (v :: u32))) (storeD_W r)) g)"
  "(ucast (hregs h RAX) :: u32) = l \<Longrightarrow> guest h = at_pc p g \<Longrightarrow>
   same_effect p (run E X (x_add (DR_L (unat r)) eax # nz_code @ vcx_code) h)
     (bind (getD r) (\<lambda>d. bind (ADD_L (ucast d) (ucast l)) (storeD_L r)) g)"
  by (simp_all add: tail_simps store_simps sum_runs add_codes_def)

lemma tail_difference:
  "(ucast (hregs h RAX) :: u8) = b \<Longrightarrow> guest h = at_pc p g \<Longrightarrow>
   same_effect p (run E X (x_sub (DR_B (unat r)) al # nz_code @ vcx_code) h)
     (bind (getD r) (\<lambda>d. bind (SUB_B (ucast d) b) (storeD_B r)) g)"
  "(ucast (hregs h RAX) :: u16) = ucast v \<Longrightarrow> guest h = at_pc p g \<Longrightarrow>
   same_effect p (run E X (x_sub (DR_W (unat r)) ax # nz_code @ vcx_code) h)
     (bind (getD r) (\<lambda>d. bind (SUB_W (ucast d) (ucast (v :: u32))) (storeD_W r)) g)"
  "(ucast (hregs h RAX) :: u32) = l \<Longrightarrow> guest h = at_pc p g \<Longrightarrow>
   same_effect p (run E X (x_sub (DR_L (unat r)) eax # nz_code @ vcx_code) h)
     (bind (getD r) (\<lambda>d. bind (SUB_L (ucast d) (ucast l)) (storeD_L r)) g)"
  by (simp_all add: tail_simps store_simps difference_runs sub_codes_def)

lemma tail_compare:
  "(ucast (hregs h RAX) :: u8) = b \<Longrightarrow> guest h = at_pc p g \<Longrightarrow>
   same_effect p (run E X (x_cmp (DR_B (unat r)) al # vc_code @ nz_code) h)
     (bind (getD r) (\<lambda>d. CMP_B (ucast d) b) g)"
  "(ucast (hregs h RAX) :: u16) = ucast v \<Longrightarrow> guest h = at_pc p g \<Longrightarrow>
   same_effect p (run E X (x_cmp (DR_W (unat r)) ax # vc_code @ nz_code) h)
     (bind (getD r) (\<lambda>d. CMP_W (ucast d) (ucast (v :: u32))) g)"
  "(ucast (hregs h RAX) :: u32) = l \<Longrightarrow> guest h = at_pc p g \<Longrightarrow>
   same_effect p (run E X (x_cmp (DR_L (unat r)) eax # vc_code @ nz_code) h)
     (bind (getD r) (\<lambda>d. CMP_L (ucast d) (ucast l)) g)"
  by (simp_all add: tail_simps store_simps difference_runs sub_codes_def)

lemma tail_and:
  "(ucast (hregs h RAX) :: u8) = b \<Longrightarrow> guest h = at_pc p g \<Longrightarrow>
   same_effect p (run E X (x_and (DR_B (unat r)) al # nz_code @ no_vc_code) h)
     (bind (getD r) (\<lambda>d. bind (AND_B b (ucast d)) (storeD_B r)) g)"
  "(ucast (hregs h RAX) :: u16) = ucast v \<Longrightarrow> guest h = at_pc p g \<Longrightarrow>
   same_effect p (run E X (x_and (DR_W (unat r)) ax # nz_code @ no_vc_code) h)
     (bind (getD r) (\<lambda>d. bind (AND_W (ucast (v :: u32)) (ucast d)) (storeD_W r)) g)"
  "(ucast (hregs h RAX) :: u32) = l \<Longrightarrow> guest h = at_pc p g \<Longrightarrow>
   same_effect p (run E X (x_and (DR_L (unat r)) eax # nz_code @ no_vc_code) h)
     (bind (getD r) (\<lambda>d. bind (AND_L (ucast l) (ucast d)) (storeD_L r)) g)"
  by (simp_all add: tail_simps store_simps AND_B_def AND_W_def AND_L_def TEST_B_def TEST_W_def TEST_L_def
      set_VC_clear_def logic_word_def imm_fits.simps seq_def and.commute)

section \<open>Whole instructions\<close>

text \<open>The translators of ADD, SUB, CMP and AND to a data register, with their handlers.\<close>

definition alu_translations :: "((u16 \<Rightarrow> ('d, unit) jitm) \<times> (u16 \<Rightarrow> ('d, unit) mach)) list" where
  "alu_translations =
    [(jit_add_b_to_dn, add_b_to_dn), (jit_add_w_to_dn, add_w_to_dn), (jit_add_l_to_dn, add_l_to_dn),
     (jit_sub_b_to_dn, sub_b_to_dn), (jit_sub_w_to_dn, sub_w_to_dn), (jit_sub_l_to_dn, sub_l_to_dn),
     (jit_cmp_b, cmp_b), (jit_cmp_w, cmp_w), (jit_cmp_l, cmp_l),
     (jit_and_b_to_dn, and_b_to_dn), (jit_and_w_to_dn, and_w_to_dn), (jit_and_l_to_dn, and_l_to_dn)]"

lemma emits_alu:
  assumes "TYP op \<in> {0, 2, 3, 4}"
  shows
    "emits (jit_add_b_to_dn op) p (readB_code (TYP op) (REG op) @ pc_code p @ x_add (DR_B (unat (DN op))) al # nz_code @ vcx_code)"
    "emits (jit_add_w_to_dn op) p (readW_code (TYP op) (REG op) @ pc_code p @ x_add (DR_W (unat (DN op))) ax # nz_code @ vcx_code)"
    "emits (jit_add_l_to_dn op) p (readL_code (TYP op) (REG op) @ pc_code p @ x_add (DR_L (unat (DN op))) eax # nz_code @ vcx_code)"
    "emits (jit_sub_b_to_dn op) p (readB_code (TYP op) (REG op) @ pc_code p @ x_sub (DR_B (unat (DN op))) al # nz_code @ vcx_code)"
    "emits (jit_sub_w_to_dn op) p (readW_code (TYP op) (REG op) @ pc_code p @ x_sub (DR_W (unat (DN op))) ax # nz_code @ vcx_code)"
    "emits (jit_sub_l_to_dn op) p (readL_code (TYP op) (REG op) @ pc_code p @ x_sub (DR_L (unat (DN op))) eax # nz_code @ vcx_code)"
    "emits (jit_cmp_b op) p (readB_code (TYP op) (REG op) @ pc_code p @ x_cmp (DR_B (unat (DN op))) al # vc_code @ nz_code)"
    "emits (jit_cmp_w op) p (readW_code (TYP op) (REG op) @ pc_code p @ x_cmp (DR_W (unat (DN op))) ax # vc_code @ nz_code)"
    "emits (jit_cmp_l op) p (readL_code (TYP op) (REG op) @ pc_code p @ x_cmp (DR_L (unat (DN op))) eax # vc_code @ nz_code)"
    "emits (jit_and_b_to_dn op) p (readB_code (TYP op) (REG op) @ pc_code p @ x_and (DR_B (unat (DN op))) al # nz_code @ no_vc_code)"
    "emits (jit_and_w_to_dn op) p (readW_code (TYP op) (REG op) @ pc_code p @ x_and (DR_W (unat (DN op))) ax # nz_code @ no_vc_code)"
    "emits (jit_and_l_to_dn op) p (readL_code (TYP op) (REG op) @ pc_code p @ x_and (DR_L (unat (DN op))) eax # nz_code @ no_vc_code)"
  by (simp_all add: emits_reads [OF assms, unfolded emits_def, rule_format] emits_def jit_add_b_to_dn_def jit_add_w_to_dn_def jit_add_l_to_dn_def jit_sub_b_to_dn_def jit_sub_w_to_dn_def jit_sub_l_to_dn_def jit_cmp_b_def jit_cmp_w_def jit_cmp_l_def jit_and_b_to_dn_def jit_and_w_to_dn_def jit_and_l_to_dn_def
      update_pc_code pc_code_def update_nz_def update_vc_def update_vcx_def clear_vc_def asm_def)

lemma effect_alu:
  assumes "loads E X c m P h" "\<And>d. keeps (\<lambda>s. Dn (cpu s) = d) (\<lambda>_. True) m"
    and "\<And>v g h'. P (hregs h' RAX) v \<Longrightarrow> guest h' = at_pc p g \<Longrightarrow>
      same_effect p (run E X k h') (bind (getD r) (\<lambda>d. t d v) g)"
  shows "same_effect p (run E X (c @ pc_code p @ k) h) (bind (getD r) (\<lambda>d. bind m (\<lambda>v. t d v)) (guest h))"
    "same_effect p (run E X (c @ pc_code p @ k) h) (bind m (\<lambda>v. bind (getD r) (\<lambda>d. t d v)) (guest h))"
proof -
  show "same_effect p (run E X (c @ pc_code p @ k) h) (bind m (\<lambda>v. bind (getD r) (\<lambda>d. t d v)) (guest h))"
    by (rule same_effect_load [OF assms(1)]) (rule assms(3))
  then show "same_effect p (run E X (c @ pc_code p @ k) h) (bind (getD r) (\<lambda>d. bind m (\<lambda>v. t d v)) (guest h))"
    by (simp only: getD_later [OF assms(2)])
qed

text \<open>The instruction alone.\<close>

lemma translated_arithmetic:
  assumes "(tr, f) \<in> set alu_translations" "TYP op \<in> {0, 2, 3, 4}" "\<not> bus_lock (cpu (guest h))"
  shows "same_effect (PC (cpu (jguest j))) (run E X (code_of (tr op) j) h) (f op (guest h))"
proof -
  let ?p = "PC (cpu (jguest j))"
  note code = emits_alu [OF assms(2), THEN code_of_emits, OF refl]
  note byte = effect_alu [OF loads_ea(3) [OF assms(2,3)] ea_reads_keep_Dn(1) [OF assms(2)]]
  note half = effect_alu [OF loads_ea(2) [OF assms(2,3)] ea_reads_keep_Dn(2) [OF assms(2)]]
  note longw = effect_alu [OF loads_ea(1) [OF assms(2,3)] ea_reads_keep_Dn(3) [OF assms(2)]]
  have "same_effect ?p (run E X (code_of (jit_add_b_to_dn op) j) h) (add_b_to_dn op (guest h))"
    "same_effect ?p (run E X (code_of (jit_add_w_to_dn op) j) h) (add_w_to_dn op (guest h))"
    "same_effect ?p (run E X (code_of (jit_add_l_to_dn op) j) h) (add_l_to_dn op (guest h))"
    unfolding code add_b_to_dn_def add_w_to_dn_def add_l_to_dn_def ucast_id
    by (rule byte(1), erule (1) tail_sum(1), rule half(1), erule (1) tail_sum(2), rule longw(1), erule (1) tail_sum(3) [unfolded ucast_id])
  moreover
  have "same_effect ?p (run E X (code_of (jit_sub_b_to_dn op) j) h) (sub_b_to_dn op (guest h))"
    "same_effect ?p (run E X (code_of (jit_sub_w_to_dn op) j) h) (sub_w_to_dn op (guest h))"
    "same_effect ?p (run E X (code_of (jit_sub_l_to_dn op) j) h) (sub_l_to_dn op (guest h))"
    unfolding code sub_b_to_dn_def sub_w_to_dn_def sub_l_to_dn_def ucast_id
    by (rule byte(1), erule (1) tail_difference(1), rule half(1), erule (1) tail_difference(2), rule longw(1), erule (1) tail_difference(3) [unfolded ucast_id])
  moreover
  have "same_effect ?p (run E X (code_of (jit_cmp_b op) j) h) (cmp_b op (guest h))"
    "same_effect ?p (run E X (code_of (jit_cmp_w op) j) h) (cmp_w op (guest h))"
    "same_effect ?p (run E X (code_of (jit_cmp_l op) j) h) (cmp_l op (guest h))"
    unfolding code cmp_b_def cmp_w_def cmp_l_def ucast_id
    by (rule byte(1), erule (1) tail_compare(1), rule half(1), erule (1) tail_compare(2), rule longw(1), erule (1) tail_compare(3) [unfolded ucast_id])
  moreover
  have "same_effect ?p (run E X (code_of (jit_and_b_to_dn op) j) h) (and_b_to_dn op (guest h))"
    "same_effect ?p (run E X (code_of (jit_and_w_to_dn op) j) h) (and_w_to_dn op (guest h))"
    "same_effect ?p (run E X (code_of (jit_and_l_to_dn op) j) h) (and_l_to_dn op (guest h))"
    unfolding code and_b_to_dn_def and_w_to_dn_def and_l_to_dn_def ucast_id
    by (rule byte(2), erule (1) tail_and(1), rule half(2), erule (1) tail_and(2), rule longw(2), erule (1) tail_and(3) [unfolded ucast_id])
  ultimately show ?thesis
    using assms(1) by (auto simp: alu_translations_def)
qed

section \<open>With prologue and trace\<close>

text \<open>
  The outcome of translated code against that of the interpreter: the same exception or none,
  and the same machine but for the program counter.
\<close>

definition up_to_pc :: "('d host, flow) outcome \<Rightarrow> ('d machine, unit) outcome \<Rightarrow> bool" where
  "up_to_pc r q = (case (r, q) of
       (Ok f h, Ok _ g) \<Rightarrow> f = On \<and> at_pc 0 (guest h) = at_pc 0 g
     | (Raise e h, Raise e' g) \<Rightarrow> e = e' \<and> at_pc 0 (guest h) = at_pc 0 g
     | _ \<Rightarrow> False)"

definition postop_code :: "label \<Rightarrow> 'd insn list" where
  "postop_code lb = [X_lea rdi (Field_addr F_must_trace), X_mov al (Deref W8 RDI), X_mov (Deref W8 RDI) (Imm 0),
     x_test al (Imm 1), X_j C_z lb, X_call (c_void TRACE), X_bind lb]"

lemma run_postop:
  assumes "lb \<noteq> No_label" "at_pc 0 (guest h) = at_pc 0 g"
  shows "up_to_pc (run E X (postop_code lb) h) (op_epilogue g)"
proof -
  have t: "must_trace (cpu (guest h)) = must_trace (cpu g)" "inJit (cpu (guest h)) = inJit (cpu g)"
    using arg_cong [OF assms(2), of "\<lambda>g. must_trace (cpu g)"] arg_cong [OF assms(2), of "\<lambda>g. inJit (cpu g)"]
    by (simp_all add: at_pc_def)
  have "at_pc 0 (x\<lparr>cpu := (cpu x)\<lparr>must_trace := False\<rparr>\<rparr>) = (at_pc 0 x)\<lparr>cpu := (cpu (at_pc 0 x))\<lparr>must_trace := False\<rparr>\<rparr>"
    for x :: "'a machine" by (simp add: at_pc_def)
  with assms(2) have m: "at_pc 0 ((guest h)\<lparr>cpu := (cpu (guest h))\<lparr>must_trace := False\<rparr>\<rparr>) =
      at_pc 0 (g\<lparr>cpu := (cpu g)\<lparr>must_trace := False\<rparr>\<rparr>)"
    by simp
  show ?thesis
    by (cases "must_trace (cpu g)")
      (simp_all add: t m postop_code_def run_lea_field run_mov_deref run_alu_test_imm run_jump imm_bits assms(1) field_get_def
        field_put_def alu_op_def at_width_def alu_word_def logic_word_def neg_def op_epilogue_def up_to_pc_def run_call_void
        TRACE_def RAISE_def bind_def seq_def cmod_def whenM_def)
qed

lemma prologue_lock: "op_prologue pc s = Ok u s' \<Longrightarrow> bus_lock (cpu s') = bus_lock (cpu s)"
  by (auto simp: op_prologue_def IRQ_def RAISE_def bind_def seq_def whenM_def cmod_def cget_def on_bus_def lift_part_def
      split: if_splits)

lemma emits_straight:
  assumes "(tr, f) \<in> set alu_translations" "TYP op \<in> {0, 2, 3, 4}"
  shows "\<exists>c. emits (tr op) p c \<and> list_all straight c"
proof -
  have "\<exists>c. emits (jit_add_b_to_dn op) p c \<and> list_all straight c"
    "\<exists>c. emits (jit_add_w_to_dn op) p c \<and> list_all straight c"
    "\<exists>c. emits (jit_add_l_to_dn op) p c \<and> list_all straight c"
    "\<exists>c. emits (jit_sub_b_to_dn op) p c \<and> list_all straight c"
    "\<exists>c. emits (jit_sub_w_to_dn op) p c \<and> list_all straight c"
    "\<exists>c. emits (jit_sub_l_to_dn op) p c \<and> list_all straight c"
    "\<exists>c. emits (jit_cmp_b op) p c \<and> list_all straight c"
    "\<exists>c. emits (jit_cmp_w op) p c \<and> list_all straight c"
    "\<exists>c. emits (jit_cmp_l op) p c \<and> list_all straight c"
    "\<exists>c. emits (jit_and_b_to_dn op) p c \<and> list_all straight c"
    "\<exists>c. emits (jit_and_w_to_dn op) p c \<and> list_all straight c"
    "\<exists>c. emits (jit_and_l_to_dn op) p c \<and> list_all straight c"
    by (rule exI, rule conjI, rule emits_alu [OF assms(2)],
        simp add: readB_code_def readW_code_def readL_code_def addr_code_def pc_code_def Let_def)+
  then show ?thesis
    using assms(1) by (auto simp: alu_translations_def)
qed

lemma up_to_pcI: "same_effect p r q \<Longrightarrow> up_to_pc r q"
  by (auto simp: same_effect_def up_to_pc_def at_pc_def split: outcome.splits)

lemma up_to_pc_bind:
  assumes "same_effect p (m h) (q g)" "\<And>h g. at_pc 0 (guest h) = at_pc 0 g \<Longrightarrow> up_to_pc (k h) (n g)"
  shows "up_to_pc (bind m (\<lambda>_. k) h) (bind q (\<lambda>_. n) g)"
proof -
  have raise: "up_to_pc (Raise e h') (Raise e g')" if "guest h' = g'" for e and h' :: "'a host" and g'
    using that by (simp add: up_to_pc_def)
  show ?thesis
    using assms by (cases "m h"; cases "q g") (auto simp: same_effect_def bind_def at_pc_def intro!: raise)
qed

text \<open>
  C5. The code \<open>jit_compile\<close> emits for ADD, SUB, CMP and AND to a data register (byte, word and
  longword; the operand a data register or in memory at an address register, postincremented or
  predecremented) does what the interpreter does with the instruction: it takes a pending
  interrupt, sets up the tracing, reads the operand and raises its faults, computes the result
  with all condition codes and takes the trace exception. The machines agree but for the program
  counter, for any contents of the host's registers, any values the architecture leaves
  undefined and any behaviour of the assembler library outside the instruction set.
\<close>

theorem translated_step:
  assumes "(tr, f) \<in> set alu_translations" "TYP op \<in> {0, 2, 3, 4}" "\<not> bus_lock (cpu (guest h))"
  shows "up_to_pc (run E X (code_of (seqs [call_prologue pc, tr op, jit_postop]) j) h)
     (seq (op_prologue pc) (seq (f op) op_epilogue) (guest h))"
proof -
  let ?p = "PC (cpu (jguest j))" and ?lb = "Local (jlabels j)"
  obtain c where c: "emits (tr op) ?p c" "list_all straight c"
    using emits_straight [OF assms(1,2)] by blast
  have alone: "code_of (tr op) j = c"
    by (rule code_of_emits [OF c(1) refl])
  have code: "code_of (seqs [call_prologue pc, tr op, jit_postop]) j =
      [X_mov edi (Imm (uint pc)), X_call (c_addr op_prologue)] @ c @ postop_code ?lb"
    using c(1) by (simp add: code_of_def emits_def call_prologue_def asm_def jit_postop_def newLabel_def postop_code_def
        seq_def bind_def)
  let ?h1 = "put_reg W32 RDI (zext W32 (word_of_int (uint pc))) h"
  show ?thesis
  proof (cases "op_prologue pc (guest h)")
    case (Ok u g1)
    let ?h2 = "clobber E (?h1\<lparr>guest := g1\<rparr>)"
    have g2: "guest ?h2 = g1" by simp
    have lock: "\<not> bus_lock (cpu (guest ?h2))"
      using assms(3) prologue_lock [OF Ok] by simp
    have "same_effect ?p (run E X c ?h2) (f op g1)"
      using translated_arithmetic [OF assms(1,2) lock, of j E X] unfolding alone g2 .
    moreover have "run E X (code_of (seqs [call_prologue pc, tr op, jit_postop]) j) h =
        bind (run E X c) (\<lambda>_. run E X (postop_code ?lb)) ?h2"
      unfolding code by (simp add: run_steps imm32 run_call_void Ok run_append [OF c(2)])
    moreover have "seq (op_prologue pc) (seq (f op) op_epilogue) (guest h) = bind (f op) (\<lambda>_. op_epilogue) g1"
      by (simp add: Ok seq_def bind_def)
    ultimately show ?thesis
      by (simp only:) (rule up_to_pc_bind, assumption, rule run_postop, simp_all)
  next
    case (Raise e g1)
    then show ?thesis
      unfolding code by (simp add: run_steps imm32 run_call_void up_to_pc_def seq_def bind_def)
  qed
qed

text \<open>A concrete host around a machine, and an emitter.\<close>

definition no_flags :: xflags where
  "no_flags = \<lparr>cf = False, zf = False, sf = False, ovf = False, af = False\<rparr>"

definition zero_env :: host_env where
  "zero_env = \<lparr>junk_reg = (\<lambda>_ _. 0), junk_flags = (\<lambda>_. no_flags), host_addr = (\<lambda>_. 0), code_base = 0\<rparr>"

definition host_on :: "'d machine \<Rightarrow> 'd host" where
  "host_on g = \<lparr>hregs = (\<lambda>_. 0), hpoints = (\<lambda>_. None), hflags = no_flags, hpushed = [], hframe = (\<lambda>_. 0),
     hoffsets = [], htesting = True, htick = 0, guest = g\<rparr>"

definition jit_on :: "'d machine \<Rightarrow> 'd jit" where
  "jit_on g = \<lparr>jguest = g, jcode = [], jlabels = 0, jmap = (\<lambda>_. None), jbmi2 = False, jlen = (\<lambda>_. 1)\<rparr>"

theorem translated_step_witness:
  "up_to_pc
     (run zero_env (\<lambda>_. throw Undefined) (code_of (seqs [call_prologue 0x100, jit_add_l_to_dn 0xd099, jit_postop])
        (jit_on small_machine)) (host_on small_machine))
     (seq (op_prologue 0x100) (seq (add_l_to_dn 0xd099) op_epilogue) small_machine)"
  using translated_step [of jit_add_l_to_dn add_l_to_dn "0xd099" "host_on small_machine" zero_env
      "\<lambda>_. throw Undefined" "0x100" "jit_on small_machine"]
  by (simp add: alu_translations_def TYP_def host_on_def cpu_static_def)

end
