(* ===== verification/JitProps.thy ===== *)
theory JitProps
  imports JitStep
begin

text \<open>
  Properties of the translator: the instructions on registers and the conditions, the store to a
  postincremented address and the reading of the status register, which go wrong, the table of
  translations and the running of an address that was never translated.
\<close>

unbundle bit_operations_syntax

section \<open>Conditions\<close>

definition testcc_code :: "nat \<Rightarrow> 'd insn list" where
  "testcc_code c =
    (if c = 0 then [X_mov al (Imm 1)]
     else if c = 1 then [x_xor al al]
     else if c = 2 then [X_mov al CC_C, x_or al CC_Z, X_set C_z al]
     else if c = 3 then [X_mov al CC_C, x_or al CC_Z]
     else if c = 4 then [X_mov al CC_C, x_test al al, X_set C_z al]
     else if c = 5 then [X_mov al CC_C]
     else if c = 6 then [X_mov al CC_Z, x_test al al, X_set C_z al]
     else if c = 7 then [X_mov al CC_Z]
     else if c = 8 then [X_mov al CC_V, x_test al al, X_set C_z al]
     else if c = 9 then [X_mov al CC_V]
     else if c = 10 then [X_mov al CC_N, x_test al al, X_set C_z al]
     else if c = 11 then [X_mov al CC_N]
     else if c = 12 then [X_mov al CC_N, x_xor al CC_V, X_set C_z al]
     else if c = 13 then [X_mov al CC_N, x_xor al CC_V]
     else if c = 14 then [X_mov al CC_N, x_xor al CC_V, x_or al CC_Z, X_set C_z al]
     else [X_mov al CC_N, x_xor al CC_V, x_or al CC_Z])"

lemma emits_testcc: "emits (jit_testcc n) p (testcc_code n)"
  unfolding jit_testcc_def testcc_code_def by (rule emits_asm)

lemma below_16: "n < 16 \<Longrightarrow> n \<in> {0, 1, 2, 3, 4, 5, 6, 7, 8, 9, 10, 11, 12, 13, 14, 15 :: nat}"
  by (simp add: eval_nat_numeral less_Suc_eq)

lemma bool_bytes:
  "of_bool a OR of_bool b = (of_bool (a \<or> b) :: u8)" "of_bool a XOR of_bool b = (of_bool (a \<noteq> b) :: u8)"
  "of_bool a AND of_bool b = (of_bool (a \<and> b) :: u8)"
  "ucast (of_bool a :: u64) = (of_bool a :: u8)" "ucast (of_bool a :: u8) = (of_bool a :: u64)"
  by (cases a; cases b; simp)+

lemma run_testcc:
  assumes "n < 16"
  shows "\<exists>h'. (\<forall>is. run E X (testcc_code n @ is) h = run E X is h') \<and> guest h' = guest h \<and>
     (ucast (hregs h' RAX) :: u8) = of_bool (testCC (of_nat n) (cpu (guest h)))"
  using below_16 [OF assms]
  apply (elim insertE emptyE)
  apply (simp_all only:)
  apply (rule exI, rule conjI, rule allI,
      simp add: testcc_code_def run_steps run_alu_reg operand_defs field_get_def imm_fits.simps alu_op_def at_width_def
        alu_word_def logic_word_def bool_bytes split del: split_of_bool,
      simp add: testCC_def bool_bytes conj_commute disj_commute split del: split_of_bool)+
  done

lemma minus_one_byte: "(- 1 :: u8) = 255"
  by simp

lemma condition_number:
  "unat (drop_bit 8 op AND 0xf) < 16" "of_nat (unat (drop_bit 8 op AND 0xf)) = CC op"
proof -
  have "unat (drop_bit 8 op AND 0xf) \<le> unat (0xf :: u16)"
    by (simp only: word_le_nat_alt [symmetric] word_and_le1)
  then show "unat (drop_bit 8 op AND 0xf) < 16" by simp
  show "of_nat (unat (drop_bit 8 op AND 0xf)) = CC op"
    by (simp add: CC_def of_nat_unat)
qed

text \<open>
  C15. \<open>Scc\<close> to a data register: for all sixteen conditions the translated code leaves the machine the
  interpreter leaves, the program counter included.
\<close>

theorem translated_conditions:
  assumes "TYP op = 0"
  shows "\<exists>h'. run E X (code_of (jit_scc_ea op) j) h = Ok On h' \<and> scc_ea op (guest h) = Ok () (guest h')"
proof -
  let ?n = "unat (drop_bit 8 op AND 0xf)"
  let ?k = "[x_neg al, x_sbb dl dl, X_mov al dl, X_mov (DR_B (unat (REG op))) al]"
  have "emits (jit_scc_ea op) p (testcc_code ?n @ ?k)" for p
    using assms emits_testcc [of ?n p]
    by (simp add: emits_testcc [unfolded emits_def, rule_format] emits_def jit_scc_ea_def ea_writeB_jit_def asm_def Let_def)
  then have code: "code_of (jit_scc_ea op) j = testcc_code ?n @ ?k"
    by (rule code_of_emits) simp
  obtain h1 where h1: "\<And>is. run E X (testcc_code ?n @ is) h = run E X is h1" "guest h1 = guest h"
    "(ucast (hregs h1 RAX) :: u8) = of_bool (testCC (CC op) (cpu (guest h)))"
    using run_testcc [OF condition_number(1), of E X op h] unfolding condition_number(2) by blast
  have "\<exists>h'. run E X ?k h1 = Ok On h' \<and> scc_ea op (guest h) = Ok () (guest h')"
    by (cases "testCC (CC op) (cpu (guest h))")
      (simp_all add: h1 run_steps run_un run_alu_reg un_op_def un_word_def alu_op_def alu_word_def at_width_def
        diff_word_def operand_defs field_put_def assms scc_ea_def ea_writeB_def storeD_B_def reg_defs Let_def with_cpu_def
        minus_one_byte)
  then show ?thesis
    by (simp only: code h1)
qed

theorem translated_conditions_witness:
  "\<exists>h'. run zero_env (\<lambda>_. throw Undefined) (code_of (jit_scc_ea 0x5ec3) (jit_on small_machine)) (host_on small_machine)
       = Ok On h' \<and> scc_ea 0x5ec3 small_machine = Ok () (guest h')"
  using translated_conditions [of "0x5ec3" zero_env "\<lambda>_. throw Undefined" "jit_on small_machine" "host_on small_machine"]
  by (simp add: TYP_def host_on_def)

section \<open>Registers\<close>

text \<open>
  Translators with their handlers: of a data register; of a data or an address register; of registers
  that other fields of the opcode name; and the moves, whose opcode has a second addressing mode.
\<close>

definition register_translations :: "((u16 \<Rightarrow> ('d, unit) jitm) \<times> (u16 \<Rightarrow> ('d, unit) mach)) list" where
  "register_translations =
    [(jit_clr_b, clr_b), (jit_clr_w, clr_w), (jit_clr_l, clr_l),
     (jit_or_b_to_dn, or_b_to_dn), (jit_or_w_to_dn, or_w_to_dn), (jit_or_l_to_dn, or_l_to_dn),
     (jit_eor_b, eor_b), (jit_eor_w, eor_w), (jit_eor_l, eor_l), (jit_tst_b, tst_b),
     (jit_neg_b, neg_b), (jit_neg_w, neg_w), (jit_neg_l, neg_l)]"

definition address_translations :: "((u16 \<Rightarrow> ('d, unit) jitm) \<times> (u16 \<Rightarrow> ('d, unit) mach)) list" where
  "address_translations =
    [(jit_tst_w, tst_w), (jit_tst_l, tst_l), (jit_movea_w, movea_w), (jit_movea_l, movea_l),
     (jit_adda_w, adda_w), (jit_adda_l, adda_l), (jit_suba_w, suba_w), (jit_suba_l, suba_l),
     (jit_cmpa_w, cmpa_w), (jit_cmpa_l, cmpa_l)]"

definition field_translations :: "((u16 \<Rightarrow> ('d, unit) jitm) \<times> (u16 \<Rightarrow> ('d, unit) mach)) list" where
  "field_translations =
    [(jit_ext_w, ext_w), (jit_ext_l, ext_l), (jit_extb_l, extb_l), (jit_moveq, moveq),
     (jit_exg_dn, exg_dn), (jit_exg_an, exg_an), (jit_exg_da, exg_da)]"

definition move_translations :: "((u16 \<Rightarrow> ('d, unit) jitm) \<times> (u16 \<Rightarrow> ('d, unit) mach)) list" where
  "move_translations = [(jit_move_b, move_b), (jit_move_w, move_w), (jit_move_l, move_l)]"

text \<open>The code runs to its end and the handler returns, with the same machine but for the program counter.\<close>

definition translates :: "(u16 \<Rightarrow> ('d, unit) jitm) \<Rightarrow> (u16 \<Rightarrow> ('d, unit) mach) \<Rightarrow> u16 \<Rightarrow> bool" where
  "translates tr f op \<longleftrightarrow> (\<forall>E X j h. \<exists>h' g. run E X (code_of (tr op) j) h = Ok On h' \<and> f op (guest h) = Ok () g \<and>
     at_pc 0 (guest h') = at_pc 0 g)"

lemmas code_simps = code_of_def ea_readB_jit_def ea_readW_jit_def ea_readL_jit_def ea_writeB_jit_def ea_writeW_jit_def
  ea_writeL_jit_def update_pc_def update_nz_def update_vc_def update_vcx_def clear_vc_def asm_def jPC_def Let_def

lemmas sim_simps = operand_defs run_steps run_alu_mem run_cmp_mem run_alu_reg run_un run_movsx_mem run_movsx_reg
  run_alu_reg_imm run_cwde field_get_def field_put_def alu_op_def un_op_def un_word_def at_width_def alu_word_def
  logic_word_def x86_sum x86_diff imm32 imm_byte run_xchg

lemmas interp_simps = ea_readB_def ea_readW_def ea_readL_def ea_writeB_def ea_writeW_def ea_writeL_def store_simps at_pc_def
  sum_runs difference_runs add_codes_def sub_codes_def TEST_B_def TEST_W_def TEST_L_def set_VC_clear_def
  OR_B_def OR_W_def OR_L_def XOR_B_def XOR_W_def XOR_L_def NEG_B_def NEG_W_def NEG_L_def low_word seq_def Let_def or.commute xor.commute and.commute narrow_sext low_byte_mask

lemmas register_codes = jit_clr_b_def jit_clr_w_def jit_clr_l_def jit_or_b_to_dn_def jit_or_w_to_dn_def jit_or_l_to_dn_def jit_eor_b_def jit_eor_w_def
  jit_eor_l_def jit_tst_b_def jit_neg_b_def jit_neg_w_def jit_neg_l_def

lemmas register_handlers = clr_b_def clr_w_def clr_l_def or_b_to_dn_def or_w_to_dn_def or_l_to_dn_def eor_b_def eor_w_def
  eor_l_def tst_b_def neg_b_def neg_w_def neg_l_def

lemmas address_codes = jit_tst_w_def jit_tst_l_def jit_movea_w_def jit_movea_l_def jit_adda_w_def jit_adda_l_def jit_suba_w_def jit_suba_l_def
  jit_cmpa_w_def jit_cmpa_l_def

lemmas address_handlers = tst_w_def tst_l_def movea_w_def movea_l_def adda_w_def adda_l_def suba_w_def suba_l_def
  cmpa_w_def cmpa_l_def

lemmas field_codes = jit_ext_w_def jit_ext_l_def jit_extb_l_def jit_moveq_def jit_exg_dn_def jit_exg_an_def jit_exg_da_def

lemmas field_handlers = ext_w_def ext_l_def extb_l_def moveq_def exg_dn_def exg_an_def exg_da_def

lemmas move_codes = jit_move_b_def jit_move_w_def jit_move_l_def

lemmas move_handlers = move_b_def move_w_def move_l_def

lemma translates_register:
  "(tr, f) \<in> set register_translations \<Longrightarrow> TYP op = 0 \<Longrightarrow> translates tr f op"
  unfolding register_translations_def list.set insert_iff empty_iff prod.inject translates_def
  by (elim disjE conjE FalseE; intro allI; simp only: register_codes; simp add: code_simps; simp add: sim_simps imm_zero;
      simp add: register_handlers interp_simps)

lemma translates_field:
  "(tr, f) \<in> set field_translations \<Longrightarrow> translates tr f op"
  unfolding field_translations_def list.set insert_iff empty_iff prod.inject translates_def
  by (elim disjE conjE FalseE; intro allI; simp only: field_codes; simp add: code_simps; simp add: sim_simps imm_zero;
      simp add: field_handlers interp_simps)

lemma translates_move:
  "(tr, f) \<in> set move_translations \<Longrightarrow> TYP op = 0 \<Longrightarrow> DST op = 0 \<Longrightarrow> translates tr f op"
  unfolding move_translations_def list.set insert_iff empty_iff prod.inject translates_def
  by (elim disjE conjE FalseE; intro allI; simp only: move_codes; simp add: code_simps DST_def; simp add: sim_simps imm_zero;
      simp add: move_handlers interp_simps DST_def)

lemma translates_address0:
  "(tr, f) \<in> set address_translations \<Longrightarrow> TYP op = 0 \<Longrightarrow> translates tr f op"
  unfolding address_translations_def list.set insert_iff empty_iff prod.inject translates_def
  by (elim disjE conjE FalseE; intro allI; simp only: address_codes; simp add: code_simps; simp add: sim_simps imm_zero;
      simp add: address_handlers interp_simps)

lemma sext_narrow: "(ucast (scast (w :: u16) :: u32) :: u16) = w"
  by transfer (simp add: take_bit_signed_take_bit)

lemma translates_address1:
  "(tr, f) \<in> set address_translations \<Longrightarrow> TYP op = 1 \<Longrightarrow> translates tr f op"
  unfolding address_translations_def list.set insert_iff empty_iff prod.inject translates_def
  by (elim disjE conjE FalseE; intro allI; simp only: address_codes; simp add: code_simps; simp add: sim_simps imm_zero;
      simp add: address_handlers interp_simps sext_narrow)

text \<open>
  C10. Thirty-three instructions on registers: the translated code always runs to its end and leaves the
  machine the interpreter leaves but for the program counter.
\<close>

theorem translated_registers:
  assumes "(tr, f) \<in> set register_translations \<and> TYP op = 0 \<or>
    (tr, f) \<in> set address_translations \<and> (TYP op = 0 \<or> TYP op = 1) \<or>
    (tr, f) \<in> set field_translations \<or>
    (tr, f) \<in> set move_translations \<and> TYP op = 0 \<and> DST op = 0"
  shows "translates tr f op"
  using assms translates_register translates_address0 translates_address1 translates_field translates_move by blast

theorem translated_registers_witness:
  "\<exists>h' g. run zero_env (\<lambda>_. throw Undefined) (code_of (jit_move_l 0x2001) (jit_on small_machine)) (host_on small_machine)
       = Ok On h' \<and> move_l 0x2001 small_machine = Ok () g \<and> at_pc 0 (guest h') = at_pc 0 g"
proof -
  have "translates (jit_move_l :: u16 \<Rightarrow> (unit, unit) jitm) move_l 0x2001"
    by (rule translated_registers) (simp_all add: move_translations_def DST_def TYP_def)
  then have "\<exists>h' g. run zero_env (\<lambda>_. throw Undefined) (code_of (jit_move_l 0x2001) (jit_on small_machine)) (host_on small_machine)
       = Ok On h' \<and> move_l 0x2001 (guest (host_on small_machine)) = Ok () g \<and> at_pc 0 (guest h') = at_pc 0 g"
    unfolding translates_def by blast
  then show ?thesis by (simp add: host_on_def)
qed

section \<open>A store to a postincremented address\<close>

text \<open>
  What the translated \<open>MOVE.B Dn,(Am)+\<close> does: \<open>ea_getaddr_jit\<close> computes the incremented address
  in \<open>eax\<close>, over the operand, and its low byte is stored.
\<close>

definition stored_address :: "u16 \<Rightarrow> ('d, unit) mach" where
  "stored_address op =
     bind (getD (REG op)) (\<lambda>v.
     seq (TEST_B (ucast v))
    (seq set_VC_clear
    (bind (ea_getaddr 3 (DN op) 1) (\<lambda>a.
     seq (set_EA a)
    (seq (WriteB a (ucast (a + stack_size (DN op) 1)))
         (set_lock False))))))"

lemma run_pc_code:
  obtains h' where "\<And>is. run E X (pc_code p @ is) h = run E X is h'" "guest h' = at_pc p (guest h)"
    "hregs h' = hregs h" "hflags h' = hflags h"
  using run_update_pc [of E X p h] unfolding pc_code_def by blast

lemma emits_move_b:
  assumes "TYP op = 0" "DST op = 3"
  shows "emits (jit_move_b op) p (X_movzx eax (DR_B (unat (REG op))) # pc_code p @ x_or al al # nz_code @ no_vc_code @
     addr_code 3 (DN op) 1 @ [X_mov edi EA_m, X_mov sil al, X_call (c_writeB WriteB), X_mov (CPU_BYTE F_bus_lock) (Imm 0)] @ pc_code p)"
  using assms unfolding DST_def
  by (simp add: emits_def jit_move_b_def ea_readB_jit_def ea_writeB_jit_def jit_writeB_def update_pc_code pc_code_def
     update_nz_def clear_vc_def asm_def Let_def emits_getaddr_run [OF _ refl] operand_defs)

lemma same_effect_write:
  assumes "(ucast (hregs h RDI) :: u32) = a" "(ucast (hregs h RSI) :: u8) = v"
  shows "same_effect p (run E X (X_call (c_writeB WriteB) # X_mov (CPU_BYTE F_bus_lock) (Imm 0) # pc_code p) h)
     (seq (WriteB a v) (set_lock False) (guest h))"
proof (cases "WriteB a v (guest h)")
  case (Ok u g)
  let ?h = "with_cpu ((cpu g)\<lparr>bus_lock := False\<rparr>) (clobber E (h\<lparr>guest := g\<rparr>))"
  obtain h' where "\<And>is. run E X (pc_code p @ is) ?h = run E X is h'" "guest h' = at_pc p (guest ?h)"
    by (rule run_pc_code [of E X p ?h]) blast
  from this(1) [of "[]"] this(2) show ?thesis
    using Ok assms by (simp add: run_call_write run_steps operand_defs field_put_def imm_fits.simps same_effect_def
        seq_def bind_def set_lock_def)
next
  case (Raise e g)
  then show ?thesis
    using assms by (simp add: run_call_write same_effect_def seq_def bind_def)
qed

text \<open>
  C25. Whatever the data register holds, translated \<open>MOVE.B Dn,(Am)+\<close> sets the codes for the byte of
  the register but stores the low byte of the new address.
\<close>

theorem translated_postincrement:
  assumes "TYP op = 0" "DST op = 3"
  shows "same_effect (PC (cpu (jguest j))) (run E X (code_of (jit_move_b op) j) h)
     (stored_address op (at_pc (PC (cpu (jguest j))) (guest h)))"
proof -
  let ?p = "PC (cpu (jguest j))"
  note code = emits_move_b [OF assms, THEN code_of_emits, OF refl]
  let ?h1 = "put_reg W32 RAX (zext W8 (ucast (Dn (cpu (guest h)) (REG op)))) h"
  obtain h2 where h2: "\<And>is. run E X (pc_code ?p @ is) ?h1 = run E X is h2" "guest h2 = at_pc ?p (guest ?h1)"
    "hregs h2 = hregs ?h1"
    by (rule run_pc_code [of E X ?p ?h1]) blast
  have start: "run E X (code_of (jit_move_b op) j) h = run E X
      (x_or al al # nz_code @ no_vc_code @ addr_code 3 (DN op) 1 @
       [X_mov edi EA_m, X_mov sil al, X_call (c_writeB WriteB), X_mov (CPU_BYTE F_bus_lock) (Imm 0)] @ pc_code ?p) h2"
    by (simp add: code run_steps operand_defs field_get_def h2(1) [simplified])
  let ?a = "An (cpu (guest h)) (DN op)" and ?d = "Dn (cpu (guest h)) (REG op)"
  let ?b = "?a + stack_size (DN op) 1"
  let ?g = "(guest h)\<lparr>cpu := (cpu (guest h))\<lparr>PC := ?p, fN := neg (ucast ?d :: u8), fZ := (ucast ?d :: u8) = 0,
      fV := False, fC := False, An := (An (cpu (guest h)))(DN op := ?b), EA := ?a\<rparr>\<rparr>"
  have "\<exists>h3. run E X (code_of (jit_move_b op) j) h =
      run E X (X_call (c_writeB WriteB) # X_mov (CPU_BYTE F_bus_lock) (Imm 0) # pc_code ?p) h3 \<and>
      ucast (hregs h3 RDI) = ?a \<and> ucast (hregs h3 RSI) = (ucast ?b :: u8) \<and> guest h3 = ?g"
    unfolding start
    apply (rule exI, rule conjI)
    apply (simp add: run_steps run_alu_reg run_lea alu_op_def at_width_def alu_word_def logic_word_def operand_defs
       field_get_def field_put_def imm_fits.simps addr_code_def Let_def h2 at_pc_def)
    apply (simp add: h2 low_sum low_of_int at_pc_def stack_sz_def stack_size_def)
    done
  moreover have "stored_address op (at_pc ?p (guest h)) = seq (WriteB ?a (ucast ?b)) (set_lock False) ?g"
    by (simp add: stored_address_def reg_defs TEST_B_def set_VC_clear_def ea_getaddr_def set_EA_def at_pc_def)
  ultimately show ?thesis
    using same_effect_write by metis
qed

theorem translated_postincrement_witness:
  "same_effect 0 (run zero_env (\<lambda>_. throw Undefined) (code_of (jit_move_b 0x10c1) (jit_on small_machine)) (host_on small_machine))
     (stored_address 0x10c1 (at_pc 0 small_machine))"
  using translated_postincrement [of "0x10c1" "jit_on small_machine" zero_env "\<lambda>_. throw Undefined" "host_on small_machine"]
  by (simp add: TYP_def DST_def host_on_def jit_on_def small_machine_def machine_on_def cpu_static_def)

section \<open>The status register\<close>

lemma run_undefined_SR:
  "hpoints h RDI \<noteq> Some The_cpu \<Longrightarrow> run E X (X_call c_GetSR # is) h = Raise Undefined h"
  by (simp add: run.simps(2) step_def step_valid_def on_def c_GetSR_def given_def bind_def seq_def)

lemma imm_one: "imm_fits W8 1" by (simp add: imm_fits.simps)

text \<open>
  Translated \<open>MOVE SR,Dn\<close> in supervisor state calls \<open>GetSR\<close> without the reference to \<open>cpu\<close> it takes:
  the register of the first argument points to no object after the call of \<open>op_prologue\<close>, and what
  the call does is undefined.
\<close>

theorem translated_status_read:
  assumes "TYP op = 0" "S_bit (cpu (guest h))" "hpoints h RDI \<noteq> Some The_cpu"
  shows "\<exists>h'. run E X (code_of (jit_move_from_sr op) j) h = Raise Undefined h'"
proof -
  have code: "code_of (jit_move_from_sr op) j =
      [x_test CC_S (Imm 1), X_j C_nz (Local (jlabels j)), X_call (c_void PRIV_ERROR), X_bind (Local (jlabels j))] @
      pc_code (PC (cpu (jguest j))) @ [X_call c_GetSR, X_mov (DR_W (unat (REG op))) ax]"
    using assms(1) by (simp add: code_of_def jit_move_from_sr_def jit_priv_check_def jit_if_def newLabel_def asm_def
        update_pc_code pc_code_def ea_writeW_jit_def bind_def seq_def)
  show ?thesis
    using assms(2,3)
    by (simp add: code pc_code_def run_test_mem_imm run_jump imm_one alu_op_def at_width_def alu_word_def logic_word_def
        neg_def operand_defs field_get_def run_steps imm32 field_put_def run_undefined_SR)
qed

theorem translated_status_read_witness:
  "\<exists>h'. run zero_env (\<lambda>_. throw Undefined) (code_of (jit_move_from_sr 0x40c3) (jit_on small_machine))
       (clobber zero_env (host_on (small_machine\<lparr>cpu := cpu_static\<lparr>S_bit := True\<rparr>\<rparr>))) = Raise Undefined h'"
  by (rule translated_status_read) (simp_all add: TYP_def host_on_def clobber_def caller_saved_def)

section \<open>The table\<close>

lemma same_opcodes:
  "fst (ent m v h) = fst (ent m v h')" "fst (ent_ea m v lo hi h) = fst (ent_ea m v lo hi h')"
  "fst (ent_ctl m v h) = fst (ent_ctl m v h')" "fst (ent_move m v h) = fst (ent_move m v h')"
  by (simp_all add: ent_defs)

lemma rules_ea_opcodes: "map fst jit_rules_ea = map fst rules_ea"
  unfolding jit_rules_ea_def rules_ea_def list.map by (intro arg_cong2 [where f = Cons] same_opcodes refl)

lemma rules_dn_opcodes: "map fst jit_rules_dn = map fst rules_dn"
  unfolding jit_rules_dn_def rules_dn_def list.map by (intro arg_cong2 [where f = Cons] same_opcodes refl)

lemma rules_an_opcodes: "map fst jit_rules_an = map fst rules_an"
  unfolding jit_rules_an_def rules_an_def list.map by (intro arg_cong2 [where f = Cons] same_opcodes refl)

lemma rules_mem_opcodes: "map fst jit_rules_mem = map fst rules_mem"
  unfolding jit_rules_mem_def rules_mem_def list.map by (intro arg_cong2 [where f = Cons] same_opcodes refl)

lemma rules_misc_opcodes: "map fst jit_rules_misc = map fst rules_misc"
  unfolding jit_rules_misc_def rules_misc_def list.map by (intro arg_cong2 [where f = Cons] same_opcodes refl)

lemma rules_shift_opcodes: "map fst jit_rules_shift = map fst rules_shift"
  unfolding jit_rules_shift_def rules_shift_def list.map by (intro arg_cong2 [where f = Cons] same_opcodes refl)

lemma rules_move16_opcodes: "map fst jit_rules_move16 = map fst rules_move16"
  unfolding jit_rules_move16_def rules_move16_def list.map by (intro arg_cong2 [where f = Cons] same_opcodes refl)

lemma rules_mmu_opcodes: "map fst jit_rules_mmu = map fst rules_mmu"
  unfolding jit_rules_mmu_def rules_mmu_def list.map by (intro arg_cong2 [where f = Cons] same_opcodes refl)

lemma rules_fpu_opcodes: "map fst (jit_rules_fpu M) = map fst (rules_fpu f)"
  unfolding jit_rules_fpu_def rules_fpu_def list.map by (intro arg_cong2 [where f = Cons] same_opcodes refl)

lemmas rules_opcodes = rules_ea_opcodes rules_dn_opcodes rules_an_opcodes rules_mem_opcodes rules_misc_opcodes
  rules_shift_opcodes rules_move16_opcodes rules_mmu_opcodes rules_fpu_opcodes

lemma init_opcodes: "map fst (jit_init fpu) = map fst (run_rules (map_option full_fpu fpu))"
  by (cases fpu; simp only: jit_init_def run_rules_def option.case option.map map_append list.map;
      intro arg_cong2 [where f = append] rules_opcodes refl)

lemma lookup_last_domain:
  "map fst rs = map fst rs' \<Longrightarrow> (r = None \<longleftrightarrow> r' = None) \<Longrightarrow>
   lookup_last rs op r = None \<longleftrightarrow> lookup_last rs' op r' = None"
proof (induction rs arbitrary: rs' r r')
  case (Cons a rs)
  then obtain b rs2 where "rs' = b # rs2" "fst a = fst b" "map fst rs = map fst rs2"
    by (cases rs') auto
  then show ?case
    using Cons by (cases a; cases b) simp
qed simp

text \<open>
  C11. The translator knows exactly the opcodes the interpreter knows: its table has a translation for an
  opcode when the opcode table has a handler for it, with and without a floating-point unit.
\<close>

theorem jit_table_domain:
  "(jit_compile_op fpu op = None) = (run_table (map_option full_fpu fpu) op = None)"
  unfolding jit_compile_op_def run_table_def by (rule lookup_last_domain [OF init_opcodes]) simp

section \<open>Running\<close>

text \<open>
  C27. \<open>jit_run(pc, 0)\<close>, the call the program makes, never runs translated code at an address
  that has no entry: it translates an empty block, makes a null entry for the address and has the
  interpreter execute one instruction.
\<close>

theorem run_untranslated:
  assumes "\<not> jit_tables (mach s) pc"
  shows "jit_run A fpu n pc 0 s = on_mach (seq (set_inJit False) (run_op (map_option full_fpu fpu)))
     (s\<lparr>mach := (mach s)\<lparr>cpu := (cpu (mach s))\<lparr>PC := pc\<rparr>, jit_tables := (jit_tables (mach s))(pc := True)\<rparr>,
        caches := (caches s)(pc := None)\<rparr>)"
  using assms
  by (auto simp add: jit_run_def on_mach_def lift_part_def jit_compile_def Let_def labels_loop_ends_def emit_def
     jit_jumptable_def entry_of_def seq_def bind_def asm_def on_guest_def jPC_def
     split: outcome.splits)

theorem run_untranslated_witness:
  "jit_run \<lparr>lens = (\<lambda>_. 1), bmi2 = False, odd_code = (\<lambda>_. throw Undefined), henv = zero_env\<rparr> None 1 0x20 0
       \<lparr>mach = small_machine, caches = (\<lambda>_. None)\<rparr> =
     on_mach (seq (set_inJit False) (run_op None))
       \<lparr>mach = small_machine\<lparr>cpu := cpu_static\<lparr>PC := 0x20\<rparr>, jit_tables := (\<lambda>_. False)(0x20 := True)\<rparr>, caches = (\<lambda>_. None)\<rparr>"
  using run_untranslated [of "\<lparr>mach = small_machine, caches = (\<lambda>_. None)\<rparr>" "0x20"
      "\<lparr>lens = (\<lambda>_. 1), bmi2 = False, odd_code = (\<lambda>_. throw Undefined), henv = zero_env\<rparr>" None 1]
  by (simp add: small_machine_def machine_on_def)

end
