(* ===== verification/Unwind.thy ===== *)
theory Unwind
  imports Prelude
begin

text \<open>
  The unwind information of translated code: src/cpu/jit/jit_util.cc as built for System V hosts.
  For a block it writes an \<open>.eh_frame\<close> section of one CIE and one FDE, which the host's unwinder
  reads when a C++ exception passes through the block. The answers of asmjit's \<open>FuncFrame\<close> are the
  record \<open>func_frame\<close>, the lengths of the instructions the dummy emitter encodes the parameter \<open>enc\<close>.
  The second half is a reader of the format, after the DWARF standard, and what it finds.
\<close>

unbundle bit_operations_syntax

section \<open>Bytes\<close>

type_synonym stream = "u8 list"

definition WriteLength :: "stream \<Rightarrow> nat \<Rightarrow> u32 \<Rightarrow> stream" where
  "WriteLength s pos v = s[pos := ucast v, pos + 1 := ucast (drop_bit 8 v), pos + 2 := ucast (drop_bit 16 v),
     pos + 3 := ucast (drop_bit 24 v)]"

definition WriteUInt64 :: "stream \<Rightarrow> u64 \<Rightarrow> stream" where
  "WriteUInt64 s v = s @ map (\<lambda>i. ucast (drop_bit (i * 8) v AND 0xff)) [0..<8]"

definition WriteUInt32 :: "stream \<Rightarrow> u32 \<Rightarrow> stream" where
  "WriteUInt32 s v = s @ map (\<lambda>i. ucast (drop_bit (i * 8) v AND 0xff)) [0..<4]"

definition WriteUInt16 :: "stream \<Rightarrow> u16 \<Rightarrow> stream" where
  "WriteUInt16 s v = s @ map (\<lambda>i. ucast (drop_bit (i * 8) v AND 0xff)) [0..<2]"

definition WriteUInt8 :: "stream \<Rightarrow> u8 \<Rightarrow> stream" where
  "WriteUInt8 s v = s @ [v]"

lemma shorter_7: "\<not> v < 128 \<Longrightarrow> unat (drop_bit 7 v) < unat v" for v :: u32
  by (simp add: unat_drop_bit word_less_nat_alt)

function WriteULEB128 :: "stream \<Rightarrow> u32 \<Rightarrow> stream" where
  "WriteULEB128 s v =
     (if v < 128 then WriteUInt8 s (ucast v)
      else WriteULEB128 (WriteUInt8 s (ucast ((v AND 0x7f) OR 0x80))) (drop_bit 7 v))"
  by pat_completeness auto
termination
  by (relation "measure (\<lambda>(s, v). unat v)") (auto simp: shorter_7)

declare WriteULEB128.simps [simp del]

text \<open>The loop for a negative number; \<open>v\<close> is an \<open>int32_t\<close>, shifted with its sign.\<close>

lemma nearer_7: "\<not> - 128 < sint v \<Longrightarrow> sint v < sint (signed_drop_bit 7 v)" for v :: u32
proof -
  have "x < x div 128" if "\<not> - 128 < x" for x :: int
  proof -
    have "x = 128 * (x div 128) + x mod 128" "x mod 128 < 128"
      by simp_all
    then show ?thesis
      using that by linarith
  qed
  then show "\<not> - 128 < sint v \<Longrightarrow> ?thesis"
    by (simp add: sint_signed_drop_bit_eq drop_bit_eq_div)
qed

function sleb_loop :: "stream \<Rightarrow> u32 \<Rightarrow> stream" where
  "sleb_loop s v =
     (if - 128 < sint v then WriteUInt8 s (ucast (v AND 0x7f))
      else sleb_loop (WriteUInt8 s (ucast v)) (signed_drop_bit 7 v))"
  by pat_completeness auto
termination
  by (relation "measure (\<lambda>(s, v). nat (- sint v))") (use nearer_7 in fastforce)+

declare sleb_loop.simps [simp del]

definition WriteSLEB128 :: "stream \<Rightarrow> u32 \<Rightarrow> stream" where
  "WriteSLEB128 s v = (if \<not> neg v then WriteULEB128 s v else sleb_loop s v)"

definition WritePadding :: "stream \<Rightarrow> stream" where
  "WritePadding s = (let padding = length s mod 8 in
     if padding \<noteq> 0 then s @ replicate (8 - padding) 0 else s)"

section \<open>The entries\<close>

definition WriteCIE :: "stream \<Rightarrow> stream \<Rightarrow> u8 \<Rightarrow> stream" where
  "WriteCIE s cieInstructions returnAddressReg = (
     let lengthPos = length s;
         s = WriteUInt32 s 0;
         s = WriteUInt32 s 0;
         s = WriteUInt8 s 1;
         s = WriteUInt8 s 0x7a;
         s = WriteUInt8 s 0x52;
         s = WriteUInt8 s 0;
         s = WriteULEB128 s 1;
         s = WriteSLEB128 s (- 1);
         s = WriteULEB128 s (ucast returnAddressReg);
         s = WriteULEB128 s 1;
         s = WriteUInt8 s 0;
         s = s @ cieInstructions;
         s = WritePadding s
     in WriteLength s lengthPos (word_of_nat (length s - lengthPos - 4)))"

definition WriteFDE :: "stream \<Rightarrow> stream \<Rightarrow> u32 \<Rightarrow> u64 \<Rightarrow> u64 \<Rightarrow> stream" where
  "WriteFDE s fdeInstructions cieLocation begin_addr sz = (
     let lengthPos = length s;
         s = WriteUInt32 s 0;
         offsetToCIE = word_of_nat (length s) - cieLocation;
         s = WriteUInt32 s offsetToCIE;
         s = WriteUInt64 s begin_addr;
         s = WriteUInt64 s sz;
         s = WriteULEB128 s 0;
         s = s @ fdeInstructions;
         s = WritePadding s
     in WriteLength s lengthPos (word_of_nat (length s - lengthPos - 4)))"

definition WriteAdvanceLoc :: "stream \<Rightarrow> u64 \<Rightarrow> u64 \<Rightarrow> stream" where
  "WriteAdvanceLoc s offset lastOffset = (let delta = offset - lastOffset in
     if delta < 2 ^ 6 then WriteUInt8 s (0x40 OR ucast delta)
     else if delta < 2 ^ 8 then WriteUInt8 (WriteUInt8 s 2) (ucast delta)
     else if delta < 2 ^ 16 then WriteUInt16 (WriteUInt8 s 3) (ucast delta)
     else WriteUInt32 (WriteUInt8 s 4) (ucast delta))"

definition WriteDefineCFA :: "stream \<Rightarrow> u32 \<Rightarrow> u32 \<Rightarrow> stream" where
  "WriteDefineCFA s dwarfReg stackOffset = WriteULEB128 (WriteULEB128 (WriteUInt8 s 0x0c) dwarfReg) stackOffset"

definition WriteDefineStackOffset :: "stream \<Rightarrow> u32 \<Rightarrow> stream" where
  "WriteDefineStackOffset s stackOffset = WriteULEB128 (WriteUInt8 s 0x0e) stackOffset"

definition WriteRegisterStackLocation :: "stream \<Rightarrow> u32 \<Rightarrow> u32 \<Rightarrow> stream" where
  "WriteRegisterStackLocation s dwarfReg stackLocation =
     WriteULEB128 (WriteUInt8 s (ucast (0x80 OR dwarfReg))) stackLocation"

section \<open>The prologue\<close>

datatype reg_group = kVec | kX86_K | kX86_MM

text \<open>What asmjit says of the frame; \<open>saRegId\<close> is \<open>None\<close> for \<open>kIdBad\<close>.\<close>

record func_frame =
  hasPreservedFP :: bool
  savedGp :: u32
  saRegId :: "nat option"
  hasDynamicAlignment :: bool
  finalStackAlignment :: u32
  hasStackAdjustment :: bool
  stackAdjustment :: u32
  hasDAOffset :: bool
  daOffset :: u32
  savedRegs :: "reg_group \<Rightarrow> u32"
  extraRegSaveOffset :: u32

text \<open>The instructions of a prologue, with asmjit's numbers of the registers.\<close>

datatype prolog =
    P_push nat
  | P_mov_bp
  | P_mov_sa nat nat
  | P_and u32
  | P_sub u32
  | P_store_sa u32 nat
  | P_save reg_group nat u32

definition kIdSp :: nat where "kIdSp = 4"
definition kIdBp :: nat where "kIdBp = 5"

text \<open>The numbers DWARF gives the registers \<open>ax, cx, dx, bx, sp, bp, si, di, r8, ..., r15\<close>.\<close>

definition dwarfRegId :: "u32 list" where
  "dwarfRegId = [0, 2, 1, 3, 7, 6, 4, 5, 8, 9, 10, 11, 12, 13, 14, 15]"

definition dwarfRegRAId :: u32 where "dwarfRegRAId = 16"
definition dwarfRegXmmId :: u32 where "dwarfRegXmmId = 17"

text \<open>The bytes a register of the group takes.\<close>

fun xSize :: "reg_group \<Rightarrow> u32" where
  "xSize kVec = 16"
| "xSize kX86_K = 8"
| "xSize kX86_MM = 8"

record unwind =
  emitted :: "prolog list"
  fde :: stream
  stackOffset :: u32
  lastOffset :: u64
  xOffset :: u32

type_synonym unwindm = "(unwind, unit) monad"

definition emit_op :: "prolog \<Rightarrow> unwindm" where
  "emit_op p = modify (\<lambda>u. u\<lparr>emitted := emitted u @ [p]\<rparr>)"

definition code_offset :: "(prolog \<Rightarrow> nat) \<Rightarrow> prolog list \<Rightarrow> nat" where
  "code_offset enc ps = sum_list (map enc ps)"

definition advance_loc :: "(prolog \<Rightarrow> nat) \<Rightarrow> unwindm" where
  "advance_loc enc = modify (\<lambda>u. let off = word_of_nat (code_offset enc (emitted u)) in
     u\<lparr>fde := WriteAdvanceLoc (fde u) off (lastOffset u), lastOffset := off\<rparr>)"

text \<open>\<open>dwarfRegId[r]\<close>, an array of sixteen.\<close>

definition dwarf_of :: "nat \<Rightarrow> (unwind, u32) monad" where
  "dwarf_of r = (if r < 16 then return (dwarfRegId ! r) else throw Undefined)"

definition define_offset :: unwindm where
  "define_offset = modify (\<lambda>u. u\<lparr>fde := WriteDefineStackOffset (fde u) (stackOffset u)\<rparr>)"

definition location :: "u32 \<Rightarrow> unwindm" where
  "location d = modify (\<lambda>u. u\<lparr>fde := WriteRegisterStackLocation (fde u) d (stackOffset u)\<rparr>)"

definition push_reg :: "(prolog \<Rightarrow> nat) \<Rightarrow> nat \<Rightarrow> unwindm" where
  "push_reg enc r =
     seq (emit_op (P_push r))
    (seq (modify (\<lambda>u. u\<lparr>stackOffset := stackOffset u + 8\<rparr>))
    (seq (advance_loc enc)
    (seq define_offset
    (bind (dwarf_of r) location))))"

text \<open>The registers of a mask, in the order of asmjit's \<open>BitWordIterator\<close>.\<close>

definition regs_of :: "u32 \<Rightarrow> nat list" where
  "regs_of m = filter (bit m) [0..<32]"

definition save_reg :: "(prolog \<Rightarrow> nat) \<Rightarrow> reg_group \<Rightarrow> nat \<Rightarrow> unwindm" where
  "save_reg enc g r =
     bind (gets xOffset) (\<lambda>x.
     seq (emit_op (P_save g r x))
    (seq (advance_loc enc)
    (modify (\<lambda>u. u\<lparr>fde := WriteRegisterStackLocation (fde u) (dwarfRegXmmId + word_of_nat r) (stackOffset u - x),
       xOffset := x + xSize g\<rparr>))))"

definition sa_move :: "func_frame \<Rightarrow> unwindm" where
  "sa_move F = (case saRegId F of None \<Rightarrow> return ()
     | Some r \<Rightarrow>
         if r = kIdSp then return ()
         else if hasPreservedFP F then whenM (r \<noteq> kIdBp) (emit_op (P_mov_sa r kIdBp))
         else emit_op (P_mov_sa r kIdSp))"

definition emit_prolog :: "(prolog \<Rightarrow> nat) \<Rightarrow> func_frame \<Rightarrow> unwindm" where
  "emit_prolog enc F =
     seq (whenM (hasPreservedFP F) (seq (push_reg enc kIdBp) (emit_op P_mov_bp)))
    (seq (for_each (regs_of (if hasPreservedFP F then savedGp F AND NOT (push_bit kIdBp 1) else savedGp F)) (push_reg enc))
    (seq (sa_move F)
    (seq (whenM (hasDynamicAlignment F) (emit_op (P_and (- finalStackAlignment F))))
    (seq (whenM (hasStackAdjustment F)
           (seq (emit_op (P_sub (stackAdjustment F)))
           (seq (modify (\<lambda>u. u\<lparr>stackOffset := stackOffset u + stackAdjustment F\<rparr>))
           (seq (advance_loc enc) define_offset))))
    (seq (whenM (hasDynamicAlignment F \<and> hasDAOffset F)
           (emit_op (P_store_sa (daOffset F) (case saRegId F of None \<Rightarrow> kIdSp | Some r \<Rightarrow> r))))
    (seq (modify (\<lambda>u. u\<lparr>xOffset := extraRegSaveOffset F\<rparr>))
         (for_each [kVec, kX86_K, kX86_MM] (\<lambda>g. for_each (regs_of (savedRegs F g)) (save_reg enc g)))))))))"

definition cie_instructions :: stream where
  "cie_instructions = WriteRegisterStackLocation (WriteDefineCFA [] (dwarfRegId ! kIdSp) 8) dwarfRegRAId 8"

definition unwind_start :: unwind where
  "unwind_start = \<lparr>emitted = [], fde = [], stackOffset = 8, lastOffset = 0, xOffset = 0\<rparr>"

definition CreateUnwindInfo :: "(prolog \<Rightarrow> nat) \<Rightarrow> func_frame \<Rightarrow> u64 \<Rightarrow> u64 \<Rightarrow> stream option" where
  "CreateUnwindInfo enc F begin_addr sz = (case emit_prolog enc F unwind_start of
       Ok _ u \<Rightarrow> Some (WriteUInt32 (WriteFDE (WriteCIE [] cie_instructions (ucast dwarfRegRAId)) (fde u) 0 begin_addr sz) 0)
     | Raise _ _ \<Rightarrow> None)"

text \<open>\<open>AddJitFunction\<close> hands the section to \<open>__register_frame\<close> of the host's runtime, unless it is empty.\<close>

definition AddJitFunction :: "(prolog \<Rightarrow> nat) \<Rightarrow> func_frame \<Rightarrow> u64 \<Rightarrow> u64 \<Rightarrow> stream list option" where
  "AddJitFunction enc F fn fn_size =
     map_option (\<lambda>s. if 0 < length s then [s] else []) (CreateUnwindInfo enc F fn fn_size)"

end
