(* ===== verification/UnwindRead.thy ===== *)
theory UnwindRead
  imports Unwind
begin

text \<open>
  A reader of call frame information after the DWARF standard: its numbers and instructions, with the
  lemmas that it reads what the functions of \<open>Unwind\<close> write.
\<close>

unbundle bit_operations_syntax

section \<open>Numbers\<close>

fun uleb :: "u8 list \<Rightarrow> (nat \<times> u8 list) option" where
  "uleb [] = None"
| "uleb (b # bs) =
     (if unat b < 128 then Some (unat b, bs)
      else map_option (apfst (\<lambda>n. unat b - 128 + 128 * n)) (uleb bs))"

fun sleb :: "u8 list \<Rightarrow> (int \<times> u8 list) option" where
  "sleb [] = None"
| "sleb (b # bs) =
     (if unat b < 64 then Some (int (unat b), bs)
      else if unat b < 128 then Some (int (unat b) - 128, bs)
      else map_option (apfst (\<lambda>n. int (unat b) - 128 + 128 * n)) (sleb bs))"

definition le_number :: "nat \<Rightarrow> u8 list \<Rightarrow> (nat \<times> u8 list) option" where
  "le_number n bs = (if length bs < n then None
     else Some (foldr (\<lambda>b a. unat b + 256 * a) (take n bs) 0, drop n bs))"

lemma uleb_shorter: "uleb bs = Some (n, r) \<Longrightarrow> length r < length bs"
  by (induction bs arbitrary: n r) (fastforce split: if_splits)+

lemma le_number_shorter: "le_number n bs = Some (m, r) \<Longrightarrow> length r = length bs - n"
  by (auto simp: le_number_def split: if_splits)

lemma WriteULEB128_append: "WriteULEB128 s v = s @ WriteULEB128 [] v"
proof (induction "unat v" arbitrary: s v rule: less_induct)
  case less
  show ?case
  proof (cases "v < 128")
    case False
    let ?b = "ucast ((v AND 0x7f) OR 0x80) :: u8"
    have "WriteULEB128 (s @ [?b]) (drop_bit 7 v) = (s @ [?b]) @ WriteULEB128 [] (drop_bit 7 v)"
      "WriteULEB128 [?b] (drop_bit 7 v) = [?b] @ WriteULEB128 [] (drop_bit 7 v)"
      using less shorter_7 [OF False] by blast+
    then show ?thesis
      using False by (simp add: WriteULEB128.simps [of _ v] WriteUInt8_def)
  qed (simp add: WriteULEB128.simps WriteUInt8_def)
qed

lemma unat_byte_of: "v < 128 \<Longrightarrow> unat (ucast v :: u8) = unat v" for v :: u32
  by (simp add: unsigned_ucast_eq word_less_nat_alt take_bit_nat_eq_self)

lemma unat_more: "unat (ucast ((v AND 0x7f) OR 0x80 :: u32) :: u8) = unat v mod 128 + 128" for v :: u32
proof -
  have m: "(127 :: u8) = mask 7"
    by (simp add: mask_eq_exp_minus_1)
  have "ucast ((v AND 0x7f) OR 0x80) = (take_bit 7 (ucast v) OR 0x80 :: u8)"
  proof -
    have "(v AND 0x7f) OR 0x80 = take_bit 7 v OR push_bit 7 1" "(0x80 :: u8) = push_bit 7 1"
      by (simp_all add: take_bit_eq_mask mask_eq_exp_minus_1)
    then show ?thesis
      by (simp only:) (rule bit_word_eqI, auto simp: bit_simps)
  qed
  moreover have "take_bit 7 (ucast v) AND 0x80 = (0 :: u8)"
    by (simp add: take_bit_eq_mask m [symmetric] and.assoc)
  ultimately have s: "ucast ((v AND 0x7f) OR 0x80) = (take_bit 7 (ucast v) + 0x80 :: u8)"
    by (simp add: disjunctive_add_eq_or)
  have "unat (take_bit 7 (ucast v :: u8)) = unat v mod 128"
    by (simp only: unsigned_take_bit_eq unsigned_ucast_eq take_bit_take_bit) (simp add: take_bit_eq_mod)
  then show ?thesis
    unfolding s by (simp add: unat_word_ariths)
qed

lemma uleb_step:
  "\<not> v < 128 \<Longrightarrow> WriteULEB128 [] v = ucast ((v AND 0x7f) OR 0x80) # WriteULEB128 [] (drop_bit 7 v)"
  by (subst WriteULEB128.simps) (simp add: WriteUInt8_def WriteULEB128_append [of "[_]"])

theorem uleb_read: "uleb (WriteULEB128 [] v @ rest) = Some (unat v, rest)"
proof (induction "unat v" arbitrary: v rule: less_induct)
  case less
  show ?case
  proof (cases "v < 128")
    case True
    then show ?thesis
      by (simp add: WriteULEB128.simps [of _ v] WriteUInt8_def unat_byte_of word_less_nat_alt)
  next
    case False
    then have "uleb (WriteULEB128 [] (drop_bit 7 v) @ rest) = Some (unat (drop_bit 7 v), rest)"
      using less shorter_7 by blast
    then show ?thesis
      using False by (simp add: uleb_step unat_more unat_drop_bit)
  qed
qed

lemma uleb_length: "unat v < 128 ^ n \<Longrightarrow> 0 < n \<Longrightarrow> length (WriteULEB128 [] v) \<le> n"
proof (induction n arbitrary: v)
  case (Suc n)
  show ?case
  proof (cases "v < 128")
    case True
    then show ?thesis
      by (simp add: WriteULEB128.simps [of _ v] WriteUInt8_def)
  next
    case False
    then have "0 < n"
      using Suc.prems by (cases n) (auto simp: word_less_nat_alt)
    moreover have "unat (drop_bit 7 v) < 128 ^ n"
      using Suc.prems by (simp add: unat_drop_bit less_mult_imp_div_less mult.commute)
    ultimately show ?thesis
      using Suc.IH False by (simp add: uleb_step)
  qed
qed simp

text \<open>
  The signed numbers are right from -64 to 63. Outside that range they are not: the loop ends at -127
  and for a nonnegative number the sign bit of the last byte is not looked at.
\<close>

lemma sleb_read:
  assumes "- 64 \<le> sint v" "sint v < 64"
  shows "sleb (WriteSLEB128 [] v @ rest) = Some (sint v, rest)"
proof -
  have u: "uint v = sint v mod 2 ^ 32"
    by (simp add: uint_sint take_bit_eq_mod)
  show ?thesis
  proof (cases "neg v")
    case False
    then have v: "int (unat v) = sint v"
      using u assms by (simp add: neg_def)
    then have "unat v < 64"
      using assms by linarith
    then show ?thesis
      using False v by (simp add: WriteSLEB128_def WriteULEB128.simps WriteUInt8_def unat_byte_of word_less_nat_alt)
  next
    case True
    have "uint v mod 128 = sint v mod 128"
      unfolding u by (simp add: mod_mod_cancel)
    also have "\<dots> = (sint v + 128) mod 128"
      by simp
    also have "\<dots> = sint v + 128"
      by (rule mod_pos_pos_trivial) (use True assms in \<open>simp_all add: neg_def\<close>)
    finally have "int (unat v mod 128) = sint v + 128"
      by (simp add: zmod_int)
    moreover have "unat (ucast (v AND 0x7f) :: u8) = unat v mod 128"
    proof -
      have "v AND 0x7f = take_bit 7 v"
        by (simp add: take_bit_eq_mask mask_eq_exp_minus_1)
      then show ?thesis
        by (simp only: unsigned_take_bit_eq unsigned_ucast_eq take_bit_take_bit) (simp add: take_bit_eq_mod)
    qed
    ultimately show ?thesis
      using True assms by (simp add: WriteSLEB128_def sleb_loop.simps WriteUInt8_def)
  qed
qed

lemma sleb_wrong: "sleb (WriteSLEB128 [] 64) = Some (- 64, [])" "sleb (WriteSLEB128 [] (- 100)) = Some (28, [])"
  by code_simp+

lemma unat_low_byte: "unat (ucast v :: u8) = unat v mod 256" for v :: "'a::len word"
  by (simp only: unsigned_ucast_eq) (simp add: take_bit_eq_mod)

lemma low_bytes:
  "foldr (\<lambda>b a. unat (b :: u8) + 256 * a) (map (\<lambda>i. ucast (drop_bit (i * 8) v)) [0..<n]) 0 = unat v mod 256 ^ n"
  for v :: "'a::len word"
proof (induction n arbitrary: v)
  case (Suc n)
  have "map (\<lambda>i. ucast (drop_bit (i * 8) v)) [0..<Suc n] =
      (ucast v :: u8) # map (\<lambda>i. ucast (drop_bit (i * 8) (drop_bit 8 v))) [0..<n]"
    by (simp add: upt_conv_Cons map_Suc_upt [symmetric] comp_def add.commute del: upt_Suc)
  then show ?case
    using Suc.IH [of "drop_bit 8 v"]
    by (simp add: unat_low_byte unat_drop_bit mod_mult2_eq mult.commute del: upt_Suc)
qed simp

lemma low_ff: "(ucast (x AND 0xff) :: u8) = ucast x" for x :: "'a::len word"
proof -
  have m: "(0xff :: 'a word) = mask 8"
    by (simp add: mask_eq_exp_minus_1)
  show ?thesis
    unfolding m by (rule bit_word_eqI) (auto simp: bit_simps dest: bit_imp_le_length)
qed

lemma number_read:
  "le_number n (map (\<lambda>i. ucast (drop_bit (i * 8) v AND 0xff)) [0..<n] @ rest) = Some (unat v mod 256 ^ n, rest)"
  for v :: "'a::len word"
  by (simp add: le_number_def low_bytes low_ff)

lemma fixed_read:
  "le_number 2 (WriteUInt16 [] h @ rest) = Some (unat h, rest)"
  "le_number 4 (WriteUInt32 [] w @ rest) = Some (unat w, rest)"
  "le_number 8 (WriteUInt64 [] d @ rest) = Some (unat d, rest)"
  using unsigned_less [of h, where ?'a = nat] unsigned_less [of w, where ?'a = nat] unsigned_less [of d, where ?'a = nat]
  by (simp_all add: WriteUInt16_def WriteUInt32_def WriteUInt64_def number_read del: upt_Suc)

lemma fixed_length:
  "length (WriteUInt16 s h) = length s + 2" "length (WriteUInt32 s w) = length s + 4"
  "length (WriteUInt64 s d) = length s + 8"
  by (simp_all add: WriteUInt16_def WriteUInt32_def WriteUInt64_def)

lemma fixed_append:
  "WriteUInt8 s b = s @ [b]" "WriteUInt16 s h = s @ WriteUInt16 [] h" "WriteUInt32 s w = s @ WriteUInt32 [] w"
  "WriteUInt64 s d = s @ WriteUInt64 [] d"
  by (simp_all add: WriteUInt8_def WriteUInt16_def WriteUInt32_def WriteUInt64_def)

lemma WriteLength_at: "WriteLength (s @ WriteUInt32 [] 0 @ t) (length s) v = s @ WriteUInt32 [] v @ t"
  by (simp add: WriteLength_def WriteUInt32_def list_update_append low_ff upt_rec)

section \<open>Instructions of the tables\<close>

datatype cfa_op = Advance nat | Def_cfa nat nat | Def_cfa_offset nat | Offset nat nat | Nop

definition read_op :: "u8 list \<Rightarrow> (cfa_op \<times> u8 list) option" where
  "read_op bs = (case bs of [] \<Rightarrow> None | b # r \<Rightarrow>
     let high = unat b div 64; low = unat b mod 64 in
     if high = 1 then Some (Advance low, r)
     else if high = 2 then map_option (apfst (Offset low)) (uleb r)
     else if high = 3 then None
     else if low = 0 then Some (Nop, r)
     else if low = 2 then map_option (apfst Advance) (le_number 1 r)
     else if low = 3 then map_option (apfst Advance) (le_number 2 r)
     else if low = 4 then map_option (apfst Advance) (le_number 4 r)
     else if low = 0x0c then Option.bind (uleb r) (\<lambda>(d, r). map_option (apfst (Def_cfa d)) (uleb r))
     else if low = 0x0e then map_option (apfst Def_cfa_offset) (uleb r)
     else None)"

lemma read_op_shorter: "read_op bs = Some (p, r) \<Longrightarrow> length r < length bs"
  by (auto simp: read_op_def Let_def bind_eq_Some_conv split: list.splits if_splits
      dest!: uleb_shorter le_number_shorter)

function read_ops :: "u8 list \<Rightarrow> cfa_op list option" where
  "read_ops bs = (if bs = [] then Some []
     else case read_op bs of None \<Rightarrow> None | Some (p, r) \<Rightarrow> map_option ((#) p) (read_ops r))"
  by pat_completeness auto
termination
  by (relation "measure length") (auto dest: read_op_shorter)

declare read_ops.simps [simp del]

text \<open>\<open>bs\<close> are the bytes of \<open>ps\<close>, whatever follows.\<close>

definition reads :: "u8 list \<Rightarrow> cfa_op list \<Rightarrow> bool" where
  "reads bs ps \<longleftrightarrow> (\<forall>rest. read_ops (bs @ rest) = map_option ((@) ps) (read_ops rest))"

lemma reads_Nil: "reads [] []"
  by (simp add: reads_def map_option_case split: option.split)

lemma reads_append: "reads a ps \<Longrightarrow> reads b qs \<Longrightarrow> reads (a @ b) (ps @ qs)"
  by (simp add: reads_def map_option_case split: option.split)

lemma reads_op: "(\<And>rest. read_op (bs @ rest) = Some (p, rest)) \<Longrightarrow> reads bs [p]"
proof -
  assume op: "\<And>rest. read_op (bs @ rest) = Some (p, rest)"
  then have "bs \<noteq> []"
    using op [of "[]"] by (auto simp: read_op_def)
  then show ?thesis
    using op by (simp add: reads_def read_ops.simps [of "bs @ rest" for rest] map_option_case split: option.split)
qed

lemma reads_padding: "reads (replicate n 0) (replicate n Nop)"
proof (induction n)
  case (Suc n)
  have "reads [0] [Nop]"
    by (rule reads_op) (simp add: read_op_def)
  then show ?case
    using reads_append [OF \<open>reads [0] [Nop]\<close> Suc] by simp
qed (simp add: reads_Nil)

lemma read_all: "reads bs ps \<Longrightarrow> read_ops bs = Some ps"
  by (drule reads_def [THEN iffD1], drule spec [of _ "[]"]) (simp add: read_ops.simps [of "[]"])

lemma or_small: "push_bit k 1 OR r = push_bit k 1 + r" if "6 \<le> k" "r < 64" for r :: "'a::len word"
proof -
  have "unat r < take_bit LENGTH('a) 64"
    using that(2) by (simp add: word_less_nat_alt)
  note less_le_trans [OF this take_bit_nat_less_eq_self]
  then have "unat r < 2 ^ 6"
    by simp
  then have "take_bit 6 r = r"
    by (simp add: word_unat_eq_iff unsigned_take_bit_eq take_bit_nat_eq_self)
  moreover have "push_bit k 1 AND take_bit 6 r = 0"
    using that by (auto intro!: bit_word_eqI simp: bit_simps)
  ultimately show ?thesis
    by (simp add: disjunctive_add_eq_or)
qed

lemma tag_bits:
  "n < 64 \<Longrightarrow> (64 + n) div 64 = 1" "n < 64 \<Longrightarrow> (64 + n) mod 64 = n" "n < 64 \<Longrightarrow> (128 + n) div 64 = 2"
  "n < 64 \<Longrightarrow> (128 + n) mod 64 = n" for n :: nat
  using div_mult_self1 [of 64 n 2] mod_mult_self1 [of n 2 64] by (simp_all add: add.commute)

lemma read_op_tags:
  "unat b = 64 + n \<Longrightarrow> n < 64 \<Longrightarrow> read_op (b # r) = Some (Advance n, r)"
  "unat b = 128 + n \<Longrightarrow> n < 64 \<Longrightarrow> read_op (b # r) = map_option (apfst (Offset n)) (uleb r)"
  by (simp_all add: read_op_def tag_bits Let_def)

lemma read_op_advances:
  "read_op (2 # r) = map_option (apfst Advance) (le_number 1 r)"
  "read_op (3 # r) = map_option (apfst Advance) (le_number 2 r)"
  "read_op (4 # r) = map_option (apfst Advance) (le_number 4 r)"
  by (simp_all add: read_op_def)

lemma reads_location: "r < 64 \<Longrightarrow> reads (WriteRegisterStackLocation [] r n) [Offset (unat r) (unat n)]"
proof (rule reads_op)
  fix rest
  assume r: "r < 64"
  then have "(0x80 OR r :: u32) = 0x80 + r"
    using or_small [of 7 r] by simp
  moreover have "unat (ucast (0x80 + r) :: u8) = 128 + unat r"
    using r by (simp add: unat_low_byte unat_word_ariths word_less_nat_alt)
  ultimately show "read_op (WriteRegisterStackLocation [] r n @ rest) = Some (Offset (unat r) (unat n), rest)"
    using r by (simp add: read_op_tags(2) [of _ "unat r"] WriteRegisterStackLocation_def fixed_append
      WriteULEB128_append [of "[_]"] uleb_read word_less_nat_alt)
qed

lemma reads_define: "reads (WriteDefineStackOffset [] n) [Def_cfa_offset (unat n)]"
  by (rule reads_op) (simp add: read_op_def WriteDefineStackOffset_def fixed_append WriteULEB128_append [of "[_]"] uleb_read)

lemma reads_CFA: "reads (WriteDefineCFA [] r n) [Def_cfa (unat r) (unat n)]"
  by (rule reads_op)
    (simp add: read_op_def WriteDefineCFA_def fixed_append WriteULEB128_append [of "_ # _"] uleb_read)

lemma reads_advance:
  assumes "unat from \<le> unat off" "unat off < 2 ^ 32"
  shows "reads (WriteAdvanceLoc [] off from) [Advance (unat off - unat from)]"
proof (rule reads_op)
  fix rest
  let ?d = "off - from"
  have d: "unat ?d = unat off - unat from"
    using assms by (simp add: unat_sub word_le_nat_alt)
  then have n: "unat ?d < 2 ^ 32"
    using assms by linarith
  have s: "(0x40 OR ucast ?d :: u8) = 0x40 + ucast ?d" "unat (0x40 + ucast ?d :: u8) = 64 + unat ?d" if "?d < 64"
  proof -
    have "unat (ucast ?d :: u8) = unat ?d"
      using that by (simp add: unat_low_byte word_less_nat_alt)
    then show "unat (0x40 + ucast ?d :: u8) = 64 + unat ?d" "(0x40 OR ucast ?d :: u8) = 0x40 + ucast ?d"
      using that or_small [of 6 "ucast ?d :: u8"] by (simp_all add: unat_word_ariths word_less_nat_alt)
  qed
  have narrow: "unat (ucast ?d :: u32) = unat ?d" "?d < 0x10000 \<Longrightarrow> unat (ucast ?d :: u16) = unat ?d"
    "?d < 0x100 \<Longrightarrow> unat (ucast ?d :: u8) = unat ?d"
    using n by (simp_all add: unsigned_ucast_eq take_bit_nat_eq_self word_less_nat_alt)
  consider "?d < 64" | "\<not> ?d < 64" "?d < 0x100" | "\<not> ?d < 64" "\<not> ?d < 0x100" "?d < 0x10000"
    | "\<not> ?d < 64" "\<not> ?d < 0x100" "\<not> ?d < 0x10000"
    by blast
  then have "read_op (WriteAdvanceLoc [] off from @ rest) = Some (Advance (unat ?d), rest)"
  proof cases
    case 1
    then show ?thesis
      using s by (simp add: WriteAdvanceLoc_def fixed_append(1) read_op_tags(1) [of _ "unat ?d"] word_less_nat_alt)
  next
    case 2
    then show ?thesis
      using narrow by (simp add: WriteAdvanceLoc_def fixed_append(1) read_op_advances le_number_def)
  next
    case 3
    then show ?thesis
      using narrow by (simp add: WriteAdvanceLoc_def fixed_append(1) fixed_append(2) [of "[_]"] read_op_advances fixed_read)
  next
    case 4
    then show ?thesis
      using narrow by (simp add: WriteAdvanceLoc_def fixed_append(1) fixed_append(3) [of "[_]"] read_op_advances fixed_read)
  qed
  then show "read_op (WriteAdvanceLoc [] off from @ rest) = Some (Advance (unat off - unat from), rest)"
    by (simp add: d)
qed

end
