(* ===== verification/UnwindProps.thy ===== *)
theory UnwindProps
  imports UnwindRead X86
begin

text \<open>
  The rows of the tables, the frame the prologue of a block builds, and that the tables
  \<open>CreateUnwindInfo\<close> writes describe it at every instruction boundary.
\<close>

unbundle bit_operations_syntax

section \<open>Rows\<close>

text \<open>
  A row of the table: from \<open>loc\<close> on, the canonical frame address is \<open>cfa\<close> above the register
  \<open>cfa_reg\<close>, and \<open>saved\<close> says where registers are saved, relative to it.
\<close>

record row =
  loc :: nat
  cfa_reg :: nat
  cfa :: nat
  saved :: "nat \<Rightarrow> int option"

fun cfa_step :: "nat \<Rightarrow> int \<Rightarrow> cfa_op \<Rightarrow> row \<Rightarrow> row" where
  "cfa_step caf daf (Advance n) r = r\<lparr>loc := loc r + caf * n\<rparr>"
| "cfa_step caf daf (Def_cfa d n) r = r\<lparr>cfa_reg := d, cfa := n\<rparr>"
| "cfa_step caf daf (Def_cfa_offset n) r = r\<lparr>cfa := n\<rparr>"
| "cfa_step caf daf (Offset d n) r = r\<lparr>saved := (saved r)(d \<mapsto> daf * int n)\<rparr>"
| "cfa_step caf daf Nop r = r"

text \<open>The row at a position: the instructions up to the first that advances past it.\<close>

fun row_at :: "nat \<Rightarrow> int \<Rightarrow> nat \<Rightarrow> cfa_op list \<Rightarrow> row \<Rightarrow> row" where
  "row_at caf daf t [] r = r"
| "row_at caf daf t (p # ps) r = (let r' = cfa_step caf daf p r in
     if loc r' \<le> t then row_at caf daf t ps r' else r)"

abbreviation run_rows :: "nat \<Rightarrow> int \<Rightarrow> cfa_op list \<Rightarrow> row \<Rightarrow> row" where
  "run_rows caf daf \<equiv> fold (cfa_step caf daf)"

lemma loc_step: "loc r \<le> loc (cfa_step caf daf p r)"
  by (cases p) simp_all

lemma loc_run: "loc r \<le> loc (run_rows caf daf ps r)"
  by (induction ps arbitrary: r) (auto intro: order_trans loc_step)

lemma row_at_append:
  "loc (run_rows caf daf ps r) \<le> t \<Longrightarrow> row_at caf daf t (ps @ qs) r = row_at caf daf t qs (run_rows caf daf ps r)"
  by (induction ps arbitrary: r) (auto simp: Let_def dest: order_trans [OF loc_run])

lemma row_at_past:
  "t < loc (run_rows caf daf (ps @ [p]) r) \<Longrightarrow> row_at caf daf t (ps @ p # qs) r = row_at caf daf t ps r"
  by (induction ps arbitrary: r) (auto simp: Let_def)

lemma run_padding: "run_rows caf daf (replicate n Nop) r = r"
  by (induction n) simp_all

lemma row_at_padding: "row_at caf daf t (ps @ replicate n Nop) r = row_at caf daf t ps r"
proof -
  have pad: "row_at caf daf t (replicate n Nop) r = r" for r
    by (induction n) (simp_all add: Let_def)
  show ?thesis
    by (induction ps arbitrary: r) (simp_all add: pad Let_def)
qed

section \<open>Registers\<close>

text \<open>
  The registers of the processor by name. Instructions number the general ones as the
  architecture does; a table numbers all of them as the System V supplement for AMD64 says
  (its figure of the DWARF register numbers), which is another order.
\<close>

datatype host_reg = Return_addr | Gp gpr | Xmm nat | Mmx nat | Kmask nat

definition gpr_encoding :: "gpr list" where
  "gpr_encoding = [RAX, RCX, RDX, RBX, RSP, RBP, RSI, RDI, R8, R9, R10, R11, R12, R13, R14, R15]"

fun group_reg :: "reg_group \<Rightarrow> nat \<Rightarrow> host_reg" where
  "group_reg kVec n = Xmm n"
| "group_reg kX86_K n = Kmask n"
| "group_reg kX86_MM n = Mmx n"

definition dwarf_registers :: "(nat \<times> host_reg) list" where
  "dwarf_registers =
     zip [0..<16] (map Gp [RAX, RDX, RCX, RBX, RSI, RDI, RBP, RSP, R8, R9, R10, R11, R12, R13, R14, R15]) @
     [(16, Return_addr)] @ map (\<lambda>n. (17 + n, Xmm n)) [0..<16] @ map (\<lambda>n. (41 + n, Mmx n)) [0..<8] @
     map (\<lambda>n. (67 + n, Xmm (16 + n))) [0..<16] @ map (\<lambda>n. (118 + n, Kmask n)) [0..<8]"

lemma dwarf_registers_functional:
  assumes "(n, g) \<in> set dwarf_registers"
  shows "(n, g') \<in> set dwarf_registers \<longleftrightarrow> g' = g" "(n', g) \<in> set dwarf_registers \<longleftrightarrow> n' = n"
proof -
  have keys: "distinct (map fst dwarf_registers)" and names: "distinct (map snd dwarf_registers)"
    by code_simp+
  show "(n, g') \<in> set dwarf_registers \<longleftrightarrow> g' = g"
    using assms eq_key_imp_eq_value [OF keys] by blast
  have "inj_on snd (set dwarf_registers)"
    using names by (simp add: distinct_map)
  with assms show "(n', g) \<in> set dwarf_registers \<longleftrightarrow> n' = n"
    by (metis fst_conv inj_onD snd_conv)
qed

text \<open>The numbers of the code agree with the supplement for the registers a prologue pushes, and for xmm0 to xmm15.\<close>

lemma pushed_number:
  assumes "r < 16"
  shows "(unat (dwarfRegId ! r), Gp (gpr_encoding ! r)) \<in> set dwarf_registers"
proof -
  have "list_all (\<lambda>r. (unat (dwarfRegId ! r), Gp (gpr_encoding ! r)) \<in> set dwarf_registers) [0..<16]"
    by code_simp
  with assms show ?thesis
    by (simp add: list_all_iff)
qed

lemma vector_number: "r < 16 \<Longrightarrow> (17 + r, Xmm r) \<in> set dwarf_registers"
  by (simp add: dwarf_registers_def)

section \<open>The prologue\<close>

text \<open>
  What the prologue does to the frame: how far the stack pointer is below the canonical frame
  address, and where the registers are, relative to it.
\<close>

type_synonym frame_state = "nat \<times> (host_reg \<Rightarrow> int option)"

fun after_insn :: "prolog \<Rightarrow> frame_state \<Rightarrow> frame_state" where
  "after_insn (P_push r) (d, s) = (d + 8, s(Gp (gpr_encoding ! r) \<mapsto> - int (d + 8)))"
| "after_insn (P_sub n) (d, s) = (d + unat n, s)"
| "after_insn (P_save g r x) (d, s) = (d, s(group_reg g r \<mapsto> int (unat x) - int d))"
| "after_insn p s = s"

definition entry_state :: frame_state where
  "entry_state = (8, [Return_addr \<mapsto> - 8])"

definition frame_after :: "prolog list \<Rightarrow> frame_state" where
  "frame_after ps = fold after_insn ps entry_state"

definition first_row :: row where
  "first_row = \<lparr>loc = 0, cfa_reg = 7, cfa = 8, saved = [16 \<mapsto> - 8]\<rparr>"

text \<open>
  A row shows a frame when it computes the frame address from the stack pointer with the right
  distance and says of the registers of the supplement, and of no other number, where they are;
  a register the supplement does not number has no place in the frame.
\<close>

definition shows_frame :: "row \<Rightarrow> frame_state \<Rightarrow> bool" where
  "shows_frame r s \<longleftrightarrow> (cfa_reg r, Gp RSP) \<in> set dwarf_registers \<and> cfa r = fst s \<and>
     (\<forall>(n, g) \<in> set dwarf_registers. saved r n = snd s g) \<and>
     dom (saved r) \<subseteq> fst ` set dwarf_registers \<and> dom (snd s) \<subseteq> snd ` set dwarf_registers"

lemma shows_start: "shows_frame first_row entry_state"
proof -
  have "list_all (\<lambda>(n, g). saved first_row n = snd entry_state g) dwarf_registers"
    by code_simp
  moreover have "(7, Gp RSP) \<in> set dwarf_registers" "(16, Return_addr) \<in> set dwarf_registers"
    by code_simp+
  ultimately show ?thesis
    by (force simp: shows_frame_def list_all_iff first_row_def entry_state_def image_iff)
qed

lemma start_fields: "loc first_row = 0" "fst entry_state = 8"
  by (simp_all add: first_row_def entry_state_def)

lemma shows_offset: "shows_frame r (d, s) \<Longrightarrow> shows_frame (r\<lparr>cfa := k\<rparr>) (k, s)"
  by (simp add: shows_frame_def)

lemma shows_saved:
  assumes "shows_frame r (d, s)" and "(n, g) \<in> set dwarf_registers"
  shows "shows_frame (r\<lparr>saved := (saved r)(n \<mapsto> x)\<rparr>) (d, s(g \<mapsto> x))"
proof -
  have sv: "\<forall>(m, h) \<in> set dwarf_registers. saved r m = s h"
    "dom (saved r) \<subseteq> fst ` set dwarf_registers" "dom s \<subseteq> snd ` set dwarf_registers"
    using assms(1) by (simp_all add: shows_frame_def)
  have mem: "n \<in> fst ` set dwarf_registers" "g \<in> snd ` set dwarf_registers"
    using assms(2) by (auto intro: rev_image_eqI)
  have "((saved r)(n \<mapsto> x)) m = (s(g \<mapsto> x)) h" if "(m, h) \<in> set dwarf_registers" for m h
  proof (cases "m = n")
    case True
    with that dwarf_registers_functional(1) [OF assms(2)] show ?thesis by simp
  next
    case False
    with that dwarf_registers_functional(2) [OF assms(2)] have "h \<noteq> g" by auto
    with False sv(1) that show ?thesis by auto
  qed
  with assms(1) sv mem show ?thesis
    unfolding shows_frame_def by (intro conjI) auto
qed

definition good_tables :: "(prolog \<Rightarrow> nat) \<Rightarrow> unwind \<Rightarrow> bool" where
  "good_tables enc u \<longleftrightarrow> (\<exists>ps. reads (fde u) ps \<and> length (fde u) \<le> 17 * length (emitted u) \<and>
     loc (run_rows 1 (- 1) ps first_row) = unat (lastOffset u) \<and>
     unat (lastOffset u) \<le> code_offset enc (emitted u) \<and>
     shows_frame (run_rows 1 (- 1) ps first_row) (frame_after (emitted u)) \<and>
     fst (frame_after (emitted u)) = unat (stackOffset u) \<and>
     (\<forall>k \<le> length (emitted u).
        shows_frame (row_at 1 (- 1) (code_offset enc (take k (emitted u))) ps first_row) (frame_after (take k (emitted u)))))"

lemma good_start: "good_tables enc unwind_start"
  by (auto simp: good_tables_def unwind_start_def reads_Nil shows_start frame_after_def start_fields
      code_offset_def intro!: exI [of _ "[]"])

text \<open>An x86 instruction has one to fifteen bytes.\<close>

definition encodes :: "(prolog \<Rightarrow> nat) \<Rightarrow> bool" where
  "encodes enc \<longleftrightarrow> (\<forall>p. 0 < enc p \<and> enc p \<le> 15)"

lemma WriteAdvanceLoc_append: "WriteAdvanceLoc s a b = s @ WriteAdvanceLoc [] a b"
  by (simp add: WriteAdvanceLoc_def Let_def WriteUInt8_def fixed_append(2,3) [of "s @ _"] fixed_append(2,3) [of "[_]"])

lemma advance_length: "length (WriteAdvanceLoc [] a b) \<le> 5"
  by (simp add: WriteAdvanceLoc_def Let_def WriteUInt8_def fixed_length)

lemma offset_snoc: "code_offset enc (ps @ [p]) = code_offset enc ps + enc p"
  by (simp add: code_offset_def)

lemma offset_bound: "encodes enc \<Longrightarrow> code_offset enc ps \<le> 15 * length ps"
  by (induction ps) (auto simp: code_offset_def encodes_def add_mono)

lemma offset_mono: "code_offset enc (take k ps) \<le> code_offset enc ps"
  by (metis append_take_drop_id code_offset_def le_add1 map_append sum_list_append)

text \<open>An instruction the tables do not mention.\<close>

lemma good_silent:
  assumes "good_tables enc u" "\<And>s. after_insn p s = s"
  shows "good_tables enc (u\<lparr>emitted := emitted u @ [p]\<rparr>)"
proof -
  obtain ps where ps: "reads (fde u) ps" "length (fde u) \<le> 17 * length (emitted u)"
     "loc (run_rows 1 (- 1) ps first_row) = unat (lastOffset u)"
     "unat (lastOffset u) \<le> code_offset enc (emitted u)"
     "shows_frame (run_rows 1 (- 1) ps first_row) (frame_after (emitted u))"
     "fst (frame_after (emitted u)) = unat (stackOffset u)"
     "\<And>k. k \<le> length (emitted u) \<Longrightarrow>
        shows_frame (row_at 1 (- 1) (code_offset enc (take k (emitted u))) ps first_row) (frame_after (take k (emitted u)))"
    using assms(1) unfolding good_tables_def by blast
  have "row_at 1 (- 1) (code_offset enc (emitted u @ [p])) ps first_row = run_rows 1 (- 1) ps first_row"
    using row_at_append [of 1 "- 1" ps first_row _ "[]"] ps(3,4) by (simp add: offset_snoc)
  then show ?thesis
    using ps assms(2) unfolding good_tables_def
    by (intro exI [of _ ps]) (auto simp: frame_after_def offset_snoc le_Suc_eq)
qed

text \<open>An instruction with its entry in the table.\<close>

lemma good_entry:
  assumes enc: "encodes enc" and u: "good_tables enc u" and short: "length (emitted u) < 1000"
    and qs: "reads bs qs" "length bs \<le> 12"
    and step: "\<And>r. loc (run_rows 1 (- 1) qs r) = loc r"
      "\<And>r. shows_frame r (frame_after (emitted u)) \<Longrightarrow> shows_frame (run_rows 1 (- 1) qs r) (after_insn p (frame_after (emitted u)))"
    and so: "fst (after_insn p (frame_after (emitted u))) = unat so"
    and u': "emitted u' = emitted u @ [p]" "lastOffset u' = word_of_nat (code_offset enc (emitted u @ [p]))"
      "fde u' = WriteAdvanceLoc (fde u) (lastOffset u') (lastOffset u) @ bs" "stackOffset u' = so"
  shows "good_tables enc u'"
proof -
  obtain ps where ps: "reads (fde u) ps" "length (fde u) \<le> 17 * length (emitted u)"
     "loc (run_rows 1 (- 1) ps first_row) = unat (lastOffset u)"
     "unat (lastOffset u) \<le> code_offset enc (emitted u)"
     "shows_frame (run_rows 1 (- 1) ps first_row) (frame_after (emitted u))"
     "\<And>k. k \<le> length (emitted u) \<Longrightarrow>
        shows_frame (row_at 1 (- 1) (code_offset enc (take k (emitted u))) ps first_row) (frame_after (take k (emitted u)))"
    using u unfolding good_tables_def by blast
  let ?off = "code_offset enc (emitted u @ [p])" and ?R = "run_rows 1 (- 1) ps first_row"
  let ?d = "?off - unat (lastOffset u)"
  have bound: "?off < 2 ^ 32"
    using offset_bound [OF enc, of "emitted u @ [p]"] short by simp
  then have off: "unat (lastOffset u') = ?off"
    by (simp add: u' unsigned_of_nat take_bit_nat_eq_self)
  have later: "code_offset enc (emitted u) < ?off"
    using enc by (simp add: offset_snoc encodes_def)
  have adv: "reads (WriteAdvanceLoc [] (lastOffset u') (lastOffset u)) [Advance ?d]"
    using reads_advance [of "lastOffset u" "lastOffset u'"] bound later ps(4) by (simp add: off)
  let ?qs = "ps @ Advance ?d # qs"
  have fde: "fde u' = fde u @ WriteAdvanceLoc [] (lastOffset u') (lastOffset u) @ bs"
    by (simp add: u'(3) WriteAdvanceLoc_append [of "fde u"])
  have "reads (fde u') ?qs"
    unfolding fde using reads_append [OF ps(1) reads_append [OF adv qs(1)]] by simp
  moreover have "length (fde u') \<le> 17 * length (emitted u')"
    using ps(2) qs(2) advance_length [of "lastOffset u'" "lastOffset u"] by (simp add: fde u'(1))
  moreover have at: "?R\<lparr>loc := loc ?R + ?d\<rparr> = ?R\<lparr>loc := ?off\<rparr>"
    using ps(3,4) later by simp
  then have run: "run_rows 1 (- 1) ?qs first_row = run_rows 1 (- 1) qs (?R\<lparr>loc := ?off\<rparr>)"
    by simp
  moreover have frame: "shows_frame (run_rows 1 (- 1) qs (?R\<lparr>loc := ?off\<rparr>)) (frame_after (emitted u'))"
    using step(2) [of "?R\<lparr>loc := ?off\<rparr>"] ps(5) by (simp add: u'(1) frame_after_def shows_frame_def)
  moreover have "shows_frame (row_at 1 (- 1) (code_offset enc (take k (emitted u'))) ?qs first_row)
      (frame_after (take k (emitted u')))" if "k \<le> length (emitted u')" for k
  proof (cases "k \<le> length (emitted u)")
    case True
    have "code_offset enc (take k (emitted u)) < loc (run_rows 1 (- 1) (ps @ [Advance ?d]) first_row)"
      using later at offset_mono [of enc k "emitted u"] by simp
    then show ?thesis
      using True ps(6) by (simp add: u'(1) row_at_past)
  next
    case False
    then have k: "k = Suc (length (emitted u))"
      using that by (simp add: u'(1))
    have "loc ?R \<le> ?off"
      using ps(3,4) later by simp
    then have "row_at 1 (- 1) ?off ?qs first_row = row_at 1 (- 1) ?off (qs @ []) (?R\<lparr>loc := ?off\<rparr>)"
      using at by (subst row_at_append) (simp_all add: Let_def)
    also have "\<dots> = run_rows 1 (- 1) qs (?R\<lparr>loc := ?off\<rparr>)"
      by (subst row_at_append) (simp_all add: step(1) [unfolded One_nat_def])
    finally show ?thesis
      using frame by (simp add: k u'(1))
  qed
  moreover have "fst (frame_after (emitted u')) = unat (stackOffset u')"
    using so by (simp add: u' frame_after_def)
  ultimately show ?thesis
    unfolding good_tables_def
    by (intro exI [of _ ?qs] conjI allI impI) (simp_all add: step(1) [unfolded One_nat_def] off u'(1) del: fold_append)
qed

section \<open>The prologue and its tables\<close>

lemma writers_append:
  "WriteDefineStackOffset s n = s @ WriteDefineStackOffset [] n"
  "WriteRegisterStackLocation s d n = s @ WriteRegisterStackLocation [] d n"
  "WriteDefineCFA s d n = s @ WriteDefineCFA [] d n"
  by (simp_all add: WriteDefineStackOffset_def WriteRegisterStackLocation_def WriteDefineCFA_def WriteUInt8_def
      WriteULEB128_append [of "_ @ _"] WriteULEB128_append [of "_ # _"])

lemma writers_length:
  "length (WriteDefineStackOffset [] n) \<le> 6" "length (WriteRegisterStackLocation [] d n) \<le> 6"
  using uleb_length [of n 5] unsigned_less [of n, where ?'a = nat]
  by (simp_all add: WriteDefineStackOffset_def WriteRegisterStackLocation_def WriteUInt8_def WriteULEB128_append [of "[_]"])

lemma dwarf_small: "r < 16 \<Longrightarrow> dwarfRegId ! r < 64"
proof -
  have "list_all (\<lambda>d. d < 64) dwarfRegId"
    by (simp add: dwarfRegId_def)
  then show "r < 16 \<Longrightarrow> ?thesis"
    by (simp add: list_all_length dwarfRegId_def)
qed

lemma good_depth: "good_tables enc u \<Longrightarrow> (\<And>s. frame_after (emitted u) = (unat (stackOffset u), s) \<Longrightarrow> P) \<Longrightarrow> P"
  by (cases "frame_after (emitted u)") (auto simp: good_tables_def)

lemma push_reg_tables:
  assumes "encodes enc" "good_tables enc u" "length (emitted u) < 1000" "r < 16" "unat (stackOffset u) + 8 < 2 ^ 32"
  shows "\<exists>u'. push_reg enc r u = Ok () u' \<and> good_tables enc u' \<and> emitted u' = emitted u @ [P_push r] \<and>
    unat (stackOffset u') = unat (stackOffset u) + 8"
proof -
  let ?so = "stackOffset u + 8" and ?off = "word_of_nat (code_offset enc (emitted u @ [P_push r])) :: u64"
  let ?bs = "WriteDefineStackOffset [] ?so @ WriteRegisterStackLocation [] (dwarfRegId ! r) ?so"
  let ?u = "u\<lparr>emitted := emitted u @ [P_push r], stackOffset := ?so, lastOffset := ?off,
     fde := WriteAdvanceLoc (fde u) ?off (lastOffset u) @ ?bs\<rparr>"
  have so: "unat ?so = unat (stackOffset u) + 8"
    using assms(5) by (simp add: unat_word_ariths)
  have run: "push_reg enc r u = Ok () ?u"
    using assms(4) by (simp add: push_reg_def emit_op_def advance_loc_def define_offset_def location_def dwarf_of_def Let_def
      writers_append(1) [of "WriteAdvanceLoc _ _ _"] writers_append(2) [of "_ @ _"])
  obtain s where s: "frame_after (emitted u) = (unat (stackOffset u), s)"
    using good_depth [OF assms(2)] .
  have "good_tables enc ?u"
  proof (rule good_entry [OF assms(1-3), of ?bs "[Def_cfa_offset (unat ?so), Offset (unat (dwarfRegId ! r)) (unat ?so)]" "P_push r" ?so])
    show "reads ?bs [Def_cfa_offset (unat ?so), Offset (unat (dwarfRegId ! r)) (unat ?so)]"
      using reads_append [OF reads_define reads_location [OF dwarf_small [OF assms(4)]]] by simp
    show "length ?bs \<le> 12"
      using writers_length(1) [of ?so] writers_length(2) [of "dwarfRegId ! r" ?so] by simp
    fix q
    assume "shows_frame q (frame_after (emitted u))"
    then have q: "shows_frame q (unat (stackOffset u), s)"
      using s by simp
    show "shows_frame (run_rows 1 (- 1) [Def_cfa_offset (unat ?so), Offset (unat (dwarfRegId ! r)) (unat ?so)] q)
        (after_insn (P_push r) (frame_after (emitted u)))"
      using shows_saved [OF shows_offset [OF q, of "unat ?so"] pushed_number [OF assms(4)], of "- int (unat ?so)"] s so
      by simp
  qed (use s so in auto)
  then show ?thesis
    using run so by (intro exI [of _ ?u]) simp
qed

text \<open>\<open>runs P m Q\<close>: from a state with \<open>P\<close> the program returns in a state with \<open>Q\<close>.\<close>

definition runs :: "(unwind \<Rightarrow> bool) \<Rightarrow> unwindm \<Rightarrow> (unwind \<Rightarrow> bool) \<Rightarrow> bool" where
  "runs P m Q \<longleftrightarrow> (\<forall>u. P u \<longrightarrow> (\<exists>u'. m u = Ok () u' \<and> Q u'))"

lemma runs_seq: "runs P m Q \<Longrightarrow> runs Q n R \<Longrightarrow> runs P (seq m n) R"
  by (fastforce simp: runs_def)

lemma seq_return_unit: "seq m (return ()) = m"
  by (rule ext) (simp add: seq_def bind_def split: outcome.split)

lemma runs_when: "(b \<Longrightarrow> runs P m Q) \<Longrightarrow> (\<And>u. \<not> b \<Longrightarrow> P u \<Longrightarrow> Q u) \<Longrightarrow> runs P (whenM b m) Q"
  by (auto simp: runs_def whenM_def)

lemma runs_weaken: "runs P m Q \<Longrightarrow> (\<And>u. P' u \<Longrightarrow> P u) \<Longrightarrow> (\<And>u. Q u \<Longrightarrow> Q' u) \<Longrightarrow> runs P' m Q'"
  by (fastforce simp: runs_def)

text \<open>
  At most \<open>n\<close> instructions so far, the stack pointer between \<open>lo\<close> and \<open>hi\<close> below the frame address, and
  room for \<open>m\<close> more bytes of saved registers above it.
\<close>

definition within :: "(prolog \<Rightarrow> nat) \<Rightarrow> nat \<Rightarrow> nat \<Rightarrow> nat \<Rightarrow> unwind \<Rightarrow> bool" where
  "within enc n lo hi u \<longleftrightarrow> good_tables enc u \<and> length (emitted u) \<le> n \<and> lo \<le> unat (stackOffset u) \<and> unat (stackOffset u) \<le> hi"

definition room :: "nat \<Rightarrow> nat \<Rightarrow> unwind \<Rightarrow> bool" where
  "room lo m u \<longleftrightarrow> unat (xOffset u) + m \<le> lo"

lemma within_mono: "within enc n lo hi u \<Longrightarrow> n \<le> n' \<Longrightarrow> lo' \<le> lo \<Longrightarrow> hi \<le> hi' \<Longrightarrow> within enc n' lo' hi' u"
  by (auto simp: within_def)

lemma runs_push:
  assumes "encodes enc" "n < 1000" "r < 16" "hi + 8 < 2 ^ 32"
  shows "runs (within enc n lo hi) (push_reg enc r) (within enc (Suc n) lo (hi + 8))"
  unfolding runs_def
proof (intro allI impI)
  fix u
  assume u: "within enc n lo hi u"
  then obtain u' where "push_reg enc r u = Ok () u'" "good_tables enc u'" "emitted u' = emitted u @ [P_push r]"
      "unat (stackOffset u') = unat (stackOffset u) + 8"
    using push_reg_tables [OF assms(1), of u r] assms by (auto simp: within_def)
  then show "\<exists>u'. push_reg enc r u = Ok () u' \<and> within enc (Suc n) lo (hi + 8) u'"
    using u by (auto simp: within_def)
qed

lemma runs_pushes:
  assumes "encodes enc" "\<forall>r \<in> set rs. r < 16" "n + length rs \<le> 1000" "hi + 8 * length rs < 2 ^ 32"
  shows "runs (within enc n lo hi) (for_each rs (push_reg enc)) (within enc (n + length rs) lo (hi + 8 * length rs))"
  using assms(2-)
proof (induction rs arbitrary: n hi)
  case (Cons r rs)
  have "runs (within enc n lo hi) (push_reg enc r) (within enc (Suc n) lo (hi + 8))"
    using Cons.prems by (intro runs_push assms(1)) auto
  moreover have "runs (within enc (Suc n) lo (hi + 8)) (for_each rs (push_reg enc))
      (within enc (Suc n + length rs) lo (hi + 8 + 8 * length rs))"
    using Cons.prems by (intro Cons.IH) auto
  ultimately show ?case
    using runs_seq by (fastforce simp: algebra_simps)
qed (simp add: runs_def)

lemma runs_silent:
  "(\<And>s. after_insn p s = s) \<Longrightarrow> runs (within enc n lo hi) (emit_op p) (within enc (Suc n) lo hi)"
  by (auto simp: runs_def within_def emit_op_def good_silent)

lemma runs_sub:
  assumes "encodes enc" "n < 1000" "hi + unat k < 2 ^ 32"
  shows "runs (within enc n lo hi) (seq (emit_op (P_sub k)) (seq (modify (\<lambda>u. u\<lparr>stackOffset := stackOffset u + k\<rparr>))
      (seq (advance_loc enc) define_offset))) (within enc (Suc n) (lo + unat k) (hi + unat k))" (is "runs _ ?m _")
  unfolding runs_def
proof (intro allI impI)
  fix u
  assume u: "within enc n lo hi u"
  let ?so = "stackOffset u + k" and ?off = "word_of_nat (code_offset enc (emitted u @ [P_sub k])) :: u64"
  let ?bs = "WriteDefineStackOffset [] ?so"
  let ?u = "u\<lparr>emitted := emitted u @ [P_sub k], stackOffset := ?so, lastOffset := ?off,
     fde := WriteAdvanceLoc (fde u) ?off (lastOffset u) @ ?bs\<rparr>"
  have so: "unat ?so = unat (stackOffset u) + unat k"
    using u assms(3) by (simp add: within_def unat_word_ariths)
  obtain s where s: "frame_after (emitted u) = (unat (stackOffset u), s)"
    using u good_depth by (auto simp: within_def)
  have "good_tables enc ?u"
  proof (rule good_entry [OF assms(1), of u ?bs "[Def_cfa_offset (unat ?so)]" "P_sub k" ?so])
    show "length ?bs \<le> 12"
      using writers_length(1) [of ?so] by simp
    show "reads ?bs [Def_cfa_offset (unat ?so)]"
      by (rule reads_define)
  qed (use u s so assms(2) in \<open>auto simp: shows_frame_def within_def\<close>)
  moreover have "?m u = Ok () ?u"
    by (simp add: emit_op_def advance_loc_def define_offset_def Let_def writers_append(1) [of "WriteAdvanceLoc _ _ _"])
  ultimately show "\<exists>u'. ?m u = Ok () u' \<and> within enc (Suc n) (lo + unat k) (hi + unat k) u'"
    using u so by (intro exI [of _ ?u]) (auto simp: within_def)
qed

lemma runs_save:
  assumes "encodes enc" "n < 1000" "(17 + r, group_reg g r) \<in> set dwarf_registers" "r < 32"
  shows "runs (\<lambda>u. within enc n lo hi u \<and> room lo (unat (xSize g) + m) u) (save_reg enc g r)
    (\<lambda>u. within enc (Suc n) lo hi u \<and> room lo m u)"
  unfolding runs_def
proof (intro allI impI, elim conjE)
  fix u
  assume u: "within enc n lo hi u" and x: "room lo (unat (xSize g) + m) u"
  let ?x = "xOffset u" and ?off = "word_of_nat (code_offset enc (emitted u @ [P_save g r (xOffset u)])) :: u64"
  let ?bs = "WriteRegisterStackLocation [] (17 + word_of_nat r) (stackOffset u - ?x)"
  let ?u = "u\<lparr>emitted := emitted u @ [P_save g r ?x], lastOffset := ?off,
     fde := WriteAdvanceLoc (fde u) ?off (lastOffset u) @ ?bs, xOffset := ?x + xSize g\<rparr>"
  have le: "unat ?x \<le> unat (stackOffset u)"
    using u x by (simp add: within_def room_def)
  then have loc: "int (unat (stackOffset u - ?x)) = int (unat (stackOffset u)) - int (unat ?x)"
    by (simp add: unat_sub word_le_nat_alt of_nat_diff)
  have reg: "unat (17 + word_of_nat r :: u32) = 17 + r"
    using assms(4) by (simp add: unat_word_ariths unsigned_of_nat take_bit_nat_eq_self)
  have next_x: "unat (?x + xSize g) = unat ?x + unat (xSize g)"
    using u x unsigned_less [of "stackOffset u", where ?'a = nat]
    by (simp add: within_def room_def unat_word_ariths)
  obtain s where s: "frame_after (emitted u) = (unat (stackOffset u), s)"
    using u good_depth by (auto simp: within_def)
  have "good_tables enc ?u"
  proof (rule good_entry [OF assms(1), of u ?bs "[Offset (17 + r) (unat (stackOffset u - ?x))]" "P_save g r ?x" "stackOffset u"])
    show "length ?bs \<le> 12"
      using writers_length(2) [of "17 + word_of_nat r" "stackOffset u - ?x"] by simp
    show "reads ?bs [Offset (17 + r) (unat (stackOffset u - ?x))]"
      using reads_location [of "17 + word_of_nat r" "stackOffset u - ?x"] reg assms(4) by (simp add: word_less_nat_alt)
    fix q
    assume "shows_frame q (frame_after (emitted u))"
    then have q: "shows_frame q (unat (stackOffset u), s)"
      using s by simp
    show "shows_frame (run_rows 1 (- 1) [Offset (17 + r) (unat (stackOffset u - ?x))] q)
        (after_insn (P_save g r ?x) (frame_after (emitted u)))"
      using shows_saved [OF q assms(3), of "- int (unat (stackOffset u - ?x))"] s loc by simp
  qed (use u s assms(2) in \<open>auto simp: within_def\<close>)
  moreover have "save_reg enc g r u = Ok () ?u"
    by (simp add: save_reg_def emit_op_def advance_loc_def Let_def dwarfRegXmmId_def writers_append(2) [of "WriteAdvanceLoc _ _ _"])
  ultimately show "\<exists>u'. save_reg enc g r u = Ok () u' \<and> within enc (Suc n) lo hi u' \<and> room lo m u'"
    using u x next_x by (intro exI [of _ ?u]) (auto simp: within_def room_def)
qed

lemma runs_saves:
  assumes "encodes enc" "\<forall>r \<in> set rs. r < 32 \<and> (17 + r, group_reg g r) \<in> set dwarf_registers" "n + length rs \<le> 1000"
  shows "runs (\<lambda>u. within enc n lo hi u \<and> room lo (length rs * unat (xSize g) + m) u) (for_each rs (save_reg enc g))
    (\<lambda>u. within enc (n + length rs) lo hi u \<and> room lo m u)"
  using assms(2-)
proof (induction rs arbitrary: n)
  case (Cons r rs)
  have "runs (\<lambda>u. within enc n lo hi u \<and> room lo (unat (xSize g) + (length rs * unat (xSize g) + m)) u) (save_reg enc g r)
      (\<lambda>u. within enc (Suc n) lo hi u \<and> room lo (length rs * unat (xSize g) + m) u)"
    using Cons.prems by (intro runs_save assms(1)) auto
  moreover have "runs (\<lambda>u. within enc (Suc n) lo hi u \<and> room lo (length rs * unat (xSize g) + m) u) (for_each rs (save_reg enc g))
      (\<lambda>u. within enc (Suc n + length rs) lo hi u \<and> room lo m u)"
    using Cons.prems by (intro Cons.IH) auto
  ultimately show ?case
    using runs_seq by (fastforce simp: algebra_simps)
qed (simp add: runs_def)

lemma regs_of_bounds: "r \<in> set (regs_of m) \<Longrightarrow> r < 32" "length (regs_of m) \<le> 32"
  using length_filter_le [of "bit m" "[0..<32]"] by (auto simp: regs_of_def)

lemma regs_of_low: "m < 0x10000 \<Longrightarrow> r \<in> set (regs_of (m AND k)) \<Longrightarrow> r < 16" for m :: u32
proof -
  assume m: "m < 0x10000" and r: "r \<in> set (regs_of (m AND k))"
  have "take_bit 16 m = m"
    using m by (simp add: word_unat_eq_iff unsigned_take_bit_eq take_bit_nat_eq_self word_less_nat_alt)
  moreover have "bit m r"
    using r by (simp add: regs_of_def bit_and_iff)
  ultimately show ?thesis
    by (metis bit_take_bit_iff)
qed

text \<open>The bytes of the saved registers that are no general registers, and the frames the tables are right for.\<close>

definition save_area :: "func_frame \<Rightarrow> nat" where
  "save_area F = sum_list (map (\<lambda>g. length (regs_of (savedRegs F g)) * unat (xSize g)) [kVec, kX86_K, kX86_MM])"

definition frame_ok :: "func_frame \<Rightarrow> bool" where
  "frame_ok F \<longleftrightarrow> savedGp F < 0x10000 \<and> \<not> hasDynamicAlignment F \<and> unat (stackAdjustment F) + 300 < 2 ^ 32 \<and>
     savedRegs F kVec < 0x10000 \<and> savedRegs F kX86_K = 0 \<and> savedRegs F kX86_MM = 0 \<and>
     unat (extraRegSaveOffset F) + save_area F \<le> (if hasStackAdjustment F then unat (stackAdjustment F) else 0)"

lemma prologue_tables:
  assumes enc: "encodes enc" and F: "frame_ok F"
  shows "\<exists>u. emit_prolog enc F unwind_start = Ok () u \<and> good_tables enc u \<and> length (emitted u) \<le> 200"
proof -
  let ?adj = "if hasStackAdjustment F then unat (stackAdjustment F) else 0"
  let ?rs = "regs_of (if hasPreservedFP F then savedGp F AND NOT (push_bit kIdBp 1) else savedGp F)"
  have low: "\<forall>r \<in> set ?rs. r < 16"
    using F regs_of_low [of "savedGp F" _ "- 1"] regs_of_low [of "savedGp F"] by (auto simp: frame_ok_def split: if_splits)
  have a: "runs (within enc 0 8 8) (whenM (hasPreservedFP F) (seq (push_reg enc kIdBp) (emit_op P_mov_bp))) (within enc 2 8 16)"
    by (rule runs_when, rule runs_seq, rule runs_push [OF enc], simp_all add: kIdBp_def, rule runs_weaken [OF runs_silent])
      (auto elim: within_mono)
  have b: "runs (within enc 2 8 16) (for_each ?rs (push_reg enc)) (within enc 34 8 272)"
    using regs_of_bounds(2) [of "if hasPreservedFP F then savedGp F AND NOT (push_bit kIdBp 1) else savedGp F"]
    by (intro runs_weaken [OF runs_pushes [OF enc low, of 2 16 8]]) (auto elim: within_mono)
  have c: "runs (within enc 34 8 272) (sa_move F) (within enc 35 8 272)"
    by (auto simp: sa_move_def runs_def whenM_def within_def emit_op_def good_silent split: option.split)
  have d: "runs (within enc 35 8 272) (whenM (hasStackAdjustment F)
           (seq (emit_op (P_sub (stackAdjustment F)))
           (seq (modify (\<lambda>u. u\<lparr>stackOffset := stackOffset u + stackAdjustment F\<rparr>))
           (seq (advance_loc enc) define_offset)))) (within enc 36 ?adj (272 + ?adj))"
    using F by (intro runs_when runs_weaken [OF runs_sub [OF enc, of 35 272 "stackAdjustment F" 8]])
      (auto simp: frame_ok_def elim: within_mono)
  have e: "runs (within enc 36 ?adj (272 + ?adj)) (modify (\<lambda>u. u\<lparr>xOffset := extraRegSaveOffset F\<rparr>))
      (\<lambda>u. within enc 36 ?adj (272 + ?adj) u \<and> room ?adj (save_area F) u)"
    using F by (simp add: runs_def within_def room_def frame_ok_def good_tables_def)
  have numbered: "(17 + r, group_reg g r) \<in> set dwarf_registers" if "r \<in> set (regs_of (savedRegs F g))" for g r
    using that F vector_number regs_of_low [of "savedRegs F kVec" r "- 1"]
    by (cases g) (auto simp: frame_ok_def regs_of_def)
  have group: "runs (\<lambda>u. within enc n ?adj (272 + ?adj) u \<and> room ?adj (length (regs_of (savedRegs F g)) * unat (xSize g) + m) u)
      (for_each (regs_of (savedRegs F g)) (save_reg enc g)) (\<lambda>u. within enc (n + 32) ?adj (272 + ?adj) u \<and> room ?adj m u)"
    if "n \<le> 900" for n g m
    using that numbered regs_of_bounds(1) [of _ "savedRegs F g"] regs_of_bounds(2) [of "savedRegs F g"]
    by (intro runs_weaken [OF runs_saves [OF enc, where rs = "regs_of (savedRegs F g)" and n = n and lo = ?adj
        and hi = "272 + ?adj" and g = g and m = m]])
      (auto elim: within_mono)
  let ?A = "\<lambda>g. length (regs_of (savedRegs F g)) * unat (xSize g)" and ?S = "\<lambda>g. for_each (regs_of (savedRegs F g)) (save_reg enc g)"
  let ?W = "\<lambda>n m u. within enc n ?adj (272 + ?adj) u \<and> room ?adj m u"
  have saves: "runs (?W 36 (?A kVec + (?A kX86_K + ?A kX86_MM))) (?S kVec) (?W 68 (?A kX86_K + ?A kX86_MM))"
    "runs (?W 68 (?A kX86_K + ?A kX86_MM)) (?S kX86_K) (?W 100 (?A kX86_MM))"
    "runs (?W 100 (?A kX86_MM)) (?S kX86_MM) (?W 132 0)"
    using group [of 36 kVec "?A kX86_K + ?A kX86_MM"] group [of 68 kX86_K "?A kX86_MM"] group [of 100 kX86_MM 0]
    by simp_all
  have f: "runs (?W 36 (save_area F)) (for_each [kVec, kX86_K, kX86_MM] ?S) (?W 132 0)"
    using runs_seq [OF saves(1) runs_seq [OF saves(2,3)]] by (simp add: save_area_def seq_return_unit)
  have "runs (within enc 0 8 8) (emit_prolog enc F) (\<lambda>u. within enc 132 ?adj (272 + ?adj) u \<and> room ?adj 0 u)"
    unfolding emit_prolog_def
    using F by (intro runs_seq [OF a runs_seq [OF b runs_seq [OF c]]] runs_seq [OF _ runs_seq [OF d]]
      runs_seq [OF _ runs_seq [OF e f]] runs_when) (auto simp: frame_ok_def)
  moreover have "within enc 0 8 8 unwind_start"
    by (simp add: within_def good_start) (simp add: unwind_start_def)
  ultimately show ?thesis
    unfolding runs_def by (auto simp: within_def)
qed

section \<open>The section\<close>

definition read_entry :: "u8 list \<Rightarrow> (u8 list \<times> u8 list) option" where
  "read_entry bs = Option.bind (le_number 4 bs) (\<lambda>(n, r).
     if n = 0 \<or> length r < n then None else Some (take n r, drop n r))"

text \<open>
  A CIE of version 1 with the augmentation \<open>zR\<close> for absolute addresses: the alignment factors, the
  column of the return address and the initial instructions.
\<close>

definition read_cie :: "u8 list \<Rightarrow> (nat \<times> int \<times> nat \<times> cfa_op list) option" where
  "read_cie bs = Option.bind (le_number 4 bs) (\<lambda>(id, r).
     if id \<noteq> 0 \<or> take 4 r \<noteq> [1, 0x7a, 0x52, 0] then None
     else Option.bind (uleb (drop 4 r)) (\<lambda>(caf, r).
     Option.bind (sleb r) (\<lambda>(daf, r).
     if take 2 (drop 1 r) \<noteq> [1, 0] then None
     else map_option (\<lambda>ps. (caf, daf, unat (hd r), ps)) (read_ops (drop 3 r)))))"

text \<open>The row for an address, from a section of one CIE, one FDE that refers to it and the end mark.\<close>

definition find_row :: "u8 list \<Rightarrow> nat \<Rightarrow> row option" where
  "find_row bs pc =
     Option.bind (read_entry bs) (\<lambda>(cie, r).
     Option.bind (read_cie cie) (\<lambda>(caf, daf, ra, init).
     Option.bind (read_entry r) (\<lambda>(f, r').
     Option.bind (le_number 4 f) (\<lambda>(back, f).
     Option.bind (le_number 8 f) (\<lambda>(start, f).
     Option.bind (le_number 8 f) (\<lambda>(size, f).
     Option.bind (uleb f) (\<lambda>(n, f).
     Option.bind (read_ops (drop n f)) (\<lambda>ps.
       if length bs - length r + 4 = back \<and> le_number 4 r' = Some (0, []) \<and> start \<le> pc \<and> pc < start + size
       then Some (row_at caf daf (pc - start) ps
              (run_rows caf daf init \<lparr>loc = 0, cfa_reg = 0, cfa = 0, saved = Map.empty\<rparr>))
       else None))))))))"

definition cie_bytes :: stream where
  "cie_bytes = [20, 0, 0, 0, 0, 0, 0, 0, 1, 0x7a, 0x52, 0, 1, 0x7f, 16, 1, 0, 0x0c, 7, 8, 0x90, 8, 0, 0]"

lemma CIE_bytes: "WriteCIE [] cie_instructions (ucast dwarfRegRAId) = cie_bytes"
  by code_simp

lemma CIE_entry: "read_entry (cie_bytes @ rest) = Some (drop 4 cie_bytes, rest)"
  by (simp add: read_entry_def le_number_def cie_bytes_def)

lemma CIE_read: "read_cie (drop 4 cie_bytes) = Some (1, - 1, 16, [Def_cfa 7 8, Offset 16 8, Nop, Nop])"
proof -
  have bytes: "cie_instructions = [0x0c, 7, 8, 0x90, 8]"
    by code_simp
  have "reads cie_instructions [Def_cfa 7 8, Offset 16 8]"
    using reads_append [OF reads_CFA [of 7 8] reads_location [of 16 8]]
    by (simp add: cie_instructions_def writers_append(2) [of "WriteDefineCFA _ _ _"] dwarfRegId_def kIdSp_def dwarfRegRAId_def)
  from read_all [OF reads_append [OF this reads_padding [of 2]]]
  have "read_ops [0x0c, 7, 8, 0x90, 8, 0, 0] = Some [Def_cfa 7 8, Offset 16 8, Nop, Nop]"
    unfolding bytes by (simp add: numeral_2_eq_2)
  then show ?thesis
    by (simp add: read_cie_def cie_bytes_def le_number_def)
qed

lemma unat_word_of_nat: "n < 2 ^ 32 \<Longrightarrow> unat (word_of_nat n :: u32) = n"
  by (simp add: unsigned_of_nat take_bit_nat_eq_self)

lemma some_bytes: "WriteUInt32 s v \<noteq> []"
  by (simp add: WriteUInt32_def)

lemma zero_uleb: "WriteULEB128 s 0 = s @ [0]"
  by (simp add: WriteULEB128.simps WriteUInt8_def)

lemma FDE_bytes:
  "\<exists>m < 8. WriteFDE s fi 0 b sz =
     s @ WriteUInt32 [] (word_of_nat (4 + 8 + 8 + 1 + length fi + m)) @ WriteUInt32 [] (word_of_nat (length s + 4)) @
       WriteUInt64 [] b @ WriteUInt64 [] sz @ [0] @ fi @ replicate m 0"
proof -
  let ?t = "WriteUInt32 [] (word_of_nat (length s + 4)) @ WriteUInt64 [] b @ WriteUInt64 [] sz @ [0] @ fi"
  let ?s = "s @ WriteUInt32 [] 0 @ ?t"
  let ?m = "if length ?s mod 8 = 0 then 0 else 8 - length ?s mod 8"
  have pad: "WritePadding ?s = s @ WriteUInt32 [] 0 @ ?t @ replicate ?m 0"
    by (simp add: WritePadding_def Let_def)
  have "WriteFDE s fi 0 b sz = WriteLength (WritePadding ?s) (length s) (word_of_nat (length (WritePadding ?s) - length s - 4))"
    by (simp add: WriteFDE_def Let_def zero_uleb fixed_append(3) [of s] fixed_append(3) [of "s @ _"]
        fixed_append(4) [of "s @ _"] fixed_length)
  also have "\<dots> = s @ WriteUInt32 [] (word_of_nat (4 + 8 + 8 + 1 + length fi + ?m)) @ ?t @ replicate ?m 0"
    unfolding pad WriteLength_at by (simp add: fixed_length)
  finally show ?thesis
    by (intro exI [of _ ?m]) auto
qed

lemma find_row_section:
  assumes fi: "reads fi ps" "length fi \<le> 17 * 200" and pc: "k < unat sz"
  shows "find_row (WriteUInt32 (WriteFDE cie_bytes fi 0 b sz) 0) (unat b + k) = Some (row_at 1 (- 1) k ps first_row)"
proof -
  obtain m where m: "m < 8" "WriteFDE cie_bytes fi 0 b sz = cie_bytes @
      WriteUInt32 [] (word_of_nat (4 + 8 + 8 + 1 + length fi + m)) @ WriteUInt32 [] (word_of_nat (length cie_bytes + 4)) @
       WriteUInt64 [] b @ WriteUInt64 [] sz @ [0] @ fi @ replicate m 0"
    using FDE_bytes by blast
  let ?body = "WriteUInt32 [] 28 @ WriteUInt64 [] b @ WriteUInt64 [] sz @ [0] @ fi @ replicate m 0"
  let ?r = "WriteUInt32 [] (word_of_nat (21 + length fi + m)) @ ?body @ WriteUInt32 [] 0"
  have bytes: "WriteUInt32 (WriteFDE cie_bytes fi 0 b sz) 0 = cie_bytes @ ?r"
    unfolding m(2) by (subst fixed_append(3)) (simp add: cie_bytes_def)
  have len: "unat (word_of_nat (21 + length fi + m) :: u32) = length ?body"
    using m(1) fi(2) by (subst unat_word_of_nat) (simp_all add: fixed_length)
  have entry: "read_entry ?r = Some (?body, WriteUInt32 [] 0)"
    unfolding read_entry_def fixed_read len by simp
  have ops: "read_ops (fi @ replicate m 0) = Some (ps @ replicate m Nop)"
    by (rule read_all [OF reads_append [OF fi(1) reads_padding]])
  have end_mark: "le_number 4 (WriteUInt32 [] 0) = Some (0, [])"
    using fixed_read(2) [of 0 "[]"] by simp
  have "length (cie_bytes @ ?r) - length ?r + 4 = unat (28 :: u32)"
    by (simp add: cie_bytes_def)
  then show ?thesis
    unfolding find_row_def bytes CIE_entry bind.bind_lunit prod.case CIE_read entry fixed_read
    using pc by (simp add: ops end_mark row_at_padding first_row_def)
qed

text \<open>
  C26. The tables registered for a block are right at every instruction boundary of its prologue: for the
  address after the first \<open>k\<close> instructions a reader of the format finds how far the stack pointer is
  below the frame address then and where the return address and the registers pushed or stored so
  far are. The registers are named: what the table says for each number of the System V supplement
  is compared with where the instructions put the register of that number. For frames without dynamic
  alignment of the stack, which the translator never asks for, that save general registers and xmm0 to
  xmm15; for mask and MMX registers the code writes the numbers of others.
\<close>

theorem unwind_tables:
  assumes "encodes enc" "frame_ok F"
  shows "\<exists>u t. emit_prolog enc F unwind_start = Ok () u \<and> AddJitFunction enc F fn fn_size = Some [t] \<and>
    (\<forall>k \<le> length (emitted u). code_offset enc (take k (emitted u)) < unat fn_size \<longrightarrow>
       (\<exists>r. find_row t (unat fn + code_offset enc (take k (emitted u))) = Some r \<and>
          shows_frame r (frame_after (take k (emitted u)))))"
proof -
  obtain u where u: "emit_prolog enc F unwind_start = Ok () u" "good_tables enc u" "length (emitted u) \<le> 200"
    using prologue_tables [OF assms] by blast
  let ?t = "WriteUInt32 (WriteFDE cie_bytes (fde u) 0 fn fn_size) 0"
  have t: "AddJitFunction enc F fn fn_size = Some [?t]"
    by (simp add: AddJitFunction_def CreateUnwindInfo_def u(1) CIE_bytes some_bytes)
  from u(2) obtain ps where ps: "reads (fde u) ps" "length (fde u) \<le> 17 * length (emitted u)"
     "\<forall>k \<le> length (emitted u).
        shows_frame (row_at 1 (- 1) (code_offset enc (take k (emitted u))) ps first_row) (frame_after (take k (emitted u)))"
    unfolding good_tables_def by blast
  have "length (fde u) \<le> 17 * 200"
    using ps(2) u(3) by linarith
  with ps(1,3) show ?thesis
    using u(1) t find_row_section [of "fde u" ps _ fn_size fn] by blast
qed

definition usual_frame :: func_frame where
  "usual_frame = \<lparr>hasPreservedFP = False, savedGp = 0xf008, saRegId = None, hasDynamicAlignment = False,
     finalStackAlignment = 16, hasStackAdjustment = True, stackAdjustment = 80, hasDAOffset = False, daOffset = 0,
     savedRegs = (\<lambda>_. 0), extraRegSaveOffset = 0\<rparr>"

theorem unwind_tables_witness:
  "\<exists>u t. emit_prolog (\<lambda>_. 4) usual_frame unwind_start = Ok () u \<and> AddJitFunction (\<lambda>_. 4) usual_frame 0x1000 0x200 = Some [t] \<and>
    (\<forall>k \<le> length (emitted u). code_offset (\<lambda>_. 4) (take k (emitted u)) < unat (0x200 :: u64) \<longrightarrow>
       (\<exists>r. find_row t (unat (0x1000 :: u64) + code_offset (\<lambda>_. 4) (take k (emitted u))) = Some r \<and>
          shows_frame r (frame_after (take k (emitted u)))))"
  by (rule unwind_tables)
    (simp_all add: encodes_def frame_ok_def usual_frame_def save_area_def regs_of_def)

end
