(* ===== verification/Debugger.thy ===== *)
theory Debugger
  imports Fpu "HOL-Library.Char_ord"
begin

text \<open>
  The remote debugger: src/debugger/debugger.cc. One thread reads the commands of a client of the
  GDB protocol from a socket and another takes the turns of the processor. What the socket delivers is
  a list of the chunks the reads return, what is written to it a log. An exception that leaves
  one of the threads ends the process. A packet is kept as the buffer \<open>c_str()\<close> gives, with its final NUL.
\<close>

unbundle bit_operations_syntax

section \<open>Numbers as text\<close>

text \<open>\<open>std::format\<close> with \<open>{:0wx}\<close>.\<close>

definition hex_digit :: "nat \<Rightarrow> char" where
  "hex_digit n = ''0123456789abcdef'' ! n"

fun hex_of :: "nat \<Rightarrow> string" where
  "hex_of n = (if n < 16 then [hex_digit n] else hex_of (n div 16) @ [hex_digit (n mod 16)])"

declare hex_of.simps [simp del]

definition format_hex :: "nat \<Rightarrow> nat \<Rightarrow> string" where
  "format_hex w n = (let d = hex_of n in replicate (w - length d) CHR ''0'' @ d)"

definition NUL :: char where "NUL = CHR 0x00"

definition hex_value :: "char \<Rightarrow> nat option" where
  "hex_value c = (let n = of_char c :: nat in
     if 48 \<le> n \<and> n \<le> 57 then Some (n - 48)
     else if 65 \<le> n \<and> n \<le> 70 then Some (n - 55)
     else if 97 \<le> n \<and> n \<le> 102 then Some (n - 87)
     else None)"

definition is_hex :: "char \<Rightarrow> bool" where
  "is_hex c \<longleftrightarrow> hex_value c \<noteq> None"

definition digits_value :: "string \<Rightarrow> nat" where
  "digits_value ds = foldl (\<lambda>n c. 16 * n + the (hex_value c)) 0 ds"

text \<open>
  \<open>std::from_chars\<close> with base 16, for \<open>int\<close> and for \<open>uint32_t\<close>: the number, if the variable is assigned, and
  the text after it. The end of the text given is the NUL, which is no digit.
\<close>

definition from_chars_int :: "string \<Rightarrow> int option \<times> string" where
  "from_chars_int s = (
     let minus = s \<noteq> [] \<and> hd s = CHR ''-''; t = (if minus then tl s else s);
         ds = takeWhile is_hex t; n = (if minus then - int (digits_value ds) else int (digits_value ds)) in
     if ds = [] then (None, s)
     else (if - (2 ^ 31) \<le> n \<and> n < 2 ^ 31 then Some n else None, dropWhile is_hex t))"

definition from_chars_u32 :: "string \<Rightarrow> u32 option \<times> string" where
  "from_chars_u32 s = (let ds = takeWhile is_hex s; n = digits_value ds in
     if ds = [] then (None, s) else (if n < 2 ^ 32 then Some (word_of_nat n) else None, dropWhile is_hex s))"

definition is_space :: "char \<Rightarrow> bool" where
  "is_space c \<longleftrightarrow> c = CHR '' '' \<or> (let n = of_char c :: nat in 9 \<le> n \<and> n \<le> 13)"

text \<open>\<open>strtoul\<close> with base 16, of 64 bits: the number and the text after it, which is all of it if there is none.\<close>

definition strtoul :: "string \<Rightarrow> u64 \<times> string" where
  "strtoul s = (
     let t = dropWhile is_space s; minus = t \<noteq> [] \<and> hd t = CHR ''-'';
         u = (if t \<noteq> [] \<and> (hd t = CHR ''-'' \<or> hd t = CHR ''+'') then tl t else t);
         v = (case u of a # b # c # _ \<Rightarrow> if a = CHR ''0'' \<and> (b = CHR ''x'' \<or> b = CHR ''X'') \<and> is_hex c then drop 2 u else u
              | _ \<Rightarrow> u);
         ds = takeWhile is_hex v; n = digits_value ds in
     if ds = [] then (0, s)
     else (if 2 ^ 64 \<le> n then - 1 else if minus then - word_of_nat n else word_of_nat n, dropWhile is_hex v))"

section \<open>State\<close>

record 'd debugger =
  target :: "'d machine"
  bks :: "u32 \<Rightarrow> bool"
  isNextStop :: bool
  dbRun :: bool
  lastTransmission :: string
  inbox :: "string list"
  sent :: "string list"

type_synonym ('d, 'a) dbgm = "('d debugger, 'a) monad"

definition on_target :: "('d, 'a) mach \<Rightarrow> ('d, 'a) dbgm" where
  "on_target m = lift_part target (\<lambda>s d. d\<lparr>target := s\<rparr>) m"

definition read_some :: "nat \<Rightarrow> ('d, string) dbgm" where
  "read_some n = (\<lambda>d. case inbox d of
       [] \<Rightarrow> Raise Terminated d
     | c # cs \<Rightarrow> Ok (take n c) (d\<lparr>inbox := (if length c \<le> n then cs else drop n c # cs)\<rparr>))"

text \<open>The loop of \<open>nextPacket\<close>: chunks of 512 bytes until one is shorter; \<open>None\<close> for a read of no bytes.\<close>

function read_packet :: "string list \<Rightarrow> (string option \<times> string list) option" where
  "read_packet [] = None"
| "read_packet (c # cs) = (let rest = (if length c \<le> 512 then cs else drop 512 c # cs) in
     if c = [] then Some (None, rest)
     else if length c < 512 then Some (Some c, rest)
     else map_option (apfst (map_option ((@) (take 512 c)))) (read_packet rest))"
  by pat_completeness auto
termination
  by (relation "measure (\<lambda>cs. sum_list (map (Suc \<circ> length) cs))") auto

definition nextPacket :: "('d, string) dbgm" where
  "nextPacket =
     bind (read_some 1) (\<lambda>c.
     if c = [] then return ''''
     else if hd c \<noteq> CHR ''$'' then return [hd c]
     else (\<lambda>d. case read_packet (inbox d) of
         None \<Rightarrow> Raise Terminated d
       | Some (None, r) \<Rightarrow> Ok '''' (d\<lparr>inbox := r\<rparr>)
       | Some (Some p, r) \<Rightarrow> Ok (if length p < 3 then p else take (length p - 3) p) (d\<lparr>inbox := r\<rparr>)))"

definition checksum :: "string \<Rightarrow> u8" where
  "checksum s = sum_list (map of_char s)"

definition write_some :: "string \<Rightarrow> ('d, unit) dbgm" where
  "write_some s = modify (\<lambda>d. d\<lparr>sent := sent d @ [s]\<rparr>)"

definition sendPacket :: "string \<Rightarrow> ('d, unit) dbgm" where
  "sendPacket s =
     seq (modify (\<lambda>d. d\<lparr>lastTransmission := s\<rparr>))
         (write_some (''$'' @ s @ ''#'' @ format_hex 2 (unat (checksum s))))"

section \<open>Answers\<close>

definition dump_fp :: "mpfr_lib \<Rightarrow> nat \<Rightarrow> ('d, string) mach" where
  "dump_fp M i =
     seq (mdo FPU_P (\<lambda>u. mpfr1 M mpfr_set (FP u i) MPFR_RNDN))
    (seq (fput FPU_P (\<lambda>u. u\<lparr>fp_tmp_nan := FP_nan u i\<rparr>))
    (bind (storeX M FPU_P) (\<lambda>(f, e). return (format_hex 4 (unat e) @ ''0000'' @ format_hex 16 (unat f)))))"

text \<open>\<open>dumpReg\<close> of the floating-point unit and of the debugger; the unit is there when \<open>fpu\<close> is its library.\<close>

definition fpu_dumpReg :: "mpfr_lib \<Rightarrow> ('d, string) mach" where
  "fpu_dumpReg M =
     bind (fold_each [0..<8] '''' (\<lambda>i s. bind (dump_fp M i) (\<lambda>t. return (s @ t)))) (\<lambda>s.
     bind (fget FPU_P (\<lambda>u. u)) (\<lambda>u.
     bind (case FPCR_t_value (FPCR u) of Some v \<Rightarrow> return v | None \<Rightarrow> throw Undefined) (\<lambda>v.
     return (s @ format_hex 8 (unat v) @ format_hex 8 (unat (FPSR_t_value (FPSR u)))
       @ format_hex 8 (unat (FPIAR u))))))"

definition dumpReg :: "mpfr_lib option \<Rightarrow> ('d, string) mach" where
  "dumpReg fpu =
     bind (cget (\<lambda>c. c)) (\<lambda>c.
     bind (case fpu of None \<Rightarrow> return '''' | Some M \<Rightarrow> fpu_dumpReg M) (\<lambda>t.
     return (concat (map (\<lambda>i. format_hex 8 (unat (Dn c (word_of_nat i)))) [0..<8]) @
       concat (map (\<lambda>i. format_hex 8 (unat (An c (word_of_nat i)))) [0..<8]) @
       format_hex 8 (unat (GetSR c)) @ format_hex 8 (unat (PC c)) @ t)))"

definition get_signum :: "int \<Rightarrow> nat" where
  "get_signum n = (
     if n = 2 \<or> n = 3 then 10
     else if n = 4 \<or> n = 10 \<or> n = 11 then 4
     else if n = 8 then 11
     else if n = 5 \<or> n = 48 \<or> n = 49 \<or> n = 50 \<or> n = 51 \<or> n = 52 \<or> n = 53 \<or> n = 54 \<or> n = 55 \<or> n = 6 \<or> n = 7 \<or> n = 9 then 8
     else if n = 31 then 2
     else if n = 33 then 5
     else if n = 40 then 8
     else 7)"

definition stop_cpu :: "string \<Rightarrow> ('d, unit) dbgm" where
  "stop_cpu s = seq (sendPacket s) (on_target (on_bus run_stop))"

definition starts_with :: "string \<Rightarrow> string \<Rightarrow> bool" where
  "starts_with s p \<longleftrightarrow> take (length p) s = p"

definition gdb_q :: "string \<Rightarrow> ('d, unit) dbgm" where
  "gdb_q s =
     (if starts_with s ''Supported'' then sendPacket ''swbreak+;hwbreak+''
      else if s = ''Attached'' then sendPacket ''1''
      else if s = ''C'' then sendPacket ''0''
      else if s = ''fThreadInfo'' then sendPacket ''m0''
      else if s = ''sThreadInfo'' then sendPacket ''l''
      else sendPacket '''')"

section \<open>The thread of the processor\<close>

definition db_exec :: "'d fpu_ops option \<Rightarrow> ('d, unit) dbgm" where
  "db_exec fpu = (\<lambda>d. case on_target (run_op fpu) d of
       Raise (M68kException n) d' \<Rightarrow>
         seq (on_target (seq (handle_exception n) (cmod (\<lambda>c. c\<lparr>bus_lock := False, PC := oldpc c\<rparr>))))
             (stop_cpu (''S'' @ format_hex 2 (get_signum n))) d'
     | Raise e d' \<Rightarrow> Raise e d'
     | Ok _ d' \<Rightarrow>
         if isNextStop d' then seq (modify (\<lambda>d. d\<lparr>isNextStop := False\<rparr>)) (stop_cpu ''S00'') d' else Ok () d')"

definition db_turn :: "'d fpu_ops option \<Rightarrow> ('d, unit) dbgm" where
  "db_turn fpu =
     seq (on_target (on_bus run_wait))
    (bind (gets (\<lambda>d. PC (cpu (target d)))) (\<lambda>pc.
     bind (gets (\<lambda>d. rom_stops (target d) pc)) (\<lambda>stop.
     bind (gets (\<lambda>d. bks d pc)) (\<lambda>bk.
     if stop then on_target (on_bus run_stop)
     else if bk then stop_cpu ''T05hwbreak:;''
     else db_exec fpu))))"

text \<open>\<open>trace\<close>: at most \<open>n\<close> instructions; the loop ends at one address of the ROM.\<close>

definition trace_turn :: "'d fpu_ops option \<Rightarrow> ('d, unit) mach" where
  "trace_turn fpu = (\<lambda>s. case run_op fpu s of
       Raise (M68kException n) s' \<Rightarrow> seq (handle_exception n) (cmod (\<lambda>c. c\<lparr>bus_lock := False\<rparr>)) s'
     | r \<Rightarrow> r)"

fun trace :: "'d fpu_ops option \<Rightarrow> nat \<Rightarrow> ('d, unit) mach" where
  "trace fpu 0 = throw Diverged"
| "trace fpu (Suc n) =
     bind (cget PC) (\<lambda>pc. if pc = 0x40846FEE then return () else seq (trace_turn fpu) (trace fpu n))"

section \<open>Commands\<close>

text \<open>
  A command works on the buffer of the packet; \<open>char_at\<close> reads the characters of the \<open>string_view\<close>, which ends
  at the first NUL, and has no meaning past it.
\<close>

definition view :: "string \<Rightarrow> string" where
  "view buf = takeWhile (\<lambda>c. c \<noteq> NUL) buf"

definition char_at :: "string \<Rightarrow> nat \<Rightarrow> ('d, char) dbgm" where
  "char_at buf n = (if n < length (view buf) then return (buf ! n) else throw Undefined)"

definition the_or_undefined :: "'a option \<Rightarrow> ('d, 'a) dbgm" where
  "the_or_undefined x = (case x of Some a \<Rightarrow> return a | None \<Rightarrow> throw Undefined)"

text \<open>The addresses of a loop over \<open>length\<close> bytes from \<open>addr\<close>, both \<open>int\<close>.\<close>

definition bytes_from :: "int \<Rightarrow> int \<Rightarrow> ('d, int list) dbgm" where
  "bytes_from addr len = (if - (2 ^ 31) \<le> addr + len \<and> addr + len < 2 ^ 31 then return [addr..addr + len - 1] else throw Undefined)"

definition int_of_ulong :: "u64 \<Rightarrow> int" where
  "int_of_ulong v = sint (ucast v :: u32)"

definition dump_byte :: "int \<Rightarrow> ('d, string) mach" where
  "dump_byte i = catch_BusError (bind (ReadBImpl (word_of_int i) False) (\<lambda>v. return (format_hex 2 (unat v)))) (return ''00'')"

text \<open>\<open>reserve\<close> throws \<open>length_error\<close> for a negative length, which nothing catches.\<close>

definition cmd_m :: "string \<Rightarrow> ('d, unit) dbgm" where
  "cmd_m arg = (let (addr, next) = from_chars_int arg in
     if hd next = NUL then throw Undefined
     else let (len, _) = from_chars_int (tl next) in
     bind (the_or_undefined len) (\<lambda>n.
     if n * 2 < - (2 ^ 31) \<or> 2 ^ 31 \<le> n * 2 then throw Undefined
     else if n < 0 then throw Terminated
     else bind (the_or_undefined addr) (\<lambda>a.
     bind (bytes_from a n) (\<lambda>is.
     bind (on_target (fold_each is [] (\<lambda>i s. bind (dump_byte i) (\<lambda>t. return (s @ t))))) sendPacket))))"

fun poke_hex :: "int list \<Rightarrow> string \<Rightarrow> ('d, unit) mach" where
  "poke_hex (i # is) (a # b # r) =
     seq (catch_BusError (WriteBImpl (word_of_int i) (ucast (fst (strtoul (view [a, b, NUL]))))) (return ()))
         (poke_hex is r)"
| "poke_hex (i # is) _ = throw Undefined"
| "poke_hex [] _ = return ()"

text \<open>The length is looked for at the comma, not after it.\<close>

definition cmd_M :: "string \<Rightarrow> ('d, unit) dbgm" where
  "cmd_M arg = (let (addr, next) = from_chars_int arg; (len, next2) = from_chars_int next in
     bind (the_or_undefined addr) (\<lambda>a.
     bind (the_or_undefined len) (\<lambda>n.
     bind (bytes_from a n) (\<lambda>is.
     seq (on_target (poke_hex is (tl next2))) (sendPacket ''OK'')))))"

fun poke :: "int list \<Rightarrow> string \<Rightarrow> ('d, unit) mach" where
  "poke (i # is) (c # r) = seq (WriteBImpl (word_of_int i) (of_char c)) (poke is r)"
| "poke (i # is) [] = throw Undefined"
| "poke [] _ = return ()"

definition cmd_X :: "string \<Rightarrow> ('d, unit) dbgm" where
  "cmd_X buf =
     bind (char_at buf 1) (\<lambda>_.
     let (addr, next) = strtoul (tl buf) in
     if tl next = [] then throw Undefined
     else let (len, next2) = strtoul (tl next) in
     bind (bytes_from (int_of_ulong addr) (int_of_ulong len)) (\<lambda>is.
     seq (on_target (poke is (tl next2))) (sendPacket ''OK'')))"

definition cmd_break :: "string \<Rightarrow> bool \<Rightarrow> ('d, unit) dbgm" where
  "cmd_break buf on =
     bind (char_at buf 1) (\<lambda>k.
     if k = CHR ''0'' \<or> k = CHR ''1'' then
       bind (char_at buf 3) (\<lambda>_.
       let addr = ucast (fst (strtoul (drop 3 buf))) in
       seq (modify (\<lambda>d. d\<lparr>bks := (bks d)(addr := on)\<rparr>)) (sendPacket ''OK''))
     else sendPacket [])"

definition set_PC :: "u32 option \<Rightarrow> ('d, unit) dbgm" where
  "set_PC v = (case v of None \<Rightarrow> return () | Some pc \<Rightarrow> on_target (cmod (\<lambda>c. c\<lparr>PC := pc\<rparr>)))"

definition cmd_C :: "string \<Rightarrow> ('d, unit) dbgm" where
  "cmd_C arg = (let (sig, nx) = from_chars_int arg in
     seq (if hd nx = CHR '';'' then set_PC (fst (from_chars_u32 (tl nx))) else return ())
    (bind (the_or_undefined sig) (\<lambda>n.
     seq (on_target (handle_exception (sint (word_of_int n :: u8)))) (on_target (on_bus run_resume)))))"

definition cmd_R :: "('d, unit) dbgm" where
  "cmd_R = on_target (
     bind (cget VBR) (\<lambda>v.
     seq (bind (ReadL v) (setA 7))
    (bind (cget VBR) (\<lambda>v. bind (ReadL (v + 4)) (\<lambda>pc. cmod (\<lambda>c. c\<lparr>PC := pc\<rparr>))))))"

text \<open>The answer is whether the session ends.\<close>

definition gdb_cmd :: "mpfr_lib option \<Rightarrow> string \<Rightarrow> ('d, bool) dbgm" where
  "gdb_cmd fpu buf = (
     if view buf = ''vCont?'' then seq (sendPacket ''vCont;vs'') (return False)
     else if starts_with (view buf) ''vKill'' then
       seq (sendPacket ''OK'') (seq (set_PC (Some 0x2A)) (return False))
     else bind (char_at buf 0) (\<lambda>cmd. let arg = tl buf in
       if cmd = CHR ''!'' then seq (sendPacket ''OK'') (return False)
       else if cmd = CHR ''H'' then seq (sendPacket ''OK'') (return False)
       else if cmd = CHR ''k'' then return True
       else if cmd = CHR ''R'' then seq cmd_R (return False)
       else if cmd = CHR ''q'' then seq (gdb_q (view arg)) (return False)
       else if cmd = CHR ''c'' then
         seq (if view arg \<noteq> [] then set_PC (fst (from_chars_u32 arg)) else return ())
        (seq (on_target (on_bus run_resume)) (return False))
       else if cmd = CHR ''C'' then seq (cmd_C arg) (return False)
       else if cmd = CHR ''D'' then seq (sendPacket ''OK'') (return True)
       else if cmd = CHR ''m'' then seq (cmd_m arg) (return False)
       else if cmd = CHR ''M'' then seq (cmd_M arg) (return False)
       else if cmd = CHR ''X'' then seq (cmd_X buf) (return False)
       else if cmd = CHR ''s'' then
         seq (modify (\<lambda>d. d\<lparr>isNextStop := True\<rparr>)) (seq (on_target (on_bus run_resume)) (return False))
       else if cmd = CHR ''g'' then seq (bind (on_target (dumpReg fpu)) sendPacket) (return False)
       else if cmd = CHR ''?'' then seq (sendPacket ''S00'') (return False)
       else if cmd = CHR ''Z'' then seq (cmd_break buf True) (return False)
       else if cmd = CHR ''z'' then seq (cmd_break buf False) (return False)
       else seq (sendPacket []) (return False)))"

section \<open>The session\<close>

text \<open>
  What is made of one packet by \<open>debug_activate\<close>. \<open>False\<close> ends the session after the thread of the
  processor was told to end; an empty packet ends it without, and the process with it.
\<close>

definition handle_packet :: "mpfr_lib option \<Rightarrow> string \<Rightarrow> ('d, bool) dbgm" where
  "handle_packet fpu s =
     (if s = [] then throw Terminated
      else if s = ''-'' then bind (gets lastTransmission) (\<lambda>t. seq (sendPacket t) (return True))
      else if s = ''+'' then return True
      else
        seq (write_some ''+'')
       (if hd s = CHR 0x03 then seq (sendPacket ''S02'') (seq (on_target (on_bus run_stop)) (return True))
        else bind (gdb_cmd fpu (s @ [NUL])) (\<lambda>leave.
          if leave then seq (modify (\<lambda>d. d\<lparr>dbRun := False\<rparr>)) (return False) else return True)))"

definition packet_turn :: "mpfr_lib option \<Rightarrow> ('d, bool) dbgm" where
  "packet_turn fpu = bind nextPacket (handle_packet fpu)"

definition debug_start :: "('d, unit) dbgm" where
  "debug_start = seq (modify (\<lambda>d. d\<lparr>dbRun := True\<rparr>)) (on_target (on_bus run_stop))"

text \<open>The two threads, and the devices, which post interrupts.\<close>

inductive debug_step :: "mpfr_lib option \<Rightarrow> 'd debugger \<Rightarrow> 'd debugger \<Rightarrow> bool"
  for fpu where
  turn: "dbRun d \<Longrightarrow> db_turn (map_option full_fpu fpu) d = Ok () d' \<Longrightarrow> debug_step fpu d d'"
| packet: "dbRun d \<Longrightarrow> packet_turn fpu d = Ok b d' \<Longrightarrow> debug_step fpu d d'"
| arrive: "debug_step fpu d (d\<lparr>inbox := inbox d @ [c]\<rparr>)"
| post: "1 \<le> i \<Longrightarrow> i \<le> 7 \<Longrightarrow> on_target (on_bus (do_irq i)) d = Ok () d' \<Longrightarrow> debug_step fpu d d'"

end
