(* ===== verification/DebuggerProps.thy ===== *)
theory DebuggerProps
  imports Debugger Flat
begin

text \<open>
  Numbers written in hexadecimal read back, and what the commands that look at memory and set
  breakpoints do.
\<close>

section \<open>Numbers\<close>

lemma digit_read: "n < 16 \<Longrightarrow> hex_value (hex_digit n) = Some n"
proof -
  have "list_all (\<lambda>n. hex_value (hex_digit n) = Some n) [0..<16]"
    by code_simp
  then show "n < 16 \<Longrightarrow> ?thesis"
    by (simp add: list_all_iff)
qed

lemma hex_of_digits: "\<forall>c \<in> set (hex_of n). is_hex c"
  by (induction n rule: hex_of.induct) (subst hex_of.simps, auto simp: is_hex_def digit_read)

lemma hex_of_nonempty: "hex_of n \<noteq> []"
  by (subst hex_of.simps) simp

lemma hex_of_value: "digits_value (hex_of n) = n"
proof (induction n rule: hex_of.induct)
  case (1 n)
  show ?case
    using 1 by (subst hex_of.simps) (auto simp: digits_value_def digit_read)
qed

lemma hex_prefix: "\<not> is_hex c \<Longrightarrow> takeWhile is_hex (hex_of n @ c # r) = hex_of n"
  "\<not> is_hex c \<Longrightarrow> dropWhile is_hex (hex_of n @ c # r) = c # r"
  using hex_of_digits [of n] by (simp_all add: takeWhile_append2 dropWhile_append2)

lemma hex_first: "is_hex c \<Longrightarrow> c \<noteq> CHR ''-'' \<and> c \<noteq> CHR ''+'' \<and> \<not> is_space c \<and> c \<noteq> CHR ''x'' \<and> c \<noteq> CHR ''X'' \<and> c \<noteq> NUL"
  by (auto simp: is_hex_def hex_value_def is_space_def NUL_def Let_def split: if_splits)

lemma from_chars_hex:
  assumes "\<not> is_hex c"
  shows "from_chars_int (hex_of n @ c # r) = (if n < 2 ^ 31 then Some (int n) else None, c # r)"
proof -
  have "hd (hex_of n @ c # r) \<noteq> CHR ''-''"
    using hex_of_digits [of n] hex_of_nonempty [of n] hex_first by (cases "hex_of n") auto
  moreover have "int n < 2 ^ 31 \<longleftrightarrow> n < 2 ^ 31"
    by (simp only: of_nat_less_numeral_power_cancel_iff)
  ultimately show ?thesis
    using hex_of_nonempty [of n] by (simp add: from_chars_int_def Let_def hex_prefix [OF assms] hex_of_value)
qed

lemma strtoul_hex: "n < 2 ^ 64 \<Longrightarrow> strtoul (hex_of n @ CHR '','' # r) = (word_of_nat n, CHR '','' # r)"
proof -
  obtain x xs where x: "hex_of n = x # xs"
    using hex_of_nonempty by (cases "hex_of n") auto
  then have first: "is_hex x"
    using hex_of_digits [of n] by auto
  have comma: "\<not> is_hex CHR '',''"
    by code_simp
  have no_prefix: "(case hex_of n @ CHR '','' # r of
       a # b # c # rest \<Rightarrow> if a = CHR ''0'' \<and> (b = CHR ''x'' \<or> b = CHR ''X'') \<and> is_hex c
         then drop 2 (hex_of n @ CHR '','' # r) else hex_of n @ CHR '','' # r
     | _ \<Rightarrow> hex_of n @ CHR '','' # r) = hex_of n @ CHR '','' # r"
    using hex_of_digits [of n] hex_first by (cases xs) (auto simp: x split: list.split)
  have "dropWhile is_space (hex_of n @ CHR '','' # r) = hex_of n @ CHR '','' # r"
    "hd (hex_of n @ CHR '','' # r) = x"
    using hex_first [OF first] by (simp_all add: x)
  with no_prefix show "n < 2 ^ 64 \<Longrightarrow> ?thesis"
    using hex_first [OF first] hex_of_nonempty [of n]
    by (simp add: strtoul_def Let_def hex_prefix [OF comma] hex_of_value)
qed

section \<open>Memory\<close>

definition packet :: "string \<Rightarrow> string" where
  "packet s = ''$'' @ s @ ''#'' @ format_hex 2 (unat (checksum s))"

lemma sendPacket_run: "sendPacket s d = Ok () (d\<lparr>lastTransmission := s, sent := sent d @ [packet s]\<rparr>)"
  by (simp add: sendPacket_def write_some_def packet_def)

lemma view_of: "NUL \<notin> set s \<Longrightarrow> view (s @ [NUL]) = s"
  by (induction s) (auto simp: view_def)

lemma no_NUL: "NUL \<notin> set (hex_of n)"
  using hex_of_digits hex_first by fastforce

lemma dump_byte_RAM:
  assumes "untranslated (cpu s)" "ram_range a 1 (bus s)" "word_of_int i = a"
  shows "dump_byte i s = Ok (format_hex 2 (unat (RAM (bus s) (unat a)))) s"
proof -
  have "ReadBImpl a False s = Ok (RAM (bus s) (unat a)) s"
    using assms by (simp add: flat_ReadB)
  then show ?thesis
    using assms(3) by (simp add: dump_byte_def catch_BusError_Ok)
qed

lemma dump_bytes_RAM:
  assumes "untranslated (cpu s)" "\<forall>i \<in> set is. ram_range (word_of_int i) 1 (bus s)"
  shows "fold_each is t (\<lambda>i t. bind (dump_byte i) (\<lambda>u. return (t @ u))) s =
    Ok (t @ concat (map (\<lambda>i. format_hex 2 (unat (RAM (bus s) (unat (word_of_int i :: u32))))) is)) s"
  using assms(2)
proof (induction "is" arbitrary: t)
  case (Cons i "is")
  then have "dump_byte i s = Ok (format_hex 2 (unat (RAM (bus s) (unat (word_of_int i :: u32))))) s"
    by (intro dump_byte_RAM assms(1)) simp_all
  then show ?case
    using Cons by simp
qed simp

lemma dump_range_RAM:
  assumes "untranslated (cpu s)" "ram_range a n (bus s)"
  shows "fold_each [uint a..uint a + int n - 1] [] (\<lambda>i t. bind (dump_byte i) (\<lambda>u. return (t @ u))) s =
    Ok (concat (map (\<lambda>i. format_hex 2 (unat (RAM (bus s) (unat a + i)))) [0..<n])) s"
proof -
  let ?is = "[uint a..uint a + int n - 1]"
  have is_eq: "?is = map (\<lambda>i. uint a + int i) [0..<n]"
    by (rule nth_equalityI) (simp_all add: nth_upto)
  have range: "ram_range (a + word_of_nat i) 1 (bus s)" "unat (a + word_of_nat i) = unat a + i" if "i < n" for i
    using ram_range_offset [OF assms(2), of i 1] that by simp_all
  have "\<forall>i \<in> set ?is. ram_range (word_of_int i) 1 (bus s)"
    unfolding is_eq using range(1) by simp
  note dump_bytes_RAM [OF assms(1) this, of "[]"]
  moreover have "map (\<lambda>i. format_hex 2 (unat (RAM (bus s) (unat (word_of_int i :: u32))))) ?is =
      map (\<lambda>i. format_hex 2 (unat (RAM (bus s) (unat a + i)))) [0..<n]"
    unfolding is_eq using range(2) by simp
  ultimately show ?thesis
    by (simp only: append_Nil)
qed

lemma no_digits: "\<not> is_hex CHR '',''" "\<not> is_hex NUL" "CHR '','' \<noteq> NUL"
  by (code_simp, code_simp, simp add: NUL_def)

lemma cmd_m_RAM:
  assumes "untranslated (cpu (target d))" "ram_range a n (bus (target d))" "n < 2 ^ 30"
  shows "cmd_m (hex_of (unat a) @ CHR '','' # hex_of n @ [NUL]) d =
    sendPacket (concat (map (\<lambda>i. format_hex 2 (unat (RAM (bus (target d)) (unat a + i)))) [0..<n])) d"
proof -
  have small: "unat a < 2 ^ 31" "unat a + n < 2 ^ 31" "n < 2 ^ 31"
    using assms(2,3) by (auto simp: ram_range_def)
  have arg: "from_chars_int (hex_of (unat a) @ CHR '','' # hex_of n @ [NUL]) = (Some (int (unat a)), CHR '','' # hex_of n @ [NUL])"
    "from_chars_int (hex_of n @ [NUL]) = (Some (int n), [NUL])"
    using small(1,3) by (simp_all add: from_chars_hex no_digits)
  have "on_target (fold_each [uint a..uint a + int n - 1] [] (\<lambda>i s. bind (dump_byte i) (\<lambda>t. return (s @ t)))) d =
      Ok (concat (map (\<lambda>i. format_hex 2 (unat (RAM (bus (target d)) (unat a + i)))) [0..<n])) d"
    unfolding on_target_def lift_part_def dump_range_RAM [OF assms(1,2)] by simp
  moreover have "int (unat a + n) < 2 ^ 31"
    using small(2) by (simp only: of_nat_less_numeral_power_cancel_iff)
  then have "uint a + int n < 2 ^ 31"
    by simp
  moreover have "- (2 ^ 31) \<le> uint a + int n"
    by (rule order_trans [of _ 0]) simp_all
  ultimately show ?thesis
    using assms(3) by (simp add: cmd_m_def arg no_digits the_or_undefined_def bytes_from_def)
qed

text \<open>
  The client asks for \<open>n\<close> bytes of memory: while no translation is enabled the answer to a range of the RAM
  is what the RAM holds there, two digits for a byte, and nothing of the machine changes.
\<close>

theorem memory_dump:
  assumes "untranslated (cpu (target d))" "ram_range a n (bus (target d))" "n < 2 ^ 30"
  shows "handle_packet fpu (''m'' @ hex_of (unat a) @ '','' @ hex_of n) d =
    (let t = concat (map (\<lambda>i. format_hex 2 (unat (RAM (bus (target d)) (unat a + i)))) [0..<n]) in
     Ok True (d\<lparr>lastTransmission := t, sent := sent d @ [''+'', packet t]\<rparr>))"
proof -
  let ?arg = "hex_of (unat a) @ CHR '','' # hex_of n"
  have "view (CHR ''m'' # ?arg @ [NUL]) = CHR ''m'' # ?arg"
    using view_of [of "CHR ''m'' # ?arg"] no_NUL by (simp add: NUL_def)
  then have "gdb_cmd fpu (CHR ''m'' # ?arg @ [NUL]) d' = seq (cmd_m (?arg @ [NUL])) (return False) d'" for d' :: "'a debugger"
    by (simp add: gdb_cmd_def starts_with_def char_at_def)
  then show ?thesis
    using cmd_m_RAM [OF _ _ assms(3), of "d\<lparr>sent := sent d @ [''+'']\<rparr>" a] assms(1,2)
    by (simp add: handle_packet_def write_some_def sendPacket_run seq_def bind_def Let_def)
qed

definition debugged :: "unit debugger" where
  "debugged = \<lparr>target = small_machine, bks = (\<lambda>_. False), isNextStop = False, dbRun = True, lastTransmission = [],
     inbox = [], sent = []\<rparr>"

theorem memory_dump_witness:
  "handle_packet None ''m1,3'' debugged = Ok True (debugged\<lparr>lastTransmission := ''000000'', sent := [''+'', ''$000000#20'']\<rparr>)"
proof -
  have shown: "hex_of 1 = ''1''" "hex_of 3 = ''3''" "format_hex 2 0 = ''00''" "packet ''000000'' = ''$000000#20''"
    by code_simp+
  have "RAM (bus small_machine) = (\<lambda>_. 0)"
    by (simp add: small_machine_def small_bus_def)
  moreover have "untranslated (cpu (target debugged))" "ram_range 1 3 (bus (target debugged))"
    by (simp_all add: debugged_def small_machine_def machine_on_def cpu_static_def ttr_static_def untranslated_def
        ram_range_def small_bus_def)
  moreover have "[0..<3] = [0, 1, 2 :: nat]"
    by (simp add: upt_rec)
  ultimately show ?thesis
    using memory_dump [of debugged 1 3 None] shown by (simp add: debugged_def Let_def)
qed

section \<open>Writing\<close>

lemma comma_is_no_number: "from_chars_int (CHR '','' # r) = (None, CHR '','' # r)"
  using no_digits(1) by (simp add: from_chars_int_def)

text \<open>
  A packet to write memory never does: the length is parsed from the comma before it, so the variable is
  not assigned and its value is used.
\<close>

theorem memory_write_undefined:
  "handle_packet fpu (''M'' @ hex_of a @ '','' @ r) d = Raise Undefined (d\<lparr>sent := sent d @ [''+'']\<rparr>)"
proof -
  let ?arg = "hex_of a @ CHR '','' # r"
  have v: "view (CHR ''M'' # t) = CHR ''M'' # view t" for t
    by (simp add: view_def NUL_def)
  obtain x where x: "from_chars_int (hex_of a @ CHR '','' # r @ [NUL]) = (x, CHR '','' # r @ [NUL])"
    by (simp add: from_chars_hex no_digits)
  then have "gdb_cmd fpu (CHR ''M'' # hex_of a @ CHR '','' # r @ [NUL]) d' = Raise Undefined d'" for d' :: "'a debugger"
    by (cases x) (simp_all add: gdb_cmd_def v starts_with_def char_at_def cmd_M_def comma_is_no_number the_or_undefined_def Let_def)
  then show ?thesis
    by (simp add: handle_packet_def write_some_def seq_def bind_def)
qed

section \<open>Breakpoints\<close>

lemma set_breakpoint:
  assumes "k = CHR ''Z'' \<and> on \<or> k = CHR ''z'' \<and> \<not> on"
  shows "handle_packet fpu (k # ''0,'' @ hex_of (unat a) @ '',2'') d =
    Ok True (d\<lparr>bks := (bks d)(a := on), lastTransmission := ''OK'', sent := sent d @ [''+'', packet ''OK'']\<rparr>)"
proof -
  let ?buf = "k # CHR ''0'' # CHR '','' # hex_of (unat a) @ CHR '','' # CHR ''2'' # [NUL]"
  have v: "view ?buf = k # CHR ''0'' # CHR '','' # hex_of (unat a) @ '',2''"
    using view_of [of "k # CHR ''0'' # CHR '','' # hex_of (unat a) @ '',2''"] no_NUL assms by (auto simp: NUL_def)
  have same: "ucast (ucast a :: u64) = a"
    by (rule bit_word_eqI) (auto simp: bit_simps dest: bit_imp_le_length)
  have "unat a < 2 ^ 64"
    using unsigned_less [of a, where ?'a = nat] by simp
  then have "ucast (fst (strtoul (drop 3 ?buf))) = a"
    by (simp add: strtoul_hex same)
  then have "cmd_break ?buf on d' = Ok () (d'\<lparr>bks := (bks d')(a := on), lastTransmission := ''OK'', sent := sent d' @ [packet ''OK'']\<rparr>)"
    for d' :: "'a debugger"
    using hex_of_nonempty [of "unat a"] by (simp add: cmd_break_def char_at_def v sendPacket_run Let_def)
  moreover have "gdb_cmd fpu ?buf d' = seq (cmd_break ?buf on) (return False) d'" for d' :: "'a debugger"
    using assms by (auto simp add: gdb_cmd_def v starts_with_def char_at_def)
  ultimately show ?thesis
    using assms by (auto simp add: handle_packet_def write_some_def seq_def bind_def)
qed

lemma turn_starts:
  assumes "\<not> stopping (bus (target d))" "\<not> rom_stops (target d) (PC (cpu (target d)))"
  shows "db_turn F d = (if bks d (PC (cpu (target d))) then stop_cpu ''T05hwbreak:;'' else db_exec F) d"
proof -
  have "on_target (on_bus run_wait) d = Ok () d"
    using assms(1) by (simp add: on_target_def lift_part_def on_bus_def run_wait_def)
  then show ?thesis
    using assms(2) by (simp add: db_turn_def)
qed

lemma stop_runs: "stop_cpu t d = Ok () (d\<lparr>lastTransmission := t, sent := sent d @ [packet t],
    target := (target d)\<lparr>bus := (bus (target d))\<lparr>stopping := True\<rparr>\<rparr>\<rparr>)"
  by (simp add: stop_cpu_def sendPacket_run on_target_def lift_part_def on_bus_def run_stop_def)

text \<open>
  A breakpoint set by the client stops a running processor before the instruction at its address,
  which it reports; the machine is as it was but for the stop. When it is cleared the instruction is
  executed.
\<close>

theorem breakpoint:
  assumes "PC (cpu (target d)) = a" "\<not> stopping (bus (target d))" "\<not> rom_stops (target d) a"
  shows "\<exists>d1 d2. handle_packet fpu (''Z0,'' @ hex_of (unat a) @ '',2'') d = Ok True d1 \<and>
    db_turn F d1 = Ok () (d1\<lparr>lastTransmission := ''T05hwbreak:;'', sent := sent d1 @ [packet ''T05hwbreak:;''],
      target := (target d)\<lparr>bus := (bus (target d))\<lparr>stopping := True\<rparr>\<rparr>\<rparr>) \<and>
    handle_packet fpu (''z0,'' @ hex_of (unat a) @ '',2'') d1 = Ok True d2 \<and> db_turn F d2 = db_exec F d2"
proof -
  let ?d1 = "d\<lparr>bks := (bks d)(a := True), lastTransmission := ''OK'', sent := sent d @ [''+'', packet ''OK'']\<rparr>"
  let ?d2 = "?d1\<lparr>bks := (bks ?d1)(a := False), lastTransmission := ''OK'', sent := sent ?d1 @ [''+'', packet ''OK'']\<rparr>"
  have "handle_packet fpu (''Z0,'' @ hex_of (unat a) @ '',2'') d = Ok True ?d1"
    using set_breakpoint [of "CHR ''Z''" True fpu a d] by simp
  moreover have "db_turn F ?d1 = Ok () (?d1\<lparr>lastTransmission := ''T05hwbreak:;'', sent := sent ?d1 @ [packet ''T05hwbreak:;''],
      target := (target d)\<lparr>bus := (bus (target d))\<lparr>stopping := True\<rparr>\<rparr>\<rparr>)"
    using turn_starts [of ?d1 F] assms by (simp add: stop_runs)
  moreover have "handle_packet fpu (''z0,'' @ hex_of (unat a) @ '',2'') ?d1 = Ok True ?d2"
    using set_breakpoint [of "CHR ''z''" False fpu a ?d1] by simp
  moreover have "db_turn F ?d2 = db_exec F ?d2"
    using turn_starts [of ?d2 F] assms by simp
  ultimately show ?thesis by blast
qed

end
