(* ===== verification/Spec2Isabelle.thy ===== *)
theory Spec2Isabelle
  imports DeviceProps FpuProps JitProps UnwindProps DebuggerProps
begin

text \<open>
  A verification library for newmacemu, an emulator of 68040 Macintoshes in C++.

  \<^bold>\<open>The program.\<close> src/src/main.cc starts the machine (\<open>init_emu\<close> of common.cc: memory, ROM image,
  floating-point unit, opcode table, devices; then the reset), runs the processor in a thread of
  its own (\<open>run_cpu\<close> of cpu/run.cc) and polls the host. One instruction (\<open>run_op\<close>) takes a pending
  interrupt or fetches a word and calls the handler of the table of 65536 entries; handlers compute
  effective addresses (cpu/m68k_ea.cc), access guest memory (memory.cc) through the translation
  of cpu/68040_mmu.cc and the physical bus of bus.cc, and end normally or with a C++ exception,
  which the loop turns into a guest exception (cpu/exception.cc). The bus reaches RAM, ROM, and
  the board (io.cc) with its chips (chip/*.cc, ebus/*.cc), which post interrupts into a mailbox that
  the next instruction looks at. Beside the interpreter there is a translator to x86-64 code
  (cpu/jit/*.cc, on the asmjit library), which only its tests run.

  \<^bold>\<open>The model.\<close> Every function of the program is a function of the same name in a state monad
  with exceptions (\<open>Prelude\<close>): \<open>mach\<close> over the whole machine (record \<open>machine\<close> of \<open>Machine\<close>) and \<open>device\<close>
  over the bus (record \<open>bus\<close> of \<open>Bus\<close>, whose field \<open>dev\<close> is the record \<open>devs\<close> of \<open>Devs\<close>). C++ integers are
  words of their width. An outcome is \<open>Ok\<close> with a value or \<open>Raise\<close> with an exception: the exceptions of the program,
  \<open>Terminated\<close> where the process ends, \<open>Blocked\<close> for a wait that nothing ends, \<open>Diverged\<close> for fuel
  that runs out, and \<open>Undefined\<close> where C++ gives no meaning. What the other threads do happens between two turns of
  the processor (\<open>sys_step\<close> in \<open>Dispatch\<close>, \<open>quadra_step\<close> in \<open>Quadra\<close>) or while it waits (\<open>wakeups\<close>).

  \<^bold>\<open>Theories and sources.\<close>
  \<^item> \<open>Prelude\<close>: words, the monad, \<open>keeps I E m\<close> (the program \<open>m\<close> keeps \<open>I\<close> and raises only
    exceptions in \<open>E\<close>) with its rules in the collection \<open>keeps_intro\<close>.
  \<^item> \<open>Bus\<close>: bus.cc, io.hpp, memory.hpp, util.hpp. \<open>Machine\<close>: 68040.hpp, inline.hpp, the status register, raising.
    \<open>Mmu\<close>: 68040_mmu.cc. \<open>Memory\<close>: memory.cc. \<open>Ea\<close>: m68k_ea.cc. \<open>Arith\<close>, \<open>Bits\<close>, \<open>Bcd\<close>, \<open>Bitfield\<close>, \<open>Branch\<close>, \<open>Except\<close>: the
    file of that name. \<open>OpsBasic\<close>, \<open>OpsData\<close>, \<open>OpsShift\<close>, \<open>OpsFlow\<close>: the handlers of op.cc and op_move.cc, in the
    order of the files. \<open>Dispatch\<close>: the table (as rules, the last that matches counts), run.cc, the loop of main.cc.
  \<^item> \<open>FpuState\<close>, \<open>Fpu\<close>: 68040fpu.hpp, 68040_fpu.cc. The functions of the GNU MPFR library are the
    parameter \<open>mpfr_lib\<close>; nothing is assumed of them but for \<open>nan_laws\<close>, where it is named.
  \<^item> \<open>Devs\<close>, \<open>Rtc\<close>, \<open>Adb\<close>, \<open>Via\<close>, \<open>Scc\<close>, \<open>Asc\<close>, \<open>Iop\<close>, \<open>Io\<close>: the state of the devices, the chips, the boards with their
    address decoding, \<open>initBus\<close> and \<open>bus_reset\<close>. What the host answers (time, ticks, mouse, random numbers) is a
    sequence indexed by the number of calls; what it is told (sound, power) is a log.
  \<^item> \<open>Boot\<close>, \<open>Quadra\<close>: common.cc, main.cc, and the machine with its devices and their events.
  \<^item> \<open>X86\<close>, \<open>Host\<close>: the host the translated code runs on: operands (the names of jit_common.hpp), flags,
    instructions, calls into the emulator. What an instruction leaves undefined, and what a call leaves in
    the registers it may change, is read from the environment \<open>host_env\<close>.
  \<^item> \<open>JitEmit\<close>: jit_common.hpp, jit_ea.cc. \<open>JitBase\<close>: the helpers of jit_op.cc. \<open>JitOps1\<close>, \<open>JitOps2\<close>, \<open>JitOps3\<close>,
    \<open>JitShift\<close>, \<open>JitBits\<close>: the translations of jit_op.cc, in the order of the file; \<open>JitMmu\<close>: jit_mmu.cc; \<open>JitFpu\<close>:
    jit_fpu.cc; \<open>Jit\<close>: jit.cc, with the table, the translation of a block and \<open>jit_run\<close>. The translation of the
    instruction \<open>f\<close> is \<open>jit_f\<close>; it emits a list of instructions with labels. Of asmjit the model needs the lengths of the
    encoded instructions, a parameter, and that it refuses operands that do not agree in width: such an instruction
    is the outcome \<open>Undefined\<close>.
  \<^item> \<open>Unwind\<close>: jit_util.cc, the tables by which the host's C++ runtime unwinds a block. \<open>UnwindRead\<close>: a reader
    of such tables after the DWARF standard, which serves as the specification.
  \<^item> \<open>Debugger\<close>: debugger/debugger.cc, the GDB stub: packets, commands and the thread of the processor under it; what the
    socket delivers is a list of chunks, what is written to it a log.

  \<^bold>\<open>What is shown.\<close>
  \<^item> \<open>Arith\<close>, \<open>Bits\<close>, \<open>Bcd\<close>, \<open>OpsFlow\<close>: results and condition codes are those of integer arithmetic; where they are
    not, the theorem says for which operands.
  \<^item> \<open>Flat\<close>: without translation guest memory is a flat array of big-endian numbers. \<open>Translation\<close>: hits, misses, table walks,
    rights, flushing and the control registers.
  \<^item> \<open>Guards\<close> states, as locales, the contract between an invariant and the primitive steps
    (\<open>guest_memory\<close>, \<open>guest_cpu\<close>; \<open>guest_table\<close> for the handler of one opcode, \<open>guest_ops\<close> for an instruction), and
    shows once that every handler keeps it; \<open>FpuOk\<close> does it for the unit
    (\<open>fpu_member\<close>, \<open>guest_fpu\<close>). The interpretations are the isolation of user programs (\<open>Isolation\<close>), the
    well-formed machine (\<open>Wellformed\<close>, in \<open>wf_ends\<close> for every set of exceptions that has the ordinary ones, so that
    \<open>STOP\<close>, \<open>RTE\<close> and \<open>PTEST\<close> get theirs alone) and invariants of the floating-point unit (\<open>FpuProps\<close>).
  \<^item> \<open>DevicesOk\<close>: every access to a board and every event keeps the devices' buffers and pointers in
    bounds, with the locales of the boards interpreted on each of the seven; \<open>DeviceProps\<close>: what timers do, and that the
    receive buffers of the serial controller and the buffers of the sound chip refine queues.
  \<^item> \<open>System\<close>, \<open>Traps\<close>, \<open>Boot\<close>, \<open>Quadra\<close>: one instruction, exception entry and return, interrupts, start-up, and
    the invariant of every reachable state of the whole machine.
  \<^item> \<open>FpuProps\<close>: registers and conditions of the floating-point unit, and what every run leaves in it.
  \<^item> \<open>JitSim\<close>: running translated code by rewriting, and that operands are read as the interpreter reads them.
    \<open>JitStep\<close>, \<open>JitProps\<close>: translated arithmetic, moves and conditions do what the interpreter does, faults and trace included;
    the table of translations has the domain of the opcode table; and where translated code goes wrong.
    \<open>UnwindProps\<close>: the unwind tables describe the frame, with the registers by name, at every instruction boundary of
    the prologue.
  \<^item> \<open>DebuggerProps\<close>: numbers written in hexadecimal read back, the client is shown the RAM as it is, a breakpoint stops
    the processor at its address, and a packet to write memory has no meaning.

  \<^bold>\<open>Bounds and fuel.\<close> \<open>RTE\<close> calls itself for throwaway frames: \<open>do_rte_fuel\<close> counts the calls, \<open>rte_fuel\<close> is 64, and
  \<open>do_rte_mono\<close> shows that more fuel never changes an outcome; running out is the outcome \<open>Diverged\<close>.
  The loops that erase translated blocks have fuel for half the size of the block, which
  \<open>erase_loop_enough\<close> shows to be enough. The translation of a block has fuel for one instruction per word
  of the block (\<open>compile_loop\<close>), which is enough because each takes at least a word, as long as the program counter does not
  pass the last address; translated code has a fuel of jumps that the caller
  of \<open>jit_run\<close> chooses, and without jumps \<open>run\<close> ends on the length of the code. All other loops are structural.

  \<^bold>\<open>Not modelled.\<close> The error handler of asmjit, which prints, and what the translator has for Windows (its
  calling convention and unwind tables) and macOS: the model is that of a System V host. \<open>run_cpu\<close> never calls the translator, so the
  properties of the whole machine are those of the interpreter; the cache instructions erase entries of its table there too.
  The Lua binding of the debugger, the window and
  the audio and network of the host. The ROM routines of src/src/librom, which the build leaves out. Data races
  between the threads: a step of another thread is atomic.
\<close>

end
